(* ===== verification/Prelude.thy ===== *)
theory Prelude
  imports Main "HOL-Library.Word" "HOL-Library.Sublist" "HOL-Library.Char_ord"
    "HOL-Library.List_Lexorder" "HOL-Library.Multiset"
begin

text \<open>
  The Go substrate every component of the payment platform stands on: byte strings and the part
  of package \<open>strings\<close> the code calls, 64-bit integers with their wrap-around, error values with
  \<open>errors.Is\<close>, the error monad, and generic facts about lists and association lists. A Go string
  is a byte sequence, so it is an Isabelle \<open>string\<close> (a \<open>char\<close> is a byte); a Go \<open>map\<close> is an
  association list whose order stands for the iteration order, which Go leaves open.
\<close>

section \<open>Collections of rewrite rules\<close>

named_theorems ctor_simps \<open>unfoldings of the domain constructors\<close>
named_theorems repo_simps \<open>equations of the repository operations\<close>
named_theorems app_simps \<open>unfoldings of the application services\<close>

section \<open>Go strings\<close>

text \<open>UTF-8 encodings of the code points for which \<open>unicode.IsSpace\<close> holds.\<close>

definition space_encs :: "string list" where
  "space_encs =
     [[CHR 0x09], [CHR 0x0A], [CHR 0x0B], [CHR 0x0C], [CHR 0x0D], [CHR 0x20],
      [CHR 0xC2, CHR 0x85], [CHR 0xC2, CHR 0xA0], [CHR 0xE1, CHR 0x9A, CHR 0x80],
      [CHR 0xE2, CHR 0x80, CHR 0x80], [CHR 0xE2, CHR 0x80, CHR 0x81],
      [CHR 0xE2, CHR 0x80, CHR 0x82], [CHR 0xE2, CHR 0x80, CHR 0x83],
      [CHR 0xE2, CHR 0x80, CHR 0x84], [CHR 0xE2, CHR 0x80, CHR 0x85],
      [CHR 0xE2, CHR 0x80, CHR 0x86], [CHR 0xE2, CHR 0x80, CHR 0x87],
      [CHR 0xE2, CHR 0x80, CHR 0x88], [CHR 0xE2, CHR 0x80, CHR 0x89],
      [CHR 0xE2, CHR 0x80, CHR 0x8A], [CHR 0xE2, CHR 0x80, CHR 0xA8],
      [CHR 0xE2, CHR 0x80, CHR 0xA9], [CHR 0xE2, CHR 0x80, CHR 0xAF],
      [CHR 0xE2, CHR 0x81, CHR 0x9F], [CHR 0xE3, CHR 0x80, CHR 0x80]]"

text \<open>Removing, as long as possible, a prefix that is one of the given non-empty codes.\<close>

function strip_encs :: "string list \<Rightarrow> string \<Rightarrow> string" where
  "strip_encs es s =
     (case find (\<lambda>e. e \<noteq> [] \<and> prefix e s) es of
        None \<Rightarrow> s
      | Some e \<Rightarrow> strip_encs es (drop (length e) s))"
  by pat_completeness auto
termination
proof (relation "measure (\<lambda>(es, s). length s)", goal_cases)
  case 1
  show ?case by simp
next
  case (2 es s e)
  then have "e \<noteq> []" "prefix e s" by (auto simp: find_Some_iff)
  then show ?case by (cases s) auto
qed

declare strip_encs.simps [simp del]

definition TrimLeft :: "string \<Rightarrow> string" where
  "TrimLeft s = strip_encs space_encs s"

definition TrimRight :: "string \<Rightarrow> string" where
  "TrimRight s = rev (strip_encs (map rev space_encs) (rev s))"

definition TrimSpace :: "string \<Rightarrow> string" where
  "TrimSpace s = TrimRight (TrimLeft s)"

text \<open>
  \<open>strings.ToUpper\<close> and \<open>strings.EqualFold\<close> on the ASCII letters. The code applies them to PSP
  status tokens and to fixed identifiers, whose alphabet is ASCII.
\<close>

definition upper_char :: "char \<Rightarrow> char" where
  "upper_char c = (if CHR ''a'' \<le> c \<and> c \<le> CHR ''z'' then char_of (of_char c - 32 :: nat) else c)"

definition lower_char :: "char \<Rightarrow> char" where
  "lower_char c = (if CHR ''A'' \<le> c \<and> c \<le> CHR ''Z'' then char_of (of_char c + 32 :: nat) else c)"

definition ToUpper :: "string \<Rightarrow> string" where
  "ToUpper = map upper_char"

definition ToLower :: "string \<Rightarrow> string" where
  "ToLower = map lower_char"

definition EqualFold :: "string \<Rightarrow> string \<Rightarrow> bool" where
  "EqualFold a b \<longleftrightarrow> ToLower a = ToLower b"

text \<open>
  \<open>strings.ToLower\<close> and \<open>strings.ToUpper\<close> of free input that is then compared with ASCII words. Outside
  ASCII only two code points have an ASCII letter as lower case (U+0130 gives \<open>i\<close>, U+212A gives \<open>k\<close>) and
  two as upper case (U+0131 gives \<open>I\<close>, U+017F gives \<open>S\<close>); every other byte that is not ASCII stays so.
\<close>

fun lower_runes :: "string \<Rightarrow> string" where
  "lower_runes (a # b # c # s) =
     (if a = CHR 0xC4 \<and> b = CHR 0xB0 then CHR ''i'' # lower_runes (c # s)
      else if a = CHR 0xE2 \<and> b = CHR 0x84 \<and> c = CHR 0xAA then CHR ''k'' # lower_runes s
      else lower_char a # lower_runes (b # c # s))"
| "lower_runes [a, b] =
     (if a = CHR 0xC4 \<and> b = CHR 0xB0 then ''i'' else [lower_char a, lower_char b])"
| "lower_runes [a] = [lower_char a]"
| "lower_runes [] = []"

fun upper_runes :: "string \<Rightarrow> string" where
  "upper_runes (a # b # s) =
     (if a = CHR 0xC4 \<and> b = CHR 0xB1 then CHR ''I'' # upper_runes s
      else if a = CHR 0xC5 \<and> b = CHR 0xBF then CHR ''S'' # upper_runes s
      else upper_char a # upper_runes (b # s))"
| "upper_runes [a] = [upper_char a]"
| "upper_runes [] = []"

definition is_digit :: "char \<Rightarrow> bool" where
  "is_digit c \<longleftrightarrow> CHR ''0'' \<le> c \<and> c \<le> CHR ''9''"

subsection \<open>Trimming is idempotent\<close>

definition no_enc_prefix :: "string list \<Rightarrow> string \<Rightarrow> bool" where
  "no_enc_prefix es s \<longleftrightarrow> (\<forall>e \<in> set es. e \<noteq> [] \<longrightarrow> \<not> prefix e s)"

lemma strip_encs_clean: "no_enc_prefix es (strip_encs es s)"
proof (induction es s rule: strip_encs.induct)
  case (1 es s)
  show ?case
  proof (cases "find (\<lambda>e. e \<noteq> [] \<and> prefix e s) es")
    case None
    then have "strip_encs es s = s" by (subst strip_encs.simps) simp
    with None show ?thesis by (auto simp: no_enc_prefix_def find_None_iff)
  next
    case (Some e)
    then have "e \<noteq> [] \<and> prefix e s" by (auto simp: find_Some_iff)
    with Some 1 [OF Some] show ?thesis by (subst strip_encs.simps) simp
  qed
qed

lemma strip_encs_id: "no_enc_prefix es s \<Longrightarrow> strip_encs es s = s"
proof -
  assume "no_enc_prefix es s"
  then have "find (\<lambda>e. e \<noteq> [] \<and> prefix e s) es = None"
    by (auto simp: find_None_iff no_enc_prefix_def)
  then show ?thesis by (subst strip_encs.simps) simp
qed

lemma strip_encs_suffix: "suffix (strip_encs es s) s"
proof (induction es s rule: strip_encs.induct)
  case (1 es s)
  show ?case
  proof (cases "find (\<lambda>e. e \<noteq> [] \<and> prefix e s) es")
    case None
    then show ?thesis by (subst strip_encs.simps) simp
  next
    case (Some e)
    then have e: "e \<noteq> [] \<and> prefix e s" by (auto simp: find_Some_iff)
    have "suffix (strip_encs es (drop (length e) s)) (drop (length e) s)"
      by (rule 1 [OF Some])
    also have "suffix (drop (length e) s) s" by (rule suffix_drop)
    finally show ?thesis using Some e by (subst strip_encs.simps) simp
  qed
qed

lemma TrimRight_prefix: "prefix (TrimRight s) s"
  using strip_encs_suffix [of "map rev space_encs" "rev s"]
  by (simp add: TrimRight_def suffix_to_prefix)

lemma no_enc_prefix_antimono: "no_enc_prefix es s \<Longrightarrow> prefix t s \<Longrightarrow> no_enc_prefix es t"
  unfolding no_enc_prefix_def by (meson prefix_order.trans)

lemma TrimSpace_TrimSpace [simp]: "TrimSpace (TrimSpace s) = TrimSpace s"
proof -
  have "no_enc_prefix space_encs (TrimSpace s)"
    unfolding TrimSpace_def
    by (rule no_enc_prefix_antimono [OF _ TrimRight_prefix])
       (simp add: TrimLeft_def strip_encs_clean)
  then have L: "TrimLeft (TrimSpace s) = TrimSpace s"
    unfolding TrimLeft_def by (rule strip_encs_id)
  have "no_enc_prefix (map rev space_encs) (rev (TrimSpace s))"
    by (simp add: TrimSpace_def TrimRight_def strip_encs_clean)
  then have "TrimRight (TrimSpace s) = TrimSpace s"
    by (simp add: TrimRight_def strip_encs_id)
  with L show ?thesis by (simp add: TrimSpace_def [of "TrimSpace s"])
qed

lemma TrimSpace_Nil [simp]: "TrimSpace [] = []"
  by (simp add: TrimSpace_def TrimLeft_def TrimRight_def strip_encs.simps space_encs_def)

text \<open>A string whose first and last bytes are ASCII and not blank is left alone.\<close>

definition plain_byte :: "char \<Rightarrow> bool" where
  "plain_byte c \<longleftrightarrow> CHR ''!'' \<le> c \<and> c \<le> CHR ''~''"

lemma TrimSpace_plain:
  assumes "s \<noteq> []" and "plain_byte (hd s)" and "plain_byte (last s)"
  shows "TrimSpace s = s"
proof -
  have L: "no_enc_prefix space_encs s"
    using assms(1,2) by (cases s) (auto simp: no_enc_prefix_def space_encs_def plain_byte_def less_eq_char_def)
  have "no_enc_prefix (map rev space_encs) (rev s)"
    using assms(1,3) by (cases s rule: rev_cases)
      (auto simp: no_enc_prefix_def space_encs_def plain_byte_def less_eq_char_def)
  with L show ?thesis by (simp add: TrimSpace_def TrimLeft_def TrimRight_def strip_encs_id)
qed

text \<open>Printable ASCII text in front of a trimmed string gives a trimmed string.\<close>

lemma space_encs_multi:
  "e \<in> set (map rev space_encs) \<Longrightarrow> length e = 1 \<or> (\<forall>c \<in> set e. \<not> plain_byte c)"
  by (auto simp: space_encs_def plain_byte_def less_eq_char_def)

lemma no_enc_prefix_hd: "s \<noteq> [] \<Longrightarrow> plain_byte (hd s) \<Longrightarrow> no_enc_prefix space_encs s"
  by (cases s) (auto simp: no_enc_prefix_def space_encs_def plain_byte_def less_eq_char_def)

lemma no_enc_suffix_append:
  assumes x: "no_enc_prefix (map rev space_encs) (rev x)" "x \<noteq> []" and w: "list_all plain_byte w"
  shows "no_enc_prefix (map rev space_encs) (rev x @ rev w)"
  unfolding no_enc_prefix_def
proof (intro ballI impI notI)
  fix e assume e: "e \<in> set (map rev space_encs)" "e \<noteq> []" "prefix e (rev x @ rev w)"
  from x e(1,2) have nx: "\<not> prefix e (rev x)" by (auto simp: no_enc_prefix_def)
  with e(3) obtain us where us: "e = rev x @ us" "prefix us (rev w)"
    by (auto simp: prefix_append)
  with nx have "us \<noteq> []" by auto
  with us(2) w have "plain_byte (hd us)"
    by (cases us) (auto simp: list_all_iff dest: set_mono_prefix)
  moreover have "length e \<noteq> 1" using us(1) \<open>us \<noteq> []\<close> x(2) by (cases us) auto
  moreover have "hd us \<in> set e" using us(1) \<open>us \<noteq> []\<close> by simp
  ultimately show False using space_encs_multi [OF e(1)] by blast
qed

lemma TrimSpace_plain_append:
  assumes "list_all plain_byte w" "w \<noteq> []" "TrimSpace x = x" "x \<noteq> []"
  shows "TrimSpace (w @ x) = w @ x"
proof -
  have "no_enc_prefix (map rev space_encs) (rev x)"
    using assms(3) strip_encs_clean [of "map rev space_encs" "rev (TrimLeft x)"]
    by (metis TrimRight_def TrimSpace_def rev_rev_ident)
  then have "no_enc_prefix (map rev space_encs) (rev x @ rev w)"
    using assms by (intro no_enc_suffix_append) auto
  moreover have "no_enc_prefix space_encs (w @ x)"
    using assms by (intro no_enc_prefix_hd) (auto simp: list_all_iff)
  ultimately show ?thesis
    by (simp add: TrimSpace_def [of "w @ x"] TrimLeft_def TrimRight_def strip_encs_id)
qed

section \<open>64-bit integers\<close>

text \<open>
  An \<open>int64\<close> (and, on the 64-bit targets the service runs on, an \<open>int\<close>) is an \<open>int\<close> kept between
  \<open>min64\<close> and \<open>max64\<close>; every arithmetic operator wraps, which \<open>wrap64\<close> writes out. Division
  truncates towards zero.
\<close>

definition max64 :: int where "max64 = 2 ^ 63 - 1"
definition min64 :: int where "min64 = - (2 ^ 63)"

definition in64 :: "int \<Rightarrow> bool" where
  "in64 x \<longleftrightarrow> min64 \<le> x \<and> x \<le> max64"

definition wrap64 :: "int \<Rightarrow> int" where
  "wrap64 x = (x + 2 ^ 63) mod 2 ^ 64 - 2 ^ 63"

definition add64 :: "int \<Rightarrow> int \<Rightarrow> int" where "add64 a b = wrap64 (a + b)"
definition sub64 :: "int \<Rightarrow> int \<Rightarrow> int" where "sub64 a b = wrap64 (a - b)"
definition mul64 :: "int \<Rightarrow> int \<Rightarrow> int" where "mul64 a b = wrap64 (a * b)"

definition quot64 :: "int \<Rightarrow> int \<Rightarrow> int" where
  "quot64 a b = wrap64 (sgn a * sgn b * (\<bar>a\<bar> div \<bar>b\<bar>))"

lemmas arith64 = add64_def sub64_def mul64_def

lemma in64_wrap64 [simp]: "in64 (wrap64 x)"
  by (simp add: in64_def wrap64_def max64_def min64_def)

lemma wrap64_id [simp]: "in64 x \<Longrightarrow> wrap64 x = x"
  by (simp add: in64_def wrap64_def max64_def min64_def)

lemma wrap64_sint: "wrap64 x = sint (word_of_int x :: 64 word)"
  by (simp add: wrap64_def sint_uint uint_word_of_int signed_take_bit_eq_take_bit_shift take_bit_eq_mod)
     (simp add: mod_add_left_eq)

lemma wrap64_add [simp]: "wrap64 (wrap64 x + y) = wrap64 (x + y)"
proof -
  define h :: int where "h = 2 ^ 63"
  define n :: int where "n = 2 ^ 64"
  have "((x + h) mod n + y) mod n = (x + h + y) mod n" by (rule mod_add_left_eq)
  then have "((x + h) mod n - h + y + h) mod n - h = (x + y + h) mod n - h"
    by (simp add: algebra_simps)
  then show ?thesis by (simp only: wrap64_def h_def n_def)
qed

lemma in64I: "0 \<le> x \<Longrightarrow> x \<le> max64 \<Longrightarrow> in64 x"
  by (simp add: in64_def min64_def)

lemma quot64_nonneg: "0 \<le> a \<Longrightarrow> 0 < b \<Longrightarrow> a \<le> max64 \<Longrightarrow> quot64 a b = a div b"
proof -
  assume a: "0 \<le> a" "0 < b" "a \<le> max64"
  have "a div b \<le> a" using a by (metis div_by_1 int_one_le_iff_zero_less zdiv_mono2 zero_less_one)
  then have "in64 (a div b)" using a by (intro in64I) (auto simp: pos_imp_zdiv_nonneg_iff)
  moreover have "sgn a * sgn b * (\<bar>a\<bar> div \<bar>b\<bar>) = a div b"
    using a by (cases "a = 0") (auto simp: sgn_1_pos)
  ultimately show ?thesis by (simp add: quot64_def)
qed

section \<open>Errors\<close>

text \<open>
  The sentinel errors of the code base (\<open>shared/errors.go\<close>, \<open>recurrence/gate.go\<close>,
  \<open>app/webhook.go\<close>), the structured validation error, an error wrapped by
  \<open>fmt.Errorf("...: %w", err)\<close>, and an error raised by a collaborator that belongs to none of
  these classes.
\<close>

datatype go_error =
    ErrValidation
  | ErrNotFound
  | ErrConflict
  | ErrTenantScope
  | ErrInvalidTransition
  | ErrUnauthorized
  | ErrUnavailable
  | ErrAmountMismatch
  | ErrMandateNotFound
  | ErrMandateNotApproved
  | ErrMandateMismatch
  | ErrChargeExceedsMandate
  | errNotYetPayable
  | errSettlementLag
  | ValidationError (Field: string) (Msg: string)
  | Errorf string go_error
  | Opaque string

text \<open>\<open>errors.Is\<close>: the error itself, the \<open>Is\<close> method of a validation error, or a wrapped error.\<close>

fun errors_Is :: "go_error \<Rightarrow> go_error \<Rightarrow> bool" where
  "errors_Is (Errorf m e) t \<longleftrightarrow> Errorf m e = t \<or> errors_Is e t"
| "errors_Is (ValidationError f m) t \<longleftrightarrow> ValidationError f m = t \<or> t = ErrValidation"
| "errors_Is e t \<longleftrightarrow> e = t"

lemma errors_Is_refl [simp]: "errors_Is e e"
  by (cases e) auto

section \<open>The error monad\<close>

type_synonym 'a result = "go_error + 'a"

definition bindE :: "'a result \<Rightarrow> ('a \<Rightarrow> 'b result) \<Rightarrow> 'b result" where
  "bindE m f = (case m of Inl e \<Rightarrow> Inl e | Inr x \<Rightarrow> f x)"

definition wrapE :: "string \<Rightarrow> 'a result \<Rightarrow> 'a result" where
  "wrapE msg m = (case m of Inl e \<Rightarrow> Inl (Errorf msg e) | Inr x \<Rightarrow> Inr x)"

lemma bindE_simps [simp]: "bindE (Inl e) f = Inl e" "bindE (Inr x) f = f x"
  by (simp_all add: bindE_def)

lemma wrapE_simps [simp]: "wrapE msg (Inl e) = Inl (Errorf msg e)" "wrapE msg (Inr x) = Inr x"
  by (simp_all add: wrapE_def)

lemma bindE_Inr_iff: "bindE m f = Inr y \<longleftrightarrow> (\<exists>x. m = Inr x \<and> f x = Inr y)"
  by (cases m) auto

lemma wrapE_Inr_iff [simp]: "wrapE msg m = Inr x \<longleftrightarrow> m = Inr x"
  by (cases m) auto

section \<open>Association lists\<close>

text \<open>Storing under a key: replace the entry in place, or append a new one.\<close>

fun put :: "'k \<Rightarrow> 'v \<Rightarrow> ('k \<times> 'v) list \<Rightarrow> ('k \<times> 'v) list" where
  "put k v [] = [(k, v)]"
| "put k v ((k', v') # m) = (if k = k' then (k, v) # m else (k', v') # put k v m)"

definition del :: "'k \<Rightarrow> ('k \<times> 'v) list \<Rightarrow> ('k \<times> 'v) list" where
  "del k m = filter (\<lambda>(k', _). k' \<noteq> k) m"

abbreviation keys :: "('k \<times> 'v) list \<Rightarrow> 'k list" where
  "keys m \<equiv> map fst m"

abbreviation vals :: "('k \<times> 'v) list \<Rightarrow> 'v list" where
  "vals m \<equiv> map snd m"

lemma map_of_put [simp]: "map_of (put k v m) = (map_of m)(k \<mapsto> v)"
  by (induction k v m rule: put.induct) (auto simp: fun_upd_twist)

lemma map_of_del [simp]: "map_of (del k m) = (map_of m)(k := None)"
  by (induction m) (auto simp: del_def)

lemma keys_put: "set (keys (put k v m)) = insert k (set (keys m))"
  by (induction k v m rule: put.induct) auto

lemma distinct_keys_put [simp]: "distinct (keys (put k v m)) \<longleftrightarrow> distinct (keys m)"
proof (induction k v m rule: put.induct)
  case (2 k v k' v' m)
  with keys_put [of k v m] show ?case by auto
qed simp

lemma set_put_distinct:
  "distinct (keys m) \<Longrightarrow> set (put k v m) = insert (k, v) {e \<in> set m. fst e \<noteq> k}"
  by (induction k v m rule: put.induct) force+

lemma set_put_subset: "set (put k v m) \<subseteq> insert (k, v) (set m)"
  by (induction k v m rule: put.induct) auto

section \<open>Searching a list\<close>

lemma find_Some_mem: "find P xs = Some x \<Longrightarrow> x \<in> set xs \<and> P x"
  by (auto simp: find_Some_iff)

lemma find_None_conv: "find P xs = None \<longleftrightarrow> (\<forall>x \<in> set xs. \<not> P x)"
  by (auto simp: find_None_iff)

text \<open>A search whose hit is unique does not depend on the order of the list.\<close>

lemma find_unique:
  assumes "x \<in> set xs" "P x" "\<And>y. y \<in> set xs \<Longrightarrow> P y \<Longrightarrow> y = x"
  shows "find P xs = Some x"
proof (cases "find P xs")
  case None
  with assms(1,2) show ?thesis by (auto simp: find_None_conv)
next
  case (Some y)
  with assms(3) find_Some_mem [OF Some] show ?thesis by auto
qed

section \<open>Stable sorting\<close>

text \<open>\<open>sort.SliceStable\<close> with a given \<open>lt\<close>: the only stable arrangement, by insertion.\<close>

fun insort_by :: "('a \<Rightarrow> 'a \<Rightarrow> bool) \<Rightarrow> 'a \<Rightarrow> 'a list \<Rightarrow> 'a list" where
  "insort_by lt x [] = [x]"
| "insort_by lt x (y # ys) = (if lt y x then y # insort_by lt x ys else x # y # ys)"

definition SliceStable :: "('a \<Rightarrow> 'a \<Rightarrow> bool) \<Rightarrow> 'a list \<Rightarrow> 'a list" where
  "SliceStable lt xs = foldr (insort_by lt) xs []"

lemma SliceStable_simps [simp]:
  "SliceStable lt [] = []" "SliceStable lt (x # xs) = insort_by lt x (SliceStable lt xs)"
  by (simp_all add: SliceStable_def)

lemma set_insort_by [simp]: "set (insort_by lt x ys) = insert x (set ys)"
  by (induction lt x ys rule: insort_by.induct) auto

lemma mset_SliceStable [simp]: "mset (SliceStable lt xs) = mset xs"
proof -
  have "mset (insort_by lt x ys) = add_mset x (mset ys)" for x ys
    by (induction lt x ys rule: insort_by.induct) auto
  then show ?thesis by (induction xs) auto
qed

lemma set_SliceStable [simp]: "set (SliceStable lt xs) = set xs"
  by (rule mset_eq_setD) simp

lemma SliceStable_eq_Nil [simp]: "SliceStable lt xs = [] \<longleftrightarrow> xs = []"
  by (metis list.set(1) set_SliceStable set_empty)

lemma insort_by_not_Nil [simp]: "insort_by lt x ys \<noteq> []"
  by (cases ys) auto

text \<open>What \<open>sort\<close> asks of \<open>lt\<close>: a strict weak order.\<close>

locale weak_order =
  fixes lt :: "'a \<Rightarrow> 'a \<Rightarrow> bool"
  assumes asym: "lt a b \<Longrightarrow> \<not> lt b a"
    and neg_trans: "\<not> lt b a \<Longrightarrow> \<not> lt c b \<Longrightarrow> \<not> lt c a"
begin

lemma lt_trans: "lt a b \<Longrightarrow> lt b c \<Longrightarrow> lt a c"
  using asym neg_trans by blast

lemma sorted_insort_by:
  "sorted_wrt (\<lambda>a b. \<not> lt b a) ys \<Longrightarrow> sorted_wrt (\<lambda>a b. \<not> lt b a) (insort_by lt x ys)"
proof (induction ys)
  case (Cons y ys)
  have "\<not> lt z x" if "\<not> lt y x" "\<not> lt z y" for z
    using that by (rule neg_trans)
  with Cons asym [of y x] show ?case by auto
qed simp

lemma sorted_SliceStable: "sorted_wrt (\<lambda>a b. \<not> lt b a) (SliceStable lt xs)"
  by (induction xs) (auto intro: sorted_insort_by)

lemma filter_insort_by:
  assumes "sorted_wrt (\<lambda>a b. \<not> lt b a) ys"
  shows "filter P (insort_by lt x ys) = (if P x then insort_by lt x (filter P ys) else filter P ys)"
  using assms
proof (induction ys)
  case (Cons y ys)
  have "insort_by lt x (filter P ys) = x # filter P ys" if "\<not> lt y x"
  proof (cases "filter P ys")
    case (Cons z zs)
    then have "z \<in> set ys" by (metis filter_is_subset list.set_intros(1) subsetD)
    with Cons.prems have "\<not> lt z y" by simp
    with that have "\<not> lt z x" by (metis neg_trans)
    with Cons show ?thesis by simp
  qed simp
  with Cons show ?case by auto
qed simp

lemma filter_SliceStable: "filter P (SliceStable lt xs) = SliceStable lt (filter P xs)"
  by (induction xs) (auto simp: filter_insort_by sorted_SliceStable)

text \<open>The first element of the sorted list is what a scan for the least element finds.\<close>

lemma hd_insort_by: "ys \<noteq> [] \<Longrightarrow> hd (insort_by lt x ys) = (if lt (hd ys) x then hd ys else x)"
  by (cases ys) auto

lemma least_assoc:
  "(let m = (if lt y x then y else x) in if lt h m then h else m) =
   (let m = (if lt h y then h else y) in if lt m x then m else x)"
proof (cases "lt y x"; cases "lt h y")
  assume "lt y x" "lt h y"
  then show ?thesis using lt_trans [of h y x] by (simp add: Let_def)
next
  assume "\<not> lt y x" "\<not> lt h y"
  then show ?thesis using neg_trans [of y x h] by (simp add: Let_def)
qed (simp_all add: Let_def)

lemma hd_SliceStable:
  "hd (SliceStable lt (x # xs)) = foldl (\<lambda>l y. if lt y l then y else l) x xs"
proof (induction xs arbitrary: x)
  case (Cons y ys)
  show ?case
  proof (cases "ys = []")
    case False
    then show ?thesis
      using Cons [of "if lt y x then y else x"] least_assoc [of y x "hd (SliceStable lt ys)"]
      by (simp add: hd_insort_by Let_def)
  qed simp
qed simp

end

text \<open>Newest first: a later instant before an earlier one, the greater id first on a tie.\<close>

definition newest_first :: "('a \<Rightarrow> int) \<Rightarrow> ('a \<Rightarrow> string) \<Rightarrow> 'a \<Rightarrow> 'a \<Rightarrow> bool" where
  "newest_first at key a b \<longleftrightarrow> (if at a = at b then key a > key b else at a > at b)"

interpretation newest: weak_order "newest_first at key"
  by unfold_locales (auto simp: newest_first_def split: if_splits)

end
