(* ===== verification/Gotime.thy ===== *)
theory Gotime
  imports Prelude
begin

text \<open>
  Package \<open>time\<close> as the code uses it. An instant is a number of nanoseconds since the zero time
  (January 1, year 1, 00:00 UTC) together with the offset of its location from UTC; a location is
  modelled by a constant offset. \<open>Sub\<close> saturates at the bounds of a \<open>Duration\<close>, as in Go.
\<close>

record gotime =
  ns :: int
  zone :: int

definition zero_time :: gotime where
  "zero_time = \<lparr>ns = 0, zone = 0\<rparr>"

definition IsZeroTime :: "gotime \<Rightarrow> bool" where
  "IsZeroTime t \<longleftrightarrow> ns t = 0"

definition Before :: "gotime \<Rightarrow> gotime \<Rightarrow> bool" where
  "Before t u \<longleftrightarrow> ns t < ns u"

definition After :: "gotime \<Rightarrow> gotime \<Rightarrow> bool" where
  "After t u \<longleftrightarrow> ns u < ns t"

definition EqualTime :: "gotime \<Rightarrow> gotime \<Rightarrow> bool" where
  "EqualTime t u \<longleftrightarrow> ns t = ns u"

definition AddTime :: "gotime \<Rightarrow> int \<Rightarrow> gotime" where
  "AddTime t d = t\<lparr>ns := ns t + d\<rparr>"

definition SubTime :: "gotime \<Rightarrow> gotime \<Rightarrow> int" where
  "SubTime t u = max min64 (min max64 (ns t - ns u))"

definition day_ns :: int where
  "day_ns = 86400 * 1000000000"

text \<open>The number of the calendar day the instant falls on in its own location.\<close>

definition civil_day :: "gotime \<Rightarrow> int" where
  "civil_day t = (ns t + zone t) div day_ns"

text \<open>Midnight of that day, in the same location: \<open>time.Date(y, m, d, 0, 0, 0, 0, t.Location())\<close>.\<close>

definition midnight :: "gotime \<Rightarrow> gotime" where
  "midnight t = t\<lparr>ns := civil_day t * day_ns - zone t\<rparr>"

lemmas time_defs = IsZeroTime_def Before_def After_def EqualTime_def AddTime_def

lemma day_ns_pos [simp]: "0 < day_ns" "0 \<le> day_ns" "day_ns \<noteq> 0"
  by (simp_all add: day_ns_def)

lemma bounds64 [simp]: "min64 \<le> max64" "min64 < 0" "0 \<le> max64" "in64 0"
  by (simp_all add: min64_def max64_def in64_def)

lemma quot64_0 [simp]: "quot64 0 d = 0"
  by (simp add: quot64_def)

lemma SubTime_in64 [simp]: "in64 (SubTime t u)"
  by (auto simp: SubTime_def in64_def min64_def max64_def)

lemma civil_day_midnight [simp]: "civil_day (midnight t) = civil_day t"
  by (simp add: civil_day_def midnight_def)

lemma zone_midnight [simp]: "zone (midnight t) = zone t"
  by (simp add: midnight_def)

lemma midnight_le: "ns (midnight t) \<le> ns t"
proof -
  have "civil_day t * day_ns \<le> ns t + zone t"
    unfolding civil_day_def by (metis day_ns_pos(1) div_mult_mod_eq le_add_same_cancel1
        pos_mod_sign)
  then show ?thesis by (simp add: midnight_def)
qed

section \<open>Whole days between two instants\<close>

text \<open>\<open>int(midnight(t).Sub(midnight(u)) / (24 * time.Hour))\<close>, never negative.\<close>

definition days_between :: "gotime \<Rightarrow> gotime \<Rightarrow> int" where
  "days_between t u =
     (let days = quot64 (SubTime (midnight t) (midnight u)) day_ns in if days < 0 then 0 else days)"

lemma days_between_nonneg: "0 \<le> days_between t u"
  by (simp add: days_between_def Let_def)

lemma quot64_day_neg: "x < 0 \<Longrightarrow> in64 x \<Longrightarrow> quot64 x day_ns \<le> 0"
proof -
  assume x: "x < 0" "in64 x"
  have "\<bar>x\<bar> div day_ns \<le> 2 ^ 63 div day_ns"
    using x by (intro zdiv_mono1) (auto simp: in64_def min64_def)
  then have "0 \<le> \<bar>x\<bar> div day_ns" "\<bar>x\<bar> div day_ns \<le> 2 ^ 63 - 1"
    using x by (auto simp: day_ns_def pos_imp_zdiv_nonneg_iff)
  then have "in64 (- (\<bar>x\<bar> div day_ns))" by (simp add: in64_def min64_def max64_def)
  then have "quot64 x day_ns = - (\<bar>x\<bar> div day_ns)" using x by (simp add: quot64_def abs_of_pos [of day_ns])
  with \<open>0 \<le> \<bar>x\<bar> div day_ns\<close> show ?thesis by simp
qed

lemma quot64_day_pos: "0 \<le> x \<Longrightarrow> in64 x \<Longrightarrow> quot64 x day_ns = x div day_ns"
  by (rule quot64_nonneg) (auto simp: in64_def)

lemma days_between_bound: "days_between t u \<le> 106751"
proof (cases "SubTime (midnight t) (midnight u) < 0")
  case True
  then have "quot64 (SubTime (midnight t) (midnight u)) day_ns \<le> 0"
    by (intro quot64_day_neg) auto
  then show ?thesis by (simp add: days_between_def Let_def)
next
  case False
  have "SubTime (midnight t) (midnight u) div day_ns \<le> max64 div day_ns"
    by (intro zdiv_mono1) (auto simp: SubTime_def)
  with False show ?thesis
    by (simp add: days_between_def Let_def quot64_day_pos) (simp add: max64_def day_ns_def)
qed

text \<open>In one location, and within the range of a \<open>Duration\<close>, it is the difference of the days.\<close>

lemma days_between_civil:
  assumes "zone t = zone u" and "civil_day t - civil_day u \<le> 106751"
  shows "days_between t u = max 0 (civil_day t - civil_day u)"
proof -
  let ?d = "civil_day t - civil_day u"
  have diff: "ns (midnight t) - ns (midnight u) = ?d * day_ns"
    using assms(1) by (simp add: midnight_def algebra_simps)
  show ?thesis
  proof (cases "?d < 0")
    case True
    then have "?d * day_ns < 0" by (simp add: mult_neg_pos)
    then have "SubTime (midnight t) (midnight u) < 0"
      by (simp add: SubTime_def diff min64_def max64_def)
    then have "quot64 (SubTime (midnight t) (midnight u)) day_ns \<le> 0"
      by (intro quot64_day_neg) auto
    with True show ?thesis by (simp add: days_between_def Let_def)
  next
    case False
    have "?d * day_ns \<le> 106751 * day_ns" using assms(2) by (intro mult_right_mono) auto
    also have "\<dots> \<le> max64" by (simp add: day_ns_def max64_def)
    finally have le: "?d * day_ns \<le> max64" .
    have ge: "0 \<le> ?d * day_ns" using False by simp
    have sub: "SubTime (midnight t) (midnight u) = ?d * day_ns"
      unfolding SubTime_def diff using le ge by (auto simp: min64_def)
    have "quot64 (?d * day_ns) day_ns = ?d"
      using le ge by (simp add: quot64_day_pos in64I)
    with False sub show ?thesis by (simp add: days_between_def Let_def)
  qed
qed

lemma days_between_alt: "days_between t u = max 0 (SubTime (midnight t) (midnight u)) div day_ns"
proof (cases "SubTime (midnight t) (midnight u) < 0")
  case True
  then have "quot64 (SubTime (midnight t) (midnight u)) day_ns \<le> 0"
    by (intro quot64_day_neg) auto
  with True show ?thesis by (simp add: days_between_def Let_def)
next
  case False
  then show ?thesis
    by (simp add: days_between_def Let_def quot64_day_pos pos_imp_zdiv_nonneg_iff not_less)
qed

lemma midnight_mono: "zone t = zone u \<Longrightarrow> ns t \<le> ns u \<Longrightarrow> ns (midnight t) \<le> ns (midnight u)"
  by (auto simp: midnight_def civil_day_def intro!: mult_right_mono zdiv_mono1)

lemma days_between_mono1:
  "ns (midnight t) \<le> ns (midnight t') \<Longrightarrow> days_between t u \<le> days_between t' u"
  by (auto simp: days_between_alt SubTime_def intro!: zdiv_mono1)

lemma days_between_mono2:
  "ns (midnight u) \<le> ns (midnight u') \<Longrightarrow> days_between t u' \<le> days_between t u"
  by (auto simp: days_between_alt SubTime_def intro!: zdiv_mono1)

lemma days_between_excl:
  assumes "0 < days_between t u"
  shows "days_between u t = 0"
proof -
  have "0 < SubTime (midnight t) (midnight u)"
  proof (rule ccontr)
    assume "\<not> ?thesis"
    then have "quot64 (SubTime (midnight t) (midnight u)) day_ns \<le> 0"
      using quot64_day_neg [of "SubTime (midnight t) (midnight u)"]
      by (cases "SubTime (midnight t) (midnight u) = 0") (auto simp: quot64_day_pos)
    with assms show False by (simp add: days_between_def Let_def split: if_splits)
  qed
  then have "ns (midnight u) < ns (midnight t)"
    by (auto simp: SubTime_def min64_def max64_def max_def min_def split: if_splits)
  then have "SubTime (midnight u) (midnight t) < 0"
    by (auto simp: SubTime_def min64_def max64_def max_def min_def)
  then have "quot64 (SubTime (midnight u) (midnight t)) day_ns \<le> 0"
    by (intro quot64_day_neg) auto
  then show ?thesis by (simp add: days_between_def Let_def)
qed

section \<open>Calendar dates in the layout \<open>2006-01-02\<close>\<close>

fun digits_val :: "string \<Rightarrow> nat \<Rightarrow> nat" where
  "digits_val [] acc = acc"
| "digits_val (c # cs) acc = digits_val cs (10 * acc + (of_char c - 48))"

definition is_leap :: "nat \<Rightarrow> bool" where
  "is_leap y \<longleftrightarrow> y mod 4 = 0 \<and> (y mod 100 \<noteq> 0 \<or> y mod 400 = 0)"

definition days_in :: "nat \<Rightarrow> nat \<Rightarrow> nat" where
  "days_in m y =
     (if m = 2 then if is_leap y then 29 else 28
      else if m \<in> {4, 6, 9, 11} then 30 else 31)"

text \<open>\<open>time.Parse\<close> accepts exactly four, two and two digits and a day that the month has.\<close>

definition valid_date :: "string \<Rightarrow> bool" where
  "valid_date s \<longleftrightarrow>
     length s = 10 \<and> s ! 4 = CHR ''-'' \<and> s ! 7 = CHR ''-'' \<and>
     list_all is_digit (take 4 s @ take 2 (drop 5 s) @ drop 8 s) \<and>
     (let y = digits_val (take 4 s) 0; m = digits_val (take 2 (drop 5 s)) 0; d = digits_val (drop 8 s) 0
      in 1 \<le> m \<and> m \<le> 12 \<and> 1 \<le> d \<and> d \<le> days_in m y)"

text \<open>
  \<open>Format("2006-01-02")\<close>: the year, month and day of the instant's calendar day in its location, for
  days from January 1, year 1 on. The year is found by peeling off cycles of 400, 100, 4 and 1
  years, the month by walking through the year.
\<close>

function month_day :: "nat \<Rightarrow> nat \<Rightarrow> nat \<Rightarrow> nat \<times> nat" where
  "month_day y m d =
     (if m \<ge> 12 \<or> d < days_in m y then (m, d + 1) else month_day y (m + 1) (d - days_in m y))"
  by pat_completeness auto
termination by (relation "measure (\<lambda>(y, m, d). 12 - m)") auto

declare month_day.simps [simp del]

definition civil_date :: "nat \<Rightarrow> nat \<times> nat \<times> nat" where
  "civil_date d =
     (let n400 = d div 146097; r = d mod 146097;
          n100 = min 3 (r div 36524); r1 = r - n100 * 36524;
          n4 = r1 div 1461; r2 = r1 mod 1461;
          n1 = min 3 (r2 div 365);
          y = 400 * n400 + 100 * n100 + 4 * n4 + n1 + 1
      in (y, month_day y 1 (r2 - n1 * 365)))"

fun pad_digits :: "nat \<Rightarrow> nat \<Rightarrow> string" where
  "pad_digits 0 n = []"
| "pad_digits (Suc k) n = pad_digits k (n div 10) @ [char_of (48 + n mod 10)]"

definition FormatDate :: "gotime \<Rightarrow> string" where
  "FormatDate t =
     (let (y, m, d) = civil_date (nat (civil_day t))
      in (if y < 10000 then pad_digits 4 y else pad_digits 5 y) @ ''-'' @ pad_digits 2 m @ ''-'' @ pad_digits 2 d)"

end
