(* ===== verification/Money.thy ===== *)
theory Money
  imports Gotime
begin

text \<open>
  Package \<open>internal/domain/shared\<close>: amounts in cents, the overflow-checked sum and the \<open>Money\<close>
  value object. An amount is an \<open>int64\<close>, so the sums that do not go through \<open>AddCents\<close> wrap.
\<close>

section \<open>Definitions\<close>

abbreviation NewValidationError :: "string \<Rightarrow> string \<Rightarrow> go_error" where
  "NewValidationError \<equiv> ValidationError"

definition AddCents :: "int \<Rightarrow> int \<Rightarrow> int result" where
  "AddCents a b =
     (if (b > 0 \<and> a > sub64 max64 b) \<or> (b < 0 \<and> a < sub64 min64 b)
      then Inl (NewValidationError ''amount'' ''item amount sum overflows int64'')
      else Inr (add64 a b))"

fun SumCents_from :: "int \<Rightarrow> int list \<Rightarrow> int result" where
  "SumCents_from acc [] = Inr acc"
| "SumCents_from acc (a # as) =
     (case AddCents acc a of Inl e \<Rightarrow> Inl e | Inr next \<Rightarrow> SumCents_from next as)"

definition SumCents :: "int list \<Rightarrow> int result" where
  "SumCents amounts = SumCents_from 0 amounts"

record money =
  m_cents :: int
  m_currency :: string

definition currencyRe :: "string \<Rightarrow> bool" where
  "currencyRe s \<longleftrightarrow> length s = 3 \<and> list_all (\<lambda>c. CHR ''A'' \<le> c \<and> c \<le> CHR ''Z'') s"

definition NewMoney :: "int \<Rightarrow> string \<Rightarrow> money result" where
  "NewMoney cents currency =
     (if cents \<le> 0 then Inl (NewValidationError ''amount'' ''must be greater than zero'')
      else if \<not> currencyRe currency
      then Inl (NewValidationError ''currency'' ''must be a 3-letter ISO-4217 code'')
      else Inr \<lparr>m_cents = cents, m_currency = currency\<rparr>)"

definition IsZeroMoney :: "money \<Rightarrow> bool" where
  "IsZeroMoney m \<longleftrightarrow> m_cents m = 0 \<and> m_currency m = ''''"

text \<open>What every \<open>Money\<close> built by \<open>NewMoney\<close> from an \<open>int64\<close> satisfies.\<close>

definition wf_money :: "money \<Rightarrow> bool" where
  "wf_money m \<longleftrightarrow> 0 < m_cents m \<and> m_cents m \<le> max64 \<and> currencyRe (m_currency m)"

section \<open>The checked sum\<close>

lemma AddCents_eq:
  assumes "in64 a" and "in64 b"
  shows "AddCents a b =
    (if in64 (a + b) then Inr (a + b)
     else Inl (NewValidationError ''amount'' ''item amount sum overflows int64''))"
proof -
  have p: "sub64 max64 b = max64 - b" if "b > 0"
    using that assms(2) by (simp add: sub64_def in64_def min64_def max64_def)
  have n: "sub64 min64 b = min64 - b" if "b < 0"
    using that assms(2) by (simp add: sub64_def in64_def min64_def max64_def)
  show ?thesis
    using assms p n
    by (cases "b > 0"; cases "b < 0") (auto simp: AddCents_def add64_def in64_def)
qed

text \<open>All partial sums of the list, started from the accumulator, fit an \<open>int64\<close>.\<close>

fun partial_sums_in64 :: "int \<Rightarrow> int list \<Rightarrow> bool" where
  "partial_sums_in64 acc [] \<longleftrightarrow> True"
| "partial_sums_in64 acc (a # as) \<longleftrightarrow> in64 (acc + a) \<and> partial_sums_in64 (acc + a) as"

lemma SumCents_from_eq:
  "in64 acc \<Longrightarrow> list_all in64 as \<Longrightarrow>
   SumCents_from acc as =
     (if partial_sums_in64 acc as then Inr (acc + sum_list as)
      else Inl (NewValidationError ''amount'' ''item amount sum overflows int64''))"
  by (induction acc as rule: partial_sums_in64.induct) (auto simp: AddCents_eq)

lemma partial_sums_nonneg:
  "list_all (\<lambda>a. 0 \<le> a) as \<Longrightarrow> 0 \<le> acc \<Longrightarrow>
   as = [] \<or> (partial_sums_in64 acc as \<longleftrightarrow> acc + sum_list as \<le> max64)"
proof (induction acc as rule: partial_sums_in64.induct)
  case (2 acc a as)
  have nn: "0 \<le> sum_list as" using 2 by (auto intro: sum_list_nonneg simp: list_all_iff)
  from 2 have "as = [] \<or> (partial_sums_in64 (acc + a) as \<longleftrightarrow> acc + a + sum_list as \<le> max64)"
    by simp
  with 2 nn show ?case by (auto simp: in64_def min64_def)
qed simp

lemma SumCents_nonneg:
  assumes "list_all in64 as" and "list_all (\<lambda>a. 0 \<le> a) as"
  shows "SumCents as =
    (if sum_list as \<le> max64 then Inr (sum_list as)
     else Inl (NewValidationError ''amount'' ''item amount sum overflows int64''))"
proof -
  have "as = [] \<or> (partial_sums_in64 0 as \<longleftrightarrow> sum_list as \<le> max64)"
    using partial_sums_nonneg [OF assms(2), of 0] by simp
  with assms(1) show ?thesis by (auto simp: SumCents_def SumCents_from_eq)
qed

section \<open>Money\<close>

lemma NewMoney_Inr_iff:
  "NewMoney c cur = Inr m \<longleftrightarrow> 0 < c \<and> currencyRe cur \<and> m = \<lparr>m_cents = c, m_currency = cur\<rparr>"
  by (auto simp: NewMoney_def)

lemma NewMoney_wf: "NewMoney c cur = Inr m \<Longrightarrow> in64 c \<Longrightarrow> wf_money m"
  by (auto simp: NewMoney_Inr_iff wf_money_def in64_def)

lemma wf_money_nonzero: "wf_money m \<Longrightarrow> \<not> IsZeroMoney m"
  by (simp add: wf_money_def IsZeroMoney_def)

text \<open>
  the overflow-checked sum. For amounts that are \<open>int64\<close> values, \<open>SumCents\<close> returns the exact
  mathematical sum when every running total fits an \<open>int64\<close>, and otherwise the validation error on
  \<open>amount\<close>; a total that has wrapped around is never returned.
\<close>

theorem SumCents_exact_or_error:
  assumes "list_all in64 as"
  shows "(partial_sums_in64 0 as \<longrightarrow> SumCents as = Inr (sum_list as)) \<and>
    (\<not> partial_sums_in64 0 as \<longrightarrow>
       SumCents as = Inl (ValidationError ''amount'' ''item amount sum overflows int64'')) \<and>
    (list_all (\<lambda>a. 0 \<le> a) as \<longrightarrow> (partial_sums_in64 0 as \<longleftrightarrow> sum_list as \<le> max64))"
  using assms partial_sums_nonneg [of as 0]
  by (auto simp: SumCents_def SumCents_from_eq)

theorem SumCents_exact_or_error_witness:
  "SumCents [5, 7] = Inr 12 \<and>
   SumCents [max64, 1, 1] = Inl (ValidationError ''amount'' ''item amount sum overflows int64'')"
proof -
  have a: "list_all in64 [5, 7]" and b: "list_all in64 [max64, 1, 1]"
    by (simp_all add: in64_def max64_def min64_def)
  show ?thesis
    using SumCents_exact_or_error [OF a] SumCents_exact_or_error [OF b]
    by (simp add: in64_def max64_def min64_def)
qed

end
