(* ===== verification/Payment.thy ===== *)
theory Payment
  imports Money
begin

text \<open>
  Package \<open>internal/domain/payment\<close>: the \<open>Payment\<close> aggregate and its lifecycle
  pending -> paid | canceled. A method on \<open>*Payment\<close> is a function that returns the error or the
  updated aggregate; on an error the aggregate is unchanged.
\<close>

section \<open>Definitions\<close>

datatype status = StatusPending | StatusPaid | StatusCanceled

fun status_string :: "status \<Rightarrow> string" where
  "status_string StatusPending = ''pending''"
| "status_string StatusPaid = ''paid''"
| "status_string StatusCanceled = ''canceled''"

record payment =
  pay_id :: string
  pay_tenantID :: string
  pay_amount :: money
  pay_status :: status
  pay_endpoint :: string
  pay_idempotencyKey :: string
  pay_txID :: string
  pay_createdAt :: gotime
  pay_updatedAt :: gotime

definition NewPayment ::
  "string \<Rightarrow> string \<Rightarrow> string \<Rightarrow> string \<Rightarrow> money \<Rightarrow> gotime \<Rightarrow> payment result" where
  "NewPayment pid tenantID endpoint idempotencyKey amount now =
     (let pid = TrimSpace pid; tenantID = TrimSpace tenantID; endpoint = TrimSpace endpoint;
          idempotencyKey = TrimSpace idempotencyKey
      in if pid = '''' then Inl (NewValidationError ''id'' ''payment id is required'')
         else if tenantID = '''' then Inl (NewValidationError ''tenant_id'' ''tenant id is required'')
         else if endpoint = '''' then Inl (NewValidationError ''endpoint'' ''endpoint is required'')
         else if idempotencyKey = ''''
         then Inl (NewValidationError ''idempotency_key'' ''idempotency key is required'')
         else if IsZeroMoney amount then Inl (NewValidationError ''amount'' ''amount is required'')
         else Inr \<lparr>pay_id = pid, pay_tenantID = tenantID, pay_amount = amount,
                   pay_status = StatusPending, pay_endpoint = endpoint,
                   pay_idempotencyKey = idempotencyKey, pay_txID = '''',
                   pay_createdAt = now, pay_updatedAt = now\<rparr>)"

definition RehydratePayment ::
  "string \<Rightarrow> string \<Rightarrow> string \<Rightarrow> string \<Rightarrow> string \<Rightarrow> money \<Rightarrow> status \<Rightarrow> gotime \<Rightarrow> gotime \<Rightarrow> payment" where
  "RehydratePayment pid tenantID endpoint idempotencyKey txID amount st createdAt updatedAt =
     \<lparr>pay_id = pid, pay_tenantID = tenantID, pay_amount = amount, pay_status = st,
      pay_endpoint = endpoint, pay_idempotencyKey = idempotencyKey, pay_txID = txID,
      pay_createdAt = createdAt, pay_updatedAt = updatedAt\<rparr>"

definition MarkPaid :: "payment \<Rightarrow> string \<Rightarrow> gotime \<Rightarrow> payment result" where
  "MarkPaid p txID now =
     (let txID = TrimSpace txID
      in if txID = '''' then Inl (NewValidationError ''tx_id'' ''tx id is required to settle'')
         else if pay_status p = StatusPaid
         then if pay_txID p = txID then Inr p else Inl ErrConflict
         else if pay_status p \<noteq> StatusPending then Inl ErrInvalidTransition
         else Inr (p\<lparr>pay_status := StatusPaid, pay_txID := txID, pay_updatedAt := now\<rparr>))"

definition Cancel :: "payment \<Rightarrow> gotime \<Rightarrow> payment result" where
  "Cancel p now =
     (if pay_status p \<noteq> StatusPending then Inl ErrInvalidTransition
      else Inr (p\<lparr>pay_status := StatusCanceled, pay_updatedAt := now\<rparr>))"

definition SetTxID :: "payment \<Rightarrow> string \<Rightarrow> payment" where
  "SetTxID p txID = p\<lparr>pay_txID := TrimSpace txID\<rparr>"

text \<open>
  The aggregate's invariant: identifiers are trimmed and present, the amount is a valid positive
  amount, and a paid payment carries the transaction id it was settled with.
\<close>

definition trimmed :: "string \<Rightarrow> bool" where
  "trimmed s \<longleftrightarrow> TrimSpace s = s"

definition wf_payment :: "payment \<Rightarrow> bool" where
  "wf_payment p \<longleftrightarrow>
     trimmed (pay_id p) \<and> pay_id p \<noteq> '''' \<and>
     trimmed (pay_tenantID p) \<and> pay_tenantID p \<noteq> '''' \<and>
     trimmed (pay_endpoint p) \<and> pay_endpoint p \<noteq> '''' \<and>
     trimmed (pay_idempotencyKey p) \<and> pay_idempotencyKey p \<noteq> '''' \<and>
     wf_money (pay_amount p) \<and> trimmed (pay_txID p) \<and>
     (pay_status p = StatusPaid \<longrightarrow> pay_txID p \<noteq> '''')"

text \<open>The parts no operation of the aggregate may change.\<close>

definition same_identity :: "payment \<Rightarrow> payment \<Rightarrow> bool" where
  "same_identity p q \<longleftrightarrow>
     pay_id q = pay_id p \<and> pay_tenantID q = pay_tenantID p \<and> pay_amount q = pay_amount p \<and>
     pay_endpoint q = pay_endpoint p \<and> pay_idempotencyKey q = pay_idempotencyKey p \<and>
     pay_createdAt q = pay_createdAt p"

text \<open>
  One call of a mutator that succeeds, as a step of the aggregate's state machine. The services
  call \<open>SetTxID\<close> only on a payment that carries no transaction id yet.
\<close>

inductive payment_step :: "payment \<Rightarrow> payment \<Rightarrow> bool" where
  step_paid: "MarkPaid p tx now = Inr q \<Longrightarrow> payment_step p q"
| step_cancel: "Cancel p now = Inr q \<Longrightarrow> payment_step p q"
| step_tx: "pay_txID p = [] \<Longrightarrow> payment_step p (SetTxID p tx)"

section \<open>Constructor and operations\<close>

lemma trimmed_TrimSpace [simp]: "trimmed (TrimSpace s)"
  by (simp add: trimmed_def)

lemma trimmedD [simp]: "trimmed s \<Longrightarrow> TrimSpace s = s"
  by (simp add: trimmed_def)

lemma trimmed_Nil [simp]: "trimmed []"
  by (simp add: trimmed_def)

lemma NewPayment_Inr:
  assumes "NewPayment pid t e k amt now = Inr p"
  shows "pay_id p = TrimSpace pid" "pay_tenantID p = TrimSpace t" "pay_endpoint p = TrimSpace e"
    "pay_idempotencyKey p = TrimSpace k" "pay_amount p = amt" "pay_status p = StatusPending"
    "pay_txID p = ''''" "pay_createdAt p = now" "pay_updatedAt p = now"
  using assms by (auto simp: NewPayment_def Let_def split: if_splits)

lemma NewPayment_wf: "NewPayment pid t e k amt now = Inr p \<Longrightarrow> wf_money amt \<Longrightarrow> wf_payment p"
  by (auto simp: NewPayment_def Let_def wf_payment_def split: if_splits)

lemma MarkPaid_Inr:
  assumes "MarkPaid p tx now = Inr q"
  shows "pay_status q = StatusPaid" "pay_txID q = TrimSpace tx" "TrimSpace tx \<noteq> ''''"
    "same_identity p q"
  using assms by (auto simp: MarkPaid_def Let_def same_identity_def split: if_splits)

lemma MarkPaid_wf: "wf_payment p \<Longrightarrow> MarkPaid p tx now = Inr q \<Longrightarrow> wf_payment q"
  by (auto simp: MarkPaid_def Let_def wf_payment_def split: if_splits)

lemma Cancel_wf: "wf_payment p \<Longrightarrow> Cancel p now = Inr q \<Longrightarrow> wf_payment q"
  by (auto simp: Cancel_def wf_payment_def split: if_splits)

lemma SetTxID_wf: "wf_payment p \<Longrightarrow> pay_status p \<noteq> StatusPaid \<Longrightarrow> wf_payment (SetTxID p tx)"
  by (auto simp: SetTxID_def wf_payment_def)

lemma wf_payment_tx_empty: "wf_payment p \<Longrightarrow> pay_txID p = [] \<Longrightarrow> pay_status p \<noteq> StatusPaid"
  by (auto simp: wf_payment_def)

lemma payment_step_wf: "payment_step p q \<Longrightarrow> wf_payment p \<Longrightarrow> wf_payment q"
  by (erule payment_step.cases) (auto intro!: SetTxID_wf intro: MarkPaid_wf Cancel_wf dest: wf_payment_tx_empty)

lemma payment_step_identity: "payment_step p q \<Longrightarrow> same_identity p q"
  by (auto elim!: payment_step.cases dest: MarkPaid_Inr(4)
      simp: Cancel_def SetTxID_def same_identity_def split: if_splits)

lemma same_identity_trans: "same_identity p q \<Longrightarrow> same_identity q r \<Longrightarrow> same_identity p r"
  by (simp add: same_identity_def)

lemma payment_step_paid:
  "payment_step p q \<Longrightarrow> wf_payment p \<Longrightarrow> pay_status p = StatusPaid \<Longrightarrow> q = p"
  by (auto elim!: payment_step.cases simp: MarkPaid_def Cancel_def Let_def wf_payment_def
      split: if_splits)

lemma payment_step_canceled:
  "payment_step p q \<Longrightarrow> pay_status p = StatusCanceled \<Longrightarrow> pay_status q = StatusCanceled"
  by (auto elim!: payment_step.cases simp: MarkPaid_def Cancel_def SetTxID_def Let_def
      split: if_splits)

lemma payment_steps_paid:
  "payment_step\<^sup>*\<^sup>* p q \<Longrightarrow> wf_payment p \<Longrightarrow> pay_status p = StatusPaid \<Longrightarrow> q = p"
  by (induction rule: rtranclp_induct) (auto dest: payment_step_paid)

lemma payment_steps_canceled:
  "payment_step\<^sup>*\<^sup>* p q \<Longrightarrow> pay_status p = StatusCanceled \<Longrightarrow> pay_status q = StatusCanceled"
  by (induction rule: rtranclp_induct) (auto dest: payment_step_canceled)

lemma payment_steps_inv:
  "payment_step\<^sup>*\<^sup>* p q \<Longrightarrow> wf_payment p \<Longrightarrow> wf_payment q \<and> same_identity p q"
  by (induction rule: rtranclp_induct)
     (auto intro: payment_step_wf dest: payment_step_identity same_identity_trans
           simp: same_identity_def)

section \<open>Properties\<close>

text \<open>
  the payment state machine. Whatever sequence of successful mutator calls is made on a
  well-formed payment, it stays well-formed and its id, tenant, amount, endpoint, idempotency key
  and creation time never change; once it is paid nothing about it changes any more (it cannot be
  settled with another transaction id, canceled or un-settled), and a canceled one stays canceled.
\<close>

theorem payment_lifecycle:
  assumes "wf_payment p" and "payment_step\<^sup>*\<^sup>* p q"
  shows "wf_payment q \<and> same_identity p q \<and> (pay_status p = StatusPaid \<longrightarrow> q = p) \<and>
    (pay_status p = StatusCanceled \<longrightarrow> pay_status q = StatusCanceled)"
  using assms payment_steps_inv payment_steps_paid payment_steps_canceled by blast

definition sample_payment :: payment where
  "sample_payment = \<lparr>pay_id = ''p1'', pay_tenantID = ''t1'',
     pay_amount = \<lparr>m_cents = 500, m_currency = ''BRL''\<rparr>, pay_status = StatusPending,
     pay_endpoint = ''charges'', pay_idempotencyKey = ''k1'', pay_txID = '''',
     pay_createdAt = zero_time, pay_updatedAt = zero_time\<rparr>"

lemma sample_payment_wf: "wf_payment sample_payment"
  by (simp add: wf_payment_def sample_payment_def trimmed_def TrimSpace_plain plain_byte_def
      less_eq_char_def wf_money_def currencyRe_def max64_def)

lemma sample_MarkPaid:
  "MarkPaid sample_payment ''tx'' zero_time =
     Inr (sample_payment\<lparr>pay_status := StatusPaid, pay_txID := ''tx''\<rparr>)"
  by (simp add: MarkPaid_def Let_def sample_payment_def TrimSpace_plain plain_byte_def
      less_eq_char_def)

theorem payment_lifecycle_witness:
  "\<exists>q. payment_step\<^sup>*\<^sup>* sample_payment q \<and> pay_status q = StatusPaid \<and> wf_payment q \<and>
       same_identity sample_payment q"
proof -
  let ?q = "sample_payment\<lparr>pay_status := StatusPaid, pay_txID := ''tx''\<rparr>"
  have s: "payment_step\<^sup>*\<^sup>* sample_payment ?q"
    using step_paid [OF sample_MarkPaid] by blast
  show ?thesis
    using payment_lifecycle [OF sample_payment_wf s] s by (intro exI [of _ ?q]) simp
qed

text \<open>
  settlement, every branch of \<open>MarkPaid\<close>. A blank transaction id is a validation error; a
  pending payment becomes paid with that id; a paid one accepts the same id again without any
  change and refuses a different one as a conflict; a canceled one is an invalid transition.
\<close>

theorem MarkPaid_branches:
  "(TrimSpace tx = '''' \<longrightarrow>
      MarkPaid p tx now = Inl (ValidationError ''tx_id'' ''tx id is required to settle'')) \<and>
   (TrimSpace tx \<noteq> '''' \<longrightarrow> pay_status p = StatusPending \<longrightarrow>
      MarkPaid p tx now =
        Inr (p\<lparr>pay_status := StatusPaid, pay_txID := TrimSpace tx, pay_updatedAt := now\<rparr>)) \<and>
   (TrimSpace tx \<noteq> '''' \<longrightarrow> pay_status p = StatusPaid \<longrightarrow>
      MarkPaid p tx now = (if pay_txID p = TrimSpace tx then Inr p else Inl ErrConflict)) \<and>
   (TrimSpace tx \<noteq> '''' \<longrightarrow> pay_status p = StatusCanceled \<longrightarrow>
      MarkPaid p tx now = Inl ErrInvalidTransition) \<and>
   (\<forall>q. MarkPaid p tx now = Inr q \<longrightarrow> MarkPaid q tx later = Inr q)"
  by (cases "pay_status p") (auto simp: MarkPaid_def Let_def split: if_splits)

theorem MarkPaid_branches_witness:
  "MarkPaid (sample_payment\<lparr>pay_status := StatusPaid, pay_txID := ''tx''\<rparr>) ''ty'' zero_time
     = Inl ErrConflict \<and>
   MarkPaid (sample_payment\<lparr>pay_status := StatusCanceled\<rparr>) ''tx'' zero_time = Inl ErrInvalidTransition"
  using MarkPaid_branches [of "''ty''" "sample_payment\<lparr>pay_status := StatusPaid, pay_txID := ''tx''\<rparr>" zero_time]
    MarkPaid_branches [of "''tx''" "sample_payment\<lparr>pay_status := StatusCanceled\<rparr>" zero_time]
  by (simp add: TrimSpace_plain plain_byte_def less_eq_char_def)

end
