(* ===== verification/Tenancy.thy ===== *)
theory Tenancy
  imports Payment
begin

text \<open>
  Packages \<open>internal/domain/tenant\<close> and \<open>internal/domain/account\<close>: the two levels of tenancy. A
  tenant belongs to at most one account, for ever; a legacy tenant without one belongs to the
  self-account whose id is derived from the tenant id.
\<close>

section \<open>Tenants\<close>

record tenant =
  tn_id :: string
  tn_name :: string
  tn_active :: bool
  tn_createdAt :: gotime
  tn_accountID :: string

definition NewTenant :: "string \<Rightarrow> string \<Rightarrow> gotime \<Rightarrow> tenant result" where
  "NewTenant tid nm now =
     (let tid = TrimSpace tid; nm = TrimSpace nm
      in if tid = '''' then Inl (NewValidationError ''id'' ''tenant id is required'')
         else if nm = '''' then Inl (NewValidationError ''name'' ''tenant name is required'')
         else if length nm > 200 then Inl (NewValidationError ''name'' ''tenant name too long'')
         else Inr \<lparr>tn_id = tid, tn_name = nm, tn_active = True, tn_createdAt = now,
                   tn_accountID = ''''\<rparr>)"

definition RehydrateTenant :: "string \<Rightarrow> string \<Rightarrow> bool \<Rightarrow> gotime \<Rightarrow> tenant" where
  "RehydrateTenant tid nm act createdAt =
     \<lparr>tn_id = tid, tn_name = nm, tn_active = act, tn_createdAt = createdAt, tn_accountID = ''''\<rparr>"

definition RehydrateWithAccount :: "string \<Rightarrow> string \<Rightarrow> bool \<Rightarrow> gotime \<Rightarrow> string \<Rightarrow> tenant" where
  "RehydrateWithAccount tid nm act createdAt accountID =
     \<lparr>tn_id = tid, tn_name = nm, tn_active = act, tn_createdAt = createdAt,
      tn_accountID = TrimSpace accountID\<rparr>"

definition AssignAccount :: "tenant \<Rightarrow> string \<Rightarrow> tenant result" where
  "AssignAccount t accountID =
     (let accountID = TrimSpace accountID
      in if accountID = '''' then Inl (NewValidationError ''account_id'' ''account id is required'')
         else if tn_accountID t \<noteq> '''' \<and> tn_accountID t \<noteq> accountID
         then Inl (NewValidationError ''account_id''
                    ''tenant account is immutable; re-parenting is not allowed'')
         else Inr (t\<lparr>tn_accountID := accountID\<rparr>))"

definition RenameTenant :: "tenant \<Rightarrow> string \<Rightarrow> tenant result" where
  "RenameTenant t nm =
     (let nm = TrimSpace nm
      in if nm = '''' then Inl (NewValidationError ''name'' ''tenant name is required'')
         else if length nm > 200 then Inl (NewValidationError ''name'' ''tenant name too long'')
         else Inr (t\<lparr>tn_name := nm\<rparr>))"

definition DeactivateTenant :: "tenant \<Rightarrow> tenant" where
  "DeactivateTenant t = t\<lparr>tn_active := False\<rparr>"

definition ActivateTenant :: "tenant \<Rightarrow> tenant" where
  "ActivateTenant t = t\<lparr>tn_active := True\<rparr>"

section \<open>Accounts\<close>

record account =
  ac_id :: string
  ac_name :: string
  ac_active :: bool
  ac_createdAt :: gotime

definition NewAccount :: "string \<Rightarrow> string \<Rightarrow> gotime \<Rightarrow> account result" where
  "NewAccount aid nm now =
     (let aid = TrimSpace aid; nm = TrimSpace nm
      in if aid = '''' then Inl (NewValidationError ''id'' ''account id is required'')
         else if nm = '''' then Inl (NewValidationError ''name'' ''account name is required'')
         else if length nm > 200 then Inl (NewValidationError ''name'' ''account name too long'')
         else Inr \<lparr>ac_id = aid, ac_name = nm, ac_active = True, ac_createdAt = now\<rparr>)"

definition RehydrateAccount :: "string \<Rightarrow> string \<Rightarrow> bool \<Rightarrow> gotime \<Rightarrow> account" where
  "RehydrateAccount aid nm act createdAt =
     \<lparr>ac_id = aid, ac_name = nm, ac_active = act, ac_createdAt = createdAt\<rparr>"

definition selfAccountPrefix :: string where
  "selfAccountPrefix = ''acct-''"

definition SelfAccountID :: "string \<Rightarrow> string" where
  "SelfAccountID tenantID =
     (let tenantID = TrimSpace tenantID
      in if tenantID = '''' then '''' else selfAccountPrefix @ tenantID)"

definition IsSelfAccountID :: "string \<Rightarrow> bool" where
  "IsSelfAccountID aid \<longleftrightarrow> prefix selfAccountPrefix (TrimSpace aid)"

definition RenameAccount :: "account \<Rightarrow> string \<Rightarrow> account result" where
  "RenameAccount a nm =
     (if IsSelfAccountID (ac_id a)
      then Inl (NewValidationError ''id'' ''self-account cannot be renamed directly'')
      else let nm = TrimSpace nm
           in if nm = '''' then Inl (NewValidationError ''name'' ''account name is required'')
              else if length nm > 200 then Inl (NewValidationError ''name'' ''account name too long'')
              else Inr (a\<lparr>ac_name := nm\<rparr>))"

definition DeactivateAccount :: "account \<Rightarrow> account" where
  "DeactivateAccount a = a\<lparr>ac_active := False\<rparr>"

definition ActivateAccount :: "account \<Rightarrow> account" where
  "ActivateAccount a = a\<lparr>ac_active := True\<rparr>"

section \<open>Invariants and steps\<close>

definition valid_name :: "string \<Rightarrow> bool" where
  "valid_name nm \<longleftrightarrow> trimmed nm \<and> nm \<noteq> '''' \<and> length nm \<le> 200"

definition wf_tenant :: "tenant \<Rightarrow> bool" where
  "wf_tenant t \<longleftrightarrow> trimmed (tn_id t) \<and> tn_id t \<noteq> '''' \<and> valid_name (tn_name t) \<and>
     trimmed (tn_accountID t)"

definition wf_account :: "account \<Rightarrow> bool" where
  "wf_account a \<longleftrightarrow> trimmed (ac_id a) \<and> ac_id a \<noteq> '''' \<and> valid_name (ac_name a)"

inductive tenant_step :: "tenant \<Rightarrow> tenant \<Rightarrow> bool" where
  ts_assign: "AssignAccount t a = Inr u \<Longrightarrow> tenant_step t u"
| ts_rename: "RenameTenant t nm = Inr u \<Longrightarrow> tenant_step t u"
| ts_deactivate: "tenant_step t (DeactivateTenant t)"
| ts_activate: "tenant_step t (ActivateTenant t)"

inductive account_step :: "account \<Rightarrow> account \<Rightarrow> bool" where
  as_rename: "RenameAccount a nm = Inr b \<Longrightarrow> account_step a b"
| as_deactivate: "account_step a (DeactivateAccount a)"
| as_activate: "account_step a (ActivateAccount a)"

lemmas tenant_defs = NewTenant_def AssignAccount_def RenameTenant_def DeactivateTenant_def
  ActivateTenant_def Let_def

lemmas account_defs = NewAccount_def RenameAccount_def DeactivateAccount_def ActivateAccount_def
  Let_def

lemma NewTenant_wf: "NewTenant tid nm now = Inr t \<Longrightarrow> wf_tenant t \<and> tn_accountID t = [] \<and> tn_active t"
  by (auto simp: tenant_defs wf_tenant_def valid_name_def split: if_splits)

lemma NewAccount_wf: "NewAccount aid nm now = Inr a \<Longrightarrow> wf_account a \<and> ac_active a"
  by (auto simp: account_defs wf_account_def valid_name_def split: if_splits)

lemma tenant_step_wf: "tenant_step t u \<Longrightarrow> wf_tenant t \<Longrightarrow> wf_tenant u"
  by (erule tenant_step.cases)
     (auto simp: tenant_defs wf_tenant_def valid_name_def split: if_splits)

lemma tenant_step_frame:
  "tenant_step t u \<Longrightarrow> tn_id u = tn_id t \<and> tn_createdAt u = tn_createdAt t \<and>
     (tn_accountID t \<noteq> [] \<longrightarrow> tn_accountID u = tn_accountID t)"
  by (erule tenant_step.cases) (auto simp: tenant_defs split: if_splits)

lemma account_step_wf: "account_step a b \<Longrightarrow> wf_account a \<Longrightarrow> wf_account b"
  by (erule account_step.cases)
     (auto simp: account_defs wf_account_def valid_name_def split: if_splits)

lemma account_step_frame:
  "account_step a b \<Longrightarrow> ac_id b = ac_id a \<and> ac_createdAt b = ac_createdAt a \<and>
     (IsSelfAccountID (ac_id a) \<longrightarrow> ac_name b = ac_name a)"
  by (erule account_step.cases) (auto simp: account_defs split: if_splits)

lemma AssignAccount_Inr_iff:
  "AssignAccount t a = Inr u \<longleftrightarrow>
     TrimSpace a \<noteq> [] \<and> (tn_accountID t = [] \<or> tn_accountID t = TrimSpace a) \<and>
     u = t\<lparr>tn_accountID := TrimSpace a\<rparr>"
  by (auto simp: AssignAccount_def Let_def)

section \<open>Properties\<close>

text \<open>
  a tenant is never re-parented. Along any sequence of successful operations on a well-formed
  tenant it stays well-formed (a trimmed, non-empty name of at most 200 bytes), its id and
  creation time never change, and once it is bound to an account it stays bound to that account;
  binding it again to the same account succeeds and changes nothing, binding it to another one is
  refused with a validation error.
\<close>

theorem tenant_never_reparented:
  assumes "wf_tenant t" and "tenant_step\<^sup>*\<^sup>* t u"
  shows "wf_tenant u \<and> tn_id u = tn_id t \<and> tn_createdAt u = tn_createdAt t \<and>
    (tn_accountID t \<noteq> '''' \<longrightarrow> tn_accountID u = tn_accountID t \<and>
       AssignAccount u (tn_accountID t) = Inr u \<and>
       (\<forall>a. TrimSpace a \<noteq> '''' \<longrightarrow> TrimSpace a \<noteq> tn_accountID t \<longrightarrow>
         errors_Is (projl (AssignAccount u a)) ErrValidation \<and> isl (AssignAccount u a)))"
proof -
  have "wf_tenant u \<and> tn_id u = tn_id t \<and> tn_createdAt u = tn_createdAt t \<and>
    (tn_accountID t \<noteq> '''' \<longrightarrow> tn_accountID u = tn_accountID t)"
    using assms(2,1)
    by (induction rule: rtranclp_induct) (auto dest: tenant_step_wf tenant_step_frame)
  then show ?thesis by (auto simp: AssignAccount_def Let_def wf_tenant_def)
qed

definition sample_tenant :: tenant where
  "sample_tenant = \<lparr>tn_id = ''t1'', tn_name = ''Acme'', tn_active = True,
     tn_createdAt = zero_time, tn_accountID = ''a1''\<rparr>"

theorem tenant_never_reparented_witness:
  "tn_accountID (DeactivateTenant sample_tenant) = ''a1'' \<and>
   isl (AssignAccount (DeactivateTenant sample_tenant) ''a2'')"
proof -
  have wf: "wf_tenant sample_tenant"
    by (simp add: wf_tenant_def valid_name_def sample_tenant_def trimmed_def TrimSpace_plain
        plain_byte_def less_eq_char_def)
  have s: "tenant_step\<^sup>*\<^sup>* sample_tenant (DeactivateTenant sample_tenant)"
    using ts_deactivate by blast
  show ?thesis
    using tenant_never_reparented [OF wf s]
    by (auto simp: sample_tenant_def TrimSpace_plain plain_byte_def less_eq_char_def)
qed

text \<open>
  the self-account convention. The account id derived for a tenant is recognised as a
  self-account id, two tenant ids that differ after trimming never share one, and an account whose
  id follows the convention keeps its name through every operation on it.
\<close>

theorem self_account_convention:
  assumes "TrimSpace t \<noteq> []"
  shows "IsSelfAccountID (SelfAccountID t) \<and>
    (\<forall>u. SelfAccountID u = SelfAccountID t \<longrightarrow> TrimSpace u = TrimSpace t) \<and>
    (\<forall>a b. account_step\<^sup>*\<^sup>* a b \<longrightarrow> ac_id a = SelfAccountID t \<longrightarrow> ac_name b = ac_name a)"
proof (intro conjI allI impI)
  have "TrimSpace (selfAccountPrefix @ TrimSpace t) = selfAccountPrefix @ TrimSpace t"
    using assms by (intro TrimSpace_plain_append)
      (auto simp: plain_byte_def less_eq_char_def selfAccountPrefix_def)
  then show self: "IsSelfAccountID (SelfAccountID t)"
    using assms by (simp add: IsSelfAccountID_def SelfAccountID_def Let_def)
  show "TrimSpace u = TrimSpace t" if "SelfAccountID u = SelfAccountID t" for u
    using assms that by (auto simp: SelfAccountID_def Let_def selfAccountPrefix_def split: if_splits)
  show "ac_name b = ac_name a" if "account_step\<^sup>*\<^sup>* a b" "ac_id a = SelfAccountID t" for a b
  proof -
    have "ac_id b = ac_id a \<and> ac_name b = ac_name a"
      using that(1) self that(2)
      by (induction rule: rtranclp_induct) (auto dest: account_step_frame)
    then show ?thesis by simp
  qed
qed

theorem self_account_convention_witness:
  "IsSelfAccountID (SelfAccountID ''t1'') \<and>
   ac_name (DeactivateAccount \<lparr>ac_id = SelfAccountID ''t1'', ac_name = ''Acme'', ac_active = True,
     ac_createdAt = zero_time\<rparr>) = ''Acme''"
proof -
  have t: "TrimSpace ''t1'' \<noteq> []"
    by (simp add: TrimSpace_plain plain_byte_def less_eq_char_def)
  let ?a = "\<lparr>ac_id = SelfAccountID ''t1'', ac_name = ''Acme'', ac_active = True,
     ac_createdAt = zero_time\<rparr>"
  have "account_step\<^sup>*\<^sup>* ?a (DeactivateAccount ?a)" using as_deactivate by blast
  with self_account_convention [OF t] have "ac_name (DeactivateAccount ?a) = ac_name ?a"
    by (metis account.select_convs(1))
  with self_account_convention [OF t] show ?thesis by simp
qed

end
