(* ===== verification/Billing.thy ===== *)
theory Billing
  imports Tenancy
begin

text \<open>
  Packages \<open>internal/domain/billing\<close> and \<open>internal/domain/invoice\<close>: prices per endpoint, the
  append-only ledger's entries, and the frozen invoice (Fatura). The totals of an invoice are
  summed with a bare \<open>+=\<close> on \<open>int64\<close>, so they wrap; what keeps them right is stated below.
\<close>

section \<open>Definitions\<close>

record endpoint_pricing =
  ep_tenantID :: string
  ep_endpoint :: string
  ep_priceCents :: int

definition NewEndpointPricing :: "string \<Rightarrow> string \<Rightarrow> int \<Rightarrow> endpoint_pricing result" where
  "NewEndpointPricing tenantID endpoint priceCents =
     (let tenantID = TrimSpace tenantID; endpoint = TrimSpace endpoint
      in if tenantID = '''' then Inl (NewValidationError ''tenant_id'' ''tenant id is required'')
         else if endpoint = '''' then Inl (NewValidationError ''endpoint'' ''endpoint is required'')
         else if priceCents < 0
         then Inl (NewValidationError ''price_cents'' ''price must be non-negative'')
         else Inr \<lparr>ep_tenantID = tenantID, ep_endpoint = endpoint, ep_priceCents = priceCents\<rparr>)"

record ledger_entry =
  le_id :: string
  le_tenantID :: string
  le_endpoint :: string
  le_priceCents :: int
  le_reference :: string
  le_at :: gotime
  le_accountID :: string

type_synonym ledger_entry_option = "ledger_entry \<Rightarrow> ledger_entry"

definition WithAccount :: "string \<Rightarrow> ledger_entry_option" where
  "WithAccount accountID e = e\<lparr>le_accountID := TrimSpace accountID\<rparr>"

definition NewLedgerEntry ::
  "string \<Rightarrow> string \<Rightarrow> string \<Rightarrow> string \<Rightarrow> int \<Rightarrow> gotime \<Rightarrow> ledger_entry_option list
     \<Rightarrow> ledger_entry result" where
  "NewLedgerEntry eid tenantID endpoint ref priceCents at opts =
     (let eid = TrimSpace eid; tenantID = TrimSpace tenantID; endpoint = TrimSpace endpoint
      in if eid = '''' then Inl (NewValidationError ''id'' ''ledger entry id is required'')
         else if tenantID = '''' then Inl (NewValidationError ''tenant_id'' ''tenant id is required'')
         else if endpoint = '''' then Inl (NewValidationError ''endpoint'' ''endpoint is required'')
         else if priceCents < 0
         then Inl (NewValidationError ''price_cents'' ''price must be non-negative'')
         else Inr (fold (\<lambda>opt e. opt e) opts
           \<lparr>le_id = eid, le_tenantID = tenantID, le_endpoint = endpoint, le_priceCents = priceCents,
            le_reference = TrimSpace ref, le_at = at, le_accountID = ''''\<rparr>))"

record line_item =
  li_endpoint :: string
  li_calls :: int
  li_subtotalCents :: int

definition NewLineItem :: "string \<Rightarrow> int \<Rightarrow> int \<Rightarrow> line_item result" where
  "NewLineItem endpoint calls subtotalCents =
     (let endpoint = TrimSpace endpoint
      in if endpoint = '''' then Inl (NewValidationError ''endpoint'' ''endpoint is required'')
         else if calls \<le> 0 then Inl (NewValidationError ''calls'' ''calls must be positive'')
         else if subtotalCents < 0
         then Inl (NewValidationError ''subtotal_cents'' ''subtotal must be non-negative'')
         else Inr \<lparr>li_endpoint = endpoint, li_calls = calls, li_subtotalCents = subtotalCents\<rparr>)"

record invoice =
  inv_id :: string
  inv_tenantID :: string
  inv_accountID :: string
  inv_periodStart :: gotime
  inv_periodEnd :: gotime
  inv_lines :: "line_item list"
  inv_totalCalls :: int
  inv_totalCents :: int
  inv_generatedAt :: gotime

text \<open>The loop of \<open>invoice.New\<close> over the sorted lines: the totals, or \<open>None\<close> on an invalid line.\<close>

fun invoice_totals :: "int \<Rightarrow> int \<Rightarrow> line_item list \<Rightarrow> (int \<times> int) option" where
  "invoice_totals calls cents [] = Some (calls, cents)"
| "invoice_totals calls cents (l # ls) =
     (if li_endpoint l = '''' then None
      else invoice_totals (add64 calls (li_calls l)) (add64 cents (li_subtotalCents l)) ls)"

definition NewInvoice ::
  "string \<Rightarrow> string \<Rightarrow> string \<Rightarrow> gotime \<Rightarrow> gotime \<Rightarrow> gotime \<Rightarrow> line_item list \<Rightarrow> invoice result" where
  "NewInvoice iid tenantID accountID periodStart periodEnd generatedAt lines =
     (let iid = TrimSpace iid; tenantID = TrimSpace tenantID
      in if iid = '''' then Inl (NewValidationError ''id'' ''invoice id is required'')
         else if tenantID = '''' then Inl (NewValidationError ''tenant_id'' ''tenant id is required'')
         else if IsZeroTime periodStart \<or> IsZeroTime periodEnd
         then Inl (NewValidationError ''period'' ''period start and end are required'')
         else if \<not> Before periodStart periodEnd
         then Inl (NewValidationError ''period'' ''period start must be before period end'')
         else let cp = sort_key li_endpoint lines
              in case invoice_totals 0 0 cp of
                   None \<Rightarrow> Inl (NewValidationError ''line'' ''invalid line item'')
                 | Some (totalCalls, totalCents) \<Rightarrow>
                     Inr \<lparr>inv_id = iid, inv_tenantID = tenantID, inv_accountID = TrimSpace accountID,
                          inv_periodStart = periodStart, inv_periodEnd = periodEnd, inv_lines = cp,
                          inv_totalCalls = totalCalls, inv_totalCents = totalCents,
                          inv_generatedAt = generatedAt\<rparr>)"

definition RehydrateInvoice ::
  "string \<Rightarrow> string \<Rightarrow> string \<Rightarrow> gotime \<Rightarrow> gotime \<Rightarrow> gotime \<Rightarrow> line_item list \<Rightarrow> int \<Rightarrow> int \<Rightarrow> invoice" where
  "RehydrateInvoice iid tenantID accountID periodStart periodEnd generatedAt lines totalCalls totalCents =
     \<lparr>inv_id = iid, inv_tenantID = tenantID, inv_accountID = accountID,
      inv_periodStart = periodStart, inv_periodEnd = periodEnd, inv_lines = lines,
      inv_totalCalls = totalCalls, inv_totalCents = totalCents, inv_generatedAt = generatedAt\<rparr>"

section \<open>Ledger entries\<close>

lemma NewEndpointPricing_Inr_iff:
  "NewEndpointPricing t e c = Inr p \<longleftrightarrow>
     TrimSpace t \<noteq> [] \<and> TrimSpace e \<noteq> [] \<and> 0 \<le> c \<and>
     p = \<lparr>ep_tenantID = TrimSpace t, ep_endpoint = TrimSpace e, ep_priceCents = c\<rparr>"
  by (auto simp: NewEndpointPricing_def Let_def)

lemma NewLedgerEntry_account_Inr_iff:
  "NewLedgerEntry eid t e ref c at [WithAccount a] = Inr x \<longleftrightarrow>
     TrimSpace eid \<noteq> [] \<and> TrimSpace t \<noteq> [] \<and> TrimSpace e \<noteq> [] \<and> 0 \<le> c \<and>
     x = \<lparr>le_id = TrimSpace eid, le_tenantID = TrimSpace t, le_endpoint = TrimSpace e,
          le_priceCents = c, le_reference = TrimSpace ref, le_at = at, le_accountID = TrimSpace a\<rparr>"
  by (auto simp: NewLedgerEntry_def WithAccount_def Let_def)

lemma NewLineItem_Inr_iff:
  "NewLineItem e n c = Inr l \<longleftrightarrow> TrimSpace e \<noteq> [] \<and> 0 < n \<and> 0 \<le> c \<and>
     l = \<lparr>li_endpoint = TrimSpace e, li_calls = n, li_subtotalCents = c\<rparr>"
  by (auto simp: NewLineItem_def Let_def)

section \<open>Invoice totals\<close>

lemma invoice_totals_eq:
  "invoice_totals (wrap64 n) (wrap64 c) ls =
     (if \<forall>l \<in> set ls. li_endpoint l \<noteq> []
      then Some (wrap64 (n + sum_list (map li_calls ls)), wrap64 (c + sum_list (map li_subtotalCents ls)))
      else None)"
  by (induction ls arbitrary: n c) (auto simp: add64_def add.assoc)

lemma wrap64_0 [simp]: "wrap64 0 = 0"
  by (rule wrap64_id) simp

lemma invoice_totals_0:
  "invoice_totals 0 0 ls =
     (if \<forall>l \<in> set ls. li_endpoint l \<noteq> []
      then Some (wrap64 (sum_list (map li_calls ls)), wrap64 (sum_list (map li_subtotalCents ls)))
      else None)"
  using invoice_totals_eq [of 0 0 ls] by simp

lemma sum_list_sort_key: "sum_list (map f (sort_key g xs)) = sum_list (map f xs)" for f :: "'a \<Rightarrow> int"
  by (metis mset_map mset_sort sum_mset_sum_list)

lemma NewInvoice_Inr:
  assumes "NewInvoice iid t a s e g ls = Inr iv"
  shows "inv_tenantID iv = TrimSpace t" "inv_accountID iv = TrimSpace a"
    "inv_lines iv = sort_key li_endpoint ls" "inv_id iv = TrimSpace iid"
    "inv_totalCents iv = wrap64 (sum_list (map li_subtotalCents ls))"
    "inv_totalCalls iv = wrap64 (sum_list (map li_calls ls))"
    "inv_periodStart iv = s" "inv_periodEnd iv = e" "inv_generatedAt iv = g"
  using assms
  by (auto simp: NewInvoice_def Let_def invoice_totals_0 sum_list_sort_key split: if_splits)

section \<open>Properties\<close>

text \<open>
  an invoice's header agrees with its body. The lines of a new invoice are the given lines
  sorted by endpoint, its period is a non-empty window, and its totals are the sums of its lines
  wrapped to 64 bits; they are the exact sums whenever those fit an \<open>int64\<close>.
\<close>

theorem invoice_totals_match_lines:
  assumes "NewInvoice iid t a s e g ls = Inr iv"
  shows "mset (inv_lines iv) = mset ls \<and> sorted (map li_endpoint (inv_lines iv)) \<and>
    Before (inv_periodStart iv) (inv_periodEnd iv) \<and> inv_id iv \<noteq> '''' \<and> inv_tenantID iv \<noteq> '''' \<and>
    inv_totalCents iv = wrap64 (sum_list (map li_subtotalCents (inv_lines iv))) \<and>
    inv_totalCalls iv = wrap64 (sum_list (map li_calls (inv_lines iv))) \<and>
    (in64 (sum_list (map li_subtotalCents ls)) \<longrightarrow>
       inv_totalCents iv = sum_list (map li_subtotalCents ls))"
proof -
  note f = NewInvoice_Inr [OF assms]
  have "Before s e \<and> TrimSpace iid \<noteq> [] \<and> TrimSpace t \<noteq> []"
    using assms by (auto simp: NewInvoice_def Let_def split: if_splits)
  then show ?thesis by (simp add: f sum_list_sort_key)
qed

definition sample_window :: "gotime \<times> gotime" where
  "sample_window = (\<lparr>ns = 1, zone = 0\<rparr>, \<lparr>ns = 9, zone = 0\<rparr>)"

definition sample_lines :: "line_item list" where
  "sample_lines = [\<lparr>li_endpoint = ''pix'', li_calls = 2, li_subtotalCents = 30\<rparr>,
                   \<lparr>li_endpoint = ''boleto'', li_calls = 1, li_subtotalCents = 12\<rparr>]"

theorem invoice_totals_match_lines_witness:
  "\<exists>iv. NewInvoice ''i1'' ''t1'' ''a1'' (fst sample_window) (snd sample_window) zero_time sample_lines
      = Inr iv \<and> inv_totalCents iv = 42 \<and> map li_endpoint (inv_lines iv) = [''boleto'', ''pix'']"
proof -
  have "NewInvoice ''i1'' ''t1'' ''a1'' (fst sample_window) (snd sample_window) zero_time sample_lines
    = Inr \<lparr>inv_id = ''i1'', inv_tenantID = ''t1'', inv_accountID = ''a1'',
        inv_periodStart = fst sample_window, inv_periodEnd = snd sample_window,
        inv_lines = sort_key li_endpoint sample_lines,
        inv_totalCalls = 3, inv_totalCents = 42, inv_generatedAt = zero_time\<rparr>"
    by (simp add: NewInvoice_def Let_def TrimSpace_plain plain_byte_def less_eq_char_def time_defs
        sample_window_def invoice_totals_0 sum_list_sort_key)
       (simp add: sample_lines_def in64_def max64_def min64_def)
  from invoice_totals_match_lines [OF this] this show ?thesis
    by (auto simp: sample_lines_def less_char_def less_eq_char_def Cons_less_Cons Cons_le_Cons)
qed

end
