(* ===== verification/Recurrence.thy ===== *)
theory Recurrence
  imports Payment
begin

text \<open>
  Package \<open>internal/domain/recurrence\<close>: the durable mandate (\<open>Rec\<close>) and the scheduled charge
  (\<open>CobR\<close>) of PIX Automatico, their two state machines, and the gates that decide whether a charge
  may be originated or settled against a mandate. The status types are Go strings, so each has a
  constructor for a value outside the closed vocabulary.
\<close>

section \<open>Status vocabularies\<close>

datatype rec_periodicidade =
  RecSemanal | RecMensal | RecTrimestral | RecSemestral | RecAnual | RecPeriodicidadeOther string

fun rec_periodicidade_valid :: "rec_periodicidade \<Rightarrow> bool" where
  "rec_periodicidade_valid (RecPeriodicidadeOther s) \<longleftrightarrow> False"
| "rec_periodicidade_valid p \<longleftrightarrow> True"

datatype rec_status =
  RecCriada | RecAprovada | RecRejeitada | RecExpirada | RecCancelada | RecStatusOther string

fun rec_status_valid :: "rec_status \<Rightarrow> bool" where
  "rec_status_valid (RecStatusOther s) \<longleftrightarrow> False"
| "rec_status_valid s \<longleftrightarrow> True"

definition rec_status_terminal :: "rec_status \<Rightarrow> bool" where
  "rec_status_terminal s \<longleftrightarrow> s = RecRejeitada \<or> s = RecExpirada \<or> s = RecCancelada"

definition recTransitions :: "rec_status \<Rightarrow> rec_status \<Rightarrow> bool" where
  "recTransitions s t \<longleftrightarrow>
     s = RecCriada \<and> (t = RecAprovada \<or> t = RecRejeitada \<or> t = RecExpirada \<or> t = RecCancelada) \<or>
     s = RecAprovada \<and> (t = RecCancelada \<or> t = RecExpirada)"

datatype cobr_status =
  CobRCriada | CobRAtiva | CobRConcluida | CobRExpirada | CobRRejeitada | CobRCancelada
  | CobRStatusOther string

fun cobr_status_valid :: "cobr_status \<Rightarrow> bool" where
  "cobr_status_valid (CobRStatusOther s) \<longleftrightarrow> False"
| "cobr_status_valid s \<longleftrightarrow> True"

definition cobr_status_terminal :: "cobr_status \<Rightarrow> bool" where
  "cobr_status_terminal s \<longleftrightarrow>
     s = CobRConcluida \<or> s = CobRExpirada \<or> s = CobRRejeitada \<or> s = CobRCancelada"

definition cobrTransitions :: "cobr_status \<Rightarrow> cobr_status \<Rightarrow> bool" where
  "cobrTransitions s t \<longleftrightarrow>
     s = CobRCriada \<and>
       (t = CobRAtiva \<or> t = CobRConcluida \<or> t = CobRExpirada \<or> t = CobRRejeitada \<or> t = CobRCancelada) \<or>
     s = CobRAtiva \<and>
       (t = CobRConcluida \<or> t = CobRExpirada \<or> t = CobRRejeitada \<or> t = CobRCancelada)"

section \<open>Mandates\<close>

record devedor =
  dv_doc :: string
  dv_nome :: string

definition NewDevedor :: "string \<Rightarrow> string \<Rightarrow> devedor result" where
  "NewDevedor doc nome =
     (let doc = TrimSpace doc; nome = TrimSpace nome
      in if length doc \<noteq> 11 \<and> length doc \<noteq> 14
         then Inl (NewValidationError ''devedor_doc'' ''must be an 11-digit CPF or 14-digit CNPJ'')
         else if \<not> list_all is_digit doc
         then Inl (NewValidationError ''devedor_doc'' ''must contain only digits'')
         else if nome = '''' then Inl (NewValidationError ''devedor_nome'' ''is required'')
         else Inr \<lparr>dv_doc = doc, dv_nome = nome\<rparr>)"

record rec =
  rc_idRec :: string
  rc_tenantID :: string
  rc_bankID :: string
  rc_contrato :: string
  rc_devedor :: devedor
  rc_dataInicial :: string
  rc_periodicidade :: rec_periodicidade
  rc_valorCents :: int
  rc_status :: rec_status
  rc_locID :: int
  rc_jornadaTxID :: string
  rc_createdAt :: gotime
  rc_updatedAt :: gotime

record new_rec_params =
  rp_IDRec :: string
  rp_TenantID :: string
  rp_BankID :: string
  rp_Contrato :: string
  rp_Devedor :: devedor
  rp_DataInicial :: string
  rp_Periodicidade :: rec_periodicidade
  rp_ValorCents :: int
  rp_LocID :: int
  rp_JornadaTxID :: string

definition NewRec :: "new_rec_params \<Rightarrow> gotime \<Rightarrow> rec result" where
  "NewRec p at =
     (let idRec = TrimSpace (rp_IDRec p); tenantID = TrimSpace (rp_TenantID p);
          bankID = TrimSpace (rp_BankID p); contrato = TrimSpace (rp_Contrato p)
      in if idRec = '''' then Inl (NewValidationError ''id_rec'' ''is required'')
         else if tenantID = '''' then Inl (NewValidationError ''tenant_id'' ''is required'')
         else if bankID = '''' then Inl (NewValidationError ''bank_id'' ''is required'')
         else if contrato = '''' then Inl (NewValidationError ''contrato'' ''is required'')
         else if rp_Devedor p = \<lparr>dv_doc = '''', dv_nome = ''''\<rparr>
         then Inl (NewValidationError ''devedor'' ''is required'')
         else if \<not> valid_date (rp_DataInicial p)
         then Inl (NewValidationError ''data_inicial'' ''must be a yyyy-MM-dd date'')
         else if \<not> rec_periodicidade_valid (rp_Periodicidade p)
         then Inl (NewValidationError ''periodicidade'' ''unknown periodicidade'')
         else if rp_ValorCents p < 0
         then Inl (NewValidationError ''valor_cents'' ''must not be negative'')
         else Inr \<lparr>rc_idRec = idRec, rc_tenantID = tenantID, rc_bankID = bankID,
                   rc_contrato = contrato, rc_devedor = rp_Devedor p,
                   rc_dataInicial = rp_DataInicial p, rc_periodicidade = rp_Periodicidade p,
                   rc_valorCents = rp_ValorCents p, rc_status = RecCriada, rc_locID = rp_LocID p,
                   rc_jornadaTxID = TrimSpace (rp_JornadaTxID p), rc_createdAt = at,
                   rc_updatedAt = at\<rparr>)"

definition RecTransition :: "rec \<Rightarrow> rec_status \<Rightarrow> gotime \<Rightarrow> rec result" where
  "RecTransition r to at =
     (if \<not> rec_status_valid to then Inl (NewValidationError ''status'' ''unknown rec status'')
      else if to = rc_status r then Inr r
      else if rec_status_terminal (rc_status r) \<or> \<not> recTransitions (rc_status r) to
      then Inl ErrInvalidTransition
      else Inr (r\<lparr>rc_status := to, rc_updatedAt := at\<rparr>))"

type_synonym rehydrate_rec_option = "rec \<Rightarrow> rec"

definition WithRecJourney :: "int \<Rightarrow> string \<Rightarrow> rehydrate_rec_option" where
  "WithRecJourney locID jornadaTxID r = r\<lparr>rc_locID := locID, rc_jornadaTxID := jornadaTxID\<rparr>"

definition RehydrateRec ::
  "string \<Rightarrow> string \<Rightarrow> string \<Rightarrow> string \<Rightarrow> devedor \<Rightarrow> string \<Rightarrow> rec_periodicidade \<Rightarrow> int \<Rightarrow> rec_status
     \<Rightarrow> gotime \<Rightarrow> gotime \<Rightarrow> rehydrate_rec_option list \<Rightarrow> rec" where
  "RehydrateRec idRec tenantID bankID contrato dev dataInicial periodicidade valorCents st
     createdAt updatedAt opts =
     fold (\<lambda>opt r. opt r) opts
       \<lparr>rc_idRec = idRec, rc_tenantID = tenantID, rc_bankID = bankID, rc_contrato = contrato,
        rc_devedor = dev, rc_dataInicial = dataInicial, rc_periodicidade = periodicidade,
        rc_valorCents = valorCents, rc_status = st, rc_locID = 0, rc_jornadaTxID = '''',
        rc_createdAt = createdAt, rc_updatedAt = updatedAt\<rparr>"

section \<open>Charges\<close>

record cobr =
  cr_txID :: string
  cr_idRec :: string
  cr_tenantID :: string
  cr_vencimento :: string
  cr_valorCents :: int
  cr_status :: cobr_status
  cr_createdAt :: gotime
  cr_updatedAt :: gotime

record new_cobr_params =
  cp_TxID :: string
  cp_IDRec :: string
  cp_TenantID :: string
  cp_Vencimento :: string
  cp_ValorCents :: int

definition NewCobR :: "new_cobr_params \<Rightarrow> gotime \<Rightarrow> cobr result" where
  "NewCobR p at =
     (let txID = TrimSpace (cp_TxID p); idRec = TrimSpace (cp_IDRec p);
          tenantID = TrimSpace (cp_TenantID p)
      in if txID = '''' then Inl (NewValidationError ''tx_id'' ''is required'')
         else if idRec = '''' then Inl (NewValidationError ''id_rec'' ''is required'')
         else if tenantID = '''' then Inl (NewValidationError ''tenant_id'' ''is required'')
         else if \<not> valid_date (cp_Vencimento p)
         then Inl (NewValidationError ''vencimento'' ''must be a yyyy-MM-dd date'')
         else if cp_ValorCents p \<le> 0
         then Inl (NewValidationError ''valor_cents'' ''must be greater than zero'')
         else Inr \<lparr>cr_txID = txID, cr_idRec = idRec, cr_tenantID = tenantID,
                   cr_vencimento = cp_Vencimento p, cr_valorCents = cp_ValorCents p,
                   cr_status = CobRCriada, cr_createdAt = at, cr_updatedAt = at\<rparr>)"

definition CobRTransition :: "cobr \<Rightarrow> cobr_status \<Rightarrow> gotime \<Rightarrow> cobr result" where
  "CobRTransition c to at =
     (if \<not> cobr_status_valid to then Inl (NewValidationError ''status'' ''unknown cobr status'')
      else if to = cr_status c then Inr c
      else if cobr_status_terminal (cr_status c) \<or> \<not> cobrTransitions (cr_status c) to
      then Inl ErrInvalidTransition
      else Inr (c\<lparr>cr_status := to, cr_updatedAt := at\<rparr>))"

definition RehydrateCobR ::
  "string \<Rightarrow> string \<Rightarrow> string \<Rightarrow> string \<Rightarrow> int \<Rightarrow> cobr_status \<Rightarrow> gotime \<Rightarrow> gotime \<Rightarrow> cobr" where
  "RehydrateCobR txID idRec tenantID vencimento valorCents st createdAt updatedAt =
     \<lparr>cr_txID = txID, cr_idRec = idRec, cr_tenantID = tenantID, cr_vencimento = vencimento,
      cr_valorCents = valorCents, cr_status = st, cr_createdAt = createdAt, cr_updatedAt = updatedAt\<rparr>"

section \<open>Gates\<close>

text \<open>A nil \<open>*Rec\<close> is \<open>None\<close>.\<close>

definition RequireApprovedMandate :: "rec option \<Rightarrow> string \<Rightarrow> string \<Rightarrow> unit result" where
  "RequireApprovedMandate ro tenantID idRec =
     (case ro of
        None \<Rightarrow> Inl ErrMandateNotFound
      | Some r \<Rightarrow>
          if rc_tenantID r \<noteq> tenantID \<or> rc_idRec r \<noteq> idRec then Inl ErrMandateMismatch
          else if rc_status r \<noteq> RecAprovada then Inl ErrMandateNotApproved
          else Inr ())"

definition RequireWithinAuthorizedValue :: "rec option \<Rightarrow> int \<Rightarrow> unit result" where
  "RequireWithinAuthorizedValue ro chargeCents =
     (case ro of
        None \<Rightarrow> Inl ErrMandateNotFound
      | Some r \<Rightarrow>
          if rc_valorCents r > 0 \<and> chargeCents > rc_valorCents r then Inl ErrChargeExceedsMandate
          else Inr ())"

section \<open>An event stream applied to an aggregate\<close>

text \<open>
  A stream of status notifications, each applied with the aggregate's transition; a refused one
  leaves the aggregate as it is.
\<close>

fun apply_events :: "('a \<Rightarrow> 's \<Rightarrow> gotime \<Rightarrow> 'a result) \<Rightarrow> 'a \<Rightarrow> ('s \<times> gotime) list \<Rightarrow> 'a" where
  "apply_events tr a [] = a"
| "apply_events tr a ((s, at) # es) =
     apply_events tr (case tr a s at of Inl e \<Rightarrow> a | Inr b \<Rightarrow> b) es"

text \<open>
  The contract both transition functions meet: a guarded update that follows an edge relation which
  climbs a rank and never leaves a terminal status.
\<close>

locale lifecycle =
  fixes trans :: "'a \<Rightarrow> 's \<Rightarrow> gotime \<Rightarrow> 'a result"
    and stat :: "'a \<Rightarrow> 's"
    and terminal :: "'s \<Rightarrow> bool"
    and edge :: "'s \<Rightarrow> 's \<Rightarrow> bool"
    and rank :: "'s \<Rightarrow> nat"
  assumes trans_status: "trans a s at = Inr b \<Longrightarrow> stat b = s"
    and trans_same: "trans a s at = Inr b \<Longrightarrow> s = stat a \<Longrightarrow> b = a"
    and trans_edge: "trans a s at = Inr b \<Longrightarrow> s \<noteq> stat a \<Longrightarrow> edge (stat a) s"
    and trans_enabled: "edge (stat a) s \<Longrightarrow> \<exists>b. trans a s at = Inr b"
    and edge_terminal: "terminal s \<Longrightarrow> \<not> edge s t"
    and edge_rank: "edge s t \<Longrightarrow> rank s < rank t"
begin

lemma trans_rank: "trans a s at = Inr b \<Longrightarrow> b = a \<or> rank (stat a) < rank (stat b)"
  using trans_status trans_same trans_edge edge_rank by metis

lemma trans_terminal: "terminal (stat a) \<Longrightarrow> trans a s at = Inr b \<Longrightarrow> b = a"
  using trans_status trans_same trans_edge edge_terminal by metis

lemma events_terminal: "terminal (stat a) \<Longrightarrow> apply_events trans a es = a"
proof (induction es)
  case (Cons e es)
  obtain s at where e: "e = (s, at)" by fastforce
  have "(case trans a s at of Inl x \<Rightarrow> a | Inr b \<Rightarrow> b) = a"
    using trans_terminal [OF Cons.prems, of s at] by (auto split: sum.split)
  with Cons show ?case by (simp add: e)
qed simp

text \<open>A status that is reached was carried by one of the notifications.\<close>

lemma events_reach:
  "stat a \<noteq> u \<Longrightarrow> stat (apply_events trans a es) = u \<Longrightarrow> u \<in> fst ` set es"
proof (induction es arbitrary: a)
  case (Cons e es)
  obtain s at where e: "e = (s, at)" by fastforce
  show ?case
  proof (cases "trans a s at")
    case (Inl x)
    with Cons show ?thesis by (auto simp: e)
  next
    case (Inr b)
    with Cons trans_status [OF Inr] show ?thesis by (cases "s = u") (auto simp: e)
  qed
qed simp

lemma events_rank: "apply_events trans a es = a \<or> rank (stat a) < rank (stat (apply_events trans a es))"
proof (induction es arbitrary: a)
  case (Cons e es)
  obtain s at where e: "e = (s, at)" by fastforce
  show ?case
  proof (cases "trans a s at")
    case (Inl x)
    then show ?thesis using Cons by (simp add: e)
  next
    case (Inr b)
    then show ?thesis using Cons [of b] trans_rank [OF Inr] by (auto simp: e)
  qed
qed simp

lemma events_append: "apply_events trans a (xs @ ys) = apply_events trans (apply_events trans a xs) ys"
  by (induction trans a xs rule: apply_events.induct) auto

lemma redelivery: "trans a s at = Inr b \<Longrightarrow> trans b s at' = Inr c \<Longrightarrow> c = b"
  using trans_status trans_same by metis

end

fun rec_rank :: "rec_status \<Rightarrow> nat" where
  "rec_rank RecCriada = 0"
| "rec_rank RecAprovada = 1"
| "rec_rank _ = 2"

fun cobr_rank :: "cobr_status \<Rightarrow> nat" where
  "cobr_rank CobRCriada = 0"
| "cobr_rank CobRAtiva = 1"
| "cobr_rank _ = 2"

lemma recTransitions_valid: "recTransitions s t \<Longrightarrow> rec_status_valid t \<and> s \<noteq> t"
  by (auto simp: recTransitions_def)

lemma cobrTransitions_valid: "cobrTransitions s t \<Longrightarrow> cobr_status_valid t \<and> s \<noteq> t"
  by (auto simp: cobrTransitions_def)

interpretation rec_life: lifecycle RecTransition rc_status rec_status_terminal recTransitions rec_rank
proof
  show "recTransitions (rc_status a) s \<Longrightarrow> \<exists>b. RecTransition a s at = Inr b" for a s at
    using recTransitions_valid [of "rc_status a" s]
    by (auto simp: RecTransition_def rec_status_terminal_def recTransitions_def)
qed (auto simp: RecTransition_def rec_status_terminal_def recTransitions_def split: if_splits)

interpretation cobr_life: lifecycle CobRTransition cr_status cobr_status_terminal cobrTransitions cobr_rank
proof
  show "cobrTransitions (cr_status a) s \<Longrightarrow> \<exists>b. CobRTransition a s at = Inr b" for a s at
    using cobrTransitions_valid [of "cr_status a" s]
    by (auto simp: CobRTransition_def cobr_status_terminal_def cobrTransitions_def)
qed (auto simp: CobRTransition_def cobr_status_terminal_def cobrTransitions_def split: if_splits)

lemma RecTransition_frame:
  "RecTransition r s at = Inr r' \<Longrightarrow> r' = r \<or> r' = r\<lparr>rc_status := s, rc_updatedAt := at\<rparr>"
  by (auto simp: RecTransition_def split: if_splits)

text \<open>Notifications change nothing of a mandate but its status and its time of update.\<close>

lemma rec_events_frame:
  "\<exists>st at. apply_events RecTransition r es = r\<lparr>rc_status := st, rc_updatedAt := at\<rparr>"
proof (induction es arbitrary: r)
  case Nil
  show ?case by (intro exI [of _ "rc_status r"] exI [of _ "rc_updatedAt r"]) simp
next
  case (Cons e es)
  obtain s at where e: "e = (s, at)" by fastforce
  show ?case
  proof (cases "RecTransition r s at")
    case (Inl x)
    with Cons show ?thesis by (simp add: e)
  next
    case (Inr r')
    obtain st' at' where "apply_events RecTransition r' es = r'\<lparr>rc_status := st', rc_updatedAt := at'\<rparr>"
      using Cons by blast
    with RecTransition_frame [OF Inr] Inr show ?thesis
      by (intro exI [of _ st'] exI [of _ at']) (auto simp: e)
  qed
qed

lemma NewRec_fields:
  assumes "NewRec p at = Inr r"
  shows "rc_status r = RecCriada" "rc_tenantID r = TrimSpace (rp_TenantID p)"
    "rc_idRec r = TrimSpace (rp_IDRec p)"
  using assms by (auto simp: NewRec_def Let_def split: if_splits)

lemma RequireApprovedMandate_iff:
  "RequireApprovedMandate ro t i = Inr () \<longleftrightarrow>
     (\<exists>r. ro = Some r \<and> rc_tenantID r = t \<and> rc_idRec r = i \<and> rc_status r = RecAprovada)"
  by (auto simp: RequireApprovedMandate_def split: option.splits)

lemma RequireWithinAuthorizedValue_iff:
  "RequireWithinAuthorizedValue ro v = Inr () \<longleftrightarrow>
     (\<exists>r. ro = Some r \<and> (rc_valorCents r \<le> 0 \<or> v \<le> rc_valorCents r))"
  by (auto simp: RequireWithinAuthorizedValue_def split: option.splits)

lemma gate_needs_approval:
  assumes "NewRec p at = Inr r"
    and "RequireApprovedMandate (Some (apply_events RecTransition r es)) t i = Inr ()"
  shows "t = TrimSpace (rp_TenantID p) \<and> i = TrimSpace (rp_IDRec p) \<and> RecAprovada \<in> fst ` set es"
proof -
  obtain st' at' where ev: "apply_events RecTransition r es = r\<lparr>rc_status := st', rc_updatedAt := at'\<rparr>"
    using rec_events_frame by blast
  have "RecAprovada \<in> fst ` set es"
    using assms NewRec_fields(1) [OF assms(1)]
    by (intro rec_life.events_reach [of r]) (auto simp: RequireApprovedMandate_iff)
  with assms NewRec_fields [OF assms(1)] ev show ?thesis by (auto simp: RequireApprovedMandate_iff)
qed

section \<open>Properties\<close>

text \<open>
  the mandate and charge lifecycles resist any stream of notifications. Whatever statuses a
  stream of notifications carries, in whatever order and however often repeated: a terminal
  mandate or charge never moves again (a settled charge is never un-settled); a mandate or charge
  that did move is strictly further in its lifecycle, so it never returns to an earlier status; and
  delivering the same status twice is the same as delivering it once.
\<close>

theorem lifecycles_resist_replay:
  "(rec_status_terminal (rc_status r) \<longrightarrow> apply_events RecTransition r es = r) \<and>
   (cobr_status_terminal (cr_status c) \<longrightarrow> apply_events CobRTransition c fs = c) \<and>
   (apply_events RecTransition r es = r \<or>
      rec_rank (rc_status r) < rec_rank (rc_status (apply_events RecTransition r es))) \<and>
   (apply_events CobRTransition c fs = c \<or>
      cobr_rank (cr_status c) < cobr_rank (cr_status (apply_events CobRTransition c fs))) \<and>
   (\<forall>r'. RecTransition r s at = Inr r' \<longrightarrow> RecTransition r' s at' = Inr r') \<and>
   (\<forall>c'. CobRTransition c u at = Inr c' \<longrightarrow> CobRTransition c' u at' = Inr c')"
  using rec_life.events_terminal cobr_life.events_terminal rec_life.events_rank
    cobr_life.events_rank
  by (auto simp: RecTransition_def CobRTransition_def split: if_splits)

theorem lifecycles_resist_replay_witness:
  "apply_events CobRTransition \<lparr>cr_txID = ''tx'', cr_idRec = ''r'', cr_tenantID = ''t'',
      cr_vencimento = ''2026-01-31'', cr_valorCents = 5, cr_status = CobRConcluida,
      cr_createdAt = zero_time, cr_updatedAt = zero_time\<rparr>
      [(CobRCancelada, zero_time), (CobRAtiva, zero_time)]
   = \<lparr>cr_txID = ''tx'', cr_idRec = ''r'', cr_tenantID = ''t'',
      cr_vencimento = ''2026-01-31'', cr_valorCents = 5, cr_status = CobRConcluida,
      cr_createdAt = zero_time, cr_updatedAt = zero_time\<rparr>"
  using lifecycles_resist_replay
    [of undefined "[]" "\<lparr>cr_txID = ''tx'', cr_idRec = ''r'', cr_tenantID = ''t'',
      cr_vencimento = ''2026-01-31'', cr_valorCents = 5, cr_status = CobRConcluida,
      cr_createdAt = zero_time, cr_updatedAt = zero_time\<rparr>"
      "[(CobRCancelada, zero_time), (CobRAtiva, zero_time)]"]
  by (simp add: cobr_status_terminal_def)

text \<open>
  the charge gates. The referential gate passes exactly when a mandate is loaded, belongs to
  that tenant and \<open>idRec\<close>, and is APROVADA; the value gate then passes exactly when the charge does
  not exceed a fixed mandate's value (a mandate of value 0 has no ceiling). A mandate that was
  registered and then received any stream of notifications lets a charge through only for the
  tenant and \<open>idRec\<close> it was registered with, and only if one of the notifications approved it.
\<close>

theorem charge_gates:
  "(RequireApprovedMandate ro t i = Inr () \<longleftrightarrow>
      (\<exists>r. ro = Some r \<and> rc_tenantID r = t \<and> rc_idRec r = i \<and> rc_status r = RecAprovada)) \<and>
   (RequireWithinAuthorizedValue ro v = Inr () \<longleftrightarrow>
      (\<exists>r. ro = Some r \<and> (rc_valorCents r \<le> 0 \<or> v \<le> rc_valorCents r))) \<and>
   (\<forall>p at r es. NewRec p at = Inr r \<longrightarrow>
      RequireApprovedMandate (Some (apply_events RecTransition r es)) t i = Inr () \<longrightarrow>
        t = TrimSpace (rp_TenantID p) \<and> i = TrimSpace (rp_IDRec p) \<and> RecAprovada \<in> fst ` set es)"
  by (intro conjI allI impI RequireApprovedMandate_iff RequireWithinAuthorizedValue_iff)
     (blast dest: gate_needs_approval)+

definition sample_rec_params :: new_rec_params where
  "sample_rec_params = \<lparr>rp_IDRec = ''RR1'', rp_TenantID = ''t1'', rp_BankID = ''c6'',
     rp_Contrato = ''k'', rp_Devedor = \<lparr>dv_doc = ''12345678901'', dv_nome = ''Ana''\<rparr>,
     rp_DataInicial = ''2026-01-31'', rp_Periodicidade = RecMensal, rp_ValorCents = 100,
     rp_LocID = 0, rp_JornadaTxID = []\<rparr>"

definition sample_rec :: rec where
  "sample_rec = \<lparr>rc_idRec = ''RR1'', rc_tenantID = ''t1'', rc_bankID = ''c6'', rc_contrato = ''k'',
     rc_devedor = \<lparr>dv_doc = ''12345678901'', dv_nome = ''Ana''\<rparr>, rc_dataInicial = ''2026-01-31'',
     rc_periodicidade = RecMensal, rc_valorCents = 100, rc_status = RecCriada, rc_locID = 0,
     rc_jornadaTxID = [], rc_createdAt = zero_time, rc_updatedAt = zero_time\<rparr>"

lemma sample_rec_new: "NewRec sample_rec_params zero_time = Inr sample_rec"
proof -
  have "valid_date ''2026-01-31''"
    by (simp add: valid_date_def is_digit_def less_eq_char_def days_in_def)
  then show ?thesis
    by (simp add: NewRec_def sample_rec_params_def sample_rec_def TrimSpace_plain plain_byte_def
        less_eq_char_def)
qed

theorem charge_gates_witness:
  "NewRec sample_rec_params zero_time = Inr sample_rec \<and>
   RequireApprovedMandate (Some (apply_events RecTransition sample_rec
      [(RecAprovada, zero_time), (RecCriada, zero_time)])) ''t1'' ''RR1'' = Inr () \<and>
   ''t1'' = TrimSpace (rp_TenantID sample_rec_params)"
proof -
  have g: "RequireApprovedMandate (Some (apply_events RecTransition sample_rec
      [(RecAprovada, zero_time), (RecCriada, zero_time)])) ''t1'' ''RR1'' = Inr ()"
    by (simp add: RecTransition_def sample_rec_def recTransitions_def rec_status_terminal_def
        RequireApprovedMandate_def)
  show ?thesis
    using charge_gates [of _ "''t1''" "''RR1''"] sample_rec_new g by blast
qed

end
