(* ===== verification/AuditTrail.thy ===== *)
theory AuditTrail
  imports Tenancy Recurrence
begin

text \<open>
  Package \<open>internal/domain/audit\<close>: the append-only trail of privileged and system actions. An
  \<open>Action\<close> is a Go string with a closed vocabulary; \<open>ActionOther\<close> stands for a value outside it.
  Each constructor of the package is one definition; no other code builds an \<open>Entry\<close>, since its
  fields are unexported.
\<close>

section \<open>Definitions\<close>

datatype action =
    ActionCreateTenant
  | ActionSetEndpointPrice
  | ActionSetBankCredential
  | ActionSetCreditorKey
  | ActionSuspendTenant
  | ActionActivateTenant
  | ActionRenameTenant
  | ActionRenameAccount
  | ActionSuspendAccount
  | ActionActivateAccount
  | ActionRemoveBankConfig
  | ActionSettlementAmountMismatch
  | ActionRecCreated
  | ActionRecApproved
  | ActionRecRejected
  | ActionRecExpired
  | ActionRecCancelled
  | ActionCobRCreated
  | ActionCobRCancelled
  | ActionSetBankCertificate
  | ActionInvoiceGenerated
  | ActionMintAccountKey
  | ActionSetOutboundWebhook
  | ActionRotateOutboundWebhookSecret
  | ActionRemoveOutboundWebhook
  | ActionOutboundWebhookDelivered
  | ActionOutboundWebhookDeadLettered
  | ActionOther string

fun action_valid :: "action \<Rightarrow> bool" where
  "action_valid (ActionOther s) \<longleftrightarrow> False"
| "action_valid a \<longleftrightarrow> True"

definition recurrenceActionByStatus :: "string \<Rightarrow> action option" where
  "recurrenceActionByStatus s =
     (if s = ''CRIADA'' then Some ActionRecCreated
      else if s = ''APROVADA'' then Some ActionRecApproved
      else if s = ''REJEITADA'' then Some ActionRecRejected
      else if s = ''EXPIRADA'' then Some ActionRecExpired
      else if s = ''CANCELADA'' then Some ActionRecCancelled
      else None)"

record entry =
  au_id :: string
  au_operatorID :: string
  au_action :: action
  au_tenantID :: string
  au_at :: gotime
  au_txID :: string
  au_expectedCents :: int
  au_receivedCents :: int
  au_bankID :: string
  au_accountID :: string
  au_origin :: string

text \<open>A composite literal sets the named fields; the others keep their zero values.\<close>

definition zero_entry :: "string \<Rightarrow> string \<Rightarrow> action \<Rightarrow> gotime \<Rightarrow> entry" where
  "zero_entry aid operatorID act at =
     \<lparr>au_id = aid, au_operatorID = operatorID, au_action = act, au_tenantID = [], au_at = at,
      au_txID = [], au_expectedCents = 0, au_receivedCents = 0, au_bankID = [], au_accountID = [],
      au_origin = []\<rparr>"

abbreviation id_required :: go_error where
  "id_required \<equiv> NewValidationError ''id'' ''audit entry id is required''"

abbreviation tenant_required :: go_error where
  "tenant_required \<equiv> NewValidationError ''tenant_id'' ''tenant id is required''"

abbreviation account_required :: go_error where
  "account_required \<equiv> NewValidationError ''account_id'' ''account id is required''"

abbreviation bank_required :: go_error where
  "bank_required \<equiv> NewValidationError ''bank_id'' ''bank id is required''"

abbreviation tx_required :: go_error where
  "tx_required \<equiv> NewValidationError ''tx_id'' ''tx id is required''"

definition NewEntry :: "string \<Rightarrow> string \<Rightarrow> action \<Rightarrow> string \<Rightarrow> gotime \<Rightarrow> entry result" where
  "NewEntry aid operatorID act tenantID at =
     (let aid = TrimSpace aid; tenantID = TrimSpace tenantID
      in if aid = [] then Inl id_required
         else if \<not> action_valid act then Inl (NewValidationError ''action'' ''unknown audit action'')
         else if tenantID = [] then Inl tenant_required
         else Inr ((zero_entry aid (TrimSpace operatorID) act at)\<lparr>au_tenantID := tenantID\<rparr>))"

fun accountActionValid :: "action \<Rightarrow> bool" where
  "accountActionValid ActionRenameAccount \<longleftrightarrow> True"
| "accountActionValid ActionSuspendAccount \<longleftrightarrow> True"
| "accountActionValid ActionActivateAccount \<longleftrightarrow> True"
| "accountActionValid _ \<longleftrightarrow> False"

definition NewAccountActionEntry ::
  "string \<Rightarrow> string \<Rightarrow> action \<Rightarrow> string \<Rightarrow> gotime \<Rightarrow> entry result" where
  "NewAccountActionEntry aid operatorID act accountID at =
     (let aid = TrimSpace aid; accountID = TrimSpace accountID
      in if aid = [] then Inl id_required
         else if \<not> accountActionValid act
         then Inl (NewValidationError ''action'' ''unknown account audit action'')
         else if accountID = [] then Inl account_required
         else Inr ((zero_entry aid (TrimSpace operatorID) act at)\<lparr>au_accountID := accountID\<rparr>))"

definition NewAccountKeyMintEntry :: "string \<Rightarrow> string \<Rightarrow> string \<Rightarrow> gotime \<Rightarrow> entry result" where
  "NewAccountKeyMintEntry aid operatorID accountID at =
     (let aid = TrimSpace aid; accountID = TrimSpace accountID
      in if aid = [] then Inl id_required
         else if accountID = [] then Inl account_required
         else Inr ((zero_entry aid (TrimSpace operatorID) ActionMintAccountKey at)
                     \<lparr>au_accountID := accountID\<rparr>))"

fun outboundWebhookActionValid :: "action \<Rightarrow> bool" where
  "outboundWebhookActionValid ActionSetOutboundWebhook \<longleftrightarrow> True"
| "outboundWebhookActionValid ActionRotateOutboundWebhookSecret \<longleftrightarrow> True"
| "outboundWebhookActionValid ActionRemoveOutboundWebhook \<longleftrightarrow> True"
| "outboundWebhookActionValid _ \<longleftrightarrow> False"

definition NewOutboundWebhookEntry ::
  "string \<Rightarrow> string \<Rightarrow> action \<Rightarrow> string \<Rightarrow> gotime \<Rightarrow> entry result" where
  "NewOutboundWebhookEntry aid operatorID act accountID at =
     (let aid = TrimSpace aid; accountID = TrimSpace accountID
      in if aid = [] then Inl id_required
         else if \<not> outboundWebhookActionValid act
         then Inl (NewValidationError ''action'' ''unknown outbound webhook audit action'')
         else if accountID = [] then Inl account_required
         else Inr ((zero_entry aid (TrimSpace operatorID) act at)\<lparr>au_accountID := accountID\<rparr>))"

fun outboundDeliveryActionValid :: "action \<Rightarrow> bool" where
  "outboundDeliveryActionValid ActionOutboundWebhookDelivered \<longleftrightarrow> True"
| "outboundDeliveryActionValid ActionOutboundWebhookDeadLettered \<longleftrightarrow> True"
| "outboundDeliveryActionValid _ \<longleftrightarrow> False"

definition NewOutboundDeliveryEntry ::
  "string \<Rightarrow> string \<Rightarrow> action \<Rightarrow> string \<Rightarrow> string \<Rightarrow> gotime \<Rightarrow> entry result" where
  "NewOutboundDeliveryEntry aid operatorID act accountID eventKey at =
     (let aid = TrimSpace aid; accountID = TrimSpace accountID
      in if aid = [] then Inl id_required
         else if \<not> outboundDeliveryActionValid act
         then Inl (NewValidationError ''action'' ''unknown outbound delivery audit action'')
         else if accountID = [] then Inl account_required
         else Inr ((zero_entry aid (TrimSpace operatorID) act at)
                     \<lparr>au_txID := TrimSpace eventKey, au_accountID := accountID\<rparr>))"

definition NewBankConfigRemovedEntry ::
  "string \<Rightarrow> string \<Rightarrow> string \<Rightarrow> string \<Rightarrow> gotime \<Rightarrow> entry result" where
  "NewBankConfigRemovedEntry aid operatorID tenantID bankID at =
     (let aid = TrimSpace aid; tenantID = TrimSpace tenantID; bankID = TrimSpace bankID
      in if aid = [] then Inl id_required
         else if tenantID = [] then Inl tenant_required
         else if bankID = [] then Inl bank_required
         else Inr ((zero_entry aid (TrimSpace operatorID) ActionRemoveBankConfig at)
                     \<lparr>au_tenantID := tenantID, au_bankID := bankID\<rparr>))"

definition NewCredentialSetEntry ::
  "string \<Rightarrow> string \<Rightarrow> string \<Rightarrow> string \<Rightarrow> gotime \<Rightarrow> entry result" where
  "NewCredentialSetEntry aid operatorID tenantID bankID at =
     (let aid = TrimSpace aid; tenantID = TrimSpace tenantID; bankID = TrimSpace bankID
      in if aid = [] then Inl id_required
         else if tenantID = [] then Inl tenant_required
         else if bankID = [] then Inl bank_required
         else Inr ((zero_entry aid (TrimSpace operatorID) ActionSetBankCredential at)
                     \<lparr>au_tenantID := tenantID, au_bankID := bankID\<rparr>))"

definition OriginAdmin :: string where "OriginAdmin = ''admin''"
definition OriginSelfServe :: string where "OriginSelfServe = ''self-serve''"

definition NewSelfServeCredentialSetEntry ::
  "string \<Rightarrow> string \<Rightarrow> string \<Rightarrow> string \<Rightarrow> gotime \<Rightarrow> entry result" where
  "NewSelfServeCredentialSetEntry aid operatorID tenantID bankID at =
     bindE (NewCredentialSetEntry aid operatorID tenantID bankID at)
       (\<lambda>e. Inr (e\<lparr>au_origin := OriginSelfServe\<rparr>))"

definition NewCreditorKeySetEntry ::
  "string \<Rightarrow> string \<Rightarrow> string \<Rightarrow> string \<Rightarrow> gotime \<Rightarrow> entry result" where
  "NewCreditorKeySetEntry aid operatorID tenantID bankID at =
     (let aid = TrimSpace aid; tenantID = TrimSpace tenantID; bankID = TrimSpace bankID
      in if aid = [] then Inl id_required
         else if tenantID = [] then Inl tenant_required
         else if bankID = [] then Inl bank_required
         else Inr ((zero_entry aid (TrimSpace operatorID) ActionSetCreditorKey at)
                     \<lparr>au_tenantID := tenantID, au_bankID := bankID\<rparr>))"

definition NewCertificateSetEntry ::
  "string \<Rightarrow> string \<Rightarrow> string \<Rightarrow> string \<Rightarrow> string \<Rightarrow> gotime \<Rightarrow> entry result" where
  "NewCertificateSetEntry aid operatorID tenantID bankID fingerprint at =
     (let aid = TrimSpace aid; tenantID = TrimSpace tenantID; bankID = TrimSpace bankID;
          fingerprint = TrimSpace fingerprint
      in if aid = [] then Inl id_required
         else if tenantID = [] then Inl tenant_required
         else if bankID = [] then Inl bank_required
         else if fingerprint = []
         then Inl (NewValidationError ''fingerprint'' ''certificate fingerprint is required'')
         else Inr ((zero_entry aid (TrimSpace operatorID) ActionSetBankCertificate at)
                     \<lparr>au_tenantID := tenantID, au_txID := fingerprint, au_bankID := bankID\<rparr>))"

definition NewSelfServeCertificateSetEntry ::
  "string \<Rightarrow> string \<Rightarrow> string \<Rightarrow> string \<Rightarrow> string \<Rightarrow> gotime \<Rightarrow> entry result" where
  "NewSelfServeCertificateSetEntry aid operatorID tenantID bankID fingerprint at =
     bindE (NewCertificateSetEntry aid operatorID tenantID bankID fingerprint at)
       (\<lambda>e. Inr (e\<lparr>au_origin := OriginSelfServe\<rparr>))"

definition NewSettlementMismatchEntry ::
  "string \<Rightarrow> string \<Rightarrow> string \<Rightarrow> string \<Rightarrow> int \<Rightarrow> int \<Rightarrow> gotime \<Rightarrow> entry result" where
  "NewSettlementMismatchEntry aid operatorID tenantID txID expectedCents receivedCents at =
     (let aid = TrimSpace aid; tenantID = TrimSpace tenantID; txID = TrimSpace txID
      in if aid = [] then Inl id_required
         else if tenantID = [] then Inl tenant_required
         else if txID = [] then Inl tx_required
         else Inr ((zero_entry aid (TrimSpace operatorID) ActionSettlementAmountMismatch at)
                     \<lparr>au_tenantID := tenantID, au_txID := txID, au_expectedCents := expectedCents,
                      au_receivedCents := receivedCents\<rparr>))"

definition NewRecurrenceTransitionEntry ::
  "string \<Rightarrow> string \<Rightarrow> string \<Rightarrow> string \<Rightarrow> string \<Rightarrow> gotime \<Rightarrow> entry result" where
  "NewRecurrenceTransitionEntry aid operatorID tenantID idRec toStatus at =
     (let aid = TrimSpace aid; tenantID = TrimSpace tenantID; idRec = TrimSpace idRec
      in if aid = [] then Inl id_required
         else if tenantID = [] then Inl tenant_required
         else if idRec = [] then Inl (NewValidationError ''id_rec'' ''id rec is required'')
         else (case recurrenceActionByStatus (TrimSpace toStatus) of
                 None \<Rightarrow> Inl (NewValidationError ''status'' ''unknown recurrence transition status'')
               | Some act \<Rightarrow>
                   Inr ((zero_entry aid (TrimSpace operatorID) act at)
                          \<lparr>au_tenantID := tenantID, au_txID := idRec\<rparr>)))"

definition NewCobROriginationEntry ::
  "string \<Rightarrow> string \<Rightarrow> string \<Rightarrow> string \<Rightarrow> gotime \<Rightarrow> entry result" where
  "NewCobROriginationEntry aid operatorID tenantID txID at =
     (let aid = TrimSpace aid; tenantID = TrimSpace tenantID; txID = TrimSpace txID
      in if aid = [] then Inl id_required
         else if tenantID = [] then Inl tenant_required
         else if txID = [] then Inl tx_required
         else Inr ((zero_entry aid (TrimSpace operatorID) ActionCobRCreated at)
                     \<lparr>au_tenantID := tenantID, au_txID := txID\<rparr>))"

definition NewCobRCancellationEntry ::
  "string \<Rightarrow> string \<Rightarrow> string \<Rightarrow> string \<Rightarrow> gotime \<Rightarrow> entry result" where
  "NewCobRCancellationEntry aid operatorID tenantID txID at =
     (let aid = TrimSpace aid; tenantID = TrimSpace tenantID; txID = TrimSpace txID
      in if aid = [] then Inl id_required
         else if tenantID = [] then Inl tenant_required
         else if txID = [] then Inl tx_required
         else Inr ((zero_entry aid (TrimSpace operatorID) ActionCobRCancelled at)
                     \<lparr>au_tenantID := tenantID, au_txID := txID\<rparr>))"

definition EntryAccountID :: "entry \<Rightarrow> string" where
  "EntryAccountID e = (if au_accountID e \<noteq> [] then au_accountID e else SelfAccountID (au_tenantID e))"

definition EntryOrigin :: "entry \<Rightarrow> string" where
  "EntryOrigin e = (if au_origin e = [] then OriginAdmin else au_origin e)"

text \<open>The entries the package can produce.\<close>

inductive audit_built :: "entry \<Rightarrow> bool" where
  built_0: "NewEntry a o1 act t at = Inr e \<Longrightarrow> audit_built e"
| built_1: "NewAccountActionEntry a o1 act t at = Inr e \<Longrightarrow> audit_built e"
| built_2: "NewAccountKeyMintEntry a o1 t at = Inr e \<Longrightarrow> audit_built e"
| built_3: "NewOutboundWebhookEntry a o1 act t at = Inr e \<Longrightarrow> audit_built e"
| built_4: "NewOutboundDeliveryEntry a o1 act t k at = Inr e \<Longrightarrow> audit_built e"
| built_5: "NewBankConfigRemovedEntry a o1 t b at = Inr e \<Longrightarrow> audit_built e"
| built_6: "NewCredentialSetEntry a o1 t b at = Inr e \<Longrightarrow> audit_built e"
| built_7: "NewSelfServeCredentialSetEntry a o1 t b at = Inr e \<Longrightarrow> audit_built e"
| built_8: "NewCreditorKeySetEntry a o1 t b at = Inr e \<Longrightarrow> audit_built e"
| built_9: "NewCertificateSetEntry a o1 t b f at = Inr e \<Longrightarrow> audit_built e"
| built_10: "NewSelfServeCertificateSetEntry a o1 t b f at = Inr e \<Longrightarrow> audit_built e"
| built_11: "NewSettlementMismatchEntry a o1 t x c d at = Inr e \<Longrightarrow> audit_built e"
| built_12: "NewRecurrenceTransitionEntry a o1 t x st at = Inr e \<Longrightarrow> audit_built e"
| built_13: "NewCobROriginationEntry a o1 t x at = Inr e \<Longrightarrow> audit_built e"
| built_14: "NewCobRCancellationEntry a o1 t x at = Inr e \<Longrightarrow> audit_built e"

lemmas audit_ctors [ctor_simps] =
  NewEntry_def
  NewAccountActionEntry_def
  NewAccountKeyMintEntry_def
  NewOutboundWebhookEntry_def
  NewOutboundDeliveryEntry_def
  NewBankConfigRemovedEntry_def
  NewCredentialSetEntry_def
  NewSelfServeCredentialSetEntry_def
  NewCreditorKeySetEntry_def
  NewCertificateSetEntry_def
  NewSelfServeCertificateSetEntry_def
  NewSettlementMismatchEntry_def
  NewRecurrenceTransitionEntry_def
  NewCobROriginationEntry_def
  NewCobRCancellationEntry_def

text \<open>
  The shapes an entry can have, written without the constructors: about an account, about a tenant as such, or
  about something of a tenant (a bank, a certificate, a settlement, a mandate or one of its charges).
\<close>

definition named :: "string \<Rightarrow> bool" where
  "named s \<longleftrightarrow> trimmed s \<and> s \<noteq> []"

definition bare :: "entry \<Rightarrow> bool" where
  "bare e \<longleftrightarrow> au_expectedCents e = 0 \<and> au_receivedCents e = 0 \<and> au_origin e = []"

definition about_account :: "entry \<Rightarrow> bool" where
  "about_account e \<longleftrightarrow> named (au_accountID e) \<and> au_tenantID e = [] \<and> bare e \<and> au_bankID e = [] \<and>
     (if au_action e \<in> {ActionOutboundWebhookDelivered, ActionOutboundWebhookDeadLettered} then trimmed (au_txID e)
      else au_txID e = [] \<and> au_action e \<in> {ActionRenameAccount, ActionSuspendAccount, ActionActivateAccount, ActionMintAccountKey,
             ActionSetOutboundWebhook, ActionRotateOutboundWebhookSecret, ActionRemoveOutboundWebhook})"

definition about_tenant :: "entry \<Rightarrow> bool" where
  "about_tenant e \<longleftrightarrow> named (au_tenantID e) \<and> au_accountID e = [] \<and>
     (action_valid (au_action e) \<and> bare e \<and> au_bankID e = [] \<and> au_txID e = [] \<or>
      au_action e \<in> {ActionRemoveBankConfig, ActionSetBankCredential, ActionSetCreditorKey} \<and> bare e \<and> named (au_bankID e) \<and> au_txID e = [] \<or>
      au_action e = ActionSetBankCertificate \<and> bare e \<and> named (au_bankID e) \<and> named (au_txID e) \<or>
      au_action e \<in> {ActionSetBankCredential, ActionSetBankCertificate} \<and> au_origin e = ''self-serve'' \<and> au_expectedCents e = 0 \<and>
        au_receivedCents e = 0 \<and> named (au_bankID e) \<and> (if au_action e = ActionSetBankCredential then au_txID e = [] else named (au_txID e)) \<or>
      au_action e = ActionSettlementAmountMismatch \<and> au_origin e = [] \<and> au_bankID e = [] \<and> named (au_txID e) \<or>
      au_action e \<in> {ActionRecCreated, ActionRecApproved, ActionRecRejected, ActionRecExpired, ActionRecCancelled, ActionCobRCreated, ActionCobRCancelled} \<and>
        bare e \<and> au_bankID e = [] \<and> named (au_txID e))"

lemma account_actions:
  "accountActionValid a \<longleftrightarrow> a \<in> {ActionRenameAccount, ActionSuspendAccount, ActionActivateAccount}"
  "outboundWebhookActionValid a \<longleftrightarrow> a \<in> {ActionSetOutboundWebhook, ActionRotateOutboundWebhookSecret, ActionRemoveOutboundWebhook}"
  "outboundDeliveryActionValid a \<longleftrightarrow> a \<in> {ActionOutboundWebhookDelivered, ActionOutboundWebhookDeadLettered}"
  by (cases a; simp)+

lemma recurrence_actions:
  "(\<exists>st. recurrenceActionByStatus (TrimSpace st) = Some a) \<longleftrightarrow>
     a \<in> {ActionRecCreated, ActionRecApproved, ActionRecRejected, ActionRecExpired, ActionRecCancelled}"
proof
  assume "a \<in> {ActionRecCreated, ActionRecApproved, ActionRecRejected, ActionRecExpired, ActionRecCancelled}"
  moreover have "recurrenceActionByStatus (TrimSpace ''CRIADA'') = Some ActionRecCreated"
    "recurrenceActionByStatus (TrimSpace ''APROVADA'') = Some ActionRecApproved"
    "recurrenceActionByStatus (TrimSpace ''REJEITADA'') = Some ActionRecRejected"
    "recurrenceActionByStatus (TrimSpace ''EXPIRADA'') = Some ActionRecExpired"
    "recurrenceActionByStatus (TrimSpace ''CANCELADA'') = Some ActionRecCancelled"
    by code_simp+
  ultimately show "\<exists>st. recurrenceActionByStatus (TrimSpace st) = Some a" by blast
qed (auto simp: recurrenceActionByStatus_def split: if_splits)

lemmas shape_simps = about_account_def about_tenant_def named_def bare_def zero_entry_def account_actions OriginSelfServe_def Let_def

lemma built_shape:
  assumes "audit_built e"
  shows "named (au_id e) \<and> trimmed (au_operatorID e) \<and> (about_account e \<or> about_tenant e)"
  using assms
proof (cases rule: audit_built.cases)
  case (built_12 a o1 t x st at)
  then obtain act where r: "recurrenceActionByStatus (TrimSpace st) = Some act" by (auto simp: ctor_simps Let_def split: if_splits option.splits)
  then have "act \<in> {ActionRecCreated, ActionRecApproved, ActionRecRejected, ActionRecExpired, ActionRecCancelled}"
    using recurrence_actions [of act] by blast
  moreover from built_12 r have "e = (zero_entry (TrimSpace a) (TrimSpace o1) act at)\<lparr>au_tenantID := TrimSpace t, au_txID := TrimSpace x\<rparr>"
    "TrimSpace a \<noteq> []" "TrimSpace t \<noteq> []" "TrimSpace x \<noteq> []"
    by (simp_all add: NewRecurrenceTransitionEntry_def Let_def split: if_splits)
  ultimately show ?thesis by (simp add: shape_simps) blast
qed (clarsimp simp: ctor_simps Let_def bindE_Inr_iff split: if_splits, force simp: shape_simps)+

lemma account_entry_built:
  assumes "named (au_id e)" "trimmed (au_operatorID e)" "about_account e"
  shows "audit_built e"
proof -
  consider "accountActionValid (au_action e)" | "au_action e = ActionMintAccountKey" | "outboundWebhookActionValid (au_action e)"
    | "outboundDeliveryActionValid (au_action e)"
    using assms(3) by (auto simp: about_account_def split: if_splits)
  then show ?thesis
  proof cases
    case 1
    then have "NewAccountActionEntry (au_id e) (au_operatorID e) (au_action e) (au_accountID e) (au_at e) = Inr e"
      using assms by (cases e) (auto simp: ctor_simps shape_simps)
    then show ?thesis by (rule built_1)
  next
    case 2
    then have "NewAccountKeyMintEntry (au_id e) (au_operatorID e) (au_accountID e) (au_at e) = Inr e"
      using assms by (cases e) (auto simp: ctor_simps shape_simps)
    then show ?thesis by (rule built_2)
  next
    case 3
    then have "NewOutboundWebhookEntry (au_id e) (au_operatorID e) (au_action e) (au_accountID e) (au_at e) = Inr e"
      using assms by (cases e) (auto simp: ctor_simps shape_simps)
    then show ?thesis by (rule built_3)
  next
    case 4
    then have "NewOutboundDeliveryEntry (au_id e) (au_operatorID e) (au_action e) (au_accountID e) (au_txID e) (au_at e) = Inr e"
      using assms by (cases e) (auto simp: ctor_simps shape_simps)
    then show ?thesis by (rule built_4)
  qed
qed

lemma tenant_entry_built:
  assumes "named (au_id e)" "trimmed (au_operatorID e)" "about_tenant e"
  shows "audit_built e"
proof -
  have n: "named (au_tenantID e)" "au_accountID e = []" using assms(3) by (auto simp: about_tenant_def)
  from assms(3) consider
      (plain) "action_valid (au_action e)" "bare e" "au_bankID e = []" "au_txID e = []"
    | (bank) "au_action e \<in> {ActionRemoveBankConfig, ActionSetBankCredential, ActionSetCreditorKey}" "bare e" "named (au_bankID e)" "au_txID e = []"
    | (cert) "au_action e = ActionSetBankCertificate" "bare e" "named (au_bankID e)" "named (au_txID e)"
    | (self) "au_action e = ActionSetBankCredential" "au_origin e = ''self-serve''" "au_expectedCents e = 0" "au_receivedCents e = 0"
        "named (au_bankID e)" "au_txID e = []"
    | (self_cert) "au_action e = ActionSetBankCertificate" "au_origin e = ''self-serve''" "au_expectedCents e = 0" "au_receivedCents e = 0"
        "named (au_bankID e)" "named (au_txID e)"
    | (mismatch) "au_action e = ActionSettlementAmountMismatch" "au_origin e = []" "au_bankID e = []" "named (au_txID e)"
    | (mandate) "au_action e \<in> {ActionRecCreated, ActionRecApproved, ActionRecRejected, ActionRecExpired, ActionRecCancelled}" "bare e"
        "au_bankID e = []" "named (au_txID e)"
    | (cobr) "au_action e \<in> {ActionCobRCreated, ActionCobRCancelled}" "bare e" "au_bankID e = []" "named (au_txID e)"
    by (auto simp: about_tenant_def split: if_splits)
  then show ?thesis
  proof cases
    case plain
    with assms(1,2) n have "NewEntry (au_id e) (au_operatorID e) (au_action e) (au_tenantID e) (au_at e) = Inr e"
      by (cases e) (simp add: ctor_simps shape_simps)
    then show ?thesis by (rule built_0)
  next
    case bank
    with assms(1,2) n have "Inr e \<in> {NewBankConfigRemovedEntry (au_id e) (au_operatorID e) (au_tenantID e) (au_bankID e) (au_at e),
        NewCredentialSetEntry (au_id e) (au_operatorID e) (au_tenantID e) (au_bankID e) (au_at e),
        NewCreditorKeySetEntry (au_id e) (au_operatorID e) (au_tenantID e) (au_bankID e) (au_at e)}"
      by (cases e) (auto simp: ctor_simps shape_simps)
    then show ?thesis by (metis empty_iff insert_iff built_5 built_6 built_8)
  next
    case cert
    with assms(1,2) n have "NewCertificateSetEntry (au_id e) (au_operatorID e) (au_tenantID e) (au_bankID e) (au_txID e) (au_at e) = Inr e"
      by (cases e) (simp add: ctor_simps shape_simps)
    then show ?thesis by (rule built_9)
  next
    case self
    with assms(1,2) n have "NewSelfServeCredentialSetEntry (au_id e) (au_operatorID e) (au_tenantID e) (au_bankID e) (au_at e) = Inr e"
      by (cases e) (simp add: ctor_simps shape_simps)
    then show ?thesis by (rule built_7)
  next
    case self_cert
    with assms(1,2) n have "NewSelfServeCertificateSetEntry (au_id e) (au_operatorID e) (au_tenantID e) (au_bankID e) (au_txID e) (au_at e) = Inr e"
      by (cases e) (simp add: ctor_simps shape_simps)
    then show ?thesis by (rule built_10)
  next
    case mismatch
    with assms(1,2) n have "NewSettlementMismatchEntry (au_id e) (au_operatorID e) (au_tenantID e) (au_txID e) (au_expectedCents e) (au_receivedCents e) (au_at e) = Inr e"
      by (cases e) (simp add: ctor_simps shape_simps)
    then show ?thesis by (rule built_11)
  next
    case mandate
    then obtain st where st: "recurrenceActionByStatus (TrimSpace st) = Some (au_action e)" using recurrence_actions [of "au_action e"] by blast
    with mandate assms(1,2) n have "NewRecurrenceTransitionEntry (au_id e) (au_operatorID e) (au_tenantID e) (au_txID e) st (au_at e) = Inr e"
      by (cases e) (simp add: ctor_simps shape_simps)
    then show ?thesis by (rule built_12)
  next
    case cobr
    with assms(1,2) n have "Inr e \<in> {NewCobROriginationEntry (au_id e) (au_operatorID e) (au_tenantID e) (au_txID e) (au_at e),
        NewCobRCancellationEntry (au_id e) (au_operatorID e) (au_tenantID e) (au_txID e) (au_at e)}"
      by (cases e) (auto simp: ctor_simps shape_simps)
    then show ?thesis by (metis empty_iff insert_iff built_13 built_14)
  qed
qed

section \<open>Properties\<close>

text \<open>
  C38: exactly which entries the audit trail can hold. The constructors of the package return an entry if and only
  if it has an id and a trimmed operator and is about one subject: an account and an account-scoped action, with
  nothing else but the key of a delivered event; or a tenant and an action of the closed vocabulary, bare or with
  the bank, the fingerprint, the transaction or the mandate of that action. Amounts appear only with a settlement
  mismatch, the self-serve surface only with a credential or a certificate. The reading side agrees: an entry
  about an account is attributed to that account, one about a tenant to the tenant's own account, and the
  surface is \<open>admin\<close> or \<open>self-serve\<close>. An account-scoped action about a tenant is among the entries
  \<open>NewEntry\<close> builds: that constructor checks the vocabulary and not the scope.
\<close>

theorem audit_entry_shape:
  "(audit_built e \<longleftrightarrow> named (au_id e) \<and> trimmed (au_operatorID e) \<and> (about_account e \<or> about_tenant e)) \<and>
   (about_account e \<longrightarrow> EntryAccountID e = au_accountID e \<and> EntryOrigin e = OriginAdmin) \<and>
   (about_tenant e \<longrightarrow> EntryAccountID e = SelfAccountID (au_tenantID e) \<and> (EntryOrigin e = OriginAdmin \<or> EntryOrigin e = OriginSelfServe)) \<and>
   \<not> (about_account e \<and> about_tenant e)"
proof (intro conjI)
  show "audit_built e \<longleftrightarrow> named (au_id e) \<and> trimmed (au_operatorID e) \<and> (about_account e \<or> about_tenant e)"
    using built_shape account_entry_built tenant_entry_built by blast
  show "about_account e \<longrightarrow> EntryAccountID e = au_accountID e \<and> EntryOrigin e = OriginAdmin"
    by (auto simp: EntryAccountID_def EntryOrigin_def about_account_def named_def bare_def)
  show "about_tenant e \<longrightarrow> EntryAccountID e = SelfAccountID (au_tenantID e) \<and> (EntryOrigin e = OriginAdmin \<or> EntryOrigin e = OriginSelfServe)"
    by (auto simp: EntryAccountID_def EntryOrigin_def OriginSelfServe_def about_tenant_def bare_def)
  show "\<not> (about_account e \<and> about_tenant e)" by (auto simp: about_account_def about_tenant_def named_def)
qed

theorem audit_entry_shape_witness:
  "\<exists>e. NewEntry ''a1'' [] ActionRenameAccount ''t1'' zero_time = Inr e \<and> about_tenant e \<and> EntryAccountID e = SelfAccountID ''t1''"
proof -
  define e where "e = (zero_entry ''a1'' [] ActionRenameAccount zero_time)\<lparr>au_tenantID := ''t1''\<rparr>"
  have n: "NewEntry ''a1'' [] ActionRenameAccount ''t1'' zero_time = Inr e"
    by (simp add: NewEntry_def e_def TrimSpace_plain plain_byte_def less_eq_char_def)
  have t: "au_tenantID e = ''t1''" "au_accountID e = []" by (simp_all add: e_def zero_entry_def)
  then have "\<not> about_account e" by (simp add: about_account_def named_def)
  then show ?thesis using audit_entry_shape [of e] built_0 [OF n] n t by auto
qed

end
