(* ===== verification/Access.thy ===== *)
theory Access
  imports Recurrence
begin

text \<open>
  Package \<open>internal/domain/access\<close>: the register of read access to personal data. The keyed hash
  of \<open>crypto/hmac\<close> with \<open>crypto/sha256\<close> is the parameter \<open>hmac\<close>; its output is taken in hexadecimal.
\<close>

section \<open>Definitions\<close>

datatype access_action = ActionReadRec | ActionReadDDA | ActionReadStatement | AccessActionOther string

fun access_action_valid :: "access_action \<Rightarrow> bool" where
  "access_action_valid (AccessActionOther s) \<longleftrightarrow> False"
| "access_action_valid a \<longleftrightarrow> True"

record access_entry =
  ax_id :: string
  ax_at :: gotime
  ax_durationMs :: int
  ax_tenantID :: string
  ax_clientID :: string
  ax_operatorID :: string
  ax_subjectRef :: string
  ax_object :: string
  ax_action :: access_action

record new_access_params =
  ap_ID :: string
  ap_At :: gotime
  ap_Duration :: int
  ap_TenantID :: string
  ap_ClientID :: string
  ap_OperatorID :: string
  ap_SubjectRef :: string
  ap_Object :: string
  ap_Action :: access_action

definition NewAccessEntry :: "new_access_params \<Rightarrow> access_entry result" where
  "NewAccessEntry p =
     (let aid = TrimSpace (ap_ID p); tenantID = TrimSpace (ap_TenantID p);
          subjectRef = TrimSpace (ap_SubjectRef p); object = TrimSpace (ap_Object p)
      in if aid = [] then Inl (NewValidationError ''id'' ''access entry id is required'')
         else if \<not> access_action_valid (ap_Action p)
         then Inl (NewValidationError ''action'' ''unknown access action'')
         else if tenantID = [] then Inl (NewValidationError ''tenant_id'' ''tenant id is required'')
         else if subjectRef = [] then Inl (NewValidationError ''subject_ref'' ''subject_ref is required'')
         else if object = [] then Inl (NewValidationError ''object'' ''object is required'')
         else if ap_Duration p < 0
         then Inl (NewValidationError ''duration'' ''duration must not be negative'')
         else Inr \<lparr>ax_id = aid, ax_at = ap_At p, ax_durationMs = quot64 (ap_Duration p) 1000000,
                   ax_tenantID = tenantID, ax_clientID = TrimSpace (ap_ClientID p),
                   ax_operatorID = TrimSpace (ap_OperatorID p), ax_subjectRef = subjectRef,
                   ax_object = object, ax_action = ap_Action p\<rparr>)"

text \<open>A pseudonymizer holds a key of at least 16 bytes.\<close>

record pseudonymizer =
  ps_key :: string

definition NewPseudonymizer :: "string \<Rightarrow> pseudonymizer result" where
  "NewPseudonymizer key =
     (if length key < 16
      then Inl (NewValidationError ''key'' ''subject pseudonymizer key must be at least 16 bytes'')
      else Inr \<lparr>ps_key = key\<rparr>)"

definition normalizeDoc :: "string \<Rightarrow> string" where
  "normalizeDoc doc = filter is_digit doc"

definition PseudonymRef :: "(string \<Rightarrow> string \<Rightarrow> string) \<Rightarrow> pseudonymizer \<Rightarrow> string \<Rightarrow> string" where
  "PseudonymRef hmac p doc = ''hmac-sha256:'' @ hmac (ps_key p) (normalizeDoc doc)"

definition DefaultRetention :: int where
  "DefaultRetention = 180 * 24 * 3600 * 1000000000"

record retention_policy =
  rt_window :: int

definition NewRetentionPolicy :: "int \<Rightarrow> retention_policy result" where
  "NewRetentionPolicy window =
     (if window \<le> 0
      then Inl (NewValidationError ''window'' ''retention window must be positive'')
      else Inr \<lparr>rt_window = window\<rparr>)"

definition Cutoff :: "retention_policy \<Rightarrow> gotime \<Rightarrow> gotime" where
  "Cutoff r now = AddTime now (- rt_window r)"

section \<open>Facts\<close>

lemma NewAccessEntry_Inr:
  assumes "NewAccessEntry p = Inr e"
  shows "ax_tenantID e = TrimSpace (ap_TenantID p)" "ax_subjectRef e = TrimSpace (ap_SubjectRef p)"
    "ax_object e = TrimSpace (ap_Object p)" "ax_action e = ap_Action p" "ax_at e = ap_At p"
  using assms by (auto simp: NewAccessEntry_def Let_def split: if_splits)

lemma normalizeDoc_idem [simp]: "normalizeDoc (normalizeDoc doc) = normalizeDoc doc"
  by (simp add: normalizeDoc_def)

lemma PseudonymRef_normalized:
  "normalizeDoc d = normalizeDoc d' \<Longrightarrow> PseudonymRef hmac p d = PseudonymRef hmac p d'"
  by (simp add: PseudonymRef_def)

end
