(* ===== verification/Ports.thy ===== *)
theory Ports
  imports Billing AuditTrail Access
begin

text \<open>
  \<open>internal/ports/ports.go\<close>: the persistence surface the services depend on. A value of the Go
  interface \<open>Repository\<close> is a record of functions over a state type: a read returns its result or an
  error, a write returns the error or the new state, so a write that fails changes nothing by
  itself. \<open>Rollback before after\<close> is what the unit of work leaves when its callback, started in
  \<open>before\<close>, fails in \<open>after\<close>: the identity on \<open>before\<close> for a transactional store, on \<open>after\<close> for the
  autocommit fallback of \<open>app/uow.go\<close>.
\<close>

section \<open>The repository interface\<close>

record 's repository =
  SavePayment :: "'s \<Rightarrow> payment \<Rightarrow> 's result"
  FindPaymentByID :: "'s \<Rightarrow> string \<Rightarrow> string \<Rightarrow> payment result"
  FindPaymentByIdempotencyKey :: "'s \<Rightarrow> string \<Rightarrow> string \<Rightarrow> payment result"
  FindPaymentByTxID :: "'s \<Rightarrow> string \<Rightarrow> string \<Rightarrow> payment result"
  SaveTenant :: "'s \<Rightarrow> tenant \<Rightarrow> 's result"
  FindTenantByID :: "'s \<Rightarrow> string \<Rightarrow> tenant result"
  GetEndpointPrice :: "'s \<Rightarrow> string \<Rightarrow> string \<Rightarrow> endpoint_pricing result"
  UpsertEndpointPrice :: "'s \<Rightarrow> endpoint_pricing \<Rightarrow> 's result"
  AppendLedgerEntry :: "'s \<Rightarrow> ledger_entry \<Rightarrow> 's result"
  MarkProcessed :: "'s \<Rightarrow> string \<Rightarrow> string \<Rightarrow> (bool \<times> 's) result"
  SaveRec :: "'s \<Rightarrow> rec \<Rightarrow> 's result"
  FindRecByID :: "'s \<Rightarrow> string \<Rightarrow> string \<Rightarrow> rec result"
  SaveCobR :: "'s \<Rightarrow> cobr \<Rightarrow> 's result"
  FindCobRByTxID :: "'s \<Rightarrow> string \<Rightarrow> string \<Rightarrow> cobr result"
  AppendAudit :: "'s \<Rightarrow> entry \<Rightarrow> 's result"
  RecordPIIAccess :: "'s \<Rightarrow> access_entry \<Rightarrow> 's result"
  Rollback :: "'s \<Rightarrow> 's \<Rightarrow> 's"

text \<open>A callback of a unit of work: it threads the state and may fail with what it wrote in place.\<close>

type_synonym ('s, 'a) tx = "'s \<Rightarrow> 's \<times> 'a result"

definition WithinTx :: "'s repository \<Rightarrow> 's \<Rightarrow> ('s, 'a) tx \<Rightarrow> 's \<times> 'a result" where
  "WithinTx r s fn =
     (case fn s of
        (s', Inl e) \<Rightarrow> (Rollback r s s', Inl e)
      | (s', Inr x) \<Rightarrow> (s', Inr x))"

definition autocommitUoW :: "'s repository \<Rightarrow> 's repository" where
  "autocommitUoW r = r\<lparr>Rollback := \<lambda>s s'. s'\<rparr>"

section \<open>Combinators for callbacks\<close>

definition tx_return :: "'a \<Rightarrow> ('s, 'a) tx" where
  "tx_return x s = (s, Inr x)"

definition tx_fail :: "go_error \<Rightarrow> ('s, 'a) tx" where
  "tx_fail e s = (s, Inl e)"

definition tx_read :: "('s \<Rightarrow> 'a result) \<Rightarrow> (go_error + 'a \<Rightarrow> ('s, 'b) tx) \<Rightarrow> ('s, 'b) tx" where
  "tx_read f k s = k (f s) s"

definition tx_write :: "string \<Rightarrow> ('s \<Rightarrow> 's result) \<Rightarrow> ('s, 'b) tx \<Rightarrow> ('s, 'b) tx" where
  "tx_write msg f k s = (case f s of Inl e \<Rightarrow> (s, Inl (Errorf msg e)) | Inr s' \<Rightarrow> k s')"

definition tx_mark ::
  "'s repository \<Rightarrow> string \<Rightarrow> string \<Rightarrow> (bool \<Rightarrow> ('s, 'b) tx) \<Rightarrow> ('s, 'b) tx" where
  "tx_mark r tenantID eventKey k s =
     (case MarkProcessed r s tenantID eventKey of
        Inl e \<Rightarrow> (s, Inl (Errorf ''mark processed'' e))
      | Inr (first, s') \<Rightarrow> k first s')"

lemmas tx_defs = tx_return_def tx_fail_def tx_read_def tx_write_def tx_mark_def

section \<open>Bank identifiers\<close>

definition BankIDC6 :: string where
  "BankIDC6 = ''c6''"

definition knownBankIDs :: "string list" where
  "knownBankIDs = [BankIDC6]"

definition NormalizeBankID :: "string \<Rightarrow> string" where
  "NormalizeBankID bankID =
     (let bankID = ToLower (TrimSpace bankID) in if bankID = [] then BankIDC6 else bankID)"

definition CanonicalBankID :: "string \<Rightarrow> string option" where
  "CanonicalBankID bankID =
     (let bankID = ToLower (TrimSpace bankID)
      in if bankID = [] then None
         else if list_ex (\<lambda>c. c < CHR 0x20 \<or> c = CHR 0x7F) bankID then None
         else Some bankID)"

definition IsKnownBankID :: "string \<Rightarrow> bool" where
  "IsKnownBankID bankID \<longleftrightarrow> bankID \<in> set knownBankIDs"

section \<open>Bank results\<close>

record charge_request =
  cq_TenantID :: string
  cq_PaymentID :: string
  cq_AmountCents :: int
  cq_Currency :: string
  cq_IdempotencyKey :: string
  cq_DebtorTaxID :: string
  cq_DebtorName :: string
  cq_CreditorKey :: string

record charge_result =
  ch_TxID :: string
  ch_Status :: string
  ch_ExpectedAmountCents :: int
  ch_ReceivedAmountCents :: int
  ch_Installments :: int
  ch_Message :: string
  ch_SettlementKey :: string

definition AmountReconciled :: "charge_result \<Rightarrow> bool" where
  "AmountReconciled r \<longleftrightarrow>
     ch_ExpectedAmountCents r > 0 \<and> ch_ReceivedAmountCents r = ch_ExpectedAmountCents r"

record checkout_result =
  co_SessionID :: string
  co_Status :: string
  co_RedirectURL :: string
  co_AmountCents :: int
  co_ReceivedAmountCents :: int
  co_CardType :: string
  co_RequireAuthentication :: bool
  co_MaxInstallments :: int
  co_Installments :: int
  co_Message :: string

record boleto_discount_tier =
  bd_DaysBeforeDue :: int
  bd_Bps :: int
  bd_FixedCents :: int

record boleto_result =
  bo_BoletoID :: string
  bo_TxID :: string
  bo_Status :: string
  bo_Modality :: string
  bo_ExternalReferenceID :: string
  bo_QRCode :: string
  bo_OurNumber :: string
  bo_DigitableLine :: string
  bo_Barcode :: string
  bo_AmountCents :: int
  bo_DueDate :: gotime
  bo_ValidUntil :: gotime
  bo_FineBps :: int
  bo_FineFixedCents :: int
  bo_MonthlyInterestBps :: int
  bo_Discounts :: "boleto_discount_tier list"

definition ModalityBoleto :: string where "ModalityBoleto = ''boleto''"
definition ModalityBolepix :: string where "ModalityBolepix = ''bolepix''"

definition NormalizedModality :: "string \<Rightarrow> string" where
  "NormalizedModality m = (if m = [] then ModalityBoleto else m)"

section \<open>The contract of a store\<close>

text \<open>
  What the services rely on, stated over an abstraction of the state: the payments by tenant and
  id, the ledger, the processed-event marks, the mandates and charges, the audit trail and the
  register of accesses. \<open>clean\<close> is the condition on a tenant id under which the store keeps its
  tenants apart. A store may fail any operation; the laws say what a successful one does, and that
  only a real absence or a real clash is reported as \<open>ErrNotFound\<close> or \<open>ErrConflict\<close>.
\<close>

record view =
  v_pays :: "string \<times> string \<Rightarrow> payment option"
  v_ledger :: "ledger_entry list"
  v_marks :: "(string \<times> string) set"
  v_recs :: "string \<times> string \<Rightarrow> rec option"
  v_cobrs :: "string \<times> string \<Rightarrow> cobr option"
  v_audit :: "entry list"
  v_pii :: "access_entry list"

locale store_contract =
  fixes r :: "'s repository"
    and good :: "'s \<Rightarrow> bool"
    and vw :: "'s \<Rightarrow> view"
    and clean :: "string \<Rightarrow> bool"
  assumes pays_key: "good s \<Longrightarrow> v_pays (vw s) (t, i) = Some p \<Longrightarrow>
        pay_tenantID p = t \<and> pay_id p = i \<and> clean t"
    and pays_unique: "good s \<Longrightarrow> v_pays (vw s) (t, i) = Some p \<Longrightarrow> v_pays (vw s) (t, j) = Some q \<Longrightarrow>
        pay_idempotencyKey p = pay_idempotencyKey q \<Longrightarrow> i = j"
    and recs_key: "good s \<Longrightarrow> v_recs (vw s) (t, i) = Some m \<Longrightarrow> rc_tenantID m = t \<and> rc_idRec m = i"
    and cobrs_key: "good s \<Longrightarrow> v_cobrs (vw s) (t, i) = Some c \<Longrightarrow> cr_tenantID c = t \<and> cr_txID c = i"
    and save_payment: "good s \<Longrightarrow> clean (pay_tenantID p) \<Longrightarrow> SavePayment r s p = Inr s' \<Longrightarrow>
        good s' \<and> vw s' = (vw s)\<lparr>v_pays := (v_pays (vw s))((pay_tenantID p, pay_id p) \<mapsto> p)\<rparr>"
    and save_conflict: "good s \<Longrightarrow> SavePayment r s p = Inl e \<Longrightarrow> errors_Is e ErrConflict \<Longrightarrow>
        \<exists>j q. v_pays (vw s) (pay_tenantID p, j) = Some q \<and>
          pay_idempotencyKey q = pay_idempotencyKey p \<and> j \<noteq> pay_id p"
    and find_id: "good s \<Longrightarrow> clean t \<Longrightarrow> FindPaymentByID r s t i = Inr p \<Longrightarrow> v_pays (vw s) (t, i) = Some p"
    and find_key: "good s \<Longrightarrow> FindPaymentByIdempotencyKey r s t k = Inr p \<Longrightarrow>
        v_pays (vw s) (t, pay_id p) = Some p \<and> pay_idempotencyKey p = k"
    and find_key_none: "good s \<Longrightarrow> FindPaymentByIdempotencyKey r s t k = Inl e \<Longrightarrow>
        errors_Is e ErrNotFound \<Longrightarrow> v_pays (vw s) (t, i) = Some p \<Longrightarrow> pay_idempotencyKey p \<noteq> k"
    and find_tx: "good s \<Longrightarrow> FindPaymentByTxID r s t x = Inr p \<Longrightarrow>
        v_pays (vw s) (t, pay_id p) = Some p \<and> pay_txID p = x"
    and append_ledger: "good s \<Longrightarrow> AppendLedgerEntry r s l = Inr s' \<Longrightarrow>
        good s' \<and> vw s' = (vw s)\<lparr>v_ledger := v_ledger (vw s) @ [l]\<rparr>"
    and mark_first: "good s \<Longrightarrow> clean t \<Longrightarrow> MarkProcessed r s t k = Inr (True, s') \<Longrightarrow>
        good s' \<and> (t, k) \<notin> v_marks (vw s) \<and>
        vw s' = (vw s)\<lparr>v_marks := insert (t, k) (v_marks (vw s))\<rparr>"
    and mark_again: "good s \<Longrightarrow> clean t \<Longrightarrow> MarkProcessed r s t k = Inr (False, s') \<Longrightarrow>
        s' = s \<and> (t, k) \<in> v_marks (vw s)"
    and save_rec: "good s \<Longrightarrow> clean (rc_tenantID m) \<Longrightarrow> SaveRec r s m = Inr s' \<Longrightarrow>
        good s' \<and> vw s' = (vw s)\<lparr>v_recs := (v_recs (vw s))((rc_tenantID m, rc_idRec m) \<mapsto> m)\<rparr>"
    and find_rec: "good s \<Longrightarrow> clean t \<Longrightarrow> FindRecByID r s t i = Inr m \<Longrightarrow> v_recs (vw s) (t, i) = Some m"
    and find_rec_none: "good s \<Longrightarrow> clean t \<Longrightarrow> FindRecByID r s t i = Inl e \<Longrightarrow>
        errors_Is e ErrNotFound \<Longrightarrow> v_recs (vw s) (t, i) = None"
    and save_cobr: "good s \<Longrightarrow> clean (cr_tenantID c) \<Longrightarrow> SaveCobR r s c = Inr s' \<Longrightarrow>
        good s' \<and> vw s' = (vw s)\<lparr>v_cobrs := (v_cobrs (vw s))((cr_tenantID c, cr_txID c) \<mapsto> c)\<rparr>"
    and find_cobr: "good s \<Longrightarrow> clean t \<Longrightarrow> FindCobRByTxID r s t i = Inr c \<Longrightarrow> v_cobrs (vw s) (t, i) = Some c"
    and find_cobr_none: "good s \<Longrightarrow> clean t \<Longrightarrow> FindCobRByTxID r s t i = Inl e \<Longrightarrow>
        errors_Is e ErrNotFound \<Longrightarrow> v_cobrs (vw s) (t, i) = None"
    and append_audit: "good s \<Longrightarrow> AppendAudit r s a = Inr s' \<Longrightarrow>
        good s' \<and> vw s' = (vw s)\<lparr>v_audit := v_audit (vw s) @ [a]\<rparr>"
    and record_pii: "good s \<Longrightarrow> RecordPIIAccess r s z = Inr s' \<Longrightarrow>
        good s' \<and> vw s' = (vw s)\<lparr>v_pii := v_pii (vw s) @ [z]\<rparr>"
    and rollback: "good s \<Longrightarrow> good s' \<Longrightarrow> good (Rollback r s s') \<and> vw (Rollback r s s') = vw s"
begin

text \<open>A unit of work is all or nothing on everything the contract speaks of.\<close>

lemma within_tx_error:
  assumes "good s" and "WithinTx r s fn = (s', Inl e)" and "\<And>s2 x. fn s = (s2, x) \<Longrightarrow> good s2"
  shows "good s' \<and> vw s' = vw s"
  using assms(2) rollback [OF assms(1)] assms(3)
  by (auto simp: WithinTx_def split: prod.splits sum.splits)

lemma within_tx_ok: "WithinTx r s fn = (s', Inr x) \<longleftrightarrow> fn s = (s', Inr x)"
  by (auto simp: WithinTx_def split: prod.splits sum.splits)

lemma pays_unique_payment:
  "good s \<Longrightarrow> v_pays (vw s) (t, i) = Some p \<Longrightarrow> v_pays (vw s) (t, j) = Some q \<Longrightarrow>
     pay_idempotencyKey p = pay_idempotencyKey q \<Longrightarrow> p = q"
  using pays_unique by fastforce

end

text \<open>
  The recurrence handlers commit when their callback reports \<open>ErrNotFound\<close>, so they also rely on a
  failed write never being reported that way.
\<close>

locale write_contract = store_contract +
  assumes save_rec_error: "SaveRec r s m = Inl e \<Longrightarrow> \<not> errors_Is e ErrNotFound"
    and save_cobr_error: "SaveCobR r s c = Inl e \<Longrightarrow> \<not> errors_Is e ErrNotFound"
    and append_audit_error: "AppendAudit r s a = Inl e \<Longrightarrow> \<not> errors_Is e ErrNotFound"

end
