(* ===== verification/TermsConsent.thy ===== *)
theory TermsConsent
  imports Payment
begin

text \<open>
  Package \<open>internal/domain/termsconsent\<close>: the immutable proof that a subject accepted a version of
  the terms of use.
\<close>

record evidence =
  ev_channel :: string
  ev_ip :: string
  ev_userAgent :: string

definition NewEvidence :: "string \<Rightarrow> string \<Rightarrow> string \<Rightarrow> evidence result" where
  "NewEvidence channel ip userAgent =
     (let channel = TrimSpace channel
      in if channel = [] then Inl (NewValidationError ''channel'' ''is required'')
         else Inr \<lparr>ev_channel = channel, ev_ip = TrimSpace ip, ev_userAgent = TrimSpace userAgent\<rparr>)"

record consent_record =
  tc_id :: string
  tc_tenantID :: string
  tc_subject :: string
  tc_termsVersion :: string
  tc_grantedAt :: gotime
  tc_evidence :: evidence

record new_record_params =
  np_ID :: string
  np_TenantID :: string
  np_Subject :: string
  np_TermsVersion :: string
  np_Evidence :: evidence

definition UTC :: "gotime \<Rightarrow> gotime" where
  "UTC t = t\<lparr>zone := 0\<rparr>"

definition NewRecord :: "new_record_params \<Rightarrow> gotime \<Rightarrow> consent_record result" where
  "NewRecord p grantedAt =
     (let rid = TrimSpace (np_ID p); tenantID = TrimSpace (np_TenantID p);
          subject = TrimSpace (np_Subject p); termsVersion = TrimSpace (np_TermsVersion p)
      in if rid = [] then Inl (NewValidationError ''id'' ''is required'')
         else if tenantID = [] then Inl (NewValidationError ''tenant_id'' ''is required'')
         else if subject = [] then Inl (NewValidationError ''subject'' ''is required'')
         else if termsVersion = [] then Inl (NewValidationError ''terms_version'' ''is required'')
         else if np_Evidence p = \<lparr>ev_channel = [], ev_ip = [], ev_userAgent = []\<rparr>
         then Inl (NewValidationError ''evidence'' ''is required'')
         else if IsZeroTime grantedAt then Inl (NewValidationError ''granted_at'' ''is required'')
         else Inr \<lparr>tc_id = rid, tc_tenantID = tenantID, tc_subject = subject,
                   tc_termsVersion = termsVersion, tc_grantedAt = UTC grantedAt,
                   tc_evidence = np_Evidence p\<rparr>)"

definition RehydrateConsent ::
  "string \<Rightarrow> string \<Rightarrow> string \<Rightarrow> string \<Rightarrow> gotime \<Rightarrow> evidence \<Rightarrow> consent_record" where
  "RehydrateConsent rid tenantID subject termsVersion grantedAt evidence =
     \<lparr>tc_id = rid, tc_tenantID = tenantID, tc_subject = subject, tc_termsVersion = termsVersion,
      tc_grantedAt = UTC grantedAt, tc_evidence = evidence\<rparr>"

lemma NewRecord_rehydrates:
  "NewRecord p at = Inr c \<Longrightarrow>
     RehydrateConsent (tc_id c) (tc_tenantID c) (tc_subject c) (tc_termsVersion c) (tc_grantedAt c)
       (tc_evidence c) = c"
  by (auto simp: NewRecord_def RehydrateConsent_def UTC_def Let_def split: if_splits)

end
