(* ===== verification/Store.thy ===== *)
theory Store
  imports Ports TermsConsent
begin

text \<open>
  \<open>internal/adapters/persistence/inmemory\<close>: the in-memory store. A Go map is an association list in
  some iteration order; a composite key is \<open>a + "\x00" + b\<close>, which keeps two pairs apart only
  when the first component carries no NUL byte. The public methods take the lock around the
  lock-free core, so each is one atomic step; stored aggregates are copied in and out, so a record
  value is faithful. \<open>WithinTx\<close> of the port theory with \<open>restore\<close> is the store's unit of work.
\<close>

section \<open>State\<close>

record store =
  st_tenants :: "(string \<times> tenant) list"
  st_accounts :: "(string \<times> account) list"
  st_payments :: "(string \<times> payment) list"
  st_pricing :: "(string \<times> endpoint_pricing) list"
  st_ledger :: "ledger_entry list"
  st_processed :: "(string \<times> unit) list"
  st_audit :: "entry list"
  st_recs :: "(string \<times> rec) list"
  st_cobrs :: "(string \<times> cobr) list"
  st_consents :: "consent_record list"
  st_piiAccess :: "access_entry list"
  st_invoices :: "invoice list"

definition NewStore :: store where
  "NewStore = \<lparr>st_tenants = [], st_accounts = [], st_payments = [], st_pricing = [], st_ledger = [],
     st_processed = [], st_audit = [], st_recs = [], st_cobrs = [], st_consents = [],
     st_piiAccess = [], st_invoices = []\<rparr>"

definition key :: "string \<Rightarrow> string \<Rightarrow> string" where
  "key a b = a @ [CHR 0x00] @ b"

text \<open>A map lookup that reports \<open>ErrNotFound\<close>.\<close>

definition lookup :: "('k \<times> 'v) list \<Rightarrow> 'k \<Rightarrow> 'v result" where
  "lookup m k = (case map_of m k of None \<Rightarrow> Inl ErrNotFound | Some v \<Rightarrow> Inr v)"

text \<open>A scan that returns the first hit.\<close>

definition scan :: "('v \<Rightarrow> bool) \<Rightarrow> 'v list \<Rightarrow> 'v result" where
  "scan P vs = (case find P vs of None \<Rightarrow> Inl ErrNotFound | Some v \<Rightarrow> Inr v)"

section \<open>Lock-free core\<close>

definition saveTenant :: "store \<Rightarrow> tenant \<Rightarrow> store result" where
  "saveTenant s t = Inr (s\<lparr>st_tenants := put (tn_id t) t (st_tenants s)\<rparr>)"

definition findTenantByID :: "store \<Rightarrow> string \<Rightarrow> tenant result" where
  "findTenantByID s tid = lookup (st_tenants s) tid"

definition savePayment :: "store \<Rightarrow> payment \<Rightarrow> store result" where
  "savePayment s p =
     (if list_ex (\<lambda>ex. pay_tenantID ex = pay_tenantID p \<and>
            pay_idempotencyKey ex = pay_idempotencyKey p \<and> pay_id ex \<noteq> pay_id p)
          (vals (st_payments s))
      then Inl ErrConflict
      else Inr (s\<lparr>st_payments := put (key (pay_tenantID p) (pay_id p)) p (st_payments s)\<rparr>))"

definition findPaymentByID :: "store \<Rightarrow> string \<Rightarrow> string \<Rightarrow> payment result" where
  "findPaymentByID s tenantID pid = lookup (st_payments s) (key tenantID pid)"

definition findPaymentByIdempotencyKey :: "store \<Rightarrow> string \<Rightarrow> string \<Rightarrow> payment result" where
  "findPaymentByIdempotencyKey s tenantID idemKey =
     scan (\<lambda>p. pay_tenantID p = tenantID \<and> pay_idempotencyKey p = idemKey) (vals (st_payments s))"

definition findPaymentByTxID :: "store \<Rightarrow> string \<Rightarrow> string \<Rightarrow> payment result" where
  "findPaymentByTxID s tenantID txID =
     scan (\<lambda>p. pay_tenantID p = tenantID \<and> pay_txID p = txID) (vals (st_payments s))"

definition getEndpointPrice :: "store \<Rightarrow> string \<Rightarrow> string \<Rightarrow> endpoint_pricing result" where
  "getEndpointPrice s tenantID endpoint = lookup (st_pricing s) (key tenantID endpoint)"

definition upsertEndpointPrice :: "store \<Rightarrow> endpoint_pricing \<Rightarrow> store result" where
  "upsertEndpointPrice s p =
     Inr (s\<lparr>st_pricing := put (key (ep_tenantID p) (ep_endpoint p)) p (st_pricing s)\<rparr>)"

definition appendLedgerEntry :: "store \<Rightarrow> ledger_entry \<Rightarrow> store result" where
  "appendLedgerEntry s e = Inr (s\<lparr>st_ledger := st_ledger s @ [e]\<rparr>)"

definition markProcessed :: "store \<Rightarrow> string \<Rightarrow> string \<Rightarrow> (bool \<times> store) result" where
  "markProcessed s tenantID eventKey =
     (let k = key tenantID eventKey
      in if map_of (st_processed s) k \<noteq> None then Inr (False, s)
         else Inr (True, s\<lparr>st_processed := put k () (st_processed s)\<rparr>))"

definition appendAudit :: "store \<Rightarrow> entry \<Rightarrow> store result" where
  "appendAudit s e = Inr (s\<lparr>st_audit := st_audit s @ [e]\<rparr>)"

definition saveRec :: "store \<Rightarrow> rec \<Rightarrow> store result" where
  "saveRec s r = Inr (s\<lparr>st_recs := put (key (rc_tenantID r) (rc_idRec r)) r (st_recs s)\<rparr>)"

definition findRecByID :: "store \<Rightarrow> string \<Rightarrow> string \<Rightarrow> rec result" where
  "findRecByID s tenantID idRec = lookup (st_recs s) (key tenantID idRec)"

definition saveCobR :: "store \<Rightarrow> cobr \<Rightarrow> store result" where
  "saveCobR s c = Inr (s\<lparr>st_cobrs := put (key (cr_tenantID c) (cr_txID c)) c (st_cobrs s)\<rparr>)"

definition findCobRByTxID :: "store \<Rightarrow> string \<Rightarrow> string \<Rightarrow> cobr result" where
  "findCobRByTxID s tenantID txID = lookup (st_cobrs s) (key tenantID txID)"

definition appendPIIAccess :: "store \<Rightarrow> access_entry \<Rightarrow> store result" where
  "appendPIIAccess s e = Inr (s\<lparr>st_piiAccess := st_piiAccess s @ [e]\<rparr>)"

section \<open>Unit of work\<close>

text \<open>
  \<open>restore\<close> puts back what \<open>snapshot\<close> took; accounts, consents and invoices are not part of it.
\<close>

definition restore :: "store \<Rightarrow> store \<Rightarrow> store" where
  "restore snap s =
     s\<lparr>st_tenants := st_tenants snap, st_payments := st_payments snap, st_pricing := st_pricing snap,
       st_ledger := st_ledger snap, st_processed := st_processed snap, st_audit := st_audit snap,
       st_recs := st_recs snap, st_cobrs := st_cobrs snap, st_piiAccess := st_piiAccess snap\<rparr>"

definition txView :: "store repository" where
  "txView = \<lparr>SavePayment = savePayment, FindPaymentByID = findPaymentByID,
     FindPaymentByIdempotencyKey = findPaymentByIdempotencyKey,
     FindPaymentByTxID = findPaymentByTxID, SaveTenant = saveTenant,
     FindTenantByID = findTenantByID, GetEndpointPrice = getEndpointPrice,
     UpsertEndpointPrice = upsertEndpointPrice, AppendLedgerEntry = appendLedgerEntry,
     MarkProcessed = markProcessed, SaveRec = saveRec, FindRecByID = findRecByID,
     SaveCobR = saveCobR, FindCobRByTxID = findCobRByTxID, AppendAudit = appendAudit,
     RecordPIIAccess = appendPIIAccess, Rollback = restore\<rparr>"

section \<open>Reads and writes outside the unit of work\<close>

definition ListTenants :: "store \<Rightarrow> tenant list" where
  "ListTenants s = SliceStable (newest_first (\<lambda>t. ns (tn_createdAt t)) tn_id) (vals (st_tenants s))"

definition SaveAccount :: "store \<Rightarrow> account \<Rightarrow> store" where
  "SaveAccount s a = s\<lparr>st_accounts := put (ac_id a) a (st_accounts s)\<rparr>"

definition FindAccountByID :: "store \<Rightarrow> string \<Rightarrow> account result" where
  "FindAccountByID s aid = lookup (st_accounts s) aid"

definition ListAccounts :: "store \<Rightarrow> account list" where
  "ListAccounts s = SliceStable (newest_first (\<lambda>a. ns (ac_createdAt a)) ac_id) (vals (st_accounts s))"

definition ListEndpointPrices :: "store \<Rightarrow> string \<Rightarrow> endpoint_pricing list" where
  "ListEndpointPrices s tenantID =
     SliceStable (\<lambda>p q. ep_endpoint p < ep_endpoint q)
       (filter (\<lambda>p. ep_tenantID p = tenantID) (vals (st_pricing s)))"

definition filterLedger :: "store \<Rightarrow> (ledger_entry \<Rightarrow> bool) \<Rightarrow> ledger_entry list" where
  "filterLedger s keep = SliceStable (newest_first (\<lambda>e. ns (le_at e)) le_id) (filter keep (st_ledger s))"

definition ListLedgerEntries :: "store \<Rightarrow> string \<Rightarrow> ledger_entry list" where
  "ListLedgerEntries s tenantID = filterLedger s (\<lambda>e. le_tenantID e = tenantID)"

definition ListLedgerEntriesByAccount :: "store \<Rightarrow> string \<Rightarrow> ledger_entry list" where
  "ListLedgerEntriesByAccount s accountID = filterLedger s (\<lambda>e. le_accountID e = accountID)"

definition SaveInvoice :: "store \<Rightarrow> invoice \<Rightarrow> store" where
  "SaveInvoice s i = s\<lparr>st_invoices := st_invoices s @ [i]\<rparr>"

definition FindInvoiceByID :: "store \<Rightarrow> string \<Rightarrow> string \<Rightarrow> invoice result" where
  "FindInvoiceByID s tenantID iid =
     scan (\<lambda>i. inv_tenantID i = tenantID \<and> inv_id i = iid) (st_invoices s)"

definition ListInvoices :: "store \<Rightarrow> string \<Rightarrow> invoice list" where
  "ListInvoices s tenantID =
     SliceStable (newest_first (\<lambda>i. ns (inv_generatedAt i)) inv_id)
       (filter (\<lambda>i. inv_tenantID i = tenantID) (st_invoices s))"

definition ListCobRByRec :: "store \<Rightarrow> string \<Rightarrow> string \<Rightarrow> cobr list" where
  "ListCobRByRec s tenantID idRec =
     SliceStable (\<lambda>a b. if cr_vencimento a = cr_vencimento b then cr_txID a < cr_txID b
                        else cr_vencimento a < cr_vencimento b)
       (filter (\<lambda>c. cr_tenantID c = tenantID \<and> cr_idRec c = idRec) (vals (st_cobrs s)))"

definition PurgePIIAccessBefore :: "store \<Rightarrow> gotime \<Rightarrow> store \<times> int" where
  "PurgePIIAccessBefore s cutoff =
     (s\<lparr>st_piiAccess := filter (\<lambda>e. \<not> Before (ax_at e) cutoff) (st_piiAccess s)\<rparr>,
      int (length (filter (\<lambda>e. Before (ax_at e) cutoff) (st_piiAccess s))))"

definition RecordConsent :: "store \<Rightarrow> consent_record \<Rightarrow> store" where
  "RecordConsent s r = s\<lparr>st_consents := st_consents s @ [r]\<rparr>"

definition consentAfter :: "consent_record \<Rightarrow> consent_record \<Rightarrow> bool" where
  "consentAfter = newest_first (\<lambda>c. ns (tc_grantedAt c)) tc_id"

definition FindLatestConsent :: "store \<Rightarrow> string \<Rightarrow> string \<Rightarrow> string \<Rightarrow> consent_record result" where
  "FindLatestConsent s tenantID subject termsVersion =
     (case fold (\<lambda>r latest.
              if tc_tenantID r \<noteq> tenantID \<or> tc_subject r \<noteq> subject \<or> tc_termsVersion r \<noteq> termsVersion
              then latest
              else case latest of
                     None \<Rightarrow> Some r
                   | Some l \<Rightarrow> if consentAfter r l then Some r else latest)
            (st_consents s) None of
        None \<Rightarrow> Inl ErrNotFound
      | Some l \<Rightarrow> Inr l)"

definition ListConsents :: "store \<Rightarrow> string \<Rightarrow> string \<Rightarrow> consent_record list" where
  "ListConsents s tenantID subject =
     SliceStable consentAfter
       (filter (\<lambda>r. tc_tenantID r = tenantID \<and> tc_subject r = subject) (st_consents s))"

lemmas store_core [repo_simps] =
  saveTenant_def findTenantByID_def savePayment_def findPaymentByID_def
  findPaymentByIdempotencyKey_def findPaymentByTxID_def getEndpointPrice_def
  upsertEndpointPrice_def appendLedgerEntry_def markProcessed_def appendAudit_def saveRec_def
  findRecByID_def saveCobR_def findCobRByTxID_def appendPIIAccess_def

lemma txView_simps [simp]:
  "SavePayment txView = savePayment" "FindPaymentByID txView = findPaymentByID"
  "FindPaymentByIdempotencyKey txView = findPaymentByIdempotencyKey"
  "FindPaymentByTxID txView = findPaymentByTxID" "SaveTenant txView = saveTenant"
  "FindTenantByID txView = findTenantByID" "GetEndpointPrice txView = getEndpointPrice"
  "UpsertEndpointPrice txView = upsertEndpointPrice" "AppendLedgerEntry txView = appendLedgerEntry"
  "MarkProcessed txView = markProcessed" "SaveRec txView = saveRec" "FindRecByID txView = findRecByID"
  "SaveCobR txView = saveCobR" "FindCobRByTxID txView = findCobRByTxID"
  "AppendAudit txView = appendAudit" "RecordPIIAccess txView = appendPIIAccess"
  "Rollback txView = restore"
  by (simp_all add: txView_def)

section \<open>Keyed maps\<close>

definition nul_free :: "string \<Rightarrow> bool" where
  "nul_free s \<longleftrightarrow> CHR 0x00 \<notin> set s"

definition at_key :: "(string \<times> 'v) list \<Rightarrow> string \<times> string \<Rightarrow> 'v option" where
  "at_key m = (\<lambda>(t, i). if nul_free t then map_of m (key t i) else None)"

definition keyed :: "('v \<Rightarrow> string) \<Rightarrow> ('v \<Rightarrow> string) \<Rightarrow> (string \<times> 'v) list \<Rightarrow> bool" where
  "keyed ten idf m \<longleftrightarrow>
     distinct (keys m) \<and> (\<forall>(k, v) \<in> set m. k = key (ten v) (idf v) \<and> nul_free (ten v))"

lemma key_inj:
  assumes "nul_free a" and "nul_free a'"
  shows "key a b = key a' b' \<longleftrightarrow> a = a' \<and> b = b'"
proof -
  have tw: "takeWhile (\<lambda>c. c \<noteq> CHR 0x00) (key x y) = x" if "nul_free x" for x y
    using that by (induction x) (auto simp: key_def nul_free_def)
  show ?thesis using tw [OF assms(1), of b] tw [OF assms(2), of b'] by (auto simp: key_def)
qed

lemma at_key_put [simp]: "nul_free t \<Longrightarrow> at_key (put (key t i) v m) = (at_key m)((t, i) \<mapsto> v)"
  by (auto simp: at_key_def key_inj fun_eq_iff)

lemma keyed_at:
  "keyed ten idf m \<Longrightarrow> at_key m (t, i) = Some v \<Longrightarrow> ten v = t \<and> idf v = i \<and> nul_free t"
  by (auto simp: at_key_def keyed_def key_inj split: if_splits dest!: map_of_SomeD)

lemma keyed_mem:
  assumes "keyed ten idf m"
  shows "v \<in> set (vals m) \<longleftrightarrow> at_key m (ten v, idf v) = Some v"
proof
  assume "v \<in> set (vals m)"
  then obtain k where k: "(k, v) \<in> set m" by auto
  with assms have "k = key (ten v) (idf v)" "nul_free (ten v)" "map_of m k = Some v"
    by (auto simp: keyed_def)
  then show "at_key m (ten v, idf v) = Some v" by (simp add: at_key_def)
next
  assume "at_key m (ten v, idf v) = Some v"
  then show "v \<in> set (vals m)" by (force simp: at_key_def split: if_splits dest: map_of_SomeD)
qed

lemma keyed_put: "keyed ten idf m \<Longrightarrow> nul_free (ten v) \<Longrightarrow> keyed ten idf (put (key (ten v) (idf v)) v m)"
  unfolding keyed_def using set_put_subset [of "key (ten v) (idf v)" v m] by auto

lemma lookup_Inr [simp]: "lookup m k = Inr v \<longleftrightarrow> map_of m k = Some v"
  by (auto simp: lookup_def split: option.splits)

lemma lookup_Inl [simp]: "lookup m k = Inl e \<longleftrightarrow> map_of m k = None \<and> e = ErrNotFound"
  by (auto simp: lookup_def split: option.splits)

lemma scan_Inr: "scan P vs = Inr v \<Longrightarrow> v \<in> set vs \<and> P v"
  by (auto simp: scan_def split: option.splits dest: find_Some_mem)

lemma scan_Inl [simp]: "scan P vs = Inl e \<longleftrightarrow> (\<forall>v \<in> set vs. \<not> P v) \<and> e = ErrNotFound"
  by (auto simp: scan_def find_None_conv split: option.splits dest: find_Some_mem)

section \<open>The store meets the contract of the port\<close>

definition store_view :: "store \<Rightarrow> view" where
  "store_view s = \<lparr>v_pays = at_key (st_payments s), v_ledger = st_ledger s,
     v_marks = {(t, k). at_key (st_processed s) (t, k) \<noteq> None}, v_recs = at_key (st_recs s),
     v_cobrs = at_key (st_cobrs s), v_audit = st_audit s, v_pii = st_piiAccess s\<rparr>"

definition unique_keys :: "payment list \<Rightarrow> bool" where
  "unique_keys ps \<longleftrightarrow>
     (\<forall>p \<in> set ps. \<forall>q \<in> set ps. pay_tenantID p = pay_tenantID q \<longrightarrow>
        pay_idempotencyKey p = pay_idempotencyKey q \<longrightarrow> pay_id p = pay_id q)"

definition store_ok :: "store \<Rightarrow> bool" where
  "store_ok s \<longleftrightarrow>
     keyed pay_tenantID pay_id (st_payments s) \<and> keyed rc_tenantID rc_idRec (st_recs s) \<and>
     keyed cr_tenantID cr_txID (st_cobrs s) \<and> unique_keys (vals (st_payments s))"

lemma store_ok_New [simp]: "store_ok NewStore"
  by (simp add: store_ok_def NewStore_def keyed_def unique_keys_def)

lemma store_view_simps [simp]:
  "v_pays (store_view s) = at_key (st_payments s)" "v_ledger (store_view s) = st_ledger s"
  "v_recs (store_view s) = at_key (st_recs s)" "v_cobrs (store_view s) = at_key (st_cobrs s)"
  "v_audit (store_view s) = st_audit s" "v_pii (store_view s) = st_piiAccess s"
  by (simp_all add: store_view_def)

lemma mem_marks [simp]: "(t, k) \<in> v_marks (store_view s) \<longleftrightarrow> at_key (st_processed s) (t, k) \<noteq> None"
  by (simp add: store_view_def)

lemma vals_put_subset: "set (vals (put k v m)) \<subseteq> insert v (set (vals m))"
  using set_put_subset [of k v m] by auto

lemma unique_keysD:
  "unique_keys ps \<Longrightarrow> p \<in> set ps \<Longrightarrow> q \<in> set ps \<Longrightarrow> pay_tenantID p = pay_tenantID q \<Longrightarrow>
     pay_idempotencyKey p = pay_idempotencyKey q \<Longrightarrow> pay_id p = pay_id q"
  unfolding unique_keys_def by blast

lemma unique_keys_insert:
  assumes "unique_keys ps" and "\<And>q. q \<in> set ps \<Longrightarrow> pay_tenantID q = pay_tenantID p \<Longrightarrow>
      pay_idempotencyKey q = pay_idempotencyKey p \<Longrightarrow> pay_id q = pay_id p"
    and "set qs \<subseteq> insert p (set ps)"
  shows "unique_keys qs"
  unfolding unique_keys_def
proof (intro ballI impI)
  fix a b assume ab: "a \<in> set qs" "b \<in> set qs" "pay_tenantID a = pay_tenantID b"
    "pay_idempotencyKey a = pay_idempotencyKey b"
  then consider "a = p" "b = p" | "a = p" "b \<in> set ps" | "a \<in> set ps" "b = p" | "a \<in> set ps" "b \<in> set ps"
    using assms(3) by blast
  then show "pay_id a = pay_id b"
  proof cases
    case 2
    then show ?thesis using ab assms(2) [of b] by simp
  next
    case 3
    then show ?thesis using ab assms(2) [of a] by simp
  next
    case 4
    then show ?thesis using ab assms(1) unfolding unique_keys_def by blast
  qed simp
qed

lemma savePayment_ok:
  assumes "store_ok s" and "nul_free (pay_tenantID p)" and "savePayment s p = Inr s'"
  shows "store_ok s'"
    and "store_view s' = (store_view s)\<lparr>v_pays := (v_pays (store_view s))((pay_tenantID p, pay_id p) \<mapsto> p)\<rparr>"
proof -
  let ?m = "put (key (pay_tenantID p) (pay_id p)) p (st_payments s)"
  from assms(3) have s': "s' = s\<lparr>st_payments := ?m\<rparr>"
    and free: "\<forall>q \<in> set (vals (st_payments s)). pay_tenantID q = pay_tenantID p \<longrightarrow>
      pay_idempotencyKey q = pay_idempotencyKey p \<longrightarrow> pay_id q = pay_id p"
    by (auto simp: savePayment_def list_ex_iff split: if_splits)
  have "unique_keys (vals ?m)"
    using assms(1) free by (intro unique_keys_insert [OF _ _ vals_put_subset]) (auto simp: store_ok_def)
  with assms s' show "store_ok s'" by (simp add: store_ok_def keyed_put)
  show "store_view s' = (store_view s)\<lparr>v_pays := (v_pays (store_view s))((pay_tenantID p, pay_id p) \<mapsto> p)\<rparr>"
    using assms(2) s' by (simp add: store_view_def)
qed

lemma markProcessed_first:
  "nul_free t \<Longrightarrow> markProcessed s t k = Inr (True, s') \<Longrightarrow>
     (t, k) \<notin> v_marks (store_view s) \<and>
     store_view s' = (store_view s)\<lparr>v_marks := insert (t, k) (v_marks (store_view s))\<rparr>"
  by (auto simp: markProcessed_def Let_def store_view_def at_key_def key_inj split: if_splits)

lemma store_ok_pays: "store_ok s \<Longrightarrow> p \<in> set (vals (st_payments s)) \<Longrightarrow>
    at_key (st_payments s) (pay_tenantID p, pay_id p) = Some p"
  using keyed_mem [of pay_tenantID pay_id "st_payments s" p] by (simp add: store_ok_def)

lemma store_ok_at: "store_ok s \<Longrightarrow> at_key (st_payments s) (t, i) = Some p \<Longrightarrow>
    pay_tenantID p = t \<and> pay_id p = i \<and> nul_free t \<and> p \<in> set (vals (st_payments s))"
  unfolding store_ok_def
  by (metis keyed_at [of pay_tenantID pay_id "st_payments s"]
      keyed_mem [of pay_tenantID pay_id "st_payments s"])

interpretation mem: store_contract txView store_ok store_view nul_free
proof (unfold_locales, unfold txView_simps store_view_simps, goal_cases)
  case (1 s t i p)
  then show ?case using store_ok_at by blast
next
  case (2 s t i p j q)
  have "pay_id p = pay_id q"
    using 2 store_ok_at [of s t i p] store_ok_at [of s t j q]
    by (intro unique_keysD [of "vals (st_payments s)"]) (simp_all add: store_ok_def)
  with 2 show ?case using store_ok_at by metis
next
  case (3 s t i m)
  then show ?case using keyed_at [of rc_tenantID rc_idRec "st_recs s" t i m] by (simp add: store_ok_def)
next
  case (4 s t i c)
  then show ?case using keyed_at [of cr_tenantID cr_txID "st_cobrs s" t i c] by (simp add: store_ok_def)
next
  case (5 s p s')
  then show ?case using savePayment_ok [of s p s'] by simp
next
  case (6 s p e)
  then show ?case
    using store_ok_pays [of s] by (fastforce simp: savePayment_def list_ex_iff split: if_splits)
next
  case (7 s t i p)
  then show ?case by (simp add: findPaymentByID_def at_key_def)
next
  case (8 s t k p)
  then show ?case using store_ok_pays [of s p]
    by (auto simp: findPaymentByIdempotencyKey_def dest!: scan_Inr)
next
  case (9 s t k e i p)
  then show ?case using store_ok_at [of s t i p] by (auto simp: findPaymentByIdempotencyKey_def)
next
  case (10 s t x p)
  then show ?case using store_ok_pays [of s p] by (auto simp: findPaymentByTxID_def dest!: scan_Inr)
next
  case (11 s l s')
  then show ?case by (auto simp: appendLedgerEntry_def store_ok_def store_view_def)
next
  case (12 s t k s')
  then show ?case using markProcessed_first [of t s k s']
    by (auto simp: markProcessed_def Let_def store_ok_def split: if_splits)
next
  case (13 s t k s')
  then show ?case by (auto simp: markProcessed_def Let_def at_key_def split: if_splits)
next
  case (14 s m s')
  then show ?case by (auto simp: saveRec_def store_ok_def store_view_def keyed_put)
next
  case (15 s t i m)
  then show ?case by (simp add: findRecByID_def at_key_def)
next
  case (16 s t i e)
  then show ?case by (simp add: findRecByID_def at_key_def)
next
  case (17 s c s')
  then show ?case by (auto simp: saveCobR_def store_ok_def store_view_def keyed_put)
next
  case (18 s t i c)
  then show ?case by (simp add: findCobRByTxID_def at_key_def)
next
  case (19 s t i e)
  then show ?case by (simp add: findCobRByTxID_def at_key_def)
next
  case (20 s a s')
  then show ?case by (auto simp: appendAudit_def store_ok_def store_view_def)
next
  case (21 s z s')
  then show ?case by (auto simp: appendPIIAccess_def store_ok_def store_view_def)
next
  case (22 s s')
  then show ?case by (auto simp: restore_def store_ok_def store_view_def)
qed

interpretation wmem: write_contract txView store_ok store_view nul_free
  by unfold_locales (simp_all add: saveRec_def saveCobR_def appendAudit_def)

section \<open>Properties\<close>

lemma findPaymentByIdempotencyKey_unique:
  assumes "store_ok s" and "at_key (st_payments s) (t, i) = Some p"
  shows "findPaymentByIdempotencyKey s t (pay_idempotencyKey p) = Inr p"
proof (cases "findPaymentByIdempotencyKey s t (pay_idempotencyKey p)")
  case (Inl e)
  then have "errors_Is e ErrNotFound" by (auto simp: findPaymentByIdempotencyKey_def)
  with Inl show ?thesis using mem.find_key_none [of s t "pay_idempotencyKey p" e i p] assms by simp
next
  case (Inr q)
  then have q: "at_key (st_payments s) (t, pay_id q) = Some q" "pay_idempotencyKey p = pay_idempotencyKey q"
    using mem.find_key [of s t "pay_idempotencyKey p" q] assms(1) by simp_all
  have "p = q"
    by (rule mem.pays_unique_payment [of s t i p "pay_id q" q]) (simp_all add: assms q)
  with Inr show ?thesis by simp
qed

lemma savePayment_conflict_iff:
  "savePayment s p = Inl ErrConflict \<longleftrightarrow>
     (\<exists>q \<in> set (vals (st_payments s)). pay_tenantID q = pay_tenantID p \<and>
        pay_idempotencyKey q = pay_idempotencyKey p \<and> pay_id q \<noteq> pay_id p)"
  by (auto simp: savePayment_def list_ex_iff)

text \<open>
  C35: storing and finding payments. In a store reached by its own operations, saving a payment of
  a tenant whose id has no NUL byte is refused exactly when another payment of that tenant holds
  the same idempotency key; otherwise the payment is found again by id and by idempotency key, and
  what any other (tenant, id) pair finds has not changed. So a tenant never reads another's payment.
\<close>

theorem payment_roundtrip:
  assumes "store_ok s" and "nul_free (pay_tenantID p)"
  shows "(savePayment s p = Inl ErrConflict \<longleftrightarrow>
      (\<exists>q \<in> set (vals (st_payments s)). pay_tenantID q = pay_tenantID p \<and>
         pay_idempotencyKey q = pay_idempotencyKey p \<and> pay_id q \<noteq> pay_id p)) \<and>
    (savePayment s p = Inl ErrConflict \<or> (\<exists>s'. savePayment s p = Inr s' \<and> store_ok s' \<and>
       findPaymentByID s' (pay_tenantID p) (pay_id p) = Inr p \<and>
       findPaymentByIdempotencyKey s' (pay_tenantID p) (pay_idempotencyKey p) = Inr p \<and>
       (\<forall>t i. nul_free t \<longrightarrow> (t, i) \<noteq> (pay_tenantID p, pay_id p) \<longrightarrow>
          findPaymentByID s' t i = findPaymentByID s t i)))"
proof (intro conjI savePayment_conflict_iff, cases "savePayment s p")
  case (Inl e)
  then show "savePayment s p = Inl ErrConflict \<or> (\<exists>s'. savePayment s p = Inr s' \<and> store_ok s' \<and>
       findPaymentByID s' (pay_tenantID p) (pay_id p) = Inr p \<and>
       findPaymentByIdempotencyKey s' (pay_tenantID p) (pay_idempotencyKey p) = Inr p \<and>
       (\<forall>t i. nul_free t \<longrightarrow> (t, i) \<noteq> (pay_tenantID p, pay_id p) \<longrightarrow>
          findPaymentByID s' t i = findPaymentByID s t i))"
    by (auto simp: savePayment_def split: if_splits)
next
  case (Inr s')
  from savePayment_ok [OF assms Inr] have ok: "store_ok s'"
    and v: "at_key (st_payments s') = (at_key (st_payments s))((pay_tenantID p, pay_id p) \<mapsto> p)"
    by (simp_all add: store_view_def)
  have key: "map_of (st_payments s') (key t i) = ((at_key (st_payments s))((pay_tenantID p, pay_id p) \<mapsto> p)) (t, i)"
    if "nul_free t" for t i
    using fun_cong [OF v, of "(t, i)"] that by (simp add: at_key_def)
  have "findPaymentByIdempotencyKey s' (pay_tenantID p) (pay_idempotencyKey p) = Inr p"
    using ok v by (intro findPaymentByIdempotencyKey_unique [of _ _ "pay_id p"]) auto
  with ok key assms Inr show "savePayment s p = Inl ErrConflict \<or> (\<exists>s'. savePayment s p = Inr s' \<and> store_ok s' \<and>
       findPaymentByID s' (pay_tenantID p) (pay_id p) = Inr p \<and>
       findPaymentByIdempotencyKey s' (pay_tenantID p) (pay_idempotencyKey p) = Inr p \<and>
       (\<forall>t i. nul_free t \<longrightarrow> (t, i) \<noteq> (pay_tenantID p, pay_id p) \<longrightarrow>
          findPaymentByID s' t i = findPaymentByID s t i))"
    by (auto simp: findPaymentByID_def lookup_def at_key_def)
qed

theorem payment_roundtrip_witness:
  "\<exists>s'. savePayment NewStore sample_payment = Inr s' \<and>
     findPaymentByIdempotencyKey s' ''t1'' ''k1'' = Inr sample_payment \<and>
     savePayment s' (sample_payment\<lparr>pay_id := ''p2''\<rparr>) = Inl ErrConflict"
proof -
  have n: "nul_free (pay_tenantID sample_payment)" by (simp add: nul_free_def sample_payment_def)
  have "savePayment NewStore sample_payment \<noteq> Inl ErrConflict"
    by (simp add: savePayment_def NewStore_def)
  with payment_roundtrip [OF store_ok_New n] obtain s'
    where s': "savePayment NewStore sample_payment = Inr s'" "store_ok s'"
      "findPaymentByIdempotencyKey s' (pay_tenantID sample_payment) (pay_idempotencyKey sample_payment)
        = Inr sample_payment" by blast
  moreover have "savePayment s' (sample_payment\<lparr>pay_id := ''p2''\<rparr>) = Inl ErrConflict"
    using s'(1) by (auto simp: savePayment_def NewStore_def sample_payment_def)
  ultimately show ?thesis by (auto simp: sample_payment_def)
qed

text \<open>
  the unit of work is all or nothing. Whatever the callback wrote before it failed (payments,
  ledger, marks, mandates, charges, audit, accesses, tenants and prices), \<open>WithinTx\<close> leaves these
  collections exactly as they were; when the callback succeeds, everything it wrote stands.
\<close>

theorem unit_of_work_atomic:
  "(\<forall>s1 e. fn s = (s1, Inl e) \<longrightarrow>
      (\<exists>s'. WithinTx txView s fn = (s', Inl e) \<and> store_view s' = store_view s \<and>
         st_tenants s' = st_tenants s \<and> st_pricing s' = st_pricing s \<and>
         st_accounts s' = st_accounts s1 \<and> st_consents s' = st_consents s1 \<and> st_invoices s' = st_invoices s1)) \<and>
   (\<forall>s1 x. fn s = (s1, Inr x) \<longrightarrow> WithinTx txView s fn = (s1, Inr x))"
  by (auto simp: WithinTx_def restore_def store_view_def)

theorem unit_of_work_atomic_witness:
  "\<exists>s'. WithinTx txView NewStore
       (\<lambda>s. (s\<lparr>st_payments := [(key ''t'' ''p'', sample_payment)]\<rparr>, Inl ErrUnavailable :: unit result))
     = (s', Inl ErrUnavailable) \<and> st_payments s' = []"
  using unit_of_work_atomic [of "\<lambda>s. (s\<lparr>st_payments := [(key ''t'' ''p'', sample_payment)]\<rparr>,
      Inl ErrUnavailable :: unit result)" NewStore]
  by (auto simp: restore_def NewStore_def WithinTx_def)

lemma consent_scan:
  "fold (\<lambda>r latest. if \<not> P r then latest
            else case latest of None \<Rightarrow> Some r | Some l \<Rightarrow> if lt r l then Some r else latest) cs (Some l) =
   Some (foldl (\<lambda>l y. if lt y l then y else l) l (filter P cs))"
  by (induction cs arbitrary: l) auto

lemma consent_scan_None:
  "fold (\<lambda>r latest. if \<not> P r then latest
            else case latest of None \<Rightarrow> Some r | Some l \<Rightarrow> if lt r l then Some r else latest) cs None =
   (case filter P cs of [] \<Rightarrow> None | x # xs \<Rightarrow> Some (foldl (\<lambda>l y. if lt y l then y else l) x xs))"
  by (induction cs) (auto simp: consent_scan)

text \<open>
  the two consent reads agree. The latest consent of a subject to a version of the terms is
  the first one of that version in the subject's history, which lists every consent of the subject
  in that tenant exactly once, newest first; with none of that version the answer is \<open>ErrNotFound\<close>.
\<close>

theorem latest_consent_heads_history:
  "FindLatestConsent s t sub v =
     (case filter (\<lambda>r. tc_termsVersion r = v) (ListConsents s t sub) of
        [] \<Rightarrow> Inl ErrNotFound | c # _ \<Rightarrow> Inr c) \<and>
   mset (ListConsents s t sub) =
     mset (filter (\<lambda>r. tc_tenantID r = t \<and> tc_subject r = sub) (st_consents s)) \<and>
   sorted_wrt (\<lambda>a b. \<not> consentAfter b a) (ListConsents s t sub)"
proof (intro conjI)
  let ?P = "\<lambda>r. tc_tenantID r = t \<and> tc_subject r = sub \<and> tc_termsVersion r = v"
  have P: "(tc_tenantID r \<noteq> t \<or> tc_subject r \<noteq> sub \<or> tc_termsVersion r \<noteq> v) \<longleftrightarrow> \<not> ?P r" for r
    by auto
  have f: "filter (\<lambda>r. tc_termsVersion r = v) (ListConsents s t sub) =
      SliceStable consentAfter (filter ?P (st_consents s))"
    by (simp add: ListConsents_def consentAfter_def newest.filter_SliceStable conj_commute)
       (simp add: conj_ac)
  show "FindLatestConsent s t sub v =
     (case filter (\<lambda>r. tc_termsVersion r = v) (ListConsents s t sub) of
        [] \<Rightarrow> Inl ErrNotFound | c # _ \<Rightarrow> Inr c)"
  proof (cases "filter ?P (st_consents s)")
    case Nil
    then show ?thesis unfolding FindLatestConsent_def P consent_scan_None f by simp
  next
    case (Cons x xs)
    have "SliceStable consentAfter (x # xs) \<noteq> []" by simp
    then obtain y ys where y: "SliceStable consentAfter (x # xs) = y # ys"
      by (cases "SliceStable consentAfter (x # xs)") auto
    with newest.hd_SliceStable [of "\<lambda>c. ns (tc_grantedAt c)" tc_id x xs] Cons show ?thesis
      unfolding FindLatestConsent_def P consent_scan_None f by (simp add: consentAfter_def)
  qed
  show "mset (ListConsents s t sub) =
     mset (filter (\<lambda>r. tc_tenantID r = t \<and> tc_subject r = sub) (st_consents s))"
    by (simp add: ListConsents_def)
  show "sorted_wrt (\<lambda>a b. \<not> consentAfter b a) (ListConsents s t sub)"
    by (simp add: ListConsents_def consentAfter_def newest.sorted_SliceStable)
qed

text \<open>
  the ledger listing a tenant (or an account) reads. It holds exactly the entries of that
  tenant (account), each as often as it was appended, newest first, and appending an entry of
  another tenant does not change it.
\<close>

theorem ledger_listing:
  "mset (ListLedgerEntries s t) = filter_mset (\<lambda>e. le_tenantID e = t) (mset (st_ledger s)) \<and>
   mset (ListLedgerEntriesByAccount s a) = filter_mset (\<lambda>e. le_accountID e = a) (mset (st_ledger s)) \<and>
   sorted_wrt (\<lambda>e f. ns (le_at f) \<le> ns (le_at e)) (ListLedgerEntries s t) \<and>
   (\<forall>e s'. appendLedgerEntry s e = Inr s' \<longrightarrow> le_tenantID e \<noteq> t \<longrightarrow>
      ListLedgerEntries s' t = ListLedgerEntries s t)"
proof (intro conjI allI impI)
  show "sorted_wrt (\<lambda>e f. ns (le_at f) \<le> ns (le_at e)) (ListLedgerEntries s t)"
    unfolding ListLedgerEntries_def filterLedger_def
    by (rule sorted_wrt_mono_rel [OF _ newest.sorted_SliceStable])
       (auto simp: newest_first_def split: if_splits)
qed (auto simp: ListLedgerEntries_def ListLedgerEntriesByAccount_def filterLedger_def appendLedgerEntry_def)

theorem ledger_listing_witness:
  "ListLedgerEntries (NewStore\<lparr>st_ledger := [\<lparr>le_id = ''e'', le_tenantID = ''t2'', le_endpoint = ''x'',
      le_priceCents = 1, le_reference = [], le_at = zero_time, le_accountID = []\<rparr>]\<rparr>) ''t1''
   = ListLedgerEntries NewStore ''t1''"
  using ledger_listing [of NewStore "''t1''"]
  by (auto simp: appendLedgerEntry_def NewStore_def)

text \<open>
  retention. A purge removes exactly the accesses recorded strictly before the cutoff and
  reports their number; the others keep their order, nothing else changes, and purging again at
  the same or an earlier cutoff removes nothing.
\<close>

theorem purge_removes_expired:
  assumes "PurgePIIAccessBefore s cutoff = (s', n)"
  shows "st_piiAccess s' = filter (\<lambda>e. ns cutoff \<le> ns (ax_at e)) (st_piiAccess s) \<and>
    n = int (length (st_piiAccess s)) - int (length (st_piiAccess s')) \<and>
    s' = s\<lparr>st_piiAccess := st_piiAccess s'\<rparr> \<and>
    (\<forall>c. ns c \<le> ns cutoff \<longrightarrow> PurgePIIAccessBefore s' c = (s', 0))"
proof -
  have s': "s' = s\<lparr>st_piiAccess := filter (\<lambda>e. ns cutoff \<le> ns (ax_at e)) (st_piiAccess s)\<rparr>"
    and n: "n = int (length (filter (\<lambda>e. ns (ax_at e) < ns cutoff) (st_piiAccess s)))"
    using assms by (auto simp: PurgePIIAccessBefore_def Before_def not_less)
  have "length (filter (\<lambda>e. ns cutoff \<le> ns (ax_at e)) (st_piiAccess s)) +
      length (filter (\<lambda>e. ns (ax_at e) < ns cutoff) (st_piiAccess s)) = length (st_piiAccess s)"
    using sum_length_filter_compl [of "\<lambda>e. ns cutoff \<le> ns (ax_at e)" "st_piiAccess s"] by (simp add: not_le)
  moreover have "filter (\<lambda>e. ns cutoff \<le> ns (ax_at e) \<and> ns c \<le> ns (ax_at e)) (st_piiAccess s) =
      filter (\<lambda>e. ns cutoff \<le> ns (ax_at e)) (st_piiAccess s)" if "ns c \<le> ns cutoff" for c :: gotime
    using that by (intro filter_cong) auto
  ultimately show ?thesis using s' n
    by (auto simp: PurgePIIAccessBefore_def Before_def not_less filter_empty_conv)
qed

theorem purge_removes_expired_witness:
  "PurgePIIAccessBefore NewStore zero_time = (NewStore, 0) \<and>
   PurgePIIAccessBefore NewStore zero_time = (NewStore, 0)"
proof -
  have p: "PurgePIIAccessBefore NewStore zero_time = (NewStore, 0)"
    by (simp add: PurgePIIAccessBefore_def NewStore_def)
  show ?thesis using purge_removes_expired [OF p] p by simp
qed

end
