(* ===== verification/Charge.thy ===== *)
theory Charge
  imports Store
begin

text \<open>
  \<open>internal/app/charge.go\<close> and \<open>internal/app/pricing.go\<close>: charge creation and reads. \<open>CreateCharge\<close> is
  cut at the points where other requests can run in between: the admission reads, the lookup of
  the idempotency key, the reserving transaction, the lookup of the winner after a clash, the call
  to the bank, and the finalizing transaction. The bank, the identifiers and the clock readings of
  one call are its environment. Calls to the bank and messages published are recorded as effects.
\<close>

section \<open>Definitions\<close>

definition resolvePriceOrFree ::
  "'s repository \<Rightarrow> 's \<Rightarrow> string \<Rightarrow> string \<Rightarrow> endpoint_pricing result" where
  "resolvePriceOrFree r s tenantID endpoint =
     (case GetEndpointPrice r s tenantID endpoint of
        Inr price \<Rightarrow> Inr price
      | Inl e \<Rightarrow>
          if \<not> errors_Is e ErrNotFound then Inl (Errorf ''resolve price'' e)
          else wrapE ''resolve price (free default)'' (NewEndpointPricing tenantID endpoint 0))"

record create_charge_input =
  ci_TenantID :: string
  ci_AccountID :: string
  ci_Endpoint :: string
  ci_AmountCents :: int
  ci_Currency :: string
  ci_IdempotencyKey :: string

record charge_env =
  ce_bank :: "string \<Rightarrow> charge_request \<Rightarrow> charge_result result"
  ce_paymentID :: string
  ce_reservedAt :: gotime
  ce_entryID :: string
  ce_billedAt :: gotime

text \<open>A bus message; the payload is the JSON object's fields in order.\<close>

record message =
  msg_TenantID :: string
  msg_Type :: string
  msg_IdempotencyKey :: string
  msg_Payload :: "(string \<times> string) list"

datatype effect =
    BankCreateCharge string charge_request
  | Publish string message

definition TopicPaymentCreated :: string where "TopicPaymentCreated = ''payment.created''"
definition TopicPaymentPaid :: string where "TopicPaymentPaid = ''payment.paid''"

text \<open>The tenant, key and price checks.\<close>

definition charge_admit :: "'s repository \<Rightarrow> 's \<Rightarrow> create_charge_input \<Rightarrow> endpoint_pricing result" where
  "charge_admit r s inp =
     bindE (wrapE ''resolve tenant'' (FindTenantByID r s (ci_TenantID inp)))
       (\<lambda>t. if \<not> tn_active t then Inl (NewValidationError ''tenant'' ''tenant is not active'')
            else if ci_IdempotencyKey inp = []
            then Inl (NewValidationError ''idempotency_key'' ''idempotency key is required'')
            else resolvePriceOrFree r s (ci_TenantID inp) (ci_Endpoint inp))"

text \<open>The three steps of \<open>reservePayment\<close>: \<open>None\<close> from the first means the key is new.\<close>

definition reserve_lookup :: "'s repository \<Rightarrow> 's \<Rightarrow> create_charge_input \<Rightarrow> payment option result" where
  "reserve_lookup r s inp =
     (case FindPaymentByIdempotencyKey r s (ci_TenantID inp) (ci_IdempotencyKey inp) of
        Inr existing \<Rightarrow> Inr (Some existing)
      | Inl e \<Rightarrow> if errors_Is e ErrNotFound then Inr None
                 else Inl (Errorf ''idempotency lookup'' e))"

definition reserve_save ::
  "'s repository \<Rightarrow> charge_env \<Rightarrow> 's \<Rightarrow> create_charge_input \<Rightarrow> 's \<times> payment option result" where
  "reserve_save r env s inp =
     (case bindE (NewMoney (ci_AmountCents inp) (ci_Currency inp))
        (\<lambda>amount. NewPayment (ce_paymentID env) (ci_TenantID inp) (ci_Endpoint inp)
           (ci_IdempotencyKey inp) amount (ce_reservedAt env)) of
        Inl e \<Rightarrow> (s, Inl e)
      | Inr p \<Rightarrow>
          (case WithinTx r s (\<lambda>s. case SavePayment r s p of
                                    Inl e \<Rightarrow> (s, Inl e)
                                  | Inr s' \<Rightarrow> (s', Inr ())) of
             (s', Inr _) \<Rightarrow> (s', Inr (Some p))
           | (s', Inl e) \<Rightarrow>
               if errors_Is e ErrConflict then (s', Inr None)
               else (s', Inl (Errorf ''reserve payment'' e))))"

definition reserve_winner :: "'s repository \<Rightarrow> 's \<Rightarrow> create_charge_input \<Rightarrow> payment result" where
  "reserve_winner r s inp =
     wrapE ''resolve idempotency conflict''
       (FindPaymentByIdempotencyKey r s (ci_TenantID inp) (ci_IdempotencyKey inp))"

definition reservePayment ::
  "'s repository \<Rightarrow> charge_env \<Rightarrow> 's \<Rightarrow> create_charge_input \<Rightarrow> 's \<times> payment result" where
  "reservePayment r env s inp =
     (case reserve_lookup r s inp of
        Inl e \<Rightarrow> (s, Inl e)
      | Inr (Some p) \<Rightarrow> (s, Inr p)
      | Inr None \<Rightarrow>
          (case reserve_save r env s inp of
             (s', Inl e) \<Rightarrow> (s', Inl e)
           | (s', Inr (Some p)) \<Rightarrow> (s', Inr p)
           | (s', Inr None) \<Rightarrow> (s', reserve_winner r s' inp)))"

definition charge_request_of :: "create_charge_input \<Rightarrow> payment \<Rightarrow> charge_request" where
  "charge_request_of inp p =
     \<lparr>cq_TenantID = ci_TenantID inp, cq_PaymentID = pay_id p, cq_AmountCents = m_cents (pay_amount p),
      cq_Currency = m_currency (pay_amount p), cq_IdempotencyKey = ci_IdempotencyKey inp,
      cq_DebtorTaxID = [], cq_DebtorName = [], cq_CreditorKey = []\<rparr>"

text \<open>The finalizing transaction: the payment to return and whether this call finalized it.\<close>

definition charge_finalize ::
  "'s repository \<Rightarrow> 's \<Rightarrow> create_charge_input \<Rightarrow> payment \<Rightarrow> ledger_entry \<Rightarrow> 's \<times> (payment \<times> bool) result" where
  "charge_finalize r s inp p le =
     WithinTx r s
       (tx_read (\<lambda>s. FindPaymentByIdempotencyKey r s (ci_TenantID inp) (ci_IdempotencyKey inp))
         (\<lambda>res. case res of
            Inr current \<Rightarrow>
              if pay_txID current \<noteq> [] then tx_return (current, False)
              else tx_write ''save payment'' (\<lambda>s. SavePayment r s p)
                     (tx_write ''append ledger'' (\<lambda>s. AppendLedgerEntry r s le) (tx_return (p, True)))
          | Inl e \<Rightarrow>
              if \<not> errors_Is e ErrNotFound then tx_fail (Errorf ''reload payment'' e)
              else tx_write ''save payment'' (\<lambda>s. SavePayment r s p)
                     (tx_write ''append ledger'' (\<lambda>s. AppendLedgerEntry r s le) (tx_return (p, True)))))"

definition publishPaymentEvent :: "string \<Rightarrow> payment \<Rightarrow> effect" where
  "publishPaymentEvent topic p =
     Publish topic \<lparr>msg_TenantID = pay_tenantID p, msg_Type = topic,
       msg_IdempotencyKey = pay_idempotencyKey p,
       msg_Payload = [(''payment_id'', pay_id p), (''tenant_id'', pay_tenantID p),
         (''status'', status_string (pay_status p)), (''tx_id'', pay_txID p)]\<rparr>"

definition charge_entry ::
  "charge_env \<Rightarrow> create_charge_input \<Rightarrow> payment \<Rightarrow> endpoint_pricing \<Rightarrow> ledger_entry result" where
  "charge_entry env inp p price =
     NewLedgerEntry (ce_entryID env) (ci_TenantID inp) (ci_Endpoint inp) (pay_id p)
       (ep_priceCents price) (ce_billedAt env) [WithAccount (ci_AccountID inp)]"

definition CreateCharge ::
  "'s repository \<Rightarrow> charge_env \<Rightarrow> 's \<Rightarrow> create_charge_input \<Rightarrow> 's \<times> effect list \<times> payment result" where
  "CreateCharge r env s inp =
     (case charge_admit r s inp of
        Inl e \<Rightarrow> (s, [], Inl e)
      | Inr price \<Rightarrow>
          (case reservePayment r env s inp of
             (s1, Inl e) \<Rightarrow> (s1, [], Inl e)
           | (s1, Inr p) \<Rightarrow>
               if pay_txID p \<noteq> [] then (s1, [], Inr p)
               else let req = charge_request_of inp p; call = BankCreateCharge (ci_TenantID inp) req
                 in case ce_bank env (ci_TenantID inp) req of
                      Inl e \<Rightarrow> (s1, [call], Inl (Errorf ''bank create charge'' e))
                    | Inr res \<Rightarrow>
                        let p = SetTxID p (ch_TxID res)
                        in case charge_entry env inp p price of
                             Inl e \<Rightarrow> (s1, [call], Inl e)
                           | Inr le \<Rightarrow>
                               (case charge_finalize r s1 inp p le of
                                  (s2, Inl e) \<Rightarrow> (s2, [call], Inl e)
                                | (s2, Inr (q, finalized)) \<Rightarrow>
                                    (s2, call # (if finalized
                                                 then [publishPaymentEvent TopicPaymentCreated q] else []),
                                     Inr q))))"

definition GetPayment :: "'s repository \<Rightarrow> 's \<Rightarrow> string \<Rightarrow> string \<Rightarrow> payment result" where
  "GetPayment r s tenantID pid =
     bindE (FindPaymentByID r s tenantID pid)
       (\<lambda>p. if pay_tenantID p \<noteq> tenantID then Inl ErrNotFound else Inr p)"

text \<open>
  What the boundary hands to the service: an \<open>int64\<close> amount, and a tenant and key without
  surrounding blanks.
\<close>

definition good_input :: "create_charge_input \<Rightarrow> bool" where
  "good_input inp \<longleftrightarrow> in64 (ci_AmountCents inp) \<and> trimmed (ci_TenantID inp) \<and> trimmed (ci_IdempotencyKey inp)"

text \<open>How often the ledger charges for a payment, and for a state: once for exactly the payments
  that carry a bank transaction id.\<close>

definition billed :: "ledger_entry list \<Rightarrow> string \<Rightarrow> string \<Rightarrow> nat" where
  "billed es t i = length (filter (\<lambda>e. le_tenantID e = t \<and> le_reference e = i) es)"

definition billed_once :: "view \<Rightarrow> bool" where
  "billed_once v \<longleftrightarrow>
     (\<forall>t i. billed (v_ledger v) t i =
        (case v_pays v (t, i) of None \<Rightarrow> 0 | Some p \<Rightarrow> if pay_txID p = [] then 0 else 1))"

definition wf_pays :: "view \<Rightarrow> bool" where
  "wf_pays v \<longleftrightarrow> (\<forall>k p. v_pays v k = Some p \<longrightarrow> wf_payment p)"

text \<open>
  A payment a request works on, after the lookup or the reservation: it is the tenant's payment for
  that key, and the store holds a payment of the same identity.
\<close>

definition holds :: "view \<Rightarrow> create_charge_input \<Rightarrow> payment \<Rightarrow> bool" where
  "holds v inp p \<longleftrightarrow>
     pay_tenantID p = ci_TenantID inp \<and> pay_idempotencyKey p = ci_IdempotencyKey inp \<and> wf_payment p \<and>
     (\<exists>q. v_pays v (ci_TenantID inp, pay_id p) = Some q \<and> same_identity q p)"

section \<open>Lemmas on the steps\<close>

lemma billed_append:
  "billed (es @ [e]) t i = billed es t i + (if le_tenantID e = t \<and> le_reference e = i then 1 else 0)"
  by (simp add: billed_def)

lemma charge_entry_Inr:
  assumes "charge_entry env inp p price = Inr le"
  shows "le_tenantID le = TrimSpace (ci_TenantID inp)" "le_reference le = TrimSpace (pay_id p)"
    "le_priceCents le = ep_priceCents price" "le_endpoint le = TrimSpace (ci_Endpoint inp)"
  using assms by (auto simp: charge_entry_def NewLedgerEntry_def WithAccount_def Let_def split: if_splits)

lemma SetTxID_identity: "same_identity q p \<Longrightarrow> same_identity q (SetTxID p tx)"
  by (simp add: SetTxID_def same_identity_def)

lemma SetTxID_tx [simp]: "pay_txID (SetTxID p tx) = TrimSpace tx" "pay_id (SetTxID p tx) = pay_id p"
  "pay_tenantID (SetTxID p tx) = pay_tenantID p" "pay_idempotencyKey (SetTxID p tx) = pay_idempotencyKey p"
  "pay_status (SetTxID p tx) = pay_status p" "pay_amount (SetTxID p tx) = pay_amount p"
  by (simp_all add: SetTxID_def)

lemma SetTxID_wf_fresh: "wf_payment p \<Longrightarrow> pay_txID p = [] \<Longrightarrow> wf_payment (SetTxID p tx)"
  by (auto intro: SetTxID_wf dest: wf_payment_tx_empty)

lemma holds_key: "holds v inp p \<Longrightarrow> pay_idempotencyKey p = ci_IdempotencyKey inp"
  by (simp add: holds_def)

lemma holds_SetTxID: "holds v inp p \<Longrightarrow> pay_txID p = [] \<Longrightarrow> holds v inp (SetTxID p tx)"
  by (auto simp: holds_def intro: SetTxID_identity SetTxID_wf_fresh)

lemma reserved_payment:
  assumes "good_input inp"
    and "bindE (NewMoney (ci_AmountCents inp) (ci_Currency inp))
        (\<lambda>amount. NewPayment pid (ci_TenantID inp) (ci_Endpoint inp) (ci_IdempotencyKey inp) amount at) = Inr p"
  shows "wf_payment p" "pay_tenantID p = ci_TenantID inp" "pay_idempotencyKey p = ci_IdempotencyKey inp"
    "pay_txID p = []" "pay_id p = TrimSpace pid"
proof -
  from assms(2) obtain amt where a: "NewMoney (ci_AmountCents inp) (ci_Currency inp) = Inr amt"
    and p: "NewPayment pid (ci_TenantID inp) (ci_Endpoint inp) (ci_IdempotencyKey inp) amt at = Inr p"
    by (auto simp: bindE_Inr_iff)
  have "wf_money amt" using a assms(1) by (auto simp: NewMoney_def good_input_def wf_money_def in64_def split: if_splits)
  then show "wf_payment p" using p by (rule NewPayment_wf [rotated])
  show "pay_tenantID p = ci_TenantID inp" "pay_idempotencyKey p = ci_IdempotencyKey inp"
    "pay_txID p = []" "pay_id p = TrimSpace pid"
    using NewPayment_Inr [OF p] assms(1) by (simp_all add: good_input_def)
qed

section \<open>What a store may do to the payments\<close>

text \<open>
  Payments are never removed; they keep their identity, their bank transaction id once they have
  one, and everything once they are paid.
\<close>

definition evolves :: "view \<Rightarrow> view \<Rightarrow> bool" where
  "evolves v v' \<longleftrightarrow>
     (\<forall>k q. v_pays v k = Some q \<longrightarrow>
        (\<exists>q'. v_pays v' k = Some q' \<and> same_identity q q' \<and>
           (pay_txID q \<noteq> [] \<longrightarrow> pay_txID q' = pay_txID q) \<and>
           (pay_status q = StatusPaid \<longrightarrow> q' = q)))"

lemma same_identity_refl [simp]: "same_identity p p"
  by (simp add: same_identity_def)

lemma evolves_refl [simp]: "evolves v v"
  by (auto simp: evolves_def)

lemma evolves_same_pays: "v_pays v' = v_pays v \<Longrightarrow> evolves v v'"
  by (auto simp: evolves_def)

lemma evolves_trans:
  assumes "evolves u v" "evolves v w"
  shows "evolves u w"
  unfolding evolves_def
proof (intro allI impI)
  fix k p assume "v_pays u k = Some p"
  with assms(1) obtain q where q: "v_pays v k = Some q" "same_identity p q"
    "pay_txID p \<noteq> [] \<longrightarrow> pay_txID q = pay_txID p" "pay_status p = StatusPaid \<longrightarrow> q = p"
    unfolding evolves_def by blast
  with assms(2) obtain q' where "v_pays w k = Some q'" "same_identity q q'"
    "pay_txID q \<noteq> [] \<longrightarrow> pay_txID q' = pay_txID q" "pay_status q = StatusPaid \<longrightarrow> q' = q"
    unfolding evolves_def by blast
  with q show "\<exists>q'. v_pays w k = Some q' \<and> same_identity p q' \<and>
      (pay_txID p \<noteq> [] \<longrightarrow> pay_txID q' = pay_txID p) \<and> (pay_status p = StatusPaid \<longrightarrow> q' = p)"
    by (intro exI [of _ q']) (auto intro: same_identity_trans)
qed

lemma evolves_update:
  assumes "\<And>q. v_pays v k = Some q \<Longrightarrow> same_identity q p \<and> (pay_txID q \<noteq> [] \<longrightarrow> pay_txID p = pay_txID q) \<and>
      (pay_status q = StatusPaid \<longrightarrow> p = q)"
    and "v_pays v' = (v_pays v)(k \<mapsto> p)"
  shows "evolves v v'"
  using assms unfolding evolves_def by (metis fun_upd_other fun_upd_same same_identity_refl)

lemma same_identity_sym: "same_identity p q \<Longrightarrow> same_identity q p"
  by (simp add: same_identity_def)

lemma holds_evolves:
  assumes "holds v inp p" and "evolves v v'"
  shows "holds v' inp p"
proof -
  from assms(1) obtain q where q: "v_pays v (ci_TenantID inp, pay_id p) = Some q" "same_identity q p"
    by (auto simp: holds_def)
  with assms(2) obtain q' where "v_pays v' (ci_TenantID inp, pay_id p) = Some q'" "same_identity q q'"
    unfolding evolves_def by blast
  with q have "\<exists>q'. v_pays v' (ci_TenantID inp, pay_id p) = Some q' \<and> same_identity q' p"
    by (metis same_identity_sym same_identity_trans)
  with assms(1) show ?thesis by (simp add: holds_def)
qed

lemma billed_once_update:
  assumes "billed_once v" and "v_pays v' = (v_pays v)((t, i) \<mapsto> p)" and "v_ledger v' = v_ledger v"
    and "v_pays v (t, i) = None \<and> pay_txID p = [] \<or>
      (\<exists>q. v_pays v (t, i) = Some q \<and> (pay_txID q = [] \<longleftrightarrow> pay_txID p = []))"
  shows "billed_once v'"
proof -
  have "billed (v_ledger v) t i = (if pay_txID p = [] then 0 else 1)"
    using assms(1,4) by (auto simp: billed_once_def split: option.splits if_splits)
  with assms show ?thesis by (auto simp: billed_once_def)
qed

lemma billed_once_finalize:
  assumes "billed_once v" and "v_pays v (t, i) = Some q" "pay_txID q = []" "pay_txID p \<noteq> []"
    and "v_pays v' = (v_pays v)((t, i) \<mapsto> p)" "v_ledger v' = v_ledger v @ [e]"
    and "le_tenantID e = t" "le_reference e = i"
  shows "billed_once v'"
proof -
  have "billed (v_ledger v) t i = 0" using assms(1-3) by (simp add: billed_once_def)
  with assms show ?thesis by (auto simp: billed_once_def billed_append)
qed

section \<open>Each step keeps the books\<close>

definition charge_inv :: "view \<Rightarrow> bool" where
  "charge_inv v \<longleftrightarrow> billed_once v \<and> wf_pays v"

context store_contract
begin

lemma lookup_holds:
  assumes "good s" "charge_inv (vw s)" "FindPaymentByIdempotencyKey r s (ci_TenantID inp) (ci_IdempotencyKey inp) = Inr p"
  shows "holds (vw s) inp p \<and> v_pays (vw s) (ci_TenantID inp, pay_id p) = Some p"
proof -
  have p: "v_pays (vw s) (ci_TenantID inp, pay_id p) = Some p" "pay_idempotencyKey p = ci_IdempotencyKey inp"
    using find_key [OF assms(1,3)] by simp_all
  moreover have "pay_tenantID p = ci_TenantID inp" using pays_key [OF assms(1) p(1)] by simp
  moreover have "wf_payment p" using p(1) assms(2) by (auto simp: charge_inv_def wf_pays_def)
  ultimately show ?thesis by (simp add: holds_def)
qed

lemma reserve_lookup_holds:
  "good s \<Longrightarrow> charge_inv (vw s) \<Longrightarrow> reserve_lookup r s inp = Inr (Some p) \<Longrightarrow>
     holds (vw s) inp p \<and> v_pays (vw s) (ci_TenantID inp, pay_id p) = Some p"
  by (auto simp: reserve_lookup_def split: sum.splits if_splits dest: lookup_holds)

lemma reserve_winner_holds:
  "good s \<Longrightarrow> charge_inv (vw s) \<Longrightarrow> reserve_winner r s inp = Inr p \<Longrightarrow>
     holds (vw s) inp p \<and> v_pays (vw s) (ci_TenantID inp, pay_id p) = Some p"
  by (auto simp: reserve_winner_def dest: lookup_holds)

lemma reserve_save_step:
  assumes g: "good s" "charge_inv (vw s)" "good_input inp" "clean (ci_TenantID inp)"
    and fresh: "v_pays (vw s) (ci_TenantID inp, TrimSpace (ce_paymentID env)) = None"
    and run: "reserve_save r env s inp = (s', res)"
  shows "good s' \<and> charge_inv (vw s') \<and> evolves (vw s) (vw s') \<and>
    (\<forall>p. res = Inr (Some p) \<longrightarrow> holds (vw s') inp p \<and> pay_txID p = [])"
proof (cases "bindE (NewMoney (ci_AmountCents inp) (ci_Currency inp))
        (\<lambda>amount. NewPayment (ce_paymentID env) (ci_TenantID inp) (ci_Endpoint inp)
           (ci_IdempotencyKey inp) amount (ce_reservedAt env))")
  case (Inl e)
  with run g show ?thesis by (auto simp: reserve_save_def)
next
  case (Inr p)
  note p = reserved_payment [OF g(3) Inr]
  show ?thesis
  proof (cases "SavePayment r s p")
    case (Inl e)
    with run Inr have "s' = Rollback r s s \<and> (\<forall>p. res \<noteq> Inr (Some p))"
      by (auto simp: reserve_save_def WithinTx_def split: if_splits)
    with rollback [OF g(1) g(1)] g show ?thesis by auto
  next
    case (Inr t)
    with run \<open>bindE _ _ = Inr p\<close> have s': "s' = t" "res = Inr (Some p)"
      by (auto simp: reserve_save_def WithinTx_def)
    have c: "clean (pay_tenantID p)" using p g(4) by simp
    note sv = save_payment [OF g(1) c Inr]
    have "charge_inv (vw t)"
      using sv g(2) fresh p by (auto simp: charge_inv_def wf_pays_def intro!: billed_once_update [of "vw s"])
    moreover have "evolves (vw s) (vw t)"
      using sv fresh p by (intro evolves_update [of _ "(pay_tenantID p, pay_id p)" p]) auto
    moreover have "holds (vw t) inp p" using sv p by (simp add: holds_def)
    ultimately show ?thesis using sv s' p by simp
  qed
qed

lemma finalize_write:
  assumes g: "good s" "charge_inv (vw s)" "clean (ci_TenantID inp)" and h: "holds (vw s) inp p"
    and q: "v_pays (vw s) (ci_TenantID inp, pay_id p) = Some q" "pay_txID q = []" and tx: "pay_txID p \<noteq> []"
    and le: "le_tenantID le = ci_TenantID inp" "le_reference le = pay_id p"
    and sv: "SavePayment r s p = Inr s1" and ap: "AppendLedgerEntry r s1 le = Inr s2"
  shows "good s2 \<and> charge_inv (vw s2) \<and> evolves (vw s) (vw s2) \<and>
    v_pays (vw s2) (ci_TenantID inp, pay_id p) = Some p"
proof -
  have p: "pay_tenantID p = ci_TenantID inp" "wf_payment p" "same_identity q p"
    using h q by (auto simp: holds_def)
  have c: "clean (pay_tenantID p)" using g(3) p by simp
  from save_payment [OF g(1) c sv] have s1: "good s1"
    "v_pays (vw s1) = (v_pays (vw s))((ci_TenantID inp, pay_id p) \<mapsto> p)" "v_ledger (vw s1) = v_ledger (vw s)"
    using p(1) by simp_all
  from append_ledger [OF s1(1) ap] s1 have s2: "good s2"
    "v_pays (vw s2) = (v_pays (vw s))((ci_TenantID inp, pay_id p) \<mapsto> p)" "v_ledger (vw s2) = v_ledger (vw s) @ [le]"
    by simp_all
  have "billed_once (vw s2)"
    using g(2) by (intro billed_once_finalize [OF _ q tx s2(2,3) le]) (simp add: charge_inv_def)
  moreover have "wf_pays (vw s2)" using g(2) p(2) s2 by (auto simp: charge_inv_def wf_pays_def)
  moreover have "wf_payment q" using g(2) q by (auto simp: charge_inv_def wf_pays_def)
  then have "evolves (vw s) (vw s2)"
    using q p s2 by (intro evolves_update [OF _ s2(2)]) (auto dest: wf_payment_tx_empty)
  ultimately show ?thesis using s2 by (simp add: charge_inv_def)
qed

lemma finalize_write_fail:
  assumes "good s" "clean (pay_tenantID p)"
    and "tx_write ''save payment'' (\<lambda>s. SavePayment r s p)
           (tx_write ''append ledger'' (\<lambda>s. AppendLedgerEntry r s le) (tx_return x)) s = (s', res)"
  shows "good s'"
  using assms save_payment [OF assms(1,2)] append_ledger
  by (auto simp: tx_defs split: sum.splits)

lemma finalize_step:
  assumes g: "good s" "charge_inv (vw s)" "clean (ci_TenantID inp)" and h: "holds (vw s) inp p"
    and tx: "pay_txID p \<noteq> []"
    and le: "le_tenantID le = ci_TenantID inp" "le_reference le = pay_id p"
    and run: "charge_finalize r s inp p le = (s', res)"
  shows "good s' \<and> charge_inv (vw s') \<and> evolves (vw s) (vw s') \<and>
    (\<forall>q b. res = Inr (q, b) \<longrightarrow>
       v_pays (vw s') (ci_TenantID inp, pay_id p) = Some q \<and> pay_txID q \<noteq> [])"
proof -
  obtain q where q: "v_pays (vw s) (ci_TenantID inp, pay_id p) = Some q" "same_identity q p"
    using h by (auto simp: holds_def)
  have pk: "pay_idempotencyKey q = ci_IdempotencyKey inp" "pay_tenantID p = ci_TenantID inp"
    using q h by (auto simp: holds_def same_identity_def)
  let ?w = "tx_write ''save payment'' (\<lambda>s. SavePayment r s p)
           (tx_write ''append ledger'' (\<lambda>s. AppendLedgerEntry r s le) (tx_return (p, True)))"
  show ?thesis
  proof (cases "FindPaymentByIdempotencyKey r s (ci_TenantID inp) (ci_IdempotencyKey inp)")
    case (Inl e)
    with find_key_none [OF g(1) Inl _ q(1)] pk have "\<not> errors_Is e ErrNotFound" by auto
    with Inl run have "s' = Rollback r s s" "\<And>x. res \<noteq> Inr x"
      by (auto simp: charge_finalize_def WithinTx_def tx_defs)
    with rollback [OF g(1) g(1)] g show ?thesis by auto
  next
    case (Inr c)
    from find_key [OF g(1) Inr] have c: "v_pays (vw s) (ci_TenantID inp, pay_id c) = Some c"
      "pay_idempotencyKey c = ci_IdempotencyKey inp" by simp_all
    have "c = q" using pays_unique_payment [OF g(1) c(1) q(1)] c(2) pk by simp
    show ?thesis
    proof (cases "pay_txID c = []")
      case False
      with Inr run have "s' = s" "res = Inr (c, False)"
        by (auto simp: charge_finalize_def WithinTx_def tx_defs)
      with g q False \<open>c = q\<close> show ?thesis by simp
    next
      case True
      with Inr have fin: "charge_finalize r s inp p le = WithinTx r s ?w"
        by (simp add: charge_finalize_def WithinTx_def tx_read_def)
      show ?thesis
      proof (cases res)
        case (Inl e)
        have cl: "clean (pay_tenantID p)" using g(3) pk(2) by simp
        have "good s2" if "?w s = (s2, x)" for s2 x
          using that by (rule finalize_write_fail [OF g(1) cl])
        with within_tx_error [OF g(1), of ?w s' e] run fin Inl have "good s' \<and> vw s' = vw s" by simp
        with g Inl show ?thesis by simp
      next
        case (Inr y)
        with run fin have "?w s = (s', Inr y)" by (simp add: within_tx_ok)
        then obtain s1 where "SavePayment r s p = Inr s1" "AppendLedgerEntry r s1 le = Inr s'" "y = (p, True)"
          by (auto simp: tx_defs split: sum.splits)
        with finalize_write [OF g h q(1) _ tx le] True \<open>c = q\<close> Inr tx show ?thesis by auto
      qed
    qed
  qed
qed

lemma reserve_step:
  assumes g: "good s" "charge_inv (vw s)" "good_input inp" "clean (ci_TenantID inp)"
    and fresh: "v_pays (vw s) (ci_TenantID inp, TrimSpace (ce_paymentID env)) = None"
    and run: "reservePayment r env s inp = (s', res)"
  shows "good s' \<and> charge_inv (vw s') \<and> evolves (vw s) (vw s') \<and>
    (\<forall>p. res = Inr p \<longrightarrow> holds (vw s') inp p \<and>
       (pay_txID p \<noteq> [] \<longrightarrow> v_pays (vw s') (ci_TenantID inp, pay_id p) = Some p))"
proof (cases "reserve_lookup r s inp")
  case (Inl e)
  with run g show ?thesis by (auto simp: reservePayment_def)
next
  case (Inr x)
  show ?thesis
  proof (cases x)
    case (Some p)
    with Inr run have "s' = s" "res = Inr p" by (auto simp: reservePayment_def)
    with reserve_lookup_holds [OF g(1,2)] Inr Some g show ?thesis by auto
  next
    case None
    obtain s1 y where sv: "reserve_save r env s inp = (s1, y)" by fastforce
    note st = reserve_save_step [OF g fresh sv]
    from run Inr None sv consider
        (err) e where "y = Inl e" "s' = s1" "res = Inl e"
      | (own) p where "y = Inr (Some p)" "s' = s1" "res = Inr p"
      | (lost) "y = Inr None" "s' = s1" "res = reserve_winner r s1 inp"
      by (auto simp: reservePayment_def split: sum.splits option.splits)
    then show ?thesis
    proof cases
      case lost
      with st reserve_winner_holds [of s1 inp] show ?thesis by auto
    qed (use st in auto)
  qed
qed

lemma create_charge_step:
  assumes g: "good s" "charge_inv (vw s)" "good_input inp" "clean (ci_TenantID inp)"
    and fresh: "v_pays (vw s) (ci_TenantID inp, TrimSpace (ce_paymentID env)) = None"
    and bank: "\<And>req res. ce_bank env (ci_TenantID inp) req = Inr res \<Longrightarrow> TrimSpace (ch_TxID res) \<noteq> []"
    and run: "CreateCharge r env s inp = (s', effs, res)"
  shows "good s' \<and> charge_inv (vw s') \<and> evolves (vw s) (vw s') \<and>
    (\<forall>p. res = Inr p \<longrightarrow> v_pays (vw s') (ci_TenantID inp, pay_id p) = Some p \<and> pay_txID p \<noteq> [] \<and>
       pay_idempotencyKey p = ci_IdempotencyKey inp)"
proof (cases "charge_admit r s inp")
  case (Inl e)
  with run g show ?thesis by (auto simp: CreateCharge_def)
next
  case (Inr price)
  obtain s1 x where rs: "reservePayment r env s inp = (s1, x)" by fastforce
  note r1 = reserve_step [OF g fresh rs]
  show ?thesis
  proof (cases "\<exists>p bres le. x = Inr p \<and> pay_txID p = [] \<and>
      ce_bank env (ci_TenantID inp) (charge_request_of inp p) = Inr bres \<and>
      charge_entry env inp (SetTxID p (ch_TxID bres)) price = Inr le")
    case False
    with run Inr rs have "s' = s1 \<and> (\<forall>p. res = Inr p \<longrightarrow> x = Inr p \<and> pay_txID p \<noteq> [])"
      by (auto simp: CreateCharge_def Let_def split: sum.splits if_splits)
    with r1 show ?thesis using holds_key by blast
  next
    case True
    then obtain p bres le where x: "x = Inr p" "pay_txID p = []"
      "ce_bank env (ci_TenantID inp) (charge_request_of inp p) = Inr bres"
      and le: "charge_entry env inp (SetTxID p (ch_TxID bres)) price = Inr le" by blast
    let ?p = "SetTxID p (ch_TxID bres)"
    obtain s2 y where f0: "charge_finalize r s1 inp ?p le = (s2, y)" by fastforce
    with run Inr rs x le have "s' = s2 \<and> res = (case y of Inl e \<Rightarrow> Inl e | Inr (q, b) \<Rightarrow> Inr q)"
      by (simp add: CreateCharge_def Let_def split: sum.splits prod.splits)
    with f0 have f: "charge_finalize r s1 inp ?p le = (s', y)"
      "res = (case y of Inl e \<Rightarrow> Inl e | Inr (q, b) \<Rightarrow> Inr q)" by simp_all
    have h: "holds (vw s1) inp ?p" using r1 x by (intro holds_SetTxID) auto
    then have k: "pay_idempotencyKey ?p = ci_IdempotencyKey inp" "trimmed (pay_id ?p)"
      by (auto simp: holds_def wf_payment_def)
    have l: "le_tenantID le = ci_TenantID inp" "le_reference le = pay_id ?p"
      using charge_entry_Inr [OF le] g(3) k by (simp_all add: good_input_def)
    have tx: "pay_txID ?p \<noteq> []" using bank [OF x(3)] by simp
    from r1 have g1: "good s1" "charge_inv (vw s1)" by auto
    note fs = finalize_step [OF g1 g(4) h tx l f(1)]
    have ev: "evolves (vw s) (vw s')" using r1 fs evolves_trans by blast
    have "v_pays (vw s') (ci_TenantID inp, pay_id q) = Some q \<and> pay_txID q \<noteq> [] \<and>
        pay_idempotencyKey q = ci_IdempotencyKey inp" if "res = Inr q" for q
    proof -
      from that f(2) obtain b where "y = Inr (q, b)" by (auto split: sum.splits)
      with fs have q: "v_pays (vw s') (ci_TenantID inp, pay_id ?p) = Some q" "pay_txID q \<noteq> []" by blast+
      have "holds (vw s') inp ?p" using h fs by (blast intro: holds_evolves)
      with q k have "pay_idempotencyKey q = ci_IdempotencyKey inp \<and> pay_id q = pay_id ?p"
        unfolding holds_def same_identity_def by (metis option.inject)
      with q show ?thesis by simp
    qed
    with fs ev show ?thesis by blast
  qed
qed

end

section \<open>Properties\<close>

lemma reserve_save_frame:
  "reserve_save txView env s inp = (s', res) \<Longrightarrow> st_tenants s' = st_tenants s \<and> st_pricing s' = st_pricing s"
  by (auto simp: reserve_save_def WithinTx_def savePayment_def restore_def split: sum.splits prod.splits if_splits)

lemma charge_finalize_frame:
  "charge_finalize txView s inp p le = (s', res) \<Longrightarrow> st_tenants s' = st_tenants s \<and> st_pricing s' = st_pricing s"
  by (auto simp: charge_finalize_def WithinTx_def tx_defs savePayment_def appendLedgerEntry_def restore_def
      split: sum.splits prod.splits if_splits)

lemma reservePayment_frame:
  "reservePayment txView env s inp = (s', res) \<Longrightarrow> st_tenants s' = st_tenants s \<and> st_pricing s' = st_pricing s"
  by (auto simp: reservePayment_def split: sum.splits prod.splits option.splits dest: reserve_save_frame)

lemma CreateCharge_frame:
  assumes "CreateCharge txView env s inp = (s', effs, res)"
  shows "st_tenants s' = st_tenants s \<and> st_pricing s' = st_pricing s"
proof -
  obtain s1 x where rs: "reservePayment txView env s inp = (s1, x)" by fastforce
  from assms rs consider "s' = s" | "s' = s1" | p le y where "charge_finalize txView s1 inp p le = (s', y)"
    by (auto simp: CreateCharge_def Let_def split: sum.splits prod.splits if_splits)
  then show ?thesis
    using reservePayment_frame [OF rs] by cases (auto dest: charge_finalize_frame)
qed

lemma charge_admit_frame:
  "st_tenants s' = st_tenants s \<Longrightarrow> st_pricing s' = st_pricing s \<Longrightarrow>
     charge_admit txView s' inp = charge_admit txView s inp"
  by (simp add: charge_admit_def resolvePriceOrFree_def findTenantByID_def getEndpointPrice_def cong: if_cong)

lemma CreateCharge_replay:
  assumes "charge_admit txView s inp = Inr price"
    and "findPaymentByIdempotencyKey s (ci_TenantID inp) (ci_IdempotencyKey inp) = Inr p" "pay_txID p \<noteq> []"
  shows "CreateCharge txView env s inp = (s, [], Inr p)"
  using assms by (simp add: CreateCharge_def reservePayment_def reserve_lookup_def)

text \<open>
  C2: one charge, one bill, whatever the retries. On the in-memory store, with the books in order
  (every payment billed once if it carries a bank transaction id and not at all otherwise), a new
  payment id that is not yet used and a bank that answers with a transaction id: after
  \<open>CreateCharge\<close> the books are in order again, whether it succeeded or failed at any point; no
  payment was removed, lost its transaction id or, once paid, changed. If it returned a payment,
  that payment is the tenant's stored one for the key and is billed exactly once, and every later
  call with the same input returns it again without touching the store or calling the bank.
\<close>

theorem charge_billed_once:
  assumes "store_ok s" "charge_inv (store_view s)" "good_input inp" "nul_free (ci_TenantID inp)"
    and "findPaymentByID s (ci_TenantID inp) (TrimSpace (ce_paymentID env)) = Inl ErrNotFound"
    and "\<And>req res. ce_bank env (ci_TenantID inp) req = Inr res \<Longrightarrow> TrimSpace (ch_TxID res) \<noteq> []"
    and "CreateCharge txView env s inp = (s', effs, res)"
  shows "store_ok s' \<and> charge_inv (store_view s') \<and> evolves (store_view s) (store_view s') \<and>
    (\<forall>p. res = Inr p \<longrightarrow>
       findPaymentByIdempotencyKey s' (ci_TenantID inp) (ci_IdempotencyKey inp) = Inr p \<and>
       billed (st_ledger s') (ci_TenantID inp) (pay_id p) = 1 \<and>
       (\<forall>env'. CreateCharge txView env' s' inp = (s', [], Inr p)))"
proof -
  have "v_pays (store_view s) (ci_TenantID inp, TrimSpace (ce_paymentID env)) = None"
    using assms(5) by (auto simp: findPaymentByID_def at_key_def)
  from mem.create_charge_step [OF assms(1-4) this assms(6,7)]
  have st: "store_ok s'" "charge_inv (store_view s')" "evolves (store_view s) (store_view s')"
    and ok: "\<And>p. res = Inr p \<Longrightarrow> at_key (st_payments s') (ci_TenantID inp, pay_id p) = Some p \<and>
      pay_txID p \<noteq> [] \<and> pay_idempotencyKey p = ci_IdempotencyKey inp" by auto
  have "findPaymentByIdempotencyKey s' (ci_TenantID inp) (ci_IdempotencyKey inp) = Inr p \<and>
       billed (st_ledger s') (ci_TenantID inp) (pay_id p) = 1 \<and>
       (\<forall>env'. CreateCharge txView env' s' inp = (s', [], Inr p))" if res: "res = Inr p" for p
  proof -
    note p = ok [OF res]
    have f: "findPaymentByIdempotencyKey s' (ci_TenantID inp) (ci_IdempotencyKey inp) = Inr p"
      using findPaymentByIdempotencyKey_unique [OF st(1)] p by metis
    have "billed (st_ledger s') (ci_TenantID inp) (pay_id p) = 1"
      using st(2) p by (simp add: charge_inv_def billed_once_def)
    moreover obtain price where "charge_admit txView s inp = Inr price"
      using assms(7) res by (auto simp: CreateCharge_def split: sum.splits)
    then have "charge_admit txView s' inp = Inr price"
      using CreateCharge_frame [OF assms(7)] charge_admit_frame by metis
    ultimately show ?thesis using f p CreateCharge_replay by blast
  qed
  with st show ?thesis by blast
qed

section \<open>A sample request\<close>

definition charge_tenant :: tenant where
  "charge_tenant = \<lparr>tn_id = ''t1'', tn_name = ''T'', tn_active = True, tn_createdAt = zero_time, tn_accountID = []\<rparr>"

definition sample_store :: store where
  "sample_store = NewStore\<lparr>st_tenants := [(''t1'', charge_tenant)]\<rparr>"

definition sample_input :: create_charge_input where
  "sample_input = \<lparr>ci_TenantID = ''t1'', ci_AccountID = [], ci_Endpoint = ''charges'', ci_AmountCents = 500,
     ci_Currency = ''BRL'', ci_IdempotencyKey = ''k1''\<rparr>"

definition sample_env :: charge_env where
  "sample_env = \<lparr>ce_bank = (\<lambda>t req. Inr \<lparr>ch_TxID = ''tx1'', ch_Status = ''pending'',
       ch_ExpectedAmountCents = cq_AmountCents req, ch_ReceivedAmountCents = 0, ch_Installments = 0,
       ch_Message = [], ch_SettlementKey = []\<rparr>),
     ce_paymentID = ''p1'', ce_reservedAt = zero_time, ce_entryID = ''e1'', ce_billedAt = zero_time\<rparr>"

definition sample_down_env :: charge_env where
  "sample_down_env = sample_env\<lparr>ce_bank := \<lambda>t req. Inl ErrUnavailable\<rparr>"

lemma sample_trims [simp]:
  "TrimSpace ''t1'' = ''t1''" "TrimSpace ''p1'' = ''p1''" "TrimSpace ''k1'' = ''k1''"
  "TrimSpace ''charges'' = ''charges''" "TrimSpace ''tx1'' = ''tx1''" "TrimSpace ''e1'' = ''e1''"
  "TrimSpace ''e2'' = ''e2''" "TrimSpace ''p2'' = ''p2''"
  by (simp_all add: TrimSpace_plain plain_byte_def less_eq_char_def)

lemma sample_good:
  "store_ok sample_store" "charge_inv (store_view sample_store)" "good_input sample_input"
  "nul_free (ci_TenantID sample_input)"
  "findPaymentByID sample_store (ci_TenantID sample_input) (TrimSpace (ce_paymentID sample_env)) = Inl ErrNotFound"
  by (simp_all add: store_ok_def sample_store_def NewStore_def keyed_def unique_keys_def charge_inv_def
      billed_once_def wf_pays_def store_view_def at_key_def billed_def good_input_def sample_input_def
      in64_def max64_def min64_def trimmed_def nul_free_def findPaymentByID_def)

definition sample_paid_tx :: payment where
  "sample_paid_tx = sample_payment\<lparr>pay_txID := ''tx1''\<rparr>"

definition sample_entry :: ledger_entry where
  "sample_entry = \<lparr>le_id = ''e1'', le_tenantID = ''t1'', le_endpoint = ''charges'', le_priceCents = 0,
     le_reference = ''p1'', le_at = zero_time, le_accountID = []\<rparr>"

lemma sample_admit:
  "charge_admit txView sample_store sample_input =
     Inr \<lparr>ep_tenantID = ''t1'', ep_endpoint = ''charges'', ep_priceCents = 0\<rparr>"
  by (simp add: charge_admit_def sample_store_def sample_input_def charge_tenant_def NewStore_def
      findTenantByID_def lookup_def resolvePriceOrFree_def getEndpointPrice_def NewEndpointPricing_def)

lemma sample_reserve:
  "reservePayment txView sample_env sample_store sample_input =
     (sample_store\<lparr>st_payments := [(key ''t1'' ''p1'', sample_payment)]\<rparr>, Inr sample_payment)"
  by (simp add: reservePayment_def reserve_lookup_def findPaymentByIdempotencyKey_def scan_def
      sample_store_def NewStore_def reserve_save_def sample_input_def sample_env_def NewMoney_def
      currencyRe_def NewPayment_def IsZeroMoney_def WithinTx_def savePayment_def sample_payment_def
      less_eq_char_def)

lemma sample_bill:
  "charge_entry sample_env sample_input sample_paid_tx
     \<lparr>ep_tenantID = ''t1'', ep_endpoint = ''charges'', ep_priceCents = 0\<rparr> = Inr sample_entry"
  by (simp add: charge_entry_def sample_env_def sample_input_def sample_paid_tx_def sample_payment_def
      NewLedgerEntry_def WithAccount_def sample_entry_def)

lemma sample_finalize:
  "charge_finalize txView (sample_store\<lparr>st_payments := [(key ''t1'' ''p1'', sample_payment)]\<rparr>) sample_input
     sample_paid_tx sample_entry =
   (sample_store\<lparr>st_payments := [(key ''t1'' ''p1'', sample_paid_tx)], st_ledger := [sample_entry]\<rparr>,
    Inr (sample_paid_tx, True))"
  by (simp add: charge_finalize_def tx_defs WithinTx_def findPaymentByIdempotencyKey_def scan_def
      savePayment_def appendLedgerEntry_def sample_store_def NewStore_def sample_paid_tx_def
      sample_payment_def sample_input_def)

lemma sample_charge:
  "CreateCharge txView sample_env sample_store sample_input =
     (sample_store\<lparr>st_payments := [(key ''t1'' ''p1'', sample_paid_tx)], st_ledger := [sample_entry]\<rparr>,
      [BankCreateCharge ''t1'' (charge_request_of sample_input sample_payment),
       publishPaymentEvent TopicPaymentCreated sample_paid_tx], Inr sample_paid_tx)"
proof -
  have "pay_txID sample_payment = []" "ci_TenantID sample_input = ''t1''"
    by (simp_all add: sample_payment_def sample_input_def)
  moreover have "SetTxID sample_payment ''tx1'' = sample_paid_tx"
    by (simp add: SetTxID_def sample_paid_tx_def)
  moreover have "\<exists>res. ce_bank sample_env ''t1'' req = Inr res \<and> ch_TxID res = ''tx1''" for req
    by (simp add: sample_env_def)
  then obtain res where "ce_bank sample_env ''t1'' (charge_request_of sample_input sample_payment) = Inr res"
    "ch_TxID res = ''tx1''" by blast
  ultimately show ?thesis
    by (simp add: CreateCharge_def sample_admit sample_reserve Let_def sample_bill sample_finalize)
qed

theorem charge_billed_once_witness:
  "\<exists>s'. CreateCharge txView sample_env sample_store sample_input =
       (s', [BankCreateCharge ''t1'' (charge_request_of sample_input sample_payment),
             publishPaymentEvent TopicPaymentCreated sample_paid_tx], Inr sample_paid_tx) \<and>
     billed (st_ledger s') ''t1'' (pay_id sample_paid_tx) = 1 \<and>
     CreateCharge txView sample_down_env s' sample_input = (s', [], Inr sample_paid_tx)"
proof -
  have b: "TrimSpace (ch_TxID res) \<noteq> []"
    if "ce_bank sample_env (ci_TenantID sample_input) req = Inr res" for req res
    using that by (auto simp: sample_env_def)
  have "ci_TenantID sample_input = ''t1''" by (simp add: sample_input_def)
  with charge_billed_once [OF sample_good b sample_charge] sample_charge show ?thesis by auto
qed

text \<open>
  an interrupted charge is resumed, not repeated. When a call finds the key reserved by an
  earlier one that never got a transaction id (the bank failed, or the process stopped), and the
  tenant is active, the bank answers and the ledger entry is valid, then it completes that very
  payment: same id, same amount, now with the bank's transaction id and billed exactly once.
\<close>

theorem charge_resumes:
  assumes "store_ok s" "charge_inv (store_view s)" "good_input inp" "nul_free (ci_TenantID inp)"
    and "findPaymentByIdempotencyKey s (ci_TenantID inp) (ci_IdempotencyKey inp) = Inr p" "pay_txID p = []"
    and "charge_admit txView s inp = Inr price"
    and "ce_bank env (ci_TenantID inp) (charge_request_of inp p) = Inr res" "TrimSpace (ch_TxID res) \<noteq> []"
    and "charge_entry env inp (SetTxID p (ch_TxID res)) price = Inr le"
  shows "\<exists>s'. CreateCharge txView env s inp =
       (s', [BankCreateCharge (ci_TenantID inp) (charge_request_of inp p),
             publishPaymentEvent TopicPaymentCreated (SetTxID p (ch_TxID res))],
        Inr (SetTxID p (ch_TxID res))) \<and>
     findPaymentByID s' (ci_TenantID inp) (pay_id p) = Inr (SetTxID p (ch_TxID res)) \<and>
     billed (st_ledger s') (ci_TenantID inp) (pay_id p) = 1"
proof -
  let ?p = "SetTxID p (ch_TxID res)"
  have h: "holds (store_view s) inp p" "at_key (st_payments s) (ci_TenantID inp, pay_id p) = Some p"
    using mem.lookup_holds [of s inp p] assms(1,2,5) by simp_all
  have k: "pay_tenantID p = ci_TenantID inp" "pay_idempotencyKey p = ci_IdempotencyKey inp" "trimmed (pay_id p)"
    using h(1) by (auto simp: holds_def wf_payment_def)
  have l: "le_tenantID le = ci_TenantID inp" "le_reference le = pay_id p"
    using charge_entry_Inr [OF assms(10)] assms(3) k(3) by (simp_all add: good_input_def)
  obtain s1 where sv: "savePayment s ?p = Inr s1"
  proof -
    have "savePayment s ?p \<noteq> Inl ErrConflict"
    proof
      assume "savePayment s ?p = Inl ErrConflict"
      then obtain q where q: "q \<in> set (vals (st_payments s))" "pay_tenantID q = ci_TenantID inp"
        "pay_idempotencyKey q = pay_idempotencyKey p" "pay_id q \<noteq> pay_id p"
        using k by (auto simp: savePayment_conflict_iff)
      have "at_key (st_payments s) (ci_TenantID inp, pay_id q) = Some q"
        using store_ok_pays [OF assms(1) q(1)] q(2) by simp
      with mem.pays_unique [of s "ci_TenantID inp" "pay_id q" q "pay_id p" p] h(2) q assms(1)
      show False by simp
    qed
    then show thesis using that by (auto simp: savePayment_def split: if_splits)
  qed
  define s2 where "s2 = s1\<lparr>st_ledger := st_ledger s1 @ [le]\<rparr>"
  have fin: "charge_finalize txView s inp ?p le = (s2, Inr (?p, True))"
    using assms(5,6) sv by (simp add: charge_finalize_def WithinTx_def tx_defs appendLedgerEntry_def s2_def)
  have run: "CreateCharge txView env s inp =
       (s2, [BankCreateCharge (ci_TenantID inp) (charge_request_of inp p),
             publishPaymentEvent TopicPaymentCreated ?p], Inr ?p)"
    using assms(5-10) fin by (simp add: CreateCharge_def reservePayment_def reserve_lookup_def Let_def)
  have c: "charge_inv (store_view s2)" "at_key (st_payments s2) (ci_TenantID inp, pay_id p) = Some ?p"
    using mem.finalize_step [OF assms(1,2,4) holds_SetTxID [OF h(1) assms(6)] _ _ _ fin] assms(9) l by auto
  then have "billed (st_ledger s2) (ci_TenantID inp) (pay_id p) = 1"
    using assms(9) by (simp add: charge_inv_def billed_once_def)
  moreover have "findPaymentByID s2 (ci_TenantID inp) (pay_id p) = Inr ?p"
    using c(2) assms(4) by (simp add: findPaymentByID_def at_key_def)
  ultimately show ?thesis using run by blast
qed

definition sample_reserved_store :: store where
  "sample_reserved_store = sample_store\<lparr>st_payments := [(key ''t1'' ''p1'', sample_payment)]\<rparr>"

lemma sample_reserved_good:
  "store_ok sample_reserved_store" "charge_inv (store_view sample_reserved_store)"
proof -
  have only: "p = sample_payment" if "at_key [(key ''t1'' ''p1'', sample_payment)] k = Some p" for k p
    using that by (auto simp: at_key_def split: if_splits prod.splits)
  have tx: "pay_txID sample_payment = []" by (simp add: sample_payment_def)
  have v: "v_pays (store_view sample_reserved_store) = at_key [(key ''t1'' ''p1'', sample_payment)]"
    "v_ledger (store_view sample_reserved_store) = []"
    by (simp_all add: sample_reserved_store_def sample_store_def NewStore_def)
  have "wf_pays (store_view sample_reserved_store)"
    using only sample_payment_wf unfolding wf_pays_def v by blast
  moreover have "billed_once (store_view sample_reserved_store)"
    using only tx unfolding billed_once_def v by (auto simp: billed_def split: option.splits)
  ultimately show "charge_inv (store_view sample_reserved_store)" by (simp add: charge_inv_def)
  show "store_ok sample_reserved_store"
    by (simp add: sample_reserved_store_def sample_store_def NewStore_def store_ok_def keyed_def
        unique_keys_def nul_free_def sample_payment_def)
qed

theorem charge_resumes_witness:
  "\<exists>s'. CreateCharge txView sample_env sample_reserved_store sample_input =
       (s', [BankCreateCharge ''t1'' (charge_request_of sample_input sample_payment),
             publishPaymentEvent TopicPaymentCreated sample_paid_tx], Inr sample_paid_tx) \<and>
     billed (st_ledger s') ''t1'' ''p1'' = 1"
proof -
  have f: "findPaymentByIdempotencyKey sample_reserved_store (ci_TenantID sample_input)
      (ci_IdempotencyKey sample_input) = Inr sample_payment" "pay_txID sample_payment = []"
    by (simp_all add: sample_reserved_store_def findPaymentByIdempotencyKey_def scan_def sample_input_def sample_payment_def)
  have a: "charge_admit txView sample_reserved_store sample_input =
      Inr \<lparr>ep_tenantID = ''t1'', ep_endpoint = ''charges'', ep_priceCents = 0\<rparr>"
    using sample_admit charge_admit_frame [of sample_reserved_store sample_store sample_input]
    by (simp add: sample_reserved_store_def)
  obtain res where b: "ce_bank sample_env (ci_TenantID sample_input) (charge_request_of sample_input sample_payment) = Inr res"
    and tx: "ch_TxID res = ''tx1''" by (simp add: sample_env_def)
  have p: "SetTxID sample_payment (ch_TxID res) = sample_paid_tx" by (simp add: SetTxID_def sample_paid_tx_def tx)
  have "TrimSpace (ch_TxID res) \<noteq> []" by (simp add: tx)
  from charge_resumes [OF sample_reserved_good sample_good(3,4) f a b this] p sample_bill
  show ?thesis by (auto simp: sample_input_def) (auto simp: sample_payment_def)
qed

text \<open>
  an endpoint without a price is free, and nothing else is. The price used is the configured
  one; when the store says there is none, it is a price of zero for the same tenant and endpoint
  (an error if one of them is blank); any other failure of the store fails the request.
\<close>

theorem unpriced_is_free:
  "(\<forall>price. GetEndpointPrice r s t e = Inr price \<longrightarrow> resolvePriceOrFree r s t e = Inr price) \<and>
   (\<forall>x. GetEndpointPrice r s t e = Inl x \<longrightarrow> \<not> errors_Is x ErrNotFound \<longrightarrow>
      (\<exists>m. resolvePriceOrFree r s t e = Inl (Errorf m x))) \<and>
   (\<forall>x. GetEndpointPrice r s t e = Inl x \<longrightarrow> errors_Is x ErrNotFound \<longrightarrow>
      (if TrimSpace t \<noteq> [] \<and> TrimSpace e \<noteq> []
       then resolvePriceOrFree r s t e = Inr \<lparr>ep_tenantID = TrimSpace t, ep_endpoint = TrimSpace e, ep_priceCents = 0\<rparr>
       else (\<exists>x. resolvePriceOrFree r s t e = Inl x \<and> errors_Is x ErrValidation)))"
  by (auto simp: resolvePriceOrFree_def NewEndpointPricing_def Let_def)

theorem unpriced_is_free_witness:
  "resolvePriceOrFree txView sample_store ''t1'' ''charges'' =
     Inr \<lparr>ep_tenantID = ''t1'', ep_endpoint = ''charges'', ep_priceCents = 0\<rparr>"
proof -
  have "GetEndpointPrice txView sample_store ''t1'' ''charges'' = Inl ErrNotFound"
    by (simp add: getEndpointPrice_def sample_store_def NewStore_def)
  with unpriced_is_free [of txView sample_store "''t1''" "''charges''"] show ?thesis by simp
qed

text \<open>
  reading a charge is confined to the tenant. On a store in order, \<open>GetPayment\<close> returns a payment
  exactly when the store holds one with that id for that very tenant, and \<open>ErrNotFound\<close> otherwise.
\<close>

theorem get_payment_scoped:
  assumes "store_ok s" "nul_free t"
  shows "(GetPayment txView s t i = Inr p \<longleftrightarrow>
      p \<in> set (vals (st_payments s)) \<and> pay_tenantID p = t \<and> pay_id p = i) \<and>
    ((\<exists>p. GetPayment txView s t i = Inr p) \<or> GetPayment txView s t i = Inl ErrNotFound)"
proof -
  have "findPaymentByID s t i = Inr p \<longleftrightarrow> at_key (st_payments s) (t, i) = Some p" for p
    using assms(2) by (simp add: findPaymentByID_def at_key_def)
  moreover have "at_key (st_payments s) (t, i) = Some p \<longleftrightarrow>
      p \<in> set (vals (st_payments s)) \<and> pay_tenantID p = t \<and> pay_id p = i" for p
    using store_ok_at [OF assms(1), of t i p] store_ok_pays [OF assms(1), of p] by auto
  moreover have "findPaymentByID s t i = Inl e \<longrightarrow> e = ErrNotFound" for e
    by (simp add: findPaymentByID_def)
  ultimately have f: "findPaymentByID s t i = Inr p \<longleftrightarrow>
      p \<in> set (vals (st_payments s)) \<and> pay_tenantID p = t \<and> pay_id p = i"
    "findPaymentByID s t i = Inl e \<longrightarrow> e = ErrNotFound" for p e by simp_all
  show ?thesis
  proof (cases "findPaymentByID s t i")
    case (Inl e)
    with f show ?thesis by (simp add: GetPayment_def)
  next
    case (Inr q)
    then have "GetPayment txView s t i = Inr q" using f(1) [of q] by (simp add: GetPayment_def)
    with f(1) [of p] Inr show ?thesis by simp
  qed
qed

theorem get_payment_scoped_witness:
  "GetPayment txView sample_reserved_store ''t1'' ''p1'' = Inr sample_payment \<and>
   GetPayment txView sample_reserved_store ''t2'' ''p1'' = Inl ErrNotFound"
proof -
  have n: "nul_free ''t1''" "nul_free ''t2''" by (simp_all add: nul_free_def)
  have m: "set (vals (st_payments sample_reserved_store)) = {sample_payment}"
    "pay_tenantID sample_payment = ''t1''" "pay_id sample_payment = ''p1''"
    by (simp_all add: sample_reserved_store_def sample_payment_def)
  have "GetPayment txView sample_reserved_store ''t1'' ''p1'' = Inr sample_payment"
    using get_payment_scoped [OF sample_reserved_good(1) n(1), of "''p1''" sample_payment] m by simp
  moreover have "GetPayment txView sample_reserved_store ''t2'' ''p1'' \<noteq> Inr p" for p
    using get_payment_scoped [OF sample_reserved_good(1) n(2), of "''p1''" p] m by auto
  ultimately show ?thesis
    using get_payment_scoped [OF sample_reserved_good(1) n(2), of "''p1''"] by blast
qed

section \<open>A key with surrounding blanks\<close>

text \<open>
  The payment is stored under the trimmed key and looked up under the key as given, so a retry
  whose key carries blanks finds neither its own payment nor the winner of the clash.
\<close>

definition padded_input :: create_charge_input where
  "padded_input = sample_input\<lparr>ci_IdempotencyKey := '' k1''\<rparr>"

lemma TrimSpace_padded: "TrimSpace '' k1'' = ''k1''"
proof -
  have "strip_encs space_encs '' k1'' = strip_encs space_encs ''k1''"
    by (subst strip_encs.simps) (simp add: space_encs_def)
  moreover have "TrimSpace ''k1'' = ''k1''" by simp
  ultimately show ?thesis by (simp add: TrimSpace_def TrimLeft_def)
qed

text \<open>
  a retry whose idempotency key has a leading blank fails. With the original payment completed
  under the trimmed key, repeating the request with the key as first sent returns an error instead
  of the original payment, though nothing is charged or billed again.
\<close>

theorem padded_key_retry_fails:
  "CreateCharge txView (sample_env\<lparr>ce_paymentID := ''p2''\<rparr>)
     (sample_store\<lparr>st_payments := [(key ''t1'' ''p1'', sample_paid_tx)], st_ledger := [sample_entry]\<rparr>) padded_input =
   (sample_store\<lparr>st_payments := [(key ''t1'' ''p1'', sample_paid_tx)], st_ledger := [sample_entry]\<rparr>, [],
    Inl (Errorf ''resolve idempotency conflict'' ErrNotFound))"
proof -
  let ?s = "sample_store\<lparr>st_payments := [(key ''t1'' ''p1'', sample_paid_tx)], st_ledger := [sample_entry]\<rparr>"
  have adm: "charge_admit txView ?s padded_input =
      Inr \<lparr>ep_tenantID = ''t1'', ep_endpoint = ''charges'', ep_priceCents = 0\<rparr>"
    by (simp add: charge_admit_def sample_store_def padded_input_def sample_input_def charge_tenant_def
        NewStore_def findTenantByID_def lookup_def resolvePriceOrFree_def getEndpointPrice_def
        NewEndpointPricing_def)
  have look: "findPaymentByIdempotencyKey ?s ''t1'' '' k1'' = Inl ErrNotFound"
    by (simp add: findPaymentByIdempotencyKey_def scan_def sample_paid_tx_def sample_payment_def)
  have "reserve_save txView (sample_env\<lparr>ce_paymentID := ''p2''\<rparr>) ?s padded_input = (?s, Inr None)"
    by (simp add: reserve_save_def padded_input_def sample_input_def sample_env_def NewMoney_def
      currencyRe_def NewPayment_def IsZeroMoney_def less_eq_char_def TrimSpace_padded WithinTx_def
      sample_payment_def sample_paid_tx_def savePayment_def restore_def)
  with adm look show ?thesis
    by (simp add: CreateCharge_def reservePayment_def reserve_lookup_def reserve_winner_def
        padded_input_def sample_input_def)
qed

end
