(* ===== verification/Outbound.thy ===== *)
theory Outbound
  imports Charge
begin

text \<open>
  The attribution half of the outbound webhooks: package \<open>internal/domain/outboundqueue\<close>, the
  in-memory outbox of \<open>inmemory/outbound_delivery.go\<close>, and the attributor of
  \<open>internal/app/outbound_delivery.go\<close>, which puts an inbound event on the outbox of the account that
  owns the tenant, or parks it.
\<close>

section \<open>Deliveries and dead letters\<close>

datatype delivery_status = DeliveryPending | DeliveryDelivered | DeliveryStatusOther string

datatype reason = ReasonUnresolvable | ReasonEndpointInactive | ReasonDeliveryExhausted | ReasonOther string

fun reason_valid :: "reason \<Rightarrow> bool" where
  "reason_valid (ReasonOther s) \<longleftrightarrow> False"
| "reason_valid rs \<longleftrightarrow> True"

record detail =
  dt_AmountCents :: int
  dt_Installments :: int
  dt_Message :: string

record delivery =
  dl_id :: string
  dl_accountID :: string
  dl_tenantID :: string
  dl_eventKey :: string
  dl_txID :: string
  dl_eventType :: string
  dl_status :: delivery_status
  dl_createdAt :: gotime
  dl_detail :: detail

definition NewDelivery ::
  "string \<Rightarrow> string \<Rightarrow> string \<Rightarrow> string \<Rightarrow> string \<Rightarrow> string \<Rightarrow> detail \<Rightarrow> gotime \<Rightarrow> delivery result" where
  "NewDelivery did accountID tenantID eventKey txID eventType det now =
     (let did = TrimSpace did; accountID = TrimSpace accountID; tenantID = TrimSpace tenantID;
          eventKey = TrimSpace eventKey; eventType = TrimSpace eventType
      in if did = [] then Inl (NewValidationError ''id'' ''delivery id is required'')
         else if accountID = [] then Inl (NewValidationError ''account_id'' ''account id is required'')
         else if tenantID = [] then Inl (NewValidationError ''tenant_id'' ''tenant id is required'')
         else if eventKey = [] then Inl (NewValidationError ''event_key'' ''event key is required'')
         else if eventType = [] then Inl (NewValidationError ''event_type'' ''event type is required'')
         else Inr \<lparr>dl_id = did, dl_accountID = accountID, dl_tenantID = tenantID, dl_eventKey = eventKey,
                   dl_txID = TrimSpace txID, dl_eventType = eventType, dl_status = DeliveryPending,
                   dl_createdAt = now, dl_detail = det\<rparr>)"

definition RehydrateDelivery ::
  "string \<Rightarrow> string \<Rightarrow> string \<Rightarrow> string \<Rightarrow> string \<Rightarrow> string \<Rightarrow> delivery_status \<Rightarrow> gotime \<Rightarrow> detail \<Rightarrow> delivery" where
  "RehydrateDelivery did accountID tenantID eventKey txID eventType st createdAt det =
     \<lparr>dl_id = did, dl_accountID = accountID, dl_tenantID = tenantID, dl_eventKey = eventKey,
      dl_txID = txID, dl_eventType = eventType, dl_status = st, dl_createdAt = createdAt, dl_detail = det\<rparr>"

record dead_letter =
  dd_id :: string
  dd_tenantID :: string
  dd_eventKey :: string
  dd_txID :: string
  dd_eventType :: string
  dd_reason :: reason
  dd_createdAt :: gotime

definition NewDeadLetter ::
  "string \<Rightarrow> string \<Rightarrow> string \<Rightarrow> string \<Rightarrow> string \<Rightarrow> reason \<Rightarrow> gotime \<Rightarrow> dead_letter result" where
  "NewDeadLetter did tenantID eventKey txID eventType rs now =
     (let did = TrimSpace did; tenantID = TrimSpace tenantID;
          eventKey = TrimSpace eventKey; eventType = TrimSpace eventType
      in if did = [] then Inl (NewValidationError ''id'' ''dead-letter id is required'')
         else if tenantID = [] then Inl (NewValidationError ''tenant_id'' ''tenant id is required'')
         else if eventKey = [] then Inl (NewValidationError ''event_key'' ''event key is required'')
         else if eventType = [] then Inl (NewValidationError ''event_type'' ''event type is required'')
         else if \<not> reason_valid rs then Inl (NewValidationError ''reason'' ''dead-letter reason is unknown'')
         else Inr \<lparr>dd_id = did, dd_tenantID = tenantID, dd_eventKey = eventKey, dd_txID = TrimSpace txID,
                   dd_eventType = eventType, dd_reason = rs, dd_createdAt = now\<rparr>)"

definition DeadLetterFromDelivery ::
  "string \<Rightarrow> delivery option \<Rightarrow> reason \<Rightarrow> gotime \<Rightarrow> dead_letter result" where
  "DeadLetterFromDelivery did d rs now =
     (case d of
        None \<Rightarrow> Inl (NewValidationError ''delivery'' ''delivery is required'')
      | Some d \<Rightarrow>
          if rs \<noteq> ReasonEndpointInactive \<and> rs \<noteq> ReasonDeliveryExhausted
          then Inl (NewValidationError ''reason'' ''reason is not an F2 delivery-failure reason'')
          else NewDeadLetter did (dl_tenantID d) (dl_eventKey d) (dl_txID d) (dl_eventType d) rs now)"

definition RehydrateDeadLetter ::
  "string \<Rightarrow> string \<Rightarrow> string \<Rightarrow> string \<Rightarrow> string \<Rightarrow> reason \<Rightarrow> gotime \<Rightarrow> dead_letter" where
  "RehydrateDeadLetter did tenantID eventKey txID eventType rs createdAt =
     \<lparr>dd_id = did, dd_tenantID = tenantID, dd_eventKey = eventKey, dd_txID = txID,
      dd_eventType = eventType, dd_reason = rs, dd_createdAt = createdAt\<rparr>"

section \<open>The outbox\<close>

text \<open>
  The store keeps flat copies of the aggregates; a delivery and its copy have the same fields, so
  the copy is the record itself. \<open>seen\<close> maps are lists of keys.
\<close>

record outbox =
  ob_deliveries :: "delivery list"
  ob_seenDeliver :: "string list"
  ob_deadLetters :: "dead_letter list"
  ob_seenDead :: "string list"

definition NewOutbox :: outbox where
  "NewOutbox = \<lparr>ob_deliveries = [], ob_seenDeliver = [], ob_deadLetters = [], ob_seenDead = []\<rparr>"

definition bar_key :: "string \<Rightarrow> string \<Rightarrow> string" where
  "bar_key a b = a @ ''|'' @ b"

definition EnqueueDelivery :: "outbox \<Rightarrow> delivery \<Rightarrow> outbox result" where
  "EnqueueDelivery o1 d =
     (let k = bar_key (dl_accountID d) (dl_eventKey d)
      in if k \<in> set (ob_seenDeliver o1) then Inr o1
         else Inr (o1\<lparr>ob_seenDeliver := k # ob_seenDeliver o1,
                      ob_deliveries := ob_deliveries o1 @ [d]\<rparr>))"

definition DeadLetter :: "outbox \<Rightarrow> dead_letter \<Rightarrow> outbox result" where
  "DeadLetter o1 d =
     (let k = bar_key (dd_tenantID d) (dd_eventKey d)
      in if k \<in> set (ob_seenDead o1) then Inr o1
         else Inr (o1\<lparr>ob_seenDead := k # ob_seenDead o1,
                      ob_deadLetters := ob_deadLetters o1 @ [d]\<rparr>))"

definition PendingDeliveries :: "outbox \<Rightarrow> string \<Rightarrow> delivery list" where
  "PendingDeliveries o1 accountID =
     filter (\<lambda>d. dl_accountID d = accountID \<and> dl_status d = DeliveryPending) (ob_deliveries o1)"

definition ClaimPendingDeliveries :: "outbox \<Rightarrow> int \<Rightarrow> delivery list" where
  "ClaimPendingDeliveries o1 limit =
     (if limit \<le> 0 then []
      else take (nat limit) (filter (\<lambda>d. dl_status d = DeliveryPending) (ob_deliveries o1)))"

text \<open>Removing the first delivery with that id, and its key from the dedup map.\<close>

fun remove_first :: "('a \<Rightarrow> bool) \<Rightarrow> 'a list \<Rightarrow> 'a list" where
  "remove_first P [] = []"
| "remove_first P (x # xs) = (if P x then xs else x # remove_first P xs)"

definition DeleteDelivery :: "outbox \<Rightarrow> string \<Rightarrow> outbox result" where
  "DeleteDelivery o1 did =
     (case find (\<lambda>d. dl_id d = did) (ob_deliveries o1) of
        None \<Rightarrow> Inr o1
      | Some d \<Rightarrow>
          Inr (o1\<lparr>ob_seenDeliver := filter (\<lambda>k. k \<noteq> bar_key (dl_accountID d) (dl_eventKey d)) (ob_seenDeliver o1),
                  ob_deliveries := remove_first (\<lambda>d. dl_id d = did) (ob_deliveries o1)\<rparr>))"

section \<open>Attribution\<close>

text \<open>
  The default resolver reads the owning account from the tenant store, passing the store's error on.
\<close>

definition ResolveAccountID :: "'s repository \<Rightarrow> 's \<Rightarrow> string \<Rightarrow> string result" where
  "ResolveAccountID r s tenantID =
     (let tenantID = TrimSpace tenantID
      in if tenantID = [] then Inr []
         else bindE (FindTenantByID r s tenantID) (\<lambda>t. Inr (tn_accountID t)))"

text \<open>
  The attributor's ports; a nil port is \<open>None\<close>. \<open>at_fresh\<close> gives the id and the instant of one call.
\<close>

record 'o attributor =
  at_enabled :: bool
  at_resolver :: "(string \<Rightarrow> string result) option"
  at_queue :: "('o \<Rightarrow> delivery \<Rightarrow> 'o result) option"
  at_deadLetters :: "('o \<Rightarrow> dead_letter \<Rightarrow> 'o result) option"
  at_fresh :: "(string \<times> gotime) option"

definition attributor_active :: "'o attributor option \<Rightarrow> bool" where
  "attributor_active a =
     (case a of None \<Rightarrow> False
      | Some a \<Rightarrow> at_enabled a \<and> at_resolver a \<noteq> None \<and> at_queue a \<noteq> None \<and>
                  at_deadLetters a \<noteq> None \<and> at_fresh a \<noteq> None)"

text \<open>A failed write is logged and leaves the outbox as it is.\<close>

definition best_effort :: "'o \<Rightarrow> 'o result \<Rightarrow> 'o" where
  "best_effort o1 res = (case res of Inl e \<Rightarrow> o1 | Inr o2 \<Rightarrow> o2)"

definition park ::
  "('o \<Rightarrow> dead_letter \<Rightarrow> 'o result) \<Rightarrow> string \<times> gotime \<Rightarrow> 'o \<Rightarrow> string \<Rightarrow> string \<Rightarrow> string \<Rightarrow> string
     \<Rightarrow> reason \<Rightarrow> 'o" where
  "park sink fresh o1 tenantID eventKey txID eventType rs =
     (case NewDeadLetter (fst fresh) tenantID eventKey txID eventType rs (snd fresh) of
        Inl e \<Rightarrow> o1
      | Inr dl \<Rightarrow> best_effort o1 (sink o1 dl))"

definition Attribute ::
  "'o attributor option \<Rightarrow> 'o \<Rightarrow> string \<Rightarrow> string \<Rightarrow> string \<Rightarrow> string \<Rightarrow> detail \<Rightarrow> 'o" where
  "Attribute a o1 tenantID eventKey txID eventType det =
     (if \<not> attributor_active a then o1
      else let a = the a; fresh = the (at_fresh a)
        in case the (at_resolver a) tenantID of
             Inl e \<Rightarrow> park (the (at_deadLetters a)) fresh o1 tenantID eventKey txID eventType ReasonUnresolvable
           | Inr accountID \<Rightarrow>
               if TrimSpace accountID = [] then o1
               else case NewDelivery (fst fresh) accountID tenantID eventKey txID eventType det (snd fresh) of
                      Inl e \<Rightarrow> o1
                    | Inr d \<Rightarrow> best_effort o1 (the (at_queue a) o1 d))"

definition memory_attributor :: "(string \<Rightarrow> string result) \<Rightarrow> string \<times> gotime \<Rightarrow> outbox attributor" where
  "memory_attributor resolver fresh =
     \<lparr>at_enabled = True, at_resolver = Some resolver, at_queue = Some EnqueueDelivery,
      at_deadLetters = Some DeadLetter, at_fresh = Some fresh\<rparr>"

section \<open>The outbox invariant\<close>

text \<open>
  The dedup maps hold exactly the keys of what is stored, each once; a pending delivery has an
  owner, and every dead letter a known reason.
\<close>

definition outbox_ok :: "outbox \<Rightarrow> bool" where
  "outbox_ok o1 \<longleftrightarrow>
     distinct (map (\<lambda>d. bar_key (dl_accountID d) (dl_eventKey d)) (ob_deliveries o1)) \<and>
     set (ob_seenDeliver o1) = set (map (\<lambda>d. bar_key (dl_accountID d) (dl_eventKey d)) (ob_deliveries o1)) \<and>
     distinct (map (\<lambda>d. bar_key (dd_tenantID d) (dd_eventKey d)) (ob_deadLetters o1)) \<and>
     set (ob_seenDead o1) = set (map (\<lambda>d. bar_key (dd_tenantID d) (dd_eventKey d)) (ob_deadLetters o1)) \<and>
     list_all (\<lambda>d. dl_accountID d \<noteq> []) (ob_deliveries o1) \<and>
     list_all (\<lambda>d. reason_valid (dd_reason d)) (ob_deadLetters o1)"

lemma outbox_ok_New [simp]: "outbox_ok NewOutbox"
  by (simp add: outbox_ok_def NewOutbox_def)

lemma EnqueueDelivery_ok:
  "outbox_ok o1 \<Longrightarrow> dl_accountID d \<noteq> [] \<Longrightarrow> EnqueueDelivery o1 d = Inr o2 \<Longrightarrow> outbox_ok o2"
  by (auto simp: EnqueueDelivery_def outbox_ok_def Let_def split: if_splits)

lemma DeadLetter_ok:
  "outbox_ok o1 \<Longrightarrow> reason_valid (dd_reason d) \<Longrightarrow> DeadLetter o1 d = Inr o2 \<Longrightarrow> outbox_ok o2"
  by (auto simp: DeadLetter_def outbox_ok_def Let_def split: if_splits)

lemma remove_first_set:
  assumes "distinct (map f xs)" and "find P xs = Some x"
  shows "set (map f (remove_first P xs)) = set (map f xs) - {f x}"
    and "distinct (map f (remove_first P xs))" and "set (remove_first P xs) \<subseteq> set xs"
proof -
  have sub: "set (remove_first P xs) \<subseteq> set xs" for xs by (induction xs) auto
  show "set (remove_first P xs) \<subseteq> set xs" by (rule sub)
  have "set (map f (remove_first P xs)) = set (map f xs) - {f x} \<and> distinct (map f (remove_first P xs))"
    using assms
  proof (induction xs)
    case (Cons y ys)
    show ?case
    proof (cases "P y")
      case True
      with Cons.prems show ?thesis by auto
    next
      case False
      with Cons.prems have fx: "find P ys = Some x" by simp
      then have "x \<in> set ys" by (auto dest: find_Some_mem)
      then have "f x \<in> f ` set ys" by simp
      moreover have "f y \<notin> f ` set ys" using Cons.prems(1) by simp
      ultimately have "f x \<noteq> f y" by metis
      moreover have "f y \<notin> f ` set (remove_first P ys)" using Cons.prems sub [of ys] by auto
      ultimately show ?thesis using Cons False fx by auto
    qed
  qed simp
  then show "set (map f (remove_first P xs)) = set (map f xs) - {f x}"
    "distinct (map f (remove_first P xs))" by auto
qed

lemma DeleteDelivery_ok:
  assumes "outbox_ok o1" and "DeleteDelivery o1 did = Inr o2"
  shows "outbox_ok o2"
proof (cases "find (\<lambda>d. dl_id d = did) (ob_deliveries o1)")
  case None
  with assms show ?thesis by (simp add: DeleteDelivery_def)
next
  case (Some d)
  let ?f = "\<lambda>d. bar_key (dl_accountID d) (dl_eventKey d)"
  have di: "distinct (map ?f (ob_deliveries o1))" using assms(1) by (simp add: outbox_ok_def)
  note rf = remove_first_set [OF di Some]
  from assms(2) Some have "o2 = o1\<lparr>ob_seenDeliver := filter (\<lambda>k. k \<noteq> ?f d) (ob_seenDeliver o1),
      ob_deliveries := remove_first (\<lambda>d. dl_id d = did) (ob_deliveries o1)\<rparr>"
    by (simp add: DeleteDelivery_def)
  then show ?thesis using rf assms(1) by (auto simp: outbox_ok_def list_all_iff)
qed

lemma NewDelivery_account: "NewDelivery a b c d e f g h = Inr x \<Longrightarrow> dl_accountID x = TrimSpace b \<and> dl_accountID x \<noteq> []"
  by (auto simp: NewDelivery_def Let_def split: if_splits)

lemma NewDelivery_fields:
  "NewDelivery a b c d e f g h = Inr x \<Longrightarrow>
     dl_tenantID x = TrimSpace c \<and> dl_eventKey x = TrimSpace d \<and> dl_status x = DeliveryPending"
  by (auto simp: NewDelivery_def Let_def split: if_splits)

lemma NewDeadLetter_fields:
  "NewDeadLetter a b c d e f g = Inr x \<Longrightarrow>
     dd_tenantID x = TrimSpace b \<and> dd_eventKey x = TrimSpace c \<and> dd_reason x = f \<and> reason_valid f"
  by (auto simp: NewDeadLetter_def Let_def split: if_splits)

lemma memory_attributor_active [simp]: "attributor_active (Some (memory_attributor rv fresh))"
  by (simp add: attributor_active_def memory_attributor_def)

lemma memory_attributor_fields:
  "at_resolver (memory_attributor rv fresh) = Some rv"
  "at_queue (memory_attributor rv fresh) = Some EnqueueDelivery"
  "at_deadLetters (memory_attributor rv fresh) = Some DeadLetter"
  "at_fresh (memory_attributor rv fresh) = Some fresh"
  by (simp_all add: memory_attributor_def)

section \<open>Properties\<close>

lemma Attribute_memory:
  "Attribute (Some (memory_attributor rv fresh)) o1 t k x ty det =
     (case rv t of
        Inl e \<Rightarrow> (case NewDeadLetter (fst fresh) t k x ty ReasonUnresolvable (snd fresh) of
                    Inl e \<Rightarrow> o1 | Inr dl \<Rightarrow> best_effort o1 (DeadLetter o1 dl))
      | Inr a \<Rightarrow> if TrimSpace a = [] then o1
                 else (case NewDelivery (fst fresh) a t k x ty det (snd fresh) of
                         Inl e \<Rightarrow> o1 | Inr d \<Rightarrow> best_effort o1 (EnqueueDelivery o1 d)))"
  unfolding Attribute_def Let_def park_def memory_attributor_fields option.sel by simp

lemma Attribute_ok:
  assumes "outbox_ok o1"
  shows "outbox_ok (Attribute (Some (memory_attributor rv fresh)) o1 t k x ty det)"
proof (cases "rv t")
  case (Inl e)
  show ?thesis
  proof (cases "NewDeadLetter (fst fresh) t k x ty ReasonUnresolvable (snd fresh)")
    case (Inr dl)
    with NewDeadLetter_fields [OF Inr] Inl assms DeadLetter_ok [OF assms, of dl] show ?thesis
      by (auto simp: Attribute_memory best_effort_def split: sum.splits)
  qed (use Inl assms in \<open>simp add: Attribute_memory\<close>)
next
  case (Inr a)
  show ?thesis
  proof (cases "NewDelivery (fst fresh) a t k x ty det (snd fresh)")
    case (Inr d)
    with NewDelivery_account [OF Inr] \<open>rv t = Inr a\<close> assms EnqueueDelivery_ok [OF assms, of d] show ?thesis
      by (auto simp: Attribute_memory best_effort_def split: sum.splits)
  qed (use Inr assms in \<open>simp add: Attribute_memory\<close>)
qed

text \<open>Enqueuing or parking under a key that is present is a no-op.\<close>

lemma Enqueue_again:
  "EnqueueDelivery o1 d = Inr o2 \<Longrightarrow> dl_accountID d' = dl_accountID d \<Longrightarrow> dl_eventKey d' = dl_eventKey d \<Longrightarrow>
     EnqueueDelivery o2 d' = Inr o2"
  by (auto simp: EnqueueDelivery_def Let_def split: if_splits)

lemma DeadLetter_again:
  "DeadLetter o1 d = Inr o2 \<Longrightarrow> dd_tenantID d' = dd_tenantID d \<Longrightarrow> dd_eventKey d' = dd_eventKey d \<Longrightarrow>
     DeadLetter o2 d' = Inr o2"
  by (auto simp: DeadLetter_def Let_def split: if_splits)

lemma Enqueue_total: "\<exists>o2. EnqueueDelivery o1 d = Inr o2 \<and> ob_deadLetters o2 = ob_deadLetters o1 \<and>
    set (ob_deliveries o2) \<subseteq> insert d (set (ob_deliveries o1))"
  by (auto simp: EnqueueDelivery_def Let_def)

lemma DeadLetter_total: "\<exists>o2. DeadLetter o1 d = Inr o2 \<and> ob_deliveries o2 = ob_deliveries o1 \<and>
    set (ob_deadLetters o2) \<subseteq> insert d (set (ob_deadLetters o1))"
  by (auto simp: DeadLetter_def Let_def)

lemma NewDelivery_again:
  "NewDelivery i a t k x ty det at = Inl e \<Longrightarrow> TrimSpace i \<noteq> [] \<Longrightarrow> \<exists>e. NewDelivery i' a t k x ty det at' = Inl e"
  by (auto simp: NewDelivery_def Let_def split: if_splits)

lemma NewDeadLetter_again:
  "NewDeadLetter i t k x ty rs at = Inl e \<Longrightarrow> TrimSpace i \<noteq> [] \<Longrightarrow> \<exists>e. NewDeadLetter i' t k x ty rs at' = Inl e"
  by (auto simp: NewDeadLetter_def Let_def split: if_splits)

lemma Attribute_again:
  assumes "TrimSpace (fst fresh) \<noteq> []"
    and o2: "o2 = Attribute (Some (memory_attributor rv fresh)) o1 t k x ty det"
  shows "Attribute (Some (memory_attributor rv fresh')) o2 t k x ty det = o2"
proof (cases "rv t")
  case (Inl e)
  show ?thesis
  proof (cases "NewDeadLetter (fst fresh) t k x ty ReasonUnresolvable (snd fresh)")
    case (Inl e2)
    with NewDeadLetter_again [OF Inl assms(1), of "fst fresh'" "snd fresh'"] \<open>rv t = Inl e\<close> show ?thesis
      by (auto simp: Attribute_memory split: sum.splits)
  next
    case (Inr d)
    obtain o3 where o3: "DeadLetter o1 d = Inr o3" using DeadLetter_total by blast
    then have "o2 = o3" by (simp add: o2 Attribute_memory Inr \<open>rv t = Inl e\<close> best_effort_def)
    with DeadLetter_again [OF o3] NewDeadLetter_fields [OF Inr] \<open>rv t = Inl e\<close> show ?thesis
      by (auto simp: Attribute_memory best_effort_def split: sum.splits dest!: NewDeadLetter_fields)
  qed
next
  case (Inr a)
  show ?thesis
  proof (cases "NewDelivery (fst fresh) a t k x ty det (snd fresh)")
    case (Inl e2)
    with NewDelivery_again [OF Inl assms(1), of "fst fresh'" "snd fresh'"] \<open>rv t = Inr a\<close> show ?thesis
      by (auto simp: o2 Attribute_memory split: sum.splits)
  next
    case (Inr d)
    obtain o3 where o3: "EnqueueDelivery o1 d = Inr o3" using Enqueue_total by blast
    then have "o2 = (if TrimSpace a = [] then o1 else o3)"
      by (simp add: o2 Attribute_memory Inr \<open>rv t = Inr a\<close> best_effort_def)
    moreover have "EnqueueDelivery o3 d' = Inr o3" if "NewDelivery (fst fresh') a t k x ty det (snd fresh') = Inr d'" for d'
      using Enqueue_again [OF o3, of d'] NewDelivery_fields [OF that] NewDelivery_account [OF that]
        NewDelivery_fields [OF Inr] NewDelivery_account [OF Inr] by simp
    ultimately show ?thesis using \<open>rv t = Inr a\<close>
      by (auto simp: Attribute_memory best_effort_def split: sum.splits)
  qed
qed

lemma Attribute_unresolved:
  assumes "rv t = Inl e"
    and o2: "o2 = Attribute (Some (memory_attributor rv fresh)) o1 t k x ty det"
  shows "ob_deliveries o2 = ob_deliveries o1 \<and>
    (\<forall>d \<in> set (ob_deadLetters o2) - set (ob_deadLetters o1).
       dd_reason d = ReasonUnresolvable \<and> dd_tenantID d = TrimSpace t \<and> dd_eventKey d = TrimSpace k)"
proof (cases "NewDeadLetter (fst fresh) t k x ty ReasonUnresolvable (snd fresh)")
  case (Inr d)
  obtain o3 where "DeadLetter o1 d = Inr o3" "ob_deliveries o3 = ob_deliveries o1"
    "set (ob_deadLetters o3) \<subseteq> insert d (set (ob_deadLetters o1))" using DeadLetter_total by blast
  with NewDeadLetter_fields [OF Inr] Inr assms show ?thesis by (auto simp: Attribute_memory best_effort_def)
qed (use assms in \<open>simp add: Attribute_memory\<close>)

lemma Attribute_resolved:
  assumes "rv t = Inr a"
    and o2: "o2 = Attribute (Some (memory_attributor rv fresh)) o1 t k x ty det"
  shows "ob_deadLetters o2 = ob_deadLetters o1 \<and> (TrimSpace a = [] \<longrightarrow> o2 = o1) \<and>
    (\<forall>d \<in> set (ob_deliveries o2) - set (ob_deliveries o1).
       dl_accountID d = TrimSpace a \<and> dl_tenantID d = TrimSpace t \<and> dl_eventKey d = TrimSpace k)"
proof (cases "NewDelivery (fst fresh) a t k x ty det (snd fresh)")
  case (Inr d)
  obtain o3 where "EnqueueDelivery o1 d = Inr o3" "ob_deadLetters o3 = ob_deadLetters o1"
    "set (ob_deliveries o3) \<subseteq> insert d (set (ob_deliveries o1))" using Enqueue_total by blast
  with NewDelivery_fields [OF Inr] NewDelivery_account [OF Inr] Inr assms show ?thesis
    by (auto simp: Attribute_memory best_effort_def)
qed (use assms in \<open>simp add: Attribute_memory\<close>)

text \<open>
  attribution goes to the owner or nowhere. For an event of a tenant: if the owner cannot be
  determined the event is parked as unresolvable and no delivery is made; a tenant without a
  reseller account causes nothing; otherwise the only delivery that can be added is for the
  resolved account. The outbox invariant is kept, and attributing the same event again, with the
  same resolution, adds nothing.
\<close>

theorem attribution_to_owner:
  assumes "outbox_ok o1" and "TrimSpace (fst fresh) \<noteq> []"
  shows "let o2 = Attribute (Some (memory_attributor rv fresh)) o1 t k x ty det
    in outbox_ok o2 \<and>
      (\<forall>e. rv t = Inl e \<longrightarrow> ob_deliveries o2 = ob_deliveries o1 \<and>
         (\<forall>d \<in> set (ob_deadLetters o2) - set (ob_deadLetters o1).
            dd_reason d = ReasonUnresolvable \<and> dd_tenantID d = TrimSpace t \<and> dd_eventKey d = TrimSpace k)) \<and>
      (\<forall>a. rv t = Inr a \<longrightarrow> ob_deadLetters o2 = ob_deadLetters o1 \<and> (TrimSpace a = [] \<longrightarrow> o2 = o1) \<and>
         (\<forall>d \<in> set (ob_deliveries o2) - set (ob_deliveries o1).
            dl_accountID d = TrimSpace a \<and> dl_tenantID d = TrimSpace t \<and> dl_eventKey d = TrimSpace k)) \<and>
      Attribute (Some (memory_attributor rv fresh')) o2 t k x ty det = o2"
  unfolding Let_def
  by (intro conjI allI impI Attribute_ok [OF assms(1)] Attribute_again [OF assms(2) refl])
     (simp_all add: Attribute_unresolved [OF _ refl] Attribute_resolved [OF _ refl])

theorem attribution_to_owner_witness:
  "map dl_accountID (ob_deliveries (Attribute (Some (memory_attributor (\<lambda>t. Inr ''acc'') (''d1'', zero_time)))
     NewOutbox ''t1'' ''k1'' ''tx1'' ''payment.paid'' \<lparr>dt_AmountCents = 5, dt_Installments = 0, dt_Message = []\<rparr>))
   = [''acc'']"
proof -
  let ?o2 = "Attribute (Some (memory_attributor (\<lambda>t. Inr ''acc'') (''d1'', zero_time)))
     NewOutbox ''t1'' ''k1'' ''tx1'' ''payment.paid'' \<lparr>dt_AmountCents = 5, dt_Installments = 0, dt_Message = []\<rparr>"
  have tr: "TrimSpace ''d1'' = ''d1''" "TrimSpace ''acc'' = ''acc''" "TrimSpace ''payment.paid'' = ''payment.paid''"
    by (simp_all add: TrimSpace_plain plain_byte_def less_eq_char_def)
  then have "length (ob_deliveries ?o2) = 1"
    by (simp add: Attribute_memory NewDelivery_def EnqueueDelivery_def NewOutbox_def best_effort_def)
  then obtain d where d: "ob_deliveries ?o2 = [d]" by (cases "ob_deliveries ?o2") auto
  have "TrimSpace (fst (''d1'', zero_time)) \<noteq> []" using tr by simp
  from attribution_to_owner [OF outbox_ok_New this, of "\<lambda>t. Inr ''acc''" "''t1''" "''k1''" "''tx1''" "''payment.paid''"
      "\<lparr>dt_AmountCents = 5, dt_Installments = 0, dt_Message = []\<rparr>"] d tr
  have "dl_accountID d = ''acc''" by (auto simp: Let_def NewOutbox_def)
  with d show ?thesis by simp
qed

end
