(* ===== verification/RecPorts.thy ===== *)
theory RecPorts
  imports Ports
begin

text \<open>
  \<open>internal/ports/recurrence.go\<close>: the requests and results of the recurrence providers and the
  providers themselves, records of the calls a service makes to the bank. The status and
  periodicity types of this file and of the domain are both Go strings; the casts between them are
  the conversions below.
\<close>

section \<open>Casts\<close>

definition RecPeriodicidade :: "string \<Rightarrow> rec_periodicidade" where
  "RecPeriodicidade s =
     (if s = ''SEMANAL'' then RecSemanal else if s = ''MENSAL'' then RecMensal
      else if s = ''TRIMESTRAL'' then RecTrimestral else if s = ''SEMESTRAL'' then RecSemestral
      else if s = ''ANUAL'' then RecAnual else RecPeriodicidadeOther s)"

definition RecStatus :: "string \<Rightarrow> rec_status" where
  "RecStatus s =
     (if s = ''CRIADA'' then RecCriada else if s = ''APROVADA'' then RecAprovada
      else if s = ''REJEITADA'' then RecRejeitada else if s = ''EXPIRADA'' then RecExpirada
      else if s = ''CANCELADA'' then RecCancelada else RecStatusOther s)"

fun rec_status_string :: "rec_status \<Rightarrow> string" where
  "rec_status_string RecCriada = ''CRIADA''"
| "rec_status_string RecAprovada = ''APROVADA''"
| "rec_status_string RecRejeitada = ''REJEITADA''"
| "rec_status_string RecExpirada = ''EXPIRADA''"
| "rec_status_string RecCancelada = ''CANCELADA''"
| "rec_status_string (RecStatusOther s) = s"

definition CobRStatus :: "string \<Rightarrow> cobr_status" where
  "CobRStatus s =
     (if s = ''CRIADA'' then CobRCriada else if s = ''ATIVA'' then CobRAtiva
      else if s = ''CONCLUIDA'' then CobRConcluida else if s = ''EXPIRADA'' then CobRExpirada
      else if s = ''REJEITADA'' then CobRRejeitada else if s = ''CANCELADA'' then CobRCancelada
      else CobRStatusOther s)"

section \<open>Results and requests\<close>

record rec_devedor =
  rd_CPF :: string
  rd_CNPJ :: string
  rd_Nome :: string

record rec_vinculo =
  rv_Contrato :: string
  rv_Devedor :: rec_devedor
  rv_Objeto :: string

record rec_calendario =
  rk_DataInicial :: string
  rk_Periodicidade :: string

record recebedor =
  re_ISPB :: string
  re_CNPJ :: string
  re_CPF :: string
  re_Nome :: string

record create_rec_request =
  rq_Vinculo :: rec_vinculo
  rq_Calendario :: rec_calendario
  rq_PoliticaRetentativa :: string
  rq_LocID :: int
  rq_JornadaTxID :: string
  rq_ValorRecCents :: int
  rq_IdempotencyKey :: string

record rec_dados_qr =
  qr_Jornada :: string
  qr_PixCopiaECola :: string

record rec_result =
  rr_IDRec :: string
  rr_Status :: string
  rr_Vinculo :: rec_vinculo
  rr_Calendario :: rec_calendario
  rr_Recebedor :: recebedor
  rr_PoliticaRetentativa :: string
  rr_TipoJornada :: string
  rr_LocID :: int
  rr_Location :: string
  rr_ValorRecCents :: int
  rr_DadosQR :: rec_dados_qr

record loc_rec_result =
  lr_ID :: int
  lr_Location :: string
  lr_Criacao :: gotime
  lr_IDRec :: string

record solic_rec_destinatario =
  sd_CPF :: string
  sd_CNPJ :: string
  sd_Agencia :: string
  sd_Conta :: string
  sd_ISPBParticipante :: string

record create_solic_rec_request =
  sq_IDRec :: string
  sq_Destinatario :: solic_rec_destinatario
  sq_ExpiraEm :: gotime
  sq_IdempotencyKey :: string

record solic_rec_result =
  sr_IDSolicRec :: string
  sr_IDRec :: string
  sr_Status :: string
  sr_Destinatario :: solic_rec_destinatario
  sr_ExpiraEm :: gotime

record cobr_recebedor =
  cb_Conta :: string
  cb_TipoConta :: string

record create_cobr_request =
  cc_IDRec :: string
  cc_TxID :: string
  cc_DataVencimento :: string
  cc_AjusteDiaUtil :: bool
  cc_ValorCents :: int
  cc_Recebedor :: cobr_recebedor
  cc_IdempotencyKey :: string

record cobr_result =
  cs_TxID :: string
  cs_IDRec :: string
  cs_Status :: string
  cs_ValorCents :: int

section \<open>Providers\<close>

record rec_provider =
  BankCreateRec :: "string \<Rightarrow> create_rec_request \<Rightarrow> rec_result result"
  BankGetRec :: "string \<Rightarrow> string \<Rightarrow> rec_result result"
  BankGetRecForQR :: "string \<Rightarrow> string \<Rightarrow> string \<Rightarrow> rec_result result"
  BankCancelRec :: "string \<Rightarrow> string \<Rightarrow> rec_result result"

record loc_rec_provider =
  BankCreateLocRec :: "string \<Rightarrow> string \<Rightarrow> loc_rec_result result"
  BankGetLocRec :: "string \<Rightarrow> int \<Rightarrow> loc_rec_result result"
  BankUnlinkLocRec :: "string \<Rightarrow> int \<Rightarrow> loc_rec_result result"

record solic_rec_provider =
  BankCreateSolicRec :: "string \<Rightarrow> create_solic_rec_request \<Rightarrow> solic_rec_result result"
  BankGetSolicRec :: "string \<Rightarrow> string \<Rightarrow> solic_rec_result result"

record cobr_provider =
  BankCreateCobR :: "string \<Rightarrow> create_cobr_request \<Rightarrow> cobr_result result"
  BankGetCobR :: "string \<Rightarrow> string \<Rightarrow> cobr_result result"
  BankCancelCobR :: "string \<Rightarrow> string \<Rightarrow> cobr_result result"
  BankRetryCobR :: "string \<Rightarrow> string \<Rightarrow> string \<Rightarrow> cobr_result result"

section \<open>The casts lose nothing\<close>

lemma rec_status_string_cast [simp]: "rec_status_string (RecStatus s) = s"
  by (simp add: RecStatus_def)

lemma RecStatus_valid: "rec_status_valid (RecStatus s) \<longleftrightarrow>
    s \<in> {''CRIADA'', ''APROVADA'', ''REJEITADA'', ''EXPIRADA'', ''CANCELADA''}"
  by (simp add: RecStatus_def)

end
