(* ===== verification/Settlement.thy ===== *)
theory Settlement
  imports Outbound RecPorts
begin

text \<open>
  \<open>internal/app/webhook.go\<close> and \<open>internal/app/webhook_boleto.go\<close>: settlement from bank webhooks. The
  reads from the bank (\<open>GetCharge\<close>, \<open>GetCheckoutSession\<close>, \<open>GetBoleto\<close>, \<open>GetBoletoByBankRef\<close>) are
  parameters; a port that is not wired is \<open>None\<close>. One run of \<open>settle\<close> is one unit of work on the
  store, followed by the publication and the attribution of what it settled.
\<close>

section \<open>Definitions\<close>

definition bankStatusPaid :: string where "bankStatusPaid = ''paid''"
definition systemOperatorWebhook :: string where "systemOperatorWebhook = ''system:c6-webhook''"

record payment_event =
  pe_TenantID :: string
  pe_TxID :: string
  pe_EventKey :: string
  pe_ClaimsSettlement :: bool

type_synonym reconcile_func = "string \<Rightarrow> string \<Rightarrow> charge_result result"

record 'o webhook_service =
  ws_GetCharge :: reconcile_func
  ws_GetCheckoutSession :: "(string \<Rightarrow> string \<Rightarrow> checkout_result result) option"
  ws_GetBoleto :: "(string \<Rightarrow> string \<Rightarrow> boleto_result result) option"
  ws_GetBoletoByBankRef :: "string \<Rightarrow> string \<Rightarrow> boleto_result result"
  ws_payments :: bool
  ws_attributor :: "'o attributor option"
  ws_paidAt :: gotime
  ws_auditID :: string
  ws_auditAt :: gotime
  ws_recReader :: "rec_provider option"
  ws_cobrReader :: "cobr_provider option"
  ws_todayAt :: gotime
  ws_bornAt :: gotime
  ws_movedAt :: gotime

definition recordSettlementMismatch ::
  "'s repository \<Rightarrow> 'o webhook_service \<Rightarrow> payment_event \<Rightarrow> charge_result \<Rightarrow> ('s, 'a) tx \<Rightarrow> ('s, 'a) tx" where
  "recordSettlementMismatch r w ev res k s =
     (case NewSettlementMismatchEntry (ws_auditID w) systemOperatorWebhook (pe_TenantID ev) (pe_TxID ev)
             (ch_ExpectedAmountCents res) (ch_ReceivedAmountCents res) (ws_auditAt w) of
        Inl e \<Rightarrow> tx_fail (Errorf ''record settlement divergence: build audit entry'' e) s
      | Inr e \<Rightarrow> tx_write ''record settlement divergence: append audit entry'' (\<lambda>s. AppendAudit r s e) k s)"

definition settlementKeyOf :: "payment_event \<Rightarrow> charge_result \<Rightarrow> string" where
  "settlementKeyOf ev res = (if ch_SettlementKey res = [] then pe_TxID ev else ch_SettlementKey res)"

text \<open>The last part of the callback: find the payment, mark it paid, save it.\<close>

definition settle_payment ::
  "'s repository \<Rightarrow> 'o webhook_service \<Rightarrow> payment_event \<Rightarrow> charge_result \<Rightarrow> ('s, (payment \<times> charge_result) option) tx" where
  "settle_payment r w ev res =
     (let settlementKey = settlementKeyOf ev res
      in tx_read (\<lambda>s. FindPaymentByTxID r s (pe_TenantID ev) settlementKey) (\<lambda>found.
           case found of
             Inl e \<Rightarrow> tx_fail (Errorf ''find payment by tx'' e)
           | Inr p \<Rightarrow>
               (case MarkPaid p settlementKey (ws_paidAt w) of
                  Inl e \<Rightarrow> if errors_Is e ErrConflict then tx_return None
                           else tx_fail (Errorf ''settle payment'' e)
                | Inr p' \<Rightarrow> tx_write ''save settled payment'' (\<lambda>s. SavePayment r s p')
                             (tx_return (Some (p', res))))))"

text \<open>The callback of the unit of work: what it settled, if anything.\<close>

definition settle_tx ::
  "'s repository \<Rightarrow> 'o webhook_service \<Rightarrow> payment_event \<Rightarrow> reconcile_func \<Rightarrow> ('s, (payment \<times> charge_result) option) tx" where
  "settle_tx r w ev reconcile =
     tx_mark r (pe_TenantID ev) (pe_EventKey ev) (\<lambda>first.
       if \<not> first then tx_return None
       else case reconcile (pe_TenantID ev) (pe_TxID ev) of
              Inl e \<Rightarrow> tx_fail (Errorf ''reconcile charge'' e)
            | Inr res \<Rightarrow>
                if \<not> EqualFold (ch_Status res) bankStatusPaid then
                  if pe_ClaimsSettlement ev
                  then tx_fail (Errorf ''aviso afirma pagamento mas a cobranca ainda nao consta paga'' errSettlementLag)
                  else tx_fail errNotYetPayable
                else if \<not> AmountReconciled res
                then recordSettlementMismatch r w ev res (tx_return None)
                else settle_payment r w ev res)"

definition publishSettled ::
  "'o webhook_service \<Rightarrow> 'o \<Rightarrow> payment \<Rightarrow> payment_event \<Rightarrow> charge_result \<Rightarrow> 'o \<times> effect list" where
  "publishSettled w ob settled ev res =
     (Attribute (ws_attributor w) ob (pay_tenantID settled) (pe_EventKey ev) (pay_txID settled) TopicPaymentPaid
        \<lparr>dt_AmountCents = ch_ExpectedAmountCents res, dt_Installments = ch_Installments res,
         dt_Message = ch_Message res\<rparr>,
      [Publish TopicPaymentPaid \<lparr>msg_TenantID = pay_tenantID settled, msg_Type = TopicPaymentPaid,
         msg_IdempotencyKey = pe_EventKey ev,
         msg_Payload = [(''payment_id'', pay_id settled), (''tenant_id'', pay_tenantID settled), (''tx_id'', pay_txID settled)]\<rparr>])"

definition settle ::
  "'s repository \<Rightarrow> 'o webhook_service \<Rightarrow> 's \<Rightarrow> 'o \<Rightarrow> payment_event \<Rightarrow> reconcile_func
     \<Rightarrow> 's \<times> 'o \<times> effect list \<times> unit result" where
  "settle r w s ob ev reconcile =
     (if TrimSpace (pe_TenantID ev) = [] then (s, ob, [], Inl (NewValidationError ''tenant_id'' ''tenant id is required''))
      else if TrimSpace (pe_TxID ev) = [] then (s, ob, [], Inl (NewValidationError ''tx_id'' ''tx id is required''))
      else if TrimSpace (pe_EventKey ev) = [] then (s, ob, [], Inl (NewValidationError ''event_key'' ''event key is required''))
      else case WithinTx r s (settle_tx r w ev reconcile) of
             (s', Inl e) \<Rightarrow> if errors_Is e errNotYetPayable then (s', ob, [], Inr ()) else (s', ob, [], Inl e)
           | (s', Inr None) \<Rightarrow> (s', ob, [], Inr ())
           | (s', Inr (Some (p, res))) \<Rightarrow>
               (case publishSettled w ob p ev res of (ob', effs) \<Rightarrow> (s', ob', effs, Inr ())))"

definition HandlePaymentEvent ::
  "'s repository \<Rightarrow> 'o webhook_service \<Rightarrow> 's \<Rightarrow> 'o \<Rightarrow> payment_event \<Rightarrow> 's \<times> 'o \<times> effect list \<times> unit result" where
  "HandlePaymentEvent r w s ob ev = settle r w s ob ev (ws_GetCharge w)"

definition reconcileCheckout :: "(string \<Rightarrow> string \<Rightarrow> checkout_result result) \<Rightarrow> reconcile_func" where
  "reconcileCheckout get tenantID sessionID =
     bindE (get tenantID sessionID)
       (\<lambda>res. Inr \<lparr>ch_TxID = co_SessionID res, ch_Status = co_Status res,
                   ch_ExpectedAmountCents = co_AmountCents res,
                   ch_ReceivedAmountCents = co_ReceivedAmountCents res,
                   ch_Installments = co_Installments res, ch_Message = co_Message res,
                   ch_SettlementKey = []\<rparr>)"

definition HandleCheckoutEvent ::
  "'s repository \<Rightarrow> 'o webhook_service \<Rightarrow> 's \<Rightarrow> 'o \<Rightarrow> payment_event \<Rightarrow> 's \<times> 'o \<times> effect list \<times> unit result" where
  "HandleCheckoutEvent r w s ob ev =
     (case ws_GetCheckoutSession w of
        None \<Rightarrow> (s, ob, [], Inl (Errorf ''checkout webhook not configured'' ErrUnavailable))
      | Some get \<Rightarrow> settle r w s ob ev (reconcileCheckout get))"

definition boletoStatusPaid :: string where "boletoStatusPaid = ''PAID''"
definition boletoStatusWaitingConfirmation :: string where "boletoStatusWaitingConfirmation = ''WAITING_CONFIRMATION''"
definition boletoStatusCanceledV2 :: string where "boletoStatusCanceledV2 = ''CANCELED''"
definition boletoStatusCanceledLegacy :: string where "boletoStatusCanceledLegacy = ''CANCELLED''"

definition boletoSettlementMessage :: "boleto_result \<Rightarrow> string" where
  "boletoSettlementMessage res =
     (let modality = NormalizedModality (bo_Modality res)
      in if bo_Status res = [] then modality
         else modality @ '' '' @ ToUpper (TrimSpace (bo_Status res)))"

definition toBoletoChargeResult :: "boleto_result \<Rightarrow> string \<Rightarrow> charge_result result" where
  "toBoletoChargeResult res settlementKey =
     (let status = ToUpper (TrimSpace (bo_Status res))
      in if status = boletoStatusWaitingConfirmation
         then Inl (Errorf (''cobranca '' @ bo_ExternalReferenceID res @
                '': pagamento confirmado, recursos ainda nao creditados'') errSettlementLag)
         else if status = boletoStatusCanceledV2 \<or> status = boletoStatusCanceledLegacy
         then Inr \<lparr>ch_TxID = bo_TxID res, ch_Status = status, ch_ExpectedAmountCents = bo_AmountCents res,
                   ch_ReceivedAmountCents = 0, ch_Installments = 0, ch_Message = [],
                   ch_SettlementKey = settlementKey\<rparr>
         else let out = \<lparr>ch_TxID = bo_TxID res, ch_Status = status,
                         ch_ExpectedAmountCents = bo_AmountCents res, ch_ReceivedAmountCents = 0,
                         ch_Installments = 0, ch_Message = boletoSettlementMessage res,
                         ch_SettlementKey = settlementKey\<rparr>
           in Inr (if status = boletoStatusPaid
                   then out\<lparr>ch_Status := bankStatusPaid, ch_ReceivedAmountCents := bo_AmountCents res\<rparr>
                   else out))"

definition reconcileBoletoByBankRef :: "'o webhook_service \<Rightarrow> reconcile_func" where
  "reconcileBoletoByBankRef w tenantID bankRef =
     bindE (ws_GetBoletoByBankRef w tenantID bankRef) (\<lambda>res. toBoletoChargeResult res (bo_TxID res))"

definition HandleBoletoEvent ::
  "'s repository \<Rightarrow> 'o webhook_service \<Rightarrow> 's \<Rightarrow> 'o \<Rightarrow> payment_event \<Rightarrow> 's \<times> 'o \<times> effect list \<times> unit result" where
  "HandleBoletoEvent r w s ob ev =
     (case ws_GetBoleto w of
        None \<Rightarrow> (s, ob, [], Inl (Errorf ''boleto webhook not configured'' ErrUnavailable))
      | Some getBoleto \<Rightarrow>
          if TrimSpace (pe_TxID ev) = [] then (s, ob, [], Inl (NewValidationError ''tx_id'' ''tx id is required''))
          else if \<not> ws_payments w then settle r w s ob ev (reconcileBoletoByBankRef w)
          else case FindPaymentByTxID r s (pe_TenantID ev) (pe_TxID ev) of
                 Inr p \<Rightarrow> settle r w s ob ev
                   (\<lambda>tenantID _. bindE (getBoleto tenantID (pay_id p)) (\<lambda>res. toBoletoChargeResult res []))
               | Inl e \<Rightarrow>
                   if \<not> errors_Is e ErrNotFound then (s, ob, [], Inl (Errorf ''resolve boleto payment'' e))
                   else settle r w s ob ev (reconcileBoletoByBankRef w))"

section \<open>What one run does to the store\<close>

text \<open>The condition under which a charge result allows a settlement.\<close>

definition settles :: "payment_event \<Rightarrow> reconcile_func \<Rightarrow> charge_result \<Rightarrow> bool" where
  "settles ev reconcile res \<longleftrightarrow>
     reconcile (pe_TenantID ev) (pe_TxID ev) = Inr res \<and> EqualFold (ch_Status res) bankStatusPaid \<and>
     AmountReconciled res"

text \<open>
  The view after a run: unchanged, the event marked, the event marked and the divergence recorded,
  or the event marked and one pending payment of the tenant paid.
\<close>

definition paid_of :: "'o webhook_service \<Rightarrow> payment \<Rightarrow> payment" where
  "paid_of w p = (if pay_status p = StatusPaid then p
                  else p\<lparr>pay_status := StatusPaid, pay_updatedAt := ws_paidAt w\<rparr>)"

definition marked :: "payment_event \<Rightarrow> view \<Rightarrow> view" where
  "marked ev v = v\<lparr>v_marks := insert (pe_TenantID ev, pe_EventKey ev) (v_marks v)\<rparr>"

lemma marked_simps [simp]:
  "v_pays (marked ev v) = v_pays v" "v_ledger (marked ev v) = v_ledger v" "v_recs (marked ev v) = v_recs v"
  "v_cobrs (marked ev v) = v_cobrs v" "v_audit (marked ev v) = v_audit v" "v_pii (marked ev v) = v_pii v"
  "v_marks (marked ev v) = insert (pe_TenantID ev, pe_EventKey ev) (v_marks v)"
  by (simp_all add: marked_def)

lemma MarkPaid_pending:
  assumes "wf_payment p" and "MarkPaid p (pay_txID p) (ws_paidAt w) = Inr q"
  shows "q = paid_of w p" "pay_status p \<noteq> StatusCanceled" "pay_txID p \<noteq> []"
proof -
  have t: "TrimSpace (pay_txID p) = pay_txID p" using assms(1) by (simp add: wf_payment_def)
  then show "q = paid_of w p" "pay_status p \<noteq> StatusCanceled" "pay_txID p \<noteq> []"
    using assms(2) by (auto simp: MarkPaid_def Let_def paid_of_def split: if_splits)
qed

lemma paid_of_simps [simp]:
  "pay_id (paid_of w p) = pay_id p" "pay_tenantID (paid_of w p) = pay_tenantID p"
  "pay_txID (paid_of w p) = pay_txID p" "pay_status (paid_of w p) = StatusPaid" "same_identity p (paid_of w p)"
  by (simp_all add: paid_of_def same_identity_def)

lemma paid_of_wf: "wf_payment p \<Longrightarrow> pay_txID p \<noteq> [] \<Longrightarrow> wf_payment (paid_of w p)"
  by (simp add: paid_of_def wf_payment_def)

context store_contract
begin

lemma tx_mark_cases:
  assumes "good s" "clean t" and "tx_mark r t k f s = (s', res)"
  obtains (err) e where "s' = s" "res = Inl e"
  | (dup) "f False s = (s', res)" "(t, k) \<in> v_marks (vw s)"
  | (first) s1 where "good s1" "vw s1 = (vw s)\<lparr>v_marks := insert (t, k) (v_marks (vw s))\<rparr>"
      "(t, k) \<notin> v_marks (vw s)" "f True s1 = (s', res)"
proof (cases "MarkProcessed r s t k")
  case (Inl e)
  with assms(3) err show thesis by (auto simp: tx_mark_def)
next
  case (Inr y)
  obtain b s1 where y: "y = (b, s1)" by fastforce
  show thesis
  proof (cases b)
    case True
    with Inr y mark_first [OF assms(1,2), of k s1] assms(3) first show thesis by (auto simp: tx_mark_def)
  next
    case False
    with Inr y mark_again [OF assms(1,2), of k s1] assms(3) dup show thesis by (auto simp: tx_mark_def)
  qed
qed

lemma mismatch_cases:
  assumes "good s1" and run: "recordSettlementMismatch r w ev cres (tx_return None) s1 = (s', res)"
  obtains (err) e where "good s'" "res = Inl e"
  | (recorded) e where "good s'" "res = Inr None" "vw s' = (vw s1)\<lparr>v_audit := v_audit (vw s1) @ [e]\<rparr>"
      "NewSettlementMismatchEntry (ws_auditID w) systemOperatorWebhook (pe_TenantID ev) (pe_TxID ev)
        (ch_ExpectedAmountCents cres) (ch_ReceivedAmountCents cres) (ws_auditAt w) = Inr e"
proof (cases "NewSettlementMismatchEntry (ws_auditID w) systemOperatorWebhook (pe_TenantID ev) (pe_TxID ev)
        (ch_ExpectedAmountCents cres) (ch_ReceivedAmountCents cres) (ws_auditAt w)")
  case (Inl e)
  with assms err show thesis by (auto simp: recordSettlementMismatch_def tx_fail_def)
next
  case (Inr e)
  note entry = Inr
  show thesis
  proof (cases "AppendAudit r s1 e")
    case (Inl e2)
    with assms entry err show thesis by (auto simp: recordSettlementMismatch_def tx_write_def)
  next
    case (Inr s2)
    with run entry have "s' = s2" "res = Inr None"
      by (simp_all add: recordSettlementMismatch_def tx_write_def tx_return_def)
    with append_audit [OF assms(1) Inr] entry recorded show thesis by blast
  qed
qed

lemma settle_payment_cases:
  assumes g: "good s1" "wf_pays (vw s1)" "clean (pe_TenantID ev)"
    and run: "settle_payment r w ev cres s1 = (s', res)"
  obtains (err) e where "good s'" "res = Inl e"
  | (conflict) "s' = s1" "res = Inr None"
  | (paid) p where "good s'" "res = Inr (Some (paid_of w p, cres))"
      "v_pays (vw s1) (pe_TenantID ev, pay_id p) = Some p" "pay_txID p = settlementKeyOf ev cres"
      "pay_status p \<noteq> StatusCanceled" "pay_txID p \<noteq> []"
      "vw s' = (vw s1)\<lparr>v_pays := (v_pays (vw s1))((pe_TenantID ev, pay_id p) \<mapsto> paid_of w p)\<rparr>"
proof (cases "FindPaymentByTxID r s1 (pe_TenantID ev) (settlementKeyOf ev cres)")
  case (Inl e)
  with run g(1) err show thesis by (auto simp: settle_payment_def Let_def tx_defs)
next
  case (Inr p)
  note found = Inr
  from find_tx [OF g(1) found]
  have p: "v_pays (vw s1) (pe_TenantID ev, pay_id p) = Some p" "pay_txID p = settlementKeyOf ev cres" by simp_all
  have wf: "wf_payment p" using p(1) g(2) by (auto simp: wf_pays_def)
  show thesis
  proof (cases "MarkPaid p (settlementKeyOf ev cres) (ws_paidAt w)")
    case (Inl e)
    with run found g(1) err conflict show thesis
      by (auto simp: settle_payment_def Let_def tx_defs split: if_splits)
  next
    case (Inr q)
    note mp = MarkPaid_pending [OF wf Inr [folded p(2)]] and mark = Inr
    show thesis
    proof (cases "SavePayment r s1 q")
      case (Inl e)
      with run mark found g(1) err show thesis by (auto simp: settle_payment_def Let_def tx_defs)
    next
      case (Inr s2)
      have tn: "pay_tenantID q = pe_TenantID ev" using pays_key [OF g(1) p(1)] mp(1) by simp
      with g(3) have "clean (pay_tenantID q)" by simp
      from save_payment [OF g(1) this Inr] mp(1) tn
      have "good s2" "vw s2 = (vw s1)\<lparr>v_pays := (v_pays (vw s1))((pe_TenantID ev, pay_id p) \<mapsto> paid_of w p)\<rparr>"
        by simp_all
      moreover have "s' = s2" "res = Inr (Some (paid_of w p, cres))"
        using run found mark Inr mp(1) by (simp_all add: settle_payment_def Let_def tx_defs)
      ultimately show thesis using paid [of p] p mp(2,3) by blast
    qed
  qed
qed

lemma settle_tx_cases:
  assumes g: "good s" "wf_pays (vw s)" "clean (pe_TenantID ev)"
    and run: "settle_tx r w ev rc s = (s', res)"
  obtains (err) e where "good s'" "res = Inl e"
  | (dup) "s' = s" "res = Inr None" "(pe_TenantID ev, pe_EventKey ev) \<in> v_marks (vw s)"
  | (conflict) "good s'" "res = Inr None" "vw s' = marked ev (vw s)" "\<exists>cres. settles ev rc cres"
  | (mismatch) cres e where "good s'" "res = Inr None"
      "vw s' = (marked ev (vw s))\<lparr>v_audit := v_audit (vw s) @ [e]\<rparr>"
      "rc (pe_TenantID ev) (pe_TxID ev) = Inr cres" "\<not> AmountReconciled cres"
      "NewSettlementMismatchEntry (ws_auditID w) systemOperatorWebhook (pe_TenantID ev) (pe_TxID ev)
        (ch_ExpectedAmountCents cres) (ch_ReceivedAmountCents cres) (ws_auditAt w) = Inr e"
  | (paid) p cres where "good s'" "res = Inr (Some (paid_of w p, cres))" "settles ev rc cres"
      "v_pays (vw s) (pe_TenantID ev, pay_id p) = Some p" "pay_txID p = settlementKeyOf ev cres"
      "pay_status p \<noteq> StatusCanceled" "pay_txID p \<noteq> []"
      "vw s' = (marked ev (vw s))\<lparr>v_pays := (v_pays (vw s))((pe_TenantID ev, pay_id p) \<mapsto> paid_of w p)\<rparr>"
  using g(1,3) run [unfolded settle_tx_def]
proof (cases rule: tx_mark_cases)
  case (err e)
  with that(1) g(1) show thesis by blast
next
  case dup
  with that(2) show thesis by (auto simp: tx_return_def)
next
  case (first s1)
  then have m1: "vw s1 = marked ev (vw s)" by (simp add: marked_def)
  show thesis
  proof (cases "rc (pe_TenantID ev) (pe_TxID ev)")
    case (Inl e)
    with first that(1) show thesis by (auto simp: tx_fail_def)
  next
    case (Inr cres)
    consider (unpaid) "\<not> EqualFold (ch_Status cres) bankStatusPaid"
      | (differs) "EqualFold (ch_Status cres) bankStatusPaid" "\<not> AmountReconciled cres"
      | (ok) "EqualFold (ch_Status cres) bankStatusPaid" "AmountReconciled cres" by blast
    then show thesis
    proof cases
      case unpaid
      with first Inr that(1) show thesis by (auto simp: tx_fail_def split: if_splits)
    next
      case differs
      with first Inr have rm: "recordSettlementMismatch r w ev cres (tx_return None) s1 = (s', res)" by simp
      from first(1) rm show thesis
        by (cases rule: mismatch_cases) (use that(1,4) Inr differs m1 in auto)
    next
      case ok
      then have st: "settles ev rc cres" using Inr by (simp add: settles_def)
      from first Inr ok have sp: "settle_payment r w ev cres s1 = (s', res)" by simp
      have "wf_pays (vw s1)" using g(2) m1 by (simp add: wf_pays_def)
      from first(1) this g(3) sp show thesis
        by (cases rule: settle_payment_cases) (use that(1,3,5) st m1 first(1) in auto)
    qed
  qed
qed

text \<open>The outcome of a run, in terms of the view.\<close>

lemma settle_cases:
  assumes g: "good s" "wf_pays (vw s)" "clean (pe_TenantID ev)"
    and run: "settle r w s ob ev rc = (s', ob', effs, res)"
  obtains (same) "good s'" "vw s' = vw s" "ob' = ob" "effs = []"
  | (noted) "good s'" "res = Inr ()" "vw s' = marked ev (vw s)" "ob' = ob" "effs = []" "\<exists>cres. settles ev rc cres"
  | (mismatch) cres e where "good s'" "res = Inr ()" "ob' = ob" "effs = []"
      "vw s' = (marked ev (vw s))\<lparr>v_audit := v_audit (vw s) @ [e]\<rparr>"
      "rc (pe_TenantID ev) (pe_TxID ev) = Inr cres" "\<not> AmountReconciled cres"
      "NewSettlementMismatchEntry (ws_auditID w) systemOperatorWebhook (pe_TenantID ev) (pe_TxID ev)
        (ch_ExpectedAmountCents cres) (ch_ReceivedAmountCents cres) (ws_auditAt w) = Inr e"
  | (paid) p cres where "good s'" "res = Inr ()" "settles ev rc cres"
      "v_pays (vw s) (pe_TenantID ev, pay_id p) = Some p" "pay_txID p = settlementKeyOf ev cres"
      "pay_status p \<noteq> StatusCanceled" "pay_txID p \<noteq> []"
      "vw s' = (marked ev (vw s))\<lparr>v_pays := (v_pays (vw s))((pe_TenantID ev, pay_id p) \<mapsto> paid_of w p)\<rparr>"
      "publishSettled w ob (paid_of w p) ev cres = (ob', effs)"
proof (cases "TrimSpace (pe_TenantID ev) = [] \<or> TrimSpace (pe_TxID ev) = [] \<or> TrimSpace (pe_EventKey ev) = []")
  case True
  with run g that(1) show thesis by (auto simp: settle_def split: if_splits)
next
  case False
  obtain s1 x where tx: "settle_tx r w ev rc s = (s1, x)" by fastforce
  from g tx show thesis
  proof (cases rule: settle_tx_cases)
    case (err e)
    with tx rollback [OF g(1), of s1] False run that(1) show thesis
      by (auto simp: settle_def WithinTx_def split: if_splits)
  next
    case dup
    with tx False run g that(1) show thesis by (auto simp: settle_def WithinTx_def)
  next
    case conflict
    with tx False run that(2) show thesis by (auto simp: settle_def WithinTx_def)
  next
    case (mismatch cres e)
    with tx False run that(3) show thesis by (simp add: settle_def WithinTx_def)
  next
    case (paid p cres)
    with tx False run that(4) show thesis by (simp add: settle_def WithinTx_def split: prod.splits)
  qed
qed

lemma settle_error_unchanged:
  assumes "good s" "wf_pays (vw s)" "clean (pe_TenantID ev)"
    and "settle r w s ob ev rc = (s', ob', effs, Inl e)"
  shows "vw s' = vw s"
  using assms by (cases rule: settle_cases) auto

lemma settle_step:
  assumes g: "good s" "charge_inv (vw s)" "clean (pe_TenantID ev)"
    and run: "settle r w s ob ev rc = (s', ob', effs, res)"
  shows "good s' \<and> charge_inv (vw s') \<and> evolves (vw s) (vw s') \<and> v_ledger (vw s') = v_ledger (vw s)"
proof -
  have wf: "wf_pays (vw s)" using g(2) by (simp add: charge_inv_def)
  from g(1) wf g(3) run show ?thesis
  proof (cases rule: settle_cases)
    case (paid p cres)
    have w: "wf_payment p" using paid wf by (auto simp: wf_pays_def)
    have "billed_once (vw s')"
      using g(2) paid by (intro billed_once_update [of "vw s" "vw s'" "pe_TenantID ev" "pay_id p" "paid_of w p"])
        (auto simp: charge_inv_def)
    moreover have "wf_pays (vw s')" using wf paid paid_of_wf [OF w] by (auto simp: wf_pays_def)
    moreover have "evolves (vw s) (vw s')"
      using paid by (intro evolves_update [of "vw s" "(pe_TenantID ev, pay_id p)" "paid_of w p" "vw s'"])
        (auto simp: paid_of_def same_identity_def)
    ultimately show ?thesis using paid by (simp add: charge_inv_def)
  qed (use g in \<open>auto simp: charge_inv_def billed_once_def wf_pays_def intro: evolves_same_pays\<close>)
qed

end

section \<open>Properties\<close>

text \<open>
  C4: reconcile before settle. Whatever the notification says, one run of \<open>settle\<close> on the in-memory
  store changes a payment only if the bank, asked back, reports the charge paid and the amount
  received equal to a positive expected amount; then it changes exactly one payment, of the
  notified tenant and carrying the settlement id, which was not canceled, and only marks it paid.
  A run that returns an error leaves everything it could have written untouched.
\<close>

theorem reconcile_before_settle:
  assumes "store_ok s" "wf_pays (store_view s)" "nul_free (pe_TenantID ev)"
    and "settle txView w s ob ev rc = (s', ob', effs, res)"
  shows "store_ok s' \<and> st_ledger s' = st_ledger s \<and>
    (\<forall>t i. nul_free t \<longrightarrow> findPaymentByID s' t i \<noteq> findPaymentByID s t i \<longrightarrow>
       (\<exists>p cres. findPaymentByID s t i = Inr p \<and> t = pe_TenantID ev \<and>
          rc (pe_TenantID ev) (pe_TxID ev) = Inr cres \<and> EqualFold (ch_Status cres) ''paid'' \<and>
          0 < ch_ExpectedAmountCents cres \<and> ch_ReceivedAmountCents cres = ch_ExpectedAmountCents cres \<and>
          pay_txID p = settlementKeyOf ev cres \<and> pay_status p = StatusPending \<and>
          findPaymentByID s' t i = Inr (p\<lparr>pay_status := StatusPaid, pay_updatedAt := ws_paidAt w\<rparr>))) \<and>
    (\<forall>e. res = Inl e \<longrightarrow> store_view s' = store_view s \<and> ob' = ob \<and> effs = [])"
proof -
  have f: "findPaymentByID s t i = (case at_key (st_payments s) (t, i) of None \<Rightarrow> Inl ErrNotFound | Some p \<Rightarrow> Inr p)"
    if "nul_free t" for s t i
    using that by (simp add: findPaymentByID_def lookup_def at_key_def)
  from assms show ?thesis
  proof (cases rule: mem.settle_cases)
    case (paid p cres)
    then have pays: "at_key (st_payments s') = (at_key (st_payments s))((pe_TenantID ev, pay_id p) \<mapsto> paid_of w p)"
      and led: "st_ledger s' = st_ledger s" and old: "at_key (st_payments s) (pe_TenantID ev, pay_id p) = Some p"
      by (simp_all add: store_view_def marked_def)
    have "\<exists>p cres. findPaymentByID s t i = Inr p \<and> t = pe_TenantID ev \<and>
          rc (pe_TenantID ev) (pe_TxID ev) = Inr cres \<and> EqualFold (ch_Status cres) ''paid'' \<and>
          0 < ch_ExpectedAmountCents cres \<and> ch_ReceivedAmountCents cres = ch_ExpectedAmountCents cres \<and>
          pay_txID p = settlementKeyOf ev cres \<and> pay_status p = StatusPending \<and>
          findPaymentByID s' t i = Inr (p\<lparr>pay_status := StatusPaid, pay_updatedAt := ws_paidAt w\<rparr>)"
      if t: "nul_free t" and ne: "findPaymentByID s' t i \<noteq> findPaymentByID s t i" for t i
    proof -
      have ti: "t = pe_TenantID ev" "i = pay_id p"
        using ne pays t by (auto simp: f split: if_splits)
      have "pay_status p \<noteq> StatusPaid" using ne old pays t ti by (auto simp: f paid_of_def)
      then have "pay_status p = StatusPending" using paid by (cases "pay_status p") auto
      then show ?thesis using paid ti old pays t
        by (intro exI [of _ p] exI [of _ cres])
           (simp add: f settles_def AmountReconciled_def bankStatusPaid_def paid_of_def)
    qed
    with paid led show ?thesis by simp
  qed (auto simp: f store_view_def marked_def)
qed

section \<open>A sample notification\<close>

definition sample_event :: payment_event where
  "sample_event = \<lparr>pe_TenantID = ''t1'', pe_TxID = ''tx1'', pe_EventKey = ''k1'', pe_ClaimsSettlement = True\<rparr>"

definition sample_paid_result :: charge_result where
  "sample_paid_result = \<lparr>ch_TxID = ''tx1'', ch_Status = ''paid'', ch_ExpectedAmountCents = 500,
     ch_ReceivedAmountCents = 500, ch_Installments = 0, ch_Message = [], ch_SettlementKey = []\<rparr>"

definition sample_service :: "outbox webhook_service" where
  "sample_service = \<lparr>ws_GetCharge = (\<lambda>t x. Inr sample_paid_result), ws_GetCheckoutSession = None,
     ws_GetBoleto = None, ws_GetBoletoByBankRef = (\<lambda>t x. Inl ErrNotFound), ws_payments = True, ws_attributor = None,
     ws_paidAt = zero_time, ws_auditID = ''a1'', ws_auditAt = zero_time,
     ws_recReader = None, ws_cobrReader = None, ws_todayAt = zero_time, ws_bornAt = zero_time,
     ws_movedAt = zero_time\<rparr>"

definition sample_charged_store :: store where
  "sample_charged_store =
     sample_store\<lparr>st_payments := [(key ''t1'' ''p1'', sample_paid_tx)], st_ledger := [sample_entry]\<rparr>"

lemma sample_charged_good:
  "store_ok sample_charged_store" "wf_pays (store_view sample_charged_store)" "nul_free (pe_TenantID sample_event)"
proof -
  have only: "p = sample_paid_tx" if "at_key [(key ''t1'' ''p1'', sample_paid_tx)] k = Some p" for k p
    using that by (auto simp: at_key_def split: if_splits prod.splits)
  have v: "v_pays (store_view sample_charged_store) = at_key [(key ''t1'' ''p1'', sample_paid_tx)]"
    by (simp add: sample_charged_store_def)
  have "wf_payment sample_paid_tx"
    using SetTxID_wf_fresh [OF sample_payment_wf, of "''tx1''"]
    by (simp add: SetTxID_def sample_paid_tx_def) (simp add: sample_payment_def)
  with only show "wf_pays (store_view sample_charged_store)" unfolding wf_pays_def v by blast
  show "store_ok sample_charged_store" "nul_free (pe_TenantID sample_event)"
    by (simp_all add: sample_charged_store_def sample_store_def NewStore_def store_ok_def keyed_def
        unique_keys_def nul_free_def sample_paid_tx_def sample_payment_def sample_event_def)
qed

lemma EqualFold_refl [simp]: "EqualFold a a"
  by (simp add: EqualFold_def)

theorem reconcile_before_settle_witness:
  "\<exists>s'. settle txView sample_service sample_charged_store NewOutbox sample_event (\<lambda>t x. Inl ErrUnavailable)
       = (s', NewOutbox, [], Inl (Errorf ''reconcile charge'' ErrUnavailable)) \<and>
     store_view s' = store_view sample_charged_store"
proof -
  obtain s' ob' effs res
    where run: "settle txView sample_service sample_charged_store NewOutbox sample_event (\<lambda>t x. Inl ErrUnavailable)
      = (s', ob', effs, res)" by (metis prod_cases4)
  have "res = Inl (Errorf ''reconcile charge'' ErrUnavailable)"
    using run by (simp add: settle_def sample_event_def WithinTx_def settle_tx_def tx_defs markProcessed_def
        sample_charged_store_def sample_store_def NewStore_def)
  with reconcile_before_settle [OF sample_charged_good run] run show ?thesis by auto
qed

lemma settle_tx_duplicate:
  "nul_free (pe_TenantID ev) \<Longrightarrow> (pe_TenantID ev, pe_EventKey ev) \<in> v_marks (store_view s) \<Longrightarrow>
     settle_tx txView w ev rc s = (s, Inr None)"
  by (auto simp: settle_tx_def tx_mark_def markProcessed_def Let_def at_key_def tx_return_def split: if_splits)

lemma settle_duplicate:
  assumes "nul_free (pe_TenantID ev)" "(pe_TenantID ev, pe_EventKey ev) \<in> v_marks (store_view s)"
  shows "\<exists>res. settle txView w s ob ev rc = (s, ob, [], res) \<and>
    (TrimSpace (pe_TenantID ev) \<noteq> [] \<longrightarrow> TrimSpace (pe_EventKey ev) \<noteq> [] \<longrightarrow> TrimSpace (pe_TxID ev) \<noteq> [] \<longrightarrow>
       res = Inr ())"
  using settle_tx_duplicate [OF assms, of w rc] by (auto simp: settle_def WithinTx_def)

lemma settle_unmarked:
  assumes "store_ok s" "wf_pays (store_view s)" "nul_free (pe_TenantID ev)"
    and "settle txView w s ob ev rc = (s', ob', effs, res)"
    and "(pe_TenantID ev, pe_EventKey ev) \<notin> v_marks (store_view s')"
  shows "store_view s' = store_view s \<and> ob' = ob \<and> effs = []"
  using assms by (cases rule: mem.settle_cases) (auto simp del: mem_marks)

lemma savePayment_update:
  assumes "store_ok s" "at_key (st_payments s) (t, i) = Some p"
    and "pay_tenantID q = t" "pay_id q = i" "pay_idempotencyKey q = pay_idempotencyKey p"
  shows "\<exists>s'. savePayment s q = Inr s'"
proof -
  have "savePayment s q \<noteq> Inl ErrConflict"
  proof
    assume "savePayment s q = Inl ErrConflict"
    then obtain x where x: "x \<in> set (vals (st_payments s))" "pay_tenantID x = t"
      "pay_idempotencyKey x = pay_idempotencyKey p" "pay_id x \<noteq> i"
      using assms by (auto simp: savePayment_conflict_iff)
    with mem.pays_unique [of s t "pay_id x" x i p] store_ok_pays [OF assms(1) x(1)] assms show False by simp
  qed
  then show ?thesis by (auto simp: savePayment_def split: if_splits)
qed


text \<open>
  C13: settlement happens at most once per event. After a run, either the event is marked, and then
  every later delivery under the same event key, whatever else it carries and whatever the bank
  then answers, is acknowledged without any effect; or nothing was written at all, so a redelivery
  is processed from the start. A run that publishes has marked the event.
\<close>

theorem settlement_once_per_event:
  assumes "store_ok s" "wf_pays (store_view s)" "nul_free (pe_TenantID ev)"
    and "settle txView w s ob ev rc = (s', ob', effs, res)"
  shows "((pe_TenantID ev, pe_EventKey ev) \<in> v_marks (store_view s') \<longrightarrow>
      (\<forall>w2 ob2 ev2 rc2. pe_TenantID ev2 = pe_TenantID ev \<longrightarrow> pe_EventKey ev2 = pe_EventKey ev \<longrightarrow>
         (\<exists>r2. settle txView w2 s' ob2 ev2 rc2 = (s', ob2, [], r2) \<and>
            (TrimSpace (pe_TenantID ev) \<noteq> [] \<longrightarrow> TrimSpace (pe_EventKey ev) \<noteq> [] \<longrightarrow>
             TrimSpace (pe_TxID ev2) \<noteq> [] \<longrightarrow> r2 = Inr ())))) \<and>
    ((pe_TenantID ev, pe_EventKey ev) \<notin> v_marks (store_view s') \<longrightarrow>
       store_view s' = store_view s \<and> ob' = ob \<and> effs = []) \<and>
    (effs \<noteq> [] \<longrightarrow> (pe_TenantID ev, pe_EventKey ev) \<in> v_marks (store_view s'))"
proof (intro conjI impI allI)
  fix w2 :: "'b webhook_service" and ob2 :: 'b and ev2 :: payment_event and rc2 :: reconcile_func
  assume "(pe_TenantID ev, pe_EventKey ev) \<in> v_marks (store_view s')"
    and "pe_TenantID ev2 = pe_TenantID ev" "pe_EventKey ev2 = pe_EventKey ev"
  with settle_duplicate [of ev2 s' w2 ob2 rc2] assms(3)
  show "\<exists>r2. settle txView w2 s' ob2 ev2 rc2 = (s', ob2, [], r2) \<and>
            (TrimSpace (pe_TenantID ev) \<noteq> [] \<longrightarrow> TrimSpace (pe_EventKey ev) \<noteq> [] \<longrightarrow>
             TrimSpace (pe_TxID ev2) \<noteq> [] \<longrightarrow> r2 = Inr ())" by (simp del: mem_marks)
qed (use settle_unmarked [OF assms] in blast)+

lemma settle_completes:
  assumes "store_ok s" "wf_pays (store_view s)" "nul_free (pe_TenantID ev)"
    and "TrimSpace (pe_TenantID ev) \<noteq> []" "TrimSpace (pe_TxID ev) \<noteq> []" "TrimSpace (pe_EventKey ev) \<noteq> []"
    and "(pe_TenantID ev, pe_EventKey ev) \<notin> v_marks (store_view s)"
    and "rc (pe_TenantID ev) (pe_TxID ev) = Inr cres" "EqualFold (ch_Status cres) ''paid''"
    and "0 < ch_ExpectedAmountCents cres" "ch_ReceivedAmountCents cres = ch_ExpectedAmountCents cres"
    and "findPaymentByTxID s (pe_TenantID ev) (settlementKeyOf ev cres) = Inr p"
    and "pay_status p = StatusPending" "TrimSpace (settlementKeyOf ev cres) \<noteq> []"
  shows "\<exists>s' ob'. settle txView w s ob ev rc =
      (s', ob', [Publish TopicPaymentPaid \<lparr>msg_TenantID = pe_TenantID ev, msg_Type = TopicPaymentPaid,
         msg_IdempotencyKey = pe_EventKey ev,
         msg_Payload = [(''payment_id'', pay_id p), (''tenant_id'', pe_TenantID ev), (''tx_id'', settlementKeyOf ev cres)]\<rparr>], Inr ()) \<and>
    findPaymentByID s' (pe_TenantID ev) (pay_id p) =
      Inr (p\<lparr>pay_status := StatusPaid, pay_updatedAt := ws_paidAt w\<rparr>) \<and>
    ob' = Attribute (ws_attributor w) ob (pe_TenantID ev) (pe_EventKey ev) (settlementKeyOf ev cres) TopicPaymentPaid
      \<lparr>dt_AmountCents = ch_ExpectedAmountCents cres, dt_Installments = ch_Installments cres, dt_Message = ch_Message cres\<rparr>"
proof -
  let ?k = "settlementKeyOf ev cres"
  define s1 where "s1 = s\<lparr>st_processed := put (key (pe_TenantID ev) (pe_EventKey ev)) () (st_processed s)\<rparr>"
  define q where "q = p\<lparr>pay_status := StatusPaid, pay_updatedAt := ws_paidAt w\<rparr>"
  have p: "at_key (st_payments s) (pe_TenantID ev, pay_id p) = Some p" "pay_txID p = ?k"
    using mem.find_tx [of s "pe_TenantID ev" ?k p] assms(1,12) by simp_all
  have tn: "pay_tenantID p = pe_TenantID ev" using store_ok_at [OF assms(1) p(1)] by simp
  have "wf_payment p" using p(1) assms(2) by (auto simp: wf_pays_def)
  then have tr: "TrimSpace ?k = ?k" using p(2) by (metis trimmedD wf_payment_def)
  have mk: "markProcessed s (pe_TenantID ev) (pe_EventKey ev) = Inr (True, s1)"
    using assms(3,7) by (auto simp: markProcessed_def Let_def s1_def at_key_def)
  have s1: "store_ok s1" "st_payments s1 = st_payments s" using assms(1) by (simp_all add: s1_def store_ok_def)
  have find: "findPaymentByTxID s1 (pe_TenantID ev) ?k = Inr p"
    using assms(12) s1(2) by (simp add: findPaymentByTxID_def)
  have mp: "MarkPaid p ?k (ws_paidAt w) = Inr q"
    using assms(13,14) tr p(2) by (simp add: MarkPaid_def q_def)
  obtain s2 where sv: "savePayment s1 q = Inr s2"
    using savePayment_update [of s1 "pe_TenantID ev" "pay_id p" p q] s1 p tn by (auto simp: q_def)
  have nf: "nul_free (pay_tenantID q)" using tn assms(3) by (simp add: q_def)
  have "findPaymentByID s2 (pe_TenantID ev) (pay_id p) = Inr q"
    using savePayment_ok(2) [OF s1(1) nf sv] tn assms(3)
    by (auto simp: findPaymentByID_def lookup_def store_view_def at_key_def q_def fun_eq_iff split: if_splits)
  moreover have "settle_tx txView w ev rc s = (s2, Inr (Some (q, cres)))"
    using mk find mp sv assms(8-11)
    by (simp add: settle_tx_def settle_payment_def tx_defs Let_def AmountReconciled_def bankStatusPaid_def)
  ultimately show ?thesis
    using assms(4-6) tn p(2) by (simp add: settle_def WithinTx_def publishSettled_def q_def)
qed

text \<open>
  a confirmed payment is settled. When a first delivery names a stored pending payment and the
  bank confirms it paid in full, the run succeeds: the payment is paid and saved, one
  payment-paid message is published, and the tenant's owner is notified through the outbox.
\<close>

theorem confirmed_payment_settles:
  assumes "store_ok s" "wf_pays (store_view s)" "nul_free (pe_TenantID ev)"
    and "TrimSpace (pe_TenantID ev) \<noteq> []" "TrimSpace (pe_TxID ev) \<noteq> []" "TrimSpace (pe_EventKey ev) \<noteq> []"
    and "(pe_TenantID ev, pe_EventKey ev) \<notin> v_marks (store_view s)"
    and "rc (pe_TenantID ev) (pe_TxID ev) = Inr cres" "EqualFold (ch_Status cres) ''paid''"
    and "0 < ch_ExpectedAmountCents cres" "ch_ReceivedAmountCents cres = ch_ExpectedAmountCents cres"
    and "findPaymentByTxID s (pe_TenantID ev) (settlementKeyOf ev cres) = Inr p"
    and "pay_status p = StatusPending" "TrimSpace (settlementKeyOf ev cres) \<noteq> []"
  shows "\<exists>s' ob'. settle txView w s ob ev rc =
      (s', ob', [Publish TopicPaymentPaid \<lparr>msg_TenantID = pe_TenantID ev, msg_Type = TopicPaymentPaid,
         msg_IdempotencyKey = pe_EventKey ev,
         msg_Payload = [(''payment_id'', pay_id p), (''tenant_id'', pe_TenantID ev), (''tx_id'', settlementKeyOf ev cres)]\<rparr>], Inr ()) \<and>
    findPaymentByID s' (pe_TenantID ev) (pay_id p) =
      Inr (p\<lparr>pay_status := StatusPaid, pay_updatedAt := ws_paidAt w\<rparr>) \<and>
    ob' = Attribute (ws_attributor w) ob (pe_TenantID ev) (pe_EventKey ev) (settlementKeyOf ev cres) TopicPaymentPaid
      \<lparr>dt_AmountCents = ch_ExpectedAmountCents cres, dt_Installments = ch_Installments cres, dt_Message = ch_Message cres\<rparr>"
  using assms by (rule settle_completes)

lemma sample_first:
  "(pe_TenantID sample_event, pe_EventKey sample_event) \<notin> v_marks (store_view sample_charged_store)"
  by (simp add: sample_charged_store_def sample_store_def NewStore_def at_key_def)

lemma sample_event_fields:
  "TrimSpace (pe_TenantID sample_event) \<noteq> []" "TrimSpace (pe_TxID sample_event) \<noteq> []"
  "TrimSpace (pe_EventKey sample_event) \<noteq> []"
  by (simp_all add: sample_event_def)

lemma sample_found:
  "findPaymentByTxID sample_charged_store (pe_TenantID sample_event) (settlementKeyOf sample_event sample_paid_result)
     = Inr sample_paid_tx" "pay_status sample_paid_tx = StatusPending"
  "TrimSpace (settlementKeyOf sample_event sample_paid_result) \<noteq> []"
  by (simp_all add: findPaymentByTxID_def scan_def sample_charged_store_def sample_event_def settlementKeyOf_def
      sample_paid_result_def sample_paid_tx_def sample_payment_def)

theorem confirmed_payment_settles_witness:
  "\<exists>s' ob'. settle txView sample_service sample_charged_store NewOutbox sample_event (\<lambda>t x. Inr sample_paid_result) =
      (s', ob', [Publish TopicPaymentPaid \<lparr>msg_TenantID = ''t1'', msg_Type = TopicPaymentPaid,
         msg_IdempotencyKey = ''k1'',
         msg_Payload = [(''payment_id'', ''p1''), (''tenant_id'', ''t1''), (''tx_id'', ''tx1'')]\<rparr>], Inr ()) \<and>
    findPaymentByID s' ''t1'' ''p1'' =
      Inr (sample_paid_tx\<lparr>pay_status := StatusPaid, pay_updatedAt := zero_time\<rparr>)"
proof -
  have c: "EqualFold (ch_Status sample_paid_result) ''paid''" "0 < ch_ExpectedAmountCents sample_paid_result"
    "ch_ReceivedAmountCents sample_paid_result = ch_ExpectedAmountCents sample_paid_result"
    by (simp_all add: sample_paid_result_def)
  have r: "(\<lambda>t x. Inr sample_paid_result) (pe_TenantID sample_event) (pe_TxID sample_event) =
      (Inr sample_paid_result :: charge_result result)" by simp
  from confirmed_payment_settles [where rc = "\<lambda>t x. Inr sample_paid_result" and w = sample_service and ob = NewOutbox,
      OF sample_charged_good sample_event_fields sample_first r c sample_found]
  show ?thesis
    by (auto simp: sample_event_def settlementKeyOf_def sample_paid_result_def sample_service_def
        sample_paid_tx_def sample_payment_def)
qed

theorem settlement_once_per_event_witness:
  "\<exists>s' ob' effs. settle txView sample_service sample_charged_store NewOutbox sample_event (\<lambda>t x. Inr sample_paid_result) =
       (s', ob', effs, Inr ()) \<and> effs \<noteq> [] \<and>
     (\<exists>r2. settle txView sample_service s' ob' sample_event (\<lambda>t x. Inl ErrUnavailable) = (s', ob', [], r2))"
proof -
  have c: "EqualFold (ch_Status sample_paid_result) ''paid''" "0 < ch_ExpectedAmountCents sample_paid_result"
    "ch_ReceivedAmountCents sample_paid_result = ch_ExpectedAmountCents sample_paid_result"
    by (simp_all add: sample_paid_result_def)
  have r: "(\<lambda>t x. Inr sample_paid_result) (pe_TenantID sample_event) (pe_TxID sample_event) =
      (Inr sample_paid_result :: charge_result result)" by simp
  from settle_completes [where rc = "\<lambda>t x. Inr sample_paid_result" and w = sample_service and ob = NewOutbox,
      OF sample_charged_good sample_event_fields sample_first r c sample_found]
  obtain s' ob' effs where run: "settle txView sample_service sample_charged_store NewOutbox sample_event
      (\<lambda>t x. Inr sample_paid_result) = (s', ob', effs, Inr ())" and "effs \<noteq> []" by blast
  with settlement_once_per_event [where ?'b = outbox, OF sample_charged_good run] run show ?thesis by blast
qed

text \<open>
  a divergence of the amount is refused, recorded and acknowledged. When a first delivery names
  a charge the bank reports paid but for an amount that does not match (or whose expected amount
  is not positive), the run acknowledges it: no payment and no ledger entry changes, nothing is
  published, the event is marked, and the audit trail gains exactly one entry carrying both amounts.
\<close>

theorem divergence_recorded:
  assumes "store_ok s" "wf_pays (store_view s)" "nul_free (pe_TenantID ev)"
    and "TrimSpace (pe_TenantID ev) \<noteq> []" "TrimSpace (pe_TxID ev) \<noteq> []" "TrimSpace (pe_EventKey ev) \<noteq> []"
    and "(pe_TenantID ev, pe_EventKey ev) \<notin> v_marks (store_view s)" "TrimSpace (ws_auditID w) \<noteq> []"
    and "rc (pe_TenantID ev) (pe_TxID ev) = Inr cres" "EqualFold (ch_Status cres) ''paid''"
    and "ch_ExpectedAmountCents cres \<le> 0 \<or> ch_ReceivedAmountCents cres \<noteq> ch_ExpectedAmountCents cres"
  shows "\<exists>s' e. settle txView w s ob ev rc = (s', ob, [], Inr ()) \<and>
    st_payments s' = st_payments s \<and> st_ledger s' = st_ledger s \<and> st_audit s' = st_audit s @ [e] \<and>
    (pe_TenantID ev, pe_EventKey ev) \<in> v_marks (store_view s') \<and>
    au_action e = ActionSettlementAmountMismatch \<and> au_tenantID e = TrimSpace (pe_TenantID ev) \<and>
    au_txID e = TrimSpace (pe_TxID ev) \<and> au_expectedCents e = ch_ExpectedAmountCents cres \<and>
    au_receivedCents e = ch_ReceivedAmountCents cres"
proof -
  define s1 where "s1 = s\<lparr>st_processed := put (key (pe_TenantID ev) (pe_EventKey ev)) () (st_processed s)\<rparr>"
  have mk: "markProcessed s (pe_TenantID ev) (pe_EventKey ev) = Inr (True, s1)"
    using assms(3,7) by (auto simp: markProcessed_def Let_def s1_def at_key_def)
  obtain e where e: "NewSettlementMismatchEntry (ws_auditID w) systemOperatorWebhook (pe_TenantID ev) (pe_TxID ev)
        (ch_ExpectedAmountCents cres) (ch_ReceivedAmountCents cres) (ws_auditAt w) = Inr e"
    and f: "au_action e = ActionSettlementAmountMismatch" "au_tenantID e = TrimSpace (pe_TenantID ev)"
      "au_txID e = TrimSpace (pe_TxID ev)" "au_expectedCents e = ch_ExpectedAmountCents cres"
      "au_receivedCents e = ch_ReceivedAmountCents cres"
    using assms(4,5,8) by (simp add: NewSettlementMismatchEntry_def Let_def zero_entry_def)
  have "settle_tx txView w ev rc s = (s1\<lparr>st_audit := st_audit s1 @ [e]\<rparr>, Inr None)"
    using mk e assms(9-11) by (auto simp: settle_tx_def tx_mark_def recordSettlementMismatch_def tx_write_def
        tx_return_def appendAudit_def AmountReconciled_def bankStatusPaid_def)
  then have "settle txView w s ob ev rc = (s1\<lparr>st_audit := st_audit s1 @ [e]\<rparr>, ob, [], Inr ())"
    using assms(4-6) by (simp add: settle_def WithinTx_def)
  with f assms(3) show ?thesis
    by (intro exI [of _ "s1\<lparr>st_audit := st_audit s1 @ [e]\<rparr>"] exI [of _ e]) (simp add: s1_def at_key_def)
qed

theorem divergence_recorded_witness:
  "\<exists>s' e. settle txView sample_service sample_charged_store NewOutbox sample_event
       (\<lambda>t x. Inr (sample_paid_result\<lparr>ch_ReceivedAmountCents := 1\<rparr>)) = (s', NewOutbox, [], Inr ()) \<and>
     st_payments s' = st_payments sample_charged_store \<and> st_audit s' = [e] \<and> au_receivedCents e = 1"
proof -
  let ?c = "sample_paid_result\<lparr>ch_ReceivedAmountCents := 1\<rparr>"
  have a: "TrimSpace (ws_auditID sample_service) \<noteq> []"
    by (simp add: sample_service_def TrimSpace_plain plain_byte_def less_eq_char_def)
  have c: "EqualFold (ch_Status ?c) ''paid''"
    "ch_ExpectedAmountCents ?c \<le> 0 \<or> ch_ReceivedAmountCents ?c \<noteq> ch_ExpectedAmountCents ?c"
    by (simp_all add: sample_paid_result_def)
  have r: "(\<lambda>t x. Inr ?c) (pe_TenantID sample_event) (pe_TxID sample_event) = (Inr ?c :: charge_result result)" by simp
  have "st_audit sample_charged_store = []" by (simp add: sample_charged_store_def sample_store_def NewStore_def)
  with divergence_recorded [where rc = "\<lambda>t x. Inr ?c" and ob = NewOutbox, OF sample_charged_good sample_event_fields sample_first a r c]
  show ?thesis by fastforce
qed

lemma upper_char_not_lower: "\<not> (CHR ''a'' \<le> upper_char c \<and> upper_char c \<le> CHR ''z'')"
proof (cases "CHR ''a'' \<le> c \<and> c \<le> CHR ''z''")
  case True
  then have "of_char c - 32 < (256 :: nat)" by (auto simp: less_eq_char_def)
  with True show ?thesis by (auto simp: upper_char_def less_eq_char_def)
qed (auto simp: upper_char_def)

lemma lower_upper_char:
  assumes "(of_char (lower_char (upper_char c)) :: nat) = n + 32" "n \<le> 90" "65 \<le> n"
  shows "(of_char (upper_char c) :: nat) = n"
proof -
  let ?u = "upper_char c"
  have n: "\<not> (97 \<le> (of_char ?u :: nat) \<and> (of_char ?u :: nat) \<le> 122)"
    using upper_char_not_lower [of c] by (simp add: less_eq_char_def)
  have "CHR ''A'' \<le> ?u \<and> ?u \<le> CHR ''Z''"
  proof (rule ccontr)
    assume "\<not> ?thesis"
    then have "lower_char ?u = ?u" by (auto simp: lower_char_def)
    with n assms show False by simp
  qed
  then have "(of_char (lower_char ?u) :: nat) = of_char ?u + 32"
    by (simp add: lower_char_def less_eq_char_def)
  with assms show ?thesis by simp
qed

lemma char_eqI: "(of_char c :: nat) = of_char d \<Longrightarrow> c = d"
  by simp

lemma paid_letters:
  "upper_char (CHR ''p'') = CHR ''P''" "upper_char (CHR ''a'') = CHR ''A''"
  "upper_char (CHR ''i'') = CHR ''I''" "upper_char (CHR ''d'') = CHR ''D''"
  "lower_char (CHR ''P'') = CHR ''p''" "lower_char (CHR ''A'') = CHR ''a''"
  "lower_char (CHR ''I'') = CHR ''i''" "lower_char (CHR ''D'') = CHR ''d''"
  by (rule char_eqI; simp add: upper_char_def lower_char_def less_eq_char_def)+

lemma EqualFold_upper_paid: "EqualFold (ToUpper x) ''paid'' \<longleftrightarrow> ToUpper x = ''PAID''"
proof
  assume "EqualFold (ToUpper x) ''paid''"
  then have "map lower_char (ToUpper x) = ''paid''"
    by (simp add: EqualFold_def ToLower_def lower_char_def less_eq_char_def)
  then obtain a b c d where x: "x = [a, b, c, d]"
    and e: "lower_char (upper_char a) = CHR ''p''" "lower_char (upper_char b) = CHR ''a''"
      "lower_char (upper_char c) = CHR ''i''" "lower_char (upper_char d) = CHR ''d''"
    by (auto simp: ToUpper_def)
  have "upper_char a = CHR ''P''" "upper_char b = CHR ''A''" "upper_char c = CHR ''I''" "upper_char d = CHR ''D''"
    by (rule char_eqI; use lower_upper_char [of a 80] lower_upper_char [of b 65] lower_upper_char [of c 73]
      lower_upper_char [of d 68] e in simp)+
  with x show "ToUpper x = ''PAID''" by (simp add: ToUpper_def)
next
  assume "ToUpper x = ''PAID''"
  then show "EqualFold (ToUpper x) ''paid''"
    by (simp add: EqualFold_def ToLower_def paid_letters) (simp add: lower_char_def less_eq_char_def)
qed

text \<open>
  what a boleto read means for settlement. A boleto whose status, trimmed and in any case, is
  PAID is settleable for its registered amount; WAITING\_CONFIRMATION asks the bank for a
  redelivery; every other status is never settleable, since it is neither reported paid nor
  reconciled.
\<close>

theorem boleto_settleable:
  "(ToUpper (TrimSpace (bo_Status b)) = ''WAITING_CONFIRMATION'' \<longrightarrow>
      (\<exists>e. toBoletoChargeResult b k = Inl e \<and> errors_Is e errSettlementLag)) \<and>
   (ToUpper (TrimSpace (bo_Status b)) \<noteq> ''WAITING_CONFIRMATION'' \<longrightarrow>
      (\<exists>res. toBoletoChargeResult b k = Inr res \<and> ch_ExpectedAmountCents res = bo_AmountCents b \<and>
         ch_SettlementKey res = k \<and>
         (EqualFold (ch_Status res) bankStatusPaid \<longleftrightarrow> ToUpper (TrimSpace (bo_Status b)) = ''PAID'') \<and>
         (AmountReconciled res \<longleftrightarrow> ToUpper (TrimSpace (bo_Status b)) = ''PAID'' \<and> 0 < bo_AmountCents b)))"
proof -
  let ?u = "ToUpper (TrimSpace (bo_Status b))"
  have "EqualFold ?u ''paid'' \<longleftrightarrow> ?u = ''PAID''" by (rule EqualFold_upper_paid)
  moreover have "EqualFold ''CANCELED'' ''paid'' = False" "EqualFold ''CANCELLED'' ''paid'' = False"
    by (simp_all add: EqualFold_def ToLower_def)
  ultimately show ?thesis
    by (auto simp: toBoletoChargeResult_def Let_def boletoStatusWaitingConfirmation_def boletoStatusCanceledV2_def
        boletoStatusCanceledLegacy_def boletoStatusPaid_def bankStatusPaid_def AmountReconciled_def)
qed

definition sample_boleto_read :: "string \<Rightarrow> boleto_result" where
  "sample_boleto_read st = \<lparr>bo_BoletoID = ''p1'', bo_TxID = ''tx1'', bo_Status = st, bo_Modality = [],
     bo_ExternalReferenceID = ''r'', bo_QRCode = [], bo_OurNumber = [], bo_DigitableLine = [], bo_Barcode = [],
     bo_AmountCents = 500, bo_DueDate = zero_time, bo_ValidUntil = zero_time, bo_FineBps = 0,
     bo_FineFixedCents = 0, bo_MonthlyInterestBps = 0, bo_Discounts = []\<rparr>"

theorem boleto_settleable_witness:
  "\<exists>res. toBoletoChargeResult (sample_boleto_read ''paid'') [] = Inr res \<and> AmountReconciled res"
proof -
  have t: "TrimSpace ''paid'' = ''paid''" by (simp add: TrimSpace_plain plain_byte_def less_eq_char_def)
  have u: "ToUpper ''paid'' = ''PAID''" by (simp add: ToUpper_def paid_letters)
  show ?thesis
    using boleto_settleable [of "sample_boleto_read ''paid''" "[]"] t u by (auto simp: sample_boleto_read_def)
qed

text \<open>
  a canceled boleto whose notification claims a payment is not acknowledged. The bank says the
  charge is canceled, a terminal status; the run nevertheless fails with the settlement-lag error
  and leaves no anti-replay mark, so the bank is asked to redeliver an event that can never settle.
\<close>

theorem canceled_boleto_redelivered:
  "\<exists>s' e. HandleBoletoEvent txView (sample_service\<lparr>ws_GetBoleto := Some (\<lambda>t i. Inr (sample_boleto_read ''CANCELED''))\<rparr>)
         sample_charged_store NewOutbox sample_event = (s', NewOutbox, [], Inl e) \<and>
     errors_Is e errSettlementLag \<and>
     (pe_TenantID sample_event, pe_EventKey sample_event) \<notin> v_marks (store_view s')"
proof -
  have "TrimSpace ''CANCELED'' = ''CANCELED''" by (simp add: TrimSpace_plain plain_byte_def less_eq_char_def)
  moreover have "ToUpper ''CANCELED'' = ''CANCELED''" by (simp add: ToUpper_def upper_char_def less_eq_char_def)
  moreover have "EqualFold ''CANCELED'' ''paid'' = False" by (simp add: EqualFold_def ToLower_def)
  ultimately show ?thesis
    by (simp add: HandleBoletoEvent_def sample_service_def sample_boleto_read_def sample_event_def findPaymentByTxID_def scan_def
        sample_charged_store_def sample_store_def NewStore_def sample_paid_tx_def sample_payment_def settle_def
        WithinTx_def settle_tx_def tx_defs markProcessed_def toBoletoChargeResult_def Let_def
        boletoStatusWaitingConfirmation_def boletoStatusCanceledV2_def bankStatusPaid_def restore_def at_key_def)
qed

end
