(* ===== verification/Concurrent.thy ===== *)
theory Concurrent
  imports Settlement
begin

text \<open>
  Concurrent requests: any number of \<open>CreateCharge\<close> calls and webhook settlements interleaved at
  the points where the code does not hold a transaction. A call is a thread whose program counter
  says which of its steps comes next; each step is the one of the charge theory, on the store as it
  is then. An identifier handed out by the \<open>IDProvider\<close> is not the id of a stored payment, and the
  bank answers with a transaction id; these are the premises of the respective steps.
\<close>

section \<open>The system\<close>

datatype pc =
    Idle
  | Admitted create_charge_input endpoint_pricing
  | Reserving create_charge_input endpoint_pricing
  | Clashed create_charge_input endpoint_pricing
  | Charging create_charge_input endpoint_pricing payment
  | Finalizing create_charge_input payment ledger_entry
  | Finished create_charge_input "payment result"

text \<open>Where a call goes once it has a payment: done if it carries a transaction id.\<close>

definition with_payment :: "create_charge_input \<Rightarrow> endpoint_pricing \<Rightarrow> payment \<Rightarrow> pc" where
  "with_payment inp price p =
     (if pay_txID p \<noteq> [] then Finished inp (Inr p) else Charging inp price p)"

type_synonym 's config = "'s \<times> (nat \<Rightarrow> pc)"

inductive sys_step ::
  "'s repository \<Rightarrow> ('s \<Rightarrow> string \<Rightarrow> string \<Rightarrow> bool) \<Rightarrow> (string \<Rightarrow> bool) \<Rightarrow> 's config \<Rightarrow> 's config \<Rightarrow> bool"
  for r :: "'s repository" and unused :: "'s \<Rightarrow> string \<Rightarrow> string \<Rightarrow> bool" and clean :: "string \<Rightarrow> bool" where
  admit: "th n = Idle \<Longrightarrow> good_input inp \<Longrightarrow> clean (ci_TenantID inp) \<Longrightarrow>
    sys_step r unused clean (s, th)
      (s, th(n := case charge_admit r s inp of Inl e \<Rightarrow> Finished inp (Inl e) | Inr price \<Rightarrow> Admitted inp price))"
| find: "th n = Admitted inp price \<Longrightarrow>
    sys_step r unused clean (s, th)
      (s, th(n := case reserve_lookup r s inp of
                    Inl e \<Rightarrow> Finished inp (Inl e)
                  | Inr (Some p) \<Rightarrow> with_payment inp price p
                  | Inr None \<Rightarrow> Reserving inp price))"
| reserve: "th n = Reserving inp price \<Longrightarrow> unused s (ci_TenantID inp) (TrimSpace (ce_paymentID env)) \<Longrightarrow>
    reserve_save r env s inp = (s', res) \<Longrightarrow>
    sys_step r unused clean (s, th)
      (s', th(n := case res of
                     Inl e \<Rightarrow> Finished inp (Inl e)
                   | Inr (Some p) \<Rightarrow> with_payment inp price p
                   | Inr None \<Rightarrow> Clashed inp price))"
| winner: "th n = Clashed inp price \<Longrightarrow>
    sys_step r unused clean (s, th)
      (s, th(n := case reserve_winner r s inp of
                    Inl e \<Rightarrow> Finished inp (Inl e)
                  | Inr p \<Rightarrow> with_payment inp price p))"
| bank: "th n = Charging inp price p \<Longrightarrow> answer = ce_bank env (ci_TenantID inp) (charge_request_of inp p) \<Longrightarrow>
    (\<And>res. answer = Inr res \<Longrightarrow> TrimSpace (ch_TxID res) \<noteq> []) \<Longrightarrow>
    sys_step r unused clean (s, th)
      (s, th(n := case answer of
                    Inl e \<Rightarrow> Finished inp (Inl (Errorf ''bank create charge'' e))
                  | Inr res \<Rightarrow>
                      (case charge_entry env inp (SetTxID p (ch_TxID res)) price of
                         Inl e \<Rightarrow> Finished inp (Inl e)
                       | Inr le \<Rightarrow> Finalizing inp (SetTxID p (ch_TxID res)) le)))"
| finalize: "th n = Finalizing inp p le \<Longrightarrow> charge_finalize r s inp p le = (s', res) \<Longrightarrow>
    sys_step r unused clean (s, th)
      (s', th(n := Finished inp (case res of Inl e \<Rightarrow> Inl e | Inr (q, b) \<Rightarrow> Inr q)))"
| webhook: "clean (pe_TenantID ev) \<Longrightarrow> settle r (w :: outbox webhook_service) s ob ev rc = (s', ob', effs, res) \<Longrightarrow>
    sys_step r unused clean (s, th) (s', th)"

section \<open>The invariant\<close>

text \<open>What a thread may rely on, wherever it is.\<close>

fun thread_ok :: "(string \<Rightarrow> bool) \<Rightarrow> view \<Rightarrow> pc \<Rightarrow> bool" where
  "thread_ok clean v Idle \<longleftrightarrow> True"
| "thread_ok clean v (Admitted inp price) \<longleftrightarrow> good_input inp \<and> clean (ci_TenantID inp)"
| "thread_ok clean v (Reserving inp price) \<longleftrightarrow> good_input inp \<and> clean (ci_TenantID inp)"
| "thread_ok clean v (Clashed inp price) \<longleftrightarrow> good_input inp \<and> clean (ci_TenantID inp)"
| "thread_ok clean v (Charging inp price p) \<longleftrightarrow>
     good_input inp \<and> clean (ci_TenantID inp) \<and> holds v inp p \<and> pay_txID p = []"
| "thread_ok clean v (Finalizing inp p le) \<longleftrightarrow>
     good_input inp \<and> clean (ci_TenantID inp) \<and> holds v inp p \<and> pay_txID p \<noteq> [] \<and>
     le_tenantID le = ci_TenantID inp \<and> le_reference le = pay_id p"
| "thread_ok clean v (Finished inp (Inl e)) \<longleftrightarrow> True"
| "thread_ok clean v (Finished inp (Inr p)) \<longleftrightarrow>
     pay_txID p \<noteq> [] \<and> pay_idempotencyKey p = ci_IdempotencyKey inp \<and>
     (\<exists>q. v_pays v (ci_TenantID inp, pay_id p) = Some q \<and> same_identity p q \<and> pay_txID q = pay_txID p)"

lemma thread_ok_evolves:
  assumes "thread_ok clean v t" and "evolves v v'"
  shows "thread_ok clean v' t"
proof (cases t)
  case (Finished inp res)
  show ?thesis
  proof (cases res)
    case (Inr p)
    with assms(1) Finished obtain q where q: "v_pays v (ci_TenantID inp, pay_id p) = Some q"
      "same_identity p q" "pay_txID q = pay_txID p" "pay_txID p \<noteq> []" by auto
    with assms(2) obtain q' where "v_pays v' (ci_TenantID inp, pay_id p) = Some q'"
      "same_identity q q'" "pay_txID q' = pay_txID q"
      unfolding evolves_def by metis
    with q assms(1) Finished Inr show ?thesis by (auto intro: same_identity_trans)
  qed (use Finished in simp)
qed (use assms in \<open>auto intro: holds_evolves\<close>)

lemma with_payment_ok:
  assumes "good_input inp" "clean (ci_TenantID inp)" "holds v inp p"
    and "pay_txID p \<noteq> [] \<Longrightarrow> v_pays v (ci_TenantID inp, pay_id p) = Some p"
  shows "thread_ok clean v (with_payment inp price p)"
  using assms holds_key [OF assms(3)] by (simp add: with_payment_def)

definition sys_inv :: "(string \<Rightarrow> bool) \<Rightarrow> ('s \<Rightarrow> bool) \<Rightarrow> ('s \<Rightarrow> view) \<Rightarrow> 's config \<Rightarrow> bool" where
  "sys_inv clean good vw c \<longleftrightarrow>
     good (fst c) \<and> charge_inv (vw (fst c)) \<and> (\<forall>n. thread_ok clean (vw (fst c)) (snd c n))"

lemma sys_inv_step:
  assumes "sys_inv clean good vw (s, th)" and "good s'" "charge_inv (vw s')" "evolves (vw s) (vw s')"
    and "thread_ok clean (vw s') t"
  shows "sys_inv clean good vw (s', th(n := t)) \<and> evolves (vw s) (vw s')"
  using assms by (auto simp: sys_inv_def intro: thread_ok_evolves [OF _ assms(4)])

lemma sys_inv_thread: "sys_inv clean good vw (s, th) \<Longrightarrow> thread_ok clean (vw s) (th n)"
  by (simp add: sys_inv_def)

context store_contract
begin

lemma sys_step_inv:
  assumes "sys_step r (\<lambda>s t i. v_pays (vw s) (t, i) = None) clean c d" and "sys_inv clean good vw c"
  shows "sys_inv clean good vw d \<and> evolves (vw (fst c)) (vw (fst d))"
  using assms
proof (cases rule: sys_step.cases)
  case (admit th n inp s)
  with assms(2) show ?thesis
    using sys_inv_step [of clean good vw s th s] by (auto simp: sys_inv_def split: sum.splits)
next
  case (find th n inp price s)
  have t: "good_input inp" "clean (ci_TenantID inp)" "good s" "charge_inv (vw s)"
    using assms(2) find sys_inv_thread [of clean good vw s th n] by (auto simp: sys_inv_def)
  have "thread_ok clean (vw s) (case reserve_lookup r s inp of
                    Inl e \<Rightarrow> Finished inp (Inl e)
                  | Inr (Some p) \<Rightarrow> with_payment inp price p
                  | Inr None \<Rightarrow> Reserving inp price)"
    using t reserve_lookup_holds [OF t(3,4)] by (auto split: sum.splits option.splits intro: with_payment_ok)
  with assms(2) find t show ?thesis using sys_inv_step [of clean good vw s th s] by auto
next
  case (reserve th n inp price s env s' res)
  have t: "good s" "charge_inv (vw s)" "good_input inp" "clean (ci_TenantID inp)"
    using assms(2) reserve sys_inv_thread [of clean good vw s th n] by (auto simp: sys_inv_def)
  note st = reserve_save_step [OF t reserve(4,5)]
  have "thread_ok clean (vw s') (case res of
                     Inl e \<Rightarrow> Finished inp (Inl e)
                   | Inr (Some p) \<Rightarrow> with_payment inp price p
                   | Inr None \<Rightarrow> Clashed inp price)"
    using t st by (auto split: sum.splits option.splits intro: with_payment_ok)
  with assms(2) reserve st show ?thesis using sys_inv_step [of clean good vw s th s'] by auto
next
  case (winner th n inp price s)
  have t: "good_input inp" "clean (ci_TenantID inp)" "good s" "charge_inv (vw s)"
    using assms(2) winner sys_inv_thread [of clean good vw s th n] by (auto simp: sys_inv_def)
  have "thread_ok clean (vw s) (case reserve_winner r s inp of
                    Inl e \<Rightarrow> Finished inp (Inl e) | Inr p \<Rightarrow> with_payment inp price p)"
    using t reserve_winner_holds [OF t(3,4)] by (auto split: sum.splits intro: with_payment_ok)
  with assms(2) winner t show ?thesis using sys_inv_step [of clean good vw s th s] by auto
next
  case (bank th n inp price p answer env s)
  have t: "good s" "charge_inv (vw s)" "good_input inp" "clean (ci_TenantID inp)" "holds (vw s) inp p" "pay_txID p = []"
    using assms(2) bank sys_inv_thread [of clean good vw s th n] by (auto simp: sys_inv_def)
  have "trimmed (pay_id p)" using t(5) by (auto simp: holds_def wf_payment_def)
  then have "thread_ok clean (vw s) (case answer of
                    Inl e \<Rightarrow> Finished inp (Inl (Errorf ''bank create charge'' e))
                  | Inr res \<Rightarrow>
                      (case charge_entry env inp (SetTxID p (ch_TxID res)) price of
                         Inl e \<Rightarrow> Finished inp (Inl e)
                       | Inr le \<Rightarrow> Finalizing inp (SetTxID p (ch_TxID res)) le))"
    using t bank(5) holds_SetTxID [OF t(5,6)]
    by (auto split: sum.splits simp: good_input_def dest: charge_entry_Inr)
  with assms(2) bank t show ?thesis using sys_inv_step [of clean good vw s th s] by auto
next
  case (finalize th n inp p le s s' res)
  have t: "good s" "charge_inv (vw s)" "clean (ci_TenantID inp)" "holds (vw s) inp p" "pay_txID p \<noteq> []"
    "le_tenantID le = ci_TenantID inp" "le_reference le = pay_id p"
    using assms(2) finalize sys_inv_thread [of clean good vw s th n] by (auto simp: sys_inv_def)
  note st = finalize_step [OF t finalize(4)]
  have h: "holds (vw s') inp p" using t(4) st by (blast intro: holds_evolves)
  have "thread_ok clean (vw s') (Finished inp (Inr q))" if "res = Inr (q, b)" for q b
  proof -
    have q: "v_pays (vw s') (ci_TenantID inp, pay_id p) = Some q" "pay_txID q \<noteq> []" using st that by blast+
    with h have "same_identity q p" "pay_idempotencyKey p = ci_IdempotencyKey inp" by (auto simp: holds_def)
    with q show ?thesis by (simp add: same_identity_def)
  qed
  then have "thread_ok clean (vw s') (Finished inp (case res of Inl e \<Rightarrow> Inl e | Inr (q, b) \<Rightarrow> Inr q))"
    by (auto split: sum.splits)
  with assms(2) finalize st show ?thesis using sys_inv_step [of clean good vw s th s'] by auto
next
  case (webhook ev w s ob rc s' ob' effs res th)
  have t: "good s" "charge_inv (vw s)" using assms(2) webhook by (auto simp: sys_inv_def)
  note st = settle_step [OF t webhook(3,4)]
  then have "evolves (vw s) (vw s')" by blast
  with st assms(2) webhook show ?thesis by (auto simp: sys_inv_def intro: thread_ok_evolves)
qed

lemma sys_steps_inv:
  assumes "(sys_step r (\<lambda>s t i. v_pays (vw s) (t, i) = None) clean)\<^sup>*\<^sup>* c d" and "sys_inv clean good vw c"
  shows "sys_inv clean good vw d \<and> evolves (vw (fst c)) (vw (fst d))"
  using assms by (induction rule: rtranclp_induct) (auto dest: sys_step_inv intro: evolves_trans)

text \<open>Two finished calls of one tenant and key got the same payment.\<close>

lemma finished_same:
  assumes "sys_inv clean good vw (s, th)" and "th n = Finished inp (Inr p)" "th m = Finished inp' (Inr p')"
    and "ci_TenantID inp' = ci_TenantID inp" "ci_IdempotencyKey inp' = ci_IdempotencyKey inp"
  shows "pay_id p' = pay_id p \<and> pay_txID p' = pay_txID p"
proof -
  obtain q q' where q: "v_pays (vw s) (ci_TenantID inp, pay_id p) = Some q" "same_identity p q"
      "pay_txID q = pay_txID p" "pay_idempotencyKey p = ci_IdempotencyKey inp"
    and q': "v_pays (vw s) (ci_TenantID inp, pay_id p') = Some q'" "same_identity p' q'"
      "pay_txID q' = pay_txID p'" "pay_idempotencyKey p' = ci_IdempotencyKey inp"
    using sys_inv_thread [OF assms(1), of n] sys_inv_thread [OF assms(1), of m] assms(2-5) by auto
  have g: "good s" using assms(1) by (simp add: sys_inv_def)
  have "pay_idempotencyKey q = pay_idempotencyKey q'" using q q' by (simp add: same_identity_def)
  with pays_unique [OF g q(1) q'(1)] have "pay_id p = pay_id p'" by simp
  with q q' show ?thesis by simp
qed

end

section \<open>Properties\<close>

definition unused_in :: "store \<Rightarrow> string \<Rightarrow> string \<Rightarrow> bool" where
  "unused_in s t i \<longleftrightarrow> at_key (st_payments s) (t, i) = None"

lemma unused_in_view: "unused_in = (\<lambda>s t i. v_pays (store_view s) (t, i) = None)"
  by (simp add: unused_in_def fun_eq_iff)

text \<open>
  C1: concurrent requests with one idempotency key end in one charge and one bill. Start any
  number of calls of \<open>CreateCharge\<close>, interleave their steps with each other and with webhook
  settlements in any way, on a store whose books are in order. At every point reached the books
  are in order again, no payment was lost or un-settled, every call that finished successfully
  returned a stored payment billed exactly once, and two calls of the same tenant with the same
  key returned the same payment with the same bank transaction id.
\<close>

theorem concurrent_charges_single_bill:
  assumes "store_ok s0" "charge_inv (store_view s0)"
    and "(sys_step txView unused_in nul_free)\<^sup>*\<^sup>* (s0, \<lambda>n. Idle) (s, th)"
  shows "store_ok s \<and> charge_inv (store_view s) \<and> evolves (store_view s0) (store_view s) \<and>
    (\<forall>n inp p. th n = Finished inp (Inr p) \<longrightarrow>
       billed (st_ledger s) (ci_TenantID inp) (pay_id p) = 1 \<and>
       (\<forall>m inp' p'. th m = Finished inp' (Inr p') \<longrightarrow> ci_TenantID inp' = ci_TenantID inp \<longrightarrow>
          ci_IdempotencyKey inp' = ci_IdempotencyKey inp \<longrightarrow> pay_id p' = pay_id p \<and> pay_txID p' = pay_txID p))"
proof -
  have "sys_inv nul_free store_ok store_view (s0, \<lambda>n. Idle)" using assms(1,2) by (simp add: sys_inv_def)
  from mem.sys_steps_inv [OF assms(3) [unfolded unused_in_view] this]
  have inv: "sys_inv nul_free store_ok store_view (s, th)" and ev: "evolves (store_view s0) (store_view s)"
    by simp_all
  have "billed (st_ledger s) (ci_TenantID inp) (pay_id p) = 1" if fin: "th n = Finished inp (Inr p)" for n inp p
  proof -
    obtain q where "at_key (st_payments s) (ci_TenantID inp, pay_id p) = Some q" "pay_txID q \<noteq> []"
      using sys_inv_thread [OF inv, of n] fin by auto
    moreover have "billed_once (store_view s)" using inv by (simp add: sys_inv_def charge_inv_def)
    ultimately show ?thesis by (simp add: billed_once_def)
  qed
  then show ?thesis
  proof (intro conjI allI impI)
    show "store_ok s" "charge_inv (store_view s)" using inv by (simp_all add: sys_inv_def)
    show "evolves (store_view s0) (store_view s)" by (rule ev)
  next
    fix n inp p m inp' p'
    assume "th n = Finished inp (Inr p)" "th m = Finished inp' (Inr p')"
      "ci_TenantID inp' = ci_TenantID inp" "ci_IdempotencyKey inp' = ci_IdempotencyKey inp"
    note same = mem.finished_same [OF inv this]
    show "pay_id p' = pay_id p" and "pay_txID p' = pay_txID p" using same by blast+
  qed
qed

section \<open>A race of two calls\<close>

text \<open>
  Two calls with one key: both look the key up before either reserves it, the second insert
  clashes and adopts the winner's payment, and both go to the bank and to the final transaction.
\<close>

definition second_env :: charge_env where
  "second_env = sample_env\<lparr>ce_paymentID := ''p2''\<rparr>"

abbreviation free_price :: endpoint_pricing where
  "free_price \<equiv> \<lparr>ep_tenantID = ''t1'', ep_endpoint = ''charges'', ep_priceCents = 0\<rparr>"

abbreviation sample_sys :: "store config \<Rightarrow> store config \<Rightarrow> bool" where
  "sample_sys \<equiv> sys_step txView unused_in nul_free"

lemma race_admit:
  assumes "th n = Idle"
  shows "sample_sys (sample_store, th) (sample_store, th(n := Admitted sample_input free_price))"
  using sys_step.admit [where th = th and n = n and r = txView and unused = unused_in and clean = nul_free and s = sample_store,
      OF assms sample_good(3,4)] by (simp add: sample_admit)

lemma race_find:
  assumes "th n = Admitted sample_input free_price"
  shows "sample_sys (sample_store, th) (sample_store, th(n := Reserving sample_input free_price))"
proof -
  have "reserve_lookup txView sample_store sample_input = Inr None"
    by (simp add: reserve_lookup_def findPaymentByIdempotencyKey_def scan_def sample_store_def NewStore_def)
  with sys_step.find [where th = th and n = n and r = txView and unused = unused_in and clean = nul_free and s = sample_store, OF assms]
  show ?thesis by simp
qed

lemma race_reserve:
  assumes "th n = Reserving sample_input free_price"
  shows "sample_sys (sample_store, th) (sample_reserved_store, th(n := Charging sample_input free_price sample_payment))"
proof -
  have "unused_in sample_store (ci_TenantID sample_input) (TrimSpace (ce_paymentID sample_env))"
    by (simp add: unused_in_def sample_store_def NewStore_def at_key_def)
  moreover have "reserve_save txView sample_env sample_store sample_input = (sample_reserved_store, Inr (Some sample_payment))"
    by (simp add: sample_reserved_store_def sample_store_def NewStore_def reserve_save_def sample_input_def
        sample_env_def NewMoney_def currencyRe_def NewPayment_def IsZeroMoney_def WithinTx_def
        savePayment_def sample_payment_def less_eq_char_def)
  moreover have "with_payment sample_input free_price sample_payment = Charging sample_input free_price sample_payment"
    by (simp add: with_payment_def) (simp add: sample_payment_def)
  ultimately show ?thesis
    using sys_step.reserve [where th = th and n = n and r = txView and unused = unused_in and clean = nul_free, OF assms] by fastforce
qed

lemma race_clash:
  assumes "th n = Reserving sample_input free_price"
  shows "sample_sys (sample_reserved_store, th) (sample_reserved_store, th(n := Clashed sample_input free_price))"
proof -
  have "unused_in sample_reserved_store (ci_TenantID sample_input) (TrimSpace (ce_paymentID second_env))"
    by (simp add: unused_in_def sample_reserved_store_def at_key_def second_env_def sample_input_def key_def)
  moreover have "reserve_save txView second_env sample_reserved_store sample_input = (sample_reserved_store, Inr None)"
    by (simp add: sample_reserved_store_def sample_store_def NewStore_def reserve_save_def sample_input_def
        sample_env_def second_env_def NewMoney_def currencyRe_def NewPayment_def IsZeroMoney_def WithinTx_def
        savePayment_def sample_payment_def less_eq_char_def restore_def)
  ultimately show ?thesis
    using sys_step.reserve [where th = th and n = n and r = txView and unused = unused_in and clean = nul_free, OF assms] by fastforce
qed

lemma race_winner:
  assumes "th n = Clashed sample_input free_price"
  shows "sample_sys (sample_reserved_store, th)
    (sample_reserved_store, th(n := Charging sample_input free_price sample_payment))"
proof -
  have "reserve_winner txView sample_reserved_store sample_input = Inr sample_payment"
    by (simp add: reserve_winner_def findPaymentByIdempotencyKey_def scan_def sample_reserved_store_def
        sample_input_def sample_payment_def)
  moreover have "with_payment sample_input free_price sample_payment = Charging sample_input free_price sample_payment"
    by (simp add: with_payment_def) (simp add: sample_payment_def)
  ultimately show ?thesis
    using sys_step.winner [where th = th and n = n and r = txView and unused = unused_in and clean = nul_free and s = sample_reserved_store,
        OF assms] by simp
qed

lemma race_bank:
  assumes "th n = Charging sample_input free_price sample_payment"
  shows "sample_sys (s, th) (s, th(n := Finalizing sample_input sample_paid_tx sample_entry))"
proof -
  obtain res where res: "ce_bank sample_env (ci_TenantID sample_input) (charge_request_of sample_input sample_payment) = Inr res"
    and tx: "ch_TxID res = ''tx1''" by (simp add: sample_env_def)
  have "SetTxID sample_payment ''tx1'' = sample_paid_tx" by (simp add: SetTxID_def sample_paid_tx_def)
  with sys_step.bank [where th = th and n = n and r = txView and unused = unused_in and clean = nul_free and s = s, OF assms res [symmetric]] tx
  show ?thesis by (simp add: sample_bill)
qed

lemma race_finalize:
  assumes "th n = Finalizing sample_input sample_paid_tx sample_entry"
  shows "sample_sys (sample_reserved_store, th) (sample_charged_store, th(n := Finished sample_input (Inr sample_paid_tx)))"
    and "sample_sys (sample_charged_store, th) (sample_charged_store, th(n := Finished sample_input (Inr sample_paid_tx)))"
proof -
  note step = sys_step.finalize [where th = th and n = n and r = txView and unused = unused_in and clean = nul_free, OF assms]
  show "sample_sys (sample_reserved_store, th) (sample_charged_store, th(n := Finished sample_input (Inr sample_paid_tx)))"
    using step [OF sample_finalize [folded sample_reserved_store_def sample_charged_store_def]] by simp
  have "charge_finalize txView sample_charged_store sample_input sample_paid_tx sample_entry =
      (sample_charged_store, Inr (sample_paid_tx, False))"
    by (simp add: charge_finalize_def tx_defs WithinTx_def findPaymentByIdempotencyKey_def scan_def
        sample_charged_store_def sample_paid_tx_def sample_payment_def sample_input_def)
  from step [OF this]
  show "sample_sys (sample_charged_store, th) (sample_charged_store, th(n := Finished sample_input (Inr sample_paid_tx)))"
    by simp
qed

definition race_end :: "nat \<Rightarrow> pc" where
  "race_end = (\<lambda>n. Idle)(0 := Finished sample_input (Inr sample_paid_tx), 1 := Finished sample_input (Inr sample_paid_tx))"

lemma race_run: "sample_sys\<^sup>*\<^sup>* (sample_store, \<lambda>n. Idle) (sample_charged_store, race_end)"
proof -
  let ?th = "\<lambda>a b. (\<lambda>n::nat. Idle)(0 := a, 1 := b)"
  let ?A = "Admitted sample_input free_price" and ?R = "Reserving sample_input free_price"
  let ?K = "Clashed sample_input free_price" and ?C = "Charging sample_input free_price sample_payment"
  let ?Z = "Finalizing sample_input sample_paid_tx sample_entry" and ?F = "Finished sample_input (Inr sample_paid_tx)"
  have up: "(?th a b)(0 := c) = ?th c b" "(?th a b)(1 := c) = ?th a c" for a b c by (auto simp: fun_eq_iff)
  have idle: "(\<lambda>n. Idle) = ?th Idle Idle" by auto
  have "sample_sys (sample_store, ?th Idle Idle) (sample_store, ?th ?A Idle)" using race_admit [of "?th Idle Idle" 0] by (simp only: up) simp
  moreover have "sample_sys (sample_store, ?th ?A Idle) (sample_store, ?th ?A ?A)" using race_admit [of "?th ?A Idle" 1] by (simp only: up) simp
  moreover have "sample_sys (sample_store, ?th ?A ?A) (sample_store, ?th ?R ?A)" using race_find [of "?th ?A ?A" 0] by (simp only: up) simp
  moreover have "sample_sys (sample_store, ?th ?R ?A) (sample_store, ?th ?R ?R)" using race_find [of "?th ?R ?A" 1] by (simp only: up) simp
  moreover have "sample_sys (sample_store, ?th ?R ?R) (sample_reserved_store, ?th ?C ?R)" using race_reserve [of "?th ?R ?R" 0] by (simp only: up) simp
  moreover have "sample_sys (sample_reserved_store, ?th ?C ?R) (sample_reserved_store, ?th ?C ?K)" using race_clash [of "?th ?C ?R" 1] by (simp only: up) simp
  moreover have "sample_sys (sample_reserved_store, ?th ?C ?K) (sample_reserved_store, ?th ?C ?C)" using race_winner [of "?th ?C ?K" 1] by (simp only: up) simp
  moreover have "sample_sys (sample_reserved_store, ?th ?C ?C) (sample_reserved_store, ?th ?Z ?C)" using race_bank [of "?th ?C ?C" 0] by (simp only: up) simp
  moreover have "sample_sys (sample_reserved_store, ?th ?Z ?C) (sample_reserved_store, ?th ?Z ?Z)" using race_bank [of "?th ?Z ?C" 1] by (simp only: up) simp
  moreover have "sample_sys (sample_reserved_store, ?th ?Z ?Z) (sample_charged_store, ?th ?F ?Z)" using race_finalize(1) [of "?th ?Z ?Z" 0] by (simp only: up) simp
  moreover have "sample_sys (sample_charged_store, ?th ?F ?Z) (sample_charged_store, ?th ?F ?F)" using race_finalize(2) [of "?th ?F ?Z" 1] by (simp only: up) simp
  ultimately show ?thesis unfolding race_end_def by (subst idle) (meson rtranclp.rtrancl_refl converse_rtranclp_into_rtranclp)
qed

theorem concurrent_charges_single_bill_witness:
  "race_end 0 = Finished sample_input (Inr sample_paid_tx) \<and> race_end 1 = Finished sample_input (Inr sample_paid_tx) \<and>
   charge_inv (store_view sample_charged_store) \<and> billed (st_ledger sample_charged_store) ''t1'' ''p1'' = 1"
proof -
  have e: "race_end 0 = Finished sample_input (Inr sample_paid_tx)" "race_end 1 = Finished sample_input (Inr sample_paid_tx)"
    by (simp_all add: race_end_def)
  note ok = concurrent_charges_single_bill [OF sample_good(1,2) race_run]
  have "ci_TenantID sample_input = ''t1''" "pay_id sample_paid_tx = ''p1''"
    by (simp_all add: sample_input_def sample_paid_tx_def sample_payment_def)
  with ok e show ?thesis by metis
qed

end
