(* ===== verification/Mandates.thy ===== *)
theory Mandates
  imports Charge RecPorts
begin

text \<open>
  \<open>internal/app/recurrence.go\<close>: the mandate journey and the origination of recurring charges. Every
  operation returns the state, the calls it made to the bank in order, and its result. The record
  \<open>recurrence_service\<close> holds the providers (a nil port is \<open>None\<close>) and what the clock and the id
  provider answer during the operation, one field per call.
\<close>

section \<open>Definitions\<close>

definition RecCreateEndpoint :: string where "RecCreateEndpoint = ''pix.rec.create''"
definition CobRCreateEndpoint :: string where "CobRCreateEndpoint = ''pix.cobr.create''"

record recurrence_service =
  rs_cobr :: "cobr_provider option"
  rs_rec :: "rec_provider option"
  rs_solicRec :: "solic_rec_provider option"
  rs_locRec :: "loc_rec_provider option"
  rs_builtAt :: gotime
  rs_auditID :: string
  rs_auditAt :: gotime
  rs_ledgerID :: string
  rs_ledgerAt :: gotime

text \<open>The calls that change something at the bank.\<close>

datatype bank_call =
    CallCreateCobR string create_cobr_request
  | CallCancelCobR string string
  | CallRetryCobR string string string
  | CallCreateRec string create_rec_request
  | CallCancelRec string string

record originate_input =
  oi_TenantID :: string
  oi_AccountID :: string
  oi_OperatorID :: string
  oi_IDRec :: string
  oi_TxID :: string
  oi_Vencimento :: string
  oi_ValorCents :: int
  oi_IdempotencyKey :: string

text \<open>Loading the mandate and the two gates of a charge.\<close>

definition approved_mandate :: "'s repository \<Rightarrow> 's \<Rightarrow> string \<Rightarrow> string \<Rightarrow> rec result" where
  "approved_mandate r s tenantID idRec =
     (case FindRecByID r s tenantID idRec of
        Inl e \<Rightarrow> if errors_Is e ErrNotFound then Inl ErrMandateNotFound else Inl (Errorf ''load mandate'' e)
      | Inr m \<Rightarrow> bindE (RequireApprovedMandate (Some m) tenantID idRec) (\<lambda>_. Inr m))"

text \<open>
  Everything before the bank is asked: an already recorded charge (\<open>Inl\<close>), or the provider, the new
  charge and the price to bill.
\<close>

definition originate_check ::
  "'s repository \<Rightarrow> recurrence_service \<Rightarrow> 's \<Rightarrow> originate_input \<Rightarrow> (cobr + cobr_provider \<times> cobr \<times> endpoint_pricing) result" where
  "originate_check r svc s inp =
     (let tenantID = TrimSpace (oi_TenantID inp); idRec = TrimSpace (oi_IDRec inp); txID = TrimSpace (oi_TxID inp)
      in if tenantID = [] then Inl (NewValidationError ''tenant_id'' ''is required'')
         else if idRec = [] then Inl (NewValidationError ''id_rec'' ''is required'')
         else if txID = [] then Inl (NewValidationError ''tx_id'' ''is required'')
         else case rs_cobr svc of
                None \<Rightarrow> Inl (Errorf ''recurrence charge port not configured'' ErrUnavailable)
              | Some bank \<Rightarrow>
                  (case FindCobRByTxID r s tenantID txID of
                     Inr existing \<Rightarrow> Inr (Inl existing)
                   | Inl e \<Rightarrow>
                       if \<not> errors_Is e ErrNotFound then Inl (Errorf ''idempotency lookup'' e)
                       else bindE (approved_mandate r s tenantID idRec) (\<lambda>m.
                            bindE (RequireWithinAuthorizedValue (Some m) (oi_ValorCents inp)) (\<lambda>_.
                            bindE (resolvePriceOrFree r s tenantID CobRCreateEndpoint) (\<lambda>price.
                            bindE (NewCobR \<lparr>cp_TxID = txID, cp_IDRec = idRec, cp_TenantID = tenantID,
                                     cp_Vencimento = TrimSpace (oi_Vencimento inp),
                                     cp_ValorCents = oi_ValorCents inp\<rparr> (rs_builtAt svc)) (\<lambda>c.
                            Inr (Inr (bank, c, price))))))))"

definition cobr_request_of :: "originate_input \<Rightarrow> cobr \<Rightarrow> create_cobr_request" where
  "cobr_request_of inp c =
     \<lparr>cc_IDRec = TrimSpace (oi_IDRec inp), cc_TxID = TrimSpace (oi_TxID inp),
      cc_DataVencimento = cr_vencimento c, cc_AjusteDiaUtil = False, cc_ValorCents = cr_valorCents c,
      cc_Recebedor = \<lparr>cb_Conta = [], cb_TipoConta = []\<rparr>,
      cc_IdempotencyKey = TrimSpace (oi_IdempotencyKey inp)\<rparr>"

text \<open>The audit and ledger entries and the transaction that records them with the charge.\<close>

definition originate_record ::
  "'s repository \<Rightarrow> recurrence_service \<Rightarrow> 's \<Rightarrow> originate_input \<Rightarrow> cobr \<Rightarrow> endpoint_pricing \<Rightarrow> 's \<times> cobr result" where
  "originate_record r svc s inp c price =
     (let tenantID = TrimSpace (oi_TenantID inp); txID = TrimSpace (oi_TxID inp)
      in case bindE (NewCobROriginationEntry (rs_auditID svc) (oi_OperatorID inp) tenantID txID (rs_auditAt svc))
            (\<lambda>entry. bindE (NewLedgerEntry (rs_ledgerID svc) tenantID CobRCreateEndpoint txID
                (ep_priceCents price) (rs_ledgerAt svc) [WithAccount (oi_AccountID inp)])
              (\<lambda>le. Inr (entry, le))) of
           Inl e \<Rightarrow> (s, Inl e)
         | Inr (entry, le) \<Rightarrow>
             WithinTx r s
               (tx_write ''save cobr'' (\<lambda>s. SaveCobR r s c)
                 (tx_write ''append audit'' (\<lambda>s. AppendAudit r s entry)
                   (tx_write ''append ledger'' (\<lambda>s. AppendLedgerEntry r s le) (tx_return c)))))"

definition OriginateCobR ::
  "'s repository \<Rightarrow> recurrence_service \<Rightarrow> 's \<Rightarrow> originate_input \<Rightarrow> 's \<times> bank_call list \<times> cobr result" where
  "OriginateCobR r svc s inp =
     (case originate_check r svc s inp of
        Inl e \<Rightarrow> (s, [], Inl e)
      | Inr (Inl existing) \<Rightarrow> (s, [], Inr existing)
      | Inr (Inr (bank, c, price)) \<Rightarrow>
          let tenantID = TrimSpace (oi_TenantID inp); req = cobr_request_of inp c; call = CallCreateCobR tenantID req
          in case BankCreateCobR bank tenantID req of
               Inl e \<Rightarrow> (s, [call], Inl (Errorf ''bank create cobr'' e))
             | Inr _ \<Rightarrow> (case originate_record r svc s inp c price of (s', res) \<Rightarrow> (s', [call], res)))"

section \<open>The mandate journey\<close>

definition CreateLocRec :: "recurrence_service \<Rightarrow> string \<Rightarrow> string \<Rightarrow> loc_rec_result result" where
  "CreateLocRec svc tenantID idempotencyKey =
     (if TrimSpace tenantID = [] then Inl (NewValidationError ''tenant_id'' ''is required'')
      else case rs_locRec svc of
             None \<Rightarrow> Inl (Errorf ''recurrence location port not configured'' ErrUnavailable)
           | Some b \<Rightarrow> BankCreateLocRec b (TrimSpace tenantID) (TrimSpace idempotencyKey))"

record create_mandate_input =
  mi_TenantID :: string
  mi_AccountID :: string
  mi_OperatorID :: string
  mi_Contrato :: string
  mi_Objeto :: string
  mi_DevedorDoc :: string
  mi_DevedorNome :: string
  mi_DataInicial :: string
  mi_Periodicidade :: string
  mi_PoliticaRetentativa :: string
  mi_LocID :: int
  mi_JornadaTxID :: string
  mi_ValorRecCents :: int
  mi_IdempotencyKey :: string

definition toRecDevedor :: "devedor \<Rightarrow> rec_devedor" where
  "toRecDevedor d =
     (if length (dv_doc d) = 11 then \<lparr>rd_CPF = dv_doc d, rd_CNPJ = [], rd_Nome = dv_nome d\<rparr>
      else \<lparr>rd_CPF = [], rd_CNPJ = dv_doc d, rd_Nome = dv_nome d\<rparr>)"

definition bankIDOrDefault :: "rec_result \<Rightarrow> string" where
  "bankIDOrDefault res = BankIDC6"

text \<open>Everything before the bank is asked: the provider, the payer and the price to bill.\<close>

definition mandate_check ::
  "'s repository \<Rightarrow> recurrence_service \<Rightarrow> 's \<Rightarrow> create_mandate_input \<Rightarrow> (rec_provider \<times> devedor \<times> endpoint_pricing) result" where
  "mandate_check r svc s inp =
     (let tenantID = TrimSpace (mi_TenantID inp)
      in if tenantID = [] then Inl (NewValidationError ''tenant_id'' ''is required'')
         else case rs_rec svc of
                None \<Rightarrow> Inl (Errorf ''recurrence mandate port not configured'' ErrUnavailable)
              | Some bank \<Rightarrow>
                  if TrimSpace (mi_IdempotencyKey inp) = []
                  then Inl (NewValidationError ''idempotency_key'' ''idempotency key is required'')
                  else bindE (wrapE ''resolve tenant'' (FindTenantByID r s tenantID)) (\<lambda>t.
                    if \<not> tn_active t then Inl (NewValidationError ''tenant'' ''tenant is not active'')
                    else bindE (NewDevedor (mi_DevedorDoc inp) (mi_DevedorNome inp)) (\<lambda>dev.
                      if mi_ValorRecCents inp < 0
                      then Inl (NewValidationError ''valor_rec_cents'' ''must not be negative'')
                      else bindE (resolvePriceOrFree r s tenantID RecCreateEndpoint) (\<lambda>price.
                        Inr (bank, dev, price)))))"

definition rec_request_of :: "create_mandate_input \<Rightarrow> devedor \<Rightarrow> create_rec_request" where
  "rec_request_of inp dev =
     \<lparr>rq_Vinculo = \<lparr>rv_Contrato = TrimSpace (mi_Contrato inp), rv_Devedor = toRecDevedor dev,
        rv_Objeto = TrimSpace (mi_Objeto inp)\<rparr>,
      rq_Calendario = \<lparr>rk_DataInicial = TrimSpace (mi_DataInicial inp),
        rk_Periodicidade = TrimSpace (mi_Periodicidade inp)\<rparr>,
      rq_PoliticaRetentativa = TrimSpace (mi_PoliticaRetentativa inp), rq_LocID = mi_LocID inp,
      rq_JornadaTxID = TrimSpace (mi_JornadaTxID inp), rq_ValorRecCents = mi_ValorRecCents inp,
      rq_IdempotencyKey = TrimSpace (mi_IdempotencyKey inp)\<rparr>"

text \<open>The aggregate with its audit and ledger entries, and the transaction that records them.\<close>

definition mandate_record ::
  "'s repository \<Rightarrow> recurrence_service \<Rightarrow> 's \<Rightarrow> create_mandate_input \<Rightarrow> devedor \<Rightarrow> endpoint_pricing \<Rightarrow> rec_result
     \<Rightarrow> 's \<times> (rec \<times> rec_result) result" where
  "mandate_record r svc s inp dev price res =
     (let tenantID = TrimSpace (mi_TenantID inp)
      in case bindE (NewRec \<lparr>rp_IDRec = rr_IDRec res, rp_TenantID = tenantID, rp_BankID = bankIDOrDefault res,
              rp_Contrato = TrimSpace (mi_Contrato inp), rp_Devedor = dev,
              rp_DataInicial = TrimSpace (mi_DataInicial inp),
              rp_Periodicidade = RecPeriodicidade (TrimSpace (mi_Periodicidade inp)),
              rp_ValorCents = mi_ValorRecCents inp, rp_LocID = mi_LocID inp,
              rp_JornadaTxID = TrimSpace (mi_JornadaTxID inp)\<rparr> (rs_builtAt svc))
            (\<lambda>m. bindE (NewRecurrenceTransitionEntry (rs_auditID svc) (mi_OperatorID inp) tenantID (rc_idRec m)
                   (rec_status_string (rc_status m)) (rs_auditAt svc))
              (\<lambda>entry. bindE (NewLedgerEntry (rs_ledgerID svc) tenantID RecCreateEndpoint (rc_idRec m)
                   (ep_priceCents price) (rs_ledgerAt svc) [WithAccount (mi_AccountID inp)])
                (\<lambda>le. Inr (m, entry, le)))) of
           Inl e \<Rightarrow> (s, Inl e)
         | Inr (m, entry, le) \<Rightarrow>
             WithinTx r s
               (tx_write ''save rec'' (\<lambda>s. SaveRec r s m)
                 (tx_write ''append audit'' (\<lambda>s. AppendAudit r s entry)
                   (tx_write ''append ledger'' (\<lambda>s. AppendLedgerEntry r s le) (tx_return (m, res))))))"

definition CreateMandate ::
  "'s repository \<Rightarrow> recurrence_service \<Rightarrow> 's \<Rightarrow> create_mandate_input \<Rightarrow> 's \<times> bank_call list \<times> (rec \<times> rec_result) result" where
  "CreateMandate r svc s inp =
     (case mandate_check r svc s inp of
        Inl e \<Rightarrow> (s, [], Inl e)
      | Inr (bank, dev, price) \<Rightarrow>
          let tenantID = TrimSpace (mi_TenantID inp); req = rec_request_of inp dev; call = CallCreateRec tenantID req
          in case BankCreateRec bank tenantID req of
               Inl e \<Rightarrow> (s, [call], Inl (Errorf ''bank create rec'' e))
             | Inr res \<Rightarrow>
                 (case FindRecByID r s tenantID (rr_IDRec res) of
                    Inr existing \<Rightarrow> (s, [call], Inr (existing, res))
                  | Inl e \<Rightarrow>
                      if \<not> errors_Is e ErrNotFound then (s, [call], Inl (Errorf ''idempotency lookup'' e))
                      else case mandate_record r svc s inp dev price res of (s', out) \<Rightarrow> (s', [call], out)))"

definition mandate_ids :: "string \<Rightarrow> string \<Rightarrow> unit result" where
  "mandate_ids tenantID idRec =
     (if tenantID = [] then Inl (NewValidationError ''tenant_id'' ''is required'')
      else if idRec = [] then Inl (NewValidationError ''id_rec'' ''is required'')
      else Inr ())"

definition charge_ids :: "string \<Rightarrow> string \<Rightarrow> unit result" where
  "charge_ids tenantID txID =
     (if tenantID = [] then Inl (NewValidationError ''tenant_id'' ''is required'')
      else if txID = [] then Inl (NewValidationError ''tx_id'' ''is required'')
      else Inr ())"

definition port :: "string \<Rightarrow> 'p option \<Rightarrow> 'p result" where
  "port msg p = (case p of None \<Rightarrow> Inl (Errorf msg ErrUnavailable) | Some b \<Rightarrow> Inr b)"

definition GetMandate :: "recurrence_service \<Rightarrow> string \<Rightarrow> string \<Rightarrow> rec_result result" where
  "GetMandate svc tenantID idRec =
     (let tenantID = TrimSpace tenantID; idRec = TrimSpace idRec
      in bindE (mandate_ids tenantID idRec) (\<lambda>_.
         bindE (port ''recurrence mandate port not configured'' (rs_rec svc)) (\<lambda>b. BankGetRec b tenantID idRec)))"

definition GetMandateQR :: "'s repository \<Rightarrow> recurrence_service \<Rightarrow> 's \<Rightarrow> string \<Rightarrow> string \<Rightarrow> string \<Rightarrow> rec_result result" where
  "GetMandateQR r svc s tenantID idRec txID =
     (let tenantID = TrimSpace tenantID; idRec = TrimSpace idRec; txID = TrimSpace txID
      in bindE (mandate_ids tenantID idRec) (\<lambda>_.
         bindE (port ''recurrence mandate port not configured'' (rs_rec svc)) (\<lambda>b.
         bindE (if txID \<noteq> [] then Inr txID
                else case FindRecByID r s tenantID idRec of
                       Inr m \<Rightarrow> Inr (rc_jornadaTxID m)
                     | Inl e \<Rightarrow> if errors_Is e ErrNotFound then Inr txID else Inl (Errorf ''load mandate'' e))
           (\<lambda>txID. BankGetRecForQR b tenantID idRec txID))))"

definition GetLocRec :: "recurrence_service \<Rightarrow> string \<Rightarrow> int \<Rightarrow> loc_rec_result result" where
  "GetLocRec svc tenantID lid =
     (if TrimSpace tenantID = [] then Inl (NewValidationError ''tenant_id'' ''is required'')
      else bindE (port ''recurrence location port not configured'' (rs_locRec svc))
             (\<lambda>b. BankGetLocRec b (TrimSpace tenantID) lid))"

definition UnlinkLocRec :: "recurrence_service \<Rightarrow> string \<Rightarrow> int \<Rightarrow> loc_rec_result result" where
  "UnlinkLocRec svc tenantID lid =
     (if TrimSpace tenantID = [] then Inl (NewValidationError ''tenant_id'' ''is required'')
      else bindE (port ''recurrence location port not configured'' (rs_locRec svc))
             (\<lambda>b. BankUnlinkLocRec b (TrimSpace tenantID) lid))"

text \<open>The transaction of a revocation, after the bank has confirmed it.\<close>

definition cancel_mandate_tx ::
  "'s repository \<Rightarrow> recurrence_service \<Rightarrow> string \<Rightarrow> string \<Rightarrow> string \<Rightarrow> ('s, unit) tx" where
  "cancel_mandate_tx r svc operatorID tenantID idRec =
     tx_read (\<lambda>s. FindRecByID r s tenantID idRec) (\<lambda>found.
       case found of
         Inl e \<Rightarrow> if errors_Is e ErrNotFound then tx_return () else tx_fail (Errorf ''load mandate'' e)
       | Inr m \<Rightarrow>
           if rc_status m = RecCancelada then tx_return ()
           else case RecTransition m RecCancelada (rs_builtAt svc) of
                  Inl e \<Rightarrow> tx_fail e
                | Inr m' \<Rightarrow>
                    tx_write ''save rec'' (\<lambda>s. SaveRec r s m')
                      (case NewRecurrenceTransitionEntry (rs_auditID svc) operatorID tenantID idRec
                              (rec_status_string RecCancelada) (rs_auditAt svc) of
                         Inl e \<Rightarrow> tx_fail e
                       | Inr entry \<Rightarrow> tx_write ''append audit'' (\<lambda>s. AppendAudit r s entry) (tx_return ())))"

definition CancelMandate ::
  "'s repository \<Rightarrow> recurrence_service \<Rightarrow> 's \<Rightarrow> string \<Rightarrow> string \<Rightarrow> string \<Rightarrow> 's \<times> bank_call list \<times> rec_result result" where
  "CancelMandate r svc s tenantID operatorID idRec =
     (let tenantID = TrimSpace tenantID; idRec = TrimSpace idRec
      in case bindE (mandate_ids tenantID idRec) (\<lambda>_. port ''recurrence mandate port not configured'' (rs_rec svc)) of
           Inl e \<Rightarrow> (s, [], Inl e)
         | Inr b \<Rightarrow>
             (case BankCancelRec b tenantID idRec of
                Inl e \<Rightarrow> (s, [CallCancelRec tenantID idRec], Inl (Errorf ''bank cancel rec'' e))
              | Inr res \<Rightarrow>
                  (case WithinTx r s (cancel_mandate_tx r svc operatorID tenantID idRec) of
                     (s', Inl e) \<Rightarrow> (s', [CallCancelRec tenantID idRec], Inl e)
                   | (s', Inr _) \<Rightarrow> (s', [CallCancelRec tenantID idRec], Inr res))))"

section \<open>Activation requests\<close>

record request_confirmation_input =
  ri_TenantID :: string
  ri_IDRec :: string
  ri_CPF :: string
  ri_CNPJ :: string
  ri_Agencia :: string
  ri_Conta :: string
  ri_ISPBParticipante :: string
  ri_ExpiraEm :: gotime
  ri_IdempotencyKey :: string

definition solicRecMaxExpiry :: int where
  "solicRecMaxExpiry = 30 * day_ns"

definition RequestConfirmation :: "recurrence_service \<Rightarrow> request_confirmation_input \<Rightarrow> solic_rec_result result" where
  "RequestConfirmation svc inp =
     (let tenantID = TrimSpace (ri_TenantID inp); idRec = TrimSpace (ri_IDRec inp); now = rs_builtAt svc
      in bindE (mandate_ids tenantID idRec) (\<lambda>_.
         bindE (port ''recurrence activation port not configured'' (rs_solicRec svc)) (\<lambda>b.
           if IsZeroTime (ri_ExpiraEm inp) \<or> \<not> After (ri_ExpiraEm inp) now
           then Inl (NewValidationError ''expira_em'' ''must be in the future'')
           else if SubTime (ri_ExpiraEm inp) now \<ge> solicRecMaxExpiry
           then Inl (NewValidationError ''expira_em'' ''must be less than 30 days ahead'')
           else BankCreateSolicRec b tenantID
             \<lparr>sq_IDRec = idRec,
              sq_Destinatario = \<lparr>sd_CPF = TrimSpace (ri_CPF inp), sd_CNPJ = TrimSpace (ri_CNPJ inp),
                sd_Agencia = TrimSpace (ri_Agencia inp), sd_Conta = TrimSpace (ri_Conta inp),
                sd_ISPBParticipante = TrimSpace (ri_ISPBParticipante inp)\<rparr>,
              sq_ExpiraEm = ri_ExpiraEm inp, sq_IdempotencyKey = TrimSpace (ri_IdempotencyKey inp)\<rparr>)))"

definition GetConfirmation :: "recurrence_service \<Rightarrow> string \<Rightarrow> string \<Rightarrow> solic_rec_result result" where
  "GetConfirmation svc tenantID idSolicRec =
     (let tenantID = TrimSpace tenantID; idSolicRec = TrimSpace idSolicRec
      in if tenantID = [] then Inl (NewValidationError ''tenant_id'' ''is required'')
         else if idSolicRec = [] then Inl (NewValidationError ''id_solic_rec'' ''is required'')
         else bindE (port ''recurrence activation port not configured'' (rs_solicRec svc))
                (\<lambda>b. BankGetSolicRec b tenantID idSolicRec))"

section \<open>Reads and amendments of a charge\<close>

definition GetCobR :: "recurrence_service \<Rightarrow> string \<Rightarrow> string \<Rightarrow> cobr_result result" where
  "GetCobR svc tenantID txID =
     (let tenantID = TrimSpace tenantID; txID = TrimSpace txID
      in bindE (charge_ids tenantID txID) (\<lambda>_.
         bindE (port ''recurrence charge port not configured'' (rs_cobr svc)) (\<lambda>b. BankGetCobR b tenantID txID)))"

definition cancel_cobr_tx ::
  "'s repository \<Rightarrow> recurrence_service \<Rightarrow> string \<Rightarrow> string \<Rightarrow> string \<Rightarrow> ('s, unit) tx" where
  "cancel_cobr_tx r svc operatorID tenantID txID =
     tx_read (\<lambda>s. FindCobRByTxID r s tenantID txID) (\<lambda>found.
       case found of
         Inl e \<Rightarrow> if errors_Is e ErrNotFound then tx_return () else tx_fail (Errorf ''reload recurring charge'' e)
       | Inr c \<Rightarrow>
           if cr_status c = CobRCancelada then tx_return ()
           else case CobRTransition c CobRCancelada (rs_builtAt svc) of
                  Inl _ \<Rightarrow> tx_return ()
                | Inr c' \<Rightarrow>
                    tx_write ''save recurring charge'' (\<lambda>s. SaveCobR r s c')
                      (case NewCobRCancellationEntry (rs_auditID svc) operatorID tenantID txID (rs_auditAt svc) of
                         Inl e \<Rightarrow> tx_fail e
                       | Inr entry \<Rightarrow> tx_write ''append audit'' (\<lambda>s. AppendAudit r s entry) (tx_return ())))"

definition CancelCobR ::
  "'s repository \<Rightarrow> recurrence_service \<Rightarrow> 's \<Rightarrow> string \<Rightarrow> string \<Rightarrow> string \<Rightarrow> 's \<times> bank_call list \<times> cobr_result result" where
  "CancelCobR r svc s tenantID operatorID txID =
     (let tenantID = TrimSpace tenantID; txID = TrimSpace txID
      in case bindE (charge_ids tenantID txID) (\<lambda>_.
              bindE (port ''recurrence charge port not configured'' (rs_cobr svc)) (\<lambda>b.
                case FindCobRByTxID r s tenantID txID of
                  Inr _ \<Rightarrow> Inr b
                | Inl e \<Rightarrow> if errors_Is e ErrNotFound then Inl ErrNotFound else Inl (Errorf ''load recurring charge'' e))) of
           Inl e \<Rightarrow> (s, [], Inl e)
         | Inr b \<Rightarrow>
             (case BankCancelCobR b tenantID txID of
                Inl e \<Rightarrow> (s, [CallCancelCobR tenantID txID], Inl (Errorf ''bank cancel cobr'' e))
              | Inr res \<Rightarrow>
                  (case WithinTx r s (cancel_cobr_tx r svc operatorID tenantID txID) of
                     (s', Inl e) \<Rightarrow> (s', [CallCancelCobR tenantID txID], Inl e)
                   | (s', Inr _) \<Rightarrow> (s', [CallCancelCobR tenantID txID], Inr res))))"

definition RetryCobR ::
  "'s repository \<Rightarrow> recurrence_service \<Rightarrow> 's \<Rightarrow> string \<Rightarrow> string \<Rightarrow> string \<Rightarrow> string \<Rightarrow> bank_call list \<times> cobr_result result" where
  "RetryCobR r svc s tenantID idRec txID dataRetentativa =
     (let tenantID = TrimSpace tenantID; idRec = TrimSpace idRec; txID = TrimSpace txID;
          dataRetentativa = TrimSpace dataRetentativa
      in if tenantID = [] then ([], Inl (NewValidationError ''tenant_id'' ''is required''))
         else if idRec = [] then ([], Inl (NewValidationError ''id_rec'' ''is required''))
         else if txID = [] then ([], Inl (NewValidationError ''tx_id'' ''is required''))
         else if dataRetentativa = [] then ([], Inl (NewValidationError ''data_retentativa'' ''is required''))
         else case bindE (port ''recurrence charge port not configured'' (rs_cobr svc))
                (\<lambda>b. bindE (approved_mandate r s tenantID idRec) (\<lambda>_. Inr b)) of
                Inl e \<Rightarrow> ([], Inl e)
              | Inr b \<Rightarrow> ([CallRetryCobR tenantID txID dataRetentativa], BankRetryCobR b tenantID txID dataRetentativa))"

section \<open>Lemmas\<close>

text \<open>A charge of this value may be originated: the stored mandate is approved and caps it.\<close>

definition chargeable :: "view \<Rightarrow> string \<Rightarrow> string \<Rightarrow> int \<Rightarrow> bool" where
  "chargeable v t i cents \<longleftrightarrow>
     (\<exists>m. v_recs v (t, i) = Some m \<and> rc_status m = RecAprovada \<and>
        (rc_valorCents m > 0 \<longrightarrow> cents \<le> rc_valorCents m))"

lemma RequireApprovedMandate_Inr:
  "RequireApprovedMandate (Some m) t i = Inr x \<longleftrightarrow> rc_tenantID m = t \<and> rc_idRec m = i \<and> rc_status m = RecAprovada"
  by (auto simp: RequireApprovedMandate_def)

lemma RequireWithinAuthorizedValue_Inr:
  "RequireWithinAuthorizedValue (Some m) c = Inr x \<longleftrightarrow> (rc_valorCents m > 0 \<longrightarrow> c \<le> rc_valorCents m)"
  by (auto simp: RequireWithinAuthorizedValue_def)

lemma NewCobR_Inr:
  assumes "NewCobR p at = Inr c"
  shows "cr_txID c = TrimSpace (cp_TxID p)" "cr_idRec c = TrimSpace (cp_IDRec p)"
    "cr_tenantID c = TrimSpace (cp_TenantID p)" "cr_valorCents c = cp_ValorCents p" "0 < cr_valorCents c"
    "cr_status c = CobRCriada"
  using assms by (auto simp: NewCobR_def Let_def split: if_splits)

lemma NewRec_Inr:
  assumes "NewRec p at = Inr m"
  shows "rc_idRec m = TrimSpace (rp_IDRec p)" "rc_tenantID m = TrimSpace (rp_TenantID p)" "rc_status m = RecCriada"
    "rc_valorCents m = rp_ValorCents p"
  using assms by (auto simp: NewRec_def Let_def split: if_splits)

lemma NewLedgerEntry_refs:
  assumes "NewLedgerEntry eid t e ref c at [WithAccount a] = Inr le"
  shows "le_tenantID le = TrimSpace t" "le_reference le = TrimSpace ref" "le_endpoint le = TrimSpace e"
    "le_priceCents le = c"
  using assms by (auto simp: NewLedgerEntry_account_Inr_iff)

context store_contract
begin

text \<open>Saving something together with its audit entry, and with its bill.\<close>

lemma save_audit:
  assumes "good s" and f: "\<And>s1. f s = Inr s1 \<Longrightarrow> good s1 \<and> vw s1 = v1"
    and run: "WithinTx r s (tx_write a f (tx_write b (\<lambda>s. AppendAudit r s entry) (tx_return x))) = (s', res)"
  shows "good s' \<and> (res = Inr x \<and> vw s' = v1\<lparr>v_audit := v_audit v1 @ [entry]\<rparr> \<or> (\<exists>e. res = Inl e) \<and> vw s' = vw s)"
proof (cases "f s")
  case (Inl e)
  with run rollback [OF assms(1,1)] show ?thesis by (auto simp: WithinTx_def tx_defs)
next
  case (Inr s1)
  note one = f [OF Inr]
  show ?thesis
  proof (cases "AppendAudit r s1 entry")
    case (Inl e)
    with run \<open>f s = Inr s1\<close> one rollback [OF assms(1), of s1] show ?thesis by (auto simp: WithinTx_def tx_defs)
  next
    case (Inr s2)
    with run \<open>f s = Inr s1\<close> one append_audit [of s1 entry s2] show ?thesis by (auto simp: WithinTx_def tx_defs)
  qed
qed

lemma save_audit_bill:
  assumes "good s" and f: "\<And>s1. f s = Inr s1 \<Longrightarrow> good s1 \<and> vw s1 = v1"
    and run: "WithinTx r s (tx_write a f (tx_write b (\<lambda>s. AppendAudit r s entry)
        (tx_write d (\<lambda>s. AppendLedgerEntry r s le) (tx_return x)))) = (s', res)"
  shows "good s' \<and> (res = Inr x \<and> vw s' = v1\<lparr>v_audit := v_audit v1 @ [entry], v_ledger := v_ledger v1 @ [le]\<rparr> \<or>
    (\<exists>e. res = Inl e) \<and> vw s' = vw s)"
proof (cases "f s")
  case (Inl e)
  with run rollback [OF assms(1,1)] show ?thesis by (auto simp: WithinTx_def tx_defs)
next
  case (Inr s1)
  note one = f [OF Inr] and fs = Inr
  show ?thesis
  proof (cases "AppendAudit r s1 entry")
    case (Inl e)
    with run fs one rollback [OF assms(1), of s1] show ?thesis by (auto simp: WithinTx_def tx_defs)
  next
    case (Inr s2)
    note two = append_audit [OF conjunct1 [OF one] Inr] and aud = Inr
    show ?thesis
    proof (cases "AppendLedgerEntry r s2 le")
      case (Inl e)
      with run fs aud two rollback [OF assms(1), of s2] show ?thesis by (auto simp: WithinTx_def tx_defs)
    next
      case (Inr s3)
      with run fs aud one two append_ledger [of s2 le s3] show ?thesis by (auto simp: WithinTx_def tx_defs)
    qed
  qed
qed

lemma approved_mandate_Inr:
  assumes "good s" "clean t" "approved_mandate r s t i = Inr m"
  shows "v_recs (vw s) (t, i) = Some m" "rc_status m = RecAprovada"
  using assms find_rec [OF assms(1,2)]
  by (auto simp: approved_mandate_def bindE_Inr_iff RequireApprovedMandate_Inr split: sum.splits if_splits)

lemma originate_check_new:
  assumes "good s" "clean (TrimSpace (oi_TenantID inp))"
    and "originate_check r svc s inp = Inr (Inr (bank, c, price))"
  shows "v_cobrs (vw s) (TrimSpace (oi_TenantID inp), TrimSpace (oi_TxID inp)) = None"
    "chargeable (vw s) (TrimSpace (oi_TenantID inp)) (TrimSpace (oi_IDRec inp)) (cr_valorCents c)"
    "0 < cr_valorCents c" "cr_tenantID c = TrimSpace (oi_TenantID inp)" "cr_txID c = TrimSpace (oi_TxID inp)"
    "cr_idRec c = TrimSpace (oi_IDRec inp)" "cr_status c = CobRCriada"
proof -
  let ?t = "TrimSpace (oi_TenantID inp)" and ?i = "TrimSpace (oi_IDRec inp)" and ?x = "TrimSpace (oi_TxID inp)"
  obtain e m where look: "FindCobRByTxID r s ?t ?x = Inl e" "errors_Is e ErrNotFound"
    and m: "approved_mandate r s ?t ?i = Inr m"
    and cap: "RequireWithinAuthorizedValue (Some m) (oi_ValorCents inp) = Inr ()"
    and c: "NewCobR \<lparr>cp_TxID = ?x, cp_IDRec = ?i, cp_TenantID = ?t,
        cp_Vencimento = TrimSpace (oi_Vencimento inp), cp_ValorCents = oi_ValorCents inp\<rparr> (rs_builtAt svc) = Inr c"
    using assms(3)
    by (auto simp: originate_check_def Let_def bindE_Inr_iff split: if_splits option.splits sum.splits)
  show "v_cobrs (vw s) (?t, ?x) = None" by (rule find_cobr_none [OF assms(1,2) look])
  show "chargeable (vw s) ?t ?i (cr_valorCents c)"
    using approved_mandate_Inr [OF assms(1,2) m] cap NewCobR_Inr(4) [OF c]
    by (auto simp: chargeable_def RequireWithinAuthorizedValue_Inr)
  show "0 < cr_valorCents c" "cr_tenantID c = ?t" "cr_txID c = ?x" "cr_idRec c = ?i" "cr_status c = CobRCriada"
    using NewCobR_Inr [OF c] by simp_all
qed

text \<open>The recording transaction, for a charge that passed the checks.\<close>

lemma originate_record_cases:
  assumes "good s" "clean (TrimSpace (oi_TenantID inp))"
    and c: "cr_tenantID c = TrimSpace (oi_TenantID inp)" "cr_txID c = TrimSpace (oi_TxID inp)"
    and run: "originate_record r svc s inp c price = (s', res)"
  obtains (failed) e where "good s'" "res = Inl e" "vw s' = vw s"
  | (recorded) entry le where "good s'" "res = Inr c"
      "vw s' = (vw s)\<lparr>v_cobrs := (v_cobrs (vw s))((cr_tenantID c, cr_txID c) \<mapsto> c),
         v_audit := v_audit (vw s) @ [entry], v_ledger := v_ledger (vw s) @ [le]\<rparr>"
      "le_tenantID le = cr_tenantID c" "le_reference le = cr_txID c"
      "au_action entry = ActionCobRCreated" "au_tenantID entry = cr_tenantID c" "au_txID entry = cr_txID c"
proof -
  have f: "good s1 \<and> vw s1 = (vw s)\<lparr>v_cobrs := (v_cobrs (vw s))((cr_tenantID c, cr_txID c) \<mapsto> c)\<rparr>"
    if "SaveCobR r s c = Inr s1" for s1
    using save_cobr [OF assms(1) _ that] assms(2) c by simp
  show thesis
  proof (cases "bindE (NewCobROriginationEntry (rs_auditID svc) (oi_OperatorID inp) (TrimSpace (oi_TenantID inp))
            (TrimSpace (oi_TxID inp)) (rs_auditAt svc))
          (\<lambda>entry. bindE (NewLedgerEntry (rs_ledgerID svc) (TrimSpace (oi_TenantID inp)) CobRCreateEndpoint
              (TrimSpace (oi_TxID inp)) (ep_priceCents price) (rs_ledgerAt svc) [WithAccount (oi_AccountID inp)])
            (\<lambda>le. Inr (entry, le)))")
    case (Inl e)
    with run assms(1) failed show thesis by (auto simp: originate_record_def Let_def)
  next
    case (Inr y)
    obtain entry le where y: "y = (entry, le)" by fastforce
    have E: "NewCobROriginationEntry (rs_auditID svc) (oi_OperatorID inp) (TrimSpace (oi_TenantID inp))
            (TrimSpace (oi_TxID inp)) (rs_auditAt svc) = Inr entry"
      and L: "NewLedgerEntry (rs_ledgerID svc) (TrimSpace (oi_TenantID inp)) CobRCreateEndpoint
              (TrimSpace (oi_TxID inp)) (ep_priceCents price) (rs_ledgerAt svc) [WithAccount (oi_AccountID inp)] = Inr le"
      using Inr y by (auto simp: bindE_Inr_iff)
    from run Inr y have "WithinTx r s (tx_write ''save cobr'' (\<lambda>s. SaveCobR r s c)
          (tx_write ''append audit'' (\<lambda>s. AppendAudit r s entry)
            (tx_write ''append ledger'' (\<lambda>s. AppendLedgerEntry r s le) (tx_return c)))) = (s', res)"
      by (simp add: originate_record_def Let_def)
    from save_audit_bill [OF assms(1) f this]
    have "good s'" and o: "res = Inr c \<and> vw s' = (vw s)\<lparr>v_cobrs := (v_cobrs (vw s))((cr_tenantID c, cr_txID c) \<mapsto> c),
        v_audit := v_audit (vw s) @ [entry], v_ledger := v_ledger (vw s) @ [le]\<rparr> \<or> (\<exists>e. res = Inl e) \<and> vw s' = vw s"
      by simp_all
    have en: "au_action entry = ActionCobRCreated" "au_tenantID entry = cr_tenantID c" "au_txID entry = cr_txID c"
      using E c by (auto simp: NewCobROriginationEntry_def Let_def zero_entry_def split: if_splits)
    show thesis
      using o \<open>good s'\<close> failed recorded [of le entry] en NewLedgerEntry_refs [OF L] c by auto
  qed
qed

lemma originate_cases:
  assumes "good s" "clean (TrimSpace (oi_TenantID inp))" and run: "OriginateCobR r svc s inp = (s', calls, res)"
  obtains (refused) e where "s' = s" "calls = []" "res = Inl e"
  | (existing) c where "s' = s" "calls = []" "res = Inr c"
      "v_cobrs (vw s) (TrimSpace (oi_TenantID inp), TrimSpace (oi_TxID inp)) = Some c"
  | (failed) e c bank price where "good s'" "vw s' = vw s" "res = Inl e"
      "calls = [CallCreateCobR (TrimSpace (oi_TenantID inp)) (cobr_request_of inp c)]"
      "originate_check r svc s inp = Inr (Inr (bank, c, price))"
  | (recorded) c bank price entry le where "good s'" "res = Inr c"
      "calls = [CallCreateCobR (TrimSpace (oi_TenantID inp)) (cobr_request_of inp c)]"
      "originate_check r svc s inp = Inr (Inr (bank, c, price))"
      "vw s' = (vw s)\<lparr>v_cobrs := (v_cobrs (vw s))((cr_tenantID c, cr_txID c) \<mapsto> c),
         v_audit := v_audit (vw s) @ [entry], v_ledger := v_ledger (vw s) @ [le]\<rparr>"
      "le_tenantID le = cr_tenantID c" "le_reference le = cr_txID c"
      "au_action entry = ActionCobRCreated" "au_tenantID entry = cr_tenantID c" "au_txID entry = cr_txID c"
proof (cases "originate_check r svc s inp")
  case (Inl e)
  with run refused show thesis by (auto simp: OriginateCobR_def)
next
  case (Inr y)
  note check = Inr
  show thesis
  proof (cases y)
    case (Inl c)
    with check assms(2) find_cobr [OF assms(1,2)] run existing show thesis
      by (auto simp: OriginateCobR_def originate_check_def Let_def bindE_def split: if_splits option.splits sum.splits)
  next
    case (Inr z)
    obtain bank c price where z: "z = (bank, c, price)" by (metis surj_pair)
    with check Inr have ck: "originate_check r svc s inp = Inr (Inr (bank, c, price))" by simp
    note new = originate_check_new [OF assms(1,2) ck]
    show thesis
    proof (cases "BankCreateCobR bank (TrimSpace (oi_TenantID inp)) (cobr_request_of inp c)")
      case (Inl e)
      with ck run assms(1) failed [of _ c bank price] show thesis by (auto simp: OriginateCobR_def Let_def)
    next
      case (Inr b)
      with ck run have "originate_record r svc s inp c price = (s', res)"
        and calls: "calls = [CallCreateCobR (TrimSpace (oi_TenantID inp)) (cobr_request_of inp c)]"
        by (auto simp: OriginateCobR_def Let_def split: prod.splits)
      from assms(1,2) new(4,5) this(1) show thesis
      proof (cases rule: originate_record_cases)
        case (failed e)
        then show thesis using that(3) calls ck by blast
      next
        case (recorded entry le)
        then show thesis using that(4) calls ck by blast
      qed
    qed
  qed
qed

lemma cobr_request_simps [simp]:
  "cc_TxID (cobr_request_of inp c) = TrimSpace (oi_TxID inp)" "cc_IDRec (cobr_request_of inp c) = TrimSpace (oi_IDRec inp)"
  "cc_ValorCents (cobr_request_of inp c) = cr_valorCents c"
  by (simp_all add: cobr_request_of_def)

lemma mandate_record_cases:
  assumes "good s" "clean (TrimSpace (mi_TenantID inp))" and run: "mandate_record r svc s inp dev price bres = (s', res)"
  obtains (failed) e where "good s'" "res = Inl e" "vw s' = vw s"
  | (recorded) m entry le where "good s'" "res = Inr (m, bres)" "rc_tenantID m = TrimSpace (mi_TenantID inp)"
      "rc_idRec m = TrimSpace (rr_IDRec bres)" "rc_status m = RecCriada" "rc_valorCents m = mi_ValorRecCents inp"
      "vw s' = (vw s)\<lparr>v_recs := (v_recs (vw s))((rc_tenantID m, rc_idRec m) \<mapsto> m),
         v_audit := v_audit (vw s) @ [entry], v_ledger := v_ledger (vw s) @ [le]\<rparr>"
proof -
  define p where "p = \<lparr>rp_IDRec = rr_IDRec bres, rp_TenantID = TrimSpace (mi_TenantID inp),
      rp_BankID = bankIDOrDefault bres, rp_Contrato = TrimSpace (mi_Contrato inp), rp_Devedor = dev,
      rp_DataInicial = TrimSpace (mi_DataInicial inp),
      rp_Periodicidade = RecPeriodicidade (TrimSpace (mi_Periodicidade inp)),
      rp_ValorCents = mi_ValorRecCents inp, rp_LocID = mi_LocID inp,
      rp_JornadaTxID = TrimSpace (mi_JornadaTxID inp)\<rparr>"
  define built where "built = bindE (NewRec p (rs_builtAt svc))
      (\<lambda>m. bindE (NewRecurrenceTransitionEntry (rs_auditID svc) (mi_OperatorID inp) (TrimSpace (mi_TenantID inp)) (rc_idRec m)
             (rec_status_string (rc_status m)) (rs_auditAt svc))
        (\<lambda>entry. bindE (NewLedgerEntry (rs_ledgerID svc) (TrimSpace (mi_TenantID inp)) RecCreateEndpoint (rc_idRec m)
             (ep_priceCents price) (rs_ledgerAt svc) [WithAccount (mi_AccountID inp)])
          (\<lambda>le. Inr (m, entry, le))))"
  have def: "mandate_record r svc s inp dev price bres =
      (case built of Inl e \<Rightarrow> (s, Inl e) | Inr (m, entry, le) \<Rightarrow>
         WithinTx r s
               (tx_write ''save rec'' (\<lambda>s. SaveRec r s m)
                 (tx_write ''append audit'' (\<lambda>s. AppendAudit r s entry)
                   (tx_write ''append ledger'' (\<lambda>s. AppendLedgerEntry r s le) (tx_return (m, bres))))))"
    by (simp add: mandate_record_def Let_def built_def p_def)
  show thesis
  proof (cases built)
    case (Inl e)
    with run def assms(1) failed show thesis by auto
  next
    case (Inr y)
    obtain m entry le where y: "y = (m, entry, le)" by (metis surj_pair)
    then have "NewRec p (rs_builtAt svc) = Inr m" using Inr by (auto simp: built_def bindE_Inr_iff)
    note m = NewRec_Inr [OF this]
    then have k: "rc_tenantID m = TrimSpace (mi_TenantID inp)" "rc_idRec m = TrimSpace (rr_IDRec bres)"
      "rc_valorCents m = mi_ValorRecCents inp" by (simp_all add: p_def)
    have f: "good s1 \<and> vw s1 = (vw s)\<lparr>v_recs := (v_recs (vw s))((rc_tenantID m, rc_idRec m) \<mapsto> m)\<rparr>"
      if "SaveRec r s m = Inr s1" for s1
      using save_rec [OF assms(1) _ that] assms(2) k by simp
    from run def Inr y have "WithinTx r s
               (tx_write ''save rec'' (\<lambda>s. SaveRec r s m)
                 (tx_write ''append audit'' (\<lambda>s. AppendAudit r s entry)
                   (tx_write ''append ledger'' (\<lambda>s. AppendLedgerEntry r s le) (tx_return (m, bres))))) = (s', res)" by simp
    from save_audit_bill [OF assms(1) f this] failed recorded [of m le entry] k m(3) show thesis by auto
  qed
qed

lemma CreateMandate_cases:
  assumes "good s" "clean (TrimSpace (mi_TenantID inp))" and run: "CreateMandate r svc s inp = (s', calls, res)"
  obtains (same) "good s'" "vw s' = vw s"
  | (created) bank dev price bres m entry le where "good s'" "mandate_check r svc s inp = Inr (bank, dev, price)"
      "BankCreateRec bank (TrimSpace (mi_TenantID inp)) (rec_request_of inp dev) = Inr bres"
      "v_recs (vw s) (TrimSpace (mi_TenantID inp), rr_IDRec bres) = None"
      "res = Inr (m, bres)" "rc_tenantID m = TrimSpace (mi_TenantID inp)" "rc_idRec m = TrimSpace (rr_IDRec bres)"
      "rc_status m = RecCriada" "rc_valorCents m = mi_ValorRecCents inp"
      "vw s' = (vw s)\<lparr>v_recs := (v_recs (vw s))((rc_tenantID m, rc_idRec m) \<mapsto> m),
         v_audit := v_audit (vw s) @ [entry], v_ledger := v_ledger (vw s) @ [le]\<rparr>"
proof (cases "mandate_check r svc s inp")
  case (Inl e)
  with run assms(1) same show thesis by (auto simp: CreateMandate_def)
next
  case (Inr y)
  obtain bank dev price where y: "y = (bank, dev, price)" by (metis surj_pair)
  note ck = Inr [unfolded y]
  show thesis
  proof (cases "BankCreateRec bank (TrimSpace (mi_TenantID inp)) (rec_request_of inp dev)")
    case (Inl e)
    with run ck assms(1) same show thesis by (auto simp: CreateMandate_def Let_def)
  next
    case (Inr bres)
    note br = Inr
    show thesis
    proof (cases "FindRecByID r s (TrimSpace (mi_TenantID inp)) (rr_IDRec bres)")
      case (Inr m)
      with run ck br assms(1) same show thesis by (auto simp: CreateMandate_def Let_def)
    next
      case (Inl e)
      show thesis
      proof (cases "errors_Is e ErrNotFound")
        case False
        with run ck br Inl assms(1) same show thesis by (auto simp: CreateMandate_def Let_def)
      next
        case True
        have none: "v_recs (vw s) (TrimSpace (mi_TenantID inp), rr_IDRec bres) = None"
          by (rule find_rec_none [OF assms(1,2) Inl True])
        from run ck br Inl True have "mandate_record r svc s inp dev price bres = (s', res)"
          by (auto simp: CreateMandate_def Let_def split: prod.splits)
        from assms(1,2) this show thesis
          by (cases rule: mandate_record_cases) (use same created ck br none in blast)+
      qed
    qed
  qed
qed

text \<open>A save followed by the construction and the append of an audit entry.\<close>

lemma save_build_audit:
  assumes "good s" and f: "\<And>s1. f s = Inr s1 \<Longrightarrow> good s1 \<and> vw s1 = v1"
    and run: "WithinTx r s (tx_write a f (case en of Inl e \<Rightarrow> tx_fail e
        | Inr entry \<Rightarrow> tx_write b (\<lambda>s. AppendAudit r s entry) (tx_return ()))) = (s', res)"
  shows "good s' \<and> ((\<exists>entry. en = Inr entry \<and> res = Inr () \<and> vw s' = v1\<lparr>v_audit := v_audit v1 @ [entry]\<rparr>) \<or>
    (\<exists>e. res = Inl e) \<and> vw s' = vw s)"
proof (cases en)
  case (Inl e)
  show ?thesis
  proof (cases "f s")
    case (Inl e2)
    with run rollback [OF assms(1,1)] show ?thesis by (auto simp: WithinTx_def tx_defs)
  next
    case (Inr s1)
    with run \<open>en = Inl e\<close> f [OF Inr] rollback [OF assms(1), of s1] show ?thesis by (auto simp: WithinTx_def tx_defs)
  qed
next
  case (Inr entry)
  with run have "WithinTx r s (tx_write a f (tx_write b (\<lambda>s. AppendAudit r s entry) (tx_return ()))) = (s', res)" by simp
  from save_audit [OF assms(1) f this] Inr show ?thesis by auto
qed

lemma CancelMandate_cases:
  assumes "good s" "clean (TrimSpace tenantID)" and run: "CancelMandate r svc s tenantID operatorID idRec = (s', calls, res)"
  obtains (same) "good s'" "vw s' = vw s"
  | (cancelled) m m' entry where "good s'" "v_recs (vw s) (TrimSpace tenantID, TrimSpace idRec) = Some m"
      "rc_status m \<noteq> RecCancelada" "RecTransition m RecCancelada (rs_builtAt svc) = Inr m'"
      "vw s' = (vw s)\<lparr>v_recs := (v_recs (vw s))((TrimSpace tenantID, TrimSpace idRec) \<mapsto> m'), v_audit := v_audit (vw s) @ [entry]\<rparr>"
proof (cases "bindE (mandate_ids (TrimSpace tenantID) (TrimSpace idRec))
    (\<lambda>_. port ''recurrence mandate port not configured'' (rs_rec svc))")
  case (Inl e)
  with run assms(1) same show thesis by (auto simp: CancelMandate_def Let_def)
next
  case (Inr b)
  note pr = Inr
  show thesis
  proof (cases "BankCancelRec b (TrimSpace tenantID) (TrimSpace idRec)")
    case (Inl e)
    with run pr assms(1) same show thesis by (auto simp: CancelMandate_def Let_def)
  next
    case (Inr bres)
    obtain s2 out where tx: "WithinTx r s (cancel_mandate_tx r svc operatorID (TrimSpace tenantID) (TrimSpace idRec)) = (s2, out)"
      by fastforce
    with run pr Inr have s2: "s2 = s'" by (auto simp: CancelMandate_def Let_def split: sum.splits)
    show thesis
    proof (cases "FindRecByID r s (TrimSpace tenantID) (TrimSpace idRec)")
      case (Inl e)
      with tx s2 assms(1) rollback [OF assms(1,1)] same show thesis
        by (auto simp: cancel_mandate_tx_def tx_defs WithinTx_def split: if_splits)
    next
      case (Inr m)
      note old = find_rec [OF assms(1,2) Inr] and fm = Inr
      show thesis
      proof (cases "rc_status m = RecCancelada")
        case True
        with tx s2 fm assms(1) same show thesis by (auto simp: cancel_mandate_tx_def tx_defs WithinTx_def)
      next
        case False
        show thesis
        proof (cases "RecTransition m RecCancelada (rs_builtAt svc)")
          case (Inl e)
          with tx s2 fm False assms(1) rollback [OF assms(1,1)] same show thesis
            by (auto simp: cancel_mandate_tx_def tx_defs WithinTx_def)
        next
          case (Inr m')
          have k: "rc_tenantID m' = TrimSpace tenantID" "rc_idRec m' = TrimSpace idRec"
            using recs_key [OF assms(1) old] Inr False by (auto simp: RecTransition_def split: if_splits)
          have f: "good s1 \<and> vw s1 = (vw s)\<lparr>v_recs := (v_recs (vw s))((TrimSpace tenantID, TrimSpace idRec) \<mapsto> m')\<rparr>"
            if "SaveRec r s m' = Inr s1" for s1
            using save_rec [OF assms(1) _ that] assms(2) k by simp
          have "WithinTx r s (tx_write ''save rec'' (\<lambda>s. SaveRec r s m')
              (case NewRecurrenceTransitionEntry (rs_auditID svc) operatorID (TrimSpace tenantID) (TrimSpace idRec)
                      (rec_status_string RecCancelada) (rs_auditAt svc) of
                 Inl e \<Rightarrow> tx_fail e
               | Inr entry \<Rightarrow> tx_write ''append audit'' (\<lambda>s. AppendAudit r s entry) (tx_return ()))) = (s', out)"
            using tx s2 fm False Inr by (simp add: cancel_mandate_tx_def tx_read_def WithinTx_def)
          from save_build_audit [OF assms(1) f this] same cancelled [OF _ old False Inr] show thesis by auto
        qed
      qed
    qed
  qed
qed

lemma CancelCobR_cases:
  assumes "good s" "clean (TrimSpace tenantID)" and run: "CancelCobR r svc s tenantID operatorID txID = (s', calls, res)"
  obtains (same) "good s'" "vw s' = vw s"
  | (cancelled) c c' entry where "good s'" "v_cobrs (vw s) (TrimSpace tenantID, TrimSpace txID) = Some c"
      "cr_status c \<noteq> CobRCancelada" "CobRTransition c CobRCancelada (rs_builtAt svc) = Inr c'"
      "vw s' = (vw s)\<lparr>v_cobrs := (v_cobrs (vw s))((TrimSpace tenantID, TrimSpace txID) \<mapsto> c'), v_audit := v_audit (vw s) @ [entry]\<rparr>"
proof -
  consider (stop) "s' = s" | (tx) out where
    "WithinTx r s (cancel_cobr_tx r svc operatorID (TrimSpace tenantID) (TrimSpace txID)) = (s', out)"
    using run by (auto simp: CancelCobR_def Let_def split: sum.splits prod.splits)
  then show thesis
  proof cases
    case stop
    with assms(1) same show thesis by blast
  next
    case (tx out)
    show thesis
    proof (cases "FindCobRByTxID r s (TrimSpace tenantID) (TrimSpace txID)")
      case (Inl e)
      with tx assms(1) rollback [OF assms(1,1)] same show thesis
        by (auto simp: cancel_cobr_tx_def tx_defs WithinTx_def split: if_splits)
    next
      case (Inr c)
      note old = find_cobr [OF assms(1,2) Inr] and fc = Inr
      show thesis
      proof (cases "cr_status c = CobRCancelada \<or> (\<exists>e. CobRTransition c CobRCancelada (rs_builtAt svc) = Inl e)")
        case True
        with tx fc assms(1) same show thesis by (auto simp: cancel_cobr_tx_def tx_defs WithinTx_def split: if_splits)
      next
        case False
        then obtain c' where c': "CobRTransition c CobRCancelada (rs_builtAt svc) = Inr c'"
          by (cases "CobRTransition c CobRCancelada (rs_builtAt svc)") auto
        have k: "cr_tenantID c' = TrimSpace tenantID" "cr_txID c' = TrimSpace txID"
          using cobrs_key [OF assms(1) old] c' False by (auto simp: CobRTransition_def split: if_splits)
        have f: "good s1 \<and> vw s1 = (vw s)\<lparr>v_cobrs := (v_cobrs (vw s))((TrimSpace tenantID, TrimSpace txID) \<mapsto> c')\<rparr>"
          if "SaveCobR r s c' = Inr s1" for s1
          using save_cobr [OF assms(1) _ that] assms(2) k by simp
        have "WithinTx r s (tx_write ''save recurring charge'' (\<lambda>s. SaveCobR r s c')
            (case NewCobRCancellationEntry (rs_auditID svc) operatorID (TrimSpace tenantID) (TrimSpace txID) (rs_auditAt svc) of
               Inl e \<Rightarrow> tx_fail e
             | Inr entry \<Rightarrow> tx_write ''append audit'' (\<lambda>s. AppendAudit r s entry) (tx_return ()))) = (s', out)"
          using tx fc False c' by (simp add: cancel_cobr_tx_def tx_read_def WithinTx_def)
        from save_build_audit [OF assms(1) f this] same cancelled [OF _ old _ c'] False show thesis by auto
      qed
    qed
  qed
qed

lemma RetryCobR_gated:
  assumes "good s" "clean (TrimSpace tenantID)" and "RetryCobR r svc s tenantID idRec txID d = (calls, res)"
    and "calls \<noteq> []"
  shows "\<exists>m. v_recs (vw s) (TrimSpace tenantID, TrimSpace idRec) = Some m \<and> rc_status m = RecAprovada \<and>
    calls = [CallRetryCobR (TrimSpace tenantID) (TrimSpace txID) (TrimSpace d)]"
  using assms(3,4) approved_mandate_Inr [OF assms(1,2)]
  by (auto simp: RetryCobR_def Let_def bindE_def split: if_splits sum.splits)

end

section \<open>Properties\<close>

lemma OriginateCobR_replay:
  assumes "at_key (st_cobrs s) (TrimSpace (oi_TenantID inp), TrimSpace (oi_TxID inp)) = Some c"
    and "TrimSpace (oi_TenantID inp) \<noteq> []" "TrimSpace (oi_IDRec inp) \<noteq> []" "TrimSpace (oi_TxID inp) \<noteq> []"
    and "rs_cobr svc \<noteq> None"
  shows "OriginateCobR txView svc s inp = (s, [], Inr c)"
proof -
  have "findCobRByTxID s (TrimSpace (oi_TenantID inp)) (TrimSpace (oi_TxID inp)) = Inr c"
    using assms(1) by (auto simp: findCobRByTxID_def at_key_def split: if_splits)
  with assms(2-5) show ?thesis by (auto simp: OriginateCobR_def originate_check_def Let_def)
qed

lemma originate_check_ids:
  assumes "originate_check r svc s inp = Inr y"
  shows "TrimSpace (oi_TenantID inp) \<noteq> []" "TrimSpace (oi_IDRec inp) \<noteq> []" "TrimSpace (oi_TxID inp) \<noteq> []"
  using assms by (auto simp: originate_check_def Let_def split: if_splits)

text \<open>
  C6: a recurring charge reaches the bank only through the gates, and is recorded, audited and
  billed once. Whatever the request, \<open>OriginateCobR\<close> calls the bank at most once, and only for a
  transaction id not yet recorded, a positive value, and an approved mandate of the same tenant
  whose fixed value, if it has one, is not exceeded. An error changes nothing in the store. A
  success leaves the charge recorded under its id, with exactly one new audit entry and one new
  ledger entry if the bank was called and none otherwise; and the same request made again, with
  whatever providers, returns that charge without calling the bank or writing anything.
\<close>

theorem origination_gated:
  assumes "store_ok s" "nul_free (TrimSpace (oi_TenantID inp))"
    and "OriginateCobR txView svc s inp = (s', calls, res)"
    and t: "t = TrimSpace (oi_TenantID inp)" and x: "x = TrimSpace (oi_TxID inp)"
  shows "length calls \<le> 1 \<and>
    (\<forall>call \<in> set calls. \<exists>req. call = CallCreateCobR t req \<and> cc_TxID req = x \<and> 0 < cc_ValorCents req \<and>
       chargeable (store_view s) t (cc_IDRec req) (cc_ValorCents req) \<and> at_key (st_cobrs s) (t, x) = None) \<and>
    (\<forall>e. res = Inl e \<longrightarrow> store_view s' = store_view s) \<and>
    (\<forall>c. res = Inr c \<longrightarrow>
       at_key (st_cobrs s') (t, x) = Some c \<and>
       length (st_audit s') = length (st_audit s) + length calls \<and>
       billed (st_ledger s') t x = billed (st_ledger s) t x + length calls \<and>
       (\<forall>svc'. rs_cobr svc' \<noteq> None \<longrightarrow> OriginateCobR txView svc' s' inp = (s', [], Inr c)))"
  using assms(1-3)
proof (cases rule: mem.originate_cases)
  case (refused e)
  then show ?thesis by simp
next
  case (existing c)
  then have c: "at_key (st_cobrs s) (t, x) = Some c" by (simp add: t x)
  obtain y where "originate_check txView svc s inp = Inr y"
    using assms(3) existing by (auto simp: OriginateCobR_def split: sum.splits)
  note ids = originate_check_ids [OF this]
  have "OriginateCobR txView svc' s inp = (s, [], Inr c)" if "rs_cobr svc' \<noteq> None" for svc'
    using OriginateCobR_replay [of s inp c svc'] ids c that by (auto simp: t x)
  with existing c show ?thesis by simp
next
  case (failed e c bank price)
  from mem.originate_check_new [OF assms(1,2) failed(5)] failed show ?thesis by (simp add: t x)
next
  case (recorded c bank price entry le)
  note new = mem.originate_check_new [OF assms(1,2) recorded(4)]
  have ids: "cr_tenantID c = t" "cr_txID c = x" using new by (simp_all add: t x)
  have v: "at_key (st_cobrs s') = (at_key (st_cobrs s))((t, x) \<mapsto> c)" "st_audit s' = st_audit s @ [entry]"
    "st_ledger s' = st_ledger s @ [le]"
    using arg_cong [OF recorded(5), of v_cobrs] arg_cong [OF recorded(5), of v_audit]
      arg_cong [OF recorded(5), of v_ledger] ids by simp_all
  have "OriginateCobR txView svc' s' inp = (s', [], Inr c)" if "rs_cobr svc' \<noteq> None" for svc'
    using OriginateCobR_replay [of s' inp c svc'] originate_check_ids [OF recorded(4)] v(1) that by (simp add: t x)
  with recorded new v ids show ?thesis by (simp add: t x billed_append)
qed

section \<open>A sample mandate\<close>

definition sample_approved :: rec where
  "sample_approved = sample_rec\<lparr>rc_status := RecAprovada\<rparr>"

definition sample_mandate_store :: store where
  "sample_mandate_store = NewStore\<lparr>st_recs := [(key ''t1'' ''RR1'', sample_approved)]\<rparr>"

definition sample_cobr_bank :: cobr_provider where
  "sample_cobr_bank = \<lparr>
     BankCreateCobR = (\<lambda>t req. Inr \<lparr>cs_TxID = cc_TxID req, cs_IDRec = cc_IDRec req, cs_Status = ''CRIADA'', cs_ValorCents = cc_ValorCents req\<rparr>),
     BankGetCobR = (\<lambda>t x. Inr \<lparr>cs_TxID = x, cs_IDRec = ''RR1'', cs_Status = ''CONCLUIDA'', cs_ValorCents = 100\<rparr>),
     BankCancelCobR = (\<lambda>t x. Inr \<lparr>cs_TxID = x, cs_IDRec = ''RR1'', cs_Status = ''CANCELADA'', cs_ValorCents = 100\<rparr>),
     BankRetryCobR = (\<lambda>t x d. Inr \<lparr>cs_TxID = x, cs_IDRec = ''RR1'', cs_Status = ''ATIVA'', cs_ValorCents = 100\<rparr>)\<rparr>"

definition sample_recurrence :: recurrence_service where
  "sample_recurrence = \<lparr>rs_cobr = Some sample_cobr_bank, rs_rec = None, rs_solicRec = None, rs_locRec = None,
     rs_builtAt = zero_time, rs_auditID = ''e1'', rs_auditAt = zero_time, rs_ledgerID = ''e2'', rs_ledgerAt = zero_time\<rparr>"

definition sample_originate :: originate_input where
  "sample_originate = \<lparr>oi_TenantID = ''t1'', oi_AccountID = [], oi_OperatorID = [], oi_IDRec = ''RR1'', oi_TxID = ''C1'',
     oi_Vencimento = ''2026-01-31'', oi_ValorCents = 100, oi_IdempotencyKey = ''k1''\<rparr>"

definition sample_cobr :: cobr where
  "sample_cobr = \<lparr>cr_txID = ''C1'', cr_idRec = ''RR1'', cr_tenantID = ''t1'', cr_vencimento = ''2026-01-31'',
     cr_valorCents = 100, cr_status = CobRCriada, cr_createdAt = zero_time, cr_updatedAt = zero_time\<rparr>"

definition cobr_price :: endpoint_pricing where
  "cobr_price = \<lparr>ep_tenantID = ''t1'', ep_endpoint = ''pix.cobr.create'', ep_priceCents = 0\<rparr>"

lemma rec_trims [simp]:
  "TrimSpace ''RR1'' = ''RR1''" "TrimSpace ''RR2'' = ''RR2''" "TrimSpace ''C1'' = ''C1''" "TrimSpace ''C2'' = ''C2''"
  "TrimSpace ''2026-01-31'' = ''2026-01-31''" "TrimSpace ''pix.cobr.create'' = ''pix.cobr.create''"
  by (simp_all add: TrimSpace_plain plain_byte_def less_eq_char_def)

lemma sample_date [simp]: "valid_date ''2026-01-31''"
  by (simp add: valid_date_def is_digit_def less_eq_char_def days_in_def)

lemma sample_originate_fields [simp]:
  "oi_TenantID sample_originate = ''t1''" "oi_IDRec sample_originate = ''RR1''" "oi_TxID sample_originate = ''C1''"
  "oi_ValorCents sample_originate = 100" "oi_Vencimento sample_originate = ''2026-01-31''"
  "oi_AccountID sample_originate = []" "oi_OperatorID sample_originate = []"
  by (simp_all add: sample_originate_def)

lemma sample_mandate_store_ok: "store_ok sample_mandate_store"
  by (simp add: sample_mandate_store_def sample_approved_def sample_rec_def store_ok_def NewStore_def keyed_def
      unique_keys_def nul_free_def)

lemma sample_originate_check:
  "originate_check txView sample_recurrence sample_mandate_store sample_originate =
     Inr (Inr (sample_cobr_bank, sample_cobr, cobr_price))"
proof -
  have "approved_mandate txView sample_mandate_store ''t1'' ''RR1'' = Inr sample_approved"
    by (simp add: approved_mandate_def findRecByID_def lookup_def sample_mandate_store_def RequireApprovedMandate_def)
      (simp add: sample_approved_def sample_rec_def)
  moreover have "RequireWithinAuthorizedValue (Some sample_approved) 100 = Inr ()"
    by (simp add: RequireWithinAuthorizedValue_def sample_approved_def sample_rec_def)
  moreover have "resolvePriceOrFree txView sample_mandate_store ''t1'' CobRCreateEndpoint = Inr cobr_price"
    by (simp add: resolvePriceOrFree_def getEndpointPrice_def sample_mandate_store_def NewStore_def lookup_def
        NewEndpointPricing_def CobRCreateEndpoint_def cobr_price_def)
  moreover have "findCobRByTxID sample_mandate_store ''t1'' ''C1'' = Inl ErrNotFound"
    by (simp add: findCobRByTxID_def sample_mandate_store_def NewStore_def)
  ultimately show ?thesis
    by (simp add: originate_check_def Let_def sample_recurrence_def NewCobR_def sample_cobr_def)
qed

definition sample_cobr_entry :: entry where
  "sample_cobr_entry = (zero_entry ''e1'' [] ActionCobRCreated zero_time)\<lparr>au_tenantID := ''t1'', au_txID := ''C1''\<rparr>"

definition sample_cobr_bill :: ledger_entry where
  "sample_cobr_bill = \<lparr>le_id = ''e2'', le_tenantID = ''t1'', le_endpoint = ''pix.cobr.create'', le_priceCents = 0,
     le_reference = ''C1'', le_at = zero_time, le_accountID = []\<rparr>"

lemma sample_originate_record:
  "originate_record txView sample_recurrence s sample_originate sample_cobr cobr_price =
     (s\<lparr>st_cobrs := put (key ''t1'' ''C1'') sample_cobr (st_cobrs s), st_audit := st_audit s @ [sample_cobr_entry],
        st_ledger := st_ledger s @ [sample_cobr_bill]\<rparr>, Inr sample_cobr)"
proof -
  have "NewCobROriginationEntry ''e1'' [] ''t1'' ''C1'' zero_time = Inr sample_cobr_entry"
    by (simp add: NewCobROriginationEntry_def Let_def sample_cobr_entry_def)
  moreover have "NewLedgerEntry ''e2'' ''t1'' CobRCreateEndpoint ''C1'' 0 zero_time [WithAccount []] = Inr sample_cobr_bill"
    by (simp add: NewLedgerEntry_def WithAccount_def Let_def CobRCreateEndpoint_def sample_cobr_bill_def)
  moreover have "cr_tenantID sample_cobr = ''t1''" "cr_txID sample_cobr = ''C1''" by (simp_all add: sample_cobr_def)
  ultimately show ?thesis
    by (simp add: originate_record_def Let_def sample_recurrence_def cobr_price_def WithinTx_def tx_defs saveCobR_def
        appendAudit_def appendLedgerEntry_def)
qed

lemma sample_originate_run:
  "\<exists>s' call. OriginateCobR txView sample_recurrence sample_mandate_store sample_originate = (s', [call], Inr sample_cobr)"
proof -
  have "\<exists>b. BankCreateCobR sample_cobr_bank ''t1'' req = Inr b" for req by (simp add: sample_cobr_bank_def)
  then obtain b where "BankCreateCobR sample_cobr_bank ''t1'' (cobr_request_of sample_originate sample_cobr) = Inr b" by blast
  then show ?thesis by (simp add: OriginateCobR_def sample_originate_check sample_originate_record Let_def)
qed

theorem origination_gated_witness:
  "\<exists>s' call. OriginateCobR txView sample_recurrence sample_mandate_store sample_originate = (s', [call], Inr sample_cobr) \<and>
     at_key (st_cobrs s') (''t1'', ''C1'') = Some sample_cobr \<and> billed (st_ledger s') ''t1'' ''C1'' = 1"
proof -
  obtain s' call where run: "OriginateCobR txView sample_recurrence sample_mandate_store sample_originate = (s', [call], Inr sample_cobr)"
    using sample_originate_run by blast
  have n: "nul_free (TrimSpace (oi_TenantID sample_originate))" by (simp add: nul_free_def)
  have "billed (st_ledger sample_mandate_store) ''t1'' ''C1'' = 0"
    by (simp add: sample_mandate_store_def NewStore_def billed_def)
  with origination_gated [OF sample_mandate_store_ok n run refl refl] run show ?thesis by auto
qed

text \<open>
  the retry of a charge is not tied to the charge's own mandate. The caller names both a mandate
  and a transaction id; the gate looks at the named mandate only. So a charge whose mandate is
  canceled is retried at the bank when the request names another, approved mandate of the tenant.
\<close>

theorem retry_of_revoked_mandate:
  "\<exists>s c. store_ok s \<and> at_key (st_cobrs s) (''t1'', ''C2'') = Some c \<and> cr_idRec c = ''RR2'' \<and>
     (\<exists>m. at_key (st_recs s) (''t1'', ''RR2'') = Some m \<and> rc_status m = RecCancelada) \<and>
     fst (RetryCobR txView sample_recurrence s ''t1'' ''RR1'' ''C2'' ''2026-01-31'') = [CallRetryCobR ''t1'' ''C2'' ''2026-01-31'']"
proof -
  let ?m = "sample_rec\<lparr>rc_idRec := ''RR2'', rc_status := RecCancelada\<rparr>"
  let ?c = "sample_cobr\<lparr>cr_txID := ''C2'', cr_idRec := ''RR2'', cr_status := CobRRejeitada\<rparr>"
  let ?s = "sample_mandate_store\<lparr>st_recs := st_recs sample_mandate_store @ [(key ''t1'' ''RR2'', ?m)],
      st_cobrs := [(key ''t1'' ''C2'', ?c)]\<rparr>"
  have "store_ok ?s"
    by (simp add: sample_mandate_store_def sample_approved_def sample_rec_def sample_cobr_def store_ok_def NewStore_def
        keyed_def unique_keys_def nul_free_def key_def)
  moreover have "at_key (st_cobrs ?s) (''t1'', ''C2'') = Some ?c" by (simp add: at_key_def nul_free_def)
  moreover have "at_key (st_recs ?s) (''t1'', ''RR2'') = Some ?m"
    by (simp add: at_key_def nul_free_def sample_mandate_store_def key_def)
  moreover have "approved_mandate txView ?s ''t1'' ''RR1'' = Inr sample_approved"
    by (simp add: approved_mandate_def findRecByID_def lookup_def sample_mandate_store_def RequireApprovedMandate_def)
      (simp add: sample_approved_def sample_rec_def)
  then have "fst (RetryCobR txView sample_recurrence ?s ''t1'' ''RR1'' ''C2'' ''2026-01-31'') = [CallRetryCobR ''t1'' ''C2'' ''2026-01-31'']"
    by (simp add: RetryCobR_def Let_def port_def sample_recurrence_def)
  ultimately show ?thesis by (intro exI [of _ ?s] exI [of _ ?c]) simp
qed

end
