(* ===== verification/RecWebhook.thy ===== *)
theory RecWebhook
  imports Settlement Mandates
begin

text \<open>
  \<open>internal/app/webhook_recurrence.go\<close>: the notifications of PIX Automatico. A mandate or charge
  notification is only a trigger; its handler marks the event, reads the authoritative state from
  the bank and records it, all in one unit of work. The fields \<open>ws_bornAt\<close>, \<open>ws_movedAt\<close> and
  \<open>ws_todayAt\<close> of the service are what the clock answers when an aggregate is built, moved, and
  when the due date of an unknown charge is taken. Logging is not modelled.
\<close>

section \<open>Definitions\<close>

record rec_event =
  rx_TenantID :: string
  rx_IDRec :: string
  rx_EventKey :: string
  rx_BankID :: string

record cobr_event =
  cx_TenantID :: string
  cx_TxID :: string
  cx_EventKey :: string

definition recDevedorDoc :: "rec_devedor \<Rightarrow> string" where
  "recDevedorDoc d = (if TrimSpace (rd_CPF d) \<noteq> [] then TrimSpace (rd_CPF d) else TrimSpace (rd_CNPJ d))"

text \<open>A mandate seen for the first time, already moved to the status the bank reports, if it is representable.\<close>

definition first_rec :: "'o webhook_service \<Rightarrow> rec_event \<Rightarrow> rec_result \<Rightarrow> rec option" where
  "first_rec w ev res =
     (let status = RecStatus (rr_Status res);
          bankID = (if TrimSpace (rx_BankID ev) = [] then BankIDC6 else TrimSpace (rx_BankID ev))
      in case NewDevedor (recDevedorDoc (rv_Devedor (rr_Vinculo res))) (rd_Nome (rv_Devedor (rr_Vinculo res))) of
           Inl _ \<Rightarrow> None
         | Inr dev \<Rightarrow>
             (case NewRec \<lparr>rp_IDRec = rx_IDRec ev, rp_TenantID = rx_TenantID ev, rp_BankID = bankID,
                     rp_Contrato = rv_Contrato (rr_Vinculo res), rp_Devedor = dev,
                     rp_DataInicial = rk_DataInicial (rr_Calendario res),
                     rp_Periodicidade = RecPeriodicidade (rk_Periodicidade (rr_Calendario res)),
                     rp_ValorCents = rr_ValorRecCents res, rp_LocID = 0, rp_JornadaTxID = []\<rparr> (ws_bornAt w) of
                Inl _ \<Rightarrow> None
              | Inr m \<Rightarrow>
                  if status \<noteq> rc_status m
                  then (case RecTransition m status (ws_movedAt w) of Inl _ \<Rightarrow> None | Inr m' \<Rightarrow> Some m')
                  else Some m))"

definition save_rec_audited :: "'s repository \<Rightarrow> 'o webhook_service \<Rightarrow> rec_event \<Rightarrow> rec \<Rightarrow> ('s, unit) tx" where
  "save_rec_audited r w ev m =
     tx_write ''save mandate'' (\<lambda>s. SaveRec r s m)
       (case NewRecurrenceTransitionEntry (ws_auditID w) [] (rx_TenantID ev) (rx_IDRec ev)
               (rec_status_string (rc_status m)) (ws_auditAt w) of
          Inl e \<Rightarrow> tx_fail (Errorf ''build audit entry'' e)
        | Inr entry \<Rightarrow> tx_write ''append audit'' (\<lambda>s. AppendAudit r s entry) (tx_return ()))"

definition recordRec ::
  "'s repository \<Rightarrow> 'o webhook_service \<Rightarrow> rec_event \<Rightarrow> rec_result \<Rightarrow> ('s, unit) tx" where
  "recordRec r w ev res =
     (let status = RecStatus (rr_Status res)
      in tx_read (\<lambda>s. FindRecByID r s (rx_TenantID ev) (rx_IDRec ev)) (\<lambda>found.
           case found of
             Inr m \<Rightarrow>
               if rc_status m = status then tx_return ()
               else (case RecTransition m status (ws_movedAt w) of
                       Inl _ \<Rightarrow> tx_return ()
                     | Inr m' \<Rightarrow> save_rec_audited r w ev m')
           | Inl e \<Rightarrow>
               if errors_Is e ErrNotFound
               then (case first_rec w ev res of None \<Rightarrow> tx_return () | Some m \<Rightarrow> save_rec_audited r w ev m)
               else tx_fail (Errorf ''load mandate'' e)))"

text \<open>A charge seen for the first time is kept at its initial status when the reported one is refused.\<close>

definition first_cobr :: "'o webhook_service \<Rightarrow> cobr_event \<Rightarrow> cobr_result \<Rightarrow> cobr option" where
  "first_cobr w ev res =
     (let status = CobRStatus (cs_Status res)
      in case NewCobR \<lparr>cp_TxID = cx_TxID ev, cp_IDRec = cs_IDRec res, cp_TenantID = cx_TenantID ev,
                cp_Vencimento = FormatDate (UTC (ws_todayAt w)), cp_ValorCents = cs_ValorCents res\<rparr> (ws_bornAt w) of
           Inl _ \<Rightarrow> None
         | Inr c \<Rightarrow>
             if status \<noteq> cr_status c
             then (case CobRTransition c status (ws_movedAt w) of Inl _ \<Rightarrow> Some c | Inr c' \<Rightarrow> Some c')
             else Some c)"

definition recordCobR ::
  "'s repository \<Rightarrow> 'o webhook_service \<Rightarrow> cobr_event \<Rightarrow> cobr_result \<Rightarrow> ('s, unit) tx" where
  "recordCobR r w ev res =
     (let status = CobRStatus (cs_Status res)
      in tx_read (\<lambda>s. FindCobRByTxID r s (cx_TenantID ev) (cx_TxID ev)) (\<lambda>found.
           case found of
             Inr c \<Rightarrow>
               if cr_status c = status then tx_return ()
               else (case CobRTransition c status (ws_movedAt w) of
                       Inl _ \<Rightarrow> tx_return ()
                     | Inr c' \<Rightarrow> tx_write ''save recurring charge'' (\<lambda>s. SaveCobR r s c') (tx_return ()))
           | Inl e \<Rightarrow>
               if errors_Is e ErrNotFound
               then (case first_cobr w ev res of
                       None \<Rightarrow> tx_return ()
                     | Some c \<Rightarrow> tx_write ''save recurring charge'' (\<lambda>s. SaveCobR r s c) (tx_return ()))
               else tx_fail (Errorf ''load recurring charge'' e)))"

definition reconcileRecurrence ::
  "'s repository \<Rightarrow> string \<Rightarrow> string \<Rightarrow> ('s, unit) tx \<Rightarrow> 's \<Rightarrow> 's \<times> unit result" where
  "reconcileRecurrence r tenantID eventKey reconcile s =
     WithinTx r s (tx_mark r tenantID eventKey (\<lambda>first.
       if \<not> first then tx_return ()
       else (\<lambda>s. case reconcile s of
                   (s', Inl e) \<Rightarrow> if errors_Is e ErrNotFound then (s', Inr ())
                                  else (s', Inl (Errorf ''reconcile recurrence'' e))
                 | (s', Inr _) \<Rightarrow> (s', Inr ()))))"

definition HandleRecEvent ::
  "'s repository \<Rightarrow> 'o webhook_service \<Rightarrow> 's \<Rightarrow> rec_event \<Rightarrow> 's \<times> unit result" where
  "HandleRecEvent r w s ev =
     (if TrimSpace (rx_TenantID ev) = [] then (s, Inl (NewValidationError ''tenant_id'' ''tenant id is required''))
      else if TrimSpace (rx_IDRec ev) = [] then (s, Inl (NewValidationError ''id_rec'' ''id rec is required''))
      else if TrimSpace (rx_EventKey ev) = [] then (s, Inl (NewValidationError ''event_key'' ''event key is required''))
      else case ws_recReader w of
             None \<Rightarrow> (s, Inl (Errorf ''recurrence webhook not configured'' ErrUnavailable))
           | Some b \<Rightarrow>
               reconcileRecurrence r (rx_TenantID ev) (rx_EventKey ev)
                 (case BankGetRec b (rx_TenantID ev) (rx_IDRec ev) of
                    Inl e \<Rightarrow> tx_fail e
                  | Inr res \<Rightarrow> recordRec r w ev res) s)"

definition HandleCobREvent ::
  "'s repository \<Rightarrow> 'o webhook_service \<Rightarrow> 's \<Rightarrow> cobr_event \<Rightarrow> 's \<times> unit result" where
  "HandleCobREvent r w s ev =
     (if TrimSpace (cx_TenantID ev) = [] then (s, Inl (NewValidationError ''tenant_id'' ''tenant id is required''))
      else if TrimSpace (cx_TxID ev) = [] then (s, Inl (NewValidationError ''tx_id'' ''tx id is required''))
      else if TrimSpace (cx_EventKey ev) = [] then (s, Inl (NewValidationError ''event_key'' ''event key is required''))
      else case ws_cobrReader w of
             None \<Rightarrow> (s, Inl (Errorf ''recurrence webhook not configured'' ErrUnavailable))
           | Some b \<Rightarrow>
               reconcileRecurrence r (cx_TenantID ev) (cx_EventKey ev)
                 (case BankGetCobR b (cx_TenantID ev) (cx_TxID ev) of
                    Inl e \<Rightarrow> tx_fail e
                  | Inr res \<Rightarrow> recordCobR r w ev res) s)"

section \<open>What a notification writes\<close>

text \<open>The aggregate a handler saves, given what is stored and what the bank reports; \<open>None\<close> for nothing.\<close>

definition rec_outcome :: "'o webhook_service \<Rightarrow> rec_event \<Rightarrow> rec_result \<Rightarrow> rec option \<Rightarrow> rec option" where
  "rec_outcome w ev res old =
     (case old of
        Some m \<Rightarrow>
          if rc_status m = RecStatus (rr_Status res) then None
          else (case RecTransition m (RecStatus (rr_Status res)) (ws_movedAt w) of Inl _ \<Rightarrow> None | Inr m' \<Rightarrow> Some m')
      | None \<Rightarrow> first_rec w ev res)"

definition cobr_outcome :: "'o webhook_service \<Rightarrow> cobr_event \<Rightarrow> cobr_result \<Rightarrow> cobr option \<Rightarrow> cobr option" where
  "cobr_outcome w ev res old =
     (case old of
        Some c \<Rightarrow>
          if cr_status c = CobRStatus (cs_Status res) then None
          else (case CobRTransition c (CobRStatus (cs_Status res)) (ws_movedAt w) of Inl _ \<Rightarrow> None | Inr c' \<Rightarrow> Some c')
      | None \<Rightarrow> first_cobr w ev res)"

lemma RecTransition_Inr:
  assumes "RecTransition m st at = Inr m'" and "rc_status m \<noteq> st"
  shows "m' = m\<lparr>rc_status := st, rc_updatedAt := at\<rparr>" "recTransitions (rc_status m) st" "\<not> rec_status_terminal (rc_status m)"
  using assms by (auto simp: RecTransition_def split: if_splits)

lemma CobRTransition_Inr:
  assumes "CobRTransition c st at = Inr c'" and "cr_status c \<noteq> st"
  shows "c' = c\<lparr>cr_status := st, cr_updatedAt := at\<rparr>" "cobrTransitions (cr_status c) st" "\<not> cobr_status_terminal (cr_status c)"
  using assms by (auto simp: CobRTransition_def split: if_splits)

lemma first_rec_Some:
  assumes "first_rec w ev res = Some m"
  shows "rc_tenantID m = TrimSpace (rx_TenantID ev)" "rc_idRec m = TrimSpace (rx_IDRec ev)"
    "rc_status m = RecStatus (rr_Status res)"
proof -
  obtain p m0 where new: "NewRec p (ws_bornAt w) = Inr m0" "rp_TenantID p = rx_TenantID ev" "rp_IDRec p = rx_IDRec ev"
    and m: "m = m0 \<and> rc_status m0 = RecStatus (rr_Status res) \<or>
      rc_status m0 \<noteq> RecStatus (rr_Status res) \<and> RecTransition m0 (RecStatus (rr_Status res)) (ws_movedAt w) = Inr m"
    using assms by (fastforce simp: first_rec_def Let_def split: sum.splits if_splits)
  from m have "rc_tenantID m = rc_tenantID m0" "rc_idRec m = rc_idRec m0" "rc_status m = RecStatus (rr_Status res)"
    by (auto dest: RecTransition_Inr(1))
  with NewRec_Inr [OF new(1)] new(2,3)
  show "rc_tenantID m = TrimSpace (rx_TenantID ev)" "rc_idRec m = TrimSpace (rx_IDRec ev)"
    "rc_status m = RecStatus (rr_Status res)" by simp_all
qed

lemma first_cobr_Some:
  assumes "first_cobr w ev res = Some c"
  shows "cr_tenantID c = TrimSpace (cx_TenantID ev)" "cr_txID c = TrimSpace (cx_TxID ev)"
proof -
  obtain p c0 where new: "NewCobR p (ws_bornAt w) = Inr c0" "cp_TenantID p = cx_TenantID ev" "cp_TxID p = cx_TxID ev"
    and c: "c = c0 \<or>
      cr_status c0 \<noteq> CobRStatus (cs_Status res) \<and> CobRTransition c0 (CobRStatus (cs_Status res)) (ws_movedAt w) = Inr c"
    using assms by (fastforce simp: first_cobr_def Let_def split: sum.splits if_splits)
  from c have "cr_tenantID c = cr_tenantID c0" "cr_txID c = cr_txID c0"
    by (auto dest: CobRTransition_Inr(1))
  with NewCobR_Inr [OF new(1)] new(2,3)
  show "cr_tenantID c = TrimSpace (cx_TenantID ev)" "cr_txID c = TrimSpace (cx_TxID ev)" by simp_all
qed

lemma rec_outcome_Some:
  assumes "rec_outcome w ev res old = Some m"
    and "trimmed (rx_TenantID ev)" "trimmed (rx_IDRec ev)"
    and "\<And>m0. old = Some m0 \<Longrightarrow> rc_tenantID m0 = rx_TenantID ev \<and> rc_idRec m0 = rx_IDRec ev"
  shows "rc_tenantID m = rx_TenantID ev" "rc_idRec m = rx_IDRec ev" "rc_status m = RecStatus (rr_Status res)"
    "old = Some m0 \<Longrightarrow> m = m0\<lparr>rc_status := RecStatus (rr_Status res), rc_updatedAt := ws_movedAt w\<rparr> \<and>
        recTransitions (rc_status m0) (RecStatus (rr_Status res))"
  using assms first_rec_Some [of w ev res m]
  by (auto simp: rec_outcome_def trimmed_def dest: RecTransition_Inr split: option.splits sum.splits if_splits)

lemma cobr_outcome_Some:
  assumes "cobr_outcome w ev res old = Some c"
    and "trimmed (cx_TenantID ev)" "trimmed (cx_TxID ev)"
    and "\<And>c0. old = Some c0 \<Longrightarrow> cr_tenantID c0 = cx_TenantID ev \<and> cr_txID c0 = cx_TxID ev"
  shows "cr_tenantID c = cx_TenantID ev" "cr_txID c = cx_TxID ev"
    "old = Some c0 \<Longrightarrow> c = c0\<lparr>cr_status := CobRStatus (cs_Status res), cr_updatedAt := ws_movedAt w\<rparr> \<and>
        cobrTransitions (cr_status c0) (CobRStatus (cs_Status res))"
  using assms first_cobr_Some [of w ev res c]
  by (auto simp: cobr_outcome_def trimmed_def dest: CobRTransition_Inr split: option.splits sum.splits if_splits)

context write_contract
begin

lemma save_rec_audited_cases:
  assumes "good s1" "clean (rc_tenantID m)" and run: "save_rec_audited r w ev m s1 = (s', out)"
  obtains (err) e where "good s'" "out = Inl e" "\<not> errors_Is e ErrNotFound"
  | (saved) entry where "good s'" "out = Inr ()"
      "vw s' = (vw s1)\<lparr>v_recs := (v_recs (vw s1))((rc_tenantID m, rc_idRec m) \<mapsto> m), v_audit := v_audit (vw s1) @ [entry]\<rparr>"
      "NewRecurrenceTransitionEntry (ws_auditID w) [] (rx_TenantID ev) (rx_IDRec ev)
         (rec_status_string (rc_status m)) (ws_auditAt w) = Inr entry"
proof (cases "SaveRec r s1 m")
  case (Inl e)
  with run assms(1) err [of "Errorf ''save mandate'' e"] save_rec_error show thesis
    by (auto simp: save_rec_audited_def tx_write_def)
next
  case (Inr s2)
  note saved_rec = save_rec [OF assms(1,2) Inr] and sv = Inr
  show thesis
  proof (cases "NewRecurrenceTransitionEntry (ws_auditID w) [] (rx_TenantID ev) (rx_IDRec ev)
         (rec_status_string (rc_status m)) (ws_auditAt w)")
    case (Inl e)
    then have "\<not> errors_Is e ErrNotFound"
      by (auto simp: NewRecurrenceTransitionEntry_def Let_def split: if_splits option.splits)
    with run sv Inl saved_rec err [of "Errorf ''build audit entry'' e"] show thesis
      by (auto simp: save_rec_audited_def tx_defs)
  next
    case (Inr entry)
    note en = Inr
    show thesis
    proof (cases "AppendAudit r s2 entry")
      case (Inl e)
      with run sv en saved_rec err [of "Errorf ''append audit'' e"] append_audit_error show thesis
        by (auto simp: save_rec_audited_def tx_defs)
    next
      case (Inr s3)
      with run sv en have "s' = s3" "out = Inr ()" by (simp_all add: save_rec_audited_def tx_defs)
      moreover have "good s3" "vw s3 = (vw s1)\<lparr>v_recs := (v_recs (vw s1))((rc_tenantID m, rc_idRec m) \<mapsto> m),
          v_audit := v_audit (vw s1) @ [entry]\<rparr>"
        using append_audit [OF conjunct1 [OF saved_rec] Inr] saved_rec by simp_all
      ultimately show thesis using saved [OF _ _ _ en] by blast
    qed
  qed
qed

lemma recordRec_cases:
  assumes "good s1" "clean (rx_TenantID ev)" "trimmed (rx_TenantID ev)" "trimmed (rx_IDRec ev)"
    and run: "recordRec r w ev res s1 = (s', out)"
  obtains (err) e where "good s'" "out = Inl e" "\<not> errors_Is e ErrNotFound"
  | (quiet) "s' = s1" "out = Inr ()" "rec_outcome w ev res (v_recs (vw s1) (rx_TenantID ev, rx_IDRec ev)) = None"
  | (saved) m entry where "good s'" "out = Inr ()"
      "rec_outcome w ev res (v_recs (vw s1) (rx_TenantID ev, rx_IDRec ev)) = Some m"
      "vw s' = (vw s1)\<lparr>v_recs := (v_recs (vw s1))((rx_TenantID ev, rx_IDRec ev) \<mapsto> m), v_audit := v_audit (vw s1) @ [entry]\<rparr>"
      "NewRecurrenceTransitionEntry (ws_auditID w) [] (rx_TenantID ev) (rx_IDRec ev)
         (rec_status_string (rc_status m)) (ws_auditAt w) = Inr entry"
proof -
  let ?k = "(rx_TenantID ev, rx_IDRec ev)"
  have save: thesis
    if o: "rec_outcome w ev res (v_recs (vw s1) ?k) = Some m" and sv: "save_rec_audited r w ev m s1 = (s', out)" for m
  proof -
    have k: "rc_tenantID m = rx_TenantID ev" "rc_idRec m = rx_IDRec ev"
      using rec_outcome_Some(1,2) [OF o assms(3,4)] recs_key [OF assms(1)] by blast+
    have "clean (rc_tenantID m)" using k assms(2) by simp
    from assms(1) this sv show thesis
      by (cases rule: save_rec_audited_cases) (use err saved [OF _ _ o] k in auto)
  qed
  show thesis
  proof (cases "FindRecByID r s1 (rx_TenantID ev) (rx_IDRec ev)")
    case (Inl e)
    show thesis
    proof (cases "errors_Is e ErrNotFound")
      case True
      have none: "v_recs (vw s1) ?k = None" by (rule find_rec_none [OF assms(1,2) Inl True])
      show thesis
      proof (cases "first_rec w ev res")
        case None
        with run Inl True have "s' = s1" "out = Inr ()" by (auto simp: recordRec_def Let_def tx_defs)
        with none None quiet show thesis by (simp add: rec_outcome_def)
      next
        case (Some m)
        with run Inl True have "save_rec_audited r w ev m s1 = (s', out)" by (simp add: recordRec_def Let_def tx_read_def)
        with Some none show thesis by (intro save [of m]) (auto simp: rec_outcome_def)
      qed
    next
      case False
      with run Inl assms(1) err [of "Errorf ''load mandate'' e"] show thesis by (auto simp: recordRec_def Let_def tx_defs)
    qed
  next
    case (Inr m0)
    have old: "v_recs (vw s1) ?k = Some m0" by (rule find_rec [OF assms(1,2) Inr])
    show thesis
    proof (cases "rec_outcome w ev res (Some m0)")
      case None
      with run Inr have "s' = s1" "out = Inr ()"
        by (auto simp: recordRec_def Let_def tx_defs rec_outcome_def split: if_splits sum.splits)
      with None old quiet show thesis by simp
    next
      case (Some m)
      with run Inr have "save_rec_audited r w ev m s1 = (s', out)"
        by (auto simp: recordRec_def Let_def tx_read_def rec_outcome_def split: if_splits sum.splits)
      with Some old show thesis by (intro save [of m]) auto
    qed
  qed
qed

text \<open>The unit of work around a reconciliation.\<close>

lemma reconcile_cases:
  assumes "good s" "clean t" and f: "\<forall>s1 s2 out. good s1 \<longrightarrow> f s1 = (s2, out) \<longrightarrow> good s2"
    and run: "reconcileRecurrence r t k f s = (s', res)"
  obtains (err) e where "good s'" "res = Inl e" "vw s' = vw s"
  | (dup) "s' = s" "res = Inr ()" "(t, k) \<in> v_marks (vw s)"
  | (ran) s1 out where "good s1" "(t, k) \<notin> v_marks (vw s)" "vw s1 = (vw s)\<lparr>v_marks := insert (t, k) (v_marks (vw s))\<rparr>"
      "f s1 = (s', out)" "res = Inr ()" "good s'" "\<And>e. out = Inl e \<Longrightarrow> errors_Is e ErrNotFound"
proof -
  define g where "g = (\<lambda>first. if \<not> first then tx_return ()
       else (\<lambda>s. case f s of
                   (s', Inl e) \<Rightarrow> if errors_Is e ErrNotFound then (s', Inr ())
                                  else (s', Inl (Errorf ''reconcile recurrence'' e))
                 | (s', Inr _) \<Rightarrow> (s', Inr ())))"
  have R: "reconcileRecurrence r t k f s = WithinTx r s (tx_mark r t k g)"
    by (simp add: reconcileRecurrence_def g_def)
  obtain s2 x where tx: "tx_mark r t k g s = (s2, x)" by fastforce
  from assms(1,2) tx show thesis
  proof (cases rule: tx_mark_cases)
    case (err e)
    with tx run R rollback [OF assms(1,1)] that(1) show thesis by (auto simp: WithinTx_def)
  next
    case dup
    with tx run R that(2) show thesis by (auto simp: WithinTx_def g_def tx_return_def)
  next
    case (first s1)
    obtain s3 out where fs: "f s1 = (s3, out)" by fastforce
    have g3: "good s3" using f first(1) fs by blast
    show thesis
    proof (cases "\<exists>e. out = Inl e \<and> \<not> errors_Is e ErrNotFound")
      case True
      then obtain e where "g True s1 = (s3, Inl (Errorf ''reconcile recurrence'' e))" using fs by (auto simp: g_def)
      with first(4) tx run R have "s' = Rollback r s s3" "res = Inl (Errorf ''reconcile recurrence'' e)"
        by (auto simp: WithinTx_def)
      with rollback [OF assms(1) g3] that(1) show thesis by blast
    next
      case False
      then have "g True s1 = (s3, Inr ())" using fs by (cases out) (auto simp: g_def)
      with first(4) tx run R have "s' = s3" "res = Inr ()" by (auto simp: WithinTx_def)
      with first(1-3) fs g3 False that(3) [of s1 out] show thesis by blast
    qed
  qed
qed

lemma recordCobR_cases:
  assumes "good s1" "clean (cx_TenantID ev)" "trimmed (cx_TenantID ev)" "trimmed (cx_TxID ev)"
    and run: "recordCobR r w ev res s1 = (s', out)"
  obtains (err) e where "good s'" "out = Inl e" "\<not> errors_Is e ErrNotFound"
  | (quiet) "s' = s1" "out = Inr ()" "cobr_outcome w ev res (v_cobrs (vw s1) (cx_TenantID ev, cx_TxID ev)) = None"
  | (saved) c where "good s'" "out = Inr ()"
      "cobr_outcome w ev res (v_cobrs (vw s1) (cx_TenantID ev, cx_TxID ev)) = Some c"
      "vw s' = (vw s1)\<lparr>v_cobrs := (v_cobrs (vw s1))((cx_TenantID ev, cx_TxID ev) \<mapsto> c)\<rparr>"
proof -
  let ?k = "(cx_TenantID ev, cx_TxID ev)"
  have save: thesis
    if o: "cobr_outcome w ev res (v_cobrs (vw s1) ?k) = Some c"
      and sv: "tx_write ''save recurring charge'' (\<lambda>s. SaveCobR r s c) (tx_return ()) s1 = (s', out)" for c
  proof -
    have k: "cr_tenantID c = cx_TenantID ev" "cr_txID c = cx_TxID ev"
      using cobr_outcome_Some(1,2) [OF o assms(3,4)] cobrs_key [OF assms(1)] by blast+
    show thesis
    proof (cases "SaveCobR r s1 c")
      case (Inl e)
      with sv assms(1) err [of "Errorf ''save recurring charge'' e"] save_cobr_error show thesis by (auto simp: tx_defs)
    next
      case (Inr s2)
      have "clean (cr_tenantID c)" using k assms(2) by simp
      from save_cobr [OF assms(1) this Inr] saved [OF _ _ o] sv Inr k show thesis by (auto simp: tx_defs)
    qed
  qed
  show thesis
  proof (cases "FindCobRByTxID r s1 (cx_TenantID ev) (cx_TxID ev)")
    case (Inl e)
    show thesis
    proof (cases "errors_Is e ErrNotFound")
      case True
      have none: "v_cobrs (vw s1) ?k = None" by (rule find_cobr_none [OF assms(1,2) Inl True])
      show thesis
      proof (cases "first_cobr w ev res")
        case None
        with run Inl True have "s' = s1" "out = Inr ()" by (auto simp: recordCobR_def Let_def tx_defs)
        with none None quiet show thesis by (simp add: cobr_outcome_def)
      next
        case (Some c)
        with run Inl True have "tx_write ''save recurring charge'' (\<lambda>s. SaveCobR r s c) (tx_return ()) s1 = (s', out)"
          by (simp add: recordCobR_def Let_def tx_read_def)
        with Some none show thesis by (intro save [of c]) (auto simp: cobr_outcome_def)
      qed
    next
      case False
      with run Inl assms(1) err [of "Errorf ''load recurring charge'' e"] show thesis
        by (auto simp: recordCobR_def Let_def tx_defs)
    qed
  next
    case (Inr c0)
    have old: "v_cobrs (vw s1) ?k = Some c0" by (rule find_cobr [OF assms(1,2) Inr])
    show thesis
    proof (cases "cobr_outcome w ev res (Some c0)")
      case None
      with run Inr have "s' = s1" "out = Inr ()"
        by (auto simp: recordCobR_def Let_def tx_defs cobr_outcome_def split: if_splits sum.splits)
      with None old quiet show thesis by simp
    next
      case (Some c)
      with run Inr have "tx_write ''save recurring charge'' (\<lambda>s. SaveCobR r s c) (tx_return ()) s1 = (s', out)"
        by (auto simp: recordCobR_def Let_def tx_read_def cobr_outcome_def split: if_splits sum.splits)
      with Some old show thesis by (intro save [of c]) auto
    qed
  qed
qed

text \<open>The outcome of a handler, in terms of the view.\<close>

lemma HandleRecEvent_cases:
  assumes g: "good s" "clean (rx_TenantID ev)" "trimmed (rx_TenantID ev)" "trimmed (rx_IDRec ev)"
    and run: "HandleRecEvent r w s ev = (s', res)"
  obtains (same) "good s'" "vw s' = vw s" "res = Inr () \<Longrightarrow> (rx_TenantID ev, rx_EventKey ev) \<in> v_marks (vw s)"
  | (noted) "good s'" "res = Inr ()" "vw s' = (vw s)\<lparr>v_marks := insert (rx_TenantID ev, rx_EventKey ev) (v_marks (vw s))\<rparr>"
  | (moved) b bres m entry where "good s'" "res = Inr ()" "ws_recReader w = Some b"
      "BankGetRec b (rx_TenantID ev) (rx_IDRec ev) = Inr bres"
      "rec_outcome w ev bres (v_recs (vw s) (rx_TenantID ev, rx_IDRec ev)) = Some m"
      "vw s' = (vw s)\<lparr>v_marks := insert (rx_TenantID ev, rx_EventKey ev) (v_marks (vw s)),
         v_recs := (v_recs (vw s))((rx_TenantID ev, rx_IDRec ev) \<mapsto> m), v_audit := v_audit (vw s) @ [entry]\<rparr>"
      "NewRecurrenceTransitionEntry (ws_auditID w) [] (rx_TenantID ev) (rx_IDRec ev)
         (rec_status_string (rc_status m)) (ws_auditAt w) = Inr entry"
proof (cases "TrimSpace (rx_TenantID ev) = [] \<or> TrimSpace (rx_IDRec ev) = [] \<or> TrimSpace (rx_EventKey ev) = [] \<or>
    ws_recReader w = None")
  case True
  with run g(1) same show thesis by (auto simp: HandleRecEvent_def split: if_splits)
next
  case False
  then obtain b where b: "ws_recReader w = Some b" by auto
  define f where "f = (case BankGetRec b (rx_TenantID ev) (rx_IDRec ev) of
      Inl e \<Rightarrow> tx_fail e | Inr bres \<Rightarrow> recordRec r w ev bres)"
  have R: "reconcileRecurrence r (rx_TenantID ev) (rx_EventKey ev) f s = (s', res)"
    using run False b by (simp add: HandleRecEvent_def f_def)
  have fgood: "good s2" if "good s1" "f s1 = (s2, out)" for s1 s2 out
    using that by (cases "BankGetRec b (rx_TenantID ev) (rx_IDRec ev)")
      (auto simp: f_def tx_fail_def elim: recordRec_cases [OF that(1) g(2-4)])
  have fgood': "\<forall>s1 s2 out. good s1 \<longrightarrow> f s1 = (s2, out) \<longrightarrow> good s2" using fgood by blast
  from g(1,2) fgood' R show thesis
  proof (cases rule: reconcile_cases)
    case (err e)
    then show thesis using same by blast
  next
    case dup
    then show thesis using same g(1) by blast
  next
    case (ran s1 out)
    show thesis
    proof (cases "BankGetRec b (rx_TenantID ev) (rx_IDRec ev)")
      case (Inl e)
      then have "s' = s1" using ran by (simp add: f_def tx_fail_def)
      with ran noted show thesis by simp
    next
      case (Inr bres)
      then have rr: "recordRec r w ev bres s1 = (s', out)" using ran by (simp add: f_def)
      from ran(1) g(2-4) rr show thesis
      proof (cases rule: recordRec_cases)
        case (err e)
        with ran(7) show thesis by blast
      next
        case quiet
        with ran noted show thesis by simp
      next
        case (saved m entry)
        with ran Inr b moved [of b bres m entry] show thesis by simp
      qed
    qed
  qed
qed

lemma HandleCobREvent_cases:
  assumes g: "good s" "clean (cx_TenantID ev)" "trimmed (cx_TenantID ev)" "trimmed (cx_TxID ev)"
    and run: "HandleCobREvent r w s ev = (s', res)"
  obtains (same) "good s'" "vw s' = vw s" "res = Inr () \<Longrightarrow> (cx_TenantID ev, cx_EventKey ev) \<in> v_marks (vw s)"
  | (noted) "good s'" "res = Inr ()" "vw s' = (vw s)\<lparr>v_marks := insert (cx_TenantID ev, cx_EventKey ev) (v_marks (vw s))\<rparr>"
  | (moved) b bres c where "good s'" "res = Inr ()" "ws_cobrReader w = Some b"
      "BankGetCobR b (cx_TenantID ev) (cx_TxID ev) = Inr bres"
      "cobr_outcome w ev bres (v_cobrs (vw s) (cx_TenantID ev, cx_TxID ev)) = Some c"
      "vw s' = (vw s)\<lparr>v_marks := insert (cx_TenantID ev, cx_EventKey ev) (v_marks (vw s)),
         v_cobrs := (v_cobrs (vw s))((cx_TenantID ev, cx_TxID ev) \<mapsto> c)\<rparr>"
proof (cases "TrimSpace (cx_TenantID ev) = [] \<or> TrimSpace (cx_TxID ev) = [] \<or> TrimSpace (cx_EventKey ev) = [] \<or>
    ws_cobrReader w = None")
  case True
  with run g(1) same show thesis by (auto simp: HandleCobREvent_def split: if_splits)
next
  case False
  then obtain b where b: "ws_cobrReader w = Some b" by auto
  define f where "f = (case BankGetCobR b (cx_TenantID ev) (cx_TxID ev) of
      Inl e \<Rightarrow> tx_fail e | Inr bres \<Rightarrow> recordCobR r w ev bres)"
  have R: "reconcileRecurrence r (cx_TenantID ev) (cx_EventKey ev) f s = (s', res)"
    using run False b by (simp add: HandleCobREvent_def f_def)
  have fgood: "good s2" if "good s1" "f s1 = (s2, out)" for s1 s2 out
    using that by (cases "BankGetCobR b (cx_TenantID ev) (cx_TxID ev)")
      (auto simp: f_def tx_fail_def elim: recordCobR_cases [OF that(1) g(2-4)])
  have fgood': "\<forall>s1 s2 out. good s1 \<longrightarrow> f s1 = (s2, out) \<longrightarrow> good s2" using fgood by blast
  from g(1,2) fgood' R show thesis
  proof (cases rule: reconcile_cases)
    case (err e)
    then show thesis using same by blast
  next
    case dup
    then show thesis using same g(1) by blast
  next
    case (ran s1 out)
    show thesis
    proof (cases "BankGetCobR b (cx_TenantID ev) (cx_TxID ev)")
      case (Inl e)
      then have "s' = s1" using ran by (simp add: f_def tx_fail_def)
      with ran noted show thesis by simp
    next
      case (Inr bres)
      then have rr: "recordCobR r w ev bres s1 = (s', out)" using ran by (simp add: f_def)
      from ran(1) g(2-4) rr show thesis
      proof (cases rule: recordCobR_cases)
        case (err e)
        with ran(7) show thesis by blast
      next
        case quiet
        with ran noted show thesis by simp
      next
        case (saved c)
        with ran Inr b moved [of b bres c] show thesis by simp
      qed
    qed
  qed
qed

end

end
