(* ===== verification/RecSystem.thy ===== *)
theory RecSystem
  imports RecWebhook
begin

text \<open>
  The recurrence part of the system as a whole: the operations of the mandate and charge service and
  the two notification handlers, in any order, on one store. \<open>approved t i\<close> says that the bank has
  reported mandate \<open>i\<close> of tenant \<open>t\<close> as approved; a step whose handler reads such a status from the
  bank requires it. Identifiers in notifications and in the bank's answers carry no surrounding
  blanks. The last section interleaves parts of operations, where the guarantees end.
\<close>

section \<open>The system\<close>

inductive rec_step ::
  "'s repository \<Rightarrow> (string \<Rightarrow> bool) \<Rightarrow> (string \<Rightarrow> string \<Rightarrow> bool) \<Rightarrow> 's \<Rightarrow> bank_call list \<Rightarrow> 's \<Rightarrow> bool"
  for r :: "'s repository" and clean :: "string \<Rightarrow> bool" and approved :: "string \<Rightarrow> string \<Rightarrow> bool" where
  originate: "clean (TrimSpace (oi_TenantID inp)) \<Longrightarrow> OriginateCobR r svc s inp = (s', calls, res) \<Longrightarrow>
    rec_step r clean approved s calls s'"
| create: "clean (TrimSpace (mi_TenantID inp)) \<Longrightarrow>
    (\<forall>b t req bres. rs_rec svc = Some b \<longrightarrow> BankCreateRec b t req = Inr bres \<longrightarrow> trimmed (rr_IDRec bres)) \<Longrightarrow>
    CreateMandate r svc s inp = (s', calls, res') \<Longrightarrow> rec_step r clean approved s calls s'"
| revoke: "clean (TrimSpace t) \<Longrightarrow> CancelMandate r svc s t operator i = (s', calls, rres) \<Longrightarrow>
    rec_step r clean approved s calls s'"
| cancel: "clean (TrimSpace t) \<Longrightarrow> CancelCobR r svc s t operator x = (s', calls, cres) \<Longrightarrow>
    rec_step r clean approved s calls s'"
| rec_event: "clean (rx_TenantID rvt) \<Longrightarrow> trimmed (rx_TenantID rvt) \<Longrightarrow> trimmed (rx_IDRec rvt) \<Longrightarrow>
    (\<forall>b bres. ws_recReader w = Some b \<longrightarrow> BankGetRec b (rx_TenantID rvt) (rx_IDRec rvt) = Inr bres \<longrightarrow>
       RecStatus (rr_Status bres) = RecAprovada \<longrightarrow> approved (rx_TenantID rvt) (rx_IDRec rvt)) \<Longrightarrow>
    HandleRecEvent r (w :: unit webhook_service) s rvt = (s', ures) \<Longrightarrow> rec_step r clean approved s [] s'"
| cobr_event: "clean (cx_TenantID cvt) \<Longrightarrow> trimmed (cx_TenantID cvt) \<Longrightarrow> trimmed (cx_TxID cvt) \<Longrightarrow>
    HandleCobREvent r (w :: unit webhook_service) s cvt = (s', ures) \<Longrightarrow> rec_step r clean approved s [] s'"

definition rec_runs ::
  "'s repository \<Rightarrow> (string \<Rightarrow> bool) \<Rightarrow> (string \<Rightarrow> string \<Rightarrow> bool) \<Rightarrow> 's \<Rightarrow> 's \<Rightarrow> bool" where
  "rec_runs r clean approved = (\<lambda>s s'. \<exists>calls. rec_step r clean approved s calls s')\<^sup>*\<^sup>*"

section \<open>Progress of mandates and charges\<close>

definition rec_moved :: "rec \<Rightarrow> rec \<Rightarrow> bool" where
  "rec_moved m m' \<longleftrightarrow> m' = m \<or>
     \<not> rec_status_terminal (rc_status m) \<and>
     (\<exists>st at. m' = m\<lparr>rc_status := st, rc_updatedAt := at\<rparr> \<and> rec_rank (rc_status m) < rec_rank st)"

definition cobr_moved :: "cobr \<Rightarrow> cobr \<Rightarrow> bool" where
  "cobr_moved c c' \<longleftrightarrow> c' = c \<or>
     \<not> cobr_status_terminal (cr_status c) \<and>
     (\<exists>st at. c' = c\<lparr>cr_status := st, cr_updatedAt := at\<rparr> \<and> cobr_rank (cr_status c) < cobr_rank st)"

text \<open>Nothing is removed, and everything stored either stays as it is or climbs its lifecycle.\<close>

definition advances :: "view \<Rightarrow> view \<Rightarrow> bool" where
  "advances v v' \<longleftrightarrow>
     (\<forall>k m. v_recs v k = Some m \<longrightarrow> (\<exists>m'. v_recs v' k = Some m' \<and> rec_moved m m')) \<and>
     (\<forall>k c. v_cobrs v k = Some c \<longrightarrow> (\<exists>c'. v_cobrs v' k = Some c' \<and> cobr_moved c c'))"

definition bank_approved :: "(string \<Rightarrow> string \<Rightarrow> bool) \<Rightarrow> view \<Rightarrow> bool" where
  "bank_approved approved v \<longleftrightarrow>
     (\<forall>t i m. v_recs v (t, i) = Some m \<longrightarrow> rc_status m = RecAprovada \<longrightarrow> approved t i)"

lemma rec_moved_refl [simp]: "rec_moved m m"
  by (simp add: rec_moved_def)

lemma cobr_moved_refl [simp]: "cobr_moved c c"
  by (simp add: cobr_moved_def)

lemma rec_moved_trans: "rec_moved a b \<Longrightarrow> rec_moved b c \<Longrightarrow> rec_moved a c"
  unfolding rec_moved_def using less_trans by fastforce

lemma cobr_moved_trans: "cobr_moved a b \<Longrightarrow> cobr_moved b c \<Longrightarrow> cobr_moved a c"
  unfolding cobr_moved_def using less_trans by fastforce

lemma rec_moved_edge: "recTransitions (rc_status m) st \<Longrightarrow> rec_moved m (m\<lparr>rc_status := st, rc_updatedAt := at\<rparr>)"
  using rec_life.edge_rank rec_life.edge_terminal by (auto simp: rec_moved_def)

lemma cobr_moved_edge: "cobrTransitions (cr_status c) st \<Longrightarrow> cobr_moved c (c\<lparr>cr_status := st, cr_updatedAt := at\<rparr>)"
  using cobr_life.edge_rank cobr_life.edge_terminal by (auto simp: cobr_moved_def)

lemma advances_same: "v_recs v' = v_recs v \<Longrightarrow> v_cobrs v' = v_cobrs v \<Longrightarrow> advances v v'"
  by (simp add: advances_def)

lemma advances_trans: "advances u v \<Longrightarrow> advances v w \<Longrightarrow> advances u w"
  unfolding advances_def by (blast intro: rec_moved_trans cobr_moved_trans)

lemma advances_rec:
  assumes "v_recs v' = (v_recs v)(k \<mapsto> m')" "v_cobrs v' = v_cobrs v"
    and "\<And>m. v_recs v k = Some m \<Longrightarrow> rec_moved m m'"
  shows "advances v v'"
  using assms by (auto simp: advances_def)

lemma advances_cobr:
  assumes "v_cobrs v' = (v_cobrs v)(k \<mapsto> c')" "v_recs v' = v_recs v"
    and "\<And>c. v_cobrs v k = Some c \<Longrightarrow> cobr_moved c c'"
  shows "advances v v'"
  using assms by (auto simp: advances_def)

context write_contract
begin

lemma rec_step_safe:
  assumes "rec_step r clean approved s calls s'" "good s" "bank_approved approved (vw s)"
  shows "good s' \<and> advances (vw s) (vw s') \<and> bank_approved approved (vw s') \<and>
    (\<forall>t req. CallCreateCobR t req \<in> set calls \<longrightarrow> approved t (cc_IDRec req))"
  using assms(1)
proof cases
  case (originate inp svc res)
  from assms(2) originate show ?thesis
  proof (cases rule: originate_cases)
    case (failed e c bank price)
    with originate_check_new(2) [OF assms(2) originate(1) failed(5)] assms(3) show ?thesis
      by (auto simp: advances_same chargeable_def bank_approved_def)
  next
    case (recorded c bank price entry le)
    note new = originate_check_new [OF assms(2) originate(1) recorded(4)]
    have "advances (vw s) (vw s')"
      by (rule advances_cobr [of _ _ "(cr_tenantID c, cr_txID c)" c]) (use recorded new in auto)
    with recorded new(2) assms(3) show ?thesis by (auto simp: chargeable_def bank_approved_def)
  qed (use assms in \<open>auto simp: advances_same\<close>)
next
  case (create inp svc res')
  have calls: "CallCreateCobR t req \<notin> set calls" for t req
    using create(3) by (auto simp: CreateMandate_def Let_def split: sum.splits prod.splits if_splits)
  from assms(2) create(1,3) show ?thesis
  proof (cases rule: CreateMandate_cases)
    case same
    with assms calls show ?thesis by (auto simp: advances_same)
  next
    case (created bank dev price bres m entry le)
    have "rs_rec svc = Some bank"
      using created(2) by (auto simp: mandate_check_def Let_def bindE_Inr_iff split: if_splits option.splits)
    with create(2) created(3) have "trimmed (rr_IDRec bres)" by blast
    then have k: "rc_idRec m = rr_IDRec bres" using created(7) by (simp add: trimmed_def)
    have "advances (vw s) (vw s')"
      by (rule advances_rec [of _ _ "(rc_tenantID m, rc_idRec m)" m]) (use created k in auto)
    with created assms(3) calls show ?thesis by (auto simp: bank_approved_def)
  qed
next
  case (revoke t svc operator i rres)
  have calls: "CallCreateCobR t req \<notin> set calls" for t req
    using revoke(2) by (auto simp: CancelMandate_def Let_def split: sum.splits prod.splits if_splits)
  from assms(2) revoke show ?thesis
  proof (cases rule: CancelMandate_cases)
    case same
    with assms calls show ?thesis by (auto simp: advances_same)
  next
    case (cancelled m m' entry)
    note m' = RecTransition_Inr [OF cancelled(4,3)]
    have "advances (vw s) (vw s')"
      by (rule advances_rec [of _ _ "(TrimSpace t, TrimSpace i)" m']) (use cancelled m' in \<open>auto intro: rec_moved_edge\<close>)
    with cancelled m' assms(3) calls show ?thesis by (auto simp: bank_approved_def)
  qed
next
  case (cancel t svc operator x cres)
  have calls: "CallCreateCobR t req \<notin> set calls" for t req
    using cancel(2) by (auto simp: CancelCobR_def Let_def split: sum.splits prod.splits if_splits)
  from assms(2) cancel show ?thesis
  proof (cases rule: CancelCobR_cases)
    case same
    with assms calls show ?thesis by (auto simp: advances_same)
  next
    case (cancelled c c' entry)
    note c' = CobRTransition_Inr [OF cancelled(4,3)]
    have "advances (vw s) (vw s')"
      by (rule advances_cobr [of _ _ "(TrimSpace t, TrimSpace x)" c']) (use cancelled c' in \<open>auto intro: cobr_moved_edge\<close>)
    with cancelled assms(3) calls show ?thesis by (auto simp: bank_approved_def)
  qed
next
  case (rec_event rvt w ures)
  from assms(2) rec_event(2-4,6) show ?thesis
  proof (cases rule: HandleRecEvent_cases)
    case (moved b bres m entry)
    let ?k = "(rx_TenantID rvt, rx_IDRec rvt)"
    have key: "\<And>m0. v_recs (vw s) ?k = Some m0 \<Longrightarrow> rc_tenantID m0 = rx_TenantID rvt \<and> rc_idRec m0 = rx_IDRec rvt"
      using recs_key [OF assms(2)] by blast
    note o = rec_outcome_Some [OF moved(5) rec_event(3,4) key]
    have "advances (vw s) (vw s')"
      by (rule advances_rec [of _ _ ?k m]) (use moved o(4) in \<open>auto intro: rec_moved_edge\<close>)
    moreover have "bank_approved approved (vw s')"
      using assms(3) moved o(3) rec_event(5) by (auto simp: bank_approved_def)
    ultimately show ?thesis using moved(1) rec_event(1) by simp
  qed (use assms rec_event(1) in \<open>auto simp: advances_same bank_approved_def\<close>)
next
  case (cobr_event cvt w ures)
  from assms(2) cobr_event(2-5) show ?thesis
  proof (cases rule: HandleCobREvent_cases)
    case (moved b bres c)
    let ?k = "(cx_TenantID cvt, cx_TxID cvt)"
    have key: "\<And>c0. v_cobrs (vw s) ?k = Some c0 \<Longrightarrow> cr_tenantID c0 = cx_TenantID cvt \<and> cr_txID c0 = cx_TxID cvt"
      using cobrs_key [OF assms(2)] by blast
    note o = cobr_outcome_Some [OF moved(5) cobr_event(3,4) key]
    have "advances (vw s) (vw s')"
      by (rule advances_cobr [of _ _ ?k c]) (use moved o(3) in \<open>auto intro: cobr_moved_edge\<close>)
    then show ?thesis using moved assms(3) cobr_event(1) by (auto simp: bank_approved_def)
  qed (use assms cobr_event(1) in \<open>auto simp: advances_same bank_approved_def\<close>)
qed

lemma rec_runs_safe:
  assumes "rec_runs r clean approved s s'" "good s" "bank_approved approved (vw s)"
  shows "good s' \<and> advances (vw s) (vw s') \<and> bank_approved approved (vw s')"
  using assms(1) unfolding rec_runs_def
proof (induction rule: rtranclp_induct)
  case base
  with assms show ?case by (simp add: advances_same)
next
  case (step y z)
  then obtain calls where "rec_step r clean approved y calls z" by blast
  from rec_step_safe [OF this] step.IH show ?case using advances_trans by blast
qed

end

section \<open>Properties\<close>

text \<open>
  C5: the bank decides what may be debited. Run the service's operations and the notification
  handlers in any order on a store in which every approved mandate was approved by the bank. Then
  every charge any later step asks the bank to create is for a mandate that the bank itself
  reported as approved; the stored approvals stay a subset of the bank's; and nothing stored is
  ever lost or moved backwards: a mandate or charge keeps all its data but the status, terminal
  ones never change, and a changed status is strictly further in the lifecycle.
\<close>

theorem recurrence_authority:
  assumes "store_ok s0" "bank_approved approved (store_view s0)"
    and "rec_runs txView nul_free approved s0 s" "rec_step txView nul_free approved s calls s'"
  shows "(\<forall>t req. CallCreateCobR t req \<in> set calls \<longrightarrow> approved t (cc_IDRec req)) \<and>
    bank_approved approved (store_view s') \<and> advances (store_view s0) (store_view s')"
proof -
  note run = wmem.rec_runs_safe [OF assms(3,1,2)]
  then have "store_ok s" "bank_approved approved (store_view s)" by blast+
  from wmem.rec_step_safe [OF assms(4) this] run show ?thesis using advances_trans by blast
qed

definition sample_grants :: "string \<Rightarrow> string \<Rightarrow> bool" where
  "sample_grants t i \<longleftrightarrow> t = ''t1'' \<and> i = ''RR1''"

lemma sample_grants_ok: "bank_approved sample_grants (store_view sample_mandate_store)"
proof -
  have "at_key (st_recs sample_mandate_store) (t, i) = Some m \<Longrightarrow> sample_grants t i" for t i m
    using keyed_at [of rc_tenantID rc_idRec "st_recs sample_mandate_store" t i m] sample_mandate_store_ok
    by (auto simp: store_ok_def sample_mandate_store_def sample_approved_def sample_rec_def sample_grants_def at_key_def
        split: if_splits)
  then show ?thesis by (auto simp: bank_approved_def)
qed

theorem recurrence_authority_witness:
  "\<exists>s' call. OriginateCobR txView sample_recurrence sample_mandate_store sample_originate = (s', [call], Inr sample_cobr) \<and>
     (\<forall>t req. call = CallCreateCobR t req \<longrightarrow> sample_grants t (cc_IDRec req))"
proof -
  obtain s' call where run: "OriginateCobR txView sample_recurrence sample_mandate_store sample_originate = (s', [call], Inr sample_cobr)"
    using sample_originate_run by blast
  have "nul_free (TrimSpace (oi_TenantID sample_originate))" by (simp add: nul_free_def)
  from rec_step.originate [where clean = nul_free and approved = sample_grants, OF this run]
  have "rec_step txView nul_free sample_grants sample_mandate_store [call] s'" .
  moreover have "rec_runs txView nul_free sample_grants sample_mandate_store sample_mandate_store" by (simp add: rec_runs_def)
  ultimately show ?thesis
    using recurrence_authority [OF sample_mandate_store_ok sample_grants_ok, of sample_mandate_store "[call]" s'] run by auto
qed

lemma HandleRecEvent_duplicate:
  assumes "at_key (st_processed s) (rx_TenantID ev, rx_EventKey ev) \<noteq> None"
    and "TrimSpace (rx_TenantID ev) \<noteq> []" "TrimSpace (rx_IDRec ev) \<noteq> []" "TrimSpace (rx_EventKey ev) \<noteq> []" "ws_recReader w \<noteq> None"
  shows "HandleRecEvent txView w s ev = (s, Inr ())"
  using assms by (auto simp: HandleRecEvent_def reconcileRecurrence_def WithinTx_def tx_defs markProcessed_def at_key_def
      split: if_splits)

text \<open>
  When the bank's answer has to be recorded: the mandate is known and the reported status is a step of
  its lifecycle, or it is unknown, the bank's description makes a mandate, and the reported status is
  the initial one or a step from it.
\<close>

definition recordable :: "'o webhook_service \<Rightarrow> rec_event \<Rightarrow> rec_result \<Rightarrow> rec option \<Rightarrow> bool" where
  "recordable w ev res old \<longleftrightarrow>
     (case old of
        Some m \<Rightarrow> recTransitions (rc_status m) (RecStatus (rr_Status res))
      | None \<Rightarrow>
          (case NewDevedor (recDevedorDoc (rv_Devedor (rr_Vinculo res))) (rd_Nome (rv_Devedor (rr_Vinculo res))) of
             Inl _ \<Rightarrow> False
           | Inr dev \<Rightarrow>
               (\<exists>m. NewRec \<lparr>rp_IDRec = rx_IDRec ev, rp_TenantID = rx_TenantID ev,
                      rp_BankID = (if TrimSpace (rx_BankID ev) = [] then BankIDC6 else TrimSpace (rx_BankID ev)),
                      rp_Contrato = rv_Contrato (rr_Vinculo res), rp_Devedor = dev,
                      rp_DataInicial = rk_DataInicial (rr_Calendario res),
                      rp_Periodicidade = RecPeriodicidade (rk_Periodicidade (rr_Calendario res)),
                      rp_ValorCents = rr_ValorRecCents res, rp_LocID = 0, rp_JornadaTxID = []\<rparr> (ws_bornAt w) = Inr m) \<and>
               (RecStatus (rr_Status res) = RecCriada \<or> recTransitions RecCriada (RecStatus (rr_Status res)))))"

lemma recordable_outcome:
  assumes "recordable w ev res old"
  shows "\<exists>m. rec_outcome w ev res old = Some m \<and> rec_status_valid (rc_status m)"
proof (cases old)
  case (Some m0)
  with assms have "recTransitions (rc_status m0) (RecStatus (rr_Status res))" by (simp add: recordable_def)
  with Some recTransitions_valid [OF this] show ?thesis
    by (auto simp: rec_outcome_def RecTransition_def recTransitions_def rec_status_terminal_def)
next
  case None
  with assms obtain dev m0 where d: "NewDevedor (recDevedorDoc (rv_Devedor (rr_Vinculo res))) (rd_Nome (rv_Devedor (rr_Vinculo res))) = Inr dev"
    and n: "NewRec \<lparr>rp_IDRec = rx_IDRec ev, rp_TenantID = rx_TenantID ev,
        rp_BankID = (if TrimSpace (rx_BankID ev) = [] then BankIDC6 else TrimSpace (rx_BankID ev)),
        rp_Contrato = rv_Contrato (rr_Vinculo res), rp_Devedor = dev, rp_DataInicial = rk_DataInicial (rr_Calendario res),
        rp_Periodicidade = RecPeriodicidade (rk_Periodicidade (rr_Calendario res)),
        rp_ValorCents = rr_ValorRecCents res, rp_LocID = 0, rp_JornadaTxID = []\<rparr> (ws_bornAt w) = Inr m0"
    and st: "RecStatus (rr_Status res) = RecCriada \<or> recTransitions RecCriada (RecStatus (rr_Status res))"
    by (auto simp: recordable_def split: sum.splits)
  have "rc_status m0 = RecCriada" using NewRec_Inr [OF n] by simp
  with st have "RecStatus (rr_Status res) = rc_status m0 \<or> (\<exists>m. RecTransition m0 (RecStatus (rr_Status res)) (ws_movedAt w) = Inr m)"
    by (auto simp: RecTransition_def recTransitions_def rec_status_terminal_def)
  with d n obtain m where "first_rec w ev res = Some m" unfolding first_rec_def Let_def by fastforce
  moreover from st have "rec_status_valid (RecStatus (rr_Status res))" by (auto simp: recTransitions_def)
  ultimately show ?thesis using None first_rec_Some(3) [of w ev res m] by (auto simp: rec_outcome_def)
qed

text \<open>In memory no write of the handler fails, so what has to be recorded is.\<close>

lemma recordRec_mem:
  assumes "nul_free (rx_TenantID ev)" "trimmed (rx_TenantID ev)" "trimmed (rx_IDRec ev)" "rx_TenantID ev \<noteq> []" "rx_IDRec ev \<noteq> []"
    and "TrimSpace (ws_auditID w) \<noteq> []" "store_ok s"
    and "recordable w ev res (at_key (st_recs s) (rx_TenantID ev, rx_IDRec ev))"
  shows "\<exists>s'. recordRec txView w ev res s = (s', Inr ())"
proof -
  let ?old = "at_key (st_recs s) (rx_TenantID ev, rx_IDRec ev)"
  obtain m where m: "rec_outcome w ev res ?old = Some m" "rec_status_valid (rc_status m)"
    using recordable_outcome [OF assms(8)] by blast
  have t: "TrimSpace (rx_TenantID ev) = rx_TenantID ev" "TrimSpace (rx_IDRec ev) = rx_IDRec ev"
    using assms(2,3) by simp_all
  have tr: "TrimSpace ''CRIADA'' = ''CRIADA''" "TrimSpace ''APROVADA'' = ''APROVADA''" "TrimSpace ''REJEITADA'' = ''REJEITADA''"
    "TrimSpace ''EXPIRADA'' = ''EXPIRADA''" "TrimSpace ''CANCELADA'' = ''CANCELADA''"
    by (simp_all add: TrimSpace_plain plain_byte_def less_eq_char_def)
  have "\<exists>e. NewRecurrenceTransitionEntry (ws_auditID w) [] (rx_TenantID ev) (rx_IDRec ev)
      (rec_status_string (rc_status m)) (ws_auditAt w) = Inr e"
    using assms(4-6) m(2) t
    by (cases "rc_status m") (simp_all add: NewRecurrenceTransitionEntry_def Let_def recurrenceActionByStatus_def tr)
  then have sv: "\<exists>s'. save_rec_audited txView w ev m s1 = (s', Inr ())" for s1
    by (auto simp: save_rec_audited_def tx_defs saveRec_def appendAudit_def)
  have f: "findRecByID s (rx_TenantID ev) (rx_IDRec ev) = (case ?old of None \<Rightarrow> Inl ErrNotFound | Some m \<Rightarrow> Inr m)"
    using assms(1) by (auto simp: findRecByID_def lookup_def at_key_def split: option.splits)
  show ?thesis
    using m(1) sv f
    by (cases ?old) (auto simp: recordRec_def Let_def tx_read_def rec_outcome_def split: if_splits sum.splits)
qed

lemma HandleRecEvent_records:
  assumes "store_ok s" "nul_free (rx_TenantID ev)" "trimmed (rx_TenantID ev)" "trimmed (rx_IDRec ev)"
    and "rx_TenantID ev \<noteq> []" "rx_IDRec ev \<noteq> []" "TrimSpace (rx_EventKey ev) \<noteq> []" "TrimSpace (ws_auditID w) \<noteq> []"
    and "at_key (st_processed s) (rx_TenantID ev, rx_EventKey ev) = None"
    and "ws_recReader w = Some b" "BankGetRec b (rx_TenantID ev) (rx_IDRec ev) = Inr bres"
    and "recordable w ev bres (at_key (st_recs s) (rx_TenantID ev, rx_IDRec ev))"
    and run: "HandleRecEvent txView w s ev = (s', res)"
  shows "res = Inr () \<and> rec_outcome w ev bres (at_key (st_recs s) (rx_TenantID ev, rx_IDRec ev)) \<noteq> None \<and>
    at_key (st_recs s') (rx_TenantID ev, rx_IDRec ev) = rec_outcome w ev bres (at_key (st_recs s) (rx_TenantID ev, rx_IDRec ev)) \<and>
    (\<exists>entry. st_audit s' = st_audit s @ [entry])"
proof -
  let ?s = "s\<lparr>st_processed := put (key (rx_TenantID ev) (rx_EventKey ev)) () (st_processed s)\<rparr>"
  let ?k = "(rx_TenantID ev, rx_IDRec ev)"
  have mark: "markProcessed s (rx_TenantID ev) (rx_EventKey ev) = Inr (True, ?s)"
    using assms(2,9) by (auto simp: markProcessed_def Let_def at_key_def split: option.splits)
  have g: "store_ok ?s" using mem.mark_first [OF assms(1,2)] mark by simp
  have old: "at_key (st_recs ?s) ?k = at_key (st_recs s) ?k" by simp
  obtain s2 where rec: "recordRec txView w ev bres ?s = (s2, Inr ())"
    using recordRec_mem [OF assms(2-6,8) g, of bres] assms(12) by auto
  then have s': "s' = s2" "res = Inr ()"
    using run assms(3-7,10,11) mark by (auto simp: HandleRecEvent_def reconcileRecurrence_def WithinTx_def tx_mark_def)
  from g assms(2-4) rec show ?thesis
  proof (cases rule: wmem.recordRec_cases)
    case quiet
    with recordable_outcome [OF assms(12)] show ?thesis by auto
  next
    case (saved m entry)
    have "at_key (st_recs s2) = (at_key (st_recs s))(?k \<mapsto> m)" "st_audit s2 = st_audit s @ [entry]"
      using arg_cong [OF saved(4), of v_recs] arg_cong [OF saved(4), of v_audit] by simp_all
    with s' saved(3) show ?thesis by simp
  qed auto
qed

text \<open>Nothing is recorded that the bank does not back, and nothing twice.\<close>

lemma mandate_moves_only:
  fixes w :: "'o webhook_service"
  assumes "store_ok s" "nul_free (rx_TenantID ev)" "trimmed (rx_TenantID ev)" "trimmed (rx_IDRec ev)"
    and "HandleRecEvent txView w s ev = (s', res)" and k: "k = (rx_TenantID ev, rx_IDRec ev)"
  shows "(\<forall>e. res = Inl e \<longrightarrow> store_view s' = store_view s) \<and>
    (res = Inr () \<longrightarrow> at_key (st_processed s') (rx_TenantID ev, rx_EventKey ev) \<noteq> None \<and>
       (\<forall>w' :: 'o webhook_service. ws_recReader w' \<noteq> None \<longrightarrow> HandleRecEvent txView w' s' ev = (s', Inr ()))) \<and>
    (at_key (st_recs s') k \<noteq> at_key (st_recs s) k \<longrightarrow>
       (\<exists>b bres m entry. ws_recReader w = Some b \<and> BankGetRec b (rx_TenantID ev) (rx_IDRec ev) = Inr bres \<and>
          at_key (st_recs s') k = Some m \<and> rc_status m = RecStatus (rr_Status bres) \<and>
          (\<forall>m0. at_key (st_recs s) k = Some m0 \<longrightarrow> recTransitions (rc_status m0) (rc_status m)) \<and>
          st_audit s' = st_audit s @ [entry] \<and>
          recurrenceActionByStatus (TrimSpace (rr_Status bres)) = Some (au_action entry))) \<and>
    (\<forall>j. j \<noteq> k \<longrightarrow> at_key (st_recs s') j = at_key (st_recs s) j) \<and> at_key (st_cobrs s') = at_key (st_cobrs s)"
proof -
  have again: "HandleRecEvent txView w' s' ev = (s', Inr ())"
    if "res = Inr ()" "at_key (st_processed s') (rx_TenantID ev, rx_EventKey ev) \<noteq> None" "ws_recReader w' \<noteq> None"
    for w' :: "'o webhook_service"
    using that assms(5) HandleRecEvent_duplicate [of s' ev w'] by (auto simp: HandleRecEvent_def split: if_splits)
  from assms(1-5) show ?thesis
  proof (cases rule: wmem.HandleRecEvent_cases)
    case same
    have "at_key (st_recs s') = at_key (st_recs s)" "at_key (st_cobrs s') = at_key (st_cobrs s)"
      using arg_cong [OF same(2), of v_recs] arg_cong [OF same(2), of v_cobrs] by simp_all
    moreover have "res = Inr () \<Longrightarrow> at_key (st_processed s') (rx_TenantID ev, rx_EventKey ev) \<noteq> None"
      using same arg_cong [OF same(2), of v_marks] by (metis mem_marks)
    ultimately show ?thesis using same(2) again by auto
  next
    case noted
    have "at_key (st_recs s') = at_key (st_recs s)" "at_key (st_cobrs s') = at_key (st_cobrs s)"
      using arg_cong [OF noted(3), of v_recs] arg_cong [OF noted(3), of v_cobrs] by simp_all
    moreover have "at_key (st_processed s') (rx_TenantID ev, rx_EventKey ev) \<noteq> None"
      unfolding mem_marks [symmetric] noted(3) by simp
    ultimately show ?thesis using noted(2) again by auto
  next
    case (moved b bres m entry)
    have v: "at_key (st_recs s') = (at_key (st_recs s))(k \<mapsto> m)" "at_key (st_cobrs s') = at_key (st_cobrs s)"
      "st_audit s' = st_audit s @ [entry]"
      using arg_cong [OF moved(6), of v_recs] arg_cong [OF moved(6), of v_cobrs] arg_cong [OF moved(6), of v_audit] k
      by simp_all
    have mark: "at_key (st_processed s') (rx_TenantID ev, rx_EventKey ev) \<noteq> None"
      unfolding mem_marks [symmetric] moved(6) by simp
    have key: "\<And>m0. v_recs (store_view s) (rx_TenantID ev, rx_IDRec ev) = Some m0 \<Longrightarrow>
        rc_tenantID m0 = rx_TenantID ev \<and> rc_idRec m0 = rx_IDRec ev"
      using mem.recs_key [OF assms(1)] by blast
    note o = rec_outcome_Some [OF moved(5) assms(3,4) key]
    have "recurrenceActionByStatus (TrimSpace (rr_Status bres)) = Some (au_action entry)"
      using moved(7) o(3) by (auto simp: NewRecurrenceTransitionEntry_def Let_def zero_entry_def split: if_splits option.splits)
    moreover have "\<forall>m0. at_key (st_recs s) k = Some m0 \<longrightarrow> recTransitions (rc_status m0) (rc_status m)"
      using o(3,4) k by auto
    ultimately show ?thesis using moved(2-4) v o(3) again mark by auto
  qed
qed

text \<open>
  C11: a mandate notification records what the bank says, once. Whatever the notification claims:
  an error writes nothing; an acknowledged one leaves its event marked, and redelivering it changes
  nothing whatever the bank then answers. A stored mandate changes only if it is the notified one
  and the bank, asked back, reports the status it then has; that change follows an edge of the
  lifecycle (or is the first sight of the mandate) and appends exactly one audit entry, with the
  action of the new status. And it does change: for an event not seen before, whose answer from the bank
  is \<open>recordable\<close>, the call succeeds and the mandate is stored with exactly the reported status, a known one
  otherwise unchanged, with one audit entry. No other mandate and no charge is touched.
\<close>

theorem mandate_follows_bank:
  fixes w :: "'o webhook_service"
  assumes "store_ok s" "nul_free (rx_TenantID ev)" "trimmed (rx_TenantID ev)" "trimmed (rx_IDRec ev)"
    and "HandleRecEvent txView w s ev = (s', res)" and k: "k = (rx_TenantID ev, rx_IDRec ev)"
  shows "(\<forall>e. res = Inl e \<longrightarrow> store_view s' = store_view s) \<and>
    (res = Inr () \<longrightarrow> at_key (st_processed s') (rx_TenantID ev, rx_EventKey ev) \<noteq> None \<and>
       (\<forall>w' :: 'o webhook_service. ws_recReader w' \<noteq> None \<longrightarrow> HandleRecEvent txView w' s' ev = (s', Inr ()))) \<and>
    (at_key (st_recs s') k \<noteq> at_key (st_recs s) k \<longrightarrow>
       (\<exists>b bres m entry. ws_recReader w = Some b \<and> BankGetRec b (rx_TenantID ev) (rx_IDRec ev) = Inr bres \<and>
          at_key (st_recs s') k = Some m \<and> rc_status m = RecStatus (rr_Status bres) \<and>
          (\<forall>m0. at_key (st_recs s) k = Some m0 \<longrightarrow> recTransitions (rc_status m0) (rc_status m)) \<and>
          st_audit s' = st_audit s @ [entry] \<and>
          recurrenceActionByStatus (TrimSpace (rr_Status bres)) = Some (au_action entry))) \<and>
    (\<forall>b bres. rx_TenantID ev \<noteq> [] \<longrightarrow> rx_IDRec ev \<noteq> [] \<longrightarrow> TrimSpace (rx_EventKey ev) \<noteq> [] \<longrightarrow> TrimSpace (ws_auditID w) \<noteq> [] \<longrightarrow>
       at_key (st_processed s) (rx_TenantID ev, rx_EventKey ev) = None \<longrightarrow>
       ws_recReader w = Some b \<longrightarrow> BankGetRec b (rx_TenantID ev) (rx_IDRec ev) = Inr bres \<longrightarrow>
       recordable w ev bres (at_key (st_recs s) k) \<longrightarrow>
       res = Inr () \<and> (\<exists>m entry. at_key (st_recs s') k = Some m \<and> rc_status m = RecStatus (rr_Status bres) \<and>
         (\<forall>m0. at_key (st_recs s) k = Some m0 \<longrightarrow>
            m = m0\<lparr>rc_status := RecStatus (rr_Status bres), rc_updatedAt := ws_movedAt w\<rparr>) \<and>
         st_audit s' = st_audit s @ [entry])) \<and>
    (\<forall>j. j \<noteq> k \<longrightarrow> at_key (st_recs s') j = at_key (st_recs s) j) \<and> at_key (st_cobrs s') = at_key (st_cobrs s)"
proof -
  have key: "rc_tenantID m0 = rx_TenantID ev \<and> rc_idRec m0 = rx_IDRec ev" if "at_key (st_recs s) k = Some m0" for m0
    using mem.recs_key [OF assms(1)] that k by simp
  have rcd: "res = Inr () \<and> (\<exists>m entry. at_key (st_recs s') k = Some m \<and> rc_status m = RecStatus (rr_Status bres) \<and>
         (\<forall>m0. at_key (st_recs s) k = Some m0 \<longrightarrow>
            m = m0\<lparr>rc_status := RecStatus (rr_Status bres), rc_updatedAt := ws_movedAt w\<rparr>) \<and>
         st_audit s' = st_audit s @ [entry])"
    if "rx_TenantID ev \<noteq> []" "rx_IDRec ev \<noteq> []" "TrimSpace (rx_EventKey ev) \<noteq> []" "TrimSpace (ws_auditID w) \<noteq> []"
       "at_key (st_processed s) (rx_TenantID ev, rx_EventKey ev) = None"
       "ws_recReader w = Some b" "BankGetRec b (rx_TenantID ev) (rx_IDRec ev) = Inr bres"
       "recordable w ev bres (at_key (st_recs s) k)" for b bres
  proof -
    note h = HandleRecEvent_records [OF assms(1-4) that [unfolded k] assms(5), folded k]
    then obtain m where o: "rec_outcome w ev bres (at_key (st_recs s) k) = Some m" by auto
    with h rec_outcome_Some(3,4) [OF o assms(3,4) key] show ?thesis by auto
  qed
  then show ?thesis using mandate_moves_only [OF assms] by blast
qed

section \<open>A sample notification\<close>

definition sample_rec_result :: rec_result where
  "sample_rec_result = \<lparr>rr_IDRec = ''RR1'', rr_Status = ''APROVADA'',
     rr_Vinculo = \<lparr>rv_Contrato = ''k'', rv_Devedor = \<lparr>rd_CPF = ''12345678901'', rd_CNPJ = [], rd_Nome = ''Ana''\<rparr>, rv_Objeto = []\<rparr>,
     rr_Calendario = \<lparr>rk_DataInicial = ''2026-01-31'', rk_Periodicidade = ''MENSAL''\<rparr>,
     rr_Recebedor = \<lparr>re_ISPB = [], re_CNPJ = [], re_CPF = [], re_Nome = []\<rparr>, rr_PoliticaRetentativa = [],
     rr_TipoJornada = [], rr_LocID = 0, rr_Location = [], rr_ValorRecCents = 100,
     rr_DadosQR = \<lparr>qr_Jornada = [], qr_PixCopiaECola = []\<rparr>\<rparr>"

definition sample_rec_bank :: rec_provider where
  "sample_rec_bank = \<lparr>BankCreateRec = (\<lambda>t req. Inr sample_rec_result), BankGetRec = (\<lambda>t i. Inr sample_rec_result),
     BankGetRecForQR = (\<lambda>t i x. Inr sample_rec_result), BankCancelRec = (\<lambda>t i. Inr sample_rec_result)\<rparr>"

definition sample_rec_service :: "outbox webhook_service" where
  "sample_rec_service = sample_service\<lparr>ws_recReader := Some sample_rec_bank, ws_cobrReader := Some sample_cobr_bank\<rparr>"

definition sample_rec_event :: rec_event where
  "sample_rec_event = \<lparr>rx_TenantID = ''t1'', rx_IDRec = ''RR1'', rx_EventKey = ''k1'', rx_BankID = []\<rparr>"

definition sample_created_store :: store where
  "sample_created_store = NewStore\<lparr>st_recs := [(key ''t1'' ''RR1'', sample_rec)]\<rparr>"

lemma sample_rec_fields [simp]:
  "rx_TenantID sample_rec_event = ''t1''" "rx_IDRec sample_rec_event = ''RR1''" "rx_EventKey sample_rec_event = ''k1''"
  "rr_Status sample_rec_result = ''APROVADA''" "ws_recReader sample_rec_service = Some sample_rec_bank"
  "BankGetRec sample_rec_bank t i = Inr sample_rec_result" "ws_auditID sample_rec_service = ''a1''"
  by (simp_all add: sample_rec_event_def sample_rec_result_def sample_rec_service_def sample_rec_bank_def sample_service_def)

lemma sample_rec_good:
  "store_ok sample_created_store" "nul_free (rx_TenantID sample_rec_event)" "trimmed (rx_TenantID sample_rec_event)"
  "trimmed (rx_IDRec sample_rec_event)"
  by (simp_all add: sample_created_store_def NewStore_def store_ok_def keyed_def unique_keys_def sample_rec_def
      nul_free_def trimmed_def)

text \<open>The first notification that the bank backs with an approval is recorded.\<close>

lemma sample_rec_run:
  "\<exists>s' m. HandleRecEvent txView sample_rec_service sample_created_store sample_rec_event = (s', Inr ()) \<and>
     at_key (st_recs s') (''t1'', ''RR1'') = Some m \<and> rc_status m = RecAprovada"
proof -
  let ?m = "sample_rec\<lparr>rc_status := RecAprovada, rc_updatedAt := ws_movedAt sample_rec_service\<rparr>"
  have st: "RecStatus ''APROVADA'' = RecAprovada" by (simp add: RecStatus_def)
  have m: "RecTransition sample_rec RecAprovada (ws_movedAt sample_rec_service) = Inr ?m" "rc_status sample_rec = RecCriada"
    "rc_tenantID sample_rec = ''t1''" "rc_idRec sample_rec = ''RR1''"
    by (simp_all add: RecTransition_def sample_rec_def recTransitions_def rec_status_terminal_def)
  have t: "TrimSpace ''a1'' = ''a1''" "TrimSpace ''APROVADA'' = ''APROVADA''"
    by (simp_all add: TrimSpace_plain plain_byte_def less_eq_char_def)
  obtain en where en: "NewRecurrenceTransitionEntry ''a1'' [] ''t1'' ''RR1'' ''APROVADA'' (ws_auditAt sample_rec_service) = Inr en"
    by (simp add: NewRecurrenceTransitionEntry_def Let_def t recurrenceActionByStatus_def)
  let ?s = "sample_created_store\<lparr>st_processed := [(key ''t1'' ''k1'', ())]\<rparr>"
  have mark: "markProcessed sample_created_store ''t1'' ''k1'' = Inr (True, ?s)"
    by (simp add: markProcessed_def Let_def sample_created_store_def NewStore_def)
  have "recordRec txView sample_rec_service sample_rec_event sample_rec_result ?s =
      (?s\<lparr>st_recs := [(key ''t1'' ''RR1'', ?m)], st_audit := [en]\<rparr>, Inr ())"
    using m en
    by (simp add: recordRec_def Let_def st tx_defs findRecByID_def lookup_def sample_created_store_def NewStore_def save_rec_audited_def
        saveRec_def appendAudit_def)
  then have "HandleRecEvent txView sample_rec_service sample_created_store sample_rec_event =
      (?s\<lparr>st_recs := [(key ''t1'' ''RR1'', ?m)], st_audit := [en]\<rparr>, Inr ())"
    using mark by (simp add: HandleRecEvent_def reconcileRecurrence_def WithinTx_def tx_mark_def)
  then show ?thesis by (simp add: at_key_def nul_free_def)
qed

theorem mandate_follows_bank_witness:
  "\<exists>s'. HandleRecEvent txView sample_rec_service sample_created_store sample_rec_event = (s', Inr ()) \<and>
     length (st_audit s') = 1 \<and> HandleRecEvent txView sample_rec_service s' sample_rec_event = (s', Inr ())"
proof -
  obtain s' m where run: "HandleRecEvent txView sample_rec_service sample_created_store sample_rec_event = (s', Inr ())"
    and m: "at_key (st_recs s') (''t1'', ''RR1'') = Some m" "rc_status m = RecAprovada" using sample_rec_run by blast
  have old: "at_key (st_recs sample_created_store) (''t1'', ''RR1'') = Some sample_rec" "rc_status sample_rec = RecCriada"
    "st_audit sample_created_store = []"
    by (simp_all add: sample_created_store_def at_key_def nul_free_def sample_rec_def NewStore_def)
  with m have "at_key (st_recs s') (''t1'', ''RR1'') \<noteq> at_key (st_recs sample_created_store) (''t1'', ''RR1'')" by auto
  with mandate_follows_bank [OF sample_rec_good run refl] old(3) run show ?thesis by auto
qed

text \<open>
  an approval at the bank makes the mandate chargeable. When the first delivery of a notification
  names a stored mandate that is still CRIADA and the bank reports it APROVADA, the handler succeeds
  and the gate of the charge service then lets the mandate through, with nothing else about it changed.
\<close>

theorem approval_makes_chargeable:
  assumes "store_ok s" "nul_free (rx_TenantID ev)" "trimmed (rx_TenantID ev)" "trimmed (rx_IDRec ev)"
    and nonblank: "rx_TenantID ev \<noteq> []" "rx_IDRec ev \<noteq> []" "TrimSpace (rx_EventKey ev) \<noteq> []" "TrimSpace (ws_auditID w) \<noteq> []"
    and stored: "at_key (st_recs s) (rx_TenantID ev, rx_IDRec ev) = Some m" "rc_status m = RecCriada"
    and first: "at_key (st_processed s) (rx_TenantID ev, rx_EventKey ev) = None"
    and bank: "ws_recReader w = Some b" "BankGetRec b (rx_TenantID ev) (rx_IDRec ev) = Inr bres" "rr_Status bres = ''APROVADA''"
  shows "\<exists>s'. HandleRecEvent txView w s ev = (s', Inr ()) \<and>
    approved_mandate txView s' (rx_TenantID ev) (rx_IDRec ev) = Inr (m\<lparr>rc_status := RecAprovada, rc_updatedAt := ws_movedAt w\<rparr>)"
proof -
  let ?t = "rx_TenantID ev" and ?i = "rx_IDRec ev" and ?m = "m\<lparr>rc_status := RecAprovada, rc_updatedAt := ws_movedAt w\<rparr>"
  have st: "RecStatus ''APROVADA'' = RecAprovada" by (simp add: RecStatus_def)
  have key: "rc_tenantID m = ?t" "rc_idRec m = ?i" using mem.recs_key [OF assms(1), of ?t ?i m] stored(1) by simp_all
  have tr: "RecTransition m RecAprovada (ws_movedAt w) = Inr ?m"
    using stored(2) by (simp add: RecTransition_def recTransitions_def rec_status_terminal_def)
  have "TrimSpace ''APROVADA'' = ''APROVADA''" by (simp add: TrimSpace_plain plain_byte_def less_eq_char_def)
  then obtain en where en: "NewRecurrenceTransitionEntry (ws_auditID w) [] ?t ?i ''APROVADA'' (ws_auditAt w) = Inr en"
    using nonblank assms(3,4) by (simp add: NewRecurrenceTransitionEntry_def Let_def trimmed_def recurrenceActionByStatus_def)
  obtain s1 where mark: "markProcessed s ?t (rx_EventKey ev) = Inr (True, s1)" "st_recs s1 = st_recs s" "st_audit s1 = st_audit s"
    using first assms(2) by (auto simp: markProcessed_def Let_def at_key_def)
  have "findRecByID s1 ?t ?i = Inr m" using stored(1) mark(2) by (simp add: findRecByID_def lookup_def at_key_def split: if_splits)
  then have "recordRec txView w ev bres s1 =
      (s1\<lparr>st_recs := put (key ?t ?i) ?m (st_recs s), st_audit := st_audit s @ [en]\<rparr>, Inr ())"
    using tr en key stored(2) mark
    by (simp add: recordRec_def Let_def bank st tx_defs save_rec_audited_def saveRec_def appendAudit_def)
  then have "HandleRecEvent txView w s ev =
      (s1\<lparr>st_recs := put (key ?t ?i) ?m (st_recs s), st_audit := st_audit s @ [en]\<rparr>, Inr ())"
    using mark nonblank assms(3,4)
    by (simp add: HandleRecEvent_def bank reconcileRecurrence_def WithinTx_def tx_mark_def trimmed_def)
  moreover have "approved_mandate txView (s1\<lparr>st_recs := put (key ?t ?i) ?m (st_recs s), st_audit := st_audit s @ [en]\<rparr>) ?t ?i = Inr ?m"
    using key by (simp add: approved_mandate_def findRecByID_def lookup_def RequireApprovedMandate_def)
  ultimately show ?thesis by blast
qed

theorem approval_makes_chargeable_witness:
  "\<exists>s' m. HandleRecEvent txView sample_rec_service sample_created_store sample_rec_event = (s', Inr ()) \<and>
     approved_mandate txView s' ''t1'' ''RR1'' = Inr m"
proof -
  have "TrimSpace (ws_auditID sample_rec_service) \<noteq> []"
    by (simp add: TrimSpace_plain plain_byte_def less_eq_char_def)
  then show ?thesis
    using approval_makes_chargeable [OF sample_rec_good, of sample_rec_service sample_rec sample_rec_bank sample_rec_result]
    by (auto simp: sample_created_store_def NewStore_def at_key_def nul_free_def sample_rec_def)
qed

section \<open>Interleavings the code does not protect\<close>

definition sample_cobr_event :: cobr_event where
  "sample_cobr_event = \<lparr>cx_TenantID = ''t1'', cx_TxID = ''C1'', cx_EventKey = ''k1''\<rparr>"

text \<open>
  a settlement that arrives while its charge is being originated is lost. The origination passes
  its checks and the bank creates the charge; before the service records it, the bank's notification
  arrives, finds no local charge, and records it as CONCLUIDA, as the bank reports it. The service
  then saves its own copy over it, so the stored charge is CRIADA again and the event is already marked.
\<close>

theorem interrupted_origination_unsettles:
  "\<exists>s1 s2 c1. originate_check txView sample_recurrence sample_mandate_store sample_originate =
        Inr (Inr (sample_cobr_bank, sample_cobr, cobr_price)) \<and>
     HandleCobREvent txView sample_rec_service sample_mandate_store sample_cobr_event = (s1, Inr ()) \<and>
     at_key (st_cobrs s1) (''t1'', ''C1'') = Some c1 \<and> cr_status c1 = CobRConcluida \<and>
     originate_record txView sample_recurrence s1 sample_originate sample_cobr cobr_price = (s2, Inr sample_cobr) \<and>
     at_key (st_cobrs s2) (''t1'', ''C1'') = Some sample_cobr \<and> cr_status sample_cobr = CobRCriada \<and>
     at_key (st_processed s2) (''t1'', ''k1'') \<noteq> None"
proof -
  have "civil_date 0 = (1, 1, 1)" by (simp add: civil_date_def month_day.simps days_in_def)
  moreover have "pad_digits 4 1 = ''0001''" "pad_digits 2 1 = ''01''" by code_simp+
  ultimately have "FormatDate (UTC zero_time) = ''0001-01-01''"
    by (simp add: FormatDate_def civil_day_def zero_time_def UTC_def)
  moreover have "valid_date ''0001-01-01''" by (simp add: valid_date_def is_digit_def less_eq_char_def days_in_def)
  ultimately have "\<exists>c1. first_cobr sample_rec_service sample_cobr_event
        \<lparr>cs_TxID = ''C1'', cs_IDRec = ''RR1'', cs_Status = ''CONCLUIDA'', cs_ValorCents = 100\<rparr> = Some c1 \<and>
      cr_status c1 = CobRConcluida \<and> cr_tenantID c1 = ''t1'' \<and> cr_txID c1 = ''C1''"
    by (simp add: first_cobr_def Let_def NewCobR_def sample_rec_service_def sample_service_def sample_cobr_event_def
        CobRStatus_def CobRTransition_def cobrTransitions_def cobr_status_terminal_def)
  then obtain c1 where c1: "first_cobr sample_rec_service sample_cobr_event
        \<lparr>cs_TxID = ''C1'', cs_IDRec = ''RR1'', cs_Status = ''CONCLUIDA'', cs_ValorCents = 100\<rparr> = Some c1"
      "cr_status c1 = CobRConcluida" "cr_tenantID c1 = ''t1''" "cr_txID c1 = ''C1''" by blast
  let ?s1 = "sample_mandate_store\<lparr>st_processed := [(key ''t1'' ''k1'', ())], st_cobrs := [(key ''t1'' ''C1'', c1)]\<rparr>"
  have "HandleCobREvent txView sample_rec_service sample_mandate_store sample_cobr_event = (?s1, Inr ())"
    using c1
    by (simp add: HandleCobREvent_def sample_rec_service_def sample_cobr_event_def sample_cobr_bank_def reconcileRecurrence_def
        WithinTx_def tx_defs markProcessed_def Let_def sample_mandate_store_def NewStore_def recordCobR_def
        findCobRByTxID_def lookup_def saveCobR_def)
  with c1 show ?thesis
    by (intro exI [of _ ?s1] exI [of _ "?s1\<lparr>st_cobrs := [(key ''t1'' ''C1'', sample_cobr)], st_audit := [sample_cobr_entry],
          st_ledger := [sample_cobr_bill]\<rparr>"] exI [of _ c1])
      (simp add: sample_originate_check sample_originate_record at_key_def nul_free_def,
       simp add: sample_mandate_store_def NewStore_def sample_cobr_def)
qed

text \<open>
  two concurrent originations of one charge are billed twice. Both requests carry the same
  transaction id; both pass the checks before either has recorded the charge, and each then records
  it with its own ledger entry.
\<close>

theorem concurrent_originations_bill_twice:
  "\<exists>s1 s2. originate_check txView sample_recurrence sample_mandate_store sample_originate =
        Inr (Inr (sample_cobr_bank, sample_cobr, cobr_price)) \<and>
     originate_record txView sample_recurrence sample_mandate_store sample_originate sample_cobr cobr_price = (s1, Inr sample_cobr) \<and>
     originate_record txView sample_recurrence s1 sample_originate sample_cobr cobr_price = (s2, Inr sample_cobr) \<and>
     billed (st_ledger s2) ''t1'' ''C1'' = 2"
  by (simp add: sample_originate_check sample_originate_record billed_def sample_cobr_bill_def)
    (simp add: sample_mandate_store_def NewStore_def)

end
