(* ===== verification/PIIAccess.thy ===== *)
theory PIIAccess
  imports Store
begin

text \<open>
  \<open>internal/app/pii_access.go\<close>: the mediated read of a mandate, which returns the payer's data only
  together with an entry in the access register, and the routine that expires old entries. The keyed
  hash, the two clock readings and the entry id are fields of the service.
\<close>

section \<open>Definitions\<close>

record pii_service =
  pa_hmac :: "string \<Rightarrow> string \<Rightarrow> string"
  pa_pseudo :: pseudonymizer
  pa_start :: gotime
  pa_loaded :: gotime
  pa_id :: string

record read_rec_input =
  rri_TenantID :: string
  rri_IDRec :: string
  rri_ClientID :: string
  rri_OperatorID :: string

definition access_params_of :: "pii_service \<Rightarrow> read_rec_input \<Rightarrow> rec \<Rightarrow> new_access_params" where
  "access_params_of svc inp m =
     \<lparr>ap_ID = pa_id svc, ap_At = pa_start svc, ap_Duration = SubTime (pa_loaded svc) (pa_start svc),
      ap_TenantID = TrimSpace (rri_TenantID inp), ap_ClientID = TrimSpace (rri_ClientID inp),
      ap_OperatorID = TrimSpace (rri_OperatorID inp),
      ap_SubjectRef = PseudonymRef (pa_hmac svc) (pa_pseudo svc) (dv_doc (rc_devedor m)),
      ap_Object = ''rec:'' @ rc_idRec m, ap_Action = ActionReadRec\<rparr>"

definition ReadRec :: "'s repository \<Rightarrow> pii_service \<Rightarrow> 's \<Rightarrow> read_rec_input \<Rightarrow> 's \<times> rec result" where
  "ReadRec r svc s inp =
     (let tenantID = TrimSpace (rri_TenantID inp); idRec = TrimSpace (rri_IDRec inp)
      in if tenantID = [] then (s, Inl (NewValidationError ''tenant_id'' ''is required''))
         else if idRec = [] then (s, Inl (NewValidationError ''id_rec'' ''is required''))
         else WithinTx r s
           (tx_read (\<lambda>s. FindRecByID r s tenantID idRec) (\<lambda>found.
              case found of
                Inl e \<Rightarrow> tx_fail e
              | Inr m \<Rightarrow>
                  (case NewAccessEntry (access_params_of svc inp m) of
                     Inl e \<Rightarrow> tx_fail (Errorf ''build access entry'' e)
                   | Inr entry \<Rightarrow>
                       tx_write ''record pii access'' (\<lambda>s. RecordPIIAccess r s entry) (tx_return m)))))"

definition Purge :: "retention_policy \<Rightarrow> gotime \<Rightarrow> store \<Rightarrow> store \<times> int" where
  "Purge policy now s = PurgePIIAccessBefore s (Cutoff policy now)"

section \<open>Facts\<close>

context store_contract
begin

lemma ReadRec_cases:
  assumes "good s" "clean (TrimSpace (rri_TenantID inp))" and run: "ReadRec r svc s inp = (s', res)"
  obtains (refused) e where "good s'" "res = Inl e" "vw s' = vw s"
  | (recorded) m entry where "good s'" "res = Inr m"
      "v_recs (vw s) (TrimSpace (rri_TenantID inp), TrimSpace (rri_IDRec inp)) = Some m"
      "NewAccessEntry (access_params_of svc inp m) = Inr entry" "vw s' = (vw s)\<lparr>v_pii := v_pii (vw s) @ [entry]\<rparr>"
proof (cases "TrimSpace (rri_TenantID inp) = [] \<or> TrimSpace (rri_IDRec inp) = []")
  case True
  with run assms(1) refused show thesis by (auto simp: ReadRec_def Let_def split: if_splits)
next
  case False
  show thesis
  proof (cases "FindRecByID r s (TrimSpace (rri_TenantID inp)) (TrimSpace (rri_IDRec inp))")
    case (Inl e)
    with run False have "s' = Rollback r s s" "res = Inl e" by (simp_all add: ReadRec_def Let_def WithinTx_def tx_defs)
    with rollback [OF assms(1,1)] refused show thesis by blast
  next
    case (Inr m)
    note old = find_rec [OF assms(1,2) Inr] and fm = Inr
    show thesis
    proof (cases "NewAccessEntry (access_params_of svc inp m)")
      case (Inl e)
      with run False fm rollback [OF assms(1,1)] refused show thesis
        by (auto simp: ReadRec_def Let_def WithinTx_def tx_defs)
    next
      case (Inr entry)
      note en = Inr
      show thesis
      proof (cases "RecordPIIAccess r s entry")
        case (Inl e)
        with run False fm en rollback [OF assms(1,1)] refused show thesis
          by (auto simp: ReadRec_def Let_def WithinTx_def tx_defs)
      next
        case (Inr s2)
        with run False fm en record_pii [OF assms(1) Inr] recorded [OF _ _ old en] show thesis
          by (auto simp: ReadRec_def Let_def WithinTx_def tx_defs)
      qed
    qed
  qed
qed

end

section \<open>Properties\<close>

text \<open>
  no personal data is read unrecorded. If the mediated read returns a mandate, it is the tenant's
  own mandate of that id, and the access register has grown by exactly one entry, attributed to the
  tenant, naming the mandate as its object and the payer only through the keyed pseudonym of the
  document; nothing else of the store has changed. If it returns an error, the register and the rest
  are unchanged.
\<close>

theorem read_is_recorded:
  assumes "store_ok s" "nul_free (TrimSpace (rri_TenantID inp))" and "ReadRec txView svc s inp = (s', res)"
  shows "(\<forall>e. res = Inl e \<longrightarrow> store_view s' = store_view s) \<and>
    (\<forall>m. res = Inr m \<longrightarrow>
       rc_tenantID m = TrimSpace (rri_TenantID inp) \<and> rc_idRec m = TrimSpace (rri_IDRec inp) \<and>
       (\<exists>entry. store_view s' = (store_view s)\<lparr>v_pii := st_piiAccess s @ [entry]\<rparr> \<and>
          ax_tenantID entry = rc_tenantID m \<and> ax_object entry = TrimSpace (''rec:'' @ rc_idRec m) \<and>
          ax_action entry = ActionReadRec \<and> ax_at entry = pa_start svc \<and>
          ax_subjectRef entry = TrimSpace (PseudonymRef (pa_hmac svc) (pa_pseudo svc) (dv_doc (rc_devedor m)))))"
  using assms
proof (cases rule: mem.ReadRec_cases)
  case (recorded m entry)
  have k: "rc_tenantID m = TrimSpace (rri_TenantID inp) \<and> rc_idRec m = TrimSpace (rri_IDRec inp)"
    using mem.recs_key [OF assms(1) recorded(3)] .
  show ?thesis using recorded(2,5) NewAccessEntry_Inr [OF recorded(4)] k by (auto simp: access_params_of_def)
qed auto

definition sample_pii_service :: pii_service where
  "sample_pii_service = \<lparr>pa_hmac = (\<lambda>k d. ''ab''), pa_pseudo = \<lparr>ps_key = ''0123456789abcdef''\<rparr>, pa_start = zero_time,
     pa_loaded = zero_time, pa_id = ''a1''\<rparr>"

definition sample_read :: read_rec_input where
  "sample_read = \<lparr>rri_TenantID = ''t1'', rri_IDRec = ''RR1'', rri_ClientID = ''c'', rri_OperatorID = []\<rparr>"

definition pii_store :: store where
  "pii_store = NewStore\<lparr>st_recs := [(key ''t1'' ''RR1'', sample_rec)]\<rparr>"

lemma sample_read_run: "\<exists>s'. ReadRec txView sample_pii_service pii_store sample_read = (s', Inr sample_rec)"
proof -
  have t: "TrimSpace ''t1'' = ''t1''" "TrimSpace ''RR1'' = ''RR1''" "TrimSpace ''a1'' = ''a1''"
    "TrimSpace ''rec:RR1'' = ''rec:RR1''" "TrimSpace ''hmac-sha256:ab'' = ''hmac-sha256:ab''"
    by (simp_all add: TrimSpace_plain plain_byte_def less_eq_char_def)
  have "rc_idRec sample_rec = ''RR1''" by (simp add: sample_rec_def)
  then have "\<exists>en. NewAccessEntry (access_params_of sample_pii_service sample_read sample_rec) = Inr en"
    by (simp add: NewAccessEntry_def access_params_of_def sample_pii_service_def sample_read_def PseudonymRef_def t
        SubTime_def min64_def max64_def)
  then obtain en where "NewAccessEntry (access_params_of sample_pii_service sample_read sample_rec) = Inr en" by blast
  then show ?thesis
    by (simp add: ReadRec_def sample_read_def t WithinTx_def tx_defs findRecByID_def lookup_def pii_store_def appendPIIAccess_def)
qed

theorem read_is_recorded_witness:
  "\<exists>s' entry. ReadRec txView sample_pii_service pii_store sample_read = (s', Inr sample_rec) \<and>
     st_piiAccess s' = [entry] \<and> ax_tenantID entry = ''t1''"
proof -
  obtain s' where run: "ReadRec txView sample_pii_service pii_store sample_read = (s', Inr sample_rec)"
    using sample_read_run by blast
  have t: "TrimSpace ''t1'' = ''t1''" by (simp add: TrimSpace_plain plain_byte_def less_eq_char_def)
  have ok: "store_ok pii_store" "nul_free (TrimSpace (rri_TenantID sample_read))"
    by (simp_all add: pii_store_def NewStore_def store_ok_def keyed_def unique_keys_def sample_rec_def nul_free_def sample_read_def t)
  obtain entry where e: "store_view s' = (store_view pii_store)\<lparr>v_pii := st_piiAccess pii_store @ [entry]\<rparr>"
    "ax_tenantID entry = rc_tenantID sample_rec"
    using read_is_recorded [OF ok run] by blast
  have "st_piiAccess s' = [entry]" using arg_cong [OF e(1), of v_pii] by (simp add: pii_store_def NewStore_def)
  with run e(2) show ?thesis by (simp add: sample_rec_def)
qed

end
