(* ===== verification/WebhookConfig.thy ===== *)
theory WebhookConfig
  imports Ports
begin

text \<open>
  Package \<open>internal/domain/outboundwebhook\<close>, the endpoint a reseller account registers for its
  events, and \<open>inmemory/outbound_webhook.go\<close>, its store. \<open>url.Parse\<close>, the keyed hash of \<open>crypto/hmac\<close>
  with \<open>crypto/sha256\<close> (as raw bytes) and the random source are parameters; the encodings of
  \<open>encoding/hex\<close>, \<open>encoding/base64\<close> and \<open>strconv\<close> are definitions.
\<close>

section \<open>Encodings of the standard library\<close>

text \<open>\<open>strconv.FormatInt(n, 10)\<close>.\<close>

fun decimal :: "nat \<Rightarrow> string" where
  "decimal n = (if n < 10 then [char_of (48 + n)] else decimal (n div 10) @ [char_of (48 + n mod 10)])"

declare decimal.simps [simp del]

definition FormatInt :: "int \<Rightarrow> string" where
  "FormatInt n = (if n < 0 then CHR ''-'' # decimal (nat (- n)) else decimal (nat n))"

text \<open>\<open>hex.EncodeToString\<close>.\<close>

definition hex_digit :: "nat \<Rightarrow> char" where
  "hex_digit n = (if n < 10 then char_of (48 + n) else char_of (87 + n))"

definition hex_encode :: "string \<Rightarrow> string" where
  "hex_encode bs = concat (map (\<lambda>c. [hex_digit (of_char c div 16), hex_digit (of_char c mod 16)]) bs)"

text \<open>\<open>base64.RawURLEncoding.EncodeToString\<close>: the URL alphabet, no padding.\<close>

definition b64_char :: "nat \<Rightarrow> char" where
  "b64_char n =
     (if n < 26 then char_of (65 + n) else if n < 52 then char_of (71 + n)
      else if n < 62 then char_of (n - 4) else if n = 62 then CHR ''-'' else CHR ''_'')"

fun raw_url_encode :: "string \<Rightarrow> string" where
  "raw_url_encode [] = []"
| "raw_url_encode [a] =
     (let v = of_char a * 16 in [b64_char (v div 64), b64_char (v mod 64)])"
| "raw_url_encode [a, b] =
     (let v = (of_char a * 256 + of_char b) * 4
      in [b64_char (v div 4096), b64_char (v div 64 mod 64), b64_char (v mod 64)])"
| "raw_url_encode (a # b # c # bs) =
     (let v = of_char a * 65536 + of_char b * 256 + of_char c
      in [b64_char (v div 262144), b64_char (v div 4096 mod 64), b64_char (v div 64 mod 64), b64_char (v mod 64)]
         @ raw_url_encode bs)"

section \<open>The aggregate\<close>

record webhook_config =
  wc_accountID :: string
  wc_url :: string
  wc_signingSecret :: string
  wc_enabled :: bool
  wc_createdAt :: gotime
  wc_updatedAt :: gotime

text \<open>What the code reads of a parsed URL; \<open>u_User\<close> is \<open>None\<close> for a nil \<open>Userinfo\<close>.\<close>

record parsed_url =
  u_Scheme :: string
  u_Host :: string
  u_User :: "string option"

type_synonym url_parser = "string \<Rightarrow> parsed_url result"

definition secretBytes :: nat where "secretBytes = 32"
definition secretPrefix :: string where "secretPrefix = ''whsec_''"
definition maxURLLen :: nat where "maxURLLen = 2048"

text \<open>\<open>rd\<close> is what \<open>crypto/rand.Read\<close> gives for a buffer of the requested size.\<close>

definition GenerateSigningSecret :: "(nat \<Rightarrow> string result) \<Rightarrow> string result" where
  "GenerateSigningSecret rd = bindE (rd secretBytes) (\<lambda>b. Inr (secretPrefix @ raw_url_encode b))"

abbreviation url_error :: "string \<Rightarrow> go_error" where
  "url_error msg \<equiv> NewValidationError ''url'' msg"

definition ValidateURL :: "url_parser \<Rightarrow> string \<Rightarrow> string result" where
  "ValidateURL parse raw =
     (let raw = TrimSpace raw
      in if raw = [] then Inl (url_error ''webhook URL is required'')
         else if length raw > maxURLLen then Inl (url_error ''webhook URL is too long'')
         else case parse raw of
                Inl e \<Rightarrow> Inl (url_error ''webhook URL is not a valid URL'')
              | Inr u \<Rightarrow>
                  if \<not> EqualFold (u_Scheme u) ''https'' then Inl (url_error ''webhook URL must use https'')
                  else if u_Host u = [] then Inl (url_error ''webhook URL must include a host'')
                  else if u_User u \<noteq> None then Inl (url_error ''webhook URL must not embed credentials'')
                  else Inr raw)"

definition NewWebhookConfig ::
  "url_parser \<Rightarrow> string \<Rightarrow> string \<Rightarrow> string \<Rightarrow> bool \<Rightarrow> gotime \<Rightarrow> webhook_config result" where
  "NewWebhookConfig parse accountID rawURL signingSecret enabled now =
     (let accountID = TrimSpace accountID
      in if accountID = [] then Inl (NewValidationError ''account_id'' ''account id is required'')
         else bindE (ValidateURL parse rawURL) (\<lambda>canonURL.
           if TrimSpace signingSecret = []
           then Inl (NewValidationError ''signing_secret'' ''signing secret is required'')
           else Inr \<lparr>wc_accountID = accountID, wc_url = canonURL, wc_signingSecret = signingSecret,
                     wc_enabled = enabled, wc_createdAt = now, wc_updatedAt = now\<rparr>))"

definition RehydrateWebhookConfig ::
  "string \<Rightarrow> string \<Rightarrow> string \<Rightarrow> bool \<Rightarrow> gotime \<Rightarrow> gotime \<Rightarrow> webhook_config" where
  "RehydrateWebhookConfig accountID rawURL signingSecret enabled createdAt updatedAt =
     \<lparr>wc_accountID = accountID, wc_url = rawURL, wc_signingSecret = signingSecret,
      wc_enabled = enabled, wc_createdAt = createdAt, wc_updatedAt = updatedAt\<rparr>"

definition SetURL :: "url_parser \<Rightarrow> webhook_config \<Rightarrow> string \<Rightarrow> gotime \<Rightarrow> webhook_config result" where
  "SetURL parse c rawURL now =
     bindE (ValidateURL parse rawURL) (\<lambda>canonURL. Inr (c\<lparr>wc_url := canonURL, wc_updatedAt := now\<rparr>))"

definition SetEnabled :: "webhook_config \<Rightarrow> bool \<Rightarrow> gotime \<Rightarrow> webhook_config" where
  "SetEnabled c enabled now = c\<lparr>wc_enabled := enabled, wc_updatedAt := now\<rparr>"

definition RotateSecret ::
  "(nat \<Rightarrow> string result) \<Rightarrow> webhook_config \<Rightarrow> gotime \<Rightarrow> (webhook_config \<times> string) result" where
  "RotateSecret rd c now =
     bindE (GenerateSigningSecret rd)
       (\<lambda>sec. Inr (c\<lparr>wc_signingSecret := sec, wc_updatedAt := now\<rparr>, sec))"

section \<open>Signing\<close>

definition SignatureHeader :: string where "SignatureHeader = ''X-Webhook-Signature''"
definition TimestampHeader :: string where "TimestampHeader = ''X-Webhook-Timestamp''"
definition IdempotencyHeader :: string where "IdempotencyHeader = ''X-Webhook-Idempotency-Key''"
definition sigPrefix :: string where "sigPrefix = ''sha256=''"

type_synonym mac = "string \<Rightarrow> string \<Rightarrow> string"

text \<open>The content the signature covers.\<close>

definition signed_content :: "int \<Rightarrow> string \<Rightarrow> string" where
  "signed_content ts body = FormatInt ts @ ''.'' @ body"

definition Sign :: "mac \<Rightarrow> string \<Rightarrow> int \<Rightarrow> string \<Rightarrow> string" where
  "Sign hmac secret ts body = sigPrefix @ hex_encode (hmac secret (signed_content ts body))"

definition SignConfig :: "mac \<Rightarrow> webhook_config \<Rightarrow> int \<Rightarrow> string \<Rightarrow> string" where
  "SignConfig hmac c ts body = Sign hmac (wc_signingSecret c) ts body"

section \<open>The in-memory store\<close>

record stored_webhook =
  sw_url :: string
  sw_signingSecret :: string
  sw_enabled :: bool
  sw_createdAt :: gotime
  sw_updatedAt :: gotime

type_synonym webhook_store = "(string \<times> stored_webhook) list"

definition NewOutboundWebhookStore :: webhook_store where
  "NewOutboundWebhookStore = []"

definition GetOutboundWebhook :: "webhook_store \<Rightarrow> string \<Rightarrow> webhook_config result" where
  "GetOutboundWebhook m accountID =
     (case map_of m accountID of
        None \<Rightarrow> Inl ErrNotFound
      | Some s \<Rightarrow> Inr (RehydrateWebhookConfig accountID (sw_url s) (sw_signingSecret s) (sw_enabled s)
                        (sw_createdAt s) (sw_updatedAt s)))"

definition UpsertOutboundWebhook :: "webhook_store \<Rightarrow> webhook_config \<Rightarrow> webhook_store result" where
  "UpsertOutboundWebhook m cfg =
     Inr (put (wc_accountID cfg)
            \<lparr>sw_url = wc_url cfg, sw_signingSecret = wc_signingSecret cfg, sw_enabled = wc_enabled cfg,
             sw_createdAt = wc_createdAt cfg, sw_updatedAt = wc_updatedAt cfg\<rparr> m)"

definition DeleteOutboundWebhook :: "webhook_store \<Rightarrow> string \<Rightarrow> webhook_store result" where
  "DeleteOutboundWebhook m accountID = Inr (del accountID m)"

section \<open>Facts\<close>

lemma Get_after_Upsert:
  "UpsertOutboundWebhook m cfg = Inr m' \<Longrightarrow>
     GetOutboundWebhook m' a = (if a = wc_accountID cfg then Inr cfg else GetOutboundWebhook m a)"
  by (auto simp: UpsertOutboundWebhook_def GetOutboundWebhook_def RehydrateWebhookConfig_def)

lemma Get_after_Delete:
  "DeleteOutboundWebhook m b = Inr m' \<Longrightarrow>
     GetOutboundWebhook m' a = (if a = b then Inl ErrNotFound else GetOutboundWebhook m a)"
  by (auto simp: DeleteOutboundWebhook_def GetOutboundWebhook_def)

lemma Get_account: "GetOutboundWebhook m a = Inr cfg \<Longrightarrow> wc_accountID cfg = a"
  by (auto simp: GetOutboundWebhook_def RehydrateWebhookConfig_def split: option.splits)

text \<open>An accepted URL is an absolute https URL with a host and no credentials, and is left alone.\<close>

definition https_endpoint :: "url_parser \<Rightarrow> string \<Rightarrow> bool" where
  "https_endpoint parse u \<longleftrightarrow> u \<noteq> [] \<and> length u \<le> maxURLLen \<and>
     (case parse u of
        Inl e \<Rightarrow> False
      | Inr p \<Rightarrow> EqualFold (u_Scheme p) ''https'' \<and> u_Host p \<noteq> [] \<and> u_User p = None)"

lemma ValidateURL_Inr:
  "ValidateURL parse raw = Inr u \<longleftrightarrow> u = TrimSpace raw \<and> https_endpoint parse u"
  by (auto simp: ValidateURL_def https_endpoint_def Let_def split: sum.splits)

text \<open>A secret is never blank, whatever the random bytes.\<close>

lemma plain_b64_char: "plain_byte (b64_char n)"
proof (cases "n < 62")
  case True
  then show ?thesis by (auto simp: b64_char_def plain_byte_def less_eq_char_def)
next
  case False
  then show ?thesis by (auto simp: b64_char_def plain_byte_def less_eq_char_def)
qed

lemma plain_raw_url: "list_all plain_byte (raw_url_encode b)"
  by (induction b rule: raw_url_encode.induct) (simp_all add: Let_def plain_b64_char)

lemma GenerateSigningSecret_plain:
  assumes "GenerateSigningSecret rd = Inr sec"
  shows "TrimSpace sec = sec \<and> sec \<noteq> []"
proof -
  from assms obtain b where s: "sec = ''whsec_'' @ raw_url_encode b"
    by (auto simp: GenerateSigningSecret_def secretPrefix_def bindE_Inr_iff)
  have "list_all plain_byte sec" unfolding s by (simp add: plain_raw_url) (simp add: plain_byte_def less_eq_char_def)
  moreover have "sec \<noteq> []" using s by simp
  ultimately show ?thesis using TrimSpace_plain [of sec] by (auto simp: list_all_iff)
qed

text \<open>32 random bytes make a secret of 49 characters.\<close>

lemma length_raw_url: "length (raw_url_encode b) = (4 * length b + 2) div 3"
  by (induction b rule: raw_url_encode.induct) (simp_all add: Let_def)

lemma GenerateSigningSecret_length:
  "rd secretBytes = Inr b \<Longrightarrow> length b = secretBytes \<Longrightarrow> GenerateSigningSecret rd = Inr sec \<Longrightarrow> length sec = 49"
  by (auto simp: GenerateSigningSecret_def secretPrefix_def secretBytes_def length_raw_url)

section \<open>Configurations at rest\<close>

definition config_ok :: "url_parser \<Rightarrow> webhook_config \<Rightarrow> bool" where
  "config_ok parse c \<longleftrightarrow> wc_accountID c \<noteq> [] \<and> https_endpoint parse (wc_url c) \<and> TrimSpace (wc_signingSecret c) \<noteq> []"

lemma NewWebhookConfig_ok:
  "NewWebhookConfig parse a u sec en now = Inr c \<Longrightarrow> config_ok parse c"
  by (auto simp: NewWebhookConfig_def config_ok_def Let_def bindE_Inr_iff ValidateURL_Inr split: if_splits)

lemma SetURL_ok: "config_ok parse c \<Longrightarrow> SetURL parse c u now = Inr c' \<Longrightarrow> config_ok parse c'"
  by (auto simp: SetURL_def config_ok_def bindE_Inr_iff ValidateURL_Inr)

lemma SetEnabled_ok: "config_ok parse c \<Longrightarrow> config_ok parse (SetEnabled c en now)"
  by (simp add: SetEnabled_def config_ok_def)

lemma RotateSecret_ok: "config_ok parse c \<Longrightarrow> RotateSecret rd c now = Inr (c', sec) \<Longrightarrow> config_ok parse c'"
  by (auto simp: RotateSecret_def config_ok_def bindE_Inr_iff dest!: GenerateSigningSecret_plain)

definition webhooks_ok :: "url_parser \<Rightarrow> webhook_store \<Rightarrow> bool" where
  "webhooks_ok parse m \<longleftrightarrow> (\<forall>a c. GetOutboundWebhook m a = Inr c \<longrightarrow> config_ok parse c)"

lemma webhooks_ok_New: "webhooks_ok parse NewOutboundWebhookStore"
  by (simp add: webhooks_ok_def NewOutboundWebhookStore_def GetOutboundWebhook_def)

lemma webhooks_ok_Upsert:
  "webhooks_ok parse m \<Longrightarrow> config_ok parse c \<Longrightarrow> UpsertOutboundWebhook m c = Inr m' \<Longrightarrow> webhooks_ok parse m'"
  by (auto simp: webhooks_ok_def Get_after_Upsert split: if_splits)

lemma webhooks_ok_Delete:
  "webhooks_ok parse m \<Longrightarrow> DeleteOutboundWebhook m a = Inr m' \<Longrightarrow> webhooks_ok parse m'"
  by (auto simp: webhooks_ok_def Get_after_Delete split: if_splits)

section \<open>The signed content determines its parts\<close>

lemma decimal_digits: "list_all is_digit (decimal n)"
proof (induction n rule: decimal.induct)
  case (1 n)
  have d: "is_digit (char_of (48 + k))" if "k < 10" for k :: nat
    using that by (auto simp: is_digit_def less_eq_char_def)
  show ?case
  proof (cases "n < 10")
    case True
    then show ?thesis by (subst decimal.simps) (simp add: d)
  next
    case False
    with 1 d [of "n mod 10"] show ?thesis by (subst decimal.simps) simp
  qed
qed

lemma decimal_inj: "decimal m = decimal n \<Longrightarrow> m = n"
proof (induction m arbitrary: n rule: decimal.induct)
  case (1 m)
  have ne: "decimal k \<noteq> []" for k by (subst decimal.simps) simp
  have c: "char_of (48 + a) = (char_of (48 + b) :: char) \<Longrightarrow> a = b" if "a < 10" "b < 10" for a b :: nat
    using that by (auto simp: char_of_eq_iff take_bit_eq_mod)
  show ?case
  proof (cases "m < 10"; cases "n < 10")
    assume "m < 10" "n < 10"
    with 1(2) c [of m n] show ?thesis by (simp add: decimal.simps [of m] decimal.simps [of n])
  next
    assume mn: "m < 10" "\<not> n < 10"
    with 1(2) ne [of "n div 10"] show ?thesis by (simp add: decimal.simps [of m] decimal.simps [of n])
  next
    assume mn: "\<not> m < 10" "n < 10"
    with 1(2) ne [of "m div 10"] show ?thesis by (simp add: decimal.simps [of m] decimal.simps [of n])
  next
    assume mn: "\<not> m < 10" "\<not> n < 10"
    with 1(2) have e: "decimal (m div 10) = decimal (n div 10)"
      "char_of (48 + m mod 10) = (char_of (48 + n mod 10) :: char)"
      by (simp_all add: decimal.simps [of m] decimal.simps [of n])
    have "m div 10 = n div 10" using 1(1) [OF mn(1) e(1)] .
    moreover have "m mod 10 = n mod 10" using c [OF _ _ e(2)] by simp
    ultimately show ?thesis by (metis div_mult_mod_eq)
  qed
qed


lemma FormatInt_no_dot: "CHR ''.'' \<notin> set (FormatInt n)"
  using decimal_digits [of "nat n"] decimal_digits [of "nat (- n)"]
  by (auto simp: FormatInt_def list_all_iff is_digit_def less_eq_char_def)

lemma FormatInt_inj: "FormatInt m = FormatInt n \<Longrightarrow> m = n"
proof -
  have minus: "decimal k \<noteq> CHR ''-'' # cs" for k cs
    using decimal_digits [of k] by (auto simp: is_digit_def less_eq_char_def)
  assume f: "FormatInt m = FormatInt n"
  show ?thesis
  proof (cases "m < 0"; cases "n < 0")
    assume "m < 0" "n < 0"
    with f have "nat (- m) = nat (- n)" by (intro decimal_inj) (simp add: FormatInt_def)
    with \<open>m < 0\<close> \<open>n < 0\<close> show ?thesis by simp
  next
    assume "\<not> m < 0" "\<not> n < 0"
    with f have "nat m = nat n" by (intro decimal_inj) (simp add: FormatInt_def)
    with \<open>\<not> m < 0\<close> \<open>\<not> n < 0\<close> show ?thesis by simp
  next
    assume "m < 0" "\<not> n < 0"
    with f show ?thesis using minus [of "nat n" "decimal (nat (- m))"] by (simp add: FormatInt_def)
  next
    assume "\<not> m < 0" "n < 0"
    with f show ?thesis using minus [of "nat m" "decimal (nat (- n))"] by (simp add: FormatInt_def)
  qed
qed

lemma signed_content_inj:
  assumes "signed_content ts body = signed_content ts' body'"
  shows "ts = ts' \<and> body = body'"
proof -
  have w: "takeWhile (\<lambda>c. c \<noteq> CHR ''.'') (signed_content t b) = FormatInt t" for t b
    using FormatInt_no_dot [of t] by (auto simp: signed_content_def takeWhile_append)
  from w [of ts body] w [of ts' body'] assms have f: "FormatInt ts = FormatInt ts'" by simp
  with assms show ?thesis using FormatInt_inj by (simp add: signed_content_def)
qed

lemma hex_encode_inj: "hex_encode a = hex_encode b \<Longrightarrow> a = b"
proof (induction a arbitrary: b)
  case Nil
  then show ?case by (cases b) (auto simp: hex_encode_def)
next
  case (Cons x a)
  have h: "hex_digit i = hex_digit j \<Longrightarrow> i = j" if "i < 16" "j < 16" for i j :: nat
    using that by (auto simp: hex_digit_def char_of_eq_iff take_bit_eq_mod split: if_splits)
  from Cons.prems obtain y c where b: "b = y # c" by (cases b) (auto simp: hex_encode_def)
  have lt: "(of_char z :: nat) div 16 < 16" for z :: char
    using nat_of_char_less_256 [of z] by (intro less_mult_imp_div_less) simp
  from Cons.prems b have "of_char x div 16 = (of_char y div 16 :: nat)" "of_char x mod 16 = (of_char y mod 16 :: nat)"
    using h [OF lt lt, of x y] h [of "of_char x mod 16" "of_char y mod 16"] by (simp_all add: hex_encode_def)
  then have "of_char x = (of_char y :: nat)" by (metis div_mult_mod_eq)
  with Cons b show ?case by (auto simp: hex_encode_def)
qed

text \<open>
  the signature binds the send instant and the exact bytes of the body: as long as the keyed hash
  does not collide on these two inputs, two sends under one secret carry the same signature exactly
  when they carry the same timestamp and the same body.
\<close>

theorem signature_binds:
  assumes "inj_on (hmac secret) {signed_content ts body, signed_content ts' body'}"
  shows "Sign hmac secret ts body = Sign hmac secret ts' body' \<longleftrightarrow> ts = ts' \<and> body = body'"
proof
  assume "Sign hmac secret ts body = Sign hmac secret ts' body'"
  then have "hmac secret (signed_content ts body) = hmac secret (signed_content ts' body')"
    by - (rule hex_encode_inj, simp add: Sign_def)
  from inj_onD [OF assms this] have "signed_content ts body = signed_content ts' body'" by simp
  then show "ts = ts' \<and> body = body'" by (rule signed_content_inj)
qed simp

theorem signature_binds_witness:
  "Sign (\<lambda>k x. x) ''s'' 17 ''{}'' \<noteq> Sign (\<lambda>k x. x) ''s'' 18 ''{}''"
proof -
  have "inj_on ((\<lambda>k x. x) ''s'') {signed_content 17 ''{}'', signed_content 18 ''{}''}" by (simp add: inj_on_def)
  from signature_binds [OF this] show ?thesis by simp
qed

end
