(* ===== verification/Forward.thy ===== *)
theory Forward
  imports Outbound WebhookConfig
begin

text \<open>
  \<open>internal/app/outbound_forward.go\<close>: the processor that takes deliveries off the outbox, signs each
  one for the account it belongs to, posts it with bounded retries, and settles or parks it. Every
  port of the Go struct is a function on a world of an arbitrary type, so a port may change anything
  and answer anything; the contract below says what the code relies on. A nil port is \<open>None\<close>.
\<close>

section \<open>The body of a notification\<close>

record forward_body =
  fb_EventKey :: string
  fb_EventType :: string
  fb_TxID :: string
  fb_AccountID :: string
  fb_ClientTenantID :: string
  fb_Timestamp :: int
  fb_AmountCents :: int
  fb_Installments :: int
  fb_Message :: string

text \<open>
  \<open>encoding/json\<close> on strings: ASCII with its escapes (HTML characters too), well-formed UTF-8 as it
  is except the two line separators, and the replacement character for every other byte.
\<close>

definition json_hex :: "nat \<Rightarrow> string" where
  "json_hex n = (CHR 0x5C # ''u00'') @ [hex_digit (n div 16), hex_digit (n mod 16)]"

definition json_ascii :: "char \<Rightarrow> string" where
  "json_ascii c =
     (if c = CHR 0x22 \<or> c = CHR 0x5C then [CHR 0x5C, c]
      else if c = CHR 0x08 then (CHR 0x5C # ''b'') else if c = CHR 0x0C then (CHR 0x5C # ''f'')
      else if c = CHR 0x0A then (CHR 0x5C # ''n'') else if c = CHR 0x0D then (CHR 0x5C # ''r'')
      else if c = CHR 0x09 then (CHR 0x5C # ''t'')
      else if c < CHR 0x20 \<or> c = CHR ''<'' \<or> c = CHR ''>'' \<or> c = CHR ''&'' then json_hex (of_char c)
      else [c])"

definition utf8_tail :: "char \<Rightarrow> bool" where
  "utf8_tail c \<longleftrightarrow> CHR 0x80 \<le> c \<and> c \<le> CHR 0xBF"

text \<open>The number of bytes of the well-formed multi-byte code the string starts with, or 0.\<close>

definition utf8_width :: "string \<Rightarrow> nat" where
  "utf8_width s =
     (case s of
        a # b # r \<Rightarrow>
          if CHR 0xC2 \<le> a \<and> a \<le> CHR 0xDF then if utf8_tail b then 2 else 0
          else if CHR 0xE0 \<le> a \<and> a \<le> CHR 0xEF then
            if utf8_tail b \<and> (a = CHR 0xE0 \<longrightarrow> CHR 0xA0 \<le> b) \<and> (a = CHR 0xED \<longrightarrow> b \<le> CHR 0x9F) \<and>
               (case r of c # _ \<Rightarrow> utf8_tail c | [] \<Rightarrow> False) then 3 else 0
          else if CHR 0xF0 \<le> a \<and> a \<le> CHR 0xF4 then
            if utf8_tail b \<and> (a = CHR 0xF0 \<longrightarrow> CHR 0x90 \<le> b) \<and> (a = CHR 0xF4 \<longrightarrow> b \<le> CHR 0x8F) \<and>
               (case r of c # d # _ \<Rightarrow> utf8_tail c \<and> utf8_tail d | _ \<Rightarrow> False) then 4 else 0
          else 0
      | _ \<Rightarrow> 0)"

function json_chars :: "string \<Rightarrow> string" where
  "json_chars [] = []"
| "json_chars (c # cs) =
     (if c < CHR 0x80 then json_ascii c @ json_chars cs
      else let n = utf8_width (c # cs); code = take n (c # cs)
           in if n = 0 then (CHR 0x5C # ''ufffd'') @ json_chars cs
              else (if code = [CHR 0xE2, CHR 0x80, CHR 0xA8] then (CHR 0x5C # ''u2028'')
                    else if code = [CHR 0xE2, CHR 0x80, CHR 0xA9] then (CHR 0x5C # ''u2029'') else code)
                   @ json_chars (drop (n - 1) cs))"
  by pat_completeness auto
termination by (relation "measure length") auto

definition json_string :: "string \<Rightarrow> string" where
  "json_string s = [CHR 0x22] @ json_chars s @ [CHR 0x22]"

definition json_field :: "string \<Rightarrow> string \<Rightarrow> string" where
  "json_field name v = json_string name @ '':'' @ v"

fun json_join :: "string list \<Rightarrow> string" where
  "json_join [] = []"
| "json_join [f] = f"
| "json_join (f # g # fs) = f @ '','' @ json_join (g # fs)"

definition marshal_body :: "forward_body \<Rightarrow> string" where
  "marshal_body b =
     ''{'' @ json_join
       [json_field ''event_key'' (json_string (fb_EventKey b)),
        json_field ''event_type'' (json_string (fb_EventType b)),
        json_field ''tx_id'' (json_string (fb_TxID b)),
        json_field ''account_id'' (json_string (fb_AccountID b)),
        json_field ''client_tenant_id'' (json_string (fb_ClientTenantID b)),
        json_field ''timestamp'' (FormatInt (fb_Timestamp b)),
        json_field ''amount_cents'' (FormatInt (fb_AmountCents b)),
        json_field ''installments'' (FormatInt (fb_Installments b)),
        json_field ''message'' (json_string (fb_Message b))] @ ''}''"

text \<open>\<open>Time.Unix\<close>: whole seconds since 1970; the zero time is 62135596800 seconds earlier.\<close>

definition Unix :: "gotime \<Rightarrow> int" where
  "Unix t = ns t div 1000000000 - 62135596800"

definition buildForwardBody :: "delivery \<Rightarrow> gotime \<Rightarrow> string result" where
  "buildForwardBody d now =
     Inr (marshal_body
       \<lparr>fb_EventKey = dl_eventKey d, fb_EventType = dl_eventType d, fb_TxID = dl_txID d,
        fb_AccountID = dl_accountID d, fb_ClientTenantID = dl_tenantID d, fb_Timestamp = Unix now,
        fb_AmountCents = dt_AmountCents (dl_detail d), fb_Installments = dt_Installments (dl_detail d),
        fb_Message = dt_Message (dl_detail d)\<rparr>)"

section \<open>The processor\<close>

record 'w outbox_port =
  ClaimPort :: "'w \<Rightarrow> int \<Rightarrow> 'w \<times> delivery list result"
  DeletePort :: "'w \<Rightarrow> string \<Rightarrow> 'w \<times> go_error option"

type_synonym headers = "(string \<times> string) list"

text \<open>
  \<open>op_ctx\<close> tells whether \<open>ctx.Err()\<close> is set when it is read. A draw of \<open>op_rand\<close> is given as the
  function \<open>h \<mapsto> time.Duration(rand() * float64(h))\<close>.
\<close>

record 'w processor =
  op_enabled :: bool
  op_outbox :: "'w outbox_port option"
  op_configs :: "('w \<Rightarrow> string \<Rightarrow> 'w \<times> webhook_config result) option"
  op_forwarder :: "('w \<Rightarrow> string \<Rightarrow> headers \<Rightarrow> string \<Rightarrow> 'w \<times> int \<times> go_error option) option"
  op_limiter :: "('w \<Rightarrow> string \<Rightarrow> 'w \<times> go_error option) option"
  op_deadLetters :: "('w \<Rightarrow> dead_letter \<Rightarrow> 'w \<times> go_error option) option"
  op_audit :: "('w \<Rightarrow> entry \<Rightarrow> 'w \<times> go_error option) option"
  op_clock :: "('w \<Rightarrow> 'w \<times> gotime) option"
  op_ids :: "('w \<Rightarrow> 'w \<times> string) option"
  op_maxAttempts :: int
  op_backoffBase :: int
  op_backoffMax :: int
  op_batch :: int
  op_rand :: "('w \<Rightarrow> 'w \<times> (int \<Rightarrow> int)) option"
  op_sleep :: "('w \<Rightarrow> int \<Rightarrow> 'w \<times> go_error option) option"
  op_ctx :: "'w \<Rightarrow> 'w \<times> bool"

definition defaultForwardMaxAttempts :: int where "defaultForwardMaxAttempts = 3"
definition defaultForwardBackoffBase :: int where "defaultForwardBackoffBase = 250 * 1000000"
definition defaultForwardBackoffMax :: int where "defaultForwardBackoffMax = 5 * 1000000000"
definition defaultForwardBatch :: int where "defaultForwardBatch = 64"

definition systemOperatorOutboundForward :: string where
  "systemOperatorOutboundForward = ''system:outbound-forward''"

text \<open>
  \<open>NewOutboundProcessor\<close>: the knobs that are not positive get their defaults. The default jitter is
  the constant draw one half, the default sleeper the given timer.
\<close>

definition half_draw :: "'w \<Rightarrow> 'w \<times> (int \<Rightarrow> int)" where
  "half_draw w = (w, \<lambda>h. quot64 h 2)"

definition NewOutboundProcessor ::
  "('w \<Rightarrow> int \<Rightarrow> 'w \<times> go_error option) \<Rightarrow> 'w processor \<Rightarrow> 'w processor" where
  "NewOutboundProcessor realForwardSleep d =
     d\<lparr>op_maxAttempts := (if op_maxAttempts d \<le> 0 then defaultForwardMaxAttempts else op_maxAttempts d),
       op_backoffBase := (if op_backoffBase d \<le> 0 then defaultForwardBackoffBase else op_backoffBase d),
       op_backoffMax := (if op_backoffMax d \<le> 0 then defaultForwardBackoffMax else op_backoffMax d),
       op_batch := (if op_batch d \<le> 0 then defaultForwardBatch else op_batch d),
       op_rand := (case op_rand d of None \<Rightarrow> Some half_draw | Some f \<Rightarrow> Some f),
       op_sleep := (case op_sleep d of None \<Rightarrow> Some realForwardSleep | Some f \<Rightarrow> Some f)\<rparr>"

definition processor_active :: "'w processor option \<Rightarrow> bool" where
  "processor_active p =
     (case p of None \<Rightarrow> False
      | Some p \<Rightarrow> op_enabled p \<and> op_outbox p \<noteq> None \<and> op_configs p \<noteq> None \<and> op_forwarder p \<noteq> None \<and>
          op_limiter p \<noteq> None \<and> op_deadLetters p \<noteq> None \<and> op_audit p \<noteq> None \<and> op_clock p \<noteq> None \<and>
          op_ids p \<noteq> None)"

section \<open>Retries\<close>

text \<open>The shift wraps at 64 bits; a count of 64 or more gives zero.\<close>

definition shl64 :: "int \<Rightarrow> int \<Rightarrow> int" where
  "shl64 b n = wrap64 (b * 2 ^ nat n)"

definition backoff_cap :: "'w processor \<Rightarrow> int \<Rightarrow> int" where
  "backoff_cap p attempt =
     (let d = shl64 (op_backoffBase p) attempt
      in if d \<le> 0 \<or> d > op_backoffMax p then op_backoffMax p else d)"

definition backoff :: "'w processor \<Rightarrow> int \<Rightarrow> 'w \<Rightarrow> 'w \<times> int" where
  "backoff p attempt w =
     (let half = quot64 (backoff_cap p attempt) 2; (w, draw) = the (op_rand p) w
      in (w, add64 half (draw half)))"

definition delivery_headers :: "mac \<Rightarrow> delivery \<Rightarrow> webhook_config \<Rightarrow> string \<Rightarrow> int \<Rightarrow> headers" where
  "delivery_headers hmac d cfg body ts =
     [(SignatureHeader, SignConfig hmac cfg ts body), (TimestampHeader, FormatInt ts),
      (IdempotencyHeader, dl_eventKey d)]"

definition accepted :: "int \<times> go_error option \<Rightarrow> bool" where
  "accepted r \<longleftrightarrow> snd r = None \<and> 200 \<le> fst r \<and> fst r < 300"

text \<open>The loop of \<open>attemptDelivery\<close> from a given attempt on.\<close>

function attempts ::
  "mac \<Rightarrow> 'w processor \<Rightarrow> delivery \<Rightarrow> webhook_config \<Rightarrow> string \<Rightarrow> int \<Rightarrow> 'w \<Rightarrow> 'w \<times> bool" where
  "attempts hmac p d cfg body attempt w =
     (if \<not> attempt < op_maxAttempts p then (w, False)
      else let (w1, cancelled) = op_ctx p w
        in if cancelled then (w1, False)
           else let (w2, now) = the (op_clock p) w1;
                    (w3, res) = the (op_forwarder p) w2 (wc_url cfg) (delivery_headers hmac d cfg body (Unix now)) body
             in if accepted res then (w3, True)
                else if attempt < op_maxAttempts p - 1 then
                  (let (w4, delay) = backoff p attempt w3;
                       (w5, serr) = the (op_sleep p) w4 delay
                   in if serr \<noteq> None then (w5, False)
                      else attempts hmac p d cfg body (attempt + 1) w5)
                else attempts hmac p d cfg body (attempt + 1) w3)"
  by pat_completeness auto
termination by (relation "measure (\<lambda>(hmac, p, d, cfg, body, attempt, w). nat (op_maxAttempts p - attempt))") auto

declare attempts.simps [simp del]

definition attemptDelivery ::
  "mac \<Rightarrow> 'w processor \<Rightarrow> delivery \<Rightarrow> webhook_config \<Rightarrow> string \<Rightarrow> 'w \<Rightarrow> 'w \<times> bool" where
  "attemptDelivery hmac p d cfg body w = attempts hmac p d cfg body 0 w"

section \<open>Settling\<close>

definition auditDelivery :: "'w processor \<Rightarrow> action \<Rightarrow> delivery \<Rightarrow> 'w \<Rightarrow> 'w" where
  "auditDelivery p act d w =
     (let (w1, aid) = the (op_ids p) w; (w2, now) = the (op_clock p) w1
      in case NewOutboundDeliveryEntry aid systemOperatorOutboundForward act (dl_accountID d) (dl_eventKey d) now of
           Inl e \<Rightarrow> w2
         | Inr en \<Rightarrow> fst (the (op_audit p) w2 en))"

definition settleNoConfig :: "'w processor \<Rightarrow> delivery \<Rightarrow> 'w \<Rightarrow> 'w \<times> bool" where
  "settleNoConfig p d w = (fst (DeletePort (the (op_outbox p)) w (dl_id d)), True)"

definition settleDelivered :: "'w processor \<Rightarrow> delivery \<Rightarrow> 'w \<Rightarrow> 'w \<times> bool" where
  "settleDelivered p d w =
     (auditDelivery p ActionOutboundWebhookDelivered d (fst (DeletePort (the (op_outbox p)) w (dl_id d))), True)"

definition parkAndSettle :: "'w processor \<Rightarrow> delivery \<Rightarrow> reason \<Rightarrow> 'w \<Rightarrow> 'w \<times> bool" where
  "parkAndSettle p d rs w =
     (let (w1, did) = the (op_ids p) w; (w2, now) = the (op_clock p) w1;
          w3 = (case DeadLetterFromDelivery did (Some d) rs now of
                  Inl e \<Rightarrow> w2
                | Inr dl \<Rightarrow> fst (the (op_deadLetters p) w2 dl));
          w4 = fst (DeletePort (the (op_outbox p)) w3 (dl_id d))
      in (auditDelivery p ActionOutboundWebhookDeadLettered d w4, True))"

definition deliverOne :: "mac \<Rightarrow> 'w processor \<Rightarrow> delivery \<Rightarrow> 'w \<Rightarrow> 'w \<times> bool" where
  "deliverOne hmac p d w =
     (let (w1, found) = the (op_configs p) w (dl_accountID d)
      in case found of
           Inl e \<Rightarrow> if errors_Is e ErrNotFound then settleNoConfig p d w1 else (w1, False)
         | Inr cfg \<Rightarrow>
             if \<not> wc_enabled cfg then parkAndSettle p d ReasonEndpointInactive w1
             else let (w2, werr) = the (op_limiter p) w1 (dl_accountID d)
               in if werr \<noteq> None then (w2, False)
                  else let (w3, now) = the (op_clock p) w2
                    in case buildForwardBody d now of
                         Inl e \<Rightarrow> parkAndSettle p d ReasonDeliveryExhausted w3
                       | Inr body \<Rightarrow>
                           let (w4, ok) = attemptDelivery hmac p d cfg body w3
                           in if ok then settleDelivered p d w4
                              else parkAndSettle p d ReasonDeliveryExhausted w4)"

fun deliver_all :: "mac \<Rightarrow> 'w processor \<Rightarrow> delivery list \<Rightarrow> int \<Rightarrow> 'w \<Rightarrow> 'w \<times> int" where
  "deliver_all hmac p [] settled w = (w, settled)"
| "deliver_all hmac p (d # ds) settled w =
     (let (w1, cancelled) = op_ctx p w
      in if cancelled then (w1, settled)
         else let (w2, done) = deliverOne hmac p d w1
           in deliver_all hmac p ds (if done then settled + 1 else settled) w2)"

definition ProcessPending :: "mac \<Rightarrow> 'w processor option \<Rightarrow> 'w \<Rightarrow> 'w \<times> int result" where
  "ProcessPending hmac p w =
     (if \<not> processor_active p then (w, Inr 0)
      else let p = the p; (w1, claimed) = ClaimPort (the (op_outbox p)) w (op_batch p)
        in case claimed of
             Inl e \<Rightarrow> (w1, Inl e)
           | Inr ds \<Rightarrow> let (w2, n) = deliver_all hmac p ds 0 w1 in (w2, Inr n))"


section \<open>The contract of the ports\<close>

text \<open>
  What a world shows of itself: the queue, the dead letters, the trail, the registered endpoints, and
  the requests sent so far with their outcome. A port changes only its own part; a failed write
  changes nothing. \<open>fv_parked\<close> holds the dedup keys of the dead letters: the store drops a second one.
\<close>

record post =
  po_url :: string
  po_headers :: headers
  po_body :: string
  po_result :: "int \<times> go_error option"

record forward_view =
  fv_pending :: "delivery list"
  fv_dead :: "dead_letter list"
  fv_parked :: "string set"
  fv_trail :: "entry list"
  fv_configs :: "string \<Rightarrow> webhook_config option"
  fv_posts :: "post list"

text \<open>A request made for a delivery: to the endpoint of the configuration, signed with its secret.\<close>

definition proper_post :: "mac \<Rightarrow> delivery \<Rightarrow> webhook_config \<Rightarrow> string \<Rightarrow> post \<Rightarrow> bool" where
  "proper_post hmac d cfg body q \<longleftrightarrow> po_url q = wc_url cfg \<and> po_body q = body \<and>
     (\<exists>ts. po_headers q = delivery_headers hmac d cfg body ts)"

text \<open>The requests of one retry loop: none accepted, or only the last one.\<close>

definition names_delivery :: "reason \<Rightarrow> delivery \<Rightarrow> dead_letter \<Rightarrow> bool" where
  "names_delivery rs d dl \<longleftrightarrow>
     dd_tenantID dl = TrimSpace (dl_tenantID d) \<and> dd_eventKey dl = TrimSpace (dl_eventKey d) \<and>
     dd_txID dl = TrimSpace (dl_txID d) \<and> dd_eventType dl = TrimSpace (dl_eventType d) \<and> dd_reason dl = rs"

definition retry_trace :: "bool \<Rightarrow> post list \<Rightarrow> bool" where
  "retry_trace ok ps \<longleftrightarrow>
     (if ok then ps \<noteq> [] \<and> accepted (po_result (last ps)) \<and> list_all (\<lambda>q. \<not> accepted (po_result q)) (butlast ps)
      else list_all (\<lambda>q. \<not> accepted (po_result q)) ps)"

lemma retry_trace_Cons: "\<not> accepted (po_result q) \<Longrightarrow> retry_trace ok ps \<Longrightarrow> retry_trace ok (q # ps)"
  by (auto simp: retry_trace_def split: if_splits)

text \<open>Settling touches the queue, the dead letters and the trail, and sends nothing.\<close>

definition settled_as :: "action option \<Rightarrow> reason option \<Rightarrow> delivery \<Rightarrow> forward_view \<Rightarrow> forward_view \<Rightarrow> bool" where
  "settled_as act rs d v v' \<longleftrightarrow>
     (\<exists>pend dead parked trail. v' = v\<lparr>fv_pending := pend, fv_dead := dead, fv_parked := parked, fv_trail := trail\<rparr> \<and>
        (pend = fv_pending v \<or> pend = remove_first (\<lambda>x. dl_id x = dl_id d) (fv_pending v)) \<and>
        (\<forall>en \<in> set trail - set (fv_trail v). act = Some (au_action en) \<and> au_accountID en = TrimSpace (dl_accountID d)) \<and>
        (\<forall>x \<in> set dead - set (fv_dead v). rs = Some (dd_reason x) \<and> dd_tenantID x = TrimSpace (dl_tenantID d) \<and>
           dd_eventKey x = TrimSpace (dl_eventKey d)))"

text \<open>
  What one pass over a delivery may do, \<open>ps\<close> being the requests it sent: leave it as it is; drop it
  when the account has no endpoint; park it when the endpoint is switched off; else send to that
  endpoint, and settle or park it by the outcome.
\<close>

definition delivery_outcome ::
  "mac \<Rightarrow> int \<Rightarrow> delivery \<Rightarrow> bool \<Rightarrow> forward_view \<Rightarrow> forward_view \<Rightarrow> bool" where
  "delivery_outcome hmac limit d fin v v' \<longleftrightarrow>
     (\<exists>ps. length ps \<le> nat limit \<and>
        (let v1 = v\<lparr>fv_posts := fv_posts v @ ps\<rparr>
         in if \<not> fin then ps = [] \<and> v' = v
            else case fv_configs v (dl_accountID d) of
              None \<Rightarrow> ps = [] \<and> settled_as None None d v1 v'
            | Some cfg \<Rightarrow>
                if \<not> wc_enabled cfg
                then ps = [] \<and> settled_as (Some ActionOutboundWebhookDeadLettered) (Some ReasonEndpointInactive) d v1 v'
                else (\<exists>now body ok. buildForwardBody d now = Inr body \<and> list_all (proper_post hmac d cfg body) ps \<and>
                       retry_trace ok ps \<and>
                       (if ok then settled_as (Some ActionOutboundWebhookDelivered) None d v1 v'
                        else settled_as (Some ActionOutboundWebhookDeadLettered) (Some ReasonDeliveryExhausted) d v1 v'))))"

text \<open>
  The requests between two views: at most \<open>n\<close>, each the signed notification of one of the given
  deliveries, sent to the enabled endpoint of the account that delivery belongs to.
\<close>

definition owned_post :: "mac \<Rightarrow> forward_view \<Rightarrow> delivery \<Rightarrow> post \<Rightarrow> bool" where
  "owned_post hmac v d q \<longleftrightarrow>
     (\<exists>cfg now body. fv_configs v (dl_accountID d) = Some cfg \<and> wc_enabled cfg \<and>
        buildForwardBody d now = Inr body \<and> proper_post hmac d cfg body q)"

definition sends_only :: "mac \<Rightarrow> nat \<Rightarrow> delivery list \<Rightarrow> forward_view \<Rightarrow> forward_view \<Rightarrow> bool" where
  "sends_only hmac n ds v v' \<longleftrightarrow> fv_configs v' = fv_configs v \<and>
     (\<exists>ps. fv_posts v' = fv_posts v @ ps \<and> length ps \<le> n \<and> (\<forall>q \<in> set ps. \<exists>d \<in> set ds. owned_post hmac v d q))"

lemma owned_post_cong: "fv_configs v' = fv_configs v \<Longrightarrow> owned_post hmac v' d q = owned_post hmac v d q"
  by (simp add: owned_post_def)

lemma sends_only_refl: "sends_only hmac n ds v v"
  by (auto simp: sends_only_def)

lemma sends_only_mono: "sends_only hmac n ds v v' \<Longrightarrow> n \<le> n' \<Longrightarrow> set ds \<subseteq> set ds' \<Longrightarrow> sends_only hmac n' ds' v v'"
  unfolding sends_only_def by (meson le_trans subset_iff)

lemma sends_only_trans:
  assumes "sends_only hmac n [d] v v1" "sends_only hmac m ds v1 v2"
  shows "sends_only hmac (n + m) (d # ds) v v2"
proof -
  obtain ps where ps: "fv_posts v1 = fv_posts v @ ps" "length ps \<le> n" "fv_configs v1 = fv_configs v"
    "\<forall>q \<in> set ps. owned_post hmac v d q"
    using assms(1) by (auto simp: sends_only_def)
  obtain qs where qs: "fv_posts v2 = fv_posts v1 @ qs" "length qs \<le> m" "fv_configs v2 = fv_configs v1"
    "\<forall>q \<in> set qs. \<exists>d \<in> set ds. owned_post hmac v d q"
    using assms(2) owned_post_cong [OF ps(3)] by (auto simp: sends_only_def)
  have "fv_posts v2 = fv_posts v @ (ps @ qs)" "length (ps @ qs) \<le> n + m" using ps qs by simp_all
  moreover have "\<forall>q \<in> set (ps @ qs). \<exists>d \<in> set (d # ds). owned_post hmac v d q" using ps(4) qs(4) by auto
  ultimately show ?thesis using ps(3) qs(3) by (auto simp: sends_only_def)
qed

lemma delivery_outcome_sends:
  assumes "delivery_outcome hmac limit d fin v v'"
  shows "sends_only hmac (nat limit) [d] v v'"
proof -
  obtain ps where ps: "length ps \<le> nat limit" "fv_posts v' = fv_posts v @ ps" "fv_configs v' = fv_configs v"
    "\<forall>q \<in> set ps. owned_post hmac v d q"
    using assms
    by (fastforce simp: delivery_outcome_def settled_as_def Let_def owned_post_def list_all_iff split: if_splits option.splits)
  then show ?thesis by (auto simp: sends_only_def)
qed

locale forward_contract =
  fixes p :: "'w processor" and fv :: "'w \<Rightarrow> forward_view"
  assumes active: "processor_active (Some p)"
    and claim: "ClaimPort (the (op_outbox p)) w n = (w', res) \<Longrightarrow> fv w' = fv w \<and>
        (\<forall>ds. res = Inr ds \<longrightarrow> set ds \<subseteq> set (fv_pending (fv w)) \<and> length ds \<le> nat n)"
    and delete: "DeletePort (the (op_outbox p)) w i = (w', err) \<Longrightarrow>
        fv w' = (if err = None then (fv w)\<lparr>fv_pending := remove_first (\<lambda>d. dl_id d = i) (fv_pending (fv w))\<rparr> else fv w)"
    and config: "the (op_configs p) w a = (w', found) \<Longrightarrow> fv w' = fv w \<and>
        (\<forall>c. found = Inr c \<longrightarrow> fv_configs (fv w) a = Some c) \<and>
        (\<forall>e. found = Inl e \<longrightarrow> errors_Is e ErrNotFound \<longrightarrow> fv_configs (fv w) a = None)"
    and deliver: "the (op_forwarder p) w u h b = (w', out) \<Longrightarrow>
        fv w' = (fv w)\<lparr>fv_posts := fv_posts (fv w) @ [\<lparr>po_url = u, po_headers = h, po_body = b, po_result = out\<rparr>]\<rparr>"
    and limit: "the (op_limiter p) w a = (w', err) \<Longrightarrow> fv w' = fv w"
    and dead: "the (op_deadLetters p) w dl = (w', err) \<Longrightarrow>
        (err \<noteq> None \<longrightarrow> fv w' = fv w) \<and>
        (err = None \<longrightarrow> (let k = bar_key (dd_tenantID dl) (dd_eventKey dl)
           in fv w' = (if k \<in> fv_parked (fv w) then fv w
                       else (fv w)\<lparr>fv_dead := fv_dead (fv w) @ [dl], fv_parked := insert k (fv_parked (fv w))\<rparr>)))"
    and trail: "the (op_audit p) w en = (w', err) \<Longrightarrow>
        fv w' = (if err = None then (fv w)\<lparr>fv_trail := fv_trail (fv w) @ [en]\<rparr> else fv w)"
    and clock: "the (op_clock p) w = (w', now) \<Longrightarrow> fv w' = fv w"
    and ids: "the (op_ids p) w = (w', i) \<Longrightarrow> fv w' = fv w"
    and draw: "the (op_rand p) w = (w', f) \<Longrightarrow> fv w' = fv w"
    and pause: "the (op_sleep p) w n = (w', err) \<Longrightarrow> fv w' = fv w"
    and ctx: "op_ctx p w = (w', c) \<Longrightarrow> fv w' = fv w"
begin

lemma backoff_quiet: "backoff p n w = (w', t) \<Longrightarrow> fv w' = fv w"
  by (auto simp: backoff_def Let_def split: prod.splits dest: draw)

lemma attempts_posts:
  "attempts hmac p d cfg body n w = (w', ok) \<Longrightarrow>
   \<exists>ps. fv w' = (fv w)\<lparr>fv_posts := fv_posts (fv w) @ ps\<rparr> \<and> length ps \<le> nat (op_maxAttempts p - n) \<and>
     list_all (proper_post hmac d cfg body) ps \<and> retry_trace ok ps"
proof (induction "nat (op_maxAttempts p - n)" arbitrary: n w)
  case 0
  then have "w' = w" "\<not> ok" by (auto simp: attempts.simps [of hmac p])
  then show ?case by (intro exI [of _ "[]"]) (simp add: retry_trace_def)
next
  case (Suc k)
  then have lt: "n < op_maxAttempts p" and k: "k = nat (op_maxAttempts p - (n + 1))" by auto
  obtain w1 c where w1: "op_ctx p w = (w1, c)" by fastforce
  obtain w2 now where w2: "the (op_clock p) w1 = (w2, now)" by fastforce
  let ?h = "delivery_headers hmac d cfg body (Unix now)"
  obtain w3 out where w3: "the (op_forwarder p) w2 (wc_url cfg) ?h body = (w3, out)" by (rule prod.exhaust)
  obtain w4 t where w4: "backoff p n w3 = (w4, t)" by fastforce
  obtain w5 err where w5: "the (op_sleep p) w4 t = (w5, err)" by fastforce
  let ?q = "\<lparr>po_url = wc_url cfg, po_headers = ?h, po_body = body, po_result = out\<rparr>"
  have q: "proper_post hmac d cfg body ?q" by (auto simp: proper_post_def)
  have v1: "fv w1 = fv w" using ctx [OF w1] .
  have v3: "fv w3 = (fv w)\<lparr>fv_posts := fv_posts (fv w) @ [?q]\<rparr>"
    using deliver [OF w3] clock [OF w2] v1 by simp
  have v5: "fv w5 = fv w3" using pause [OF w5] backoff_quiet [OF w4] by simp
  note run = Suc.prems [unfolded attempts.simps [of hmac p d cfg body n w] w1 w2 w3 w4 w5 Let_def prod.case]
  have again: ?case if at: "fv wn = fv w3" "attempts hmac p d cfg body (n + 1) wn = (w', ok)" "\<not> accepted out" for wn
  proof -
    obtain ps where ps: "fv w' = (fv wn)\<lparr>fv_posts := fv_posts (fv wn) @ ps\<rparr>" "length ps \<le> nat (op_maxAttempts p - (n + 1))"
      "list_all (proper_post hmac d cfg body) ps" "retry_trace ok ps"
      using Suc.hyps(1) [OF k at(2)] by blast
    show ?case using ps v3 at(1,3) q lt retry_trace_Cons [of ?q ok ps] by (intro exI [of _ "?q # ps"]) auto
  qed
  consider "c" | "\<not> c" "accepted out" | "\<not> c" "\<not> accepted out" "n < op_maxAttempts p - 1" "err \<noteq> None"
    | "\<not> c" "\<not> accepted out" "attempts hmac p d cfg body (n + 1) w5 = (w', ok)"
    | "\<not> c" "\<not> accepted out" "attempts hmac p d cfg body (n + 1) w3 = (w', ok)"
    using run lt by (auto split: if_splits)
  then show ?case
  proof cases
    case 1
    with run lt v1 show ?thesis by (intro exI [of _ "[]"]) (auto simp: retry_trace_def)
  next
    case 2
    with run lt v3 q show ?thesis by (intro exI [of _ "[?q]"]) (auto simp: retry_trace_def)
  next
    case 3
    with run lt v3 v5 q show ?thesis by (intro exI [of _ "[?q]"]) (auto simp: retry_trace_def)
  qed (use again v5 in blast)+
qed

lemma delete_pending:
  obtains pend where "fv (fst (DeletePort (the (op_outbox p)) w i)) = (fv w)\<lparr>fv_pending := pend\<rparr>"
    "pend = fv_pending (fv w) \<or> pend = remove_first (\<lambda>d. dl_id d = i) (fv_pending (fv w))"
proof -
  obtain w' err where "DeletePort (the (op_outbox p)) w i = (w', err)" by fastforce
  with delete [OF this]
    that [of "if err = None then remove_first (\<lambda>d. dl_id d = i) (fv_pending (fv w)) else fv_pending (fv w)"]
  show thesis by (cases "err = None") auto
qed

lemma auditDelivery_trail:
  obtains trail where "fv (auditDelivery p act d w) = (fv w)\<lparr>fv_trail := trail\<rparr>"
    "\<forall>en \<in> set trail - set (fv_trail (fv w)). au_action en = act \<and> au_accountID en = TrimSpace (dl_accountID d)"
proof -
  obtain w1 i where w1: "the (op_ids p) w = (w1, i)" by fastforce
  obtain w2 now where w2: "the (op_clock p) w1 = (w2, now)" by fastforce
  have v: "fv w2 = fv w" using clock [OF w2] ids [OF w1] by simp
  show thesis
  proof (cases "NewOutboundDeliveryEntry i systemOperatorOutboundForward act (dl_accountID d) (dl_eventKey d) now")
    case (Inl e)
    with w1 w2 v that [of "fv_trail (fv w)"] show thesis by (simp add: auditDelivery_def)
  next
    case (Inr en)
    obtain w3 err where w3: "the (op_audit p) w2 en = (w3, err)" by fastforce
    have "au_action en = act \<and> au_accountID en = TrimSpace (dl_accountID d)"
      using Inr by (auto simp: NewOutboundDeliveryEntry_def zero_entry_def Let_def split: if_splits)
    with trail [OF w3] w1 w2 w3 Inr v that [of "if err = None then fv_trail (fv w) @ [en] else fv_trail (fv w)"]
    show thesis by (cases "err = None") (auto simp: auditDelivery_def)
  qed
qed

lemma settleNoConfig_settled: "settled_as None None d (fv w) (fv (fst (settleNoConfig p d w)))"
proof -
  obtain pend where "fv (fst (DeletePort (the (op_outbox p)) w (dl_id d))) = (fv w)\<lparr>fv_pending := pend\<rparr>"
    "pend = fv_pending (fv w) \<or> pend = remove_first (\<lambda>x. dl_id x = dl_id d) (fv_pending (fv w))" by (rule delete_pending)
  then show ?thesis unfolding settled_as_def settleNoConfig_def
    by (intro exI [of _ pend] exI [of _ "fv_dead (fv w)"] exI [of _ "fv_parked (fv w)"] exI [of _ "fv_trail (fv w)"]) simp
qed

lemma settleDelivered_settled:
  "settled_as (Some ActionOutboundWebhookDelivered) None d (fv w) (fv (fst (settleDelivered p d w)))"
proof -
  obtain pend where pend: "fv (fst (DeletePort (the (op_outbox p)) w (dl_id d))) = (fv w)\<lparr>fv_pending := pend\<rparr>"
    "pend = fv_pending (fv w) \<or> pend = remove_first (\<lambda>x. dl_id x = dl_id d) (fv_pending (fv w))" by (rule delete_pending)
  let ?w = "fst (DeletePort (the (op_outbox p)) w (dl_id d))"
  obtain tr where tr: "fv (auditDelivery p ActionOutboundWebhookDelivered d ?w) = (fv ?w)\<lparr>fv_trail := tr\<rparr>"
    "\<forall>en \<in> set tr - set (fv_trail (fv ?w)). au_action en = ActionOutboundWebhookDelivered \<and> au_accountID en = TrimSpace (dl_accountID d)"
    by (rule auditDelivery_trail)
  then show ?thesis unfolding settled_as_def settleDelivered_def
    using pend by (intro exI [of _ pend] exI [of _ "fv_dead (fv w)"] exI [of _ "fv_parked (fv w)"] exI [of _ tr]) simp
qed

lemma parkAndSettle_settled:
  "settled_as (Some ActionOutboundWebhookDeadLettered) (Some rs) d (fv w) (fv (fst (parkAndSettle p d rs w)))"
proof -
  obtain w1 i where w1: "the (op_ids p) w = (w1, i)" by fastforce
  obtain w2 now where w2: "the (op_clock p) w1 = (w2, now)" by fastforce
  have v: "fv w2 = fv w" using clock [OF w2] ids [OF w1] by simp
  define w3 where "w3 = (case DeadLetterFromDelivery i (Some d) rs now of
                  Inl e \<Rightarrow> w2 | Inr dl \<Rightarrow> fst (the (op_deadLetters p) w2 dl))"
  have "\<exists>ds ks. fv w3 = (fv w)\<lparr>fv_dead := ds, fv_parked := ks\<rparr> \<and>
    (\<forall>x \<in> set ds - set (fv_dead (fv w)). dd_reason x = rs \<and> dd_tenantID x = TrimSpace (dl_tenantID d) \<and>
       dd_eventKey x = TrimSpace (dl_eventKey d))"
  proof (cases "DeadLetterFromDelivery i (Some d) rs now")
    case (Inl e)
    then show ?thesis using v by (intro exI [of _ "fv_dead (fv w)"] exI [of _ "fv_parked (fv w)"]) (simp add: w3_def)
  next
    case (Inr dl)
    have f: "dd_reason dl = rs \<and> dd_tenantID dl = TrimSpace (dl_tenantID d) \<and> dd_eventKey dl = TrimSpace (dl_eventKey d)"
      using Inr by (auto simp: DeadLetterFromDelivery_def split: if_splits dest: NewDeadLetter_fields)
    obtain w4 err where w4: "the (op_deadLetters p) w2 dl = (w4, err)" by fastforce
    then have "w3 = w4" using Inr by (simp add: w3_def)
    then consider "fv w3 = fv w" | "fv w3 = (fv w)\<lparr>fv_dead := fv_dead (fv w) @ [dl],
        fv_parked := insert (bar_key (dd_tenantID dl) (dd_eventKey dl)) (fv_parked (fv w))\<rparr>"
      using dead [OF w4] v by (cases "err = None") (auto simp: Let_def split: if_splits)
    then show ?thesis
    proof cases
      case 1
      then show ?thesis by (intro exI [of _ "fv_dead (fv w)"] exI [of _ "fv_parked (fv w)"]) simp
    next
      case 2
      with f show ?thesis by (intro exI) auto
    qed
  qed
  then obtain ds ks where ds: "fv w3 = (fv w)\<lparr>fv_dead := ds, fv_parked := ks\<rparr>"
    "\<forall>x \<in> set ds - set (fv_dead (fv w)). dd_reason x = rs \<and> dd_tenantID x = TrimSpace (dl_tenantID d) \<and>
       dd_eventKey x = TrimSpace (dl_eventKey d)" by blast
  let ?w = "fst (DeletePort (the (op_outbox p)) w3 (dl_id d))"
  obtain pend where pend: "fv ?w = (fv w3)\<lparr>fv_pending := pend\<rparr>"
    "pend = fv_pending (fv w3) \<or> pend = remove_first (\<lambda>x. dl_id x = dl_id d) (fv_pending (fv w3))" by (rule delete_pending)
  obtain tr where tr: "fv (auditDelivery p ActionOutboundWebhookDeadLettered d ?w) = (fv ?w)\<lparr>fv_trail := tr\<rparr>"
    "\<forall>en \<in> set tr - set (fv_trail (fv ?w)). au_action en = ActionOutboundWebhookDeadLettered \<and> au_accountID en = TrimSpace (dl_accountID d)"
    by (rule auditDelivery_trail)
  have "fst (parkAndSettle p d rs w) = auditDelivery p ActionOutboundWebhookDeadLettered d ?w"
    using w1 w2 by (simp add: parkAndSettle_def w3_def Let_def)
  with tr pend ds show ?thesis unfolding settled_as_def
    by (intro exI [of _ pend] exI [of _ ds] exI [of _ ks] exI [of _ tr]) simp
qed

text \<open>The configuration decides the branch; the retry loop its end.\<close>

lemma deliverOne_outcome:
  assumes run: "deliverOne hmac p d w = (w', fin)"
  shows "delivery_outcome hmac (op_maxAttempts p) d fin (fv w) (fv w')"
proof -
  obtain w1 found where w1: "the (op_configs p) w (dl_accountID d) = (w1, found)" by fastforce
  have v1: "fv w1 = fv w" using config [OF w1] by simp
  show ?thesis
  proof (cases found)
    case (Inl e)
    show ?thesis
    proof (cases "errors_Is e ErrNotFound")
      case True
      with run w1 Inl have "w' = fst (settleNoConfig p d w1)" "fin"
        by (simp_all add: deliverOne_def settleNoConfig_def)
      moreover have "fv_configs (fv w) (dl_accountID d) = None" using config [OF w1] Inl True by simp
      ultimately show ?thesis using settleNoConfig_settled [of d w1] v1
        unfolding delivery_outcome_def by (intro exI [of _ "[]"]) simp_all
    next
      case False
      with run w1 Inl v1 show ?thesis unfolding delivery_outcome_def by (intro exI [of _ "[]"]) (simp_all add: deliverOne_def)
    qed
  next
    case (Inr cfg)
    have cf: "fv_configs (fv w) (dl_accountID d) = Some cfg" using config [OF w1] Inr by simp
    show ?thesis
    proof (cases "wc_enabled cfg")
      case False
      with run w1 Inr have "w' = fst (parkAndSettle p d ReasonEndpointInactive w1)" "fin"
        by (auto simp: deliverOne_def parkAndSettle_def Let_def split: prod.splits)
      with parkAndSettle_settled [of ReasonEndpointInactive d w1] v1 cf False show ?thesis
        unfolding delivery_outcome_def by (intro exI [of _ "[]"]) simp_all
    next
      case True
      obtain w2 err where w2: "the (op_limiter p) w1 (dl_accountID d) = (w2, err)" by fastforce
      obtain w3 now where w3: "the (op_clock p) w2 = (w3, now)" by fastforce
      obtain body where body: "buildForwardBody d now = Inr body" by (simp add: buildForwardBody_def)
      obtain w4 ok where w4: "attemptDelivery hmac p d cfg body w3 = (w4, ok)" by fastforce
      have v3: "fv w2 = fv w" "fv w3 = fv w" using limit [OF w2] clock [OF w3] v1 by simp_all
      obtain ps where ps: "fv w4 = (fv w3)\<lparr>fv_posts := fv_posts (fv w3) @ ps\<rparr>" "length ps \<le> nat (op_maxAttempts p)"
        "list_all (proper_post hmac d cfg body) ps" "retry_trace ok ps"
        using attempts_posts [of hmac d cfg body 0 w3 w4 ok] w4 by (auto simp: attemptDelivery_def)
      show ?thesis
      proof (cases "err = None")
        case False
        with run w1 Inr True w2 v3 show ?thesis
          unfolding delivery_outcome_def by (intro exI [of _ "[]"]) (simp_all add: deliverOne_def)
      next
        case e: True
        have w': "w' = fst (if ok then settleDelivered p d w4 else parkAndSettle p d ReasonDeliveryExhausted w4) \<and> fin"
          using run w1 Inr True w2 w3 body w4 e
          by (auto simp: deliverOne_def parkAndSettle_def settleDelivered_def Let_def split: prod.splits if_splits)
        show ?thesis
          using w' ps v3 cf True body settleDelivered_settled [of d w4] parkAndSettle_settled [of ReasonDeliveryExhausted d w4]
          unfolding delivery_outcome_def by (intro exI [of _ ps]) (auto split: if_splits)
      qed
    qed
  qed
qed

text \<open>A batch is a sequence of such passes.\<close>

lemma deliver_all_posts:
  "deliver_all hmac p ds n w = (w', m) \<Longrightarrow>
   sends_only hmac (length ds * nat (op_maxAttempts p)) ds (fv w) (fv w') \<and> n \<le> m \<and> m \<le> n + int (length ds)"
proof (induction ds arbitrary: n w)
  case Nil
  then show ?case by (simp add: sends_only_refl)
next
  case (Cons d ds)
  obtain w1 c where w1: "op_ctx p w = (w1, c)" by fastforce
  have v1: "fv w1 = fv w" using ctx [OF w1] .
  show ?case
  proof (cases c)
    case True
    with Cons.prems w1 v1 show ?thesis by (simp add: sends_only_refl)
  next
    case False
    obtain w2 fin where w2: "deliverOne hmac p d w1 = (w2, fin)" by fastforce
    with Cons.prems w1 False have rest: "deliver_all hmac p ds (if fin then n + 1 else n) w2 = (w', m)" by simp
    have "sends_only hmac (nat (op_maxAttempts p)) [d] (fv w) (fv w2)"
      using delivery_outcome_sends [OF deliverOne_outcome [OF w2]] v1 by simp
    from sends_only_trans [OF this conjunct1 [OF Cons.IH [OF rest]]] Cons.IH [OF rest] show ?thesis
      by (auto split: if_splits)
  qed
qed

lemma ProcessPending_posts:
  assumes "ProcessPending hmac (Some p) w = (w', res)"
  shows "sends_only hmac (nat (op_batch p) * nat (op_maxAttempts p)) (fv_pending (fv w)) (fv w) (fv w')"
proof -
  obtain w1 claimed where w1: "ClaimPort (the (op_outbox p)) w (op_batch p) = (w1, claimed)" by fastforce
  have v1: "fv w1 = fv w" using claim [OF w1] by simp
  show ?thesis
  proof (cases claimed)
    case (Inl e)
    with assms w1 active v1 show ?thesis by (simp add: ProcessPending_def sends_only_refl)
  next
    case (Inr ds)
    obtain w2 n where w2: "deliver_all hmac p ds 0 w1 = (w2, n)" by fastforce
    with assms w1 Inr active have "w' = w2" by (simp add: ProcessPending_def)
    moreover have "set ds \<subseteq> set (fv_pending (fv w))" "length ds \<le> nat (op_batch p)" using claim [OF w1] Inr by auto
    ultimately show ?thesis
      using sends_only_mono [OF conjunct1 [OF deliver_all_posts [OF w2]]] v1 by (simp add: mult_right_mono)
  qed
qed

end

text \<open>
  With stores that do not fail and nothing to interrupt it, a tick empties the head of the queue.
\<close>

locale forward_reliable = forward_contract +
  assumes delete_ok: "snd (DeletePort (the (op_outbox p)) w i) = None"
    and config_ok: "the (op_configs p) w a = (w', Inl e) \<Longrightarrow> errors_Is e ErrNotFound"
    and claim_ok: "list_all (\<lambda>d. dl_status d = DeliveryPending) (fv_pending (fv w)) \<Longrightarrow>
        snd (ClaimPort (the (op_outbox p)) w n) = Inr (take (nat n) (fv_pending (fv w)))"
    and limit_ok: "snd (the (op_limiter p) w a) = None"
    and ctx_ok: "\<not> snd (op_ctx p w)"
begin

lemma delete_gone:
  "fv_pending (fv (fst (DeletePort (the (op_outbox p)) w i))) = remove_first (\<lambda>d. dl_id d = i) (fv_pending (fv w))"
  using delete [of w i] delete_ok [of w i] by (cases "DeletePort (the (op_outbox p)) w i") auto

lemma auditDelivery_pending: "fv_pending (fv (auditDelivery p act d w)) = fv_pending (fv w)"
  by (rule auditDelivery_trail [of act d w]) simp

lemma parkAndSettle_pending:
  "fv_pending (fv (fst (parkAndSettle p d rs w))) = remove_first (\<lambda>x. dl_id x = dl_id d) (fv_pending (fv w))"
proof -
  obtain w1 i where w1: "the (op_ids p) w = (w1, i)" by fastforce
  obtain w2 now where w2: "the (op_clock p) w1 = (w2, now)" by fastforce
  have "fv_pending (fv (fst (the (op_deadLetters p) w2 dl))) = fv_pending (fv w2)" for dl
    using dead [of w2 dl]
    by (cases "the (op_deadLetters p) w2 dl"; cases "snd (the (op_deadLetters p) w2 dl) = None") (auto simp: Let_def)
  with w1 w2 clock [OF w2] ids [OF w1] show ?thesis
    by (simp add: parkAndSettle_def Let_def auditDelivery_pending delete_gone split: sum.split)
qed

text \<open>
  With usable ids a parked delivery has a dead letter: one naming it and the reason is appended, unless
  the dedup key of the event was parked before. Nothing is sent.
\<close>

lemma parkAndSettle_dead:
  assumes ids_ok: "\<And>w. TrimSpace (snd (the (op_ids p) w)) \<noteq> []" and dead_ok: "\<And>w dl. snd (the (op_deadLetters p) w dl) = None"
    and d: "TrimSpace (dl_tenantID d) \<noteq> []" "TrimSpace (dl_eventKey d) \<noteq> []" "TrimSpace (dl_eventType d) \<noteq> []"
    and rs: "rs = ReasonEndpointInactive \<or> rs = ReasonDeliveryExhausted"
  shows "fv_posts (fv (fst (parkAndSettle p d rs w))) = fv_posts (fv w) \<and>
    (if bar_key (TrimSpace (dl_tenantID d)) (TrimSpace (dl_eventKey d)) \<in> fv_parked (fv w)
     then fv_dead (fv (fst (parkAndSettle p d rs w))) = fv_dead (fv w)
     else \<exists>dl. fv_dead (fv (fst (parkAndSettle p d rs w))) = fv_dead (fv w) @ [dl] \<and> names_delivery rs d dl)"
proof -
  obtain w1 i where w1: "the (op_ids p) w = (w1, i)" by fastforce
  obtain w2 now where w2: "the (op_clock p) w1 = (w2, now)" by fastforce
  have "TrimSpace i \<noteq> []" using ids_ok [of w] w1 by simp
  with d rs obtain dl where dl: "DeadLetterFromDelivery i (Some d) rs now = Inr dl" and f: "names_delivery rs d dl"
    by (auto simp: DeadLetterFromDelivery_def NewDeadLetter_def Let_def names_delivery_def)
  obtain w3 where w3: "the (op_deadLetters p) w2 dl = (w3, None)"
    using dead_ok [of w2 dl] by (cases "the (op_deadLetters p) w2 dl") auto
  have v: "fv w2 = fv w" using clock [OF w2] ids [OF w1] by simp
  have "fv_dead (fv (auditDelivery p act d w)) = fv_dead (fv w) \<and> fv_posts (fv (auditDelivery p act d w)) = fv_posts (fv w)" for act w
    by (rule auditDelivery_trail [of act d w]) simp
  moreover have "fv_dead (fv (fst (DeletePort (the (op_outbox p)) w3 i))) = fv_dead (fv w3) \<and>
      fv_posts (fv (fst (DeletePort (the (op_outbox p)) w3 i))) = fv_posts (fv w3)" for i
    by (rule delete_pending [of w3 i]) simp
  ultimately have "fv_dead (fv (fst (parkAndSettle p d rs w))) = fv_dead (fv w3) \<and>
      fv_posts (fv (fst (parkAndSettle p d rs w))) = fv_posts (fv w3)"
    using w1 w2 dl w3 by (simp add: parkAndSettle_def)
  with dead [OF w3] v f show ?thesis by (auto simp: Let_def names_delivery_def)
qed

lemma parkAndSettle_fin: "snd (parkAndSettle p d rs w)"
  by (simp add: parkAndSettle_def Let_def split: prod.split)

lemma deliverOne_settles:
  assumes "deliverOne hmac p d w = (w', fin)"
  shows "fin \<and> fv_pending (fv w') = remove_first (\<lambda>x. dl_id x = dl_id d) (fv_pending (fv w))"
proof -
  obtain w1 found where w1: "the (op_configs p) w (dl_accountID d) = (w1, found)" by fastforce
  have v1: "fv w1 = fv w" using config [OF w1] by simp
  show ?thesis
  proof (cases found)
    case (Inl e)
    with config_ok [OF w1 [unfolded Inl]] assms w1 v1 show ?thesis
      by (auto simp: deliverOne_def settleNoConfig_def delete_gone)
  next
    case (Inr cfg)
    obtain w2 err where w2: "the (op_limiter p) w1 (dl_accountID d) = (w2, err)" by fastforce
    have ok: "err = None" using limit_ok [of w1 "dl_accountID d"] w2 by simp
    obtain w3 now where w3: "the (op_clock p) w2 = (w3, now)" by fastforce
    obtain body where body: "buildForwardBody d now = Inr body" by (simp add: buildForwardBody_def)
    obtain w4 acc where w4: "attemptDelivery hmac p d cfg body w3 = (w4, acc)" by fastforce
    have v4: "fv_pending (fv w4) = fv_pending (fv w)"
      using attempts_posts [of hmac d cfg body 0 w3 w4 acc] w4 v1 limit [OF w2] clock [OF w3] by (auto simp: attemptDelivery_def)
    have r: "deliverOne hmac p d w = (if \<not> wc_enabled cfg then parkAndSettle p d ReasonEndpointInactive w1
        else if acc then settleDelivered p d w4 else parkAndSettle p d ReasonDeliveryExhausted w4)"
      using w1 Inr w2 ok w3 body w4 by (cases "wc_enabled cfg") (simp_all add: deliverOne_def)
    have "snd (deliverOne hmac p d w)"
      unfolding r by (simp add: parkAndSettle_fin settleDelivered_def)
    moreover have "fv_pending (fv (fst (deliverOne hmac p d w))) = remove_first (\<lambda>x. dl_id x = dl_id d) (fv_pending (fv w))"
      unfolding r by (simp add: parkAndSettle_pending settleDelivered_def auditDelivery_pending delete_gone v1 v4)
    ultimately show ?thesis by (simp add: assms)
  qed
qed

lemma deliverOne_enabled:
  assumes w1: "the (op_configs p) w (dl_accountID d) = (w1, Inr cfg)" "wc_enabled cfg"
    and run: "deliverOne hmac p d w = (w', fin)"
  obtains (delivered) ps where "fv_posts (fv w') = fv_posts (fv w) @ ps" "retry_trace True ps" "fv_dead (fv w') = fv_dead (fv w)"
  | (exhausted) ps w4 where "fv w4 = (fv w)\<lparr>fv_posts := fv_posts (fv w) @ ps\<rparr>" "retry_trace False ps"
      "w' = fst (parkAndSettle p d ReasonDeliveryExhausted w4)"
proof -
  obtain w2 err where w2: "the (op_limiter p) w1 (dl_accountID d) = (w2, err)" by fastforce
  have ok: "err = None" using limit_ok [of w1 "dl_accountID d"] w2 by simp
  obtain w3 now where w3: "the (op_clock p) w2 = (w3, now)" by fastforce
  obtain body where body: "buildForwardBody d now = Inr body" by (simp add: buildForwardBody_def)
  obtain w4 acc where w4: "attemptDelivery hmac p d cfg body w3 = (w4, acc)" by fastforce
  have v3: "fv w3 = fv w" using config [OF w1(1)] limit [OF w2] clock [OF w3] by simp
  have r: "deliverOne hmac p d w = (if acc then settleDelivered p d w4 else parkAndSettle p d ReasonDeliveryExhausted w4)"
    using w1 w2 ok w3 body w4 by (simp add: deliverOne_def)
  obtain ps where ps: "fv w4 = (fv w)\<lparr>fv_posts := fv_posts (fv w) @ ps\<rparr>" "retry_trace acc ps"
    using attempts_posts [of hmac d cfg body 0 w3 w4 acc] w4 v3 by (auto simp: attemptDelivery_def)
  show thesis
  proof (cases acc)
    case True
    have "fv_dead (fv (auditDelivery p act d w)) = fv_dead (fv w) \<and> fv_posts (fv (auditDelivery p act d w)) = fv_posts (fv w)" for act w
      by (rule auditDelivery_trail [of act d w]) simp
    moreover have "fv_dead (fv (fst (DeletePort (the (op_outbox p)) w4 i))) = fv_dead (fv w4) \<and>
        fv_posts (fv (fst (DeletePort (the (op_outbox p)) w4 i))) = fv_posts (fv w4)" for i
      by (rule delete_pending [of w4 i]) simp
    moreover have "w' = fst (settleDelivered p d w4)" using True r run by (metis fst_conv)
    ultimately show thesis using True ps delivered [of ps] by (simp add: settleDelivered_def)
  next
    case False
    with r run have "w' = fst (parkAndSettle p d ReasonDeliveryExhausted w4)" by (metis fst_conv)
    with False ps show thesis by (intro exhausted) simp_all
  qed
qed

lemma deliver_all_drains:
  "deliver_all hmac p ds n w = (w', m) \<Longrightarrow> fv_pending (fv w) = ds @ rest \<Longrightarrow>
   m = n + int (length ds) \<and> fv_pending (fv w') = rest"
proof (induction ds arbitrary: n w)
  case (Cons d ds)
  obtain w1 where w1: "op_ctx p w = (w1, False)" using ctx_ok [of w] by (cases "op_ctx p w") auto
  obtain w2 fin where w2: "deliverOne hmac p d w1 = (w2, fin)" by fastforce
  have "fin" "fv_pending (fv w2) = ds @ rest" using deliverOne_settles [OF w2] ctx [OF w1] Cons.prems(2) by simp_all
  with Cons.IH [of "n + 1" w2] Cons.prems(1) w1 w2 show ?case by simp
qed simp

lemma tick_drains:
  assumes "list_all (\<lambda>d. dl_status d = DeliveryPending) (fv_pending (fv w))"
  shows "\<exists>w'. ProcessPending hmac (Some p) w = (w', Inr (int (length (take (nat (op_batch p)) (fv_pending (fv w)))))) \<and>
     fv_pending (fv w') = drop (nat (op_batch p)) (fv_pending (fv w))"
proof -
  define ds where "ds = take (nat (op_batch p)) (fv_pending (fv w))"
  define rest where "rest = drop (nat (op_batch p)) (fv_pending (fv w))"
  have split: "fv_pending (fv w) = ds @ rest" by (simp add: ds_def rest_def)
  obtain w1 where w1: "ClaimPort (the (op_outbox p)) w (op_batch p) = (w1, Inr ds)"
    using claim_ok [OF assms, of "op_batch p"] unfolding ds_def by (metis prod.collapse)
  obtain w2 m where w2: "deliver_all hmac p ds 0 w1 = (w2, m)" by fastforce
  have "fv_pending (fv w1) = ds @ rest" using claim [OF w1] split by simp
  from deliver_all_drains [OF w2 this] have "m = int (length ds)" "fv_pending (fv w2) = rest" by simp_all
  moreover have "ProcessPending hmac (Some p) w = (w2, Inr m)" using w1 w2 active by (simp add: ProcessPending_def)
  ultimately show ?thesis unfolding ds_def rest_def by blast
qed

end

end
