(* ===== verification/ForwardMemory.thy ===== *)
theory ForwardMemory
  imports Forward
begin

text \<open>
  The forwarding processor wired to the in-memory stores, as \<open>cmd/api\<close> wires it in stub mode: the
  contract of its ports holds there, and what follows for the notifications.
\<close>

section \<open>The processor over the in-memory stores\<close>

text \<open>
  The environment answers the n-th question put to it: the clock, the id provider, the receiver, the
  limiter, the jitter, the sleeper and the context.
\<close>

record forward_env =
  ev_now :: "nat \<Rightarrow> gotime"
  ev_id :: "nat \<Rightarrow> string"
  ev_answer :: "nat \<Rightarrow> string \<Rightarrow> int \<times> go_error option"
  ev_wait :: "nat \<Rightarrow> go_error option"
  ev_draw :: "nat \<Rightarrow> int \<Rightarrow> int"
  ev_sleep :: "nat \<Rightarrow> go_error option"
  ev_ctx :: "nat \<Rightarrow> bool"

record forward_world =
  fw_outbox :: outbox
  fw_hooks :: webhook_store
  fw_store :: store
  fw_posts :: "post list"
  fw_tick :: nat

record forward_knobs =
  fk_maxAttempts :: int
  fk_backoffBase :: int
  fk_backoffMax :: int
  fk_batch :: int

definition ask :: "(nat \<Rightarrow> 'a) \<Rightarrow> forward_world \<Rightarrow> forward_world \<times> 'a" where
  "ask f w = (w\<lparr>fw_tick := Suc (fw_tick w)\<rparr>, f (fw_tick w))"

definition memory_outbox :: "forward_world outbox_port" where
  "memory_outbox =
     \<lparr>ClaimPort = \<lambda>w n. (w, Inr (ClaimPendingDeliveries (fw_outbox w) n)),
      DeletePort = \<lambda>w i. (case DeleteDelivery (fw_outbox w) i of
        Inl e \<Rightarrow> (w, Some e) | Inr o2 \<Rightarrow> (w\<lparr>fw_outbox := o2\<rparr>, None))\<rparr>"

definition memory_processor :: "forward_env \<Rightarrow> forward_knobs \<Rightarrow> forward_world processor" where
  "memory_processor env k = NewOutboundProcessor (\<lambda>w t. ask (ev_sleep env) w)
     \<lparr>op_enabled = True, op_outbox = Some memory_outbox,
      op_configs = Some (\<lambda>w a. (w, GetOutboundWebhook (fw_hooks w) a)),
      op_forwarder = Some (\<lambda>w u h b. let (w1, f) = ask (ev_answer env) w
        in (w1\<lparr>fw_posts := fw_posts w1 @ [\<lparr>po_url = u, po_headers = h, po_body = b, po_result = f u\<rparr>]\<rparr>, f u)),
      op_limiter = Some (\<lambda>w a. ask (ev_wait env) w),
      op_deadLetters = Some (\<lambda>w dl. case DeadLetter (fw_outbox w) dl of
        Inl e \<Rightarrow> (w, Some e) | Inr o2 \<Rightarrow> (w\<lparr>fw_outbox := o2\<rparr>, None)),
      op_audit = Some (\<lambda>w en. case appendAudit (fw_store w) en of
        Inl e \<Rightarrow> (w, Some e) | Inr s2 \<Rightarrow> (w\<lparr>fw_store := s2\<rparr>, None)),
      op_clock = Some (ask (ev_now env)), op_ids = Some (ask (ev_id env)),
      op_maxAttempts = fk_maxAttempts k, op_backoffBase = fk_backoffBase k, op_backoffMax = fk_backoffMax k,
      op_batch = fk_batch k, op_rand = Some (ask (ev_draw env)), op_sleep = None, op_ctx = ask (ev_ctx env)\<rparr>"

definition world_view :: "forward_world \<Rightarrow> forward_view" where
  "world_view w =
     \<lparr>fv_pending = ob_deliveries (fw_outbox w), fv_dead = ob_deadLetters (fw_outbox w),
      fv_parked = set (ob_seenDead (fw_outbox w)), fv_trail = st_audit (fw_store w),
      fv_configs = (\<lambda>a. case GetOutboundWebhook (fw_hooks w) a of Inl e \<Rightarrow> None | Inr c \<Rightarrow> Some c),
      fv_posts = fw_posts w\<rparr>"

lemma memory_processor_ports [simp]:
  "op_enabled (memory_processor env k)" "op_outbox (memory_processor env k) = Some memory_outbox"
  "op_configs (memory_processor env k) = Some (\<lambda>w a. (w, GetOutboundWebhook (fw_hooks w) a))"
  "op_forwarder (memory_processor env k) = Some (\<lambda>w u h b. let (w1, f) = ask (ev_answer env) w
     in (w1\<lparr>fw_posts := fw_posts w1 @ [\<lparr>po_url = u, po_headers = h, po_body = b, po_result = f u\<rparr>]\<rparr>, f u))"
  "op_limiter (memory_processor env k) = Some (\<lambda>w a. ask (ev_wait env) w)"
  "op_deadLetters (memory_processor env k) = Some (\<lambda>w dl. case DeadLetter (fw_outbox w) dl of
     Inl e \<Rightarrow> (w, Some e) | Inr o2 \<Rightarrow> (w\<lparr>fw_outbox := o2\<rparr>, None))"
  "op_audit (memory_processor env k) = Some (\<lambda>w en. case appendAudit (fw_store w) en of
     Inl e \<Rightarrow> (w, Some e) | Inr s2 \<Rightarrow> (w\<lparr>fw_store := s2\<rparr>, None))"
  "op_clock (memory_processor env k) = Some (ask (ev_now env))" "op_ids (memory_processor env k) = Some (ask (ev_id env))"
  "op_rand (memory_processor env k) = Some (ask (ev_draw env))"
  "op_sleep (memory_processor env k) = Some (\<lambda>w t. ask (ev_sleep env) w)"
  "op_ctx (memory_processor env k) = ask (ev_ctx env)"
  by (simp_all add: memory_processor_def NewOutboundProcessor_def)

lemma memory_active: "processor_active (Some (memory_processor env k))"
  by (simp add: processor_active_def)

lemma memory_knobs:
  "op_maxAttempts (memory_processor env k) = (if fk_maxAttempts k \<le> 0 then 3 else fk_maxAttempts k)"
  "op_batch (memory_processor env k) = (if fk_batch k \<le> 0 then 64 else fk_batch k)"
  by (simp_all add: memory_processor_def NewOutboundProcessor_def defaultForwardMaxAttempts_def defaultForwardBatch_def)

lemma ask_view: "ask f w = (w', x) \<Longrightarrow> world_view w' = world_view w"
  by (auto simp: ask_def world_view_def)

lemma DeadLetter_view:
  "DeadLetter o1 dl = Inr o2 \<Longrightarrow>
     world_view (w\<lparr>fw_outbox := o2\<rparr>) =
       (let v = world_view (w\<lparr>fw_outbox := o1\<rparr>); k = bar_key (dd_tenantID dl) (dd_eventKey dl)
        in if k \<in> fv_parked v then v else v\<lparr>fv_dead := fv_dead v @ [dl], fv_parked := insert k (fv_parked v)\<rparr>)"
  by (auto simp: DeadLetter_def world_view_def Let_def split: if_splits)

lemma DeleteDelivery_view:
  "DeleteDelivery o1 i = Inr o2 \<Longrightarrow> world_view (w\<lparr>fw_outbox := o2\<rparr>) =
     (let v = world_view (w\<lparr>fw_outbox := o1\<rparr>) in v\<lparr>fv_pending := remove_first (\<lambda>d. dl_id d = i) (fv_pending v)\<rparr>)"
proof -
  have none: "find P xs = None \<Longrightarrow> remove_first P xs = xs" for P and xs :: "delivery list"
    by (induction xs) (auto split: if_splits)
  assume "DeleteDelivery o1 i = Inr o2"
  then show ?thesis by (auto simp: DeleteDelivery_def world_view_def Let_def none split: option.splits)
qed

interpretation fwd: forward_contract "memory_processor env k" world_view
proof (unfold_locales, goal_cases)
  case (2 w n w' res)
  then show ?case by (auto simp: memory_outbox_def world_view_def ClaimPendingDeliveries_def dest: in_set_takeD split: if_splits)
next
  case (3 w i w' err)
  then show ?case using DeleteDelivery_view [of "fw_outbox w" i _ w]
    by (auto simp: memory_outbox_def Let_def split: sum.splits)
next
  case (4 w a w' found)
  then show ?case by (auto simp: world_view_def)
next
  case (5 w u h b w' out)
  then show ?case by (auto simp: ask_def Let_def world_view_def)
next
  case (7 w dl w' err)
  then show ?case using DeadLetter_view [of "fw_outbox w" dl _ w] by (auto simp: Let_def split: sum.splits)
next
  case (8 w en w' err)
  then show ?case by (auto simp: appendAudit_def world_view_def)
qed (auto simp: memory_active dest: ask_view)

definition uninterrupted :: "forward_env \<Rightarrow> forward_env" where
  "uninterrupted env = env\<lparr>ev_wait := \<lambda>n. None, ev_ctx := \<lambda>n. False\<rparr>"

interpretation fwdq: forward_reliable "memory_processor (uninterrupted env) k" world_view
proof (unfold_locales, goal_cases)
  case (1 w i)
  show ?case by (simp add: memory_outbox_def DeleteDelivery_def split: option.split)
next
  case (2 w a w' e)
  then show ?case by (auto simp: GetOutboundWebhook_def split: option.splits)
next
  case (3 w n)
  then show ?case by (auto simp: memory_outbox_def world_view_def ClaimPendingDeliveries_def list_all_iff)
qed (auto simp: uninterrupted_def ask_def)

text \<open>A wrapped multiple of a power of two is not positive, or at least that power.\<close>

lemma wrap64_multiple: "wrap64 (b * 2 ^ n) \<le> 0 \<or> 2 ^ n \<le> wrap64 (b * 2 ^ n)"
proof (cases "n < 64")
  case True
  have "2 ^ n dvd (2 :: int) ^ 64" using True by (intro le_imp_power_dvd) simp
  moreover have "wrap64 x = x - 2 ^ 64 * ((x + 2 ^ 63) div 2 ^ 64)" for x
    by (simp add: wrap64_def minus_div_mult_eq_mod [symmetric] algebra_simps)
  ultimately have "2 ^ n dvd wrap64 (b * 2 ^ n)" by (metis dvd_diff dvd_mult2 dvd_triv_right)
  then show ?thesis by (meson linorder_not_less zdvd_imp_le)
next
  case False
  then have "(2 :: int) ^ 64 dvd 2 ^ n" by (intro le_imp_power_dvd) simp
  then obtain c where "(2 :: int) ^ n = 2 ^ 64 * c" by (rule dvdE)
  then have e: "b * 2 ^ n + 2 ^ 63 = 2 ^ 63 + (b * c) * 2 ^ 64" by (simp add: algebra_simps)
  have "wrap64 (b * 2 ^ n) = 0" unfolding wrap64_def e mod_mult_self1 by simp
  then show ?thesis by simp
qed

section \<open>Properties\<close>

text \<open>
  C12: a notification only ever goes to the account that owns the event. In one tick of the processor,
  whatever the clock, the receivers and the context do, every request sent is for a delivery of the
  outbox; it goes to the endpoint that the account of this delivery has registered and enabled, which
  is an https address; it carries the canonical body of that delivery and the signature of that body
  under the secret of that account. At most attempts times batch size requests are sent.
\<close>

theorem forward_isolated:
  assumes "webhooks_ok parse (fw_hooks w)" and "ProcessPending hmac (Some (memory_processor env k)) w = (w', res)"
  shows "\<exists>ps. fw_posts w' = fw_posts w @ ps \<and>
    length ps \<le> nat (op_batch (memory_processor env k)) * nat (op_maxAttempts (memory_processor env k)) \<and>
    (\<forall>q \<in> set ps. \<exists>d \<in> set (ob_deliveries (fw_outbox w)). \<exists>cfg now ts.
       GetOutboundWebhook (fw_hooks w) (dl_accountID d) = Inr cfg \<and> wc_accountID cfg = dl_accountID d \<and> wc_enabled cfg \<and>
       po_url q = wc_url cfg \<and> https_endpoint parse (po_url q) \<and> buildForwardBody d now = Inr (po_body q) \<and>
       po_headers q = [(SignatureHeader, Sign hmac (wc_signingSecret cfg) ts (po_body q)),
         (TimestampHeader, FormatInt ts), (IdempotencyHeader, dl_eventKey d)])"
proof -
  obtain ps where ps: "fw_posts w' = fw_posts w @ ps"
    "length ps \<le> nat (op_batch (memory_processor env k)) * nat (op_maxAttempts (memory_processor env k))"
    "\<forall>q \<in> set ps. \<exists>d \<in> set (ob_deliveries (fw_outbox w)). owned_post hmac (world_view w) d q"
    using fwd.ProcessPending_posts [OF assms(2)] by (auto simp: sends_only_def world_view_def)
  have "\<exists>cfg now ts. GetOutboundWebhook (fw_hooks w) (dl_accountID d) = Inr cfg \<and> wc_accountID cfg = dl_accountID d \<and>
      wc_enabled cfg \<and> po_url q = wc_url cfg \<and> https_endpoint parse (po_url q) \<and> buildForwardBody d now = Inr (po_body q) \<and>
      po_headers q = [(SignatureHeader, Sign hmac (wc_signingSecret cfg) ts (po_body q)),
        (TimestampHeader, FormatInt ts), (IdempotencyHeader, dl_eventKey d)]"
    if "owned_post hmac (world_view w) d q" for d q
  proof -
    from that obtain cfg now where c: "GetOutboundWebhook (fw_hooks w) (dl_accountID d) = Inr cfg" "wc_enabled cfg"
      "buildForwardBody d now = Inr (po_body q)" "proper_post hmac d cfg (po_body q) q"
      by (auto simp: owned_post_def world_view_def proper_post_def split: sum.splits)
    have "https_endpoint parse (wc_url cfg)" using assms(1) c(1) by (auto simp: webhooks_ok_def config_ok_def)
    with c Get_account [OF c(1)] show ?thesis by (auto simp: proper_post_def delivery_headers_def SignConfig_def)
  qed
  with ps show ?thesis by metis
qed

text \<open>
  C15: the outbox drains. When nothing interrupts the processor, each tick takes its batch off the
  front of the outbox, whatever the receivers answer: after n ticks the first n times batch size
  deliveries are gone, so after enough ticks the outbox is empty. No failing receiver holds up the
  queue.
\<close>

theorem outbox_drains:
  assumes "list_all (\<lambda>d. dl_status d = DeliveryPending) (ob_deliveries (fw_outbox w))"
  shows "ob_deliveries (fw_outbox (((\<lambda>w. fst (ProcessPending hmac (Some (memory_processor (uninterrupted env) k)) w)) ^^ n) w)) =
     drop (n * nat (op_batch (memory_processor (uninterrupted env) k))) (ob_deliveries (fw_outbox w))"
proof (induction n)
  case (Suc n)
  let ?p = "memory_processor (uninterrupted env) k"
  let ?w = "((\<lambda>w. fst (ProcessPending hmac (Some ?p) w)) ^^ n) w"
  have pend: "fv_pending (world_view x) = ob_deliveries (fw_outbox x)" for x by (simp add: world_view_def)
  have "list_all (\<lambda>d. dl_status d = DeliveryPending) (fv_pending (world_view ?w))"
    using assms unfolding pend Suc by (auto simp: list_all_iff dest: in_set_dropD)
  from fwdq.tick_drains [OF this, of hmac]
  have "ob_deliveries (fw_outbox (fst (ProcessPending hmac (Some ?p) ?w))) = drop (nat (op_batch ?p)) (ob_deliveries (fw_outbox ?w))"
    unfolding pend by (metis fst_conv)
  with Suc show ?case by (simp add: add.commute)
qed simp

text \<open>
  What is on record of an event that could not be delivered: a dead letter under its dedup key was
  there before and stays the only one, or one that names the delivery and the reason is appended.
\<close>

definition letter_kept :: "reason \<Rightarrow> delivery \<Rightarrow> dead_letter list \<Rightarrow> dead_letter list \<Rightarrow> bool" where
  "letter_kept rs d dead dead' \<longleftrightarrow>
     (if \<exists>dl \<in> set dead. bar_key (TrimSpace (dl_tenantID d)) (TrimSpace (dl_eventKey d)) = bar_key (dd_tenantID dl) (dd_eventKey dl)
      then dead' = dead
      else \<exists>dl. dead' = dead @ [dl] \<and> names_delivery rs d dl)"

text \<open>
  C14: no event is lost. When nothing interrupts the processor, the id provider works and the outbox is
  in order (\<open>outbox_ok\<close>: its dedup keys are those of what it stores), one pass over a delivery takes it
  off the outbox, and what happened to it follows from the endpoint of the owning account. No endpoint:
  nothing is sent and nothing recorded. An endpoint that is disabled: nothing is sent and the dead letter
  is on record, with the reason that the endpoint is inactive. An enabled one: either the last of the
  requests sent was accepted by the receiver, and no dead letter is added; or none was accepted and the
  dead letter is on record, with the reason that the attempts are exhausted.
\<close>

theorem no_event_lost:
  assumes "\<And>n. TrimSpace (ev_id env n) \<noteq> []" "outbox_ok (fw_outbox w)"
    and "TrimSpace (dl_tenantID d) \<noteq> []" "TrimSpace (dl_eventKey d) \<noteq> []" "TrimSpace (dl_eventType d) \<noteq> []"
    and run: "deliverOne hmac (memory_processor (uninterrupted env) k) d w = (w', fin)"
  shows "fin \<and> ob_deliveries (fw_outbox w') = remove_first (\<lambda>x. dl_id x = dl_id d) (ob_deliveries (fw_outbox w)) \<and>
    (\<exists>ps. fw_posts w' = fw_posts w @ ps \<and>
      (case GetOutboundWebhook (fw_hooks w) (dl_accountID d) of
         Inl e \<Rightarrow> ps = [] \<and> ob_deadLetters (fw_outbox w') = ob_deadLetters (fw_outbox w)
       | Inr cfg \<Rightarrow>
           if \<not> wc_enabled cfg
           then ps = [] \<and> letter_kept ReasonEndpointInactive d (ob_deadLetters (fw_outbox w)) (ob_deadLetters (fw_outbox w'))
           else ps \<noteq> [] \<and> accepted (po_result (last ps)) \<and> ob_deadLetters (fw_outbox w') = ob_deadLetters (fw_outbox w) \<or>
                list_all (\<lambda>q. \<not> accepted (po_result q)) ps \<and>
                letter_kept ReasonDeliveryExhausted d (ob_deadLetters (fw_outbox w)) (ob_deadLetters (fw_outbox w'))))"
proof -
  let ?p = "memory_processor (uninterrupted env) k" and ?v = world_view
  have gone: "fin" "ob_deliveries (fw_outbox w') = remove_first (\<lambda>x. dl_id x = dl_id d) (ob_deliveries (fw_outbox w))"
    using fwdq.deliverOne_settles [OF run] by (simp_all add: world_view_def)
  have park: "fv_posts (?v (fst (parkAndSettle ?p d rs x))) = fv_posts (?v x) \<and>
      letter_kept rs d (fv_dead (?v w)) (fv_dead (?v (fst (parkAndSettle ?p d rs x))))"
    if "rs = ReasonEndpointInactive \<or> rs = ReasonDeliveryExhausted" "fv_dead (?v x) = fv_dead (?v w)" "fv_parked (?v x) = fv_parked (?v w)"
    for rs x
  proof -
    have i: "TrimSpace (snd (the (op_ids ?p) w)) \<noteq> []" for w using assms(1) by (simp add: ask_def uninterrupted_def)
    have l: "snd (the (op_deadLetters ?p) w dl) = None" for w dl
      by (simp add: DeadLetter_def Let_def split: sum.split)
    have "bar_key (TrimSpace (dl_tenantID d)) (TrimSpace (dl_eventKey d)) \<in> fv_parked (?v x) \<longleftrightarrow>
        (\<exists>dl \<in> set (fv_dead (?v w)).
          bar_key (TrimSpace (dl_tenantID d)) (TrimSpace (dl_eventKey d)) = bar_key (dd_tenantID dl) (dd_eventKey dl))"
      using assms(2) that(3) by (auto simp: outbox_ok_def world_view_def)
    with fwdq.parkAndSettle_dead [OF i l assms(3-5) that(1), of x] show ?thesis
      unfolding letter_kept_def that(2) by argo
  qed
  have look: "the (op_configs ?p) w (dl_accountID d) = (w, GetOutboundWebhook (fw_hooks w) (dl_accountID d))" by simp
  show ?thesis
  proof (cases "GetOutboundWebhook (fw_hooks w) (dl_accountID d)")
    case (Inl e)
    then have "e = ErrNotFound" by (auto simp: GetOutboundWebhook_def split: option.splits)
    with run Inl have "w' = fst (DeletePort memory_outbox w (dl_id d))" by (simp add: deliverOne_def settleNoConfig_def)
    then have "fv_posts (?v w') = fv_posts (?v w)" "fv_dead (?v w') = fv_dead (?v w)"
      using fwd.delete [of "uninterrupted env" k w "dl_id d"] by (cases "DeletePort memory_outbox w (dl_id d)"; auto)+
    with gone Inl show ?thesis by (simp add: world_view_def)
  next
    case (Inr cfg)
    show ?thesis
    proof (cases "wc_enabled cfg")
      case False
      with run Inr have "w' = fst (parkAndSettle ?p d ReasonEndpointInactive w)" by (simp add: deliverOne_def)
      with park [of ReasonEndpointInactive w] gone Inr False show ?thesis by (simp add: world_view_def)
    next
      case True
      from look [unfolded Inr] True run show ?thesis
      proof (cases rule: fwdq.deliverOne_enabled)
        case (delivered ps)
        with gone Inr True show ?thesis by (auto simp: world_view_def retry_trace_def)
      next
        case (exhausted ps w4)
        then have "fv_posts (?v w') = fv_posts (?v w) @ ps"
          "letter_kept ReasonDeliveryExhausted d (fv_dead (?v w)) (fv_dead (?v w'))"
          using park [of ReasonDeliveryExhausted w4] by simp_all
        with gone Inr True exhausted(2) show ?thesis by (auto simp: world_view_def retry_trace_def)
      qed
    qed
  qed
qed

text \<open>
  the delay between two attempts is the capped exponential. As long as base times cap fits in 64
  bits, as the defaults do, the wrapping shift never yields anything but the smaller of base times a
  power of two and the cap, for every attempt number; the jittered delay lies between half of that
  and all of it.
\<close>

theorem backoff_bounds:
  assumes "0 < op_backoffBase p" "0 < op_backoffMax p" "op_backoffBase p * op_backoffMax p \<le> max64" "0 \<le> attempt"
    and "op_rand p = Some rnd" "\<And>w h. 0 \<le> h \<Longrightarrow> 0 \<le> snd (rnd w) h \<and> snd (rnd w) h \<le> h"
  shows "backoff_cap p attempt = min (op_backoffBase p * 2 ^ nat attempt) (op_backoffMax p) \<and>
    backoff_cap p attempt div 2 \<le> snd (backoff p attempt w) \<and> snd (backoff p attempt w) \<le> backoff_cap p attempt"
proof -
  let ?b = "op_backoffBase p" and ?m = "op_backoffMax p" and ?x = "op_backoffBase p * 2 ^ nat attempt"
  have cap: "backoff_cap p attempt = min ?x ?m"
  proof (cases "?x \<le> max64")
    case True
    have "in64 ?x" using assms(1) True by (intro in64I) simp_all
    moreover have "0 < ?x" using assms(1) by simp
    ultimately show ?thesis by (auto simp: backoff_cap_def shl64_def Let_def)
  next
    case False
    have big: "?m < 2 ^ nat attempt"
    proof (rule ccontr)
      assume "\<not> ?m < 2 ^ nat attempt"
      then have "?x \<le> ?b * ?m" using assms(1) by simp
      with assms(3) False show False by simp
    qed
    have "wrap64 ?x \<le> 0 \<or> ?m < wrap64 ?x" using wrap64_multiple [of ?b "nat attempt"] big by (auto simp: not_le)
    moreover have "?m \<le> ?x"
    proof -
      have "?m \<le> ?b * ?m" using assms(1,2) by simp
      with assms(3) False show ?thesis by simp
    qed
    ultimately show ?thesis by (auto simp: backoff_cap_def shl64_def Let_def)
  qed
  let ?c = "backoff_cap p attempt"
  have "?m \<le> max64" using assms(1-3) by (intro order.trans [OF _ assms(3)]) simp
  then have c: "0 < ?c" "?c \<le> max64" using cap assms(1,2) by auto
  then have half: "quot64 ?c 2 = ?c div 2" by (intro quot64_nonneg) simp_all
  obtain w2 f where f: "rnd w = (w2, f)" by fastforce
  have f2: "0 \<le> f (?c div 2) \<and> f (?c div 2) \<le> ?c div 2" using assms(6) [of "?c div 2" w] f c by (simp add: pos_imp_zdiv_nonneg_iff)
  then have "in64 (?c div 2 + f (?c div 2))" using c by (intro in64I) auto
  then have "snd (backoff p attempt w) = ?c div 2 + f (?c div 2)"
    by (simp add: backoff_def half assms(5) f add64_def Let_def)
  moreover have "2 * (?c div 2) \<le> ?c" by simp
  ultimately have "?c div 2 \<le> snd (backoff p attempt w)" "snd (backoff p attempt w) \<le> ?c" using f2 by linarith+
  with cap show ?thesis by blast
qed

text \<open>
  A context that is cancelled after the limiter has let the delivery through ends the retry loop
  before its first request, and the delivery is parked all the same, as if its attempts were used up.
\<close>

definition sample_delivery :: delivery where
  "sample_delivery = \<lparr>dl_id = ''d1'', dl_accountID = ''acc'', dl_tenantID = ''t1'', dl_eventKey = ''k1'', dl_txID = ''tx1'',
     dl_eventType = ''payment.paid'', dl_status = DeliveryPending, dl_createdAt = zero_time,
     dl_detail = \<lparr>dt_AmountCents = 5, dt_Installments = 0, dt_Message = []\<rparr>\<rparr>"

definition sample_hook :: webhook_config where
  "sample_hook = \<lparr>wc_accountID = ''acc'', wc_url = ''https://r.example/h'', wc_signingSecret = ''whsec_x'',
     wc_enabled = True, wc_createdAt = zero_time, wc_updatedAt = zero_time\<rparr>"

definition sample_world :: forward_world where
  "sample_world = \<lparr>fw_outbox = \<lparr>ob_deliveries = [sample_delivery], ob_seenDeliver = [''acc|k1''], ob_deadLetters = [], ob_seenDead = []\<rparr>,
     fw_hooks = [(''acc'', \<lparr>sw_url = ''https://r.example/h'', sw_signingSecret = ''whsec_x'', sw_enabled = True,
       sw_createdAt = zero_time, sw_updatedAt = zero_time\<rparr>)],
     fw_store = NewStore, fw_posts = [], fw_tick = 0\<rparr>"

definition forward_sample_env :: forward_env where
  "forward_sample_env = \<lparr>ev_now = (\<lambda>n. zero_time), ev_id = (\<lambda>n. ''x1''), ev_answer = (\<lambda>n u. (200, None)), ev_wait = (\<lambda>n. None),
     ev_draw = (\<lambda>n h. h div 2), ev_sleep = (\<lambda>n. None), ev_ctx = (\<lambda>n. 0 < n)\<rparr>"

definition sample_knobs :: forward_knobs where
  "sample_knobs = \<lparr>fk_maxAttempts = 0, fk_backoffBase = 0, fk_backoffMax = 0, fk_batch = 0\<rparr>"

lemmas sample_defs = sample_delivery_def sample_world_def forward_sample_env_def sample_knobs_def

lemma forward_sample_envs: "ev_now forward_sample_env = (\<lambda>n. zero_time)" "ev_id forward_sample_env = (\<lambda>n. ''x1'')" "ev_wait forward_sample_env = (\<lambda>n. None)"
  "ev_answer forward_sample_env = (\<lambda>n u. (200, None))" "ev_ctx forward_sample_env n = (0 < n)"
  by (simp_all add: forward_sample_env_def)

lemma sample_tick: "fw_tick sample_world = 0" by (simp add: sample_world_def)

lemma sample_fields: "dl_id sample_delivery = ''d1''" "dl_accountID sample_delivery = ''acc''" "dl_tenantID sample_delivery = ''t1''"
  "dl_eventKey sample_delivery = ''k1''" "dl_txID sample_delivery = ''tx1''" "dl_eventType sample_delivery = ''payment.paid''"
  by (simp_all add: sample_delivery_def)

lemma forward_trims: "TrimSpace ''x1'' = ''x1''" "TrimSpace ''t1'' = ''t1''" "TrimSpace ''k1'' = ''k1''" "TrimSpace ''acc'' = ''acc''"
  "TrimSpace ''tx1'' = ''tx1''" "TrimSpace ''payment.paid'' = ''payment.paid''" "TrimSpace ''system:outbound-forward'' = ''system:outbound-forward''"
  by (simp_all add: TrimSpace_plain plain_byte_def less_eq_char_def)

text \<open>
  a shutdown during a tick parks a delivery that was never tried. The receiver would accept; the
  context is cancelled just after the delivery was admitted; no request is sent, the delivery leaves
  the outbox, and its dead letter says that its attempts were exhausted.
\<close>

theorem shutdown_parks_unsent:
  "\<exists>w'. ProcessPending hmac (Some (memory_processor forward_sample_env sample_knobs)) sample_world = (w', Inr 1) \<and>
     fw_posts w' = [] \<and> ob_deliveries (fw_outbox w') = [] \<and>
     map dd_reason (ob_deadLetters (fw_outbox w')) = [ReasonDeliveryExhausted]"
proof -
  let ?p = "memory_processor forward_sample_env sample_knobs"
  have claim: "ClaimPendingDeliveries (fw_outbox sample_world) (op_batch ?p) = [sample_delivery]"
    by (simp add: memory_knobs ClaimPendingDeliveries_def sample_defs)
  have max: "op_maxAttempts ?p = 3" by (simp add: memory_knobs sample_defs)
  have hook: "GetOutboundWebhook (fw_hooks sample_world) ''acc'' = Inr sample_hook"
    by (simp add: GetOutboundWebhook_def RehydrateWebhookConfig_def sample_world_def sample_hook_def)
  obtain body where body: "buildForwardBody sample_delivery zero_time = Inr body" by (simp add: buildForwardBody_def)
  have stop: "attemptDelivery hmac ?p sample_delivery sample_hook body (sample_world\<lparr>fw_tick := 3\<rparr>) =
      (sample_world\<lparr>fw_tick := 4\<rparr>, False)"
    by (simp add: attemptDelivery_def attempts.simps max ask_def forward_sample_envs)
  have one: "deliverOne hmac ?p sample_delivery (sample_world\<lparr>fw_tick := 1\<rparr>) =
      parkAndSettle ?p sample_delivery ReasonDeliveryExhausted (sample_world\<lparr>fw_tick := 4\<rparr>)"
    using hook body stop
    by (simp add: deliverOne_def ask_def forward_sample_envs sample_hook_def sample_fields numeral_2_eq_2 [symmetric]
        numeral_3_eq_3 [symmetric])
  define dl where "dl = \<lparr>dd_id = ''x1'', dd_tenantID = ''t1'', dd_eventKey = ''k1'', dd_txID = ''tx1'', dd_eventType = ''payment.paid'',
      dd_reason = ReasonDeliveryExhausted, dd_createdAt = zero_time\<rparr>"
  have dl: "DeadLetterFromDelivery ''x1'' (Some sample_delivery) ReasonDeliveryExhausted zero_time = Inr dl"
    by (simp add: DeadLetterFromDelivery_def NewDeadLetter_def sample_fields forward_trims dl_def Let_def)
  obtain en where en: "NewOutboundDeliveryEntry ''x1'' systemOperatorOutboundForward ActionOutboundWebhookDeadLettered ''acc'' ''k1'' zero_time = Inr en"
    by (simp add: NewOutboundDeliveryEntry_def forward_trims Let_def)
  define o2 where "o2 = \<lparr>ob_deliveries = [], ob_seenDeliver = [], ob_deadLetters = [dl], ob_seenDead = [''t1|k1'']\<rparr>"
  have o2: "DeadLetter (fw_outbox sample_world) dl = Inr (o2\<lparr>ob_deliveries := [sample_delivery], ob_seenDeliver := [''acc|k1'']\<rparr>)"
    "DeleteDelivery (o2\<lparr>ob_deliveries := [sample_delivery], ob_seenDeliver := [''acc|k1'']\<rparr>) ''d1'' = Inr o2"
    by (simp_all add: DeadLetter_def DeleteDelivery_def bar_key_def o2_def sample_world_def dl_def sample_fields)
  obtain w' where w': "parkAndSettle ?p sample_delivery ReasonDeliveryExhausted (sample_world\<lparr>fw_tick := 4\<rparr>) = (w', True)"
    "fw_posts w' = []" "fw_outbox w' = o2"
    using dl en o2
    by (simp add: parkAndSettle_def ask_def forward_sample_envs sample_fields memory_outbox_def auditDelivery_def appendAudit_def)
       (simp add: sample_world_def)
  have "ProcessPending hmac (Some ?p) sample_world = (w', Inr 1)"
    using one w'(1) claim memory_active [of forward_sample_env sample_knobs]
    by (simp add: ProcessPending_def memory_outbox_def ask_def forward_sample_envs sample_tick)
  with w'(2,3) show ?thesis by (simp add: o2_def dl_def)
qed

section \<open>The properties at work\<close>

definition sample_parser :: url_parser where
  "sample_parser u = Inr \<lparr>u_Scheme = ''https'', u_Host = ''r.example'', u_User = None\<rparr>"

lemma sample_webhooks_ok: "webhooks_ok sample_parser (fw_hooks sample_world)"
proof -
  have "TrimSpace ''whsec_x'' = ''whsec_x''" by (simp add: TrimSpace_plain plain_byte_def less_eq_char_def)
  then show ?thesis
    by (auto simp: webhooks_ok_def sample_world_def GetOutboundWebhook_def RehydrateWebhookConfig_def config_ok_def
        https_endpoint_def maxURLLen_def sample_parser_def EqualFold_def split: if_splits)
qed

text \<open>One delivery, one tick, nothing in the way: the receiver of the account gets one request.\<close>

theorem forward_isolated_witness:
  "\<exists>w' ps. fst (ProcessPending (\<lambda>key x. x) (Some (memory_processor (uninterrupted forward_sample_env) sample_knobs)) sample_world) = w' \<and>
     fw_posts w' = ps \<and> length ps \<le> 192 \<and> (\<forall>q \<in> set ps. po_url q = ''https://r.example/h'')"
proof -
  let ?p = "memory_processor (uninterrupted forward_sample_env) sample_knobs"
  obtain w' res where run: "ProcessPending (\<lambda>key x. x) (Some ?p) sample_world = (w', res)" by fastforce
  have k: "nat (op_batch ?p) * nat (op_maxAttempts ?p) = 192" by (simp add: memory_knobs sample_knobs_def)
  from forward_isolated [OF sample_webhooks_ok run] obtain ps where ps: "fw_posts w' = fw_posts sample_world @ ps" "length ps \<le> 192"
    "\<forall>q \<in> set ps. \<exists>d \<in> set (ob_deliveries (fw_outbox sample_world)). \<exists>cfg.
       GetOutboundWebhook (fw_hooks sample_world) (dl_accountID d) = Inr cfg \<and> po_url q = wc_url cfg"
    unfolding k by blast
  have "\<forall>q \<in> set ps. po_url q = ''https://r.example/h''"
    using ps(3) by (auto simp: sample_world_def sample_fields GetOutboundWebhook_def RehydrateWebhookConfig_def)
  with ps run show ?thesis by (simp add: sample_world_def)
qed

theorem outbox_drains_witness:
  "ob_deliveries (fw_outbox (((\<lambda>w. fst (ProcessPending (\<lambda>key x. x) (Some (memory_processor (uninterrupted forward_sample_env) sample_knobs)) w)) ^^ 1)
     sample_world)) = []"
proof -
  have p: "list_all (\<lambda>d. dl_status d = DeliveryPending) (ob_deliveries (fw_outbox sample_world))"
    by (simp add: sample_world_def sample_delivery_def)
  show ?thesis unfolding outbox_drains [OF p] by (simp add: memory_knobs sample_knobs_def sample_world_def)
qed

theorem no_event_lost_witness:
  "\<exists>w' fin ps. deliverOne (\<lambda>key x. x) (memory_processor (uninterrupted (forward_sample_env\<lparr>ev_answer := \<lambda>n u. (500, None)\<rparr>)) sample_knobs)
      sample_delivery sample_world = (w', fin) \<and> fin \<and> ob_deliveries (fw_outbox w') = [] \<and>
     fw_posts w' = fw_posts sample_world @ ps \<and>
     (case GetOutboundWebhook (fw_hooks sample_world) (dl_accountID sample_delivery) of
         Inl e \<Rightarrow> ps = [] \<and> ob_deadLetters (fw_outbox w') = []
       | Inr cfg \<Rightarrow>
           if \<not> wc_enabled cfg then ps = [] \<and> letter_kept ReasonEndpointInactive sample_delivery [] (ob_deadLetters (fw_outbox w'))
           else ps \<noteq> [] \<and> accepted (po_result (last ps)) \<and> ob_deadLetters (fw_outbox w') = [] \<or>
                list_all (\<lambda>q. \<not> accepted (po_result q)) ps \<and>
                letter_kept ReasonDeliveryExhausted sample_delivery [] (ob_deadLetters (fw_outbox w')))"
proof -
  let ?e = "forward_sample_env\<lparr>ev_answer := \<lambda>n u. (500, None)\<rparr>"
  obtain w' fin where run: "deliverOne (\<lambda>key x. x) (memory_processor (uninterrupted ?e) sample_knobs) sample_delivery sample_world = (w', fin)"
    by fastforce
  have i: "TrimSpace (ev_id ?e n) \<noteq> []" for n by (simp add: forward_sample_env_def forward_trims)
  have o: "outbox_ok (fw_outbox sample_world)"
    by (simp add: outbox_ok_def sample_world_def bar_key_def sample_fields)
  have d: "TrimSpace (dl_tenantID sample_delivery) \<noteq> []" "TrimSpace (dl_eventKey sample_delivery) \<noteq> []"
    "TrimSpace (dl_eventType sample_delivery) \<noteq> []" by (simp_all add: sample_fields forward_trims)
  have e: "remove_first (\<lambda>x. dl_id x = dl_id sample_delivery) (ob_deliveries (fw_outbox sample_world)) = []"
    "ob_deadLetters (fw_outbox sample_world) = []"
    by (simp_all add: sample_world_def)
  show ?thesis using no_event_lost [OF i o d run, unfolded e] run by blast
qed

theorem backoff_bounds_witness:
  "backoff_cap (memory_processor forward_sample_env sample_knobs) 70 = 5000000000 \<and>
   2500000000 \<le> snd (backoff (memory_processor forward_sample_env sample_knobs) 70 sample_world) \<and>
   snd (backoff (memory_processor forward_sample_env sample_knobs) 70 sample_world) \<le> 5000000000"
proof -
  let ?p = "memory_processor forward_sample_env sample_knobs"
  have k: "op_backoffBase ?p = 250000000" "op_backoffMax ?p = 5000000000"
    by (simp_all add: memory_processor_def NewOutboundProcessor_def sample_knobs_def defaultForwardBackoffBase_def defaultForwardBackoffMax_def)
  have r: "op_rand ?p = Some (ask (ev_draw forward_sample_env))" by simp
  have "0 \<le> snd (ask (ev_draw forward_sample_env) w) h \<and> snd (ask (ev_draw forward_sample_env) w) h \<le> h" if "0 \<le> h" for w h
    using that by (simp add: ask_def forward_sample_env_def pos_imp_zdiv_nonneg_iff)
  from backoff_bounds [of ?p 70, OF _ _ _ _ r this, of sample_world] k show ?thesis by (auto simp: max64_def)
qed

end
