(* ===== verification/BankVault.thy ===== *)
theory BankVault
  imports Store WebhookConfig
begin

text \<open>
  The bank credentials and certificates of a tenant: the types of \<open>internal/ports/ports.go\<close>, the
  in-memory vaults of \<open>internal/adapters/secret\<close>, the certificate parser of \<open>internal/domain/bankcert\<close>
  and the guard of \<open>internal/app/bank_identity.go\<close> that keeps a PIX key and a PSP account to one active
  tenant. PEM, X.509, the hash and the key-pair check are parameters.
\<close>

section \<open>Credentials\<close>

record bank_credential =
  bk_TenantID :: string
  bk_BankID :: string
  bk_ClientID :: string
  bk_Secret :: string
  bk_CreditorKey :: string

definition zero_credential :: bank_credential where
  "zero_credential = \<lparr>bk_TenantID = [], bk_BankID = [], bk_ClientID = [], bk_Secret = [], bk_CreditorKey = []\<rparr>"

type_synonym vault = "(string \<times> bank_credential) list"

definition defaultBankID :: "string \<Rightarrow> string" where
  "defaultBankID bankID = (if bankID = [] then BankIDC6 else bankID)"

definition credKey :: "string \<Rightarrow> string \<Rightarrow> string" where
  "credKey tenantID bankID = tenantID @ [CHR 0x00] @ defaultBankID bankID"

definition NewVault :: "(string \<times> bank_credential) list \<Rightarrow> vault" where
  "NewVault creds =
     fold (\<lambda>(k, v) m.
       let v = (if bk_TenantID v = [] then v\<lparr>bk_TenantID := k\<rparr> else v);
           v = v\<lparr>bk_BankID := defaultBankID (bk_BankID v)\<rparr>
       in put (credKey (bk_TenantID v) (bk_BankID v)) v m) creds []"

definition GetBankCredential :: "vault \<Rightarrow> string \<Rightarrow> string \<Rightarrow> bank_credential result" where
  "GetBankCredential m tenantID bankID = lookup m (credKey tenantID bankID)"

definition ListTenantsWithC6Credential :: "vault \<Rightarrow> string list" where
  "ListTenantsWithC6Credential m =
     map bk_TenantID (filter (\<lambda>c. defaultBankID (bk_BankID c) = BankIDC6 \<and> bk_ClientID c \<noteq> []) (vals m))"

definition FindTenantsByCreditorKey :: "vault \<Rightarrow> string \<Rightarrow> string \<Rightarrow> string list result" where
  "FindTenantsByCreditorKey m bankID creditorKey =
     (if creditorKey = [] then Inr []
      else Inr (map bk_TenantID (filter (\<lambda>c. defaultBankID (bk_BankID c) = defaultBankID bankID \<and>
                                             bk_CreditorKey c = creditorKey) (vals m))))"

definition FindTenantsByClientID :: "vault \<Rightarrow> string \<Rightarrow> string \<Rightarrow> string list result" where
  "FindTenantsByClientID m bankID clientID =
     (if clientID = [] then Inr []
      else Inr (map bk_TenantID (filter (\<lambda>c. defaultBankID (bk_BankID c) = defaultBankID bankID \<and>
                                             bk_ClientID c = clientID) (vals m))))"

definition SetCredential :: "vault \<Rightarrow> string \<Rightarrow> bank_credential \<Rightarrow> vault" where
  "SetCredential m tenantID c =
     (let c = c\<lparr>bk_TenantID := tenantID, bk_BankID := defaultBankID (bk_BankID c)\<rparr>
      in put (credKey tenantID (bk_BankID c)) c m)"

abbreviation required :: "string \<Rightarrow> go_error" where
  "required f \<equiv> NewValidationError f ''is required''"

definition SetBankCredential :: "vault \<Rightarrow> string \<Rightarrow> string \<Rightarrow> string \<Rightarrow> string \<Rightarrow> vault result" where
  "SetBankCredential m tenantID bankID clientID secret =
     (if tenantID = [] then Inl (required ''tenant_id'')
      else if clientID = [] then Inl (required ''client_id'')
      else if secret = [] then Inl (required ''secret'')
      else let bankID = defaultBankID bankID;
               cur = (case map_of m (credKey tenantID bankID) of None \<Rightarrow> zero_credential | Some c \<Rightarrow> c)
           in Inr (put (credKey tenantID bankID)
                (cur\<lparr>bk_TenantID := tenantID, bk_BankID := bankID, bk_ClientID := clientID, bk_Secret := secret\<rparr>) m))"

definition DeleteBankCredential :: "vault \<Rightarrow> string \<Rightarrow> string \<Rightarrow> vault result" where
  "DeleteBankCredential m tenantID bankID =
     (let k = credKey tenantID (defaultBankID bankID)
      in case map_of m k of
           None \<Rightarrow> Inr m
         | Some cur \<Rightarrow> Inr (del k (put k (cur\<lparr>bk_Secret := [], bk_CreditorKey := []\<rparr>) m)))"

section \<open>The shape of a PIX key\<close>

definition is_letter :: "char \<Rightarrow> bool" where
  "is_letter c \<longleftrightarrow> CHR ''A'' \<le> c \<and> c \<le> CHR ''Z'' \<or> CHR ''a'' \<le> c \<and> c \<le> CHR ''z''"

definition is_hex :: "char \<Rightarrow> bool" where
  "is_hex c \<longleftrightarrow> is_digit c \<or> CHR ''a'' \<le> c \<and> c \<le> CHR ''f'' \<or> CHR ''A'' \<le> c \<and> c \<le> CHR ''F''"

definition pixEVPPattern :: "string \<Rightarrow> bool" where
  "pixEVPPattern s \<longleftrightarrow> length s = 36 \<and>
     list_all (\<lambda>i. if i \<in> {8, 13, 18, 23} then s ! i = CHR ''-'' else is_hex (s ! i)) [0..<36]"

definition email_local_char :: "char \<Rightarrow> bool" where
  "email_local_char c \<longleftrightarrow> is_letter c \<or> is_digit c \<or> c \<in> set ''._%+-''"

definition email_domain_char :: "char \<Rightarrow> bool" where
  "email_domain_char c \<longleftrightarrow> is_letter c \<or> is_digit c \<or> c \<in> set ''.-''"

text \<open>
  The only \<open>@\<close> and the last dot are where the pattern must split, since neither can be matched by the
  classes on the wrong side of them.
\<close>

definition pixEmailPattern :: "string \<Rightarrow> bool" where
  "pixEmailPattern s \<longleftrightarrow>
     (let user = takeWhile (\<lambda>c. c \<noteq> CHR ''@'') s; rest = drop (Suc (length user)) s;
          tld = rev (takeWhile (\<lambda>c. c \<noteq> CHR ''.'') (rev rest));
          dom = take (length rest - length tld - 1) rest
      in CHR ''@'' \<in> set s \<and> CHR ''.'' \<in> set rest \<and> user \<noteq> [] \<and> list_all email_local_char user \<and>
         dom \<noteq> [] \<and> list_all email_domain_char dom \<and> 2 \<le> length tld \<and> list_all is_letter tld)"

definition pixPhonePattern :: "string \<Rightarrow> bool" where
  "pixPhonePattern s \<longleftrightarrow>
     (case s of
        p # d # ds \<Rightarrow> p = CHR ''+'' \<and> CHR ''1'' \<le> d \<and> d \<le> CHR ''9'' \<and> 7 \<le> length ds \<and> length ds \<le> 14 \<and>
          list_all is_digit ds
      | _ \<Rightarrow> False)"

definition isTaxIDKey :: "string \<Rightarrow> bool" where
  "isTaxIDKey ck \<longleftrightarrow> (length ck = 11 \<or> length ck = 14) \<and> list_all is_digit ck"

definition validateCreditorKey :: "string \<Rightarrow> go_error option" where
  "validateCreditorKey ck =
     (if pixEVPPattern ck \<or> length ck \<le> 77 \<and> pixEmailPattern ck \<or> pixPhonePattern ck \<or> isTaxIDKey ck then None
      else Some (NewValidationError ''creditor_key'' ''is not a valid PIX key (EVP/UUID, e-mail, phone or CPF/CNPJ)''))"

definition SetCreditorKey :: "vault \<Rightarrow> string \<Rightarrow> string \<Rightarrow> vault result" where
  "SetCreditorKey m tenantID creditorKey =
     (if tenantID = [] then Inl (required ''tenant_id'')
      else if creditorKey = [] then Inl (required ''creditor_key'')
      else case validateCreditorKey creditorKey of
             Some e \<Rightarrow> Inl e
           | None \<Rightarrow>
               let k = credKey tenantID (defaultBankID [])
               in case map_of m k of
                    None \<Rightarrow> Inl ErrNotFound
                  | Some cur \<Rightarrow> Inr (put k (cur\<lparr>bk_CreditorKey := creditorKey\<rparr>) m))"

text \<open>The read-only union of two vaults: the second answers only for what the first does not have.\<close>

type_synonym credential_reader = "string \<Rightarrow> string \<Rightarrow> bank_credential result"

definition FallbackGet :: "credential_reader option \<Rightarrow> credential_reader option \<Rightarrow> credential_reader" where
  "FallbackGet primary secondary tenantID bankID =
     (let second = (case secondary of None \<Rightarrow> Inl ErrNotFound | Some f \<Rightarrow> f tenantID bankID)
      in case primary of
           None \<Rightarrow> second
         | Some f \<Rightarrow> (case f tenantID bankID of
             Inr c \<Rightarrow> Inr c
           | Inl e \<Rightarrow> if errors_Is e ErrNotFound then second else Inl e))"

section \<open>Certificates\<close>

record certificate =
  ct_SubjectCN :: string
  ct_Issuer :: string
  ct_SerialNumber :: string
  ct_FingerprintSHA256 :: string
  ct_NotBefore :: gotime
  ct_NotAfter :: gotime

text \<open>What the code reads of a parsed X.509 certificate; the names and the serial as strings.\<close>

record x509_certificate =
  x5_CommonName :: string
  x5_Issuer :: string
  x5_Serial :: string
  x5_Raw :: string
  x5_NotBefore :: gotime
  x5_NotAfter :: gotime

record crypto =
  cy_pem :: "string \<Rightarrow> (string \<times> string) option"
  cy_x509 :: "string \<Rightarrow> x509_certificate result"
  cy_sha256 :: "string \<Rightarrow> string"
  cy_pair :: "string \<Rightarrow> string \<Rightarrow> go_error option"

definition ParseCert :: "crypto \<Rightarrow> string \<Rightarrow> certificate result" where
  "ParseCert cy certPEM =
     (case cy_pem cy certPEM of
        None \<Rightarrow> Inl (NewValidationError ''cert_pem'' ''not a valid PEM certificate'')
      | Some (ty, bytes) \<Rightarrow>
          if ty \<noteq> ''CERTIFICATE'' then Inl (NewValidationError ''cert_pem'' ''not a valid PEM certificate'')
          else case cy_x509 cy bytes of
                 Inl e \<Rightarrow> Inl (NewValidationError ''cert_pem'' ''malformed certificate'')
               | Inr c \<Rightarrow> Inr \<lparr>ct_SubjectCN = x5_CommonName c, ct_Issuer = x5_Issuer c, ct_SerialNumber = x5_Serial c,
                            ct_FingerprintSHA256 = hex_encode (cy_sha256 cy (x5_Raw c)),
                            ct_NotBefore = x5_NotBefore c, ct_NotAfter = x5_NotAfter c\<rparr>)"

definition ParsePair :: "crypto \<Rightarrow> string \<Rightarrow> string \<Rightarrow> certificate result" where
  "ParsePair cy certPEM keyPEM =
     bindE (ParseCert cy certPEM) (\<lambda>meta.
       case cy_pair cy certPEM keyPEM of
         Some e \<Rightarrow> Inl (NewValidationError ''key_pem'' ''private key does not match certificate'')
       | None \<Rightarrow> Inr meta)"

record bank_certificate =
  bc_TenantID :: string
  bc_BankID :: string
  bc_CertPEM :: string
  bc_KeyPEM :: string

record bank_certificate_meta =
  bm_TenantID :: string
  bm_BankID :: string
  bm_SubjectCN :: string
  bm_Issuer :: string
  bm_SerialNumber :: string
  bm_FingerprintSHA256 :: string
  bm_NotBefore :: gotime
  bm_NotAfter :: gotime

definition meta_of :: "string \<Rightarrow> string \<Rightarrow> certificate \<Rightarrow> bank_certificate_meta" where
  "meta_of tenantID bankID c =
     \<lparr>bm_TenantID = tenantID, bm_BankID = bankID, bm_SubjectCN = ct_SubjectCN c, bm_Issuer = ct_Issuer c,
      bm_SerialNumber = ct_SerialNumber c, bm_FingerprintSHA256 = ct_FingerprintSHA256 c,
      bm_NotBefore = ct_NotBefore c, bm_NotAfter = ct_NotAfter c\<rparr>"

type_synonym cert_vault = "(string \<times> bank_certificate) list"

definition SetBankCertificate :: "cert_vault \<Rightarrow> bank_certificate \<Rightarrow> cert_vault result" where
  "SetBankCertificate m cert =
     (if bc_TenantID cert = [] then Inl (required ''tenant_id'')
      else if bc_CertPEM cert = [] then Inl (required ''cert_pem'')
      else if bc_KeyPEM cert = [] then Inl (required ''key_pem'')
      else let cert = cert\<lparr>bc_BankID := defaultBankID (bc_BankID cert)\<rparr>
           in Inr (put (credKey (bc_TenantID cert) (bc_BankID cert)) cert m))"

definition DeleteBankCertificate :: "cert_vault \<Rightarrow> string \<Rightarrow> string \<Rightarrow> cert_vault result" where
  "DeleteBankCertificate m tenantID bankID =
     (let k = credKey tenantID (defaultBankID bankID)
      in case map_of m k of
           None \<Rightarrow> Inr m
         | Some cur \<Rightarrow> Inr (del k (put k (cur\<lparr>bc_KeyPEM := []\<rparr>) m)))"

text \<open>The key pair for the transport: the vault gives the pair to \<open>tls.X509KeyPair\<close>.\<close>

definition LoadTLSCertificate :: "crypto \<Rightarrow> cert_vault \<Rightarrow> string \<Rightarrow> string \<Rightarrow> (string \<times> string) result" where
  "LoadTLSCertificate cy m tenantID bankID =
     bindE (lookup m (credKey tenantID (defaultBankID bankID))) (\<lambda>c.
       case cy_pair cy (bc_CertPEM c) (bc_KeyPEM c) of
         Some e \<Rightarrow> Inl e
       | None \<Rightarrow> Inr (bc_CertPEM c, bc_KeyPEM c))"

definition GetBankCertificateMeta :: "crypto \<Rightarrow> cert_vault \<Rightarrow> string \<Rightarrow> string \<Rightarrow> bank_certificate_meta result" where
  "GetBankCertificateMeta cy m tenantID bankID =
     bindE (lookup m (credKey tenantID bankID)) (\<lambda>c.
       bindE (ParseCert cy (bc_CertPEM c)) (\<lambda>meta. Inr (meta_of (bc_TenantID c) (bc_BankID c) meta)))"

section \<open>One active tenant per bank identity\<close>

record sharing_lookup =
  sl_ByCreditorKey :: "string \<Rightarrow> string \<Rightarrow> string list result"
  sl_ByClientID :: "string \<Rightarrow> string \<Rightarrow> string list result"

fun anyOtherActiveHolder :: "(string \<Rightarrow> tenant result) \<Rightarrow> string \<Rightarrow> string list \<Rightarrow> bool result" where
  "anyOtherActiveHolder tenants tenantID [] = Inr False"
| "anyOtherActiveHolder tenants tenantID (h # hs) =
     (if h = tenantID then anyOtherActiveHolder tenants tenantID hs
      else case tenants h of
             Inl e \<Rightarrow> if errors_Is e ErrNotFound then anyOtherActiveHolder tenants tenantID hs else Inl e
           | Inr t \<Rightarrow> if tn_active t then Inr True else anyOtherActiveHolder tenants tenantID hs)"

definition assertCreditorKeyUnclaimed ::
  "sharing_lookup option \<Rightarrow> (string \<Rightarrow> tenant result) \<Rightarrow> string \<Rightarrow> string \<Rightarrow> string \<Rightarrow> unit result" where
  "assertCreditorKeyUnclaimed sharing tenants tenantID bankID creditorKey =
     (case sharing of
        None \<Rightarrow> Inr ()
      | Some sl \<Rightarrow>
          if creditorKey = [] then Inr ()
          else bindE (wrapE ''check creditor key holders'' (sl_ByCreditorKey sl bankID creditorKey)) (\<lambda>holders.
            bindE (wrapE ''resolve creditor key holder'' (anyOtherActiveHolder tenants tenantID holders)) (\<lambda>taken.
              if taken then Inl (NewValidationError ''creditor_key''
                ''esta chave PIX ja esta registrada para outra empresa ativa'')
              else Inr ())))"

definition assertClientIDUnclaimed ::
  "sharing_lookup option \<Rightarrow> (string \<Rightarrow> tenant result) \<Rightarrow> string \<Rightarrow> string \<Rightarrow> string \<Rightarrow> unit result" where
  "assertClientIDUnclaimed sharing tenants tenantID bankID clientID =
     (case sharing of
        None \<Rightarrow> Inr ()
      | Some sl \<Rightarrow>
          if clientID = [] then Inr ()
          else bindE (wrapE ''check client id holders'' (sl_ByClientID sl bankID clientID)) (\<lambda>holders.
            bindE (wrapE ''resolve client id holder'' (anyOtherActiveHolder tenants tenantID holders)) (\<lambda>taken.
              if taken then Inl (NewValidationError ''client_id''
                ''esta conta do banco ja esta registrada para outra empresa ativa'')
              else Inr ())))"

section \<open>Facts\<close>

definition vault_ok :: "vault \<Rightarrow> bool" where
  "vault_ok m \<longleftrightarrow> distinct (keys m) \<and>
     (\<forall>(k, c) \<in> set m. k = credKey (bk_TenantID c) (bk_BankID c) \<and> nul_free (bk_TenantID c) \<and> bk_BankID c \<noteq> [])"

lemma defaultBankID_idem [simp]: "defaultBankID (defaultBankID b) = defaultBankID b" "defaultBankID b \<noteq> []"
  by (simp_all add: defaultBankID_def BankIDC6_def)

lemma defaultBankID_id: "b \<noteq> [] \<Longrightarrow> defaultBankID b = b"
  by (simp add: defaultBankID_def)

lemma credKey_default [simp]: "credKey t (defaultBankID b) = credKey t b"
  by (simp add: credKey_def)

lemma credKey_inj:
  assumes "nul_free t" "nul_free u" "credKey t b = credKey u c"
  shows "t = u \<and> defaultBankID b = defaultBankID c"
proof -
  have "key t (defaultBankID b) = key u (defaultBankID c)" using assms(3) by (simp add: credKey_def key_def)
  then show ?thesis using key_inj [OF assms(1,2)] by blast
qed

lemma vault_entry:
  assumes "vault_ok m" "nul_free t" "map_of m (credKey t b) = Some c"
  shows "bk_TenantID c = t \<and> bk_BankID c = defaultBankID b"
proof -
  from assms(1) map_of_SomeD [OF assms(3)] have k: "credKey t b = credKey (bk_TenantID c) (bk_BankID c)"
    "nul_free (bk_TenantID c)" "bk_BankID c \<noteq> []" by (auto simp: vault_ok_def)
  from credKey_inj [OF assms(2) k(2,1)] k(3) show ?thesis by (simp add: defaultBankID_id)
qed

lemma vault_ok_put:
  assumes "vault_ok m" "k = credKey (bk_TenantID c) (bk_BankID c)" "nul_free (bk_TenantID c)" "bk_BankID c \<noteq> []"
  shows "vault_ok (put k c m)"
  using assms set_put_distinct [of m k c] by (auto simp: vault_ok_def)

lemma vault_ok_del: "vault_ok m \<Longrightarrow> vault_ok (del k m)"
  by (auto simp: vault_ok_def del_def distinct_map_filter)

lemma vals_put: "distinct (keys m) \<Longrightarrow> set (vals (put k c m)) = insert c (snd ` {e \<in> set m. fst e \<noteq> k})"
  using set_put_distinct [of m k c] by auto

lemma vals_other:
  assumes "vault_ok m" "d \<in> snd ` {e \<in> set m. fst e \<noteq> k}"
  shows "d \<in> set (vals m) \<and> credKey (bk_TenantID d) (bk_BankID d) \<noteq> k \<and> bk_BankID d \<noteq> []"
  using assms by (auto simp: vault_ok_def)

text \<open>What is kept to one active tenant: the PIX key and the PSP account, bank by bank.\<close>

definition exclusive :: "(string \<Rightarrow> bool) \<Rightarrow> vault \<Rightarrow> bool" where
  "exclusive active m \<longleftrightarrow>
     (\<forall>c \<in> set (vals m). \<forall>d \<in> set (vals m).
        active (bk_TenantID c) \<and> active (bk_TenantID d) \<and> bk_TenantID c \<noteq> bk_TenantID d \<and> bk_BankID c = bk_BankID d \<longrightarrow>
        (bk_CreditorKey c = bk_CreditorKey d \<longrightarrow> bk_CreditorKey c = []) \<and>
        (bk_ClientID c = bk_ClientID d \<longrightarrow> bk_ClientID c = []))"

text \<open>A tenant the lookup knows not to be active.\<close>

definition idle :: "(string \<Rightarrow> tenant result) \<Rightarrow> string \<Rightarrow> bool" where
  "idle tenants t \<longleftrightarrow> (case tenants t of Inl e \<Rightarrow> errors_Is e ErrNotFound | Inr x \<Rightarrow> \<not> tn_active x)"

lemma anyOtherActiveHolder_False:
  "anyOtherActiveHolder tenants t hs = Inr False \<Longrightarrow> h \<in> set hs \<Longrightarrow> h \<noteq> t \<Longrightarrow> idle tenants h"
  by (induction hs) (auto simp: idle_def split: if_splits sum.splits)

definition vault_sharing :: "vault \<Rightarrow> sharing_lookup" where
  "vault_sharing m = \<lparr>sl_ByCreditorKey = FindTenantsByCreditorKey m, sl_ByClientID = FindTenantsByClientID m\<rparr>"

text \<open>What a passed check means: no other active tenant holds the key, or the account, at that bank.\<close>

lemma creditor_key_free:
  assumes "assertCreditorKeyUnclaimed (Some (vault_sharing m)) tenants t b ck = Inr ()" "ck \<noteq> []"
    and "d \<in> set (vals m)" "defaultBankID (bk_BankID d) = defaultBankID b" "bk_CreditorKey d = ck" "bk_TenantID d \<noteq> t"
  shows "idle tenants (bk_TenantID d)"
proof -
  let ?hs = "map bk_TenantID (filter (\<lambda>c. defaultBankID (bk_BankID c) = defaultBankID b \<and> bk_CreditorKey c = ck) (vals m))"
  have "anyOtherActiveHolder tenants t ?hs = Inr False"
    using assms(1,2)
    by (auto simp: assertCreditorKeyUnclaimed_def vault_sharing_def FindTenantsByCreditorKey_def bindE_Inr_iff split: if_splits)
  moreover have "bk_TenantID d \<in> set ?hs" using assms(3,4,5) by auto
  ultimately show ?thesis using assms(6) anyOtherActiveHolder_False by blast
qed

lemma client_id_free:
  assumes "assertClientIDUnclaimed (Some (vault_sharing m)) tenants t b cid = Inr ()" "cid \<noteq> []"
    and "d \<in> set (vals m)" "defaultBankID (bk_BankID d) = defaultBankID b" "bk_ClientID d = cid" "bk_TenantID d \<noteq> t"
  shows "idle tenants (bk_TenantID d)"
proof -
  let ?hs = "map bk_TenantID (filter (\<lambda>c. defaultBankID (bk_BankID c) = defaultBankID b \<and> bk_ClientID c = cid) (vals m))"
  have "anyOtherActiveHolder tenants t ?hs = Inr False"
    using assms(1,2)
    by (auto simp: assertClientIDUnclaimed_def vault_sharing_def FindTenantsByClientID_def bindE_Inr_iff split: if_splits)
  moreover have "bk_TenantID d \<in> set ?hs" using assms(3,4,5) by auto
  ultimately show ?thesis using assms(6) anyOtherActiveHolder_False by blast
qed

text \<open>Replacing one credential keeps the identities apart if the new one clashes with no active holder.\<close>

lemma exclusive_put:
  assumes "vault_ok m" "exclusive active m" "k = credKey (bk_TenantID c) (bk_BankID c)" "bk_BankID c \<noteq> []"
    and clash: "\<And>d. d \<in> set (vals m) \<Longrightarrow> bk_BankID d = bk_BankID c \<Longrightarrow> bk_TenantID d \<noteq> bk_TenantID c \<Longrightarrow>
      active (bk_TenantID d) \<Longrightarrow> active (bk_TenantID c) \<Longrightarrow>
      (bk_CreditorKey d = bk_CreditorKey c \<longrightarrow> bk_CreditorKey c = []) \<and> (bk_ClientID d = bk_ClientID c \<longrightarrow> bk_ClientID c = [])"
  shows "exclusive active (put k c m)"
proof -
  have d: "distinct (keys m)" using assms(1) by (simp add: vault_ok_def)
  have old: "x \<in> set (vals m)" if "x \<in> snd ` {e \<in> set m. fst e \<noteq> k}" for x using that by auto
  show ?thesis unfolding exclusive_def vals_put [OF d]
  proof (intro ballI impI, goal_cases)
    case (1 x y)
    then consider "x = c" "y = c" | "x = c" "y \<in> set (vals m)" | "x \<in> set (vals m)" "y = c" | "x \<in> set (vals m)" "y \<in> set (vals m)"
      using old by blast
    then show ?case
    proof cases
      case 2
      with 1 clash [of y] show ?thesis by auto
    next
      case 3
      with 1 clash [of x] show ?thesis by auto
    next
      case 4
      with 1 assms(2) show ?thesis unfolding exclusive_def by blast
    qed (use 1 in simp)
  qed
qed

lemma exclusive_old:
  assumes "exclusive active m" "c \<in> set (vals m)" "d \<in> set (vals m)" "active (bk_TenantID c)" "active (bk_TenantID d)"
    "bk_TenantID d \<noteq> bk_TenantID c" "bk_BankID d = bk_BankID c"
  shows "(bk_CreditorKey d = bk_CreditorKey c \<longrightarrow> bk_CreditorKey c = []) \<and> (bk_ClientID d = bk_ClientID c \<longrightarrow> bk_ClientID c = [])"
  using assms unfolding exclusive_def by metis

lemma exclusive_subset: "exclusive active m \<Longrightarrow> set (vals n) \<subseteq> set (vals m) \<Longrightarrow> exclusive active n"
  unfolding exclusive_def by blast

lemma exclusive_antimono: "exclusive active m \<Longrightarrow> (\<And>t. active' t \<Longrightarrow> active t) \<Longrightarrow> exclusive active' m"
  unfolding exclusive_def by blast

lemma SetCreditorKey_exclusive:
  assumes ok: "vault_ok m" "nul_free t" and ex: "exclusive active m" and idle: "\<And>h. idle tenants h \<Longrightarrow> \<not> active h"
    and free: "assertCreditorKeyUnclaimed (Some (vault_sharing m)) tenants t BankIDC6 ck = Inr ()"
    and set: "SetCreditorKey m t ck = Inr m'"
  shows "vault_ok m' \<and> exclusive active m'"
proof -
  from set obtain cur where cur: "map_of m (credKey t []) = Some cur" "ck \<noteq> []"
    "m' = put (credKey t []) (cur\<lparr>bk_CreditorKey := ck\<rparr>) m"
    by (auto simp: SetCreditorKey_def Let_def split: if_splits option.splits)
  have c: "bk_TenantID cur = t" "bk_BankID cur = BankIDC6" using vault_entry [OF ok cur(1)] by (simp_all add: defaultBankID_def)
  have ne: "bk_BankID cur \<noteq> []" by (simp add: c BankIDC6_def)
  have mem: "cur \<in> set (vals m)" using map_of_SomeD [OF cur(1)] by force
  have k: "credKey t [] = credKey (bk_TenantID cur) (bk_BankID cur)" using c by (simp add: credKey_def defaultBankID_def)
  have "exclusive active m'" unfolding cur(3)
  proof (rule exclusive_put [OF ok(1) ex])
    fix d assume d: "d \<in> set (vals m)" "bk_BankID d = bk_BankID (cur\<lparr>bk_CreditorKey := ck\<rparr>)"
      "bk_TenantID d \<noteq> bk_TenantID (cur\<lparr>bk_CreditorKey := ck\<rparr>)" "active (bk_TenantID d)"
      "active (bk_TenantID (cur\<lparr>bk_CreditorKey := ck\<rparr>))"
    have "bk_CreditorKey d \<noteq> ck" using creditor_key_free [OF free cur(2) d(1)] idle d c by (auto simp: defaultBankID_def)
    moreover have "bk_ClientID d = bk_ClientID cur \<longrightarrow> bk_ClientID cur = []"
      using exclusive_old [OF ex mem d(1)] d by simp
    ultimately show "(bk_CreditorKey d = bk_CreditorKey (cur\<lparr>bk_CreditorKey := ck\<rparr>) \<longrightarrow> bk_CreditorKey (cur\<lparr>bk_CreditorKey := ck\<rparr>) = []) \<and>
      (bk_ClientID d = bk_ClientID (cur\<lparr>bk_CreditorKey := ck\<rparr>) \<longrightarrow> bk_ClientID (cur\<lparr>bk_CreditorKey := ck\<rparr>) = [])" by simp
  qed (use k ne in simp_all)
  moreover have "vault_ok m'" unfolding cur(3) using ok k ne c by (intro vault_ok_put) simp_all
  ultimately show ?thesis by simp
qed

lemma SetBankCredential_exclusive:
  assumes ok: "vault_ok m" "nul_free t" and ex: "exclusive active m" and idle: "\<And>h. idle tenants h \<Longrightarrow> \<not> active h"
    and free: "assertClientIDUnclaimed (Some (vault_sharing m)) tenants t b cid = Inr ()"
    and set: "SetBankCredential m t b cid sec = Inr m'"
  shows "vault_ok m' \<and> exclusive active m'"
proof -
  define cur where "cur = (case map_of m (credKey t b) of None \<Rightarrow> zero_credential | Some c \<Rightarrow> c)"
  define c where "c = cur\<lparr>bk_TenantID := t, bk_BankID := defaultBankID b, bk_ClientID := cid, bk_Secret := sec\<rparr>"
  have ne: "cid \<noteq> []" and m': "m' = put (credKey t b) c m"
    using set by (auto simp: SetBankCredential_def c_def cur_def Let_def split: if_splits)
  have k: "credKey t b = credKey (bk_TenantID c) (bk_BankID c)" by (simp add: c_def)
  have "exclusive active m'" unfolding m'
  proof (rule exclusive_put [OF ok(1) ex k])
    fix d assume d: "d \<in> set (vals m)" "bk_BankID d = bk_BankID c" "bk_TenantID d \<noteq> bk_TenantID c"
      "active (bk_TenantID d)" "active (bk_TenantID c)"
    have "bk_ClientID d \<noteq> cid" using client_id_free [OF free ne d(1)] idle d by (auto simp: c_def)
    moreover have "bk_CreditorKey d = bk_CreditorKey c \<longrightarrow> bk_CreditorKey c = []"
    proof (cases "map_of m (credKey t b)")
      case None
      then show ?thesis by (simp add: c_def cur_def zero_credential_def)
    next
      case (Some x)
      with vault_entry [OF ok Some] have x: "bk_TenantID x = t" "bk_BankID x = defaultBankID b" "cur = x" by (simp_all add: cur_def)
      have "x \<in> set (vals m)" using map_of_SomeD [OF Some] by force
      from exclusive_old [OF ex this d(1)] d x show ?thesis by (simp add: c_def)
    qed
    ultimately show "(bk_CreditorKey d = bk_CreditorKey c \<longrightarrow> bk_CreditorKey c = []) \<and> (bk_ClientID d = bk_ClientID c \<longrightarrow> bk_ClientID c = [])"
      by (simp add: c_def)
  qed (simp add: c_def)
  moreover have "vault_ok m'" unfolding m' using ok k by (intro vault_ok_put) (simp_all add: c_def)
  ultimately show ?thesis by simp
qed

lemma DeleteBankCredential_exclusive:
  assumes "vault_ok m" "exclusive active m" "DeleteBankCredential m t b = Inr m'"
  shows "vault_ok m' \<and> exclusive active m'"
proof -
  have "del k (put k c m) = del k m" for k c and m :: vault
    by (induction k c m rule: put.induct) (auto simp: del_def)
  then have "m' = m \<or> m' = del (credKey t b) m"
    using assms(3) by (auto simp: DeleteBankCredential_def Let_def split: option.splits)
  moreover have "set (vals (del (credKey t b) m)) \<subseteq> set (vals m)" by (auto simp: del_def)
  ultimately show ?thesis using assms(1,2) vault_ok_del exclusive_subset by metis
qed

end
