(* ===== verification/Console.thy ===== *)
theory Console
  imports BankVault
begin

text \<open>
  \<open>internal/app/console.go\<close>, \<open>account_console.go\<close> and \<open>outbound_webhook.go\<close>: the administration
  console. The service is a record of its ports over a world of any type; a nil port is \<open>None\<close>. Every
  operation is a callback in the sense of the port theory that runs outside a unit of work: what it
  wrote before it fails stays written. The operator id of the context is the argument \<open>opr\<close>.
\<close>

section \<open>Ports\<close>

record 'w account_store =
  as_Save :: "'w \<Rightarrow> account \<Rightarrow> 'w result"
  as_Find :: "'w \<Rightarrow> string \<Rightarrow> account result"
  as_List :: "'w \<Rightarrow> account list result"

record 'w invoice_store =
  is_Save :: "'w \<Rightarrow> invoice \<Rightarrow> 'w result"
  is_Find :: "'w \<Rightarrow> string \<Rightarrow> string \<Rightarrow> invoice result"
  is_List :: "'w \<Rightarrow> string \<Rightarrow> invoice list result"

record 'w webhook_port =
  wp_Get :: "'w \<Rightarrow> string \<Rightarrow> webhook_config result"
  wp_Upsert :: "'w \<Rightarrow> webhook_config \<Rightarrow> 'w result"
  wp_Delete :: "'w \<Rightarrow> string \<Rightarrow> 'w result"

record 'w deregistrar =
  dr_Pix :: "'w \<Rightarrow> string \<Rightarrow> string \<Rightarrow> 'w \<times> go_error option"
  dr_Rec :: "'w \<Rightarrow> string \<Rightarrow> 'w \<times> go_error option"
  dr_CobR :: "'w \<Rightarrow> string \<Rightarrow> 'w \<times> go_error option"

record 'w console_service =
  cs_SaveTenant :: "'w \<Rightarrow> tenant \<Rightarrow> 'w result"
  cs_FindTenant :: "'w \<Rightarrow> string \<Rightarrow> tenant result"
  cs_ListTenants :: "'w \<Rightarrow> tenant list result"
  cs_accounts :: "'w account_store option"
  cs_UpsertPrice :: "'w \<Rightarrow> endpoint_pricing \<Rightarrow> 'w result"
  cs_ListPrices :: "'w \<Rightarrow> string \<Rightarrow> endpoint_pricing list result"
  cs_ListLedger :: "'w \<Rightarrow> string \<Rightarrow> ledger_entry list result"
  cs_ListLedgerByAccount :: "'w \<Rightarrow> string \<Rightarrow> ledger_entry list result"
  cs_SetCredential :: "'w \<Rightarrow> string \<Rightarrow> string \<Rightarrow> string \<Rightarrow> string \<Rightarrow> 'w result"
  cs_SetCreditorKey :: "'w \<Rightarrow> string \<Rightarrow> string \<Rightarrow> 'w result"
  cs_credReader :: "('w \<Rightarrow> string \<Rightarrow> string \<Rightarrow> bank_credential result) option"
  cs_Invalidate :: "'w \<Rightarrow> string \<Rightarrow> 'w"
  cs_SetCertificate :: "'w \<Rightarrow> bank_certificate \<Rightarrow> 'w result"
  cs_certReader :: "('w \<Rightarrow> string \<Rightarrow> string \<Rightarrow> bank_certificate_meta result) option"
  cs_credDeleter :: "('w \<Rightarrow> string \<Rightarrow> string \<Rightarrow> 'w result) option"
  cs_certDeleter :: "('w \<Rightarrow> string \<Rightarrow> string \<Rightarrow> 'w result) option"
  cs_deregistrar :: "'w deregistrar option"
  cs_creds :: "('w \<Rightarrow> string \<Rightarrow> string \<Rightarrow> bank_credential result) option"
  cs_sharing :: "('w \<Rightarrow> sharing_lookup) option"
  cs_invoices :: "'w invoice_store option"
  cs_webhooks :: "'w webhook_port option"
  cs_Append :: "'w \<Rightarrow> entry \<Rightarrow> 'w result"
  cs_Now :: "'w \<Rightarrow> 'w \<times> gotime"
  cs_NewID :: "'w \<Rightarrow> 'w \<times> string"

abbreviation ErrInvoicesUnavailable :: go_error where
  "ErrInvoicesUnavailable \<equiv> Opaque ''invoice store not configured''"

abbreviation ErrAccountsUnavailable :: go_error where
  "ErrAccountsUnavailable \<equiv> Opaque ''account store not configured''"

abbreviation ErrOutboundWebhookUnavailable :: go_error where
  "ErrOutboundWebhookUnavailable \<equiv> Opaque ''outbound webhook store not configured''"

section \<open>More combinators\<close>

definition tx_ask :: "('w \<Rightarrow> 'w \<times> 'x) \<Rightarrow> ('x \<Rightarrow> ('w, 'a) tx) \<Rightarrow> ('w, 'a) tx" where
  "tx_ask f k w = (let (w1, x) = f w in k x w1)"

definition tx_get :: "string \<Rightarrow> ('w \<Rightarrow> 'x result) \<Rightarrow> ('x \<Rightarrow> ('w, 'a) tx) \<Rightarrow> ('w, 'a) tx" where
  "tx_get msg f k w = (case f w of Inl e \<Rightarrow> (w, Inl (Errorf msg e)) | Inr x \<Rightarrow> k x w)"

definition tx_lift :: "'x result \<Rightarrow> ('x \<Rightarrow> ('w, 'a) tx) \<Rightarrow> ('w, 'a) tx" where
  "tx_lift r k w = (case r of Inl e \<Rightarrow> (w, Inl e) | Inr x \<Rightarrow> k x w)"

definition tx_check :: "('w \<Rightarrow> 'x result) \<Rightarrow> ('x \<Rightarrow> ('w, 'a) tx) \<Rightarrow> ('w, 'a) tx" where
  "tx_check f k w = (case f w of Inl e \<Rightarrow> (w, Inl e) | Inr x \<Rightarrow> k x w)"

definition tx_do :: "('w \<Rightarrow> 'w) \<Rightarrow> ('w, 'a) tx \<Rightarrow> ('w, 'a) tx" where
  "tx_do f k w = k (f w)"

definition tx_bind :: "('w, 'x) tx \<Rightarrow> ('x \<Rightarrow> ('w, 'a) tx) \<Rightarrow> ('w, 'a) tx" where
  "tx_bind m k w = (case m w of (w1, Inl e) \<Rightarrow> (w1, Inl e) | (w1, Inr x) \<Rightarrow> k x w1)"

lemmas console_tx = tx_ask_def tx_get_def tx_lift_def tx_check_def tx_do_def tx_bind_def tx_write_def tx_return_def tx_fail_def

text \<open>An id, an instant, the entry built from them, appended; the two failures have their own texts.\<close>

definition audited ::
  "'w console_service \<Rightarrow> (string \<Rightarrow> gotime \<Rightarrow> entry result) \<Rightarrow> ('w, 'a) tx \<Rightarrow> ('w, 'a) tx" where
  "audited svc mk k =
     tx_ask (cs_NewID svc) (\<lambda>aid. tx_ask (cs_Now svc) (\<lambda>now.
       tx_lift (wrapE ''build audit entry'' (mk aid now)) (\<lambda>e.
         tx_write ''append audit entry'' (\<lambda>w. cs_Append svc w e) k)))"

section \<open>Tenants\<close>

datatype status_filter = StatusAny | StatusActive | StatusSuspended

definition ParseStatusFilter :: "string \<Rightarrow> status_filter" where
  "ParseStatusFilter raw =
     (let s = ToLower (TrimSpace raw)
      in if s = ''active'' then StatusActive else if s = ''suspended'' then StatusSuspended else StatusAny)"

fun matchesStatus :: "bool \<Rightarrow> status_filter \<Rightarrow> bool" where
  "matchesStatus act StatusActive \<longleftrightarrow> act"
| "matchesStatus act StatusSuspended \<longleftrightarrow> \<not> act"
| "matchesStatus act StatusAny \<longleftrightarrow> True"

text \<open>Names are free text: \<open>strings.ToLower\<close> on them is the argument \<open>lower\<close>.\<close>

definition ListTenantsQ ::
  "'w console_service \<Rightarrow> (string \<Rightarrow> string) \<Rightarrow> string \<Rightarrow> status_filter \<Rightarrow> 'w \<Rightarrow> tenant list result" where
  "ListTenantsQ svc lower search st w =
     bindE (wrapE ''list tenants'' (cs_ListTenants svc w)) (\<lambda>ts.
       let needle = lower (TrimSpace search)
       in Inr (SliceStable (newest_first (\<lambda>t. ns (tn_createdAt t)) tn_id)
            (filter (\<lambda>t. matchesStatus (tn_active t) st \<and> (needle = [] \<or> sublist needle (lower (tn_name t)))) ts)))"

definition GetTenant :: "'w console_service \<Rightarrow> string \<Rightarrow> 'w \<Rightarrow> tenant result" where
  "GetTenant svc tid w = wrapE ''find tenant'' (cs_FindTenant svc w (TrimSpace tid))"

definition CreateTenant :: "'w console_service \<Rightarrow> string \<Rightarrow> ('w, tenant) tx" where
  "CreateTenant svc nm =
     tx_ask (cs_NewID svc) (\<lambda>tid. tx_ask (cs_Now svc) (\<lambda>now.
       tx_lift (NewTenant tid nm now) (\<lambda>t.
         tx_write ''save tenant'' (\<lambda>w. cs_SaveTenant svc w t) (tx_return t))))"

definition transition ::
  "'w console_service \<Rightarrow> string \<Rightarrow> string \<Rightarrow> action \<Rightarrow> (tenant \<Rightarrow> tenant result) \<Rightarrow> ('w, tenant) tx" where
  "transition svc opr tid act change =
     tx_get ''find tenant'' (\<lambda>w. cs_FindTenant svc w (TrimSpace tid)) (\<lambda>t.
       tx_lift (change t) (\<lambda>t.
         tx_write ''save tenant'' (\<lambda>w. cs_SaveTenant svc w t)
           (audited svc (\<lambda>aid now. NewEntry aid opr act (tn_id t) now) (tx_return t))))"

definition RenameTenantC :: "'w console_service \<Rightarrow> string \<Rightarrow> string \<Rightarrow> string \<Rightarrow> ('w, tenant) tx" where
  "RenameTenantC svc opr tid nm = transition svc opr tid ActionRenameTenant (\<lambda>t. RenameTenant t nm)"

definition SuspendTenant :: "'w console_service \<Rightarrow> string \<Rightarrow> string \<Rightarrow> ('w, tenant) tx" where
  "SuspendTenant svc opr tid = transition svc opr tid ActionSuspendTenant (\<lambda>t. Inr (DeactivateTenant t))"

definition ActivateTenantC :: "'w console_service \<Rightarrow> string \<Rightarrow> string \<Rightarrow> ('w, tenant) tx" where
  "ActivateTenantC svc opr tid = transition svc opr tid ActionActivateTenant (\<lambda>t. Inr (ActivateTenant t))"

section \<open>Bank credentials\<close>

abbreviation resolve_tenant :: "'w console_service \<Rightarrow> string \<Rightarrow> ('w, 'a) tx \<Rightarrow> ('w, 'a) tx" where
  "resolve_tenant svc tid k \<equiv> tx_get ''resolve tenant'' (\<lambda>w. cs_FindTenant svc w tid) (\<lambda>_. k)"

abbreviation unsupported_bank :: go_error where
  "unsupported_bank \<equiv> NewValidationError ''bank'' ''banco nao suportado''"

definition sharing_at :: "'w console_service \<Rightarrow> 'w \<Rightarrow> sharing_lookup option" where
  "sharing_at svc w = (case cs_sharing svc of None \<Rightarrow> None | Some f \<Rightarrow> Some (f w))"

definition assertCreditorKeyFree :: "'w console_service \<Rightarrow> string \<Rightarrow> string \<Rightarrow> 'w \<Rightarrow> unit result" where
  "assertCreditorKeyFree svc tenantID creditorKey w =
     assertCreditorKeyUnclaimed (sharing_at svc w) (cs_FindTenant svc w) tenantID BankIDC6 creditorKey"

definition assertClientIDFree :: "'w console_service \<Rightarrow> string \<Rightarrow> string \<Rightarrow> string \<Rightarrow> 'w \<Rightarrow> unit result" where
  "assertClientIDFree svc tenantID bankID clientID w =
     assertClientIDUnclaimed (sharing_at svc w) (cs_FindTenant svc w) tenantID bankID clientID"

definition SetBankCredentialC :: "'w console_service \<Rightarrow> string \<Rightarrow> string \<Rightarrow> string \<Rightarrow> ('w, unit) tx" where
  "SetBankCredentialC svc tenantID clientID secret =
     resolve_tenant svc (TrimSpace tenantID)
       (tx_check (assertClientIDFree svc tenantID BankIDC6 clientID) (\<lambda>_.
          tx_write ''set bank credential'' (\<lambda>w. cs_SetCredential svc w tenantID BankIDC6 clientID secret)
            (tx_do (\<lambda>w. cs_Invalidate svc w (TrimSpace tenantID)) (tx_return ()))))"

definition SetBankCredentialFor :: "'w console_service \<Rightarrow> string \<Rightarrow> string \<Rightarrow> string \<Rightarrow> string \<Rightarrow> ('w, unit) tx" where
  "SetBankCredentialFor svc tenantID bankID clientID secret =
     (let tenantID = TrimSpace tenantID; slug = NormalizeBankID bankID
      in resolve_tenant svc tenantID
           (if \<not> IsKnownBankID slug then tx_fail unsupported_bank
            else tx_check (assertClientIDFree svc tenantID slug clientID) (\<lambda>_.
              tx_write ''set bank credential'' (\<lambda>w. cs_SetCredential svc w tenantID slug clientID secret)
                (tx_do (\<lambda>w. cs_Invalidate svc w tenantID) (tx_return ())))))"

definition SetCreditorKeyC :: "'w console_service \<Rightarrow> string \<Rightarrow> string \<Rightarrow> string \<Rightarrow> ('w, unit) tx" where
  "SetCreditorKeyC svc opr tenantID creditorKey =
     (let tenantID = TrimSpace tenantID; ck = TrimSpace creditorKey
      in resolve_tenant svc tenantID
           (tx_check (assertCreditorKeyFree svc tenantID ck) (\<lambda>_.
              tx_write ''set creditor key'' (\<lambda>w. cs_SetCreditorKey svc w tenantID ck)
                (audited svc (\<lambda>aid now. NewCreditorKeySetEntry aid opr tenantID BankIDC6 now) (tx_return ())))))"

definition selfServeOperatorID :: string where "selfServeOperatorID = ''system:self-serve''"

definition SetCreditorKeySelfServe :: "'w console_service \<Rightarrow> string \<Rightarrow> string \<Rightarrow> ('w, unit) tx" where
  "SetCreditorKeySelfServe svc tenantID creditorKey = SetCreditorKeyC svc selfServeOperatorID tenantID creditorKey"

definition SetBankCertificateC ::
  "'w console_service \<Rightarrow> crypto \<Rightarrow> string \<Rightarrow> string \<Rightarrow> string \<Rightarrow> string \<Rightarrow> string \<Rightarrow> ('w, bank_certificate_meta) tx" where
  "SetBankCertificateC svc cy opr tenantID bankID certPEM keyPEM =
     (let tenantID = TrimSpace tenantID; slug = NormalizeBankID bankID
      in resolve_tenant svc tenantID
           (if \<not> IsKnownBankID slug then tx_fail unsupported_bank
            else tx_lift (ParsePair cy certPEM keyPEM) (\<lambda>cert.
              tx_ask (cs_Now svc) (\<lambda>now.
                if Before (ct_NotAfter cert) now then tx_fail (NewValidationError ''cert_pem'' ''certificado ja expirado'')
                else tx_write ''set bank certificate'' (\<lambda>w. cs_SetCertificate svc w
                       \<lparr>bc_TenantID = tenantID, bc_BankID = slug, bc_CertPEM = certPEM, bc_KeyPEM = keyPEM\<rparr>)
                  (tx_do (\<lambda>w. cs_Invalidate svc w tenantID)
                    (audited svc (\<lambda>aid now. NewCertificateSetEntry aid opr tenantID slug (ct_FingerprintSHA256 cert) now)
                      (tx_return (meta_of tenantID slug cert))))))))"

section \<open>Banks of a tenant\<close>

datatype cert_status = CertStatusValid | CertStatusExpiringSoon | CertStatusExpired | CertStatusNotYetValid

definition certExpiryWarningWindow :: int where
  "certExpiryWarningWindow = 30 * day_ns"

definition ceilDays :: "int \<Rightarrow> int" where
  "ceilDays d = (if d \<le> 0 then quot64 d day_ns else quot64 (sub64 (add64 d day_ns) 1) day_ns)"

definition certStatusFor :: "gotime \<Rightarrow> gotime \<Rightarrow> gotime \<Rightarrow> cert_status \<times> int" where
  "certStatusFor notBefore notAfter now =
     (let days = ceilDays (SubTime notAfter now)
      in if Before now notBefore then (CertStatusNotYetValid, days)
         else if \<not> Before now notAfter then (CertStatusExpired, days)
         else if SubTime notAfter now \<le> certExpiryWarningWindow then (CertStatusExpiringSoon, days)
         else (CertStatusValid, days))"

record bank_cert_info =
  bi_SubjectCN :: string
  bi_Issuer :: string
  bi_SerialNumber :: string
  bi_FingerprintSHA256 :: string
  bi_NotBefore :: gotime
  bi_NotAfter :: gotime
  bi_Status :: cert_status
  bi_DaysToExpiry :: int

record bank_info =
  bn_Slug :: string
  bn_CredentialSet :: bool
  bn_ClientID :: string
  bn_CreditorKey :: string
  bn_Cert :: "bank_cert_info option"

definition cert_info :: "bank_certificate_meta \<Rightarrow> gotime \<Rightarrow> bank_cert_info" where
  "cert_info meta now =
     (let (st, days) = certStatusFor (bm_NotBefore meta) (bm_NotAfter meta) now
      in \<lparr>bi_SubjectCN = bm_SubjectCN meta, bi_Issuer = bm_Issuer meta, bi_SerialNumber = bm_SerialNumber meta,
          bi_FingerprintSHA256 = bm_FingerprintSHA256 meta, bi_NotBefore = bm_NotBefore meta,
          bi_NotAfter = bm_NotAfter meta, bi_Status = st, bi_DaysToExpiry = days\<rparr>)"

definition lookup_cert :: "'w console_service \<Rightarrow> string \<Rightarrow> string \<Rightarrow> bank_info \<Rightarrow> ('w, bank_info) tx" where
  "lookup_cert svc tenantID bankID info =
     (case cs_certReader svc of
        None \<Rightarrow> tx_return info
      | Some get \<Rightarrow> tx_read (\<lambda>w. get w tenantID bankID) (\<lambda>found.
          case found of
            Inr meta \<Rightarrow> tx_ask (cs_Now svc) (\<lambda>now. tx_return (info\<lparr>bn_Cert := Some (cert_info meta now)\<rparr>))
          | Inl e \<Rightarrow> if errors_Is e ErrNotFound then tx_return info
                     else tx_fail (Errorf ''read bank certificate'' e)))"

definition lookupBank :: "'w console_service \<Rightarrow> string \<Rightarrow> string \<Rightarrow> ('w, bank_info) tx" where
  "lookupBank svc tenantID bankID =
     (let info = \<lparr>bn_Slug = bankID, bn_CredentialSet = False, bn_ClientID = [], bn_CreditorKey = [], bn_Cert = None\<rparr>
      in case cs_credReader svc of
           None \<Rightarrow> lookup_cert svc tenantID bankID info
         | Some get \<Rightarrow> tx_read (\<lambda>w. get w tenantID bankID) (\<lambda>found.
             case found of
               Inr c \<Rightarrow> lookup_cert svc tenantID bankID
                 (info\<lparr>bn_CredentialSet := True, bn_ClientID := bk_ClientID c, bn_CreditorKey := bk_CreditorKey c\<rparr>)
             | Inl e \<Rightarrow> if errors_Is e ErrNotFound then lookup_cert svc tenantID bankID info
                        else tx_fail (Errorf ''read bank credential'' e)))"

fun lookup_banks :: "'w console_service \<Rightarrow> string \<Rightarrow> string list \<Rightarrow> ('w, bank_info list) tx" where
  "lookup_banks svc tenantID [] = tx_return []"
| "lookup_banks svc tenantID (slug # slugs) =
     tx_bind (lookupBank svc tenantID slug) (\<lambda>info.
       tx_bind (lookup_banks svc tenantID slugs) (\<lambda>infos. tx_return (info # infos)))"

definition ListBanks :: "'w console_service \<Rightarrow> string \<Rightarrow> ('w, bank_info list) tx" where
  "ListBanks svc tenantID =
     (let tenantID = TrimSpace tenantID
      in resolve_tenant svc tenantID
           (tx_bind (lookup_banks svc tenantID knownBankIDs) (\<lambda>infos. tx_return (filter bn_CredentialSet infos))))"

definition AddableBankSlugs :: "'w console_service \<Rightarrow> string \<Rightarrow> ('w, string list) tx" where
  "AddableBankSlugs svc tenantID =
     (let tenantID = TrimSpace tenantID
      in resolve_tenant svc tenantID
           (tx_bind (lookup_banks svc tenantID knownBankIDs) (\<lambda>infos.
              tx_return (map bn_Slug (filter (\<lambda>i. \<not> bn_CredentialSet i) infos)))))"

definition GetBank :: "'w console_service \<Rightarrow> string \<Rightarrow> string \<Rightarrow> ('w, bank_info) tx" where
  "GetBank svc tenantID bankID =
     (let tenantID = TrimSpace tenantID; slug = NormalizeBankID bankID
      in resolve_tenant svc tenantID
           (if \<not> IsKnownBankID slug then tx_fail (Errorf ''unknown bank'' ErrNotFound)
            else lookupBank svc tenantID slug))"

section \<open>Removing a bank\<close>

definition tenantIsActive :: "'w console_service \<Rightarrow> string \<Rightarrow> 'w \<Rightarrow> bool result" where
  "tenantIsActive svc tenantID w =
     (case cs_FindTenant svc w tenantID of
        Inl e \<Rightarrow> if errors_Is e ErrNotFound then Inr False else Inl e
      | Inr t \<Rightarrow> Inr (tn_active t))"

text \<open>An answer that cannot be had counts as shared.\<close>

definition holders_shared :: "'w console_service \<Rightarrow> string \<Rightarrow> 'w \<Rightarrow> string list result \<Rightarrow> bool" where
  "holders_shared svc tenantID w found =
     (case found of
        Inl e \<Rightarrow> True
      | Inr hs \<Rightarrow> list_ex (\<lambda>h. h \<noteq> tenantID \<and> tenantIsActive svc h w \<noteq> Inr False) hs)"

definition sharesBankIdentityWithActiveTenant ::
  "'w console_service \<Rightarrow> string \<Rightarrow> string \<Rightarrow> string \<Rightarrow> string \<Rightarrow> 'w \<Rightarrow> bool" where
  "sharesBankIdentityWithActiveTenant svc tenantID bankID chave clientID w =
     (case cs_sharing svc of
        None \<Rightarrow> False
      | Some f \<Rightarrow> holders_shared svc tenantID w (sl_ByCreditorKey (f w) bankID chave) \<or>
                  holders_shared svc tenantID w (sl_ByClientID (f w) bankID clientID))"

text \<open>The failures of the three calls are logged only.\<close>

definition deregisterWebhooks :: "'w console_service \<Rightarrow> string \<Rightarrow> string \<Rightarrow> 'w \<Rightarrow> 'w" where
  "deregisterWebhooks svc tenantID bankID w =
     (case cs_deregistrar svc of
        None \<Rightarrow> w
      | Some dr \<Rightarrow>
          if bankID \<noteq> BankIDC6 then w
          else let (chave, clientID) =
                     (case cs_creds svc of
                        None \<Rightarrow> ([], [])
                      | Some get \<Rightarrow> (case get w tenantID bankID of
                          Inl e \<Rightarrow> ([], [])
                        | Inr c \<Rightarrow> (TrimSpace (bk_CreditorKey c), TrimSpace (bk_ClientID c))))
               in if sharesBankIdentityWithActiveTenant svc tenantID bankID chave clientID w then w
                  else let w1 = (if chave \<noteq> [] then fst (dr_Pix dr w tenantID chave) else w);
                           w2 = fst (dr_Rec dr w1 tenantID)
                       in fst (dr_CobR dr w2 tenantID))"

definition delete_half :: "string \<Rightarrow> ('w \<Rightarrow> 'w result) option \<Rightarrow> ('w, 'a) tx \<Rightarrow> ('w, 'a) tx" where
  "delete_half msg f k = (case f of None \<Rightarrow> k | Some f \<Rightarrow> tx_write msg f k)"

definition RemoveBankConfig :: "'w console_service \<Rightarrow> string \<Rightarrow> string \<Rightarrow> string \<Rightarrow> ('w, unit) tx" where
  "RemoveBankConfig svc opr tenantID bankID =
     (let tenantID = TrimSpace tenantID; slug = NormalizeBankID bankID
      in resolve_tenant svc tenantID
           (if \<not> IsKnownBankID slug then tx_fail unsupported_bank
            else tx_do (deregisterWebhooks svc tenantID slug)
              (delete_half ''delete bank credential'' (map_option (\<lambda>f w. f w tenantID slug) (cs_credDeleter svc))
                (delete_half ''delete bank certificate'' (map_option (\<lambda>f w. f w tenantID slug) (cs_certDeleter svc))
                  (tx_do (\<lambda>w. cs_Invalidate svc w tenantID)
                    (audited svc (\<lambda>aid now. NewBankConfigRemovedEntry aid opr tenantID slug now) (tx_return ())))))))"

section \<open>The outbound webhook of an account\<close>

definition resolveWebhookAccount :: "'w console_service \<Rightarrow> string \<Rightarrow> 'w \<Rightarrow> string result" where
  "resolveWebhookAccount svc acctID w =
     (case cs_webhooks svc of
        None \<Rightarrow> Inl ErrOutboundWebhookUnavailable
      | Some wp \<Rightarrow> (case cs_accounts svc of
          None \<Rightarrow> Inl ErrAccountsUnavailable
        | Some st \<Rightarrow>
            bindE (wrapE ''resolve account'' (as_Find st w (TrimSpace acctID))) (\<lambda>a.
              if IsSelfAccountID (ac_id a) then Inl (Errorf ''self-account has no outbound webhook'' ErrNotFound)
              else Inr (ac_id a))))"

definition auditWebhook :: "'w console_service \<Rightarrow> string \<Rightarrow> action \<Rightarrow> string \<Rightarrow> ('w, 'a) tx \<Rightarrow> ('w, 'a) tx" where
  "auditWebhook svc opr act accountID k = audited svc (\<lambda>aid now. NewOutboundWebhookEntry aid opr act accountID now) k"

definition GetOutboundWebhookC :: "'w console_service \<Rightarrow> string \<Rightarrow> 'w \<Rightarrow> webhook_config option result" where
  "GetOutboundWebhookC svc acctID w =
     bindE (resolveWebhookAccount svc acctID w) (\<lambda>aid.
       case wp_Get (the (cs_webhooks svc)) w aid of
         Inr cfg \<Rightarrow> Inr (Some cfg)
       | Inl e \<Rightarrow> if errors_Is e ErrNotFound then Inr None else Inl (Errorf ''get outbound webhook'' e))"

definition SetOutboundWebhook ::
  "'w console_service \<Rightarrow> url_parser \<Rightarrow> (nat \<Rightarrow> string result) \<Rightarrow> string \<Rightarrow> string \<Rightarrow> string \<Rightarrow> bool
     \<Rightarrow> ('w, webhook_config \<times> string) tx" where
  "SetOutboundWebhook svc parse rd opr acctID rawURL enabled =
     tx_check (resolveWebhookAccount svc acctID) (\<lambda>aid.
       tx_read (\<lambda>w. wp_Get (the (cs_webhooks svc)) w aid) (\<lambda>found.
         case found of
           Inr existing \<Rightarrow>
             tx_ask (cs_Now svc) (\<lambda>now.
               tx_lift (SetURL parse existing rawURL now) (\<lambda>c1.
                 tx_ask (cs_Now svc) (\<lambda>now2. let c2 = SetEnabled c1 enabled now2 in
                   tx_write ''upsert outbound webhook'' (\<lambda>w. wp_Upsert (the (cs_webhooks svc)) w c2)
                     (auditWebhook svc opr ActionSetOutboundWebhook aid (tx_return (c2, []))))))
         | Inl e \<Rightarrow>
             if errors_Is e ErrNotFound then
               tx_lift (wrapE ''generate signing secret'' (GenerateSigningSecret rd)) (\<lambda>secret.
                 tx_ask (cs_Now svc) (\<lambda>now.
                   tx_lift (NewWebhookConfig parse aid rawURL secret enabled now) (\<lambda>cfg.
                     tx_write ''upsert outbound webhook'' (\<lambda>w. wp_Upsert (the (cs_webhooks svc)) w cfg)
                       (auditWebhook svc opr ActionSetOutboundWebhook aid (tx_return (cfg, secret))))))
             else tx_fail (Errorf ''get outbound webhook'' e)))"

definition RotateOutboundWebhookSecret ::
  "'w console_service \<Rightarrow> (nat \<Rightarrow> string result) \<Rightarrow> string \<Rightarrow> string \<Rightarrow> ('w, webhook_config \<times> string) tx" where
  "RotateOutboundWebhookSecret svc rd opr acctID =
     tx_check (resolveWebhookAccount svc acctID) (\<lambda>aid.
       tx_get ''get outbound webhook'' (\<lambda>w. wp_Get (the (cs_webhooks svc)) w aid) (\<lambda>cfg.
         tx_ask (cs_Now svc) (\<lambda>now.
           tx_lift (wrapE ''rotate signing secret'' (RotateSecret rd cfg now)) (\<lambda>(c2, secret).
             tx_write ''upsert outbound webhook'' (\<lambda>w. wp_Upsert (the (cs_webhooks svc)) w c2)
               (auditWebhook svc opr ActionRotateOutboundWebhookSecret aid (tx_return (c2, secret)))))))"

definition RemoveOutboundWebhook :: "'w console_service \<Rightarrow> string \<Rightarrow> string \<Rightarrow> ('w, unit) tx" where
  "RemoveOutboundWebhook svc opr acctID =
     tx_check (resolveWebhookAccount svc acctID) (\<lambda>aid.
       tx_write ''delete outbound webhook'' (\<lambda>w. wp_Delete (the (cs_webhooks svc)) w aid)
         (auditWebhook svc opr ActionRemoveOutboundWebhook aid (tx_return ())))"

end
