(* ===== verification/ConsoleBilling.thy ===== *)
theory ConsoleBilling
  imports Console
begin

text \<open>
  The other half of the console: accounts and their tenants (\<open>account_console.go\<close>), prices, the
  consumption reports over the ledger and the invoices frozen from them (\<open>console.go\<close>). The Go maps of
  a report are association lists in some order; the reports sort what they take out of them.
\<close>

section \<open>Accounts\<close>

definition effectiveAccountID :: "tenant \<Rightarrow> string" where
  "effectiveAccountID t =
     (if TrimSpace (tn_accountID t) \<noteq> [] then TrimSpace (tn_accountID t) else SelfAccountID (tn_id t))"

text \<open>A tally with a missing key reads zero; \<open>++\<close> wraps like every \<open>int\<close> operation.\<close>

definition tally :: "string \<Rightarrow> (string \<times> int) list \<Rightarrow> int" where
  "tally k m = (case map_of m k of None \<Rightarrow> 0 | Some n \<Rightarrow> n)"

definition tenantCountsByAccount :: "'w console_service \<Rightarrow> 'w \<Rightarrow> (string \<times> int) list result" where
  "tenantCountsByAccount svc w =
     bindE (wrapE ''list tenants'' (cs_ListTenants svc w)) (\<lambda>ts.
       Inr (fold (\<lambda>t m. put (effectiveAccountID t) (add64 (tally (effectiveAccountID t) m) 1) m) ts []))"

record account_list_item =
  ai_Account :: account
  ai_TenantCount :: int

definition ListAccountsQ ::
  "'w console_service \<Rightarrow> (string \<Rightarrow> string) \<Rightarrow> string \<Rightarrow> status_filter \<Rightarrow> bool \<Rightarrow> 'w \<Rightarrow> account_list_item list result" where
  "ListAccountsQ svc lower search st includeSelf w =
     (case cs_accounts svc of
        None \<Rightarrow> Inl ErrAccountsUnavailable
      | Some port \<Rightarrow>
          bindE (wrapE ''list accounts'' (as_List port w)) (\<lambda>accs.
            bindE (tenantCountsByAccount svc w) (\<lambda>counts.
              let needle = lower (TrimSpace search)
              in Inr (SliceStable (newest_first (\<lambda>i. ns (ac_createdAt (ai_Account i))) (\<lambda>i. ac_id (ai_Account i)))
                   (map (\<lambda>a. \<lparr>ai_Account = a, ai_TenantCount = tally (ac_id a) counts\<rparr>)
                     (filter (\<lambda>a. (includeSelf \<or> \<not> IsSelfAccountID (ac_id a)) \<and> matchesStatus (ac_active a) st \<and>
                        (needle = [] \<or> sublist needle (lower (ac_name a)))) accs))))))"

definition GetAccount :: "'w console_service \<Rightarrow> string \<Rightarrow> 'w \<Rightarrow> account result" where
  "GetAccount svc aid w =
     (case cs_accounts svc of
        None \<Rightarrow> Inl ErrAccountsUnavailable
      | Some port \<Rightarrow> wrapE ''find account'' (as_Find port w (TrimSpace aid)))"

definition CreateAccount :: "'w console_service \<Rightarrow> string \<Rightarrow> ('w, account) tx" where
  "CreateAccount svc nm =
     (case cs_accounts svc of
        None \<Rightarrow> tx_fail ErrAccountsUnavailable
      | Some port \<Rightarrow>
          tx_ask (cs_NewID svc) (\<lambda>aid. tx_ask (cs_Now svc) (\<lambda>now.
            tx_lift (NewAccount aid nm now) (\<lambda>a.
              tx_write ''save account'' (\<lambda>w. as_Save port w a) (tx_return a)))))"

definition accountTransition ::
  "'w console_service \<Rightarrow> string \<Rightarrow> string \<Rightarrow> action \<Rightarrow> (account \<Rightarrow> account result) \<Rightarrow> ('w, account) tx" where
  "accountTransition svc opr aid act change =
     (case cs_accounts svc of
        None \<Rightarrow> tx_fail ErrAccountsUnavailable
      | Some port \<Rightarrow>
          tx_get ''find account'' (\<lambda>w. as_Find port w (TrimSpace aid)) (\<lambda>a.
            tx_lift (change a) (\<lambda>a.
              tx_write ''save account'' (\<lambda>w. as_Save port w a)
                (audited svc (\<lambda>eid now. NewAccountActionEntry eid opr act (ac_id a) now) (tx_return a)))))"

definition RenameAccountC :: "'w console_service \<Rightarrow> string \<Rightarrow> string \<Rightarrow> string \<Rightarrow> ('w, account) tx" where
  "RenameAccountC svc opr aid nm = accountTransition svc opr aid ActionRenameAccount (\<lambda>a. RenameAccount a nm)"

definition DeactivateAccountC :: "'w console_service \<Rightarrow> string \<Rightarrow> string \<Rightarrow> ('w, account) tx" where
  "DeactivateAccountC svc opr aid = accountTransition svc opr aid ActionSuspendAccount (\<lambda>a. Inr (DeactivateAccount a))"

definition ActivateAccountC :: "'w console_service \<Rightarrow> string \<Rightarrow> string \<Rightarrow> ('w, account) tx" where
  "ActivateAccountC svc opr aid = accountTransition svc opr aid ActionActivateAccount (\<lambda>a. Inr (ActivateAccount a))"

definition ListTenantsByAccount :: "'w console_service \<Rightarrow> string \<Rightarrow> 'w \<Rightarrow> tenant list result" where
  "ListTenantsByAccount svc acctID w =
     (let acctID = TrimSpace acctID
      in if acctID = [] then Inl (NewValidationError ''account_id'' ''account id is required'')
         else bindE (wrapE ''list tenants'' (cs_ListTenants svc w)) (\<lambda>ts.
           Inr (filter (\<lambda>t. effectiveAccountID t = acctID) ts)))"

definition CreateTenantUnderAccount :: "'w console_service \<Rightarrow> string \<Rightarrow> string \<Rightarrow> ('w, tenant) tx" where
  "CreateTenantUnderAccount svc acctID nm =
     (case cs_accounts svc of
        None \<Rightarrow> tx_fail ErrAccountsUnavailable
      | Some port \<Rightarrow>
          let acctID = TrimSpace acctID
          in tx_get ''resolve account'' (\<lambda>w. as_Find port w acctID) (\<lambda>_.
               tx_ask (cs_NewID svc) (\<lambda>tid. tx_ask (cs_Now svc) (\<lambda>now.
                 tx_lift (bindE (NewTenant tid nm now) (\<lambda>t. AssignAccount t acctID)) (\<lambda>t.
                   tx_write ''save tenant'' (\<lambda>w. cs_SaveTenant svc w t) (tx_return t))))))"

section \<open>Prices\<close>

definition ListPricing :: "'w console_service \<Rightarrow> string \<Rightarrow> 'w \<Rightarrow> endpoint_pricing list result" where
  "ListPricing svc tenantID w =
     bindE (wrapE ''resolve tenant'' (cs_FindTenant svc w (TrimSpace tenantID))) (\<lambda>_.
       wrapE ''list prices'' (cs_ListPrices svc w tenantID))"

definition SetPrice :: "'w console_service \<Rightarrow> string \<Rightarrow> string \<Rightarrow> int \<Rightarrow> ('w, endpoint_pricing) tx" where
  "SetPrice svc tenantID endpoint priceCents =
     resolve_tenant svc (TrimSpace tenantID)
       (tx_lift (NewEndpointPricing tenantID endpoint priceCents) (\<lambda>p.
          tx_write ''upsert price'' (\<lambda>w. cs_UpsertPrice svc w p) (tx_return p)))"

section \<open>Consumption\<close>

record consumption_line =
  cl_Endpoint :: string
  cl_Calls :: int
  cl_TotalCents :: int

record consumption_report =
  cp_TenantID :: string
  cp_Lines :: "consumption_line list"
  cp_TotalCalls :: int
  cp_TotalCents :: int

record consumption_range =
  rg_Start :: gotime
  rg_End :: gotime

definition in_range :: "consumption_range \<Rightarrow> gotime \<Rightarrow> bool" where
  "in_range rng t \<longleftrightarrow>
     \<not> (\<not> IsZeroTime (rg_Start rng) \<and> Before t (rg_Start rng)) \<and>
     \<not> (\<not> IsZeroTime (rg_End rng) \<and> \<not> Before t (rg_End rng))"

text \<open>One turn of the loop: the line of the endpoint, created when missing, and the totals.\<close>

definition count_line :: "string \<Rightarrow> int \<Rightarrow> (string \<times> consumption_line) list \<Rightarrow> (string \<times> consumption_line) list" where
  "count_line endpoint cents m =
     (let line = (case map_of m endpoint of
                    None \<Rightarrow> \<lparr>cl_Endpoint = endpoint, cl_Calls = 0, cl_TotalCents = 0\<rparr> | Some l \<Rightarrow> l)
      in put endpoint (line\<lparr>cl_Calls := add64 (cl_Calls line) 1, cl_TotalCents := add64 (cl_TotalCents line) cents\<rparr>) m)"

fun count_entries ::
  "consumption_range \<Rightarrow> ledger_entry list \<Rightarrow> (string \<times> consumption_line) list \<Rightarrow> int \<Rightarrow> int
     \<Rightarrow> (string \<times> consumption_line) list \<times> int \<times> int" where
  "count_entries rng [] m calls cents = (m, calls, cents)"
| "count_entries rng (e # es) m calls cents =
     (if \<not> in_range rng (le_at e) then count_entries rng es m calls cents
      else count_entries rng es (count_line (le_endpoint e) (le_priceCents e) m)
             (add64 calls 1) (add64 cents (le_priceCents e)))"

definition by_endpoint :: "consumption_line \<Rightarrow> consumption_line \<Rightarrow> bool" where
  "by_endpoint a b \<longleftrightarrow> cl_Endpoint a < cl_Endpoint b"

definition report_of :: "string \<Rightarrow> consumption_range \<Rightarrow> ledger_entry list \<Rightarrow> consumption_report" where
  "report_of tenantID rng es =
     (let (m, calls, cents) = count_entries rng es [] 0 0
      in \<lparr>cp_TenantID = tenantID, cp_Lines = SliceStable by_endpoint (vals m), cp_TotalCalls = calls, cp_TotalCents = cents\<rparr>)"

definition ConsumptionInRange :: "'w console_service \<Rightarrow> string \<Rightarrow> consumption_range \<Rightarrow> 'w \<Rightarrow> consumption_report result" where
  "ConsumptionInRange svc tenantID rng w =
     (let tenantID = TrimSpace tenantID
      in bindE (wrapE ''resolve tenant'' (cs_FindTenant svc w tenantID)) (\<lambda>_.
           bindE (wrapE ''list ledger'' (cs_ListLedger svc w tenantID)) (\<lambda>es. Inr (report_of tenantID rng es))))"

definition unbounded :: consumption_range where
  "unbounded = \<lparr>rg_Start = zero_time, rg_End = zero_time\<rparr>"

definition Consumption :: "'w console_service \<Rightarrow> string \<Rightarrow> 'w \<Rightarrow> consumption_report result" where
  "Consumption svc tenantID w = ConsumptionInRange svc tenantID unbounded w"

section \<open>Invoices\<close>

definition line_items :: "consumption_line list \<Rightarrow> line_item list result" where
  "line_items ls =
     foldr (\<lambda>l acc. bindE (wrapE ''build invoice line'' (NewLineItem (cl_Endpoint l) (cl_Calls l) (cl_TotalCents l)))
              (\<lambda>li. bindE acc (\<lambda>lis. Inr (li # lis)))) ls (Inr [])"

definition GenerateInvoice :: "'w console_service \<Rightarrow> string \<Rightarrow> string \<Rightarrow> consumption_range \<Rightarrow> ('w, invoice) tx" where
  "GenerateInvoice svc opr tenantID rng =
     (case cs_invoices svc of
        None \<Rightarrow> tx_fail ErrInvoicesUnavailable
      | Some port \<Rightarrow>
          let tenantID = TrimSpace tenantID
          in if IsZeroTime (rg_Start rng) \<or> IsZeroTime (rg_End rng)
             then tx_fail (NewValidationError ''period'' ''invoice period start and end are required'')
             else if \<not> Before (rg_Start rng) (rg_End rng)
             then tx_fail (NewValidationError ''period'' ''invoice period start must be before end'')
             else tx_get ''resolve tenant'' (\<lambda>w. cs_FindTenant svc w tenantID) (\<lambda>t.
               tx_check (ConsumptionInRange svc tenantID rng) (\<lambda>rep.
                 tx_lift (line_items (cp_Lines rep)) (\<lambda>lines.
                   let accountID = (if tn_accountID t = [] then ''acct-'' @ tenantID else tn_accountID t)
                   in tx_ask (cs_NewID svc) (\<lambda>iid. tx_ask (cs_Now svc) (\<lambda>now.
                        tx_lift (NewInvoice iid tenantID accountID (rg_Start rng) (rg_End rng) now lines) (\<lambda>inv.
                          tx_write ''save invoice'' (\<lambda>w. is_Save port w inv)
                            (tx_ask (cs_NewID svc) (\<lambda>aid. tx_ask (cs_Now svc) (\<lambda>at.
                               tx_lift (NewEntry aid opr ActionInvoiceGenerated tenantID at) (\<lambda>e.
                                 tx_write ''audit invoice generation'' (\<lambda>w. cs_Append svc w e) (tx_return inv))))))))))))"

definition GetInvoice :: "'w console_service \<Rightarrow> string \<Rightarrow> string \<Rightarrow> 'w \<Rightarrow> invoice result" where
  "GetInvoice svc tenantID iid w =
     (case cs_invoices svc of
        None \<Rightarrow> Inl ErrInvoicesUnavailable
      | Some port \<Rightarrow> is_Find port w (TrimSpace tenantID) (TrimSpace iid))"

definition ListInvoicesC :: "'w console_service \<Rightarrow> string \<Rightarrow> 'w \<Rightarrow> invoice list result" where
  "ListInvoicesC svc tenantID w =
     (case cs_invoices svc of
        None \<Rightarrow> Inl ErrInvoicesUnavailable
      | Some port \<Rightarrow>
          let tenantID = TrimSpace tenantID
          in bindE (wrapE ''resolve tenant'' (cs_FindTenant svc w tenantID)) (\<lambda>_. is_List port w tenantID))"

definition newest_invoice :: "invoice \<Rightarrow> invoice \<Rightarrow> bool" where
  "newest_invoice = newest_first (\<lambda>i. ns (inv_generatedAt i)) inv_id"

fun list_all_invoices :: "'w invoice_store \<Rightarrow> 'w \<Rightarrow> tenant list \<Rightarrow> invoice list result" where
  "list_all_invoices port w [] = Inr []"
| "list_all_invoices port w (t # ts) =
     bindE (wrapE ''list invoices'' (is_List port w (tn_id t))) (\<lambda>invs.
       bindE (list_all_invoices port w ts) (\<lambda>rest. Inr (invs @ rest)))"

definition ListInvoicesByAccount :: "'w console_service \<Rightarrow> string \<Rightarrow> 'w \<Rightarrow> invoice list result" where
  "ListInvoicesByAccount svc acctID w =
     (case cs_invoices svc of
        None \<Rightarrow> Inl ErrInvoicesUnavailable
      | Some port \<Rightarrow> (case cs_accounts svc of
          None \<Rightarrow> Inl ErrAccountsUnavailable
        | Some accs \<Rightarrow>
            let acctID = TrimSpace acctID
            in bindE (wrapE ''resolve account'' (as_Find accs w acctID)) (\<lambda>_.
                 bindE (ListTenantsByAccount svc acctID w) (\<lambda>ts.
                   bindE (list_all_invoices port w ts) (\<lambda>invs. Inr (SliceStable newest_invoice invs))))))"

section \<open>Invoices of an account\<close>

text \<open>The loop over the tenants of the account: a failure stops it and keeps what was generated.\<close>

fun generate_all ::
  "'w console_service \<Rightarrow> string \<Rightarrow> consumption_range \<Rightarrow> tenant list \<Rightarrow> ('w, invoice list) tx" where
  "generate_all svc opr rng [] = tx_return []"
| "generate_all svc opr rng (t # ts) =
     tx_check (ConsumptionInRange svc (tn_id t) rng) (\<lambda>rep.
       if cp_TotalCalls rep = 0 then generate_all svc opr rng ts
       else tx_bind (GenerateInvoice svc opr (tn_id t) rng) (\<lambda>inv.
         tx_bind (generate_all svc opr rng ts) (\<lambda>invs. tx_return (inv # invs))))"

definition generateAccountInvoices ::
  "'w console_service \<Rightarrow> string \<Rightarrow> string \<Rightarrow> consumption_range \<Rightarrow> ('w, invoice list) tx" where
  "generateAccountInvoices svc opr acctID rng =
     (case cs_invoices svc of
        None \<Rightarrow> tx_fail ErrInvoicesUnavailable
      | Some port \<Rightarrow> (case cs_accounts svc of
          None \<Rightarrow> tx_fail ErrAccountsUnavailable
        | Some accs \<Rightarrow>
            if IsZeroTime (rg_Start rng) \<or> IsZeroTime (rg_End rng)
            then tx_fail (NewValidationError ''period'' ''invoice period start and end are required'')
            else if \<not> Before (rg_Start rng) (rg_End rng)
            then tx_fail (NewValidationError ''period'' ''invoice period start must be before end'')
            else let acctID = TrimSpace acctID
              in tx_get ''resolve account'' (\<lambda>w. as_Find accs w acctID) (\<lambda>_.
                   tx_check (ListTenantsByAccount svc acctID) (\<lambda>ts. generate_all svc opr rng ts))))"

definition invoiceBatchIdempotencyTTL :: int where
  "invoiceBatchIdempotencyTTL = 15 * 60 * 1000000000"

record invoice_batch_entry =
  ib_invoices :: "invoice list"
  ib_at :: gotime

type_synonym invoice_guard = "(string \<times> invoice_batch_entry) list"

definition pruneLocked :: "gotime \<Rightarrow> invoice_guard \<Rightarrow> invoice_guard" where
  "pruneLocked now g = filter (\<lambda>(k, e). \<not> SubTime now (ib_at e) > invoiceBatchIdempotencyTTL) g"

text \<open>
  The guard is a field of the service and is held locked over the whole call; \<open>None\<close> is the nil guard.
  It is threaded next to the world.
\<close>

definition GenerateAccountInvoices ::
  "'w console_service \<Rightarrow> string \<Rightarrow> string \<Rightarrow> consumption_range \<Rightarrow> string \<Rightarrow> invoice_guard option \<Rightarrow> 'w
     \<Rightarrow> invoice_guard option \<times> 'w \<times> invoice list result" where
  "GenerateAccountInvoices svc opr acctID rng token guard w =
     (let tok = TrimSpace token
      in case guard of
           None \<Rightarrow> (guard, generateAccountInvoices svc opr acctID rng w)
         | Some g \<Rightarrow>
             if tok = [] then (guard, generateAccountInvoices svc opr acctID rng w)
             else let gkey = TrimSpace acctID @ [CHR 0x00] @ tok; (w1, now) = cs_Now svc w; g1 = pruneLocked now g
               in case map_of g1 gkey of
                    Some e \<Rightarrow> (Some g1, w1, Inr (ib_invoices e))
                  | None \<Rightarrow>
                      (case generateAccountInvoices svc opr acctID rng w1 of
                         (w2, Inl e) \<Rightarrow> (Some g1, w2, Inl e)
                       | (w2, Inr invs) \<Rightarrow> (Some (put gkey \<lparr>ib_invoices = invs, ib_at = now\<rparr> g1), w2, Inr invs)))"

section \<open>The rollup of an account\<close>

record tenant_consumption =
  tm_TenantID :: string
  tm_Lines :: "consumption_line list"
  tm_TotalCalls :: int
  tm_TotalCents :: int

record account_consumption_report =
  ar_AccountID :: string
  ar_Tenants :: "tenant_consumption list"
  ar_TotalCalls :: int
  ar_TotalCents :: int

text \<open>
  The two maps of the loop, by tenant and by tenant and endpoint, are kept as one map from the tenant
  to its totals and its map of lines: the code creates and looks up the two together.
\<close>

type_synonym rollup_map = "(string \<times> int \<times> int \<times> (string \<times> consumption_line) list) list"

fun rollup_entries ::
  "consumption_range \<Rightarrow> ledger_entry list \<Rightarrow> rollup_map \<Rightarrow> int \<Rightarrow> int \<Rightarrow> rollup_map \<times> int \<times> int" where
  "rollup_entries rng [] m calls cents = (m, calls, cents)"
| "rollup_entries rng (e # es) m calls cents =
     (if \<not> in_range rng (le_at e) then rollup_entries rng es m calls cents
      else let (tcalls, tcents, lines) = (case map_of m (le_tenantID e) of None \<Rightarrow> (0, 0, []) | Some x \<Rightarrow> x);
               x = (add64 tcalls 1, add64 tcents (le_priceCents e), count_line (le_endpoint e) (le_priceCents e) lines)
           in rollup_entries rng es (put (le_tenantID e) x m) (add64 calls 1) (add64 cents (le_priceCents e)))"

definition tenant_slice :: "string \<times> int \<times> int \<times> (string \<times> consumption_line) list \<Rightarrow> tenant_consumption" where
  "tenant_slice x =
     (case x of (t, calls, cents, lines) \<Rightarrow>
        \<lparr>tm_TenantID = t, tm_Lines = SliceStable by_endpoint (vals lines), tm_TotalCalls = calls, tm_TotalCents = cents\<rparr>)"

definition account_report :: "string \<Rightarrow> consumption_range \<Rightarrow> ledger_entry list \<Rightarrow> account_consumption_report" where
  "account_report accountID rng es =
     (let (m, calls, cents) = rollup_entries rng es [] 0 0
      in \<lparr>ar_AccountID = accountID,
          ar_Tenants = SliceStable (\<lambda>a b. tm_TenantID a < tm_TenantID b) (map tenant_slice m),
          ar_TotalCalls = calls, ar_TotalCents = cents\<rparr>)"

definition AccountConsumptionInRange ::
  "'w console_service \<Rightarrow> string \<Rightarrow> consumption_range \<Rightarrow> 'w \<Rightarrow> account_consumption_report result" where
  "AccountConsumptionInRange svc accountID rng w =
     (let accountID = TrimSpace accountID
      in if accountID = [] then Inl (NewValidationError ''account_id'' ''account id is required'')
         else bindE (case cs_accounts svc of
                       None \<Rightarrow> Inr ()
                     | Some port \<Rightarrow> bindE (wrapE ''resolve account'' (as_Find port w accountID)) (\<lambda>_. Inr ())) (\<lambda>_.
           bindE (wrapE ''list ledger by account'' (cs_ListLedgerByAccount svc w accountID)) (\<lambda>es.
             Inr (account_report accountID rng es))))"

definition AccountConsumption :: "'w console_service \<Rightarrow> string \<Rightarrow> 'w \<Rightarrow> account_consumption_report result" where
  "AccountConsumption svc accountID w = AccountConsumptionInRange svc accountID unbounded w"

end
