(* ===== verification/ConsumptionReport.thy ===== *)
theory ConsumptionReport
  imports ConsoleBilling
begin

text \<open>
  The consumption reports against what they are meant to be: per endpoint, the number of ledger
  entries in the window and the sum of their prices. The code computes them in one pass over a map.
\<close>

section \<open>The specification\<close>

text \<open>The window is half-open, and a zero bound is none.\<close>

definition in_window :: "consumption_range \<Rightarrow> ledger_entry list \<Rightarrow> ledger_entry list" where
  "in_window rng es =
     [e \<leftarrow> es. (ns (rg_Start rng) = 0 \<or> ns (rg_Start rng) \<le> ns (le_at e)) \<and> (ns (rg_End rng) = 0 \<or> ns (le_at e) < ns (rg_End rng))]"

lemma in_window_includes: "in_window rng es = filter (\<lambda>e. in_range rng (le_at e)) es"
  by (auto simp: in_window_def in_range_def IsZeroTime_def Before_def intro: filter_cong)

definition spent :: "ledger_entry list \<Rightarrow> int" where
  "spent es = sum_list (map le_priceCents es)"

definition at_endpoint :: "string \<Rightarrow> ledger_entry list \<Rightarrow> ledger_entry list" where
  "at_endpoint ep es = filter (\<lambda>e. le_endpoint e = ep) es"

definition spec_line :: "ledger_entry list \<Rightarrow> string \<Rightarrow> consumption_line" where
  "spec_line es ep =
     \<lparr>cl_Endpoint = ep, cl_Calls = wrap64 (int (length (at_endpoint ep es))), cl_TotalCents = wrap64 (spent (at_endpoint ep es))\<rparr>"

definition spec_report :: "string \<Rightarrow> consumption_range \<Rightarrow> ledger_entry list \<Rightarrow> consumption_report" where
  "spec_report tenantID rng es =
     (let ws = in_window rng es
      in \<lparr>cp_TenantID = tenantID, cp_Lines = map (spec_line ws) (sorted_list_of_set (le_endpoint ` set ws)),
          cp_TotalCalls = wrap64 (int (length ws)), cp_TotalCents = wrap64 (spent ws)\<rparr>)"

section \<open>One pass computes it\<close>

lemma wrap64_add_right [simp]: "wrap64 (y + wrap64 x) = wrap64 (y + x)"
  using wrap64_add [of x y] by (simp add: add.commute)

definition counted :: "ledger_entry list \<Rightarrow> (string \<times> consumption_line) list \<Rightarrow> bool" where
  "counted es m \<longleftrightarrow> distinct (keys m) \<and> (\<forall>ep. map_of m ep = (if ep \<in> le_endpoint ` set es then Some (spec_line es ep) else None))"

lemma counted_Nil: "counted [] []"
  by (simp add: counted_def)

lemma spec_line_snoc:
  "spec_line (es @ [e]) ep =
     (if ep = le_endpoint e
      then (spec_line es ep)\<lparr>cl_Calls := add64 (cl_Calls (spec_line es ep)) 1,
             cl_TotalCents := add64 (cl_TotalCents (spec_line es ep)) (le_priceCents e)\<rparr>
      else spec_line es ep)"
  by (simp add: spec_line_def at_endpoint_def spent_def add64_def add.commute)

lemma spec_line_absent: "ep \<notin> le_endpoint ` set es \<Longrightarrow> spec_line es ep = \<lparr>cl_Endpoint = ep, cl_Calls = 0, cl_TotalCents = 0\<rparr>"
proof -
  assume "ep \<notin> le_endpoint ` set es"
  then have "at_endpoint ep es = []" by (auto simp: at_endpoint_def filter_empty_conv)
  then show ?thesis by (simp add: spec_line_def spent_def)
qed

lemma counted_snoc:
  assumes "counted es m"
  shows "counted (es @ [e]) (count_line (le_endpoint e) (le_priceCents e) m)"
proof -
  define line where "line = (case map_of m (le_endpoint e) of
      None \<Rightarrow> \<lparr>cl_Endpoint = le_endpoint e, cl_Calls = 0, cl_TotalCents = 0\<rparr> | Some l \<Rightarrow> l)"
  have line: "line = spec_line es (le_endpoint e)"
    using assms by (auto simp: line_def counted_def spec_line_absent)
  have "count_line (le_endpoint e) (le_priceCents e) m = put (le_endpoint e) (spec_line (es @ [e]) (le_endpoint e)) m"
    by (simp add: count_line_def line_def [symmetric] line spec_line_snoc Let_def)
  with assms show ?thesis by (auto simp: counted_def spec_line_snoc)
qed

lemma count_entries_spec:
  "counted done m \<Longrightarrow>
   (\<exists>m'. count_entries rng es m (wrap64 (int (length done))) (wrap64 (spent done)) =
      (m', wrap64 (int (length (done @ in_window rng es))), wrap64 (spent (done @ in_window rng es))) \<and>
      counted (done @ in_window rng es) m')"
proof (induction es arbitrary: m "done")
  case Nil
  then show ?case by (simp add: in_window_includes)
next
  case (Cons e es)
  show ?case
  proof (cases "in_range rng (le_at e)")
    case True
    have "add64 (wrap64 (int (length done))) 1 = wrap64 (int (length (done @ [e])))"
      "add64 (wrap64 (spent done)) (le_priceCents e) = wrap64 (spent (done @ [e]))"
      by (simp_all add: add64_def spent_def add.commute)
    with True Cons.IH [OF counted_snoc [OF Cons.prems, of e]] show ?thesis by (simp add: in_window_includes)
  next
    case False
    with Cons.IH [OF Cons.prems] show ?thesis by (simp add: in_window_includes)
  qed
qed

interpretation endpoints: weak_order by_endpoint
  by unfold_locales (auto simp: by_endpoint_def)

text \<open>A counted map, taken out and sorted, is the specified list of lines.\<close>

lemma counted_lines:
  assumes "counted es m"
  shows "SliceStable by_endpoint (vals m) = map (spec_line es) (sorted_list_of_set (le_endpoint ` set es))"
proof -
  let ?ls = "SliceStable by_endpoint (vals m)"
  have entry: "snd x = spec_line es (fst x)" if "x \<in> set m" for x
  proof -
    have "distinct (keys m)" using assms by (simp add: counted_def)
    then have "map_of m (fst x) = Some (snd x)" using that by (intro map_of_is_SomeI) simp_all
    moreover have "map_of m (fst x) = (if fst x \<in> le_endpoint ` set es then Some (spec_line es (fst x)) else None)"
      using assms unfolding counted_def by blast
    ultimately show ?thesis by (simp split: if_splits)
  qed
  have k: "set (keys m) = le_endpoint ` set es"
  proof -
    have "ep \<in> set (keys m) \<longleftrightarrow> map_of m ep \<noteq> None" for ep by (simp add: map_of_eq_None_iff)
    moreover have "map_of m ep \<noteq> None \<longleftrightarrow> ep \<in> le_endpoint ` set es" for ep
      using assms by (simp add: counted_def)
    ultimately show ?thesis by blast
  qed
  have v: "vals m = map (spec_line es) (keys m)" using entry by simp
  have line: "spec_line es (cl_Endpoint l) = l" if l: "l \<in> set ?ls" for l
  proof -
    from l have "l \<in> set (vals m)" by simp
    then obtain ep where "l = spec_line es ep" unfolding v by auto
    then show ?thesis by (simp add: spec_line_def)
  qed
  have "mset (map cl_Endpoint ?ls) = mset (keys m)"
    unfolding mset_map mset_SliceStable v by (simp add: multiset.map_comp comp_def spec_line_def)
  from mset_eq_imp_distinct_iff [OF this] mset_eq_setD [OF this]
  have "distinct (map cl_Endpoint ?ls)" "set (map cl_Endpoint ?ls) = le_endpoint ` set es"
    using assms unfolding k by (simp_all add: counted_def)
  moreover have "sorted (map cl_Endpoint ?ls)"
    using endpoints.sorted_SliceStable [of "vals m"] by (simp add: by_endpoint_def sorted_map sorted_wrt_iff_nth_less not_less)
  ultimately have e: "map cl_Endpoint ?ls = sorted_list_of_set (le_endpoint ` set es)"
    by (metis sorted_list_of_set.idem_if_sorted_distinct)
  have "map (spec_line es \<circ> cl_Endpoint) ?ls = ?ls" by (rule map_idI) (simp add: line)
  then have "?ls = map (spec_line es) (map cl_Endpoint ?ls)" by simp
  then show ?thesis unfolding e .
qed

lemma report_of_spec: "report_of tenantID rng es = spec_report tenantID rng es"
proof -
  have z: "wrap64 0 = 0" by (rule wrap64_id) simp
  obtain m where "count_entries rng es [] 0 0 = (m, wrap64 (int (length (in_window rng es))), wrap64 (spent (in_window rng es)))"
    "counted (in_window rng es) m"
    using count_entries_spec [OF counted_Nil, of rng es] by (auto simp: spent_def z)
  then show ?thesis by (simp add: report_of_def spec_report_def counted_lines Let_def)
qed

text \<open>A report does not depend on the order in which the ledger is read.\<close>

lemma spec_report_mset: "mset es = mset fs \<Longrightarrow> spec_report t rng es = spec_report t rng fs"
proof -
  assume e: "mset es = mset fs"
  then have w: "mset (in_window rng es) = mset (in_window rng fs)" by (simp add: in_window_includes)
  have sp: "spent xs = spent ys" if "mset xs = mset ys" for xs ys
    using that unfolding spent_def by (metis mset_map sum_mset_sum_list)
  have "spec_line (in_window rng es) = spec_line (in_window rng fs)"
  proof
    fix ep
    have "mset (at_endpoint ep (in_window rng es)) = mset (at_endpoint ep (in_window rng fs))" using w by (simp add: at_endpoint_def)
    from sp [OF this] mset_eq_length [OF this]
    show "spec_line (in_window rng es) ep = spec_line (in_window rng fs) ep" by (simp add: spec_line_def)
  qed
  with mset_eq_setD [OF w] mset_eq_length [OF w] sp [OF w] show ?thesis by (simp add: spec_report_def Let_def)
qed

section \<open>Lines add up\<close>

lemma sum_by_endpoint:
  "(\<Sum>ep \<leftarrow> sorted_list_of_set (le_endpoint ` set es). sum_list (map f (at_endpoint ep es))) = sum_list (map f es)"
  for f :: "ledger_entry \<Rightarrow> int"
proof -
  have "(\<Sum>ep \<in> S. sum_list (map f (at_endpoint ep es))) = sum_list (map f es)" if "finite S" "le_endpoint ` set es \<subseteq> S" for S
    using that(2)
  proof (induction es)
    case Nil
    show ?case by (simp add: at_endpoint_def)
  next
    case (Cons e es)
    have "(\<Sum>ep \<in> S. sum_list (map f (at_endpoint ep (e # es)))) =
        (\<Sum>ep \<in> S. (if le_endpoint e = ep then f e else 0) + sum_list (map f (at_endpoint ep es)))"
      by (intro sum.cong) (simp_all add: at_endpoint_def)
    also have "\<dots> = f e + sum_list (map f es)" using Cons that(1) by (simp add: sum.distrib sum.delta')
    finally show ?case by simp
  qed
  from this [of "le_endpoint ` set es"] show ?thesis by (simp add: sum_list_distinct_conv_sum_set)
qed

lemma spent_lines: "(\<Sum>ep \<leftarrow> sorted_list_of_set (le_endpoint ` set es). spent (at_endpoint ep es)) = spent es"
  unfolding spent_def by (rule sum_by_endpoint)

lemma calls_lines: "(\<Sum>ep \<leftarrow> sorted_list_of_set (le_endpoint ` set es). int (length (at_endpoint ep es))) = int (length es)"
  using sum_by_endpoint [of "\<lambda>_. 1" es] by (simp add: sum_list_triv)

text \<open>With non-negative prices whose sum fits, no figure of the report wraps.\<close>

lemma at_endpoint_le:
  assumes "list_all (\<lambda>e. 0 \<le> le_priceCents e) es"
  shows "0 \<le> spent (at_endpoint ep es)" "spent (at_endpoint ep es) \<le> spent es" "length (at_endpoint ep es) \<le> length es"
  using assms
proof (induction es)
  case (Cons e es)
  {
    case 1
    with Cons show ?case by (simp add: at_endpoint_def spent_def)
  next
    case 2
    with Cons show ?case by (simp add: at_endpoint_def spent_def)
  next
    case 3
    show ?case unfolding at_endpoint_def by (rule length_filter_le)
  }
qed (simp_all add: at_endpoint_def spent_def)

lemma spec_line_exact:
  assumes "list_all (\<lambda>e. 0 \<le> le_priceCents e) es" "spent es \<le> max64" "int (length es) \<le> max64"
  shows "spec_line es ep = \<lparr>cl_Endpoint = ep, cl_Calls = int (length (at_endpoint ep es)), cl_TotalCents = spent (at_endpoint ep es)\<rparr>"
proof -
  have "in64 (spent (at_endpoint ep es))" using at_endpoint_le [OF assms(1), of ep] assms(2) by (intro in64I) auto
  moreover have "in64 (int (length (at_endpoint ep es)))" using at_endpoint_le(3) [OF assms(1), of ep] assms(3) by (intro in64I) auto
  ultimately show ?thesis by (simp add: spec_line_def)
qed

section \<open>The rollup of an account\<close>

definition of_tenant :: "string \<Rightarrow> ledger_entry list \<Rightarrow> ledger_entry list" where
  "of_tenant t es = filter (\<lambda>e. le_tenantID e = t) es"

definition spec_slice :: "consumption_range \<Rightarrow> ledger_entry list \<Rightarrow> string \<Rightarrow> tenant_consumption" where
  "spec_slice rng es t =
     (let rep = spec_report t rng (of_tenant t es)
      in \<lparr>tm_TenantID = t, tm_Lines = cp_Lines rep, tm_TotalCalls = cp_TotalCalls rep, tm_TotalCents = cp_TotalCents rep\<rparr>)"

definition spec_account_report :: "string \<Rightarrow> consumption_range \<Rightarrow> ledger_entry list \<Rightarrow> account_consumption_report" where
  "spec_account_report accountID rng es =
     (let ws = in_window rng es
      in \<lparr>ar_AccountID = accountID, ar_Tenants = map (spec_slice rng es) (sorted_list_of_set (le_tenantID ` set ws)),
          ar_TotalCalls = wrap64 (int (length ws)), ar_TotalCents = wrap64 (spent ws)\<rparr>)"

definition rolled :: "ledger_entry list \<Rightarrow> rollup_map \<Rightarrow> bool" where
  "rolled es m \<longleftrightarrow> distinct (keys m) \<and> set (keys m) = le_tenantID ` set es \<and>
     (\<forall>t calls cents lines. map_of m t = Some (calls, cents, lines) \<longrightarrow>
        calls = wrap64 (int (length (of_tenant t es))) \<and> cents = wrap64 (spent (of_tenant t es)) \<and> counted (of_tenant t es) lines)"

lemma of_tenant_snoc: "of_tenant t (es @ [e]) = (if le_tenantID e = t then of_tenant t es @ [e] else of_tenant t es)"
  by (simp add: of_tenant_def)

lemma of_tenant_absent: "t \<notin> le_tenantID ` set es \<Longrightarrow> of_tenant t es = []"
  by (auto simp: of_tenant_def filter_empty_conv)

lemma rolled_snoc:
  assumes "rolled es m"
    and "(tcalls, tcents, lines) = (case map_of m (le_tenantID e) of None \<Rightarrow> (0, 0, []) | Some x \<Rightarrow> x)"
  shows "rolled (es @ [e]) (put (le_tenantID e)
     (add64 tcalls 1, add64 tcents (le_priceCents e), count_line (le_endpoint e) (le_priceCents e) lines) m)"
proof -
  let ?t = "le_tenantID e"
  have old: "tcalls = wrap64 (int (length (of_tenant ?t es))) \<and> tcents = wrap64 (spent (of_tenant ?t es)) \<and> counted (of_tenant ?t es) lines"
  proof (cases "map_of m ?t")
    case None
    then have "?t \<notin> le_tenantID ` set es" using assms(1) by (simp add: rolled_def map_of_eq_None_iff)
    with None assms(2) show ?thesis by (simp add: of_tenant_absent counted_Nil spent_def)
  next
    case (Some x)
    with assms show ?thesis unfolding rolled_def by (cases x) simp
  qed
  have new: "add64 tcalls 1 = wrap64 (int (length (of_tenant ?t (es @ [e]))))"
    "add64 tcents (le_priceCents e) = wrap64 (spent (of_tenant ?t (es @ [e])))"
    using old by (simp_all add: of_tenant_snoc add64_def spent_def add.commute)
  let ?m = "put ?t (add64 tcalls 1, add64 tcents (le_priceCents e), count_line (le_endpoint e) (le_priceCents e) lines) m"
  have "set (keys ?m) = le_tenantID ` set (es @ [e])" unfolding keys_put using assms(1) by (auto simp: rolled_def)
  moreover have "distinct (keys ?m)" using assms(1) by (simp add: rolled_def)
  moreover have "calls = wrap64 (int (length (of_tenant t (es @ [e])))) \<and> cents = wrap64 (spent (of_tenant t (es @ [e]))) \<and>
      counted (of_tenant t (es @ [e])) ls" if a: "map_of ?m t = Some (calls, cents, ls)" for t calls cents ls
  proof (cases "t = ?t")
    case True
    with a new counted_snoc [of "of_tenant ?t es" lines e] old show ?thesis by (auto simp: of_tenant_snoc)
  next
    case False
    with a have "map_of m t = Some (calls, cents, ls)" by simp
    with False assms(1) show ?thesis unfolding rolled_def by (simp add: of_tenant_snoc)
  qed
  ultimately show ?thesis unfolding rolled_def by blast
qed

lemma rollup_entries_spec:
  "rolled done m \<Longrightarrow>
   (\<exists>m'. rollup_entries rng es m (wrap64 (int (length done))) (wrap64 (spent done)) =
      (m', wrap64 (int (length (done @ in_window rng es))), wrap64 (spent (done @ in_window rng es))) \<and>
      rolled (done @ in_window rng es) m')"
proof (induction es arbitrary: m "done")
  case Nil
  then show ?case by (simp add: in_window_includes)
next
  case (Cons e es)
  show ?case
  proof (cases "in_range rng (le_at e)")
    case True
    obtain tcalls tcents lines where x: "(tcalls, tcents, lines) = (case map_of m (le_tenantID e) of None \<Rightarrow> (0, 0, []) | Some x \<Rightarrow> x)"
      by (metis prod_cases3)
    have "add64 (wrap64 (int (length done))) 1 = wrap64 (int (length (done @ [e])))"
      "add64 (wrap64 (spent done)) (le_priceCents e) = wrap64 (spent (done @ [e]))"
      by (simp_all add: add64_def spent_def add.commute)
    with True Cons.IH [OF rolled_snoc [OF Cons.prems x]] show ?thesis by (simp add: in_window_includes x [symmetric] Let_def)
  next
    case False
    with Cons.IH [OF Cons.prems] show ?thesis by (simp add: in_window_includes)
  qed
qed

lemma of_tenant_window: "of_tenant t (in_window rng es) = in_window rng (of_tenant t es)"
  by (simp add: of_tenant_def in_window_includes conj_commute)

lemma rolled_slice:
  assumes "rolled (in_window rng es) m" "(t, x) \<in> set m"
  shows "tenant_slice (t, x) = spec_slice rng es t"
proof -
  obtain calls cents lines where x: "x = (calls, cents, lines)" by (cases x)
  have "distinct (keys m)" using assms(1) by (simp add: rolled_def)
  then have "map_of m t = Some (calls, cents, lines)" using assms(2) x by (intro map_of_is_SomeI) simp_all
  with assms(1) have "calls = wrap64 (int (length (of_tenant t (in_window rng es))))"
    "cents = wrap64 (spent (of_tenant t (in_window rng es)))" "counted (of_tenant t (in_window rng es)) lines"
    by (auto simp: rolled_def)
  then show ?thesis
    by (simp add: x tenant_slice_def spec_slice_def spec_report_def counted_lines of_tenant_window Let_def)
qed

interpretation tenants: weak_order "\<lambda>a b. tm_TenantID a < tm_TenantID b"
  by unfold_locales auto

lemma account_report_spec: "account_report accountID rng es = spec_account_report accountID rng es"
proof -
  obtain m where m: "rollup_entries rng es [] 0 0 = (m, wrap64 (int (length (in_window rng es))), wrap64 (spent (in_window rng es)))"
    "rolled (in_window rng es) m"
    using rollup_entries_spec [of "[]" "[]" rng es] by (auto simp: rolled_def spent_def)
  let ?ls = "SliceStable (\<lambda>a b. tm_TenantID a < tm_TenantID b) (map tenant_slice m)"
  have sl: "map tenant_slice m = map (spec_slice rng es) (keys m)"
    unfolding map_map by (rule map_cong) (use rolled_slice [OF m(2)] in auto)
  have fix_slice: "tm_TenantID (spec_slice rng es t) = t" for t by (simp add: spec_slice_def Let_def)
  have "mset (map tm_TenantID ?ls) = mset (keys m)"
    unfolding mset_map mset_SliceStable sl by (simp add: multiset.map_comp comp_def fix_slice)
  from mset_eq_imp_distinct_iff [OF this] mset_eq_setD [OF this]
  have "distinct (map tm_TenantID ?ls)" "set (map tm_TenantID ?ls) = le_tenantID ` set (in_window rng es)"
    using m(2) by (simp_all add: rolled_def)
  moreover have "sorted (map tm_TenantID ?ls)"
    using tenants.sorted_SliceStable [of "map tenant_slice m"] by (simp add: sorted_map sorted_wrt_iff_nth_less not_less)
  ultimately have e: "map tm_TenantID ?ls = sorted_list_of_set (le_tenantID ` set (in_window rng es))"
    by (metis sorted_list_of_set.idem_if_sorted_distinct)
  have restore_l: "spec_slice rng es (tm_TenantID l) = l" if l: "l \<in> set ?ls" for l
  proof -
    from l have "l \<in> set (map (spec_slice rng es) (keys m))" unfolding set_SliceStable sl .
    then show ?thesis by (auto simp: fix_slice)
  qed
  have "map (spec_slice rng es \<circ> tm_TenantID) ?ls = ?ls" by (rule map_idI) (simp add: restore_l)
  then have "?ls = map (spec_slice rng es) (map tm_TenantID ?ls)" by simp
  then show ?thesis unfolding e by (simp add: account_report_def spec_account_report_def m(1) Let_def)
qed

end
