(* ===== verification/ConsoleSystem.thy ===== *)
theory ConsoleSystem
  imports ConsumptionReport
begin

text \<open>
  The console as a whole: the calls it offers, the contract of the ports it writes through, and what
  every call keeps for any service that meets the contract.
\<close>

section \<open>The calls that change state\<close>

datatype console_call =
    CallCreateTenant string
  | CallRenameTenant string string
  | CallSuspendTenant string
  | CallActivateTenant string
  | CallSetBankCredential string string string
  | CallSetBankCredentialFor string string string string
  | CallSetCreditorKey string string
  | CallSetBankCertificate string string string string
  | CallRemoveBankConfig string string
  | CallSetPrice string string int
  | CallGenerateInvoice string consumption_range
  | CallCreateAccount string
  | CallRenameAccount string string
  | CallDeactivateAccount string
  | CallActivateAccount string
  | CallCreateTenantUnderAccount string string
  | CallSetOutboundWebhook string string bool
  | CallRotateOutboundWebhookSecret string
  | CallRemoveOutboundWebhook string

record console_deps =
  kd_crypto :: crypto
  kd_parse :: url_parser
  kd_random :: "nat \<Rightarrow> string result"

text \<open>The state a call leaves, and the error it returns, if any.\<close>

definition outcome :: "'w \<times> 'a result \<Rightarrow> 'w \<times> go_error option" where
  "outcome r = (fst r, case snd r of Inl e \<Rightarrow> Some e | Inr x \<Rightarrow> None)"

fun run_call :: "'w console_service \<Rightarrow> console_deps \<Rightarrow> string \<Rightarrow> console_call \<Rightarrow> 'w \<Rightarrow> 'w \<times> go_error option" where
  "run_call svc deps opr (CallCreateTenant nm) w = outcome (CreateTenant svc nm w)"
| "run_call svc deps opr (CallRenameTenant t nm) w = outcome (RenameTenantC svc opr t nm w)"
| "run_call svc deps opr (CallSuspendTenant t) w = outcome (SuspendTenant svc opr t w)"
| "run_call svc deps opr (CallActivateTenant t) w = outcome (ActivateTenantC svc opr t w)"
| "run_call svc deps opr (CallSetBankCredential t c s) w = outcome (SetBankCredentialC svc t c s w)"
| "run_call svc deps opr (CallSetBankCredentialFor t b c s) w = outcome (SetBankCredentialFor svc t b c s w)"
| "run_call svc deps opr (CallSetCreditorKey t ck) w = outcome (SetCreditorKeyC svc opr t ck w)"
| "run_call svc deps opr (CallSetBankCertificate t b c k) w =
     outcome (SetBankCertificateC svc (kd_crypto deps) opr t b c k w)"
| "run_call svc deps opr (CallRemoveBankConfig t b) w = outcome (RemoveBankConfig svc opr t b w)"
| "run_call svc deps opr (CallSetPrice t ep c) w = outcome (SetPrice svc t ep c w)"
| "run_call svc deps opr (CallGenerateInvoice t rng) w = outcome (GenerateInvoice svc opr t rng w)"
| "run_call svc deps opr (CallCreateAccount nm) w = outcome (CreateAccount svc nm w)"
| "run_call svc deps opr (CallRenameAccount a nm) w = outcome (RenameAccountC svc opr a nm w)"
| "run_call svc deps opr (CallDeactivateAccount a) w = outcome (DeactivateAccountC svc opr a w)"
| "run_call svc deps opr (CallActivateAccount a) w = outcome (ActivateAccountC svc opr a w)"
| "run_call svc deps opr (CallCreateTenantUnderAccount a nm) w = outcome (CreateTenantUnderAccount svc a nm w)"
| "run_call svc deps opr (CallSetOutboundWebhook a u en) w =
     outcome (SetOutboundWebhook svc (kd_parse deps) (kd_random deps) opr a u en w)"
| "run_call svc deps opr (CallRotateOutboundWebhookSecret a) w =
     outcome (RotateOutboundWebhookSecret svc (kd_random deps) opr a w)"
| "run_call svc deps opr (CallRemoveOutboundWebhook a) w = outcome (RemoveOutboundWebhook svc opr a w)"

text \<open>The calls that leave an entry in the audit trail.\<close>

fun audited_call :: "console_call \<Rightarrow> bool" where
  "audited_call (CallCreateTenant nm) = False"
| "audited_call (CallSetBankCredential t c s) = False"
| "audited_call (CallSetBankCredentialFor t b c s) = False"
| "audited_call (CallSetPrice t ep c) = False"
| "audited_call (CallCreateAccount nm) = False"
| "audited_call (CallCreateTenantUnderAccount a nm) = False"
| "audited_call c = True"

text \<open>The tenant a call makes active (\<open>nid\<close> is the next id), and the tenant it stores a credential for.\<close>

fun brings_up :: "string \<Rightarrow> console_call \<Rightarrow> string option" where
  "brings_up nid (CallCreateTenant nm) = Some (TrimSpace nid)"
| "brings_up nid (CallCreateTenantUnderAccount a nm) = Some (TrimSpace nid)"
| "brings_up nid (CallActivateTenant t) = Some (TrimSpace t)"
| "brings_up nid c = None"

fun stores_for :: "console_call \<Rightarrow> string option" where
  "stores_for (CallSetBankCredential t c s) = Some t"
| "stores_for (CallSetBankCredentialFor t b c s) = Some (TrimSpace t)"
| "stores_for (CallSetCreditorKey t ck) = Some (TrimSpace t)"
| "stores_for c = None"

definition unheld :: "vault \<Rightarrow> string \<Rightarrow> bool" where
  "unheld m t \<longleftrightarrow> list_all (\<lambda>c. bk_TenantID c \<noteq> t) (vals m)"

definition admissible :: "string \<Rightarrow> vault \<Rightarrow> console_call \<Rightarrow> bool" where
  "admissible nid m c \<longleftrightarrow>
     (case brings_up nid c of None \<Rightarrow> True | Some t \<Rightarrow> unheld m t) \<and>
     (case stores_for c of None \<Rightarrow> True | Some t \<Rightarrow> nul_free t)"

section \<open>What the calls keep\<close>

record console_view =
  kv_tenants :: "string \<Rightarrow> tenant option"
  kv_vault :: vault
  kv_ledger :: "ledger_entry list"
  kv_invoices :: "invoice list"
  kv_audit :: "entry list"
  kv_hooks :: "string \<Rightarrow> webhook_config option"

definition active_in :: "(string \<Rightarrow> tenant option) \<Rightarrow> string \<Rightarrow> bool" where
  "active_in ts t \<longleftrightarrow> (case ts t of None \<Rightarrow> False | Some x \<Rightarrow> tn_active x)"

definition sound :: "url_parser \<Rightarrow> console_view \<Rightarrow> bool" where
  "sound parse v \<longleftrightarrow> vault_ok (kv_vault v) \<and> exclusive (active_in (kv_tenants v)) (kv_vault v) \<and>
     (\<forall>a c. kv_hooks v a = Some c \<longrightarrow> config_ok parse c)"

lemma sound_frame [simp]:
  "sound parse (v\<lparr>kv_audit := es\<rparr>) = sound parse v" "sound parse (v\<lparr>kv_invoices := is\<rparr>) = sound parse v"
  by (simp_all add: sound_def)

lemma sound_tenant:
  assumes "sound parse v" "tn_active x \<Longrightarrow> active_in (kv_tenants v) (tn_id x) \<or> unheld (kv_vault v) (tn_id x)"
  shows "sound parse (v\<lparr>kv_tenants := (kv_tenants v)(tn_id x \<mapsto> x)\<rparr>)"
proof -
  have "active_in (kv_tenants v) (bk_TenantID c)"
    if "c \<in> set (vals (kv_vault v))" "active_in ((kv_tenants v)(tn_id x \<mapsto> x)) (bk_TenantID c)" for c
    using that assms(2) by (auto simp: active_in_def unheld_def list_all_iff split: if_splits)
  with assms(1) show ?thesis unfolding sound_def exclusive_def by simp
qed

lemma sound_vault:
  "sound parse v \<Longrightarrow> vault_ok m \<and> exclusive (active_in (kv_tenants v)) m \<Longrightarrow> sound parse (v\<lparr>kv_vault := m\<rparr>)"
  by (simp add: sound_def)

lemma sound_hook: "sound parse v \<Longrightarrow> config_ok parse c \<Longrightarrow> sound parse (v\<lparr>kv_hooks := (kv_hooks v)(a \<mapsto> c)\<rparr>)"
  by (simp add: sound_def)

lemma sound_unhook: "sound parse v \<Longrightarrow> sound parse (v\<lparr>kv_hooks := (kv_hooks v)(a := None)\<rparr>)"
  by (simp add: sound_def)

text \<open>Entries of the operator appended to the trail: at most \<open>n\<close>, and exactly \<open>n\<close> when the call succeeds.\<close>

definition logged :: "string \<Rightarrow> nat \<Rightarrow> bool \<Rightarrow> entry list \<Rightarrow> entry list \<Rightarrow> bool" where
  "logged opr n ok old new \<longleftrightarrow>
     (\<exists>es. new = old @ es \<and> length es \<le> n \<and> (ok \<longrightarrow> length es = n) \<and> list_all (\<lambda>e. au_operatorID e = TrimSpace opr) es)"

lemma logged_none: "logged opr n False a a" "logged opr 0 ok a a"
  by (simp_all add: logged_def)

lemma logged_one: "au_operatorID e = TrimSpace opr \<Longrightarrow> logged opr n ok (a @ [e]) b \<Longrightarrow> logged opr (Suc n) ok a b"
  unfolding logged_def by (elim exE, rule_tac x = "e # es" in exI) simp

section \<open>The contract of the ports\<close>

locale console_contract =
  fixes svc :: "'w console_service" and good :: "'w \<Rightarrow> bool" and kv :: "'w \<Rightarrow> console_view"
  assumes find_tenant: "good w \<Longrightarrow> cs_FindTenant svc w t = Inr x \<Longrightarrow> kv_tenants (kv w) t = Some x \<and> tn_id x = t"
    and find_tenant_none: "good w \<Longrightarrow> cs_FindTenant svc w t = Inl e \<Longrightarrow> errors_Is e ErrNotFound \<Longrightarrow> kv_tenants (kv w) t = None"
    and save_tenant: "good w \<Longrightarrow> cs_SaveTenant svc w x = Inr w' \<Longrightarrow>
        good w' \<and> kv w' = (kv w)\<lparr>kv_tenants := (kv_tenants (kv w))(tn_id x \<mapsto> x)\<rparr>"
    and list_ledger: "good w \<Longrightarrow> cs_ListLedger svc w t = Inr es \<Longrightarrow> mset es = mset (of_tenant t (kv_ledger (kv w)))"
    and set_credential: "good w \<Longrightarrow> cs_SetCredential svc w t b c s = Inr w' \<Longrightarrow>
        good w' \<and> (\<exists>m. SetBankCredential (kv_vault (kv w)) t b c s = Inr m \<and> kv w' = (kv w)\<lparr>kv_vault := m\<rparr>)"
    and set_creditor: "good w \<Longrightarrow> cs_SetCreditorKey svc w t ck = Inr w' \<Longrightarrow>
        good w' \<and> (\<exists>m. SetCreditorKey (kv_vault (kv w)) t ck = Inr m \<and> kv w' = (kv w)\<lparr>kv_vault := m\<rparr>)"
    and sharing: "good w \<Longrightarrow> sharing_at svc w = Some (vault_sharing (kv_vault (kv w)))"
    and invalidate: "good w \<Longrightarrow> good (cs_Invalidate svc w t) \<and> kv (cs_Invalidate svc w t) = kv w"
    and set_certificate: "good w \<Longrightarrow> cs_SetCertificate svc w cert = Inr w' \<Longrightarrow> good w' \<and> kv w' = kv w"
    and cred_deleter: "good w \<Longrightarrow> cs_credDeleter svc = Some f \<Longrightarrow> f w t b = Inr w' \<Longrightarrow>
        good w' \<and> (\<exists>m. DeleteBankCredential (kv_vault (kv w)) t b = Inr m \<and> kv w' = (kv w)\<lparr>kv_vault := m\<rparr>)"
    and cert_deleter: "good w \<Longrightarrow> cs_certDeleter svc = Some f \<Longrightarrow> f w t b = Inr w' \<Longrightarrow> good w' \<and> kv w' = kv w"
    and dereg_pix: "good w \<Longrightarrow> cs_deregistrar svc = Some dr \<Longrightarrow>
        good (fst (dr_Pix dr w t ck)) \<and> kv (fst (dr_Pix dr w t ck)) = kv w"
    and dereg_rec: "good w \<Longrightarrow> cs_deregistrar svc = Some dr \<Longrightarrow>
        good (fst (dr_Rec dr w t)) \<and> kv (fst (dr_Rec dr w t)) = kv w"
    and dereg_cobr: "good w \<Longrightarrow> cs_deregistrar svc = Some dr \<Longrightarrow>
        good (fst (dr_CobR dr w t)) \<and> kv (fst (dr_CobR dr w t)) = kv w"
    and append: "good w \<Longrightarrow> cs_Append svc w en = Inr w' \<Longrightarrow>
        good w' \<and> kv w' = (kv w)\<lparr>kv_audit := kv_audit (kv w) @ [en]\<rparr>"
    and now: "good w \<Longrightarrow> good (fst (cs_Now svc w)) \<and> kv (fst (cs_Now svc w)) = kv w"
    and new_id: "good w \<Longrightarrow> good (fst (cs_NewID svc w)) \<and> kv (fst (cs_NewID svc w)) = kv w"
    and save_invoice: "good w \<Longrightarrow> cs_invoices svc = Some ip \<Longrightarrow> is_Save ip w i = Inr w' \<Longrightarrow>
        good w' \<and> kv w' = (kv w)\<lparr>kv_invoices := kv_invoices (kv w) @ [i]\<rparr>"
    and save_account: "good w \<Longrightarrow> cs_accounts svc = Some ap \<Longrightarrow> as_Save ap w acc = Inr w' \<Longrightarrow> good w' \<and> kv w' = kv w"
    and upsert_price: "good w \<Longrightarrow> cs_UpsertPrice svc w p = Inr w' \<Longrightarrow> good w' \<and> kv w' = kv w"
    and get_hook: "good w \<Longrightarrow> cs_webhooks svc = Some wp \<Longrightarrow> wp_Get wp w a = Inr cf \<Longrightarrow> kv_hooks (kv w) a = Some cf"
    and upsert_hook: "good w \<Longrightarrow> cs_webhooks svc = Some wp \<Longrightarrow> wp_Upsert wp w cf = Inr w' \<Longrightarrow>
        good w' \<and> kv w' = (kv w)\<lparr>kv_hooks := (kv_hooks (kv w))(wc_accountID cf \<mapsto> cf)\<rparr>"
    and delete_hook: "good w \<Longrightarrow> cs_webhooks svc = Some wp \<Longrightarrow> wp_Delete wp w a = Inr w' \<Longrightarrow>
        good w' \<and> kv w' = (kv w)\<lparr>kv_hooks := (kv_hooks (kv w))(a := None)\<rparr>"
begin

text \<open>
  A small calculus. From a good world in which \<open>P\<close> holds and whose view satisfies \<open>I\<close>, \<open>keeps I P n opr m\<close>
  ends in a good world whose view satisfies \<open>I\<close>, with the operator's entries appended as \<open>logged\<close> says.
\<close>

definition keeps :: "(console_view \<Rightarrow> bool) \<Rightarrow> ('w \<Rightarrow> bool) \<Rightarrow> nat \<Rightarrow> string \<Rightarrow> ('w, 'a) tx \<Rightarrow> bool" where
  "keeps I P n opr m \<longleftrightarrow> (\<forall>w w' r. good w \<longrightarrow> I (kv w) \<longrightarrow> P w \<longrightarrow> m w = (w', r) \<longrightarrow>
     good w' \<and> I (kv w') \<and> logged opr n (\<not> isl r) (kv_audit (kv w)) (kv_audit (kv w')))"

lemma keepsI:
  assumes "\<And>w w' r. good w \<Longrightarrow> I (kv w) \<Longrightarrow> P w \<Longrightarrow> m w = (w', r) \<Longrightarrow>
     good w' \<and> I (kv w') \<and> logged opr n (\<not> isl r) (kv_audit (kv w)) (kv_audit (kv w'))"
  shows "keeps I P n opr m"
  unfolding keeps_def by (intro allI impI) (rule assms)

lemma keepsD:
  assumes "keeps I P n opr m" "good w" "I (kv w)" "P w" "m w = (w', r)"
  shows "good w' \<and> I (kv w') \<and> logged opr n (\<not> isl r) (kv_audit (kv w)) (kv_audit (kv w'))"
  by (rule assms(1) [unfolded keeps_def, rule_format, OF assms(2-5)])

lemma keeps_return: "keeps I P 0 opr (tx_return x)"
  by (rule keepsI) (simp add: tx_return_def logged_none)

lemma keeps_fail: "keeps I P n opr (tx_fail e)"
  by (rule keepsI) (auto simp: tx_fail_def logged_none)

text \<open>A step in front that leaves the view alone, about whose result \<open>Q\<close> is known.\<close>

lemma keeps_ask:
  assumes g: "\<And>w. good w \<Longrightarrow> P w \<Longrightarrow> good (fst (g w)) \<and> kv (fst (g w)) = kv w \<and> Q (snd (g w)) (kv w)"
    and k: "\<And>x. keeps I (\<lambda>w. Q x (kv w)) n opr (k x)"
  shows "keeps I P n opr (tx_ask g k)"
proof (rule keepsI)
  fix w w' r assume w: "good w" "I (kv w)" "P w" "tx_ask g k w = (w', r)"
  obtain w1 x where gw: "g w = (w1, x)" by (cases "g w")
  with g [OF w(1,3)] have w1: "good w1" "kv w1 = kv w" "Q x (kv w1)" by simp_all
  have "k x w1 = (w', r)" using w(4) gw by (simp add: tx_ask_def)
  from keepsD [OF k w1(1) _ w1(3) this] w(2) w1(2)
  show "good w' \<and> I (kv w') \<and> logged opr n (\<not> isl r) (kv_audit (kv w)) (kv_audit (kv w'))" by simp
qed

lemma keeps_id: "(\<And>x. keeps I (\<lambda>_. True) n opr (k x)) \<Longrightarrow> keeps I P n opr (tx_ask (cs_NewID svc) k)"
  by (rule keeps_ask [where Q = "\<lambda>_ _. True"]) (simp_all add: new_id)

lemma keeps_now: "(\<And>x. keeps I (\<lambda>_. True) n opr (k x)) \<Longrightarrow> keeps I P n opr (tx_ask (cs_Now svc) k)"
  by (rule keeps_ask [where Q = "\<lambda>_ _. True"]) (simp_all add: now)

lemma keeps_check:
  assumes "\<And>x. keeps I (\<lambda>w. P w \<and> g w = Inr x) n opr (k x)"
  shows "keeps I P n opr (tx_check g k)"
proof (rule keepsI)
  fix w w' r assume w: "good w" "I (kv w)" "P w" "tx_check g k w = (w', r)"
  show "good w' \<and> I (kv w') \<and> logged opr n (\<not> isl r) (kv_audit (kv w)) (kv_audit (kv w'))"
  proof (cases "g w")
    case (Inl e)
    with w show ?thesis by (auto simp: tx_check_def logged_none)
  next
    case (Inr x)
    with w(4) have "k x w = (w', r)" by (simp add: tx_check_def)
    from keepsD [OF assms w(1,2) _ this] w(3) Inr show ?thesis by simp
  qed
qed

lemma keeps_get:
  assumes "\<And>x. keeps I (\<lambda>w. P w \<and> g w = Inr x) n opr (k x)"
  shows "keeps I P n opr (tx_get msg g k)"
proof (rule keepsI)
  fix w w' r assume w: "good w" "I (kv w)" "P w" "tx_get msg g k w = (w', r)"
  show "good w' \<and> I (kv w') \<and> logged opr n (\<not> isl r) (kv_audit (kv w)) (kv_audit (kv w'))"
  proof (cases "g w")
    case (Inl e)
    with w show ?thesis by (auto simp: tx_get_def logged_none)
  next
    case (Inr x)
    with w(4) have "k x w = (w', r)" by (simp add: tx_get_def)
    from keepsD [OF assms w(1,2) _ this] w(3) Inr show ?thesis by simp
  qed
qed

lemma keeps_read:
  assumes "\<And>x. keeps I (\<lambda>w. P w \<and> g w = x) n opr (k x)"
  shows "keeps I P n opr (tx_read g k)"
proof (rule keepsI)
  fix w w' r assume "good w" "I (kv w)" "P w" "tx_read g k w = (w', r)"
  with keepsD [OF assms, of w "g w" w' r]
  show "good w' \<and> I (kv w') \<and> logged opr n (\<not> isl r) (kv_audit (kv w)) (kv_audit (kv w'))" by (simp add: tx_read_def)
qed

lemma keeps_lift:
  assumes "\<And>x. r = Inr x \<Longrightarrow> keeps I P n opr (k x)"
  shows "keeps I P n opr (tx_lift r k)"
proof (cases r)
  case (Inl e)
  then show ?thesis by (intro keepsI) (auto simp: tx_lift_def logged_none)
next
  case (Inr x)
  then have "tx_lift r k = k x" by (intro ext) (simp add: tx_lift_def)
  with assms [OF Inr] show ?thesis by simp
qed

lemma keeps_do:
  assumes "\<And>w. good w \<Longrightarrow> good (g w) \<and> kv (g w) = kv w" "keeps I (\<lambda>_. True) n opr k"
  shows "keeps I P n opr (tx_do g k)"
proof (rule keepsI)
  fix w w' r assume w: "good w" "I (kv w)" "P w" "tx_do g k w = (w', r)"
  with keepsD [OF assms(2), of "g w" w' r] assms(1) [OF w(1)]
  show "good w' \<and> I (kv w') \<and> logged opr n (\<not> isl r) (kv_audit (kv w)) (kv_audit (kv w'))" by (simp add: tx_do_def)
qed

lemma keeps_write:
  assumes g: "\<And>w w'. good w \<Longrightarrow> I (kv w) \<Longrightarrow> P w \<Longrightarrow> g w = Inr w' \<Longrightarrow>
      good w' \<and> I (kv w') \<and> kv_audit (kv w') = kv_audit (kv w)"
    and k: "keeps I (\<lambda>_. True) n opr k"
  shows "keeps I P n opr (tx_write msg g k)"
proof (rule keepsI)
  fix w w' r assume w: "good w" "I (kv w)" "P w" "tx_write msg g k w = (w', r)"
  show "good w' \<and> I (kv w') \<and> logged opr n (\<not> isl r) (kv_audit (kv w)) (kv_audit (kv w'))"
  proof (cases "g w")
    case (Inl e)
    with w show ?thesis by (auto simp: tx_write_def logged_none)
  next
    case (Inr w1)
    then have "k w1 = (w', r)" using w(4) by (simp add: tx_write_def)
    with keepsD [OF k, of w1 w' r] g [OF w(1-3) Inr] show ?thesis by simp
  qed
qed

lemma keeps_append:
  assumes "\<And>v es. I (v\<lparr>kv_audit := es\<rparr>) = I v" "au_operatorID e = TrimSpace opr" "keeps I (\<lambda>_. True) n opr k"
  shows "keeps I P (Suc n) opr (tx_write msg (\<lambda>w. cs_Append svc w e) k)"
proof (rule keepsI)
  fix w w' r assume w: "good w" "I (kv w)" "P w" "tx_write msg (\<lambda>w. cs_Append svc w e) k w = (w', r)"
  show "good w' \<and> I (kv w') \<and> logged opr (Suc n) (\<not> isl r) (kv_audit (kv w)) (kv_audit (kv w'))"
  proof (cases "cs_Append svc w e")
    case (Inl x)
    with w show ?thesis by (auto simp: tx_write_def logged_none)
  next
    case (Inr w1)
    then have "k w1 = (w', r)" using w(4) by (simp add: tx_write_def)
    with keepsD [OF assms(3), of w1 w' r] append [OF w(1) Inr] w(2) assms(1)
    show ?thesis by (auto intro: logged_one [OF assms(2)])
  qed
qed

lemma keeps_audited:
  assumes blind: "\<And>v es. I (v\<lparr>kv_audit := es\<rparr>) = I v"
    and mk: "\<And>i t e. mk i t = Inr e \<Longrightarrow> au_operatorID e = TrimSpace opr" and k: "keeps I (\<lambda>_. True) n opr k"
  shows "keeps I P (Suc n) opr (audited svc mk k)"
  unfolding audited_def
proof (intro keeps_id keeps_now keeps_lift keeps_append [OF blind _ k])
  fix i t e assume "wrapE ''build audit entry'' (mk i t) = Inr e"
  then show "au_operatorID e = TrimSpace opr" by (intro mk) simp
qed

end

section \<open>Every call\<close>

text \<open>The invariant, when it is asked for.\<close>

definition upheld :: "bool \<Rightarrow> url_parser \<Rightarrow> console_view \<Rightarrow> bool" where
  "upheld strict parse v \<longleftrightarrow> (strict \<longrightarrow> sound parse v)"

lemma upheld_frame [simp]:
  "upheld strict parse (v\<lparr>kv_audit := es\<rparr>) = upheld strict parse v"
  "upheld strict parse (v\<lparr>kv_invoices := is\<rparr>) = upheld strict parse v"
  by (simp_all add: upheld_def)

lemma entry_operator:
  "NewEntry i opr act t at = Inr e \<Longrightarrow> au_operatorID e = TrimSpace opr"
  "NewAccountActionEntry i opr act t at = Inr e \<Longrightarrow> au_operatorID e = TrimSpace opr"
  "NewOutboundWebhookEntry i opr act t at = Inr e \<Longrightarrow> au_operatorID e = TrimSpace opr"
  "NewCreditorKeySetEntry i opr t b at = Inr e \<Longrightarrow> au_operatorID e = TrimSpace opr"
  "NewBankConfigRemovedEntry i opr t b at = Inr e \<Longrightarrow> au_operatorID e = TrimSpace opr"
  "NewCertificateSetEntry i opr t b fp at = Inr e \<Longrightarrow> au_operatorID e = TrimSpace opr"
  by (auto simp: ctor_simps zero_entry_def Let_def split: if_splits)

context console_contract
begin

lemmas keeps_logged = keeps_audited [where I = "upheld strict parse" for strict parse, OF upheld_frame(1) _ keeps_return]

lemma not_active: "good w \<Longrightarrow> idle (cs_FindTenant svc w) h \<Longrightarrow> \<not> active_in (kv_tenants (kv w)) h"
  using find_tenant [of w h] find_tenant_none [of w h] by (auto simp: idle_def active_in_def split: sum.splits)

lemma keeps_save_tenant:
  assumes "\<And>w. good w \<Longrightarrow> P w \<Longrightarrow> strict \<Longrightarrow> tn_active x \<Longrightarrow>
      active_in (kv_tenants (kv w)) (tn_id x) \<or> unheld (kv_vault (kv w)) (tn_id x)"
    and "keeps (upheld strict parse) (\<lambda>_. True) n opr k"
  shows "keeps (upheld strict parse) P n opr (tx_write msg (\<lambda>w. cs_SaveTenant svc w x) k)"
proof (rule keeps_write [OF _ assms(2)])
  fix w w' assume w: "good w" "upheld strict parse (kv w)" "P w" "cs_SaveTenant svc w x = Inr w'"
  note s = save_tenant [OF w(1,4)]
  have "upheld strict parse (kv w')"
    using w(2) assms(1) [OF w(1,3)] sound_tenant [of parse "kv w" x] s by (simp add: upheld_def)
  with s show "good w' \<and> upheld strict parse (kv w') \<and> kv_audit (kv w') = kv_audit (kv w)" by simp
qed

lemma transition_keeps:
  assumes change: "\<And>t u. change t = Inr u \<Longrightarrow> tn_id u = tn_id t \<and> (tn_active u \<longrightarrow> tn_active t \<or> act)"
  shows "keeps (upheld strict parse) (\<lambda>w. strict \<and> act \<longrightarrow> unheld (kv_vault (kv w)) (TrimSpace tid)) (Suc 0) opr
    (transition svc opr tid a change)"
  unfolding transition_def
proof (intro keeps_get keeps_lift keeps_save_tenant keeps_logged entry_operator(1))
  fix t u w assume u: "change t = Inr u" and w: "good w" "strict" "tn_active u"
    and P: "(strict \<and> act \<longrightarrow> unheld (kv_vault (kv w)) (TrimSpace tid)) \<and> cs_FindTenant svc w (TrimSpace tid) = Inr t"
  from find_tenant [OF w(1)] P have "kv_tenants (kv w) (TrimSpace tid) = Some t" "tn_id t = TrimSpace tid" by auto
  with change [OF u] P w show "active_in (kv_tenants (kv w)) (tn_id u) \<or> unheld (kv_vault (kv w)) (tn_id u)"
    by (auto simp: active_in_def)
qed

text \<open>A new tenant is active; its id comes from the id provider.\<close>

lemma create_keeps:
  assumes "\<And>i t x. mk i t = Inr x \<Longrightarrow> tn_id x = TrimSpace i"
  shows "keeps (upheld strict parse) (\<lambda>w. strict \<longrightarrow> unheld (kv_vault (kv w)) (TrimSpace (snd (cs_NewID svc w)))) 0 opr
    (tx_ask (cs_NewID svc) (\<lambda>tid. tx_ask (cs_Now svc) (\<lambda>now.
       tx_lift (mk tid now) (\<lambda>t. tx_write ''save tenant'' (\<lambda>w. cs_SaveTenant svc w t) (tx_return t)))))"
proof (rule keeps_ask [where Q = "\<lambda>i v. strict \<longrightarrow> unheld (kv_vault v) (TrimSpace i)"])
  fix i
  show "keeps (upheld strict parse) (\<lambda>w. strict \<longrightarrow> unheld (kv_vault (kv w)) (TrimSpace i)) 0 opr
    (tx_ask (cs_Now svc) (\<lambda>now. tx_lift (mk i now) (\<lambda>t. tx_write ''save tenant'' (\<lambda>w. cs_SaveTenant svc w t) (tx_return t))))"
  proof (rule keeps_ask [where Q = "\<lambda>_ v. strict \<longrightarrow> unheld (kv_vault v) (TrimSpace i)"])
    fix now
    show "keeps (upheld strict parse) (\<lambda>w. strict \<longrightarrow> unheld (kv_vault (kv w)) (TrimSpace i)) 0 opr
      (tx_lift (mk i now) (\<lambda>t. tx_write ''save tenant'' (\<lambda>w. cs_SaveTenant svc w t) (tx_return t)))"
      by (intro keeps_lift keeps_save_tenant keeps_return) (simp add: assms)
  qed (simp add: now)
qed (simp add: new_id)

lemma NewTenant_id: "NewTenant i nm at = Inr x \<Longrightarrow> tn_id x = TrimSpace i"
  by (auto simp: NewTenant_def Let_def split: if_splits)

lemma keeps_weaken:
  assumes "keeps I Q n opr m" "\<And>w. good w \<Longrightarrow> P w \<Longrightarrow> Q w"
  shows "keeps I P n opr m"
  by (rule keepsI) (rule keepsD [OF assms(1) _ _ assms(2)])

lemma tenant_calls_keep:
  "keeps (upheld strict parse) (\<lambda>w. strict \<longrightarrow> unheld (kv_vault (kv w)) (TrimSpace (snd (cs_NewID svc w)))) 0 opr (CreateTenant svc nm)"
  "keeps (upheld strict parse) (\<lambda>_. True) (Suc 0) opr (RenameTenantC svc opr tid nm)"
  "keeps (upheld strict parse) (\<lambda>_. True) (Suc 0) opr (SuspendTenant svc opr tid)"
  "keeps (upheld strict parse) (\<lambda>w. strict \<longrightarrow> unheld (kv_vault (kv w)) (TrimSpace tid)) (Suc 0) opr (ActivateTenantC svc opr tid)"
proof -
  show "keeps (upheld strict parse) (\<lambda>w. strict \<longrightarrow> unheld (kv_vault (kv w)) (TrimSpace (snd (cs_NewID svc w)))) 0 opr (CreateTenant svc nm)"
    unfolding CreateTenant_def by (rule create_keeps) (rule NewTenant_id)
  show "keeps (upheld strict parse) (\<lambda>_. True) (Suc 0) opr (RenameTenantC svc opr tid nm)"
    unfolding RenameTenantC_def
    by (rule keeps_weaken [OF transition_keeps [where act = False]]) (auto simp: RenameTenant_def Let_def split: if_splits)
  show "keeps (upheld strict parse) (\<lambda>_. True) (Suc 0) opr (SuspendTenant svc opr tid)"
    unfolding SuspendTenant_def
    by (rule keeps_weaken [OF transition_keeps [where act = False]]) (auto simp: DeactivateTenant_def)
  show "keeps (upheld strict parse) (\<lambda>w. strict \<longrightarrow> unheld (kv_vault (kv w)) (TrimSpace tid)) (Suc 0) opr (ActivateTenantC svc opr tid)"
    unfolding ActivateTenantC_def
    by (rule keeps_weaken [OF transition_keeps [where act = True]]) (auto simp: ActivateTenant_def)
qed

text \<open>Credentials: the check and the write see the same vault.\<close>

lemma keeps_set_credential:
  assumes "keeps (upheld strict parse) (\<lambda>_. True) n opr k"
  shows "keeps (upheld strict parse) (\<lambda>w. P w \<and> (strict \<longrightarrow> nul_free t)) n opr
    (tx_check (assertClientIDFree svc t b c) (\<lambda>_. tx_write msg (\<lambda>w. cs_SetCredential svc w t b c sec) k))"
proof (intro keeps_check keeps_write [OF _ assms])
  fix u w w' assume w: "good w" "upheld strict parse (kv w)" "cs_SetCredential svc w t b c sec = Inr w'"
    and P: "(P w \<and> (strict \<longrightarrow> nul_free t)) \<and> assertClientIDFree svc t b c w = Inr u"
  obtain m where m: "good w'" "SetBankCredential (kv_vault (kv w)) t b c sec = Inr m" "kv w' = (kv w)\<lparr>kv_vault := m\<rparr>"
    using set_credential [OF w(1,3)] by blast
  have free: "assertClientIDUnclaimed (Some (vault_sharing (kv_vault (kv w)))) (cs_FindTenant svc w) t b c = Inr ()"
    using P by (simp add: assertClientIDFree_def sharing [OF w(1)])
  have "sound parse (kv w')" if strict
    unfolding m(3) using w(2) P that SetBankCredential_exclusive [OF _ _ _ not_active [OF w(1)] free m(2)]
    by (intro sound_vault) (auto simp: upheld_def sound_def)
  with m show "good w' \<and> upheld strict parse (kv w') \<and> kv_audit (kv w') = kv_audit (kv w)" by (simp add: upheld_def)
qed

lemma keeps_set_creditor:
  assumes "keeps (upheld strict parse) (\<lambda>_. True) n opr k"
  shows "keeps (upheld strict parse) (\<lambda>w. P w \<and> (strict \<longrightarrow> nul_free t)) n opr
    (tx_check (assertCreditorKeyFree svc t ck) (\<lambda>_. tx_write msg (\<lambda>w. cs_SetCreditorKey svc w t ck) k))"
proof (intro keeps_check keeps_write [OF _ assms])
  fix u w w' assume w: "good w" "upheld strict parse (kv w)" "cs_SetCreditorKey svc w t ck = Inr w'"
    and P: "(P w \<and> (strict \<longrightarrow> nul_free t)) \<and> assertCreditorKeyFree svc t ck w = Inr u"
  obtain m where m: "good w'" "SetCreditorKey (kv_vault (kv w)) t ck = Inr m" "kv w' = (kv w)\<lparr>kv_vault := m\<rparr>"
    using set_creditor [OF w(1,3)] by blast
  have free: "assertCreditorKeyUnclaimed (Some (vault_sharing (kv_vault (kv w)))) (cs_FindTenant svc w) t BankIDC6 ck = Inr ()"
    using P by (simp add: assertCreditorKeyFree_def sharing [OF w(1)])
  have "sound parse (kv w')" if strict
    unfolding m(3) using w(2) P that SetCreditorKey_exclusive [OF _ _ _ not_active [OF w(1)] free m(2)]
    by (intro sound_vault) (auto simp: upheld_def sound_def)
  with m show "good w' \<and> upheld strict parse (kv w') \<and> kv_audit (kv w') = kv_audit (kv w)" by (simp add: upheld_def)
qed

lemma keeps_guard: "keeps I P n opr m \<Longrightarrow> keeps I P n opr (if bad then tx_fail e else m)"
  by (simp add: keeps_fail)

lemma keeps_evict: "keeps I (\<lambda>_. True) n opr k \<Longrightarrow> keeps I P n opr (tx_do (\<lambda>w. cs_Invalidate svc w t) k)"
  by (rule keeps_do) (rule invalidate)

lemma credential_calls_keep:
  "keeps (upheld strict parse) (\<lambda>_. strict \<longrightarrow> nul_free t) 0 opr (SetBankCredentialC svc t c sec)"
  "keeps (upheld strict parse) (\<lambda>_. strict \<longrightarrow> nul_free (TrimSpace t)) 0 opr (SetBankCredentialFor svc t b c sec)"
  "keeps (upheld strict parse) (\<lambda>_. strict \<longrightarrow> nul_free (TrimSpace t)) (Suc 0) opr (SetCreditorKeyC svc opr t ck)"
proof -
  show "keeps (upheld strict parse) (\<lambda>_. strict \<longrightarrow> nul_free t) 0 opr (SetBankCredentialC svc t c sec)"
    unfolding SetBankCredentialC_def
    by (intro keeps_get keeps_weaken [OF keeps_set_credential [where P = "\<lambda>_. True"]] keeps_evict keeps_return) simp
  show "keeps (upheld strict parse) (\<lambda>_. strict \<longrightarrow> nul_free (TrimSpace t)) 0 opr (SetBankCredentialFor svc t b c sec)"
    unfolding SetBankCredentialFor_def Let_def
    by (intro keeps_get keeps_guard keeps_weaken [OF keeps_set_credential [where P = "\<lambda>_. True"]] keeps_evict keeps_return) simp
  show "keeps (upheld strict parse) (\<lambda>_. strict \<longrightarrow> nul_free (TrimSpace t)) (Suc 0) opr (SetCreditorKeyC svc opr t ck)"
    unfolding SetCreditorKeyC_def Let_def
    by (intro keeps_get keeps_weaken [OF keeps_set_creditor [where P = "\<lambda>_. True"]] keeps_logged entry_operator(4)) simp_all
qed

lemma keeps_quiet_write:
  assumes "\<And>w w'. good w \<Longrightarrow> g w = Inr w' \<Longrightarrow> good w' \<and> kv w' = kv w" "keeps I (\<lambda>_. True) n opr k"
  shows "keeps I P n opr (tx_write msg g k)"
proof (rule keeps_write [OF _ assms(2)])
  fix w w' assume w: "good w" "I (kv w)" "P w" "g w = Inr w'"
  with assms(1) [OF w(1,4)] show "good w' \<and> I (kv w') \<and> kv_audit (kv w') = kv_audit (kv w)" by simp
qed

lemma SetBankCertificate_keeps: "keeps (upheld strict parse) P (Suc 0) opr (SetBankCertificateC svc cy opr t b c k)"
  unfolding SetBankCertificateC_def Let_def
  by (intro keeps_get keeps_guard keeps_lift keeps_now keeps_quiet_write [OF set_certificate] keeps_evict keeps_logged)
    (auto dest: entry_operator(6))

text \<open>Removing a bank\<close>

lemma deregister_quiet:
  assumes "good w"
  shows "good (deregisterWebhooks svc t b w) \<and> kv (deregisterWebhooks svc t b w) = kv w"
proof (cases "cs_deregistrar svc")
  case None
  with assms show ?thesis by (simp add: deregisterWebhooks_def)
next
  case (Some dr)
  have pix: "good (fst (dr_Pix dr w t ck))" "kv (fst (dr_Pix dr w t ck)) = kv w" for ck
    using dereg_pix [OF assms Some] by simp_all
  have rest: "good (fst (dr_CobR dr (fst (dr_Rec dr v t)) t))" "kv (fst (dr_CobR dr (fst (dr_Rec dr v t)) t)) = kv v" if "good v" for v
    using dereg_rec [OF that Some] dereg_cobr [OF _ Some, of "fst (dr_Rec dr v t)"] by simp_all
  show ?thesis by (auto simp: deregisterWebhooks_def Some Let_def assms pix rest split: prod.splits)
qed

lemma keeps_delete_credential:
  assumes "keeps (upheld strict parse) (\<lambda>_. True) n opr k"
  shows "keeps (upheld strict parse) P n opr (delete_half msg (map_option (\<lambda>f w. f w t b) (cs_credDeleter svc)) k)"
proof (cases "cs_credDeleter svc")
  case None
  then show ?thesis using keeps_weaken [OF assms] by (simp add: delete_half_def)
next
  case (Some f)
  have "keeps (upheld strict parse) P n opr (tx_write msg (\<lambda>w. f w t b) k)"
  proof (rule keeps_write [OF _ assms])
    fix w w' assume w: "good w" "upheld strict parse (kv w)" "f w t b = Inr w'"
    obtain m where m: "good w'" "DeleteBankCredential (kv_vault (kv w)) t b = Inr m" "kv w' = (kv w)\<lparr>kv_vault := m\<rparr>"
      using cred_deleter [OF w(1) Some w(3)] by blast
    have "sound parse (kv w')" if strict
      unfolding m(3) using w(2) that DeleteBankCredential_exclusive [OF _ _ m(2)]
      by (intro sound_vault) (auto simp: upheld_def sound_def)
    with m show "good w' \<and> upheld strict parse (kv w') \<and> kv_audit (kv w') = kv_audit (kv w)" by (simp add: upheld_def)
  qed
  then show ?thesis by (simp add: delete_half_def Some)
qed

lemma keeps_delete_certificate:
  assumes "keeps I (\<lambda>_. True) n opr k"
  shows "keeps I P n opr (delete_half msg (map_option (\<lambda>f w. f w t b) (cs_certDeleter svc)) k)"
proof (cases "cs_certDeleter svc")
  case None
  then show ?thesis using keeps_weaken [OF assms] by (simp add: delete_half_def)
next
  case (Some f)
  then show ?thesis using keeps_quiet_write [OF cert_deleter [OF _ Some] assms] by (simp add: delete_half_def)
qed

lemma RemoveBankConfig_keeps: "keeps (upheld strict parse) P (Suc 0) opr (RemoveBankConfig svc opr t b)"
  unfolding RemoveBankConfig_def Let_def
  by (intro keeps_get keeps_guard keeps_do [OF deregister_quiet] keeps_delete_credential keeps_delete_certificate
      keeps_evict keeps_logged) (auto dest: entry_operator(5))

text \<open>Accounts and prices\<close>

lemma account_transition_keeps: "keeps (upheld strict parse) P (Suc 0) opr (accountTransition svc opr aid act change)"
proof (cases "cs_accounts svc")
  case (Some ap)
  then show ?thesis unfolding accountTransition_def Some option.case
    by (intro keeps_get keeps_lift keeps_quiet_write [OF save_account [OF _ Some]] keeps_logged) (auto dest: entry_operator(2))
qed (simp add: accountTransition_def keeps_fail)

lemma CreateAccount_keeps: "keeps (upheld strict parse) P 0 opr (CreateAccount svc nm)"
proof (cases "cs_accounts svc")
  case (Some ap)
  then show ?thesis unfolding CreateAccount_def Some option.case
    by (intro keeps_id keeps_now keeps_lift keeps_quiet_write [OF save_account [OF _ Some]] keeps_return)
qed (simp add: CreateAccount_def keeps_fail)

lemma SetPrice_keeps: "keeps (upheld strict parse) P 0 opr (SetPrice svc t ep c)"
  unfolding SetPrice_def by (intro keeps_get keeps_lift keeps_quiet_write [OF upsert_price] keeps_return)

lemma CreateTenantUnderAccount_keeps:
  "keeps (upheld strict parse) (\<lambda>w. strict \<longrightarrow> unheld (kv_vault (kv w)) (TrimSpace (snd (cs_NewID svc w)))) 0 opr
     (CreateTenantUnderAccount svc a nm)"
proof (cases "cs_accounts svc")
  case (Some ap)
  have "bindE (NewTenant i nm at) (\<lambda>t. AssignAccount t (TrimSpace a)) = Inr x \<Longrightarrow> tn_id x = TrimSpace i" for i at x
    by (auto simp: bindE_Inr_iff AssignAccount_Inr_iff dest: NewTenant_id)
  then show ?thesis unfolding CreateTenantUnderAccount_def Some option.case Let_def
    by (intro keeps_get keeps_weaken [OF create_keeps]) auto
qed (simp add: CreateTenantUnderAccount_def keeps_fail)

text \<open>Invoices\<close>

lemma GenerateInvoice_keeps: "keeps (upheld strict parse) P (Suc 0) opr (GenerateInvoice svc opr t rng)"
proof (cases "cs_invoices svc")
  case (Some ip)
  have save: "keeps (upheld strict parse) Q n opr (tx_write msg (\<lambda>w. is_Save ip w i) k)"
    if "keeps (upheld strict parse) (\<lambda>_. True) n opr k" for Q n msg i and k :: "('w, invoice) tx"
  proof (rule keeps_write [OF _ that])
    fix w w' assume w: "good w" "upheld strict parse (kv w)" "is_Save ip w i = Inr w'"
    with save_invoice [OF w(1) Some w(3)]
    show "good w' \<and> upheld strict parse (kv w') \<and> kv_audit (kv w') = kv_audit (kv w)" by simp
  qed
  show ?thesis unfolding GenerateInvoice_def Some option.case Let_def
    by (intro keeps_guard keeps_get keeps_check keeps_lift keeps_id keeps_now save keeps_append keeps_return)
      (auto dest: entry_operator(1))
qed (simp add: GenerateInvoice_def keeps_fail)

text \<open>Outbound webhooks\<close>

lemma keeps_upsert:
  assumes "cs_webhooks svc = Some wp"
    and "\<And>w. good w \<Longrightarrow> upheld strict parse (kv w) \<Longrightarrow> P w \<Longrightarrow> strict \<Longrightarrow> config_ok parse cf"
    and "keeps (upheld strict parse) (\<lambda>_. True) n opr k"
  shows "keeps (upheld strict parse) P n opr (tx_write msg (\<lambda>w. wp_Upsert wp w cf) k)"
proof (rule keeps_write [OF _ assms(3)])
  fix w w' assume w: "good w" "upheld strict parse (kv w)" "P w" "wp_Upsert wp w cf = Inr w'"
  note s = upsert_hook [OF w(1) assms(1) w(4)]
  have "sound parse (kv w')" if strict
    using s sound_hook [OF _ assms(2) [OF w(1-3) that], of "kv w"] w(2) that by (simp add: upheld_def)
  with s show "good w' \<and> upheld strict parse (kv w') \<and> kv_audit (kv w') = kv_audit (kv w)" by (simp add: upheld_def)
qed

lemma resolve_nil: "cs_webhooks svc = None \<Longrightarrow> keeps I P n opr (tx_check (resolveWebhookAccount svc a) k)"
  by (rule keepsI) (auto simp: tx_check_def resolveWebhookAccount_def logged_none)

lemma keeps_webhook_logged:
  "keeps (upheld strict parse) P (Suc 0) opr (auditWebhook svc opr act a (tx_return x))"
  unfolding auditWebhook_def by (intro keeps_logged) (rule entry_operator(3))

lemma stored_hook_ok:
  "good w \<Longrightarrow> cs_webhooks svc = Some wp \<Longrightarrow> wp_Get wp w a = Inr c \<Longrightarrow> upheld strict parse (kv w) \<Longrightarrow> strict \<Longrightarrow> config_ok parse c"
  using get_hook [of w wp a c] by (simp add: upheld_def sound_def)

lemma RemoveOutboundWebhook_keeps: "keeps (upheld strict parse) P (Suc 0) opr (RemoveOutboundWebhook svc opr a)"
proof (cases "cs_webhooks svc")
  case (Some wp)
  have del: "keeps (upheld strict parse) Q n opr (tx_write msg (\<lambda>w. wp_Delete wp w i) k)"
    if "keeps (upheld strict parse) (\<lambda>_. True) n opr k" for Q n msg i and k :: "('w, unit) tx"
  proof (rule keeps_write [OF _ that])
    fix w w' assume w: "good w" "upheld strict parse (kv w)" "wp_Delete wp w i = Inr w'"
    with delete_hook [OF w(1) Some w(3)] sound_unhook [of parse "kv w" i]
    show "good w' \<and> upheld strict parse (kv w') \<and> kv_audit (kv w') = kv_audit (kv w)" by (simp add: upheld_def)
  qed
  show ?thesis unfolding RemoveOutboundWebhook_def Some option.sel by (intro keeps_check del keeps_webhook_logged)
qed (simp add: RemoveOutboundWebhook_def resolve_nil)

text \<open>A step whose result is a fact about the world before it.\<close>

lemma keeps_now_with:
  assumes "\<And>w. good w \<Longrightarrow> I (kv w) \<Longrightarrow> P w \<Longrightarrow> C" "\<And>x. C \<Longrightarrow> keeps I (\<lambda>_. True) n opr (k x)"
  shows "keeps I P n opr (tx_ask (cs_Now svc) k)"
proof (rule keepsI)
  fix w w' r assume w: "good w" "I (kv w)" "P w" "tx_ask (cs_Now svc) k w = (w', r)"
  from assms(1) [OF w(1-3)] have "keeps I P n opr (tx_ask (cs_Now svc) k)" by (intro keeps_now assms(2))
  from keepsD [OF this w] show "good w' \<and> I (kv w') \<and> logged opr n (\<not> isl r) (kv_audit (kv w)) (kv_audit (kv w'))" .
qed

lemma RotateOutboundWebhookSecret_keeps: "keeps (upheld strict parse) P (Suc 0) opr (RotateOutboundWebhookSecret svc rd opr a)"
proof (cases "cs_webhooks svc")
  case (Some wp)
  have step: "keeps (upheld strict parse) (\<lambda>w. Q w \<and> wp_Get wp w i = Inr cfg) (Suc 0) opr
     (tx_ask (cs_Now svc) (\<lambda>now. tx_lift (wrapE ''rotate signing secret'' (RotateSecret rd cfg now)) (\<lambda>(c2, secret).
        tx_write ''upsert outbound webhook'' (\<lambda>w. wp_Upsert wp w c2)
          (auditWebhook svc opr ActionRotateOutboundWebhookSecret i (tx_return (c2, secret))))))" for Q i cfg
  proof (rule keeps_now_with [where C = "strict \<longrightarrow> config_ok parse cfg"])
    fix now assume c: "strict \<longrightarrow> config_ok parse cfg"
    show "keeps (upheld strict parse) (\<lambda>_. True) (Suc 0) opr (tx_lift (wrapE ''rotate signing secret'' (RotateSecret rd cfg now)) (\<lambda>(c2, secret).
        tx_write ''upsert outbound webhook'' (\<lambda>w. wp_Upsert wp w c2)
          (auditWebhook svc opr ActionRotateOutboundWebhookSecret i (tx_return (c2, secret)))))"
    proof (rule keeps_lift)
      fix x assume x: "wrapE ''rotate signing secret'' (RotateSecret rd cfg now) = Inr x"
      obtain c2 secret where cs: "x = (c2, secret)" by (cases x)
      with x c RotateSecret_ok have "strict \<longrightarrow> config_ok parse c2" by auto
      then show "keeps (upheld strict parse) (\<lambda>_. True) (Suc 0) opr (case x of (c2, secret) \<Rightarrow>
        tx_write ''upsert outbound webhook'' (\<lambda>w. wp_Upsert wp w c2)
          (auditWebhook svc opr ActionRotateOutboundWebhookSecret i (tx_return (c2, secret))))"
        unfolding cs prod.case by (intro keeps_upsert [OF Some] keeps_webhook_logged) simp
    qed
  qed (use stored_hook_ok [OF _ Some] in auto)
  show ?thesis unfolding RotateOutboundWebhookSecret_def Some option.sel by (intro keeps_check keeps_get step)
qed (simp add: RotateOutboundWebhookSecret_def resolve_nil)

lemma update_hook_keeps:
  assumes "cs_webhooks svc = Some wp"
  shows "keeps (upheld strict parse) (\<lambda>w. Q w \<and> wp_Get wp w i = Inr cfg) (Suc 0) opr
     (tx_ask (cs_Now svc) (\<lambda>now. tx_lift (SetURL parse cfg url now) (\<lambda>c1. tx_ask (cs_Now svc) (\<lambda>now2. let c2 = SetEnabled c1 en now2 in
        tx_write ''upsert outbound webhook'' (\<lambda>w. wp_Upsert wp w c2)
          (auditWebhook svc opr ActionSetOutboundWebhook i (tx_return (c2, [])))))))"
proof (rule keeps_now_with [where C = "strict \<longrightarrow> config_ok parse cfg"])
  fix now assume c: "strict \<longrightarrow> config_ok parse cfg"
  show "keeps (upheld strict parse) (\<lambda>_. True) (Suc 0) opr (tx_lift (SetURL parse cfg url now) (\<lambda>c1. tx_ask (cs_Now svc) (\<lambda>now2. let c2 = SetEnabled c1 en now2 in
        tx_write ''upsert outbound webhook'' (\<lambda>w. wp_Upsert wp w c2)
          (auditWebhook svc opr ActionSetOutboundWebhook i (tx_return (c2, []))))))"
    unfolding Let_def
  proof (intro keeps_lift keeps_now keeps_upsert [OF assms] keeps_webhook_logged)
    fix c1 now2 assume "SetURL parse cfg url now = Inr c1" strict
    with c SetURL_ok SetEnabled_ok show "config_ok parse (SetEnabled c1 en now2)" by blast
  qed
qed (use stored_hook_ok [OF _ assms] in auto)

lemma create_hook_keeps:
  assumes "cs_webhooks svc = Some wp"
  shows "keeps (upheld strict parse) P (Suc 0) opr
     (tx_lift (wrapE ''generate signing secret'' (GenerateSigningSecret rd)) (\<lambda>secret. tx_ask (cs_Now svc) (\<lambda>now.
        tx_lift (NewWebhookConfig parse i url secret en now) (\<lambda>cfg.
          tx_write ''upsert outbound webhook'' (\<lambda>w. wp_Upsert wp w cfg)
            (auditWebhook svc opr ActionSetOutboundWebhook i (tx_return (cfg, secret)))))))"
  by (intro keeps_lift keeps_now keeps_upsert [OF assms] keeps_webhook_logged) (rule NewWebhookConfig_ok)

lemma SetOutboundWebhook_keeps: "keeps (upheld strict parse) P (Suc 0) opr (SetOutboundWebhook svc parse rd opr a url en)"
proof (cases "cs_webhooks svc")
  case (Some wp)
  show ?thesis unfolding SetOutboundWebhook_def Some option.sel
  proof (intro keeps_check keeps_read)
    fix i found
    let ?P = "\<lambda>w. (P w \<and> resolveWebhookAccount svc a w = Inr i) \<and> wp_Get wp w i = found"
    show "keeps (upheld strict parse) ?P (Suc 0) opr
      (case found of
         Inl e \<Rightarrow>
           if errors_Is e ErrNotFound then
             tx_lift (wrapE ''generate signing secret'' (GenerateSigningSecret rd)) (\<lambda>secret.
               tx_ask (cs_Now svc) (\<lambda>now.
                 tx_lift (NewWebhookConfig parse i url secret en now) (\<lambda>cfg.
                   tx_write ''upsert outbound webhook'' (\<lambda>w. wp_Upsert wp w cfg)
                     (auditWebhook svc opr ActionSetOutboundWebhook i (tx_return (cfg, secret))))))
           else tx_fail (Errorf ''get outbound webhook'' e)
       | Inr existing \<Rightarrow>
           tx_ask (cs_Now svc) (\<lambda>now.
             tx_lift (SetURL parse existing url now) (\<lambda>c1.
               tx_ask (cs_Now svc) (\<lambda>now2. let c2 = SetEnabled c1 en now2 in
                 tx_write ''upsert outbound webhook'' (\<lambda>w. wp_Upsert wp w c2)
                   (auditWebhook svc opr ActionSetOutboundWebhook i (tx_return (c2, [])))))))"
    proof (cases found)
      case (Inl e)
      then show ?thesis by (cases "errors_Is e ErrNotFound") (simp_all add: create_hook_keeps [OF Some] keeps_fail)
    next
      case (Inr cfg)
      then show ?thesis unfolding Inr sum.case by (intro update_hook_keeps [OF Some])
    qed
  qed
qed (simp add: SetOutboundWebhook_def resolve_nil)

section \<open>One call, any call\<close>

lemma keeps_outcome:
  assumes "outcome (m w) = (w', e)" "keeps (upheld strict parse) P n opr m" "P w" "good w" "upheld strict parse (kv w)"
  shows "good w' \<and> upheld strict parse (kv w') \<and> logged opr n (e = None) (kv_audit (kv w)) (kv_audit (kv w'))"
proof -
  obtain r where r: "m w = (w', r)" "(e = None) = (\<not> isl r)"
    using assms(1) by (cases "m w"; cases "snd (m w)") (auto simp: outcome_def)
  from keepsD [OF assms(2,4,5,3) r(1)] r(2) show ?thesis by simp
qed

lemmas calls_keep = tenant_calls_keep credential_calls_keep SetBankCertificate_keeps RemoveBankConfig_keeps
  account_transition_keeps CreateAccount_keeps SetPrice_keeps CreateTenantUnderAccount_keeps GenerateInvoice_keeps
  RemoveOutboundWebhook_keeps RotateOutboundWebhookSecret_keeps SetOutboundWebhook_keeps

lemma call_keeps:
  assumes "good w" "upheld strict (kd_parse deps) (kv w)"
    and "strict \<longrightarrow> admissible (snd (cs_NewID svc w)) (kv_vault (kv w)) c"
    and "run_call svc deps opr c w = (w', e)"
  shows "good w' \<and> upheld strict (kd_parse deps) (kv w') \<and>
    logged opr (if audited_call c then Suc 0 else 0) (e = None) (kv_audit (kv w)) (kv_audit (kv w'))"
proof -
  note run = keeps_outcome [OF _ _ _ assms(1,2)]
  show ?thesis using assms(3,4)
    by (cases c) (simp_all add: admissible_def RenameAccountC_def DeactivateAccountC_def ActivateAccountC_def,
      (erule run, rule calls_keep, simp)+)
qed

end

end
