(* ===== verification/ConsoleMemory.thy ===== *)
theory ConsoleMemory
  imports ConsoleSystem
begin

text \<open>
  The console over the in-memory store, vaults and webhook configurations: the contract of the console
  holds there. The claims on sequences of calls are in \<open>AdminPlane\<close>. What the outside answers (the clock, the id
  provider, the bank when a callback is removed) is read from an environment, one reading per tick.
\<close>

section \<open>The wiring\<close>

record console_env =
  ke_now :: "nat \<Rightarrow> gotime"
  ke_id :: "nat \<Rightarrow> string"
  ke_bank :: "nat \<Rightarrow> go_error option"
  ke_crypto :: crypto

record console_world =
  kw_store :: store
  kw_vault :: vault
  kw_certs :: cert_vault
  kw_hooks :: webhook_store
  kw_evicted :: "string list"
  kw_tick :: nat

definition tick :: "(nat \<Rightarrow> 'a) \<Rightarrow> console_world \<Rightarrow> console_world \<times> 'a" where
  "tick f w = (w\<lparr>kw_tick := Suc (kw_tick w)\<rparr>, f (kw_tick w))"

definition on_store :: "(store \<Rightarrow> store result) \<Rightarrow> console_world \<Rightarrow> console_world result" where
  "on_store f w = bindE (f (kw_store w)) (\<lambda>s. Inr (w\<lparr>kw_store := s\<rparr>))"

definition on_vault :: "(vault \<Rightarrow> vault result) \<Rightarrow> console_world \<Rightarrow> console_world result" where
  "on_vault f w = bindE (f (kw_vault w)) (\<lambda>m. Inr (w\<lparr>kw_vault := m\<rparr>))"

definition on_certs :: "(cert_vault \<Rightarrow> cert_vault result) \<Rightarrow> console_world \<Rightarrow> console_world result" where
  "on_certs f w = bindE (f (kw_certs w)) (\<lambda>m. Inr (w\<lparr>kw_certs := m\<rparr>))"

definition on_hooks :: "(webhook_store \<Rightarrow> webhook_store result) \<Rightarrow> console_world \<Rightarrow> console_world result" where
  "on_hooks f w = bindE (f (kw_hooks w)) (\<lambda>m. Inr (w\<lparr>kw_hooks := m\<rparr>))"

definition memory_console :: "console_env \<Rightarrow> console_world console_service" where
  "memory_console env =
     \<lparr>cs_SaveTenant = (\<lambda>w t. on_store (\<lambda>s. saveTenant s t) w),
      cs_FindTenant = (\<lambda>w t. findTenantByID (kw_store w) t),
      cs_ListTenants = (\<lambda>w. Inr (ListTenants (kw_store w))),
      cs_accounts = Some \<lparr>as_Save = (\<lambda>w a. on_store (\<lambda>s. Inr (SaveAccount s a)) w),
        as_Find = (\<lambda>w a. FindAccountByID (kw_store w) a), as_List = (\<lambda>w. Inr (ListAccounts (kw_store w)))\<rparr>,
      cs_UpsertPrice = (\<lambda>w p. on_store (\<lambda>s. upsertEndpointPrice s p) w),
      cs_ListPrices = (\<lambda>w t. Inr (ListEndpointPrices (kw_store w) t)),
      cs_ListLedger = (\<lambda>w t. Inr (ListLedgerEntries (kw_store w) t)),
      cs_ListLedgerByAccount = (\<lambda>w a. Inr (ListLedgerEntriesByAccount (kw_store w) a)),
      cs_SetCredential = (\<lambda>w t b c s. on_vault (\<lambda>m. SetBankCredential m t b c s) w),
      cs_SetCreditorKey = (\<lambda>w t ck. on_vault (\<lambda>m. SetCreditorKey m t ck) w),
      cs_credReader = Some (\<lambda>w t b. GetBankCredential (kw_vault w) t b),
      cs_Invalidate = (\<lambda>w t. w\<lparr>kw_evicted := kw_evicted w @ [t]\<rparr>),
      cs_SetCertificate = (\<lambda>w c. on_certs (\<lambda>m. SetBankCertificate m c) w),
      cs_certReader = Some (\<lambda>w t b. GetBankCertificateMeta (ke_crypto env) (kw_certs w) t b),
      cs_credDeleter = Some (\<lambda>w t b. on_vault (\<lambda>m. DeleteBankCredential m t b) w),
      cs_certDeleter = Some (\<lambda>w t b. on_certs (\<lambda>m. DeleteBankCertificate m t b) w),
      cs_deregistrar = Some \<lparr>dr_Pix = (\<lambda>w t ck. tick (ke_bank env) w), dr_Rec = (\<lambda>w t. tick (ke_bank env) w),
        dr_CobR = (\<lambda>w t. tick (ke_bank env) w)\<rparr>,
      cs_creds = Some (\<lambda>w t b. GetBankCredential (kw_vault w) t b),
      cs_sharing = Some (\<lambda>w. vault_sharing (kw_vault w)),
      cs_invoices = Some \<lparr>is_Save = (\<lambda>w i. on_store (\<lambda>s. Inr (SaveInvoice s i)) w),
        is_Find = (\<lambda>w t i. FindInvoiceByID (kw_store w) t i), is_List = (\<lambda>w t. Inr (ListInvoices (kw_store w) t))\<rparr>,
      cs_webhooks = Some \<lparr>wp_Get = (\<lambda>w a. GetOutboundWebhook (kw_hooks w) a),
        wp_Upsert = (\<lambda>w c. on_hooks (\<lambda>m. UpsertOutboundWebhook m c) w),
        wp_Delete = (\<lambda>w a. on_hooks (\<lambda>m. DeleteOutboundWebhook m a) w)\<rparr>,
      cs_Append = (\<lambda>w e. on_store (\<lambda>s. appendAudit s e) w),
      cs_Now = tick (ke_now env), cs_NewID = tick (ke_id env)\<rparr>"

definition hook_map :: "webhook_store \<Rightarrow> string \<Rightarrow> webhook_config option" where
  "hook_map m a = (case GetOutboundWebhook m a of Inl e \<Rightarrow> None | Inr c \<Rightarrow> Some c)"

definition console_view_of :: "console_world \<Rightarrow> console_view" where
  "console_view_of w = \<lparr>kv_tenants = map_of (st_tenants (kw_store w)), kv_vault = kw_vault w,
     kv_ledger = st_ledger (kw_store w), kv_invoices = st_invoices (kw_store w), kv_audit = st_audit (kw_store w),
     kv_hooks = hook_map (kw_hooks w)\<rparr>"

text \<open>A tenant is stored under its own id.\<close>

definition tenants_keyed :: "console_world \<Rightarrow> bool" where
  "tenants_keyed w \<longleftrightarrow> list_all (\<lambda>(t, x). tn_id x = t) (st_tenants (kw_store w))"

lemma memory_ports:
  "cs_SaveTenant (memory_console env) w x = on_store (\<lambda>s. saveTenant s x) w"
  "cs_FindTenant (memory_console env) w t = findTenantByID (kw_store w) t"
  "cs_ListLedger (memory_console env) w t = Inr (ListLedgerEntries (kw_store w) t)"
  "cs_ListLedgerByAccount (memory_console env) w t = Inr (ListLedgerEntriesByAccount (kw_store w) t)"
  "cs_SetCredential (memory_console env) w t b c sec = on_vault (\<lambda>m. SetBankCredential m t b c sec) w"
  "cs_SetCreditorKey (memory_console env) w t ck = on_vault (\<lambda>m. SetCreditorKey m t ck) w"
  "cs_Invalidate (memory_console env) w t = w\<lparr>kw_evicted := kw_evicted w @ [t]\<rparr>"
  "cs_sharing (memory_console env) = Some (\<lambda>w. vault_sharing (kw_vault w))"
  "cs_Append (memory_console env) w e = on_store (\<lambda>s. appendAudit s e) w"
  "cs_Now (memory_console env) w = tick (ke_now env) w" "cs_NewID (memory_console env) w = tick (ke_id env) w"
  by (simp_all add: memory_console_def)

lemma hook_map_Upsert: "UpsertOutboundWebhook m c = Inr m' \<Longrightarrow> hook_map m' = (hook_map m)(wc_accountID c \<mapsto> c)"
  by (rule ext) (simp add: hook_map_def Get_after_Upsert)

lemma hook_map_Delete: "DeleteOutboundWebhook m a = Inr m' \<Longrightarrow> hook_map m' = (hook_map m)(a := None)"
  by (rule ext) (simp add: hook_map_def Get_after_Delete)

lemma mset_ListLedger: "mset (ListLedgerEntries s t) = mset (of_tenant t (st_ledger s))"
  by (simp add: ListLedgerEntries_def filterLedger_def of_tenant_def)

lemma keyed_save: "tenants_keyed w \<Longrightarrow> tenants_keyed (w\<lparr>kw_store := (kw_store w)\<lparr>st_tenants := put (tn_id x) x (st_tenants (kw_store w))\<rparr>\<rparr>)"
  using set_put_subset [of "tn_id x" x "st_tenants (kw_store w)"] by (fastforce simp: tenants_keyed_def list_all_iff)

lemmas memory_defs = memory_console_def on_store_def on_vault_def on_certs_def on_hooks_def tick_def bindE_Inr_iff

interpretation con: console_contract "memory_console env" tenants_keyed console_view_of
proof (unfold_locales, goal_cases)
  case (1 w t x)
  then show ?case
    by (auto simp: memory_defs findTenantByID_def console_view_of_def tenants_keyed_def list_all_iff dest: map_of_SomeD)
next
  case (2 w t e)
  then show ?case by (auto simp: memory_defs findTenantByID_def console_view_of_def)
next
  case (3 w x w')
  then show ?case by (auto simp: memory_defs saveTenant_def console_view_of_def intro: keyed_save)
next
  case (4 w t es)
  then show ?case by (auto simp: memory_defs console_view_of_def mset_ListLedger)
next
  case (7 w)
  then show ?case by (simp add: memory_defs sharing_at_def console_view_of_def)
next
  case (21 w wp a cf)
  then show ?case by (auto simp: memory_defs console_view_of_def hook_map_def)
next
  case (22 w wp cf w')
  then show ?case by (auto simp: memory_defs console_view_of_def tenants_keyed_def intro!: hook_map_Upsert)
next
  case (23 w wp a w')
  then show ?case by (auto simp: memory_defs console_view_of_def tenants_keyed_def intro!: hook_map_Delete)
qed (auto simp: memory_defs console_view_of_def tenants_keyed_def appendAudit_def SaveInvoice_def SaveAccount_def upsertEndpointPrice_def)

section \<open>The view of the stores\<close>

lemma memory_NewID: "snd (cs_NewID (memory_console env) w) = ke_id env (kw_tick w)"
  by (simp add: memory_defs)

lemma view_simps [simp]:
  "kv_tenants (console_view_of w) = map_of (st_tenants (kw_store w))" "kv_vault (console_view_of w) = kw_vault w"
  "kv_ledger (console_view_of w) = st_ledger (kw_store w)" "kv_invoices (console_view_of w) = st_invoices (kw_store w)"
  "kv_audit (console_view_of w) = st_audit (kw_store w)" "kv_hooks (console_view_of w) = hook_map (kw_hooks w)"
  by (simp_all add: console_view_of_def)

lemma sound_console: "sound parse (console_view_of w) \<longleftrightarrow> vault_ok (kw_vault w) \<and>
    exclusive (active_in (map_of (st_tenants (kw_store w)))) (kw_vault w) \<and> webhooks_ok parse (kw_hooks w)"
  by (auto simp: sound_def webhooks_ok_def hook_map_def split: sum.splits)

section \<open>A console\<close>

definition sample_key :: string where "sample_key = ''11122233344''"

definition sample_console_env :: console_env where
  "sample_console_env = \<lparr>ke_now = (\<lambda>n. \<lparr>ns = 5, zone = 0\<rparr>), ke_id = (\<lambda>n. ''i1''), ke_bank = (\<lambda>n. None),
     ke_crypto = \<lparr>cy_pem = (\<lambda>x. None), cy_x509 = (\<lambda>x. Inl ErrNotFound), cy_sha256 = (\<lambda>x. x), cy_pair = (\<lambda>x y. None)\<rparr>\<rparr>"

definition sample_deps :: console_deps where
  "sample_deps = \<lparr>kd_crypto = ke_crypto sample_console_env, kd_parse = (\<lambda>u. Inl ErrNotFound), kd_random = (\<lambda>n. Inl ErrNotFound)\<rparr>"

definition tenant_named :: "string \<Rightarrow> tenant" where
  "tenant_named t = \<lparr>tn_id = t, tn_name = ''Acme'', tn_active = True, tn_createdAt = zero_time, tn_accountID = ''a1''\<rparr>"

definition credential_of :: "string \<Rightarrow> string \<Rightarrow> string \<Rightarrow> bank_credential" where
  "credential_of t cid ck = \<lparr>bk_TenantID = t, bk_BankID = ''c6'', bk_ClientID = cid, bk_Secret = ''s'', bk_CreditorKey = ck\<rparr>"

definition sample_console :: console_world where
  "sample_console = \<lparr>kw_store = NewStore\<lparr>st_tenants := [(''t1'', tenant_named ''t1''), (''t2'', tenant_named ''t2'')]\<rparr>,
     kw_vault = [(credKey ''t1'' ''c6'', credential_of ''t1'' ''c1'' sample_key), (credKey ''t2'' ''c6'', credential_of ''t2'' ''c2'' [])],
     kw_certs = [], kw_hooks = [], kw_evicted = [], kw_tick = 0\<rparr>"

lemma console_trims [simp]:
  "TrimSpace ''t1'' = ''t1''" "TrimSpace ''t2'' = ''t2''" "TrimSpace ''i1'' = ''i1''" "TrimSpace ''op'' = ''op''"
  "TrimSpace ''c6'' = ''c6''" "TrimSpace sample_key = sample_key"
  by (simp_all add: TrimSpace_plain plain_byte_def less_eq_char_def sample_key_def)

lemma sample_console_ok:
  "tenants_keyed sample_console" "vault_ok (kw_vault sample_console)" "webhooks_ok parse (kw_hooks sample_console)"
  "exclusive active (kw_vault sample_console)"
proof -
  show "tenants_keyed sample_console" by (simp add: tenants_keyed_def sample_console_def tenant_named_def)
  show "vault_ok (kw_vault sample_console)"
    by (simp add: vault_ok_def sample_console_def credential_of_def credKey_def defaultBankID_def nul_free_def)
  show "webhooks_ok parse (kw_hooks sample_console)"
    by (simp add: sample_console_def webhooks_ok_def GetOutboundWebhook_def)
  show "exclusive active (kw_vault sample_console)"
    by (simp add: exclusive_def sample_console_def credential_of_def sample_key_def)
qed

text \<open>
  C39: reactivating a tenant can put a bank identity into two active hands. The only holder of a PIX key
  is suspended; another active tenant registers the key, which the check allows; the first tenant is
  activated again, which is not checked. Every call succeeds, and two active tenants hold the key.
\<close>

theorem reactivation_shares_identity:
  "\<exists>w1 w2 w3. run_call (memory_console sample_console_env) sample_deps ''op'' (CallSuspendTenant ''t1'') sample_console = (w1, None) \<and>
     run_call (memory_console sample_console_env) sample_deps ''op'' (CallSetCreditorKey ''t2'' sample_key) w1 = (w2, None) \<and>
     run_call (memory_console sample_console_env) sample_deps ''op'' (CallActivateTenant ''t1'') w2 = (w3, None) \<and>
     list_all (\<lambda>t. active_in (map_of (st_tenants (kw_store w3))) t \<and>
        map_option bk_CreditorKey (map_of (kw_vault w3) (credKey t ''c6'')) = Some sample_key) [''t1'', ''t2'']"
proof -
  have ck: "validateCreditorKey sample_key = None" by (simp add: validateCreditorKey_def isTaxIDKey_def sample_key_def is_digit_def less_eq_char_def)
  have ne: "sample_key \<noteq> []" by (simp add: sample_key_def)
  note defs = console_tx audited_def memory_ports on_store_def on_vault_def tick_def outcome_def transition_def findTenantByID_def
    saveTenant_def appendAudit_def NewEntry_def NewCreditorKeySetEntry_def zero_entry_def Let_def lookup_def
  have env: "ke_now sample_console_env n = \<lparr>ns = 5, zone = 0\<rparr>" "ke_id sample_console_env n = ''i1''" for n
    by (simp_all add: sample_console_env_def)
  obtain w1 where w1: "run_call (memory_console sample_console_env) sample_deps ''op'' (CallSuspendTenant ''t1'') sample_console = (w1, None)"
    "st_tenants (kw_store w1) = [(''t1'', (tenant_named ''t1'')\<lparr>tn_active := False\<rparr>), (''t2'', tenant_named ''t2'')]"
    "kw_vault w1 = kw_vault sample_console"
    by (simp add: defs env SuspendTenant_def DeactivateTenant_def sample_console_def NewStore_def tenant_named_def)
  have keys: "credKey ''t2'' [] = credKey ''t2'' ''c6''" "credKey ''t1'' ''c6'' \<noteq> credKey ''t2'' ''c6''"
    by (simp_all add: credKey_def defaultBankID_def BankIDC6_def)
  have free: "assertCreditorKeyFree (memory_console sample_console_env) ''t2'' sample_key w1 = Inr ()"
    using w1(2,3) by (simp add: assertCreditorKeyFree_def assertCreditorKeyUnclaimed_def sharing_at_def memory_ports
        vault_sharing_def FindTenantsByCreditorKey_def findTenantByID_def lookup_def sample_console_def credential_of_def
        defaultBankID_def BankIDC6_def ne)
  obtain w2 where w2: "run_call (memory_console sample_console_env) sample_deps ''op'' (CallSetCreditorKey ''t2'' sample_key) w1 = (w2, None)"
    "st_tenants (kw_store w2) = st_tenants (kw_store w1)"
    "kw_vault w2 = [(credKey ''t1'' ''c6'', credential_of ''t1'' ''c1'' sample_key), (credKey ''t2'' ''c6'', credential_of ''t2'' ''c2'' sample_key)]"
    using w1(2,3) free ck keys ne
    by (simp add: SetCreditorKeyC_def SetCreditorKey_def defs env sample_console_def credential_of_def BankIDC6_def defaultBankID_def)
  obtain w3 where w3: "run_call (memory_console sample_console_env) sample_deps ''op'' (CallActivateTenant ''t1'') w2 = (w3, None)"
    "st_tenants (kw_store w3) = [(''t1'', tenant_named ''t1''), (''t2'', tenant_named ''t2'')]" "kw_vault w3 = kw_vault w2"
    using w1(2) w2(2) by (simp add: defs env ActivateTenantC_def ActivateTenant_def tenant_named_def)
  have "list_all (\<lambda>t. active_in (map_of (st_tenants (kw_store w3))) t \<and>
        map_option bk_CreditorKey (map_of (kw_vault w3) (credKey t ''c6'')) = Some sample_key) [''t1'', ''t2'']"
    using w3(2,3) w2(3) keys by (simp add: active_in_def tenant_named_def credential_of_def)
  with w1(1) w2(1) w3(1) show ?thesis by blast
qed

end
