(* ===== verification/ConsoleInvoices.thy ===== *)
theory ConsoleInvoices
  imports ConsoleMemory
begin

text \<open>
  The money side of the console over the in-memory store: consumption reports, the rollup of an
  account, the invoices frozen from them, and the guard against a double submission.
\<close>

section \<open>Reports\<close>

lemma memory_report:
  "ConsumptionInRange (memory_console env) t rng w = Inr rep \<longleftrightarrow>
     (\<exists>x. map_of (st_tenants (kw_store w)) (TrimSpace t) = Some x) \<and>
     rep = spec_report (TrimSpace t) rng (of_tenant (TrimSpace t) (st_ledger (kw_store w)))"
  using spec_report_mset [OF mset_ListLedger, of "TrimSpace t" rng "kw_store w" "TrimSpace t"]
  by (auto simp: ConsumptionInRange_def memory_ports findTenantByID_def bindE_Inr_iff Let_def report_of_spec)

lemma wrap64_sum_list: "wrap64 (\<Sum>x \<leftarrow> xs. wrap64 (f x)) = wrap64 (\<Sum>x \<leftarrow> xs. f x)"
proof (induction xs)
  case (Cons x xs)
  have "wrap64 (wrap64 (f x) + (\<Sum>x \<leftarrow> xs. wrap64 (f x))) = wrap64 (f x + wrap64 (\<Sum>x \<leftarrow> xs. wrap64 (f x)))" by simp
  with Cons show ?case by simp
qed simp

text \<open>The lines of a report add up to its totals, as 64-bit sums.\<close>

lemma spec_report_adds_up:
  "wrap64 (\<Sum>l \<leftarrow> cp_Lines (spec_report t rng es). cl_TotalCents l) = cp_TotalCents (spec_report t rng es)"
  "wrap64 (\<Sum>l \<leftarrow> cp_Lines (spec_report t rng es). cl_Calls l) = cp_TotalCalls (spec_report t rng es)"
  using wrap64_sum_list [of "\<lambda>ep. spent (at_endpoint ep (in_window rng es))" "sorted_list_of_set (le_endpoint ` set (in_window rng es))"]
    wrap64_sum_list [of "\<lambda>ep. int (length (at_endpoint ep (in_window rng es)))" "sorted_list_of_set (le_endpoint ` set (in_window rng es))"]
  by (simp_all add: spec_report_def spec_line_def Let_def comp_def spent_lines calls_lines)

section \<open>The invoice\<close>

lemma line_items_Inr:
  "line_items ls = Inr lis \<Longrightarrow> map li_subtotalCents lis = map cl_TotalCents ls \<and> map li_calls lis = map cl_Calls ls \<and>
     map li_endpoint lis = map (\<lambda>l. TrimSpace (cl_Endpoint l)) ls"
  by (induction ls arbitrary: lis) (auto simp: line_items_def bindE_Inr_iff NewLineItem_Inr_iff)

lemma GenerateInvoice_run:
  assumes "GenerateInvoice (memory_console env) opr t rng w = (w', Inr iv)"
  shows "\<exists>x rep lines iid now i at e. map_of (st_tenants (kw_store w)) (TrimSpace t) = Some x \<and>
    ConsumptionInRange (memory_console env) (TrimSpace t) rng w = Inr rep \<and> line_items (cp_Lines rep) = Inr lines \<and>
    NewInvoice iid (TrimSpace t) (if tn_accountID x = [] then ''acct-'' @ TrimSpace t else tn_accountID x)
       (rg_Start rng) (rg_End rng) now lines = Inr iv \<and>
    NewEntry i opr ActionInvoiceGenerated (TrimSpace t) at = Inr e \<and>
    kw_store w' = (kw_store w)\<lparr>st_invoices := st_invoices (kw_store w) @ [iv], st_audit := st_audit (kw_store w) @ [e]\<rparr>"
proof -
  have inv: "cs_invoices (memory_console env) = Some \<lparr>is_Save = (\<lambda>w i. on_store (\<lambda>s. Inr (SaveInvoice s i)) w),
        is_Find = (\<lambda>w t i. FindInvoiceByID (kw_store w) t i), is_List = (\<lambda>w t. Inr (ListInvoices (kw_store w) t))\<rparr>"
    by (simp add: memory_console_def)
  from assms show ?thesis
    unfolding GenerateInvoice_def inv option.case Let_def
    by (clarsimp simp: console_tx memory_ports tick_def on_store_def appendAudit_def SaveInvoice_def findTenantByID_def
        split: if_splits sum.splits) blast+
qed

lemma spec_report_total:
  "cp_TotalCents (spec_report t rng es) = wrap64 (spent (in_window rng es))"
  "cp_TotalCalls (spec_report t rng es) = wrap64 (int (length (in_window rng es)))"
  by (simp_all add: spec_report_def Let_def)

text \<open>
  C17: an invoice bills exactly the ledger. When the console generates an invoice for a tenant and a
  period, its lines are those of the tenant's consumption report, its totals are the number and the
  sum of the prices of the tenant's own ledger entries whose instant lies in the period (exactly, if
  these fit in 64 bits), it names the account the tenant is bound to or else the derived one, and the
  only changes to the store are this invoice and one audit entry of the operator.
\<close>

theorem invoice_bills_ledger:
  assumes "GenerateInvoice (memory_console env) opr t rng w = (w', Inr iv)"
    and ws: "ws = in_window rng (of_tenant (TrimSpace t) (st_ledger (kw_store w)))"
  shows "inv_tenantID iv = TrimSpace t \<and> inv_periodStart iv = rg_Start rng \<and> inv_periodEnd iv = rg_End rng \<and>
    inv_totalCents iv = wrap64 (spent ws) \<and> inv_totalCalls iv = wrap64 (int (length ws)) \<and>
    (in64 (spent ws) \<longrightarrow> inv_totalCents iv = spent ws) \<and>
    mset (map li_subtotalCents (inv_lines iv)) =
      mset (map (\<lambda>ep. wrap64 (spent (at_endpoint ep ws))) (sorted_list_of_set (le_endpoint ` set ws))) \<and>
    (\<exists>x. map_of (st_tenants (kw_store w)) (TrimSpace t) = Some x \<and>
       inv_accountID iv = TrimSpace (if tn_accountID x = [] then ''acct-'' @ TrimSpace t else tn_accountID x)) \<and>
    (\<exists>e. au_action e = ActionInvoiceGenerated \<and> au_tenantID e = TrimSpace t \<and> au_operatorID e = TrimSpace opr \<and>
       kw_store w' = (kw_store w)\<lparr>st_invoices := st_invoices (kw_store w) @ [iv], st_audit := st_audit (kw_store w) @ [e]\<rparr>)"
proof -
  from GenerateInvoice_run [OF assms(1)] obtain x rep lines iid now i at e where
    x: "map_of (st_tenants (kw_store w)) (TrimSpace t) = Some x" and rep: "ConsumptionInRange (memory_console env) (TrimSpace t) rng w = Inr rep"
    and lines: "line_items (cp_Lines rep) = Inr lines"
    and iv: "NewInvoice iid (TrimSpace t) (if tn_accountID x = [] then ''acct-'' @ TrimSpace t else tn_accountID x)
       (rg_Start rng) (rg_End rng) now lines = Inr iv"
    and e: "NewEntry i opr ActionInvoiceGenerated (TrimSpace t) at = Inr e"
    and w': "kw_store w' = (kw_store w)\<lparr>st_invoices := st_invoices (kw_store w) @ [iv], st_audit := st_audit (kw_store w) @ [e]\<rparr>"
    by blast
  note f = NewInvoice_Inr [OF iv]
  let ?es = "of_tenant (TrimSpace t) (st_ledger (kw_store w))"
  have r: "rep = spec_report (TrimSpace t) rng ?es" using rep by (simp add: memory_report)
  note li = line_items_Inr [OF lines, unfolded r]
  have cents: "inv_totalCents iv = wrap64 (spent ws)" and calls: "inv_totalCalls iv = wrap64 (int (length ws))"
    using f(5,6) li spec_report_adds_up [of "TrimSpace t" rng ?es] spec_report_total [of "TrimSpace t" rng ?es] by (simp_all add: ws)
  have "mset (map li_subtotalCents (inv_lines iv)) = mset (map cl_TotalCents (cp_Lines (spec_report (TrimSpace t) rng ?es)))"
    using li unfolding f(3) by (metis mset_map mset_sort)
  also have "\<dots> = mset (map (\<lambda>ep. wrap64 (spent (at_endpoint ep ws))) (sorted_list_of_set (le_endpoint ` set ws)))"
    by (simp add: spec_report_def spec_line_def ws Let_def comp_def)
  finally have ls: "mset (map li_subtotalCents (inv_lines iv)) =
      mset (map (\<lambda>ep. wrap64 (spent (at_endpoint ep ws))) (sorted_list_of_set (le_endpoint ` set ws)))" .
  have en: "au_action e = ActionInvoiceGenerated" "au_tenantID e = TrimSpace t" "au_operatorID e = TrimSpace opr"
    using e by (auto simp: NewEntry_def zero_entry_def Let_def split: if_splits)
  show ?thesis using f(1,2,7,8) cents calls ls en x w' by auto
qed

section \<open>Reports against their definitions\<close>

text \<open>
  C18: a consumption report is what it is meant to be. The single pass over the ledger with a map of
  running lines returns the tenant's entries in the window grouped by endpoint, in the order of the
  endpoints, each with its number of calls and the sum of its recorded prices. When the prices are
  not negative and their sum and number fit in 64 bits, every figure is exact and the lines add up to
  the totals.
\<close>

theorem consumption_report_exact:
  assumes "ConsumptionInRange (memory_console env) t rng w = Inr rep"
    and ws: "ws = in_window rng (of_tenant (TrimSpace t) (st_ledger (kw_store w)))"
  shows "rep = \<lparr>cp_TenantID = TrimSpace t, cp_Lines = map (spec_line ws) (sorted_list_of_set (le_endpoint ` set ws)),
      cp_TotalCalls = wrap64 (int (length ws)), cp_TotalCents = wrap64 (spent ws)\<rparr> \<and>
    (list_all (\<lambda>e. 0 \<le> le_priceCents e) ws \<and> spent ws \<le> max64 \<and> int (length ws) \<le> max64 \<longrightarrow>
       cp_Lines rep = map (\<lambda>ep. \<lparr>cl_Endpoint = ep, cl_Calls = int (length (at_endpoint ep ws)),
          cl_TotalCents = spent (at_endpoint ep ws)\<rparr>) (sorted_list_of_set (le_endpoint ` set ws)) \<and>
       (\<Sum>l \<leftarrow> cp_Lines rep. cl_TotalCents l) = spent ws \<and> (\<Sum>l \<leftarrow> cp_Lines rep. cl_Calls l) = int (length ws))"
proof -
  have r: "rep = spec_report (TrimSpace t) rng (of_tenant (TrimSpace t) (st_ledger (kw_store w)))"
    using assms(1) by (simp add: memory_report)
  have exact: "spec_line ws = (\<lambda>ep. \<lparr>cl_Endpoint = ep, cl_Calls = int (length (at_endpoint ep ws)), cl_TotalCents = spent (at_endpoint ep ws)\<rparr>)"
    if "list_all (\<lambda>e. 0 \<le> le_priceCents e) ws \<and> spent ws \<le> max64 \<and> int (length ws) \<le> max64"
    using spec_line_exact [of ws] that by blast
  show ?thesis unfolding r ws [symmetric]
    using exact by (simp add: spec_report_def ws [symmetric] Let_def comp_def spent_lines calls_lines)
qed

lemma sum_by_key:
  "(\<Sum>k \<leftarrow> sorted_list_of_set (g ` set es). sum_list (map f (filter (\<lambda>e. g e = k) es))) = sum_list (map f es)"
  for f :: "'a \<Rightarrow> int" and g :: "'a \<Rightarrow> 'k :: linorder"
proof -
  have "(\<Sum>k \<in> S. sum_list (map f (filter (\<lambda>e. g e = k) es))) = sum_list (map f es)" if "finite S" "g ` set es \<subseteq> S" for S
    using that(2)
  proof (induction es)
    case (Cons e es)
    have "(\<Sum>k \<in> S. sum_list (map f (filter (\<lambda>e. g e = k) (e # es)))) =
        (\<Sum>k \<in> S. (if g e = k then f e else 0) + sum_list (map f (filter (\<lambda>e. g e = k) es)))"
      by (intro sum.cong) simp_all
    also have "\<dots> = f e + sum_list (map f es)" using Cons that(1) by (simp add: sum.distrib sum.delta')
    finally show ?case by simp
  qed simp
  from this [of "g ` set es"] show ?thesis by (simp add: sum_list_distinct_conv_sum_set)
qed

lemma spec_slice_mset: "mset es = mset fs \<Longrightarrow> spec_slice rng es t = spec_slice rng fs t"
  using spec_report_mset [of "of_tenant t es" "of_tenant t fs" t rng] by (simp add: spec_slice_def of_tenant_def Let_def)

lemma spec_account_report_mset:
  assumes "mset es = mset fs"
  shows "spec_account_report a rng es = spec_account_report a rng fs"
proof -
  have w: "mset (in_window rng es) = mset (in_window rng fs)" using assms by (simp add: in_window_includes)
  then have "spent (in_window rng es) = spent (in_window rng fs)" unfolding spent_def by (metis mset_map sum_mset_sum_list)
  with mset_eq_setD [OF w] mset_eq_length [OF w] spec_slice_mset [OF assms, of rng] show ?thesis
    by (simp add: spec_account_report_def Let_def cong: map_cong)
qed

definition of_account :: "string \<Rightarrow> ledger_entry list \<Rightarrow> ledger_entry list" where
  "of_account a es = filter (\<lambda>e. le_accountID e = a) es"

lemma memory_account_report:
  assumes "AccountConsumptionInRange (memory_console env) a rng w = Inr rep"
  shows "rep = spec_account_report (TrimSpace a) rng (of_account (TrimSpace a) (st_ledger (kw_store w)))"
proof -
  have "mset (ListLedgerEntriesByAccount (kw_store w) (TrimSpace a)) = mset (of_account (TrimSpace a) (st_ledger (kw_store w)))"
    by (simp add: ListLedgerEntriesByAccount_def filterLedger_def of_account_def)
  from spec_account_report_mset [OF this] assms show ?thesis
    by (auto simp: AccountConsumptionInRange_def memory_ports bindE_Inr_iff Let_def account_report_spec split: if_splits)
qed

text \<open>
  the rollup of an account agrees with the reports of its tenants. It lists exactly the tenants
  with an entry of the account in the window, in order; the slice of each is the consumption report
  over that tenant's entries of the account; and if all the tenant's entries are the account's, it is
  the report the console gives for the tenant itself. The slices add up to the account's totals, as
  64-bit sums.
\<close>

theorem account_rollup_agrees:
  assumes "AccountConsumptionInRange (memory_console env) a rng w = Inr rep"
    and es: "es = of_account (TrimSpace a) (st_ledger (kw_store w))"
  shows "map tm_TenantID (ar_Tenants rep) = sorted_list_of_set (le_tenantID ` set (in_window rng es)) \<and>
    ar_TotalCents rep = wrap64 (\<Sum>x \<leftarrow> ar_Tenants rep. tm_TotalCents x) \<and>
    ar_TotalCalls rep = wrap64 (\<Sum>x \<leftarrow> ar_Tenants rep. tm_TotalCalls x) \<and>
    (\<forall>x \<in> set (ar_Tenants rep). \<forall>r. ConsumptionInRange (memory_console env) (tm_TenantID x) rng w = Inr r \<longrightarrow>
       TrimSpace (tm_TenantID x) = tm_TenantID x \<longrightarrow> of_tenant (tm_TenantID x) es = of_tenant (tm_TenantID x) (st_ledger (kw_store w)) \<longrightarrow>
       x = \<lparr>tm_TenantID = cp_TenantID r, tm_Lines = cp_Lines r, tm_TotalCalls = cp_TotalCalls r, tm_TotalCents = cp_TotalCents r\<rparr>)"
proof -
  have rep: "rep = spec_account_report (TrimSpace a) rng es" using memory_account_report [OF assms(1)] es by simp
  let ?ws = "in_window rng es" and ?ts = "sorted_list_of_set (le_tenantID ` set (in_window rng es))"
  have slice: "tm_TenantID (spec_slice rng es t) = t" "tm_TotalCents (spec_slice rng es t) = wrap64 (spent (of_tenant t ?ws))"
    "tm_TotalCalls (spec_slice rng es t) = wrap64 (int (length (of_tenant t ?ws)))" for t
    by (simp_all add: spec_slice_def spec_report_def of_tenant_window Let_def)
  have "(\<Sum>t \<leftarrow> ?ts. spent (of_tenant t ?ws)) = spent ?ws"
    unfolding spent_def of_tenant_def by (rule sum_by_key)
  moreover have "(\<Sum>t \<leftarrow> ?ts. int (length (of_tenant t ?ws))) = int (length ?ws)"
    using sum_by_key [of "\<lambda>_. 1" le_tenantID ?ws] by (simp add: of_tenant_def sum_list_triv)
  ultimately have sums: "wrap64 (\<Sum>t \<leftarrow> ?ts. wrap64 (spent (of_tenant t ?ws))) = wrap64 (spent ?ws)"
    "wrap64 (\<Sum>t \<leftarrow> ?ts. wrap64 (int (length (of_tenant t ?ws)))) = wrap64 (int (length ?ws))"
    by (simp_all add: wrap64_sum_list)
  have own: "x = \<lparr>tm_TenantID = cp_TenantID r, tm_Lines = cp_Lines r, tm_TotalCalls = cp_TotalCalls r, tm_TotalCents = cp_TotalCents r\<rparr>"
    if "x \<in> set (ar_Tenants rep)" "ConsumptionInRange (memory_console env) (tm_TenantID x) rng w = Inr r"
      "TrimSpace (tm_TenantID x) = tm_TenantID x" "of_tenant (tm_TenantID x) es = of_tenant (tm_TenantID x) (st_ledger (kw_store w))" for x r
  proof -
    from that(1) obtain t where "x = spec_slice rng es t" by (auto simp: rep spec_account_report_def Let_def)
    with that(2-4) show ?thesis by (simp add: slice memory_report spec_slice_def Let_def) (simp add: spec_report_def Let_def)
  qed
  have "map tm_TenantID (ar_Tenants rep) = ?ts"
    by (simp add: rep spec_account_report_def slice comp_def Let_def)
  moreover have "ar_TotalCents rep = wrap64 (\<Sum>x \<leftarrow> ar_Tenants rep. tm_TotalCents x)" "ar_TotalCalls rep = wrap64 (\<Sum>x \<leftarrow> ar_Tenants rep. tm_TotalCalls x)"
    using sums by (simp_all add: rep spec_account_report_def slice comp_def Let_def)
  ultimately show ?thesis using own by blast
qed

section \<open>A double submission\<close>

lemma map_of_filter_put: "P (k, e) \<Longrightarrow> map_of (filter P (put k e m)) k = Some e"
  by (induction k e m rule: put.induct) auto

text \<open>
  a double submission generates nothing twice. After a batch generation under a token that the
  guard had not seen, a second submission for the same account with the same token within the guard's
  lifetime returns the very invoices of the first, whatever happened in between and whoever asks, and
  leaves the store alone.
\<close>

theorem double_submit_replayed:
  assumes "TrimSpace token \<noteq> []" and "map_of g (TrimSpace a @ [CHR 0x00] @ TrimSpace token) = None"
    and "GenerateAccountInvoices (memory_console env) opr a rng token (Some g) w = (Some g1, w1, Inr invs)"
    and "SubTime (ke_now env (kw_tick w2)) (ke_now env (kw_tick w)) \<le> invoiceBatchIdempotencyTTL"
    and "TrimSpace a' = TrimSpace a" "TrimSpace token' = TrimSpace token"
  shows "\<exists>g2. GenerateAccountInvoices (memory_console env) opr' a' rng' token' (Some g1) w2 = (Some g2, w2\<lparr>kw_tick := Suc (kw_tick w2)\<rparr>, Inr invs)"
proof -
  let ?k = "TrimSpace a @ [CHR 0x00] @ TrimSpace token" and ?now = "ke_now env (kw_tick w)"
  have "map_of (pruneLocked ?now g) ?k = None"
    using assms(2) by (force simp: pruneLocked_def map_of_eq_None_iff)
  then have "g1 = put ?k \<lparr>ib_invoices = invs, ib_at = ?now\<rparr> (pruneLocked ?now g)"
    using assms(1,3) by (auto simp: GenerateAccountInvoices_def memory_ports tick_def Let_def split: prod.splits sum.splits)
  then have "map_of (pruneLocked (ke_now env (kw_tick w2)) g1) ?k = Some \<lparr>ib_invoices = invs, ib_at = ?now\<rparr>"
    unfolding pruneLocked_def [of "ke_now env (kw_tick w2)"] using assms(4) by (simp add: map_of_filter_put)
  then show ?thesis using assms(1,5,6) by (simp add: GenerateAccountInvoices_def memory_ports tick_def Let_def)
qed

section \<open>A billed tenant\<close>

definition sample_use :: "string \<Rightarrow> int \<Rightarrow> int \<Rightarrow> ledger_entry" where
  "sample_use i p n = \<lparr>le_id = i, le_tenantID = ''t1'', le_endpoint = ''pix'', le_priceCents = p, le_reference = [],
     le_at = \<lparr>ns = n, zone = 0\<rparr>, le_accountID = ''a1''\<rparr>"

definition billing_console :: "nat \<Rightarrow> console_world" where
  "billing_console n = sample_console\<lparr>kw_tick := n, kw_store := NewStore\<lparr>st_tenants := [(''t1'', tenant_named ''t1'')],
     st_accounts := [(''a1'', \<lparr>ac_id = ''a1'', ac_name = ''Acme'', ac_active = True, ac_createdAt = zero_time\<rparr>)],
     st_ledger := [sample_use ''e1'' 100 10, sample_use ''e2'' 250 20, sample_use ''e3'' 999 30]\<rparr>\<rparr>"

definition sample_period :: consumption_range where
  "sample_period = \<lparr>rg_Start = \<lparr>ns = 5, zone = 0\<rparr>, rg_End = \<lparr>ns = 25, zone = 0\<rparr>\<rparr>"

abbreviation billed_uses :: "ledger_entry list" where
  "billed_uses \<equiv> [sample_use ''e1'' 100 10, sample_use ''e2'' 250 20]"

lemma billing_trims [simp]: "TrimSpace ''a1'' = ''a1''" "TrimSpace ''pix'' = ''pix''" "TrimSpace ''k'' = ''k''"
  by (simp_all add: TrimSpace_plain plain_byte_def less_eq_char_def)

lemma billing_ledger:
  "in_window sample_period (of_tenant ''t1'' (st_ledger (kw_store (billing_console n)))) = billed_uses"
  "in_window sample_period (of_account ''a1'' (st_ledger (kw_store (billing_console n)))) = billed_uses"
  "spent billed_uses = 350"
  by (simp_all add: in_window_includes of_tenant_def of_account_def spent_def billing_console_def sample_use_def sample_period_def
      in_range_def IsZeroTime_def zero_time_def Before_def)

lemma billing_report:
  "ConsumptionInRange (memory_console env) ''t1'' sample_period (billing_console n) =
     Inr \<lparr>cp_TenantID = ''t1'', cp_Lines = [\<lparr>cl_Endpoint = ''pix'', cl_Calls = 2, cl_TotalCents = 350\<rparr>], cp_TotalCalls = 2, cp_TotalCents = 350\<rparr>"
proof -
  have "spec_line billed_uses ''pix'' = \<lparr>cl_Endpoint = ''pix'', cl_Calls = 2, cl_TotalCents = 350\<rparr>"
    by (simp add: spec_line_def at_endpoint_def spent_def sample_use_def in64_def min64_def max64_def)
  moreover have "le_endpoint ` set billed_uses = {''pix''}" by (simp add: sample_use_def)
  moreover have "map_of (st_tenants (kw_store (billing_console n))) ''t1'' = Some (tenant_named ''t1'')" by (simp add: billing_console_def)
  ultimately show ?thesis
    by (simp add: memory_report spec_report_def billing_ledger Let_def in64_def min64_def max64_def)
qed

lemma billed_fits: "list_all (\<lambda>e. 0 \<le> le_priceCents e) billed_uses \<and> spent billed_uses \<le> max64 \<and> int (length billed_uses) \<le> max64"
  unfolding billing_ledger by (simp add: sample_use_def max64_def)

theorem consumption_report_exact_witness:
  "\<exists>rep. ConsumptionInRange (memory_console sample_console_env) ''t1'' sample_period (billing_console 0) = Inr rep \<and>
     (\<Sum>l \<leftarrow> cp_Lines rep. cl_TotalCents l) = 350"
proof -
  have "billed_uses = in_window sample_period (of_tenant (TrimSpace ''t1'') (st_ledger (kw_store (billing_console 0))))"
    by (simp add: billing_ledger)
  note exact = consumption_report_exact [OF billing_report [of sample_console_env 0] this]
  from conjunct1 [OF conjunct2 [OF mp [OF conjunct2 [OF exact] billed_fits]], unfolded billing_ledger(3)]
  show ?thesis by (intro exI conjI) (rule billing_report)
qed

theorem account_rollup_agrees_witness:
  "\<exists>rep. AccountConsumptionInRange (memory_console sample_console_env) ''a1'' sample_period (billing_console 0) = Inr rep \<and>
     map tm_TenantID (ar_Tenants rep) = [''t1'']"
proof -
  obtain rep where rep: "AccountConsumptionInRange (memory_console sample_console_env) ''a1'' sample_period (billing_console 0) = Inr rep"
    by (simp add: AccountConsumptionInRange_def memory_console_def billing_console_def FindAccountByID_def lookup_def Let_def)
  have "le_tenantID ` set billed_uses = {''t1''}" by (simp add: sample_use_def)
  with account_rollup_agrees [OF rep refl] rep show ?thesis by (simp add: billing_ledger)
qed

definition sample_invoice :: invoice where
  "sample_invoice = \<lparr>inv_id = ''i1'', inv_tenantID = ''t1'', inv_accountID = ''a1'', inv_periodStart = \<lparr>ns = 5, zone = 0\<rparr>,
     inv_periodEnd = \<lparr>ns = 25, zone = 0\<rparr>, inv_lines = [\<lparr>li_endpoint = ''pix'', li_calls = 2, li_subtotalCents = 350\<rparr>],
     inv_totalCalls = 2, inv_totalCents = 350, inv_generatedAt = \<lparr>ns = 5, zone = 0\<rparr>\<rparr>"

lemma sample_invoice_run:
  "\<exists>w'. GenerateInvoice (memory_console sample_console_env) ''op'' ''t1'' sample_period (billing_console n) = (w', Inr sample_invoice)"
proof -
  have line: "line_items [\<lparr>cl_Endpoint = ''pix'', cl_Calls = 2, cl_TotalCents = 350\<rparr>] = Inr [\<lparr>li_endpoint = ''pix'', li_calls = 2, li_subtotalCents = 350\<rparr>]"
    by (simp add: line_items_def NewLineItem_def)
  have new: "NewInvoice ''i1'' ''t1'' ''a1'' (rg_Start sample_period) (rg_End sample_period) \<lparr>ns = 5, zone = 0\<rparr>
      [\<lparr>li_endpoint = ''pix'', li_calls = 2, li_subtotalCents = 350\<rparr>] = Inr sample_invoice"
    by (simp add: NewInvoice_def sample_invoice_def sample_period_def IsZeroTime_def Before_def add64_def in64_def min64_def max64_def)
  have period: "\<not> IsZeroTime (rg_Start sample_period)" "\<not> IsZeroTime (rg_End sample_period)" "Before (rg_Start sample_period) (rg_End sample_period)"
    by (simp_all add: sample_period_def IsZeroTime_def Before_def)
  have tn: "findTenantByID (kw_store (billing_console n)) ''t1'' = Inr (tenant_named ''t1'')" "tn_accountID (tenant_named ''t1'') = ''a1''"
    by (simp_all add: findTenantByID_def lookup_def billing_console_def tenant_named_def)
  have inv: "cs_invoices (memory_console sample_console_env) = Some \<lparr>is_Save = (\<lambda>w i. on_store (\<lambda>s. Inr (SaveInvoice s i)) w),
        is_Find = (\<lambda>w t i. FindInvoiceByID (kw_store w) t i), is_List = (\<lambda>w t. Inr (ListInvoices (kw_store w) t))\<rparr>"
    by (simp add: memory_console_def)
  have env: "ke_now sample_console_env k = \<lparr>ns = 5, zone = 0\<rparr>" "ke_id sample_console_env k = ''i1''" for k
    by (simp_all add: sample_console_env_def)
  show ?thesis
    by (simp add: GenerateInvoice_def inv period console_tx memory_ports tn billing_report line tick_def env new on_store_def
        NewEntry_def appendAudit_def Let_def)
qed

theorem invoice_bills_ledger_witness:
  "\<exists>w' iv. GenerateInvoice (memory_console sample_console_env) ''op'' ''t1'' sample_period (billing_console 0) = (w', Inr iv) \<and>
     inv_totalCents iv = 350 \<and> st_invoices (kw_store w') = [iv]"
proof -
  obtain w' where r: "GenerateInvoice (memory_console sample_console_env) ''op'' ''t1'' sample_period (billing_console 0) = (w', Inr sample_invoice)"
    using sample_invoice_run by blast
  have "billed_uses = in_window sample_period (of_tenant (TrimSpace ''t1'') (st_ledger (kw_store (billing_console 0))))"
    by (simp add: billing_ledger)
  from invoice_bills_ledger [OF r this] billing_ledger(3) have "inv_totalCents sample_invoice = 350"
    "st_invoices (kw_store w') = st_invoices (kw_store (billing_console 0)) @ [sample_invoice]"
    by (auto simp: in64_def min64_def max64_def)
  with r show ?thesis by (auto simp: billing_console_def NewStore_def)
qed

lemma sample_batch:
  "\<exists>w'. generateAccountInvoices (memory_console sample_console_env) ''op'' ''a1'' sample_period (billing_console n) = (w', Inr [sample_invoice])"
proof -
  obtain w' where r: "GenerateInvoice (memory_console sample_console_env) ''op'' ''t1'' sample_period (billing_console n) = (w', Inr sample_invoice)"
    using sample_invoice_run by blast
  have period: "\<not> IsZeroTime (rg_Start sample_period)" "\<not> IsZeroTime (rg_End sample_period)" "Before (rg_Start sample_period) (rg_End sample_period)"
    by (simp_all add: sample_period_def IsZeroTime_def Before_def)
  have ports: "cs_invoices (memory_console sample_console_env) \<noteq> None"
    "\<exists>ap. cs_accounts (memory_console sample_console_env) = Some ap \<and> (\<exists>a. as_Find ap (billing_console n) ''a1'' = Inr a)"
    by (simp_all add: memory_console_def FindAccountByID_def lookup_def billing_console_def)
  have ts: "ListTenantsByAccount (memory_console sample_console_env) ''a1'' (billing_console n) = Inr [tenant_named ''t1'']"
    by (simp add: ListTenantsByAccount_def memory_console_def ListTenants_def billing_console_def effectiveAccountID_def tenant_named_def)
  have tn: "tn_id (tenant_named ''t1'') = ''t1''" by (simp add: tenant_named_def)
  from ports show ?thesis
    by (auto simp: generateAccountInvoices_def period console_tx ts tn billing_report r Let_def)
qed

theorem double_submit_replayed_witness:
  "\<exists>g1 w1 g2. GenerateAccountInvoices (memory_console sample_console_env) ''op'' ''a1'' sample_period ''k'' (Some []) (billing_console 0) =
       (Some g1, w1, Inr [sample_invoice]) \<and>
     GenerateAccountInvoices (memory_console sample_console_env) ''op'' ''a1'' sample_period ''k'' (Some g1) w1 =
       (Some g2, w1\<lparr>kw_tick := Suc (kw_tick w1)\<rparr>, Inr [sample_invoice])"
proof -
  obtain w1 where b: "generateAccountInvoices (memory_console sample_console_env) ''op'' ''a1'' sample_period (billing_console 1) = (w1, Inr [sample_invoice])"
    using sample_batch by blast
  have "(billing_console 0)\<lparr>kw_tick := Suc 0\<rparr> = billing_console 1" "kw_tick (billing_console 0) = 0" by (simp_all add: billing_console_def)
  with b obtain g1 where run: "GenerateAccountInvoices (memory_console sample_console_env) ''op'' ''a1'' sample_period ''k'' (Some []) (billing_console 0) =
       (Some g1, w1, Inr [sample_invoice])"
    by (simp add: GenerateAccountInvoices_def pruneLocked_def memory_ports tick_def Let_def)
  have soon: "SubTime (ke_now sample_console_env (kw_tick w1)) (ke_now sample_console_env (kw_tick (billing_console 0))) \<le> invoiceBatchIdempotencyTTL"
    by (simp add: sample_console_env_def SubTime_def invoiceBatchIdempotencyTTL_def in64_def min64_def max64_def)
  from double_submit_replayed [OF _ _ run soon refl refl, of "''op''" sample_period] run show ?thesis by auto
qed

end
