(* ===== verification/Billable.thy ===== *)
theory Billable
  imports Charge
begin

text \<open>
  What the creating services share. \<open>app/pix.go\<close>, \<open>app/pixcobv.go\<close>, \<open>app/checkout.go\<close> and
  \<open>app/boleto.go\<close> repeat the discipline of \<open>app/charge.go\<close>: reserve the idempotency key, call the
  bank, store the bank's id together with the bill, announce the payment. They differ in what they
  validate, in the endpoint they bill, and in what they do when the key was used before. Here are
  the two parts the four files have in common; the discipline as one function of what differs,
  \<open>create_with\<close>; and the locale \<open>billable_service\<close>, whose law is that a service is an instance of it. What
  holds of the discipline (the books stay in order; in memory, exactly what each state of the key
  leads to) then holds of all of them.
\<close>

section \<open>Definitions\<close>

text \<open>The identifiers and clock readings one call draws.\<close>

record stamps =
  sp_paymentID :: string
  sp_reservedAt :: gotime
  sp_entryID :: string
  sp_billedAt :: gotime

text \<open>What a call did besides changing the store, in order: a call to the bank or a message.\<close>

datatype 'c svc_effect = Called 'c | Announced effect

text \<open>The idempotent reservation of a payment of a given amount.\<close>

definition reserveAmount ::
  "'s repository \<Rightarrow> stamps \<Rightarrow> 's \<Rightarrow> string \<Rightarrow> string \<Rightarrow> string \<Rightarrow> money \<Rightarrow> 's \<times> payment result" where
  "reserveAmount r sp s endpoint tenantID idemKey amount =
     (case FindPaymentByIdempotencyKey r s tenantID idemKey of
        Inr existing \<Rightarrow> (s, Inr existing)
      | Inl e \<Rightarrow>
          if \<not> errors_Is e ErrNotFound then (s, Inl (Errorf ''idempotency lookup'' e))
          else
            (case NewPayment (sp_paymentID sp) tenantID endpoint idemKey amount (sp_reservedAt sp) of
               Inl e \<Rightarrow> (s, Inl e)
             | Inr p \<Rightarrow>
                 (case WithinTx r s (\<lambda>s. case SavePayment r s p of
                                           Inl e \<Rightarrow> (s, Inl e)
                                         | Inr s' \<Rightarrow> (s', Inr ())) of
                    (s', Inr _) \<Rightarrow> (s', Inr p)
                  | (s', Inl e) \<Rightarrow>
                      if errors_Is e ErrConflict
                      then (s', wrapE ''resolve idempotency conflict''
                                  (FindPaymentByIdempotencyKey r s' tenantID idemKey))
                      else (s', Inl (Errorf ''reserve payment'' e)))))"

text \<open>
  The tail of a creation, once the bank answered with \<open>txID\<close>: the payment gets the id, the ledger entry
  is built, both are stored in one unit of work unless the payment was finalized meanwhile, and the
  payment is announced if this call finalized it.
\<close>

definition bill_created ::
  "'s repository \<Rightarrow> stamps \<Rightarrow> 's \<Rightarrow> create_charge_input \<Rightarrow> payment \<Rightarrow> endpoint_pricing \<Rightarrow> string \<Rightarrow>
     's \<times> effect list \<times> payment result" where
  "bill_created r sp s inp p price txID =
     (let p = SetTxID p txID
      in case NewLedgerEntry (sp_entryID sp) (ci_TenantID inp) (ci_Endpoint inp) (pay_id p)
            (ep_priceCents price) (sp_billedAt sp) [WithAccount (ci_AccountID inp)] of
           Inl e \<Rightarrow> (s, [], Inl e)
         | Inr le \<Rightarrow>
             (case charge_finalize r s inp p le of
                (s', Inl e) \<Rightarrow> (s', [], Inl e)
              | (s', Inr (q, finalized)) \<Rightarrow>
                  (s', if finalized then [publishPaymentEvent TopicPaymentCreated q] else [], Inr q)))"

text \<open>The tenant and key checks every creation opens with.\<close>

definition admit_tenant :: "'s repository \<Rightarrow> 's \<Rightarrow> string \<Rightarrow> string \<Rightarrow> unit result" where
  "admit_tenant r s tenantID idemKey =
     bindE (wrapE ''resolve tenant'' (FindTenantByID r s tenantID))
       (\<lambda>t. if \<not> tn_active t then Inl (NewValidationError ''tenant'' ''tenant is not active'')
            else if idemKey = []
            then Inl (NewValidationError ''idempotency_key'' ''idempotency key is required'')
            else Inr ())"

text \<open>An all-digit CPF (11) or CNPJ (14).\<close>

definition isTaxID :: "string \<Rightarrow> bool" where
  "isTaxID s \<longleftrightarrow> (length s = 11 \<or> length s = 14) \<and> list_all is_digit s"

text \<open>A call's stamps as the environment of the charge service, whose bank it does not use.\<close>

definition charge_env_of :: "stamps \<Rightarrow> charge_env" where
  "charge_env_of sp = \<lparr>ce_bank = (\<lambda>_ _. Inl ErrUnavailable), ce_paymentID = sp_paymentID sp,
     ce_reservedAt = sp_reservedAt sp, ce_entryID = sp_entryID sp, ce_billedAt = sp_billedAt sp\<rparr>"

section \<open>The parts agree with the charge service\<close>

lemma charge_env_of_simps [simp]:
  "ce_paymentID (charge_env_of sp) = sp_paymentID sp" "ce_reservedAt (charge_env_of sp) = sp_reservedAt sp"
  "ce_entryID (charge_env_of sp) = sp_entryID sp" "ce_billedAt (charge_env_of sp) = sp_billedAt sp"
  by (simp_all add: charge_env_of_def)

lemma reserveAmount_eq:
  assumes "NewMoney (ci_AmountCents inp) (ci_Currency inp) = Inr amount"
  shows "reserveAmount r sp s (ci_Endpoint inp) (ci_TenantID inp) (ci_IdempotencyKey inp) amount =
    reservePayment r (charge_env_of sp) s inp"
proof (cases "FindPaymentByIdempotencyKey r s (ci_TenantID inp) (ci_IdempotencyKey inp)")
  case (Inr p)
  then show ?thesis by (simp add: reserveAmount_def reservePayment_def reserve_lookup_def)
next
  case (Inl e)
  then show ?thesis
    using assms
    by (simp add: reserveAmount_def reservePayment_def reserve_lookup_def reserve_save_def
        reserve_winner_def split: sum.splits prod.splits)
qed

lemma bill_created_eq:
  "bill_created r sp s inp p price txID =
     (case charge_entry (charge_env_of sp) inp (SetTxID p txID) price of
        Inl e \<Rightarrow> (s, [], Inl e)
      | Inr le \<Rightarrow>
          (case charge_finalize r s inp (SetTxID p txID) le of
             (s', Inl e) \<Rightarrow> (s', [], Inl e)
           | (s', Inr (q, finalized)) \<Rightarrow>
               (s', if finalized then [publishPaymentEvent TopicPaymentCreated q] else [], Inr q)))"
  by (simp add: bill_created_def charge_entry_def Let_def)

section \<open>The interface of a creating service\<close>

text \<open>
  The discipline the creating services follow, up to what they differ in: the outcome of the checks,
  with the price to bill; the answer for a key that was finished before; and the bank's answer for a
  payment that was not, as the id it gave the charge. Only the store and the payment are returned.
\<close>

definition create_with ::
  "'s repository \<Rightarrow> stamps \<Rightarrow> 's \<Rightarrow> create_charge_input \<Rightarrow> endpoint_pricing result \<Rightarrow> (payment \<Rightarrow> unit result) \<Rightarrow>
     (payment \<Rightarrow> string result) \<Rightarrow> 's \<times> payment result" where
  "create_with r sp s inp admitted replay ask =
     (case admitted of
        Inl e \<Rightarrow> (s, Inl e)
      | Inr price \<Rightarrow>
          (case reservePayment r (charge_env_of sp) s inp of
             (s1, Inl e) \<Rightarrow> (s1, Inl e)
           | (s1, Inr p) \<Rightarrow>
               if pay_txID p \<noteq> [] then (s1, bindE (replay p) (\<lambda>_. Inr p))
               else (case ask p of
                       Inl e \<Rightarrow> (s1, Inl e)
                     | Inr txID \<Rightarrow> (case bill_created r sp s1 inp p price txID of (s2, evs, out) \<Rightarrow> (s2, out)))))"

text \<open>The store after a call and the payment it returned, whatever else it returned.\<close>

definition payment_of :: "'s \<times> 'e \<times> (payment \<times> 'o) result \<Rightarrow> 's \<times> payment result" where
  "payment_of run = (case run of (s, effs, res) \<Rightarrow> (s, bindE res (\<lambda>(p, out). Inr p)))"

lemma bindE_assoc: "bindE (bindE m f) g = bindE m (\<lambda>x. bindE (f x) g)"
  by (cases m) simp_all

lemma payment_of_simps [simp]:
  "payment_of (s, effs, Inl e) = (s, Inl e)" "payment_of (s, effs, Inr (p, out)) = (s, Inr p)"
  "payment_of (s, effs, bindE res (\<lambda>q. Inr (q, out))) = (s, res)"
  "payment_of (s, effs, bindE m (\<lambda>x. Inr (p, x))) = (s, bindE m (\<lambda>_. Inr p))"
  by (simp_all add: payment_of_def bindE_def split: sum.splits)

context store_contract
begin

text \<open>The tail returns the payment that was reserved, now with the bank's id.\<close>

lemma bill_step:
  assumes g: "good s" "charge_inv (vw s)" "good_input inp" "clean (ci_TenantID inp)"
    and h: "holds (vw s) inp p" "pay_txID p = []" "TrimSpace txID \<noteq> []"
    and b: "bill_created r sp s inp p price txID = (s', evs, y)"
  shows "good s' \<and> charge_inv (vw s') \<and> evolves (vw s) (vw s') \<and>
    (\<forall>q. y = Inr q \<longrightarrow> v_pays (vw s') (ci_TenantID inp, pay_id q) = Some q \<and> pay_txID q \<noteq> [] \<and>
       same_identity p q)"
proof (cases "charge_entry (charge_env_of sp) inp (SetTxID p txID) price")
  case (Inl e)
  with b g show ?thesis by (auto simp: bill_created_eq)
next
  case (Inr le)
  let ?p = "SetTxID p txID"
  obtain z where f: "charge_finalize r s inp ?p le = (s', z)" and y: "\<And>q. y = Inr q \<Longrightarrow> \<exists>b. z = Inr (q, b)"
    using b Inr by (auto simp: bill_created_eq split: sum.splits prod.splits)
  have hp: "holds (vw s) inp ?p" using h by (intro holds_SetTxID) auto
  then have k: "pay_idempotencyKey ?p = ci_IdempotencyKey inp" "trimmed (pay_id ?p)"
    by (auto simp: holds_def wf_payment_def)
  have l: "le_tenantID le = ci_TenantID inp" "le_reference le = pay_id ?p"
    using charge_entry_Inr [OF Inr] g(3) k by (simp_all add: good_input_def)
  have tx: "pay_txID ?p \<noteq> []" using h by simp
  note fs = finalize_step [OF g(1,2,4) hp tx l f]
  have "v_pays (vw s') (ci_TenantID inp, pay_id q) = Some q \<and> pay_txID q \<noteq> [] \<and>
      same_identity p q" if "y = Inr q" for q
  proof -
    from y [OF that] fs have q: "v_pays (vw s') (ci_TenantID inp, pay_id ?p) = Some q" "pay_txID q \<noteq> []"
      by blast+
    have "holds (vw s') inp ?p" using hp fs by (blast intro: holds_evolves)
    with q have "same_identity q ?p" by (auto simp: holds_def)
    then have "same_identity p q" by (auto simp: same_identity_def SetTxID_def)
    with q show ?thesis by (simp add: same_identity_def)
  qed
  with fs show ?thesis by blast
qed

text \<open>Whatever happens, the books stay in order, and a payment returned is the stored one.\<close>

lemma create_step:
  assumes g: "good s" "charge_inv (vw s)" "good_input inp" "clean (ci_TenantID inp)"
    and fresh: "v_pays (vw s) (ci_TenantID inp, TrimSpace (sp_paymentID sp)) = None"
    and ans: "\<And>p tx. ask p = Inr tx \<Longrightarrow> TrimSpace tx \<noteq> []"
    and run: "create_with r sp s inp admitted replay ask = (s', res)"
  shows "good s' \<and> charge_inv (vw s') \<and> evolves (vw s) (vw s') \<and>
    (\<forall>p. res = Inr p \<longrightarrow> v_pays (vw s') (ci_TenantID inp, pay_id p) = Some p \<and>
       pay_txID p \<noteq> [] \<and> pay_idempotencyKey p = ci_IdempotencyKey inp)"
proof -
  have fr: "v_pays (vw s) (ci_TenantID inp, TrimSpace (ce_paymentID (charge_env_of sp))) = None"
    using fresh by simp
  note rs = reserve_step [OF g fr]
  consider (err) "s' = s" "\<exists>e. res = Inl e"
    | (found) x where "reservePayment r (charge_env_of sp) s inp = (s', x)"
        "\<And>p. res = Inr p \<Longrightarrow> x = Inr p \<and> pay_txID p \<noteq> []"
    | (billed) s1 p price txID evs where
        "reservePayment r (charge_env_of sp) s inp = (s1, Inr p)" "pay_txID p = []" "TrimSpace txID \<noteq> []"
        "bill_created r sp s1 inp p price txID = (s', evs, res)"
    using run
    by (auto simp: create_with_def bindE_Inr_iff dest: ans split: sum.splits prod.splits if_splits)
  then show ?thesis
  proof cases
    case err
    with g show ?thesis by auto
  next
    case found
    with rs [OF found(1)] holds_key show ?thesis by blast
  next
    case billed
    note st = rs [OF billed(1)]
    have s1: "good s1" "charge_inv (vw s1)" "holds (vw s1) inp p" using st by auto
    note bs = bill_step [OF s1(1,2) g(3,4) s1(3) billed(2,3,4)]
    have "evolves (vw s) (vw s')" using st bs evolves_trans by blast
    moreover have "pay_idempotencyKey q = ci_IdempotencyKey inp" if "same_identity p q" for q
      using that holds_key [OF s1(3)] by (simp add: same_identity_def)
    ultimately show ?thesis using bs by blast
  qed
qed

end

text \<open>
  \<open>run v s i\<close> is one call with environment \<open>v\<close> (the bank and the stamps), \<open>ci i\<close> the part of its input
  that identifies and bills the payment, and \<open>answers v i\<close> says that the bank, if it accepts this
  call, names it by an id that is not blank. The laws: the store and the payment of a run are those
  of the discipline above, with the service's own checks and bank calls; the price it bills is the one
  of its endpoint; and a bank that answers names what it created.
\<close>

locale billable_service = store_contract r good vw clean
  for r :: "'s repository" and good :: "'s \<Rightarrow> bool" and vw :: "'s \<Rightarrow> view" and clean :: "string \<Rightarrow> bool" +
  fixes run :: "'v \<Rightarrow> 's \<Rightarrow> 'i \<Rightarrow> 's \<times> 'c svc_effect list \<times> (payment \<times> 'o) result"
    and ci :: "'i \<Rightarrow> create_charge_input"
    and stamped :: "'v \<Rightarrow> stamps"
    and answers :: "'v \<Rightarrow> 'i \<Rightarrow> bool"
    and admit :: "'v \<Rightarrow> 's \<Rightarrow> 'i \<Rightarrow> endpoint_pricing result"
    and replay :: "'v \<Rightarrow> 's \<Rightarrow> 'i \<Rightarrow> payment \<Rightarrow> unit result"
    and ask :: "'v \<Rightarrow> 's \<Rightarrow> 'i \<Rightarrow> payment \<Rightarrow> string result"
  assumes run_eq: "payment_of (run v s i) = create_with r (stamped v) s (ci i) (admit v s i) (replay v s i) (ask v s i)"
    and admit_price: "admit v s i = Inr price \<Longrightarrow>
      resolvePriceOrFree r s (ci_TenantID (ci i)) (ci_Endpoint (ci i)) = Inr price"
    and ask_answers: "answers v i \<Longrightarrow> ask v s i p = Inr tx \<Longrightarrow> TrimSpace tx \<noteq> []"
begin

lemma payment_step:
  assumes "good s" "charge_inv (vw s)" "good_input (ci i)" "clean (ci_TenantID (ci i))"
    and "v_pays (vw s) (ci_TenantID (ci i), TrimSpace (sp_paymentID (stamped v))) = None"
    and "answers v i" and run: "payment_of (run v s i) = (s', out)"
  shows "good s' \<and> charge_inv (vw s') \<and> evolves (vw s) (vw s') \<and>
    (\<forall>p. out = Inr p \<longrightarrow> v_pays (vw s') (ci_TenantID (ci i), pay_id p) = Some p \<and>
       pay_txID p \<noteq> [] \<and> pay_idempotencyKey p = ci_IdempotencyKey (ci i))"
  using create_step [OF assms(1-5) ask_answers [OF assms(6)] run [unfolded run_eq]] .

end

section \<open>The discipline on the store in memory\<close>

text \<open>
  In memory every outcome is determined: the writes of an admitted call cannot fail, and the reload
  before the bill finds the payment the call works on.
\<close>

definition stored :: "store \<Rightarrow> payment \<Rightarrow> store" where
  "stored s p = s\<lparr>st_payments := put (key (pay_tenantID p) (pay_id p)) p (st_payments s)\<rparr>"

definition booked :: "store \<Rightarrow> payment \<Rightarrow> ledger_entry \<Rightarrow> store" where
  "booked s p le = (stored s p)\<lparr>st_ledger := st_ledger s @ [le]\<rparr>"

definition new_payment :: "stamps \<Rightarrow> create_charge_input \<Rightarrow> payment result" where
  "new_payment sp inp = bindE (NewMoney (ci_AmountCents inp) (ci_Currency inp))
     (\<lambda>amount. NewPayment (sp_paymentID sp) (ci_TenantID inp) (ci_Endpoint inp) (ci_IdempotencyKey inp) amount
        (sp_reservedAt sp))"

definition completed ::
  "stamps \<Rightarrow> store \<Rightarrow> create_charge_input \<Rightarrow> endpoint_pricing \<Rightarrow> (payment \<Rightarrow> string result) \<Rightarrow> payment \<Rightarrow> store \<times> payment result" where
  "completed sp s inp price ask p =
     (case ask p of
        Inl e \<Rightarrow> (s, Inl e)
      | Inr tx \<Rightarrow>
          (case charge_entry (charge_env_of sp) inp p price of
             Inl e \<Rightarrow> (s, Inl e)
           | Inr le \<Rightarrow> (booked s (SetTxID p tx) le, Inr (SetTxID p tx))))"

lemma stored_simps [simp]:
  "st_ledger (stored s p) = st_ledger s" "st_tenants (stored s p) = st_tenants s" "st_pricing (stored s p) = st_pricing s"
  "st_ledger (booked s p le) = st_ledger s @ [le]" "st_payments (booked s p le) = st_payments (stored s p)"
  by (simp_all add: stored_def booked_def)

lemma save_stored:
  assumes "store_ok s"
    and "\<And>j q. at_key (st_payments s) (pay_tenantID p, j) = Some q \<Longrightarrow> pay_idempotencyKey q = pay_idempotencyKey p \<Longrightarrow> j = pay_id p"
  shows "savePayment s p = Inr (stored s p)"
proof -
  have "pay_id q = pay_id p" if "q \<in> set (vals (st_payments s))" "pay_tenantID q = pay_tenantID p"
    "pay_idempotencyKey q = pay_idempotencyKey p" for q
    using store_ok_pays [OF assms(1) that(1)] that(2,3) assms(2) by simp
  then have "\<not> list_ex (\<lambda>q. pay_tenantID q = pay_tenantID p \<and> pay_idempotencyKey q = pay_idempotencyKey p \<and>
      pay_id q \<noteq> pay_id p) (vals (st_payments s))"
    unfolding list_ex_iff by blast
  then show ?thesis by (simp add: savePayment_def stored_def)
qed

lemma save_again:
  assumes "store_ok s" "at_key (st_payments s) (pay_tenantID p, pay_id p) = Some q"
    "pay_idempotencyKey q = pay_idempotencyKey p"
  shows "savePayment s p = Inr (stored s p)"
proof (rule save_stored [OF assms(1)])
  fix j q' assume "at_key (st_payments s) (pay_tenantID p, j) = Some q'" "pay_idempotencyKey q' = pay_idempotencyKey p"
  then show "j = pay_id p"
    using mem.pays_unique [OF assms(1), of "pay_tenantID p" j q' "pay_id p" q] assms(2,3) by simp
qed

lemma stored_found:
  assumes "store_ok s" "nul_free (pay_tenantID p)" "savePayment s p = Inr (stored s p)"
  shows "findPaymentByIdempotencyKey (stored s p) (pay_tenantID p) (pay_idempotencyKey p) = Inr p"
proof -
  note ok = savePayment_ok [OF assms]
  have "v_pays (store_view (stored s p)) (pay_tenantID p, pay_id p) = Some p"
    unfolding ok(2) by simp
  then show ?thesis using ok(1) by (intro findPaymentByIdempotencyKey_unique [of _ _ "pay_id p"]) simp_all
qed

lemma find_key_booked:
  "findPaymentByIdempotencyKey (booked s p le) t k = findPaymentByIdempotencyKey (stored s p) t k"
  by (simp add: findPaymentByIdempotencyKey_def)

lemma charge_entry_SetTxID: "charge_entry env inp (SetTxID p tx) price = charge_entry env inp p price"
  by (simp add: charge_entry_def)

lemma bill_created_mem:
  assumes "store_ok s" "charge_inv (store_view s)"
    and f: "findPaymentByIdempotencyKey s (ci_TenantID inp) (ci_IdempotencyKey inp) = Inr p" "pay_txID p = []"
    and a: "ask p = Inr tx"
  shows "(case bill_created txView sp s inp p price tx of (s', evs, out) \<Rightarrow> (s', out)) = completed sp s inp price ask p"
proof (cases "charge_entry (charge_env_of sp) inp p price")
  case (Inl e)
  with a show ?thesis by (simp add: bill_created_eq completed_def charge_entry_SetTxID)
next
  case (Inr le)
  let ?p = "SetTxID p tx"
  have h: "at_key (st_payments s) (ci_TenantID inp, pay_id p) = Some p" "pay_tenantID p = ci_TenantID inp"
    using mem.lookup_holds [OF assms(1,2)] f(1) by (auto simp: holds_def)
  have "savePayment s ?p = Inr (stored s ?p)"
    using h by (intro save_again [OF assms(1), of _ p]) simp_all
  then have "charge_finalize txView s inp ?p le = (booked s ?p le, Inr (?p, True))"
    using f by (simp add: charge_finalize_def WithinTx_def tx_defs appendLedgerEntry_def booked_def)
  with a Inr show ?thesis by (simp add: bill_created_eq completed_def charge_entry_SetTxID)
qed

lemma reserve_fresh_mem:
  assumes "store_ok s" "good_input inp" "nul_free (ci_TenantID inp)"
    and f: "findPaymentByIdempotencyKey s (ci_TenantID inp) (ci_IdempotencyKey inp) = Inl ErrNotFound"
  shows "reservePayment txView (charge_env_of sp) s inp =
    (case new_payment sp inp of Inl e \<Rightarrow> (s, Inl e) | Inr p \<Rightarrow> (stored s p, Inr p))"
    and "new_payment sp inp = Inr p \<Longrightarrow>
      findPaymentByIdempotencyKey (stored s p) (ci_TenantID inp) (ci_IdempotencyKey inp) = Inr p \<and> pay_txID p = []"
proof -
  have sv: "savePayment s p = Inr (stored s p) \<and> pay_tenantID p = ci_TenantID inp \<and>
      pay_idempotencyKey p = ci_IdempotencyKey inp \<and> pay_txID p = []" if "new_payment sp inp = Inr p" for p
  proof -
    note p = reserved_payment [OF assms(2) that [unfolded new_payment_def]]
    have "at_key (st_payments s) (pay_tenantID p, j) = Some q \<Longrightarrow> pay_idempotencyKey q \<noteq> pay_idempotencyKey p" for j q
      using mem.find_key_none [OF assms(1), of "ci_TenantID inp" "ci_IdempotencyKey inp" ErrNotFound j q] f p by simp
    with p show ?thesis by (auto intro: save_stored [OF assms(1)])
  qed
  then show "reservePayment txView (charge_env_of sp) s inp =
      (case new_payment sp inp of Inl e \<Rightarrow> (s, Inl e) | Inr p \<Rightarrow> (stored s p, Inr p))"
    using f by (auto simp: reservePayment_def reserve_lookup_def reserve_save_def new_payment_def WithinTx_def
        split: sum.splits)
  show "findPaymentByIdempotencyKey (stored s p) (ci_TenantID inp) (ci_IdempotencyKey inp) = Inr p \<and> pay_txID p = []"
    if "new_payment sp inp = Inr p"
    using stored_found [OF assms(1), of p] sv [OF that] assms(3) by simp
qed

lemma find_key_missing:
  "findPaymentByIdempotencyKey s t k = Inl e \<Longrightarrow> e = ErrNotFound"
  by (simp add: findPaymentByIdempotencyKey_def scan_def split: option.splits)

theorem create_with_mem:
  assumes g: "store_ok s" "charge_inv (store_view s)" "good_input inp" "nul_free (ci_TenantID inp)"
    and fresh: "v_pays (store_view s) (ci_TenantID inp, TrimSpace (sp_paymentID sp)) = None"
  shows "create_with txView sp s inp admitted replay ask =
    (case admitted of
       Inl e \<Rightarrow> (s, Inl e)
     | Inr price \<Rightarrow>
         (case findPaymentByIdempotencyKey s (ci_TenantID inp) (ci_IdempotencyKey inp) of
            Inr p \<Rightarrow> if pay_txID p \<noteq> [] then (s, bindE (replay p) (\<lambda>_. Inr p)) else completed sp s inp price ask p
          | Inl _ \<Rightarrow> (case new_payment sp inp of
                       Inl e \<Rightarrow> (s, Inl e)
                     | Inr p \<Rightarrow> completed sp (stored s p) inp price ask p)))"
proof (cases admitted)
  case (Inl e)
  then show ?thesis by (simp add: create_with_def)
next
  case (Inr price)
  have done_: "(case ask p of Inl e \<Rightarrow> (s1, Inl e)
      | Inr tx \<Rightarrow> (case bill_created txView sp s1 inp p price tx of (s2, evs, out) \<Rightarrow> (s2, out))) = completed sp s1 inp price ask p"
    if "store_ok s1" "charge_inv (store_view s1)" "pay_txID p = []"
      "findPaymentByIdempotencyKey s1 (ci_TenantID inp) (ci_IdempotencyKey inp) = Inr p" for s1 p
    using bill_created_mem [OF that(1,2,4,3)] by (cases "ask p") (simp_all add: completed_def)
  show ?thesis
  proof (cases "findPaymentByIdempotencyKey s (ci_TenantID inp) (ci_IdempotencyKey inp)")
    case found: (Inr p)
    then have "reservePayment txView (charge_env_of sp) s inp = (s, Inr p)"
      by (simp add: reservePayment_def reserve_lookup_def)
    with found Inr done_ [OF g(1,2)] show ?thesis by (simp add: create_with_def)
  next
    case (Inl e)
    then have f: "findPaymentByIdempotencyKey s (ci_TenantID inp) (ci_IdempotencyKey inp) = Inl ErrNotFound"
      using find_key_missing by metis
    note rf = reserve_fresh_mem [OF g(1,3,4) f, of sp]
    show ?thesis
    proof (cases "new_payment sp inp")
      case (Inl e')
      with rf(1) Inr f show ?thesis by (simp add: create_with_def)
    next
      case np: (Inr p)
      with rf(1) have rv: "reservePayment txView (charge_env_of sp) s inp = (stored s p, Inr p)" by simp
      have "store_ok (stored s p)" "charge_inv (store_view (stored s p))"
        using mem.reserve_step [OF g _ rv] fresh by simp_all
      with rf(2) [OF np] rv np f Inr done_ [of "stored s p" p] show ?thesis by (simp add: create_with_def)
    qed
  qed
qed

definition sample_stamps :: stamps where
  "sample_stamps = \<lparr>sp_paymentID = ''p1'', sp_reservedAt = zero_time, sp_entryID = ''e1'', sp_billedAt = zero_time\<rparr>"

lemma sample_admit_tenant:
  "admit_tenant txView sample_store ''t1'' ''k1'' = Inr ()"
  "st_tenants s = st_tenants sample_store \<Longrightarrow> admit_tenant txView s ''t1'' ''k1'' = Inr ()"
  by (simp_all add: admit_tenant_def sample_store_def charge_tenant_def NewStore_def findTenantByID_def lookup_def)

lemma sample_free:
  "TrimSpace e = e \<Longrightarrow> e \<noteq> [] \<Longrightarrow> st_pricing s = [] \<Longrightarrow>
     resolvePriceOrFree txView s ''t1'' e = Inr \<lparr>ep_tenantID = ''t1'', ep_endpoint = e, ep_priceCents = 0\<rparr>"
  by (simp add: resolvePriceOrFree_def getEndpointPrice_def NewEndpointPricing_def lookup_def)

end
