(* ===== verification/Boleto.thy ===== *)
theory Boleto
  imports Payment
begin

text \<open>
  Package \<open>internal/domain/boleto\<close>: a bank slip, its late-payment rules (fine and pro-rata-die
  interest) and its early-payment discount schedule. The arithmetic is the code's: \<open>int64\<close>
  products and sums that wrap, and a division that rounds half up.
\<close>

section \<open>Definitions\<close>

definition MaxFineBps :: int where "MaxFineBps = 200"
definition MaxMonthlyInterestBps :: int where "MaxMonthlyInterestBps = 100"
definition bpsDenominator :: int where "bpsDenominator = 10000"
definition daysPerMonth :: int where "daysPerMonth = 30"

lemmas boleto_consts = MaxFineBps_def MaxMonthlyInterestBps_def bpsDenominator_def daysPerMonth_def

definition roundDiv :: "int \<Rightarrow> int \<Rightarrow> int" where
  "roundDiv num den = (if den = 0 then 0 else quot64 (add64 num (quot64 den 2)) den)"

record discount_tier =
  DaysBeforeDue :: int
  Bps :: int
  FixedCents :: int

definition tier_cents :: "discount_tier \<Rightarrow> int \<Rightarrow> int" where
  "tier_cents d principalCents =
     (if FixedCents d > 0 then FixedCents d
      else roundDiv (mul64 principalCents (Bps d)) bpsDenominator)"

record boleto =
  bo_id :: string
  bo_tenantID :: string
  bo_principal :: money
  bo_dueDate :: gotime
  bo_fineBps :: int
  bo_fineFixedCents :: int
  bo_monthlyInterestBps :: int
  bo_validUntil :: gotime
  bo_discounts :: "discount_tier list"

definition NewBoleto :: "string \<Rightarrow> string \<Rightarrow> money \<Rightarrow> gotime \<Rightarrow> int \<Rightarrow> int \<Rightarrow> boleto result" where
  "NewBoleto bid tenantID prin dueDate fineBps monthlyInterestBps =
     (let bid = TrimSpace bid; tenantID = TrimSpace tenantID
      in if bid = '''' then Inl (NewValidationError ''id'' ''boleto id is required'')
         else if tenantID = '''' then Inl (NewValidationError ''tenant_id'' ''tenant id is required'')
         else if IsZeroMoney prin
         then Inl (NewValidationError ''principal'' ''principal amount is required'')
         else if IsZeroTime dueDate
         then Inl (NewValidationError ''due_date'' ''due date is required'')
         else if fineBps < 0 \<or> fineBps > MaxFineBps
         then Inl (NewValidationError ''fine_bps'' ''fine must be between 0 and 200 basis points'')
         else if monthlyInterestBps < 0 \<or> monthlyInterestBps > MaxMonthlyInterestBps
         then Inl (NewValidationError ''monthly_interest_bps''
                    ''monthly interest must be between 0 and 100 basis points'')
         else Inr \<lparr>bo_id = bid, bo_tenantID = tenantID, bo_principal = prin,
                   bo_dueDate = dueDate, bo_fineBps = fineBps, bo_fineFixedCents = 0,
                   bo_monthlyInterestBps = monthlyInterestBps, bo_validUntil = zero_time,
                   bo_discounts = []\<rparr>)"

text \<open>
  The loop of \<open>WithDiscounts\<close>. \<open>prev\<close> is \<open>None\<close> for the first tier (\<open>i = 0\<close>) and otherwise the
  days and the discount of the tier before.
\<close>

fun check_tiers :: "int \<Rightarrow> (int \<times> int) option \<Rightarrow> discount_tier list \<Rightarrow> go_error option" where
  "check_tiers prin prev [] = None"
| "check_tiers prin prev (d # ds) =
     (let c = tier_cents d prin
      in if DaysBeforeDue d < 0
         then Some (NewValidationError ''discount.days_before_due'' ''days before due must not be negative'')
         else if (Bps d > 0) = (FixedCents d > 0)
         then Some (NewValidationError ''discount'' ''each tier must set exactly one of bps or fixed_cents'')
         else if Bps d < 0 \<or> FixedCents d < 0
         then Some (NewValidationError ''discount'' ''discount values must not be negative'')
         else if Bps d > bpsDenominator
         then Some (NewValidationError ''discount.bps'' ''discount must not exceed 100%'')
         else if c \<le> 0 \<or> c \<ge> prin
         then Some (NewValidationError ''discount'' ''discount must be positive and strictly less than the principal'')
         else case prev of
             Some (prevDays, prevCents) \<Rightarrow>
               if DaysBeforeDue d \<ge> prevDays
               then Some (NewValidationError ''discount.days_before_due'' ''tiers must be ordered strictly descending by days before due'')
               else if c \<ge> prevCents
               then Some (NewValidationError ''discount'' ''fewer days early must earn a strictly smaller discount'')
               else check_tiers prin (Some (DaysBeforeDue d, c)) ds
           | None \<Rightarrow> check_tiers prin (Some (DaysBeforeDue d, c)) ds)"

definition WithDiscounts :: "boleto \<Rightarrow> discount_tier list \<Rightarrow> boleto result" where
  "WithDiscounts b tiers =
     (if tiers = [] then Inr b
      else case check_tiers (m_cents (bo_principal b)) None tiers of
             Some e \<Rightarrow> Inl e
           | None \<Rightarrow> Inr (b\<lparr>bo_discounts := tiers\<rparr>))"

definition WithFixedFine :: "boleto \<Rightarrow> int \<Rightarrow> boleto result" where
  "WithFixedFine b cents =
     (if bo_fineBps b > 0
      then Inl (NewValidationError ''fine_fixed_cents'' ''a boleto cannot carry both a percentage and a fixed fine'')
      else if cents \<le> 0
      then Inl (NewValidationError ''fine_fixed_cents'' ''fixed fine must be positive'')
      else if cents > roundDiv (mul64 (m_cents (bo_principal b)) MaxFineBps) bpsDenominator
      then Inl (NewValidationError ''fine_fixed_cents'' ''fixed fine must not exceed 2% of the principal'')
      else Inr (b\<lparr>bo_fineFixedCents := cents\<rparr>))"

definition WithValidUntil :: "boleto \<Rightarrow> gotime \<Rightarrow> boleto result" where
  "WithValidUntil b t =
     (if IsZeroTime t then Inl (NewValidationError ''valid_until'' ''valid until is required'')
      else if Before (midnight t) (midnight (bo_dueDate b))
      then Inl (NewValidationError ''valid_until'' ''valid until must not be before the due date'')
      else Inr (b\<lparr>bo_validUntil := t\<rparr>))"

definition DaysLate :: "boleto \<Rightarrow> gotime \<Rightarrow> int" where
  "DaysLate b at = days_between at (bo_dueDate b)"

definition FineCents :: "boleto \<Rightarrow> gotime \<Rightarrow> int" where
  "FineCents b at =
     (if DaysLate b at = 0 then 0
      else if bo_fineFixedCents b > 0 then bo_fineFixedCents b
      else roundDiv (mul64 (m_cents (bo_principal b)) (bo_fineBps b)) bpsDenominator)"

definition InterestCents :: "boleto \<Rightarrow> gotime \<Rightarrow> int" where
  "InterestCents b at =
     (let days = DaysLate b at
      in if days = 0 then 0
         else roundDiv (mul64 (mul64 (m_cents (bo_principal b)) (bo_monthlyInterestBps b)) days)
                (mul64 bpsDenominator daysPerMonth))"

definition DaysEarly :: "boleto \<Rightarrow> gotime \<Rightarrow> int" where
  "DaysEarly b at = days_between (bo_dueDate b) at"

definition DiscountCents :: "boleto \<Rightarrow> gotime \<Rightarrow> int" where
  "DiscountCents b at =
     (if bo_discounts b = [] \<or> DaysLate b at > 0 then 0
      else case find (\<lambda>d. DaysBeforeDue d \<le> DaysEarly b at) (bo_discounts b) of
             None \<Rightarrow> 0
           | Some d \<Rightarrow> tier_cents d (m_cents (bo_principal b)))"

definition AmountDueCents :: "boleto \<Rightarrow> gotime \<Rightarrow> int" where
  "AmountDueCents b at =
     sub64 (add64 (add64 (m_cents (bo_principal b)) (FineCents b at)) (InterestCents b at))
       (DiscountCents b at)"

definition AmountDue :: "boleto \<Rightarrow> gotime \<Rightarrow> money" where
  "AmountDue b at =
     (case NewMoney (AmountDueCents b at) (m_currency (bo_principal b)) of
        Inl e \<Rightarrow> bo_principal b
      | Inr m \<Rightarrow> m)"

section \<open>The invariant\<close>

text \<open>What a validated schedule satisfies, read off the code's checks.\<close>

fun tiers_ok :: "int \<Rightarrow> (int \<times> int) option \<Rightarrow> discount_tier list \<Rightarrow> bool" where
  "tiers_ok prin prev [] \<longleftrightarrow> True"
| "tiers_ok prin prev (d # ds) \<longleftrightarrow>
     0 \<le> DaysBeforeDue d \<and> 0 < tier_cents d prin \<and> tier_cents d prin < prin \<and>
     (case prev of None \<Rightarrow> True
      | Some (days, c) \<Rightarrow> DaysBeforeDue d < days \<and> tier_cents d prin < c) \<and>
     tiers_ok prin (Some (DaysBeforeDue d, tier_cents d prin)) ds"

definition wf_boleto :: "boleto \<Rightarrow> bool" where
  "wf_boleto b \<longleftrightarrow>
     trimmed (bo_id b) \<and> bo_id b \<noteq> '''' \<and> trimmed (bo_tenantID b) \<and> bo_tenantID b \<noteq> '''' \<and>
     wf_money (bo_principal b) \<and> \<not> IsZeroTime (bo_dueDate b) \<and>
     0 \<le> bo_fineBps b \<and> bo_fineBps b \<le> MaxFineBps \<and>
     0 \<le> bo_monthlyInterestBps b \<and> bo_monthlyInterestBps b \<le> MaxMonthlyInterestBps \<and>
     (bo_fineFixedCents b = 0 \<or>
        bo_fineBps b = 0 \<and> 0 < bo_fineFixedCents b \<and>
        bo_fineFixedCents b \<le> roundDiv (mul64 (m_cents (bo_principal b)) MaxFineBps) bpsDenominator) \<and>
     (IsZeroTime (bo_validUntil b) \<or>
        \<not> Before (midnight (bo_validUntil b)) (midnight (bo_dueDate b))) \<and>
     tiers_ok (m_cents (bo_principal b)) None (bo_discounts b)"

text \<open>
  Principals up to \<open>8 \<cdot> 10\<^sup>1\<^sup>1\<close> cents (eight billion reais): for these no product in the
  calculation leaves \<open>int64\<close>, whatever the dates.
\<close>

definition safe_principal :: "boleto \<Rightarrow> bool" where
  "safe_principal b \<longleftrightarrow> m_cents (bo_principal b) \<le> 800000000000"

lemma check_tiers_ok: "check_tiers prin prev ds = None \<Longrightarrow> tiers_ok prin prev ds"
  by (induction prin prev ds rule: check_tiers.induct)
     (auto simp: Let_def split: if_splits option.splits)

lemma NewBoleto_wf:
  "NewBoleto bid t m d f i = Inr b \<Longrightarrow> wf_money m \<Longrightarrow> wf_boleto b"
  by (auto simp: NewBoleto_def Let_def wf_boleto_def time_defs zero_time_def split: if_splits)

lemma WithDiscounts_wf: "wf_boleto b \<Longrightarrow> WithDiscounts b ts = Inr b' \<Longrightarrow> wf_boleto b'"
  by (auto simp: WithDiscounts_def wf_boleto_def check_tiers_ok split: if_splits option.splits)

lemma WithFixedFine_wf: "wf_boleto b \<Longrightarrow> WithFixedFine b c = Inr b' \<Longrightarrow> wf_boleto b'"
  by (auto simp: WithFixedFine_def wf_boleto_def split: if_splits)

lemma WithValidUntil_wf: "wf_boleto b \<Longrightarrow> WithValidUntil b t = Inr b' \<Longrightarrow> wf_boleto b'"
  by (auto simp: WithValidUntil_def wf_boleto_def split: if_splits)

section \<open>Rounding\<close>

text \<open>Away from overflow, \<open>roundDiv\<close> rounds the exact quotient to the nearest integer, half up.\<close>

lemma roundDiv_eq:
  assumes "0 \<le> n" "0 < d" "n + d \<le> max64"
  shows "roundDiv n d = (n + d div 2) div d"
proof -
  have d2: "quot64 d 2 = d div 2" using assms by (intro quot64_nonneg) auto
  have "0 \<le> d div 2" "d div 2 \<le> d" using assms by auto
  then have "in64 (n + d div 2)" using assms by (intro in64I) auto
  then have "roundDiv n d = quot64 (n + d div 2) d"
    using assms by (simp add: roundDiv_def d2 add64_def)
  also have "\<dots> = (n + d div 2) div d"
    using assms \<open>d div 2 \<le> d\<close> by (intro quot64_nonneg) auto
  finally show ?thesis .
qed

lemma roundDiv_nearest:
  assumes "0 \<le> n" "0 < d" "even d" "n + d \<le> max64"
  shows "2 * n - d < 2 * d * roundDiv n d \<and> 2 * d * roundDiv n d \<le> 2 * n + d"
proof -
  define q m where "q = (n + d div 2) div d" and "m = (n + d div 2) mod d"
  have "n + d div 2 = d * q + m" by (simp add: q_def m_def)
  moreover have "2 * (d div 2) = d" using assms(3) by simp
  ultimately have "2 * n + d = 2 * (d * q) + 2 * m" by linarith
  moreover have "0 \<le> m" "m < d" using assms by (auto simp: m_def)
  moreover have "roundDiv n d = q" unfolding q_def using assms by (intro roundDiv_eq) auto
  ultimately show ?thesis by (simp add: mult.assoc)
qed

lemma roundDiv_nonneg: "0 \<le> n \<Longrightarrow> 0 < d \<Longrightarrow> n + d \<le> max64 \<Longrightarrow> 0 \<le> roundDiv n d"
  by (simp add: roundDiv_eq pos_imp_zdiv_nonneg_iff)

lemma roundDiv_mono:
  "0 \<le> n \<Longrightarrow> n \<le> m \<Longrightarrow> 0 < d \<Longrightarrow> m + d \<le> max64 \<Longrightarrow> roundDiv n d \<le> roundDiv m d"
  by (simp add: roundDiv_eq zdiv_mono1)

section \<open>The parts of the amount due\<close>

lemma mul64_id: "0 \<le> a * b \<Longrightarrow> a * b \<le> max64 \<Longrightarrow> mul64 a b = a * b"
  by (simp add: mul64_def in64I)

lemma DaysLate_range: "0 \<le> DaysLate b at \<and> DaysLate b at \<le> 106751"
  by (simp add: DaysLate_def days_between_nonneg days_between_bound)

text \<open>The bounds on products that \<open>safe_principal\<close> gives.\<close>

lemma safe_products:
  assumes "wf_boleto b" "safe_principal b"
  defines "P \<equiv> m_cents (bo_principal b)"
  shows "0 < P" "P \<le> 800000000000" "0 \<le> r \<Longrightarrow> r \<le> 200 \<Longrightarrow> P * r \<le> 160000000000000"
    "0 \<le> r \<Longrightarrow> r \<le> 100 \<Longrightarrow> 0 \<le> n \<Longrightarrow> n \<le> 106751 \<Longrightarrow> P * r * n \<le> 8540080000000000000"
proof -
  show P: "0 < P" "P \<le> 800000000000"
    using assms(1,2) by (auto simp: wf_boleto_def wf_money_def safe_principal_def P_def)
  show "P * r \<le> 160000000000000" if "0 \<le> r" "r \<le> 200"
    using mult_mono [of P 800000000000 r 200] P that by simp
  show "P * r * n \<le> 8540080000000000000" if "0 \<le> r" "r \<le> 100" "0 \<le> n" "n \<le> 106751"
  proof -
    have "P * r \<le> 80000000000000" using mult_mono [of P 800000000000 r 100] P that by simp
    then show ?thesis using mult_mono [of "P * r" 80000000000000 n 106751] P that by simp
  qed
qed

lemma FineCents_eq:
  assumes "wf_boleto b" "safe_principal b" "DaysLate b at > 0"
  shows "FineCents b at =
    (if bo_fineFixedCents b > 0 then bo_fineFixedCents b
     else (m_cents (bo_principal b) * bo_fineBps b + 5000) div 10000)"
proof -
  let ?P = "m_cents (bo_principal b)"
  have f: "0 \<le> bo_fineBps b" "bo_fineBps b \<le> 200"
    using assms(1) by (auto simp: wf_boleto_def MaxFineBps_def)
  have le: "0 \<le> ?P * bo_fineBps b" "?P * bo_fineBps b \<le> 160000000000000"
    using safe_products(1,3) [OF assms(1,2)] f by auto
  then have "mul64 ?P (bo_fineBps b) = ?P * bo_fineBps b" by (intro mul64_id) (auto simp: max64_def)
  with le assms(3) show ?thesis
    by (simp add: FineCents_def bpsDenominator_def roundDiv_eq max64_def)
qed

lemma InterestCents_eq:
  assumes "wf_boleto b" "safe_principal b"
  shows "InterestCents b at =
    (m_cents (bo_principal b) * bo_monthlyInterestBps b * DaysLate b at + 150000) div 300000"
proof -
  let ?P = "m_cents (bo_principal b)" and ?r = "bo_monthlyInterestBps b" and ?n = "DaysLate b at"
  have r: "0 \<le> ?r" "?r \<le> 100" using assms(1) by (auto simp: wf_boleto_def MaxMonthlyInterestBps_def)
  have n: "0 \<le> ?n" "?n \<le> 106751" using DaysLate_range by auto
  have le: "0 \<le> ?P * ?r * ?n" "?P * ?r * ?n \<le> 8540080000000000000"
    using safe_products(1,4) [OF assms] r n by auto
  have "0 \<le> ?P * ?r" "?P * ?r \<le> 160000000000000" using safe_products(1,3) [OF assms] r by auto
  then have "mul64 ?P ?r = ?P * ?r" by (intro mul64_id) (auto simp: max64_def)
  moreover have "mul64 (?P * ?r) ?n = ?P * ?r * ?n" using le by (intro mul64_id) (auto simp: max64_def)
  moreover have "mul64 bpsDenominator daysPerMonth = 300000"
    by (simp add: boleto_consts mul64_def in64_def max64_def min64_def)
  ultimately show ?thesis using le
    by (auto simp: InterestCents_def Let_def roundDiv_eq max64_def)
qed

lemma FineCents_cap:
  assumes "wf_boleto b" "safe_principal b"
  shows "0 \<le> FineCents b at" "FineCents b at \<le> (m_cents (bo_principal b) * 200 + 5000) div 10000"
proof -
  let ?P = "m_cents (bo_principal b)"
  have P: "0 < ?P" "?P * 200 \<le> 160000000000000" using safe_products(1) [OF assms] safe_products(3) [OF assms, of 200] by auto
  have top: "roundDiv (mul64 ?P MaxFineBps) bpsDenominator = (?P * 200 + 5000) div 10000"
    using P by (simp add: boleto_consts mul64_id roundDiv_eq max64_def)
  have fx: "bo_fineFixedCents b > 0 \<Longrightarrow> bo_fineFixedCents b \<le> (?P * 200 + 5000) div 10000"
    and f: "0 \<le> bo_fineBps b" "bo_fineBps b \<le> 200"
    using assms(1) top by (auto simp: wf_boleto_def MaxFineBps_def)
  have "?P * bo_fineBps b \<le> ?P * 200" "0 \<le> ?P * bo_fineBps b" using P f by auto
  then have "(?P * bo_fineBps b + 5000) div 10000 \<le> (?P * 200 + 5000) div 10000"
    "0 \<le> (?P * bo_fineBps b + 5000) div 10000"
    by (auto intro!: zdiv_mono1 simp: pos_imp_zdiv_nonneg_iff)
  then show "0 \<le> FineCents b at" "FineCents b at \<le> (?P * 200 + 5000) div 10000"
    using fx P FineCents_eq [OF assms, of at] DaysLate_range [of b at]
    by (cases "DaysLate b at = 0"; auto simp: FineCents_def pos_imp_zdiv_nonneg_iff)+
qed

text \<open>In a validated schedule the first tier that qualifies is the most generous one.\<close>

lemma tiers_ok_bounds:
  "tiers_ok p prev ds \<Longrightarrow> d \<in> set ds \<Longrightarrow>
     0 < tier_cents d p \<and> tier_cents d p < p \<and> (\<forall>n c. prev = Some (n, c) \<longrightarrow> tier_cents d p < c)"
proof (induction p prev ds rule: tiers_ok.induct)
  case (2 p prev x ds)
  show ?case
  proof (cases "d = x")
    case False
    with 2 have "0 < tier_cents d p \<and> tier_cents d p < p \<and> tier_cents d p < tier_cents x p" by auto
    with 2 show ?thesis by auto
  qed (use 2 in auto)
qed simp

lemma tiers_ok_first_max:
  "tiers_ok p prev ds \<Longrightarrow> find (\<lambda>d. DaysBeforeDue d \<le> n) ds = Some d \<Longrightarrow>
   d' \<in> set ds \<Longrightarrow> DaysBeforeDue d' \<le> n \<Longrightarrow> tier_cents d' p \<le> tier_cents d p"
proof (induction p prev ds rule: tiers_ok.induct)
  case (2 p prev x ds)
  show ?case
  proof (cases "DaysBeforeDue x \<le> n")
    case True
    with 2 have "d = x" by simp
    with 2 show ?thesis using tiers_ok_bounds [of p "Some (DaysBeforeDue x, tier_cents x p)" ds d']
      by auto
  qed (use 2 in auto)
qed simp

lemma DiscountCents_range:
  assumes "wf_boleto b"
  shows "0 \<le> DiscountCents b at \<and> DiscountCents b at < m_cents (bo_principal b)"
proof -
  have t: "tiers_ok (m_cents (bo_principal b)) None (bo_discounts b)" "0 < m_cents (bo_principal b)"
    using assms by (auto simp: wf_boleto_def wf_money_def)
  show ?thesis
    using t tiers_ok_bounds [OF t(1)]
    by (force simp: DiscountCents_def split: option.splits dest: find_Some_mem)
qed

lemma AmountDueCents_eq:
  assumes "wf_boleto b" "safe_principal b"
  shows "AmountDueCents b at =
    m_cents (bo_principal b) + FineCents b at + InterestCents b at - DiscountCents b at"
    "0 < AmountDueCents b at" "AmountDueCents b at \<le> max64"
proof -
  let ?P = "m_cents (bo_principal b)"
  let ?S = "?P + FineCents b at + InterestCents b at"
  have P: "0 < ?P" "?P \<le> 800000000000" using safe_products(1,2) [OF assms] by auto
  have "?P * bo_monthlyInterestBps b * DaysLate b at \<le> 8540080000000000000"
    using assms DaysLate_range [of b at]
    by (intro safe_products(4)) (auto simp: wf_boleto_def MaxMonthlyInterestBps_def)
  moreover have "0 \<le> ?P * bo_monthlyInterestBps b * DaysLate b at"
    using P assms(1) DaysLate_range [of b at] by (auto simp: wf_boleto_def)
  ultimately have I: "0 \<le> InterestCents b at" "InterestCents b at \<le> 28466933333334"
    by (auto simp: InterestCents_eq [OF assms] pos_imp_zdiv_nonneg_iff)
  have F: "0 \<le> FineCents b at" "FineCents b at \<le> 16000000001"
    using FineCents_cap [OF assms, of at] P by auto
  have D: "0 \<le> DiscountCents b at" "DiscountCents b at < ?P"
    using DiscountCents_range [OF assms(1)] by auto
  have "in64 (?P + FineCents b at)" "in64 ?S" "in64 (?S - DiscountCents b at)"
    using P I F D by (auto simp: in64_def min64_def max64_def)
  then show "AmountDueCents b at = ?S - DiscountCents b at" "0 < AmountDueCents b at"
    "AmountDueCents b at \<le> max64"
    using P I F D by (auto simp: AmountDueCents_def arith64 max64_def)
qed

lemma not_late_no_charges: "DaysLate b at = 0 \<Longrightarrow> FineCents b at = 0 \<and> InterestCents b at = 0"
  by (simp add: FineCents_def InterestCents_def)

lemma late_no_discount: "DaysLate b at > 0 \<Longrightarrow> DiscountCents b at = 0"
  by (simp add: DiscountCents_def)

lemma due_on_time:
  assumes "wf_boleto b" "safe_principal b" "DaysLate b at = 0"
  shows "AmountDueCents b at = m_cents (bo_principal b) - DiscountCents b at"
  using AmountDueCents_eq(1) [OF assms(1,2)] not_late_no_charges [OF assms(3)] by simp

lemma due_late:
  assumes "wf_boleto b" "safe_principal b" "DaysLate b at > 0"
  shows "AmountDueCents b at = m_cents (bo_principal b) + FineCents b at +
      (m_cents (bo_principal b) * bo_monthlyInterestBps b * DaysLate b at + 150000) div 300000"
    "m_cents (bo_principal b) \<le> AmountDueCents b at"
proof -
  show eq: "AmountDueCents b at = m_cents (bo_principal b) + FineCents b at +
      (m_cents (bo_principal b) * bo_monthlyInterestBps b * DaysLate b at + 150000) div 300000"
    using AmountDueCents_eq(1) [OF assms(1,2), of at] late_no_discount [OF assms(3)]
      InterestCents_eq [OF assms(1,2), of at] by simp
  have "0 \<le> m_cents (bo_principal b) * bo_monthlyInterestBps b * DaysLate b at"
    using assms safe_products(1) [OF assms(1,2)] by (auto simp: wf_boleto_def)
  then show "m_cents (bo_principal b) \<le> AmountDueCents b at"
    unfolding eq using FineCents_cap(1) [OF assms(1,2), of at] by (simp add: pos_imp_zdiv_nonneg_iff)
qed

lemma discount_antimono:
  assumes "wf_boleto b" "DaysLate b s = 0" "DaysLate b t = 0" "DaysEarly b t \<le> DaysEarly b s"
  shows "DiscountCents b t \<le> DiscountCents b s"
proof (cases "find (\<lambda>d. DaysBeforeDue d \<le> DaysEarly b t) (bo_discounts b)")
  case None
  then have "DiscountCents b t = 0" by (simp add: DiscountCents_def)
  then show ?thesis using DiscountCents_range [OF assms(1), of s] by simp
next
  case (Some d)
  then have d: "d \<in> set (bo_discounts b)" "DaysBeforeDue d \<le> DaysEarly b s"
    using find_Some_mem [OF Some] assms(4) by auto
  then obtain e where e: "find (\<lambda>d. DaysBeforeDue d \<le> DaysEarly b s) (bo_discounts b) = Some e"
    by (cases "find (\<lambda>d. DaysBeforeDue d \<le> DaysEarly b s) (bo_discounts b)")
       (auto simp: find_None_conv)
  have "tier_cents d (m_cents (bo_principal b)) \<le> tier_cents e (m_cents (bo_principal b))"
    using assms(1) d by (intro tiers_ok_first_max [OF _ e, of _ None]) (auto simp: wf_boleto_def)
  moreover have "bo_discounts b \<noteq> []" using d(1) by auto
  ultimately show ?thesis using Some e assms(2,3) by (simp add: DiscountCents_def)
qed

section \<open>Properties\<close>

text \<open>
  C36: what a boleto costs. For a well-formed boleto of at most eight billion reais, at any instant:
  paid on time or early it costs the principal minus the discount, between 1 cent and the
  principal; paid \<open>n > 0\<close> days late it costs the principal, plus the fine (never above 2% of the
  principal, rounded), plus the interest, which is \<open>principal * rate * n / 300000\<close> rounded half up
  and hence at most 1% per 30 days, with no discount. No operation overflows, the total is always
  positive, and \<open>AmountDue\<close> carries it in the principal's currency.
\<close>

theorem boleto_amount_due:
  assumes "wf_boleto b" and "safe_principal b"
  shows "let P = m_cents (bo_principal b); n = DaysLate b at in
    (n = 0 \<longrightarrow> AmountDueCents b at = P - DiscountCents b at \<and> AmountDueCents b at \<le> P) \<and>
    (n > 0 \<longrightarrow> AmountDueCents b at =
        P + FineCents b at + (P * bo_monthlyInterestBps b * n + 150000) div 300000 \<and>
      P \<le> AmountDueCents b at \<and> FineCents b at \<le> (P * 200 + 5000) div 10000) \<and>
    0 < AmountDueCents b at \<and>
    AmountDue b at = \<lparr>m_cents = AmountDueCents b at, m_currency = m_currency (bo_principal b)\<rparr>"
proof -
  note eq = AmountDueCents_eq [OF assms, of at]
  have "AmountDue b at = \<lparr>m_cents = AmountDueCents b at, m_currency = m_currency (bo_principal b)\<rparr>"
    using eq(2) assms(1) by (auto simp: AmountDue_def NewMoney_def wf_boleto_def wf_money_def)
  then show ?thesis
    using eq(2) due_on_time [OF assms, of at] due_late [OF assms, of at]
      DiscountCents_range [OF assms(1), of at] FineCents_cap [OF assms, of at]
    by (auto simp: Let_def)
qed

definition sample_boleto :: boleto where
  "sample_boleto = \<lparr>bo_id = ''b1'', bo_tenantID = ''t1'',
     bo_principal = \<lparr>m_cents = 100000, m_currency = ''BRL''\<rparr>,
     bo_dueDate = \<lparr>ns = 700000 * day_ns, zone = 0\<rparr>, bo_fineBps = 200, bo_fineFixedCents = 0,
     bo_monthlyInterestBps = 100, bo_validUntil = zero_time,
     bo_discounts = [\<lparr>DaysBeforeDue = 10, Bps = 500, FixedCents = 0\<rparr>,
                     \<lparr>DaysBeforeDue = 0, Bps = 0, FixedCents = 1000\<rparr>]\<rparr>"

definition sample_day :: "int \<Rightarrow> gotime" where
  "sample_day k = \<lparr>ns = (700000 + k) * day_ns + 3600000000000, zone = 0\<rparr>"

lemma sample_boleto_wf: "wf_boleto sample_boleto"
  by (simp add: wf_boleto_def sample_boleto_def trimmed_def TrimSpace_plain plain_byte_def
      less_eq_char_def wf_money_def currencyRe_def max64_def time_defs zero_time_def boleto_consts
      tier_cents_def roundDiv_eq mul64_id day_ns_def)

lemma sample_boleto_civil: "civil_day (bo_dueDate sample_boleto) = 700000"
  "civil_day (sample_day k) = 700000 + k"
proof -
  show "civil_day (bo_dueDate sample_boleto) = 700000"
    by (simp add: civil_day_def sample_boleto_def)
  have "((700000 + k) * day_ns + 3600000000000) div day_ns = 700000 + k"
    by (simp add: div_mult_self3 [of day_ns]) (simp add: day_ns_def)
  then show "civil_day (sample_day k) = 700000 + k" by (simp add: civil_day_def sample_day_def)
qed

lemma sample_zone: "zone (sample_day k) = zone (bo_dueDate sample_boleto)"
  by (simp add: sample_boleto_def sample_day_def)

lemma sample_DaysLate: "k \<le> 106751 \<Longrightarrow> DaysLate sample_boleto (sample_day k) = max 0 k"
  by (simp add: DaysLate_def days_between_civil sample_boleto_civil sample_zone)

theorem boleto_amount_due_witness:
  "AmountDueCents sample_boleto (sample_day 30) = 103000"
proof -
  have s: "safe_principal sample_boleto" by (simp add: safe_principal_def sample_boleto_def)
  have late: "DaysLate sample_boleto (sample_day 30) = 30" by (simp add: sample_DaysLate)
  have fine: "FineCents sample_boleto (sample_day 30) = 2000"
    using FineCents_eq [OF sample_boleto_wf s, of "sample_day 30"]
    by (simp add: late) (simp add: sample_boleto_def)
  show ?thesis
    using boleto_amount_due [OF sample_boleto_wf s, of "sample_day 30"] fine
    by (simp add: late) (simp add: sample_boleto_def)
qed

text \<open>
  the discount granted is the best one earned. For a well-formed boleto that is not late, the
  code's "first qualifying tier" is the maximum over all tiers whose minimum number of days the
  payment respects, and zero only if no tier qualifies.
\<close>

theorem discount_is_most_generous:
  assumes "wf_boleto b" and "DaysLate b at = 0"
  shows "let Q = {d \<in> set (bo_discounts b). DaysBeforeDue d \<le> DaysEarly b at} in
    (Q = {} \<longrightarrow> DiscountCents b at = 0) \<and>
    (Q \<noteq> {} \<longrightarrow> DiscountCents b at = Max ((\<lambda>d. tier_cents d (m_cents (bo_principal b))) ` Q))"
proof -
  define Q where "Q = {d \<in> set (bo_discounts b). DaysBeforeDue d \<le> DaysEarly b at}"
  let ?p = "m_cents (bo_principal b)"
  have t: "tiers_ok ?p None (bo_discounts b)" using assms(1) by (simp add: wf_boleto_def)
  show ?thesis
  proof (cases "find (\<lambda>d. DaysBeforeDue d \<le> DaysEarly b at) (bo_discounts b)")
    case None
    then have "Q = {}" by (auto simp: Q_def find_None_conv)
    with None assms(2) show ?thesis unfolding Q_def [symmetric] by (simp add: DiscountCents_def)
  next
    case (Some d)
    then have d: "d \<in> Q" using find_Some_mem [OF Some] by (simp add: Q_def)
    have disc: "DiscountCents b at = tier_cents d ?p"
      using Some assms(2) by (auto simp: DiscountCents_def)
    have "Max ((\<lambda>d. tier_cents d ?p) ` Q) = tier_cents d ?p"
      using d tiers_ok_first_max [OF t Some] by (intro Max_eqI) (auto simp: Q_def)
    with disc d show ?thesis unfolding Q_def [symmetric] by auto
  qed
qed

theorem discount_is_most_generous_witness:
  "DaysLate sample_boleto (sample_day (-12)) = 0 \<and>
   DiscountCents sample_boleto (sample_day (-12)) = 5000"
proof -
  let ?at = "sample_day (-12)"
  have l: "DaysLate sample_boleto ?at = 0" by (simp add: sample_DaysLate)
  have e: "DaysEarly sample_boleto ?at = 12"
    by (simp add: DaysEarly_def days_between_civil sample_boleto_civil sample_zone)
  let ?Q = "{d \<in> set (bo_discounts sample_boleto). DaysBeforeDue d \<le> 12}"
  have Q: "?Q = set (bo_discounts sample_boleto)" by (auto simp: sample_boleto_def)
  have "DiscountCents sample_boleto ?at =
      Max ((\<lambda>d. tier_cents d (m_cents (bo_principal sample_boleto))) ` ?Q)"
    using discount_is_most_generous [OF sample_boleto_wf l] unfolding e
    by (simp add: Q) (simp add: sample_boleto_def)
  also have "\<dots> = 5000"
    unfolding Q by (simp add: sample_boleto_def tier_cents_def roundDiv_eq mul64_id boleto_consts max64_def)
  finally show ?thesis using l by simp
qed

text \<open>
  paying earlier never costs more. For a well-formed boleto of at most eight billion reais and
  two instants of the same location, the amount due at the earlier one is at most the amount due
  at the later one.
\<close>

theorem boleto_amount_monotone:
  assumes "wf_boleto b" and "safe_principal b" and "zone s = zone t" and "ns s \<le> ns t"
  shows "AmountDueCents b s \<le> AmountDueCents b t"
proof -
  let ?P = "m_cents (bo_principal b)"
  note mid = midnight_mono [OF assms(3,4)]
  have L: "DaysLate b s \<le> DaysLate b t" and E: "DaysEarly b t \<le> DaysEarly b s"
    unfolding DaysLate_def DaysEarly_def using mid
    by (auto intro: days_between_mono1 days_between_mono2)
  show ?thesis
  proof (cases "DaysLate b t = 0")
    case True
    then have s0: "DaysLate b s = 0" using L DaysLate_range [of b s] by simp
    then show ?thesis
      using discount_antimono [OF assms(1) s0 True E]
      by (simp add: due_on_time [OF assms(1,2) True] due_on_time [OF assms(1,2) s0])
  next
    case False
    then have t0: "DaysLate b t > 0" using DaysLate_range [of b t] by simp
    show ?thesis
    proof (cases "DaysLate b s = 0")
      case True
      then show ?thesis
        using due_late(2) [OF assms(1,2) t0] due_on_time [OF assms(1,2) True]
          DiscountCents_range [OF assms(1), of s] by simp
    next
      case False
      then have s0: "DaysLate b s > 0" using DaysLate_range [of b s] by simp
      have "0 \<le> ?P * bo_monthlyInterestBps b"
        using assms(1) safe_products(1) [OF assms(1,2)] by (auto simp: wf_boleto_def)
      then have "(?P * bo_monthlyInterestBps b * DaysLate b s + 150000) div 300000
          \<le> (?P * bo_monthlyInterestBps b * DaysLate b t + 150000) div 300000"
        using L by (intro zdiv_mono1 add_right_mono mult_left_mono) auto
      moreover have "FineCents b s = FineCents b t" using s0 t0 by (simp add: FineCents_def)
      ultimately show ?thesis
        by (simp add: due_late(1) [OF assms(1,2) s0] due_late(1) [OF assms(1,2) t0])
    qed
  qed
qed

theorem boleto_amount_monotone_witness:
  "AmountDueCents sample_boleto (sample_day (-12)) \<le> AmountDueCents sample_boleto (sample_day 30)"
proof -
  have s: "safe_principal sample_boleto" by (simp add: safe_principal_def sample_boleto_def)
  show ?thesis
    by (rule boleto_amount_monotone [OF sample_boleto_wf s])
       (simp_all add: sample_day_def day_ns_def)
qed

definition huge_boleto :: boleto where
  "huge_boleto = sample_boleto\<lparr>bo_principal := \<lparr>m_cents = 30000000000000, m_currency = ''BRL''\<rparr>,
     bo_discounts := []\<rparr>"

text \<open>
  where the arithmetic breaks. A boleto of three hundred billion reais that every constructor
  accepts, paid 3075 days late, gets a \<^emph>\<open>negative\<close> amount due: the product
  \<open>principal * rate * days\<close> wraps around, so the code's statement that the total is always
  strictly positive holds only for smaller principals, and \<open>AmountDue\<close> silently falls back to the
  principal, without fine and interest.
\<close>

theorem boleto_amount_overflows:
  "NewBoleto ''b1'' ''t1'' \<lparr>m_cents = 30000000000000, m_currency = ''BRL''\<rparr>
     (bo_dueDate sample_boleto) 200 100 = Inr huge_boleto \<and>
   AmountDueCents huge_boleto (sample_day 3075) < 0 \<and>
   AmountDue huge_boleto (sample_day 3075) = bo_principal huge_boleto"
proof -
  have late: "DaysLate huge_boleto (sample_day 3075) = 3075"
    using sample_DaysLate [of 3075] by (simp add: DaysLate_def huge_boleto_def)
  have "AmountDueCents huge_boleto (sample_day 3075) = -139146912364"
    by (simp add: AmountDueCents_def FineCents_def InterestCents_def DiscountCents_def late)
       (simp add: huge_boleto_def sample_boleto_def boleto_consts roundDiv_def arith64 quot64_def
          wrap64_def)
  moreover have "NewBoleto ''b1'' ''t1'' \<lparr>m_cents = 30000000000000, m_currency = ''BRL''\<rparr>
     (bo_dueDate sample_boleto) 200 100 = Inr huge_boleto"
    by (simp add: NewBoleto_def Let_def huge_boleto_def sample_boleto_def TrimSpace_plain
        plain_byte_def less_eq_char_def IsZeroMoney_def time_defs boleto_consts day_ns_def)
  ultimately show ?thesis by (simp add: AmountDue_def NewMoney_def)
qed

end
