(* ===== verification/DueCharge.thy ===== *)
theory DueCharge
  imports Boleto
begin

text \<open>
  Package \<open>internal/domain/pixcobv\<close>: a PIX charge with a due date. Its late-payment and discount
  rules are written out again in this package, with the same 64-bit arithmetic as the boleto's; the
  main result here is that a dated charge is accepted when the boleto of the same debt is and its own
  fields (validity, debtor, creditor key) are complete, and that the two cost the same at every instant. \<open>AddDate\<close> with days is exact addition of whole days, which it is
  for every window that \<open>time.Date\<close> can represent.
\<close>

section \<open>Definitions\<close>

definition cobvMaxFineBps :: int where "cobvMaxFineBps = 200"
definition cobvMaxMonthlyInterestBps :: int where "cobvMaxMonthlyInterestBps = 100"
definition cobvBpsDenominator :: int where "cobvBpsDenominator = 10000"
definition cobvDaysPerMonth :: int where "cobvDaysPerMonth = 30"

lemmas cobv_consts = cobvMaxFineBps_def cobvMaxMonthlyInterestBps_def cobvBpsDenominator_def cobvDaysPerMonth_def

datatype debtor_type = DebtorPF | DebtorPJ

record debtor =
  db_taxID :: string
  db_name :: string
  db_street :: string
  db_city :: string
  db_state :: string
  db_zipCode :: string

definition DebtorTypeOf :: "debtor \<Rightarrow> debtor_type" where
  "DebtorTypeOf d = (if length (db_taxID d) = 14 then DebtorPJ else DebtorPF)"

record due_charge =
  dc_tenantID :: string
  dc_principal :: money
  dc_dueDate :: gotime
  dc_validityDays :: int
  dc_fineBps :: int
  dc_monthlyInterestBps :: int
  dc_discountBps :: int
  dc_discountFixedCents :: int
  dc_debtor :: debtor
  dc_creditorKey :: string

record due_params =
  dp_TenantID :: string
  dp_Principal :: money
  dp_DueDate :: gotime
  dp_ValidityDays :: int
  dp_FineBps :: int
  dp_MonthlyInterestBps :: int
  dp_DiscountBps :: int
  dp_DiscountFixedCents :: int
  dp_DebtorTaxID :: string
  dp_DebtorName :: string
  dp_DebtorStreet :: string
  dp_DebtorCity :: string
  dp_DebtorState :: string
  dp_DebtorZipCode :: string
  dp_CreditorKey :: string

definition validTaxID :: "string \<Rightarrow> bool" where
  "validTaxID s \<longleftrightarrow> (length s = 11 \<or> length s = 14) \<and> list_all is_digit s"

definition cobv_roundDiv :: "int \<Rightarrow> int \<Rightarrow> int" where
  "cobv_roundDiv num den = (if den = 0 then 0 else quot64 (add64 num (quot64 den 2)) den)"

definition discountCents :: "int \<Rightarrow> int \<Rightarrow> int \<Rightarrow> int" where
  "discountCents bps fixedCents principalCents =
     (if fixedCents > 0 then fixedCents
      else cobv_roundDiv (mul64 principalCents bps) cobvBpsDenominator)"

definition validateDiscount :: "int \<Rightarrow> int \<Rightarrow> int \<Rightarrow> unit result" where
  "validateDiscount bps fixedCents principalCents =
     (if bps = 0 \<and> fixedCents = 0 then Inr ()
      else if bps > 0 \<and> fixedCents > 0
      then Inl (NewValidationError ''discount'' ''set at most one of discount_bps or discount_fixed_cents'')
      else if bps < 0 \<or> fixedCents < 0
      then Inl (NewValidationError ''discount'' ''discount values must not be negative'')
      else if bps > cobvBpsDenominator
      then Inl (NewValidationError ''discount_bps'' ''discount must not exceed 100%'')
      else let c = discountCents bps fixedCents principalCents
           in if c \<le> 0 \<or> c \<ge> principalCents
              then Inl (NewValidationError ''discount'' ''discount must be positive and strictly less than the principal'')
              else Inr ())"

text \<open>The loop over the address fields: the first blank one is reported.\<close>

fun require_fields :: "(string \<times> string) list \<Rightarrow> unit result" where
  "require_fields [] = Inr ()"
| "require_fields ((field, v) # fs) =
     (if v = [] then Inl (NewValidationError field ''debtor address is required on a due-date charge'')
      else require_fields fs)"

definition newDebtor :: "string \<Rightarrow> string \<Rightarrow> string \<Rightarrow> string \<Rightarrow> string \<Rightarrow> string \<Rightarrow> debtor result" where
  "newDebtor taxID name street city state zipCode =
     (let taxID = TrimSpace taxID; name = TrimSpace name; street = TrimSpace street;
          city = TrimSpace city; state = TrimSpace state; zipCode = TrimSpace zipCode
      in if \<not> validTaxID taxID
         then Inl (NewValidationError ''devedor.tax_id'' ''debtor tax id must be 11 (CPF) or 14 (CNPJ) digits'')
         else if name = [] then Inl (NewValidationError ''devedor.name'' ''debtor name is required'')
         else bindE (require_fields [(''devedor.logradouro'', street), (''devedor.cidade'', city),
                       (''devedor.uf'', state), (''devedor.cep'', zipCode)])
                (\<lambda>_. Inr \<lparr>db_taxID = taxID, db_name = name, db_street = street, db_city = city,
                           db_state = state, db_zipCode = zipCode\<rparr>))"

definition NewDueCharge :: "due_params \<Rightarrow> due_charge result" where
  "NewDueCharge p =
     (let tenantID = TrimSpace (dp_TenantID p)
      in if tenantID = [] then Inl (NewValidationError ''tenant_id'' ''tenant id is required'')
         else if IsZeroMoney (dp_Principal p)
         then Inl (NewValidationError ''principal'' ''principal amount is required'')
         else if IsZeroTime (dp_DueDate p)
         then Inl (NewValidationError ''due_date'' ''due date is required'')
         else if dp_ValidityDays p < 0
         then Inl (NewValidationError ''validity_days'' ''validity after due date must not be negative'')
         else if dp_FineBps p < 0 \<or> dp_FineBps p > cobvMaxFineBps
         then Inl (NewValidationError ''fine_bps'' ''fine must be between 0 and 200 basis points'')
         else if dp_MonthlyInterestBps p < 0 \<or> dp_MonthlyInterestBps p > cobvMaxMonthlyInterestBps
         then Inl (NewValidationError ''monthly_interest_bps''
                    ''monthly interest must be between 0 and 100 basis points'')
         else bindE (validateDiscount (dp_DiscountBps p) (dp_DiscountFixedCents p) (m_cents (dp_Principal p)))
           (\<lambda>_. bindE (newDebtor (dp_DebtorTaxID p) (dp_DebtorName p) (dp_DebtorStreet p) (dp_DebtorCity p)
                          (dp_DebtorState p) (dp_DebtorZipCode p))
             (\<lambda>debtor. let creditorKey = TrimSpace (dp_CreditorKey p)
               in if creditorKey = []
                  then Inl (NewValidationError ''creditor_key'' ''creditor pix key is required'')
                  else Inr \<lparr>dc_tenantID = tenantID, dc_principal = dp_Principal p, dc_dueDate = dp_DueDate p,
                         dc_validityDays = dp_ValidityDays p, dc_fineBps = dp_FineBps p,
                         dc_monthlyInterestBps = dp_MonthlyInterestBps p, dc_discountBps = dp_DiscountBps p,
                         dc_discountFixedCents = dp_DiscountFixedCents p, dc_debtor = debtor,
                         dc_creditorKey = creditorKey\<rparr>)))"

definition PayableUntil :: "due_charge \<Rightarrow> gotime" where
  "PayableUntil c = AddTime (midnight (dc_dueDate c)) (dc_validityDays c * day_ns)"

definition ExpiredAt :: "due_charge \<Rightarrow> gotime \<Rightarrow> bool" where
  "ExpiredAt c at \<longleftrightarrow> After (midnight at) (PayableUntil c)"

definition cobvDaysLate :: "due_charge \<Rightarrow> gotime \<Rightarrow> int" where
  "cobvDaysLate c at = days_between at (dc_dueDate c)"

definition cobvDaysEarly :: "due_charge \<Rightarrow> gotime \<Rightarrow> int" where
  "cobvDaysEarly c at = days_between (dc_dueDate c) at"

definition cobvFineCents :: "due_charge \<Rightarrow> gotime \<Rightarrow> int" where
  "cobvFineCents c at =
     (if cobvDaysLate c at = 0 then 0
      else cobv_roundDiv (mul64 (m_cents (dc_principal c)) (dc_fineBps c)) cobvBpsDenominator)"

definition cobvInterestCents :: "due_charge \<Rightarrow> gotime \<Rightarrow> int" where
  "cobvInterestCents c at =
     (let days = cobvDaysLate c at
      in if days = 0 then 0
         else cobv_roundDiv (mul64 (mul64 (m_cents (dc_principal c)) (dc_monthlyInterestBps c)) days)
                (mul64 cobvBpsDenominator cobvDaysPerMonth))"

definition cobvDiscountCents :: "due_charge \<Rightarrow> gotime \<Rightarrow> int" where
  "cobvDiscountCents c at =
     (if cobvDaysLate c at > 0 then 0
      else discountCents (dc_discountBps c) (dc_discountFixedCents c) (m_cents (dc_principal c)))"

definition cobvAmountDueCents :: "due_charge \<Rightarrow> gotime \<Rightarrow> int" where
  "cobvAmountDueCents c at =
     sub64 (add64 (add64 (m_cents (dc_principal c)) (cobvFineCents c at)) (cobvInterestCents c at))
       (cobvDiscountCents c at)"

definition cobvAmountDue :: "due_charge \<Rightarrow> gotime \<Rightarrow> money" where
  "cobvAmountDue c at =
     (case NewMoney (cobvAmountDueCents c at) (m_currency (dc_principal c)) of
        Inl e \<Rightarrow> dc_principal c
      | Inr m \<Rightarrow> m)"

section \<open>The boleto of the same debt\<close>

text \<open>The discount of a dated charge as a schedule: none, or one tier that is earned up to the due date.\<close>

definition due_tiers :: "int \<Rightarrow> int \<Rightarrow> discount_tier list" where
  "due_tiers bps fixedCents =
     (if bps = 0 \<and> fixedCents = 0 then []
      else [\<lparr>DaysBeforeDue = 0, Bps = bps, FixedCents = fixedCents\<rparr>])"

definition boleto_of :: "string \<Rightarrow> due_charge \<Rightarrow> boleto" where
  "boleto_of bid c = \<lparr>bo_id = bid, bo_tenantID = dc_tenantID c, bo_principal = dc_principal c,
     bo_dueDate = dc_dueDate c, bo_fineBps = dc_fineBps c, bo_fineFixedCents = 0,
     bo_monthlyInterestBps = dc_monthlyInterestBps c, bo_validUntil = zero_time,
     bo_discounts = due_tiers (dc_discountBps c) (dc_discountFixedCents c)\<rparr>"

lemma boleto_of_principal [simp]: "bo_principal (boleto_of bid c) = dc_principal c"
  by (simp add: boleto_of_def)

lemma cobv_roundDiv_eq: "cobv_roundDiv = roundDiv"
  by (simp add: fun_eq_iff cobv_roundDiv_def roundDiv_def)

lemma cobv_consts_eq:
  "cobvMaxFineBps = MaxFineBps" "cobvMaxMonthlyInterestBps = MaxMonthlyInterestBps"
  "cobvBpsDenominator = bpsDenominator" "cobvDaysPerMonth = daysPerMonth"
  by (simp_all add: cobv_consts boleto_consts)

lemmas cobv_as_boleto = cobv_roundDiv_eq cobv_consts_eq

lemma validateDiscount_tiers:
  "validateDiscount bps fixed prin = Inr () \<longleftrightarrow> check_tiers prin None (due_tiers bps fixed) = None"
  by (auto simp: validateDiscount_def due_tiers_def discountCents_def tier_cents_def Let_def cobv_as_boleto
      bpsDenominator_def)

lemma NewDueCharge_boleto:
  assumes "NewDueCharge p = Inr c" "TrimSpace bid \<noteq> []"
  shows "bindE (NewBoleto bid (dp_TenantID p) (dp_Principal p) (dp_DueDate p) (dp_FineBps p) (dp_MonthlyInterestBps p))
      (\<lambda>b. WithDiscounts b (due_tiers (dp_DiscountBps p) (dp_DiscountFixedCents p))) =
    Inr (boleto_of (TrimSpace bid) c)"
proof -
  have "validateDiscount (dp_DiscountBps p) (dp_DiscountFixedCents p) (m_cents (dp_Principal p)) = Inr ()"
    using assms(1) by (auto simp: NewDueCharge_def Let_def bindE_Inr_iff split: if_splits)
  then have "check_tiers (m_cents (dp_Principal p)) None (due_tiers (dp_DiscountBps p) (dp_DiscountFixedCents p)) = None"
    by (simp add: validateDiscount_tiers)
  with assms show ?thesis
    by (auto simp: NewDueCharge_def NewBoleto_def Let_def bindE_Inr_iff cobv_as_boleto boleto_of_def
        WithDiscounts_def split: if_splits)
qed

lemma cobv_days:
  "cobvDaysLate c at = DaysLate (boleto_of bid c) at" "cobvDaysEarly c at = DaysEarly (boleto_of bid c) at"
  by (simp_all add: cobvDaysLate_def DaysLate_def cobvDaysEarly_def DaysEarly_def boleto_of_def)

lemma cobv_parts:
  "cobvFineCents c at = FineCents (boleto_of bid c) at"
  "cobvInterestCents c at = InterestCents (boleto_of bid c) at"
  by (simp_all add: cobvFineCents_def FineCents_def cobvInterestCents_def InterestCents_def
      cobv_days [of c at bid] Let_def cobv_as_boleto) (simp_all add: boleto_of_def)

lemma cobv_discount: "cobvDiscountCents c at = DiscountCents (boleto_of bid c) at"
proof -
  have z: "roundDiv (mul64 x 0) bpsDenominator = 0" for x
    by (simp add: roundDiv_def boleto_consts mul64_def add64_def quot64_def wrap64_def)
  have "0 \<le> DaysEarly (boleto_of bid c) at" by (simp add: DaysEarly_def days_between_nonneg)
  then show ?thesis
    by (simp add: cobvDiscountCents_def DiscountCents_def cobv_days [of c at bid])
       (auto simp: boleto_of_def due_tiers_def discountCents_def tier_cents_def cobv_as_boleto z)
qed

lemma cobv_amount: "cobvAmountDueCents c at = AmountDueCents (boleto_of bid c) at"
  by (simp add: cobvAmountDueCents_def AmountDueCents_def cobv_parts [of c at bid] cobv_discount [of c at bid])

lemma cobv_amount_money: "cobvAmountDue c at = AmountDue (boleto_of bid c) at"
  by (simp add: cobvAmountDue_def AmountDue_def cobv_amount [of c at bid] split: sum.split)

text \<open>The validity window in calendar days.\<close>

lemma ExpiredAt_iff:
  assumes "zone at = zone (dc_dueDate c)"
  shows "ExpiredAt c at \<longleftrightarrow> civil_day (dc_dueDate c) + dc_validityDays c < civil_day at"
proof -
  have "ExpiredAt c at \<longleftrightarrow> (civil_day (dc_dueDate c) + dc_validityDays c) * day_ns < civil_day at * day_ns"
    using assms by (simp add: ExpiredAt_def PayableUntil_def After_def AddTime_def midnight_def algebra_simps)
  then show ?thesis by (simp add: mult_less_cancel_right_pos)
qed

section \<open>Properties\<close>

text \<open>What a dated charge needs beyond a boleto: a validity window, a full debtor and the creditor's key.\<close>

definition addressed :: "due_params \<Rightarrow> bool" where
  "addressed p \<longleftrightarrow> 0 \<le> dp_ValidityDays p \<and> validTaxID (TrimSpace (dp_DebtorTaxID p)) \<and>
     (\<forall>v \<in> {dp_DebtorName p, dp_DebtorStreet p, dp_DebtorCity p, dp_DebtorState p, dp_DebtorZipCode p, dp_CreditorKey p}. TrimSpace v \<noteq> [])"

definition same_debt_boleto :: "string \<Rightarrow> due_params \<Rightarrow> boleto result" where
  "same_debt_boleto bid p =
     bindE (NewBoleto bid (dp_TenantID p) (dp_Principal p) (dp_DueDate p) (dp_FineBps p) (dp_MonthlyInterestBps p))
       (\<lambda>b. WithDiscounts b (due_tiers (dp_DiscountBps p) (dp_DiscountFixedCents p)))"

lemma newDebtor_accepts:
  "(\<exists>d. newDebtor tax nm street city state cep = Inr d) \<longleftrightarrow>
     validTaxID (TrimSpace tax) \<and> (\<forall>v \<in> {nm, street, city, state, cep}. TrimSpace v \<noteq> [])"
  by (auto simp: newDebtor_def Let_def)

lemma WithDiscounts_accepts: "(\<exists>b'. WithDiscounts b ts = Inr b') \<longleftrightarrow> check_tiers (m_cents (bo_principal b)) None ts = None"
  by (auto simp: WithDiscounts_def split: option.splits)

lemma boleto_accepts:
  assumes "TrimSpace bid \<noteq> []"
  shows "(\<exists>b. same_debt_boleto bid p = Inr b) \<longleftrightarrow>
    TrimSpace (dp_TenantID p) \<noteq> [] \<and> \<not> IsZeroMoney (dp_Principal p) \<and> \<not> IsZeroTime (dp_DueDate p) \<and>
    0 \<le> dp_FineBps p \<and> dp_FineBps p \<le> MaxFineBps \<and> 0 \<le> dp_MonthlyInterestBps p \<and> dp_MonthlyInterestBps p \<le> MaxMonthlyInterestBps \<and>
    validateDiscount (dp_DiscountBps p) (dp_DiscountFixedCents p) (m_cents (dp_Principal p)) = Inr ()"
  using assms by (auto simp: same_debt_boleto_def NewBoleto_def Let_def bindE_Inr_iff WithDiscounts_accepts validateDiscount_tiers)

lemma due_charge_accepts:
  assumes "TrimSpace bid \<noteq> []"
  shows "(\<exists>c. NewDueCharge p = Inr c) \<longleftrightarrow> (\<exists>b. same_debt_boleto bid p = Inr b) \<and> addressed p"
  unfolding boleto_accepts [OF assms] addressed_def
  using newDebtor_accepts [of "dp_DebtorTaxID p" "dp_DebtorName p" "dp_DebtorStreet p" "dp_DebtorCity p" "dp_DebtorState p" "dp_DebtorZipCode p"]
  by (auto simp: NewDueCharge_def Let_def bindE_Inr_iff cobv_as_boleto)

lemma late_bounds:
  assumes "NewDueCharge p = Inr c" "TrimSpace bid \<noteq> []" "wf_money (dp_Principal p)" "m_cents (dp_Principal p) \<le> 800000000000"
  shows "0 < cobvAmountDueCents c at" "cobvDaysLate c at = 0 \<Longrightarrow> cobvAmountDueCents c at \<le> m_cents (dp_Principal p)"
    "cobvDaysLate c at > 0 \<Longrightarrow> cobvAmountDueCents c at = m_cents (dp_Principal p) + cobvFineCents c at +
       (m_cents (dp_Principal p) * dp_MonthlyInterestBps p * cobvDaysLate c at + 150000) div 300000"
proof -
  let ?b = "boleto_of (TrimSpace bid) c"
  have wf: "wf_boleto ?b"
    using NewDueCharge_boleto [OF assms(1,2)] assms(3) by (auto simp: bindE_Inr_iff intro: WithDiscounts_wf NewBoleto_wf)
  have c: "dc_principal c = dp_Principal p" "dc_monthlyInterestBps c = dp_MonthlyInterestBps p"
    using assms(1) by (auto simp: NewDueCharge_def Let_def bindE_Inr_iff split: if_splits)
  have B: "bo_principal ?b = dp_Principal p" "bo_monthlyInterestBps ?b = dp_MonthlyInterestBps p"
    by (simp_all add: boleto_of_def c)
  have s: "safe_principal ?b" using assms(4) by (simp add: safe_principal_def c)
  note same = cobv_amount [of c at "TrimSpace bid"] cobv_days(1) [of c at "TrimSpace bid"] cobv_parts [of c at "TrimSpace bid"]
  show "0 < cobvAmountDueCents c at" using AmountDueCents_eq(2) [OF wf s, of at] by (simp add: same)
  show "cobvDaysLate c at = 0 \<Longrightarrow> cobvAmountDueCents c at \<le> m_cents (dp_Principal p)"
    using due_on_time [OF wf s, of at] DiscountCents_range [OF wf, of at] by (auto simp: same B c)
  show "cobvDaysLate c at > 0 \<Longrightarrow> cobvAmountDueCents c at = m_cents (dp_Principal p) + cobvFineCents c at +
       (m_cents (dp_Principal p) * dp_MonthlyInterestBps p * cobvDaysLate c at + 150000) div 300000"
    using due_late(1) [OF wf s, of at] by (simp add: same B c)
qed

text \<open>
  C37: a dated PIX charge is the boleto of the same debt with an addressed debtor, at the same price. \<open>pixcobv.New\<close>
  accepts its parameters exactly when the boleto constructors accept the same debt, with the discount as one tier
  earned up to the due date, and the validity is not negative, the debtor has a tax id of 11 or 14 digits, a
  name and a full address, and there is a creditor key. For every accepted charge, fine, interest, discount and
  total of the two, computed by separate code at 64 bits, agree at every instant, even where they overflow.
  For at most eight billion reais the total is therefore positive, at most the principal when paid in time, and
  at least the principal, with the exact rounded interest, when paid late.
\<close>

theorem cobv_prices_like_boleto:
  assumes "TrimSpace bid \<noteq> []" "wf_money (dp_Principal p)"
  shows "((\<exists>c. NewDueCharge p = Inr c) \<longleftrightarrow> (\<exists>b. same_debt_boleto bid p = Inr b) \<and> addressed p) \<and>
    (\<forall>c. NewDueCharge p = Inr c \<longrightarrow>
      (\<exists>b. same_debt_boleto bid p = Inr b \<and>
        cobvFineCents c at = FineCents b at \<and> cobvInterestCents c at = InterestCents b at \<and>
        cobvDiscountCents c at = DiscountCents b at \<and> cobvAmountDueCents c at = AmountDueCents b at \<and>
        cobvAmountDue c at = AmountDue b at) \<and>
      (m_cents (dp_Principal p) \<le> 800000000000 \<longrightarrow>
         0 < cobvAmountDueCents c at \<and>
         (cobvDaysLate c at = 0 \<longrightarrow> cobvAmountDueCents c at \<le> m_cents (dp_Principal p)) \<and>
         (cobvDaysLate c at > 0 \<longrightarrow> cobvAmountDueCents c at = m_cents (dp_Principal p) + cobvFineCents c at +
            (m_cents (dp_Principal p) * dp_MonthlyInterestBps p * cobvDaysLate c at + 150000) div 300000)))"
proof (intro conjI allI impI, goal_cases)
  case 1
  show ?case by (rule due_charge_accepts [OF assms(1)])
next
  case (2 c)
  show ?case
    using NewDueCharge_boleto [OF 2 assms(1)]
    by (simp add: same_debt_boleto_def cobv_parts [of c at "TrimSpace bid"] cobv_discount [of c at "TrimSpace bid"]
        cobv_amount [of c at "TrimSpace bid"] cobv_amount_money [of c at "TrimSpace bid"])
qed (use late_bounds [OF _ assms] in blast)+

definition sample_due_params :: due_params where
  "sample_due_params = \<lparr>dp_TenantID = ''t1'', dp_Principal = \<lparr>m_cents = 100000, m_currency = ''BRL''\<rparr>,
     dp_DueDate = \<lparr>ns = 700000 * day_ns, zone = 0\<rparr>, dp_ValidityDays = 30, dp_FineBps = 200,
     dp_MonthlyInterestBps = 100, dp_DiscountBps = 0, dp_DiscountFixedCents = 1000,
     dp_DebtorTaxID = ''12345678901'', dp_DebtorName = ''Ana'', dp_DebtorStreet = ''Rua'',
     dp_DebtorCity = ''Natal'', dp_DebtorState = ''RN'', dp_DebtorZipCode = ''59000000'',
     dp_CreditorKey = ''ck''\<rparr>"

definition sample_due :: due_charge where
  "sample_due = \<lparr>dc_tenantID = ''t1'', dc_principal = \<lparr>m_cents = 100000, m_currency = ''BRL''\<rparr>,
     dc_dueDate = \<lparr>ns = 700000 * day_ns, zone = 0\<rparr>, dc_validityDays = 30, dc_fineBps = 200,
     dc_monthlyInterestBps = 100, dc_discountBps = 0, dc_discountFixedCents = 1000,
     dc_debtor = \<lparr>db_taxID = ''12345678901'', db_name = ''Ana'', db_street = ''Rua'', db_city = ''Natal'',
       db_state = ''RN'', db_zipCode = ''59000000''\<rparr>, dc_creditorKey = ''ck''\<rparr>"

lemma sample_due_new: "NewDueCharge sample_due_params = Inr sample_due"
  by (simp add: NewDueCharge_def sample_due_params_def sample_due_def TrimSpace_plain plain_byte_def
      less_eq_char_def IsZeroMoney_def time_defs day_ns_def cobv_consts validateDiscount_def
      discountCents_def newDebtor_def validTaxID_def is_digit_def Let_def)

theorem cobv_prices_like_boleto_witness:
  "cobvAmountDueCents sample_due (sample_day 30) = 103000 \<and>
   cobvAmountDueCents sample_due (sample_day 0) \<le> 100000"
proof -
  have t: "TrimSpace ''b1'' \<noteq> []" by (simp add: TrimSpace_plain plain_byte_def less_eq_char_def)
  have w: "wf_money (dp_Principal sample_due_params)"
    by (simp add: sample_due_params_def wf_money_def currencyRe_def max64_def less_eq_char_def)
  have d: "cobvDaysLate sample_due (sample_day k) = DaysLate sample_boleto (sample_day k)" for k
    by (simp add: cobvDaysLate_def DaysLate_def sample_due_def sample_boleto_def)
  then have l: "cobvDaysLate sample_due (sample_day 30) = 30" "cobvDaysLate sample_due (sample_day 0) = 0"
    by (simp_all add: sample_DaysLate)
  have f: "cobvFineCents sample_due (sample_day 30) = 2000"
    by (simp add: cobvFineCents_def l)
       (simp add: sample_due_def cobv_as_boleto boleto_consts roundDiv_eq mul64_id max64_def)
  show ?thesis
    using cobv_prices_like_boleto [OF t w, of "sample_day 30"] cobv_prices_like_boleto [OF t w, of "sample_day 0"] sample_due_new l f
    by (auto simp: sample_due_params_def)
qed

end
