(* ===== verification/PixCharges.thy ===== *)
theory PixCharges
  imports Billable DueCharge
begin

text \<open>
  \<open>internal/app/pix.go\<close> and \<open>internal/app/pixcobv.go\<close>: immediate PIX charges and PIX charges with a due
  date. A bank provider is a record of its methods. \<open>time.Duration(n) * time.Second\<close> is an \<open>int64\<close>
  product, so it wraps. A second request with a finished key reads the charge back from the bank
  instead of creating it.
\<close>

section \<open>Immediate charges\<close>

definition PixCreateEndpoint :: string where "PixCreateEndpoint = ''pix.create''"
definition maxPixListRange :: int where "maxPixListRange = 366 * day_ns"

record pix_charge_result =
  pq_TxID :: string
  pq_Status :: string
  pq_QRCodePayload :: string
  pq_QRCodeLocation :: string
  pq_ExpiresAt :: gotime
  pq_ExpectedAmountCents :: int
  pq_ReceivedAmountCents :: int

record pix_list_filter =
  pf_Start :: gotime
  pf_End :: gotime
  pf_Page :: int
  pf_PageSize :: int

record pix_charge_list =
  pl_Charges :: "pix_charge_result list"
  pl_Page :: int
  pl_PageSize :: int
  pl_TotalItems :: int
  pl_TotalPages :: int

record pix_provider =
  px_CreateImmediateCharge :: "string \<Rightarrow> charge_request \<Rightarrow> int \<Rightarrow> pix_charge_result result"
  px_GetImmediateCharge :: "string \<Rightarrow> string \<Rightarrow> pix_charge_result result"
  px_ListImmediateCharges :: "string \<Rightarrow> pix_list_filter \<Rightarrow> pix_charge_list result"

record pix_env =
  xe_bank :: pix_provider
  xe_stamps :: stamps

datatype pix_call = PixCreate string charge_request int | PixGet string string

record pix_input =
  pi_TenantID :: string
  pi_AccountID :: string
  pi_AmountCents :: int
  pi_Currency :: string
  pi_IdempotencyKey :: string
  pi_ExpiresInSeconds :: int
  pi_DebtorTaxID :: string
  pi_DebtorName :: string

definition validateDebtor :: "string \<Rightarrow> string \<Rightarrow> unit result" where
  "validateDebtor taxID name =
     (let taxID = TrimSpace taxID; name = TrimSpace name
      in if taxID = [] \<and> name = [] then Inr ()
         else if \<not> isTaxID taxID
         then Inl (NewValidationError ''devedor.tax_id'' ''debtor tax id must be 11 (CPF) or 14 (CNPJ) digits'')
         else Inr ())"

definition seconds_duration :: "int \<Rightarrow> int" where
  "seconds_duration n = mul64 n 1000000000"

text \<open>The input as the shared steps see it; the endpoint is the service's own.\<close>

definition pix_ci :: "pix_input \<Rightarrow> create_charge_input" where
  "pix_ci inp = \<lparr>ci_TenantID = pi_TenantID inp, ci_AccountID = pi_AccountID inp, ci_Endpoint = PixCreateEndpoint,
     ci_AmountCents = pi_AmountCents inp, ci_Currency = pi_Currency inp,
     ci_IdempotencyKey = pi_IdempotencyKey inp\<rparr>"

definition pix_admit :: "'s repository \<Rightarrow> 's \<Rightarrow> pix_input \<Rightarrow> endpoint_pricing result" where
  "pix_admit r s inp =
     bindE (admit_tenant r s (pi_TenantID inp) (pi_IdempotencyKey inp))
       (\<lambda>_. if pi_ExpiresInSeconds inp < 0
            then Inl (NewValidationError ''expires_in_seconds'' ''must not be negative'')
            else bindE (validateDebtor (pi_DebtorTaxID inp) (pi_DebtorName inp))
                   (\<lambda>_. resolvePriceOrFree r s (pi_TenantID inp) PixCreateEndpoint))"

definition pix_request :: "pix_input \<Rightarrow> payment \<Rightarrow> charge_request" where
  "pix_request inp p =
     \<lparr>cq_TenantID = pi_TenantID inp, cq_PaymentID = pay_id p, cq_AmountCents = m_cents (pay_amount p),
      cq_Currency = m_currency (pay_amount p), cq_IdempotencyKey = pi_IdempotencyKey inp,
      cq_DebtorTaxID = TrimSpace (pi_DebtorTaxID inp), cq_DebtorName = TrimSpace (pi_DebtorName inp),
      cq_CreditorKey = []\<rparr>"

definition CreateImmediateCharge ::
  "'s repository \<Rightarrow> pix_env \<Rightarrow> 's \<Rightarrow> pix_input \<Rightarrow>
     's \<times> pix_call svc_effect list \<times> (payment \<times> pix_charge_result) result" where
  "CreateImmediateCharge r env s inp =
     (case pix_admit r s inp of
        Inl e \<Rightarrow> (s, [], Inl e)
      | Inr price \<Rightarrow>
          (case reservePayment r (charge_env_of (xe_stamps env)) s (pix_ci inp) of
             (s1, Inl e) \<Rightarrow> (s1, [], Inl e)
           | (s1, Inr p) \<Rightarrow>
               if pay_txID p \<noteq> []
               then (s1, [Called (PixGet (pi_TenantID inp) (pay_txID p))],
                     bindE (wrapE ''reconcile existing pix charge''
                              (px_GetImmediateCharge (xe_bank env) (pi_TenantID inp) (pay_txID p)))
                       (\<lambda>qr. Inr (p, qr)))
               else let req = pix_request inp p; ttl = seconds_duration (pi_ExpiresInSeconds inp);
                        call = Called (PixCreate (pi_TenantID inp) req ttl)
                 in case px_CreateImmediateCharge (xe_bank env) (pi_TenantID inp) req ttl of
                      Inl e \<Rightarrow> (s1, [call], Inl (Errorf ''bank create pix charge'' e))
                    | Inr qr \<Rightarrow>
                        (case bill_created r (xe_stamps env) s1 (pix_ci inp) p price (pq_TxID qr) of
                           (s2, evs, res) \<Rightarrow>
                             (s2, call # map Announced evs, bindE res (\<lambda>q. Inr (q, qr))))))"

definition PixGetImmediateCharge :: "pix_provider \<Rightarrow> string \<Rightarrow> string \<Rightarrow> pix_charge_result result" where
  "PixGetImmediateCharge bank tenantID txID =
     (let txID = TrimSpace txID
      in if txID = [] then Inl (NewValidationError ''txid'' ''txid is required'')
         else px_GetImmediateCharge bank tenantID txID)"

definition validatePixListWindow :: "gotime \<Rightarrow> gotime \<Rightarrow> int \<Rightarrow> int \<Rightarrow> unit result" where
  "validatePixListWindow start stop page pageSize =
     (if IsZeroTime start \<or> IsZeroTime stop
      then Inl (NewValidationError ''start_end'' ''start and end are required'')
      else if \<not> After stop start then Inl (NewValidationError ''end'' ''end must be after start'')
      else if SubTime stop start > maxPixListRange
      then Inl (NewValidationError ''range'' ''date range too large'')
      else if page < 0 \<or> pageSize < 0
      then Inl (NewValidationError ''pagination'' ''page and page_size must not be negative'')
      else Inr ())"

record pix_list_input =
  pli_TenantID :: string
  pli_Start :: gotime
  pli_End :: gotime
  pli_Page :: int
  pli_PageSize :: int

definition PixListImmediateCharges :: "pix_provider \<Rightarrow> pix_list_input \<Rightarrow> pix_charge_list result" where
  "PixListImmediateCharges bank inp =
     bindE (validatePixListWindow (pli_Start inp) (pli_End inp) (pli_Page inp) (pli_PageSize inp))
       (\<lambda>_. px_ListImmediateCharges bank (pli_TenantID inp)
              \<lparr>pf_Start = pli_Start inp, pf_End = pli_End inp, pf_Page = pli_Page inp,
               pf_PageSize = pli_PageSize inp\<rparr>)"

section \<open>Charges with a due date\<close>

definition PixCobVCreateEndpoint :: string where "PixCobVCreateEndpoint = ''pix.cobv.create''"

record due_charge_request =
  dq_TenantID :: string
  dq_TxID :: string
  dq_AmountCents :: int
  dq_Currency :: string
  dq_DueDate :: gotime
  dq_ValidityDays :: int
  dq_FineBps :: int
  dq_MonthlyInterestBps :: int
  dq_DiscountBps :: int
  dq_DiscountFixedCents :: int
  dq_DebtorTaxID :: string
  dq_DebtorName :: string
  dq_DebtorStreet :: string
  dq_DebtorCity :: string
  dq_DebtorState :: string
  dq_DebtorZipCode :: string
  dq_CreditorKey :: string
  dq_IdempotencyKey :: string

record due_charge_result =
  dr_TxID :: string
  dr_Status :: string
  dr_QRCodePayload :: string
  dr_QRCodeLocation :: string
  dr_DueDate :: gotime
  dr_ValidityDays :: int
  dr_FineBps :: int
  dr_MonthlyInterestBps :: int
  dr_DiscountBps :: int
  dr_DiscountFixedCents :: int
  dr_ExpectedAmountCents :: int
  dr_ReceivedAmountCents :: int

record cobv_provider =
  cv_CreateDueCharge :: "string \<Rightarrow> due_charge_request \<Rightarrow> due_charge_result result"
  cv_GetDueCharge :: "string \<Rightarrow> string \<Rightarrow> due_charge_result result"
  cv_UpdateDueCharge :: "string \<Rightarrow> string \<Rightarrow> due_charge_request \<Rightarrow> due_charge_result result"

text \<open>The clock is read once to validate the due date, before the readings of the stamps.\<close>

record cobv_env =
  ve_bank :: cobv_provider
  ve_now :: gotime
  ve_stamps :: stamps

datatype cobv_call = CobvCreate string due_charge_request | CobvGet string string

record due_input =
  di_TenantID :: string
  di_AccountID :: string
  di_AmountCents :: int
  di_Currency :: string
  di_DueDate :: gotime
  di_ValidityDays :: int
  di_FineBps :: int
  di_MonthlyInterestBps :: int
  di_DiscountBps :: int
  di_DiscountFixedCents :: int
  di_DebtorTaxID :: string
  di_DebtorName :: string
  di_DebtorStreet :: string
  di_DebtorCity :: string
  di_DebtorState :: string
  di_DebtorZipCode :: string
  di_CreditorKey :: string
  di_IdempotencyKey :: string

text \<open>Both days are taken at midnight in the location of the reference.\<close>

definition dayAfter :: "gotime \<Rightarrow> gotime \<Rightarrow> bool" where
  "dayAfter t ref =
     (let day = \<lambda>x. \<lparr>ns = civil_day x * day_ns - zone ref, zone = zone ref\<rparr>
      in After (day t) (day ref))"

definition due_params_of :: "due_input \<Rightarrow> money \<Rightarrow> due_params" where
  "due_params_of inp prin =
     \<lparr>dp_TenantID = di_TenantID inp, dp_Principal = prin, dp_DueDate = di_DueDate inp,
      dp_ValidityDays = di_ValidityDays inp, dp_FineBps = di_FineBps inp,
      dp_MonthlyInterestBps = di_MonthlyInterestBps inp, dp_DiscountBps = di_DiscountBps inp,
      dp_DiscountFixedCents = di_DiscountFixedCents inp, dp_DebtorTaxID = di_DebtorTaxID inp,
      dp_DebtorName = di_DebtorName inp, dp_DebtorStreet = di_DebtorStreet inp,
      dp_DebtorCity = di_DebtorCity inp, dp_DebtorState = di_DebtorState inp,
      dp_DebtorZipCode = di_DebtorZipCode inp, dp_CreditorKey = di_CreditorKey inp\<rparr>"

definition validateDueCharge :: "gotime \<Rightarrow> due_input \<Rightarrow> money \<Rightarrow> unit result" where
  "validateDueCharge now inp prin =
     (if \<not> dayAfter (di_DueDate inp) now
      then Inl (NewValidationError ''due_date'' ''due date must be in the future'')
      else bindE (NewDueCharge (due_params_of inp prin)) (\<lambda>_. Inr ()))"

definition due_request :: "due_input \<Rightarrow> string \<Rightarrow> due_charge_request" where
  "due_request inp txID =
     \<lparr>dq_TenantID = di_TenantID inp, dq_TxID = txID, dq_AmountCents = di_AmountCents inp,
      dq_Currency = di_Currency inp, dq_DueDate = di_DueDate inp, dq_ValidityDays = di_ValidityDays inp,
      dq_FineBps = di_FineBps inp, dq_MonthlyInterestBps = di_MonthlyInterestBps inp,
      dq_DiscountBps = di_DiscountBps inp, dq_DiscountFixedCents = di_DiscountFixedCents inp,
      dq_DebtorTaxID = di_DebtorTaxID inp, dq_DebtorName = di_DebtorName inp,
      dq_DebtorStreet = di_DebtorStreet inp, dq_DebtorCity = di_DebtorCity inp,
      dq_DebtorState = di_DebtorState inp, dq_DebtorZipCode = di_DebtorZipCode inp,
      dq_CreditorKey = di_CreditorKey inp, dq_IdempotencyKey = di_IdempotencyKey inp\<rparr>"

definition due_ci :: "due_input \<Rightarrow> create_charge_input" where
  "due_ci inp = \<lparr>ci_TenantID = di_TenantID inp, ci_AccountID = di_AccountID inp,
     ci_Endpoint = PixCobVCreateEndpoint, ci_AmountCents = di_AmountCents inp, ci_Currency = di_Currency inp,
     ci_IdempotencyKey = di_IdempotencyKey inp\<rparr>"

text \<open>The checks before the reservation: the principal and the price.\<close>

definition due_admit :: "'s repository \<Rightarrow> gotime \<Rightarrow> 's \<Rightarrow> due_input \<Rightarrow> (money \<times> endpoint_pricing) result" where
  "due_admit r now s inp =
     bindE (admit_tenant r s (di_TenantID inp) (di_IdempotencyKey inp))
       (\<lambda>_. bindE (NewMoney (di_AmountCents inp) (di_Currency inp))
         (\<lambda>prin. bindE (validateDueCharge now inp prin)
           (\<lambda>_. bindE (resolvePriceOrFree r s (di_TenantID inp) PixCobVCreateEndpoint)
             (\<lambda>price. Inr (prin, price)))))"

definition CreateDueCharge ::
  "'s repository \<Rightarrow> cobv_env \<Rightarrow> 's \<Rightarrow> due_input \<Rightarrow>
     's \<times> cobv_call svc_effect list \<times> (payment \<times> due_charge_result) result" where
  "CreateDueCharge r env s inp =
     (case due_admit r (ve_now env) s inp of
        Inl e \<Rightarrow> (s, [], Inl e)
      | Inr (prin, price) \<Rightarrow>
          (case reserveAmount r (ve_stamps env) s PixCobVCreateEndpoint (di_TenantID inp)
                  (di_IdempotencyKey inp) prin of
             (s1, Inl e) \<Rightarrow> (s1, [], Inl e)
           | (s1, Inr p) \<Rightarrow>
               if pay_txID p \<noteq> []
               then (s1, [Called (CobvGet (di_TenantID inp) (pay_txID p))],
                     bindE (wrapE ''reconcile existing cobv charge''
                              (cv_GetDueCharge (ve_bank env) (di_TenantID inp) (pay_txID p)))
                       (\<lambda>res. Inr (p, res)))
               else let req = due_request inp []; call = Called (CobvCreate (di_TenantID inp) req)
                 in case cv_CreateDueCharge (ve_bank env) (di_TenantID inp) req of
                      Inl e \<Rightarrow> (s1, [call], Inl (Errorf ''bank create cobv charge'' e))
                    | Inr res \<Rightarrow>
                        (case bill_created r (ve_stamps env) s1 (due_ci inp) p price (dr_TxID res) of
                           (s2, evs, out) \<Rightarrow>
                             (s2, call # map Announced evs, bindE out (\<lambda>q. Inr (q, res))))))"

definition CobvGetDueCharge :: "cobv_provider \<Rightarrow> string \<Rightarrow> string \<Rightarrow> due_charge_result result" where
  "CobvGetDueCharge bank tenantID txID =
     (let txID = TrimSpace txID
      in if txID = [] then Inl (NewValidationError ''txid'' ''txid is required'')
         else cv_GetDueCharge bank tenantID txID)"

definition CobvUpdateDueCharge ::
  "cobv_provider \<Rightarrow> gotime \<Rightarrow> string \<Rightarrow> string \<Rightarrow> due_input \<Rightarrow> due_charge_result result" where
  "CobvUpdateDueCharge bank now tenantID txID inp =
     (let txID = TrimSpace txID
      in if txID = [] then Inl (NewValidationError ''txid'' ''txid is required'')
         else if di_IdempotencyKey inp = []
         then Inl (NewValidationError ''idempotency_key'' ''idempotency key is required'')
         else bindE (NewMoney (di_AmountCents inp) (di_Currency inp))
           (\<lambda>prin. bindE (validateDueCharge now inp prin)
             (\<lambda>_. cv_UpdateDueCharge bank tenantID txID (due_request inp txID))))"

section \<open>Both services are billable services\<close>

definition pix_answers :: "pix_env \<Rightarrow> pix_input \<Rightarrow> bool" where
  "pix_answers env inp \<longleftrightarrow>
     (\<forall>req ttl qr. px_CreateImmediateCharge (xe_bank env) (pi_TenantID inp) req ttl = Inr qr \<longrightarrow>
        TrimSpace (pq_TxID qr) \<noteq> [])"

definition cobv_answers :: "cobv_env \<Rightarrow> due_input \<Rightarrow> bool" where
  "cobv_answers env inp \<longleftrightarrow>
     (\<forall>req res. cv_CreateDueCharge (ve_bank env) (di_TenantID inp) req = Inr res \<longrightarrow>
        TrimSpace (dr_TxID res) \<noteq> [])"

lemma pix_ci_simps [simp]:
  "ci_TenantID (pix_ci inp) = pi_TenantID inp" "ci_IdempotencyKey (pix_ci inp) = pi_IdempotencyKey inp"
  "ci_Endpoint (pix_ci inp) = PixCreateEndpoint" "ci_AmountCents (pix_ci inp) = pi_AmountCents inp"
  "ci_Currency (pix_ci inp) = pi_Currency inp" "ci_AccountID (pix_ci inp) = pi_AccountID inp"
  by (simp_all add: pix_ci_def)

lemma due_ci_simps [simp]:
  "ci_TenantID (due_ci inp) = di_TenantID inp" "ci_IdempotencyKey (due_ci inp) = di_IdempotencyKey inp"
  "ci_Endpoint (due_ci inp) = PixCobVCreateEndpoint" "ci_AmountCents (due_ci inp) = di_AmountCents inp"
  "ci_Currency (due_ci inp) = di_Currency inp" "ci_AccountID (due_ci inp) = di_AccountID inp"
  by (simp_all add: due_ci_def)

lemma due_admit_money:
  "due_admit r now s inp = Inr (prin, price) \<Longrightarrow> NewMoney (di_AmountCents inp) (di_Currency inp) = Inr prin"
  by (auto simp: due_admit_def bindE_Inr_iff)

lemma reserve_due:
  "due_admit r now s inp = Inr (prin, price) \<Longrightarrow>
     reserveAmount r sp s PixCobVCreateEndpoint (di_TenantID inp) (di_IdempotencyKey inp) prin =
       reservePayment r (charge_env_of sp) s (due_ci inp)"
  using reserveAmount_eq [of "due_ci inp" prin r sp s] due_admit_money by fastforce

text \<open>
  What each service asks the bank for a payment that is not finished, and for one that is: the first
  creates the charge and yields the id the bank gave it, the second reads the charge back.
\<close>

definition pix_ask :: "pix_env \<Rightarrow> pix_input \<Rightarrow> payment \<Rightarrow> string result" where
  "pix_ask env inp p =
     bindE (wrapE ''bank create pix charge'' (px_CreateImmediateCharge (xe_bank env) (pi_TenantID inp) (pix_request inp p)
              (seconds_duration (pi_ExpiresInSeconds inp)))) (\<lambda>qr. Inr (pq_TxID qr))"

definition pix_replay :: "pix_env \<Rightarrow> pix_input \<Rightarrow> payment \<Rightarrow> unit result" where
  "pix_replay env inp p =
     bindE (wrapE ''reconcile existing pix charge''
              (px_GetImmediateCharge (xe_bank env) (pi_TenantID inp) (pay_txID p))) (\<lambda>_. Inr ())"

definition cobv_ask :: "cobv_env \<Rightarrow> due_input \<Rightarrow> payment \<Rightarrow> string result" where
  "cobv_ask env inp p =
     bindE (wrapE ''bank create cobv charge'' (cv_CreateDueCharge (ve_bank env) (di_TenantID inp) (due_request inp [])))
       (\<lambda>res. Inr (dr_TxID res))"

definition cobv_replay :: "cobv_env \<Rightarrow> due_input \<Rightarrow> payment \<Rightarrow> unit result" where
  "cobv_replay env inp p =
     bindE (wrapE ''reconcile existing cobv charge''
              (cv_GetDueCharge (ve_bank env) (di_TenantID inp) (pay_txID p))) (\<lambda>_. Inr ())"

definition cobv_price :: "cobv_env \<Rightarrow> store \<Rightarrow> due_input \<Rightarrow> endpoint_pricing result" where
  "cobv_price env s inp = bindE (due_admit txView (ve_now env) s inp) (\<lambda>(prin, price). Inr price)"

interpretation pix: billable_service txView store_ok store_view nul_free
  "CreateImmediateCharge txView" pix_ci xe_stamps pix_answers "\<lambda>v. pix_admit txView" "\<lambda>v s. pix_replay v" "\<lambda>v s. pix_ask v"
proof (unfold_locales, goal_cases)
  case (1 v s i)
  show ?case
    by (auto simp: CreateImmediateCharge_def create_with_def pix_ask_def pix_replay_def Let_def bindE_assoc
        split: sum.splits prod.splits)
next
  case (2 v s i price)
  then show ?case by (auto simp: pix_admit_def bindE_Inr_iff split: if_splits)
next
  case (3 v i s p tx)
  then show ?case by (auto simp: pix_answers_def pix_ask_def bindE_Inr_iff)
qed

interpretation cobv: billable_service txView store_ok store_view nul_free
  "CreateDueCharge txView" due_ci ve_stamps cobv_answers cobv_price "\<lambda>v s. cobv_replay v" "\<lambda>v s. cobv_ask v"
proof (unfold_locales, goal_cases)
  case (1 v s i)
  show ?case
  proof (cases "due_admit txView (ve_now v) s i")
    case (Inr pp)
    then obtain prin price where "due_admit txView (ve_now v) s i = Inr (prin, price)" by (cases pp) auto
    with reserve_due [OF this, of "ve_stamps v"] show ?thesis
      by (auto simp: CreateDueCharge_def create_with_def cobv_price_def cobv_ask_def cobv_replay_def Let_def bindE_assoc
          split: sum.splits prod.splits)
  qed (simp add: CreateDueCharge_def create_with_def cobv_price_def)
next
  case (2 v s i price)
  then show ?case by (auto simp: cobv_price_def due_admit_def bindE_Inr_iff)
next
  case (3 v i s p tx)
  then show ?case by (auto simp: cobv_answers_def cobv_ask_def bindE_Inr_iff)
qed

end
