(* ===== verification/Checkout.thy ===== *)
theory Checkout
  imports Payment
begin

text \<open>
  Package \<open>internal/domain/checkout\<close>: a hosted checkout session, its line items and the rules on card
  and instalments. The methods that return a field are the record's selectors; \<open>Items\<close> returns a
  copy, which a value already is.
\<close>

section \<open>Definitions\<close>

datatype card_type = CardUnset | CardCredit | CardDebit

fun card_string :: "card_type \<Rightarrow> string" where
  "card_string CardUnset = []"
| "card_string CardCredit = ''credit''"
| "card_string CardDebit = ''debit''"

definition ParseCardType :: "string \<Rightarrow> card_type result" where
  "ParseCardType s =
     (let t = lower_runes (TrimSpace s)
      in if t = ''credit'' then Inr CardCredit
         else if t = ''debit'' then Inr CardDebit
         else Inl (NewValidationError ''card_type'' ''card_type must be credit or debit''))"

definition valid_card :: "card_type \<Rightarrow> bool" where
  "valid_card c \<longleftrightarrow> c = CardCredit \<or> c = CardDebit"

record item =
  it_description :: string
  it_amountCents :: int

definition NewItem :: "string \<Rightarrow> int \<Rightarrow> item result" where
  "NewItem description amountCents =
     (let description = TrimSpace description
      in if description = [] then Inl (NewValidationError ''description'' ''item description is required'')
         else if amountCents \<le> 0
         then Inl (NewValidationError ''amount_cents'' ''item amount must be greater than zero'')
         else Inr \<lparr>it_description = description, it_amountCents = amountCents\<rparr>)"

record session =
  se_id :: string
  se_tenantID :: string
  se_items :: "item list"
  se_total :: money
  se_expiresAt :: gotime
  se_cardType :: card_type
  se_requireAuth :: bool
  se_maxInstallments :: int

text \<open>The summing loop, with the overflow check of \<open>shared.AddCents\<close> at every step.\<close>

fun add_items :: "int \<Rightarrow> item list \<Rightarrow> int result" where
  "add_items sum0 [] = Inr sum0"
| "add_items sum0 (it # its) = bindE (AddCents sum0 (it_amountCents it)) (\<lambda>s. add_items s its)"

definition NewSession :: "string \<Rightarrow> string \<Rightarrow> string \<Rightarrow> item list \<Rightarrow> gotime \<Rightarrow> session result" where
  "NewSession sid tenantID currency items expiresAt =
     (let sid = TrimSpace sid; tenantID = TrimSpace tenantID
      in if sid = [] then Inl (NewValidationError ''id'' ''session id is required'')
         else if tenantID = [] then Inl (NewValidationError ''tenant_id'' ''tenant id is required'')
         else if items = [] then Inl (NewValidationError ''items'' ''at least one item is required'')
         else if IsZeroTime expiresAt then Inl (NewValidationError ''expires_at'' ''expiry is required'')
         else bindE (add_items 0 items)
           (\<lambda>total. bindE (NewMoney total currency)
             (\<lambda>total. Inr \<lparr>se_id = sid, se_tenantID = tenantID, se_items = items, se_total = total,
                se_expiresAt = expiresAt, se_cardType = CardUnset, se_requireAuth = False,
                se_maxInstallments = 0\<rparr>)))"

definition DefaultInstallments :: int where "DefaultInstallments = 1"
definition MaxInstallmentsLimit :: int where "MaxInstallmentsLimit = 12"
definition MinInstallmentCents :: int where "MinInstallmentCents = 500"

lemmas checkout_consts = DefaultInstallments_def MaxInstallmentsLimit_def MinInstallmentCents_def

definition NormalizeInstallments :: "card_type \<Rightarrow> int \<Rightarrow> int result" where
  "NormalizeInstallments ct maxInstallments =
     (if maxInstallments \<le> 0 then Inr DefaultInstallments
      else if maxInstallments > MaxInstallmentsLimit
      then Inl (NewValidationError ''max_installments'' ''max_installments must be between 1 and 12'')
      else if ct = CardDebit \<and> maxInstallments > 1
      then Inl (NewValidationError ''max_installments'' ''debit card cannot be split into installments'')
      else Inr maxInstallments)"

definition AffordableInstallments :: "int \<Rightarrow> int \<Rightarrow> int" where
  "AffordableInstallments totalCents maxInstallments =
     (if maxInstallments \<le> 1 \<or> totalCents \<le> 0 then DefaultInstallments
      else let cabem = quot64 totalCents MinInstallmentCents
           in if cabem < DefaultInstallments then DefaultInstallments
              else if cabem < maxInstallments then cabem
              else maxInstallments)"

definition WithCard :: "session \<Rightarrow> card_type \<Rightarrow> bool \<Rightarrow> int \<Rightarrow> session result" where
  "WithCard s ct requireAuth maxInstallments =
     (if \<not> valid_card ct then Inl (NewValidationError ''card_type'' ''card_type must be credit or debit'')
      else bindE (NormalizeInstallments ct maxInstallments)
        (\<lambda>n. Inr (s\<lparr>se_cardType := ct, se_requireAuth := requireAuth, se_maxInstallments := n\<rparr>)))"

definition SessionExpired :: "session \<Rightarrow> gotime \<Rightarrow> bool" where
  "SessionExpired s at \<longleftrightarrow> After at (se_expiresAt s)"

section \<open>Lemmas\<close>

text \<open>The loop is the checked sum of the amounts.\<close>

lemma add_items_eq: "add_items a its = SumCents_from a (map it_amountCents its)"
  by (induction its arbitrary: a) (auto simp: bindE_def split: sum.splits)

lemma NewItem_Inr:
  "NewItem d c = Inr it \<longleftrightarrow> TrimSpace d \<noteq> [] \<and> 0 < c \<and> it = \<lparr>it_description = TrimSpace d, it_amountCents = c\<rparr>"
  by (auto simp: NewItem_def Let_def)

lemma NormalizeInstallments_range:
  "NormalizeInstallments ct n = Inr k \<Longrightarrow> 1 \<le> k \<and> k \<le> 12 \<and> (ct = CardDebit \<longrightarrow> k = 1)"
  by (auto simp: NormalizeInstallments_def checkout_consts split: if_splits)

lemma NormalizeInstallments_fixed:
  "1 \<le> k \<Longrightarrow> k \<le> 12 \<Longrightarrow> (ct = CardDebit \<longrightarrow> k = 1) \<Longrightarrow> NormalizeInstallments ct k = Inr k"
  by (auto simp: NormalizeInstallments_def checkout_consts)

lemma one_le_div_floor: "500 \<le> (x :: int) \<Longrightarrow> 1 \<le> x div 500"
  using zdiv_mono1 [of 500 x 500] by simp

text \<open>The number offered is the greatest up to the ceiling whose instalments all reach the floor.\<close>

lemma AffordableInstallments_greatest:
  assumes "500 \<le> tot" "tot \<le> max64" "1 \<le> k"
  shows "AffordableInstallments tot k = min k (tot div 500)"
proof -
  have "quot64 tot 500 = tot div 500" using assms by (intro quot64_nonneg) auto
  moreover have "1 \<le> tot div 500" using assms(1) by (rule one_le_div_floor)
  ultimately show ?thesis using assms by (auto simp: AffordableInstallments_def checkout_consts Let_def)
qed

lemma NewSession_Inr:
  "NewSession sid t cur its ex = Inr s \<Longrightarrow>
     \<exists>c. add_items 0 its = Inr c \<and> NewMoney c cur = Inr (se_total s) \<and> se_items s = its \<and>
       se_id s = TrimSpace sid \<and> se_tenantID s = TrimSpace t \<and> se_expiresAt s = ex \<and> \<not> IsZeroTime ex"
  by (auto simp: NewSession_def Let_def bindE_Inr_iff split: if_splits)

end
