(* ===== verification/CheckoutSessions.thy ===== *)
theory CheckoutSessions
  imports Billable Checkout
begin

text \<open>
  \<open>internal/app/checkout.go\<close>: hosted checkout sessions. Everything about the request is validated
  before a payment is reserved; the session is then built with the payment's id and opened at the
  bank. Here the bank is called again for a finished key, and the answer is returned unbilled.
\<close>

section \<open>Definitions\<close>

definition CheckoutCreateEndpoint :: string where "CheckoutCreateEndpoint = ''checkout.create''"
definition MinCheckoutTotalCents :: int where "MinCheckoutTotalCents = 500"
definition maxCheckoutItems :: nat where "maxCheckoutItems = 100"

record checkout_item_input =
  cii_Description :: string
  cii_AmountCents :: int

record checkout_input =
  kin_TenantID :: string
  kin_AccountID :: string
  kin_Currency :: string
  kin_Items :: "checkout_item_input list"
  kin_ExpiresAt :: gotime
  kin_ExpiresInSeconds :: int
  kin_CardType :: string
  kin_RequireAuthentication :: bool
  kin_MaxInstallments :: int
  kin_IdempotencyKey :: string

record checkout_item =
  cki_Description :: string
  cki_AmountCents :: int

record checkout_request =
  kq_TenantID :: string
  kq_SessionID :: string
  kq_Currency :: string
  kq_Items :: "checkout_item list"
  kq_ExpiresAt :: gotime
  kq_CardType :: string
  kq_RequireAuthentication :: bool
  kq_MaxInstallments :: int
  kq_IdempotencyKey :: string

record checkout_provider =
  kp_CreateCheckoutSession :: "string \<Rightarrow> checkout_request \<Rightarrow> checkout_result result"
  kp_GetCheckoutSession :: "string \<Rightarrow> string \<Rightarrow> checkout_result result"
  kp_CancelCheckoutSession :: "string \<Rightarrow> string \<Rightarrow> checkout_result result"

record checkout_env =
  oe_bank :: checkout_provider
  oe_now :: gotime
  oe_stamps :: stamps

datatype checkout_call = CheckoutCreate string checkout_request

definition resolveExpiry :: "gotime \<Rightarrow> checkout_input \<Rightarrow> gotime result" where
  "resolveExpiry now inp =
     bindE (if IsZeroTime (kin_ExpiresAt inp)
            then if kin_ExpiresInSeconds inp \<le> 0
                 then Inl (NewValidationError ''expires'' ''expires_at or a positive expires_in_seconds is required'')
                 else Inr (AddTime now (mul64 (kin_ExpiresInSeconds inp) 1000000000))
            else Inr (kin_ExpiresAt inp))
       (\<lambda>ex. if \<not> After ex now then Inl (NewValidationError ''expires_at'' ''expiry must be in the future'')
              else Inr ex)"

fun build_items :: "checkout_item_input list \<Rightarrow> item list result" where
  "build_items [] = Inr []"
| "build_items (it # its) =
     bindE (NewItem (TrimSpace (cii_Description it)) (cii_AmountCents it))
       (\<lambda>item. bindE (build_items its) (\<lambda>items. Inr (item # items)))"

definition buildCheckoutItems :: "checkout_item_input list \<Rightarrow> item list result" where
  "buildCheckoutItems inp =
     (if inp = [] then Inl (NewValidationError ''items'' ''at least one item is required'')
      else if length inp > maxCheckoutItems then Inl (NewValidationError ''items'' ''too many items'')
      else build_items inp)"

definition toCheckoutRequest :: "session \<Rightarrow> string \<Rightarrow> checkout_request" where
  "toCheckoutRequest sess idemKey =
     \<lparr>kq_TenantID = se_tenantID sess, kq_SessionID = se_id sess, kq_Currency = m_currency (se_total sess),
      kq_Items = map (\<lambda>it. \<lparr>cki_Description = it_description it, cki_AmountCents = it_amountCents it\<rparr>) (se_items sess),
      kq_ExpiresAt = se_expiresAt sess, kq_CardType = card_string (se_cardType sess),
      kq_RequireAuthentication = se_requireAuth sess, kq_MaxInstallments = se_maxInstallments sess,
      kq_IdempotencyKey = idemKey\<rparr>"

text \<open>What the checks before the reservation work out.\<close>

record checkout_plan =
  pn_card :: card_type
  pn_expiresAt :: gotime
  pn_items :: "item list"
  pn_installments :: int
  pn_total :: money
  pn_price :: endpoint_pricing

definition checkout_admit :: "'s repository \<Rightarrow> gotime \<Rightarrow> 's \<Rightarrow> checkout_input \<Rightarrow> checkout_plan result" where
  "checkout_admit r now s inp =
     bindE (admit_tenant r s (kin_TenantID inp) (kin_IdempotencyKey inp)) (\<lambda>_.
     bindE (ParseCardType (kin_CardType inp)) (\<lambda>ct.
     bindE (NormalizeInstallments ct (kin_MaxInstallments inp)) (\<lambda>n.
     bindE (resolveExpiry now inp) (\<lambda>ex.
     bindE (buildCheckoutItems (kin_Items inp)) (\<lambda>items.
     bindE (resolvePriceOrFree r s (kin_TenantID inp) CheckoutCreateEndpoint) (\<lambda>price.
     bindE (add_items 0 items) (\<lambda>cents.
       if cents < MinCheckoutTotalCents
       then Inl (NewValidationError ''items'' ''checkout total must be at least 500 cents'')
       else let n = AffordableInstallments cents n
            in bindE (NewMoney cents (kin_Currency inp)) (\<lambda>amount.
               Inr \<lparr>pn_card = ct, pn_expiresAt = ex, pn_items = items, pn_installments = n,
                    pn_total = amount, pn_price = price\<rparr>))))))))"

definition checkout_ci :: "checkout_input \<Rightarrow> create_charge_input" where
  "checkout_ci inp = \<lparr>ci_TenantID = kin_TenantID inp, ci_AccountID = kin_AccountID inp,
     ci_Endpoint = CheckoutCreateEndpoint,
     ci_AmountCents = (case bindE (buildCheckoutItems (kin_Items inp)) (add_items 0) of Inl e \<Rightarrow> 0 | Inr c \<Rightarrow> c),
     ci_Currency = kin_Currency inp, ci_IdempotencyKey = kin_IdempotencyKey inp\<rparr>"

definition open_session :: "checkout_input \<Rightarrow> checkout_plan \<Rightarrow> payment \<Rightarrow> session result" where
  "open_session inp pn p =
     bindE (NewSession (pay_id p) (kin_TenantID inp) (kin_Currency inp) (pn_items pn) (pn_expiresAt pn))
       (\<lambda>sess. WithCard sess (pn_card pn) (kin_RequireAuthentication inp) (pn_installments pn))"

definition CreateSession ::
  "'s repository \<Rightarrow> checkout_env \<Rightarrow> 's \<Rightarrow> checkout_input \<Rightarrow>
     's \<times> checkout_call svc_effect list \<times> (payment \<times> checkout_result) result" where
  "CreateSession r env s inp =
     (case checkout_admit r (oe_now env) s inp of
        Inl e \<Rightarrow> (s, [], Inl e)
      | Inr pn \<Rightarrow>
          (case reserveAmount r (oe_stamps env) s CheckoutCreateEndpoint (kin_TenantID inp)
                  (kin_IdempotencyKey inp) (pn_total pn) of
             (s1, Inl e) \<Rightarrow> (s1, [], Inl e)
           | (s1, Inr p) \<Rightarrow>
               (case open_session inp pn p of
                  Inl e \<Rightarrow> (s1, [], Inl e)
                | Inr sess \<Rightarrow>
                    let req = toCheckoutRequest sess (kin_IdempotencyKey inp);
                        call = Called (CheckoutCreate (kin_TenantID inp) req)
                    in case kp_CreateCheckoutSession (oe_bank env) (kin_TenantID inp) req of
                         Inl e \<Rightarrow> (s1, [call], Inl (Errorf ''bank create checkout'' e))
                       | Inr res \<Rightarrow>
                           if pay_txID p \<noteq> [] then (s1, [call], Inr (p, res))
                           else
                             (case bill_created r (oe_stamps env) s1 (checkout_ci inp) p (pn_price pn) (co_SessionID res) of
                                (s2, evs, out) \<Rightarrow>
                                  (s2, call # map Announced evs, bindE out (\<lambda>q. Inr (q, res)))))))"

definition GetSession :: "checkout_provider \<Rightarrow> string \<Rightarrow> string \<Rightarrow> checkout_result result" where
  "GetSession bank tenantID sessionID =
     (let sessionID = TrimSpace sessionID
      in if sessionID = [] then Inl (NewValidationError ''session_id'' ''session id is required'')
         else kp_GetCheckoutSession bank tenantID sessionID)"

definition CancelSession :: "checkout_provider \<Rightarrow> string \<Rightarrow> string \<Rightarrow> checkout_result result" where
  "CancelSession bank tenantID sessionID =
     (let sessionID = TrimSpace sessionID
      in if sessionID = [] then Inl (NewValidationError ''session_id'' ''session id is required'')
         else kp_CancelCheckoutSession bank tenantID sessionID)"

section \<open>A billable service\<close>

definition checkout_answers :: "checkout_env \<Rightarrow> checkout_input \<Rightarrow> bool" where
  "checkout_answers env inp \<longleftrightarrow>
     (\<forall>req res. kp_CreateCheckoutSession (oe_bank env) (kin_TenantID inp) req = Inr res \<longrightarrow>
        TrimSpace (co_SessionID res) \<noteq> [])"

lemma checkout_ci_simps [simp]:
  "ci_TenantID (checkout_ci inp) = kin_TenantID inp" "ci_IdempotencyKey (checkout_ci inp) = kin_IdempotencyKey inp"
  "ci_Endpoint (checkout_ci inp) = CheckoutCreateEndpoint" "ci_Currency (checkout_ci inp) = kin_Currency inp"
  by (simp_all add: checkout_ci_def)

lemma checkout_admit_Inr:
  assumes "checkout_admit r now s inp = Inr pn"
  shows "ParseCardType (kin_CardType inp) = Inr (pn_card pn)" "resolveExpiry now inp = Inr (pn_expiresAt pn)"
    "buildCheckoutItems (kin_Items inp) = Inr (pn_items pn)" "add_items 0 (pn_items pn) = Inr (m_cents (pn_total pn))"
    "500 \<le> m_cents (pn_total pn)" "NewMoney (m_cents (pn_total pn)) (kin_Currency inp) = Inr (pn_total pn)"
    "\<exists>k. NormalizeInstallments (pn_card pn) (kin_MaxInstallments inp) = Inr k \<and>
       pn_installments pn = AffordableInstallments (m_cents (pn_total pn)) k"
    "admit_tenant r s (kin_TenantID inp) (kin_IdempotencyKey inp) = Inr ()"
  using assms
  by (auto simp: checkout_admit_def bindE_Inr_iff Let_def MinCheckoutTotalCents_def NewMoney_Inr_iff split: if_splits)

lemma checkout_ci_amount:
  "checkout_admit r now s inp = Inr pn \<Longrightarrow>
     NewMoney (ci_AmountCents (checkout_ci inp)) (ci_Currency (checkout_ci inp)) = Inr (pn_total pn)"
  using checkout_admit_Inr(3,4,6) by (fastforce simp: checkout_ci_def)

lemma reserve_checkout:
  "checkout_admit r now s inp = Inr pn \<Longrightarrow>
     reserveAmount r sp s CheckoutCreateEndpoint (kin_TenantID inp) (kin_IdempotencyKey inp) (pn_total pn) =
       reservePayment r (charge_env_of sp) s (checkout_ci inp)"
  using reserveAmount_eq [OF checkout_ci_amount, of r now s inp pn r sp s] by simp

text \<open>The session is opened at the bank again for a finished key, and its answer is not recorded.\<close>

definition checkout_ask :: "checkout_env \<Rightarrow> store \<Rightarrow> checkout_input \<Rightarrow> payment \<Rightarrow> string result" where
  "checkout_ask env s inp p =
     bindE (checkout_admit txView (oe_now env) s inp) (\<lambda>pn.
     bindE (open_session inp pn p) (\<lambda>sess.
     bindE (wrapE ''bank create checkout'' (kp_CreateCheckoutSession (oe_bank env) (kin_TenantID inp)
              (toCheckoutRequest sess (kin_IdempotencyKey inp)))) (\<lambda>res. Inr (co_SessionID res))))"

definition checkout_replay :: "checkout_env \<Rightarrow> store \<Rightarrow> checkout_input \<Rightarrow> payment \<Rightarrow> unit result" where
  "checkout_replay env s inp p = bindE (checkout_ask env s inp p) (\<lambda>_. Inr ())"

definition checkout_price :: "checkout_env \<Rightarrow> store \<Rightarrow> checkout_input \<Rightarrow> endpoint_pricing result" where
  "checkout_price env s inp = bindE (checkout_admit txView (oe_now env) s inp) (\<lambda>pn. Inr (pn_price pn))"

interpretation checkout: billable_service txView store_ok store_view nul_free
  "CreateSession txView" checkout_ci oe_stamps checkout_answers checkout_price checkout_replay checkout_ask
proof (unfold_locales, goal_cases)
  case (1 v s i)
  show ?case
  proof (cases "checkout_admit txView (oe_now v) s i")
    case (Inr pn)
    with reserve_checkout [OF Inr, of "oe_stamps v"] show ?thesis
      by (auto simp: CreateSession_def create_with_def checkout_price_def checkout_ask_def checkout_replay_def Let_def
          split: sum.splits prod.splits)
  qed (simp add: CreateSession_def create_with_def checkout_price_def)
next
  case (2 v s i price)
  then show ?case
    by (auto simp: checkout_price_def checkout_admit_def bindE_Inr_iff Let_def split: if_splits)
next
  case (3 v i s p tx)
  then show ?case by (auto simp: checkout_answers_def checkout_ask_def bindE_Inr_iff)
qed

section \<open>What reaches the bank\<close>

lemma build_items_amounts:
  "build_items its = Inr items \<Longrightarrow>
     map it_amountCents items = map cii_AmountCents its \<and> list_all (\<lambda>it. 0 < it_amountCents it) items"
  by (induction its arbitrary: items) (auto simp: bindE_Inr_iff NewItem_Inr)

lemma items_total:
  assumes "buildCheckoutItems its = Inr items" "add_items 0 items = Inr c"
    "list_all (\<lambda>it. in64 (cii_AmountCents it)) its"
  shows "c = sum_list (map cii_AmountCents its)" "c \<le> max64"
    "map it_amountCents items = map cii_AmountCents its"
proof -
  have b: "map it_amountCents items = map cii_AmountCents its" "list_all (\<lambda>it. 0 < it_amountCents it) items"
    using assms(1) build_items_amounts by (auto simp: buildCheckoutItems_def split: if_splits)
  have "list_all (\<lambda>a. 0 \<le> a) (map it_amountCents items)" using b(2) by (auto simp: list_all_iff)
  moreover have "list_all in64 (map it_amountCents items)" using assms(3) by (simp add: b(1) list_all_iff)
  ultimately show "c = sum_list (map cii_AmountCents its)" "c \<le> max64" "map it_amountCents items = map cii_AmountCents its"
    using assms(2) b(1) SumCents_nonneg [of "map it_amountCents items"]
    by (auto simp: add_items_eq SumCents_def split: if_splits)
qed

text \<open>
  After the reservation nothing can fail before the bank is called: the session of an admitted
  request is always accepted, with the instalments that were worked out.
\<close>

lemma open_session_accepts:
  assumes "checkout_admit r now s inp = Inr pn" "wf_payment p" "pay_tenantID p = kin_TenantID inp"
    "m_cents (pn_total pn) \<le> max64" "0 \<le> ns now"
  shows "\<exists>sess. open_session inp pn p = Inr sess \<and> se_id sess = pay_id p \<and> se_tenantID sess = kin_TenantID inp \<and>
    se_items sess = pn_items pn \<and> se_total sess = pn_total pn \<and> se_expiresAt sess = pn_expiresAt pn \<and>
    se_cardType sess = pn_card pn \<and> se_maxInstallments sess = pn_installments pn"
proof -
  note a = checkout_admit_Inr [OF assms(1)]
  have w: "trimmed (pay_id p)" "pay_id p \<noteq> []" "trimmed (kin_TenantID inp)" "kin_TenantID inp \<noteq> []"
    using assms(2,3) by (auto simp: wf_payment_def)
  have "After (pn_expiresAt pn) now" using a(2) by (auto simp: resolveExpiry_def bindE_Inr_iff split: if_splits)
  then have ex: "\<not> IsZeroTime (pn_expiresAt pn)" using assms(5) by (simp add: time_defs)
  have ne: "pn_items pn \<noteq> []"
    using a(3) by (cases "kin_Items inp") (auto simp: buildCheckoutItems_def bindE_Inr_iff split: if_splits)
  obtain k where k: "NormalizeInstallments (pn_card pn) (kin_MaxInstallments inp) = Inr k"
    "pn_installments pn = AffordableInstallments (m_cents (pn_total pn)) k" using a(7) by blast
  have r: "1 \<le> k" "k \<le> 12" "pn_card pn = CardDebit \<longrightarrow> k = 1" using NormalizeInstallments_range [OF k(1)] by auto
  have i: "pn_installments pn = min k (m_cents (pn_total pn) div 500)"
    unfolding k(2) using a(5) assms(4) r by (intro AffordableInstallments_greatest) auto
  have d: "1 \<le> m_cents (pn_total pn) div 500" using a(5) by (rule one_le_div_floor)
  have n: "NormalizeInstallments (pn_card pn) (pn_installments pn) = Inr (pn_installments pn)"
    using r d i by (intro NormalizeInstallments_fixed) auto
  have "valid_card (pn_card pn)" using a(1) by (auto simp: ParseCardType_def valid_card_def Let_def split: if_splits)
  with w ex ne n a(4,6) show ?thesis
    by (auto simp: open_session_def NewSession_def WithCard_def Let_def)
qed

text \<open>
  C10: a checkout session that is opened at the bank can be paid. For every call \<open>CreateSession\<close> makes to
  the bank: the tenant is active and the one that asked, the lines are exactly the requested amounts,
  their total is computed without overflow and is at least 500 cents, the session expires after the
  instant of the request, and the ceiling of instalments is the greatest number up to the requested
  one (1 to 12, and 1 for a debit card) for which every instalment reaches 500 cents.
\<close>

theorem checkout_session_payable:
  assumes "CreateSession txView env s inp = (s', effs, res)" "Called (CheckoutCreate t req) \<in> set effs"
    and "list_all (\<lambda>it. in64 (cii_AmountCents it)) (kin_Items inp)"
  shows "let tot = sum_list (map cki_AmountCents (kq_Items req)); n = kq_MaxInstallments req;
      k = (if kin_MaxInstallments inp \<le> 0 then 1 else kin_MaxInstallments inp) in
    t = kin_TenantID inp \<and> (\<exists>tn. findTenantByID s t = Inr tn \<and> tn_active tn) \<and>
    map cki_AmountCents (kq_Items req) = map cii_AmountCents (kin_Items inp) \<and>
    500 \<le> tot \<and> tot \<le> max64 \<and> After (kq_ExpiresAt req) (oe_now env) \<and>
    1 \<le> n \<and> n \<le> k \<and> k \<le> 12 \<and> n * 500 \<le> tot \<and> (n < k \<longrightarrow> tot < (n + 1) * 500) \<and>
    (kq_CardType req = ''debit'' \<longrightarrow> n = 1)"
proof -
  obtain pn where a: "checkout_admit txView (oe_now env) s inp = Inr pn"
    using assms(1,2) by (cases "checkout_admit txView (oe_now env) s inp") (auto simp: CreateSession_def)
  obtain s1 x where rv: "reserveAmount txView (oe_stamps env) s CheckoutCreateEndpoint (kin_TenantID inp)
      (kin_IdempotencyKey inp) (pn_total pn) = (s1, x)" by fastforce
  obtain p sess where os: "open_session inp pn p = Inr sess" and
    q: "t = kin_TenantID inp" "req = toCheckoutRequest sess (kin_IdempotencyKey inp)"
    using assms(1,2) a rv
    by (auto simp: CreateSession_def Let_def split: sum.splits if_splits prod.splits)
  note ad = checkout_admit_Inr [OF a]
  have s: "se_items sess = pn_items pn" "se_expiresAt sess = pn_expiresAt pn" "se_cardType sess = pn_card pn"
    "NormalizeInstallments (pn_card pn) (pn_installments pn) = Inr (se_maxInstallments sess)"
    using os by (auto simp: open_session_def bindE_Inr_iff WithCard_def split: if_splits dest!: NewSession_Inr)
  note it = items_total [OF ad(3,4) assms(3)]
  have am: "map cki_AmountCents (kq_Items req) = map cii_AmountCents (kin_Items inp)"
    using it(3) by (simp add: q toCheckoutRequest_def s comp_def)
  obtain k where k: "NormalizeInstallments (pn_card pn) (kin_MaxInstallments inp) = Inr k"
    "pn_installments pn = AffordableInstallments (m_cents (pn_total pn)) k" using ad(7) by blast
  have kk: "k = (if kin_MaxInstallments inp \<le> 0 then 1 else kin_MaxInstallments inp)"
    using k(1) by (auto simp: NormalizeInstallments_def checkout_consts split: if_splits)
  have r: "1 \<le> k" "k \<le> 12" "pn_card pn = CardDebit \<longrightarrow> k = 1" using NormalizeInstallments_range [OF k(1)] by auto
  have i: "pn_installments pn = min k (m_cents (pn_total pn) div 500)"
    unfolding k(2) using ad(5) it(2) r by (intro AffordableInstallments_greatest) auto
  have d: "1 \<le> m_cents (pn_total pn) div 500" using ad(5) by (rule one_le_div_floor)
  have "se_maxInstallments sess = pn_installments pn"
    using s(4) r d i by (auto simp: NormalizeInstallments_def checkout_consts split: if_splits)
  then have n: "kq_MaxInstallments req = min k (m_cents (pn_total pn) div 500)"
    by (simp add: q toCheckoutRequest_def i)
  have ex: "After (pn_expiresAt pn) (oe_now env)"
    using ad(2) by (auto simp: resolveExpiry_def bindE_Inr_iff split: if_splits)
  have tn: "\<exists>tn. findTenantByID s t = Inr tn \<and> tn_active tn"
    using ad(8) by (auto simp: q admit_tenant_def bindE_Inr_iff split: if_splits)
  have db: "kq_CardType req = ''debit'' \<longrightarrow> kq_MaxInstallments req = 1"
    using r d n by (cases "pn_card pn") (auto simp: q toCheckoutRequest_def s)
  have fl: "min k (T div 500) * 500 \<le> T \<and> (min k (T div 500) < k \<longrightarrow> T < (min k (T div 500) + 1) * 500)" for T :: int
  proof -
    have "T = 500 * (T div 500) + T mod 500" "0 \<le> T mod 500" "T mod 500 < 500" by simp_all
    then show ?thesis by (cases "k \<le> T div 500") (simp_all add: min_def algebra_simps, linarith)
  qed
  have tot: "sum_list (map cki_AmountCents (kq_Items req)) = m_cents (pn_total pn)" using am it(1) by simp
  have exq: "After (kq_ExpiresAt req) (oe_now env)" using ex by (simp add: q toCheckoutRequest_def s)
  have bounds: "1 \<le> kq_MaxInstallments req" "kq_MaxInstallments req \<le> k"
    "kq_MaxInstallments req * 500 \<le> m_cents (pn_total pn)"
    "kq_MaxInstallments req < k \<longrightarrow> m_cents (pn_total pn) < (kq_MaxInstallments req + 1) * 500"
    using r(1) d fl [of "m_cents (pn_total pn)"] unfolding n by simp_all
  show ?thesis
    unfolding Let_def kk [symmetric] tot
    by (intro conjI; fact q(1) tn am ad(5) it(2) exq bounds r(2) db)
qed

definition sample_checkout_env :: checkout_env where
  "sample_checkout_env = \<lparr>oe_bank = \<lparr>
       kp_CreateCheckoutSession = (\<lambda>t req. Inr \<lparr>co_SessionID = ''cs1'', co_Status = ''open'', co_RedirectURL = [],
         co_AmountCents = 1500, co_ReceivedAmountCents = 0, co_CardType = kq_CardType req,
         co_RequireAuthentication = False, co_MaxInstallments = kq_MaxInstallments req, co_Installments = 0,
         co_Message = []\<rparr>),
       kp_GetCheckoutSession = (\<lambda>t i. Inl ErrNotFound), kp_CancelCheckoutSession = (\<lambda>t i. Inl ErrNotFound)\<rparr>,
     oe_now = \<lparr>ns = day_ns, zone = 0\<rparr>, oe_stamps = sample_stamps\<rparr>"

definition sample_checkout :: checkout_input where
  "sample_checkout = \<lparr>kin_TenantID = ''t1'', kin_AccountID = [], kin_Currency = ''BRL'',
     kin_Items = [\<lparr>cii_Description = ''Course'', cii_AmountCents = 1000\<rparr>, \<lparr>cii_Description = ''Book'', cii_AmountCents = 500\<rparr>],
     kin_ExpiresAt = zero_time, kin_ExpiresInSeconds = 60, kin_CardType = ''credit'',
     kin_RequireAuthentication = False, kin_MaxInstallments = 6, kin_IdempotencyKey = ''k1''\<rparr>"

lemma checkout_trims [simp]:
  "TrimSpace ''checkout.create'' = ''checkout.create''" "TrimSpace ''Course'' = ''Course''" "TrimSpace ''Book'' = ''Book''"
  "TrimSpace ''credit'' = ''credit''" "TrimSpace ''cs1'' = ''cs1''"
  by (simp_all add: TrimSpace_plain plain_byte_def less_eq_char_def)

lemma sample_credit: "ParseCardType ''credit'' = Inr CardCredit"
  by (simp add: ParseCardType_def lower_char_def less_eq_char_def)

lemma sample_checkout_admit:
  "checkout_admit txView (oe_now sample_checkout_env) sample_store sample_checkout =
     Inr \<lparr>pn_card = CardCredit, pn_expiresAt = \<lparr>ns = day_ns + 60000000000, zone = 0\<rparr>,
       pn_items = [\<lparr>it_description = ''Course'', it_amountCents = 1000\<rparr>, \<lparr>it_description = ''Book'', it_amountCents = 500\<rparr>],
       pn_installments = 3, pn_total = \<lparr>m_cents = 1500, m_currency = ''BRL''\<rparr>,
       pn_price = \<lparr>ep_tenantID = ''t1'', ep_endpoint = ''checkout.create'', ep_priceCents = 0\<rparr>\<rparr>"
proof -
  have p: "resolvePriceOrFree txView sample_store ''t1'' ''checkout.create'' =
      Inr \<lparr>ep_tenantID = ''t1'', ep_endpoint = ''checkout.create'', ep_priceCents = 0\<rparr>"
    by (rule sample_free) (simp_all add: sample_store_def NewStore_def)
  have i: "buildCheckoutItems (kin_Items sample_checkout) =
      Inr [\<lparr>it_description = ''Course'', it_amountCents = 1000\<rparr>, \<lparr>it_description = ''Book'', it_amountCents = 500\<rparr>]"
    by (simp add: buildCheckoutItems_def sample_checkout_def maxCheckoutItems_def NewItem_def)
  have e: "resolveExpiry (oe_now sample_checkout_env) sample_checkout = Inr \<lparr>ns = day_ns + 60000000000, zone = 0\<rparr>"
    by (simp add: resolveExpiry_def sample_checkout_env_def sample_checkout_def time_defs zero_time_def arith64 wrap64_def)
  have a: "AffordableInstallments 1500 6 = 3" by (simp add: AffordableInstallments_greatest max64_def)
  show ?thesis
    using p i e a
    by (simp add: checkout_admit_def Let_def sample_admit_tenant sample_credit CheckoutCreateEndpoint_def)
       (simp add: sample_checkout_def sample_admit_tenant sample_credit NormalizeInstallments_def checkout_consts
         AddCents_def arith64 wrap64_def max64_def min64_def MinCheckoutTotalCents_def NewMoney_def currencyRe_def less_eq_char_def)
qed

definition checkout_payment :: payment where
  "checkout_payment = sample_payment\<lparr>pay_amount := \<lparr>m_cents = 1500, m_currency = ''BRL''\<rparr>,
     pay_endpoint := ''checkout.create''\<rparr>"

lemma sample_checkout_reserve:
  "reserveAmount txView sample_stamps sample_store ''checkout.create'' ''t1'' ''k1'' \<lparr>m_cents = 1500, m_currency = ''BRL''\<rparr> =
     (sample_store\<lparr>st_payments := [(key ''t1'' ''p1'', checkout_payment)]\<rparr>, Inr checkout_payment)"
  by (simp add: reserveAmount_def findPaymentByIdempotencyKey_def scan_def sample_store_def NewStore_def
      sample_stamps_def NewPayment_def IsZeroMoney_def WithinTx_def savePayment_def checkout_payment_def sample_payment_def)

lemma checkout_payment_wf: "wf_payment checkout_payment"
  using sample_payment_wf
  by (auto simp: wf_payment_def checkout_payment_def trimmed_def wf_money_def currencyRe_def max64_def less_eq_char_def)

theorem checkout_session_payable_witness:
  "\<exists>s' effs res req. CreateSession txView sample_checkout_env sample_store sample_checkout = (s', effs, res) \<and>
     Called (CheckoutCreate ''t1'' req) \<in> set effs \<and> kq_MaxInstallments req = 3"
proof -
  obtain s' effs res where run: "CreateSession txView sample_checkout_env sample_store sample_checkout = (s', effs, res)"
    by (cases "CreateSession txView sample_checkout_env sample_store sample_checkout") auto
  have t: "pay_tenantID checkout_payment = kin_TenantID sample_checkout"
    by (simp add: checkout_payment_def sample_payment_def sample_checkout_def)
  obtain sess where os: "open_session sample_checkout
      \<lparr>pn_card = CardCredit, pn_expiresAt = \<lparr>ns = day_ns + 60000000000, zone = 0\<rparr>,
       pn_items = [\<lparr>it_description = ''Course'', it_amountCents = 1000\<rparr>, \<lparr>it_description = ''Book'', it_amountCents = 500\<rparr>],
       pn_installments = 3, pn_total = \<lparr>m_cents = 1500, m_currency = ''BRL''\<rparr>,
       pn_price = \<lparr>ep_tenantID = ''t1'', ep_endpoint = ''checkout.create'', ep_priceCents = 0\<rparr>\<rparr> checkout_payment = Inr sess"
    using open_session_accepts [OF sample_checkout_admit checkout_payment_wf t]
    by (auto simp: sample_checkout_env_def max64_def)
  have "\<exists>cres. kp_CreateCheckoutSession (oe_bank sample_checkout_env) ''t1'' req = Inr cres" for req
    by (simp add: sample_checkout_env_def)
  moreover have "kin_TenantID sample_checkout = ''t1''" "kin_IdempotencyKey sample_checkout = ''k1''"
    "oe_stamps sample_checkout_env = sample_stamps"
    by (simp_all add: sample_checkout_def sample_checkout_env_def)
  ultimately have "\<exists>req. Called (CheckoutCreate ''t1'' req) \<in> set effs"
    using run os
    by (auto simp: CreateSession_def sample_checkout_admit CheckoutCreateEndpoint_def sample_checkout_reserve Let_def
        split: sum.splits if_splits prod.splits)
  then obtain req where req: "Called (CheckoutCreate ''t1'' req) \<in> set effs" by blast
  have i: "list_all (\<lambda>it. in64 (cii_AmountCents it)) (kin_Items sample_checkout)"
    by (simp add: sample_checkout_def in64_def max64_def min64_def)
  note snd = checkout_session_payable [OF run req i]
  have "sum_list (map cii_AmountCents (kin_Items sample_checkout)) = 1500" "kin_MaxInstallments sample_checkout = 6"
    by (simp_all add: sample_checkout_def)
  moreover from snd have am: "map cki_AmountCents (kq_Items req) = map cii_AmountCents (kin_Items sample_checkout)"
    by (simp add: Let_def)
  ultimately have "1 \<le> kq_MaxInstallments req" "kq_MaxInstallments req * 500 \<le> 1500"
    "kq_MaxInstallments req < 6 \<longrightarrow> 1500 < (kq_MaxInstallments req + 1) * 500" "kq_MaxInstallments req \<le> 6"
    using snd unfolding am by (simp_all add: Let_def)
  then have "kq_MaxInstallments req = 3" by auto
  with run req show ?thesis by blast
qed

text \<open>
  A relative expiry that does not fit an int64 of nanoseconds wraps: 18446744075 seconds, more than
  five centuries, is accepted and ends the session after about 1.29 seconds.
\<close>

theorem long_expiry_wraps:
  assumes "IsZeroTime (kin_ExpiresAt inp)" "kin_ExpiresInSeconds inp = 18446744075"
  shows "resolveExpiry now inp = Inr (AddTime now 1290448384)"
  using assms by (simp add: resolveExpiry_def time_defs arith64 wrap64_def AddTime_def)

end
