(* ===== verification/BoletoSlips.thy ===== *)
theory BoletoSlips
  imports Billable Boleto
begin

text \<open>
  \<open>internal/app/boleto.go\<close> and the listing of \<open>internal/app/plainboleto.go\<close> that belongs to it: boletos
  are registered, read, canceled, amended and listed. An amendment is partial: a nil field is \<open>None\<close>,
  and so is a nil slice of discounts, which the code tells apart from an empty one. The bank of the claim on
  amendments is the one in memory, the boletos of \<open>internal/adapters/bank/stub_products.go\<close>.
\<close>

section \<open>Definitions\<close>

definition BoletoCreateEndpoint :: string where "BoletoCreateEndpoint = ''boleto.create''"
definition maxBoletoDiscountTiers :: nat where "maxBoletoDiscountTiers = 12"
definition defaultBoletoCurrency :: string where "defaultBoletoCurrency = ''BRL''"

definition ValidModality :: "string \<Rightarrow> bool" where
  "ValidModality m \<longleftrightarrow> m = [] \<or> m = ModalityBoleto \<or> m = ModalityBolepix"

record boleto_address =
  ba_Street :: string
  ba_Number :: int
  ba_Neighborhood :: string
  ba_City :: string
  ba_State :: string
  ba_ZipCode :: string

record boleto_payer =
  bp_Name :: string
  bp_TaxID :: string
  bp_Address :: boleto_address

record boleto_request =
  bq_TenantID :: string
  bq_BoletoID :: string
  bq_AmountCents :: int
  bq_Currency :: string
  bq_DueDate :: gotime
  bq_ValidUntil :: gotime
  bq_FineBps :: int
  bq_FineFixedCents :: int
  bq_MonthlyInterestBps :: int
  bq_Discounts :: "boleto_discount_tier list"
  bq_Payer :: boleto_payer
  bq_Description :: string
  bq_IdempotencyKey :: string
  bq_Modality :: string

record boleto_document =
  bdoc_ContentType :: string
  bdoc_Filename :: string
  bdoc_Content :: string

record boleto_fees_patch =
  fp_FineBps :: int
  fp_FineFixedCents :: int
  fp_MonthlyInterestBps :: int
  fp_Discounts :: "boleto_discount_tier list"

record boleto_patch =
  pt_AmountCents :: "int option"
  pt_DueDate :: "gotime option"
  pt_ValidUntil :: "gotime option"
  pt_Description :: "string option"
  pt_Fees :: "boleto_fees_patch option"
  pt_IdempotencyKey :: string

record boleto_provider =
  bb_CreateBoleto :: "string \<Rightarrow> boleto_request \<Rightarrow> boleto_result result"
  bb_GetBoleto :: "string \<Rightarrow> string \<Rightarrow> boleto_result result"
  bb_CancelBoleto :: "string \<Rightarrow> string \<Rightarrow> boleto_result result"
  bb_UpdateBoleto :: "string \<Rightarrow> string \<Rightarrow> boleto_patch \<Rightarrow> boleto_result result"
  bb_GetBoletoPDF :: "string \<Rightarrow> string \<Rightarrow> boleto_document result"

record boleto_env =
  be_bank :: boleto_provider
  be_stamps :: stamps

datatype boleto_call =
    BoletoCreate string boleto_request
  | BoletoGet string string
  | BoletoUpdate string string boleto_patch

text \<open>Boundary tiers and payers have the fields of their port mirrors.\<close>

record register_input =
  ri_TenantID :: string
  ri_AccountID :: string
  ri_AmountCents :: int
  ri_Currency :: string
  ri_DueDate :: gotime
  ri_FineBps :: int
  ri_FineFixedCents :: int
  ri_MonthlyInterestBps :: int
  ri_Discounts :: "discount_tier list"
  ri_Payer :: boleto_payer
  ri_Description :: string
  ri_IdempotencyKey :: string
  ri_Modality :: string

definition valid_letters :: "char \<Rightarrow> bool" where
  "valid_letters c \<longleftrightarrow> CHR ''A'' \<le> c \<and> c \<le> CHR ''Z'' \<or> CHR ''a'' \<le> c \<and> c \<le> CHR ''z''"

definition validUF :: "string \<Rightarrow> bool" where
  "validUF s \<longleftrightarrow> length s = 2 \<and> list_all valid_letters s"

definition validCEP :: "string \<Rightarrow> bool" where
  "validCEP s \<longleftrightarrow> length s = 8 \<and> list_all is_digit s"

definition validateBoletoPayer :: "boleto_payer \<Rightarrow> unit result" where
  "validateBoletoPayer p =
     (let taxID = TrimSpace (bp_TaxID p); uf = TrimSpace (ba_State (bp_Address p));
          cep = TrimSpace (ba_ZipCode (bp_Address p))
      in if taxID \<noteq> [] \<and> \<not> isTaxID taxID
         then Inl (NewValidationError ''payer.tax_id'' ''payer tax id must be 11 (CPF) or 14 (CNPJ) digits'')
         else if uf \<noteq> [] \<and> \<not> validUF uf
         then Inl (NewValidationError ''payer.address.state'' ''payer address state must be a 2-letter UF'')
         else if cep \<noteq> [] \<and> \<not> validCEP cep
         then Inl (NewValidationError ''payer.address.zip_code'' ''payer address zip code must be 8 digits'')
         else Inr ())"

definition buildDiscountTiers :: "discount_tier list \<Rightarrow> discount_tier list result" where
  "buildDiscountTiers inp =
     (if inp = [] then Inr []
      else if length inp > maxBoletoDiscountTiers
      then Inl (NewValidationError ''discounts'' ''too many discount tiers'')
      else Inr inp)"

definition buildBoleto ::
  "string \<Rightarrow> string \<Rightarrow> money \<Rightarrow> gotime \<Rightarrow> gotime \<Rightarrow> int \<Rightarrow> int \<Rightarrow> int \<Rightarrow> discount_tier list \<Rightarrow> boleto result" where
  "buildBoleto bid tenantID prin dueDate validUntil fineBps fineFixedCents monthlyInterestBps tiers =
     bindE (NewBoleto bid tenantID prin dueDate fineBps monthlyInterestBps)
       (\<lambda>b. bindE (if fineFixedCents > 0 then WithFixedFine b fineFixedCents else Inr b)
         (\<lambda>b. bindE (if \<not> IsZeroTime validUntil then WithValidUntil b validUntil else Inr b)
           (\<lambda>b. WithDiscounts b tiers)))"

definition newDomainBoleto :: "string \<Rightarrow> register_input \<Rightarrow> money \<Rightarrow> discount_tier list \<Rightarrow> boleto result" where
  "newDomainBoleto bid inp prin tiers =
     buildBoleto bid (ri_TenantID inp) prin (ri_DueDate inp) zero_time (ri_FineBps inp) (ri_FineFixedCents inp)
       (ri_MonthlyInterestBps inp) tiers"

definition port_tier :: "discount_tier \<Rightarrow> boleto_discount_tier" where
  "port_tier d = \<lparr>bd_DaysBeforeDue = DaysBeforeDue d, bd_Bps = Bps d, bd_FixedCents = FixedCents d\<rparr>"

definition toPortBoletoPayer :: "boleto_payer \<Rightarrow> boleto_payer" where
  "toPortBoletoPayer p =
     (let a = bp_Address p
      in \<lparr>bp_Name = TrimSpace (bp_Name p), bp_TaxID = TrimSpace (bp_TaxID p),
          bp_Address = \<lparr>ba_Street = TrimSpace (ba_Street a), ba_Number = ba_Number a,
             ba_Neighborhood = TrimSpace (ba_Neighborhood a), ba_City = TrimSpace (ba_City a),
             ba_State = TrimSpace (ba_State a), ba_ZipCode = TrimSpace (ba_ZipCode a)\<rparr>\<rparr>)"

definition toBoletoRequest :: "boleto \<Rightarrow> boleto_payer \<Rightarrow> string \<Rightarrow> string \<Rightarrow> string \<Rightarrow> boleto_request" where
  "toBoletoRequest b payer description idemKey modality =
     \<lparr>bq_TenantID = bo_tenantID b, bq_BoletoID = bo_id b, bq_AmountCents = m_cents (bo_principal b),
      bq_Currency = m_currency (bo_principal b), bq_DueDate = bo_dueDate b, bq_ValidUntil = bo_validUntil b,
      bq_FineBps = bo_fineBps b, bq_FineFixedCents = bo_fineFixedCents b,
      bq_MonthlyInterestBps = bo_monthlyInterestBps b, bq_Discounts = map port_tier (bo_discounts b),
      bq_Payer = toPortBoletoPayer payer, bq_Description = TrimSpace description,
      bq_IdempotencyKey = idemKey, bq_Modality = modality\<rparr>"

text \<open>The checks before the reservation: the principal, the tiers and the price.\<close>

definition boleto_admit ::
  "'s repository \<Rightarrow> 's \<Rightarrow> register_input \<Rightarrow> (money \<times> discount_tier list \<times> endpoint_pricing) result" where
  "boleto_admit r s inp =
     bindE (admit_tenant r s (ri_TenantID inp) (ri_IdempotencyKey inp)) (\<lambda>_.
     bindE (validateBoletoPayer (ri_Payer inp)) (\<lambda>_.
     if \<not> ValidModality (ri_Modality inp)
     then Inl (NewValidationError ''payment_method'' ''payment method must be boleto or bolepix'')
     else bindE (NewMoney (ri_AmountCents inp) (ri_Currency inp)) (\<lambda>prin.
     bindE (buildDiscountTiers (ri_Discounts inp)) (\<lambda>tiers.
     bindE (newDomainBoleto ''validate'' inp prin tiers) (\<lambda>_.
     bindE (resolvePriceOrFree r s (ri_TenantID inp) BoletoCreateEndpoint) (\<lambda>price.
     Inr (prin, tiers, price)))))))"

definition boleto_ci :: "register_input \<Rightarrow> create_charge_input" where
  "boleto_ci inp = \<lparr>ci_TenantID = ri_TenantID inp, ci_AccountID = ri_AccountID inp,
     ci_Endpoint = BoletoCreateEndpoint, ci_AmountCents = ri_AmountCents inp, ci_Currency = ri_Currency inp,
     ci_IdempotencyKey = ri_IdempotencyKey inp\<rparr>"

definition RegisterBoleto ::
  "'s repository \<Rightarrow> boleto_env \<Rightarrow> 's \<Rightarrow> register_input \<Rightarrow>
     's \<times> boleto_call svc_effect list \<times> (payment \<times> boleto_result) result" where
  "RegisterBoleto r env s inp =
     (case boleto_admit r s inp of
        Inl e \<Rightarrow> (s, [], Inl e)
      | Inr (prin, tiers, price) \<Rightarrow>
          (case reserveAmount r (be_stamps env) s BoletoCreateEndpoint (ri_TenantID inp)
                  (ri_IdempotencyKey inp) prin of
             (s1, Inl e) \<Rightarrow> (s1, [], Inl e)
           | (s1, Inr p) \<Rightarrow>
               (case newDomainBoleto (pay_id p) inp prin tiers of
                  Inl e \<Rightarrow> (s1, [], Inl e)
                | Inr b \<Rightarrow>
                    let req = toBoletoRequest b (ri_Payer inp) (ri_Description inp) (ri_IdempotencyKey inp) (ri_Modality inp);
                        call = Called (BoletoCreate (ri_TenantID inp) req)
                    in case bb_CreateBoleto (be_bank env) (ri_TenantID inp) req of
                         Inl e \<Rightarrow> (s1, [call], Inl (Errorf ''bank create boleto'' e))
                       | Inr res \<Rightarrow>
                           if pay_txID p \<noteq> [] then (s1, [call], Inr (p, res))
                           else
                             (case bill_created r (be_stamps env) s1 (boleto_ci inp) p price (bo_TxID res) of
                                (s2, evs, out) \<Rightarrow>
                                  (s2, call # map Announced evs, bindE out (\<lambda>q. Inr (q, res)))))))"

definition GetBoleto :: "boleto_provider \<Rightarrow> string \<Rightarrow> string \<Rightarrow> boleto_result result" where
  "GetBoleto bank tenantID boletoID =
     (let boletoID = TrimSpace boletoID
      in if boletoID = [] then Inl (NewValidationError ''id'' ''boleto id is required'')
         else bb_GetBoleto bank tenantID boletoID)"

definition CancelBoleto :: "boleto_provider \<Rightarrow> string \<Rightarrow> string \<Rightarrow> unit result" where
  "CancelBoleto bank tenantID boletoID =
     (let boletoID = TrimSpace boletoID
      in if boletoID = [] then Inl (NewValidationError ''id'' ''boleto id is required'')
         else bindE (bb_CancelBoleto bank tenantID boletoID) (\<lambda>_. Inr ()))"

definition GetBoletoPDF :: "boleto_provider \<Rightarrow> string \<Rightarrow> string \<Rightarrow> boleto_document result" where
  "GetBoletoPDF bank tenantID boletoID =
     (let boletoID = TrimSpace boletoID
      in if boletoID = [] then Inl (NewValidationError ''id'' ''boleto id is required'')
         else bb_GetBoletoPDF bank tenantID boletoID)"

subsection \<open>Amendments\<close>

record update_input =
  ui_TenantID :: string
  ui_AmountCents :: "int option"
  ui_Currency :: string
  ui_DueDate :: "gotime option"
  ui_ValidUntil :: "gotime option"
  ui_FineBps :: "int option"
  ui_FineFixedCents :: "int option"
  ui_MonthlyInterestBps :: "int option"
  ui_Discounts :: "discount_tier list option"
  ui_IdempotencyKey :: string

definition touchesFees :: "update_input \<Rightarrow> bool" where
  "touchesFees inp \<longleftrightarrow> ui_FineBps inp \<noteq> None \<or> ui_FineFixedCents inp \<noteq> None \<or>
     ui_MonthlyInterestBps inp \<noteq> None \<or> ui_Discounts inp \<noteq> None"

record merged_boleto =
  mb_principal :: money
  mb_dueDate :: gotime
  mb_validUntil :: gotime
  mb_fineBps :: int
  mb_fineFixedCents :: int
  mb_monthlyInterestBps :: int
  mb_tiers :: "discount_tier list"

definition overlay :: "'a option \<Rightarrow> 'a \<Rightarrow> 'a" where
  "overlay patch current = (case patch of None \<Rightarrow> current | Some x \<Rightarrow> x)"

definition domain_tier :: "boleto_discount_tier \<Rightarrow> discount_tier" where
  "domain_tier d = \<lparr>DaysBeforeDue = bd_DaysBeforeDue d, Bps = bd_Bps d, FixedCents = bd_FixedCents d\<rparr>"

definition mergeBoletoPatch :: "boleto_result \<Rightarrow> update_input \<Rightarrow> merged_boleto result" where
  "mergeBoletoPatch current inp =
     (let amountCents = overlay (ui_AmountCents inp) (bo_AmountCents current);
          currency = TrimSpace (ui_Currency inp)
      in if ui_AmountCents inp \<noteq> None \<and> currency = []
         then Inl (NewValidationError ''currency'' ''currency is required when amending the amount'')
         else let currency = (if currency = [] then defaultBoletoCurrency else currency)
         in bindE (NewMoney amountCents currency) (\<lambda>prin.
            bindE (case ui_Discounts inp of
                     Some ds \<Rightarrow> buildDiscountTiers ds
                   | None \<Rightarrow> Inr (map domain_tier (bo_Discounts current))) (\<lambda>tiers.
            Inr \<lparr>mb_principal = prin, mb_dueDate = overlay (ui_DueDate inp) (bo_DueDate current),
                 mb_validUntil = overlay (ui_ValidUntil inp) (bo_ValidUntil current),
                 mb_fineBps = overlay (ui_FineBps inp) (bo_FineBps current),
                 mb_fineFixedCents = overlay (ui_FineFixedCents inp) (bo_FineFixedCents current),
                 mb_monthlyInterestBps = overlay (ui_MonthlyInterestBps inp) (bo_MonthlyInterestBps current),
                 mb_tiers = tiers\<rparr>)))"

definition toBoletoPatch :: "update_input \<Rightarrow> merged_boleto \<Rightarrow> boleto_patch" where
  "toBoletoPatch inp m =
     \<lparr>pt_AmountCents = ui_AmountCents inp, pt_DueDate = ui_DueDate inp, pt_ValidUntil = ui_ValidUntil inp,
      pt_Description = None,
      pt_Fees = (if touchesFees inp
                 then Some \<lparr>fp_FineBps = mb_fineBps m, fp_FineFixedCents = mb_fineFixedCents m,
                        fp_MonthlyInterestBps = mb_monthlyInterestBps m,
                        fp_Discounts = map port_tier (mb_tiers m)\<rparr>
                 else None),
      pt_IdempotencyKey = ui_IdempotencyKey inp\<rparr>"

definition build_merged :: "string \<Rightarrow> string \<Rightarrow> merged_boleto \<Rightarrow> boleto result" where
  "build_merged boletoID tenantID m =
     buildBoleto boletoID tenantID (mb_principal m) (mb_dueDate m) (mb_validUntil m) (mb_fineBps m)
       (mb_fineFixedCents m) (mb_monthlyInterestBps m) (mb_tiers m)"

definition UpdateBoleto ::
  "boleto_provider \<Rightarrow> string \<Rightarrow> string \<Rightarrow> update_input \<Rightarrow> boleto_call list \<times> boleto_result result" where
  "UpdateBoleto bank tenantID boletoID inp =
     (let boletoID = TrimSpace boletoID
      in if boletoID = [] then ([], Inl (NewValidationError ''id'' ''boleto id is required''))
         else if ui_IdempotencyKey inp = []
         then ([], Inl (NewValidationError ''idempotency_key'' ''idempotency key is required''))
         else case bb_GetBoleto bank tenantID boletoID of
                Inl e \<Rightarrow> ([BoletoGet tenantID boletoID], Inl e)
              | Inr current \<Rightarrow>
                  (case bindE (mergeBoletoPatch current inp)
                          (\<lambda>m. bindE (build_merged boletoID tenantID m) (\<lambda>_. Inr m)) of
                     Inl e \<Rightarrow> ([BoletoGet tenantID boletoID], Inl e)
                   | Inr m \<Rightarrow>
                       ([BoletoGet tenantID boletoID, BoletoUpdate tenantID boletoID (toBoletoPatch inp m)],
                        bb_UpdateBoleto bank tenantID boletoID (toBoletoPatch inp m))))"

section \<open>A billable service\<close>

definition boleto_answers :: "boleto_env \<Rightarrow> register_input \<Rightarrow> bool" where
  "boleto_answers env inp \<longleftrightarrow>
     (\<forall>req res. bb_CreateBoleto (be_bank env) (ri_TenantID inp) req = Inr res \<longrightarrow> TrimSpace (bo_TxID res) \<noteq> [])"

lemma boleto_ci_simps [simp]:
  "ci_TenantID (boleto_ci inp) = ri_TenantID inp" "ci_IdempotencyKey (boleto_ci inp) = ri_IdempotencyKey inp"
  "ci_Endpoint (boleto_ci inp) = BoletoCreateEndpoint" "ci_AmountCents (boleto_ci inp) = ri_AmountCents inp"
  "ci_Currency (boleto_ci inp) = ri_Currency inp"
  by (simp_all add: boleto_ci_def)

lemma reserve_boleto:
  assumes "boleto_admit r s inp = Inr (prin, tiers, price)"
  shows "reserveAmount r sp s BoletoCreateEndpoint (ri_TenantID inp) (ri_IdempotencyKey inp) prin =
    reservePayment r (charge_env_of sp) s (boleto_ci inp)"
proof -
  have "NewMoney (ci_AmountCents (boleto_ci inp)) (ci_Currency (boleto_ci inp)) = Inr prin"
    using assms by (auto simp: boleto_admit_def bindE_Inr_iff split: if_splits)
  from reserveAmount_eq [OF this, of r sp s] show ?thesis by simp
qed

text \<open>A boleto is registered at the bank again for a finished key, and its answer is not recorded.\<close>

definition boleto_ask :: "boleto_env \<Rightarrow> store \<Rightarrow> register_input \<Rightarrow> payment \<Rightarrow> string result" where
  "boleto_ask env s inp p =
     bindE (boleto_admit txView s inp) (\<lambda>(prin, tiers, price).
     bindE (newDomainBoleto (pay_id p) inp prin tiers) (\<lambda>b.
     bindE (wrapE ''bank create boleto'' (bb_CreateBoleto (be_bank env) (ri_TenantID inp)
              (toBoletoRequest b (ri_Payer inp) (ri_Description inp) (ri_IdempotencyKey inp) (ri_Modality inp))))
       (\<lambda>res. Inr (bo_TxID res))))"

definition boleto_replay :: "boleto_env \<Rightarrow> store \<Rightarrow> register_input \<Rightarrow> payment \<Rightarrow> unit result" where
  "boleto_replay env s inp p = bindE (boleto_ask env s inp p) (\<lambda>_. Inr ())"

definition boleto_price :: "store \<Rightarrow> register_input \<Rightarrow> endpoint_pricing result" where
  "boleto_price s inp = bindE (boleto_admit txView s inp) (\<lambda>(prin, tiers, price). Inr price)"

interpretation boletos: billable_service txView store_ok store_view nul_free
  "RegisterBoleto txView" boleto_ci be_stamps boleto_answers "\<lambda>v. boleto_price" boleto_replay boleto_ask
proof (unfold_locales, goal_cases)
  case (1 v s i)
  show ?case
  proof (cases "boleto_admit txView s i")
    case (Inr a)
    then obtain prin tiers price where "boleto_admit txView s i = Inr (prin, tiers, price)" by (cases a) auto
    with reserve_boleto [OF this, of "be_stamps v"] show ?thesis
      by (auto simp: RegisterBoleto_def create_with_def boleto_price_def boleto_ask_def boleto_replay_def Let_def
          split: sum.splits prod.splits)
  qed (simp add: RegisterBoleto_def create_with_def boleto_price_def)
next
  case (2 v s i price)
  then show ?case by (auto simp: boleto_price_def boleto_admit_def bindE_Inr_iff split: if_splits)
next
  case (3 v i s p tx)
  then show ?case by (auto simp: boleto_answers_def boleto_ask_def bindE_Inr_iff)
qed

section \<open>The bank in memory\<close>

text \<open>
  The boletos of \<open>internal/adapters/bank/stub_products.go\<close>, keyed by tenant and id. \<open>creds\<close> answers whether
  the tenant has a credential; every operation asks first.
\<close>

type_synonym stub_boletos = "(string \<times> boleto_result) list"

definition stub_CreateBoleto ::
  "(string \<Rightarrow> unit result) \<Rightarrow> stub_boletos \<Rightarrow> string \<Rightarrow> boleto_request \<Rightarrow> stub_boletos \<times> boleto_result result" where
  "stub_CreateBoleto creds st tenantID req =
     (case creds tenantID of
        Inl e \<Rightarrow> (st, Inl e)
      | Inr _ \<Rightarrow>
          (case map_of st (key tenantID (bq_BoletoID req)) of
             Some prev \<Rightarrow> (st, Inr prev)
           | None \<Rightarrow>
               let modality = NormalizedModality (bq_Modality req);
                   res = \<lparr>bo_BoletoID = bq_BoletoID req, bo_TxID = ''tx_'' @ bq_BoletoID req, bo_Status = ''REGISTERED'',
                     bo_Modality = modality, bo_ExternalReferenceID = [],
                     bo_QRCode = (if modality = ModalityBolepix then ''pix-emv-'' @ bq_BoletoID req else []),
                     bo_OurNumber = [], bo_DigitableLine = [], bo_Barcode = ''barcode-'' @ bq_BoletoID req,
                     bo_AmountCents = bq_AmountCents req, bo_DueDate = bq_DueDate req, bo_ValidUntil = bq_ValidUntil req,
                     bo_FineBps = bq_FineBps req, bo_FineFixedCents = bq_FineFixedCents req,
                     bo_MonthlyInterestBps = bq_MonthlyInterestBps req, bo_Discounts = bq_Discounts req\<rparr>
               in (put (key tenantID (bq_BoletoID req)) res st, Inr res)))"

definition stub_GetBoleto :: "(string \<Rightarrow> unit result) \<Rightarrow> stub_boletos \<Rightarrow> string \<Rightarrow> string \<Rightarrow> boleto_result result" where
  "stub_GetBoleto creds st tenantID boletoID =
     bindE (creds tenantID) (\<lambda>_. lookup st (key tenantID boletoID))"

definition stub_CancelBoleto ::
  "(string \<Rightarrow> unit result) \<Rightarrow> stub_boletos \<Rightarrow> string \<Rightarrow> string \<Rightarrow> stub_boletos \<times> boleto_result result" where
  "stub_CancelBoleto creds st tenantID boletoID =
     (case bindE (creds tenantID) (\<lambda>_. lookup st (key tenantID boletoID)) of
        Inl e \<Rightarrow> (st, Inl e)
      | Inr res \<Rightarrow>
          let res = res\<lparr>bo_Status := ''CANCELLED''\<rparr> in (put (key tenantID boletoID) res st, Inr res))"

definition stub_UpdateBoleto ::
  "(string \<Rightarrow> unit result) \<Rightarrow> stub_boletos \<Rightarrow> string \<Rightarrow> string \<Rightarrow> boleto_patch \<Rightarrow> stub_boletos \<times> boleto_result result" where
  "stub_UpdateBoleto creds st tenantID boletoID patch =
     (case bindE (creds tenantID) (\<lambda>_. lookup st (key tenantID boletoID)) of
        Inl e \<Rightarrow> (st, Inl e)
      | Inr res \<Rightarrow>
          let res = (case pt_AmountCents patch of None \<Rightarrow> res | Some a \<Rightarrow> res\<lparr>bo_AmountCents := a\<rparr>);
              res = (case pt_DueDate patch of None \<Rightarrow> res | Some d \<Rightarrow> res\<lparr>bo_DueDate := d\<rparr>);
              res = (case pt_ValidUntil patch of None \<Rightarrow> res | Some v \<Rightarrow> res\<lparr>bo_ValidUntil := v\<rparr>);
              res = (case pt_Fees patch of
                       None \<Rightarrow> res
                     | Some f \<Rightarrow> res\<lparr>bo_FineBps := fp_FineBps f, bo_FineFixedCents := fp_FineFixedCents f,
                                    bo_MonthlyInterestBps := fp_MonthlyInterestBps f, bo_Discounts := fp_Discounts f\<rparr>)
          in (put (key tenantID boletoID) res st, Inr res))"

definition stub_GetBoletoPDF :: "(string \<Rightarrow> unit result) \<Rightarrow> stub_boletos \<Rightarrow> string \<Rightarrow> string \<Rightarrow> boleto_document result" where
  "stub_GetBoletoPDF creds st tenantID boletoID =
     bindE (creds tenantID) (\<lambda>_. bindE (lookup st (key tenantID boletoID)) (\<lambda>_.
       Inr \<lparr>bdoc_ContentType = ''application/pdf'', bdoc_Filename = ''boleto-'' @ boletoID @ ''.pdf'',
            bdoc_Content = ''%PDF-1.4'' @ [CHR 0x0A] @ ''% stub boleto '' @ boletoID @ [CHR 0x0A] @ ''%%EOF'' @ [CHR 0x0A]\<rparr>))"

text \<open>The service on that bank: it answers from its state, and each amendment call changes it.\<close>

definition stub_bank :: "(string \<Rightarrow> unit result) \<Rightarrow> stub_boletos \<Rightarrow> boleto_provider" where
  "stub_bank creds st =
     \<lparr>bb_CreateBoleto = (\<lambda>t req. snd (stub_CreateBoleto creds st t req)), bb_GetBoleto = stub_GetBoleto creds st,
      bb_CancelBoleto = (\<lambda>t i. snd (stub_CancelBoleto creds st t i)),
      bb_UpdateBoleto = (\<lambda>t i patch. snd (stub_UpdateBoleto creds st t i patch)), bb_GetBoletoPDF = stub_GetBoletoPDF creds st\<rparr>"

fun stub_after :: "(string \<Rightarrow> unit result) \<Rightarrow> boleto_call list \<Rightarrow> stub_boletos \<Rightarrow> stub_boletos" where
  "stub_after creds [] st = st"
| "stub_after creds (BoletoCreate t req # cs) st = stub_after creds cs (fst (stub_CreateBoleto creds st t req))"
| "stub_after creds (BoletoGet t i # cs) st = stub_after creds cs st"
| "stub_after creds (BoletoUpdate t i patch # cs) st = stub_after creds cs (fst (stub_UpdateBoleto creds st t i patch))"

definition amend ::
  "(string \<Rightarrow> unit result) \<Rightarrow> stub_boletos \<Rightarrow> string \<Rightarrow> string \<Rightarrow> update_input \<Rightarrow> stub_boletos \<times> boleto_result result" where
  "amend creds st t i inp =
     (case UpdateBoleto (stub_bank creds st) t i inp of (calls, res) \<Rightarrow> (stub_after creds calls st, res))"

section \<open>Amendments land on a validated boleto\<close>

text \<open>
  What an amendment asks for, written without the code: every field it names takes the new value, and
  everything else stays as it was registered.
\<close>

definition amended :: "update_input \<Rightarrow> boleto_result \<Rightarrow> boleto_result" where
  "amended inp c = c\<lparr>
     bo_AmountCents := overlay (ui_AmountCents inp) (bo_AmountCents c),
     bo_DueDate := overlay (ui_DueDate inp) (bo_DueDate c),
     bo_ValidUntil := overlay (ui_ValidUntil inp) (bo_ValidUntil c),
     bo_FineBps := overlay (ui_FineBps inp) (bo_FineBps c),
     bo_FineFixedCents := overlay (ui_FineFixedCents inp) (bo_FineFixedCents c),
     bo_MonthlyInterestBps := overlay (ui_MonthlyInterestBps inp) (bo_MonthlyInterestBps c),
     bo_Discounts := overlay (map_option (map port_tier) (ui_Discounts inp)) (bo_Discounts c)\<rparr>"

text \<open>The terms of a boleto are those the bank holds, where the core counts a negative fixed fine as none.\<close>

definition registers :: "boleto \<Rightarrow> boleto_result \<Rightarrow> bool" where
  "registers b c \<longleftrightarrow>
     m_cents (bo_principal b) = bo_AmountCents c \<and> bo_dueDate b = bo_DueDate c \<and>
     (bo_validUntil b = bo_ValidUntil c \<or> IsZeroTime (bo_validUntil b) \<and> IsZeroTime (bo_ValidUntil c)) \<and>
     bo_fineBps b = bo_FineBps c \<and> bo_fineFixedCents b = max 0 (bo_FineFixedCents c) \<and>
     bo_monthlyInterestBps b = bo_MonthlyInterestBps c \<and> map port_tier (bo_discounts b) = bo_Discounts c"

lemma port_domain_tier [simp]: "map (port_tier \<circ> domain_tier) ds = ds"
  by (induction ds) (simp_all add: port_tier_def domain_tier_def)

lemma buildBoleto_wf:
  "buildBoleto bid t prin due vu fb ff mi ts = Inr b \<Longrightarrow> wf_money prin \<Longrightarrow> wf_boleto b"
  by (auto simp: buildBoleto_def bindE_Inr_iff split: if_splits)
     (meson NewBoleto_wf WithFixedFine_wf WithValidUntil_wf WithDiscounts_wf)+

lemma buildBoleto_fields:
  assumes "buildBoleto bid t prin due vu fb ff mi ts = Inr b"
  shows "bo_principal b = prin" "bo_dueDate b = due" "bo_fineBps b = fb" "bo_fineFixedCents b = max 0 ff"
    "bo_monthlyInterestBps b = mi" "bo_discounts b = ts" "bo_id b = TrimSpace bid" "bo_tenantID b = TrimSpace t"
    "bo_validUntil b = vu \<or> IsZeroTime (bo_validUntil b) \<and> IsZeroTime vu"
proof -
  from assms obtain b0 b1 b2 where n: "NewBoleto bid t prin due fb mi = Inr b0"
    and f: "(if ff > 0 then WithFixedFine b0 ff else Inr b0) = Inr b1"
    and v: "(if \<not> IsZeroTime vu then WithValidUntil b1 vu else Inr b1) = Inr b2"
    and d: "WithDiscounts b2 ts = Inr b" by (auto simp: buildBoleto_def bindE_Inr_iff)
  have 0: "b0 = \<lparr>bo_id = TrimSpace bid, bo_tenantID = TrimSpace t, bo_principal = prin, bo_dueDate = due,
      bo_fineBps = fb, bo_fineFixedCents = 0, bo_monthlyInterestBps = mi, bo_validUntil = zero_time, bo_discounts = []\<rparr>"
    using n by (auto simp: NewBoleto_def Let_def split: if_splits)
  have 1: "b1 = b0\<lparr>bo_fineFixedCents := max 0 ff\<rparr>"
    using f 0 by (auto simp: WithFixedFine_def split: if_splits)
  have 2: "b2 = b1\<lparr>bo_validUntil := if IsZeroTime vu then zero_time else vu\<rparr>"
    using v 1 0 by (auto simp: WithValidUntil_def split: if_splits)
  have 3: "b = b2\<lparr>bo_discounts := ts\<rparr>"
    using d 2 1 0 by (auto simp: WithDiscounts_def split: if_splits option.splits)
  show "bo_principal b = prin" "bo_dueDate b = due" "bo_fineBps b = fb" "bo_fineFixedCents b = max 0 ff"
    "bo_monthlyInterestBps b = mi" "bo_discounts b = ts" "bo_id b = TrimSpace bid" "bo_tenantID b = TrimSpace t"
    "bo_validUntil b = vu \<or> IsZeroTime (bo_validUntil b) \<and> IsZeroTime vu"
    by (auto simp: 3 2 1 0 zero_time_def IsZeroTime_def)
qed

lemma merge_fields:
  assumes "mergeBoletoPatch current inp = Inr m"
  shows "m_cents (mb_principal m) = overlay (ui_AmountCents inp) (bo_AmountCents current)"
    "mb_dueDate m = overlay (ui_DueDate inp) (bo_DueDate current)"
    "mb_validUntil m = overlay (ui_ValidUntil inp) (bo_ValidUntil current)"
    "mb_fineBps m = overlay (ui_FineBps inp) (bo_FineBps current)"
    "mb_fineFixedCents m = overlay (ui_FineFixedCents inp) (bo_FineFixedCents current)"
    "mb_monthlyInterestBps m = overlay (ui_MonthlyInterestBps inp) (bo_MonthlyInterestBps current)"
    "map port_tier (mb_tiers m) = overlay (map_option (map port_tier) (ui_Discounts inp)) (bo_Discounts current)"
    "\<exists>ccy. NewMoney (overlay (ui_AmountCents inp) (bo_AmountCents current)) ccy = Inr (mb_principal m)"
proof -
  let ?a = "overlay (ui_AmountCents inp) (bo_AmountCents current)"
  obtain ccy prin tiers where p: "NewMoney ?a ccy = Inr prin"
    and t: "(case ui_Discounts inp of Some ds \<Rightarrow> buildDiscountTiers ds | None \<Rightarrow> Inr (map domain_tier (bo_Discounts current))) = Inr tiers"
    and m: "m = \<lparr>mb_principal = prin, mb_dueDate = overlay (ui_DueDate inp) (bo_DueDate current),
       mb_validUntil = overlay (ui_ValidUntil inp) (bo_ValidUntil current),
       mb_fineBps = overlay (ui_FineBps inp) (bo_FineBps current),
       mb_fineFixedCents = overlay (ui_FineFixedCents inp) (bo_FineFixedCents current),
       mb_monthlyInterestBps = overlay (ui_MonthlyInterestBps inp) (bo_MonthlyInterestBps current), mb_tiers = tiers\<rparr>"
    using assms unfolding mergeBoletoPatch_def Let_def bindE_Inr_iff by (auto simp: bindE_Inr_iff split: if_split_asm)
  have "map port_tier tiers = overlay (map_option (map port_tier) (ui_Discounts inp)) (bo_Discounts current)"
    using t by (auto simp: overlay_def buildDiscountTiers_def split: if_splits option.splits)
  then show "m_cents (mb_principal m) = ?a"
    "mb_dueDate m = overlay (ui_DueDate inp) (bo_DueDate current)"
    "mb_validUntil m = overlay (ui_ValidUntil inp) (bo_ValidUntil current)"
    "mb_fineBps m = overlay (ui_FineBps inp) (bo_FineBps current)"
    "mb_fineFixedCents m = overlay (ui_FineFixedCents inp) (bo_FineFixedCents current)"
    "mb_monthlyInterestBps m = overlay (ui_MonthlyInterestBps inp) (bo_MonthlyInterestBps current)"
    "map port_tier (mb_tiers m) = overlay (map_option (map port_tier) (ui_Discounts inp)) (bo_Discounts current)"
    "\<exists>ccy. NewMoney ?a ccy = Inr (mb_principal m)"
    using p by (auto simp: m NewMoney_Inr_iff)
qed

lemma merge_registers:
  assumes "mergeBoletoPatch current inp = Inr m" "build_merged i t m = Inr b"
  shows "registers b (amended inp current)"
  using buildBoleto_fields [OF assms(2) [unfolded build_merged_def]] merge_fields [OF assms(1)]
  by (auto simp: registers_def amended_def)

text \<open>What the stub holds after the call is what was asked for: a fee block states every fee.\<close>

lemma stub_amends:
  assumes "stub_GetBoleto creds st t i = Inr current" "mergeBoletoPatch current inp = Inr m"
  shows "stub_UpdateBoleto creds st t i (toBoletoPatch inp m) =
    (put (key t i) (amended inp current) st, Inr (amended inp current))"
proof -
  note m = merge_fields [OF assms(2)]
  have "touchesFees inp \<or> ui_FineBps inp = None \<and> ui_FineFixedCents inp = None \<and> ui_MonthlyInterestBps inp = None \<and>
      ui_Discounts inp = None"
    by (auto simp: touchesFees_def)
  then show ?thesis
    using assms(1) m(4-7)
    by (auto simp: stub_UpdateBoleto_def stub_GetBoleto_def toBoletoPatch_def amended_def Let_def overlay_def touchesFees_def
        split: option.splits)
qed

lemma stub_GetBoleto_put:
  "stub_GetBoleto creds (put k c st) t i =
     (if key t i = k then bindE (creds t) (\<lambda>_. Inr c) else stub_GetBoleto creds st t i)"
  by (simp add: stub_GetBoleto_def lookup_def)

text \<open>
  C8: an amendment lands on a boleto the core has validated. Over the bank in memory of the repository's
  stub, \<open>UpdateBoleto\<close> either fails and leaves every boleto as it was, or the bank then holds, and the
  call returns, the registered boleto with exactly the fields the caller named replaced: no fee the
  caller left alone is dropped although a fee block replaces all fees, and the id, the status and the
  scannable codes stay. These terms are those of a well-formed boleto of the tenant: fine and interest
  within their caps, a discount schedule in order, the last payment day not before the due date. The one
  exception is in \<open>registers\<close>: a negative fixed fine, which the core takes for none, is held as it was
  sent. No other boleto of any tenant changes. Amounts are \<open>int64\<close> values.
\<close>

theorem amendment_lands_validated:
  assumes "amend creds st t i inp = (st', res)"
    and "\<And>c. stub_GetBoleto creds st t (TrimSpace i) = Inr c \<Longrightarrow> in64 (bo_AmountCents c)"
    and "\<And>a. ui_AmountCents inp = Some a \<Longrightarrow> in64 a"
  shows "(\<exists>e. res = Inl e) \<and> st' = st \<or>
    (\<exists>current b. stub_GetBoleto creds st t (TrimSpace i) = Inr current \<and> res = Inr (amended inp current) \<and>
       stub_GetBoleto creds st' t (TrimSpace i) = Inr (amended inp current) \<and>
       (\<forall>t' i'. key t' i' \<noteq> key t (TrimSpace i) \<longrightarrow> stub_GetBoleto creds st' t' i' = stub_GetBoleto creds st t' i') \<and>
       wf_boleto b \<and> bo_id b = TrimSpace i \<and> bo_tenantID b = TrimSpace t \<and> registers b (amended inp current))"
proof (cases "\<exists>current m b. TrimSpace i \<noteq> [] \<and> ui_IdempotencyKey inp \<noteq> [] \<and>
    stub_GetBoleto creds st t (TrimSpace i) = Inr current \<and> mergeBoletoPatch current inp = Inr m \<and>
    build_merged (TrimSpace i) t m = Inr b")
  case False
  then have "(\<exists>e. res = Inl e) \<and> st' = st"
    using assms(1) by (cases "stub_GetBoleto creds st t (TrimSpace i)")
      (auto simp: amend_def UpdateBoleto_def stub_bank_def Let_def bindE_def split: if_splits sum.splits, metis)
  then show ?thesis ..
next
  case True
  then obtain current m b where k: "TrimSpace i \<noteq> []" "ui_IdempotencyKey inp \<noteq> []"
    and c: "stub_GetBoleto creds st t (TrimSpace i) = Inr current"
    and m: "mergeBoletoPatch current inp = Inr m" and b: "build_merged (TrimSpace i) t m = Inr b" by blast
  have "st' = put (key t (TrimSpace i)) (amended inp current) st" "res = Inr (amended inp current)"
    using assms(1) k c m b stub_amends [OF c m] by (auto simp: amend_def UpdateBoleto_def stub_bank_def Let_def)
  moreover have "creds t = Inr ()" using c by (auto simp: stub_GetBoleto_def bindE_Inr_iff)
  moreover have "in64 (overlay (ui_AmountCents inp) (bo_AmountCents current))"
    using assms(2) [OF c] assms(3) by (auto simp: overlay_def split: option.splits)
  then have "wf_money (mb_principal m)" using merge_fields(8) [OF m] NewMoney_wf by blast
  then have "wf_boleto b" by (rule buildBoleto_wf [OF b [unfolded build_merged_def]])
  moreover note merge_registers [OF m b] buildBoleto_fields(7,8) [OF b [unfolded build_merged_def]] c
  ultimately show ?thesis by (auto simp: stub_GetBoleto_put)
qed

definition registered_boleto :: boleto_result where
  "registered_boleto = \<lparr>bo_BoletoID = ''b1'', bo_TxID = ''tx1'', bo_Status = ''registered'', bo_Modality = ModalityBoleto,
     bo_ExternalReferenceID = [], bo_QRCode = [], bo_OurNumber = [], bo_DigitableLine = [], bo_Barcode = [],
     bo_AmountCents = 100000, bo_DueDate = \<lparr>ns = 700000 * day_ns, zone = 0\<rparr>, bo_ValidUntil = zero_time,
     bo_FineBps = 0, bo_FineFixedCents = 0, bo_MonthlyInterestBps = 100,
     bo_Discounts = [\<lparr>bd_DaysBeforeDue = 5, bd_Bps = 0, bd_FixedCents = 1000\<rparr>]\<rparr>"

definition sample_boletos :: stub_boletos where
  "sample_boletos = [(key ''t1'' ''b1'', registered_boleto)]"

definition fine_amendment :: "int \<Rightarrow> update_input" where
  "fine_amendment cents = \<lparr>ui_TenantID = ''t1'', ui_AmountCents = None, ui_Currency = [], ui_DueDate = None,
     ui_ValidUntil = None, ui_FineBps = None, ui_FineFixedCents = Some cents, ui_MonthlyInterestBps = None,
     ui_Discounts = None, ui_IdempotencyKey = ''k1''\<rparr>"

lemma sample_b1 [simp]: "TrimSpace ''b1'' = ''b1''"
  by (simp add: TrimSpace_plain plain_byte_def less_eq_char_def)

lemma sample_registered: "stub_GetBoleto (\<lambda>t. Inr ()) sample_boletos ''t1'' ''b1'' = Inr registered_boleto"
  by (simp add: stub_GetBoleto_def sample_boletos_def lookup_def)

lemma fine_amended:
  assumes "cents \<le> 2000"
  shows "snd (amend (\<lambda>t. Inr ()) sample_boletos ''t1'' ''b1'' (fine_amendment cents)) =
    Inr (registered_boleto\<lparr>bo_FineFixedCents := cents\<rparr>)"
proof -
  have m: "mergeBoletoPatch registered_boleto (fine_amendment cents) =
      Inr \<lparr>mb_principal = \<lparr>m_cents = 100000, m_currency = ''BRL''\<rparr>, mb_dueDate = \<lparr>ns = 700000 * day_ns, zone = 0\<rparr>,
        mb_validUntil = zero_time, mb_fineBps = 0, mb_fineFixedCents = cents, mb_monthlyInterestBps = 100,
        mb_tiers = [\<lparr>DaysBeforeDue = 5, Bps = 0, FixedCents = 1000\<rparr>]\<rparr>" (is "_ = Inr ?m")
    by (simp add: mergeBoletoPatch_def fine_amendment_def registered_boleto_def overlay_def Let_def
        defaultBoletoCurrency_def NewMoney_def currencyRe_def less_eq_char_def domain_tier_def)
  have b: "\<exists>b. build_merged ''b1'' ''t1'' ?m = Inr b"
    using assms
    by (simp add: build_merged_def buildBoleto_def NewBoleto_def Let_def IsZeroMoney_def time_defs day_ns_def
        zero_time_def boleto_consts WithFixedFine_def roundDiv_eq mul64_id max64_def WithDiscounts_def tier_cents_def)
  have "amended (fine_amendment cents) registered_boleto = registered_boleto\<lparr>bo_FineFixedCents := cents\<rparr>"
    by (simp add: amended_def fine_amendment_def overlay_def registered_boleto_def)
  moreover have "ui_IdempotencyKey (fine_amendment cents) = ''k1''" by (simp add: fine_amendment_def)
  ultimately show ?thesis
    using m b sample_registered stub_amends [OF sample_registered m]
    by (auto simp: amend_def UpdateBoleto_def Let_def stub_bank_def split: prod.splits)
qed

theorem amendment_lands_validated_witness:
  "\<exists>st' b. amend (\<lambda>t. Inr ()) sample_boletos ''t1'' ''b1'' (fine_amendment 1500) =
       (st', Inr (registered_boleto\<lparr>bo_FineFixedCents := 1500\<rparr>)) \<and>
     stub_GetBoleto (\<lambda>t. Inr ()) st' ''t1'' ''b1'' = Inr (registered_boleto\<lparr>bo_FineFixedCents := 1500\<rparr>) \<and>
     wf_boleto b \<and> bo_fineFixedCents b = 1500 \<and> bo_monthlyInterestBps b = 100"
proof -
  obtain st' where run: "amend (\<lambda>t. Inr ()) sample_boletos ''t1'' ''b1'' (fine_amendment 1500) =
      (st', Inr (registered_boleto\<lparr>bo_FineFixedCents := 1500\<rparr>))"
    using fine_amended [of 1500] by (cases "amend (\<lambda>t. Inr ()) sample_boletos ''t1'' ''b1'' (fine_amendment 1500)") auto
  have g: "in64 (bo_AmountCents c)" if "stub_GetBoleto (\<lambda>t. Inr ()) sample_boletos ''t1'' (TrimSpace ''b1'') = Inr c" for c
    using that sample_registered by (auto simp: registered_boleto_def in64_def max64_def min64_def)
  have "ui_AmountCents (fine_amendment 1500) = None" by (simp add: fine_amendment_def)
  with amendment_lands_validated [OF run g] obtain current b where
    "registered_boleto\<lparr>bo_FineFixedCents := 1500\<rparr> = amended (fine_amendment 1500) current"
    "stub_GetBoleto (\<lambda>t. Inr ()) st' ''t1'' ''b1'' = Inr (amended (fine_amendment 1500) current)"
    "wf_boleto b" "registers b (amended (fine_amendment 1500) current)" by auto
  then have b: "stub_GetBoleto (\<lambda>t. Inr ()) st' ''t1'' ''b1'' = Inr (registered_boleto\<lparr>bo_FineFixedCents := 1500\<rparr>)"
    "wf_boleto b" "registers b (registered_boleto\<lparr>bo_FineFixedCents := 1500\<rparr>)" by simp_all
  then have "bo_fineFixedCents b = 1500" "bo_monthlyInterestBps b = 100"
    by (simp_all add: registers_def registered_boleto_def)
  with run b(1,2) show ?thesis by blast
qed

text \<open>
  a negative fixed fine goes through. An amendment that sets the fixed fine to minus 900 cents passes
  the validation, which looks only at positive ones, and the bank then holds it, although
  \<open>WithFixedFine\<close> refuses any fixed fine that is not positive.
\<close>

theorem negative_fine_sent:
  "snd (amend (\<lambda>t. Inr ()) sample_boletos ''t1'' ''b1'' (fine_amendment (- 900))) =
     Inr (registered_boleto\<lparr>bo_FineFixedCents := - 900\<rparr>) \<and>
   (\<forall>b. \<exists>e. WithFixedFine b (- 900) = Inl e)"
  using fine_amended [of "- 900"] by (simp add: WithFixedFine_def)

end
