(* ===== verification/Creations.thy ===== *)
theory Creations
  imports PixCharges CheckoutSessions BoletoSlips
begin

text \<open>
  The five services that create a payment, together on one store: generic charges, immediate and
  dated PIX charges, checkout sessions and boletos. A \<open>creation\<close> is one call of one of them; all are
  instances of \<open>billable_service\<close>, so the properties below hold whichever service runs, in any order,
  also when different services are called with one idempotency key.
\<close>

section \<open>The charge service as a billable service\<close>

definition charge_stamps :: "charge_env \<Rightarrow> stamps" where
  "charge_stamps env = \<lparr>sp_paymentID = ce_paymentID env, sp_reservedAt = ce_reservedAt env,
     sp_entryID = ce_entryID env, sp_billedAt = ce_billedAt env\<rparr>"

definition charge_answers :: "charge_env \<Rightarrow> create_charge_input \<Rightarrow> bool" where
  "charge_answers env inp \<longleftrightarrow>
     (\<forall>req res. ce_bank env (ci_TenantID inp) req = Inr res \<longrightarrow> TrimSpace (ch_TxID res) \<noteq> [])"

definition charge_run ::
  "charge_env \<Rightarrow> store \<Rightarrow> create_charge_input \<Rightarrow> store \<times> unit svc_effect list \<times> (payment \<times> unit) result" where
  "charge_run env s inp =
     (case CreateCharge txView env s inp of
        (s', effs, res) \<Rightarrow> (s', map Announced effs, bindE res (\<lambda>p. Inr (p, ()))))"

lemma charge_stamps_simps [simp]:
  "sp_paymentID (charge_stamps env) = ce_paymentID env" "sp_reservedAt (charge_stamps env) = ce_reservedAt env"
  "sp_entryID (charge_stamps env) = ce_entryID env" "sp_billedAt (charge_stamps env) = ce_billedAt env"
  by (simp_all add: charge_stamps_def)

lemma reserve_charge: "reservePayment r (charge_env_of (charge_stamps env)) s inp = reservePayment r env s inp"
proof -
  have "reserve_save r (charge_env_of (charge_stamps env)) = reserve_save r env" by (simp add: reserve_save_def fun_eq_iff)
  then show ?thesis by (simp only: reservePayment_def)
qed

lemma entry_charge: "charge_entry (charge_env_of (charge_stamps env)) inp p price = charge_entry env inp p price"
  by (simp add: charge_entry_def)

definition charge_ask :: "charge_env \<Rightarrow> create_charge_input \<Rightarrow> payment \<Rightarrow> string result" where
  "charge_ask env inp p =
     bindE (wrapE ''bank create charge'' (ce_bank env (ci_TenantID inp) (charge_request_of inp p)))
       (\<lambda>res. Inr (ch_TxID res))"

interpretation charges: billable_service txView store_ok store_view nul_free
  charge_run "\<lambda>inp. inp" charge_stamps charge_answers "\<lambda>v. charge_admit txView" "\<lambda>v s i p. Inr ()" "\<lambda>v s. charge_ask v"
proof (unfold_locales, goal_cases)
  case (1 v s i)
  show ?case
    by (auto simp: charge_run_def CreateCharge_def create_with_def charge_ask_def reserve_charge bill_created_eq
        entry_charge Let_def split: sum.splits prod.splits)
next
  case (2 v s i price)
  then show ?case by (auto simp: charge_admit_def bindE_Inr_iff split: if_splits)
next
  case (3 v i s p tx)
  then show ?case by (auto simp: charge_answers_def charge_ask_def bindE_Inr_iff)
qed

section \<open>Definitions\<close>

datatype creation =
    ByCharge charge_env create_charge_input
  | ByPix pix_env pix_input
  | ByDue cobv_env due_input
  | ByCheckout checkout_env checkout_input
  | ByBoleto boleto_env register_input

fun creation_ci :: "creation \<Rightarrow> create_charge_input" where
  "creation_ci (ByCharge env inp) = inp"
| "creation_ci (ByPix env inp) = pix_ci inp"
| "creation_ci (ByDue env inp) = due_ci inp"
| "creation_ci (ByCheckout env inp) = checkout_ci inp"
| "creation_ci (ByBoleto env inp) = boleto_ci inp"

fun creation_stamps :: "creation \<Rightarrow> stamps" where
  "creation_stamps (ByCharge env inp) = charge_stamps env"
| "creation_stamps (ByPix env inp) = xe_stamps env"
| "creation_stamps (ByDue env inp) = ve_stamps env"
| "creation_stamps (ByCheckout env inp) = oe_stamps env"
| "creation_stamps (ByBoleto env inp) = be_stamps env"

fun creation_answers :: "creation \<Rightarrow> bool" where
  "creation_answers (ByCharge env inp) = charge_answers env inp"
| "creation_answers (ByPix env inp) = pix_answers env inp"
| "creation_answers (ByDue env inp) = cobv_answers env inp"
| "creation_answers (ByCheckout env inp) = checkout_answers env inp"
| "creation_answers (ByBoleto env inp) = boleto_answers env inp"

fun run_creation :: "creation \<Rightarrow> store \<Rightarrow> store \<times> payment result" where
  "run_creation (ByCharge env inp) s = payment_of (charge_run env s inp)"
| "run_creation (ByPix env inp) s = payment_of (CreateImmediateCharge txView env s inp)"
| "run_creation (ByDue env inp) s = payment_of (CreateDueCharge txView env s inp)"
| "run_creation (ByCheckout env inp) s = payment_of (CreateSession txView env s inp)"
| "run_creation (ByBoleto env inp) s = payment_of (RegisterBoleto txView env s inp)"

fun run_creations :: "creation list \<Rightarrow> store \<Rightarrow> store \<times> payment result list" where
  "run_creations [] s = (s, [])"
| "run_creations (c # cs) s =
     (case run_creation c s of (s1, res) \<Rightarrow>
        (case run_creations cs s1 of (s2, ress) \<Rightarrow> (s2, res # ress)))"

text \<open>
  What a call checks, with the price it will bill, and what it asks the bank for a payment that is
  not finished and for one that is.
\<close>

fun creation_admit :: "creation \<Rightarrow> store \<Rightarrow> endpoint_pricing result" where
  "creation_admit (ByCharge env inp) s = charge_admit txView s inp"
| "creation_admit (ByPix env inp) s = pix_admit txView s inp"
| "creation_admit (ByDue env inp) s = cobv_price env s inp"
| "creation_admit (ByCheckout env inp) s = checkout_price env s inp"
| "creation_admit (ByBoleto env inp) s = boleto_price s inp"

fun creation_ask :: "creation \<Rightarrow> store \<Rightarrow> payment \<Rightarrow> string result" where
  "creation_ask (ByCharge env inp) s = charge_ask env inp"
| "creation_ask (ByPix env inp) s = pix_ask env inp"
| "creation_ask (ByDue env inp) s = cobv_ask env inp"
| "creation_ask (ByCheckout env inp) s = checkout_ask env s inp"
| "creation_ask (ByBoleto env inp) s = boleto_ask env s inp"

fun creation_replay :: "creation \<Rightarrow> store \<Rightarrow> payment \<Rightarrow> unit result" where
  "creation_replay (ByCharge env inp) s = (\<lambda>p. Inr ())"
| "creation_replay (ByPix env inp) s = pix_replay env inp"
| "creation_replay (ByDue env inp) s = cobv_replay env inp"
| "creation_replay (ByCheckout env inp) s = checkout_replay env s inp"
| "creation_replay (ByBoleto env inp) s = boleto_replay env s inp"

text \<open>
  What the books should show, written independently of the services: the endpoint each of them
  bills, the price the tenant pays there (nothing when none is set), and the entry for a payment.
\<close>

fun creation_endpoint :: "creation \<Rightarrow> string" where
  "creation_endpoint (ByCharge env inp) = ci_Endpoint inp"
| "creation_endpoint (ByPix env inp) = ''pix.create''"
| "creation_endpoint (ByDue env inp) = ''pix.cobv.create''"
| "creation_endpoint (ByCheckout env inp) = ''checkout.create''"
| "creation_endpoint (ByBoleto env inp) = ''boleto.create''"

fun creation_account :: "creation \<Rightarrow> string" where
  "creation_account (ByCharge env inp) = ci_AccountID inp"
| "creation_account (ByPix env inp) = pi_AccountID inp"
| "creation_account (ByDue env inp) = di_AccountID inp"
| "creation_account (ByCheckout env inp) = kin_AccountID inp"
| "creation_account (ByBoleto env inp) = ri_AccountID inp"

definition list_price :: "store \<Rightarrow> string \<Rightarrow> string \<Rightarrow> int" where
  "list_price s t e = (case map_of (st_pricing s) (key t e) of None \<Rightarrow> 0 | Some p \<Rightarrow> ep_priceCents p)"

definition service_bill :: "creation \<Rightarrow> store \<Rightarrow> payment \<Rightarrow> ledger_entry" where
  "service_bill c s p =
     \<lparr>le_id = TrimSpace (sp_entryID (creation_stamps c)), le_tenantID = ci_TenantID (creation_ci c),
      le_endpoint = TrimSpace (creation_endpoint c),
      le_priceCents = list_price s (ci_TenantID (creation_ci c)) (creation_endpoint c), le_reference = pay_id p,
      le_at = sp_billedAt (creation_stamps c), le_accountID = TrimSpace (creation_account c)\<rparr>"

text \<open>The key of a call, the bills a sequence of calls should leave, in order: one for every call that
  returned a payment and found its key unfinished.\<close>

definition key_state :: "creation \<Rightarrow> store \<Rightarrow> payment result" where
  "key_state c s = findPaymentByIdempotencyKey s (ci_TenantID (creation_ci c)) (ci_IdempotencyKey (creation_ci c))"

definition finished :: "creation \<Rightarrow> store \<Rightarrow> bool" where
  "finished c s = (case key_state c s of Inl e \<Rightarrow> False | Inr p \<Rightarrow> pay_txID p \<noteq> [])"

fun due_bills :: "creation list \<Rightarrow> store \<Rightarrow> ledger_entry list" where
  "due_bills [] s = []"
| "due_bills (c # cs) s =
     (case run_creation c s of (s1, res) \<Rightarrow>
        (case res of Inr p \<Rightarrow> if finished c s then [] else [service_bill c s p] | Inl e \<Rightarrow> []) @ due_bills cs s1)"

text \<open>
  How a call goes on once it holds an unfinished payment \<open>p\<close> for its key: refused by its checks it
  changes nothing; refused by the bank it leaves \<open>p\<close> under the key, unfinished and unbilled, and
  reports the error; answered by the bank with \<open>tx\<close> it returns and stores \<open>p\<close> with that id and books
  the bill, or, when the bill is not a valid one, leaves \<open>p\<close> as it was and fails.
\<close>

definition billable_entry :: "ledger_entry \<Rightarrow> bool" where
  "billable_entry e \<longleftrightarrow> le_id e \<noteq> [] \<and> le_tenantID e \<noteq> [] \<and> le_endpoint e \<noteq> [] \<and> 0 \<le> le_priceCents e"

definition goes_on :: "creation \<Rightarrow> store \<Rightarrow> payment \<Rightarrow> store \<Rightarrow> payment result \<Rightarrow> bool" where
  "goes_on c s p s' res =
     (case creation_admit c s of
        Inl e \<Rightarrow> s' = s \<and> res = Inl e
      | Inr price \<Rightarrow>
          (case creation_ask c s p of
             Inl e \<Rightarrow> res = Inl e \<and> key_state c s' = Inr p \<and> st_ledger s' = st_ledger s
           | Inr tx \<Rightarrow>
               if billable_entry (service_bill c s p)
               then res = Inr (SetTxID p tx) \<and> key_state c s' = Inr (SetTxID p tx) \<and>
                    st_ledger s' = st_ledger s @ [service_bill c s p]
               else (\<exists>e. res = Inl e) \<and> key_state c s' = Inr p \<and> st_ledger s' = st_ledger s))"

text \<open>A call as the boundary makes it: clean input, a payment id not in use, a bank that names what it creates.\<close>

definition admissible_creation :: "creation \<Rightarrow> store \<Rightarrow> bool" where
  "admissible_creation c s \<longleftrightarrow>
     good_input (creation_ci c) \<and> nul_free (ci_TenantID (creation_ci c)) \<and> creation_answers c \<and>
     findPaymentByID s (ci_TenantID (creation_ci c)) (TrimSpace (sp_paymentID (creation_stamps c))) = Inl ErrNotFound"

fun admissible_creations :: "creation list \<Rightarrow> store \<Rightarrow> bool" where
  "admissible_creations [] s \<longleftrightarrow> True"
| "admissible_creations (c # cs) s \<longleftrightarrow> admissible_creation c s \<and> admissible_creations cs (fst (run_creation c s))"

section \<open>One creation\<close>

lemma admissible_fresh:
  "admissible_creation c s \<Longrightarrow>
     v_pays (store_view s) (ci_TenantID (creation_ci c), TrimSpace (sp_paymentID (creation_stamps c))) = None"
  by (auto simp: admissible_creation_def findPaymentByID_def at_key_def)

lemma creation_step:
  assumes g: "store_ok s" "charge_inv (store_view s)" and a: "admissible_creation c s"
    and run: "run_creation c s = (s', res)"
  shows "store_ok s' \<and> charge_inv (store_view s') \<and> evolves (store_view s) (store_view s') \<and>
    (\<forall>p. res = Inr p \<longrightarrow> at_key (st_payments s') (ci_TenantID (creation_ci c), pay_id p) = Some p \<and> pay_txID p \<noteq> [] \<and>
       pay_idempotencyKey p = ci_IdempotencyKey (creation_ci c))"
proof -
  note fr = admissible_fresh [OF a]
  have a': "good_input (creation_ci c)" "nul_free (ci_TenantID (creation_ci c))" "creation_answers c"
    using a by (auto simp: admissible_creation_def)
  show ?thesis
  proof (cases c)
    case (ByCharge env inp)
    with run a' fr charges.payment_step [OF g, of inp env s' res] show ?thesis by simp
  next
    case (ByPix env inp)
    with run a' fr pix.payment_step [OF g, of inp env s' res] show ?thesis by simp
  next
    case (ByDue env inp)
    with run a' fr cobv.payment_step [OF g, of inp env s' res] show ?thesis by simp
  next
    case (ByCheckout env inp)
    with run a' fr checkout.payment_step [OF g, of inp env s' res] show ?thesis by simp
  next
    case (ByBoleto env inp)
    with run a' fr boletos.payment_step [OF g, of inp env s' res] show ?thesis by simp
  qed
qed

lemma run_creation_eq:
  "run_creation c s = create_with txView (creation_stamps c) s (creation_ci c) (creation_admit c s) (creation_replay c s)
     (creation_ask c s)"
proof (cases c)
  case (ByCharge env inp)
  then show ?thesis using charges.run_eq [of env s inp] by simp
next
  case (ByPix env inp)
  then show ?thesis using pix.run_eq [of env s inp] by simp
next
  case (ByDue env inp)
  then show ?thesis using cobv.run_eq [of env s inp] by simp
next
  case (ByCheckout env inp)
  then show ?thesis using checkout.run_eq [of env s inp] by simp
next
  case (ByBoleto env inp)
  then show ?thesis using boletos.run_eq [of env s inp] by simp
qed

lemma creation_price:
  assumes "creation_admit c s = Inr price"
  shows "resolvePriceOrFree txView s (ci_TenantID (creation_ci c)) (ci_Endpoint (creation_ci c)) = Inr price"
proof (cases c)
  case (ByCharge env inp)
  then show ?thesis using assms charges.admit_price by auto
next
  case (ByPix env inp)
  then show ?thesis using assms pix.admit_price by auto
next
  case (ByDue env inp)
  then show ?thesis using assms cobv.admit_price by auto
next
  case (ByCheckout env inp)
  then show ?thesis using assms checkout.admit_price by auto
next
  case (ByBoleto env inp)
  then show ?thesis using assms boletos.admit_price by auto
qed

lemma creation_ci_endpoint: "ci_Endpoint (creation_ci c) = creation_endpoint c" "ci_AccountID (creation_ci c) = creation_account c"
  by (cases c; simp add: PixCreateEndpoint_def PixCobVCreateEndpoint_def CheckoutCreateEndpoint_def BoletoCreateEndpoint_def
      checkout_ci_def boleto_ci_def)+

lemma list_price_resolved:
  "resolvePriceOrFree txView s t e = Inr price \<Longrightarrow> ep_priceCents price = list_price s t e"
  by (auto simp: resolvePriceOrFree_def getEndpointPrice_def list_price_def lookup_def NewEndpointPricing_def Let_def
      split: sum.splits option.splits if_splits)

text \<open>The entry the services build is the bill the books should show.\<close>

lemma creation_entry:
  assumes "creation_admit c s = Inr price" "good_input (creation_ci c)" "trimmed (pay_id p)"
  shows "billable_entry (service_bill c s p) \<Longrightarrow>
      charge_entry (charge_env_of (creation_stamps c)) (creation_ci c) p price = Inr (service_bill c s p)"
    and "\<not> billable_entry (service_bill c s p) \<Longrightarrow>
      \<exists>e. charge_entry (charge_env_of (creation_stamps c)) (creation_ci c) p price = Inl e"
proof -
  have "ep_priceCents price = list_price s (ci_TenantID (creation_ci c)) (creation_endpoint c)"
    using list_price_resolved [OF creation_price [OF assms(1)]] by (simp add: creation_ci_endpoint)
  moreover have "TrimSpace (ci_TenantID (creation_ci c)) = ci_TenantID (creation_ci c)" "TrimSpace (pay_id p) = pay_id p"
    using assms(2,3) by (simp_all add: good_input_def)
  ultimately show "billable_entry (service_bill c s p) \<Longrightarrow>
      charge_entry (charge_env_of (creation_stamps c)) (creation_ci c) p price = Inr (service_bill c s p)"
    "\<not> billable_entry (service_bill c s p) \<Longrightarrow>
      \<exists>e. charge_entry (charge_env_of (creation_stamps c)) (creation_ci c) p price = Inl e"
    by (auto simp: charge_entry_def NewLedgerEntry_def WithAccount_def billable_entry_def service_bill_def creation_ci_endpoint
        Let_def)
qed

lemma completed_goes_on:
  assumes g: "store_ok s1" "charge_inv (store_view s1)" "good_input (creation_ci c)" "nul_free (ci_TenantID (creation_ci c))"
    and k: "key_state c s1 = Inr p" "st_ledger s1 = st_ledger s"
    and a: "creation_admit c s = Inr price"
    and run: "completed (creation_stamps c) s1 (creation_ci c) price (creation_ask c s) p = (s', res)"
  shows "goes_on c s p s' res"
proof -
  have h: "at_key (st_payments s1) (ci_TenantID (creation_ci c), pay_id p) = Some p" "pay_tenantID p = ci_TenantID (creation_ci c)"
    "pay_idempotencyKey p = ci_IdempotencyKey (creation_ci c)" "trimmed (pay_id p)"
    using mem.lookup_holds [OF g(1,2), of "creation_ci c" p] k(1) by (auto simp: key_state_def holds_def wf_payment_def)
  have "savePayment s1 (SetTxID p tx) = Inr (stored s1 (SetTxID p tx))" for tx
    using h by (intro save_again [OF g(1), of _ p]) simp_all
  then have f: "key_state c (booked s1 (SetTxID p tx) le) = Inr (SetTxID p tx)" for tx le
    using stored_found [OF g(1), of "SetTxID p tx"] g(4) h by (simp add: key_state_def find_key_booked)
  show ?thesis
  proof (cases "creation_ask c s p")
    case (Inl e)
    with a k run show ?thesis by (simp add: goes_on_def completed_def)
  next
    case (Inr tx)
    show ?thesis
    proof (cases "billable_entry (service_bill c s p)")
      case True
      with creation_entry(1) [OF a g(3) h(4)] run Inr a k f [of tx "service_bill c s p"] show ?thesis
        by (auto simp: goes_on_def completed_def)
    next
      case False
      with creation_entry(2) [OF a g(3) h(4)] run Inr a k show ?thesis
        by (auto simp: goes_on_def completed_def)
    qed
  qed
qed

text \<open>What the state of the key leads to.\<close>

lemma creation_decides:
  assumes g: "store_ok s" "charge_inv (store_view s)" and a: "admissible_creation c s" and run: "run_creation c s = (s', res)"
  shows "key_state c s = Inr p \<Longrightarrow> pay_txID p \<noteq> [] \<Longrightarrow>
      s' = s \<and> res = bindE (creation_admit c s) (\<lambda>_. bindE (creation_replay c s p) (\<lambda>_. Inr p))"
    and "key_state c s = Inr p \<Longrightarrow> pay_txID p = [] \<Longrightarrow> goes_on c s p s' res"
    and "key_state c s = Inl e \<Longrightarrow> new_payment (creation_stamps c) (creation_ci c) = Inr p \<Longrightarrow> goes_on c s p s' res"
    and "key_state c s = Inl e \<Longrightarrow> new_payment (creation_stamps c) (creation_ci c) = Inl e' \<Longrightarrow> s' = s \<and> (\<exists>e. res = Inl e)"
proof -
  have i: "good_input (creation_ci c)" "nul_free (ci_TenantID (creation_ci c))"
    using a by (auto simp: admissible_creation_def)
  note eq = create_with_mem [OF g i admissible_fresh [OF a], of "creation_admit c s" "creation_replay c s" "creation_ask c s",
    folded run_creation_eq, unfolded run, folded key_state_def]
  show "key_state c s = Inr p \<Longrightarrow> pay_txID p \<noteq> [] \<Longrightarrow>
      s' = s \<and> res = bindE (creation_admit c s) (\<lambda>_. bindE (creation_replay c s p) (\<lambda>_. Inr p))"
    using eq by (simp split: sum.splits)
  show "key_state c s = Inl e \<Longrightarrow> new_payment (creation_stamps c) (creation_ci c) = Inl e' \<Longrightarrow> s' = s \<and> (\<exists>e. res = Inl e)"
    using eq by (auto split: sum.splits)
  show "goes_on c s p s' res" if k: "key_state c s = Inr p" "pay_txID p = []"
  proof (cases "creation_admit c s")
    case (Inl e)
    with eq show ?thesis by (simp add: goes_on_def)
  next
    case (Inr price)
    with eq k show ?thesis by (intro completed_goes_on [OF g i k(1) refl Inr]) simp
  qed
  show "goes_on c s p s' res" if k: "key_state c s = Inl e" "new_payment (creation_stamps c) (creation_ci c) = Inr p"
  proof (cases "creation_admit c s")
    case (Inl e)
    with eq show ?thesis by (simp add: goes_on_def)
  next
    case (Inr price)
    have nf: "findPaymentByIdempotencyKey s (ci_TenantID (creation_ci c)) (ci_IdempotencyKey (creation_ci c)) = Inl ErrNotFound"
      using k(1) find_key_missing by (metis key_state_def)
    note rf = reserve_fresh_mem [OF g(1) i nf, of "creation_stamps c"]
    have rv: "reservePayment txView (charge_env_of (creation_stamps c)) s (creation_ci c) = (stored s p, Inr p)"
      using rf(1) k(2) by simp
    have "store_ok (stored s p)" "charge_inv (store_view (stored s p))"
      using mem.reserve_step [OF g i _ rv] admissible_fresh [OF a] by simp_all
    then show ?thesis
      using eq k Inr rf(2) [OF k(2)] by (intro completed_goes_on [OF _ _ i _ _ Inr]) (simp_all add: key_state_def)
  qed
qed

text \<open>A call adds to the ledger the bill of the payment it finished, and nothing else.\<close>

lemma creation_bills:
  assumes "store_ok s" "charge_inv (store_view s)" "admissible_creation c s" "run_creation c s = (s', res)"
  shows "st_ledger s' = st_ledger s @
    (case res of Inr p \<Rightarrow> if finished c s then [] else [service_bill c s p] | Inl e \<Rightarrow> [])"
proof -
  note d = creation_decides [OF assms]
  have go: "st_ledger s' = st_ledger s @ (case res of Inr q \<Rightarrow> [service_bill c s q] | Inl e \<Rightarrow> [])" if "goes_on c s p s' res" for p
    using that by (auto simp: goes_on_def service_bill_def split: sum.splits if_splits)
  show ?thesis
  proof (cases "key_state c s")
    case (Inr p)
    then show ?thesis
      using d(1) [OF Inr] go [OF d(2) [OF Inr]] by (cases "pay_txID p = []") (auto simp: finished_def split: sum.splits)
  next
    case (Inl e)
    then show ?thesis
      using go [OF d(3) [OF Inl]] d(4) [OF Inl]
      by (cases "new_payment (creation_stamps c) (creation_ci c)") (auto simp: finished_def split: sum.splits)
  qed
qed

section \<open>Any sequence of creations\<close>

definition kept :: "create_charge_input \<Rightarrow> payment \<Rightarrow> view \<Rightarrow> bool" where
  "kept inp p v \<longleftrightarrow>
     (\<exists>q. v_pays v (ci_TenantID inp, pay_id p) = Some q \<and> same_identity p q \<and> pay_txID q = pay_txID p \<and>
        pay_txID q \<noteq> [] \<and> pay_idempotencyKey q = ci_IdempotencyKey inp)"

lemma kept_evolves:
  assumes "kept inp p v" "evolves v v'"
  shows "kept inp p v'"
proof -
  from assms(1) obtain q where q: "v_pays v (ci_TenantID inp, pay_id p) = Some q" "same_identity p q"
    "pay_txID q = pay_txID p" "pay_txID q \<noteq> []" "pay_idempotencyKey q = ci_IdempotencyKey inp"
    by (auto simp: kept_def)
  with assms(2) obtain q' where "v_pays v' (ci_TenantID inp, pay_id p) = Some q'" "same_identity q q'"
    "pay_txID q' = pay_txID q" unfolding evolves_def by blast
  with q show ?thesis unfolding kept_def
    by (intro exI [of _ q']) (auto intro: same_identity_trans simp: same_identity_def)
qed

lemma creations_step:
  assumes "store_ok s" "charge_inv (store_view s)" "admissible_creations cs s" "run_creations cs s = (s', ress)"
  shows "store_ok s' \<and> charge_inv (store_view s') \<and> evolves (store_view s) (store_view s') \<and>
    st_ledger s' = st_ledger s @ due_bills cs s \<and>
    (\<forall>c p. (c, Inr p) \<in> set (zip cs ress) \<longrightarrow> kept (creation_ci c) p (store_view s'))"
  using assms
proof (induction cs arbitrary: s ress)
  case Nil
  then show ?case by simp
next
  case (Cons c cs)
  obtain s1 res where r1: "run_creation c s = (s1, res)" by fastforce
  obtain ress' where r2: "run_creations cs s1 = (s', ress')" and ress: "ress = res # ress'"
    using Cons.prems(4) r1 by (auto split: prod.splits)
  have ad: "admissible_creation c s" "admissible_creations cs s1" using Cons.prems(3) r1 by simp_all
  note st = creation_step [OF Cons.prems(1,2) ad(1) r1]
  have g1: "store_ok s1" "charge_inv (store_view s1)" using st by auto
  note IH = Cons.IH [OF g1 ad(2) r2]
  have "kept (creation_ci c) p (store_view s')" if "res = Inr p" for p
  proof -
    have "kept (creation_ci c) p (store_view s1)" using st that by (simp add: kept_def)
    then show ?thesis using IH kept_evolves by blast
  qed
  moreover have "evolves (store_view s) (store_view s')" using st IH evolves_trans by blast
  moreover have "st_ledger s' = st_ledger s @ due_bills (c # cs) s"
    using creation_bills [OF Cons.prems(1,2) ad(1) r1] IH r1 by simp
  ultimately show ?case using IH ress by auto
qed

section \<open>Properties\<close>

text \<open>
  C3: one key, one payment, one bill, across all products. Start from a store in order and run any
  sequence of calls of the five creating services, failing or not: the books stay in order (every
  payment is billed once if it carries a bank id and not at all otherwise), and nothing stored is lost
  or rewritten. The ledger grows by exactly the bills \<open>due_bills\<close> lists: one for every call that
  returned a payment whose key was not finished when it came in, under the endpoint of the service that
  was called, for the tenant and the account of the request, at the price the tenant has for that
  endpoint at that moment (zero when none is set). And for every call that returned a payment, the
  tenant's payment under that key is still that one, with the same bank id, billed exactly once. Two
  calls with one key therefore never end in two payments or two bills, whichever services they went
  to.
\<close>

theorem creations_keep_books:
  assumes "store_ok s" "charge_inv (store_view s)" "admissible_creations cs s" "run_creations cs s = (s', ress)"
  shows "store_ok s' \<and> charge_inv (store_view s') \<and> evolves (store_view s) (store_view s') \<and>
    st_ledger s' = st_ledger s @ due_bills cs s \<and>
    (\<forall>c p. (c, Inr p) \<in> set (zip cs ress) \<longrightarrow>
       (\<exists>q. findPaymentByIdempotencyKey s' (ci_TenantID (creation_ci c)) (ci_IdempotencyKey (creation_ci c)) = Inr q \<and>
          same_identity p q \<and> pay_txID q = pay_txID p \<and>
          billed (st_ledger s') (ci_TenantID (creation_ci c)) (pay_id p) = 1))"
proof -
  note st = creations_step [OF assms]
  have "\<exists>q. findPaymentByIdempotencyKey s' (ci_TenantID (creation_ci c)) (ci_IdempotencyKey (creation_ci c)) = Inr q \<and>
          same_identity p q \<and> pay_txID q = pay_txID p \<and>
          billed (st_ledger s') (ci_TenantID (creation_ci c)) (pay_id p) = 1"
    if "(c, Inr p) \<in> set (zip cs ress)" for c p
  proof -
    from st that have "kept (creation_ci c) p (store_view s')" by blast
    then obtain q where q: "at_key (st_payments s') (ci_TenantID (creation_ci c), pay_id p) = Some q" "same_identity p q"
      "pay_txID q = pay_txID p" "pay_txID q \<noteq> []" "pay_idempotencyKey q = ci_IdempotencyKey (creation_ci c)"
      by (auto simp: kept_def)
    have "findPaymentByIdempotencyKey s' (ci_TenantID (creation_ci c)) (ci_IdempotencyKey (creation_ci c)) = Inr q"
      using findPaymentByIdempotencyKey_unique [OF _ q(1)] st q(5) by metis
    moreover have "charge_inv (store_view s')" using st by blast
    then have "billed (st_ledger s') (ci_TenantID (creation_ci c)) (pay_id p) = 1"
      using q(1,4) by (simp add: charge_inv_def billed_once_def)
    ultimately show ?thesis using q by blast
  qed
  with st show ?thesis by blast
qed

text \<open>
  C7: what the state of a key decides, for a call of any creating service. A finished key (its payment
  carries the bank's id): the store is left as it is, nothing is billed, and the call returns that
  payment, unless its own checks or its question to the bank fail. An open key (a payment reserved
  earlier, without a bank id): the call goes on with that payment. A key nobody used: when the request
  makes no valid payment the store is left as it is and the call fails; otherwise a payment of exactly
  the requested amount, currency and key is reserved under the endpoint of the service, and the call
  goes on with it. To go on is, by \<open>goes_on\<close>: refused by the checks, nothing is written; refused by the
  bank, the payment stays under the key, open and unbilled, and the error is reported; answered by the
  bank, the payment is returned and stored with the bank's id and one bill is booked, the service's own.
\<close>

theorem key_decides:
  assumes "store_ok s" "charge_inv (store_view s)" "admissible_creation c s" "run_creation c s = (s', res)"
  shows "(\<forall>p. key_state c s = Inr p \<longrightarrow> pay_txID p \<noteq> [] \<longrightarrow>
       s' = s \<and> res = bindE (creation_admit c s) (\<lambda>_. bindE (creation_replay c s p) (\<lambda>_. Inr p))) \<and>
    (\<forall>p. key_state c s = Inr p \<longrightarrow> pay_txID p = [] \<longrightarrow> goes_on c s p s' res) \<and>
    (key_state c s = Inl ErrNotFound \<longrightarrow>
       (case new_payment (creation_stamps c) (creation_ci c) of
          Inl e \<Rightarrow> s' = s \<and> (\<exists>e. res = Inl e)
        | Inr p \<Rightarrow>
            pay_amount p = \<lparr>m_cents = ci_AmountCents (creation_ci c), m_currency = ci_Currency (creation_ci c)\<rparr> \<and>
            pay_tenantID p = ci_TenantID (creation_ci c) \<and> pay_idempotencyKey p = ci_IdempotencyKey (creation_ci c) \<and>
            pay_endpoint p = TrimSpace (creation_endpoint c) \<and> pay_txID p = [] \<and> goes_on c s p s' res))"
proof -
  have i: "good_input (creation_ci c)" using assms(3) by (simp add: admissible_creation_def)
  have "pay_amount p = \<lparr>m_cents = ci_AmountCents (creation_ci c), m_currency = ci_Currency (creation_ci c)\<rparr> \<and>
      pay_tenantID p = ci_TenantID (creation_ci c) \<and> pay_idempotencyKey p = ci_IdempotencyKey (creation_ci c) \<and>
      pay_endpoint p = TrimSpace (creation_endpoint c) \<and> pay_txID p = []"
    if "new_payment (creation_stamps c) (creation_ci c) = Inr p" for p
    using reserved_payment [OF i that [unfolded new_payment_def]] that
    by (auto simp: new_payment_def bindE_Inr_iff NewMoney_Inr_iff creation_ci_endpoint dest: NewPayment_Inr)
  with creation_decides [OF assms] show ?thesis by (auto split: sum.splits)
qed

section \<open>Sample runs\<close>

definition due_input_of :: "int \<Rightarrow> due_input" where
  "due_input_of cents = \<lparr>di_TenantID = ''t1'', di_AccountID = [], di_AmountCents = cents, di_Currency = ''BRL'',
     di_DueDate = \<lparr>ns = 700000 * day_ns, zone = 0\<rparr>, di_ValidityDays = 30, di_FineBps = 200,
     di_MonthlyInterestBps = 100, di_DiscountBps = 0, di_DiscountFixedCents = 0,
     di_DebtorTaxID = ''12345678901'', di_DebtorName = ''Ana'', di_DebtorStreet = ''Rua'', di_DebtorCity = ''Natal'',
     di_DebtorState = ''RN'', di_DebtorZipCode = ''59000000'', di_CreditorKey = ''ck'', di_IdempotencyKey = ''k1''\<rparr>"

definition due_answer :: "due_charge_request \<Rightarrow> due_charge_result" where
  "due_answer req = \<lparr>dr_TxID = ''tx1'', dr_Status = ''ATIVA'', dr_QRCodePayload = [], dr_QRCodeLocation = [],
     dr_DueDate = dq_DueDate req, dr_ValidityDays = dq_ValidityDays req, dr_FineBps = dq_FineBps req,
     dr_MonthlyInterestBps = dq_MonthlyInterestBps req, dr_DiscountBps = dq_DiscountBps req,
     dr_DiscountFixedCents = dq_DiscountFixedCents req, dr_ExpectedAmountCents = dq_AmountCents req,
     dr_ReceivedAmountCents = 0\<rparr>"

definition due_env :: "bool \<Rightarrow> string \<Rightarrow> cobv_env" where
  "due_env up pid = \<lparr>ve_bank = \<lparr>
       cv_CreateDueCharge = (\<lambda>t req. if up then Inr (due_answer req) else Inl ErrUnavailable),
       cv_GetDueCharge = (\<lambda>t i. Inl ErrNotFound), cv_UpdateDueCharge = (\<lambda>t i req. Inl ErrNotFound)\<rparr>,
     ve_now = \<lparr>ns = day_ns, zone = 0\<rparr>, ve_stamps = sample_stamps\<lparr>sp_paymentID := pid\<rparr>\<rparr>"

definition due_payment :: "string \<Rightarrow> payment" where
  "due_payment tx = sample_payment\<lparr>pay_endpoint := ''pix.cobv.create'', pay_txID := tx\<rparr>"

definition due_entry :: ledger_entry where
  "due_entry = sample_entry\<lparr>le_endpoint := ''pix.cobv.create''\<rparr>"

definition due_store :: "string \<Rightarrow> ledger_entry list \<Rightarrow> store" where
  "due_store tx es = sample_store\<lparr>st_payments := [(key ''t1'' ''p1'', due_payment tx)], st_ledger := es\<rparr>"

lemma due_trims [simp]:
  "TrimSpace ''pix.cobv.create'' = ''pix.cobv.create''" "TrimSpace ''12345678901'' = ''12345678901''"
  "TrimSpace ''Ana'' = ''Ana''" "TrimSpace ''Rua'' = ''Rua''" "TrimSpace ''Natal'' = ''Natal''" "TrimSpace ''RN'' = ''RN''"
  "TrimSpace ''59000000'' = ''59000000''" "TrimSpace ''ck'' = ''ck''"
  by (simp_all add: TrimSpace_plain plain_byte_def less_eq_char_def)

lemma due_valid:
  assumes "0 < cents"
  shows "validateDueCharge (ve_now (due_env up pid)) (due_input_of cents) \<lparr>m_cents = cents, m_currency = ''BRL''\<rparr> = Inr ()"
  using assms
  by (simp add: validateDueCharge_def due_params_of_def due_input_of_def due_env_def dayAfter_def After_def
      civil_day_def NewDueCharge_def IsZeroMoney_def IsZeroTime_def cobv_consts validateDiscount_def newDebtor_def
      validTaxID_def is_digit_def less_eq_char_def Let_def)

lemma due_admitted:
  assumes "0 < cents" "st_tenants s = st_tenants sample_store" "st_pricing s = []"
  shows "due_admit txView (ve_now (due_env up pid)) s (due_input_of cents) =
    Inr (\<lparr>m_cents = cents, m_currency = ''BRL''\<rparr>, \<lparr>ep_tenantID = ''t1'', ep_endpoint = ''pix.cobv.create'', ep_priceCents = 0\<rparr>)"
proof -
  have p: "resolvePriceOrFree txView s ''t1'' ''pix.cobv.create'' =
      Inr \<lparr>ep_tenantID = ''t1'', ep_endpoint = ''pix.cobv.create'', ep_priceCents = 0\<rparr>"
    by (rule sample_free) (simp_all add: assms(3))
  have m: "NewMoney cents ''BRL'' = Inr \<lparr>m_cents = cents, m_currency = ''BRL''\<rparr>"
    using assms(1) by (simp add: NewMoney_def currencyRe_def less_eq_char_def)
  have i: "di_TenantID (due_input_of cents) = ''t1''" "di_IdempotencyKey (due_input_of cents) = ''k1''"
    "di_AmountCents (due_input_of cents) = cents" "di_Currency (due_input_of cents) = ''BRL''"
    by (simp_all add: due_input_of_def)
  show ?thesis
    by (simp add: due_admit_def i m p due_valid [OF assms(1)] sample_admit_tenant(2) [OF assms(2)] PixCobVCreateEndpoint_def)
qed

lemma due_interrupted:
  "CreateDueCharge txView (due_env False ''p1'') sample_store (due_input_of 500) =
     (due_store [] [], [Called (CobvCreate ''t1'' (due_request (due_input_of 500) []))],
      Inl (Errorf ''bank create cobv charge'' ErrUnavailable))"
proof -
  have a: "due_admit txView (ve_now (due_env False ''p1'')) sample_store (due_input_of 500) =
    Inr (\<lparr>m_cents = 500, m_currency = ''BRL''\<rparr>, \<lparr>ep_tenantID = ''t1'', ep_endpoint = ''pix.cobv.create'', ep_priceCents = 0\<rparr>)"
    by (rule due_admitted) (simp_all add: sample_store_def NewStore_def)
  have r: "reserveAmount txView (ve_stamps (due_env False ''p1'')) sample_store ''pix.cobv.create'' ''t1'' ''k1''
      \<lparr>m_cents = 500, m_currency = ''BRL''\<rparr> = (due_store [] [], Inr (due_payment []))"
    by (simp add: reserveAmount_def findPaymentByIdempotencyKey_def scan_def sample_store_def NewStore_def
      due_env_def sample_stamps_def NewPayment_def IsZeroMoney_def WithinTx_def savePayment_def due_payment_def
      sample_payment_def due_store_def)
  have i: "di_TenantID (due_input_of 500) = ''t1''" "di_IdempotencyKey (due_input_of 500) = ''k1''"
    by (simp_all add: due_input_of_def)
  have b: "cv_CreateDueCharge (ve_bank (due_env False ''p1'')) ''t1'' req = Inl ErrUnavailable" for req
    by (simp add: due_env_def)
  show ?thesis
    by (simp add: CreateDueCharge_def a r i b PixCobVCreateEndpoint_def) (simp add: due_payment_def sample_payment_def)
qed

lemma due_resumed:
  "CreateDueCharge txView (due_env True ''p2'') (due_store [] []) (due_input_of 9900) =
     (due_store ''tx1'' [due_entry],
      [Called (CobvCreate ''t1'' (due_request (due_input_of 9900) [])),
       Announced (publishPaymentEvent TopicPaymentCreated (due_payment ''tx1''))],
      Inr (due_payment ''tx1'', due_answer (due_request (due_input_of 9900) [])))"
proof -
  have a: "due_admit txView (ve_now (due_env True ''p2'')) (due_store [] []) (due_input_of 9900) =
    Inr (\<lparr>m_cents = 9900, m_currency = ''BRL''\<rparr>, \<lparr>ep_tenantID = ''t1'', ep_endpoint = ''pix.cobv.create'', ep_priceCents = 0\<rparr>)"
    by (rule due_admitted) (simp_all add: due_store_def sample_store_def NewStore_def)
  have k: "findPaymentByIdempotencyKey (due_store [] []) ''t1'' ''k1'' = Inr (due_payment [])"
    by (simp add: findPaymentByIdempotencyKey_def scan_def due_store_def due_payment_def sample_payment_def)
  then have r: "reserveAmount txView sp (due_store [] []) e ''t1'' ''k1'' m = (due_store [] [], Inr (due_payment []))" for sp e m
    by (simp add: reserveAmount_def)
  have i: "di_TenantID (due_input_of 9900) = ''t1''" "di_IdempotencyKey (due_input_of 9900) = ''k1''"
    by (simp_all add: due_input_of_def)
  have b: "cv_CreateDueCharge (ve_bank (due_env True ''p2'')) ''t1'' req = Inr (due_answer req)" for req
    by (simp add: due_env_def)
  have tx: "dr_TxID (due_answer req) = ''tx1''" for req by (simp add: due_answer_def)
  have p0: "pay_txID (due_payment []) = []" by (simp add: due_payment_def)
  have t: "SetTxID (due_payment []) ''tx1'' = due_payment ''tx1''" by (simp add: SetTxID_def due_payment_def)
  have le: "NewLedgerEntry (sp_entryID (ve_stamps (due_env True ''p2''))) (di_TenantID (due_input_of 9900))
      PixCobVCreateEndpoint (pay_id (due_payment ''tx1'')) 0 (sp_billedAt (ve_stamps (due_env True ''p2'')))
      [WithAccount (di_AccountID (due_input_of 9900))] = Inr due_entry"
    by (simp add: due_env_def sample_stamps_def due_input_of_def due_payment_def sample_payment_def NewLedgerEntry_def
        WithAccount_def PixCobVCreateEndpoint_def due_entry_def sample_entry_def)
  have fin: "charge_finalize txView (due_store [] []) (due_ci (due_input_of 9900)) (due_payment ''tx1'') due_entry =
      (due_store ''tx1'' [due_entry], Inr (due_payment ''tx1'', True))"
    by (simp add: charge_finalize_def tx_defs WithinTx_def findPaymentByIdempotencyKey_def scan_def savePayment_def
        appendLedgerEntry_def due_store_def sample_store_def NewStore_def due_payment_def sample_payment_def due_input_of_def)
  have f: "bill_created txView (ve_stamps (due_env True ''p2'')) (due_store [] []) (due_ci (due_input_of 9900)) (due_payment [])
      \<lparr>ep_tenantID = ''t1'', ep_endpoint = ''pix.cobv.create'', ep_priceCents = 0\<rparr> ''tx1'' =
    (due_store ''tx1'' [due_entry], [publishPaymentEvent TopicPaymentCreated (due_payment ''tx1'')], Inr (due_payment ''tx1''))"
    by (simp add: bill_created_def t Let_def le fin)
  show ?thesis
    by (simp add: CreateDueCharge_def a r i b PixCobVCreateEndpoint_def Let_def tx f p0)
qed

definition two_due :: "creation list" where
  "two_due = [ByDue (due_env False ''p1'') (due_input_of 500), ByDue (due_env True ''p2'') (due_input_of 9900)]"

lemma due_ci_good:
  "0 < cents \<Longrightarrow> cents \<le> max64 \<Longrightarrow> good_input (due_ci (due_input_of cents)) \<and> nul_free (di_TenantID (due_input_of cents))"
  by (simp add: good_input_def due_input_of_def in64I trimmed_def nul_free_def)

lemma due_env_paymentID [simp]: "sp_paymentID (ve_stamps (due_env up pid)) = pid"
  by (simp add: due_env_def)

lemma due_answers: "cobv_answers (due_env up pid) inp"
  by (simp add: cobv_answers_def due_env_def due_answer_def)

lemma two_due_run:
  "run_creations two_due sample_store =
     (due_store ''tx1'' [due_entry],
      [Inl (Errorf ''bank create cobv charge'' ErrUnavailable), Inr (due_payment ''tx1'')])"
  by (simp add: two_due_def due_interrupted due_resumed payment_of_def)

lemma two_due_admissible: "admissible_creations two_due sample_store"
proof -
  have "findPaymentByID sample_store ''t1'' ''p1'' = Inl ErrNotFound" "findPaymentByID (due_store [] []) ''t1'' ''p2'' = Inl ErrNotFound"
    by (simp_all add: findPaymentByID_def sample_store_def NewStore_def due_store_def lookup_def key_def)
  moreover have "di_TenantID (due_input_of cents) = ''t1''" for cents by (simp add: due_input_of_def)
  ultimately show ?thesis
    using due_ci_good [of 500] due_ci_good [of 9900]
    by (simp add: two_due_def admissible_creation_def due_answers due_interrupted payment_of_def max64_def)
qed

theorem creations_keep_books_witness:
  "admissible_creations two_due sample_store \<and>
   (\<exists>s' ress q. run_creations two_due sample_store = (s', ress) \<and> ress ! 1 = Inr (due_payment ''tx1'') \<and>
      findPaymentByIdempotencyKey s' ''t1'' ''k1'' = Inr q \<and> same_identity (due_payment ''tx1'') q \<and>
      billed (st_ledger s') ''t1'' ''p1'' = 1 \<and> length (due_bills two_due sample_store) = 1)"
proof -
  let ?c = "ByDue (due_env True ''p2'') (due_input_of 9900)"
  have "(?c, Inr (due_payment ''tx1'')) \<in> set (zip two_due
      [Inl (Errorf ''bank create cobv charge'' ErrUnavailable), Inr (due_payment ''tx1'')])"
    by (simp add: two_due_def)
  moreover have "di_TenantID (due_input_of 9900) = ''t1''" "di_IdempotencyKey (due_input_of 9900) = ''k1''"
    "pay_id (due_payment ''tx1'') = ''p1''"
    by (simp_all add: due_input_of_def due_payment_def sample_payment_def)
  ultimately obtain q where "findPaymentByIdempotencyKey (due_store ''tx1'' [due_entry]) ''t1'' ''k1'' = Inr q"
    "same_identity (due_payment ''tx1'') q" "billed (st_ledger (due_store ''tx1'' [due_entry])) ''t1'' ''p1'' = 1"
    using creations_keep_books [OF sample_good(1,2) two_due_admissible two_due_run] by fastforce
  moreover have "st_ledger (due_store ''tx1'' [due_entry]) = st_ledger sample_store @ due_bills two_due sample_store"
    using creations_keep_books [OF sample_good(1,2) two_due_admissible two_due_run] by blast
  moreover have "st_ledger (due_store ''tx1'' [due_entry]) = [due_entry]" "st_ledger sample_store = []"
    by (simp_all add: due_store_def sample_store_def NewStore_def)
  ultimately have "length (due_bills two_due sample_store) = 1" by (metis append_Nil length_Cons list.size(3) One_nat_def)
  moreover note \<open>findPaymentByIdempotencyKey _ _ _ = Inr q\<close> \<open>same_identity _ q\<close> \<open>billed _ _ _ = 1\<close>
  ultimately show ?thesis using two_due_run two_due_admissible by fastforce
qed

theorem key_decides_witness:
  "let c = ByDue (due_env True ''p2'') (due_input_of 9900); s = due_store [] [] in
     key_state c s = Inr (due_payment []) \<and>
     (\<exists>s'. run_creation c s = (s', Inr (due_payment ''tx1'')) \<and> key_state c s' = Inr (due_payment ''tx1'') \<and>
        st_ledger s' = [service_bill c s (due_payment [])] \<and>
        le_endpoint (service_bill c s (due_payment [])) = ''pix.cobv.create'')"
proof -
  let ?s = "due_store [] []" and ?c = "ByDue (due_env True ''p2'') (due_input_of 9900)"
  obtain ress where "run_creations [ByDue (due_env False ''p1'') (due_input_of 500)] sample_store = (?s, ress)"
    by (simp add: due_interrupted)
  moreover have "admissible_creations [ByDue (due_env False ''p1'') (due_input_of 500)] sample_store"
    using two_due_admissible by (simp add: two_due_def)
  ultimately have g: "store_ok ?s" "charge_inv (store_view ?s)"
    using creations_step [OF sample_good(1,2)] by blast+
  have a: "admissible_creation ?c ?s"
    using two_due_admissible by (simp add: two_due_def due_interrupted)
  have p: "pay_txID (due_payment []) = []" "SetTxID (due_payment []) ''tx1'' = due_payment ''tx1''"
    by (simp_all add: due_payment_def SetTxID_def)
  have k: "key_state ?c ?s = Inr (due_payment [])"
    by (simp add: key_state_def findPaymentByIdempotencyKey_def scan_def due_store_def due_payment_def sample_payment_def due_input_of_def)
  have "creation_admit ?c ?s = Inr \<lparr>ep_tenantID = ''t1'', ep_endpoint = ''pix.cobv.create'', ep_priceCents = 0\<rparr>"
    using due_admitted [of 9900 ?s True "''p2''"]
    by (simp add: cobv_price_def due_store_def sample_store_def NewStore_def)
  moreover have "creation_ask ?c ?s q = Inr ''tx1''" for q
    by (simp add: cobv_ask_def due_env_def due_answer_def)
  moreover have "billable_entry (service_bill ?c ?s (due_payment []))"
    by (simp add: billable_entry_def service_bill_def due_env_def sample_stamps_def list_price_def due_store_def sample_store_def
        NewStore_def due_input_of_def)
  moreover obtain s' res where run: "run_creation ?c ?s = (s', res)" by fastforce
  moreover have "goes_on ?c ?s (due_payment []) s' res"
    using key_decides [OF g a run] k p(1) by blast
  moreover have "st_ledger ?s = []" by (simp add: due_store_def)
  moreover have "le_endpoint (service_bill ?c ?s (due_payment [])) = ''pix.cobv.create''" by (simp add: service_bill_def)
  ultimately show ?thesis using k p(2) unfolding goes_on_def Let_def by auto
qed

text \<open>
  a retry can register another amount than the one recorded. A dated charge of 500 cents is
  interrupted after its payment was reserved; a second request with the same key asks for 9900 cents.
  The bank is asked to register 9900, while the payment that is returned, stored and billed keeps the
  500 cents of the first request: the request to the bank is built from the new input, not, as for
  immediate charges, from the reserved payment.
\<close>

theorem due_retry_diverges:
  "CreateDueCharge txView (due_env False ''p1'') sample_store (due_input_of 500) =
     (due_store [] [], [Called (CobvCreate ''t1'' (due_request (due_input_of 500) []))],
      Inl (Errorf ''bank create cobv charge'' ErrUnavailable)) \<and>
   CreateDueCharge txView (due_env True ''p2'') (due_store [] []) (due_input_of 9900) =
     (due_store ''tx1'' [due_entry],
      [Called (CobvCreate ''t1'' (due_request (due_input_of 9900) [])),
       Announced (publishPaymentEvent TopicPaymentCreated (due_payment ''tx1''))],
      Inr (due_payment ''tx1'', due_answer (due_request (due_input_of 9900) []))) \<and>
   dq_AmountCents (due_request (due_input_of 9900) []) = 9900 \<and> m_cents (pay_amount (due_payment ''tx1'')) = 500"
  using due_interrupted due_resumed by (simp add: due_request_def due_input_of_def due_payment_def sample_payment_def)

end
