(* ===== verification/Gateways.thy ===== *)
theory Gateways
  imports PixCharges BoletoSlips
begin

text \<open>
  \<open>internal/app/pixbacen.go\<close>, \<open>internal/app/plainboleto.go\<close> and their ports: the operations that only
  validate and pass on to the bank. They write nothing and bill nothing. A port that is nil makes
  its operations unavailable, so a port is an option; the list returned with a result holds the calls
  that were made to the bank, each with the tenant it was made for.
\<close>

section \<open>Passing a validated request on\<close>

definition requireActiveTenantFor :: "'s repository \<Rightarrow> 's \<Rightarrow> string \<Rightarrow> unit result" where
  "requireActiveTenantFor r s tenantID =
     bindE (wrapE ''resolve tenant'' (FindTenantByID r s tenantID))
       (\<lambda>t. if \<not> tn_active t then Inl (NewValidationError ''tenant'' ''tenant is not active'') else Inr ())"

text \<open>
  The frame of every operation here: without a port nothing is available; then the tenant is
  checked, then the input; what the checks yield, with the tenant the port is called for, is the call
  that is made.
\<close>

definition gated ::
  "'s repository \<Rightarrow> 's \<Rightarrow> 'p option \<Rightarrow> string \<Rightarrow> 'c result \<Rightarrow> ('p \<Rightarrow> string \<Rightarrow> 'c \<Rightarrow> 'o result) \<Rightarrow>
     (string \<times> 'c) list \<times> 'o result" where
  "gated r s port tenantID checks f =
     (case port of
        None \<Rightarrow> ([], Inl ErrUnavailable)
      | Some p \<Rightarrow>
          (case bindE (requireActiveTenantFor r s tenantID) (\<lambda>_. checks) of
             Inl e \<Rightarrow> ([], Inl e)
           | Inr c \<Rightarrow> ([(tenantID, c)], f p tenantID c)))"

definition required :: "string \<Rightarrow> string \<Rightarrow> string \<Rightarrow> string result" where
  "required field msg s =
     (let s = TrimSpace s in if s = [] then Inl (NewValidationError field msg) else Inr s)"

section \<open>Revision and listing of PIX charges\<close>

record revise_input =
  vi_TenantID :: string
  vi_TxID :: string
  vi_AmountCents :: int
  vi_ExpiresIn :: int
  vi_DebtorTaxID :: string
  vi_DebtorName :: string
  vi_CreditorKey :: string
  vi_IdempotencyKey :: string

type_synonym pix_reviser = "string \<Rightarrow> string \<Rightarrow> charge_request \<Rightarrow> int \<Rightarrow> pix_charge_result result"

definition revise_checks :: "revise_input \<Rightarrow> (string \<times> charge_request) result" where
  "revise_checks inp =
     bindE (required ''txid'' ''txid is required'' (vi_TxID inp))
       (\<lambda>txID. if vi_AmountCents inp < 0
          then Inl (NewValidationError ''amount_cents'' ''amount must not be negative'')
          else bindE (validateDebtor (vi_DebtorTaxID inp) (vi_DebtorName inp))
            (\<lambda>_. if vi_AmountCents inp = 0 \<and> vi_ExpiresIn inp \<le> 0 \<and> TrimSpace (vi_DebtorTaxID inp) = [] \<and>
                    TrimSpace (vi_CreditorKey inp) = []
               then Inl (NewValidationError ''revision'' ''nothing to revise'')
               else Inr (txID, \<lparr>cq_TenantID = [], cq_PaymentID = [], cq_AmountCents = vi_AmountCents inp,
                      cq_Currency = [], cq_IdempotencyKey = vi_IdempotencyKey inp,
                      cq_DebtorTaxID = TrimSpace (vi_DebtorTaxID inp), cq_DebtorName = TrimSpace (vi_DebtorName inp),
                      cq_CreditorKey = TrimSpace (vi_CreditorKey inp)\<rparr>)))"

definition ReviseImmediateCharge ::
  "'s repository \<Rightarrow> 's \<Rightarrow> pix_reviser option \<Rightarrow> revise_input \<Rightarrow> (string \<times> string \<times> charge_request) list \<times> pix_charge_result result" where
  "ReviseImmediateCharge r s reviser inp =
     gated r s reviser (vi_TenantID inp) (revise_checks inp)
       (\<lambda>p t (txID, req). p t txID req (vi_ExpiresIn inp))"

type_synonym due_reviser = "string \<Rightarrow> string \<Rightarrow> due_charge_request \<Rightarrow> due_charge_result result"

definition revise_due_checks :: "string \<Rightarrow> due_input \<Rightarrow> (string \<times> due_charge_request) result" where
  "revise_due_checks txID inp =
     bindE (required ''txid'' ''txid is required'' txID)
       (\<lambda>txID. if di_AmountCents inp < 0
          then Inl (NewValidationError ''amount_cents'' ''amount must not be negative'')
          else Inr (txID, due_request inp txID))"

definition ReviseDueCharge ::
  "'s repository \<Rightarrow> 's \<Rightarrow> due_reviser option \<Rightarrow> string \<Rightarrow> string \<Rightarrow> due_input \<Rightarrow>
     (string \<times> string \<times> due_charge_request) list \<times> due_charge_result result" where
  "ReviseDueCharge r s reviser tenantID txID inp =
     gated r s reviser tenantID (revise_due_checks txID inp) (\<lambda>p t (txID, req). p t txID req)"

record pix_page =
  pg_Page :: int
  pg_PageSize :: int
  pg_TotalItems :: int
  pg_TotalPages :: int

record due_charge_list =
  dl_Charges :: "due_charge_result list"
  dl_Page :: pix_page

type_synonym due_lister = "string \<Rightarrow> pix_list_filter \<Rightarrow> due_charge_list result"

definition window_checks :: "pix_list_input \<Rightarrow> pix_list_filter result" where
  "window_checks inp =
     bindE (validatePixListWindow (pli_Start inp) (pli_End inp) (pli_Page inp) (pli_PageSize inp))
       (\<lambda>_. Inr \<lparr>pf_Start = pli_Start inp, pf_End = pli_End inp, pf_Page = pli_Page inp,
                 pf_PageSize = pli_PageSize inp\<rparr>)"

definition ListDueCharges ::
  "'s repository \<Rightarrow> 's \<Rightarrow> due_lister option \<Rightarrow> pix_list_input \<Rightarrow> (string \<times> pix_list_filter) list \<times> due_charge_list result" where
  "ListDueCharges r s lister inp =
     gated r s lister (pli_TenantID inp) (window_checks inp) (\<lambda>p t f. p t f)"

section \<open>Payload locations\<close>

record pix_location =
  lo_ID :: int
  lo_Location :: string
  lo_TipoCob :: string
  lo_TxID :: string
  lo_CreatedAt :: gotime

record location_filter =
  lf_Start :: gotime
  lf_End :: gotime
  lf_TipoCob :: string
  lf_TxIDPresent :: "bool option"
  lf_Page :: int
  lf_PageSize :: int

record location_list =
  ll_Locations :: "pix_location list"
  ll_Page :: pix_page

record location_provider =
  lp_CreateLocation :: "string \<Rightarrow> string \<Rightarrow> pix_location result"
  lp_ListLocations :: "string \<Rightarrow> location_filter \<Rightarrow> location_list result"
  lp_GetLocation :: "string \<Rightarrow> int \<Rightarrow> pix_location result"
  lp_UnlinkLocationTxID :: "string \<Rightarrow> int \<Rightarrow> pix_location result"

definition CreateLocation ::
  "'s repository \<Rightarrow> 's \<Rightarrow> location_provider option \<Rightarrow> string \<Rightarrow> string \<Rightarrow> (string \<times> string) list \<times> pix_location result" where
  "CreateLocation r s port tenantID tipoCob =
     gated r s port tenantID
       (let tipoCob = lower_runes (TrimSpace tipoCob)
        in if tipoCob \<noteq> ''cob'' \<and> tipoCob \<noteq> ''cobv''
           then Inl (NewValidationError ''tipo_cob'' ''tipo_cob must be cob or cobv'')
           else Inr tipoCob)
       (\<lambda>p t kind. lp_CreateLocation p t kind)"

record list_locations_input =
  lli_TenantID :: string
  lli_Start :: gotime
  lli_End :: gotime
  lli_TipoCob :: string
  lli_TxIDPresent :: "bool option"
  lli_Page :: int
  lli_PageSize :: int

definition ListLocations ::
  "'s repository \<Rightarrow> 's \<Rightarrow> location_provider option \<Rightarrow> list_locations_input \<Rightarrow> (string \<times> location_filter) list \<times> location_list result" where
  "ListLocations r s port inp =
     gated r s port (lli_TenantID inp)
       (bindE (validatePixListWindow (lli_Start inp) (lli_End inp) (lli_Page inp) (lli_PageSize inp))
          (\<lambda>_. let tipoCob = lower_runes (TrimSpace (lli_TipoCob inp))
            in if tipoCob \<noteq> [] \<and> tipoCob \<noteq> ''cob'' \<and> tipoCob \<noteq> ''cobv''
               then Inl (NewValidationError ''tipo_cob'' ''tipo_cob must be cob or cobv'')
               else Inr \<lparr>lf_Start = lli_Start inp, lf_End = lli_End inp, lf_TipoCob = tipoCob,
                      lf_TxIDPresent = lli_TxIDPresent inp, lf_Page = lli_Page inp, lf_PageSize = lli_PageSize inp\<rparr>))
       (\<lambda>p t f. lp_ListLocations p t f)"

definition location_id_checks :: "int \<Rightarrow> int result" where
  "location_id_checks lid =
     (if lid \<le> 0 then Inl (NewValidationError ''id'' ''location id must be positive'') else Inr lid)"

definition GetLocation ::
  "'s repository \<Rightarrow> 's \<Rightarrow> location_provider option \<Rightarrow> string \<Rightarrow> int \<Rightarrow> (string \<times> int) list \<times> pix_location result" where
  "GetLocation r s port tenantID lid =
     gated r s port tenantID (location_id_checks lid) (\<lambda>p t lid. lp_GetLocation p t lid)"

definition UnlinkLocationTxID ::
  "'s repository \<Rightarrow> 's \<Rightarrow> location_provider option \<Rightarrow> string \<Rightarrow> int \<Rightarrow> (string \<times> int) list \<times> pix_location result" where
  "UnlinkLocationTxID r s port tenantID lid =
     gated r s port tenantID (location_id_checks lid) (\<lambda>p t lid. lp_UnlinkLocationTxID p t lid)"

section \<open>Received PIX and refunds\<close>

datatype refund_nature = NatureUnset | RefundOriginal | RefundWithdrawal | RefundMEDOperational | RefundMEDFraud

record refund_request =
  rq_AmountCents :: int
  rq_Nature :: refund_nature
  rq_Description :: string

record pix_refund =
  rf_ID :: string
  rf_ReturnID :: string
  rf_AmountCents :: int
  rf_Nature :: refund_nature
  rf_Description :: string
  rf_Status :: string
  rf_Reason :: string
  rf_RequestedAt :: gotime
  rf_SettledAt :: gotime

record received_pix =
  rp_EndToEndID :: string
  rp_TxID :: string
  rp_AmountCents :: int
  rp_CreditorKey :: string
  rp_ReceivedAt :: gotime
  rp_PayerInfo :: string
  rp_Refunds :: "pix_refund list"

record received_filter =
  rfl_Start :: gotime
  rfl_End :: gotime
  rfl_TxID :: string
  rfl_TxIDPresent :: "bool option"
  rfl_RefundPresent :: "bool option"
  rfl_PayerTaxID :: string
  rfl_Page :: int
  rfl_PageSize :: int

record received_list =
  rl_Received :: "received_pix list"
  rl_Page :: pix_page

record received_provider =
  vp_GetReceivedPix :: "string \<Rightarrow> string \<Rightarrow> received_pix result"
  vp_ListReceivedPix :: "string \<Rightarrow> received_filter \<Rightarrow> received_list result"
  vp_RequestRefund :: "string \<Rightarrow> string \<Rightarrow> string \<Rightarrow> refund_request \<Rightarrow> pix_refund result"
  vp_GetRefund :: "string \<Rightarrow> string \<Rightarrow> string \<Rightarrow> pix_refund result"

definition GetReceivedPix ::
  "'s repository \<Rightarrow> 's \<Rightarrow> received_provider option \<Rightarrow> string \<Rightarrow> string \<Rightarrow> (string \<times> string) list \<times> received_pix result" where
  "GetReceivedPix r s port tenantID endToEndID =
     gated r s port tenantID (required ''e2eid'' ''end-to-end id is required'' endToEndID)
       (\<lambda>p t i. vp_GetReceivedPix p t i)"

record list_received_input =
  lri_TenantID :: string
  lri_Start :: gotime
  lri_End :: gotime
  lri_TxID :: string
  lri_TxIDPresent :: "bool option"
  lri_RefundPresent :: "bool option"
  lri_PayerTaxID :: string
  lri_Page :: int
  lri_PageSize :: int

definition ListReceivedPix ::
  "'s repository \<Rightarrow> 's \<Rightarrow> received_provider option \<Rightarrow> list_received_input \<Rightarrow> (string \<times> received_filter) list \<times> received_list result" where
  "ListReceivedPix r s port inp =
     gated r s port (lri_TenantID inp)
       (bindE (validatePixListWindow (lri_Start inp) (lri_End inp) (lri_Page inp) (lri_PageSize inp))
          (\<lambda>_. let taxID = TrimSpace (lri_PayerTaxID inp)
            in if taxID \<noteq> [] \<and> \<not> isTaxID taxID
               then Inl (NewValidationError ''payer_tax_id'' ''payer tax id must be 11 (CPF) or 14 (CNPJ) digits'')
               else Inr \<lparr>rfl_Start = lri_Start inp, rfl_End = lri_End inp, rfl_TxID = TrimSpace (lri_TxID inp),
                      rfl_TxIDPresent = lri_TxIDPresent inp, rfl_RefundPresent = lri_RefundPresent inp,
                      rfl_PayerTaxID = TrimSpace (lri_PayerTaxID inp), rfl_Page = lri_Page inp,
                      rfl_PageSize = lri_PageSize inp\<rparr>))
       (\<lambda>p t f. vp_ListReceivedPix p t f)"

definition parseRefundNature :: "string \<Rightarrow> refund_nature result" where
  "parseRefundNature s =
     (let t = upper_runes (TrimSpace s)
      in if t = [] then Inr NatureUnset
         else if t = ''ORIGINAL'' then Inr RefundOriginal
         else if t = ''RETIRADA'' then Inr RefundWithdrawal
         else if t = ''MED_OPERACIONAL'' then Inr RefundMEDOperational
         else if t = ''MED_FRAUDE'' then Inr RefundMEDFraud
         else Inl (NewValidationError ''nature'' ''unknown refund nature''))"

record refund_input =
  fi_TenantID :: string
  fi_EndToEndID :: string
  fi_RefundID :: string
  fi_AmountCents :: int
  fi_Nature :: string
  fi_Description :: string

definition refund_checks :: "refund_input \<Rightarrow> (string \<times> string \<times> refund_request) result" where
  "refund_checks inp =
     (let e2e = TrimSpace (fi_EndToEndID inp); refundID = TrimSpace (fi_RefundID inp)
      in if e2e = [] then Inl (NewValidationError ''e2eid'' ''end-to-end id is required'')
         else if refundID = [] then Inl (NewValidationError ''refund_id'' ''refund id is required'')
         else if fi_AmountCents inp \<le> 0
         then Inl (NewValidationError ''amount_cents'' ''refund amount must be greater than zero'')
         else bindE (parseRefundNature (fi_Nature inp))
           (\<lambda>n. Inr (e2e, refundID, \<lparr>rq_AmountCents = fi_AmountCents inp, rq_Nature = n,
                  rq_Description = TrimSpace (fi_Description inp)\<rparr>)))"

definition RequestRefund ::
  "'s repository \<Rightarrow> 's \<Rightarrow> received_provider option \<Rightarrow> refund_input \<Rightarrow>
     (string \<times> string \<times> string \<times> refund_request) list \<times> pix_refund result" where
  "RequestRefund r s port inp =
     gated r s port (fi_TenantID inp) (refund_checks inp)
       (\<lambda>p t (e2e, refundID, req). vp_RequestRefund p t e2e refundID req)"

definition GetRefund ::
  "'s repository \<Rightarrow> 's \<Rightarrow> received_provider option \<Rightarrow> string \<Rightarrow> string \<Rightarrow> string \<Rightarrow>
     (string \<times> string \<times> string) list \<times> pix_refund result" where
  "GetRefund r s port tenantID endToEndID refundID =
     gated r s port tenantID
       (let e = TrimSpace endToEndID; i = TrimSpace refundID
        in if e = [] \<or> i = []
           then Inl (NewValidationError ''refund'' ''end-to-end id and refund id are required'')
           else Inr (e, i))
       (\<lambda>p t (e, i). vp_GetRefund p t e i)"

section \<open>Batches of dated charges\<close>

definition maxBatchCharges :: nat where "maxBatchCharges = 200"

record batch_item =
  bi_TxID :: string
  bi_Status :: string
  bi_Problem :: string
  bi_CreatedAt :: gotime

record due_batch =
  bt_ID :: string
  bt_Description :: string
  bt_CreatedAt :: gotime
  bt_Items :: "batch_item list"

record due_batch_list =
  bl_Batches :: "due_batch list"
  bl_Page :: pix_page

record batch_provider =
  bp_CreateBatch :: "string \<Rightarrow> string \<Rightarrow> string \<Rightarrow> due_charge_request list \<Rightarrow> unit result"
  bp_ReviseBatch :: "string \<Rightarrow> string \<Rightarrow> string \<Rightarrow> due_charge_request list \<Rightarrow> unit result"
  bp_GetBatch :: "string \<Rightarrow> string \<Rightarrow> due_batch result"
  bp_ListBatches :: "string \<Rightarrow> pix_list_filter \<Rightarrow> due_batch_list result"

text \<open>A charge of a batch is its txid with the input of a single dated charge.\<close>

record batch_input =
  bn_TenantID :: string
  bn_BatchID :: string
  bn_Description :: string
  bn_Charges :: "(string \<times> due_input) list"

text \<open>The loop over the charges; each one is validated against its own reading of the clock.\<close>

fun batch_requests :: "(nat \<Rightarrow> gotime) \<Rightarrow> nat \<Rightarrow> (string \<times> due_input) list \<Rightarrow> due_charge_request list result" where
  "batch_requests now n [] = Inr []"
| "batch_requests now n ((txID, c) # cs) =
     bindE (required ''charges.txid'' ''every charge in a batch needs its own txid'' txID) (\<lambda>txID.
     bindE (NewMoney (di_AmountCents c) (di_Currency c)) (\<lambda>prin.
     bindE (validateDueCharge (now n) c prin) (\<lambda>_.
     bindE (batch_requests now (Suc n) cs) (\<lambda>reqs. Inr (due_request c txID # reqs)))))"

definition batch_checks :: "(nat \<Rightarrow> gotime) \<Rightarrow> batch_input \<Rightarrow> (string \<times> string \<times> due_charge_request list) result" where
  "batch_checks now inp =
     (let batchID = TrimSpace (bn_BatchID inp); description = TrimSpace (bn_Description inp)
      in if batchID = [] then Inl (NewValidationError ''batch_id'' ''batch id is required'')
         else if description = [] then Inl (NewValidationError ''description'' ''description is required'')
         else if bn_Charges inp = [] then Inl (NewValidationError ''charges'' ''at least one charge is required'')
         else if length (bn_Charges inp) > maxBatchCharges
         then Inl (NewValidationError ''charges'' ''too many charges in a single batch'')
         else bindE (batch_requests now 0 (bn_Charges inp)) (\<lambda>reqs. Inr (batchID, description, reqs)))"

definition write_batch ::
  "'s repository \<Rightarrow> 's \<Rightarrow> batch_provider option \<Rightarrow> (nat \<Rightarrow> gotime) \<Rightarrow> batch_input \<Rightarrow> bool \<Rightarrow>
     (string \<times> string \<times> string \<times> due_charge_request list) list \<times> unit result" where
  "write_batch r s port now inp revisao =
     gated r s port (bn_TenantID inp) (batch_checks now inp)
       (\<lambda>p t (batchID, description, reqs).
          if revisao then bp_ReviseBatch p t batchID description reqs
          else bp_CreateBatch p t batchID description reqs)"

definition CreateBatch ::
  "'s repository \<Rightarrow> 's \<Rightarrow> batch_provider option \<Rightarrow> (nat \<Rightarrow> gotime) \<Rightarrow> batch_input \<Rightarrow>
     (string \<times> string \<times> string \<times> due_charge_request list) list \<times> unit result" where
  "CreateBatch r s port now inp = write_batch r s port now inp False"

definition ReviseBatch ::
  "'s repository \<Rightarrow> 's \<Rightarrow> batch_provider option \<Rightarrow> (nat \<Rightarrow> gotime) \<Rightarrow> batch_input \<Rightarrow>
     (string \<times> string \<times> string \<times> due_charge_request list) list \<times> unit result" where
  "ReviseBatch r s port now inp = write_batch r s port now inp True"

definition GetBatch ::
  "'s repository \<Rightarrow> 's \<Rightarrow> batch_provider option \<Rightarrow> string \<Rightarrow> string \<Rightarrow> (string \<times> string) list \<times> due_batch result" where
  "GetBatch r s port tenantID batchID =
     gated r s port tenantID (required ''batch_id'' ''batch id is required'' batchID) (\<lambda>p t i. bp_GetBatch p t i)"

definition ListBatches ::
  "'s repository \<Rightarrow> 's \<Rightarrow> batch_provider option \<Rightarrow> pix_list_input \<Rightarrow> (string \<times> pix_list_filter) list \<times> due_batch_list result" where
  "ListBatches r s port inp =
     gated r s port (pli_TenantID inp) (window_checks inp) (\<lambda>p t f. bp_ListBatches p t f)"

end
