(* ===== verification/PlainSlips.thy ===== *)
theory PlainSlips
  imports Gateways
begin

text \<open>
  \<open>internal/app/plainboleto.go\<close>: plain bank slips, with up to three discount tiers, and the listing of
  registered boletos; then what all operations that only pass requests on have in common.
\<close>

section \<open>Plain slips\<close>

definition maxPlainDiscountTiers :: nat where "maxPlainDiscountTiers = 3"

record plain_provider =
  sl_CreatePlainBoleto :: "string \<Rightarrow> boleto_request \<Rightarrow> boleto_result result"
  sl_GetPlainBoleto :: "string \<Rightarrow> string \<Rightarrow> boleto_result result"
  sl_UpdatePlainBoleto :: "string \<Rightarrow> string \<Rightarrow> boleto_patch \<Rightarrow> boleto_result result"
  sl_CancelPlainBoleto :: "string \<Rightarrow> string \<Rightarrow> unit result"
  sl_GetPlainBoletoPDF :: "string \<Rightarrow> string \<Rightarrow> boleto_document result"

record plain_input =
  si_TenantID :: string
  si_SlipID :: string
  si_AmountCents :: int
  si_Currency :: string
  si_DueDate :: gotime
  si_FineBps :: int
  si_FineFixedCents :: int
  si_MonthlyInterestBps :: int
  si_Discounts :: "boleto_discount_tier list"
  si_Payer :: boleto_payer
  si_Description :: string
  si_IdempotencyKey :: string

text \<open>The loop: which forms occurred and the days of the tier before, -1 at the start.\<close>

fun plain_tiers :: "bool \<Rightarrow> bool \<Rightarrow> int \<Rightarrow> boleto_discount_tier list \<Rightarrow> (bool \<times> bool) result" where
  "plain_tiers percent fixed prev [] = Inr (percent, fixed)"
| "plain_tiers percent fixed prev (t # ts) =
     (if bd_Bps t > 0 \<and> bd_FixedCents t > 0
      then Inl (NewValidationError ''discounts'' ''a tier is either a percentage or a fixed amount, never both'')
      else if \<not> bd_Bps t > 0 \<and> \<not> bd_FixedCents t > 0
      then Inl (NewValidationError ''discounts'' ''a tier worth nothing is not a discount'')
      else if bd_DaysBeforeDue t < 0
      then Inl (NewValidationError ''discounts'' ''days before due must not be negative'')
      else if prev \<ge> 0 \<and> bd_DaysBeforeDue t \<ge> prev
      then Inl (NewValidationError ''discounts'' ''tiers must be ordered with strictly decreasing days before due'')
      else plain_tiers (percent \<or> bd_Bps t > 0) (fixed \<or> \<not> bd_Bps t > 0) (bd_DaysBeforeDue t) ts)"

definition validatePlainDiscounts :: "boleto_discount_tier list \<Rightarrow> unit result" where
  "validatePlainDiscounts tiers =
     (if tiers = [] then Inr ()
      else if length tiers > maxPlainDiscountTiers
      then Inl (NewValidationError ''discounts'' ''at most three discount tiers'')
      else bindE (plain_tiers False False (-1) tiers)
        (\<lambda>(percent, fixed).
           if percent \<and> fixed
           then Inl (NewValidationError ''discounts''
                  ''every tier must use the same form: all percentages or all fixed amounts'')
           else Inr ()))"

definition plain_checks :: "plain_input \<Rightarrow> boleto_request result" where
  "plain_checks inp =
     bindE (required ''slip_id'' ''slip id is required'' (si_SlipID inp)) (\<lambda>slipID.
     bindE (NewMoney (si_AmountCents inp) (si_Currency inp)) (\<lambda>_.
     if IsZeroTime (si_DueDate inp) then Inl (NewValidationError ''due_date'' ''due date is required'')
     else if si_FineBps inp > 0 \<and> si_FineFixedCents inp > 0
     then Inl (NewValidationError ''fine'' ''fine must be either a percentage or a fixed amount, never both'')
     else bindE (validatePlainDiscounts (si_Discounts inp)) (\<lambda>_.
     Inr \<lparr>bq_TenantID = si_TenantID inp, bq_BoletoID = slipID, bq_AmountCents = si_AmountCents inp,
          bq_Currency = si_Currency inp, bq_DueDate = si_DueDate inp, bq_ValidUntil = zero_time,
          bq_FineBps = si_FineBps inp, bq_FineFixedCents = si_FineFixedCents inp,
          bq_MonthlyInterestBps = si_MonthlyInterestBps inp, bq_Discounts = si_Discounts inp,
          bq_Payer = si_Payer inp, bq_Description = si_Description inp,
          bq_IdempotencyKey = si_IdempotencyKey inp, bq_Modality = ModalityBoleto\<rparr>)))"

definition CreatePlainBoleto ::
  "'s repository \<Rightarrow> 's \<Rightarrow> plain_provider option \<Rightarrow> plain_input \<Rightarrow> (string \<times> boleto_request) list \<times> boleto_result result" where
  "CreatePlainBoleto r s slips inp =
     gated r s slips (si_TenantID inp) (plain_checks inp) (\<lambda>p t req. sl_CreatePlainBoleto p t req)"

definition slip_id_checks :: "string \<Rightarrow> string result" where
  "slip_id_checks slipID = required ''slip_id'' ''slip id is required'' slipID"

definition GetPlainBoleto ::
  "'s repository \<Rightarrow> 's \<Rightarrow> plain_provider option \<Rightarrow> string \<Rightarrow> string \<Rightarrow> (string \<times> string) list \<times> boleto_result result" where
  "GetPlainBoleto r s slips tenantID slipID =
     gated r s slips tenantID (slip_id_checks slipID) (\<lambda>p t i. sl_GetPlainBoleto p t i)"

definition CancelPlainBoleto ::
  "'s repository \<Rightarrow> 's \<Rightarrow> plain_provider option \<Rightarrow> string \<Rightarrow> string \<Rightarrow> (string \<times> string) list \<times> unit result" where
  "CancelPlainBoleto r s slips tenantID slipID =
     gated r s slips tenantID (slip_id_checks slipID) (\<lambda>p t i. sl_CancelPlainBoleto p t i)"

definition GetPlainBoletoPDF ::
  "'s repository \<Rightarrow> 's \<Rightarrow> plain_provider option \<Rightarrow> string \<Rightarrow> string \<Rightarrow> (string \<times> string) list \<times> boleto_document result" where
  "GetPlainBoletoPDF r s slips tenantID slipID =
     gated r s slips tenantID (slip_id_checks slipID) (\<lambda>p t i. sl_GetPlainBoletoPDF p t i)"

record plain_patch_input =
  pp_AmountCents :: "int option"
  pp_DueDate :: "gotime option"
  pp_FineBps :: "int option"
  pp_FineFixedCents :: "int option"
  pp_MonthlyInterestBps :: "int option"
  pp_Discounts :: "boleto_discount_tier list"
  pp_IdempotencyKey :: string

definition plain_fees :: "plain_patch_input \<Rightarrow> boleto_fees_patch option result" where
  "plain_fees inp =
     (if pp_FineBps inp \<noteq> None \<or> pp_FineFixedCents inp \<noteq> None \<or> pp_MonthlyInterestBps inp \<noteq> None \<or>
         pp_Discounts inp \<noteq> []
      then let fees = \<lparr>fp_FineBps = overlay (pp_FineBps inp) 0, fp_FineFixedCents = overlay (pp_FineFixedCents inp) 0,
                 fp_MonthlyInterestBps = overlay (pp_MonthlyInterestBps inp) 0, fp_Discounts = pp_Discounts inp\<rparr>
           in if fp_FineBps fees > 0 \<and> fp_FineFixedCents fees > 0
              then Inl (NewValidationError ''fine'' ''fine must be either a percentage or a fixed amount, never both'')
              else Inr (Some fees)
      else Inr None)"

definition plain_patch_checks :: "string \<Rightarrow> plain_patch_input \<Rightarrow> (string \<times> boleto_patch) result" where
  "plain_patch_checks slipID inp =
     bindE (slip_id_checks slipID) (\<lambda>slipID.
     if (case pp_AmountCents inp of None \<Rightarrow> False | Some a \<Rightarrow> a \<le> 0)
     then Inl (NewValidationError ''amount_cents'' ''amount must be greater than zero'')
     else if (case pp_DueDate inp of None \<Rightarrow> False | Some d \<Rightarrow> IsZeroTime d)
     then Inl (NewValidationError ''due_date'' ''due date must be a real date'')
     else bindE (validatePlainDiscounts (pp_Discounts inp)) (\<lambda>_.
     bindE (plain_fees inp) (\<lambda>fees.
     if pp_AmountCents inp = None \<and> pp_DueDate inp = None \<and> fees = None
     then Inl (NewValidationError ''patch'' ''nothing to update'')
     else Inr (slipID, \<lparr>pt_AmountCents = pp_AmountCents inp, pt_DueDate = pp_DueDate inp, pt_ValidUntil = None,
            pt_Description = None, pt_Fees = fees, pt_IdempotencyKey = pp_IdempotencyKey inp\<rparr>))))"

definition UpdatePlainBoleto ::
  "'s repository \<Rightarrow> 's \<Rightarrow> plain_provider option \<Rightarrow> string \<Rightarrow> string \<Rightarrow> plain_patch_input \<Rightarrow>
     (string \<times> string \<times> boleto_patch) list \<times> boleto_result result" where
  "UpdatePlainBoleto r s slips tenantID slipID inp =
     gated r s slips tenantID (plain_patch_checks slipID inp) (\<lambda>p t (i, patch). sl_UpdatePlainBoleto p t i patch)"

section \<open>Listing boletos\<close>

definition maxBoletoListWindow :: int where "maxBoletoListWindow = 60 * day_ns"

record boleto_list_filter =
  blf_PaymentDateFrom :: gotime
  blf_PaymentDateTo :: gotime
  blf_DueDateFrom :: gotime
  blf_DueDateTo :: gotime
  blf_CreditDateFrom :: gotime
  blf_CreditDateTo :: gotime
  blf_Status :: string
  blf_ExternalReferenceID :: string
  blf_Page :: int
  blf_PageSize :: int

record boleto_list =
  bls_Boletos :: "boleto_result list"
  bls_Page :: int
  bls_PageSize :: int
  bls_TotalItems :: int
  bls_TotalPages :: int

text \<open>The loop over the three ranges: whether one of them is given.\<close>

fun date_ranges :: "bool \<Rightarrow> (gotime \<times> gotime) list \<Rightarrow> bool result" where
  "date_ranges algum [] = Inr algum"
| "date_ranges algum ((de, ate) # ivs) =
     (if IsZeroTime de \<and> IsZeroTime ate then date_ranges algum ivs
      else if IsZeroTime de \<or> IsZeroTime ate \<or> Before ate de
      then Inl (NewValidationError ''range'' ''both ends of a date range are required'')
      else if SubTime ate de > maxBoletoListWindow
      then Inl (NewValidationError ''range'' ''date range too large'')
      else date_ranges True ivs)"

text \<open>The query has the fields of the filter; status and reference are normalised.\<close>

definition list_boletos_checks :: "(string \<Rightarrow> string) \<Rightarrow> boleto_list_filter \<Rightarrow> boleto_list_filter result" where
  "list_boletos_checks upper inp =
     bindE (date_ranges False [(blf_PaymentDateFrom inp, blf_PaymentDateTo inp),
              (blf_DueDateFrom inp, blf_DueDateTo inp), (blf_CreditDateFrom inp, blf_CreditDateTo inp)])
       (\<lambda>algum. if \<not> algum
          then Inl (NewValidationError ''range'' ''at least one date range is required (payment, due or credit)'')
          else if blf_Page inp < 0 \<or> blf_PageSize inp < 0
          then Inl (NewValidationError ''pagination'' ''page and page_size must not be negative'')
          else Inr (inp\<lparr>blf_Status := upper (TrimSpace (blf_Status inp)),
                        blf_ExternalReferenceID := TrimSpace (blf_ExternalReferenceID inp)\<rparr>))"

definition ListBoletos ::
  "(string \<Rightarrow> string) \<Rightarrow> 's repository \<Rightarrow> 's \<Rightarrow> (string \<Rightarrow> boleto_list_filter \<Rightarrow> boleto_list result) option \<Rightarrow>
     string \<Rightarrow> boleto_list_filter \<Rightarrow> (string \<times> boleto_list_filter) list \<times> boleto_list result" where
  "ListBoletos upper r s lister tenantID inp =
     gated r s lister tenantID (list_boletos_checks upper inp) (\<lambda>p t f. p t f)"

section \<open>What reaches the bank\<close>

text \<open>One operation that passes a request on, with what is sent to the bank when it is sent.\<close>

datatype gateway_request =
    AskReviseImmediate revise_input
  | AskReviseDue string string due_input
  | AskListDue pix_list_input
  | AskCreateLocation string string
  | AskListLocations list_locations_input
  | AskGetLocation string int
  | AskUnlink string int
  | AskReceived string string
  | AskListReceived list_received_input
  | AskRefund refund_input
  | AskGetRefund string string string
  | AskBatch batch_input bool
  | AskGetBatch string string
  | AskListBatches pix_list_input
  | AskPlain plain_input
  | AskGetPlain string string
  | AskUpdatePlain string string plain_patch_input
  | AskCancelPlain string string
  | AskPlainPDF string string
  | AskListBoletos string boleto_list_filter

datatype gateway_call =
    SendRevision "string \<times> charge_request"
  | SendDueRevision "string \<times> due_charge_request"
  | SendWindow pix_list_filter
  | SendKind string
  | SendLocationFilter location_filter
  | SendLocationID int
  | SendReceivedFilter received_filter
  | SendRefund "string \<times> string \<times> refund_request"
  | SendRefundID "string \<times> string"
  | SendBatch "string \<times> string \<times> due_charge_request list"
  | SendID string
  | SendPlain boleto_request
  | SendPlainPatch "string \<times> boleto_patch"
  | SendBoletoFilter boleto_list_filter

record gateway_ports =
  gp_reviser :: "pix_reviser option"
  gp_dueReviser :: "due_reviser option"
  gp_dueLister :: "due_lister option"
  gp_locations :: "location_provider option"
  gp_received :: "received_provider option"
  gp_batches :: "batch_provider option"
  gp_slips :: "plain_provider option"
  gp_boletos :: "(string \<Rightarrow> boleto_list_filter \<Rightarrow> boleto_list result) option"
  gp_now :: "nat \<Rightarrow> gotime"
  gp_upper :: "string \<Rightarrow> string"

fun asks_for :: "gateway_request \<Rightarrow> string" where
  "asks_for (AskReviseImmediate i) = vi_TenantID i"
| "asks_for (AskReviseDue t x i) = t"
| "asks_for (AskListDue i) = pli_TenantID i"
| "asks_for (AskCreateLocation t k) = t"
| "asks_for (AskListLocations i) = lli_TenantID i"
| "asks_for (AskGetLocation t l) = t"
| "asks_for (AskUnlink t l) = t"
| "asks_for (AskReceived t e) = t"
| "asks_for (AskListReceived i) = lri_TenantID i"
| "asks_for (AskRefund i) = fi_TenantID i"
| "asks_for (AskGetRefund t e i) = t"
| "asks_for (AskBatch i b) = bn_TenantID i"
| "asks_for (AskGetBatch t i) = t"
| "asks_for (AskListBatches i) = pli_TenantID i"
| "asks_for (AskPlain i) = si_TenantID i"
| "asks_for (AskGetPlain t i) = t"
| "asks_for (AskUpdatePlain t i p) = t"
| "asks_for (AskCancelPlain t i) = t"
| "asks_for (AskPlainPDF t i) = t"
| "asks_for (AskListBoletos t f) = t"

fun gateway_calls :: "'s repository \<Rightarrow> 's \<Rightarrow> gateway_ports \<Rightarrow> gateway_request \<Rightarrow> (string \<times> gateway_call) list" where
  "gateway_calls r s g (AskReviseImmediate i) = map (apsnd SendRevision) (fst (ReviseImmediateCharge r s (gp_reviser g) i))"
| "gateway_calls r s g (AskReviseDue t x i) = map (apsnd SendDueRevision) (fst (ReviseDueCharge r s (gp_dueReviser g) t x i))"
| "gateway_calls r s g (AskListDue i) = map (apsnd SendWindow) (fst (ListDueCharges r s (gp_dueLister g) i))"
| "gateway_calls r s g (AskCreateLocation t k) = map (apsnd SendKind) (fst (CreateLocation r s (gp_locations g) t k))"
| "gateway_calls r s g (AskListLocations i) = map (apsnd SendLocationFilter) (fst (ListLocations r s (gp_locations g) i))"
| "gateway_calls r s g (AskGetLocation t l) = map (apsnd SendLocationID) (fst (GetLocation r s (gp_locations g) t l))"
| "gateway_calls r s g (AskUnlink t l) = map (apsnd SendLocationID) (fst (UnlinkLocationTxID r s (gp_locations g) t l))"
| "gateway_calls r s g (AskReceived t e) = map (apsnd SendID) (fst (GetReceivedPix r s (gp_received g) t e))"
| "gateway_calls r s g (AskListReceived i) = map (apsnd SendReceivedFilter) (fst (ListReceivedPix r s (gp_received g) i))"
| "gateway_calls r s g (AskRefund i) = map (apsnd SendRefund) (fst (RequestRefund r s (gp_received g) i))"
| "gateway_calls r s g (AskGetRefund t e i) = map (apsnd SendRefundID) (fst (GetRefund r s (gp_received g) t e i))"
| "gateway_calls r s g (AskBatch i b) = map (apsnd SendBatch) (fst (write_batch r s (gp_batches g) (gp_now g) i b))"
| "gateway_calls r s g (AskGetBatch t i) = map (apsnd SendID) (fst (GetBatch r s (gp_batches g) t i))"
| "gateway_calls r s g (AskListBatches i) = map (apsnd SendWindow) (fst (ListBatches r s (gp_batches g) i))"
| "gateway_calls r s g (AskPlain i) = map (apsnd SendPlain) (fst (CreatePlainBoleto r s (gp_slips g) i))"
| "gateway_calls r s g (AskGetPlain t i) = map (apsnd SendID) (fst (GetPlainBoleto r s (gp_slips g) t i))"
| "gateway_calls r s g (AskUpdatePlain t i p) = map (apsnd SendPlainPatch) (fst (UpdatePlainBoleto r s (gp_slips g) t i p))"
| "gateway_calls r s g (AskCancelPlain t i) = map (apsnd SendID) (fst (CancelPlainBoleto r s (gp_slips g) t i))"
| "gateway_calls r s g (AskPlainPDF t i) = map (apsnd SendID) (fst (GetPlainBoletoPDF r s (gp_slips g) t i))"
| "gateway_calls r s g (AskListBoletos t f) = map (apsnd SendBoletoFilter) (fst (ListBoletos (gp_upper g) r s (gp_boletos g) t f))"

text \<open>What may be sent.\<close>

definition sound_window :: "gotime \<Rightarrow> gotime \<Rightarrow> int \<Rightarrow> int \<Rightarrow> bool" where
  "sound_window start stop page pageSize \<longleftrightarrow>
     \<not> IsZeroTime start \<and> ns start < ns stop \<and> ns stop - ns start \<le> 366 * day_ns \<and> 0 \<le> page \<and> 0 \<le> pageSize"

definition sound_due :: "due_charge_request \<Rightarrow> bool" where
  "sound_due req \<longleftrightarrow>
     dq_TxID req \<noteq> [] \<and> 0 < dq_AmountCents req \<and> 0 \<le> dq_FineBps req \<and> dq_FineBps req \<le> 200 \<and>
     0 \<le> dq_MonthlyInterestBps req \<and> dq_MonthlyInterestBps req \<le> 100 \<and> 0 \<le> dq_ValidityDays req \<and>
     validTaxID (TrimSpace (dq_DebtorTaxID req)) \<and> TrimSpace (dq_CreditorKey req) \<noteq> []"

definition absent_range :: "gotime \<times> gotime \<Rightarrow> bool" where
  "absent_range iv \<longleftrightarrow> IsZeroTime (fst iv) \<and> IsZeroTime (snd iv)"

definition sound_range :: "gotime \<times> gotime \<Rightarrow> bool" where
  "sound_range iv \<longleftrightarrow> \<not> IsZeroTime (fst iv) \<and> \<not> IsZeroTime (snd iv) \<and> ns (fst iv) \<le> ns (snd iv) \<and>
     ns (snd iv) - ns (fst iv) \<le> 60 * day_ns"

definition filter_ranges :: "boleto_list_filter \<Rightarrow> (gotime \<times> gotime) list" where
  "filter_ranges f = [(blf_PaymentDateFrom f, blf_PaymentDateTo f), (blf_DueDateFrom f, blf_DueDateTo f),
     (blf_CreditDateFrom f, blf_CreditDateTo f)]"

definition sound_tiers :: "boleto_discount_tier list \<Rightarrow> bool" where
  "sound_tiers ts \<longleftrightarrow>
     length ts \<le> 3 \<and> sorted_wrt (\<lambda>a b. bd_DaysBeforeDue b < bd_DaysBeforeDue a) ts \<and>
     (\<forall>t \<in> set ts. 0 \<le> bd_DaysBeforeDue t) \<and>
     ((\<forall>t \<in> set ts. 0 < bd_Bps t \<and> bd_FixedCents t \<le> 0) \<or> (\<forall>t \<in> set ts. bd_Bps t \<le> 0 \<and> 0 < bd_FixedCents t))"

fun sound_call :: "gateway_call \<Rightarrow> bool" where
  "sound_call (SendRevision (i, req)) \<longleftrightarrow> i \<noteq> [] \<and> 0 \<le> cq_AmountCents req"
| "sound_call (SendDueRevision (i, req)) \<longleftrightarrow> i \<noteq> [] \<and> dq_TxID req = i \<and> 0 \<le> dq_AmountCents req"
| "sound_call (SendWindow f) \<longleftrightarrow> sound_window (pf_Start f) (pf_End f) (pf_Page f) (pf_PageSize f)"
| "sound_call (SendKind k) \<longleftrightarrow> k = ''cob'' \<or> k = ''cobv''"
| "sound_call (SendLocationFilter f) \<longleftrightarrow> sound_window (lf_Start f) (lf_End f) (lf_Page f) (lf_PageSize f) \<and>
     lf_TipoCob f \<in> {[], ''cob'', ''cobv''}"
| "sound_call (SendLocationID i) \<longleftrightarrow> 0 < i"
| "sound_call (SendReceivedFilter f) \<longleftrightarrow> sound_window (rfl_Start f) (rfl_End f) (rfl_Page f) (rfl_PageSize f) \<and>
     (rfl_PayerTaxID f = [] \<or> isTaxID (rfl_PayerTaxID f))"
| "sound_call (SendRefund (e, i, req)) \<longleftrightarrow> e \<noteq> [] \<and> i \<noteq> [] \<and> 0 < rq_AmountCents req"
| "sound_call (SendRefundID (e, i)) \<longleftrightarrow> e \<noteq> [] \<and> i \<noteq> []"
| "sound_call (SendBatch (i, d, reqs)) \<longleftrightarrow> i \<noteq> [] \<and> d \<noteq> [] \<and> reqs \<noteq> [] \<and> length reqs \<le> 200 \<and>
     (\<forall>req \<in> set reqs. sound_due req)"
| "sound_call (SendID i) \<longleftrightarrow> i \<noteq> []"
| "sound_call (SendPlain req) \<longleftrightarrow> bq_BoletoID req \<noteq> [] \<and> 0 < bq_AmountCents req \<and> \<not> IsZeroTime (bq_DueDate req) \<and>
     \<not> (0 < bq_FineBps req \<and> 0 < bq_FineFixedCents req) \<and> sound_tiers (bq_Discounts req)"
| "sound_call (SendPlainPatch (i, p)) \<longleftrightarrow> i \<noteq> [] \<and> (pt_AmountCents p \<noteq> None \<or> pt_DueDate p \<noteq> None \<or> pt_Fees p \<noteq> None) \<and>
     (\<forall>a. pt_AmountCents p = Some a \<longrightarrow> 0 < a) \<and>
     (\<forall>f. pt_Fees p = Some f \<longrightarrow> sound_tiers (fp_Discounts f) \<and> \<not> (0 < fp_FineBps f \<and> 0 < fp_FineFixedCents f))"
| "sound_call (SendBoletoFilter f) \<longleftrightarrow> 0 \<le> blf_Page f \<and> 0 \<le> blf_PageSize f \<and>
     (\<forall>iv \<in> set (filter_ranges f). absent_range iv \<or> sound_range iv) \<and> (\<exists>iv \<in> set (filter_ranges f). sound_range iv)"

section \<open>Lemmas on the checks\<close>

lemma required_Inr: "required f m s = Inr x \<longleftrightarrow> TrimSpace s \<noteq> [] \<and> x = TrimSpace s"
  by (auto simp: required_def Let_def)

lemma window_sound: "validatePixListWindow a b p q = Inr () \<Longrightarrow> sound_window a b p q"
  by (auto simp: validatePixListWindow_def sound_window_def SubTime_def maxPixListRange_def After_def max64_def day_ns_def
      split: if_splits)

lemma window_checks_sound:
  "window_checks inp = Inr f \<Longrightarrow> sound_window (pf_Start f) (pf_End f) (pf_Page f) (pf_PageSize f)"
  by (auto simp: window_checks_def bindE_Inr_iff dest: window_sound)

lemma due_sound:
  "NewMoney (di_AmountCents c) (di_Currency c) = Inr prin \<Longrightarrow> validateDueCharge now c prin = Inr () \<Longrightarrow> x \<noteq> [] \<Longrightarrow>
     sound_due (due_request c x)"
  by (auto simp: validateDueCharge_def bindE_Inr_iff NewDueCharge_def due_params_of_def newDebtor_def Let_def cobv_consts
      sound_due_def due_request_def NewMoney_Inr_iff split: if_splits)

lemma batch_requests_sound:
  "batch_requests now n cs = Inr reqs \<Longrightarrow> length reqs = length cs \<and> (\<forall>req \<in> set reqs. sound_due req)"
  by (induction cs arbitrary: n reqs) (auto simp: bindE_Inr_iff required_Inr elim!: due_sound)

lemma plain_tiers_step:
  "plain_tiers pc fx prev (t # ts) = Inr x \<Longrightarrow>
     plain_tiers (pc \<or> 0 < bd_Bps t) (fx \<or> \<not> 0 < bd_Bps t) (bd_DaysBeforeDue t) ts = Inr x \<and>
     (0 < bd_Bps t) = (\<not> 0 < bd_FixedCents t) \<and> 0 \<le> bd_DaysBeforeDue t \<and> (0 \<le> prev \<longrightarrow> bd_DaysBeforeDue t < prev)"
  by (auto split: if_splits)

lemma plain_tiers_flags:
  "plain_tiers pc fx prev ts = Inr (pc', fx') \<Longrightarrow>
     pc' = (pc \<or> (\<exists>t \<in> set ts. 0 < bd_Bps t)) \<and> fx' = (fx \<or> (\<exists>t \<in> set ts. \<not> 0 < bd_Bps t)) \<and>
     (\<forall>t \<in> set ts. (0 < bd_Bps t) = (\<not> 0 < bd_FixedCents t) \<and> 0 \<le> bd_DaysBeforeDue t)"
proof (induction ts arbitrary: pc fx prev)
  case (Cons t ts)
  note st = plain_tiers_step [OF Cons.prems]
  from Cons.IH [OF conjunct1 [OF st]] st show ?case by auto
qed simp

lemma plain_tiers_sorted:
  "plain_tiers pc fx prev ts = Inr x \<Longrightarrow>
     sorted_wrt (\<lambda>a b. bd_DaysBeforeDue b < bd_DaysBeforeDue a) ts \<and>
     (0 \<le> prev \<longrightarrow> (\<forall>t \<in> set ts. bd_DaysBeforeDue t < prev))"
proof (induction ts arbitrary: pc fx prev)
  case (Cons t ts)
  note st = plain_tiers_step [OF Cons.prems]
  from Cons.IH [OF conjunct1 [OF st]] st show ?case by auto
qed simp

lemma plain_discounts_sound:
  assumes "validatePlainDiscounts ts = Inr ()"
  shows "sound_tiers ts"
proof (cases "ts = []")
  case False
  then obtain pc fx where t: "plain_tiers False False (- 1) ts = Inr (pc, fx)" and "\<not> (pc \<and> fx)" "length ts \<le> 3"
    using assms by (auto simp: validatePlainDiscounts_def bindE_Inr_iff maxPlainDiscountTiers_def split: if_splits)
  with plain_tiers_flags [OF t] plain_tiers_sorted [OF t] show ?thesis
    by (auto simp: sound_tiers_def not_less)
qed (simp add: sound_tiers_def)

lemma date_ranges_sound:
  "date_ranges b ivs = Inr b' \<Longrightarrow>
     (\<forall>iv \<in> set ivs. absent_range iv \<or> sound_range iv) \<and> (b' \<longrightarrow> b \<or> (\<exists>iv \<in> set ivs. sound_range iv))"
  by (induction b ivs rule: date_ranges.induct)
     (auto simp: absent_range_def sound_range_def SubTime_def maxBoletoListWindow_def Before_def max64_def day_ns_def
       split: if_splits)

lemma gated_calls:
  "(t', c) \<in> set (fst (gated r s port t checks f)) \<Longrightarrow> t' = t \<and> checks = Inr c \<and> requireActiveTenantFor r s t = Inr ()"
  by (auto simp: gated_def bindE_Inr_iff split: option.splits sum.splits)

lemma gated_length: "length (fst (gated r s port t checks f)) \<le> 1"
  by (auto simp: gated_def split: option.splits sum.splits)

text \<open>One rule for all operations: what is sent is what the checks yield, so it has what they grant.\<close>

lemma guarded_calls:
  assumes "\<And>c. checks = Inr c \<Longrightarrow> sound_call (snd' c)"
  shows "length (map (apsnd snd') (fst (gated r s port t checks f))) \<le> 1 \<and>
     (\<forall>(t', c) \<in> set (map (apsnd snd') (fst (gated r s port t checks f))).
        t' = t \<and> sound_call c \<and> requireActiveTenantFor r s t = Inr ())"
  using assms gated_length [of r s port t checks f] by (auto dest: gated_calls)

lemma revise_sound: "revise_checks inp = Inr c \<Longrightarrow> sound_call (SendRevision c)"
  by (auto simp: revise_checks_def bindE_Inr_iff required_Inr split: if_splits)

lemma revise_due_sound: "revise_due_checks x inp = Inr c \<Longrightarrow> sound_call (SendDueRevision c)"
  by (auto simp: revise_due_checks_def bindE_Inr_iff required_Inr due_request_def split: if_splits)

lemma refund_sound: "refund_checks inp = Inr c \<Longrightarrow> sound_call (SendRefund c)"
  by (auto simp: refund_checks_def bindE_Inr_iff Let_def split: if_splits)

lemma batch_sound: "batch_checks now inp = Inr c \<Longrightarrow> sound_call (SendBatch c)"
  using batch_requests_sound [of now 0 "bn_Charges inp"]
  by (fastforce simp: batch_checks_def bindE_Inr_iff Let_def maxBatchCharges_def split: if_splits)

lemma plain_sound: "plain_checks inp = Inr c \<Longrightarrow> sound_call (SendPlain c)"
  by (auto simp: plain_checks_def bindE_Inr_iff required_Inr NewMoney_Inr_iff split: if_splits
      dest: plain_discounts_sound)

lemma plain_fees_sound:
  "plain_fees inp = Inr fees \<Longrightarrow> validatePlainDiscounts (pp_Discounts inp) = Inr () \<Longrightarrow> fees = Some f \<Longrightarrow>
     sound_tiers (fp_Discounts f) \<and> \<not> (0 < fp_FineBps f \<and> 0 < fp_FineFixedCents f)"
  by (auto simp: plain_fees_def Let_def split: if_splits dest: plain_discounts_sound)

lemma plain_patch_sound:
  assumes "plain_patch_checks x inp = Inr c"
  shows "sound_call (SendPlainPatch c)"
proof -
  from assms obtain i fees where c: "slip_id_checks x = Inr i" "validatePlainDiscounts (pp_Discounts inp) = Inr ()"
      "plain_fees inp = Inr fees" "\<not> (pp_AmountCents inp = None \<and> pp_DueDate inp = None \<and> fees = None)"
      "c = (i, \<lparr>pt_AmountCents = pp_AmountCents inp, pt_DueDate = pp_DueDate inp, pt_ValidUntil = None,
        pt_Description = None, pt_Fees = fees, pt_IdempotencyKey = pp_IdempotencyKey inp\<rparr>)"
    and a: "\<not> (case pp_AmountCents inp of None \<Rightarrow> False | Some a \<Rightarrow> a \<le> 0)"
    by (auto simp: plain_patch_checks_def bindE_Inr_iff split: if_splits)
  from a have "\<forall>a. pp_AmountCents inp = Some a \<longrightarrow> 0 < a" by auto
  with c plain_fees_sound [OF c(3,2)] show ?thesis by (auto simp: slip_id_checks_def required_Inr)
qed

lemma list_boletos_sound: "list_boletos_checks u inp = Inr c \<Longrightarrow> sound_call (SendBoletoFilter c)"
  by (auto simp: list_boletos_checks_def bindE_Inr_iff filter_ranges_def simp del: date_ranges.simps
      split: if_splits dest!: date_ranges_sound)

lemmas gateway_ops =
  ReviseImmediateCharge_def ReviseDueCharge_def ListDueCharges_def CreateLocation_def ListLocations_def
  GetLocation_def UnlinkLocationTxID_def GetReceivedPix_def ListReceivedPix_def RequestRefund_def GetRefund_def
  write_batch_def GetBatch_def ListBatches_def CreatePlainBoleto_def GetPlainBoleto_def UpdatePlainBoleto_def
  CancelPlainBoleto_def GetPlainBoletoPDF_def ListBoletos_def

lemmas gateway_sound =
  revise_sound revise_due_sound refund_sound batch_sound plain_sound plain_patch_sound list_boletos_sound

lemma gateway_step:
  "length (gateway_calls r s g req) \<le> 1 \<and>
   (\<forall>(t, c) \<in> set (gateway_calls r s g req).
      t = asks_for req \<and> sound_call c \<and> requireActiveTenantFor r s (asks_for req) = Inr ())"
  by (cases req; simp only: gateway_calls.simps asks_for.simps gateway_ops; rule guarded_calls;
      (erule gateway_sound | auto simp: required_Inr slip_id_checks_def location_id_checks_def bindE_Inr_iff Let_def
        window_checks_sound split: if_splits dest: window_sound))

lemma active_tenant:
  "requireActiveTenantFor r s t = Inr () \<Longrightarrow> \<exists>x. FindTenantByID r s t = Inr x \<and> tn_active x"
  by (auto simp: requireActiveTenantFor_def bindE_Inr_iff wrapE_def split: if_splits sum.splits)

section \<open>Claims\<close>

text \<open>
  C9: the operations of \<open>app/pixbacen.go\<close> and \<open>app/plainboleto.go\<close>, which only pass a request on. Whatever
  is asked of them, at most one call reaches the bank; it is made for the tenant that asked, who is
  found and active; and what is sent has the form the checks grant: identifiers are not empty, amounts
  are positive, a window has two ends in order and at most 366 days (60 days for boletos), a slip carries
  at most three tiers in decreasing order of days and of one form, and a batch has 1 to 200 charges each
  of which is a valid dated charge. The reads and locations of \<open>app/recurrence.go\<close>, which do not ask
  whether the tenant is active, are not among these operations.
\<close>

theorem gateway_guarded:
  "length (gateway_calls r s g req) \<le> 1 \<and>
   (\<forall>(t, c) \<in> set (gateway_calls r s g req).
      t = asks_for req \<and> sound_call c \<and> (\<exists>x. FindTenantByID r s t = Inr x \<and> tn_active x))"
  using gateway_step [of r s g req] active_tenant [of r s "asks_for req"] by fastforce

definition sample_refund :: refund_input where
  "sample_refund = \<lparr>fi_TenantID = ''t1'', fi_EndToEndID = ''e2e'', fi_RefundID = ''r1'', fi_AmountCents = 250,
     fi_Nature = '' original '', fi_Description = []\<rparr>"

definition sample_received :: received_provider where
  "sample_received = \<lparr>vp_GetReceivedPix = (\<lambda>t i. Inl ErrNotFound), vp_ListReceivedPix = (\<lambda>t f. Inl ErrUnavailable),
     vp_RequestRefund = (\<lambda>t e i req. Inl ErrUnavailable), vp_GetRefund = (\<lambda>t e i. Inl ErrNotFound)\<rparr>"

definition sample_ports :: gateway_ports where
  "sample_ports = \<lparr>gp_reviser = None, gp_dueReviser = None, gp_dueLister = None, gp_locations = None,
     gp_received = Some sample_received, gp_batches = None, gp_slips = None, gp_boletos = None,
     gp_now = (\<lambda>n. zero_time), gp_upper = (\<lambda>s. s)\<rparr>"

lemma sample_refund_sent:
  "gateway_calls txView sample_store sample_ports (AskRefund sample_refund) =
     [(''t1'', SendRefund (''e2e'', ''r1'', \<lparr>rq_AmountCents = 250, rq_Nature = RefundOriginal, rq_Description = []\<rparr>))]"
  by code_simp

lemma sample_refund_asks: "asks_for (AskRefund sample_refund) = ''t1''"
  by (simp add: sample_refund_def)

theorem gateway_guarded_witness:
  "\<exists>c. gateway_calls txView sample_store sample_ports (AskRefund sample_refund) = [(''t1'', c)] \<and> sound_call c \<and>
     (\<exists>x. FindTenantByID txView sample_store ''t1'' = Inr x \<and> tn_active x)"
  using gateway_guarded [of txView sample_store sample_ports "AskRefund sample_refund"]
  by (simp add: sample_refund_sent sample_refund_asks del: gateway_calls.simps asks_for.simps)

text \<open>
  A partial amendment that names only the fine restates the other charges as zero: the interest and
  the discounts the slip was registered with are left out of the fee block that replaces them.
\<close>

theorem plain_patch_drops_fees:
  "plain_fees \<lparr>pp_AmountCents = None, pp_DueDate = None, pp_FineBps = Some 200, pp_FineFixedCents = None,
     pp_MonthlyInterestBps = None, pp_Discounts = [], pp_IdempotencyKey = ''k''\<rparr> =
   Inr (Some \<lparr>fp_FineBps = 200, fp_FineFixedCents = 0, fp_MonthlyInterestBps = 0, fp_Discounts = []\<rparr>)"
  by (simp add: plain_fees_def overlay_def Let_def)

end
