(* ===== verification/Encodings.thy ===== *)
theory Encodings
  imports WebhookConfig
begin

text \<open>
  Further encodings of the standard library: positional digits, the group encoding that
  \<open>encoding/base64\<close> and \<open>encoding/base32\<close> share, \<open>strings.Split\<close> at one byte, and the part of \<open>fmt.Sscanf\<close>
  that reads decimal integers. The theorems are the round trips the sign-in relies on.
\<close>

section \<open>Digits\<close>

text \<open>Most significant digit first.\<close>

fun from_digits :: "nat \<Rightarrow> nat list \<Rightarrow> nat" where
  "from_digits b [] = 0"
| "from_digits b (d # ds) = d * b ^ length ds + from_digits b ds"

fun to_digits :: "nat \<Rightarrow> nat \<Rightarrow> nat \<Rightarrow> nat list" where
  "to_digits b 0 v = []"
| "to_digits b (Suc k) v = v div b ^ k mod b # to_digits b k v"

lemma length_to_digits [simp]: "length (to_digits b k v) = k"
  by (induction k) auto

lemma to_digits_less: "0 < b \<Longrightarrow> d \<in> set (to_digits b k v) \<Longrightarrow> d < b"
  by (induction k) auto

lemma from_to_digits: "0 < b \<Longrightarrow> from_digits b (to_digits b k v) = v mod b ^ k"
proof (induction k)
  case (Suc k)
  have "v mod (b * b ^ k) = b ^ k * (v div b ^ k mod b) + v mod b ^ k"
    by (metis mod_mult2_eq mult.commute)
  with Suc show ?case by (simp add: mult.commute)
qed simp

lemma from_digits_less: "\<forall>d \<in> set ds. d < b \<Longrightarrow> from_digits b ds < b ^ length ds"
proof (induction ds)
  case (Cons d ds)
  then have "d + 1 \<le> b" "from_digits b ds < b ^ length ds" by auto
  then have "(d + 1) * b ^ length ds \<le> b * b ^ length ds" by (intro mult_le_mono1)
  with \<open>from_digits b ds < b ^ length ds\<close> show ?case by simp
qed simp

lemma to_digits_mod:
  assumes "0 < b"
  shows "to_digits b k (v mod b ^ k) = to_digits b k v"
proof -
  have "to_digits b j (v mod b ^ k) = to_digits b j v" if "j \<le> k" for j
    using that
  proof (induction j)
    case (Suc j)
    then obtain i where k: "k = Suc (j + i)" using less_imp_Suc_add by force
    have "v mod b ^ k = b ^ j * (v div b ^ j mod (b * b ^ i)) + v mod b ^ j"
      using mod_mult2_eq [of v "b ^ j" "b * b ^ i"] by (simp add: k power_add ac_simps)
    then have "v mod b ^ k div b ^ j mod b = v div b ^ j mod (b * b ^ i) mod b" using assms by simp
    also have "\<dots> = v div b ^ j mod b" by (simp add: mod_mod_cancel)
    finally show ?case using Suc by simp
  qed simp
  then show ?thesis by simp
qed

lemma to_from_digits: "\<forall>d \<in> set ds. d < b \<Longrightarrow> to_digits b (length ds) (from_digits b ds) = ds"
proof (induction ds)
  case (Cons d ds)
  have l: "from_digits b ds < b ^ length ds" using Cons.prems by (intro from_digits_less) auto
  have "to_digits b (length ds) (d * b ^ length ds + from_digits b ds) =
      to_digits b (length ds) ((d * b ^ length ds + from_digits b ds) mod b ^ length ds)"
    using Cons.prems by (intro to_digits_mod [symmetric]) auto
  also have "\<dots> = ds" using l Cons by simp
  finally show ?case using l Cons.prems by simp
qed simp

section \<open>Groups\<close>

text \<open>A group of bytes as digits of \<open>rb\<close> bits, filled up with zero bits, and back.\<close>

definition enc_group :: "nat \<Rightarrow> string \<Rightarrow> nat list" where
  "enc_group rb bs =
     (let n = length bs; m = (8 * n + rb - 1) div rb
      in to_digits (2 ^ rb) m (from_digits 256 (map of_char bs) * 2 ^ (rb * m - 8 * n)))"

definition dec_group :: "nat \<Rightarrow> nat list \<Rightarrow> string" where
  "dec_group rb ds =
     (let m = length ds; n = rb * m div 8
      in map char_of (to_digits 256 n (from_digits (2 ^ rb) ds div 2 ^ (rb * m - 8 * n))))"

function chunks :: "nat \<Rightarrow> 'a list \<Rightarrow> 'a list list" where
  "chunks k xs = (if k = 0 \<or> xs = [] then [] else take k xs # chunks k (drop k xs))"
  by pat_completeness auto
termination by (relation "measure (\<lambda>(k, xs). length xs)") auto

declare chunks.simps [simp del]

lemma chunks_Nil [simp]: "chunks k [] = []"
  by (simp add: chunks.simps)

lemma chunks_append: "length xs = k \<Longrightarrow> 0 < k \<Longrightarrow> chunks k (xs @ ys) = xs # chunks k ys"
  by (subst chunks.simps) auto

lemma chunks_short: "xs \<noteq> [] \<Longrightarrow> length xs \<le> k \<Longrightarrow> chunks k xs = [xs]"
  by (cases k) (auto simp: chunks.simps [of k xs] chunks.simps [of "Suc _"])

lemma ceil_bounds:
  fixes a b :: nat
  assumes "0 < b"
  shows "a \<le> b * ((a + b - 1) div b)" "b * ((a + b - 1) div b) < a + b"
proof -
  define q where "q = (a + b - 1) div b"
  have "a + b - 1 = b * q + (a + b - 1) mod b" by (simp add: q_def)
  moreover have "(a + b - 1) mod b < b" using assms by simp
  ultimately show "a \<le> b * ((a + b - 1) div b)" "b * ((a + b - 1) div b) < a + b"
    unfolding q_def [symmetric] using assms by linarith+
qed

lemma dec_enc_group:
  assumes "0 < rb" "rb \<le> 8"
  shows "dec_group rb (enc_group rb bs) = bs"
proof -
  define n m where "n = length bs" and "m = (8 * n + rb - 1) div rb"
  define v where "v = from_digits 256 (map of_char bs :: nat list)"
  define s where "s = rb * m - 8 * n"
  have b: "8 * n \<le> rb * m" "rb * m < 8 * n + rb" unfolding m_def using ceil_bounds assms(1) by blast+
  have n: "rb * m div 8 = n" using b assms(2) by (intro div_nat_eqI) auto
  have dig: "\<forall>d \<in> set (map of_char bs :: nat list). d < 256" by auto
  then have "v < 256 ^ n" unfolding v_def n_def using from_digits_less by fastforce
  then have "v < 2 ^ (8 * n)" by (simp add: power_mult)
  then have "v * 2 ^ s < 2 ^ (8 * n) * 2 ^ s" by simp
  also have "\<dots> = (2 ^ rb) ^ m" using b by (simp add: s_def flip: power_add power_mult)
  finally have "v * 2 ^ s < (2 ^ rb) ^ m" .
  moreover have e: "enc_group rb bs = to_digits (2 ^ rb) m (v * 2 ^ s)"
    by (simp only: enc_group_def Let_def n_def m_def v_def s_def)
  ultimately have "from_digits (2 ^ rb) (enc_group rb bs) = v * 2 ^ s" by (simp add: from_to_digits)
  moreover have "length (enc_group rb bs) = m" by (simp add: e)
  moreover have "to_digits 256 n v = map of_char bs"
    using to_from_digits [OF dig] by (simp add: v_def n_def)
  ultimately show ?thesis by (simp add: dec_group_def Let_def n comp_def flip: s_def)
qed

lemma length_enc_group: "length (enc_group rb bs) = (8 * length bs + rb - 1) div rb"
  by (simp add: enc_group_def Let_def)

text \<open>Groups of \<open>k\<close> bytes that fill \<open>k'\<close> digits exactly can be cut apart again.\<close>

lemma chunks_enc:
  assumes "0 < rb" "0 < k" "rb * k' = 8 * k"
  shows "chunks k' (concat (map (enc_group rb) (chunks k bs))) = map (enc_group rb) (chunks k bs)"
proof (induction "length bs" arbitrary: bs rule: less_induct)
  case less
  have k': "0 < k'" using assms by (cases k') auto
  have full: "(8 * k + rb - 1) div rb = k'"
  proof -
    show ?thesis unfolding assms(3) [symmetric] using assms(1) by (intro div_nat_eqI) auto
  qed
  show ?case
  proof (cases "length bs \<le> k")
    case True
    show ?thesis
    proof (cases "bs = []")
      case False
      then have "enc_group rb bs \<noteq> []"
        using ceil_bounds(1) [OF assms(1), of "8 * length bs"] length_enc_group [of rb bs] by (cases "enc_group rb bs") auto
      moreover have "length (enc_group rb bs) \<le> k'"
        unfolding length_enc_group full [symmetric] using True by (intro div_le_mono) auto
      ultimately show ?thesis using False True by (simp add: chunks_short)
    qed simp
  next
    case False
    then have c: "chunks k bs = take k bs # chunks k (drop k bs)" using assms(2) by (subst chunks.simps) auto
    have "length (enc_group rb (take k bs)) = k'" using False by (simp add: length_enc_group min_absorb2 full [unfolded One_nat_def])
    then show ?thesis using less [of "drop k bs"] False assms(2) k' by (simp add: c chunks_append)
  qed
qed

lemma concat_chunks: "0 < k \<Longrightarrow> concat (chunks k xs) = xs"
proof (induction "length xs" arbitrary: xs rule: less_induct)
  case less
  show ?case
  proof (cases "xs = []")
    case False
    then have "concat (chunks k (drop k xs)) = drop k xs" using less by auto
    then show ?thesis using False less.prems by (subst chunks.simps) auto
  qed simp
qed

section \<open>Base 64 and base 32 without padding\<close>

text \<open>
  \<open>base64.RawStdEncoding\<close>. The decoder skips line breaks and refuses any other foreign byte and a last
  group of a single digit.
\<close>

definition std64_char :: "nat \<Rightarrow> char" where
  "std64_char n = (if n = 62 then CHR ''+'' else if n = 63 then CHR ''/'' else b64_char n)"

definition std64_value :: "char \<Rightarrow> nat option" where
  "std64_value c =
     (if CHR ''A'' \<le> c \<and> c \<le> CHR ''Z'' then Some (of_char c - 65)
      else if CHR ''a'' \<le> c \<and> c \<le> CHR ''z'' then Some (of_char c - 71)
      else if is_digit c then Some (of_char c + 4)
      else if c = CHR ''+'' then Some 62 else if c = CHR ''/'' then Some 63 else None)"

definition strip_breaks :: "string \<Rightarrow> string" where
  "strip_breaks = filter (\<lambda>c. c \<noteq> CHR 0x0A \<and> c \<noteq> CHR 0x0D)"

definition raw_std_encode :: "string \<Rightarrow> string" where
  "raw_std_encode bs = concat (map (\<lambda>g. map std64_char (enc_group 6 g)) (chunks 3 bs))"

definition raw_std_decode :: "string \<Rightarrow> string option" where
  "raw_std_decode s =
     (case those (map std64_value (strip_breaks s)) of
        None \<Rightarrow> None
      | Some ds \<Rightarrow> if length ds mod 4 = 1 then None else Some (concat (map (dec_group 6) (chunks 4 ds))))"

text \<open>
  \<open>base32.StdEncoding.WithPadding(base32.NoPadding)\<close>. A last group of 1, 3 or 6 digits, which no encoder
  produces, yields no bytes.
\<close>

definition b32_char :: "nat \<Rightarrow> char" where
  "b32_char n = (if n < 26 then char_of (65 + n) else char_of (24 + n))"

definition b32_value :: "char \<Rightarrow> nat option" where
  "b32_value c =
     (if CHR ''A'' \<le> c \<and> c \<le> CHR ''Z'' then Some (of_char c - 65)
      else if CHR ''2'' \<le> c \<and> c \<le> CHR ''7'' then Some (of_char c - 24) else None)"

definition b32_group :: "nat list \<Rightarrow> string" where
  "b32_group ds = (if length ds \<in> {1, 3, 6} then [] else dec_group 5 ds)"

definition b32_encode :: "string \<Rightarrow> string" where
  "b32_encode bs = concat (map (\<lambda>g. map b32_char (enc_group 5 g)) (chunks 5 bs))"

definition b32_decode :: "string \<Rightarrow> string option" where
  "b32_decode s =
     (case those (map b32_value (strip_breaks s)) of
        None \<Rightarrow> None
      | Some ds \<Rightarrow> Some (concat (map b32_group (chunks 8 ds))))"

section \<open>Splitting and scanning\<close>

text \<open>\<open>strings.Split(s, sep)\<close> for a separator of one byte.\<close>

fun split_at :: "char \<Rightarrow> string \<Rightarrow> string list" where
  "split_at sep [] = [[]]"
| "split_at sep (c # s) =
     (if c = sep then [] # split_at sep s
      else case split_at sep s of [] \<Rightarrow> [[c]] | p # ps \<Rightarrow> (c # p) # ps)"

text \<open>
  \<open>fmt.Sscanf\<close>: a literal part of the format must be there; the verb \<open>%d\<close> skips blanks, but not a line
  break, and reads an optional sign and digits that fit an \<open>int64\<close>. What follows the last verb in the
  input is not looked at.
\<close>

definition scan_lit :: "string \<Rightarrow> string \<Rightarrow> string option" where
  "scan_lit lit s = (if prefix lit s then Some (drop (length lit) s) else None)"

definition scan_digits :: "string \<Rightarrow> (int \<times> string) option" where
  "scan_digits s =
     (let ds = takeWhile is_digit s
      in if ds = [] then None
         else Some (int (from_digits 10 (map (\<lambda>c. of_char c - 48) ds)), dropWhile is_digit s))"

definition scan_int :: "string \<Rightarrow> (int \<times> string) option" where
  "scan_int s =
     (let s = strip_encs (remove1 [CHR 0x0A] space_encs) s;
          neg = (s \<noteq> [] \<and> hd s = CHR ''-'');
          s = (if s \<noteq> [] \<and> (hd s = CHR ''-'' \<or> hd s = CHR ''+'') then tl s else s)
      in case scan_digits s of
           None \<Rightarrow> None
         | Some (n, rest) \<Rightarrow>
             let n = if neg then - n else n in if in64 n then Some (n, rest) else None)"

section \<open>Round trips\<close>

lemma std64_value_char: "n < 64 \<Longrightarrow> std64_value (std64_char n) = Some n"
proof -
  assume "n < 64"
  then show ?thesis by (auto simp: std64_value_def std64_char_def b64_char_def is_digit_def less_eq_char_def)
qed

lemma b32_value_char: "n < 32 \<Longrightarrow> b32_value (b32_char n) = Some n"
proof -
  assume "n < 32"
  then show ?thesis by (auto simp: b32_value_def b32_char_def less_eq_char_def)
qed

lemma strip_breaks_id: "(\<And>c. c \<in> set s \<Longrightarrow> f c \<noteq> None) \<Longrightarrow> f (CHR 0x0A) = None \<Longrightarrow> f (CHR 0x0D) = None \<Longrightarrow>
  strip_breaks s = s"
  unfolding strip_breaks_def by (rule filter_True) metis

lemma those_map_Some: "those (map Some xs) = Some xs"
  by (induction xs) auto

lemma enc_group_less: "d \<in> set (enc_group rb g) \<Longrightarrow> d < 2 ^ rb"
  by (auto simp: enc_group_def Let_def dest: to_digits_less [rotated])

text \<open>Reading back the digits of an alphabet.\<close>

lemma read_digits:
  assumes "\<forall>d \<in> set ds. val (ch d) = Some d" "val (CHR 0x0A) = None" "val (CHR 0x0D) = None"
  shows "those (map val (strip_breaks (map ch ds))) = Some ds"
proof -
  have "strip_breaks (map ch ds) = map ch ds"
    by (rule strip_breaks_id [where f = val]) (use assms in auto)
  moreover have "map val (map ch ds) = map Some ds" using assms by simp
  ultimately show ?thesis by (simp only: those_map_Some)
qed

lemma concat_map_char: "concat (map (\<lambda>g. map ch (h g)) gs) = map ch (concat (map h gs))"
  by (simp add: map_concat comp_def)

lemma std64_breaks: "std64_value (CHR 0x0A) = None" "std64_value (CHR 0x0D) = None"
    "b32_value (CHR 0x0A) = None" "b32_value (CHR 0x0D) = None"
  by (simp_all add: std64_value_def b32_value_def is_digit_def less_eq_char_def)

lemma chunks_lengths: "0 < k \<Longrightarrow> g \<in> set (chunks k xs) \<Longrightarrow> 0 < length g \<and> length g \<le> k"
proof (induction "length xs" arbitrary: xs rule: less_induct)
  case less
  then have ne: "xs \<noteq> []" by auto
  have rest: "g \<in> set (chunks k (drop k xs)) \<Longrightarrow> 0 < length g \<and> length g \<le> k"
    using less.hyps [of "drop k xs"] less.prems(1) ne by simp
  from less.prems ne rest show ?case by (auto simp: chunks.simps [of k xs])
qed

lemma length_mod_chunks: "0 < k \<Longrightarrow> xs \<noteq> [] \<Longrightarrow> \<exists>g \<in> set (chunks k xs). length xs mod k = length g mod k"
proof (induction "length xs" arbitrary: xs rule: less_induct)
  case less
  show ?case
  proof (cases "length xs \<le> k")
    case True
    with less.prems show ?thesis by (simp add: chunks_short)
  next
    case False
    then have "\<exists>g \<in> set (chunks k (drop k xs)). length (drop k xs) mod k = length g mod k"
      using less.hyps [of "drop k xs"] less.prems by simp
    moreover have "length (drop k xs) mod k = length xs mod k" using False by (simp add: le_mod_geq)
    ultimately show ?thesis using less.prems by (auto simp: chunks.simps [of k xs])
  qed
qed

theorem base64_roundtrip: "raw_std_decode (raw_std_encode bs) = Some bs"
proof -
  define ds where "ds = concat (map (enc_group 6) (chunks 3 bs))"
  have "\<forall>d \<in> set ds. std64_value (std64_char d) = Some d"
    by (auto simp: ds_def intro!: std64_value_char dest: enc_group_less)
  then have r: "those (map std64_value (strip_breaks (raw_std_encode bs))) = Some ds"
    unfolding raw_std_encode_def concat_map_char ds_def [symmetric] by (intro read_digits std64_breaks) auto
  have c: "chunks 4 ds = map (enc_group 6) (chunks 3 bs)" unfolding ds_def by (rule chunks_enc) auto
  have "length ds mod 4 \<noteq> 1"
  proof (cases "ds = []")
    case False
    then obtain g where "g \<in> set (chunks 3 bs)" "length ds mod 4 = length (enc_group 6 g) mod 4"
      using length_mod_chunks [of 4 ds] c by auto
    moreover from this chunks_lengths [of 3 g bs] have "0 < length g" "length g \<le> 3" by simp_all
    then have "length g = 1 \<or> length g = 2 \<or> length g = 3" by arith
    ultimately show ?thesis by (auto simp: length_enc_group)
  qed simp
  moreover have "concat (map (dec_group 6) (chunks 4 ds)) = bs"
    by (simp add: c comp_def dec_enc_group concat_chunks)
  ultimately show ?thesis by (simp add: raw_std_decode_def r)
qed

theorem base32_roundtrip: "b32_decode (b32_encode bs) = Some bs"
proof -
  define ds where "ds = concat (map (enc_group 5) (chunks 5 bs))"
  have "\<forall>d \<in> set ds. b32_value (b32_char d) = Some d"
    by (auto simp: ds_def intro!: b32_value_char dest: enc_group_less)
  then have r: "those (map b32_value (strip_breaks (b32_encode bs))) = Some ds"
    unfolding b32_encode_def concat_map_char ds_def [symmetric] by (intro read_digits std64_breaks) auto
  have c: "chunks 8 ds = map (enc_group 5) (chunks 5 bs)" unfolding ds_def by (rule chunks_enc) auto
  have "b32_group (enc_group 5 g) = g" if "g \<in> set (chunks 5 bs)" for g
  proof -
    have "0 < length g" "length g \<le> 5" using chunks_lengths [OF _ that] by simp_all
    then have "length g = 1 \<or> length g = 2 \<or> length g = 3 \<or> length g = 4 \<or> length g = 5" by arith
    then have "length (enc_group 5 g) \<notin> {1, 3, 6}" by (auto simp: length_enc_group)
    then show ?thesis by (simp add: b32_group_def dec_enc_group)
  qed
  then have "concat (map b32_group (chunks 8 ds)) = bs"
    by (simp add: c comp_def concat_chunks cong: map_cong)
  then show ?thesis by (simp add: b32_decode_def r)
qed

end
