(* ===== verification/ConsoleAuth.thy ===== *)
theory ConsoleAuth
  imports Encodings Forward
begin

text \<open>
  Package \<open>internal/domain/consoleauth\<close>: the operator's credential, the password hash in PHC format,
  the time-based one-time code of RFC 6238, and the server-side session. Argon2 (a function of the
  password, the salt, the cost and the key length), HMAC-SHA1 and the random source are parameters.
\<close>

unbundle bit_operations_syntax

section \<open>Sessions and credentials\<close>

definition sessionIDBytes :: nat where "sessionIDBytes = 32"

definition GenerateSessionID :: "(nat \<Rightarrow> string result) \<Rightarrow> string result" where
  "GenerateSessionID rd = bindE (rd sessionIDBytes) (\<lambda>b. Inr (raw_url_encode b))"

record console_credential =
  cr_username :: string
  cr_passwordHash :: string
  cr_totpSecret :: string

definition NewCredential :: "string \<Rightarrow> string \<Rightarrow> string \<Rightarrow> console_credential" where
  "NewCredential username passwordHash totpSecret =
     \<lparr>cr_username = username, cr_passwordHash = passwordHash, cr_totpSecret = totpSecret\<rparr>"

record console_session =
  ss_id :: string
  ss_subject :: string
  ss_createdAt :: gotime
  ss_expiresAt :: gotime
  ss_lastSeenAt :: gotime

definition NewConsoleSession :: "string \<Rightarrow> string \<Rightarrow> gotime \<Rightarrow> int \<Rightarrow> console_session" where
  "NewConsoleSession sid subject now absolute =
     \<lparr>ss_id = sid, ss_subject = subject, ss_createdAt = now, ss_expiresAt = AddTime now absolute,
      ss_lastSeenAt = now\<rparr>"

definition ValidSession :: "console_session \<Rightarrow> gotime \<Rightarrow> int \<Rightarrow> bool" where
  "ValidSession s now idle \<longleftrightarrow>
     Before now (ss_expiresAt s) \<and> \<not> (idle > 0 \<and> SubTime now (ss_lastSeenAt s) > idle)"

definition Touched :: "console_session \<Rightarrow> gotime \<Rightarrow> console_session" where
  "Touched s now = s\<lparr>ss_lastSeenAt := now\<rparr>"

section \<open>Passwords\<close>

definition ErrEmptyPassword :: go_error where "ErrEmptyPassword = Opaque ''consoleauth: empty password''"

definition argonTime :: int where "argonTime = 3"
definition argonMemory :: int where "argonMemory = 65536"
definition argonThreads :: int where "argonThreads = 4"
definition argonKeyLen :: nat where "argonKeyLen = 32"
definition argonSaltLen :: nat where "argonSaltLen = 16"
definition argonVersion :: int where "argonVersion = 19"

lemmas argon_consts = argonTime_def argonMemory_def argonThreads_def argonKeyLen_def argonSaltLen_def argonVersion_def

text \<open>\<open>argon2.IDKey\<close>: password, salt, iterations, memory, threads, key length.\<close>

type_synonym kdf = "string \<Rightarrow> string \<Rightarrow> int \<Rightarrow> int \<Rightarrow> int \<Rightarrow> nat \<Rightarrow> string"

definition encodeArgon2 :: "string \<Rightarrow> string \<Rightarrow> string" where
  "encodeArgon2 salt dk =
     ''$argon2id$v='' @ FormatInt argonVersion @ ''$m='' @ FormatInt argonMemory @ '',t='' @ FormatInt argonTime @
     '',p='' @ FormatInt argonThreads @ ''$'' @ raw_std_encode salt @ ''$'' @ raw_std_encode dk"

definition HashPassword :: "kdf \<Rightarrow> (nat \<Rightarrow> string result) \<Rightarrow> string \<Rightarrow> string result" where
  "HashPassword idkey rd plain =
     (if plain = [] then Inl ErrEmptyPassword
      else bindE (wrapE ''consoleauth: read salt'' (rd argonSaltLen))
        (\<lambda>salt. Inr (encodeArgon2 salt (idkey plain salt argonTime argonMemory argonThreads argonKeyLen))))"

text \<open>The two \<open>Sscanf\<close> formats of the parser.\<close>

definition scan_version :: "string \<Rightarrow> int option" where
  "scan_version s = Option.bind (scan_lit ''v='' s) (\<lambda>s. map_option fst (scan_int s))"

definition scan_cost :: "string \<Rightarrow> (int \<times> int \<times> int) option" where
  "scan_cost s =
     Option.bind (scan_lit ''m='' s) (\<lambda>s. Option.bind (scan_int s) (\<lambda>(mem, s).
     Option.bind (scan_lit '',t='' s) (\<lambda>s. Option.bind (scan_int s) (\<lambda>(iter, s).
     Option.bind (scan_lit '',p='' s) (\<lambda>s. Option.bind (scan_int s) (\<lambda>(par, s).
     Some (mem, iter, par)))))))"

definition decodeArgon2 :: "string \<Rightarrow> (string \<times> string) option" where
  "decodeArgon2 encoded =
     (case split_at (CHR ''$'') encoded of
        [p0, p1, p2, p3, p4, p5] \<Rightarrow>
          if p0 \<noteq> [] \<or> p1 \<noteq> ''argon2id'' then None
          else if scan_version p2 \<noteq> Some argonVersion then None
          else if scan_cost p3 \<noteq> Some (argonMemory, argonTime, argonThreads) then None
          else Option.bind (raw_std_decode p4) (\<lambda>salt.
               Option.bind (raw_std_decode p5) (\<lambda>dk.
               if dk = [] then None else Some (salt, dk)))
      | _ \<Rightarrow> None)"

definition VerifyPassword :: "kdf \<Rightarrow> string \<Rightarrow> string \<Rightarrow> bool" where
  "VerifyPassword idkey encoded plain =
     (case decodeArgon2 encoded of
        None \<Rightarrow> False
      | Some (salt, dk) \<Rightarrow>
          plain \<noteq> [] \<and> idkey plain salt argonTime argonMemory argonThreads (length dk) = dk)"

section \<open>One-time codes\<close>

definition totpDigits :: nat where "totpDigits = 6"
definition totpPeriod :: int where "totpPeriod = 30"
definition totpSecretBytes :: nat where "totpSecretBytes = 20"
definition totpDefaultSkew :: int where "totpDefaultSkew = 1"

lemmas totp_consts = totpDigits_def totpPeriod_def totpSecretBytes_def totpDefaultSkew_def

definition GenerateTOTPSecret :: "(nat \<Rightarrow> string result) \<Rightarrow> string result" where
  "GenerateTOTPSecret rd =
     bindE (wrapE ''consoleauth: read totp secret'' (rd totpSecretBytes)) (\<lambda>b. Inr (b32_encode b))"

definition decodeSecret :: "string \<Rightarrow> string option" where
  "decodeSecret secret = b32_decode (upper_runes (filter (\<lambda>c. c \<noteq> CHR '' '') (TrimSpace secret)))"

text \<open>\<open>binary.BigEndian.PutUint64\<close>.\<close>

definition be_bytes :: "nat \<Rightarrow> string" where
  "be_bytes n = map char_of (to_digits 256 8 n)"

definition byte_at :: "string \<Rightarrow> nat \<Rightarrow> 32 word" where
  "byte_at s i = word_of_nat (of_char (s ! i))"

text \<open>\<open>fmt.Sprintf("%0*d", width, n)\<close>.\<close>

definition zero_pad :: "nat \<Rightarrow> nat \<Rightarrow> string" where
  "zero_pad width n = replicate (width - length (decimal n)) (CHR ''0'') @ decimal n"

definition truncated :: "string \<Rightarrow> 32 word" where
  "truncated mac =
     (let offset = unat (byte_at mac (length mac - 1) AND 0x0f)
      in push_bit 24 (byte_at mac offset AND 0x7f) OR push_bit 16 (byte_at mac (offset + 1)) OR
         push_bit 8 (byte_at mac (offset + 2)) OR byte_at mac (offset + 3))"

definition hotp :: "(string \<Rightarrow> string \<Rightarrow> string) \<Rightarrow> string \<Rightarrow> nat \<Rightarrow> string" where
  "hotp hmac dk counter = zero_pad totpDigits (unat (truncated (hmac dk (be_bytes counter))) mod 1000000)"

definition verifyTOTPSkew ::
  "(string \<Rightarrow> string \<Rightarrow> string) \<Rightarrow> string \<Rightarrow> string \<Rightarrow> gotime \<Rightarrow> int \<Rightarrow> int option" where
  "verifyTOTPSkew hmac secret code now skew =
     (case decodeSecret secret of
        None \<Rightarrow> None
      | Some dk \<Rightarrow>
          if dk = [] then None
          else let code = TrimSpace code; current = quot64 (Unix now) totpPeriod
            in if length code \<noteq> totpDigits then None
               else find (\<lambda>s. \<not> s < 0 \<and> hotp hmac dk (nat s) = code) (map (\<lambda>i. add64 current i) [- skew..skew]))"

definition VerifyTOTP :: "(string \<Rightarrow> string \<Rightarrow> string) \<Rightarrow> string \<Rightarrow> string \<Rightarrow> gotime \<Rightarrow> int option" where
  "VerifyTOTP hmac secret code now = verifyTOTPSkew hmac secret code now totpDefaultSkew"

text \<open>\<open>url.PathEscape\<close> and \<open>url.QueryEscape\<close>.\<close>

definition unreserved :: "char \<Rightarrow> bool" where
  "unreserved c \<longleftrightarrow> CHR ''A'' \<le> c \<and> c \<le> CHR ''Z'' \<or> CHR ''a'' \<le> c \<and> c \<le> CHR ''z'' \<or> is_digit c \<or> c \<in> set ''-_.~''"

definition percent :: "char \<Rightarrow> string" where
  "percent c = CHR ''%'' # map upper_char [hex_digit (of_char c div 16), hex_digit (of_char c mod 16)]"

definition PathEscape :: "string \<Rightarrow> string" where
  "PathEscape s = concat (map (\<lambda>c. if unreserved c \<or> c \<in> set ''$&+:=@'' then [c] else percent c) s)"

definition QueryEscape :: "string \<Rightarrow> string" where
  "QueryEscape s =
     concat (map (\<lambda>c. if unreserved c then [c] else if c = CHR '' '' then ''+'' else percent c) s)"

text \<open>\<open>Values.Encode\<close> writes the keys in order.\<close>

definition OTPAuthURI :: "string \<Rightarrow> string \<Rightarrow> string \<Rightarrow> string" where
  "OTPAuthURI issuer account secret =
     ''otpauth://totp/'' @ PathEscape (issuer @ '':'' @ account) @
     ''?algorithm=SHA1&digits='' @ decimal totpDigits @ ''&issuer='' @ QueryEscape issuer @
     ''&period='' @ FormatInt totpPeriod @ ''&secret='' @ QueryEscape secret"

section \<open>A minted password hash verifies\<close>

lemma split_at_part: "sep \<notin> set p \<Longrightarrow> split_at sep (p @ sep # s) = p # split_at sep s"
  by (induction p) auto

lemma split_at_last: "sep \<notin> set p \<Longrightarrow> split_at sep p = [p]"
  by (induction p) auto

lemma no_dollar: "CHR ''$'' \<notin> set (raw_std_encode s)"
proof
  assume "CHR ''$'' \<in> set (raw_std_encode s)"
  then obtain d g where "std64_char d = CHR ''$''" "d \<in> set (enc_group 6 g)"
    by (auto simp: raw_std_encode_def)
  then have "std64_value (CHR ''$'') = Some d" using std64_value_char [of d] enc_group_less by force
  then show False by (simp add: std64_value_def is_digit_def less_eq_char_def)
qed

lemma skip_blanks_digit: "is_digit c \<Longrightarrow> strip_encs (remove1 [CHR 0x0A] space_encs) (c # s) = c # s"
  by (rule strip_encs_id) (auto simp: no_enc_prefix_def space_encs_def is_digit_def less_eq_char_def)

lemma scan_int_digits:
  assumes "list_all is_digit (c # ds)" "rest = [] \<or> \<not> is_digit (hd rest)"
    "n = int (from_digits 10 (map (\<lambda>c. of_char c - 48) (c # ds)))" "in64 n"
  shows "scan_int (c # ds @ rest) = Some (n, rest)"
proof -
  have c: "is_digit c" "c \<noteq> CHR ''-''" "c \<noteq> CHR ''+''" using assms(1) by (auto simp: is_digit_def less_eq_char_def)
  have "takeWhile is_digit (c # ds @ rest) = c # ds" "dropWhile is_digit (c # ds @ rest) = rest"
    using assms(1,2) by (cases rest; auto simp: list_all_iff takeWhile_append dropWhile_append)+
  then show ?thesis
    unfolding scan_int_def scan_digits_def Let_def skip_blanks_digit [OF c(1)] using assms(3,4) c by simp
qed

lemma phc_numbers:
  "FormatInt argonVersion = ''19''" "FormatInt argonMemory = ''65536''" "FormatInt argonTime = ''3''"
  "FormatInt argonThreads = ''4''"
  by (simp_all add: argon_consts FormatInt_def decimal.simps char_of_eq_iff)

lemma scan_numbers:
  "scan_int ''19'' = Some (19, [])"
  "scan_int (''65536'' @ '','' @ s) = Some (65536, '','' @ s)" "scan_int (''3'' @ '','' @ s) = Some (3, '','' @ s)"
  "scan_int ''4'' = Some (4, [])"
  using scan_int_digits [of "CHR ''1''" "''9''" "[]" 19] scan_int_digits [of "CHR ''6''" "''5536''" "'','' @ s" 65536]
    scan_int_digits [of "CHR ''3''" "[]" "'','' @ s" 3] scan_int_digits [of "CHR ''4''" "[]" "[]" 4]
  by (simp_all add: is_digit_def less_eq_char_def in64_def min64_def max64_def)

lemma phc_fields:
  "scan_version ''v=19'' = Some argonVersion"
  "scan_cost ''m=65536,t=3,p=4'' = Some (argonMemory, argonTime, argonThreads)"
  using scan_numbers(1,4) scan_numbers(2) [of "''t=3,p=4''"] scan_numbers(3) [of "''p=4''"]
  by (simp_all add: scan_version_def scan_cost_def scan_lit_def argon_consts)

lemma decode_encode_argon2: "dk \<noteq> [] \<Longrightarrow> decodeArgon2 (encodeArgon2 salt dk) = Some (salt, dk)"
proof -
  assume dk: "dk \<noteq> []"
  have e: "encodeArgon2 salt dk = [] @ CHR ''$'' # ''argon2id'' @ CHR ''$'' # ''v=19'' @ CHR ''$'' #
      ''m=65536,t=3,p=4'' @ CHR ''$'' # raw_std_encode salt @ CHR ''$'' # raw_std_encode dk"
    by (simp add: encodeArgon2_def phc_numbers)
  have "split_at (CHR ''$'') (raw_std_encode salt @ CHR ''$'' # raw_std_encode dk) = [raw_std_encode salt, raw_std_encode dk]"
    by (simp add: split_at_part split_at_last no_dollar)
  then have "split_at (CHR ''$'') (encodeArgon2 salt dk) =
      [[], ''argon2id'', ''v=19'', ''m=65536,t=3,p=4'', raw_std_encode salt, raw_std_encode dk]"
    unfolding e by simp
  then show ?thesis using phc_fields dk by (simp add: decodeArgon2_def base64_roundtrip)
qed

lemma HashPassword_verifies:
  assumes "HashPassword idkey rd plain = Inr h" "\<And>p s t m th n. length (idkey p s t m th n) = n"
  shows "VerifyPassword idkey h plain"
proof -
  from assms(1) obtain salt where p: "plain \<noteq> []"
    and h: "h = encodeArgon2 salt (idkey plain salt argonTime argonMemory argonThreads argonKeyLen)"
    by (auto simp: HashPassword_def bindE_Inr_iff split: if_splits)
  let ?k = "idkey plain salt argonTime argonMemory argonThreads argonKeyLen"
  have l: "length ?k = argonKeyLen" by (rule assms(2))
  then have "?k \<noteq> []" by (auto simp: argonKeyLen_def)
  with p l show ?thesis by (simp add: VerifyPassword_def h decode_encode_argon2)
qed

section \<open>A minted secret yields codes that verify\<close>

lemma upper_runes_id: "list_all (\<lambda>c. CHR ''!'' \<le> c \<and> c < CHR ''a'') s \<Longrightarrow> upper_runes s = s"
  by (induction s rule: upper_runes.induct)
     (auto simp: upper_char_def less_eq_char_def less_char_def)

lemma b32_alphabet: "list_all (\<lambda>c. CHR ''2'' \<le> c \<and> c \<le> CHR ''Z'') (b32_encode bs)"
  by (auto simp: list_all_iff b32_encode_def b32_char_def less_eq_char_def dest!: enc_group_less)

lemma decode_minted: "decodeSecret (b32_encode bs) = Some bs"
proof -
  have a: "CHR ''2'' \<le> c \<and> c \<le> CHR ''Z''" if "c \<in> set (b32_encode bs)" for c
    using b32_alphabet [of bs] that by (auto simp: list_all_iff)
  have t: "TrimSpace (b32_encode bs) = b32_encode bs"
  proof (cases "b32_encode bs = []")
    case False
    then have "hd (b32_encode bs) \<in> set (b32_encode bs)" "last (b32_encode bs) \<in> set (b32_encode bs)" by simp_all
    from this [THEN a] False show ?thesis
      by (intro TrimSpace_plain) (auto simp: plain_byte_def less_eq_char_def)
  qed simp
  have "filter (\<lambda>c. c \<noteq> CHR '' '') (b32_encode bs) = b32_encode bs"
    by (rule filter_True) (auto simp: less_eq_char_def dest!: a)
  moreover have "upper_runes (b32_encode bs) = b32_encode bs"
    by (rule upper_runes_id) (auto simp: list_all_iff less_eq_char_def less_char_def dest!: a)
  ultimately show ?thesis by (simp add: decodeSecret_def t base32_roundtrip)
qed

lemma length_decimal_le: "n < 10 ^ Suc k \<Longrightarrow> length (decimal n) \<le> Suc k"
proof (induction k arbitrary: n)
  case 0
  then show ?case by (simp add: decimal.simps [of n])
next
  case (Suc k)
  then have "n div 10 < 10 ^ Suc k" by (simp add: less_mult_imp_div_less mult.commute)
  with Suc show ?case by (simp add: decimal.simps [of n])
qed

lemma hotp_shape: "length (hotp hmac dk n) = 6" "list_all is_digit (hotp hmac dk n)"
proof -
  have "unat (truncated (hmac dk (be_bytes n))) mod 1000000 < 10 ^ Suc 5" by simp
  then have "length (decimal (unat (truncated (hmac dk (be_bytes n))) mod 1000000)) \<le> 6"
    using length_decimal_le [of _ 5] by simp
  then show "length (hotp hmac dk n) = 6" by (simp add: hotp_def zero_pad_def totpDigits_def)
  show "list_all is_digit (hotp hmac dk n)"
    using decimal_digits by (auto simp: hotp_def zero_pad_def list_all_iff is_digit_def less_eq_char_def)
qed

lemma hotp_trimmed: "TrimSpace (hotp hmac dk n) = hotp hmac dk n"
proof -
  have "hotp hmac dk n \<noteq> []" using hotp_shape(1) by (metis list.size(3) zero_neq_numeral)
  moreover from this have "is_digit (hd (hotp hmac dk n))" "is_digit (last (hotp hmac dk n))"
    using hotp_shape(2) [of hmac dk n] by (simp_all add: list_all_iff)
  ultimately show ?thesis by (intro TrimSpace_plain) (auto simp: is_digit_def plain_byte_def less_eq_char_def)
qed

text \<open>
  What \<open>VerifyTOTP\<close> accepts: a step at most one away from the current one whose code was given; the
  code of the current step is accepted, though possibly as that of the step before.
\<close>

lemma VerifyTOTP_Some:
  assumes "VerifyTOTP hmac secret code now = Some s"
  shows "0 \<le> s" "\<exists>dk. decodeSecret secret = Some dk \<and> hotp hmac dk (nat s) = TrimSpace code"
    "s \<in> {add64 (quot64 (Unix now) 30) (- 1), add64 (quot64 (Unix now) 30) 0, add64 (quot64 (Unix now) 30) 1}"
  using assms
  by (auto simp: VerifyTOTP_def verifyTOTPSkew_def totp_consts Let_def upto.simps find_Some_iff nth_Cons'
      split: option.splits if_splits)

lemma current_code_verifies:
  assumes "decodeSecret secret = Some dk" "dk \<noteq> []" "0 \<le> Unix now" "Unix now \<le> max64"
  shows "\<exists>s. VerifyTOTP hmac secret (hotp hmac dk (nat (Unix now div 30))) now = Some s"
proof -
  define c where "c = Unix now div 30"
  have q: "quot64 (Unix now) 30 = c" using assms(3,4) by (simp add: c_def quot64_nonneg)
  have "0 \<le> c" "c \<le> max64" using assms(3,4) by (auto simp: c_def pos_imp_zdiv_nonneg_iff)
  then have "add64 c 0 = c" by (simp add: add64_def in64I)
  then have "find (\<lambda>s. \<not> s < 0 \<and> hotp hmac dk (nat s) = hotp hmac dk (nat c)) (map (add64 c) [- 1..1]) \<noteq> None"
    using \<open>0 \<le> c\<close> by (auto simp: find_None_iff upto.simps)
  then show ?thesis
    by (auto simp: VerifyTOTP_def verifyTOTPSkew_def totp_consts Let_def assms(1,2) hotp_trimmed hotp_shape q
        simp flip: c_def)
qed

end
