(* ===== verification/SignIn.thy ===== *)
theory SignIn
  imports ConsoleAuth
begin

text \<open>
  \<open>internal/app/consoleauth.go\<close>, the console sign-in with its first-access provisioning, replay guard,
  lockout and sessions, and \<open>internal/adapters/consoleauth/memstore.go\<close>, the stores behind it. The
  clock reading and the random source of a call are arguments. The lockout counter, an \<open>int\<close> that
  starts at zero and only counts up, is a natural number.
\<close>

section \<open>Ports and service\<close>

definition ErrInvalidCredentials :: go_error where "ErrInvalidCredentials = Opaque ''credenciais invalidas''"
definition ErrConsoleAuthUnavailable :: go_error where "ErrConsoleAuthUnavailable = Opaque ''console auth not configured''"
definition ErrBootstrapDisabled :: go_error where "ErrBootstrapDisabled = Opaque ''bootstrap desabilitado''"
definition ErrBootstrapForbidden :: go_error where "ErrBootstrapForbidden = Opaque ''bootstrap nao autorizado''"
definition ErrBootstrapLocked :: go_error where "ErrBootstrapLocked = Opaque ''credencial ja provisionada''"

record 's cred_store =
  kc_GetCredential :: "'s \<Rightarrow> console_credential option result"
  kc_SaveCredential :: "'s \<Rightarrow> console_credential \<Rightarrow> 's \<times> unit result"

record 's session_store =
  kt_Create :: "'s \<Rightarrow> console_session \<Rightarrow> 's \<times> unit result"
  kt_Get :: "'s \<Rightarrow> string \<Rightarrow> console_session option result"
  kt_Touch :: "'s \<Rightarrow> string \<Rightarrow> gotime \<Rightarrow> 's \<times> unit result"
  kt_Delete :: "'s \<Rightarrow> string \<Rightarrow> 's \<times> unit result"

record 's replay_store =
  ky_LastStep :: "'s \<Rightarrow> string \<Rightarrow> int result"
  ky_SetLastStep :: "'s \<Rightarrow> string \<Rightarrow> int \<Rightarrow> 's \<times> unit result"

record auth_config =
  ag_Username :: string
  ag_Issuer :: string
  ag_BootstrapToken :: string
  ag_AbsoluteTTL :: int
  ag_IdleTTL :: int
  ag_MaxFailures :: int
  ag_LockoutWindow :: int

definition defaultConsoleUsername :: string where "defaultConsoleUsername = ''pericles.luz''"
definition defaultConsoleIssuer :: string where "defaultConsoleIssuer = ''Pagamentos Admin''"
definition defaultAbsoluteTTL :: int where "defaultAbsoluteTTL = 12 * 3600 * 1000000000"
definition defaultIdleTTL :: int where "defaultIdleTTL = 30 * 60 * 1000000000"
definition defaultMaxFailures :: int where "defaultMaxFailures = 5"
definition defaultLockoutWindow :: int where "defaultLockoutWindow = 15 * 60 * 1000000000"

text \<open>The hash functions the domain calls stand beside the ports.\<close>

record 's auth_service =
  av_creds :: "'s cred_store option"
  av_sessions :: "'s session_store option"
  av_replay :: "'s replay_store option"
  av_config :: auth_config
  av_idkey :: kdf
  av_hmac :: "string \<Rightarrow> string \<Rightarrow> string"

definition with_defaults :: "auth_config \<Rightarrow> auth_config" where
  "with_defaults g =
     \<lparr>ag_Username = (if ag_Username g = [] then defaultConsoleUsername else ag_Username g),
      ag_Issuer = (if ag_Issuer g = [] then defaultConsoleIssuer else ag_Issuer g),
      ag_BootstrapToken = ag_BootstrapToken g,
      ag_AbsoluteTTL = (if ag_AbsoluteTTL g \<le> 0 then defaultAbsoluteTTL else ag_AbsoluteTTL g),
      ag_IdleTTL = (if ag_IdleTTL g \<le> 0 then defaultIdleTTL else ag_IdleTTL g),
      ag_MaxFailures = (if ag_MaxFailures g \<le> 0 then defaultMaxFailures else ag_MaxFailures g),
      ag_LockoutWindow = (if ag_LockoutWindow g \<le> 0 then defaultLockoutWindow else ag_LockoutWindow g)\<rparr>"

definition NewConsoleAuthService ::
  "'s cred_store option \<Rightarrow> 's session_store option \<Rightarrow> 's replay_store option \<Rightarrow> auth_config \<Rightarrow> kdf \<Rightarrow>
     (string \<Rightarrow> string \<Rightarrow> string) \<Rightarrow> 's auth_service" where
  "NewConsoleAuthService creds sessions replay g idkey hmac =
     \<lparr>av_creds = creds, av_sessions = sessions, av_replay = replay, av_config = with_defaults g,
      av_idkey = idkey, av_hmac = hmac\<rparr>"

section \<open>Lockout\<close>

record lockout_entry =
  lk_count :: nat
  lk_until :: gotime

type_synonym lockouts = "(string \<times> lockout_entry) list"

definition locked :: "int \<Rightarrow> lockouts \<Rightarrow> string \<Rightarrow> gotime \<Rightarrow> lockouts \<times> bool" where
  "locked mx fs k now =
     (case map_of fs k of
        None \<Rightarrow> (fs, False)
      | Some e \<Rightarrow> if After now (lk_until e) then (del k fs, False) else (fs, int (lk_count e) \<ge> mx))"

definition strike :: "int \<Rightarrow> lockouts \<Rightarrow> string \<Rightarrow> gotime \<Rightarrow> lockouts" where
  "strike window fs k now =
     (let e = (case map_of fs k of
                 None \<Rightarrow> \<lparr>lk_count = 0, lk_until = zero_time\<rparr>
               | Some e \<Rightarrow> if After now (lk_until e) then \<lparr>lk_count = 0, lk_until = zero_time\<rparr> else e)
      in put k \<lparr>lk_count = lk_count e + 1, lk_until = AddTime now window\<rparr> fs)"

definition reset :: "lockouts \<Rightarrow> string \<Rightarrow> lockouts" where
  "reset fs k = del k fs"

section \<open>Operations\<close>

text \<open>The state of the process: what the stores hold, and the lockout's map.\<close>

record 's auth_state =
  at_store :: 's
  at_failures :: lockouts

definition BootstrapEnabled :: "'s auth_service \<Rightarrow> bool" where
  "BootstrapEnabled svc \<longleftrightarrow> ag_BootstrapToken (av_config svc) \<noteq> []"

definition Provisioned :: "'s auth_service \<Rightarrow> 's auth_state \<Rightarrow> bool" where
  "Provisioned svc st =
     (case av_creds svc of
        None \<Rightarrow> False
      | Some creds \<Rightarrow> (case kc_GetCredential creds (at_store st) of Inl _ \<Rightarrow> True | Inr c \<Rightarrow> c \<noteq> None))"

record bootstrap_result =
  bs_Username :: string
  bs_Password :: string
  bs_TOTPSecret :: string
  bs_OTPAuthURI :: string

text \<open>A session id has 43 characters, so the slice is within it.\<close>

definition generateBootstrapPassword :: "(nat \<Rightarrow> string result) \<Rightarrow> string result" where
  "generateBootstrapPassword rd = bindE (GenerateSessionID rd) (\<lambda>i. Inr (take 24 i))"

text \<open>\<open>rd i\<close> is the random source at its \<open>i\<close>-th use.\<close>

definition Bootstrap ::
  "'s auth_service \<Rightarrow> (nat \<Rightarrow> nat \<Rightarrow> string result) \<Rightarrow> 's auth_state \<Rightarrow> string \<Rightarrow>
     's auth_state \<times> bootstrap_result result" where
  "Bootstrap svc rd st token =
     (case av_creds svc of
        None \<Rightarrow> (st, Inl ErrConsoleAuthUnavailable)
      | Some creds \<Rightarrow>
          if ag_BootstrapToken (av_config svc) = [] then (st, Inl ErrBootstrapDisabled)
          else if token \<noteq> ag_BootstrapToken (av_config svc) then (st, Inl ErrBootstrapForbidden)
          else case kc_GetCredential creds (at_store st) of
            Inl e \<Rightarrow> (st, Inl e)
          | Inr (Some _) \<Rightarrow> (st, Inl ErrBootstrapLocked)
          | Inr None \<Rightarrow>
              (case bindE (generateBootstrapPassword (rd 0)) (\<lambda>password.
                    bindE (GenerateTOTPSecret (rd 1)) (\<lambda>secret.
                    bindE (HashPassword (av_idkey svc) (rd 2) password) (\<lambda>hash.
                    Inr (password, secret, hash)))) of
                 Inl e \<Rightarrow> (st, Inl e)
               | Inr (password, secret, hash) \<Rightarrow>
                   (case kc_SaveCredential creds (at_store st)
                           (NewCredential (ag_Username (av_config svc)) hash secret) of
                      (s', Inl e) \<Rightarrow> (st\<lparr>at_store := s'\<rparr>, Inl e)
                    | (s', Inr _) \<Rightarrow>
                        (st\<lparr>at_store := s'\<rparr>,
                         Inr \<lparr>bs_Username = ag_Username (av_config svc), bs_Password = password,
                              bs_TOTPSecret = secret,
                              bs_OTPAuthURI = OTPAuthURI (ag_Issuer (av_config svc)) (ag_Username (av_config svc)) secret\<rparr>))))"

definition totpFresh :: "'s auth_service \<Rightarrow> 's auth_state \<Rightarrow> string \<Rightarrow> int \<Rightarrow> bool" where
  "totpFresh svc st subject step =
     (case av_replay svc of
        None \<Rightarrow> True
      | Some replay \<Rightarrow> (case ky_LastStep replay (at_store st) subject of Inl _ \<Rightarrow> False | Inr l \<Rightarrow> step > l))"

definition replaySet :: "'s auth_service \<Rightarrow> 's auth_state \<Rightarrow> string \<Rightarrow> int \<Rightarrow> 's auth_state \<times> unit result" where
  "replaySet svc st subject step =
     (case av_replay svc of
        None \<Rightarrow> (st, Inr ())
      | Some replay \<Rightarrow>
          (case ky_SetLastStep replay (at_store st) subject step of (s', x) \<Rightarrow> (st\<lparr>at_store := s'\<rparr>, x)))"

text \<open>
  \<open>Login\<close> up to the point where both factors are accepted. The dummy hash only spends time, so the
  branch without a matching user has no result to model.
\<close>

definition login_check ::
  "'s auth_service \<Rightarrow> gotime \<Rightarrow> 's auth_state \<Rightarrow> string \<Rightarrow> string \<Rightarrow> string \<Rightarrow>
     's auth_state \<times> (console_credential \<times> int) result" where
  "login_check svc now st username password code =
     (case (av_creds svc, av_sessions svc) of
        (Some creds, Some _) \<Rightarrow>
          (let (fs, lk) = locked (ag_MaxFailures (av_config svc)) (at_failures st) username now;
               st = st\<lparr>at_failures := fs\<rparr>;
               struck = st\<lparr>at_failures := strike (ag_LockoutWindow (av_config svc)) fs username now\<rparr>
           in if lk then (st, Inl ErrInvalidCredentials)
              else case kc_GetCredential creds (at_store st) of
                Inl e \<Rightarrow> (st, Inl ErrConsoleAuthUnavailable)
              | Inr None \<Rightarrow> (struck, Inl ErrInvalidCredentials)
              | Inr (Some cred) \<Rightarrow>
                  if username \<noteq> cr_username cred \<or> \<not> VerifyPassword (av_idkey svc) (cr_passwordHash cred) password
                  then (struck, Inl ErrInvalidCredentials)
                  else case VerifyTOTP (av_hmac svc) (cr_totpSecret cred) code now of
                         None \<Rightarrow> (struck, Inl ErrInvalidCredentials)
                       | Some step \<Rightarrow>
                           if \<not> totpFresh svc st (cr_username cred) step then (struck, Inl ErrInvalidCredentials)
                           else (st, Inr (cred, step)))
      | _ \<Rightarrow> (st, Inl ErrConsoleAuthUnavailable))"

text \<open>The rest of \<open>Login\<close>: the step is consumed, the strikes are cleared, the session is minted.\<close>

definition login_commit ::
  "'s auth_service \<Rightarrow> gotime \<Rightarrow> (nat \<Rightarrow> string result) \<Rightarrow> 's auth_state \<Rightarrow> string \<Rightarrow>
     console_credential \<times> int \<Rightarrow> 's auth_state \<times> string result" where
  "login_commit svc now rd st username cs =
     (case av_sessions svc of
        None \<Rightarrow> (st, Inl ErrConsoleAuthUnavailable)
      | Some sessions \<Rightarrow>
          (case replaySet svc st (cr_username (fst cs)) (snd cs) of
             (st, Inl e) \<Rightarrow> (st, Inl e)
           | (st, Inr _) \<Rightarrow>
               let st = st\<lparr>at_failures := reset (at_failures st) username\<rparr>
               in case GenerateSessionID rd of
                    Inl e \<Rightarrow> (st, Inl e)
                  | Inr sid \<Rightarrow>
                      (case kt_Create sessions (at_store st)
                              (NewConsoleSession sid (cr_username (fst cs)) now (ag_AbsoluteTTL (av_config svc))) of
                         (s', Inl e) \<Rightarrow> (st\<lparr>at_store := s'\<rparr>, Inl e)
                       | (s', Inr _) \<Rightarrow> (st\<lparr>at_store := s'\<rparr>, Inr sid))))"

definition Login ::
  "'s auth_service \<Rightarrow> gotime \<Rightarrow> (nat \<Rightarrow> string result) \<Rightarrow> 's auth_state \<Rightarrow> string \<Rightarrow> string \<Rightarrow> string \<Rightarrow>
     's auth_state \<times> string result" where
  "Login svc now rd st username password code =
     (case login_check svc now st username password code of
        (st, Inl e) \<Rightarrow> (st, Inl e)
      | (st, Inr cs) \<Rightarrow> login_commit svc now rd st username cs)"

definition Authenticate ::
  "'s auth_service \<Rightarrow> gotime \<Rightarrow> 's auth_state \<Rightarrow> string \<Rightarrow> 's auth_state \<times> string option" where
  "Authenticate svc now st sessionID =
     (case av_sessions svc of
        None \<Rightarrow> (st, None)
      | Some sessions \<Rightarrow>
          if sessionID = [] then (st, None)
          else case kt_Get sessions (at_store st) sessionID of
            Inl _ \<Rightarrow> (st, None)
          | Inr None \<Rightarrow> (st, None)
          | Inr (Some sess) \<Rightarrow>
              if \<not> ValidSession sess now (ag_IdleTTL (av_config svc))
              then (st\<lparr>at_store := fst (kt_Delete sessions (at_store st) sessionID)\<rparr>, None)
              else (st\<lparr>at_store := fst (kt_Touch sessions (at_store st) sessionID now)\<rparr>, Some (ss_subject sess)))"

definition Logout :: "'s auth_service \<Rightarrow> 's auth_state \<Rightarrow> string \<Rightarrow> 's auth_state \<times> unit result" where
  "Logout svc st sessionID =
     (case av_sessions svc of
        None \<Rightarrow> (st, Inr ())
      | Some sessions \<Rightarrow>
          if sessionID = [] then (st, Inr ())
          else case kt_Delete sessions (at_store st) sessionID of (s', x) \<Rightarrow> (st\<lparr>at_store := s'\<rparr>, x))"

section \<open>The stores in memory\<close>

record mem_auth =
  ma_cred :: "console_credential option"
  ma_sessions :: "(string \<times> console_session) list"
  ma_lastStep :: "(string \<times> int) list"

definition NewMemStore :: mem_auth where
  "NewMemStore = \<lparr>ma_cred = None, ma_sessions = [], ma_lastStep = []\<rparr>"

definition mem_SaveCredential :: "mem_auth \<Rightarrow> console_credential \<Rightarrow> mem_auth" where
  "mem_SaveCredential m c = m\<lparr>ma_cred := Some c\<rparr>"

definition mem_Create :: "mem_auth \<Rightarrow> console_session \<Rightarrow> mem_auth" where
  "mem_Create m x = m\<lparr>ma_sessions := put (ss_id x) x (ma_sessions m)\<rparr>"

definition mem_Touch :: "mem_auth \<Rightarrow> string \<Rightarrow> gotime \<Rightarrow> mem_auth" where
  "mem_Touch m i lastSeen =
     (case map_of (ma_sessions m) i of
        None \<Rightarrow> m
      | Some x \<Rightarrow> m\<lparr>ma_sessions := put i (Touched x lastSeen) (ma_sessions m)\<rparr>)"

definition mem_Delete :: "mem_auth \<Rightarrow> string \<Rightarrow> mem_auth" where
  "mem_Delete m i = m\<lparr>ma_sessions := del i (ma_sessions m)\<rparr>"

definition mem_LastStep :: "mem_auth \<Rightarrow> string \<Rightarrow> int" where
  "mem_LastStep m subject = (case map_of (ma_lastStep m) subject of None \<Rightarrow> 0 | Some n \<Rightarrow> n)"

definition mem_SetLastStep :: "mem_auth \<Rightarrow> string \<Rightarrow> int \<Rightarrow> mem_auth" where
  "mem_SetLastStep m subject step = m\<lparr>ma_lastStep := put subject step (ma_lastStep m)\<rparr>"

definition mem_creds :: "mem_auth cred_store" where
  "mem_creds = \<lparr>kc_GetCredential = (\<lambda>m. Inr (ma_cred m)), kc_SaveCredential = (\<lambda>m c. (mem_SaveCredential m c, Inr ()))\<rparr>"

definition mem_sessions :: "mem_auth session_store" where
  "mem_sessions = \<lparr>kt_Create = (\<lambda>m x. (mem_Create m x, Inr ())), kt_Get = (\<lambda>m i. Inr (map_of (ma_sessions m) i)),
     kt_Touch = (\<lambda>m i t. (mem_Touch m i t, Inr ())), kt_Delete = (\<lambda>m i. (mem_Delete m i, Inr ()))\<rparr>"

definition mem_replay :: "mem_auth replay_store" where
  "mem_replay = \<lparr>ky_LastStep = (\<lambda>m u. Inr (mem_LastStep m u)), ky_SetLastStep = (\<lambda>m u n. (mem_SetLastStep m u n, Inr ()))\<rparr>"

definition mem_service :: "auth_config \<Rightarrow> kdf \<Rightarrow> (string \<Rightarrow> string \<Rightarrow> string) \<Rightarrow> mem_auth auth_service" where
  "mem_service g idkey hmac = NewConsoleAuthService (Some mem_creds) (Some mem_sessions) (Some mem_replay) g idkey hmac"

section \<open>Runs\<close>

datatype auth_event =
    EBootstrap "nat \<Rightarrow> nat \<Rightarrow> string result" string
  | ELogin gotime "nat \<Rightarrow> string result" string string string
  | EAuthenticate gotime string
  | ELogout string

fun auth_step :: "'s auth_service \<Rightarrow> 's auth_state \<Rightarrow> auth_event \<Rightarrow> 's auth_state" where
  "auth_step svc st (EBootstrap rd token) = fst (Bootstrap svc rd st token)"
| "auth_step svc st (ELogin now rd u p c) = fst (Login svc now rd st u p c)"
| "auth_step svc st (EAuthenticate now i) = fst (Authenticate svc now st i)"
| "auth_step svc st (ELogout i) = fst (Logout svc st i)"

definition auth_run :: "'s auth_service \<Rightarrow> 's auth_state \<Rightarrow> auth_event list \<Rightarrow> 's auth_state" where
  "auth_run svc = foldl (auth_step svc)"

text \<open>The subject and the step of a sign-in that succeeds, and those of a run.\<close>

fun step_used :: "'s auth_service \<Rightarrow> 's auth_state \<Rightarrow> auth_event \<Rightarrow> (string \<times> int) list" where
  "step_used svc st (ELogin now rd u p c) =
     (case login_check svc now st u p c of
        (_, Inl _) \<Rightarrow> []
      | (st', Inr (cred, n)) \<Rightarrow>
          (case snd (login_commit svc now rd st' u (cred, n)) of Inl _ \<Rightarrow> [] | Inr _ \<Rightarrow> [(cr_username cred, n)]))"
| "step_used svc st _ = []"

fun steps_used :: "'s auth_service \<Rightarrow> 's auth_state \<Rightarrow> auth_event list \<Rightarrow> (string \<times> int) list" where
  "steps_used svc st [] = []"
| "steps_used svc st (e # es) = step_used svc st e @ steps_used svc (auth_step svc st e) es"

text \<open>Whether an event mints the session id \<open>i\<close>.\<close>

fun mints :: "'s auth_service \<Rightarrow> 's auth_state \<Rightarrow> string \<Rightarrow> auth_event \<Rightarrow> bool" where
  "mints svc st i (ELogin now rd u p c) \<longleftrightarrow> snd (Login svc now rd st u p c) = Inr i"
| "mints svc st i _ \<longleftrightarrow> False"

fun ever_mints :: "'s auth_service \<Rightarrow> 's auth_state \<Rightarrow> string \<Rightarrow> auth_event list \<Rightarrow> bool" where
  "ever_mints svc st i [] \<longleftrightarrow> False"
| "ever_mints svc st i (e # es) \<longleftrightarrow> mints svc st i e \<or> ever_mints svc (auth_step svc st e) i es"

text \<open>
  Attempts with the name \<open>u\<close>: those whose password and code were looked at and refused, their number
  in a run, and whether some attempt passes.
\<close>

fun tried :: "'s auth_service \<Rightarrow> 's auth_state \<Rightarrow> string \<Rightarrow> auth_event \<Rightarrow> bool" where
  "tried svc st u (ELogin now rd u' p c) \<longleftrightarrow>
     u' = u \<and> \<not> snd (locked (ag_MaxFailures (av_config svc)) (at_failures st) u now) \<and>
     snd (login_check svc now st u' p c) = Inl ErrInvalidCredentials"
| "tried svc st u _ \<longleftrightarrow> False"

fun passes :: "'s auth_service \<Rightarrow> 's auth_state \<Rightarrow> string \<Rightarrow> auth_event \<Rightarrow> bool" where
  "passes svc st u (ELogin now rd u' p c) \<longleftrightarrow> u' = u \<and> (\<exists>x. snd (login_check svc now st u' p c) = Inr x)"
| "passes svc st u _ \<longleftrightarrow> False"

fun tries :: "'s auth_service \<Rightarrow> 's auth_state \<Rightarrow> string \<Rightarrow> auth_event list \<Rightarrow> nat" where
  "tries svc st u [] = 0"
| "tries svc st u (e # es) = of_bool (tried svc st u e) + tries svc (auth_step svc st e) u es"

fun ever_passes :: "'s auth_service \<Rightarrow> 's auth_state \<Rightarrow> string \<Rightarrow> auth_event list \<Rightarrow> bool" where
  "ever_passes svc st u [] \<longleftrightarrow> False"
| "ever_passes svc st u (e # es) \<longleftrightarrow> passes svc st u e \<or> ever_passes svc (auth_step svc st e) u es"

fun attempt_at :: "string \<Rightarrow> auth_event \<Rightarrow> gotime list" where
  "attempt_at u (ELogin now rd u' p c) = (if u' = u then [now] else [])"
| "attempt_at u _ = []"

section \<open>What the service relies on\<close>

locale auth_contract =
  fixes svc :: "'s auth_service" and creds :: "'s cred_store" and sessions :: "'s session_store"
    and replay :: "'s replay_store" and vcred :: "'s \<Rightarrow> console_credential option"
    and vsess :: "'s \<Rightarrow> string \<Rightarrow> console_session option" and vstep :: "'s \<Rightarrow> string \<Rightarrow> int"
  assumes ports: "av_creds svc = Some creds" "av_sessions svc = Some sessions" "av_replay svc = Some replay"
    and get_cred: "kc_GetCredential creds s = Inr c \<Longrightarrow> c = vcred s"
    and save_cred: "kc_SaveCredential creds s x = (s', Inr ()) \<Longrightarrow> vcred s' = Some x \<and> vsess s' = vsess s \<and> vstep s' = vstep s"
    and save_cred_fails: "kc_SaveCredential creds s x = (s', Inl e) \<Longrightarrow> vcred s' = vcred s \<and> vsess s' = vsess s \<and> vstep s' = vstep s"
    and create: "kt_Create sessions s y = (s', Inr ()) \<Longrightarrow>
        vcred s' = vcred s \<and> vsess s' = (vsess s)(ss_id y \<mapsto> y) \<and> vstep s' = vstep s"
    and create_fails: "kt_Create sessions s y = (s', Inl e) \<Longrightarrow> vcred s' = vcred s \<and> vsess s' = vsess s \<and> vstep s' = vstep s"
    and get_session: "kt_Get sessions s i = Inr z \<Longrightarrow> z = vsess s i"
    and touch: "kt_Touch sessions s i t = (s', w) \<Longrightarrow> vcred s' = vcred s \<and> vstep s' = vstep s \<and>
        (vsess s' = vsess s \<or> vsess s' = (vsess s)(i := map_option (\<lambda>y. Touched y t) (vsess s i)))"
    and delete: "kt_Delete sessions s i = (s', Inr ()) \<Longrightarrow>
        vcred s' = vcred s \<and> vsess s' = (vsess s)(i := None) \<and> vstep s' = vstep s"
    and delete_fails: "kt_Delete sessions s i = (s', Inl e) \<Longrightarrow> vcred s' = vcred s \<and> vsess s' = vsess s \<and> vstep s' = vstep s"
    and last_step: "ky_LastStep replay s u = Inr n \<Longrightarrow> n = vstep s u"
    and set_step: "ky_SetLastStep replay s u n = (s', Inr ()) \<Longrightarrow>
        vcred s' = vcred s \<and> vsess s' = vsess s \<and> vstep s' = (vstep s)(u := n)"
    and set_step_fails: "ky_SetLastStep replay s u n = (s', Inl e) \<Longrightarrow> vcred s' = vcred s \<and> vsess s' = vsess s \<and> vstep s' = vstep s"
begin

text \<open>The checks write nothing but strikes; when they pass, both factors are right and the code is fresh.\<close>

lemma check_store: "login_check svc now st u p c = (st', r) \<Longrightarrow> at_store st' = at_store st"
  by (auto simp: login_check_def ports Let_def split: prod.splits if_splits sum.splits option.splits)

lemma check_passes:
  assumes "login_check svc now st u p c = (st', Inr (cred, n))"
  shows "vcred (at_store st) = Some cred" "u = cr_username cred"
    "VerifyPassword (av_idkey svc) (cr_passwordHash cred) p"
    "VerifyTOTP (av_hmac svc) (cr_totpSecret cred) c now = Some n" "vstep (at_store st) u < n"
    "\<not> snd (locked (ag_MaxFailures (av_config svc)) (at_failures st) u now)"
  using assms get_cred last_step
  by (fastforce simp: login_check_def totpFresh_def ports Let_def
      split: prod.splits if_splits sum.splits option.splits)+

text \<open>Committing raises the step of the subject, and adds a session or none.\<close>

lemma commit_view:
  assumes "login_commit svc now rd st u (cred, n) = (st', r)"
  shows "vcred (at_store st') = vcred (at_store st)"
    "vstep (at_store st') = vstep (at_store st) \<or> vstep (at_store st') = (vstep (at_store st))(cr_username cred := n)"
    "r = Inr sid \<Longrightarrow> vstep (at_store st') = (vstep (at_store st))(cr_username cred := n)"
    "r = Inr sid \<Longrightarrow> vsess (at_store st') =
       (vsess (at_store st))(sid \<mapsto> NewConsoleSession sid (cr_username cred) now (ag_AbsoluteTTL (av_config svc)))"
    "r = Inl e \<Longrightarrow> vsess (at_store st') = vsess (at_store st)"
proof -
  obtain s1 x where s1: "ky_SetLastStep replay (at_store st) (cr_username cred) n = (s1, x)" by fastforce
  show "vcred (at_store st') = vcred (at_store st)"
    "vstep (at_store st') = vstep (at_store st) \<or> vstep (at_store st') = (vstep (at_store st))(cr_username cred := n)"
    "r = Inr sid \<Longrightarrow> vstep (at_store st') = (vstep (at_store st))(cr_username cred := n)"
    "r = Inr sid \<Longrightarrow> vsess (at_store st') =
       (vsess (at_store st))(sid \<mapsto> NewConsoleSession sid (cr_username cred) now (ag_AbsoluteTTL (av_config svc)))"
    "r = Inl e \<Longrightarrow> vsess (at_store st') = vsess (at_store st)"
    using assms s1 set_step [of "at_store st" "cr_username cred" n s1] set_step_fails [of "at_store st" "cr_username cred" n s1]
    by (auto simp: login_commit_def replaySet_def ports Let_def NewConsoleSession_def
        split: sum.splits prod.splits dest!: create create_fails)
qed

lemma bootstrap_view:
  assumes "Bootstrap svc rd st token = (st', r)"
  shows "vsess (at_store st') = vsess (at_store st)" "vstep (at_store st') = vstep (at_store st)"
    "vcred (at_store st') \<noteq> vcred (at_store st) \<Longrightarrow> vcred (at_store st) = None \<and>
       token = ag_BootstrapToken (av_config svc) \<and> token \<noteq> []"
  using assms
  by (auto simp: Bootstrap_def ports split: if_splits sum.splits option.splits prod.splits
      dest: save_cred save_cred_fails get_cred)

lemma logout_view:
  assumes "Logout svc st i = (st', r)"
  shows "vcred (at_store st') = vcred (at_store st)" "vstep (at_store st') = vstep (at_store st)"
    "vsess (at_store st') = vsess (at_store st) \<or> vsess (at_store st') = (vsess (at_store st))(i := None)"
    "r = Inr () \<Longrightarrow> i \<noteq> [] \<Longrightarrow> vsess (at_store st') i = None"
proof -
  obtain s1 x where s1: "kt_Delete sessions (at_store st) i = (s1, x)" by fastforce
  show "vcred (at_store st') = vcred (at_store st)" "vstep (at_store st') = vstep (at_store st)"
    "vsess (at_store st') = vsess (at_store st) \<or> vsess (at_store st') = (vsess (at_store st))(i := None)"
    "r = Inr () \<Longrightarrow> i \<noteq> [] \<Longrightarrow> vsess (at_store st') i = None"
    using assms s1 delete [of "at_store st" i s1] delete_fails [of "at_store st" i s1]
    by (cases x; auto simp: Logout_def ports split: if_splits)+
qed

lemma authenticate_view:
  assumes "Authenticate svc now st i = (st', r)"
  shows "vcred (at_store st') = vcred (at_store st)" "vstep (at_store st') = vstep (at_store st)"
    "\<forall>j. j \<noteq> i \<longrightarrow> vsess (at_store st') j = vsess (at_store st) j"
    "vsess (at_store st') i = vsess (at_store st) i \<or> vsess (at_store st') i = None \<or>
       vsess (at_store st') i = map_option (\<lambda>y. Touched y now) (vsess (at_store st) i)"
    "r = Some u \<Longrightarrow> \<exists>y. vsess (at_store st) i = Some y \<and> ss_subject y = u \<and> ValidSession y now (ag_IdleTTL (av_config svc))"
proof -
  obtain s1 x where s1: "kt_Delete sessions (at_store st) i = (s1, x)" by fastforce
  obtain s2 y where s2: "kt_Touch sessions (at_store st) i now = (s2, y)" by fastforce
  show "vcred (at_store st') = vcred (at_store st)" "vstep (at_store st') = vstep (at_store st)"
    "\<forall>j. j \<noteq> i \<longrightarrow> vsess (at_store st') j = vsess (at_store st) j"
    "vsess (at_store st') i = vsess (at_store st) i \<or> vsess (at_store st') i = None \<or>
       vsess (at_store st') i = map_option (\<lambda>y. Touched y now) (vsess (at_store st) i)"
    "r = Some u \<Longrightarrow> \<exists>y. vsess (at_store st) i = Some y \<and> ss_subject y = u \<and> ValidSession y now (ag_IdleTTL (av_config svc))"
    using assms s1 s2 delete [of "at_store st" i s1] delete_fails [of "at_store st" i s1] touch [OF s2]
      get_session [of "at_store st" i]
    by (cases x; auto simp: Authenticate_def ports split: if_splits sum.splits option.splits)+
qed

end

end
