(* ===== verification/SignInRuns.thy ===== *)
theory SignInRuns
  imports SignIn
begin

text \<open>
  Runs of the sign-in: the locale \<open>auth_contract\<close> continued over sequences of events, its extension
  \<open>auth_reliable\<close> for stores whose deletion succeeds, the interpretation of both on the stores in memory,
  and the properties of the sign-in.
\<close>

section \<open>Runs over any stores\<close>

definition same_session :: "console_session \<Rightarrow> console_session \<Rightarrow> bool" where
  "same_session y z \<longleftrightarrow> ss_subject z = ss_subject y \<and> ss_expiresAt z = ss_expiresAt y \<and> ss_createdAt z = ss_createdAt y"

context auth_contract
begin

lemma login_view:
  assumes "Login svc now rd st u p c = (st', r)"
  shows "vcred (at_store st') = vcred (at_store st)" "vstep (at_store st) v \<le> vstep (at_store st') v"
    "r = Inl e \<Longrightarrow> vsess (at_store st') = vsess (at_store st)"
    "r = Inr i \<Longrightarrow> \<exists>cred. vcred (at_store st) = Some cred \<and> u = cr_username cred \<and>
       vsess (at_store st') = (vsess (at_store st))(i \<mapsto> NewConsoleSession i u now (ag_AbsoluteTTL (av_config svc)))"
proof -
  obtain st1 x where k: "login_check svc now st u p c = (st1, x)" by fastforce
  note s1 = check_store [OF k]
  have "vcred (at_store st') = vcred (at_store st) \<and> vstep (at_store st) v \<le> vstep (at_store st') v \<and>
    (r = Inl e \<longrightarrow> vsess (at_store st') = vsess (at_store st)) \<and>
    (r = Inr i \<longrightarrow> (\<exists>cred. vcred (at_store st) = Some cred \<and> u = cr_username cred \<and>
       vsess (at_store st') = (vsess (at_store st))(i \<mapsto> NewConsoleSession i u now (ag_AbsoluteTTL (av_config svc)))))"
  proof (cases x)
    case (Inl e')
    with k assms s1 show ?thesis by (auto simp: Login_def)
  next
    case (Inr y)
    obtain cred n where y: "y = (cred, n)" by fastforce
    with k Inr assms have m: "login_commit svc now rd st1 u (cred, n) = (st', r)" by (simp add: Login_def)
    from check_passes [of now st u p c st1 cred n] commit_view [OF m] k Inr y s1 show ?thesis by auto
  qed
  then show "vcred (at_store st') = vcred (at_store st)" "vstep (at_store st) v \<le> vstep (at_store st') v"
    "r = Inl e \<Longrightarrow> vsess (at_store st') = vsess (at_store st)"
    "r = Inr i \<Longrightarrow> \<exists>cred. vcred (at_store st) = Some cred \<and> u = cr_username cred \<and>
       vsess (at_store st') = (vsess (at_store st))(i \<mapsto> NewConsoleSession i u now (ag_AbsoluteTTL (av_config svc)))"
    by blast+
qed

lemma step_mono: "vstep (at_store st) v \<le> vstep (at_store (auth_step svc st e)) v"
proof (cases e)
  case (EBootstrap rd t)
  then show ?thesis using bootstrap_view(2) [of rd st t] by (metis auth_step.simps(1) order_refl surjective_pairing)
next
  case (ELogin now rd u p c)
  then show ?thesis using login_view(2) [of now rd st u p c] by (metis auth_step.simps(2) surjective_pairing)
next
  case (EAuthenticate now i)
  then show ?thesis using authenticate_view(2) [of now st i] by (metis auth_step.simps(3) order_refl surjective_pairing)
next
  case (ELogout i)
  then show ?thesis using logout_view(2) [of st i] by (metis auth_step.simps(4) order_refl surjective_pairing)
qed

lemma step_used_fresh:
  assumes "(u, n) \<in> set (step_used svc st e)"
  shows "step_used svc st e = [(u, n)]" "vstep (at_store st) u < n" "vstep (at_store (auth_step svc st e)) u = n"
proof -
  from assms obtain now rd v p c where e: "e = ELogin now rd v p c" by (cases e) auto
  with assms obtain st1 cred m st2 i where k: "login_check svc now st v p c = (st1, Inr (cred, m))"
    "login_commit svc now rd st1 v (cred, m) = (st2, Inr i)" "u = cr_username cred" "n = m"
    by (auto split: prod.splits sum.splits) (metis prod.collapse)
  then show "step_used svc st e = [(u, n)]" by (simp add: e)
  from k check_passes [OF k(1)] show "vstep (at_store st) u < n" by simp
  from k commit_view(3) [OF k(2)] show "vstep (at_store (auth_step svc st e)) u = n" by (simp add: e Login_def)
qed

lemma steps_used_fresh:
  "sorted_wrt (\<lambda>x y. fst x = fst y \<longrightarrow> snd x < snd y) (steps_used svc st es) \<and>
   (\<forall>(u, n) \<in> set (steps_used svc st es). vstep (at_store st) u < n)"
proof (induction es arbitrary: st)
  case (Cons e es)
  let ?st = "auth_step svc st e"
  note IH = Cons.IH [of ?st]
  have rest: "vstep (at_store st) u < n" if "(u, n) \<in> set (steps_used svc ?st es)" for u n
    using IH that step_mono [of st u e] by fastforce
  show ?case
  proof (cases "step_used svc st e")
    case Nil
    with IH rest show ?thesis by auto
  next
    case (Cons x xs)
    obtain u n where x: "x = (u, n)" by fastforce
    with Cons have f: "step_used svc st e = [(u, n)]" "vstep (at_store st) u < n" "vstep (at_store ?st) u = n"
      using step_used_fresh [of u n st e] by auto
    with IH rest show ?thesis by fastforce
  qed
qed simp

text \<open>One event, seen from one session id that it does not mint.\<close>

lemma session_step:
  assumes "\<not> mints svc st i e" "vsess (at_store (auth_step svc st e)) i = Some z"
  shows "\<exists>y. vsess (at_store st) i = Some y \<and> same_session y z"
proof (cases e)
  case (EBootstrap rd t)
  with assms bootstrap_view(1) [of rd st t "fst (Bootstrap svc rd st t)"] show ?thesis
    by (metis auth_step.simps(1) same_session_def surjective_pairing)
next
  case (ELogin now rd u p c)
  obtain st' r where l: "Login svc now rd st u p c = (st', r)" by fastforce
  then show ?thesis
  proof (cases r)
    case (Inl x)
    with login_view(3) [OF l Inl] assms ELogin l show ?thesis by (simp add: same_session_def)
  next
    case (Inr j)
    with assms ELogin l have "j \<noteq> i" by simp
    with login_view(4) [OF l Inr] assms ELogin l show ?thesis by (auto simp: same_session_def)
  qed
next
  case (EAuthenticate now j)
  obtain st' r where l: "Authenticate svc now st j = (st', r)" by fastforce
  have "same_session y y" "same_session y (Touched y now)" for y by (simp_all add: same_session_def Touched_def)
  with authenticate_view(3,4) [OF l] assms EAuthenticate l show ?thesis
    by (cases "i = j") (auto simp: eq_commute [of "Some z"])
next
  case (ELogout j)
  obtain st' r where l: "Logout svc st j = (st', r)" by fastforce
  with logout_view(3) [OF l] assms ELogout show ?thesis by (auto simp: same_session_def split: if_splits)
qed

lemma session_run:
  assumes "\<not> ever_mints svc st i es" "vsess (at_store (auth_run svc st es)) i = Some z"
  shows "\<exists>y. vsess (at_store st) i = Some y \<and> same_session y z"
  using assms
proof (induction es arbitrary: st)
  case (Cons e es)
  then obtain y where "vsess (at_store (auth_step svc st e)) i = Some y" "same_session y z"
    by (auto simp: auth_run_def)
  with session_step [of st i e y] Cons.prems(1) show ?case by (auto simp: same_session_def)
qed (auto simp: auth_run_def same_session_def)

end

locale auth_reliable = auth_contract +
  assumes delete_done: "\<exists>s'. kt_Delete sessions s i = (s', Inr ())"
begin

lemma logout_ends:
  assumes "ELogout i \<in> set es" "\<not> ever_mints svc st i es" "i \<noteq> []"
  shows "vsess (at_store (auth_run svc st es)) i = None"
  using assms(1,2)
proof (induction es arbitrary: st)
  case (Cons e es)
  show ?case
  proof (cases "e = ELogout i")
    case True
    have "snd (Logout svc st i) = Inr ()" using delete_done [of "at_store st" i] by (auto simp: Logout_def ports)
    with logout_view(4) [of st i] assms(3) have "vsess (at_store (auth_step svc st e)) i = None"
      using True by (metis auth_step.simps(4) surjective_pairing)
    with session_run [of "auth_step svc st e" i es] Cons.prems(2) show ?thesis
      by (cases "vsess (at_store (auth_run svc st (e # es))) i") (auto simp: auth_run_def)
  next
    case False
    with Cons show ?thesis by (auto simp: auth_run_def)
  qed
qed simp

lemma signed_in_session:
  assumes l: "Login svc t0 rd st u p c = (st1, Inr i)" and m: "\<not> ever_mints svc st1 i es"
    and a: "snd (Authenticate svc now (auth_run svc st1 es) i) = Some v"
  shows "v = u \<and> ns now < ns t0 + ag_AbsoluteTTL (av_config svc) \<and> ELogout i \<notin> set es"
proof -
  obtain z where z: "vsess (at_store (auth_run svc st1 es)) i = Some z" "ss_subject z = v"
      "ValidSession z now (ag_IdleTTL (av_config svc))"
    using authenticate_view(5) [of now "auth_run svc st1 es" i _ _ v] a by (metis surjective_pairing)
  have "i \<noteq> []" using a by (auto simp: Authenticate_def ports)
  with logout_ends [OF _ m] z have "ELogout i \<notin> set es" by auto
  moreover from session_run [OF m z(1)] login_view(4) [OF l refl]
  have "same_session (NewConsoleSession i u t0 (ag_AbsoluteTTL (av_config svc))) z" by auto
  ultimately show ?thesis using z by (auto simp: same_session_def NewConsoleSession_def ValidSession_def time_defs)
qed

end

section \<open>The stores in memory\<close>

lemma mem_service_ports [simp]:
  "av_creds (mem_service g idkey hmac) = Some mem_creds" "av_sessions (mem_service g idkey hmac) = Some mem_sessions"
  "av_replay (mem_service g idkey hmac) = Some mem_replay" "av_config (mem_service g idkey hmac) = with_defaults g"
  "av_idkey (mem_service g idkey hmac) = idkey" "av_hmac (mem_service g idkey hmac) = hmac"
  by (simp_all add: mem_service_def NewConsoleAuthService_def)

lemmas mem_ops = mem_creds_def mem_sessions_def mem_replay_def mem_SaveCredential_def mem_Create_def mem_Touch_def
  mem_Delete_def mem_LastStep_def mem_SetLastStep_def

interpretation signin: auth_reliable "mem_service g idkey hmac" mem_creds mem_sessions mem_replay ma_cred
  "\<lambda>m. map_of (ma_sessions m)" mem_LastStep for g idkey hmac
  by unfold_locales (auto simp: mem_ops fun_eq_iff split: option.splits)

section \<open>Guessing is bounded\<close>

lemma locked_other: "k \<noteq> u \<Longrightarrow> map_of (fst (locked mx fs k now)) u = map_of fs u"
  by (auto simp: locked_def split: option.splits)

lemma strike_other: "k \<noteq> u \<Longrightarrow> map_of (strike w fs k now) u = map_of fs u"
  by (simp add: strike_def Let_def)

lemma check_failures_other:
  "k \<noteq> u \<Longrightarrow> map_of (at_failures (fst (login_check svc now st k p c))) u = map_of (at_failures st) u"
  using locked_other [of k u "ag_MaxFailures (av_config svc)" "at_failures st" now]
  by (auto simp: login_check_def Let_def strike_other split: prod.splits option.splits sum.splits)

lemma commit_failures_other:
  "k \<noteq> u \<Longrightarrow> map_of (at_failures (fst (login_commit svc now rd st k x))) u = map_of (at_failures st) u"
  by (auto simp: login_commit_def replaySet_def reset_def Let_def split: prod.splits option.splits sum.splits)

text \<open>Only an attempt with the name changes what is counted for it.\<close>

lemma step_failures_other:
  assumes "attempt_at u e = []"
  shows "map_of (at_failures (auth_step svc st e)) u = map_of (at_failures st) u"
proof (cases e)
  case (ELogin now rd k p c)
  with assms have k: "k \<noteq> u" by (auto split: if_splits)
  obtain st1 x where l: "login_check svc now st k p c = (st1, x)" by fastforce
  with check_failures_other [OF k, of svc now st p c] commit_failures_other [OF k, of svc now rd st1] ELogin show ?thesis
    by (cases x) (auto simp: Login_def)
qed (auto simp: Bootstrap_def Authenticate_def Logout_def split: option.splits sum.splits prod.splits if_splits)

lemma step_failures_refused:
  assumes "e = ELogin now rd u p c" "\<not> passes svc st u e"
  shows "if tried svc st u e
    then at_failures (auth_step svc st e) =
      strike (ag_LockoutWindow (av_config svc)) (fst (locked (ag_MaxFailures (av_config svc)) (at_failures st) u now)) u now
    else at_failures (auth_step svc st e) = fst (locked (ag_MaxFailures (av_config svc)) (at_failures st) u now) \<or>
      at_failures (auth_step svc st e) = at_failures st"
proof -
  obtain st1 y where l: "login_check svc now st u p c = (st1, Inl y)"
    using assms by (cases "login_check svc now st u p c"; cases "snd (login_check svc now st u p c)") auto
  then show ?thesis
    unfolding assms(1) by (auto simp: Login_def login_check_def Let_def ErrInvalidCredentials_def
        ErrConsoleAuthUnavailable_def split: prod.splits option.splits sum.splits if_splits)
qed

lemma tries_bounded:
  assumes w: "\<forall>e \<in> set es. \<forall>t \<in> set (attempt_at u e). ns t0 \<le> ns t \<and> ns t \<le> ns t0 + ag_LockoutWindow (av_config svc)"
    and n: "\<not> ever_passes svc st u es" and k: "int k \<le> ag_MaxFailures (av_config svc)" "1 \<le> ag_MaxFailures (av_config svc)"
    and i: "0 < k \<Longrightarrow> \<exists>e. map_of (at_failures st) u = Some e \<and> k \<le> lk_count e \<and>
      ns t0 + ag_LockoutWindow (av_config svc) \<le> ns (lk_until e)"
  shows "int (k + tries svc st u es) \<le> ag_MaxFailures (av_config svc)"
  using w n k i
proof (induction es arbitrary: st k)
  case (Cons e es)
  let ?mx = "ag_MaxFailures (av_config svc)" and ?w = "ag_LockoutWindow (av_config svc)"
  let ?st = "auth_step svc st e"
  show ?case
  proof (cases "attempt_at u e")
    case Nil
    then have t: "\<not> tried svc st u e" by (cases e) (auto split: if_splits)
    have "int (k + tries svc ?st u es) \<le> ?mx"
      by (rule Cons.IH) (use Cons.prems step_failures_other [OF Nil, of svc st] in auto)
    with t show ?thesis by simp
  next
    case at: (Cons now ts)
    then obtain rd p c where e: "e = ELogin now rd u p c" by (cases e) (auto split: if_splits)
    have now: "ns t0 \<le> ns now" "ns now \<le> ns t0 + ?w" using Cons.prems(1) at by auto
    have np: "\<not> passes svc st u e" using Cons.prems(2) by simp
    note f = step_failures_refused [OF e np]
    have lk: "0 < k \<Longrightarrow> locked ?mx (at_failures st) u now = (at_failures st, ?mx \<le> int (lk_count (the (map_of (at_failures st) u))))"
      using Cons.prems(5) now by (auto simp: locked_def After_def)
    show ?thesis
    proof (cases "tried svc st u e")
      case False
      have "int (k + tries svc ?st u es) \<le> ?mx"
        by (rule Cons.IH) (use Cons.prems f False lk in \<open>auto simp: e\<close>)
      with False show ?thesis by simp
    next
      case True
      then have nl: "\<not> snd (locked ?mx (at_failures st) u now)" by (simp add: e)
      have st: "at_failures ?st = strike ?w (fst (locked ?mx (at_failures st) u now)) u now" using f True by simp
      have c: "\<exists>x. map_of (at_failures ?st) u = Some x \<and> Suc k \<le> lk_count x \<and> ns t0 + ?w \<le> ns (lk_until x)"
      proof (cases "0 < k")
        case True
        then obtain x where x: "map_of (at_failures st) u = Some x" "k \<le> lk_count x" "ns t0 + ?w \<le> ns (lk_until x)"
          using Cons.prems(5) by auto
        then show ?thesis using lk [OF True] now by (auto simp: st strike_def Let_def After_def AddTime_def)
      next
        case False
        then show ?thesis using now nl
          by (auto simp: st strike_def locked_def Let_def AddTime_def split: option.splits if_splits)
      qed
      have "int (Suc k) \<le> ?mx"
      proof (cases "0 < k")
        case True
        then show ?thesis using lk [OF True] nl Cons.prems(5) by auto
      qed (use Cons.prems(4) in simp)
      then have "int (Suc k + tries svc ?st u es) \<le> ?mx"
        by (intro Cons.IH) (use Cons.prems c in \<open>auto simp: e\<close>)
      with True show ?thesis by simp
    qed
  qed
qed simp

section \<open>Exactly who signs in\<close>

lemma del_del [simp]: "del k (del k m) = del k m"
  by (simp add: del_def)

lemma locked_fst_del: "del u (fst (locked mx fs u now)) = del u fs"
  by (simp add: locked_def split: option.splits)

lemma mem_check:
  "login_check (mem_service g idkey hmac) now st u p c = (st1, Inr (cred, n)) \<longleftrightarrow>
     \<not> snd (locked (ag_MaxFailures (with_defaults g)) (at_failures st) u now) \<and>
     st1 = st\<lparr>at_failures := fst (locked (ag_MaxFailures (with_defaults g)) (at_failures st) u now)\<rparr> \<and>
     ma_cred (at_store st) = Some cred \<and> u = cr_username cred \<and> VerifyPassword idkey (cr_passwordHash cred) p \<and>
     VerifyTOTP hmac (cr_totpSecret cred) c now = Some n \<and> mem_LastStep (at_store st) u < n"
  by (auto simp: login_check_def totpFresh_def Let_def mem_creds_def mem_replay_def
      split: prod.splits option.splits if_splits)

lemma mem_commit:
  "login_commit (mem_service g idkey hmac) now rd st u (cred, n) = (st', Inr sid) \<longleftrightarrow>
     (\<exists>b. rd sessionIDBytes = Inr b \<and> sid = raw_url_encode b \<and>
        st' = \<lparr>at_store = mem_Create (mem_SetLastStep (at_store st) (cr_username cred) n)
                 (NewConsoleSession sid (cr_username cred) now (ag_AbsoluteTTL (with_defaults g))),
               at_failures = del u (at_failures st)\<rparr>)"
  by (cases st) (auto simp: login_commit_def replaySet_def reset_def Let_def mem_replay_def mem_sessions_def
      GenerateSessionID_def bindE_Inr_iff split: sum.splits)

lemma mem_login:
  "Login (mem_service g idkey hmac) now rd st u p c = (st', Inr sid) \<longleftrightarrow>
     (\<exists>cred n b.
        \<not> snd (locked (ag_MaxFailures (with_defaults g)) (at_failures st) u now) \<and>
        ma_cred (at_store st) = Some cred \<and> u = cr_username cred \<and> VerifyPassword idkey (cr_passwordHash cred) p \<and>
        VerifyTOTP hmac (cr_totpSecret cred) c now = Some n \<and> mem_LastStep (at_store st) u < n \<and>
        rd sessionIDBytes = Inr b \<and> sid = raw_url_encode b \<and>
        st' = \<lparr>at_store = mem_Create (mem_SetLastStep (at_store st) u n)
                 (NewConsoleSession sid u now (ag_AbsoluteTTL (with_defaults g))),
               at_failures = del u (at_failures st)\<rparr>)" (is "?l \<longleftrightarrow> ?r")
proof -
  have "?l \<longleftrightarrow> (\<exists>st1 cred n. login_check (mem_service g idkey hmac) now st u p c = (st1, Inr (cred, n)) \<and>
      login_commit (mem_service g idkey hmac) now rd st1 u (cred, n) = (st', Inr sid))"
    by (cases "login_check (mem_service g idkey hmac) now st u p c"; cases "snd (login_check (mem_service g idkey hmac) now st u p c)")
       (auto simp: Login_def)
  also have "\<dots> \<longleftrightarrow> ?r" unfolding mem_check mem_commit by (auto simp: locked_fst_del)
  finally show ?thesis .
qed

section \<open>The minted credential\<close>

lemma defaults_positive [simp]:
  "0 < ag_AbsoluteTTL (with_defaults g)" "0 < ag_IdleTTL (with_defaults g)" "1 \<le> ag_MaxFailures (with_defaults g)"
  "0 < ag_LockoutWindow (with_defaults g)"
  by (auto simp: with_defaults_def defaultAbsoluteTTL_def defaultIdleTTL_def defaultMaxFailures_def
      defaultLockoutWindow_def)

definition fresh_state :: "mem_auth auth_state" where
  "fresh_state = \<lparr>at_store = NewMemStore, at_failures = []\<rparr>"

lemma fresh_bootstrap:
  assumes "ag_BootstrapToken g \<noteq> []" "\<And>i n. length (rnd i n) = n"
  shows "\<exists>hash. HashPassword idkey (\<lambda>n. Inr (rnd 2 n)) (take 24 (raw_url_encode (rnd 0 32))) = Inr hash \<and>
    Bootstrap (mem_service g idkey hmac) (\<lambda>i n. Inr (rnd i n)) fresh_state (ag_BootstrapToken g) =
     (fresh_state\<lparr>at_store := NewMemStore\<lparr>ma_cred := Some (NewCredential (ag_Username (with_defaults g)) hash (b32_encode (rnd 1 20)))\<rparr>\<rparr>,
      Inr \<lparr>bs_Username = ag_Username (with_defaults g), bs_Password = take 24 (raw_url_encode (rnd 0 32)),
           bs_TOTPSecret = b32_encode (rnd 1 20),
           bs_OTPAuthURI = OTPAuthURI (ag_Issuer (with_defaults g)) (ag_Username (with_defaults g)) (b32_encode (rnd 1 20))\<rparr>)"
proof -
  have "take 24 (raw_url_encode (rnd 0 32)) \<noteq> []"
    using length_raw_url [of "rnd 0 32"] assms(2) [of 0 32] by (cases "raw_url_encode (rnd 0 32)") auto
  then obtain hash where h: "HashPassword idkey (\<lambda>n. Inr (rnd 2 n)) (take 24 (raw_url_encode (rnd 0 32))) = Inr hash"
    by (simp add: HashPassword_def)
  have "ag_BootstrapToken (with_defaults g) = ag_BootstrapToken g" by (simp add: with_defaults_def)
  with h assms(1) show ?thesis
    by (intro exI [of _ hash])
       (simp add: Bootstrap_def fresh_state_def mem_creds_def mem_SaveCredential_def NewMemStore_def
         generateBootstrapPassword_def GenerateSessionID_def GenerateTOTPSecret_def sessionIDBytes_def totpSecretBytes_def)
qed

lemma verified_step_positive:
  assumes "VerifyTOTP hmac sec code now = Some n" "60 \<le> Unix now" "Unix now \<le> max64"
  shows "0 < n"
proof -
  define c where "c = Unix now div 30"
  have "Unix now div 30 \<le> max64 div 30" using assms(3) by (rule zdiv_mono1) simp
  then have c: "2 \<le> c" "c \<le> max64 - 1" using assms(2) by (auto simp: c_def max64_def)
  then have "add64 c x = c + x" if "x \<in> {-1, 0, 1}" for x
    using that by (auto simp: add64_def in64_def min64_def)
  moreover have "quot64 (Unix now) 30 = c" using assms(2,3) by (simp add: c_def quot64_nonneg)
  ultimately show ?thesis using VerifyTOTP_Some(3) [OF assms(1)] c(1) by auto
qed

lemma bootstrap_run:
  assumes token: "ag_BootstrapToken g \<noteq> []" and rnd: "\<And>i n. length (rnd i n) = n"
    and idkey: "\<And>p s t m th n. length (idkey p s t m th n) = n"
    and now: "60 \<le> Unix now" "Unix now \<le> max64"
  shows "\<exists>st1 b k st2 sid.
    Bootstrap (mem_service g idkey hmac) (\<lambda>i n. Inr (rnd i n)) fresh_state (ag_BootstrapToken g) = (st1, Inr b) \<and>
    decodeSecret (bs_TOTPSecret b) = Some k \<and>
    Login (mem_service g idkey hmac) now (\<lambda>n. Inr (rnd 3 n)) st1 (bs_Username b) (bs_Password b)
      (hotp hmac k (nat (Unix now div 30))) = (st2, Inr sid) \<and>
    snd (Authenticate (mem_service g idkey hmac) now st2 sid) = Some (bs_Username b) \<and>
    snd (Bootstrap (mem_service g idkey hmac) rd st2 (ag_BootstrapToken g)) = Inl ErrBootstrapLocked"
proof -
  let ?svc = "mem_service g idkey hmac" and ?u = "ag_Username (with_defaults g)"
  let ?p = "take 24 (raw_url_encode (rnd 0 32))" and ?sec = "b32_encode (rnd 1 20)"
  let ?code = "hotp hmac (rnd 1 20) (nat (Unix now div 30))" and ?sid = "raw_url_encode (rnd 3 32)"
  obtain hash where h: "HashPassword idkey (\<lambda>n. Inr (rnd 2 n)) ?p = Inr hash"
    and b: "Bootstrap ?svc (\<lambda>i n. Inr (rnd i n)) fresh_state (ag_BootstrapToken g) =
     (fresh_state\<lparr>at_store := NewMemStore\<lparr>ma_cred := Some (NewCredential ?u hash ?sec)\<rparr>\<rparr>,
      Inr \<lparr>bs_Username = ?u, bs_Password = ?p, bs_TOTPSecret = ?sec,
           bs_OTPAuthURI = OTPAuthURI (ag_Issuer (with_defaults g)) ?u ?sec\<rparr>)" (is "_ = (?st1, _)")
    using fresh_bootstrap [of g rnd idkey hmac] token rnd by blast
  have v: "VerifyPassword idkey hash ?p" by (rule HashPassword_verifies [OF h idkey])
  have "rnd 1 20 \<noteq> []" using rnd [of 1 20] by auto
  then obtain n where n: "VerifyTOTP hmac ?sec ?code now = Some n"
    using current_code_verifies [OF decode_minted] now by fastforce
  have "0 < n" using verified_step_positive [OF n now] .
  have l: "\<exists>st2. Login ?svc now (\<lambda>n. Inr (rnd 3 n)) ?st1 ?u ?p ?code = (st2, Inr ?sid) \<and>
      at_store st2 = mem_Create (mem_SetLastStep (at_store ?st1) ?u n)
        (NewConsoleSession ?sid ?u now (ag_AbsoluteTTL (with_defaults g)))"
    using v n \<open>0 < n\<close>
    by (auto simp: mem_login fresh_state_def NewMemStore_def NewCredential_def locked_def mem_LastStep_def sessionIDBytes_def)
  then obtain st2 where st2: "Login ?svc now (\<lambda>n. Inr (rnd 3 n)) ?st1 ?u ?p ?code = (st2, Inr ?sid)"
    "at_store st2 = mem_Create (mem_SetLastStep (at_store ?st1) ?u n)
        (NewConsoleSession ?sid ?u now (ag_AbsoluteTTL (with_defaults g)))" by blast
  have "?sid \<noteq> []" using length_raw_url [of "rnd 3 32"] rnd [of 3 32] by auto
  then have a: "snd (Authenticate ?svc now st2 ?sid) = Some ?u"
    using less_imp_le [OF defaults_positive(2) [of g]]
    by (simp add: not_less Authenticate_def st2(2) mem_sessions_def mem_Create_def NewConsoleSession_def ValidSession_def
        time_defs SubTime_def min64_def max64_def)
  have "snd (Bootstrap ?svc rd st2 (ag_BootstrapToken g)) = Inl ErrBootstrapLocked"
    using token by (simp add: Bootstrap_def st2(2) mem_creds_def mem_Create_def mem_SetLastStep_def with_defaults_def)
  with b st2(1) a decode_minted [of "rnd 1 20"] show ?thesis by fastforce
qed

section \<open>Claims\<close>

text \<open>
  C28: who signs in at the console. A sign-in succeeds exactly when the name is not locked out, a
  credential is provisioned for that name, the password verifies against its hash, the code is that of
  a step next to the current one and of a step later than the last one consumed, and random bytes are
  available; it then consumes the step, clears the strikes and stores one session with the fixed
  lifetime. A refused attempt creates no session.
\<close>

theorem sign_in_exact:
  "(Login (mem_service g idkey hmac) now rd st u p c = (st', Inr sid) \<longleftrightarrow>
     (\<exists>cred n b.
        \<not> snd (locked (ag_MaxFailures (with_defaults g)) (at_failures st) u now) \<and>
        ma_cred (at_store st) = Some cred \<and> u = cr_username cred \<and> VerifyPassword idkey (cr_passwordHash cred) p \<and>
        VerifyTOTP hmac (cr_totpSecret cred) c now = Some n \<and> mem_LastStep (at_store st) u < n \<and>
        rd sessionIDBytes = Inr b \<and> sid = raw_url_encode b \<and>
        st' = \<lparr>at_store = mem_Create (mem_SetLastStep (at_store st) u n)
                 (NewConsoleSession sid u now (ag_AbsoluteTTL (with_defaults g))),
               at_failures = del u (at_failures st)\<rparr>)) \<and>
   (\<forall>st1 e. Login (mem_service g idkey hmac) now rd st u p c = (st1, Inl e) \<longrightarrow>
      map_of (ma_sessions (at_store st1)) = map_of (ma_sessions (at_store st)))"
  using mem_login [of g idkey hmac now rd st u p c st' sid] signin.login_view(3) [OF _ refl] by metis

text \<open>
  C29: no code is accepted twice. Along any sequence of provisioning, sign-ins, authentications and
  sign-outs, from any state, the steps of the codes accepted for one operator strictly increase, and all
  of them are later than the step recorded at the start.
\<close>

theorem codes_used_once:
  "sorted_wrt (\<lambda>x y. fst x = fst y \<longrightarrow> snd x < snd y) (steps_used (mem_service g idkey hmac) st es) \<and>
   (\<forall>(u, n) \<in> set (steps_used (mem_service g idkey hmac) st es). mem_LastStep (at_store st) u < n)"
  by (rule signin.steps_used_fresh)

text \<open>
  C30: guessing is bounded. Among the attempts with one name whose instants lie in a window of the
  lockout's length, none of which passes, at most the configured number has its password and code
  looked at, whatever else happens in between and whatever the state was before.
\<close>

theorem guesses_bounded:
  assumes "\<forall>e \<in> set es. \<forall>t \<in> set (attempt_at u e). ns t0 \<le> ns t \<and> ns t \<le> ns t0 + ag_LockoutWindow (with_defaults g)"
    and "\<not> ever_passes (mem_service g idkey hmac) st u es"
  shows "int (tries (mem_service g idkey hmac) st u es) \<le> ag_MaxFailures (with_defaults g)"
  using tries_bounded [of es u t0 "mem_service g idkey hmac" st 0] assms defaults_positive(3) [of g] by simp

text \<open>
  a session does not outlive its sign-in. If a session id minted by a sign-in still authenticates
  after any sequence of events that does not mint it again, then as the operator who signed in, before
  the fixed lifetime has passed since the sign-in, and only if nobody signed it out.
\<close>

theorem session_bounded:
  assumes "Login (mem_service g idkey hmac) t0 rd st u p c = (st1, Inr i)"
    and "\<not> ever_mints (mem_service g idkey hmac) st1 i es"
    and "snd (Authenticate (mem_service g idkey hmac) now (auth_run (mem_service g idkey hmac) st1 es) i) = Some v"
  shows "v = u \<and> ns now < ns t0 + ag_AbsoluteTTL (with_defaults g) \<and> ELogout i \<notin> set es"
  using signin.signed_in_session [OF assms] by simp

text \<open>
  C34: what provisioning hands out signs in. On an empty store, provisioning with the configured token
  succeeds; the returned name and password together with the current code of the returned secret then
  sign in, the new session authenticates as that name, and provisioning again is refused.
\<close>

theorem bootstrap_signs_in:
  assumes token: "ag_BootstrapToken g \<noteq> []" and rnd: "\<And>i n. length (rnd i n) = n"
    and idkey: "\<And>p s t m th n. length (idkey p s t m th n) = n"
    and now: "60 \<le> Unix now" "Unix now \<le> max64"
  shows "\<exists>st1 b k st2 sid.
    Bootstrap (mem_service g idkey hmac) (\<lambda>i n. Inr (rnd i n)) fresh_state (ag_BootstrapToken g) = (st1, Inr b) \<and>
    decodeSecret (bs_TOTPSecret b) = Some k \<and>
    Login (mem_service g idkey hmac) now (\<lambda>n. Inr (rnd 3 n)) st1 (bs_Username b) (bs_Password b)
      (hotp hmac k (nat (Unix now div 30))) = (st2, Inr sid) \<and>
    snd (Authenticate (mem_service g idkey hmac) now st2 sid) = Some (bs_Username b) \<and>
    snd (Bootstrap (mem_service g idkey hmac) rd st2 (ag_BootstrapToken g)) = Inl ErrBootstrapLocked"
  by (rule bootstrap_run [OF assms])

text \<open>
  one code can open two sessions. When two sign-ins with the same password and code overlap, so
  that both have passed the checks before either records the step, both are answered with a session.
\<close>

theorem overlapping_sign_ins_share_code:
  assumes "login_check (mem_service g idkey hmac) now st u p c = (st1, Inr x)"
    and "rd sessionIDBytes = Inr b" "rd' sessionIDBytes = Inr b'"
  shows "login_check (mem_service g idkey hmac) now st1 u p c = (st1, Inr x) \<and>
    (\<exists>st2 st3. login_commit (mem_service g idkey hmac) now rd st1 u x = (st2, Inr (raw_url_encode b)) \<and>
       login_commit (mem_service g idkey hmac) now rd' st2 u x = (st3, Inr (raw_url_encode b')))"
proof -
  obtain cred n where x: "x = (cred, n)" by fastforce
  have "fst (locked mx (fst (locked mx fs u now)) u now) = fst (locked mx fs u now) \<and>
      (\<not> snd (locked mx fs u now) \<longrightarrow> \<not> snd (locked mx (fst (locked mx fs u now)) u now))" for mx fs
    by (auto simp: locked_def split: option.splits if_splits)
  with assms show ?thesis unfolding x mem_check mem_commit by auto
qed

section \<open>Witnesses\<close>

definition sample_auth_config :: auth_config where
  "sample_auth_config = \<lparr>ag_Username = ''op'', ag_Issuer = [], ag_BootstrapToken = ''t'', ag_AbsoluteTTL = 0, ag_IdleTTL = 0,
     ag_MaxFailures = 0, ag_LockoutWindow = 0\<rparr>"

definition sample_rnd :: "nat \<Rightarrow> nat \<Rightarrow> string" where "sample_rnd i n = replicate n (char_of i)"
definition sample_kdf :: kdf where "sample_kdf p s t m th n = replicate n (hd (p @ ''x''))"
definition sample_mac :: "string \<Rightarrow> string \<Rightarrow> string" where "sample_mac k m = replicate 20 (last (CHR ''x'' # m))"
definition sample_instant :: gotime where "sample_instant = \<lparr>ns = (62135596800 + 6000) * 1000000000, zone = 0\<rparr>"

abbreviation sample_svc :: "mem_auth auth_service" where
  "sample_svc \<equiv> mem_service sample_auth_config sample_kdf sample_mac"

definition sample_provisioned :: "mem_auth auth_state" where
  "sample_provisioned = fst (Bootstrap sample_svc (\<lambda>i n. Inr (sample_rnd i n)) fresh_state ''t'')"

lemma sample_auth_ok:
  "ag_BootstrapToken sample_auth_config = ''t''" "length (sample_rnd i n) = n" "length (sample_kdf p s t m th n) = n"
  "60 \<le> Unix sample_instant" "Unix sample_instant \<le> max64"
  by (simp_all add: sample_auth_config_def sample_rnd_def sample_kdf_def sample_instant_def Unix_def max64_def)

lemma sample_signed_in:
  "\<exists>u p c st2 sid. Login sample_svc sample_instant (\<lambda>n. Inr (sample_rnd 3 n)) sample_provisioned u p c = (st2, Inr sid) \<and>
     snd (Authenticate sample_svc sample_instant st2 sid) = Some u"
proof -
  from bootstrap_run [of sample_auth_config sample_rnd sample_kdf sample_instant sample_mac undefined]
  obtain st1 b k st2 sid where
    "Bootstrap sample_svc (\<lambda>i n. Inr (sample_rnd i n)) fresh_state ''t'' = (st1, Inr b)"
    "Login sample_svc sample_instant (\<lambda>n. Inr (sample_rnd 3 n)) st1 (bs_Username b) (bs_Password b)
      (hotp sample_mac k (nat (Unix sample_instant div 30))) = (st2, Inr sid)"
    "snd (Authenticate sample_svc sample_instant st2 sid) = Some (bs_Username b)"
    by (auto simp: sample_auth_ok)
  then show ?thesis unfolding sample_provisioned_def by fastforce
qed

theorem bootstrap_signs_in_witness:
  "\<exists>st1 b k st2 sid.
    Bootstrap sample_svc (\<lambda>i n. Inr (sample_rnd i n)) fresh_state ''t'' = (st1, Inr b) \<and>
    decodeSecret (bs_TOTPSecret b) = Some k \<and>
    Login sample_svc sample_instant (\<lambda>n. Inr (sample_rnd 3 n)) st1 (bs_Username b) (bs_Password b)
      (hotp sample_mac k (nat (Unix sample_instant div 30))) = (st2, Inr sid) \<and>
    snd (Authenticate sample_svc sample_instant st2 sid) = Some (bs_Username b) \<and>
    snd (Bootstrap sample_svc (\<lambda>i n. Inr (sample_rnd i n)) st2 ''t'') = Inl ErrBootstrapLocked"
  using bootstrap_signs_in [of sample_auth_config sample_rnd sample_kdf sample_instant sample_mac "\<lambda>i n. Inr (sample_rnd i n)"]
  by (simp add: sample_auth_ok)

theorem sign_in_exact_witness:
  "\<exists>u p c st2 sid. Login sample_svc sample_instant (\<lambda>n. Inr (sample_rnd 3 n)) sample_provisioned u p c = (st2, Inr sid) \<and>
     (\<exists>cred. ma_cred (at_store sample_provisioned) = Some cred \<and> u = cr_username cred)"
  using sample_signed_in sign_in_exact [of sample_auth_config sample_kdf sample_mac sample_instant "\<lambda>n. Inr (sample_rnd 3 n)"
      sample_provisioned] by metis

theorem codes_used_once_witness:
  "\<exists>e u n. steps_used sample_svc sample_provisioned [e] = [(u, n)] \<and> mem_LastStep (at_store sample_provisioned) u < n"
proof -
  obtain u p c st2 sid where l: "Login sample_svc sample_instant (\<lambda>n. Inr (sample_rnd 3 n)) sample_provisioned u p c = (st2, Inr sid)"
    using sample_signed_in by blast
  let ?e = "ELogin sample_instant (\<lambda>n. Inr (sample_rnd 3 n)) u p c"
  from l obtain st1 x where "login_check sample_svc sample_instant sample_provisioned u p c = (st1, Inr x)"
    "login_commit sample_svc sample_instant (\<lambda>n. Inr (sample_rnd 3 n)) st1 u x = (st2, Inr sid)"
    by (auto simp: Login_def split: prod.splits sum.splits)
  then have "steps_used sample_svc sample_provisioned [?e] = [(cr_username (fst x), snd x)]" by (cases x) simp
  with codes_used_once [of sample_auth_config sample_kdf sample_mac sample_provisioned "[?e]"] show ?thesis by fastforce
qed

theorem guesses_bounded_witness:
  "tries sample_svc fresh_state ''op'' [ELogin sample_instant (\<lambda>n. Inr []) ''op'' ''guess'' ''000000''] = 1 \<and>
   int (tries sample_svc fresh_state ''op'' [ELogin sample_instant (\<lambda>n. Inr []) ''op'' ''guess'' ''000000'']) \<le> 5"
proof -
  let ?es = "[ELogin sample_instant (\<lambda>n. Inr []) ''op'' ''guess'' ''000000'']"
  have c: "snd (login_check sample_svc sample_instant fresh_state ''op'' ''guess'' ''000000'') = Inl ErrInvalidCredentials"
    by (simp add: login_check_def fresh_state_def NewMemStore_def mem_creds_def locked_def)
  then have "\<not> ever_passes sample_svc fresh_state ''op'' ?es" by simp
  with guesses_bounded [of ?es "''op''" sample_instant sample_auth_config sample_kdf sample_mac fresh_state]
  have "int (tries sample_svc fresh_state ''op'' ?es) \<le> 5"
    using defaults_positive(4) [of sample_auth_config]
    by (simp add: with_defaults_def sample_auth_config_def defaultMaxFailures_def)
  moreover have "tries sample_svc fresh_state ''op'' ?es = 1" using c by (simp add: fresh_state_def locked_def)
  ultimately show ?thesis by blast
qed

theorem session_bounded_witness:
  "\<exists>u p c st2 sid. Login sample_svc sample_instant (\<lambda>n. Inr (sample_rnd 3 n)) sample_provisioned u p c = (st2, Inr sid) \<and>
     snd (Authenticate sample_svc sample_instant st2 sid) = Some u \<and>
     ns sample_instant < ns sample_instant + ag_AbsoluteTTL (with_defaults sample_auth_config)"
proof -
  obtain u p c st2 sid where l: "Login sample_svc sample_instant (\<lambda>n. Inr (sample_rnd 3 n)) sample_provisioned u p c = (st2, Inr sid)"
    "snd (Authenticate sample_svc sample_instant st2 sid) = Some u"
    using sample_signed_in by blast
  have "u = u \<and> ns sample_instant < ns sample_instant + ag_AbsoluteTTL (with_defaults sample_auth_config) \<and>
      ELogout sid \<notin> set []"
    by (rule session_bounded [OF l(1)]) (use l(2) in \<open>simp_all add: auth_run_def\<close>)
  with l show ?thesis by blast
qed

theorem overlapping_sign_ins_share_code_witness:
  "\<exists>u p c st1 x st2 st3. login_check sample_svc sample_instant sample_provisioned u p c = (st1, Inr x) \<and>
     login_commit sample_svc sample_instant (\<lambda>n. Inr (sample_rnd 3 n)) st1 u x = (st2, Inr (raw_url_encode (sample_rnd 3 32))) \<and>
     login_commit sample_svc sample_instant (\<lambda>n. Inr (sample_rnd 4 n)) st2 u x = (st3, Inr (raw_url_encode (sample_rnd 4 32)))"
proof -
  obtain u p c st2 sid where l: "Login sample_svc sample_instant (\<lambda>n. Inr (sample_rnd 3 n)) sample_provisioned u p c = (st2, Inr sid)"
    using sample_signed_in by blast
  then obtain st1 x where k: "login_check sample_svc sample_instant sample_provisioned u p c = (st1, Inr x)"
    by (auto simp: Login_def split: prod.splits sum.splits)
  from overlapping_sign_ins_share_code [OF k, of "\<lambda>n. Inr (sample_rnd 3 n)" "sample_rnd 3 32"
      "\<lambda>n. Inr (sample_rnd 4 n)" "sample_rnd 4 32"]
  obtain st2 st3 where
    "login_commit sample_svc sample_instant (\<lambda>n. Inr (sample_rnd 3 n)) st1 u x = (st2, Inr (raw_url_encode (sample_rnd 3 32)))"
    "login_commit sample_svc sample_instant (\<lambda>n. Inr (sample_rnd 4 n)) st2 u x = (st3, Inr (raw_url_encode (sample_rnd 4 32)))"
    by (auto simp: sessionIDBytes_def)
  with k show ?thesis by blast
qed

end
