(* ===== verification/AccountKeys.thy ===== *)
theory AccountKeys
  imports WebhookConfig
begin

text \<open>
  The rotatable bearer key of an account: \<open>internal/domain/accountkey\<close>, its store
  \<open>inmemory/accountkey.go\<close> and the rotation service \<open>app/account_key.go\<close> with its idempotency guard.
  SHA-256 (as raw bytes) and the random source are parameters; the operator of the context, new ids
  and clock readings are arguments.
\<close>

section \<open>The key\<close>

definition ak_secretBytes :: nat where "ak_secretBytes = 32"
definition ak_secretPrefix :: string where "ak_secretPrefix = ''ak_''"

definition GenerateSecret :: "(nat \<Rightarrow> string result) \<Rightarrow> string result" where
  "GenerateSecret rd = bindE (rd ak_secretBytes) (\<lambda>b. Inr (ak_secretPrefix @ raw_url_encode b))"

definition HasSecretShape :: "string \<Rightarrow> bool" where
  "HasSecretShape secret \<longleftrightarrow> prefix ak_secretPrefix secret"

definition HashSecret :: "(string \<Rightarrow> string) \<Rightarrow> string \<Rightarrow> string" where
  "HashSecret sha secret = hex_encode (sha secret)"

record account_key =
  ky_accountID :: string
  ky_hash :: string
  ky_active :: bool
  ky_createdAt :: gotime
  ky_rotatedAt :: gotime

definition NewAccountKey :: "(string \<Rightarrow> string) \<Rightarrow> string \<Rightarrow> string \<Rightarrow> gotime \<Rightarrow> account_key result" where
  "NewAccountKey sha accountID secret now =
     (let accountID = TrimSpace accountID
      in if accountID = [] then Inl (NewValidationError ''account_id'' ''account id is required'')
         else if secret = [] then Inl (NewValidationError ''secret'' ''secret is required'')
         else Inr \<lparr>ky_accountID = accountID, ky_hash = HashSecret sha secret, ky_active = True, ky_createdAt = now,
                   ky_rotatedAt = zero_time\<rparr>)"

definition MintKey ::
  "(string \<Rightarrow> string) \<Rightarrow> (nat \<Rightarrow> string result) \<Rightarrow> string \<Rightarrow> gotime \<Rightarrow> (account_key \<times> string) result" where
  "MintKey sha rd accountID now =
     bindE (GenerateSecret rd) (\<lambda>secret. bindE (NewAccountKey sha accountID secret now) (\<lambda>k. Inr (k, secret)))"

definition RehydrateKey :: "string \<Rightarrow> string \<Rightarrow> bool \<Rightarrow> gotime \<Rightarrow> gotime \<Rightarrow> account_key" where
  "RehydrateKey accountID hash active createdAt rotatedAt =
     \<lparr>ky_accountID = accountID, ky_hash = hash, ky_active = active, ky_createdAt = createdAt, ky_rotatedAt = rotatedAt\<rparr>"

definition Supersede :: "account_key \<Rightarrow> gotime \<Rightarrow> account_key" where
  "Supersede k now = k\<lparr>ky_active := False, ky_rotatedAt := now\<rparr>"

definition VerifyKey :: "(string \<Rightarrow> string) \<Rightarrow> account_key \<Rightarrow> string \<Rightarrow> bool" where
  "VerifyKey sha k secret \<longleftrightarrow> HashSecret sha secret = ky_hash k \<and> ky_active k"

section \<open>The store\<close>

record key_store =
  ks_byAccount :: "(string \<times> account_key) list"
  ks_byHash :: "(string \<times> string) list"

definition NewAccountKeyStore :: key_store where
  "NewAccountKeyStore = \<lparr>ks_byAccount = [], ks_byHash = []\<rparr>"

text \<open>The superseded key is dropped from the store; marking it has no further effect.\<close>

definition PutKey ::
  "(string \<Rightarrow> string) \<Rightarrow> (nat \<Rightarrow> string result) \<Rightarrow> gotime \<Rightarrow> key_store \<Rightarrow> string \<Rightarrow> key_store \<times> string result" where
  "PutKey sha rd now s accountID =
     (if accountID = [] then (s, Inl (NewValidationError ''account_id'' ''account id is required''))
      else case MintKey sha rd accountID now of
        Inl e \<Rightarrow> (s, Inl e)
      | Inr (k, plaintext) \<Rightarrow>
          let hashes = (case map_of (ks_byAccount s) accountID of
                          None \<Rightarrow> ks_byHash s
                        | Some prev \<Rightarrow> del (ky_hash (Supersede prev now)) (ks_byHash s))
          in (\<lparr>ks_byAccount = put accountID k (ks_byAccount s), ks_byHash = put (ky_hash k) accountID hashes\<rparr>,
              Inr plaintext))"

definition RotateKey ::
  "(string \<Rightarrow> string) \<Rightarrow> (nat \<Rightarrow> string result) \<Rightarrow> gotime \<Rightarrow> key_store \<Rightarrow> string \<Rightarrow> key_store \<times> string result" where
  "RotateKey sha rd now s accountID = PutKey sha rd now s accountID"

definition AuthenticateAccountKey :: "(string \<Rightarrow> string) \<Rightarrow> key_store \<Rightarrow> string \<Rightarrow> string option" where
  "AuthenticateAccountKey sha s secret =
     (if secret = [] then None
      else case map_of (ks_byHash s) (HashSecret sha secret) of
        None \<Rightarrow> None
      | Some accountID \<Rightarrow>
          (case map_of (ks_byAccount s) accountID of
             None \<Rightarrow> None
           | Some k \<Rightarrow> if VerifyKey sha k secret then Some accountID else None))"

section \<open>The rotation service\<close>

definition ErrAccountKeyAlreadyRotated :: go_error where
  "ErrAccountKeyAlreadyRotated = Opaque ''account key already rotated for this idempotency key''"

definition ErrAccountKeysUnavailable :: go_error where
  "ErrAccountKeysUnavailable = Opaque ''account key store not configured''"

definition accountKeyIdempotencyTTL :: int where "accountKeyIdempotencyTTL = 15 * 60 * 1000000000"

text \<open>\<open>ak_audit\<close> is \<open>None\<close> when the audit sink or the id provider is not wired.\<close>

record 'w key_service =
  ak_keys :: "('w \<Rightarrow> string \<Rightarrow> 'w \<times> string result) option"
  ak_audit :: "('w \<Rightarrow> entry \<Rightarrow> 'w \<times> unit result) option"

type_synonym key_guard = "(string \<times> gotime) list"

definition prune_keys :: "gotime \<Rightarrow> key_guard \<Rightarrow> key_guard" where
  "prune_keys now g = filter (\<lambda>(k, at). \<not> SubTime now at > accountKeyIdempotencyTTL) g"

record rotation_stamps =
  rs_guardAt :: gotime
  rs_entryID :: string
  rs_auditedAt :: gotime
  rs_seenAt :: gotime

definition appendMintAudit ::
  "'w key_service \<Rightarrow> string \<Rightarrow> rotation_stamps \<Rightarrow> 'w \<Rightarrow> string \<Rightarrow> 'w \<times> unit result" where
  "appendMintAudit svc opr sp w accountID =
     (case ak_audit svc of
        None \<Rightarrow> (w, Inr ())
      | Some sink \<Rightarrow>
          (case wrapE ''build account-key mint audit entry''
                  (NewAccountKeyMintEntry (rs_entryID sp) opr accountID (rs_auditedAt sp)) of
             Inl e \<Rightarrow> (w, Inl e)
           | Inr x \<Rightarrow> (case sink w x of (w', y) \<Rightarrow> (w', wrapE ''append account-key mint audit entry'' y))))"

definition RotateAccountKey ::
  "'w key_service \<Rightarrow> string \<Rightarrow> rotation_stamps \<Rightarrow> key_guard \<times> 'w \<Rightarrow> string \<Rightarrow> string \<Rightarrow>
     (key_guard \<times> 'w) \<times> string result" where
  "RotateAccountKey svc opr sp gw accountID idemKey =
     (let accountID = TrimSpace accountID; idemKey = TrimSpace idemKey; (g, w) = gw
      in if accountID = [] then (gw, Inl (NewValidationError ''account_id'' ''account id is required''))
         else if idemKey = [] then (gw, Inl (NewValidationError ''idempotency_key'' ''idempotency key is required''))
         else case ak_keys svc of
           None \<Rightarrow> (gw, Inl ErrAccountKeysUnavailable)
         | Some mint \<Rightarrow>
             (let gkey = accountID @ [CHR 0x00] @ idemKey; g = prune_keys (rs_guardAt sp) g
              in if map_of g gkey \<noteq> None then ((g, w), Inl ErrAccountKeyAlreadyRotated)
                 else case mint w accountID of
                   (w, Inl e) \<Rightarrow> ((g, w), Inl e)
                 | (w, Inr plaintext) \<Rightarrow>
                     (case appendMintAudit svc opr sp w accountID of
                        (w, Inl e) \<Rightarrow> ((g, w), Inl e)
                      | (w, Inr _) \<Rightarrow> ((put gkey (rs_seenAt sp) g, w), Inr plaintext))))"

section \<open>The store keeps one key per account\<close>

text \<open>The two maps are inverse to each other, and every key in the store is active and not blank.\<close>

definition keys_ok :: "key_store \<Rightarrow> bool" where
  "keys_ok s \<longleftrightarrow>
     (\<forall>h a. map_of (ks_byHash s) h = Some a \<longleftrightarrow> (\<exists>k. map_of (ks_byAccount s) a = Some k \<and> ky_hash k = h)) \<and>
     (\<forall>a k. map_of (ks_byAccount s) a = Some k \<longrightarrow> ky_active k)"

lemma keys_ok_New: "keys_ok NewAccountKeyStore"
  by (simp add: keys_ok_def NewAccountKeyStore_def)

lemma authenticates_iff:
  assumes "keys_ok s"
  shows "AuthenticateAccountKey sha s secret = Some a \<longleftrightarrow>
    secret \<noteq> [] \<and> (\<exists>k. map_of (ks_byAccount s) a = Some k \<and> ky_hash k = HashSecret sha secret)"
proof -
  have h: "map_of (ks_byHash s) h = Some a \<longleftrightarrow> (\<exists>k. map_of (ks_byAccount s) a = Some k \<and> ky_hash k = h)"
    "map_of (ks_byAccount s) a = Some k \<Longrightarrow> ky_active k" for h a k
    using assms by (auto simp: keys_ok_def)
  show ?thesis
    using h(1) [of "HashSecret sha secret" a] h(2) [of a]
    by (auto simp: AuthenticateAccountKey_def VerifyKey_def split: option.splits if_splits)
qed

lemma MintKey_Inr:
  "MintKey sha rd accountID now = Inr (k, p) \<Longrightarrow> ky_hash k = HashSecret sha p \<and> ky_active k \<and> p \<noteq> []"
  by (auto simp: MintKey_def NewAccountKey_def Let_def bindE_Inr_iff split: if_splits)

lemma Supersede_hash [simp]: "ky_hash (Supersede k now) = ky_hash k"
  by (simp add: Supersede_def)

lemma PutKey_Inr:
  assumes "keys_ok s" "PutKey sha rd now s a = (s', Inr p)"
    and "\<And>b. map_of (ks_byHash s) (HashSecret sha p) = Some b \<Longrightarrow> b = a"
  shows "keys_ok s'" "\<exists>k. ky_hash k = HashSecret sha p \<and> map_of (ks_byAccount s') = (map_of (ks_byAccount s))(a \<mapsto> k)" "p \<noteq> []"
proof -
  from assms(2) obtain k where k: "MintKey sha rd a now = Inr (k, p)" and
    s': "s' = \<lparr>ks_byAccount = put a k (ks_byAccount s), ks_byHash = put (ky_hash k) a
      (case map_of (ks_byAccount s) a of None \<Rightarrow> ks_byHash s | Some prev \<Rightarrow> del (ky_hash prev) (ks_byHash s))\<rparr>"
    by (auto simp: PutKey_def Let_def split: if_splits sum.splits prod.splits cong: option.case_cong)
  note m = MintKey_Inr [OF k]
  then show "p \<noteq> []" by simp
  from m s' show "\<exists>k. ky_hash k = HashSecret sha p \<and> map_of (ks_byAccount s') = (map_of (ks_byAccount s))(a \<mapsto> k)"
    by auto
  have ok: "map_of (ks_byHash s) h = Some b \<longleftrightarrow> (\<exists>k. map_of (ks_byAccount s) b = Some k \<and> ky_hash k = h)"
    "map_of (ks_byAccount s) b = Some x \<Longrightarrow> ky_active x" for h b x
    using assms(1) by (auto simp: keys_ok_def)
  have fresh: "map_of (ks_byHash s) (ky_hash k) = Some b \<Longrightarrow> b = a" for b using assms(3) m by simp
  show "keys_ok s'"
  proof (cases "map_of (ks_byAccount s) a")
    case None
    with ok fresh m show ?thesis unfolding keys_ok_def s' by (auto split: if_splits)
  next
    case (Some prev)
    have "map_of (ks_byHash s) (ky_hash prev) = Some a" using ok(1) Some by blast
    with Some ok fresh m show ?thesis unfolding keys_ok_def s'
      by (auto split: if_splits) (metis option.inject)+
  qed
qed

lemma PutKey_Inl: "PutKey sha rd now s a = (s', Inl e) \<Longrightarrow> s' = s"
  by (auto simp: PutKey_def Let_def split: if_splits sum.splits prod.splits)

section \<open>Sequences of rotations\<close>

text \<open>The store after a sequence of rotations and the secrets that were handed out, oldest first.\<close>

fun put_keys ::
  "(string \<Rightarrow> string) \<Rightarrow> key_store \<Rightarrow> (string \<times> (nat \<Rightarrow> string result) \<times> gotime) list \<Rightarrow>
     key_store \<times> (string \<times> string) list" where
  "put_keys sha s [] = (s, [])"
| "put_keys sha s ((a, rd, now) # rs) =
     (case PutKey sha rd now s a of
        (s1, Inl _) \<Rightarrow> put_keys sha s1 rs
      | (s1, Inr p) \<Rightarrow> (case put_keys sha s1 rs of (s2, ms) \<Rightarrow> (s2, (a, p) # ms)))"

definition live_hashes :: "key_store \<Rightarrow> string set" where
  "live_hashes s = dom (map_of (ks_byHash s))"

lemma live_hashes_iff: "keys_ok s \<Longrightarrow> h \<in> live_hashes s \<longleftrightarrow> (\<exists>a k. map_of (ks_byAccount s) a = Some k \<and> ky_hash k = h)"
  by (auto simp: live_hashes_def keys_ok_def dom_def)

lemma put_keys_latest:
  assumes "keys_ok s" "put_keys sha s rs = (s', ms)" "distinct (map (HashSecret sha \<circ> snd) ms)"
    "set (map (HashSecret sha \<circ> snd) ms) \<inter> live_hashes s = {}"
  shows "keys_ok s' \<and> (\<forall>a. map_option ky_hash (map_of (ks_byAccount s') a) =
    (case map_of (rev ms) a of None \<Rightarrow> map_option ky_hash (map_of (ks_byAccount s) a) | Some p \<Rightarrow> Some (HashSecret sha p)))"
  using assms
proof (induction sha s rs arbitrary: ms rule: put_keys.induct)
  case (2 sha s a rd now rs)
  show ?case
  proof (cases "PutKey sha rd now s a")
    case (Pair s1 r)
    show ?thesis
    proof (cases r)
      case (Inl e)
      then have "s1 = s" using Pair PutKey_Inl by blast
      with Pair Inl "2.IH"(1) [of s1 r e ms] "2.prems" show ?thesis by (simp cong: option.case_cong)
    next
      case (Inr p)
      with Pair "2.prems"(2) obtain ms' where ms: "put_keys sha s1 rs = (s', ms')" "ms = (a, p) # ms'"
        by (auto split: prod.splits)
      have "HashSecret sha p \<notin> live_hashes s" using "2.prems"(4) ms by auto
      then have n: "map_of (ks_byHash s) (HashSecret sha p) = Some b \<Longrightarrow> b = a" for b by (auto simp: live_hashes_def)
      note P = PutKey_Inr [OF "2.prems"(1) Pair [unfolded Inr] n]
      from P(2) obtain k where k: "ky_hash k = HashSecret sha p" "map_of (ks_byAccount s1) = (map_of (ks_byAccount s))(a \<mapsto> k)"
        by blast
      have sub: "live_hashes s1 \<subseteq> insert (HashSecret sha p) (live_hashes s)"
        using k P(1) "2.prems"(1) by (auto simp: live_hashes_iff split: if_splits)
      let ?new = "set (map (HashSecret sha \<circ> snd) ms')"
      have "HashSecret sha p \<notin> ?new" "?new \<inter> live_hashes s = {}" using "2.prems"(3,4) ms(2) by (simp_all add: o_def)
      with sub have "?new \<inter> live_hashes s1 = {}" by blast
      with "2.IH"(2) [of s1 r p ms'] Pair Inr ms P(1) "2.prems"(3) k show ?thesis
        by (auto simp: map_add_def split: option.splits)
    qed
  qed
qed simp

section \<open>The service over the store in memory\<close>

record key_world =
  kw_keys :: key_store
  kw_audit :: "entry list"

definition memory_key_service :: "(string \<Rightarrow> string) \<Rightarrow> (nat \<Rightarrow> string result) \<Rightarrow> gotime \<Rightarrow> key_world key_service" where
  "memory_key_service sha rd now =
     \<lparr>ak_keys = Some (\<lambda>w a. case PutKey sha rd now (kw_keys w) a of (s, r) \<Rightarrow> (w\<lparr>kw_keys := s\<rparr>, r)),
      ak_audit = Some (\<lambda>w e. (w\<lparr>kw_audit := kw_audit w @ [e]\<rparr>, Inr ()))\<rparr>"

text \<open>The same with an audit sink that fails.\<close>

definition failing_audit_service :: "(string \<Rightarrow> string) \<Rightarrow> (nat \<Rightarrow> string result) \<Rightarrow> gotime \<Rightarrow> key_world key_service" where
  "failing_audit_service sha rd now = (memory_key_service sha rd now)\<lparr>ak_audit := Some (\<lambda>w e. (w, Inl ErrUnavailable))\<rparr>"

lemma rotate_Inr:
  assumes "RotateAccountKey (memory_key_service sha rd now) opr sp (g, w) acct idem = ((g', w'), Inr p)"
  shows "TrimSpace acct \<noteq> []" "TrimSpace idem \<noteq> []"
    "PutKey sha rd now (kw_keys w) (TrimSpace acct) = (kw_keys w', Inr p)"
    "g' = put (TrimSpace acct @ [CHR 0x00] @ TrimSpace idem) (rs_seenAt sp) (prune_keys (rs_guardAt sp) g)"
    "\<exists>x. kw_audit w' = kw_audit w @ [x] \<and> au_action x = ActionMintAccountKey \<and> au_accountID x = TrimSpace acct \<and>
       au_operatorID x = TrimSpace opr"
  using assms
  by (auto simp: RotateAccountKey_def Let_def memory_key_service_def appendMintAudit_def NewAccountKeyMintEntry_def
      zero_entry_def split: if_splits prod.splits sum.splits option.splits)

lemma prune_keeps: "\<not> SubTime now at > accountKeyIdempotencyTTL \<Longrightarrow> map_of (prune_keys now (put k at g)) k \<noteq> None"
proof -
  assume t: "\<not> SubTime now at > accountKeyIdempotencyTTL"
  have "(k, at) \<in> set (put k at g)" by (induction k at g rule: put.induct) auto
  with t have "(k, at) \<in> set (prune_keys now (put k at g))" by (auto simp: prune_keys_def)
  then show ?thesis by (auto simp: map_of_eq_None_iff image_iff) force
qed

section \<open>Claims\<close>

text \<open>
  C33: rotating a key revokes the one before, at once and for nobody else. After any sequence of
  rotations on an empty store, if no two secrets handed out have the same hash, a presented secret
  authenticates as an account exactly when its hash is that of the account's latest secret; an earlier
  secret authenticates as nobody.
\<close>

theorem rotation_revokes:
  assumes "put_keys sha NewAccountKeyStore rs = (s, ms)" "distinct (map (HashSecret sha \<circ> snd) ms)"
  shows "(AuthenticateAccountKey sha s q = Some a \<longleftrightarrow>
      q \<noteq> [] \<and> (\<exists>p. map_of (rev ms) a = Some p \<and> HashSecret sha p = HashSecret sha q)) \<and>
    ((a, p) \<in> set ms \<and> map_of (rev ms) a \<noteq> Some p \<longrightarrow> AuthenticateAccountKey sha s p = None)"
proof -
  have l: "keys_ok s" "map_option ky_hash (map_of (ks_byAccount s) b) = map_option (HashSecret sha) (map_of (rev ms) b)" for b
    using put_keys_latest [OF keys_ok_New assms]
    by (auto simp: live_hashes_def NewAccountKeyStore_def split: option.splits)
  have auth: "AuthenticateAccountKey sha s q = Some b \<longleftrightarrow>
      q \<noteq> [] \<and> (\<exists>p. map_of (rev ms) b = Some p \<and> HashSecret sha p = HashSecret sha q)" for q b
    using authenticates_iff [OF l(1), of sha q b] l(2) [of b] by (cases "map_of (ks_byAccount s) b"; cases "map_of (rev ms) b") auto
  have "AuthenticateAccountKey sha s p = None" if "(a, p) \<in> set ms" "map_of (rev ms) a \<noteq> Some p"
  proof (cases "AuthenticateAccountKey sha s p")
    case (Some b)
    then obtain p' where p': "map_of (rev ms) b = Some p'" "HashSecret sha p' = HashSecret sha p" using auth by blast
    then have "(b, p') \<in> set ms" using map_of_SomeD by fastforce
    with that(1) p'(2) assms(2) have "(b, p') = (a, p)" unfolding distinct_map inj_on_def by fastforce
    with p' that(2) show ?thesis by simp
  qed
  with auth show ?thesis by blast
qed

text \<open>
  a secret is shown once. When a rotation succeeds, it appends exactly one audit entry, of the
  operator and for the account; a retry with the same account and idempotency key within the window is
  refused, changes neither the keys nor the trail, and the secret handed out first keeps working.
\<close>

theorem secret_shown_once:
  assumes "keys_ok (kw_keys w)"
    and "RotateAccountKey (memory_key_service sha rd now) opr sp (g, w) acct idem = ((g', w'), Inr p)"
    and "map_of (ks_byHash (kw_keys w)) (HashSecret sha p) = None"
    and "\<not> SubTime (rs_guardAt sp') (rs_seenAt sp) > accountKeyIdempotencyTTL"
  shows "AuthenticateAccountKey sha (kw_keys w') p = Some (TrimSpace acct) \<and>
    (\<exists>x. kw_audit w' = kw_audit w @ [x] \<and> au_action x = ActionMintAccountKey \<and> au_accountID x = TrimSpace acct \<and>
       au_operatorID x = TrimSpace opr) \<and>
    (\<exists>g''. RotateAccountKey (memory_key_service sha rd' now') opr' sp' (g', w') acct idem =
       ((g'', w'), Inl ErrAccountKeyAlreadyRotated))"
proof -
  note r = rotate_Inr [OF assms(2)]
  note P = PutKey_Inr [OF assms(1) r(3)]
  have "keys_ok (kw_keys w')" "p \<noteq> []" "\<exists>k. ky_hash k = HashSecret sha p \<and>
      map_of (ks_byAccount (kw_keys w')) = (map_of (ks_byAccount (kw_keys w)))(TrimSpace acct \<mapsto> k)"
    using P assms(3) by auto
  then have "AuthenticateAccountKey sha (kw_keys w') p = Some (TrimSpace acct)"
    by (auto simp: authenticates_iff)
  moreover have "\<exists>g''. RotateAccountKey (memory_key_service sha rd' now') opr' sp' (g', w') acct idem =
       ((g'', w'), Inl ErrAccountKeyAlreadyRotated)"
    using r(1,2) prune_keeps [OF assms(4)] by (simp add: RotateAccountKey_def Let_def r(4) memory_key_service_def)
  ultimately show ?thesis using r(5) by blast
qed

text \<open>
  a rotation whose audit entry cannot be written has already happened. The call answers with an error,
  no entry is on the trail, no secret is handed out, and yet the secret the account had no longer
  authenticates.
\<close>

theorem unaudited_rotation_revokes:
  assumes "keys_ok (kw_keys w)" "AuthenticateAccountKey sha (kw_keys w) old = Some acct" "TrimSpace acct = acct" "acct \<noteq> []"
    and "rd ak_secretBytes = Inr b" "map_of (ks_byHash (kw_keys w)) (HashSecret sha (ak_secretPrefix @ raw_url_encode b)) = None"
    and "HashSecret sha (ak_secretPrefix @ raw_url_encode b) \<noteq> HashSecret sha old" "TrimSpace idem \<noteq> []" "TrimSpace (rs_entryID sp) \<noteq> []"
  shows "\<exists>w' e. RotateAccountKey (failing_audit_service sha rd now) opr sp ([], w) acct idem = (([], w'), Inl e) \<and>
    kw_audit w' = kw_audit w \<and> AuthenticateAccountKey sha (kw_keys w') old = None"
proof -
  let ?p = "ak_secretPrefix @ raw_url_encode b"
  have "\<exists>s. PutKey sha rd now (kw_keys w) acct = (s, Inr ?p)"
    using assms(3-5) by (simp add: PutKey_def MintKey_def GenerateSecret_def NewAccountKey_def Let_def ak_secretPrefix_def)
  then obtain s where s: "PutKey sha rd now (kw_keys w) acct = (s, Inr ?p)" ..
  have P: "keys_ok s" "\<exists>k. ky_hash k = HashSecret sha ?p \<and> map_of (ks_byAccount s) = (map_of (ks_byAccount (kw_keys w)))(acct \<mapsto> k)"
    using PutKey_Inr [OF assms(1) s] assms(6) by auto
  have "AuthenticateAccountKey sha s old = None"
  proof (cases "AuthenticateAccountKey sha s old")
    case (Some c)
    then obtain k where k: "map_of (ks_byAccount s) c = Some k" "ky_hash k = HashSecret sha old" and "old \<noteq> []"
      using authenticates_iff [OF P(1)] by blast
    with P(2) assms(7) have "c \<noteq> acct" "map_of (ks_byAccount (kw_keys w)) c = Some k" by (auto split: if_splits)
    with k \<open>old \<noteq> []\<close> authenticates_iff [OF assms(1), of sha old c] assms(2) show ?thesis by auto
  qed
  then show ?thesis
    using s assms(3,4,8,9)
    by (simp add: RotateAccountKey_def Let_def failing_audit_service_def memory_key_service_def prune_keys_def
        appendMintAudit_def NewAccountKeyMintEntry_def)
qed

section \<open>Witnesses\<close>

definition sample_rotation :: "string \<Rightarrow> string \<Rightarrow> string \<times> (nat \<Rightarrow> string result) \<times> gotime" where
  "sample_rotation a b = (a, \<lambda>n. Inr b, zero_time)"

definition sample_key_store :: key_store where
  "sample_key_store = fst (put_keys (\<lambda>x. x) NewAccountKeyStore [sample_rotation ''a1'' ''x''])"

definition sample_key_world :: key_world where
  "sample_key_world = \<lparr>kw_keys = NewAccountKeyStore, kw_audit = []\<rparr>"

definition sample_rotation_stamps :: rotation_stamps where
  "sample_rotation_stamps = \<lparr>rs_guardAt = zero_time, rs_entryID = ''e1'', rs_auditedAt = zero_time, rs_seenAt = zero_time\<rparr>"

theorem rotation_revokes_witness:
  "AuthenticateAccountKey (\<lambda>x. x) (fst (put_keys (\<lambda>x. x) NewAccountKeyStore
     [sample_rotation ''a1'' ''x'', sample_rotation ''a2'' ''y'', sample_rotation ''a1'' ''z''])) ''ak_eA'' = None"
proof -
  let ?rs = "[sample_rotation ''a1'' ''x'', sample_rotation ''a2'' ''y'', sample_rotation ''a1'' ''z'']"
  have m: "snd (put_keys (\<lambda>x. x) NewAccountKeyStore ?rs) = [(''a1'', ''ak_eA''), (''a2'', ''ak_eQ''), (''a1'', ''ak_eg'')]"
    by code_simp
  have d: "distinct (map (HashSecret (\<lambda>x. x) \<circ> snd) [(''a1'', ''ak_eA''), (''a2'', ''ak_eQ''), (''a1'', ''ak_eg'')])" by code_simp
  have "put_keys (\<lambda>x. x) NewAccountKeyStore ?rs =
      (fst (put_keys (\<lambda>x. x) NewAccountKeyStore ?rs), [(''a1'', ''ak_eA''), (''a2'', ''ak_eQ''), (''a1'', ''ak_eg'')])"
    using m by (metis prod.collapse)
  from rotation_revokes [OF this d, of "[]" "''a1''" "''ak_eA''"] show ?thesis by simp
qed

theorem secret_shown_once_witness:
  "\<exists>g w. RotateAccountKey (memory_key_service (\<lambda>x. x) (\<lambda>n. Inr ''x'') zero_time) ''op'' sample_rotation_stamps
       ([], sample_key_world) ''a1'' ''k'' = ((g, w), Inr ''ak_eA'') \<and>
     AuthenticateAccountKey (\<lambda>x. x) (kw_keys w) ''ak_eA'' = Some ''a1''"
proof -
  let ?r = "RotateAccountKey (memory_key_service (\<lambda>x. x) (\<lambda>n. Inr ''x'') zero_time) ''op'' sample_rotation_stamps
       ([], sample_key_world) ''a1'' ''k''"
  have t: "TrimSpace ''a1'' = ''a1''" by code_simp
  have "snd ?r = Inr ''ak_eA''" by code_simp
  then obtain g w where r: "?r = ((g, w), Inr ''ak_eA'')" by (metis prod.collapse)
  have ok: "keys_ok (kw_keys sample_key_world)" by (simp add: sample_key_world_def keys_ok_New)
  have n: "map_of (ks_byHash (kw_keys sample_key_world)) h = None" for h
    by (simp add: sample_key_world_def NewAccountKeyStore_def)
  have l: "\<not> SubTime (rs_guardAt sample_rotation_stamps) (rs_seenAt sample_rotation_stamps) > accountKeyIdempotencyTTL"
    by code_simp
  from r secret_shown_once [OF ok r n l] t show ?thesis by auto
qed

theorem unaudited_rotation_revokes_witness:
  "AuthenticateAccountKey (\<lambda>x. x) sample_key_store ''ak_eA'' = Some ''a1'' \<and>
   (\<exists>w e. RotateAccountKey (failing_audit_service (\<lambda>x. x) (\<lambda>n. Inr ''z'') zero_time) ''op'' sample_rotation_stamps
       ([], \<lparr>kw_keys = sample_key_store, kw_audit = []\<rparr>) ''a1'' ''k'' = (([], w), Inl e) \<and>
     AuthenticateAccountKey (\<lambda>x. x) (kw_keys w) ''ak_eA'' = None)"
proof -
  let ?w = "\<lparr>kw_keys = sample_key_store, kw_audit = []\<rparr>"
  have s: "put_keys (\<lambda>x. x) NewAccountKeyStore [sample_rotation ''a1'' ''x''] = (sample_key_store, [(''a1'', ''ak_eA'')])"
    by code_simp
  have ok: "keys_ok (kw_keys ?w)" using put_keys_latest [OF keys_ok_New s] by (simp add: live_hashes_def NewAccountKeyStore_def)
  have a: "AuthenticateAccountKey (\<lambda>x. x) (kw_keys ?w) ''ak_eA'' = Some ''a1''"
    and t: "TrimSpace ''a1'' = ''a1''" "''a1'' \<noteq> []"
    and f: "map_of (ks_byHash (kw_keys ?w)) (HashSecret (\<lambda>x. x) (ak_secretPrefix @ raw_url_encode ''z'')) = None"
    and d: "HashSecret (\<lambda>x. x) (ak_secretPrefix @ raw_url_encode ''z'') \<noteq> HashSecret (\<lambda>x. x) ''ak_eA''"
    and i: "TrimSpace ''k'' \<noteq> []" "TrimSpace (rs_entryID sample_rotation_stamps) \<noteq> []"
    by code_simp+
  have r: "(\<lambda>n. Inr ''z'' :: string result) ak_secretBytes = Inr ''z''" by simp
  note u = unaudited_rotation_revokes [where rd = "\<lambda>n. Inr ''z''" and b = "''z''", OF ok a t r f d i]
  from a u [of zero_time "''op''"] show ?thesis by auto
qed

end
