(* ===== verification/WebhookRefs.thy ===== *)
theory WebhookRefs
  imports BankVault
begin

text \<open>
  The secret callback references of the inbound bank webhook: \<open>internal/domain/webhookref\<close>, the store in
  memory of \<open>internal/adapters/persistence/inmemory/webhook_ref.go\<close>, the minting service and the resolver of
  \<open>internal/app/webhook_ref_mint.go\<close> and \<open>webhook_ref_resolve.go\<close>. The hash and the random source are
  parameters: \<open>sha\<close> stands for SHA-256, \<open>rd n\<close> for a read of \<open>n\<close> random bytes.
\<close>

section \<open>References\<close>

definition refBytes :: nat where "refBytes = 32"

definition RefLen :: nat where "RefLen = 43"

definition GenerateRef :: "(nat \<Rightarrow> string result) \<Rightarrow> string result" where
  "GenerateRef rd = bindE (rd refBytes) (\<lambda>b. Inr (raw_url_encode b))"

definition SumRef :: "(string \<Rightarrow> string) \<Rightarrow> string \<Rightarrow> string" where
  "SumRef sha r = sha r"

definition ref_char :: "char \<Rightarrow> bool" where
  "ref_char c \<longleftrightarrow> (CHR ''A'' \<le> c \<and> c \<le> CHR ''Z'') \<or> (CHR ''a'' \<le> c \<and> c \<le> CHR ''z'') \<or> (CHR ''0'' \<le> c \<and> c \<le> CHR ''9'') \<or>
     c = CHR ''-'' \<or> c = CHR ''_''"

definition ValidRef :: "string \<Rightarrow> bool" where
  "ValidRef r \<longleftrightarrow> length r = RefLen \<and> list_all ref_char r"

section \<open>The store in memory\<close>

text \<open>From the hex of a reference's hash to the tenant that owns it.\<close>

type_synonym ref_store = "(string \<times> string) list"

definition NewWebhookRefStore :: ref_store where
  "NewWebhookRefStore = []"

definition PutWebhookRef :: "ref_store \<Rightarrow> string \<Rightarrow> string \<Rightarrow> ref_store \<times> unit result" where
  "PutWebhookRef s refSHA tenantID =
     (if refSHA = [] then (s, Inl (NewValidationError ''ref_sha256'' ''ref hash is required''))
      else if tenantID = [] then (s, Inl (NewValidationError ''tenant_id'' ''tenant id is required''))
      else let newHash = hex_encode refSHA
           in (put newHash tenantID (filter (\<lambda>(h, t). \<not> (t = tenantID \<and> h \<noteq> newHash)) s), Inr ()))"

definition RevokeWebhookRefs :: "ref_store \<Rightarrow> string \<Rightarrow> ref_store \<times> nat result" where
  "RevokeWebhookRefs s tenantID =
     (if tenantID = [] then (s, Inl (NewValidationError ''tenant_id'' ''tenant id is required''))
      else (filter (\<lambda>(h, t). t \<noteq> tenantID) s, Inr (length (filter (\<lambda>(h, t). t = tenantID) s))))"

definition LookupWebhookRef :: "ref_store \<Rightarrow> string \<Rightarrow> string option result" where
  "LookupWebhookRef s refSHA = (if refSHA = [] then Inr None else Inr (map_of s (hex_encode refSHA)))"

section \<open>Minting\<close>

text \<open>The world \<open>'w\<close> holds the store; \<open>None\<close> is a store that is not wired.\<close>

definition MintWebhookRef ::
  "('w \<Rightarrow> string \<Rightarrow> string \<Rightarrow> 'w \<times> unit result) option \<Rightarrow> (string \<Rightarrow> string) \<Rightarrow> (nat \<Rightarrow> string result) \<Rightarrow> 'w \<Rightarrow> string \<Rightarrow>
     'w \<times> string result" where
  "MintWebhookRef store sha rd w tenantID =
     (case store of
        None \<Rightarrow> (w, Inl (Opaque ''webhook ref store not configured''))
      | Some putRef \<Rightarrow>
          (case wrapE ''generate webhook ref'' (GenerateRef rd) of
             Inl e \<Rightarrow> (w, Inl e)
           | Inr r \<Rightarrow>
               (case putRef w (SumRef sha r) tenantID of
                  (w', Inl e) \<Rightarrow> (w', Inl (Errorf ''persist webhook ref'' e))
                | (w', Inr _) \<Rightarrow> (w', Inr r))))"

section \<open>Resolving\<close>

datatype ref_source = RefSourceNone | RefSourceDurable | RefSourceEnv

record ref_resolution =
  rr_TenantID :: string
  rr_Source :: ref_source
  rr_Mismatch :: bool

definition envOnly :: "string \<Rightarrow> ref_resolution" where
  "envOnly envTenant =
     (if envTenant = [] then \<lparr>rr_TenantID = [], rr_Source = RefSourceNone, rr_Mismatch = False\<rparr>
      else \<lparr>rr_TenantID = envTenant, rr_Source = RefSourceEnv, rr_Mismatch = False\<rparr>)"

definition ResolveRef ::
  "(string \<Rightarrow> string option result) option \<Rightarrow> (string \<Rightarrow> string) \<Rightarrow> string \<Rightarrow> string \<Rightarrow> ref_resolution result" where
  "ResolveRef store sha r envTenant =
     (case store of
        None \<Rightarrow> Inr (envOnly envTenant)
      | Some lookupRef \<Rightarrow>
          if \<not> ValidRef r then Inr (envOnly envTenant)
          else bindE (lookupRef (SumRef sha r)) (\<lambda>found.
            case found of
              None \<Rightarrow> Inr (envOnly envTenant)
            | Some durable \<Rightarrow>
                Inr \<lparr>rr_TenantID = durable, rr_Source = RefSourceDurable,
                     rr_Mismatch = (envTenant \<noteq> [] \<and> envTenant \<noteq> durable)\<rparr>))"

section \<open>Facts of the store\<close>

text \<open>At most one reference per tenant.\<close>

definition refs_ok :: "ref_store \<Rightarrow> bool" where
  "refs_ok s \<longleftrightarrow> distinct (keys s) \<and> (\<forall>h h' t. map_of s h = Some t \<longrightarrow> map_of s h' = Some t \<longrightarrow> h = h')"

lemma distinct_keys_filter: "distinct (keys s) \<Longrightarrow> distinct (keys (filter P s))"
  by (simp add: distinct_map_filter)

lemma map_of_filter_distinct:
  "distinct (keys s) \<Longrightarrow> map_of (filter P s) h = Some t \<longleftrightarrow> map_of s h = Some t \<and> P (h, t)"
  by (auto simp: distinct_map_filter)

lemma PutWebhookRef_map_of:
  assumes "distinct (keys s)" "PutWebhookRef s a t = (s', Inr ())"
  shows "map_of s' h = Some x \<longleftrightarrow> (if h = hex_encode a then x = t else map_of s h = Some x \<and> x \<noteq> t)"
  using assms by (auto simp: PutWebhookRef_def Let_def map_of_filter_distinct split: if_splits)

lemma refs_ok_Put:
  assumes "refs_ok s"
  shows "refs_ok (fst (PutWebhookRef s a t))"
proof (cases "a = [] \<or> t = []")
  case True
  with assms show ?thesis by (auto simp: PutWebhookRef_def)
next
  case False
  then obtain s' where s': "PutWebhookRef s a t = (s', Inr ())" by (simp add: PutWebhookRef_def Let_def)
  have d: "distinct (keys s)" using assms by (simp add: refs_ok_def)
  then have "distinct (keys s')"
    using s' False by (auto simp: PutWebhookRef_def Let_def intro: distinct_keys_filter)
  with assms s' show ?thesis
    by (auto simp: refs_ok_def PutWebhookRef_map_of [OF d s'] split: if_splits)
qed

lemma RevokeWebhookRefs_map_of:
  assumes "distinct (keys s)" "t \<noteq> []"
  shows "map_of (fst (RevokeWebhookRefs s t)) h = Some x \<longleftrightarrow> map_of s h = Some x \<and> x \<noteq> t"
  using assms by (simp add: RevokeWebhookRefs_def map_of_filter_distinct)

lemma refs_ok_Revoke:
  assumes "refs_ok s"
  shows "refs_ok (fst (RevokeWebhookRefs s t))"
proof (cases "t = []")
  case False
  have d: "distinct (keys s)" using assms by (simp add: refs_ok_def)
  then have "distinct (keys (fst (RevokeWebhookRefs s t)))"
    by (auto simp: RevokeWebhookRefs_def intro: distinct_keys_filter)
  with assms False show ?thesis
    by (auto simp: refs_ok_def RevokeWebhookRefs_map_of [OF d False])
qed (use assms in \<open>simp add: RevokeWebhookRefs_def\<close>)

lemma lookup_ref_iff:
  "LookupWebhookRef s a = Inr (Some t) \<longleftrightarrow> a \<noteq> [] \<and> map_of s (hex_encode a) = Some t"
  by (simp add: LookupWebhookRef_def)

lemma hex_encode_eq [simp]: "hex_encode a = hex_encode b \<longleftrightarrow> a = b"
  using hex_encode_inj by blast

section \<open>What the store promises\<close>

text \<open>
  The specification has no table: each tenant has at most one current reference, a new one replaces it, and
  a reference taken over by another tenant is lost to the first.
\<close>

datatype ref_event = PutRef string string | RevokeRefs string

fun spec_ref :: "ref_event \<Rightarrow> (string \<rightharpoonup> string) \<Rightarrow> (string \<rightharpoonup> string)" where
  "spec_ref (PutRef a t) f =
     (if a = [] \<or> t = [] then f else (\<lambda>x. if x = t then Some a else if f x = Some a then None else f x))"
| "spec_ref (RevokeRefs t) f = (if t = [] then f else f(t := None))"

fun step_ref :: "ref_event \<Rightarrow> ref_store \<Rightarrow> ref_store" where
  "step_ref (PutRef a t) s = fst (PutWebhookRef s a t)"
| "step_ref (RevokeRefs t) s = fst (RevokeWebhookRefs s t)"

definition holds_current :: "ref_store \<Rightarrow> (string \<rightharpoonup> string) \<Rightarrow> bool" where
  "holds_current s f \<longleftrightarrow> refs_ok s \<and> (\<forall>h t. map_of s h = Some t \<longleftrightarrow> (\<exists>a. f t = Some a \<and> h = hex_encode a))"

lemma holds_current_step:
  assumes "holds_current s f"
  shows "holds_current (step_ref e s) (spec_ref e f)"
proof -
  have ok: "refs_ok s" and d: "distinct (keys s)"
    and m: "map_of s h = Some t \<longleftrightarrow> (\<exists>a. f t = Some a \<and> h = hex_encode a)" for h t
    using assms by (auto simp: holds_current_def refs_ok_def)
  show ?thesis
  proof (cases e)
    case (PutRef a t)
    show ?thesis
    proof (cases "a = [] \<or> t = []")
      case True
      with PutRef assms show ?thesis by (auto simp: PutWebhookRef_def)
    next
      case False
      then obtain s' where s': "PutWebhookRef s a t = (s', Inr ())" by (simp add: PutWebhookRef_def Let_def)
      have "refs_ok s'" using refs_ok_Put [OF ok, of a t] s' by simp
      with PutRef False s' show ?thesis
        by (auto simp: holds_current_def PutWebhookRef_map_of [OF d s'] m)
    qed
  next
    case (RevokeRefs t)
    with refs_ok_Revoke [OF ok, of t] assms RevokeWebhookRefs_map_of [OF d, of t] m show ?thesis
      by (cases "t = []") (auto simp: holds_current_def RevokeWebhookRefs_def)
  qed
qed

lemma holds_current_run: "holds_current s f \<Longrightarrow> holds_current (fold step_ref es s) (fold spec_ref es f)"
  by (induction es arbitrary: s f) (auto simp: holds_current_step)

section \<open>Claims\<close>

text \<open>
  C32: the store of callback references implements the table of current references. After any sequence of
  writes and revocations, a hash resolves to a tenant exactly when it is that tenant's current reference:
  a tenant has at most one reference that works, a write replaces it at once, and neither writes nor
  revocations for one tenant touch another's, unless the same hash is written for both.
\<close>

theorem refs_refine_current:
  "LookupWebhookRef (fold step_ref es NewWebhookRefStore) a = Inr (Some t) \<longleftrightarrow>
     a \<noteq> [] \<and> fold spec_ref es (\<lambda>x. None) t = Some a"
proof -
  have "holds_current NewWebhookRefStore (\<lambda>x. None)" by (simp add: holds_current_def refs_ok_def NewWebhookRefStore_def)
  then have "holds_current (fold step_ref es NewWebhookRefStore) (fold spec_ref es (\<lambda>x. None))" by (rule holds_current_run)
  then show ?thesis by (auto simp: lookup_ref_iff holds_current_def)
qed

end
