(* ===== verification/WebhookRegistration.thy ===== *)
theory WebhookRegistration
  imports WebhookRefs
begin

text \<open>
  The registration of a tenant's callback at the bank and the sweep that repairs it:
  \<open>internal/app/webhook_registration.go\<close> and \<open>internal/app/webhook_reconcile.go\<close>. The bank's registrars
  are arguments of the definitions; \<open>'w\<close> is everything they and the reference store act on. Logging is left
  out: no branch depends on it.
\<close>

section \<open>Ports\<close>

record webhook_registration =
  wr_WebhookURL :: string
  wr_CreatedAt :: gotime

type_synonym 'w reader = "'w \<Rightarrow> 'w \<times> webhook_registration result"
type_synonym 'w writer = "'w \<Rightarrow> string \<Rightarrow> 'w \<times> unit result"

record 'w pix_registrar =
  px_Register :: "string \<Rightarrow> string \<Rightarrow> 'w writer"
  px_Get :: "string \<Rightarrow> string \<Rightarrow> 'w reader"

record 'w rec_registrar =
  rc_RegisterRec :: "string \<Rightarrow> 'w writer"
  rc_GetRec :: "string \<Rightarrow> 'w reader"
  rc_RegisterCobR :: "string \<Rightarrow> 'w writer"
  rc_GetCobR :: "string \<Rightarrow> 'w reader"

record 'w svc_registrar =
  sv_Register :: "string \<Rightarrow> string \<Rightarrow> 'w writer"
  sv_Get :: "string \<Rightarrow> string \<Rightarrow> 'w reader"

type_synonym 'w ref_lookup = "'w \<Rightarrow> string \<Rightarrow> string option result"

section \<open>Is a registration alive?\<close>

definition webhookCallbackPathPrefix :: string where
  "webhookCallbackPathPrefix = ''/webhooks/c6/''"

datatype registration_health =
    RegistrationHealthLive | RegistrationHealthStale | RegistrationHealthAbsent | RegistrationHealthUnknown

definition ClassifyWebhookRegistration ::
  "(string \<Rightarrow> string) \<Rightarrow> 'w ref_lookup option \<Rightarrow> 'w \<Rightarrow> string \<Rightarrow> string \<Rightarrow> string \<Rightarrow> registration_health" where
  "ClassifyWebhookRegistration sha refs w baseURL tenantID registeredURL =
     (let pre = baseURL @ webhookCallbackPathPrefix
      in if \<not> prefix pre registeredURL then RegistrationHealthStale
         else let r = drop (length pre) registeredURL
              in if r = [] then RegistrationHealthStale
                 else case refs of
                   None \<Rightarrow> RegistrationHealthLive
                 | Some lookupRef \<Rightarrow>
                     (case lookupRef w (SumRef sha r) of
                        Inl e \<Rightarrow> RegistrationHealthUnknown
                      | Inr None \<Rightarrow> RegistrationHealthStale
                      | Inr (Some owner) \<Rightarrow>
                          if owner \<noteq> tenantID then RegistrationHealthStale else RegistrationHealthLive))"

datatype registration_state = registrationLive | registrationStale | registrationUnknown

section \<open>The service\<close>

text \<open>\<open>None\<close> is a dependency that is not wired; the credential and tenant stores are only read.\<close>

record 'w registration_service =
  rg_creds :: "('w \<Rightarrow> string \<Rightarrow> string \<Rightarrow> bank_credential result) option"
  rg_registrar :: "'w pix_registrar option"
  rg_recRegistrar :: "'w rec_registrar option"
  rg_svcRegistrar :: "'w svc_registrar option"
  rg_services :: "string list"
  rg_minter :: "('w \<Rightarrow> string \<Rightarrow> 'w \<times> string result) option"
  rg_refs :: "'w ref_lookup option"
  rg_baseURL :: string
  rg_tenants :: "('w \<Rightarrow> string \<Rightarrow> tenant result) option"

definition registrationState ::
  "(string \<Rightarrow> string) \<Rightarrow> 'w registration_service \<Rightarrow> 'w \<Rightarrow> string \<Rightarrow> string \<Rightarrow> registration_state" where
  "registrationState sha s w tenantID registeredURL =
     (case ClassifyWebhookRegistration sha (rg_refs s) w (rg_baseURL s) tenantID registeredURL of
        RegistrationHealthLive \<Rightarrow> registrationLive
      | RegistrationHealthUnknown \<Rightarrow> registrationUnknown
      | _ \<Rightarrow> registrationStale)"

definition trim_slashes :: "string \<Rightarrow> string" where
  "trim_slashes u = rev (dropWhile (\<lambda>c. c = CHR ''/'') (rev u))"

definition NewWebhookRegistrationService ::
  "('w \<Rightarrow> string \<Rightarrow> string \<Rightarrow> bank_credential result) option \<Rightarrow> 'w pix_registrar option \<Rightarrow>
     ('w \<Rightarrow> string \<Rightarrow> 'w \<times> string result) option \<Rightarrow> string \<Rightarrow> 'w registration_service" where
  "NewWebhookRegistrationService creds registrar minter baseURL =
     \<lparr>rg_creds = creds, rg_registrar = registrar, rg_recRegistrar = None, rg_svcRegistrar = None, rg_services = [],
      rg_minter = minter, rg_refs = None, rg_baseURL = trim_slashes (TrimSpace baseURL), rg_tenants = None\<rparr>"

definition WithRefLookup :: "'w registration_service \<Rightarrow> 'w ref_lookup option \<Rightarrow> 'w registration_service" where
  "WithRefLookup s refs = s\<lparr>rg_refs := refs\<rparr>"

definition WithTenants ::
  "'w registration_service \<Rightarrow> ('w \<Rightarrow> string \<Rightarrow> tenant result) option \<Rightarrow> 'w registration_service" where
  "WithTenants s t = s\<lparr>rg_tenants := t\<rparr>"

definition WithRecurrenceRegistrar :: "'w registration_service \<Rightarrow> 'w rec_registrar option \<Rightarrow> 'w registration_service" where
  "WithRecurrenceRegistrar s r = s\<lparr>rg_recRegistrar := r\<rparr>"

definition WithServiceRegistrar ::
  "'w registration_service \<Rightarrow> 'w svc_registrar option \<Rightarrow> string list \<Rightarrow> 'w registration_service" where
  "WithServiceRegistrar s r services =
     (if length services > 0 then s\<lparr>rg_svcRegistrar := r, rg_services := services\<rparr> else s)"

definition ready :: "'w registration_service \<Rightarrow> bool" where
  "ready s \<longleftrightarrow> rg_creds s \<noteq> None \<and> rg_registrar s \<noteq> None \<and> rg_minter s \<noteq> None \<and> rg_baseURL s \<noteq> []"

definition tenantMayRegister :: "'w registration_service \<Rightarrow> 'w \<Rightarrow> string \<Rightarrow> bool" where
  "tenantMayRegister s w tenantID =
     (case rg_tenants s of
        None \<Rightarrow> True
      | Some findTenant \<Rightarrow> (case findTenant w tenantID of Inl e \<Rightarrow> False | Inr t \<Rightarrow> tn_active t))"

section \<open>Channels\<close>

record 'w webhook_channel =
  ch_name :: string
  ch_get :: "'w reader"
  ch_register :: "'w writer"

definition channelsFor :: "'w registration_service \<Rightarrow> string \<Rightarrow> string \<Rightarrow> 'w webhook_channel list" where
  "channelsFor s tenantID chave =
     (case rg_registrar s of
        None \<Rightarrow> []
      | Some r \<Rightarrow> [\<lparr>ch_name = ''pix'', ch_get = px_Get r tenantID chave, ch_register = px_Register r tenantID chave\<rparr>]) @
     (case rg_recRegistrar s of
        None \<Rightarrow> []
      | Some r \<Rightarrow>
          [\<lparr>ch_name = ''rec'', ch_get = rc_GetRec r tenantID, ch_register = rc_RegisterRec r tenantID\<rparr>,
           \<lparr>ch_name = ''cobr'', ch_get = rc_GetCobR r tenantID, ch_register = rc_RegisterCobR r tenantID\<rparr>]) @
     (case rg_svcRegistrar s of
        None \<Rightarrow> []
      | Some r \<Rightarrow>
          map (\<lambda>svc. \<lparr>ch_name = ToLower svc, ch_get = sv_Get r tenantID svc, ch_register = sv_Register r tenantID svc\<rparr>)
            (rg_services s))"

datatype gate_decision = gateSatisfied | gateNeedsRegistration | gateAmbiguous

text \<open>The loop of \<open>gate\<close>, with the flag \<open>needs\<close> as an argument.\<close>

fun gate_loop ::
  "(string \<Rightarrow> string) \<Rightarrow> 'w registration_service \<Rightarrow> string \<Rightarrow> bool \<Rightarrow> 'w webhook_channel list \<Rightarrow> 'w \<Rightarrow> 'w \<times> gate_decision" where
  "gate_loop sha s tenantID needs [] w = (w, if needs then gateNeedsRegistration else gateSatisfied)"
| "gate_loop sha s tenantID needs (ch # chs) w =
     (case ch_get ch w of
        (w', Inl e) \<Rightarrow>
          if errors_Is e ErrNotFound then gate_loop sha s tenantID True chs w' else (w', gateAmbiguous)
      | (w', Inr existing) \<Rightarrow>
          (case registrationState sha s w' tenantID (wr_WebhookURL existing) of
             registrationLive \<Rightarrow> gate_loop sha s tenantID needs chs w'
           | registrationStale \<Rightarrow> gate_loop sha s tenantID True chs w'
           | registrationUnknown \<Rightarrow> (w', gateAmbiguous)))"

definition gate ::
  "(string \<Rightarrow> string) \<Rightarrow> 'w registration_service \<Rightarrow> string \<Rightarrow> 'w webhook_channel list \<Rightarrow> 'w \<Rightarrow> 'w \<times> gate_decision" where
  "gate sha s tenantID channels w = gate_loop sha s tenantID False channels w"

definition registerChannel :: "'w webhook_channel \<Rightarrow> string \<Rightarrow> 'w \<Rightarrow> 'w \<times> bool" where
  "registerChannel ch callbackURL w =
     (case ch_register ch w callbackURL of
        (w1, Inl e) \<Rightarrow> (w1, False)
      | (w1, Inr _) \<Rightarrow>
          (case ch_get ch w1 of
             (w2, Inl e) \<Rightarrow> (w2, False)
           | (w2, Inr got) \<Rightarrow> (w2, wr_WebhookURL got = callbackURL)))"

text \<open>The loop over the channels, counting the registered and the failed ones.\<close>

fun registerAll :: "string \<Rightarrow> 'w webhook_channel list \<Rightarrow> 'w \<Rightarrow> nat \<Rightarrow> nat \<Rightarrow> 'w \<times> nat \<times> nat" where
  "registerAll callbackURL [] w registered failed = (w, registered, failed)"
| "registerAll callbackURL (ch # chs) w registered failed =
     (case registerChannel ch callbackURL w of
        (w', True) \<Rightarrow> registerAll callbackURL chs w' (registered + 1) failed
      | (w', False) \<Rightarrow> registerAll callbackURL chs w' registered (failed + 1))"

definition TryRegister :: "(string \<Rightarrow> string) \<Rightarrow> 'w registration_service \<Rightarrow> 'w \<Rightarrow> string \<Rightarrow> 'w" where
  "TryRegister sha s w tenantID =
     (if \<not> ready s then w
      else let tenantID = TrimSpace tenantID
           in if tenantID = [] then w
              else if \<not> tenantMayRegister s w tenantID then w
              else case the (rg_creds s) w tenantID BankIDC6 of
                Inl e \<Rightarrow> w
              | Inr cred \<Rightarrow>
                  let chave = TrimSpace (bk_CreditorKey cred)
                  in if chave = [] then w
                     else let channels = channelsFor s tenantID chave
                          in (case gate sha s tenantID channels w of
                                (w1, gateSatisfied) \<Rightarrow> w1
                              | (w1, gateAmbiguous) \<Rightarrow> w1
                              | (w1, gateNeedsRegistration) \<Rightarrow>
                                  (case the (rg_minter s) w1 tenantID of
                                     (w2, Inl e) \<Rightarrow> w2
                                   | (w2, Inr r) \<Rightarrow>
                                       fst (registerAll (rg_baseURL s @ webhookCallbackPathPrefix @ r) channels w2 0 0))))"

definition maskPixKey :: "string \<Rightarrow> string" where
  "maskPixKey ck = (if length ck \<le> 4 then ''****'' else take 1 ck @ ''***'' @ drop (length ck - 1) ck)"

section \<open>The sweep\<close>

text \<open>\<open>cancelled\<close> answers whether the context is done, asked before each tenant.\<close>

fun sweep_loop ::
  "(string \<Rightarrow> string) \<Rightarrow> 'w registration_service \<Rightarrow> ('w \<Rightarrow> bool) \<Rightarrow> string list \<Rightarrow> 'w \<Rightarrow> 'w" where
  "sweep_loop sha s cancelled [] w = w"
| "sweep_loop sha s cancelled (t # ts) w =
     (if cancelled w then w else sweep_loop sha s cancelled ts (TryRegister sha s w t))"

definition Sweep ::
  "(string \<Rightarrow> string) \<Rightarrow> bool \<Rightarrow> ('w \<Rightarrow> string list result) \<Rightarrow> 'w registration_service \<Rightarrow> ('w \<Rightarrow> bool) \<Rightarrow> 'w \<Rightarrow> 'w \<times> nat result" where
  "Sweep sha enabled enumerator registrar cancelled w =
     (if \<not> enabled then (w, Inr 0)
      else case enumerator w of
        Inl e \<Rightarrow> (w, Inl e)
      | Inr ids \<Rightarrow> (sweep_loop sha registrar cancelled ids w, Inr (length ids)))"

section \<open>Who registers, and what an attempt does\<close>

text \<open>The guards of \<open>TryRegister\<close>, with the PIX key of a tenant that passes them, and the part after them.\<close>

definition eligible :: "'w registration_service \<Rightarrow> 'w \<Rightarrow> string \<Rightarrow> string option" where
  "eligible s w t =
     (if ready s \<and> TrimSpace t \<noteq> [] \<and> tenantMayRegister s w (TrimSpace t)
      then case the (rg_creds s) w (TrimSpace t) BankIDC6 of
             Inl e \<Rightarrow> None
           | Inr cred \<Rightarrow> if TrimSpace (bk_CreditorKey cred) = [] then None else Some (TrimSpace (bk_CreditorKey cred))
      else None)"

definition attempt :: "(string \<Rightarrow> string) \<Rightarrow> 'w registration_service \<Rightarrow> string \<Rightarrow> 'w webhook_channel list \<Rightarrow> 'w \<Rightarrow> 'w" where
  "attempt sha s t channels w =
     (case gate sha s t channels w of
        (w1, gateNeedsRegistration) \<Rightarrow>
          (case the (rg_minter s) w1 t of
             (w2, Inl e) \<Rightarrow> w2
           | (w2, Inr r) \<Rightarrow> fst (registerAll (rg_baseURL s @ webhookCallbackPathPrefix @ r) channels w2 0 0))
      | (w1, _) \<Rightarrow> w1)"

lemma TryRegister_eq:
  "TryRegister sha s w t =
     (case eligible s w t of None \<Rightarrow> w | Some chave \<Rightarrow> attempt sha s (TrimSpace t) (channelsFor s (TrimSpace t) chave) w)"
  by (auto simp: TryRegister_def eligible_def attempt_def Let_def split: sum.splits prod.splits gate_decision.splits)

section \<open>What the bank and the reference store promise\<close>

text \<open>
  A slot is alive when the URL in it carries a reference that resolves to the tenant, the condition under
  which the receiver accepts a callback through it.
\<close>

definition owns :: "'w ref_lookup \<Rightarrow> 'w \<Rightarrow> string \<Rightarrow> string \<Rightarrow> bool" where
  "owns lk w t a \<longleftrightarrow> lk w a = Inr (Some t)"

definition live_url :: "(string \<Rightarrow> string) \<Rightarrow> string \<Rightarrow> (string \<Rightarrow> bool) \<Rightarrow> string option \<Rightarrow> bool" where
  "live_url sha baseURL own u \<longleftrightarrow>
     (case u of
        None \<Rightarrow> False
      | Some u \<Rightarrow>
          let pre = baseURL @ webhookCallbackPathPrefix; r = drop (length pre) u
          in prefix pre u \<and> r \<noteq> [] \<and> own (SumRef sha r))"

lemma live_url_iff:
  "live_url sha baseURL own u \<longleftrightarrow>
     (\<exists>r. u = Some (baseURL @ webhookCallbackPathPrefix @ r) \<and> r \<noteq> [] \<and> own (SumRef sha r))"
proof -
  have "(prefix pre v \<and> P (drop (length pre) v)) = (\<exists>r. v = pre @ r \<and> P r)" for pre v :: string and P
    by (auto simp: prefix_def)
  from this [of "baseURL @ webhookCallbackPathPrefix" _ "\<lambda>r. r \<noteq> [] \<and> own (SumRef sha r)"]
  show ?thesis by (cases u) (simp_all add: live_url_def Let_def)
qed

lemma classify_total:
  assumes "\<And>a. \<exists>x. lk w a = Inr x"
  shows "ClassifyWebhookRegistration sha (Some lk) w baseURL t u =
    (if \<exists>r. u = baseURL @ webhookCallbackPathPrefix @ r \<and> r \<noteq> [] \<and> lk w (SumRef sha r) = Inr (Some t)
     then RegistrationHealthLive else RegistrationHealthStale)"
proof (cases "prefix (baseURL @ webhookCallbackPathPrefix) u")
  case False
  then have "u \<noteq> baseURL @ webhookCallbackPathPrefix @ r" for r by (metis append.assoc prefixI)
  with False show ?thesis by (simp add: ClassifyWebhookRegistration_def Let_def)
next
  case True
  then obtain r where u: "u = baseURL @ webhookCallbackPathPrefix @ r" by (auto simp: prefix_def)
  obtain x where "lk w (SumRef sha r) = Inr x" using assms by blast
  with u True show ?thesis by (cases x) (auto simp: ClassifyWebhookRegistration_def Let_def)
qed

text \<open>
  \<open>held w c\<close> is the URL the bank holds in slot \<open>c\<close>, \<open>spare w n\<close> says that the next \<open>n\<close> references to be minted hash differently from each other and from all in use.
  A slot that the bank refuses keeps what it holds.
\<close>

locale bank_channels =
  fixes sha :: "string \<Rightarrow> string"
    and s :: "'w registration_service"
    and chan :: "string \<Rightarrow> 'c \<Rightarrow> 'w webhook_channel"
    and held :: "'w \<Rightarrow> 'c \<Rightarrow> string option"
    and refused :: "'c \<Rightarrow> bool"
    and spare :: "'w \<Rightarrow> nat \<Rightarrow> bool"
    and mint :: "'w \<Rightarrow> string \<Rightarrow> 'w \<times> string result"
    and lookupRef :: "'w ref_lookup"
    and mints :: "'w \<Rightarrow> nat"
  assumes wired: "rg_refs s = Some lookupRef" "rg_minter s = Some mint"
    and get: "held w c = None \<Longrightarrow> ch_get (chan t c) w = (w, Inl ErrNotFound)"
      "held w c = Some u \<Longrightarrow> \<exists>at. ch_get (chan t c) w = (w, Inr \<lparr>wr_WebhookURL = u, wr_CreatedAt = at\<rparr>)"
    and register: "\<not> refused c \<Longrightarrow> prefix ''https://'' u \<Longrightarrow> \<exists>w'. ch_register (chan t c) w u = (w', Inr ()) \<and>
        held w' = (held w)(c \<mapsto> u) \<and> owns lookupRef w' = owns lookupRef w \<and> spare w' = spare w \<and> mints w' = mints w"
    and refuse: "refused c \<Longrightarrow> \<exists>e. ch_register (chan t c) w u = (w, Inl e)"
    and resolve: "\<exists>x. lookupRef w a = Inr x"
    and spare_less: "spare w (Suc n) \<Longrightarrow> spare w n"
    and minted: "t \<noteq> [] \<Longrightarrow> spare w (Suc n) \<Longrightarrow> \<exists>w' r. mint w t = (w', Inr r) \<and> r \<noteq> [] \<and> held w' = held w \<and>
        (\<forall>x a. owns lookupRef w' x a \<longleftrightarrow> (if a = SumRef sha r then x = t else owns lookupRef w x a \<and> x \<noteq> t)) \<and>
        (\<forall>x. \<not> owns lookupRef w x (SumRef sha r)) \<and> spare w' n \<and> mints w' = Suc (mints w)"
begin

lemma state_live:
  assumes "held w c = Some u"
  shows "registrationState sha s w t u = (if live_url sha (rg_baseURL s) (owns lookupRef w t) (held w c) then registrationLive else registrationStale)"
proof -
  have "ClassifyWebhookRegistration sha (Some lookupRef) w (rg_baseURL s) t u =
      (if live_url sha (rg_baseURL s) (owns lookupRef w t) (held w c) then RegistrationHealthLive else RegistrationHealthStale)"
    using classify_total [of lookupRef w sha "rg_baseURL s" t u] resolve assms by (simp add: live_url_iff owns_def)
  then show ?thesis by (simp add: registrationState_def wired)
qed

lemma gate_loop_eq:
  "gate_loop sha s t needs (map (chan t) cs) w =
     (w, if needs \<or> (\<exists>c \<in> set cs. \<not> live_url sha (rg_baseURL s) (owns lookupRef w t) (held w c)) then gateNeedsRegistration else gateSatisfied)"
proof (induction cs arbitrary: needs)
  case (Cons c cs)
  show ?case
  proof (cases "held w c")
    case None
    then show ?thesis using get(1) [OF None, of t] Cons by (auto simp: live_url_iff Let_def)
  next
    case (Some u)
    obtain at where "ch_get (chan t c) w = (w, Inr \<lparr>wr_WebhookURL = u, wr_CreatedAt = at\<rparr>)" using get(2) [OF Some] by blast
    then show ?thesis using Cons state_live [OF Some, of t] by auto
  qed
qed simp

lemma registerAll_held:
  assumes "prefix ''https://'' u"
  shows "\<exists>w' a b. registerAll u (map (chan t) cs) w m n = (w', a, b) \<and>
    held w' = (\<lambda>c. if c \<in> set cs \<and> \<not> refused c then Some u else held w c) \<and> owns lookupRef w' = owns lookupRef w \<and> spare w' = spare w \<and>
    mints w' = mints w"
proof (induction cs arbitrary: w m n)
  case (Cons c cs)
  obtain w1 ok where w1: "registerChannel (chan t c) u w = (w1, ok)" and h:
    "held w1 = (if refused c then held w else (held w)(c \<mapsto> u))" "owns lookupRef w1 = owns lookupRef w" "spare w1 = spare w" "mints w1 = mints w"
  proof (cases "refused c")
    case True
    then obtain e where "ch_register (chan t c) w u = (w, Inl e)" using refuse by blast
    then show ?thesis using True that [of w False] by (simp add: registerChannel_def)
  next
    case False
    then obtain w1 where r: "ch_register (chan t c) w u = (w1, Inr ())" "held w1 = (held w)(c \<mapsto> u)"
      "owns lookupRef w1 = owns lookupRef w" "spare w1 = spare w" "mints w1 = mints w"
      using register [OF False assms] by blast
    moreover obtain at where "ch_get (chan t c) w1 = (w1, Inr \<lparr>wr_WebhookURL = u, wr_CreatedAt = at\<rparr>)"
      using get(2) [of w1 c u] r(2) by auto
    ultimately show ?thesis using that False by (simp add: registerChannel_def)
  qed
  obtain w' a b where "registerAll u (map (chan t) cs) w1 (if ok then m + 1 else m) (if ok then n else n + 1) = (w', a, b)"
    "held w' = (\<lambda>c. if c \<in> set cs \<and> \<not> refused c then Some u else held w1 c)" "owns lookupRef w' = owns lookupRef w1" "spare w' = spare w1"
    "mints w' = mints w1"
    using Cons.IH by blast
  with w1 h show ?case by (cases ok) (auto simp: fun_eq_iff)
qed simp

lemma attempt_satisfied: "\<forall>c \<in> set cs. live_url sha (rg_baseURL s) (owns lookupRef w t) (held w c) \<Longrightarrow> attempt sha s t (map (chan t) cs) w = w"
  by (simp add: attempt_def gate_def gate_loop_eq)

lemma attempt_repairs:
  assumes https: "prefix ''https://'' (rg_baseURL s)" and "t \<noteq> []" "spare w (Suc n)" "\<exists>c \<in> set cs. \<not> live_url sha (rg_baseURL s) (owns lookupRef w t) (held w c)"
  shows "\<exists>w' r. attempt sha s t (map (chan t) cs) w = w' \<and> r \<noteq> [] \<and> (\<forall>x. \<not> owns lookupRef w x (SumRef sha r)) \<and>
    held w' = (\<lambda>c. if c \<in> set cs \<and> \<not> refused c then Some (rg_baseURL s @ webhookCallbackPathPrefix @ r) else held w c) \<and>
    (\<forall>x a. owns lookupRef w' x a \<longleftrightarrow> (if a = SumRef sha r then x = t else owns lookupRef w x a \<and> x \<noteq> t)) \<and> spare w' n \<and> mints w' = Suc (mints w)"
proof -
  obtain w1 r where m: "mint w t = (w1, Inr r)" "r \<noteq> []" "held w1 = held w"
    "\<forall>x a. owns lookupRef w1 x a \<longleftrightarrow> (if a = SumRef sha r then x = t else owns lookupRef w x a \<and> x \<noteq> t)"
    "\<forall>x. \<not> owns lookupRef w x (SumRef sha r)" "spare w1 n" "mints w1 = Suc (mints w)"
    using minted [OF assms(2,3)] by blast
  let ?u = "rg_baseURL s @ webhookCallbackPathPrefix @ r"
  have "prefix ''https://'' ?u" using https prefix_prefix by blast
  from registerAll_held [OF this, of t cs w1 0 0] obtain w' a b where w':
    "registerAll ?u (map (chan t) cs) w1 0 0 = (w', a, b)"
    "held w' = (\<lambda>c. if c \<in> set cs \<and> \<not> refused c then Some ?u else held w c)" "owns lookupRef w' = owns lookupRef w1" "spare w' = spare w1"
    "mints w' = mints w1" unfolding m(3) by blast
  have "attempt sha s t (map (chan t) cs) w = w'"
    using assms(4) m(1) w'(1) by (simp add: attempt_def gate_def gate_loop_eq wired)
  with m w' show ?thesis by (intro exI [of _ w'] exI [of _ r]) simp
qed

text \<open>What an attempt for one tenant does to the channels of another: nothing, unless they share a slot.\<close>

lemma attempt_other:
  assumes https: "prefix ''https://'' (rg_baseURL s)" and "t \<noteq> []" "spare w (Suc n)" "t' \<noteq> t" "c \<notin> set cs" "live_url sha (rg_baseURL s) (owns lookupRef w t') (held w c)"
  shows "(let v = attempt sha s t (map (chan t) cs) w in live_url sha (rg_baseURL s) (owns lookupRef v t') (held v c))"
proof (cases "\<forall>c \<in> set cs. live_url sha (rg_baseURL s) (owns lookupRef w t) (held w c)")
  case True
  with assms(6) show ?thesis by (simp add: attempt_satisfied)
next
  case False
  then obtain w' r where "attempt sha s t (map (chan t) cs) w = w'" "\<forall>x. \<not> owns lookupRef w x (SumRef sha r)"
    "\<forall>x a. owns lookupRef w' x a \<longleftrightarrow> (if a = SumRef sha r then x = t else owns lookupRef w x a \<and> x \<noteq> t)"
    "held w' = (\<lambda>c. if c \<in> set cs \<and> \<not> refused c then Some (rg_baseURL s @ webhookCallbackPathPrefix @ r) else held w c)"
    using attempt_repairs [OF assms(1,2,3), of cs] by blast
  with assms(4-6) show ?thesis unfolding live_url_iff Let_def by (metis (no_types, lifting))
qed

lemma attempt_lives:
  assumes https: "prefix ''https://'' (rg_baseURL s)" and "t \<noteq> []" "spare w (Suc n)" "\<forall>c \<in> set cs. \<not> refused c"
  shows "\<forall>c \<in> set cs. (let v = attempt sha s t (map (chan t) cs) w in live_url sha (rg_baseURL s) (owns lookupRef v t) (held v c))"
proof (cases "\<forall>c \<in> set cs. live_url sha (rg_baseURL s) (owns lookupRef w t) (held w c)")
  case False
  with attempt_repairs [OF assms(1,2,3), of cs] assms(4) show ?thesis by (force simp: live_url_iff Let_def)
qed (simp add: attempt_satisfied)

text \<open>
  A slot holds one URL, and a reference belongs to one tenant, so two tenants never have the same slot alive.
\<close>

lemma live_exclusive: "live_url sha (rg_baseURL s) (owns lookupRef w t) (held w c) \<Longrightarrow> live_url sha (rg_baseURL s) (owns lookupRef w t') (held w c) \<Longrightarrow> t' = t"
  by (auto simp: live_url_iff owns_def)

end

end
