(* ===== verification/RegistrationRuns.thy ===== *)
theory RegistrationRuns
  imports WebhookRegistration
begin

text \<open>
  The registration service over a bank that keeps one URL per slot: the claims on convergence of the sweep
  and on what keeps it from converging. A PIX slot is named by the key alone, as at the bank; the other
  slots belong to a tenant. \<open>refuses\<close> names the slots whose registration the bank rejects.
\<close>

section \<open>A bank and a reference store\<close>

datatype bank_slot = PixSlot string | RecSlot string | CobRSlot string | ServiceSlot string string

record bank_world =
  bw_urls :: "(bank_slot \<times> string) list"
  bw_refs :: ref_store
  bw_mints :: nat

definition slot_get :: "bank_slot \<Rightarrow> bank_world reader" where
  "slot_get c w =
     (w, case map_of (bw_urls w) c of
           None \<Rightarrow> Inl ErrNotFound
         | Some u \<Rightarrow> Inr \<lparr>wr_WebhookURL = u, wr_CreatedAt = zero_time\<rparr>)"

definition slot_put :: "(bank_slot \<Rightarrow> bool) \<Rightarrow> bank_slot \<Rightarrow> bank_world writer" where
  "slot_put refuses c w u =
     (if refuses c then (w, Inl (Opaque ''rejected by the bank''))
      else if \<not> prefix ''https://'' u then (w, Inl (NewValidationError ''webhook_url'' ''https required''))
      else (w\<lparr>bw_urls := put c u (bw_urls w)\<rparr>, Inr ()))"

definition bank_pix :: "(bank_slot \<Rightarrow> bool) \<Rightarrow> bank_world pix_registrar" where
  "bank_pix refuses = \<lparr>px_Register = (\<lambda>t k. slot_put refuses (PixSlot k)), px_Get = (\<lambda>t k. slot_get (PixSlot k))\<rparr>"

definition bank_rec :: "(bank_slot \<Rightarrow> bool) \<Rightarrow> bank_world rec_registrar" where
  "bank_rec refuses =
     \<lparr>rc_RegisterRec = (\<lambda>t. slot_put refuses (RecSlot t)), rc_GetRec = (\<lambda>t. slot_get (RecSlot t)),
      rc_RegisterCobR = (\<lambda>t. slot_put refuses (CobRSlot t)), rc_GetCobR = (\<lambda>t. slot_get (CobRSlot t))\<rparr>"

definition bank_svc :: "(bank_slot \<Rightarrow> bool) \<Rightarrow> bank_world svc_registrar" where
  "bank_svc refuses =
     \<lparr>sv_Register = (\<lambda>t v. slot_put refuses (ServiceSlot t v)), sv_Get = (\<lambda>t v. slot_get (ServiceSlot t v))\<rparr>"

text \<open>The minting service over the store in memory; \<open>rnd n\<close> is the randomness of the \<open>n\<close>-th reference.\<close>

definition bank_mint :: "(string \<Rightarrow> string) \<Rightarrow> (nat \<Rightarrow> string) \<Rightarrow> bank_world \<Rightarrow> string \<Rightarrow> bank_world \<times> string result" where
  "bank_mint sha rnd w t =
     (case MintWebhookRef (Some PutWebhookRef) sha (\<lambda>n. Inr (rnd (bw_mints w))) (bw_refs w) t of
        (refs, r) \<Rightarrow> (w\<lparr>bw_refs := refs, bw_mints := Suc (bw_mints w)\<rparr>, r))"

definition bank_lookup :: "bank_world ref_lookup" where
  "bank_lookup w = LookupWebhookRef (bw_refs w)"

definition bank_service ::
  "(string \<Rightarrow> string) \<Rightarrow> (nat \<Rightarrow> string) \<Rightarrow> (bank_slot \<Rightarrow> bool) \<Rightarrow> string \<Rightarrow> string list \<Rightarrow> vault \<Rightarrow> (string \<Rightarrow> tenant result) \<Rightarrow>
     bank_world registration_service" where
  "bank_service sha rnd refuses baseURL services m tenants =
     WithTenants
       (WithServiceRegistrar
         (WithRecurrenceRegistrar
           (WithRefLookup
             (NewWebhookRegistrationService (Some (\<lambda>w. GetBankCredential m)) (Some (bank_pix refuses))
               (Some (bank_mint sha rnd)) baseURL)
             (Some bank_lookup))
           (Some (bank_rec refuses)))
         (Some (bank_svc refuses)) services)
       (Some (\<lambda>w. tenants))"

definition slot_channel :: "(bank_slot \<Rightarrow> bool) \<Rightarrow> string \<Rightarrow> bank_slot \<Rightarrow> bank_world webhook_channel" where
  "slot_channel refuses t c =
     \<lparr>ch_name = (case c of PixSlot _ \<Rightarrow> ''pix'' | RecSlot _ \<Rightarrow> ''rec'' | CobRSlot _ \<Rightarrow> ''cobr'' | ServiceSlot _ v \<Rightarrow> ToLower v),
      ch_get = slot_get c, ch_register = slot_put refuses c\<rparr>"

definition slots_of :: "string list \<Rightarrow> string \<Rightarrow> string \<Rightarrow> bank_slot list" where
  "slots_of services t k = [PixSlot k, RecSlot t, CobRSlot t] @ map (ServiceSlot t) services"

lemma bank_service_fields [simp]:
  "rg_refs (bank_service sha rnd rf b vs m tn) = Some bank_lookup"
  "rg_minter (bank_service sha rnd rf b vs m tn) = Some (bank_mint sha rnd)"
  "rg_baseURL (bank_service sha rnd rf b vs m tn) = trim_slashes (TrimSpace b)"
  "rg_tenants (bank_service sha rnd rf b vs m tn) = Some (\<lambda>w. tn)"
  "rg_creds (bank_service sha rnd rf b vs m tn) = Some (\<lambda>w. GetBankCredential m)"
  "ready (bank_service sha rnd rf b vs m tn) \<longleftrightarrow> trim_slashes (TrimSpace b) \<noteq> []"
  by (simp_all add: bank_service_def WithTenants_def WithServiceRegistrar_def WithRecurrenceRegistrar_def WithRefLookup_def
      NewWebhookRegistrationService_def ready_def)

lemma bank_channels_eq:
  "channelsFor (bank_service sha rnd rf b vs m tn) t k = map (slot_channel rf t) (slots_of vs t k)"
  by (simp add: bank_service_def WithTenants_def WithServiceRegistrar_def WithRecurrenceRegistrar_def WithRefLookup_def
      NewWebhookRegistrationService_def channelsFor_def slots_of_def slot_channel_def bank_pix_def bank_rec_def bank_svc_def)

text \<open>The hash of the \<open>n\<close>-th reference, and that the next \<open>k\<close> of them are new.\<close>

definition mint_hash :: "(string \<Rightarrow> string) \<Rightarrow> (nat \<Rightarrow> string) \<Rightarrow> nat \<Rightarrow> string" where
  "mint_hash sha rnd n = SumRef sha (raw_url_encode (rnd n))"

definition spare_refs :: "(string \<Rightarrow> string) \<Rightarrow> (nat \<Rightarrow> string) \<Rightarrow> bank_world \<Rightarrow> nat \<Rightarrow> bool" where
  "spare_refs sha rnd w k \<longleftrightarrow>
     (let new = map (mint_hash sha rnd) [bw_mints w..<bw_mints w + k]
      in distinct (keys (bw_refs w)) \<and> distinct new \<and>
         list_all (\<lambda>a. a \<noteq> [] \<and> map_of (bw_refs w) (hex_encode a) = None) new \<and>
         list_all (\<lambda>n. rnd n \<noteq> []) [bw_mints w..<bw_mints w + k])"

lemma raw_url_encode_Nil [simp]: "raw_url_encode b = [] \<longleftrightarrow> b = []"
  by (induction b rule: raw_url_encode.induct) (auto simp: Let_def)

lemma spare_refs_Suc:
  "spare_refs sha rnd w (Suc n) \<longleftrightarrow>
     distinct (keys (bw_refs w)) \<and> rnd (bw_mints w) \<noteq> [] \<and> mint_hash sha rnd (bw_mints w) \<noteq> [] \<and>
     map_of (bw_refs w) (hex_encode (mint_hash sha rnd (bw_mints w))) = None \<and>
     (let rest = [Suc (bw_mints w)..<Suc (bw_mints w) + n]
      in mint_hash sha rnd (bw_mints w) \<notin> mint_hash sha rnd ` set rest \<and> distinct (map (mint_hash sha rnd) rest) \<and>
         list_all (\<lambda>a. a \<noteq> [] \<and> map_of (bw_refs w) (hex_encode a) = None) (map (mint_hash sha rnd) rest) \<and>
         list_all (\<lambda>n. rnd n \<noteq> []) rest)"
proof -
  have "[bw_mints w..<bw_mints w + Suc n] = bw_mints w # [Suc (bw_mints w)..<Suc (bw_mints w) + n]"
    by (simp add: upt_conv_Cons del: upt_Suc)
  then show ?thesis by (auto simp: spare_refs_def Let_def simp del: upt_Suc)
qed

lemma bank_mint_eq:
  assumes "t \<noteq> []" "spare_refs sha rnd w (Suc n)"
  shows "\<exists>w' r. bank_mint sha rnd w t = (w', Inr r) \<and> r \<noteq> [] \<and> bw_urls w' = bw_urls w \<and>
    (\<forall>x a. owns bank_lookup w' x a \<longleftrightarrow> (if a = SumRef sha r then x = t else owns bank_lookup w x a \<and> x \<noteq> t)) \<and>
    (\<forall>x. \<not> owns bank_lookup w x (SumRef sha r)) \<and> spare_refs sha rnd w' n \<and> bw_mints w' = Suc (bw_mints w)"
proof -
  let ?i = "bw_mints w" and ?r = "raw_url_encode (rnd (bw_mints w))"
  let ?a = "SumRef sha ?r"
  have sp: "distinct (keys (bw_refs w))" "rnd ?i \<noteq> []" "?a \<noteq> []" "map_of (bw_refs w) (hex_encode ?a) = None"
    using assms(2) by (simp_all add: spare_refs_Suc mint_hash_def)
  obtain refs where p: "PutWebhookRef (bw_refs w) ?a t = (refs, Inr ())"
    using sp(3) assms(1) by (simp add: PutWebhookRef_def Let_def)
  have refs: "map_of refs h = Some x \<longleftrightarrow> (if h = hex_encode ?a then x = t else map_of (bw_refs w) h = Some x \<and> x \<noteq> t)" for h x
    using PutWebhookRef_map_of [OF sp(1) p] .
  let ?w = "w\<lparr>bw_refs := refs, bw_mints := Suc ?i\<rparr>"
  have "bank_mint sha rnd w t = (?w, Inr ?r)"
    by (simp add: bank_mint_def MintWebhookRef_def GenerateRef_def p)
  moreover have "owns bank_lookup ?w x a \<longleftrightarrow> (if a = ?a then x = t else owns bank_lookup w x a \<and> x \<noteq> t)" for x a
    using sp(3) refs [of "hex_encode a" x] by (auto simp: owns_def bank_lookup_def lookup_ref_iff)
  moreover have "spare_refs sha rnd ?w n"
  proof -
    have "distinct (keys refs)" using p sp(1) assms(1) sp(3)
      by (auto simp: PutWebhookRef_def Let_def intro: distinct_keys_filter)
    moreover have "map_of refs (hex_encode a) = None" if "a \<noteq> ?a" "map_of (bw_refs w) (hex_encode a) = None" for a
      using refs [of "hex_encode a"] that by (cases "map_of refs (hex_encode a)") auto
    ultimately show ?thesis
      using assms(2) unfolding spare_refs_Suc
      by (auto simp: spare_refs_def Let_def mint_hash_def list_all_iff image_iff simp del: upt_Suc)
  qed
  moreover have "\<not> owns bank_lookup w x ?a" for x using sp(4) by (simp add: owns_def bank_lookup_def lookup_ref_iff)
  ultimately show ?thesis using sp(2) by (intro exI [of _ ?w] exI [of _ ?r]) simp
qed

interpretation reg: bank_channels sha "bank_service sha rnd rf b vs m tn" "slot_channel rf" "\<lambda>w. map_of (bw_urls w)" rf
  "spare_refs sha rnd" "bank_mint sha rnd" bank_lookup bw_mints
proof unfold_locales
  show "\<exists>w' r. bank_mint sha rnd w t = (w', Inr r) \<and> r \<noteq> [] \<and> map_of (bw_urls w') = map_of (bw_urls w) \<and>
      (\<forall>x a. owns bank_lookup w' x a = (if a = SumRef sha r then x = t else owns bank_lookup w x a \<and> x \<noteq> t)) \<and>
      (\<forall>x. \<not> owns bank_lookup w x (SumRef sha r)) \<and> spare_refs sha rnd w' n \<and> bw_mints w' = Suc (bw_mints w)"
    if "t \<noteq> []" "spare_refs sha rnd w (Suc n)" for t w n
    using bank_mint_eq [OF that] by metis
  show "spare_refs sha rnd w n" if "spare_refs sha rnd w (Suc n)" for w n
    using that by (auto simp: spare_refs_def Let_def)
qed (auto simp: slot_channel_def slot_get_def slot_put_def bank_lookup_def LookupWebhookRef_def owns_def fun_eq_iff
    spare_refs_def)

section \<open>One call\<close>

text \<open>The PIX key of a tenant that may register, and that all its slots are alive.\<close>

definition tenant_active :: "(string \<Rightarrow> tenant result) \<Rightarrow> string \<Rightarrow> bool" where
  "tenant_active tenants t \<longleftrightarrow> (case tenants t of Inl e \<Rightarrow> False | Inr x \<Rightarrow> tn_active x)"

definition bank_key :: "vault \<Rightarrow> (string \<Rightarrow> tenant result) \<Rightarrow> string \<Rightarrow> string option" where
  "bank_key m tenants t =
     (if t \<noteq> [] \<and> tenant_active tenants t
      then case GetBankCredential m t BankIDC6 of
             Inl e \<Rightarrow> None
           | Inr cred \<Rightarrow> if TrimSpace (bk_CreditorKey cred) = [] then None else Some (TrimSpace (bk_CreditorKey cred))
      else None)"

definition slot_live :: "(string \<Rightarrow> string) \<Rightarrow> string \<Rightarrow> bank_world \<Rightarrow> string \<Rightarrow> bank_slot \<Rightarrow> bool" where
  "slot_live sha b w t c = live_url sha (trim_slashes (TrimSpace b)) (owns bank_lookup w t) (map_of (bw_urls w) c)"

definition settled ::
  "(string \<Rightarrow> string) \<Rightarrow> string \<Rightarrow> string list \<Rightarrow> vault \<Rightarrow> (string \<Rightarrow> tenant result) \<Rightarrow> bank_world \<Rightarrow> string \<Rightarrow> bool" where
  "settled sha b vs m tenants w t =
     (case bank_key m tenants t of None \<Rightarrow> True | Some k \<Rightarrow> list_all (slot_live sha b w t) (slots_of vs t k))"

text \<open>The origin the service is configured with is an https one.\<close>

definition https_base :: "string \<Rightarrow> bool" where
  "https_base b \<longleftrightarrow> prefix ''https://'' (trim_slashes (TrimSpace b))"

definition register_call ::
  "(string \<Rightarrow> string) \<Rightarrow> (nat \<Rightarrow> string) \<Rightarrow> (bank_slot \<Rightarrow> bool) \<Rightarrow> string \<Rightarrow> string list \<Rightarrow> vault \<Rightarrow> (string \<Rightarrow> tenant result) \<Rightarrow>
     string \<Rightarrow> bank_world \<Rightarrow> bank_world" where
  "register_call sha rnd refuses b vs m tenants t w = TryRegister sha (bank_service sha rnd refuses b vs m tenants) w t"

lemma bank_eligible:
  assumes "https_base b" "TrimSpace t = t"
  shows "eligible (bank_service sha rnd rf b vs m tn) w t = bank_key m tn t"
proof -
  have "trim_slashes (TrimSpace b) \<noteq> []" using assms(1) by (auto simp: https_base_def)
  then show ?thesis using assms(2)
    by (auto simp: eligible_def bank_key_def tenantMayRegister_def tenant_active_def split: sum.splits)
qed

lemma try_eq:
  assumes "https_base b" "TrimSpace t = t"
  shows "TryRegister sha (bank_service sha rnd rf b vs m tn) w t =
    (case bank_key m tn t of
       None \<Rightarrow> w
     | Some k \<Rightarrow> attempt sha (bank_service sha rnd rf b vs m tn) t (map (slot_channel rf t) (slots_of vs t k)) w)"
  by (simp add: TryRegister_eq bank_eligible [OF assms] assms(2) bank_channels_eq cong: option.case_cong)

lemma bank_key_not_Nil: "bank_key m tn t = Some k \<Longrightarrow> t \<noteq> []"
  by (auto simp: bank_key_def split: if_splits)

lemma try_settled:
  assumes "https_base b" "TrimSpace t = t" "settled sha b vs m tn w t"
  shows "TryRegister sha (bank_service sha rnd rf b vs m tn) w t = w"
  using assms(3) reg.attempt_satisfied [where sha = sha and b = b and w = w and t = t]
  by (auto simp: try_eq [OF assms(1,2)] settled_def list_all_iff slot_live_def split: option.splits)

lemma try_repairs:
  assumes "https_base b" "TrimSpace t = t" "bank_key m tn t = Some k" "\<not> settled sha b vs m tn w t" "spare_refs sha rnd w (Suc n)"
  shows "\<exists>w' r. TryRegister sha (bank_service sha rnd rf b vs m tn) w t = w' \<and> r \<noteq> [] \<and>
    (\<forall>x. \<not> owns bank_lookup w x (SumRef sha r)) \<and>
    map_of (bw_urls w') = (\<lambda>c. if c \<in> set (slots_of vs t k) \<and> \<not> rf c
       then Some (trim_slashes (TrimSpace b) @ webhookCallbackPathPrefix @ r) else map_of (bw_urls w) c) \<and>
    (\<forall>x a. owns bank_lookup w' x a \<longleftrightarrow> (if a = SumRef sha r then x = t else owns bank_lookup w x a \<and> x \<noteq> t)) \<and>
    spare_refs sha rnd w' n \<and> bw_mints w' = Suc (bw_mints w)"
proof -
  let ?s = "bank_service sha rnd rf b vs m tn"
  have h: "prefix ''https://'' (rg_baseURL ?s)" using assms(1) by (simp add: https_base_def)
  have d: "\<exists>c \<in> set (slots_of vs t k). \<not> live_url sha (rg_baseURL ?s) (owns bank_lookup w t) (map_of (bw_urls w) c)"
    using assms(3,4) by (auto simp: settled_def list_all_iff slot_live_def)
  from reg.attempt_repairs [OF h bank_key_not_Nil [OF assms(3)] assms(5) d] show ?thesis
    unfolding try_eq [OF assms(1,2)] assms(3) option.case bank_service_fields(3) .
qed

text \<open>A call leaves the tenant settled when the bank refuses none of its slots, and others as they were.\<close>

lemma try_settles:
  assumes "https_base b" "TrimSpace t = t" "spare_refs sha rnd w (Suc n)" "\<forall>c. \<not> rf c"
  shows "settled sha b vs m tn (TryRegister sha (bank_service sha rnd rf b vs m tn) w t) t"
proof (cases "settled sha b vs m tn w t")
  case True
  then show ?thesis by (simp add: try_settled [OF assms(1,2)])
next
  case False
  then obtain k where k: "bank_key m tn t = Some k" by (auto simp: settled_def split: option.splits)
  from try_repairs [OF assms(1,2) k False assms(3), of rf] k assms(4) show ?thesis
    by (auto simp: settled_def list_all_iff slot_live_def live_url_iff)
qed

lemma slots_disjoint: "t \<noteq> t' \<Longrightarrow> k \<noteq> k' \<Longrightarrow> set (slots_of vs t k) \<inter> set (slots_of vs t' k') = {}"
  by (auto simp: slots_of_def)

lemma try_keeps_others:
  assumes "https_base b" "TrimSpace t = t" "spare_refs sha rnd w (Suc n)" "settled sha b vs m tn w t'" "t \<noteq> t'"
    and apart: "\<And>k k'. bank_key m tn t = Some k \<Longrightarrow> bank_key m tn t' = Some k' \<Longrightarrow> k \<noteq> k'"
  shows "settled sha b vs m tn (TryRegister sha (bank_service sha rnd rf b vs m tn) w t) t'"
proof (cases "settled sha b vs m tn w t \<or> bank_key m tn t' = None")
  case True
  with assms(4) show ?thesis by (auto simp: try_settled [OF assms(1,2)]) (simp add: settled_def)
next
  case False
  then obtain k k' where k: "bank_key m tn t = Some k" "bank_key m tn t' = Some k'" and f: "\<not> settled sha b vs m tn w t"
    by (auto simp: settled_def split: option.splits)
  from try_repairs [OF assms(1,2) k(1) f assms(3), of rf] obtain w' r where
    w': "TryRegister sha (bank_service sha rnd rf b vs m tn) w t = w'" "\<forall>x. \<not> owns bank_lookup w x (SumRef sha r)"
    "map_of (bw_urls w') = (\<lambda>c. if c \<in> set (slots_of vs t k) \<and> \<not> rf c
       then Some (trim_slashes (TrimSpace b) @ webhookCallbackPathPrefix @ r) else map_of (bw_urls w) c)"
    "\<forall>x a. owns bank_lookup w' x a \<longleftrightarrow> (if a = SumRef sha r then x = t else owns bank_lookup w x a \<and> x \<noteq> t)" by blast
  have "slot_live sha b w' t' c" if "c \<in> set (slots_of vs t' k')" "slot_live sha b w t' c" for c
  proof -
    have "c \<notin> set (slots_of vs t k)" using slots_disjoint [OF assms(5) apart [OF k]] that(1) by blast
    with that(2) w'(2-4) assms(5) show ?thesis unfolding slot_live_def live_url_iff by (metis (no_types, lifting))
  qed
  with assms(4) k(2) w'(1) show ?thesis by (auto simp: settled_def list_all_iff)
qed

lemma try_spare:
  assumes "https_base b" "TrimSpace t = t" "spare_refs sha rnd w (Suc n)"
  shows "spare_refs sha rnd (TryRegister sha (bank_service sha rnd rf b vs m tn) w t) n"
    "bw_mints (TryRegister sha (bank_service sha rnd rf b vs m tn) w t) \<le> Suc (bw_mints w)"
proof -
  let ?w = "TryRegister sha (bank_service sha rnd rf b vs m tn) w t"
  have "spare_refs sha rnd ?w n \<and> bw_mints ?w \<le> Suc (bw_mints w)"
  proof (cases "settled sha b vs m tn w t")
    case True
    then show ?thesis using reg.spare_less [OF assms(3)] by (simp add: try_settled [OF assms(1,2)])
  next
    case False
    then obtain k where k: "bank_key m tn t = Some k" by (auto simp: settled_def split: option.splits)
    from try_repairs [OF assms(1,2) k False assms(3), of rf] show ?thesis by auto
  qed
  then show "spare_refs sha rnd ?w n" "bw_mints ?w \<le> Suc (bw_mints w)" by auto
qed

section \<open>A sweep\<close>

abbreviation sweep_all where
  "sweep_all sha rnd rf b vs m tn ts w \<equiv> sweep_loop sha (bank_service sha rnd rf b vs m tn) (\<lambda>w. False) ts w"

lemma sweep_live:
  assumes "https_base b" "\<forall>c. \<not> rf c"
    and "\<And>t t' k. t \<in> D \<union> set ts \<Longrightarrow> t' \<in> D \<union> set ts \<Longrightarrow> bank_key m tn t = Some k \<Longrightarrow> bank_key m tn t' = Some k \<Longrightarrow> t' = t"
    and "\<And>t. t \<in> set ts \<Longrightarrow> TrimSpace t = t" "\<And>t. t \<in> D \<Longrightarrow> settled sha b vs m tn w t" "spare_refs sha rnd w (length ts)"
  shows "(\<forall>t \<in> D \<union> set ts. settled sha b vs m tn (sweep_all sha rnd rf b vs m tn ts w) t) \<and>
    bw_mints (sweep_all sha rnd rf b vs m tn ts w) \<le> bw_mints w + length ts"
  using assms(3-6)
proof (induction ts arbitrary: w D)
  case (Cons t ts)
  let ?w = "TryRegister sha (bank_service sha rnd rf b vs m tn) w t"
  have t: "TrimSpace t = t" and sp: "spare_refs sha rnd w (Suc (length ts))" using Cons.prems(2,4) by auto
  have "settled sha b vs m tn ?w t'" if "t' \<in> insert t D" for t'
  proof (cases "t' = t")
    case False
    with that Cons.prems(1) [of t t'] Cons.prems(3) [of t'] show ?thesis
      by (intro try_keeps_others [OF assms(1) t sp]) auto
  qed (simp add: try_settles [OF assms(1) t sp assms(2)])
  note fin = this
  note sp' = try_spare [OF assms(1) t sp, of rf vs m tn]
  have "(\<forall>t' \<in> insert t D \<union> set ts. settled sha b vs m tn (sweep_all sha rnd rf b vs m tn ts ?w) t') \<and>
      bw_mints (sweep_all sha rnd rf b vs m tn ts ?w) \<le> bw_mints ?w + length ts"
    by (rule Cons.IH) (use Cons.prems(1,2) fin sp'(1) in auto)
  with sp'(2) show ?case by auto
qed simp

lemma sweep_settled:
  assumes "https_base b" "\<And>t. t \<in> set ts \<Longrightarrow> TrimSpace t = t \<and> settled sha b vs m tn w t"
  shows "sweep_all sha rnd rf b vs m tn ts w = w"
  using assms(2) by (induction ts) (auto simp: try_settled [OF assms(1)])

section \<open>The vault keeps tenants apart\<close>

lemma bank_key_holder:
  assumes "vault_ok m" "bank_key m tn t = Some k" "nul_free t"
  shows "\<exists>c \<in> set (vals m). bk_TenantID c = t \<and> bk_BankID c = BankIDC6 \<and> TrimSpace (bk_CreditorKey c) = k \<and> k \<noteq> [] \<and>
    tenant_active tn t"
proof -
  from assms(2) obtain c where c: "map_of m (credKey t BankIDC6) = Some c" "TrimSpace (bk_CreditorKey c) = k" "k \<noteq> []" "tenant_active tn t"
    by (auto simp: bank_key_def GetBankCredential_def lookup_def split: if_splits option.splits sum.splits)
  from c(1) have mem: "(credKey t BankIDC6, c) \<in> set m" by (rule map_of_SomeD)
  with assms(1) have k: "credKey t BankIDC6 = credKey (bk_TenantID c) (bk_BankID c)" "nul_free (bk_TenantID c)" "bk_BankID c \<noteq> []"
    by (auto simp: vault_ok_def)
  from credKey_inj [OF assms(3) k(2,1)] k(3) have "bk_TenantID c = t" "bk_BankID c = BankIDC6"
    by (auto simp: defaultBankID_def split: if_splits)
  moreover have "c \<in> set (vals m)" using mem by force
  ultimately show ?thesis using c by blast
qed

lemma exclusive_keys:
  assumes "vault_ok m" "exclusive (tenant_active tn) m" "\<And>c. c \<in> set (vals m) \<Longrightarrow> TrimSpace (bk_CreditorKey c) = bk_CreditorKey c"
    and "bank_key m tn t = Some k" "bank_key m tn t' = Some k" "nul_free t" "nul_free t'"
  shows "t' = t"
proof (rule ccontr)
  assume "t' \<noteq> t"
  with bank_key_holder [OF assms(1,4,6)] bank_key_holder [OF assms(1,5,7)] assms(2,3) show False
    unfolding exclusive_def by (metis (no_types, lifting))
qed

section \<open>Two tenants with one key\<close>

lemma settled_pix: "settled sha b vs m tn w t \<Longrightarrow> bank_key m tn t = Some k \<Longrightarrow> slot_live sha b w t (PixSlot k)"
  by (simp add: settled_def slots_of_def)

lemma slot_live_exclusive: "slot_live sha b w t c \<Longrightarrow> t' \<noteq> t \<Longrightarrow> \<not> slot_live sha b w t' c"
  by (auto simp: slot_live_def live_url_iff owns_def)

lemma pair_sweep:
  fixes vs :: "string list"
  assumes "https_base b" "\<forall>c. \<not> rf c" "TrimSpace t1 = t1" "TrimSpace t2 = t2" "t1 \<noteq> t2"
    and k: "bank_key m tn t1 = Some k" "bank_key m tn t2 = Some k" and sp: "spare_refs sha rnd w (Suc (Suc j))"
  defines "v \<equiv> sweep_all sha rnd rf b vs m tn [t1, t2] w"
  shows "slot_live sha b v t2 (PixSlot k) \<and> \<not> slot_live sha b v t1 (PixSlot k) \<and> spare_refs sha rnd v j \<and>
    bw_mints w + (if slot_live sha b w t1 (PixSlot k) then 1 else 2) \<le> bw_mints v"
proof -
  let ?s = "bank_service sha rnd rf b vs m tn"
  define u where "u = TryRegister sha ?s w t1"
  have v: "v = TryRegister sha ?s u t2" by (simp add: v_def u_def)
  have sp1: "spare_refs sha rnd u (Suc j)" using try_spare(1) [OF assms(1,3) sp] by (simp add: u_def)
  have "slot_live sha b u t1 (PixSlot k)"
    unfolding u_def by (rule settled_pix [OF try_settles [OF assms(1,3) sp assms(2)] k(1)])
  then have "\<not> settled sha b vs m tn u t2" using slot_live_exclusive settled_pix k(2) assms(5) by metis
  from try_repairs [OF assms(1,4) k(2) this sp1, of rf] have v1: "spare_refs sha rnd v j" "bw_mints v = Suc (bw_mints u)"
    unfolding v by auto
  have l: "slot_live sha b v t2 (PixSlot k)"
    unfolding v by (rule settled_pix [OF try_settles [OF assms(1,4) sp1 assms(2)] k(2)])
  have u: "bw_mints w + (if slot_live sha b w t1 (PixSlot k) then 0 else 1) \<le> bw_mints u"
  proof (cases "settled sha b vs m tn w t1")
    case True
    then show ?thesis using settled_pix [OF True k(1)] by (simp add: u_def try_settled [OF assms(1,3)])
  next
    case False
    from try_repairs [OF assms(1,3) k(1) False sp, of rf] show ?thesis by (auto simp: u_def)
  qed
  have "\<not> slot_live sha b v t1 (PixSlot k)" using slot_live_exclusive [OF l] assms(5) by blast
  with l v1 u show ?thesis by (auto split: if_splits)
qed

section \<open>Claims\<close>

text \<open>
  C31: the sweep heals every registration and then rests. When the vault keeps active tenants apart and the
  bank accepts registrations, one uninterrupted sweep from any state of bank and references leaves every
  channel of every active tenant with a complete credential alive, mints at most one reference per tenant,
  and the next sweep changes nothing, at the bank or in the store.
\<close>

theorem sweep_settles:
  assumes "https_base b" "\<forall>c. \<not> rf c" "vault_ok m" "exclusive (tenant_active tn) m"
    and "\<And>c. c \<in> set (vals m) \<Longrightarrow> TrimSpace (bk_CreditorKey c) = bk_CreditorKey c \<and> TrimSpace (bk_TenantID c) = bk_TenantID c"
    and "spare_refs sha rnd w (length (ListTenantsWithC6Credential m))"
  shows "\<exists>w'. Sweep sha True (\<lambda>w. Inr (ListTenantsWithC6Credential m)) (bank_service sha rnd rf b vs m tn) (\<lambda>w. False) w =
      (w', Inr (length (ListTenantsWithC6Credential m))) \<and>
    (\<forall>t \<in> set (ListTenantsWithC6Credential m). settled sha b vs m tn w' t) \<and>
    bw_mints w' \<le> bw_mints w + length (ListTenantsWithC6Credential m) \<and>
    fst (Sweep sha True (\<lambda>w. Inr (ListTenantsWithC6Credential m)) (bank_service sha rnd rf b vs m tn) (\<lambda>w. False) w') = w'"
proof -
  let ?ts = "ListTenantsWithC6Credential m" and ?s = "bank_service sha rnd rf b vs m tn"
  let ?w = "sweep_all sha rnd rf b vs m tn ?ts w"
  have mem: "t \<in> set ?ts \<Longrightarrow> TrimSpace t = t \<and> nul_free t" for t
    using assms(3,5) by (auto simp: ListTenantsWithC6Credential_def vault_ok_def)
  have l: "(\<forall>t \<in> {} \<union> set ?ts. settled sha b vs m tn ?w t) \<and> bw_mints ?w \<le> bw_mints w + length ?ts"
  proof (rule sweep_live [OF assms(1,2)])
    show "t' = t" if "t \<in> {} \<union> set ?ts" "t' \<in> {} \<union> set ?ts" "bank_key m tn t = Some k" "bank_key m tn t' = Some k" for t t' k
      using exclusive_keys [OF assms(3,4) _ that(3,4)] that(1,2) mem assms(5) by blast
  qed (use mem assms(6) in auto)
  then have "sweep_all sha rnd rf b vs m tn ?ts ?w = ?w" using mem by (intro sweep_settled [OF assms(1)]) auto
  with l show ?thesis by (auto simp: Sweep_def)
qed

text \<open>
  a channel that the bank refuses keeps the service from ever resting. If one channel of a tenant is
  neither registered nor accepted, every call mints a fresh reference, withdraws the one before, and writes
  the other channels again, however often it runs.
\<close>

theorem refused_channel_churns:
  assumes "https_base b" "TrimSpace t = t" "bank_key m tn t = Some k"
    and "c \<in> set (slots_of vs t k)" "rf c" "map_of (bw_urls w) c = None" "spare_refs sha rnd w n" "i < n"
  shows "bw_mints ((register_call sha rnd rf b vs m tn t ^^ Suc i) w) = bw_mints w + Suc i \<and>
    (owns bank_lookup ((register_call sha rnd rf b vs m tn t ^^ i) w) t a \<longrightarrow> \<not> owns bank_lookup ((register_call sha rnd rf b vs m tn t ^^ Suc i) w) t a)"
proof -
  let ?f = "register_call sha rnd rf b vs m tn t"
  have one: "map_of (bw_urls (?f w)) c = None \<and> spare_refs sha rnd (?f w) j \<and> bw_mints (?f w) = Suc (bw_mints w) \<and>
      (owns bank_lookup w t a \<longrightarrow> \<not> owns bank_lookup (?f w) t a)"
    if p: "map_of (bw_urls w) c = None" "spare_refs sha rnd w (Suc j)" for w j
  proof -
    have "\<not> slot_live sha b w t c" using p(1) by (simp add: slot_live_def live_url_iff)
    with assms(3,4) have "\<not> settled sha b vs m tn w t" by (auto simp: settled_def list_all_iff)
    from try_repairs [OF assms(1-3) this p(2), of rf] assms(5) p(1) show ?thesis unfolding register_call_def by (auto split: if_splits)
  qed
  have run: "map_of (bw_urls ((?f ^^ i) w)) c = None \<and> spare_refs sha rnd ((?f ^^ i) w) (n - i) \<and> bw_mints ((?f ^^ i) w) = bw_mints w + i"
    if "i < n" for i
    using that
  proof (induction i)
    case (Suc i)
    then have "n - i = Suc (n - Suc i)" by simp
    with Suc one [of "(?f ^^ i) w" "n - Suc i"] show ?case by simp
  qed (use assms(6,7) in simp)
  have "n - i = Suc (n - Suc i)" using assms(8) by simp
  with run [OF assms(8)] one [of "(?f ^^ i) w" "n - Suc i"] show ?thesis by simp
qed

text \<open>
  repairing one channel can take down another that worked. When a tenant's settlement channel is alive
  but another of its channels is not, and the bank rejects the rewrite of the settlement channel, the call
  leaves the settlement channel dead: it still holds the URL it had, whose reference was withdrawn.
\<close>

theorem repair_kills_live_channel:
  assumes "https_base b" "TrimSpace t = t" "bank_key m tn t = Some k" "slot_live sha b w t (PixSlot k)"
    and "c \<in> set (slots_of vs t k)" "\<not> slot_live sha b w t c" "rf (PixSlot k)" "spare_refs sha rnd w 1"
  shows "\<not> slot_live sha b (TryRegister sha (bank_service sha rnd rf b vs m tn) w t) t (PixSlot k)"
proof -
  have n: "\<not> settled sha b vs m tn w t" using assms(3,5,6) by (auto simp: settled_def list_all_iff)
  from try_repairs [OF assms(1-3) n assms(8) [unfolded One_nat_def], of rf] assms(4,7) show ?thesis
    by (fastforce simp: slot_live_def live_url_iff split: if_splits)
qed

text \<open>
  two active tenants with one PIX key never settle. After every sweep over them the channel belongs to the
  one swept last, the other's settlement channel is dead, and each further sweep mints two references.
\<close>

theorem shared_key_churns:
  assumes "https_base b" "\<forall>c. \<not> rf c" "TrimSpace t1 = t1" "TrimSpace t2 = t2" "t1 \<noteq> t2"
    and "bank_key m tn t1 = Some k" "bank_key m tn t2 = Some k" "spare_refs sha rnd w (2 * n + 2)"
  shows "let w' = ((sweep_all sha rnd rf b vs m tn [t1, t2]) ^^ Suc n) w
    in slot_live sha b w' t2 (PixSlot k) \<and> \<not> slot_live sha b w' t1 (PixSlot k) \<and> bw_mints w + 2 * n + 1 \<le> bw_mints w'"
proof -
  let ?f = "sweep_all sha rnd rf b vs m tn [t1, t2]"
  have "slot_live sha b ((?f ^^ Suc n) w) t2 (PixSlot k) \<and> \<not> slot_live sha b ((?f ^^ Suc n) w) t1 (PixSlot k) \<and>
      bw_mints w + 2 * n + 1 \<le> bw_mints ((?f ^^ Suc n) w) \<and> spare_refs sha rnd ((?f ^^ Suc n) w) j"
    if "spare_refs sha rnd w (2 * n + 2 + j)" for n j
    using that
  proof (induction n arbitrary: j)
    case 0
    then have "spare_refs sha rnd w (Suc (Suc j))" by simp
    from pair_sweep [OF assms(1-7) this, where vs = vs] show ?case by (auto split: if_splits)
  next
    case (Suc n)
    let ?v = "(?f ^^ Suc n) w"
    have v: "\<not> slot_live sha b ?v t1 (PixSlot k)" "bw_mints w + 2 * n + 1 \<le> bw_mints ?v" "spare_refs sha rnd ?v (Suc (Suc j))"
      using Suc.IH [of "Suc (Suc j)"] Suc.prems by auto
    from pair_sweep [OF assms(1-7) v(3), where vs = vs] v(1,2) show ?case by auto
  qed
  from this [of n 0] assms(8) show ?thesis by (simp add: Let_def)
qed

section \<open>Witnesses\<close>

definition sample_base :: string where "sample_base = ''https://h/''"

definition sample_random :: "nat \<Rightarrow> string" where "sample_random n = [char_of (97 + n)]"

definition sample_cred :: "string \<Rightarrow> string \<Rightarrow> string \<Rightarrow> bank_credential" where
  "sample_cred t cid k = \<lparr>bk_TenantID = t, bk_BankID = BankIDC6, bk_ClientID = cid, bk_Secret = ''s'', bk_CreditorKey = k\<rparr>"

definition sample_keys :: vault where
  "sample_keys = NewVault [(''t1'', sample_cred ''t1'' ''c1'' ''k1''), (''t2'', sample_cred ''t2'' ''c2'' ''k2'')]"

definition sample_shared :: vault where
  "sample_shared = NewVault [(''t1'', sample_cred ''t1'' ''c1'' ''k1''), (''t2'', sample_cred ''t2'' ''c2'' ''k1'')]"

definition sample_tenants :: "string \<Rightarrow> tenant result" where
  "sample_tenants t = Inr \<lparr>tn_id = t, tn_name = t, tn_active = True, tn_createdAt = zero_time, tn_accountID = []\<rparr>"

definition empty_bank :: bank_world where
  "empty_bank = \<lparr>bw_urls = [], bw_refs = NewWebhookRefStore, bw_mints = 0\<rparr>"

definition refuses_boleto :: "bank_slot \<Rightarrow> bool" where
  "refuses_boleto c \<longleftrightarrow> c = ServiceSlot ''t1'' ''BOLETO''"

definition refuses_pix :: "bank_slot \<Rightarrow> bool" where
  "refuses_pix c \<longleftrightarrow> c = PixSlot ''k1''"

text \<open>A bank where the settlement channel of the first tenant is alive and the others are not registered.\<close>

definition pix_only_bank :: bank_world where
  "pix_only_bank =
     (let (w, r) = bank_mint (\<lambda>x. x) sample_random empty_bank ''t1''
      in w\<lparr>bw_urls := [(PixSlot ''k1'', ''https://h/webhooks/c6/'' @ (case r of Inr x \<Rightarrow> x | Inl e \<Rightarrow> []))]\<rparr>)"

lemma sample_facts:
  "https_base sample_base" "TrimSpace ''t1'' = ''t1''" "TrimSpace ''t2'' = ''t2''"
  "bank_key sample_keys sample_tenants ''t1'' = Some ''k1''"
  "bank_key sample_shared sample_tenants ''t1'' = Some ''k1''"
  "bank_key sample_shared sample_tenants ''t2'' = Some ''k1''"
  "vault_ok sample_keys" "exclusive (tenant_active sample_tenants) sample_keys"
  "ListTenantsWithC6Credential sample_keys = [''t1'', ''t2'']"
  "spare_refs (\<lambda>x. x) sample_random empty_bank 4" "spare_refs (\<lambda>x. x) sample_random empty_bank 2"
  "spare_refs (\<lambda>x. x) sample_random pix_only_bank 1"
  by code_simp+

theorem sweep_settles_witness:
  "\<exists>w'. Sweep (\<lambda>x. x) True (\<lambda>w. Inr (ListTenantsWithC6Credential sample_keys))
       (bank_service (\<lambda>x. x) sample_random (\<lambda>c. False) sample_base [''BOLETO''] sample_keys sample_tenants) (\<lambda>w. False) empty_bank = (w', Inr 2) \<and>
     settled (\<lambda>x. x) sample_base [''BOLETO''] sample_keys sample_tenants w' ''t1''"
proof -
  have c: "\<forall>c \<in> set (vals sample_keys). TrimSpace (bk_CreditorKey c) = bk_CreditorKey c \<and> TrimSpace (bk_TenantID c) = bk_TenantID c"
    by code_simp
  have sp: "spare_refs (\<lambda>x. x) sample_random empty_bank (length (ListTenantsWithC6Credential sample_keys))"
    unfolding sample_facts(9) using sample_facts(11) by (simp add: numeral_2_eq_2)
  show ?thesis
    using sweep_settles [where rf = "\<lambda>c. False" and vs = "[''BOLETO'']", OF sample_facts(1) _ sample_facts(7,8) _ sp] c
    by (auto simp: sample_facts(9))
qed

theorem refused_channel_churns_witness:
  "bw_mints ((register_call (\<lambda>x. x) sample_random refuses_boleto sample_base [''BOLETO''] sample_keys sample_tenants ''t1'' ^^ 2) empty_bank) = 2"
proof -
  have c: "ServiceSlot ''t1'' ''BOLETO'' \<in> set (slots_of [''BOLETO''] ''t1'' ''k1'')" by (simp add: slots_of_def)
  have r: "refuses_boleto (ServiceSlot ''t1'' ''BOLETO'')" by (simp add: refuses_boleto_def)
  have n: "map_of (bw_urls empty_bank) (ServiceSlot ''t1'' ''BOLETO'') = None" by (simp add: empty_bank_def)
  from refused_channel_churns [where i = 1 and rf = refuses_boleto, OF sample_facts(1,2,4) c r n sample_facts(11)] show ?thesis
    by (simp add: numeral_2_eq_2 empty_bank_def)
qed

theorem repair_kills_live_channel_witness:
  "slot_live (\<lambda>x. x) sample_base pix_only_bank ''t1'' (PixSlot ''k1'') \<and>
   \<not> slot_live (\<lambda>x. x) sample_base (TryRegister (\<lambda>x. x)
       (bank_service (\<lambda>x. x) sample_random refuses_pix sample_base [''BOLETO''] sample_keys sample_tenants) pix_only_bank ''t1'')
     ''t1'' (PixSlot ''k1'')"
proof -
  have l: "slot_live (\<lambda>x. x) sample_base pix_only_bank ''t1'' (PixSlot ''k1'')" by code_simp
  have c: "RecSlot ''t1'' \<in> set (slots_of [''BOLETO''] ''t1'' ''k1'')" by (simp add: slots_of_def)
  have d: "\<not> slot_live (\<lambda>x. x) sample_base pix_only_bank ''t1'' (RecSlot ''t1'')" by code_simp
  have r: "refuses_pix (PixSlot ''k1'')" by (simp add: refuses_pix_def)
  from l repair_kills_live_channel [where rf = refuses_pix, OF sample_facts(1,2,4) l c d r sample_facts(12)] show ?thesis by blast
qed

theorem shared_key_churns_witness:
  "3 \<le> bw_mints ((sweep_all (\<lambda>x. x) sample_random (\<lambda>c. False) sample_base [] sample_shared sample_tenants [''t1'', ''t2''] ^^ Suc 1) empty_bank)"
proof -
  have sp: "spare_refs (\<lambda>x. x) sample_random empty_bank (2 * 1 + 2)" using sample_facts(10) by simp
  from shared_key_churns [where rf = "\<lambda>c. False" and vs = "[]", OF sample_facts(1) _ sample_facts(2,3) _ sample_facts(5,6) sp] show ?thesis
    by (simp add: Let_def empty_bank_def)
qed

end
