(* ===== verification/PaymentGroups.thy ===== *)
theory PaymentGroups
  imports BankVault
begin

text \<open>
  Scheduled payments: the payment groups of \<open>internal/domain/dda\<close>, the service of \<open>internal/app/dda.go\<close> over
  its port, and the bank in memory of \<open>internal/adapters/bank/stub_dda.go\<close>, which the service runs against
  in stub mode.
\<close>

section \<open>Status and product of an item\<close>

datatype item_status =
    StatusReadData | StatusDecodeError | StatusError | StatusScheduled | StatusProcessing | StatusProcessed
  | StatusSchedulingCancelled

fun item_status_string :: "item_status \<Rightarrow> string" where
  "item_status_string StatusReadData = ''READ_DATA''"
| "item_status_string StatusDecodeError = ''DECODE_ERROR''"
| "item_status_string StatusError = ''ERROR''"
| "item_status_string StatusScheduled = ''SCHEDULED''"
| "item_status_string StatusProcessing = ''PROCESSING''"
| "item_status_string StatusProcessed = ''PROCESSED''"
| "item_status_string StatusSchedulingCancelled = ''SCHEDULING_CANCELLED''"

definition item_statuses :: "item_status list" where
  "item_statuses = [StatusReadData, StatusDecodeError, StatusError, StatusScheduled, StatusProcessing, StatusProcessed,
     StatusSchedulingCancelled]"

definition ParseItemStatus :: "string \<Rightarrow> item_status result" where
  "ParseItemStatus s =
     (let s = upper_runes (TrimSpace s)
      in if s = [] then Inr StatusReadData
         else case find (\<lambda>x. item_status_string x = s) item_statuses of
           Some x \<Rightarrow> Inr x
         | None \<Rightarrow> Inl (NewValidationError ''status'' ''unknown payment item status''))"

fun Submitted :: "item_status \<Rightarrow> bool" where
  "Submitted StatusScheduled = True"
| "Submitted StatusProcessing = True"
| "Submitted StatusProcessed = True"
| "Submitted StatusSchedulingCancelled = True"
| "Submitted _ = False"

datatype product_type = ProductNone | ProductBoleto | ProductPix

fun product_type_string :: "product_type \<Rightarrow> string" where
  "product_type_string ProductNone = []"
| "product_type_string ProductBoleto = ''BOLETO''"
| "product_type_string ProductPix = ''PIX''"

definition ParseProductType :: "string \<Rightarrow> product_type result" where
  "ParseProductType s =
     (let s = upper_runes (TrimSpace s)
      in if s = [] then Inr ProductNone
         else if s = ''BOLETO'' then Inr ProductBoleto
         else if s = ''PIX'' then Inr ProductPix
         else Inl (NewValidationError ''product_type'' ''unknown payment product type''))"

section \<open>Payment references\<close>

definition dda_phone :: "string \<Rightarrow> bool" where
  "dda_phone s \<longleftrightarrow>
     (case s of
        p # d # ds \<Rightarrow> p = CHR ''+'' \<and> CHR ''1'' \<le> d \<and> d \<le> CHR ''9'' \<and> 6 \<le> length ds \<and> length ds \<le> 15 \<and> list_all is_digit ds
      | _ \<Rightarrow> False)"

text \<open>The class after the last dot has letters only, so that dot is where the pattern must split.\<close>

definition dda_email :: "string \<Rightarrow> bool" where
  "dda_email s \<longleftrightarrow>
     (let user = takeWhile (\<lambda>c. c \<noteq> CHR ''@'') s; rest = drop (Suc (length user)) s;
          tld = rev (takeWhile (\<lambda>c. c \<noteq> CHR ''.'') (rev rest));
          dom = take (length rest - length tld - 1) rest
      in CHR ''@'' \<in> set s \<and> CHR ''.'' \<in> set rest \<and> user \<noteq> [] \<and> list_all email_local_char user \<and>
         dom \<noteq> [] \<and> list_all email_domain_char dom \<and> 2 \<le> length tld \<and> length tld \<le> 6 \<and> list_all is_letter tld)"

definition dda_evp :: "string \<Rightarrow> bool" where
  "dda_evp s \<longleftrightarrow> length s = 36 \<and>
     list_all (\<lambda>i. if i \<in> {8, 13, 18, 23} then s ! i = CHR ''-''
                   else is_digit (s ! i) \<or> CHR ''a'' \<le> s ! i \<and> s ! i \<le> CHR ''f'') [0..<36]"

definition pixKeyPattern :: "string \<Rightarrow> bool" where
  "pixKeyPattern s \<longleftrightarrow> isTaxIDKey s \<or> dda_phone s \<or> dda_email s \<or> dda_evp s"

definition validBarcode :: "string \<Rightarrow> bool" where
  "validBarcode s \<longleftrightarrow> (length s = 44 \<or> length s = 47 \<or> length s = 48) \<and> list_all is_digit s"

definition validBRCode :: "string \<Rightarrow> bool" where
  "validBRCode s \<longleftrightarrow> 32 \<le> length s \<and> length s \<le> 396 \<and> prefix ''0002'' s"

definition ValidateContent :: "string \<Rightarrow> unit result" where
  "ValidateContent content =
     (let content = TrimSpace content
      in if validBarcode content \<or> validBRCode content \<or> pixKeyPattern content then Inr ()
         else Inl (NewValidationError ''content'' ''content must be a boleto barcode, a PIX key or a BR Code''))"

section \<open>Open boletos\<close>

record dda_boleto =
  db_Content :: string
  db_AmountCents :: int
  db_DueDate :: gotime
  db_BeneficiaryName :: string
  db_PayerName :: string
  db_BankCode :: string
  db_BankName :: string
  db_Overdue :: bool

text \<open>The aggregate and its parameter object have the same fields, as does the type of the port.\<close>

definition NewDDABoleto :: "dda_boleto \<Rightarrow> dda_boleto result" where
  "NewDDABoleto p =
     (let content = TrimSpace (db_Content p); beneficiaryName = TrimSpace (db_BeneficiaryName p)
      in bindE (ValidateContent content) (\<lambda>_.
           if db_AmountCents p \<le> 0 then Inl (NewValidationError ''boleto.amount'' ''amount must be greater than zero'')
           else if IsZeroTime (db_DueDate p) then Inl (NewValidationError ''boleto.due_date'' ''due date is required'')
           else if beneficiaryName = [] then Inl (NewValidationError ''boleto.beneficiary_name'' ''beneficiary name is required'')
           else Inr \<lparr>db_Content = content, db_AmountCents = db_AmountCents p, db_DueDate = db_DueDate p,
                     db_BeneficiaryName = beneficiaryName, db_PayerName = TrimSpace (db_PayerName p),
                     db_BankCode = TrimSpace (db_BankCode p), db_BankName = TrimSpace (db_BankName p),
                     db_Overdue = db_Overdue p\<rparr>))"

section \<open>Items and groups\<close>

record group_item =
  it_id :: string
  it_content :: string
  it_amountCents :: int
  it_dueDate :: gotime
  it_status :: item_status
  it_productType :: product_type
  it_errorMessage :: string
  it_overdue :: bool

text \<open>\<open>ports.DDAItem\<close>, which has the fields of \<open>ItemParams\<close>.\<close>

record dda_item =
  di_ID :: string
  di_Content :: string
  di_AmountCents :: int
  di_DueDate :: gotime
  di_Status :: string
  di_ProductType :: string
  di_ErrorMessage :: string
  di_Overdue :: bool

definition NewGroupItem :: "dda_item \<Rightarrow> group_item result" where
  "NewGroupItem p =
     (let iid = TrimSpace (di_ID p); content = TrimSpace (di_Content p)
      in if iid = [] then Inl (NewValidationError ''item.id'' ''item id is required'')
         else bindE (ValidateContent content) (\<lambda>_.
           if di_AmountCents p \<le> 0 then Inl (NewValidationError ''item.amount'' ''amount must be greater than zero'')
           else bindE (ParseItemStatus (di_Status p)) (\<lambda>status.
             bindE (ParseProductType (di_ProductType p)) (\<lambda>product.
               Inr \<lparr>it_id = iid, it_content = content, it_amountCents = di_AmountCents p, it_dueDate = di_DueDate p,
                    it_status = status, it_productType = product, it_errorMessage = TrimSpace (di_ErrorMessage p),
                    it_overdue = di_Overdue p\<rparr>))))"

record payment_group =
  pg_id :: string
  pg_tenantID :: string
  pg_items :: "group_item list"

definition Reconstruct :: "string \<Rightarrow> string \<Rightarrow> group_item list \<Rightarrow> payment_group result" where
  "Reconstruct gid tenantID items =
     (let gid = TrimSpace gid; tenantID = TrimSpace tenantID
      in if gid = [] then Inl (NewValidationError ''group.id'' ''group id is required'')
         else if tenantID = [] then Inl (NewValidationError ''group.tenant_id'' ''tenant id is required'')
         else Inr \<lparr>pg_id = gid, pg_tenantID = tenantID, pg_items = items\<rparr>)"

definition IsSubmitted :: "payment_group \<Rightarrow> bool" where
  "IsSubmitted g = list_ex (\<lambda>it. Submitted (it_status it)) (pg_items g)"

fun check_ids :: "string list \<Rightarrow> string list \<Rightarrow> unit result" where
  "check_ids present [] = Inr ()"
| "check_ids present (i # is) =
     (let i = TrimSpace i
      in if i = [] then Inl (NewValidationError ''item_id'' ''item id must not be empty'')
         else if i \<notin> set present then Inl ErrNotFound
         else check_ids present is)"

definition RemoveItems :: "payment_group \<Rightarrow> string list \<Rightarrow> payment_group result" where
  "RemoveItems g ids =
     (if IsSubmitted g then Inl ErrInvalidTransition
      else if length ids = 0 then Inl (NewValidationError ''item_ids'' ''at least one item id is required'')
      else bindE (check_ids (map it_id (pg_items g)) ids) (\<lambda>_.
        Inr (g\<lparr>pg_items := filter (\<lambda>it. it_id it \<notin> set (map TrimSpace ids)) (pg_items g)\<rparr>)))"

definition SubmitForApproval :: "payment_group \<Rightarrow> payment_group result" where
  "SubmitForApproval g =
     (if IsSubmitted g then Inl ErrInvalidTransition
      else if length (pg_items g) = 0 then Inl (NewValidationError ''items'' ''cannot submit an empty payment group'')
      else Inr (g\<lparr>pg_items := map (\<lambda>it. it\<lparr>it_status := StatusScheduled\<rparr>) (pg_items g)\<rparr>))"

section \<open>The port\<close>

record dda_group =
  dg_ID :: string
  dg_Items :: "dda_item list"

record dda_payment =
  dp_Content :: string
  dp_AmountCents :: int
  dp_Description :: string
  dp_BeneficiaryName :: string
  dp_PayerName :: string
  dp_BankCode :: string
  dp_BankName :: string
  dp_TransactionDate :: gotime

record dda_group_request =
  gq_TenantID :: string
  gq_Payments :: "dda_payment list"
  gq_IdempotencyKey :: string

record 's dda_provider =
  dv_ListOpenBoletos :: "'s \<Rightarrow> string \<Rightarrow> dda_boleto list result"
  dv_CreatePaymentGroup :: "'s \<Rightarrow> string \<Rightarrow> dda_group_request \<Rightarrow> 's \<times> dda_group result"
  dv_GetPaymentGroup :: "'s \<Rightarrow> string \<Rightarrow> string \<Rightarrow> dda_group result"
  dv_RemovePaymentGroupItems :: "'s \<Rightarrow> string \<Rightarrow> string \<Rightarrow> string list \<Rightarrow> 's \<times> unit result"
  dv_RemovePaymentGroupItem :: "'s \<Rightarrow> string \<Rightarrow> string \<Rightarrow> string \<Rightarrow> 's \<times> unit result"
  dv_SubmitPaymentGroup :: "'s \<Rightarrow> string \<Rightarrow> string \<Rightarrow> string \<Rightarrow> string \<Rightarrow> 's \<times> unit result"

section \<open>The service\<close>

definition maxDDAGroupPayments :: nat where "maxDDAGroupPayments = 200"

definition maxDDADescriptionLen :: nat where "maxDDADescriptionLen = 100"

record 's dda_service =
  ds_tenants :: "string \<Rightarrow> tenant result"
  ds_dda :: "'s dda_provider"

definition dda_requireActiveTenant :: "'s dda_service \<Rightarrow> string \<Rightarrow> unit result" where
  "dda_requireActiveTenant v tenantID =
     bindE (wrapE ''resolve tenant'' (ds_tenants v tenantID))
       (\<lambda>t. if \<not> tn_active t then Inl (NewValidationError ''tenant'' ''tenant is not active'') else Inr ())"

definition ListOpenBoletos :: "'s dda_service \<Rightarrow> 's \<Rightarrow> string \<Rightarrow> dda_boleto list result" where
  "ListOpenBoletos v s tenantID =
     bindE (dda_requireActiveTenant v tenantID) (\<lambda>_. dv_ListOpenBoletos (ds_dda v) s tenantID)"

fun group_payments :: "dda_payment list \<Rightarrow> dda_payment list result" where
  "group_payments [] = Inr []"
| "group_payments (p # ps) =
     bindE (ValidateContent (dp_Content p)) (\<lambda>_.
       if dp_AmountCents p \<le> 0 then Inl (NewValidationError ''amount'' ''amount must be greater than zero'')
       else if length (dp_Description p) > maxDDADescriptionLen then Inl (NewValidationError ''description'' ''description is too long'')
       else bindE (group_payments ps) (\<lambda>qs. Inr (p\<lparr>dp_Content := TrimSpace (dp_Content p)\<rparr> # qs)))"

definition create_group_checks :: "'s dda_service \<Rightarrow> dda_group_request \<Rightarrow> dda_payment list result" where
  "create_group_checks v inp =
     bindE (dda_requireActiveTenant v (gq_TenantID inp)) (\<lambda>_.
       if TrimSpace (gq_IdempotencyKey inp) = [] then Inl (NewValidationError ''idempotency_key'' ''idempotency key is required'')
       else if length (gq_Payments inp) = 0 then Inl (NewValidationError ''payments'' ''at least one payment is required'')
       else if length (gq_Payments inp) > maxDDAGroupPayments then Inl (NewValidationError ''payments'' ''too many payments in a single group'')
       else group_payments (gq_Payments inp))"

text \<open>\<open>CreateGroupInput\<close> has the fields of the request to the bank.\<close>

definition CreatePaymentGroup :: "'s dda_service \<Rightarrow> 's \<Rightarrow> dda_group_request \<Rightarrow> 's \<times> dda_group result" where
  "CreatePaymentGroup v s inp =
     (case create_group_checks v inp of
        Inl e \<Rightarrow> (s, Inl e)
      | Inr payments \<Rightarrow>
          (case dv_CreatePaymentGroup (ds_dda v) s (gq_TenantID inp)
                  \<lparr>gq_TenantID = gq_TenantID inp, gq_Payments = payments, gq_IdempotencyKey = gq_IdempotencyKey inp\<rparr> of
             (s', r) \<Rightarrow> (s', bindE (wrapE ''bank create payment group'' r) (\<lambda>grp.
               if TrimSpace (dg_ID grp) = [] then Inl (NewValidationError ''group.id'' ''bank returned no payment group id'')
               else Inr grp))))"

definition GetPaymentGroupItems :: "'s dda_service \<Rightarrow> 's \<Rightarrow> string \<Rightarrow> string \<Rightarrow> dda_item list result" where
  "GetPaymentGroupItems v s tenantID groupID =
     bindE (dda_requireActiveTenant v tenantID) (\<lambda>_.
       let groupID = TrimSpace groupID
       in if groupID = [] then Inl (NewValidationError ''group_id'' ''group id is required'')
          else bindE (dv_GetPaymentGroup (ds_dda v) s tenantID groupID) (\<lambda>grp. Inr (dg_Items grp)))"

fun new_items :: "dda_item list \<Rightarrow> group_item list result" where
  "new_items [] = Inr []"
| "new_items (i # is) = bindE (NewGroupItem i) (\<lambda>x. bindE (new_items is) (\<lambda>xs. Inr (x # xs)))"

definition reconstruct :: "string \<Rightarrow> dda_group \<Rightarrow> payment_group result" where
  "reconstruct tenantID grp = bindE (new_items (dg_Items grp)) (\<lambda>items. Reconstruct (dg_ID grp) tenantID items)"

definition loadForMutation :: "'s dda_service \<Rightarrow> 's \<Rightarrow> string \<Rightarrow> string \<Rightarrow> payment_group result" where
  "loadForMutation v s tenantID groupID =
     bindE (dda_requireActiveTenant v tenantID) (\<lambda>_.
       let groupID = TrimSpace groupID
       in if groupID = [] then Inl (NewValidationError ''group_id'' ''group id is required'')
          else bindE (dv_GetPaymentGroup (ds_dda v) s tenantID groupID) (reconstruct tenantID))"

definition RemovePaymentGroupItems ::
  "'s dda_service \<Rightarrow> 's \<Rightarrow> string \<Rightarrow> string \<Rightarrow> string list \<Rightarrow> 's \<times> unit result" where
  "RemovePaymentGroupItems v s tenantID groupID itemIDs =
     (case bindE (loadForMutation v s tenantID groupID) (\<lambda>grp.
             if length itemIDs = 0 then Inl (NewValidationError ''item_ids'' ''at least one item id is required'')
             else RemoveItems grp itemIDs) of
        Inl e \<Rightarrow> (s, Inl e)
      | Inr _ \<Rightarrow> dv_RemovePaymentGroupItems (ds_dda v) s tenantID groupID itemIDs)"

definition RemovePaymentGroupItem ::
  "'s dda_service \<Rightarrow> 's \<Rightarrow> string \<Rightarrow> string \<Rightarrow> string \<Rightarrow> 's \<times> unit result" where
  "RemovePaymentGroupItem v s tenantID groupID itemID =
     (case bindE (loadForMutation v s tenantID groupID) (\<lambda>grp.
             if TrimSpace itemID = [] then Inl (NewValidationError ''item_id'' ''item id is required'')
             else RemoveItems grp [TrimSpace itemID]) of
        Inl e \<Rightarrow> (s, Inl e)
      | Inr _ \<Rightarrow> dv_RemovePaymentGroupItem (ds_dda v) s tenantID groupID (TrimSpace itemID))"

definition SubmitPaymentGroup ::
  "'s dda_service \<Rightarrow> 's \<Rightarrow> string \<Rightarrow> string \<Rightarrow> string \<Rightarrow> string \<Rightarrow> 's \<times> unit result" where
  "SubmitPaymentGroup v s tenantID groupID uploaderName idemKey =
     (if TrimSpace idemKey = [] then (s, Inl (NewValidationError ''idempotency_key'' ''idempotency key is required''))
      else if TrimSpace uploaderName = [] then (s, Inl (NewValidationError ''uploader_name'' ''uploader name is required''))
      else case loadForMutation v s tenantID groupID of
        Inl e \<Rightarrow> (s, Inl e)
      | Inr grp \<Rightarrow>
          if IsSubmitted grp then (s, Inr ())
          else (case SubmitForApproval grp of
                  Inl e \<Rightarrow> (s, Inl e)
                | Inr _ \<Rightarrow> dv_SubmitPaymentGroup (ds_dda v) s tenantID groupID uploaderName idemKey))"

end
