(* ===== verification/GroupRuns.thy ===== *)
theory GroupRuns
  imports PaymentGroups
begin

text \<open>
  Payment groups against the bank in memory of \<open>internal/adapters/bank/stub_dda.go\<close>: the state of the stub,
  its operations, and the claims on sequences of service calls. SHA-256 is the parameter \<open>sha\<close>.
\<close>

section \<open>The bank in memory\<close>

record stub_dda =
  sd_boletos :: "(string \<times> dda_boleto list) list"
  sd_groups :: "(string \<times> dda_item list) list"
  sd_groupByIdem :: "(string \<times> string) list"

definition SeedDDABoletos :: "stub_dda \<Rightarrow> string \<Rightarrow> dda_boleto list \<Rightarrow> stub_dda" where
  "SeedDDABoletos s tenantID boletos = s\<lparr>sd_boletos := put tenantID boletos (sd_boletos s)\<rparr>"

definition stubHash :: "(string \<Rightarrow> string) \<Rightarrow> nat \<Rightarrow> string list \<Rightarrow> string" where
  "stubHash sha n parts = take n (hex_encode (sha (concat (map (\<lambda>p. p @ [CHR 0x00]) parts))))"

definition ddaAnchor :: "dda_group_request \<Rightarrow> string" where
  "ddaAnchor req = gq_IdempotencyKey req"

text \<open>\<open>creds\<close> answers whether the tenant has a credential; every operation asks first.\<close>

definition stub_ListOpenBoletos :: "(string \<Rightarrow> unit result) \<Rightarrow> stub_dda \<Rightarrow> string \<Rightarrow> dda_boleto list result" where
  "stub_ListOpenBoletos creds s tenantID =
     bindE (creds tenantID) (\<lambda>_. Inr (case map_of (sd_boletos s) tenantID of None \<Rightarrow> [] | Some bs \<Rightarrow> bs))"

definition stubProductType :: "string \<Rightarrow> string" where
  "stubProductType content =
     (case ValidateContent content of
        Inl e \<Rightarrow> []
      | Inr _ \<Rightarrow> if length content = 44 \<or> length content = 47 \<or> length content = 48 then product_type_string ProductBoleto
                else product_type_string ProductPix)"

definition stub_item :: "(string \<Rightarrow> string) \<Rightarrow> gotime \<Rightarrow> string \<Rightarrow> dda_payment \<Rightarrow> dda_item" where
  "stub_item sha due anchor pay =
     (let content = TrimSpace (dp_Content pay)
      in \<lparr>di_ID = ''ddai_'' @ stubHash sha 20 [anchor, content], di_Content = content, di_AmountCents = dp_AmountCents pay,
          di_DueDate = due, di_Status = item_status_string StatusReadData, di_ProductType = stubProductType content,
          di_ErrorMessage = [], di_Overdue = False\<rparr>)"

definition stub_groupID :: "(string \<Rightarrow> string) \<Rightarrow> string \<Rightarrow> string \<Rightarrow> string" where
  "stub_groupID sha tenantID anchor = ''ddag_'' @ stubHash sha 24 [tenantID, anchor]"

definition stub_CreatePaymentGroup ::
  "(string \<Rightarrow> string) \<Rightarrow> (string \<Rightarrow> unit result) \<Rightarrow> gotime \<Rightarrow> stub_dda \<Rightarrow> string \<Rightarrow> dda_group_request \<Rightarrow>
     stub_dda \<times> dda_group result" where
  "stub_CreatePaymentGroup sha creds due s tenantID req =
     (case creds tenantID of
        Inl e \<Rightarrow> (s, Inl e)
      | Inr _ \<Rightarrow>
          let anchor = ddaAnchor req
          in if anchor = [] \<or> length (gq_Payments req) = 0 then (s, Inl ErrValidation)
             else if list_ex (\<lambda>pay. TrimSpace (dp_Content pay) = [] \<or> dp_AmountCents pay \<le> 0) (gq_Payments req)
             then (s, Inl ErrValidation)
             else case map_of (sd_groupByIdem s) (key tenantID anchor) of
               Some groupID \<Rightarrow> (s, Inr \<lparr>dg_ID = groupID, dg_Items = []\<rparr>)
             | None \<Rightarrow>
                 let groupID = stub_groupID sha tenantID anchor
                 in (s\<lparr>sd_groups := put (key tenantID groupID) (map (stub_item sha due anchor) (gq_Payments req)) (sd_groups s),
                       sd_groupByIdem := put (key tenantID anchor) groupID (sd_groupByIdem s)\<rparr>,
                     Inr \<lparr>dg_ID = groupID, dg_Items = []\<rparr>))"

definition toDDAGroup :: "stub_dda \<Rightarrow> string \<Rightarrow> string \<Rightarrow> dda_group" where
  "toDDAGroup s tenantID groupID =
     \<lparr>dg_ID = groupID, dg_Items = (case map_of (sd_groups s) (key tenantID groupID) of None \<Rightarrow> [] | Some its \<Rightarrow> its)\<rparr>"

definition stub_GetPaymentGroup :: "(string \<Rightarrow> unit result) \<Rightarrow> stub_dda \<Rightarrow> string \<Rightarrow> string \<Rightarrow> dda_group result" where
  "stub_GetPaymentGroup creds s tenantID groupID =
     bindE (creds tenantID) (\<lambda>_.
       if map_of (sd_groups s) (key tenantID groupID) = None then Inl ErrNotFound else Inr (toDDAGroup s tenantID groupID))"

definition stub_RemovePaymentGroupItems ::
  "(string \<Rightarrow> unit result) \<Rightarrow> stub_dda \<Rightarrow> string \<Rightarrow> string \<Rightarrow> string list \<Rightarrow> stub_dda \<times> unit result" where
  "stub_RemovePaymentGroupItems creds s tenantID groupID itemIDs =
     (case creds tenantID of
        Inl e \<Rightarrow> (s, Inl e)
      | Inr _ \<Rightarrow>
          (case map_of (sd_groups s) (key tenantID groupID) of
             None \<Rightarrow> (s, Inl ErrNotFound)
           | Some its \<Rightarrow>
               (s\<lparr>sd_groups := put (key tenantID groupID) (filter (\<lambda>it. di_ID it \<notin> set itemIDs) its) (sd_groups s)\<rparr>, Inr ())))"

definition stub_RemovePaymentGroupItem ::
  "(string \<Rightarrow> unit result) \<Rightarrow> stub_dda \<Rightarrow> string \<Rightarrow> string \<Rightarrow> string \<Rightarrow> stub_dda \<times> unit result" where
  "stub_RemovePaymentGroupItem creds s tenantID groupID itemID = stub_RemovePaymentGroupItems creds s tenantID groupID [itemID]"

definition stub_SubmitPaymentGroup ::
  "(string \<Rightarrow> unit result) \<Rightarrow> stub_dda \<Rightarrow> string \<Rightarrow> string \<Rightarrow> string \<Rightarrow> string \<Rightarrow> stub_dda \<times> unit result" where
  "stub_SubmitPaymentGroup creds s tenantID groupID uploaderName idemKey =
     (case creds tenantID of
        Inl e \<Rightarrow> (s, Inl e)
      | Inr _ \<Rightarrow>
          if TrimSpace uploaderName = [] then (s, Inl ErrValidation)
          else case map_of (sd_groups s) (key tenantID groupID) of
            None \<Rightarrow> (s, Inl ErrNotFound)
          | Some its \<Rightarrow>
              (s\<lparr>sd_groups := put (key tenantID groupID)
                   (map (\<lambda>it. it\<lparr>di_Status := item_status_string StatusScheduled\<rparr>) its) (sd_groups s)\<rparr>, Inr ()))"

definition stub_service ::
  "(string \<Rightarrow> string) \<Rightarrow> (string \<Rightarrow> unit result) \<Rightarrow> gotime \<Rightarrow> (string \<Rightarrow> tenant result) \<Rightarrow> stub_dda dda_service" where
  "stub_service sha creds due tenants =
     \<lparr>ds_tenants = tenants,
      ds_dda = \<lparr>dv_ListOpenBoletos = stub_ListOpenBoletos creds, dv_CreatePaymentGroup = stub_CreatePaymentGroup sha creds due,
        dv_GetPaymentGroup = stub_GetPaymentGroup creds, dv_RemovePaymentGroupItems = stub_RemovePaymentGroupItems creds,
        dv_RemovePaymentGroupItem = stub_RemovePaymentGroupItem creds, dv_SubmitPaymentGroup = stub_SubmitPaymentGroup creds\<rparr>\<rparr>"

lemmas stub_ops = stub_service_def stub_GetPaymentGroup_def stub_RemovePaymentGroupItems_def stub_RemovePaymentGroupItem_def
  stub_SubmitPaymentGroup_def toDDAGroup_def

section \<open>What the aggregate decides\<close>

lemma find_status: "find (\<lambda>x. item_status_string x = u) item_statuses = Some x \<longleftrightarrow> item_status_string x = u"
  by (cases x) (auto simp: item_statuses_def)

lemma new_items_ids: "new_items is = Inr xs \<Longrightarrow> map it_id xs = map (\<lambda>i. TrimSpace (di_ID i)) is"
  by (induction "is" arbitrary: xs) (auto simp: bindE_Inr_iff NewGroupItem_def Let_def split: if_splits)

lemma new_items_filter:
  assumes "new_items is = Inr xs" "\<And>i. i \<in> set is \<Longrightarrow> TrimSpace (di_ID i) = di_ID i"
  shows "new_items (filter (\<lambda>i. di_ID i \<notin> S) is) = Inr (filter (\<lambda>x. it_id x \<notin> S) xs)"
  using assms
proof (induction "is" arbitrary: xs)
  case (Cons i "is")
  from Cons.prems(1) obtain x ys where x: "NewGroupItem i = Inr x" "new_items is = Inr ys" "xs = x # ys"
    by (auto simp: bindE_Inr_iff)
  have "it_id x = di_ID i" using x(1) Cons.prems(2) [of i] by (auto simp: NewGroupItem_def Let_def bindE_Inr_iff split: if_splits)
  with x Cons.IH [OF x(2)] Cons.prems(2) show ?case by simp
qed simp

lemma ParseItemStatus_Scheduled [simp]: "ParseItemStatus (item_status_string StatusScheduled) = Inr StatusScheduled"
  by code_simp

lemma new_items_schedule:
  "new_items is = Inr xs \<Longrightarrow>
     new_items (map (\<lambda>i. i\<lparr>di_Status := item_status_string StatusScheduled\<rparr>) is) = Inr (map (\<lambda>x. x\<lparr>it_status := StatusScheduled\<rparr>) xs)"
proof (induction "is" arbitrary: xs)
  case (Cons i "is")
  from Cons.prems obtain x ys where x: "NewGroupItem i = Inr x" "new_items is = Inr ys" "xs = x # ys" by (auto simp: bindE_Inr_iff)
  then have "NewGroupItem (i\<lparr>di_Status := item_status_string StatusScheduled\<rparr>) = Inr (x\<lparr>it_status := StatusScheduled\<rparr>)"
    by (auto simp: NewGroupItem_def Let_def bindE_Inr_iff simp del: item_status_string.simps split: if_splits)
  with x Cons.IH [OF x(2)] show ?case by (simp del: item_status_string.simps)
qed simp

text \<open>The aggregate the bank holds under a tenant and a group id, and who may call.\<close>

definition group_of :: "stub_dda \<Rightarrow> string \<Rightarrow> string \<Rightarrow> payment_group result" where
  "group_of s t g =
     (if map_of (sd_groups s) (key t g) = None then Inl ErrNotFound else reconstruct t (toDDAGroup s t g))"

definition may_call :: "(string \<Rightarrow> unit result) \<Rightarrow> (string \<Rightarrow> tenant result) \<Rightarrow> string \<Rightarrow> bool" where
  "may_call creds tenants t \<longleftrightarrow>
     creds t = Inr () \<and> (case tenants t of Inl e \<Rightarrow> False | Inr x \<Rightarrow> tn_active x)"

lemma may_call_active: "may_call creds tn t \<Longrightarrow> dda_requireActiveTenant (stub_service sha creds due tn) t = Inr ()"
  by (auto simp: may_call_def dda_requireActiveTenant_def stub_service_def split: sum.splits)

lemma load_eq:
  assumes "may_call creds tn t" "TrimSpace g \<noteq> []"
  shows "loadForMutation (stub_service sha creds due tn) s t g = group_of s t (TrimSpace g)"
  using assms(2) may_call_active [OF assms(1), of sha due] assms(1)
  by (auto simp: loadForMutation_def group_of_def stub_ops may_call_def Let_def)

text \<open>A call that reads no group changes none.\<close>

lemma load_Inr:
  assumes "loadForMutation (stub_service sha creds due tn) s t g = Inr G"
  shows "may_call creds tn t" "TrimSpace g \<noteq> []" "group_of s t (TrimSpace g) = Inr G"
proof -
  show m: "may_call creds tn t" and g: "TrimSpace g \<noteq> []"
    using assms by (auto simp: loadForMutation_def dda_requireActiveTenant_def may_call_def stub_ops bindE_Inr_iff Let_def
        split: if_splits sum.splits)
  show "group_of s t (TrimSpace g) = Inr G" using assms load_eq [OF m g] by metis
qed

lemma group_of_items: "group_of s t g = Inr G \<Longrightarrow> \<exists>its. map_of (sd_groups s) (key t g) = Some its \<and> new_items its = Inr (pg_items G)"
  by (auto simp: group_of_def reconstruct_def Reconstruct_def toDDAGroup_def bindE_Inr_iff Let_def split: if_splits)

lemma group_of_put:
  assumes "group_of s t g = Inr G" "new_items its = Inr xs"
  shows "group_of (s\<lparr>sd_groups := put (key t g) its (sd_groups s)\<rparr>) t g = Inr (G\<lparr>pg_items := xs\<rparr>)"
  using assms by (auto simp: group_of_def reconstruct_def Reconstruct_def toDDAGroup_def bindE_Inr_iff Let_def split: if_splits)

lemma map_TrimSpace_id: "(\<And>i. i \<in> set is \<Longrightarrow> TrimSpace i = i) \<Longrightarrow> set (map TrimSpace is) = set is"
  by force

section \<open>Sequences of calls\<close>

datatype group_event =
    ECreate gotime dda_group_request
  | ERemoveItems string string "string list"
  | ERemoveItem string string string
  | ESubmit string string string string

fun event_tenant :: "group_event \<Rightarrow> string" where
  "event_tenant (ECreate due req) = gq_TenantID req"
| "event_tenant (ERemoveItems t g ids) = t"
| "event_tenant (ERemoveItem t g i) = t"
| "event_tenant (ESubmit t g up ik) = t"

fun group_step ::
  "(string \<Rightarrow> string) \<Rightarrow> (string \<Rightarrow> unit result) \<Rightarrow> (string \<Rightarrow> tenant result) \<Rightarrow> group_event \<Rightarrow> stub_dda \<Rightarrow> stub_dda" where
  "group_step sha creds tn (ECreate due req) s = fst (CreatePaymentGroup (stub_service sha creds due tn) s req)"
| "group_step sha creds tn (ERemoveItems t g ids) s = fst (RemovePaymentGroupItems (stub_service sha creds zero_time tn) s t g ids)"
| "group_step sha creds tn (ERemoveItem t g i) s = fst (RemovePaymentGroupItem (stub_service sha creds zero_time tn) s t g i)"
| "group_step sha creds tn (ESubmit t g up ik) s = fst (SubmitPaymentGroup (stub_service sha creds zero_time tn) s t g up ik)"

text \<open>A creation whose group id is the given one is a repetition the bank has recorded.\<close>

fun no_clash :: "(string \<Rightarrow> string) \<Rightarrow> stub_dda \<Rightarrow> string \<Rightarrow> group_event \<Rightarrow> bool" where
  "no_clash sha s k (ECreate due req) \<longleftrightarrow>
     key (gq_TenantID req) (stub_groupID sha (gq_TenantID req) (gq_IdempotencyKey req)) = k \<longrightarrow>
     map_of (sd_groupByIdem s) (key (gq_TenantID req) (gq_IdempotencyKey req)) \<noteq> None"
| "no_clash sha s k _ \<longleftrightarrow> True"

text \<open>Some item of the group is in a state reached only after submission.\<close>

definition submitted_items :: "dda_item list \<Rightarrow> bool" where
  "submitted_items its = list_ex (\<lambda>i. case ParseItemStatus (di_Status i) of Inl e \<Rightarrow> False | Inr x \<Rightarrow> Submitted x) its"

lemma submitted_new_items: "new_items is = Inr xs \<Longrightarrow> submitted_items is \<longleftrightarrow> list_ex (\<lambda>x. Submitted (it_status x)) xs"
proof (induction "is" arbitrary: xs)
  case (Cons i "is")
  from Cons.prems obtain x ys where x: "NewGroupItem i = Inr x" "new_items is = Inr ys" "xs = x # ys" by (auto simp: bindE_Inr_iff)
  then have "ParseItemStatus (di_Status i) = Inr (it_status x)"
    by (auto simp: NewGroupItem_def Let_def bindE_Inr_iff split: if_splits)
  with x Cons.IH [OF x(2)] show ?case by (simp add: submitted_items_def)
qed (simp add: submitted_items_def)

lemma submitted_load:
  assumes "map_of (sd_groups s) (key t (TrimSpace g)) = Some its" "submitted_items its"
    "loadForMutation (stub_service sha creds due tn) s t g = Inr G"
  shows "IsSubmitted G"
  using group_of_items [OF load_Inr(3) [OF assms(3)]] assms(1,2) submitted_new_items by (auto simp: IsSubmitted_def)

lemma frozen_step:
  assumes "nul_free t0" "TrimSpace g0 = g0" "nul_free (event_tenant e)"
    and k: "map_of (sd_groups s) (key t0 g0) = Some its" "submitted_items its" and nc: "no_clash sha s (key t0 g0) e"
  shows "map_of (sd_groups (group_step sha creds tn e s)) (key t0 g0) = Some its \<and>
    (map_of (sd_groupByIdem s) a \<noteq> None \<longrightarrow> map_of (sd_groupByIdem (group_step sha creds tn e s)) a \<noteq> None)"
proof -
  have hit: "TrimSpace g = g" "map_of (sd_groups s) (key t (TrimSpace g)) = Some its" if "key t g = key t0 g0" "nul_free t" for t g
    using that assms(1,2) k(1) by (auto simp: key_inj)
  have no_remove: "RemoveItems G ids = Inl ErrInvalidTransition" if "IsSubmitted G" for G ids
    using that by (simp add: RemoveItems_def)
  show ?thesis
  proof (cases e)
    case (ECreate due req)
    with nc k(1) show ?thesis
      by (auto simp: CreatePaymentGroup_def stub_CreatePaymentGroup_def stub_service_def ddaAnchor_def Let_def
          split: sum.splits option.splits prod.splits)
  next
    case (ERemoveItems t g ids)
    show ?thesis
    proof (cases "bindE (loadForMutation (stub_service sha creds zero_time tn) s t g) (\<lambda>grp.
        if length ids = 0 then Inl (NewValidationError ''item_ids'' ''at least one item id is required'') else RemoveItems grp ids)")
      case (Inr G)
      then obtain G' where "loadForMutation (stub_service sha creds zero_time tn) s t g = Inr G'" "RemoveItems G' ids = Inr G"
        by (auto simp: bindE_Inr_iff split: if_splits)
      then have "key t g \<noteq> key t0 g0"
        using submitted_load hit no_remove k(2) assms(3) ERemoveItems by (metis Inl_Inr_False event_tenant.simps(2))
      with Inr ERemoveItems k(1) show ?thesis
        by (auto simp: RemovePaymentGroupItems_def stub_service_def stub_RemovePaymentGroupItems_def split: sum.splits option.splits)
    qed (use ERemoveItems k(1) in \<open>simp add: RemovePaymentGroupItems_def\<close>)
  next
    case (ERemoveItem t g i)
    show ?thesis
    proof (cases "bindE (loadForMutation (stub_service sha creds zero_time tn) s t g) (\<lambda>grp.
        if TrimSpace i = [] then Inl (NewValidationError ''item_id'' ''item id is required'') else RemoveItems grp [TrimSpace i])")
      case (Inr G)
      then obtain G' where "loadForMutation (stub_service sha creds zero_time tn) s t g = Inr G'" "RemoveItems G' [TrimSpace i] = Inr G"
        by (auto simp: bindE_Inr_iff split: if_splits)
      then have "key t g \<noteq> key t0 g0"
        using submitted_load hit no_remove k(2) assms(3) ERemoveItem by (metis Inl_Inr_False event_tenant.simps(3))
      with Inr ERemoveItem k(1) show ?thesis
        by (auto simp: RemovePaymentGroupItem_def stub_service_def stub_RemovePaymentGroupItem_def stub_RemovePaymentGroupItems_def
            split: sum.splits option.splits)
    qed (use ERemoveItem k(1) in \<open>simp add: RemovePaymentGroupItem_def\<close>)
  next
    case (ESubmit t g up ik)
    show ?thesis
    proof (cases "loadForMutation (stub_service sha creds zero_time tn) s t g")
      case (Inr G)
      then have "key t g = key t0 g0 \<Longrightarrow> IsSubmitted G"
        using submitted_load hit k(2) assms(3) ESubmit by (metis event_tenant.simps(4))
      with Inr ESubmit k(1) show ?thesis
        by (auto simp: SubmitPaymentGroup_def stub_service_def stub_SubmitPaymentGroup_def split: sum.splits option.splits)
    qed (use ESubmit k(1) in \<open>simp add: SubmitPaymentGroup_def\<close>)
  qed
qed

section \<open>Claims\<close>

text \<open>What the service does with a decision of the aggregate: its error and no effect, or its value at the bank.\<close>

definition carries :: "stub_dda \<Rightarrow> string \<Rightarrow> string \<Rightarrow> payment_group result \<Rightarrow> stub_dda \<times> unit result \<Rightarrow> bool" where
  "carries s t g decision out \<longleftrightarrow>
     (case decision of
        Inl e \<Rightarrow> out = (s, Inl e)
      | Inr G \<Rightarrow> snd out = Inr () \<and> group_of (fst out) t g = Inr G \<and>
          (\<forall>k. k \<noteq> key t g \<longrightarrow> map_of (sd_groups (fst out)) k = map_of (sd_groups s) k))"

lemma RemoveItems_Inr: "RemoveItems G ids = Inr G' \<Longrightarrow> G' = G\<lparr>pg_items := filter (\<lambda>x. it_id x \<notin> set (map TrimSpace ids)) (pg_items G)\<rparr>"
  by (auto simp: RemoveItems_def bindE_Inr_iff split: if_splits)

lemma RemoveItems_one: "TrimSpace p \<noteq> [] \<Longrightarrow> RemoveItems G [TrimSpace p] = RemoveItems G [p]"
  by (simp add: RemoveItems_def)

lemma bank_removes:
  assumes "creds t = Inr ()" "group_of s t g = Inr G"
    and "\<forall>its. map_of (sd_groups s) (key t g) = Some its \<longrightarrow> (\<forall>i \<in> set its. TrimSpace (di_ID i) = di_ID i)"
  shows "carries s t g (Inr (G\<lparr>pg_items := filter (\<lambda>x. it_id x \<notin> set ids) (pg_items G)\<rparr>)) (stub_RemovePaymentGroupItems creds s t g ids)"
proof -
  obtain its where its: "map_of (sd_groups s) (key t g) = Some its" "new_items its = Inr (pg_items G)"
    using group_of_items [OF assms(2)] by blast
  have "new_items (filter (\<lambda>i. di_ID i \<notin> set ids) its) = Inr (filter (\<lambda>x. it_id x \<notin> set ids) (pg_items G))"
    using new_items_filter [OF its(2)] assms(3) its(1) by blast
  from group_of_put [OF assms(2) this] show ?thesis
    using its(1) assms(1) by (simp add: carries_def stub_RemovePaymentGroupItems_def)
qed

text \<open>
  C26: the service carries out at the bank what the aggregate decides. Take a group the bank holds, under a group
  id and with item ids that have no blanks around them. Where the aggregate refuses a removal or a submission,
  the service fails with the aggregate's error and changes nothing. Where it allows one, the call succeeds, no
  other group changes, and the group at the bank is afterwards the aggregate's result: for a submission, for
  the removal of one item under any spelling of its id, and for a removal of several whose ids are spelled
  without blanks. With padded ids the removal of several takes from the bank only the items whose ids are spelled
  exactly, although the aggregate dropped the others too (C40). Submitting a submitted group succeeds without
  effect.
\<close>

theorem groups_refine_aggregate:
  assumes "may_call creds tn t" "TrimSpace g = g" "g \<noteq> []" "group_of s t g = Inr G"
    and "\<forall>its. map_of (sd_groups s) (key t g) = Some its \<longrightarrow> (\<forall>i \<in> set its. TrimSpace (di_ID i) = di_ID i)"
    and "ids \<noteq> []" "TrimSpace up \<noteq> []" "TrimSpace ik \<noteq> []"
  shows "carries s t g (bindE (RemoveItems G ids) (\<lambda>_. Inr (G\<lparr>pg_items := filter (\<lambda>x. it_id x \<notin> set ids) (pg_items G)\<rparr>)))
      (RemovePaymentGroupItems (stub_service sha creds due tn) s t g ids) \<and>
    ((\<forall>i \<in> set ids. TrimSpace i = i) \<longrightarrow>
       carries s t g (RemoveItems G ids) (RemovePaymentGroupItems (stub_service sha creds due tn) s t g ids)) \<and>
    carries s t g (if TrimSpace p = [] then Inl (NewValidationError ''item_id'' ''item id is required'') else RemoveItems G [p])
      (RemovePaymentGroupItem (stub_service sha creds due tn) s t g p) \<and>
    (if IsSubmitted G then SubmitPaymentGroup (stub_service sha creds due tn) s t g up ik = (s, Inr ())
     else carries s t g (SubmitForApproval G) (SubmitPaymentGroup (stub_service sha creds due tn) s t g up ik))"
proof -
  have load: "loadForMutation (stub_service sha creds due tn) s t g = Inr G"
    using load_eq [OF assms(1), of g sha due s] assms(2-4) by simp
  have c: "creds t = Inr ()" using assms(1) by (simp add: may_call_def)
  note bank = bank_removes [of creds, OF c assms(4) assms(5)]
  have raw: "carries s t g (bindE (RemoveItems G ids) (\<lambda>_. Inr (G\<lparr>pg_items := filter (\<lambda>x. it_id x \<notin> set ids) (pg_items G)\<rparr>)))
      (RemovePaymentGroupItems (stub_service sha creds due tn) s t g ids)"
    using load assms(6) bank [of ids]
    by (cases "RemoveItems G ids") (simp_all add: RemovePaymentGroupItems_def stub_service_def carries_def [of _ _ _ "Inl e" for e])
  moreover have "carries s t g (RemoveItems G ids) (RemovePaymentGroupItems (stub_service sha creds due tn) s t g ids)"
    if "\<forall>i \<in> set ids. TrimSpace i = i"
    using raw that map_TrimSpace_id [of ids] RemoveItems_Inr [of G ids] by (cases "RemoveItems G ids") simp_all
  moreover have "carries s t g (if TrimSpace p = [] then Inl (NewValidationError ''item_id'' ''item id is required'') else RemoveItems G [p])
      (RemovePaymentGroupItem (stub_service sha creds due tn) s t g p)"
    using load bank [of "[TrimSpace p]"] RemoveItems_Inr [of G "[p]"] RemoveItems_one [of p G]
    by (cases "RemoveItems G [p]")
      (auto simp: RemovePaymentGroupItem_def stub_service_def stub_RemovePaymentGroupItem_def carries_def [of _ _ _ "Inl e" for e])
  moreover have "if IsSubmitted G then SubmitPaymentGroup (stub_service sha creds due tn) s t g up ik = (s, Inr ())
     else carries s t g (SubmitForApproval G) (SubmitPaymentGroup (stub_service sha creds due tn) s t g up ik)"
  proof (cases "SubmitForApproval G")
    case (Inr G')
    obtain its where its: "map_of (sd_groups s) (key t g) = Some its" "new_items its = Inr (pg_items G)"
      using group_of_items [OF assms(4)] by blast
    from Inr have "G' = G\<lparr>pg_items := map (\<lambda>x. x\<lparr>it_status := StatusScheduled\<rparr>) (pg_items G)\<rparr>"
      by (auto simp: SubmitForApproval_def split: if_splits)
    with Inr load its(1) c assms(7,8) group_of_put [OF assms(4) new_items_schedule [OF its(2)]] show ?thesis
      by (simp add: SubmitPaymentGroup_def carries_def) (simp add: stub_ops)
  qed (use load assms(7,8) in \<open>simp add: SubmitPaymentGroup_def carries_def\<close>)
  ultimately show ?thesis by blast
qed

text \<open>
  C27: a submitted group is frozen. Once the bank reports an item of a group in a state after submission, no
  sequence of creations, removals and submissions through the service, by any tenant, changes the items of
  that group. Tenant ids have no NUL byte, and a creation whose id collides with the group's is a recorded
  repetition.
\<close>

theorem submitted_group_frozen:
  assumes "nul_free t0" "TrimSpace g0 = g0" "map_of (sd_groups s) (key t0 g0) = Some its" "submitted_items its"
    and "\<forall>e \<in> set es. nul_free (event_tenant e) \<and> no_clash sha s (key t0 g0) e"
  shows "map_of (sd_groups (fold (group_step sha creds tn) es s)) (key t0 g0) = Some its"
  using assms(3,5)
proof (induction es arbitrary: s)
  case (Cons e es)
  let ?s = "group_step sha creds tn e s"
  have f: "map_of (sd_groups ?s) (key t0 g0) = Some its \<and>
      (map_of (sd_groupByIdem s) a \<noteq> None \<longrightarrow> map_of (sd_groupByIdem ?s) a \<noteq> None)" for a
    using Cons.prems by (intro frozen_step [OF assms(1,2) _ _ assms(4)]) auto
  have "no_clash sha ?s (key t0 g0) d" if "no_clash sha s (key t0 g0) d" for d
    using that f by (cases d) auto
  with Cons.IH [of ?s] Cons.prems(2) f show ?case by simp
qed simp

lemma ValidateContent_not_Nil: "ValidateContent c = Inr () \<Longrightarrow> TrimSpace c \<noteq> []"
  by (auto simp: ValidateContent_def validBarcode_def validBRCode_def pixKeyPattern_def isTaxIDKey_def dda_phone_def
      dda_email_def dda_evp_def Let_def split: if_splits)

lemma group_payments_Inr:
  "group_payments ps = Inr qs \<Longrightarrow> map dp_Content qs = map (TrimSpace \<circ> dp_Content) ps \<and> map dp_AmountCents qs = map dp_AmountCents ps \<and>
     (\<forall>q \<in> set qs. TrimSpace (dp_Content q) \<noteq> [] \<and> TrimSpace (dp_Content q) = dp_Content q \<and> dp_AmountCents q > 0)"
  by (induction ps arbitrary: qs) (auto simp: bindE_Inr_iff ValidateContent_not_Nil split: if_splits)

lemma plain_hex: "c \<in> set (hex_encode b) \<Longrightarrow> plain_byte c"
proof -
  assume "c \<in> set (hex_encode b)"
  moreover have "of_char x div 16 < (16 :: nat)" "of_char x mod 16 < (16 :: nat)" for x :: char
    using nat_of_char_less_256 [of x] by (simp_all add: less_mult_imp_div_less)
  moreover obtain x where "c = hex_digit (of_char x div 16) \<or> c = hex_digit (of_char x mod 16)"
    using calculation(1) by (auto simp: hex_encode_def)
  ultimately obtain n where "n < 16" "c = hex_digit n" by metis
  moreover have "\<forall>n \<in> set [0..<16]. plain_byte (hex_digit n)" by code_simp
  ultimately show ?thesis by simp
qed

lemma stub_groupID_plain: "TrimSpace (stub_groupID sha t a) = stub_groupID sha t a" "stub_groupID sha t a \<noteq> []"
proof -
  have "plain_byte c" if "c \<in> set (stub_groupID sha t a)" for c
    using that plain_hex by (auto simp: stub_groupID_def stubHash_def plain_byte_def less_eq_char_def dest!: in_set_takeD)
  moreover show "stub_groupID sha t a \<noteq> []" by (simp add: stub_groupID_def)
  ultimately show "TrimSpace (stub_groupID sha t a) = stub_groupID sha t a"
    by (intro TrimSpace_plain) (auto simp: hd_in_set last_in_set)
qed

text \<open>
  what is submitted can be read back. A group whose payments pass the checks is created under a new id;
  reading that id back yields one item per payment, in order, with the trimmed reference and the amount and
  not yet submitted; repeating the creation with the same key returns the same id and changes nothing.
\<close>

theorem group_roundtrip:
  fixes sha :: "string \<Rightarrow> string"
  assumes "may_call creds tn (gq_TenantID inp)" "create_group_checks (stub_service sha creds due tn) inp = Inr ps"
    and "map_of (sd_groupByIdem s) (key (gq_TenantID inp) (gq_IdempotencyKey inp)) = None"
  shows "\<exists>s' gid items. CreatePaymentGroup (stub_service sha creds due tn) s inp = (s', Inr \<lparr>dg_ID = gid, dg_Items = []\<rparr>) \<and>
    GetPaymentGroupItems (stub_service sha creds due tn) s' (gq_TenantID inp) gid = Inr items \<and>
    map di_Content items = map (TrimSpace \<circ> dp_Content) (gq_Payments inp) \<and>
    map di_AmountCents items = map dp_AmountCents (gq_Payments inp) \<and> \<not> submitted_items items \<and>
    CreatePaymentGroup (stub_service sha creds due tn) s' inp = (s', Inr \<lparr>dg_ID = gid, dg_Items = []\<rparr>)"
proof -
  let ?t = "gq_TenantID inp" and ?a = "gq_IdempotencyKey inp"
  let ?gid = "stub_groupID sha ?t ?a" and ?items = "map (stub_item sha due ?a) ps"
  let ?s = "s\<lparr>sd_groups := put (key ?t ?gid) ?items (sd_groups s), sd_groupByIdem := put (key ?t ?a) ?gid (sd_groupByIdem s)\<rparr>"
  have ps: "group_payments (gq_Payments inp) = Inr ps" "?a \<noteq> []" "gq_Payments inp \<noteq> []"
    using assms(2) by (auto simp: create_group_checks_def bindE_Inr_iff split: if_splits)
  note p = group_payments_Inr [OF ps(1)]
  have ne: "ps \<noteq> []" using p ps(3) by auto
  have ok: "\<not> list_ex (\<lambda>pay. TrimSpace (dp_Content pay) = [] \<or> dp_AmountCents pay \<le> 0) ps"
    using p by (force simp: list_ex_iff)
  have c: "creds ?t = Inr ()" using assms(1) by (simp add: may_call_def)
  have one: "CreatePaymentGroup (stub_service sha creds due tn) s inp = (?s, Inr \<lparr>dg_ID = ?gid, dg_Items = []\<rparr>)"
    using assms(2,3) c ps(2) ne ok stub_groupID_plain
    by (simp add: CreatePaymentGroup_def) (simp add: stub_service_def stub_CreatePaymentGroup_def ddaAnchor_def Let_def)
  have again: "CreatePaymentGroup (stub_service sha creds due tn) ?s inp = (?s, Inr \<lparr>dg_ID = ?gid, dg_Items = []\<rparr>)"
    using assms(2) c ps(2) ne ok stub_groupID_plain
    by (simp add: CreatePaymentGroup_def) (simp add: stub_service_def stub_CreatePaymentGroup_def ddaAnchor_def Let_def)
  have get: "GetPaymentGroupItems (stub_service sha creds due tn) ?s ?t ?gid = Inr ?items"
    using c stub_groupID_plain may_call_active [OF assms(1), of sha due]
    by (simp add: GetPaymentGroupItems_def Let_def) (simp add: stub_ops)
  have r: "ParseItemStatus ''READ_DATA'' = Inr StatusReadData" by code_simp
  have "map di_Content ?items = map (TrimSpace \<circ> dp_Content) (gq_Payments inp)"
    using p by (auto simp: stub_item_def Let_def o_def cong: map_cong)
  moreover have "map di_AmountCents ?items = map dp_AmountCents (gq_Payments inp)"
    using p by (simp add: stub_item_def Let_def o_def)
  moreover have "\<not> submitted_items ?items" by (simp add: submitted_items_def stub_item_def Let_def list_ex_iff r)
  ultimately show ?thesis using one again get by blast
qed

text \<open>
  C40: a removal with blanks around an id reports success and removes nothing. The aggregate trims the id and
  finds the item; the bank is given the id as it came and finds none.
\<close>

theorem padded_removal_no_effect:
  assumes "may_call creds tn t" "TrimSpace g = g" "g \<noteq> []" "group_of s t g = Inr G" "\<not> IsSubmitted G"
    and "map_of (sd_groups s) (key t g) = Some its" "TrimSpace p \<in> set (map it_id (pg_items G))" "TrimSpace p \<noteq> []"
    and "p \<notin> set (map di_ID its)"
  shows "\<exists>s'. RemovePaymentGroupItems (stub_service sha creds due tn) s t g [p] = (s', Inr ()) \<and>
    map_of (sd_groups s') = map_of (sd_groups s)"
proof -
  have load: "loadForMutation (stub_service sha creds due tn) s t g = Inr G"
    using load_eq [OF assms(1), of g sha due s] assms(2-4) by simp
  have c: "creds t = Inr ()" using assms(1) by (simp add: may_call_def)
  have "filter (\<lambda>it. di_ID it \<noteq> p) its = its" using assms(9) by (auto simp: filter_id_conv)
  with load c assms(5-8) show ?thesis
    by (simp add: RemovePaymentGroupItems_def RemoveItems_def) (simp add: stub_ops fun_upd_idem)
qed

section \<open>Witnesses\<close>

definition sample_accept :: "string \<Rightarrow> unit result" where "sample_accept t = Inr ()"

definition sample_clients :: "string \<Rightarrow> tenant result" where
  "sample_clients t = Inr \<lparr>tn_id = t, tn_name = t, tn_active = True, tn_createdAt = zero_time, tn_accountID = []\<rparr>"

definition sample_group_item :: "string \<Rightarrow> item_status \<Rightarrow> dda_item" where
  "sample_group_item i st =
     \<lparr>di_ID = i, di_Content = ''12345678901'', di_AmountCents = 100, di_DueDate = zero_time, di_Status = item_status_string st,
      di_ProductType = [], di_ErrorMessage = [], di_Overdue = False\<rparr>"

definition sample_groups :: "item_status \<Rightarrow> stub_dda" where
  "sample_groups st =
     \<lparr>sd_boletos = [], sd_groups = [(key ''t'' ''g'', [sample_group_item ''i1'' st, sample_group_item ''i2'' st])], sd_groupByIdem = []\<rparr>"

definition sample_group :: payment_group where
  "sample_group = (case group_of (sample_groups StatusReadData) ''t'' ''g'' of Inr G \<Rightarrow> G | Inl e \<Rightarrow> \<lparr>pg_id = [], pg_tenantID = [], pg_items = []\<rparr>)"

definition sample_request :: dda_group_request where
  "sample_request = \<lparr>gq_TenantID = ''t'', gq_Payments = [\<lparr>dp_Content = '' 12345678901'', dp_AmountCents = 5, dp_Description = [],
     dp_BeneficiaryName = [], dp_PayerName = [], dp_BankCode = [], dp_BankName = [], dp_TransactionDate = zero_time\<rparr>],
     gq_IdempotencyKey = ''k''\<rparr>"

lemma sample_group_facts:
  "may_call sample_accept sample_clients ''t''" "TrimSpace ''g'' = ''g''" "''g'' \<noteq> []" "nul_free ''t''"
  "group_of (sample_groups StatusReadData) ''t'' ''g'' = Inr sample_group" "\<not> IsSubmitted sample_group"
  "map_of (sd_groups (sample_groups StatusReadData)) (key ''t'' ''g'') =
     Some [sample_group_item ''i1'' StatusReadData, sample_group_item ''i2'' StatusReadData]"
  "map it_id (pg_items sample_group) = [''i1'', ''i2'']"
  "TrimSpace ''i1'' = ''i1''" "TrimSpace ''i2'' = ''i2''" "TrimSpace ''i1 '' = ''i1''" "TrimSpace ''u'' \<noteq> []"
  by code_simp+

theorem groups_refine_aggregate_witness:
  "\<exists>G' s'. RemoveItems sample_group [''i1''] = Inr G' \<and>
     RemovePaymentGroupItems (stub_service (\<lambda>x. x) sample_accept zero_time sample_clients) (sample_groups StatusReadData) ''t'' ''g'' [''i1''] =
       (s', Inr ()) \<and> group_of s' ''t'' ''g'' = Inr G'"
proof -
  have c: "\<forall>its. map_of (sd_groups (sample_groups StatusReadData)) (key ''t'' ''g'') = Some its \<longrightarrow> (\<forall>i \<in> set its. TrimSpace (di_ID i) = di_ID i)"
    using sample_group_facts by (auto simp: sample_group_item_def)
  have i: "[''i1''] \<noteq> []" "\<forall>i \<in> set [''i1'']. TrimSpace i = i" using sample_group_facts(9) by auto
  obtain G' where G': "RemoveItems sample_group [''i1''] = Inr G'"
    using sample_group_facts by (simp add: RemoveItems_def)
  let ?out = "RemovePaymentGroupItems (stub_service (\<lambda>x. x) sample_accept zero_time sample_clients) (sample_groups StatusReadData) ''t'' ''g'' [''i1'']"
  from groups_refine_aggregate [OF sample_group_facts(1,2,3,5) c i(1) sample_group_facts(12,12), of "\<lambda>x. x" zero_time] i(2)
  have "carries (sample_groups StatusReadData) ''t'' ''g'' (RemoveItems sample_group [''i1'']) ?out" by blast
  then have "?out = (fst ?out, Inr ()) \<and> group_of (fst ?out) ''t'' ''g'' = Inr G'" by (simp add: carries_def G' prod_eq_iff)
  with G' show ?thesis by blast
qed

theorem submitted_group_frozen_witness:
  "map_of (sd_groups (fold (group_step (\<lambda>x. x) sample_accept sample_clients)
       [ERemoveItems ''t'' ''g'' [''i1''], ESubmit ''t'' ''g'' ''u'' ''k''] (sample_groups StatusScheduled))) (key ''t'' ''g'') =
     Some [sample_group_item ''i1'' StatusScheduled, sample_group_item ''i2'' StatusScheduled]"
proof -
  have m: "map_of (sd_groups (sample_groups StatusScheduled)) (key ''t'' ''g'') =
      Some [sample_group_item ''i1'' StatusScheduled, sample_group_item ''i2'' StatusScheduled]" by (simp add: sample_groups_def)
  have u: "submitted_items [sample_group_item ''i1'' StatusScheduled, sample_group_item ''i2'' StatusScheduled]" by code_simp
  show ?thesis
    by (rule submitted_group_frozen [OF sample_group_facts(4,2) m u]) (simp add: sample_group_facts(4))
qed

theorem group_roundtrip_witness:
  "\<exists>s' gid items. CreatePaymentGroup (stub_service (\<lambda>x. x) sample_accept zero_time sample_clients) (sample_groups StatusReadData) sample_request =
       (s', Inr \<lparr>dg_ID = gid, dg_Items = []\<rparr>) \<and>
     GetPaymentGroupItems (stub_service (\<lambda>x. x) sample_accept zero_time sample_clients) s' ''t'' gid = Inr items \<and> map di_AmountCents items = [5]"
proof -
  let ?v = "stub_service (\<lambda>x. x) sample_accept zero_time sample_clients"
  have t: "gq_TenantID sample_request = ''t''" "map dp_AmountCents (gq_Payments sample_request) = [5]" by (simp_all add: sample_request_def)
  have m: "may_call sample_accept sample_clients (gq_TenantID sample_request)" using sample_group_facts(1) t by simp
  have "\<not> isl (create_group_checks ?v sample_request)" by code_simp
  then obtain ps where ps: "create_group_checks ?v sample_request = Inr ps" by (cases "create_group_checks ?v sample_request") auto
  have n: "map_of (sd_groupByIdem (sample_groups StatusReadData)) (key (gq_TenantID sample_request) (gq_IdempotencyKey sample_request)) = None"
    by (simp add: sample_groups_def)
  from group_roundtrip [OF m ps n] show ?thesis unfolding t by (elim exE conjE) (intro exI conjI)
qed

theorem padded_removal_no_effect_witness:
  "\<exists>s'. RemovePaymentGroupItems (stub_service (\<lambda>x. x) sample_accept zero_time sample_clients) (sample_groups StatusReadData) ''t'' ''g'' [''i1 ''] =
       (s', Inr ()) \<and> map_of (sd_groups s') = map_of (sd_groups (sample_groups StatusReadData))"
proof -
  have i: "TrimSpace ''i1 '' \<in> set (map it_id (pg_items sample_group))" "TrimSpace ''i1 '' \<noteq> []"
    using sample_group_facts(8,11) by simp_all
  have p: "''i1 '' \<notin> set (map di_ID [sample_group_item ''i1'' StatusReadData, sample_group_item ''i2'' StatusReadData])"
    by (simp add: sample_group_item_def)
  show ?thesis by (rule padded_removal_no_effect [OF sample_group_facts(1,2,3,5,6,7) i p])
qed

end
