(* ===== verification/AdminPlane.thy ===== *)
theory AdminPlane
  imports ConsoleMemory
begin

text \<open>
  The service behind the admin API, \<open>internal/app/admin.go\<close>, and the provisioning of client companies by an
  account, \<open>internal/app/client_provisioning.go\<close>. Both are wired from the same dependencies as the console,
  so their ports are those of \<open>console_service\<close>; the operator id of the context is an argument. The claims are
  on the console and the admin API used together.
\<close>

section \<open>The admin service\<close>

definition recordAudit :: "'w console_service \<Rightarrow> string \<Rightarrow> action \<Rightarrow> string \<Rightarrow> ('w, 'a) tx \<Rightarrow> ('w, 'a) tx" where
  "recordAudit svc opr act tenantID k = audited svc (\<lambda>aid now. NewEntry aid opr act tenantID now) k"

definition recordCredentialAudit ::
  "'w console_service \<Rightarrow> string \<Rightarrow> string \<Rightarrow> string \<Rightarrow> bool \<Rightarrow> ('w, 'a) tx \<Rightarrow> ('w, 'a) tx" where
  "recordCredentialAudit svc opr tenantID bankID selfServe k =
     (let build = (if selfServe then NewSelfServeCredentialSetEntry else NewCredentialSetEntry)
      in audited svc (\<lambda>aid now. build aid opr tenantID bankID now) k)"

definition recordCertificateAudit ::
  "'w console_service \<Rightarrow> string \<Rightarrow> string \<Rightarrow> string \<Rightarrow> string \<Rightarrow> bool \<Rightarrow> ('w, 'a) tx \<Rightarrow> ('w, 'a) tx" where
  "recordCertificateAudit svc opr tenantID bankID fingerprint selfServe k =
     (let build = (if selfServe then NewSelfServeCertificateSetEntry else NewCertificateSetEntry)
      in audited svc (\<lambda>aid now. build aid opr tenantID bankID fingerprint now) k)"

definition AdminCreateTenant :: "'w console_service \<Rightarrow> string \<Rightarrow> string \<Rightarrow> ('w, tenant) tx" where
  "AdminCreateTenant svc opr nm =
     tx_ask (cs_NewID svc) (\<lambda>tid. tx_ask (cs_Now svc) (\<lambda>now.
       tx_lift (NewTenant tid nm now) (\<lambda>t.
         tx_write ''save tenant'' (\<lambda>w. cs_SaveTenant svc w t)
           (recordAudit svc opr ActionCreateTenant (tn_id t) (tx_return t)))))"

definition AdminSetEndpointPrice ::
  "'w console_service \<Rightarrow> string \<Rightarrow> string \<Rightarrow> string \<Rightarrow> int \<Rightarrow> ('w, endpoint_pricing) tx" where
  "AdminSetEndpointPrice svc opr tenantID endpoint priceCents =
     resolve_tenant svc tenantID
       (tx_lift (NewEndpointPricing tenantID endpoint priceCents) (\<lambda>p.
         tx_write ''upsert price'' (\<lambda>w. cs_UpsertPrice svc w p)
           (recordAudit svc opr ActionSetEndpointPrice tenantID (tx_return p))))"

abbreviation unknown_bank :: go_error where
  "unknown_bank \<equiv> NewValidationError ''bank'' ''unknown bank''"

definition admin_setBankCredential ::
  "'w console_service \<Rightarrow> string \<Rightarrow> string \<Rightarrow> string \<Rightarrow> string \<Rightarrow> string \<Rightarrow> bool \<Rightarrow> ('w, unit) tx" where
  "admin_setBankCredential svc opr tenantID bank clientID secret selfServe =
     (let bank = NormalizeBankID bank
      in if \<not> IsKnownBankID bank then tx_fail unknown_bank
         else resolve_tenant svc tenantID
           (tx_check (assertClientIDFree svc tenantID bank clientID) (\<lambda>_.
             tx_write ''set bank credential'' (\<lambda>w. cs_SetCredential svc w tenantID bank clientID secret)
               (tx_do (\<lambda>w. cs_Invalidate svc w tenantID)
                 (recordCredentialAudit svc opr tenantID bank selfServe (tx_return ()))))))"

definition AdminSetBankCredential ::
  "'w console_service \<Rightarrow> string \<Rightarrow> string \<Rightarrow> string \<Rightarrow> string \<Rightarrow> string \<Rightarrow> ('w, unit) tx" where
  "AdminSetBankCredential svc opr tenantID bank clientID secret =
     admin_setBankCredential svc opr tenantID bank clientID secret False"

definition SetBankCredentialSelfServe ::
  "'w console_service \<Rightarrow> string \<Rightarrow> string \<Rightarrow> string \<Rightarrow> string \<Rightarrow> string \<Rightarrow> ('w, unit) tx" where
  "SetBankCredentialSelfServe svc opr tenantID bank clientID secret =
     admin_setBankCredential svc opr tenantID bank clientID secret True"

definition admin_setBankCertificate ::
  "'w console_service \<Rightarrow> crypto \<Rightarrow> string \<Rightarrow> string \<Rightarrow> string \<Rightarrow> string \<Rightarrow> string \<Rightarrow> bool \<Rightarrow> ('w, bank_certificate_meta) tx" where
  "admin_setBankCertificate svc cy opr tenantID bank certPEM keyPEM selfServe =
     (let bank = NormalizeBankID bank
      in if \<not> IsKnownBankID bank then tx_fail unknown_bank
         else resolve_tenant svc tenantID
           (tx_lift (ParsePair cy certPEM keyPEM) (\<lambda>cert.
             tx_ask (cs_Now svc) (\<lambda>now.
               if Before (ct_NotAfter cert) now then tx_fail (NewValidationError ''cert_pem'' ''certificate is expired'')
               else tx_write ''set bank certificate'' (\<lambda>w. cs_SetCertificate svc w
                      \<lparr>bc_TenantID = tenantID, bc_BankID = bank, bc_CertPEM = certPEM, bc_KeyPEM = keyPEM\<rparr>)
                 (tx_do (\<lambda>w. cs_Invalidate svc w tenantID)
                   (recordCertificateAudit svc opr tenantID bank (ct_FingerprintSHA256 cert) selfServe
                     (tx_return (meta_of tenantID bank cert))))))))"

definition AdminSetBankCertificate ::
  "'w console_service \<Rightarrow> crypto \<Rightarrow> string \<Rightarrow> string \<Rightarrow> string \<Rightarrow> string \<Rightarrow> string \<Rightarrow> ('w, bank_certificate_meta) tx" where
  "AdminSetBankCertificate svc cy opr tenantID bank certPEM keyPEM =
     admin_setBankCertificate svc cy opr tenantID bank certPEM keyPEM False"

definition SetBankCertificateSelfServe ::
  "'w console_service \<Rightarrow> crypto \<Rightarrow> string \<Rightarrow> string \<Rightarrow> string \<Rightarrow> string \<Rightarrow> string \<Rightarrow> ('w, bank_certificate_meta) tx" where
  "SetBankCertificateSelfServe svc cy opr tenantID bank certPEM keyPEM =
     admin_setBankCertificate svc cy opr tenantID bank certPEM keyPEM True"

section \<open>Client provisioning\<close>

definition ErrClientProvisioningUnavailable :: go_error where
  "ErrClientProvisioningUnavailable = Opaque ''client provisioning store not configured''"

definition defaultClientName :: string where "defaultClientName = ''empresa-cliente''"

definition clientProvisionIdempotencyTTL :: int where "clientProvisionIdempotencyTTL = 15 * 60 * 1000000000"

record provision_result =
  pr_tenantID :: string
  pr_at :: gotime

type_synonym provision_guard = "(string \<times> provision_result) list"

definition prune_provisions :: "gotime \<Rightarrow> provision_guard \<Rightarrow> provision_guard" where
  "prune_provisions now g = filter (\<lambda>(k, r). \<not> SubTime now (pr_at r) > clientProvisionIdempotencyTTL) g"

text \<open>The minter acts on the store of references, which the console does not see; \<open>'r\<close> is its state.\<close>

record ('w, 'r) provision_world =
  pw_guard :: provision_guard
  pw_refs :: 'r
  pw_world :: 'w

definition provision ::
  "'w console_service option \<Rightarrow> ('r \<Rightarrow> string \<Rightarrow> 'r \<times> string result) option \<Rightarrow> string \<Rightarrow> string \<Rightarrow> string \<Rightarrow> bool \<Rightarrow>
     ('w, 'r) provision_world \<Rightarrow> ('w, 'r) provision_world \<times> (tenant \<times> string) result" where
  "provision tenants minter accountID nm idemKey mintWebhook s =
     (let accountID = TrimSpace accountID; idemKey = TrimSpace idemKey
      in if accountID = [] then (s, Inl (NewValidationError ''account_id'' ''account id is required''))
         else if idemKey = [] then (s, Inl (NewValidationError ''idempotency_key'' ''idempotency key is required''))
         else case tenants of
           None \<Rightarrow> (s, Inl ErrClientProvisioningUnavailable)
         | Some svc \<Rightarrow>
             let nm = (if TrimSpace nm = [] then defaultClientName else TrimSpace nm);
                 gkey = accountID @ [CHR 0x00] @ idemKey;
                 (w1, now) = cs_Now svc (pw_world s);
                 g = prune_provisions now (pw_guard s);
                 s1 = s\<lparr>pw_guard := g, pw_world := w1\<rparr>
             in (case map_of g gkey of
                   Some res \<Rightarrow>
                     (s1, bindE (wrapE ''resolve provisioned client'' (cs_FindTenant svc w1 (pr_tenantID res))) (\<lambda>t. Inr (t, [])))
                 | None \<Rightarrow>
                     let (w2, tid) = cs_NewID svc w1; s2 = s1\<lparr>pw_world := w2\<rparr>
                     in (case bindE (NewTenant tid nm now) (\<lambda>t. AssignAccount t accountID) of
                           Inl e \<Rightarrow> (s2, Inl e)
                         | Inr t \<Rightarrow>
                             (case wrapE ''save tenant'' (cs_SaveTenant svc w2 t) of
                                Inl e \<Rightarrow> (s2, Inl e)
                              | Inr w3 \<Rightarrow>
                                  let s3 = s2\<lparr>pw_world := w3\<rparr>;
                                      (refs, ref) = (case minter of
                                         Some mint \<Rightarrow> if mintWebhook then mint (pw_refs s) (tn_id t) else (pw_refs s, Inr [])
                                       | None \<Rightarrow> (pw_refs s, Inr []));
                                      s4 = s3\<lparr>pw_refs := refs\<rparr>
                                  in (case wrapE ''mint webhook ref'' ref of
                                        Inl e \<Rightarrow> (s4, Inl e)
                                      | Inr r \<Rightarrow>
                                          let (w5, at) = cs_Now svc w3
                                          in (s4\<lparr>pw_world := w5,
                                                 pw_guard := put gkey \<lparr>pr_tenantID = tn_id t, pr_at = at\<rparr> g\<rparr>, Inr (t, r)))))))"

definition ProvisionClient ::
  "'w console_service option \<Rightarrow> ('r \<Rightarrow> string \<Rightarrow> 'r \<times> string result) option \<Rightarrow> string \<Rightarrow> string \<Rightarrow> string \<Rightarrow>
     ('w, 'r) provision_world \<Rightarrow> ('w, 'r) provision_world \<times> tenant result" where
  "ProvisionClient tenants minter accountID nm idemKey s =
     (case provision tenants minter accountID nm idemKey False s of (s', r) \<Rightarrow> (s', bindE r (\<lambda>x. Inr (fst x))))"

definition ProvisionClientWithWebhook ::
  "'w console_service option \<Rightarrow> ('r \<Rightarrow> string \<Rightarrow> 'r \<times> string result) option \<Rightarrow> string \<Rightarrow> string \<Rightarrow> string \<Rightarrow>
     ('w, 'r) provision_world \<Rightarrow> ('w, 'r) provision_world \<times> (tenant \<times> string) result" where
  "ProvisionClientWithWebhook tenants minter accountID nm idemKey s = provision tenants minter accountID nm idemKey True s"

section \<open>The calls of the admin API\<close>

datatype admin_call =
    AdmCreateTenant string
  | AdmSetPrice string string int
  | AdmSetCredential bool string string string string
  | AdmSetCertificate bool string string string string

fun run_admin :: "'w console_service \<Rightarrow> console_deps \<Rightarrow> string \<Rightarrow> admin_call \<Rightarrow> 'w \<Rightarrow> 'w \<times> go_error option" where
  "run_admin svc deps opr (AdmCreateTenant nm) w = outcome (AdminCreateTenant svc opr nm w)"
| "run_admin svc deps opr (AdmSetPrice t ep c) w = outcome (AdminSetEndpointPrice svc opr t ep c w)"
| "run_admin svc deps opr (AdmSetCredential self t b c s) w =
     outcome ((if self then SetBankCredentialSelfServe else AdminSetBankCredential) svc opr t b c s w)"
| "run_admin svc deps opr (AdmSetCertificate self t b c k) w =
     outcome ((if self then SetBankCertificateSelfServe else AdminSetBankCertificate) svc (kd_crypto deps) opr t b c k w)"

text \<open>As for the console: a new tenant's id holds no credential yet, and no credential is stored under an id with a NUL byte.\<close>

fun admin_admissible :: "string \<Rightarrow> vault \<Rightarrow> admin_call \<Rightarrow> bool" where
  "admin_admissible nid m (AdmCreateTenant nm) \<longleftrightarrow> unheld m (TrimSpace nid)"
| "admin_admissible nid m (AdmSetCredential self t b c s) \<longleftrightarrow> nul_free t"
| "admin_admissible nid m _ \<longleftrightarrow> True"

lemma self_serve_operator:
  "NewCredentialSetEntry i opr t b at = Inr e \<Longrightarrow> au_operatorID e = TrimSpace opr"
  "NewSelfServeCredentialSetEntry i opr t b at = Inr e \<Longrightarrow> au_operatorID e = TrimSpace opr"
  "NewSelfServeCertificateSetEntry i opr t b fp at = Inr e \<Longrightarrow> au_operatorID e = TrimSpace opr"
  by (auto simp: ctor_simps zero_entry_def Let_def bindE_Inr_iff split: if_splits)

context console_contract
begin

lemma keeps_record:
  "keeps (upheld strict parse) P (Suc 0) opr (recordAudit svc opr act t (tx_return x))"
  "keeps (upheld strict parse) P (Suc 0) opr (recordCredentialAudit svc opr t b self (tx_return x))"
  "keeps (upheld strict parse) P (Suc 0) opr (recordCertificateAudit svc opr t b fp self (tx_return x))"
  unfolding recordAudit_def recordCredentialAudit_def recordCertificateAudit_def Let_def
  by (rule keeps_logged, (auto dest: entry_operator self_serve_operator split: if_splits)[1])+

lemma admin_keeps:
  "keeps (upheld strict parse) (\<lambda>w. strict \<longrightarrow> unheld (kv_vault (kv w)) (TrimSpace (snd (cs_NewID svc w)))) (Suc 0) opr
     (AdminCreateTenant svc opr nm)"
  "keeps (upheld strict parse) (\<lambda>_. True) (Suc 0) opr (AdminSetEndpointPrice svc opr t ep c)"
  "keeps (upheld strict parse) (\<lambda>_. strict \<longrightarrow> nul_free t) (Suc 0) opr (admin_setBankCredential svc opr t b cid sec self)"
  "keeps (upheld strict parse) (\<lambda>_. True) (Suc 0) opr (admin_setBankCertificate svc cy opr t b cert pk self)"
proof -
  show "keeps (upheld strict parse) (\<lambda>_. True) (Suc 0) opr (AdminSetEndpointPrice svc opr t ep c)"
    unfolding AdminSetEndpointPrice_def by (intro keeps_get keeps_lift keeps_quiet_write [OF upsert_price] keeps_record)
  show "keeps (upheld strict parse) (\<lambda>_. strict \<longrightarrow> nul_free t) (Suc 0) opr (admin_setBankCredential svc opr t b cid sec self)"
    unfolding admin_setBankCredential_def Let_def
    by (intro keeps_guard keeps_get keeps_weaken [OF keeps_set_credential [where P = "\<lambda>_. True"]] keeps_evict keeps_record) simp
  show "keeps (upheld strict parse) (\<lambda>_. True) (Suc 0) opr (admin_setBankCertificate svc cy opr t b cert pk self)"
    unfolding admin_setBankCertificate_def Let_def
    by (intro keeps_guard keeps_get keeps_lift keeps_now keeps_quiet_write [OF set_certificate] keeps_evict keeps_record)
  show "keeps (upheld strict parse) (\<lambda>w. strict \<longrightarrow> unheld (kv_vault (kv w)) (TrimSpace (snd (cs_NewID svc w)))) (Suc 0) opr
      (AdminCreateTenant svc opr nm)"
    unfolding AdminCreateTenant_def
  proof (rule keeps_ask [where Q = "\<lambda>i v. strict \<longrightarrow> unheld (kv_vault v) (TrimSpace i)"])
    fix i
    show "keeps (upheld strict parse) (\<lambda>w. strict \<longrightarrow> unheld (kv_vault (kv w)) (TrimSpace i)) (Suc 0) opr
      (tx_ask (cs_Now svc) (\<lambda>now. tx_lift (NewTenant i nm now) (\<lambda>t. tx_write ''save tenant'' (\<lambda>w. cs_SaveTenant svc w t)
         (recordAudit svc opr ActionCreateTenant (tn_id t) (tx_return t)))))"
    proof (rule keeps_ask [where Q = "\<lambda>_ v. strict \<longrightarrow> unheld (kv_vault v) (TrimSpace i)"])
      fix at
      show "keeps (upheld strict parse) (\<lambda>w. strict \<longrightarrow> unheld (kv_vault (kv w)) (TrimSpace i)) (Suc 0) opr
        (tx_lift (NewTenant i nm at) (\<lambda>t. tx_write ''save tenant'' (\<lambda>w. cs_SaveTenant svc w t)
           (recordAudit svc opr ActionCreateTenant (tn_id t) (tx_return t))))"
        by (intro keeps_lift keeps_save_tenant keeps_record) (simp add: NewTenant_id)
    qed (simp add: now)
  qed (simp add: new_id)
qed

lemma admin_call_keeps:
  assumes "good w" "upheld strict (kd_parse deps) (kv w)"
    and "strict \<longrightarrow> admin_admissible (snd (cs_NewID svc w)) (kv_vault (kv w)) c"
    and "run_admin svc deps opr c w = (w', e)"
  shows "good w' \<and> upheld strict (kd_parse deps) (kv w') \<and> logged opr (Suc 0) (e = None) (kv_audit (kv w)) (kv_audit (kv w'))"
proof -
  note run = keeps_outcome [OF _ _ _ assms(1,2)]
  show ?thesis using assms(3,4)
    by (cases c) (simp_all add: AdminSetBankCredential_def SetBankCredentialSelfServe_def
        AdminSetBankCertificate_def SetBankCertificateSelfServe_def split: if_splits,
      (erule run, rule admin_keeps, simp)+)
qed

end

section \<open>The console and the admin API together\<close>

text \<open>
  Calls one after the other, each by its operator; what a failed call wrote stays written. In an admissible
  run no call makes a tenant active that already holds a bank credential, and no credential is stored for an
  id with a NUL byte.
\<close>

datatype plane_call = Console console_call | Admin admin_call

fun run_plane :: "console_env \<Rightarrow> console_deps \<Rightarrow> string \<Rightarrow> plane_call \<Rightarrow> console_world \<Rightarrow> console_world \<times> go_error option" where
  "run_plane env deps opr (Console c) w = run_call (memory_console env) deps opr c w"
| "run_plane env deps opr (Admin c) w = run_admin (memory_console env) deps opr c w"

fun run_planes :: "console_env \<Rightarrow> console_deps \<Rightarrow> (string \<times> plane_call) list \<Rightarrow> console_world \<Rightarrow> console_world" where
  "run_planes env deps [] w = w"
| "run_planes env deps ((opr, c) # cs) w = run_planes env deps cs (fst (run_plane env deps opr c w))"

fun plane_admissible :: "string \<Rightarrow> vault \<Rightarrow> plane_call \<Rightarrow> bool" where
  "plane_admissible nid m (Console c) = admissible nid m c"
| "plane_admissible nid m (Admin c) = admin_admissible nid m c"

fun admissible_planes :: "console_env \<Rightarrow> console_deps \<Rightarrow> (string \<times> plane_call) list \<Rightarrow> console_world \<Rightarrow> bool" where
  "admissible_planes env deps [] w = True"
| "admissible_planes env deps ((opr, c) # cs) w \<longleftrightarrow>
     plane_admissible (ke_id env (kw_tick w)) (kw_vault w) c \<and>
     admissible_planes env deps cs (fst (run_plane env deps opr c w))"

fun audited_plane :: "plane_call \<Rightarrow> bool" where
  "audited_plane (Console c) = audited_call c"
| "audited_plane (Admin c) = True"

lemma plane_keeps:
  assumes "tenants_keyed w" "upheld strict (kd_parse deps) (console_view_of w)"
    and "strict \<longrightarrow> plane_admissible (ke_id env (kw_tick w)) (kw_vault w) c" "run_plane env deps opr c w = (w', e)"
  shows "tenants_keyed w' \<and> upheld strict (kd_parse deps) (console_view_of w') \<and>
    logged opr (if audited_plane c then Suc 0 else 0) (e = None) (st_audit (kw_store w)) (st_audit (kw_store w'))"
  using assms(3,4) con.call_keeps [OF assms(1,2)] con.admin_call_keeps [OF assms(1,2)]
  by (cases c) (simp_all add: memory_NewID)

lemma run_planes_sound:
  assumes "tenants_keyed w" "sound (kd_parse deps) (console_view_of w)" "admissible_planes env deps cs w"
  shows "tenants_keyed (run_planes env deps cs w) \<and> sound (kd_parse deps) (console_view_of (run_planes env deps cs w))"
  using assms
proof (induction cs arbitrary: w)
  case (Cons x cs)
  obtain opr c where x: "x = (opr, c)" by (cases x)
  obtain w' e where r: "run_plane env deps opr c w = (w', e)" by fastforce
  have "tenants_keyed w' \<and> sound (kd_parse deps) (console_view_of w')"
    using plane_keeps [OF Cons.prems(1) _ _ r, of True] Cons.prems x by (simp add: upheld_def)
  with Cons x r show ?case by simp
qed simp

text \<open>
  C16: a bank identity belongs to one active tenant at a time, whichever door the operators use. Start from a
  state in which no two active tenants share a PIX key or a PSP account at a bank, and run any sequence of
  console calls and admin API calls by any operators, failing ones included, none of which makes a tenant
  active that already holds a credential. Then it is still so: the vault stays well keyed, the identities of
  active tenants stay apart, bank by bank, and every stored webhook endpoint is an https address with a secret.
\<close>

theorem planes_keep_identities:
  assumes "tenants_keyed w" and "vault_ok (kw_vault w)" and "webhooks_ok (kd_parse deps) (kw_hooks w)"
    and "exclusive (active_in (map_of (st_tenants (kw_store w)))) (kw_vault w)"
    and "admissible_planes env deps cs w" and w': "w' = run_planes env deps cs w"
  shows "vault_ok (kw_vault w') \<and> webhooks_ok (kd_parse deps) (kw_hooks w') \<and>
    exclusive (active_in (map_of (st_tenants (kw_store w')))) (kw_vault w')"
  using run_planes_sound [OF assms(1) _ assms(5)] assms(2-4) unfolding w' sound_console by blast

theorem planes_keep_identities_witness:
  "exclusive (active_in (map_of (st_tenants (kw_store
       (run_planes sample_console_env sample_deps
          [(''op'', Console (CallSuspendTenant ''t1'')), (''op'', Admin (AdmSetCredential True ''t2'' ''c6'' ''c1'' ''s''))] sample_console)))))
     (kw_vault (run_planes sample_console_env sample_deps
          [(''op'', Console (CallSuspendTenant ''t1'')), (''op'', Admin (AdmSetCredential True ''t2'' ''c6'' ''c1'' ''s''))] sample_console))"
proof -
  have "admissible_planes sample_console_env sample_deps
      [(''op'', Console (CallSuspendTenant ''t1'')), (''op'', Admin (AdmSetCredential True ''t2'' ''c6'' ''c1'' ''s''))] sample_console"
    by (simp add: admissible_def nul_free_def)
  from planes_keep_identities [OF sample_console_ok(1-4) this refl] show ?thesis by blast
qed

text \<open>
  C19: what operators leave in the audit trail. A call on the console or on the admin API only ever appends
  entries that carry the operator who made it, at most one; a call of the audited kinds that succeeds (every
  call of the admin API, self-served ones too) has appended exactly one, and a call of the other kinds none.
\<close>

theorem plane_calls_audited:
  assumes "tenants_keyed w" and "run_plane env deps opr c w = (w', e)"
  shows "\<exists>es. st_audit (kw_store w') = st_audit (kw_store w) @ es \<and> length es \<le> (if audited_plane c then 1 else 0) \<and>
    (e = None \<longrightarrow> length es = (if audited_plane c then 1 else 0)) \<and> (\<forall>x \<in> set es. au_operatorID x = TrimSpace opr)"
  using plane_keeps [OF assms(1) _ _ assms(2), of False]
  by (cases "audited_plane c") (simp_all add: upheld_def logged_def list_all_iff)

theorem plane_calls_audited_witness:
  "\<exists>w' e es. run_plane sample_console_env sample_deps ''op'' (Admin (AdmSetCredential True ''t2'' ''c6'' ''c9'' ''s'')) sample_console = (w', e) \<and>
     st_audit (kw_store w') = es \<and> length es \<le> 1 \<and> (\<forall>x \<in> set es. au_operatorID x = ''op'')"
proof -
  obtain w' e where r: "run_plane sample_console_env sample_deps ''op'' (Admin (AdmSetCredential True ''t2'' ''c6'' ''c9'' ''s'')) sample_console = (w', e)"
    by fastforce
  from plane_calls_audited [OF sample_console_ok(1) r] r show ?thesis by (auto simp: sample_console_def NewStore_def)
qed

section \<open>Provisioning again\<close>

record provision_call =
  pc_account :: string
  pc_name :: string
  pc_key :: string
  pc_webhook :: bool

definition provision_by ::
  "console_env \<Rightarrow> ('r \<Rightarrow> string \<Rightarrow> 'r \<times> string result) option \<Rightarrow> provision_call \<Rightarrow> (console_world, 'r) provision_world \<Rightarrow>
     (console_world, 'r) provision_world \<times> (tenant \<times> string) result" where
  "provision_by env minter c s =
     provision (Some (memory_console env)) minter (pc_account c) (pc_name c) (pc_key c) (pc_webhook c) s"

definition run_provisions ::
  "console_env \<Rightarrow> ('r \<Rightarrow> string \<Rightarrow> 'r \<times> string result) option \<Rightarrow> provision_call list \<Rightarrow> (console_world, 'r) provision_world \<Rightarrow>
     (console_world, 'r) provision_world" where
  "run_provisions env minter cs s = fold (\<lambda>c s. fst (provision_by env minter c s)) cs s"

definition guard_key :: "provision_call \<Rightarrow> string" where
  "guard_key c = TrimSpace (pc_account c) @ [CHR 0x00] @ TrimSpace (pc_key c)"

abbreviation pw_tick :: "(console_world, 'r) provision_world \<Rightarrow> nat" where "pw_tick s \<equiv> kw_tick (pw_world s)"

abbreviation pw_tenants :: "(console_world, 'r) provision_world \<Rightarrow> (string \<times> tenant) list" where
  "pw_tenants s \<equiv> st_tenants (kw_store (pw_world s))"

lemma map_of_prune:
  "map_of g k = Some r \<Longrightarrow> SubTime now (pr_at r) \<le> clientProvisionIdempotencyTTL \<Longrightarrow> map_of (prune_provisions now g) k = Some r"
  by (induction g) (auto simp: prune_provisions_def split: if_splits)

lemma prune_absent: "k \<notin> fst ` set g \<Longrightarrow> map_of (prune_provisions now g) k = None"
  by (force simp: prune_provisions_def map_of_eq_None_iff)

lemmas provision_unfold = provision_by_def provision_def Let_def memory_ports tick_def on_store_def saveTenant_def
  findTenantByID_def guard_key_def

lemma provisioned_tenant:
  "NewTenant i nm at = Inr x \<Longrightarrow> AssignAccount x a = Inr t \<Longrightarrow> tn_id t = TrimSpace i \<and> tn_accountID t = TrimSpace a"
  by (auto simp: NewTenant_def AssignAccount_def Let_def split: if_splits)

lemma provision_keeps:
  assumes "provision_by env minter c s = (s', x)"
  shows "pw_tick s \<le> pw_tick s'"
    and "map_of (pw_guard s) k = Some r \<Longrightarrow> SubTime (ke_now env (pw_tick s)) (pr_at r) \<le> clientProvisionIdempotencyTTL \<Longrightarrow>
      map_of (pw_guard s') k = Some r"
    and "map_of (pw_tenants s) t = Some y \<Longrightarrow> TrimSpace (ke_id env (Suc (pw_tick s))) \<noteq> t \<Longrightarrow> map_of (pw_tenants s') t = Some y"
  using assms
  by (auto simp: provision_unfold map_of_prune bindE_Inr_iff dest!: provisioned_tenant split: if_splits option.splits sum.splits prod.splits)

lemma run_provisions_Cons: "run_provisions env minter (c # cs) s = run_provisions env minter cs (fst (provision_by env minter c s))"
  by (simp add: run_provisions_def)

lemma run_provisions_tick: "pw_tick s \<le> pw_tick (run_provisions env minter cs s)"
proof (induction cs arbitrary: s)
  case (Cons c cs)
  obtain s' x where p: "provision_by env minter c s = (s', x)" by fastforce
  from provision_keeps(1) [OF p] Cons [of s'] show ?case by (simp add: run_provisions_Cons p)
qed (simp add: run_provisions_def)

lemma run_provisions_keep:
  assumes "map_of (pw_guard s) k = Some r" and "map_of (pw_tenants s) t = Some y"
    and "\<forall>n \<ge> pw_tick s. TrimSpace (ke_id env n) \<noteq> t"
    and "\<forall>n. pw_tick s \<le> n \<and> n \<le> pw_tick (run_provisions env minter cs s) \<longrightarrow>
      SubTime (ke_now env n) (pr_at r) \<le> clientProvisionIdempotencyTTL"
  shows "map_of (pw_guard (run_provisions env minter cs s)) k = Some r \<and>
    map_of (pw_tenants (run_provisions env minter cs s)) t = Some y"
  using assms
proof (induction cs arbitrary: s)
  case (Cons c cs)
  obtain s' x where p: "provision_by env minter c s = (s', x)" by fastforce
  have le: "pw_tick s \<le> pw_tick s'" "pw_tick s' \<le> pw_tick (run_provisions env minter cs s')"
    by (rule provision_keeps(1) [OF p], rule run_provisions_tick)
  have run: "run_provisions env minter (c # cs) s = run_provisions env minter cs s'" by (simp add: run_provisions_Cons p)
  have "map_of (pw_guard s') k = Some r" "map_of (pw_tenants s') t = Some y"
    using Cons.prems le provision_keeps(2,3) [OF p] by (simp_all add: run)
  with Cons.prems(3,4) le show ?case unfolding run by (intro Cons.IH) auto
qed (simp add: run_provisions_def)

lemma provision_first:
  assumes "provision_by env minter c s = (s', Inr (t, ref))" and "guard_key c \<notin> fst ` set (pw_guard s)"
  shows "map_of (pw_guard s') (guard_key c) = Some \<lparr>pr_tenantID = tn_id t, pr_at = ke_now env (pw_tick s' - 1)\<rparr>"
    "map_of (pw_tenants s') (tn_id t) = Some t" "tn_accountID t = TrimSpace (pc_account c)"
  using assms prune_absent [OF assms(2)] provisioned_tenant
  by (auto simp: provision_unfold bindE_Inr_iff split: if_splits option.splits sum.splits prod.splits)

lemma provision_repeat:
  assumes "map_of (pw_guard s) (guard_key c) = Some r" and "map_of (pw_tenants s) (pr_tenantID r) = Some t"
    and "SubTime (ke_now env (pw_tick s)) (pr_at r) \<le> clientProvisionIdempotencyTTL"
    and "TrimSpace (pc_account c) \<noteq> []" "TrimSpace (pc_key c) \<noteq> []"
  shows "\<exists>s'. provision_by env minter c s = (s', Inr (t, [])) \<and> pw_tenants s' = pw_tenants s \<and> pw_refs s' = pw_refs s"
  using assms map_of_prune [OF assms(1,3)] by (simp add: provision_unfold lookup_def)

lemma provision_needs:
  "provision_by env minter c s = (s', Inr x) \<Longrightarrow> TrimSpace (pc_account c) \<noteq> [] \<and> TrimSpace (pc_key c) \<noteq> []"
  by (auto simp: provision_unfold split: if_splits)

text \<open>
  C25: provisioning a client company is idempotent within the window. A call under a new idempotency key that
  succeeds creates a company owned by the calling account. After any number of other provisionings, by any
  accounts and under any keys, failing ones included, the call repeated by the same account under the same key,
  with whatever name and with or without a webhook, returns that same company, with no webhook reference (it is
  shown once): no company is stored and no reference minted. The clock stays within 15 minutes of the creation
  and the company's id is not given out again.
\<close>

theorem provisioning_idempotent:
  assumes first: "provision_by env minter c s = (s1, Inr (t, ref))" and new: "guard_key c \<notin> fst ` set (pw_guard s)"
    and others: "s2 = run_provisions env minter cs s1" and ids: "\<forall>n \<ge> pw_tick s1. TrimSpace (ke_id env n) \<noteq> tn_id t"
    and window: "\<forall>n. pw_tick s1 \<le> n \<and> n \<le> pw_tick s2 \<longrightarrow>
      SubTime (ke_now env n) (ke_now env (pw_tick s1 - 1)) \<le> clientProvisionIdempotencyTTL"
    and again: "pc_account c' = pc_account c" "pc_key c' = pc_key c"
  shows "tn_accountID t = TrimSpace (pc_account c) \<and>
    (\<exists>s3. provision_by env minter c' s2 = (s3, Inr (t, [])) \<and> pw_tenants s3 = pw_tenants s2 \<and> pw_refs s3 = pw_refs s2)"
proof -
  let ?r = "\<lparr>pr_tenantID = tn_id t, pr_at = ke_now env (pw_tick s1 - 1)\<rparr>"
  note f = provision_first [OF first new]
  have "map_of (pw_guard s2) (guard_key c) = Some ?r \<and> map_of (pw_tenants s2) (tn_id t) = Some t"
    unfolding others using run_provisions_keep [OF f(1,2) ids] window others by simp
  moreover have "SubTime (ke_now env (pw_tick s2)) (pr_at ?r) \<le> clientProvisionIdempotencyTTL"
    using window run_provisions_tick [of s1 env minter cs] by (simp add: others)
  moreover have "guard_key c' = guard_key c" using again by (simp add: guard_key_def)
  ultimately show ?thesis using provision_repeat [of s2 c' ?r] provision_needs [OF first] again f(3) by simp
qed

definition counted_env :: console_env where
  "counted_env = sample_console_env\<lparr>ke_id := (\<lambda>n. if n = 1 then ''i1'' else ''i2'')\<rparr>"

definition sample_provisions :: "(console_world, string list) provision_world" where
  "sample_provisions = \<lparr>pw_guard = [], pw_refs = [], pw_world = sample_console\<rparr>"

definition sample_minter :: "(string list \<Rightarrow> string \<Rightarrow> string list \<times> string result) option" where
  "sample_minter = Some (\<lambda>rs t. (t # rs, Inr ''r''))"

definition provision_of :: "string \<Rightarrow> provision_call" where
  "provision_of k = \<lparr>pc_account = ''t1'', pc_name = [], pc_key = k, pc_webhook = True\<rparr>"

lemma sample_provision:
  "\<exists>s1 t. provision_by counted_env sample_minter (provision_of ''c6'') sample_provisions = (s1, Inr (t, ''r'')) \<and> tn_id t = ''i1'' \<and> pw_tick s1 = 3"
proof -
  have n: "TrimSpace defaultClientName = defaultClientName"
    by (simp add: defaultClientName_def TrimSpace_plain plain_byte_def less_eq_char_def)
  have trim: "TrimSpace [] = []" by (simp add: TrimSpace_plain)
  show ?thesis
    by (simp add: provision_unfold provision_of_def counted_env_def sample_console_env_def sample_provisions_def sample_console_def
        sample_minter_def prune_provisions_def NewTenant_def AssignAccount_def n trim) (simp add: defaultClientName_def)
qed

theorem provisioning_idempotent_witness:
  "\<exists>s1 s2 s3 t. provision_by counted_env sample_minter (provision_of ''c6'') sample_provisions = (s1, Inr (t, ''r'')) \<and>
     s2 = run_provisions counted_env sample_minter [provision_of ''op''] s1 \<and>
     provision_by counted_env sample_minter (provision_of ''c6'') s2 = (s3, Inr (t, [])) \<and> tn_accountID t = ''t1'' \<and>
     pw_tenants s3 = pw_tenants s2"
proof -
  obtain s1 t where f: "provision_by counted_env sample_minter (provision_of ''c6'') sample_provisions = (s1, Inr (t, ''r''))"
    "tn_id t = ''i1''" "pw_tick s1 = 3"
    using sample_provision by blast
  have i2: "TrimSpace ''i2'' = ''i2''" by (simp add: TrimSpace_plain plain_byte_def less_eq_char_def)
  have "tn_accountID t = TrimSpace (pc_account (provision_of ''c6'')) \<and>
      (\<exists>s3. provision_by counted_env sample_minter (provision_of ''c6'') (run_provisions counted_env sample_minter [provision_of ''op''] s1) =
        (s3, Inr (t, [])) \<and> pw_tenants s3 = pw_tenants (run_provisions counted_env sample_minter [provision_of ''op''] s1) \<and>
        pw_refs s3 = pw_refs (run_provisions counted_env sample_minter [provision_of ''op''] s1))"
    by (rule provisioning_idempotent [OF f(1) _ refl])
      (use f i2 in \<open>auto simp: sample_provisions_def counted_env_def sample_console_env_def SubTime_def clientProvisionIdempotencyTTL_def min64_def max64_def\<close>)
  with f show ?thesis by (auto simp: provision_of_def)
qed

end
