(* ===== verification/HttpAuth.thy ===== *)
theory HttpAuth
  imports AccountKeys WebhookRefs SignIn
begin

text \<open>
  The guards in front of the HTTP API, \<open>internal/adapters/http\<close>: \<open>auth.go\<close> (tokens, account keys with the
  client selector, admin roles, callback references), \<open>account_key_handlers.go\<close> (the guard of the account
  plane), \<open>console_auth.go\<close> (session cookie or admin token), \<open>csrf.go\<close>, \<open>bankselect.go\<close>, the keys of
  \<open>ratelimit.go\<close> and the error mapping of \<open>response.go\<close>. A middleware either answers or passes the request on
  with a richer context, so it is a function into a sum; none of these does anything after the handler.
  Header lookups ignore case; a request lists its headers under
  the names the code uses. The token bucket counts in floating point and is a parameter.
\<close>

section \<open>Requests, contexts, answers\<close>

record http_request =
  rq_Method :: string
  rq_Header :: "(string \<times> string) list"
  rq_Cookies :: "(string \<times> string) list"
  rq_Form :: "(string \<times> string) list"
  rq_clientIP :: string
  rq_RemoteAddr :: string

text \<open>\<open>Header.Get\<close> and \<open>PostFormValue\<close> answer the empty string for a name that is absent.\<close>

definition value_of :: "(string \<times> string) list \<Rightarrow> string \<Rightarrow> string" where
  "value_of m n = (case map_of m n of None \<Rightarrow> [] | Some v \<Rightarrow> v)"

definition cookie :: "http_request \<Rightarrow> string \<Rightarrow> string" where
  "cookie rq n = value_of (rq_Cookies rq) n"

record http_ctx =
  hx_tenantID :: "string option"
  hx_accountID :: "string option"
  hx_role :: "string option"
  hx_csrf :: "string option"
  hx_bankID :: "string option"
  hx_operatorID :: "string option"
  hx_headers :: "(string \<times> string) list"

definition empty_ctx :: http_ctx where
  "empty_ctx = \<lparr>hx_tenantID = None, hx_accountID = None, hx_role = None, hx_csrf = None, hx_bankID = None,
     hx_operatorID = None, hx_headers = []\<rparr>"

definition from_context :: "string option \<Rightarrow> string" where
  "from_context v = (case v of None \<Rightarrow> [] | Some x \<Rightarrow> x)"

definition tenantFromContext :: "http_ctx \<Rightarrow> string" where "tenantFromContext cx = from_context (hx_tenantID cx)"
definition accountFromContext :: "http_ctx \<Rightarrow> string" where "accountFromContext cx = from_context (hx_accountID cx)"
definition roleFromContext :: "http_ctx \<Rightarrow> string option" where "roleFromContext cx = hx_role cx"
definition OperatorIDFromContext :: "http_ctx \<Rightarrow> string" where "OperatorIDFromContext cx = from_context (hx_operatorID cx)"
definition CSRFToken :: "http_ctx \<Rightarrow> string" where "CSRFToken cx = from_context (hx_csrf cx)"

definition WithOperatorID :: "string \<Rightarrow> http_ctx \<Rightarrow> http_ctx" where
  "WithOperatorID opr cx = cx\<lparr>hx_operatorID := Some opr\<rparr>"

definition WithBankID :: "string \<Rightarrow> http_ctx \<Rightarrow> http_ctx" where
  "WithBankID b cx = cx\<lparr>hx_bankID := Some b\<rparr>"

datatype http_body = ErrorBody string | Location string | Page string string | KeyView string string | ClientView string string string string string
  | PaymentView string string string int string string string

record http_response =
  rp_status :: nat
  rp_body :: http_body
  rp_headers :: "(string \<times> string) list"

type_synonym 'w http_gate = "http_request \<Rightarrow> http_ctx \<Rightarrow> 'w \<Rightarrow> 'w \<times> (http_response + http_ctx)"

definition respond :: "http_ctx \<Rightarrow> nat \<Rightarrow> http_body \<Rightarrow> http_response" where
  "respond cx st b = \<lparr>rp_status = st, rp_body = b, rp_headers = hx_headers cx\<rparr>"

definition writeError :: "http_ctx \<Rightarrow> nat \<Rightarrow> string \<Rightarrow> http_response" where
  "writeError cx st msg = respond cx st (ErrorBody msg)"

definition writeDomainError :: "http_ctx \<Rightarrow> go_error \<Rightarrow> http_response" where
  "writeDomainError cx err =
     (if errors_Is err ErrMandateNotFound \<or> errors_Is err ErrMandateMismatch then writeError cx 404 ''not found''
      else if errors_Is err ErrMandateNotApproved then writeError cx 409 ''mandate is not approved''
      else if errors_Is err ErrChargeExceedsMandate then writeError cx 409 ''charge exceeds the authorized mandate value''
      else if errors_Is err ErrValidation then writeError cx 400 ''invalid request''
      else if errors_Is err ErrNotFound then writeError cx 404 ''not found''
      else if errors_Is err ErrConflict then writeError cx 409 ''conflict''
      else if errors_Is err ErrTenantScope then writeError cx 404 ''not found''
      else writeError cx 500 ''internal error'')"

section \<open>Tokens\<close>

definition clientSelectorHeader :: string where "clientSelectorHeader = ''X-Client-Tenant''"

definition RoleAdmin :: string where "RoleAdmin = ''admin''"
definition RoleOperator :: string where "RoleOperator = ''operator''"

definition role_valid :: "string \<Rightarrow> bool" where "role_valid r \<longleftrightarrow> r = RoleAdmin \<or> r = RoleOperator"

record principal =
  pp_AccountID :: string
  pp_TenantID :: string

record admin_principal =
  ap_OperatorID :: string
  ap_Role :: string

record webhook_identity =
  wi_TenantID :: string
  wi_ClientID :: string

record 'w static_auth =
  sa_tenantTokens :: "(string \<times> string) list"
  sa_adminRoles :: "(string \<times> string) list"
  sa_webhookRefs :: "(string \<times> webhook_identity) list"
  sa_refStore :: "('w \<Rightarrow> string \<Rightarrow> string option result) option"
  sa_credStore :: "('w \<Rightarrow> string \<Rightarrow> string \<Rightarrow> bank_credential result) option"

definition hashTenantRef :: "(string \<Rightarrow> string) \<Rightarrow> string \<Rightarrow> string" where
  "hashTenantRef sha ref = hex_encode (SumRef sha ref)"

definition NewStaticTokenAuthWithRoles ::
  "(string \<Rightarrow> string) \<Rightarrow> (string \<times> string) list \<Rightarrow> (string \<times> string) list \<Rightarrow> (string \<times> webhook_identity) list \<Rightarrow> 'w static_auth" where
  "NewStaticTokenAuthWithRoles sha tenantTokens adminRoles webhookRefs =
     \<lparr>sa_tenantTokens = tenantTokens,
      sa_adminRoles = filter (\<lambda>(tok, role). \<not> (tok = [] \<or> \<not> role_valid role)) adminRoles,
      sa_webhookRefs = fold (\<lambda>(ref, i) m. if \<not> ValidRef ref \<or> wi_TenantID i = [] then m else put (hashTenantRef sha ref) i m) webhookRefs [],
      sa_refStore = None, sa_credStore = None\<rparr>"

definition NewStaticTokenAuth ::
  "(string \<Rightarrow> string) \<Rightarrow> (string \<times> string) list \<Rightarrow> string list \<Rightarrow> (string \<times> webhook_identity) list \<Rightarrow> 'w static_auth" where
  "NewStaticTokenAuth sha tenantTokens adminTokens webhookRefs =
     NewStaticTokenAuthWithRoles sha tenantTokens (fold (\<lambda>t m. put t RoleAdmin m) adminTokens []) webhookRefs"

definition AuthenticateTenant :: "'w static_auth \<Rightarrow> string \<Rightarrow> string option" where
  "AuthenticateTenant a token = (if token = [] then None else map_of (sa_tenantTokens a) token)"

definition AuthenticateTenantPrincipal :: "'w static_auth \<Rightarrow> string \<Rightarrow> principal option" where
  "AuthenticateTenantPrincipal a token =
     (case AuthenticateTenant a token of
        None \<Rightarrow> None
      | Some tenantID \<Rightarrow> Some \<lparr>pp_AccountID = SelfAccountID tenantID, pp_TenantID = tenantID\<rparr>)"

definition deriveOperatorID :: "(string \<Rightarrow> string) \<Rightarrow> string \<Rightarrow> string" where
  "deriveOperatorID sha token = ''op-'' @ hex_encode (take 8 (sha token))"

definition AuthenticateAdminPrincipal :: "(string \<Rightarrow> string) \<Rightarrow> 'w static_auth \<Rightarrow> string \<Rightarrow> admin_principal option" where
  "AuthenticateAdminPrincipal sha a token =
     (if token = [] then None
      else case fold (\<lambda>(tok, role) found. if tok = token then Some role else found) (sa_adminRoles a) None of
        None \<Rightarrow> None
      | Some role \<Rightarrow> Some \<lparr>ap_OperatorID = deriveOperatorID sha token, ap_Role = role\<rparr>)"

definition AuthenticateAdmin :: "(string \<Rightarrow> string) \<Rightarrow> 'w static_auth \<Rightarrow> string \<Rightarrow> string option" where
  "AuthenticateAdmin sha a token = map_option ap_Role (AuthenticateAdminPrincipal sha a token)"

definition AuthenticateWebhookCtx :: "(string \<Rightarrow> string) \<Rightarrow> 'w static_auth \<Rightarrow> 'w \<Rightarrow> string \<Rightarrow> webhook_identity option" where
  "AuthenticateWebhookCtx sha a w tenantRef =
     (if \<not> ValidRef tenantRef then None
      else case map_of (sa_webhookRefs a) (hashTenantRef sha tenantRef) of
        Some i \<Rightarrow> Some i
      | None \<Rightarrow>
          (case sa_refStore a of
             None \<Rightarrow> None
           | Some look \<Rightarrow>
               (case look w (SumRef sha tenantRef) of
                  Inr (Some tenantID) \<Rightarrow>
                    if tenantID = [] then None
                    else Some \<lparr>wi_TenantID = tenantID,
                      wi_ClientID = (case sa_credStore a of
                         None \<Rightarrow> []
                       | Some get \<Rightarrow> (case get w tenantID BankIDC6 of Inl _ \<Rightarrow> [] | Inr cred \<Rightarrow> bk_ClientID cred))\<rparr>
                | _ \<Rightarrow> None)))"

section \<open>The tenant plane\<close>

definition bearerToken :: "http_request \<Rightarrow> string" where
  "bearerToken rq =
     (let h = value_of (rq_Header rq) ''Authorization''
      in if length h > 7 \<and> EqualFold (take 7 h) ''Bearer '' then TrimSpace (drop 7 h) else [])"

record 'w account_key_guard =
  ag_enabled :: bool
  ag_keyAuth :: "('w \<Rightarrow> string \<Rightarrow> string option) option"

definition guard_active :: "'w account_key_guard \<Rightarrow> bool" where
  "guard_active g \<longleftrightarrow> ag_enabled g \<and> ag_keyAuth g \<noteq> None"

type_synonym 'w account_resolver = "'w \<Rightarrow> string \<Rightarrow> string"

definition StoreResolveAccountID :: "('w \<Rightarrow> string \<Rightarrow> tenant result) option \<Rightarrow> 'w account_resolver" where
  "StoreResolveAccountID finder w tenantID =
     (case finder of
        None \<Rightarrow> []
      | Some get \<Rightarrow>
          (let tenantID = TrimSpace tenantID
           in if tenantID = [] then [] else case get w tenantID of Inl _ \<Rightarrow> [] | Inr t \<Rightarrow> tn_accountID t))"

fun resolveOwner :: "'w \<Rightarrow> string \<Rightarrow> 'w account_resolver option list \<Rightarrow> string" where
  "resolveOwner w tenantID [] = []"
| "resolveOwner w tenantID (None # rs) = resolveOwner w tenantID rs"
| "resolveOwner w tenantID (Some res # rs) = res w tenantID"

text \<open>The account a tenant token acts for: the first resolver that knows a parent, or the tenant's own.\<close>

fun parent_or :: "'w \<Rightarrow> string \<Rightarrow> 'w account_resolver option list \<Rightarrow> string \<Rightarrow> string" where
  "parent_or w tenantID [] acct = acct"
| "parent_or w tenantID (None # rs) acct = parent_or w tenantID rs acct"
| "parent_or w tenantID (Some res # rs) acct =
     (if res w tenantID \<noteq> [] then res w tenantID else parent_or w tenantID rs acct)"

definition tenantAuthMiddlewareWithSelector ::
  "(string \<Rightarrow> principal option) \<Rightarrow> 'w account_key_guard \<Rightarrow> 'w account_resolver option list \<Rightarrow> 'w http_gate" where
  "tenantAuthMiddlewareWithSelector auth guard resolver rq cx w =
     (let bearer = bearerToken rq; selector = TrimSpace (value_of (rq_Header rq) clientSelectorHeader)
      in (w, case (if guard_active guard \<and> HasSecretShape bearer then ag_keyAuth guard else None) of
           Some keyAuth \<Rightarrow>
             (case keyAuth w bearer of
                None \<Rightarrow> Inl (writeError cx 401 ''unauthorized'')
              | Some accountID \<Rightarrow>
                  if selector = [] then Inl (writeError cx 400 ''client selector required'')
                  else let owner = resolveOwner w selector resolver
                       in if owner = [] \<or> owner \<noteq> accountID then Inl (writeError cx 404 ''not found'')
                          else Inr (cx\<lparr>hx_tenantID := Some selector, hx_accountID := Some accountID\<rparr>))
         | None \<Rightarrow>
             (case auth bearer of
                None \<Rightarrow> Inl (writeError cx 401 ''unauthorized'')
              | Some p \<Rightarrow>
                  if guard_active guard \<and> selector \<noteq> []
                  then Inl (writeError cx 400 ''client selector not permitted for tenant token'')
                  else Inr (cx\<lparr>hx_tenantID := Some (pp_TenantID p),
                              hx_accountID := Some (parent_or w (pp_TenantID p) resolver (pp_AccountID p))\<rparr>))))"

definition tenantAuthMiddleware :: "(string \<Rightarrow> principal option) \<Rightarrow> 'w account_resolver option list \<Rightarrow> 'w http_gate" where
  "tenantAuthMiddleware auth resolver =
     tenantAuthMiddlewareWithSelector auth \<lparr>ag_enabled = False, ag_keyAuth = None\<rparr> resolver"

definition accountKeyAuthMiddleware :: "('w \<Rightarrow> string \<Rightarrow> string option) \<Rightarrow> 'w http_gate" where
  "accountKeyAuthMiddleware auth rq cx w =
     (let bearer = bearerToken rq
      in (w, if \<not> HasSecretShape bearer then Inl (writeError cx 401 ''unauthorized'')
             else case auth w bearer of
               None \<Rightarrow> Inl (writeError cx 401 ''unauthorized'')
             | Some accountID \<Rightarrow> Inr (WithOperatorID (''account:'' @ accountID) (cx\<lparr>hx_accountID := Some accountID\<rparr>))))"

section \<open>The choice of the bank\<close>

record 'w bank_resolver =
  br_wired :: "string list"
  br_creds :: "'w \<Rightarrow> string \<Rightarrow> string \<Rightarrow> bank_credential result"

definition NewBankResolver :: "string list \<Rightarrow> ('w \<Rightarrow> string \<Rightarrow> string \<Rightarrow> bank_credential result) \<Rightarrow> 'w bank_resolver" where
  "NewBankResolver wired creds = \<lparr>br_wired = remdups (List.map_filter CanonicalBankID wired), br_creds = creds\<rparr>"

text \<open>Whether a bank is configured for the tenant, and the banks that are.\<close>

definition configured :: "'w bank_resolver \<Rightarrow> 'w \<Rightarrow> string \<Rightarrow> string \<Rightarrow> bool" where
  "configured b w tenantID bankID = (case br_creds b w tenantID bankID of Inl _ \<Rightarrow> False | Inr _ \<Rightarrow> True)"

definition defaultBank :: "'w bank_resolver \<Rightarrow> 'w \<Rightarrow> string \<Rightarrow> string" where
  "defaultBank b w tenantID =
     (let found = filter (configured b w tenantID) (br_wired b)
      in if length found = 1 then last found else BankIDC6)"

definition ResolveBank :: "'w bank_resolver \<Rightarrow> 'w \<Rightarrow> string \<Rightarrow> string \<Rightarrow> string result" where
  "ResolveBank b w tenantID requested =
     (if TrimSpace requested = [] then Inr (defaultBank b w tenantID)
      else case CanonicalBankID requested of
        None \<Rightarrow> Inl ErrNotFound
      | Some i \<Rightarrow>
          if i \<notin> set (br_wired b) then Inl ErrNotFound
          else if \<not> configured b w tenantID i then Inl ErrNotFound
          else Inr i)"

definition bankRouteMiddleware :: "'w bank_resolver \<Rightarrow> 'w http_gate" where
  "bankRouteMiddleware b rq cx w =
     (w, case ResolveBank b w (tenantFromContext cx) (value_of (rq_Header rq) ''X-Bank-Id'') of
           Inl e \<Rightarrow> Inl (writeDomainError cx e)
         | Inr bankID \<Rightarrow> Inr (WithBankID bankID cx))"

definition rebindBank :: "'w bank_resolver option \<Rightarrow> 'w \<Rightarrow> http_ctx \<Rightarrow> string \<Rightarrow> http_response + http_ctx" where
  "rebindBank resolver w cx bodyBank =
     (if TrimSpace bodyBank = [] then Inr cx
      else case resolver of
        None \<Rightarrow> Inr cx
      | Some b \<Rightarrow>
          (case ResolveBank b w (tenantFromContext cx) bodyBank of
             Inl e \<Rightarrow> Inl (writeDomainError cx e)
           | Inr bankID \<Rightarrow> Inr (WithBankID bankID cx)))"

section \<open>Rate limits\<close>

type_synonym 'w limiter = "string \<Rightarrow> 'w \<Rightarrow> 'w \<times> bool"

text \<open>The peer address without its port.\<close>

definition clientIP :: "http_request \<Rightarrow> string" where
  "clientIP rq =
     (if rq_clientIP rq \<noteq> [] then rq_clientIP rq
      else if CHR '':'' \<in> set (rq_RemoteAddr rq) then rev (tl (dropWhile (\<lambda>c. c \<noteq> CHR '':'') (rev (rq_RemoteAddr rq))))
      else rq_RemoteAddr rq)"

definition ipKey :: "http_request \<Rightarrow> http_ctx \<Rightarrow> string" where "ipKey rq cx = ''ip:'' @ clientIP rq"

definition tenantOrIPKey :: "http_request \<Rightarrow> http_ctx \<Rightarrow> string" where
  "tenantOrIPKey rq cx = (if tenantFromContext cx \<noteq> [] then ''t:'' @ tenantFromContext cx else ipKey rq cx)"

definition adminTokenKey :: "(string \<Rightarrow> string) \<Rightarrow> http_request \<Rightarrow> http_ctx \<Rightarrow> string" where
  "adminTokenKey sha rq cx =
     (if bearerToken rq \<noteq> [] then ''admin:'' @ raw_url_encode (sha (bearerToken rq)) else ipKey rq cx)"

definition limit_middleware :: "'w limiter \<Rightarrow> (http_request \<Rightarrow> http_ctx \<Rightarrow> string) \<Rightarrow> 'w http_gate" where
  "limit_middleware allow keyFn rq cx w =
     (case allow (keyFn rq cx) w of
        (w, ok) \<Rightarrow> (w, if \<not> ok then Inl (writeError cx 429 ''rate limit exceeded'') else Inr cx))"

text \<open>
  The four dedicated limiters differ in the value they are keyed on and in the name of their bucket. A missing
  key lets the request through.
\<close>

definition dedicated_limit :: "'w limiter \<Rightarrow> string \<Rightarrow> (http_ctx \<Rightarrow> string) \<Rightarrow> string \<Rightarrow> 'w http_gate" where
  "dedicated_limit allow bucket who retryAfter rq cx w =
     (if who cx = [] then (w, Inr cx)
      else case allow (bucket @ who cx) w of
        (w, ok) \<Rightarrow> (w, if \<not> ok
          then Inl (writeError (cx\<lparr>hx_headers := put ''Retry-After'' retryAfter (hx_headers cx)\<rparr>) 429 ''rate limit exceeded'')
          else Inr cx))"

definition middlewareSelfServeCred :: "'w limiter \<Rightarrow> string \<Rightarrow> 'w http_gate" where
  "middlewareSelfServeCred allow retryAfter = dedicated_limit allow ''selfserve-cred:'' tenantFromContext retryAfter"

definition middlewareSelfServeCert :: "'w limiter \<Rightarrow> string \<Rightarrow> 'w http_gate" where
  "middlewareSelfServeCert allow retryAfter = dedicated_limit allow ''selfserve-cert:'' tenantFromContext retryAfter"

definition middlewareAccountKeyRotate :: "'w limiter \<Rightarrow> string \<Rightarrow> 'w http_gate" where
  "middlewareAccountKeyRotate allow retryAfter = dedicated_limit allow ''account-key-rotate:'' accountFromContext retryAfter"

definition middlewareClientProvision :: "'w limiter \<Rightarrow> string \<Rightarrow> 'w http_gate" where
  "middlewareClientProvision allow retryAfter = dedicated_limit allow ''client-provision:'' accountFromContext retryAfter"

section \<open>The admin plane and the console\<close>

definition adminAuthMiddleware :: "(string \<Rightarrow> admin_principal option) \<Rightarrow> 'w http_gate" where
  "adminAuthMiddleware auth rq cx w =
     (w, case auth (bearerToken rq) of
           None \<Rightarrow> Inl (writeError cx 401 ''unauthorized'')
         | Some p \<Rightarrow> Inr (WithOperatorID (ap_OperatorID p) (cx\<lparr>hx_role := Some (ap_Role p)\<rparr>)))"

definition requireRole :: "string list \<Rightarrow> 'w http_gate" where
  "requireRole allowed rq cx w =
     (w, case roleFromContext cx of
           None \<Rightarrow> Inl (writeError cx 401 ''unauthorized'')
         | Some role \<Rightarrow> if role \<in> set allowed then Inr cx else Inl (writeError cx 403 ''forbidden''))"

definition csrfCookieName :: string where "csrfCookieName = ''csrf_token''"
definition CSRFHeaderName :: string where "CSRFHeaderName = ''X-CSRF-Token''"
definition CSRFFieldName :: string where "CSRFFieldName = ''csrf_token''"
definition csrfTokenBytes :: nat where "csrfTokenBytes = 32"

definition newCSRFToken :: "(nat \<Rightarrow> string result) \<Rightarrow> string result" where
  "newCSRFToken rd = bindE (rd csrfTokenBytes) (\<lambda>b. Inr (raw_url_encode b))"

definition isSafeMethod :: "string \<Rightarrow> bool" where
  "isSafeMethod m \<longleftrightarrow> m \<in> set [''GET'', ''HEAD'', ''OPTIONS'', ''TRACE'']"

text \<open>A cookie as the server sets it: name, value, path, whether it is to be sent over TLS only, whether it is dropped.\<close>

definition set_cookie :: "string \<Rightarrow> string \<Rightarrow> string \<Rightarrow> bool \<Rightarrow> bool \<Rightarrow> http_ctx \<Rightarrow> http_ctx" where
  "set_cookie n v path secure gone cx =
     cx\<lparr>hx_headers := hx_headers cx @ [(''Set-Cookie'', n @ ''='' @ v @ ''; Path='' @ path @
       (if gone then ''; Max-Age=0'' else []) @ ''; HttpOnly'' @ (if secure then ''; Secure'' else []) @ ''; SameSite=Lax'')]\<rparr>"

definition setCSRFCookie :: "bool \<Rightarrow> string \<Rightarrow> http_ctx \<Rightarrow> http_ctx" where
  "setCSRFCookie secure token cx = set_cookie csrfCookieName token ''/'' secure False cx"

definition csrf_middleware :: "bool \<Rightarrow> ('w \<Rightarrow> 'w \<times> (nat \<Rightarrow> string result)) \<Rightarrow> 'w http_gate" where
  "csrf_middleware secureCookies rand rq cx w =
     (let token = cookie rq csrfCookieName
      in if isSafeMethod (rq_Method rq) then
           (if token = [] then
              (case rand w of
                 (w, rd) \<Rightarrow>
                   (w, case newCSRFToken rd of
                         Inl e \<Rightarrow> Inl (writeError cx 500 ''internal error'')
                       | Inr minted \<Rightarrow> Inr ((setCSRFCookie secureCookies minted cx)\<lparr>hx_csrf := Some minted\<rparr>)))
            else (w, Inr (cx\<lparr>hx_csrf := Some token\<rparr>)))
         else
           (let h = value_of (rq_Header rq) CSRFHeaderName;
                submitted = (if h = [] then value_of (rq_Form rq) CSRFFieldName else h)
            in (w, if token = [] \<or> submitted = [] \<or> token \<noteq> submitted then Inl (writeError cx 403 ''forbidden'')
                   else Inr (cx\<lparr>hx_csrf := Some token\<rparr>))))"

definition sessionCookieName :: string where "sessionCookieName = ''console_session''"
definition sessionCookiePath :: string where "sessionCookiePath = ''/console''"

definition consoleRateKey :: "(string \<Rightarrow> string) \<Rightarrow> http_request \<Rightarrow> http_ctx \<Rightarrow> string" where
  "consoleRateKey sha rq cx =
     (if bearerToken rq \<noteq> [] then ''admin:'' @ raw_url_encode (sha (bearerToken rq))
      else if cookie rq sessionCookieName \<noteq> [] then ''sess:'' @ raw_url_encode (sha (cookie rq sessionCookieName))
      else ipKey rq cx)"

definition consoleAuthDeny :: "http_request \<Rightarrow> http_ctx \<Rightarrow> http_response" where
  "consoleAuthDeny rq cx =
     (if rq_Method rq = ''GET'' \<and> value_of (rq_Header rq) ''HX-Request'' \<noteq> ''true'' \<and>
         sublist ''text/html'' (value_of (rq_Header rq) ''Accept'')
      then respond cx 303 (Location ''/console/login'')
      else writeError cx 401 ''unauthorized'')"

definition consoleAuthMiddleware ::
  "(string \<Rightarrow> admin_principal option) \<Rightarrow> ('w \<Rightarrow> string \<Rightarrow> 'w \<times> string option) option \<Rightarrow> 'w http_gate" where
  "consoleAuthMiddleware adminAuth consoleAuth rq cx w =
     (if bearerToken rq \<noteq> [] then
        (w, case adminAuth (bearerToken rq) of
              Some p \<Rightarrow> Inr (WithOperatorID (ap_OperatorID p) (cx\<lparr>hx_role := Some (ap_Role p)\<rparr>))
            | None \<Rightarrow> Inl (consoleAuthDeny rq cx))
      else case consoleAuth of
        None \<Rightarrow> (w, Inl (consoleAuthDeny rq cx))
      | Some authenticate \<Rightarrow>
          if cookie rq sessionCookieName = [] then (w, Inl (consoleAuthDeny rq cx))
          else case authenticate w (cookie rq sessionCookieName) of
            (w, Some subject) \<Rightarrow> (w, Inr (WithOperatorID (''console:'' @ subject) (cx\<lparr>hx_role := Some RoleAdmin\<rparr>)))
          | (w, None) \<Rightarrow> (w, Inl (consoleAuthDeny rq cx)))"

definition securityHeaders :: "'w http_gate" where
  "securityHeaders rq cx w =
     (w, Inr (cx\<lparr>hx_headers := fold (\<lambda>(n, v) hs. put n v hs)
        [(''Content-Security-Policy'', ''default-src 'none'; script-src 'self'; style-src 'self'; img-src 'self'; '' @
            ''connect-src 'self'; form-action 'self'; base-uri 'none'; frame-ancestors 'none'' @ [CHR 0x27]),
         (''X-Content-Type-Options'', ''nosniff''), (''X-Frame-Options'', ''DENY''), (''Referrer-Policy'', ''same-origin'')]
        (hx_headers cx)\<rparr>))"

end
