(* ===== verification/HttpRoutes.thy ===== *)
theory HttpRoutes
  imports HttpAuth AdminPlane
begin

text \<open>
  The router of the HTTP API, \<open>internal/adapters/http/server.go\<close>: every route with the guards in front of its
  handler, and the handlers of the account plane (\<open>account_key_handlers.go\<close>, \<open>client_handlers.go\<close>) and of the
  console sign-in (\<open>console_auth.go\<close>). A handler that is not modelled is a name. Which route a path matches is
  chi's business; the claims hold for every route of the table. The rate limiters are told apart by name.
\<close>

section \<open>The server\<close>

record 'w http_server =
  sv_sha :: "string \<Rightarrow> string"
  sv_tenantAuth :: "string \<Rightarrow> principal option"
  sv_adminAuth :: "string \<Rightarrow> admin_principal option"
  sv_accountResolver :: "'w account_resolver option"
  sv_accountKeyAuth :: "('w \<Rightarrow> string \<Rightarrow> string option) option"
  sv_accountKeySelector :: bool
  sv_bankResolver :: "'w bank_resolver option"
  sv_consoleAuth :: "('w \<Rightarrow> string \<Rightarrow> 'w \<times> string option) option"
  sv_secureCookies :: bool
  sv_pixRecurrence :: bool
  sv_selfServeCredIntake :: bool
  sv_accountOutboundWebhook :: bool
  sv_limiter :: "string \<Rightarrow> 'w limiter"
  sv_rand :: "'w \<Rightarrow> 'w \<times> (nat \<Rightarrow> string result)"

record 'w route =
  rt_Method :: string
  rt_Pattern :: string
  rt_Gates :: "'w http_gate list"
  rt_Handler :: string

fun run_gates :: "'w http_gate list \<Rightarrow> 'w http_gate" where
  "run_gates [] rq cx w = (w, Inr cx)"
| "run_gates (g # gs) rq cx w =
     (case g rq cx w of (w, Inl r) \<Rightarrow> (w, Inl r) | (w, Inr cx) \<Rightarrow> run_gates gs rq cx w)"

definition under :: "'w http_gate list \<Rightarrow> (string \<times> string \<times> string) list \<Rightarrow> 'w route list" where
  "under gs table = map (\<lambda>(m, p, h). \<lparr>rt_Method = m, rt_Pattern = p, rt_Gates = gs, rt_Handler = h\<rparr>) table"

section \<open>The routes\<close>

definition account_key_table :: "(string \<times> string \<times> string) list" where
  "account_key_table =
     [(''POST'', ''/v1/account-key'', ''handleRotateAccountKey'')]"

definition client_table :: "(string \<times> string \<times> string) list" where
  "client_table =
     [(''POST'', ''/v1/clients'', ''handleProvisionClient'')]"

definition pix_table :: "(string \<times> string \<times> string) list" where
  "pix_table =
     [(''POST'', ''/v1/charges'', ''handleCreateCharge''), (''GET'', ''/v1/charges/{id}'', ''handleGetCharge''),
      (''POST'', ''/v1/pix'', ''handleCreatePix''), (''GET'', ''/v1/pix'', ''handleListPix''),
      (''GET'', ''/v1/pix/cobv'', ''handleListPixCobV''), (''POST'', ''/v1/pix/cobv'', ''handleCreatePixCobV''),
      (''GET'', ''/v1/pix/cobv/{txid}'', ''handleGetPixCobV''), (''PUT'', ''/v1/pix/cobv/{txid}'', ''handleUpdatePixCobV''),
      (''PATCH'', ''/v1/pix/cobv/{txid}'', ''handleRevisePixCobV''), (''POST'', ''/v1/pix/loc'', ''handleCreatePixLoc''),
      (''GET'', ''/v1/pix/loc'', ''handleListPixLoc''), (''GET'', ''/v1/pix/loc/{id}'', ''handleGetPixLoc''),
      (''DELETE'', ''/v1/pix/loc/{id}/txid'', ''handleUnlinkPixLoc''),
      (''GET'', ''/v1/pix/received'', ''handleListReceivedPix''),
      (''GET'', ''/v1/pix/received/{e2eid}'', ''handleGetReceivedPix''),
      (''PUT'', ''/v1/pix/received/{e2eid}/refunds/{refundID}'', ''handleRequestRefund''),
      (''GET'', ''/v1/pix/received/{e2eid}/refunds/{refundID}'', ''handleGetRefund''),
      (''GET'', ''/v1/pix/lotecobv'', ''handleListPixBatches''),
      (''PUT'', ''/v1/pix/lotecobv/{id}'', ''handleCreatePixBatch''),
      (''PATCH'', ''/v1/pix/lotecobv/{id}'', ''handleRevisePixBatch''),
      (''GET'', ''/v1/pix/lotecobv/{id}'', ''handleGetPixBatch'')]"

definition recurrence_table :: "(string \<times> string \<times> string) list" where
  "recurrence_table =
     [(''POST'', ''/v1/pix/locrec'', ''handleCreateLocRec''), (''GET'', ''/v1/pix/locrec/{id}'', ''handleGetLocRec''),
      (''DELETE'', ''/v1/pix/locrec/{id}/idrec'', ''handleUnlinkLocRec''), (''POST'', ''/v1/pix/rec'', ''handleCreateRec''),
      (''GET'', ''/v1/pix/rec/{idRec}'', ''handleGetRec''), (''DELETE'', ''/v1/pix/rec/{idRec}'', ''handleCancelRec''),
      (''POST'', ''/v1/pix/solicrec'', ''handleCreateSolicRec''),
      (''GET'', ''/v1/pix/solicrec/{idSolicRec}'', ''handleGetSolicRec''), (''POST'', ''/v1/pix/cobr'', ''handleCreateCobR''),
      (''GET'', ''/v1/pix/cobr/{txid}'', ''handleGetCobR''), (''DELETE'', ''/v1/pix/cobr/{txid}'', ''handleCancelCobR''),
      (''POST'', ''/v1/pix/cobr/{txid}/retentativa/{data}'', ''handleRetryCobR'')]"

definition product_table :: "(string \<times> string \<times> string) list" where
  "product_table =
     [(''GET'', ''/v1/pix/{txid}'', ''handleGetPix''), (''PATCH'', ''/v1/pix/{txid}'', ''handleRevisePix''),
      (''POST'', ''/v1/checkout'', ''handleCreateCheckout''), (''GET'', ''/v1/checkout/{id}'', ''handleGetCheckout''),
      (''DELETE'', ''/v1/checkout/{id}'', ''handleCancelCheckout''), (''POST'', ''/v1/boletos'', ''handleCreateBoleto''),
      (''GET'', ''/v1/boletos/{id}'', ''handleGetBoleto''), (''GET'', ''/v1/boletos/{id}/pdf'', ''handleGetBoletoPDF''),
      (''DELETE'', ''/v1/boletos/{id}'', ''handleDeleteBoleto''), (''PATCH'', ''/v1/boletos/{id}'', ''handleUpdateBoleto''),
      (''PUT'', ''/v1/boletos/{id}'', ''handleUpdateBoleto''), (''GET'', ''/v1/boletos'', ''handleListBoletos''),
      (''POST'', ''/v1/bank-slips'', ''handleCreatePlainBoleto''),
      (''GET'', ''/v1/bank-slips/{id}'', ''handleGetPlainBoleto''),
      (''PATCH'', ''/v1/bank-slips/{id}'', ''handleUpdatePlainBoleto''),
      (''DELETE'', ''/v1/bank-slips/{id}'', ''handleCancelPlainBoleto''),
      (''GET'', ''/v1/bank-slips/{id}/pdf'', ''handleGetPlainBoletoPDF''),
      (''GET'', ''/v1/dda/boletos'', ''handleListDDABoletos''),
      (''POST'', ''/v1/dda/payment-groups'', ''handleCreateDDAGroup''),
      (''GET'', ''/v1/dda/payment-groups/{id}/items'', ''handleGetDDAGroupItems''),
      (''DELETE'', ''/v1/dda/payment-groups/{id}/items'', ''handleRemoveDDAGroupItems''),
      (''DELETE'', ''/v1/dda/payment-groups/{id}/items/{itemID}'', ''handleRemoveDDAGroupItem''),
      (''POST'', ''/v1/dda/payment-groups/{id}/submit'', ''handleSubmitDDAGroup''),
      (''GET'', ''/v1/statement'', ''handleGetStatement''), (''GET'', ''/v1/acquirer/receivables'', ''handleListReceivables''),
      (''GET'', ''/v1/acquirer/transactions'', ''handleListCardTransactions''),
      (''GET'', ''/v1/bank-capabilities'', ''handleTenantBankCapabilities'')]"

definition credential_table :: "(string \<times> string \<times> string) list" where
  "credential_table =
     [(''PUT'', ''/v1/bank-credential'', ''handleTenantSetBankCredential''),
      (''PUT'', ''/v1/pix-key'', ''handleTenantSetCreditorKey'')]"

definition certificate_table :: "(string \<times> string \<times> string) list" where
  "certificate_table =
     [(''PUT'', ''/v1/bank-certificate'', ''handleTenantSetBankCertificate'')]"

definition admin_table :: "(string \<times> string \<times> string) list" where
  "admin_table =
     [(''POST'', ''/admin/tenants'', ''handleCreateTenant''),
      (''POST'', ''/admin/tenants/{tenantID}/pricing'', ''handleSetPrice''),
      (''PUT'', ''/admin/tenants/{tenantID}/bank-credential'', ''handleSetBankCredential''),
      (''PUT'', ''/admin/tenants/{tenantID}/bank-certificate'', ''handleSetBankCertificate''),
      (''POST'', ''/admin/accounts/{accountID}/account-key'', ''handleAdminMintAccountKey'')]"

definition sign_in_table :: "(string \<times> string \<times> string) list" where
  "sign_in_table =
     [(''GET'', ''/console/login'', ''consoleLoginForm''), (''POST'', ''/console/login'', ''consoleLogin''),
      (''GET'', ''/console/bootstrap'', ''consoleBootstrapForm''), (''POST'', ''/console/bootstrap'', ''consoleBootstrap'')]"

definition logout_table :: "(string \<times> string \<times> string) list" where
  "logout_table =
     [(''POST'', ''/console/logout'', ''consoleLogout'')]"

definition console_read_table :: "(string \<times> string \<times> string) list" where
  "console_read_table =
     [(''GET'', ''/console/'', ''consoleRedirect''), (''GET'', ''/console/accounts'', ''consoleListAccounts''),
      (''GET'', ''/console/accounts/rows'', ''consoleAccountRows''),
      (''GET'', ''/console/accounts/new'', ''consoleNewAccountForm''),
      (''GET'', ''/console/accounts/{acctId}'', ''consoleAccountDetail''),
      (''GET'', ''/console/accounts/{acctId}/tenants/new'', ''consoleNewAccountTenantForm''),
      (''GET'', ''/console/accounts/{acctId}/consumption'', ''consoleAccountConsumption''),
      (''GET'', ''/console/accounts/{acctId}/consumption/rows'', ''consoleAccountConsumptionRows''),
      (''GET'', ''/console/accounts/{acctId}/consumption.csv'', ''consoleAccountConsumptionCSV''),
      (''GET'', ''/console/accounts/{acctId}/invoices'', ''consoleAccountInvoices''),
      (''GET'', ''/console/tenants'', ''consoleListTenants''), (''GET'', ''/console/tenants/rows'', ''consoleTenantRows''),
      (''GET'', ''/console/tenants/new'', ''consoleNewTenantForm''),
      (''GET'', ''/console/tenants/{id}'', ''consoleTenantDetail''),
      (''GET'', ''/console/tenants/{id}/credentials'', ''consoleCredentialsForm''),
      (''GET'', ''/console/tenants/{id}/banks'', ''consoleBankList''),
      (''GET'', ''/console/tenants/{id}/banks/{bankId}'', ''consoleBankDetail''),
      (''GET'', ''/console/tenants/{id}/pricing'', ''consolePricing''),
      (''GET'', ''/console/tenants/{id}/consumption'', ''consoleConsumption''),
      (''GET'', ''/console/tenants/{id}/consumption/rows'', ''consoleConsumptionRows''),
      (''GET'', ''/console/tenants/{id}/consumption.csv'', ''consoleConsumptionCSV''),
      (''GET'', ''/console/tenants/{id}/invoices'', ''consoleInvoices''),
      (''GET'', ''/console/tenants/{id}/invoices/{invId}.csv'', ''consoleInvoiceCSV'')]"

definition webhook_read_table :: "(string \<times> string \<times> string) list" where
  "webhook_read_table =
     [(''GET'', ''/console/accounts/{acctId}/webhook'', ''consoleOutboundWebhookCard'')]"

definition console_write_table :: "(string \<times> string \<times> string) list" where
  "console_write_table =
     [(''POST'', ''/console/accounts'', ''consoleCreateAccount''),
      (''POST'', ''/console/accounts/{acctId}/suspend'', ''consoleSuspendAccount''),
      (''POST'', ''/console/accounts/{acctId}/activate'', ''consoleActivateAccount''),
      (''PATCH'', ''/console/accounts/{acctId}'', ''consoleRenameAccount''),
      (''POST'', ''/console/accounts/{acctId}/tenants'', ''consoleCreateAccountTenant''),
      (''POST'', ''/console/accounts/{acctId}/invoices'', ''consoleGenerateAccountInvoices''),
      (''POST'', ''/console/accounts/{acctId}/account-key'', ''consoleMintAccountKey''),
      (''POST'', ''/console/tenants'', ''consoleCreateTenant''),
      (''POST'', ''/console/tenants/{id}/suspend'', ''consoleSuspendTenant''),
      (''POST'', ''/console/tenants/{id}/activate'', ''consoleActivateTenant''),
      (''PATCH'', ''/console/tenants/{id}'', ''consoleRenameTenant''),
      (''DELETE'', ''/console/tenants/{id}/banks/{bankId}'', ''consoleRemoveBank''),
      (''POST'', ''/console/tenants/{id}/credentials'', ''consoleSetCredential''),
      (''POST'', ''/console/tenants/{id}/banks'', ''consoleAddBank''),
      (''POST'', ''/console/tenants/{id}/banks/{bankId}/credential'', ''consoleSetBankCredential''),
      (''POST'', ''/console/tenants/{id}/banks/{bankId}/certificate'', ''consoleSetBankCertificate''),
      (''POST'', ''/console/tenants/{id}/creditor-key'', ''consoleSetCreditorKey''),
      (''POST'', ''/console/tenants/{id}/invoices'', ''consoleGenerateInvoice''),
      (''POST'', ''/console/tenants/{id}/pricing'', ''consoleSetPrice'')]"

definition webhook_write_table :: "(string \<times> string \<times> string) list" where
  "webhook_write_table =
     [(''POST'', ''/console/accounts/{acctId}/webhook'', ''consoleSetOutboundWebhook''),
      (''POST'', ''/console/accounts/{acctId}/webhook/secret'', ''consoleRotateOutboundWebhookSecret''),
      (''DELETE'', ''/console/accounts/{acctId}/webhook'', ''consoleRemoveOutboundWebhook'')]"

definition model_b :: "'w http_server \<Rightarrow> ('w \<Rightarrow> string \<Rightarrow> string option) option" where
  "model_b srv = (if sv_accountKeySelector srv then sv_accountKeyAuth srv else None)"

definition account_routes :: "'w http_server \<Rightarrow> 'w route list" where
  "account_routes srv =
     (case model_b srv of
        None \<Rightarrow> []
      | Some keyAuth \<Rightarrow>
          under [accountKeyAuthMiddleware keyAuth, middlewareAccountKeyRotate (sv_limiter srv ''account-key'') ''60''] account_key_table @
          under [accountKeyAuthMiddleware keyAuth, middlewareClientProvision (sv_limiter srv ''clients'') ''60''] client_table)"

definition tenant_gate :: "'w http_server \<Rightarrow> 'w http_gate" where
  "tenant_gate srv =
     (case model_b srv of
        Some keyAuth \<Rightarrow> tenantAuthMiddlewareWithSelector (sv_tenantAuth srv) \<lparr>ag_enabled = True, ag_keyAuth = Some keyAuth\<rparr> [sv_accountResolver srv]
      | None \<Rightarrow> tenantAuthMiddleware (sv_tenantAuth srv) [sv_accountResolver srv])"

definition tenant_gates :: "'w http_server \<Rightarrow> 'w http_gate list" where
  "tenant_gates srv =
     [tenant_gate srv] @ (case sv_bankResolver srv of None \<Rightarrow> [] | Some b \<Rightarrow> [bankRouteMiddleware b]) @
     [limit_middleware (sv_limiter srv ''tenant'') tenantOrIPKey]"

definition tenant_routes :: "'w http_server \<Rightarrow> 'w route list" where
  "tenant_routes srv =
     under (tenant_gates srv) (pix_table @ (if sv_pixRecurrence srv then recurrence_table else []) @ product_table) @
     (if sv_selfServeCredIntake srv
      then under (tenant_gates srv @ [middlewareSelfServeCred (sv_limiter srv ''selfserve-cred'') ''60'']) credential_table @
           under (tenant_gates srv @ [middlewareSelfServeCert (sv_limiter srv ''selfserve-cert'') ''60'']) certificate_table
      else [])"

definition admin_routes :: "'w http_server \<Rightarrow> 'w route list" where
  "admin_routes srv =
     under [adminAuthMiddleware (sv_adminAuth srv), limit_middleware (sv_limiter srv ''admin'') (adminTokenKey (sv_sha srv)),
            requireRole [RoleAdmin]] admin_table"

definition sign_in_routes :: "'w http_server \<Rightarrow> 'w route list" where
  "sign_in_routes srv =
     under [securityHeaders, limit_middleware (sv_limiter srv ''login'') ipKey, csrf_middleware (sv_secureCookies srv) (sv_rand srv)]
       sign_in_table"

definition console_gates :: "'w http_server \<Rightarrow> 'w http_gate list" where
  "console_gates srv =
     [securityHeaders, consoleAuthMiddleware (sv_adminAuth srv) (sv_consoleAuth srv),
      limit_middleware (sv_limiter srv ''console'') (consoleRateKey (sv_sha srv)), csrf_middleware (sv_secureCookies srv) (sv_rand srv)]"

definition console_routes :: "'w http_server \<Rightarrow> 'w route list" where
  "console_routes srv =
     under (console_gates srv) logout_table @
     under (console_gates srv @ [requireRole [RoleAdmin, RoleOperator]])
       (console_read_table @ (if sv_accountOutboundWebhook srv then webhook_read_table else [])) @
     under (console_gates srv @ [requireRole [RoleAdmin]])
       (console_write_table @ (if sv_accountOutboundWebhook srv then webhook_write_table else []))"

definition Router :: "'w http_server \<Rightarrow> 'w route list" where
  "Router srv =
     under [] [(''GET'', ''/healthz'', ''health'')] @ account_routes srv @ tenant_routes srv @ admin_routes srv @
     under [] [(''GET'', ''/console/static/*'', ''consoleServeStatic'')] @ sign_in_routes srv @ console_routes srv @
     under [limit_middleware (sv_limiter srv ''webhook'') ipKey] [(''POST'', ''/webhooks/c6/{tenantRef}'', ''handleC6Webhook'')]"

section \<open>Who is let through\<close>

text \<open>The identity a request proves in each plane, read from its credentials alone.\<close>

definition selector_of :: "http_request \<Rightarrow> string" where
  "selector_of rq = TrimSpace (value_of (rq_Header rq) clientSelectorHeader)"

definition tenant_identity :: "'w http_server \<Rightarrow> 'w \<Rightarrow> http_request \<Rightarrow> (string \<times> string) option" where
  "tenant_identity srv w rq =
     (if model_b srv \<noteq> None \<and> HasSecretShape (bearerToken rq) then
        (case the (model_b srv) w (bearerToken rq) of
           None \<Rightarrow> None
         | Some a \<Rightarrow>
             if selector_of rq \<noteq> [] \<and> a \<noteq> [] \<and> resolveOwner w (selector_of rq) [sv_accountResolver srv] = a
             then Some (selector_of rq, a) else None)
      else if model_b srv \<noteq> None \<and> selector_of rq \<noteq> [] then None
      else case sv_tenantAuth srv (bearerToken rq) of
        None \<Rightarrow> None
      | Some p \<Rightarrow> Some (pp_TenantID p, parent_or w (pp_TenantID p) [sv_accountResolver srv] (pp_AccountID p)))"

definition account_identity :: "'w http_server \<Rightarrow> 'w \<Rightarrow> http_request \<Rightarrow> string option" where
  "account_identity srv w rq =
     (case model_b srv of
        None \<Rightarrow> None
      | Some keyAuth \<Rightarrow> if HasSecretShape (bearerToken rq) then keyAuth w (bearerToken rq) else None)"

definition admin_identity :: "'w http_server \<Rightarrow> http_request \<Rightarrow> (string \<times> string) option" where
  "admin_identity srv rq = map_option (\<lambda>p. (ap_Role p, ap_OperatorID p)) (sv_adminAuth srv (bearerToken rq))"

definition console_identity :: "'w http_server \<Rightarrow> 'w \<Rightarrow> http_request \<Rightarrow> (string \<times> string) option" where
  "console_identity srv w rq =
     (if bearerToken rq \<noteq> [] then admin_identity srv rq
      else case sv_consoleAuth srv of
        None \<Rightarrow> None
      | Some authenticate \<Rightarrow>
          if cookie rq sessionCookieName = [] then None
          else map_option (\<lambda>s. (RoleAdmin, ''console:'' @ s)) (snd (authenticate w (cookie rq sessionCookieName))))"

definition csrf_proved :: "http_request \<Rightarrow> bool" where
  "csrf_proved rq \<longleftrightarrow> cookie rq csrfCookieName \<noteq> [] \<and>
     (let h = value_of (rq_Header rq) CSRFHeaderName
      in cookie rq csrfCookieName = (if h = [] then value_of (rq_Form rq) CSRFFieldName else h))"

definition public_routes :: "(string \<times> string) list" where
  "public_routes = [(''GET'', ''/healthz''), (''GET'', ''/console/static/*''), (''GET'', ''/console/login''),
     (''POST'', ''/console/login''), (''GET'', ''/console/bootstrap''), (''POST'', ''/console/bootstrap''),
     (''POST'', ''/webhooks/c6/{tenantRef}'')]"

lemma run_gates_Cons_Inr: "run_gates (g # gs) rq cx w = (w', Inr cx') \<longleftrightarrow>
    (\<exists>w1 cx1. g rq cx w = (w1, Inr cx1) \<and> run_gates gs rq cx1 w1 = (w', Inr cx'))"
  by (auto split: prod.splits sum.splits)

lemma run_gates_append_Inr: "run_gates (gs @ hs) rq cx w = (w', Inr cx') \<longleftrightarrow>
    (\<exists>w1 cx1. run_gates gs rq cx w = (w1, Inr cx1) \<and> run_gates hs rq cx1 w1 = (w', Inr cx'))"
  by (induction gs arbitrary: cx w) (auto split: prod.splits sum.splits)

lemma limit_Inr [simp]:
  "limit_middleware allow keyFn rq cx w = (w', Inr cx') \<longleftrightarrow> allow (keyFn rq cx) w = (w', True) \<and> cx' = cx"
  by (auto simp: limit_middleware_def split: prod.splits)

lemma requireRole_Inr [simp]:
  "requireRole allowed rq cx w = (w', Inr cx') \<longleftrightarrow> w' = w \<and> cx' = cx \<and> (\<exists>r. hx_role cx = Some r \<and> r \<in> set allowed)"
  by (auto simp: requireRole_def roleFromContext_def split: option.splits)

lemma dedicated_Inr: "dedicated_limit allow bucket who ra rq cx w = (w', Inr cx') \<Longrightarrow> cx' = cx"
  by (auto simp: dedicated_limit_def split: if_splits prod.splits)

lemmas dedicated_defs = middlewareSelfServeCred_def middlewareSelfServeCert_def middlewareAccountKeyRotate_def
  middlewareClientProvision_def

lemma bankRoute_Inr:
  "bankRouteMiddleware b rq cx w = (w', Inr cx') \<longleftrightarrow> w' = w \<and>
     (\<exists>i. ResolveBank b w (tenantFromContext cx) (value_of (rq_Header rq) ''X-Bank-Id'') = Inr i \<and> cx' = cx\<lparr>hx_bankID := Some i\<rparr>)"
  by (auto simp: bankRouteMiddleware_def WithBankID_def split: sum.splits)

lemma accountKeyAuth_Inr:
  "model_b srv = Some k \<Longrightarrow> accountKeyAuthMiddleware k rq cx w = (w', Inr cx') \<longleftrightarrow> w' = w \<and>
     (\<exists>a. account_identity srv w rq = Some a \<and> cx' = cx\<lparr>hx_accountID := Some a, hx_operatorID := Some (''account:'' @ a)\<rparr>)"
  by (auto simp: accountKeyAuthMiddleware_def account_identity_def WithOperatorID_def Let_def split: option.splits if_splits)

lemma adminAuth_Inr:
  "adminAuthMiddleware (sv_adminAuth srv) rq cx w = (w', Inr cx') \<longleftrightarrow> w' = w \<and>
     (\<exists>r opr. admin_identity srv rq = Some (r, opr) \<and> cx' = cx\<lparr>hx_role := Some r, hx_operatorID := Some opr\<rparr>)"
  by (auto simp: adminAuthMiddleware_def admin_identity_def WithOperatorID_def split: option.splits)

lemma consoleAuth_Inr:
  "consoleAuthMiddleware (sv_adminAuth srv) (sv_consoleAuth srv) rq cx w = (w', Inr cx') \<Longrightarrow>
     \<exists>r opr. console_identity srv w rq = Some (r, opr) \<and> cx' = cx\<lparr>hx_role := Some r, hx_operatorID := Some opr\<rparr>"
  by (auto simp: consoleAuthMiddleware_def console_identity_def admin_identity_def WithOperatorID_def
      split: if_splits option.splits prod.splits)

lemma csrf_Inr:
  assumes "csrf_middleware sec rand rq cx w = (w', Inr cx')"
  shows "hx_role cx' = hx_role cx \<and> hx_operatorID cx' = hx_operatorID cx \<and> (isSafeMethod (rq_Method rq) \<or> csrf_proved rq)"
  using assms by (auto simp: csrf_middleware_def csrf_proved_def setCSRFCookie_def set_cookie_def Let_def
      split: if_splits prod.splits sum.splits)

lemma tenantAuth_Inr:
  "tenant_gate srv rq cx w = (w', Inr cx') \<longleftrightarrow>
   w' = w \<and> (\<exists>t a. tenant_identity srv w rq = Some (t, a) \<and> cx' = cx\<lparr>hx_tenantID := Some t, hx_accountID := Some a\<rparr>)"
  by (cases "model_b srv")
    (auto simp: tenant_gate_def tenantAuthMiddleware_def tenantAuthMiddlewareWithSelector_def tenant_identity_def guard_active_def
      selector_of_def Let_def split: option.splits if_splits)

lemma tenant_gates_Inr:
  assumes "run_gates (tenant_gates srv) rq cx w = (w', Inr cx')"
  shows "\<exists>t a. tenant_identity srv w rq = Some (t, a) \<and> hx_tenantID cx' = Some t \<and> hx_accountID cx' = Some a"
  using assms unfolding tenant_gates_def run_gates_append_Inr run_gates_Cons_Inr tenantAuth_Inr
  by (auto simp: run_gates_Cons_Inr bankRoute_Inr simp del: run_gates.simps(2) split: option.splits)

lemma console_gates_Inr:
  assumes "run_gates (console_gates srv) rq cx w = (w', Inr cx')"
  shows "\<exists>r opr. console_identity srv w rq = Some (r, opr) \<and> hx_role cx' = Some r \<and> hx_operatorID cx' = Some opr \<and>
    (isSafeMethod (rq_Method rq) \<or> csrf_proved rq)"
  using assms unfolding console_gates_def run_gates_Cons_Inr
  by (auto simp: securityHeaders_def dest!: consoleAuth_Inr csrf_Inr)

lemma set_under: "rt \<in> set (under gs table) \<longleftrightarrow> rt_Gates rt = gs \<and> (rt_Method rt, rt_Pattern rt, rt_Handler rt) \<in> set table"
  by (cases rt) (force simp: under_def image_iff)

lemma table_all: "list_all (\<lambda>(m, p, h). P m p) table \<Longrightarrow> (m, p, h) \<in> set table \<Longrightarrow> P m p"
  by (auto simp: list_all_iff)

text \<open>What the paths and methods of each table have in common.\<close>

lemma table_paths:
  "(m, p, h) \<in> set (pix_table @ recurrence_table @ product_table @ credential_table @ certificate_table) \<Longrightarrow> prefix ''/v1/'' p"
  "(m, p, h) \<in> set (account_key_table @ client_table) \<Longrightarrow> p \<in> {''/v1/account-key'', ''/v1/clients''}"
  "(m, p, h) \<in> set admin_table \<Longrightarrow> prefix ''/admin/'' p"
  "(m, p, h) \<in> set sign_in_table \<Longrightarrow> (m, p) \<in> set public_routes"
  "(m, p, h) \<in> set logout_table \<Longrightarrow> p = ''/console/logout''"
  "(m, p, h) \<in> set (console_read_table @ webhook_read_table) \<Longrightarrow> prefix ''/console/'' p \<and> isSafeMethod m"
  "(m, p, h) \<in> set (console_write_table @ webhook_write_table) \<Longrightarrow> prefix ''/console/'' p"
proof -
  have "list_all (\<lambda>(m, p, h). prefix ''/v1/'' p) (pix_table @ recurrence_table @ product_table @ credential_table @ certificate_table)"
    by (simp add: pix_table_def recurrence_table_def product_table_def credential_table_def certificate_table_def)
  then show "(m, p, h) \<in> set (pix_table @ recurrence_table @ product_table @ credential_table @ certificate_table) \<Longrightarrow> prefix ''/v1/'' p"
    by (rule table_all)
  have "list_all (\<lambda>(m, p, h). prefix ''/console/'' p \<and> isSafeMethod m) (console_read_table @ webhook_read_table)"
    by (simp add: console_read_table_def webhook_read_table_def isSafeMethod_def)
  then show "(m, p, h) \<in> set (console_read_table @ webhook_read_table) \<Longrightarrow> prefix ''/console/'' p \<and> isSafeMethod m"
    by (rule table_all)
  have "list_all (\<lambda>(m, p, h). prefix ''/console/'' p) (console_write_table @ webhook_write_table)"
    by (simp add: console_write_table_def webhook_write_table_def)
  then show "(m, p, h) \<in> set (console_write_table @ webhook_write_table) \<Longrightarrow> prefix ''/console/'' p"
    by (rule table_all)
qed (auto simp: account_key_table_def client_table_def admin_table_def sign_in_table_def logout_table_def public_routes_def)

lemma account_route_Inr:
  assumes "rt \<in> set (account_routes srv)" "run_gates (rt_Gates rt) rq empty_ctx w = (w', Inr cx)"
  shows "rt_Pattern rt \<in> {''/v1/account-key'', ''/v1/clients''}"
    and "\<exists>a. account_identity srv w rq = Some a \<and> hx_tenantID cx = None \<and> hx_accountID cx = Some a \<and> hx_operatorID cx = Some (''account:'' @ a)"
proof -
  obtain k where k: "model_b srv = Some k" using assms(1) by (cases "model_b srv") (auto simp: account_routes_def)
  with assms(1) have p: "(rt_Method rt, rt_Pattern rt, rt_Handler rt) \<in> set (account_key_table @ client_table)"
    and "\<exists>allow bucket. rt_Gates rt = [accountKeyAuthMiddleware k, dedicated_limit allow bucket accountFromContext ''60'']"
    by (auto simp: account_routes_def set_under dedicated_defs)
  then obtain allow bucket where g: "rt_Gates rt = [accountKeyAuthMiddleware k, dedicated_limit allow bucket accountFromContext ''60'']"
    by blast
  from p show "rt_Pattern rt \<in> {''/v1/account-key'', ''/v1/clients''}" by (rule table_paths)
  from assms(2) show "\<exists>a. account_identity srv w rq = Some a \<and> hx_tenantID cx = None \<and> hx_accountID cx = Some a \<and> hx_operatorID cx = Some (''account:'' @ a)"
    unfolding g run_gates_Cons_Inr accountKeyAuth_Inr [OF k] by (auto simp: empty_ctx_def dest!: dedicated_Inr)
qed

lemma tenant_route_prefix:
  assumes "rt \<in> set (tenant_routes srv)" "run_gates (rt_Gates rt) rq cx w = (w', Inr cx')"
  shows "\<exists>w1. run_gates (tenant_gates srv) rq cx w = (w1, Inr cx')"
proof -
  from assms(1) obtain gs where g: "rt_Gates rt = tenant_gates srv @ gs"
    and "gs = [] \<or> (\<exists>allow bucket. gs = [dedicated_limit allow bucket tenantFromContext ''60''])"
    by (auto simp: tenant_routes_def set_under dedicated_defs split: if_splits)
  moreover from assms(2) obtain w1 cx1 where r: "run_gates (tenant_gates srv) rq cx w = (w1, Inr cx1)"
    and "run_gates gs rq cx1 w1 = (w', Inr cx')"
    unfolding g run_gates_append_Inr by blast
  ultimately have "cx' = cx1" by (auto simp: run_gates_Cons_Inr simp del: run_gates.simps(2) dest: dedicated_Inr)
  with r show ?thesis by blast
qed

lemma tenant_route_Inr:
  assumes "rt \<in> set (tenant_routes srv)" "run_gates (rt_Gates rt) rq empty_ctx w = (w', Inr cx)"
  shows "prefix ''/v1/'' (rt_Pattern rt)"
    and "\<exists>t a. tenant_identity srv w rq = Some (t, a) \<and> hx_tenantID cx = Some t \<and> hx_accountID cx = Some a"
proof -
  from assms(1) have "(rt_Method rt, rt_Pattern rt, rt_Handler rt) \<in>
      set (pix_table @ recurrence_table @ product_table @ credential_table @ certificate_table)"
    by (auto simp: tenant_routes_def set_under split: if_splits)
  then show "prefix ''/v1/'' (rt_Pattern rt)" by (rule table_paths)
  obtain w1 where "run_gates (tenant_gates srv) rq empty_ctx w = (w1, Inr cx)" using tenant_route_prefix [OF assms] by blast
  then show "\<exists>t a. tenant_identity srv w rq = Some (t, a) \<and> hx_tenantID cx = Some t \<and> hx_accountID cx = Some a"
    by (rule tenant_gates_Inr)
qed

lemma admin_route_Inr:
  assumes "rt \<in> set (admin_routes srv)" "run_gates (rt_Gates rt) rq empty_ctx w = (w', Inr cx)"
  shows "prefix ''/admin/'' (rt_Pattern rt) \<and> (\<exists>opr. admin_identity srv rq = Some (RoleAdmin, opr) \<and> hx_operatorID cx = Some opr)"
  using assms table_paths(3) unfolding admin_routes_def set_under
  by (auto simp: run_gates_Cons_Inr adminAuth_Inr simp del: run_gates.simps(2))

lemma console_route_Inr:
  assumes "rt \<in> set (console_routes srv)" "rq_Method rq = rt_Method rt" "run_gates (rt_Gates rt) rq empty_ctx w = (w', Inr cx)"
  shows "prefix ''/console/'' (rt_Pattern rt) \<and> (\<exists>r opr. console_identity srv w rq = Some (r, opr) \<and> hx_operatorID cx = Some opr \<and>
    (rt_Pattern rt = ''/console/logout'' \<or> r = RoleAdmin \<or> r = RoleOperator \<and> isSafeMethod (rq_Method rq)) \<and>
    (isSafeMethod (rq_Method rq) \<or> csrf_proved rq))"
proof -
  let ?t = "(rt_Method rt, rt_Pattern rt, rt_Handler rt)"
  from assms(1) consider
      (leave) "rt_Gates rt = console_gates srv" "?t \<in> set logout_table"
    | (view) "rt_Gates rt = console_gates srv @ [requireRole [RoleAdmin, RoleOperator]]" "?t \<in> set (console_read_table @ webhook_read_table)"
    | (full) "rt_Gates rt = console_gates srv @ [requireRole [RoleAdmin]]" "?t \<in> set (console_write_table @ webhook_write_table)"
    by (auto simp: console_routes_def set_under split: if_splits)
  then show ?thesis
  proof cases
    case leave
    then show ?thesis using assms(3) table_paths(5) [OF leave(2)] console_gates_Inr [of srv rq empty_ctx w] by auto
  next
    case view
    then obtain r where "run_gates (console_gates srv) rq empty_ctx w = (w', Inr cx)" "hx_role cx = Some r" "r \<in> {RoleAdmin, RoleOperator}"
      using assms(3) by (auto simp: run_gates_append_Inr run_gates_Cons_Inr simp del: run_gates.simps(2))
    with console_gates_Inr [OF this(1)] table_paths(6) [OF view(2)] assms(2) show ?thesis by auto
  next
    case full
    then have "run_gates (console_gates srv) rq empty_ctx w = (w', Inr cx)" "hx_role cx = Some RoleAdmin"
      using assms(3) by (auto simp: run_gates_append_Inr run_gates_Cons_Inr simp del: run_gates.simps(2))
    with console_gates_Inr [OF this(1)] table_paths(7) [OF full(2)] show ?thesis by auto
  qed
qed

text \<open>
  C20: every route is closed unless it is listed as open. Whatever the configuration of the server, a request
  that reaches the handler of a route other than the health check, the static files, the sign-in pages and the
  bank's callback has proved who it is with its own credentials, and the handler sees exactly that identity:
  under \<open>/v1\<close> a tenant with its account (or, to rotate a key or create a client, an account), under \<open>/admin\<close> an
  operator with the full role, on the console a signed-in operator. On the console a request that changes
  something also proved that it is not forged, and, signing out apart, has the full role.
\<close>

theorem deny_by_default:
  assumes "rt \<in> set (Router srv)" and "rq_Method rq = rt_Method rt" and "(rt_Method rt, rt_Pattern rt) \<notin> set public_routes"
    and "run_gates (rt_Gates rt) rq empty_ctx w = (w', Inr cx)"
  shows "(prefix ''/v1/'' (rt_Pattern rt) \<and> (\<exists>t a. tenant_identity srv w rq = Some (t, a) \<and> hx_tenantID cx = Some t \<and> hx_accountID cx = Some a)) \<or>
    (rt_Pattern rt \<in> {''/v1/account-key'', ''/v1/clients''} \<and> (\<exists>a. account_identity srv w rq = Some a \<and> hx_tenantID cx = None \<and>
       hx_accountID cx = Some a \<and> hx_operatorID cx = Some (''account:'' @ a))) \<or>
    (prefix ''/admin/'' (rt_Pattern rt) \<and> (\<exists>opr. admin_identity srv rq = Some (RoleAdmin, opr) \<and> hx_operatorID cx = Some opr)) \<or>
    (prefix ''/console/'' (rt_Pattern rt) \<and> (\<exists>r opr. console_identity srv w rq = Some (r, opr) \<and> hx_operatorID cx = Some opr \<and>
       (rt_Pattern rt = ''/console/logout'' \<or> r = RoleAdmin \<or> r = RoleOperator \<and> isSafeMethod (rq_Method rq)) \<and>
       (isSafeMethod (rq_Method rq) \<or> csrf_proved rq)))"
proof -
  have "rt \<notin> set (sign_in_routes srv)" using assms(3) table_paths(4) by (auto simp: sign_in_routes_def set_under)
  then have "rt \<in> set (account_routes srv) \<or> rt \<in> set (tenant_routes srv) \<or> rt \<in> set (admin_routes srv) \<or> rt \<in> set (console_routes srv)"
    using assms(1,3) by (auto simp: Router_def set_under public_routes_def)
  then show ?thesis
    using account_route_Inr [OF _ assms(4)] tenant_route_Inr [OF _ assms(4)] admin_route_Inr [OF _ assms(4)]
      console_route_Inr [OF _ assms(2,4)] by (elim disjE) blast+
qed

section \<open>A server\<close>

definition sample_server :: "unit http_server" where
  "sample_server =
     \<lparr>sv_sha = (\<lambda>x. x), sv_tenantAuth = (\<lambda>t. None),
      sv_adminAuth = AuthenticateAdminPrincipal (\<lambda>x. x) (NewStaticTokenAuth (\<lambda>x. x) [] [''tok''] [] :: unit static_auth),
      sv_accountResolver = None, sv_accountKeyAuth = None, sv_accountKeySelector = False, sv_bankResolver = None,
      sv_consoleAuth = None, sv_secureCookies = True, sv_pixRecurrence = True, sv_selfServeCredIntake = True,
      sv_accountOutboundWebhook = True, sv_limiter = (\<lambda>n k w. (w, True)), sv_rand = (\<lambda>w. (w, \<lambda>n. Inl ErrUnavailable))\<rparr>"

definition sample_admin_request :: http_request where
  "sample_admin_request = \<lparr>rq_Method = ''POST'', rq_Header = [(''Authorization'', ''Bearer tok'')], rq_Cookies = [], rq_Form = [],
     rq_clientIP = ''10.0.0.1'', rq_RemoteAddr = []\<rparr>"

lemma sample_admin_token: "bearerToken sample_admin_request = ''tok''"
  by (simp add: bearerToken_def sample_admin_request_def value_of_def EqualFold_def ToLower_def lower_char_def TrimSpace_plain plain_byte_def
      less_eq_char_def Let_def)

theorem deny_by_default_witness:
  "\<exists>w' cx rt opr. rt \<in> set (Router sample_server) \<and> rt_Pattern rt = ''/admin/tenants'' \<and>
     run_gates (rt_Gates rt) sample_admin_request empty_ctx () = (w', Inr cx) \<and>
     admin_identity sample_server sample_admin_request = Some (RoleAdmin, opr) \<and> hx_operatorID cx = Some opr"
proof -
  let ?gs = "[adminAuthMiddleware (sv_adminAuth sample_server), limit_middleware (sv_limiter sample_server ''admin'') (adminTokenKey (sv_sha sample_server)),
      requireRole [RoleAdmin]]"
  let ?rt = "\<lparr>rt_Method = ''POST'', rt_Pattern = ''/admin/tenants'', rt_Gates = ?gs, rt_Handler = ''handleCreateTenant''\<rparr>"
  have rt: "?rt \<in> set (Router sample_server)" by (simp add: Router_def admin_routes_def set_under admin_table_def)
  have "sv_adminAuth sample_server ''tok'' = Some \<lparr>ap_OperatorID = deriveOperatorID (\<lambda>x. x) ''tok'', ap_Role = RoleAdmin\<rparr>"
    by (simp add: sample_server_def AuthenticateAdminPrincipal_def NewStaticTokenAuth_def NewStaticTokenAuthWithRoles_def role_valid_def)
  then have "\<exists>cx. run_gates ?gs sample_admin_request empty_ctx () = ((), Inr cx)"
    by (simp add: adminAuthMiddleware_def sample_admin_token limit_middleware_def sample_server_def requireRole_def roleFromContext_def WithOperatorID_def)
  then obtain cx where r: "run_gates (rt_Gates ?rt) sample_admin_request empty_ctx () = ((), Inr cx)" by auto
  have "rq_Method sample_admin_request = rt_Method ?rt" "(rt_Method ?rt, rt_Pattern ?rt) \<notin> set public_routes"
    by (simp_all add: sample_admin_request_def public_routes_def)
  from deny_by_default [OF rt this r]
  have "\<exists>opr. admin_identity sample_server sample_admin_request = Some (RoleAdmin, opr) \<and> hx_operatorID cx = Some opr" by simp
  moreover have "rt_Pattern ?rt = ''/admin/tenants''" by simp
  ultimately show ?thesis using rt r by blast
qed

end
