(* ===== verification/HttpAccess.thy ===== *)
theory HttpAccess
  imports HttpRoutes SignInRuns Charge
begin

text \<open>
  The handlers of charge creation, of the account plane and of the console sign-in (\<open>handlers.go\<close>, \<open>account_key_handlers.go\<close>,
  \<open>client_handlers.go\<close>, \<open>console_auth.go\<close> of \<open>internal/adapters/http\<close>), the locale \<open>access_contract\<close> with what
  the guards rely on, its interpretation over the stores in memory, and the claims on who reaches what. The
  decoded body of a request is an argument; the views are values, not HTML.
\<close>

section \<open>Handlers\<close>

definition mintAccountKey ::
  "('w \<Rightarrow> string \<Rightarrow> string \<Rightarrow> string \<Rightarrow> 'w \<times> string result) option \<Rightarrow> http_request \<Rightarrow> http_ctx \<Rightarrow> 'w \<Rightarrow> string \<Rightarrow> 'w \<times> http_response" where
  "mintAccountKey mint rq cx w accountID =
     (case mint of
        None \<Rightarrow> (w, writeError cx 503 ''account key issuance unavailable'')
      | Some rot \<Rightarrow>
          (let idemKey = TrimSpace (value_of (rq_Header rq) ''Idempotency-Key'')
           in if idemKey = [] then (w, writeError cx 400 ''missing Idempotency-Key header'')
              else case rot w (OperatorIDFromContext cx) accountID idemKey of
                (w, Inl e) \<Rightarrow>
                  (w, if errors_Is e ErrAccountKeyAlreadyRotated
                      then writeError cx 409 (''idempotency key already used; the secret is shown only once '' @
                             [CHR 0xE2, CHR 0x80, CHR 0x94] @ '' rotate with a fresh Idempotency-Key for a new secret'')
                      else writeDomainError cx e)
              | (w, Inr secret) \<Rightarrow> (w, respond cx 201 (KeyView accountID secret))))"

definition handleRotateAccountKey ::
  "('w \<Rightarrow> string \<Rightarrow> string \<Rightarrow> string \<Rightarrow> 'w \<times> string result) option \<Rightarrow> http_request \<Rightarrow> http_ctx \<Rightarrow> 'w \<Rightarrow> 'w \<times> http_response" where
  "handleRotateAccountKey mint rq cx w =
     (if accountFromContext cx = [] then (w, writeError cx 401 ''unauthorized'')
      else mintAccountKey mint rq cx w (accountFromContext cx))"

definition handleAdminMintAccountKey ::
  "('w \<Rightarrow> string \<Rightarrow> string \<Rightarrow> string \<Rightarrow> 'w \<times> string result) option \<Rightarrow> string \<Rightarrow> http_request \<Rightarrow> http_ctx \<Rightarrow> 'w \<Rightarrow> 'w \<times> http_response" where
  "handleAdminMintAccountKey mint param rq cx w =
     (let accountID = TrimSpace param
      in if accountID = [] then (w, writeError cx 400 ''invalid request'') else mintAccountKey mint rq cx w accountID)"

text \<open>
  The charge endpoint (\<open>handlers.go\<close>): \<open>body\<close> is the decoded request, and \<open>charges\<close> is the charge service,
  which gets the context because the routed bank travels on it.
\<close>

record createChargeRequest =
  qc_Endpoint :: string
  qc_AmountCents :: int
  qc_Currency :: string
  qc_Bank :: string

definition toPaymentView :: "payment \<Rightarrow> http_body" where
  "toPaymentView p = PaymentView (pay_id p) (pay_tenantID p) (pay_endpoint p) (m_cents (pay_amount p)) (m_currency (pay_amount p))
     (status_string (pay_status p)) (pay_txID p)"

definition handleCreateCharge ::
  "'w bank_resolver option \<Rightarrow> (http_ctx \<Rightarrow> 'w \<Rightarrow> create_charge_input \<Rightarrow> 'w \<times> payment result) \<Rightarrow> createChargeRequest option \<Rightarrow>
     http_request \<Rightarrow> http_ctx \<Rightarrow> 'w \<Rightarrow> 'w \<times> http_response" where
  "handleCreateCharge resolver charges body rq cx w =
     (let tenantID = tenantFromContext cx;
          idemKey = TrimSpace (value_of (rq_Header rq) ''Idempotency-Key'')
      in if idemKey = [] then (w, writeError cx 400 ''missing Idempotency-Key header'')
         else case body of
           None \<Rightarrow> (w, writeError cx 400 ''invalid request body'')
         | Some req \<Rightarrow>
             (case rebindBank resolver w cx (qc_Bank req) of
                Inl r \<Rightarrow> (w, r)
              | Inr cx \<Rightarrow>
                  (case charges cx w \<lparr>ci_TenantID = tenantID, ci_AccountID = accountFromContext cx, ci_Endpoint = qc_Endpoint req,
                          ci_AmountCents = qc_AmountCents req, ci_Currency = qc_Currency req, ci_IdempotencyKey = idemKey\<rparr> of
                     (w, Inl e) \<Rightarrow> (w, writeDomainError cx e)
                   | (w, Inr p) \<Rightarrow> (w, respond cx 201 (toPaymentView p)))))"

text \<open>
  \<open>body\<close> is the decoded name, \<open>None\<close> when the body is not accepted. A provisioner that mints no reference hands
  out an empty one.
\<close>

definition handleProvisionClient ::
  "('w \<Rightarrow> string \<Rightarrow> string \<Rightarrow> string \<Rightarrow> 'w \<times> (tenant \<times> string) result) option \<Rightarrow> string option \<Rightarrow> http_request \<Rightarrow> http_ctx \<Rightarrow> 'w \<Rightarrow>
     'w \<times> http_response" where
  "handleProvisionClient provisioner body rq cx w =
     (if accountFromContext cx = [] then (w, writeError cx 401 ''unauthorized'')
      else case provisioner of
        None \<Rightarrow> (w, writeError cx 503 ''client provisioning unavailable'')
      | Some prov \<Rightarrow>
          (let idemKey = TrimSpace (value_of (rq_Header rq) ''Idempotency-Key'')
           in if idemKey = [] then (w, writeError cx 400 ''missing Idempotency-Key header'')
              else case body of
                None \<Rightarrow> (w, writeError cx 400 ''invalid request body'')
              | Some nm \<Rightarrow>
                  (case prov w (accountFromContext cx) nm idemKey of
                     (w, Inl e) \<Rightarrow> (w, writeDomainError cx e)
                   | (w, Inr (t, ref)) \<Rightarrow>
                       (w, respond cx 201 (ClientView (tn_id t) (tn_accountID t) (tn_name t) ref
                          (if ref \<noteq> [] then ''/webhooks/c6/'' @ ref else []))))))"

definition loginErrorMessage :: "go_error \<Rightarrow> string" where
  "loginErrorMessage err =
     (if errors_Is err ErrConsoleAuthUnavailable then ''login indispon'' @ [CHR 0xC3, CHR 0xAD] @ ''vel''
      else ''credenciais inv'' @ [CHR 0xC3, CHR 0xA1] @ ''lidas'')"

definition setSessionCookie :: "bool \<Rightarrow> string \<Rightarrow> http_ctx \<Rightarrow> http_ctx" where
  "setSessionCookie secure sid cx = set_cookie sessionCookieName sid sessionCookiePath secure False cx"

definition clearSessionCookie :: "bool \<Rightarrow> http_ctx \<Rightarrow> http_ctx" where
  "clearSessionCookie secure cx = set_cookie sessionCookieName [] sessionCookiePath secure True cx"

text \<open>The service behind the console sign-in as the handlers see it: \<open>Login\<close>, \<open>Logout\<close> and \<open>Authenticate\<close>.\<close>

record 'w console_door =
  cd_Login :: "'w \<Rightarrow> string \<Rightarrow> string \<Rightarrow> string \<Rightarrow> 'w \<times> string result"
  cd_Logout :: "'w \<Rightarrow> string \<Rightarrow> 'w \<times> unit result"
  cd_Authenticate :: "'w \<Rightarrow> string \<Rightarrow> 'w \<times> string option"

definition consoleLogin :: "'w console_door option \<Rightarrow> bool \<Rightarrow> http_request \<Rightarrow> http_ctx \<Rightarrow> 'w \<Rightarrow> 'w \<times> http_response" where
  "consoleLogin door secure rq cx w =
     (case door of
        None \<Rightarrow> (w, respond cx 503 (Page ''login'' (''login indispon'' @ [CHR 0xC3, CHR 0xAD] @ ''vel'')))
      | Some d \<Rightarrow>
          (case cd_Login d w (TrimSpace (value_of (rq_Form rq) ''username'')) (value_of (rq_Form rq) ''password'')
                  (TrimSpace (value_of (rq_Form rq) ''totp'')) of
             (w, Inl e) \<Rightarrow> (w, respond cx 401 (Page ''login'' (loginErrorMessage e)))
           | (w, Inr sid) \<Rightarrow> (w, respond (setSessionCookie secure sid cx) 303 (Location ''/console''))))"

definition consoleLogout :: "'w console_door option \<Rightarrow> bool \<Rightarrow> http_request \<Rightarrow> http_ctx \<Rightarrow> 'w \<Rightarrow> 'w \<times> http_response" where
  "consoleLogout door secure rq cx w =
     (let sid = cookie rq sessionCookieName;
          w' = (case door of None \<Rightarrow> w | Some d \<Rightarrow> if sid = [] then w else fst (cd_Logout d w sid))
      in (w', respond (clearSessionCookie secure cx) 303 (Location ''/console/login'')))"

definition consoleAuthenticated :: "'w console_door option \<Rightarrow> http_request \<Rightarrow> 'w \<Rightarrow> 'w \<times> bool" where
  "consoleAuthenticated door rq w =
     (case door of
        None \<Rightarrow> (w, False)
      | Some d \<Rightarrow>
          if cookie rq sessionCookieName = [] then (w, False)
          else case cd_Authenticate d w (cookie rq sessionCookieName) of (w, r) \<Rightarrow> (w, r \<noteq> None))"

definition consoleLoginForm :: "'w console_door option \<Rightarrow> http_request \<Rightarrow> http_ctx \<Rightarrow> 'w \<Rightarrow> 'w \<times> http_response" where
  "consoleLoginForm door rq cx w =
     (case consoleAuthenticated door rq w of
        (w, inside) \<Rightarrow> (w, if inside then respond cx 303 (Location ''/console'') else respond cx 200 (Page ''login'' [])))"

definition bootstrapError :: "go_error \<Rightarrow> nat \<times> string" where
  "bootstrapError err =
     (if errors_Is err ErrBootstrapLocked
      then (409, ''Credencial j'' @ [CHR 0xC3, CHR 0xA1] @ '' provisionada. O bootstrap '' @ [CHR 0xC3, CHR 0xA9] @ '' de uso '' @ [CHR 0xC3, CHR 0xBA] @ ''nico.'')
      else if errors_Is err ErrBootstrapForbidden \<or> errors_Is err ErrBootstrapDisabled
      then (403, ''Token de bootstrap inv'' @ [CHR 0xC3, CHR 0xA1] @ ''lido.'')
      else (500, ''N'' @ [CHR 0xC3, CHR 0xA3] @ ''o foi poss'' @ [CHR 0xC3, CHR 0xAD] @ ''vel provisionar a credencial.''))"

section \<open>What the guards rely on\<close>

text \<open>
  What a request with a key of account \<open>a\<close> may depend on: the keys, the limiters, which tenants belong to \<open>a\<close>,
  and the banks of those.
\<close>

definition alike ::
  "('w \<Rightarrow> string \<Rightarrow> string) \<Rightarrow> ('w \<Rightarrow> string \<Rightarrow> string option) \<Rightarrow> ('w \<Rightarrow> string \<Rightarrow> string \<Rightarrow> bool) \<Rightarrow> ('w \<Rightarrow> 'l) \<Rightarrow>
     string \<Rightarrow> 'w \<Rightarrow> 'w \<Rightarrow> bool" where
  "alike own acct has lim a w1 w2 \<longleftrightarrow> acct w1 = acct w2 \<and> lim w1 = lim w2 \<and>
     (\<forall>t. (own w1 t = a) = (own w2 t = a)) \<and> (\<forall>t. own w1 t = a \<longrightarrow> has w1 t = has w2 t)"

definition lockstep ::
  "('w \<Rightarrow> 'w \<Rightarrow> http_ctx \<Rightarrow> bool) \<Rightarrow> ('w \<Rightarrow> 'w \<Rightarrow> http_ctx \<Rightarrow> bool) \<Rightarrow> http_request \<Rightarrow> 'w http_gate \<Rightarrow> bool" where
  "lockstep R S rq g \<longleftrightarrow> (\<forall>w1 w2 cx. R w1 w2 cx \<longrightarrow> snd (g rq cx w1) = snd (g rq cx w2) \<and>
     (\<forall>cx'. snd (g rq cx w1) = Inr cx' \<longrightarrow> S (fst (g rq cx w1)) (fst (g rq cx w2)) cx'))"

lemma lockstep_Nil: "lockstep R R rq (run_gates [])"
  by (simp add: lockstep_def)

lemma lockstep_Cons:
  assumes "lockstep R S rq g" "lockstep S T rq (run_gates gs)"
  shows "lockstep R T rq (run_gates (g # gs))"
  unfolding lockstep_def
proof (intro allI impI)
  fix w1 w2 cx assume r: "R w1 w2 cx"
  obtain w1' w2' x where g: "g rq cx w1 = (w1', x)" "g rq cx w2 = (w2', x)"
    using assms(1) r by (metis lockstep_def prod.collapse)
  show "snd (run_gates (g # gs) rq cx w1) = snd (run_gates (g # gs) rq cx w2) \<and>
    (\<forall>cx'. snd (run_gates (g # gs) rq cx w1) = Inr cx' \<longrightarrow>
      T (fst (run_gates (g # gs) rq cx w1)) (fst (run_gates (g # gs) rq cx w2)) cx')"
  proof (cases x)
    case (Inr cx1)
    then have "S w1' w2' cx1" using assms(1) r g unfolding lockstep_def by force
    with assms(2) g Inr show ?thesis by (simp add: lockstep_def)
  qed (simp add: g)
qed

locale access_contract =
  fixes srv :: "'w http_server" and own :: "'w \<Rightarrow> string \<Rightarrow> string" and acct :: "'w \<Rightarrow> string \<Rightarrow> string option"
    and has :: "'w \<Rightarrow> string \<Rightarrow> string \<Rightarrow> bool" and lim :: "'w \<Rightarrow> 'l"
  assumes resolver: "resolveOwner w t [sv_accountResolver srv] = own w t"
    and keyring: "sv_accountKeyAuth srv = Some ka \<Longrightarrow> ka w s = acct w s"
    and banks: "sv_bankResolver srv = Some b \<Longrightarrow> configured b w t i = has w t i"
    and limits: "own (fst (sv_limiter srv n k w)) = own w" "acct (fst (sv_limiter srv n k w)) = acct w"
      "has (fst (sv_limiter srv n k w)) = has w"
    and limited: "lim w1 = lim w2 \<Longrightarrow> snd (sv_limiter srv n k w1) = snd (sv_limiter srv n k w2) \<and>
      lim (fst (sv_limiter srv n k w1)) = lim (fst (sv_limiter srv n k w2))"
begin

lemma alike_limiter: "alike own acct has lim a w1 w2 \<Longrightarrow>
    alike own acct has lim a (fst (sv_limiter srv n k w1)) (fst (sv_limiter srv n k w2)) \<and>
    snd (sv_limiter srv n k w1) = snd (sv_limiter srv n k w2)"
  using limited [of w1 w2 n k] unfolding alike_def limits by blast

lemma lockstep_limits:
  fixes a n
  defines "S \<equiv> \<lambda>w1 w2 cx. alike own acct has lim a w1 w2 \<and> own w1 (tenantFromContext cx) = a"
  shows "lockstep S S rq (limit_middleware (sv_limiter srv n) keyFn)"
    and "lockstep S S rq (dedicated_limit (sv_limiter srv n) bucket who ra)"
  using alike_limiter
  by (auto simp: S_def lockstep_def limit_middleware_def dedicated_limit_def limits split_beta)

lemma lockstep_bank:
  fixes a
  defines "S \<equiv> \<lambda>w1 w2 cx. alike own acct has lim a w1 w2 \<and> own w1 (tenantFromContext cx) = a"
  assumes b: "sv_bankResolver srv = Some b"
  shows "lockstep S S rq (bankRouteMiddleware b)"
proof -
  have "ResolveBank b w1 t i = ResolveBank b w2 t i" if "alike own acct has lim a w1 w2" "own w1 t = a" for w1 w2 t i
  proof -
    have "configured b w1 t = configured b w2 t" using that banks [OF b] by (auto simp: alike_def fun_eq_iff)
    then show ?thesis by (simp add: ResolveBank_def defaultBank_def split: option.split)
  qed
  then show ?thesis
    by (auto simp: S_def lockstep_def bankRouteMiddleware_def WithBankID_def tenantFromContext_def split: sum.splits)
qed

lemma lockstep_tenant:
  assumes "model_b srv = Some k" "HasSecretShape (bearerToken rq)"
  shows "lockstep (\<lambda>w1 w2 cx. alike own acct has lim a w1 w2 \<and> acct w1 (bearerToken rq) = Some a)
    (\<lambda>w1 w2 cx. alike own acct has lim a w1 w2 \<and> own w1 (tenantFromContext cx) = a) rq (tenant_gate srv)"
proof -
  let ?sel = "selector_of rq"
  have k: "k w s = acct w s" for w s using assms(1) keyring by (auto simp: model_b_def split: if_splits)
  have gate: "tenant_gate srv rq cx w = (w, if ?sel = [] then Inl (writeError cx 400 ''client selector required'')
      else if own w ?sel = [] \<or> own w ?sel \<noteq> a then Inl (writeError cx 404 ''not found'')
      else Inr (cx\<lparr>hx_tenantID := Some ?sel, hx_accountID := Some a\<rparr>))" if "acct w (bearerToken rq) = Some a" for w cx
    using that by (simp add: tenant_gate_def assms k tenantAuthMiddlewareWithSelector_def guard_active_def resolver selector_of_def Let_def)
  show ?thesis
    unfolding lockstep_def
  proof (intro allI impI)
    fix w1 w2 cx assume r: "alike own acct has lim a w1 w2 \<and> acct w1 (bearerToken rq) = Some a"
    then have "acct w2 (bearerToken rq) = Some a" "own w1 ?sel = a \<longleftrightarrow> own w2 ?sel = a" by (auto simp: alike_def)
    with r show "snd (tenant_gate srv rq cx w1) = snd (tenant_gate srv rq cx w2) \<and>
        (\<forall>cx'. snd (tenant_gate srv rq cx w1) = Inr cx' \<longrightarrow>
          alike own acct has lim a (fst (tenant_gate srv rq cx w1)) (fst (tenant_gate srv rq cx w2)) \<and>
          own (fst (tenant_gate srv rq cx w1)) (tenantFromContext cx') = a)"
      by (auto simp: gate tenantFromContext_def from_context_def)
  qed
qed

text \<open>The answer to a key of an account does not depend on anything of other accounts.\<close>

lemma account_isolated:
  assumes "rt \<in> set (tenant_routes srv)" "account_identity srv w1 rq = Some a" "alike own acct has lim a w1 w2"
  shows "snd (run_gates (rt_Gates rt) rq cx w1) = snd (run_gates (rt_Gates rt) rq cx w2)"
proof -
  let ?R = "\<lambda>w1 w2 cx. alike own acct has lim a w1 w2 \<and> acct w1 (bearerToken rq) = Some a"
  let ?S = "\<lambda>w1 w2 cx. alike own acct has lim a w1 w2 \<and> own w1 (tenantFromContext cx) = a"
  obtain k where k: "model_b srv = Some k" "HasSecretShape (bearerToken rq)" "k w1 (bearerToken rq) = Some a"
    using assms(2) by (auto simp: account_identity_def split: option.splits if_splits)
  then have auth: "acct w1 (bearerToken rq) = Some a" using keyring by (auto simp: model_b_def split: if_splits)
  obtain gs where g: "rt_Gates rt = tenant_gates srv @ gs"
    and gs: "gs = [] \<or> (\<exists>n bucket. gs = [dedicated_limit (sv_limiter srv n) bucket tenantFromContext ''60''])"
    using assms(1) by (auto simp: tenant_routes_def set_under dedicated_defs split: if_splits)
  have "lockstep ?S ?S rq (run_gates gs)" using gs by (auto intro: lockstep_Nil lockstep_Cons lockstep_limits)
  then have "lockstep ?R ?S rq (run_gates (tenant_gates srv @ gs))"
    unfolding tenant_gates_def
    by (cases "sv_bankResolver srv") (auto intro!: lockstep_Cons [OF lockstep_tenant [OF k(1,2)]] intro: lockstep_Cons lockstep_limits lockstep_bank)
  with assms(3) auth show ?thesis unfolding g lockstep_def by blast
qed

end

section \<open>The server over the stores in memory\<close>

record http_world =
  hw_provision :: "(console_world, ref_store) provision_world"
  hw_keys :: key_store
  hw_auth :: "mem_auth auth_state"
  hw_tick :: nat

record http_env =
  he_console :: console_env
  he_sha :: "string \<Rightarrow> string"
  he_tokens :: "http_world static_auth"
  he_auth :: "mem_auth auth_service"
  he_now :: "nat \<Rightarrow> gotime"
  he_rand :: "nat \<Rightarrow> nat \<Rightarrow> string result"
  he_allow :: "string \<Rightarrow> string \<Rightarrow> nat \<Rightarrow> bool"
  he_minter :: "ref_store \<Rightarrow> string \<Rightarrow> ref_store \<times> string result"
  he_wired :: "string list"
  he_selector :: bool
  he_recurrence :: bool
  he_selfServe :: bool
  he_webhook :: bool
  he_secure :: bool

abbreviation hw_store :: "http_world \<Rightarrow> store" where "hw_store w \<equiv> kw_store (pw_world (hw_provision w))"
abbreviation hw_vault :: "http_world \<Rightarrow> vault" where "hw_vault w \<equiv> kw_vault (pw_world (hw_provision w))"

definition door :: "http_env \<Rightarrow> http_world console_door" where
  "door env =
     \<lparr>cd_Login = (\<lambda>w u p c. case Login (he_auth env) (he_now env (hw_tick w)) (he_rand env (hw_tick w)) (hw_auth w) u p c of
        (st, r) \<Rightarrow> (w\<lparr>hw_auth := st, hw_tick := Suc (hw_tick w)\<rparr>, r)),
      cd_Logout = (\<lambda>w i. case Logout (he_auth env) (hw_auth w) i of (st, r) \<Rightarrow> (w\<lparr>hw_auth := st\<rparr>, r)),
      cd_Authenticate = (\<lambda>w i. case Authenticate (he_auth env) (he_now env (hw_tick w)) (hw_auth w) i of
        (st, r) \<Rightarrow> (w\<lparr>hw_auth := st, hw_tick := Suc (hw_tick w)\<rparr>, r))\<rparr>"

definition memory_server :: "http_env \<Rightarrow> http_world http_server" where
  "memory_server env =
     \<lparr>sv_sha = he_sha env, sv_tenantAuth = AuthenticateTenantPrincipal (he_tokens env),
      sv_adminAuth = AuthenticateAdminPrincipal (he_sha env) (he_tokens env),
      sv_accountResolver = Some (StoreResolveAccountID (Some (\<lambda>w t. findTenantByID (hw_store w) t))),
      sv_accountKeyAuth = Some (\<lambda>w s. AuthenticateAccountKey (he_sha env) (hw_keys w) s),
      sv_accountKeySelector = he_selector env,
      sv_bankResolver = Some (NewBankResolver (he_wired env) (\<lambda>w t b. GetBankCredential (hw_vault w) t b)),
      sv_consoleAuth = Some (cd_Authenticate (door env)), sv_secureCookies = he_secure env,
      sv_pixRecurrence = he_recurrence env, sv_selfServeCredIntake = he_selfServe env, sv_accountOutboundWebhook = he_webhook env,
      sv_limiter = (\<lambda>n k w. (w\<lparr>hw_tick := Suc (hw_tick w)\<rparr>, he_allow env n k (hw_tick w))),
      sv_rand = (\<lambda>w. (w\<lparr>hw_tick := Suc (hw_tick w)\<rparr>, he_rand env (hw_tick w)))\<rparr>"

definition memory_provisioner ::
  "http_env \<Rightarrow> http_world \<Rightarrow> string \<Rightarrow> string \<Rightarrow> string \<Rightarrow> http_world \<times> (tenant \<times> string) result" where
  "memory_provisioner env w a nm k =
     (case ProvisionClientWithWebhook (Some (memory_console (he_console env))) (Some (he_minter env)) a nm k (hw_provision w) of
        (s, r) \<Rightarrow> (w\<lparr>hw_provision := s\<rparr>, r))"

text \<open>The account a tenant is stored under; the empty string when there is none.\<close>

definition owner_in :: "store \<Rightarrow> string \<Rightarrow> string" where
  "owner_in s t = (case map_of (st_tenants s) (TrimSpace t) of
     None \<Rightarrow> [] | Some x \<Rightarrow> if TrimSpace t = [] then [] else tn_accountID x)"

definition bank_of :: "vault \<Rightarrow> string \<Rightarrow> string \<Rightarrow> bool" where
  "bank_of m t b \<longleftrightarrow> map_of m (credKey t b) \<noteq> None"

interpretation gatekeeper: access_contract "memory_server env" "\<lambda>w. owner_in (hw_store w)"
  "\<lambda>w. AuthenticateAccountKey (he_sha env) (hw_keys w)" "\<lambda>w. bank_of (hw_vault w)" hw_tick for env
  by unfold_locales
    (auto simp: memory_server_def StoreResolveAccountID_def findTenantByID_def lookup_def owner_in_def Let_def configured_def NewBankResolver_def
      GetBankCredential_def bank_of_def split: option.splits)

lemma memory_model_b: "model_b (memory_server env) =
    (if he_selector env then Some (\<lambda>w. AuthenticateAccountKey (he_sha env) (hw_keys w)) else None)"
  by (simp add: model_b_def memory_server_def)

section \<open>Claims\<close>

text \<open>
  C21: an account key reveals nothing of other accounts. Take two states of the system with the same keys and
  the same limiter state that agree on which tenants belong to the account of a presented key and on the banks
  of those tenants, and differ in whatever else: other accounts' tenants, their names and credentials, tenants
  of no account. On every tenant route, for every selector and bank header, the guards answer the request in the
  same way and hand the same context to the handler. So a selector of somebody else's tenant is answered like
  one of a tenant that does not exist.
\<close>

theorem account_key_isolated:
  assumes "rt \<in> set (tenant_routes (memory_server env))" and "he_selector env" and "HasSecretShape (bearerToken rq)"
    and "AuthenticateAccountKey (he_sha env) (hw_keys w1) (bearerToken rq) = Some a"
    and "hw_keys w2 = hw_keys w1" and "hw_tick w2 = hw_tick w1"
    and "\<forall>t. owner_in (hw_store w1) t = a \<longleftrightarrow> owner_in (hw_store w2) t = a"
    and "\<forall>t b. owner_in (hw_store w1) t = a \<longrightarrow> bank_of (hw_vault w1) t b = bank_of (hw_vault w2) t b"
  shows "snd (run_gates (rt_Gates rt) rq cx w1) = snd (run_gates (rt_Gates rt) rq cx w2)"
proof (rule gatekeeper.account_isolated [OF assms(1)])
  show "account_identity (memory_server env) w1 rq = Some a" using assms(2-4) by (simp add: account_identity_def memory_model_b)
  show "alike (\<lambda>w. owner_in (hw_store w)) (\<lambda>w. AuthenticateAccountKey (he_sha env) (hw_keys w)) (\<lambda>w. bank_of (hw_vault w)) hw_tick a w1 w2"
    using assms(5-8) by (auto simp: alike_def fun_eq_iff)
qed

lemma tenant_gate_key:
  assumes "he_selector env" "HasSecretShape (bearerToken rq)" "AuthenticateAccountKey (he_sha env) (hw_keys w) (bearerToken rq) = Some b"
    and "selector_of rq \<noteq> []" "owner_in (hw_store w) (selector_of rq) = a" "a \<noteq> []"
  shows "tenant_gate (memory_server env) rq cx w = (w, if b = a then Inr (cx\<lparr>hx_tenantID := Some (selector_of rq), hx_accountID := Some a\<rparr>)
    else Inl (writeError cx 404 ''not found''))"
proof -
  have "sv_accountResolver (memory_server env) = Some (StoreResolveAccountID (Some (\<lambda>w t. findTenantByID (hw_store w) t)))"
    by (simp add: memory_server_def)
  with assms gatekeeper.resolver [where env = env and w = w and t = "selector_of rq"] show ?thesis
    by (auto simp: tenant_gate_def memory_model_b tenantAuthMiddlewareWithSelector_def guard_active_def selector_of_def Let_def)
qed

lemma provision_created:
  assumes "provision (Some (memory_console cenv)) minter acct nm k hook s = (s', Inr (t, ref))"
    and "TrimSpace acct @ [CHR 0x00] @ TrimSpace k \<notin> fst ` set (pw_guard s)"
  shows "map_of (pw_tenants s') (tn_id t) = Some t \<and> tn_accountID t = TrimSpace acct \<and> TrimSpace acct \<noteq> [] \<and>
    TrimSpace (tn_id t) = tn_id t \<and> tn_id t \<noteq> []"
proof -
  let ?c = "\<lparr>pc_account = acct, pc_name = nm, pc_key = k, pc_webhook = hook\<rparr>"
  have p: "provision_by cenv minter ?c s = (s', Inr (t, ref))" using assms(1) by (simp add: provision_by_def)
  have g: "guard_key ?c \<notin> fst ` set (pw_guard s)" using assms(2) by (simp add: guard_key_def)
  have "TrimSpace (tn_id t) = tn_id t \<and> tn_id t \<noteq> []"
    using p prune_absent [OF g] by (auto simp: provision_unfold bindE_Inr_iff NewTenant_def AssignAccount_def
        split: if_splits option.splits sum.splits prod.splits)
  with provision_first [OF p g] provision_needs [OF p] show ?thesis by simp
qed

text \<open>
  C22: a client company belongs to the account that created it, through to the guards. When an account creates a
  client over the API under a new idempotency key and is answered with its id, the answer names the calling
  account; from then on a request that presents an account key and selects that id is let in as that client
  exactly when the key is one of the same account, and answered with 404 otherwise.
\<close>

theorem provisioned_client_scoped:
  assumes "he_selector env" and "HasSecretShape (bearerToken rq)"
    and "accountKeyAuthMiddleware (\<lambda>w. AuthenticateAccountKey (he_sha env) (hw_keys w)) rq empty_ctx w = (w1, Inr cx)"
    and "handleProvisionClient (Some (memory_provisioner env)) body rq cx w1 = (w2, respond cx 201 (ClientView t a nm ref path))"
    and "TrimSpace (accountFromContext cx) @ [CHR 0x00] @ TrimSpace (value_of (rq_Header rq) ''Idempotency-Key'') \<notin>
      fst ` set (pw_guard (hw_provision w1))"
    and "HasSecretShape (bearerToken rq')" and "AuthenticateAccountKey (he_sha env) (hw_keys w2) (bearerToken rq') = Some b"
    and "selector_of rq' = t"
  shows "a = TrimSpace (accountFromContext cx) \<and> tenant_gate (memory_server env) rq' empty_ctx w2 =
    (w2, if b = a then Inr (empty_ctx\<lparr>hx_tenantID := Some t, hx_accountID := Some a\<rparr>) else Inl (writeError empty_ctx 404 ''not found''))"
proof -
  have ne: "writeError c st e \<noteq> respond c' st' (ClientView x1 x2 x3 x4 x5)" "writeDomainError c er \<noteq> respond c' st' (ClientView x1 x2 x3 x4 x5)"
    for c c' st st' e er x1 x2 x3 x4 x5
    by (auto simp: writeDomainError_def writeError_def respond_def)
  have eq: "respond c st y = respond c st z \<longleftrightarrow> y = z" for c st y z by (simp add: respond_def)
  from assms(4) obtain nm' x where p: "provision (Some (memory_console (he_console env))) (Some (he_minter env)) (accountFromContext cx) nm'
      (TrimSpace (value_of (rq_Header rq) ''Idempotency-Key'')) True (hw_provision w1) = (hw_provision w2, Inr (x, ref))"
    and x: "t = tn_id x" "a = tn_accountID x"
    by (auto simp: handleProvisionClient_def memory_provisioner_def ProvisionClientWithWebhook_def Let_def ne eq
        split: if_splits option.splits prod.splits sum.splits)
  note c = provision_created [OF p]
  have "owner_in (hw_store w2) t = a" "a \<noteq> []" "t \<noteq> []" "a = TrimSpace (accountFromContext cx)"
    using c assms(5) x by (simp_all add: owner_in_def)
  with tenant_gate_key [OF assms(1,6,7)] assms(8) show ?thesis by simp
qed

text \<open>
  The banks of a tenant, without the resolver: the wired ones it holds a credential for. A selector stands for
  the bank it names if that is one of them; a blank one stands for the only bank of the tenant, and for the
  default bank when the tenant has none or several.
\<close>

definition own_bank :: "http_env \<Rightarrow> http_world \<Rightarrow> string \<Rightarrow> string \<Rightarrow> bool" where
  "own_bank env w t i \<longleftrightarrow> (\<exists>x \<in> set (he_wired env). CanonicalBankID x = Some i) \<and> bank_of (hw_vault w) t i"

definition routed :: "http_env \<Rightarrow> http_world \<Rightarrow> string \<Rightarrow> string \<Rightarrow> string \<Rightarrow> bool" where
  "routed env w t sel i \<longleftrightarrow>
     (if TrimSpace sel \<noteq> [] then CanonicalBankID sel = Some i \<and> own_bank env w t i
      else if \<exists>!j. own_bank env w t j then own_bank env w t i
      else i = BankIDC6)"

text \<open>The bank of a request that arrived at its handler for bank \<open>i\<close> and carries the field \<open>body\<close>.\<close>

definition selected :: "http_env \<Rightarrow> http_world \<Rightarrow> string \<Rightarrow> string \<Rightarrow> string \<Rightarrow> string \<Rightarrow> bool" where
  "selected env w t i body j \<longleftrightarrow> (if TrimSpace body = [] then j = i else routed env w t body j)"

abbreviation memory_resolver :: "http_env \<Rightarrow> http_world bank_resolver" where
  "memory_resolver env \<equiv> NewBankResolver (he_wired env) (\<lambda>w t b. GetBankCredential (hw_vault w) t b)"

lemma memory_resolver: "sv_bankResolver (memory_server env) = Some (memory_resolver env)"
  by (simp add: memory_server_def)

lemma own_bank_found:
  "i \<in> set (filter (configured (memory_resolver env) w t) (br_wired (memory_resolver env))) \<longleftrightarrow> own_bank env w t i"
proof -
  have "configured (memory_resolver env) w t i \<longleftrightarrow> bank_of (hw_vault w) t i" by (rule gatekeeper.banks [OF memory_resolver])
  moreover have "i \<in> set (br_wired (memory_resolver env)) \<longleftrightarrow> (\<exists>x \<in> set (he_wired env). CanonicalBankID x = Some i)"
    by (force simp: NewBankResolver_def List.map_filter_def)
  ultimately show ?thesis by (auto simp: own_bank_def)
qed

lemma one_distinct: "distinct xs \<Longrightarrow> length xs = 1 \<longleftrightarrow> (\<exists>!x. x \<in> set xs)"
  by (cases xs rule: remdups_adj.cases) auto

lemma defaultBank_routed:
  "defaultBank (memory_resolver env) w t = i \<longleftrightarrow> (if \<exists>!j. own_bank env w t j then own_bank env w t i else i = BankIDC6)"
proof -
  let ?f = "filter (configured (memory_resolver env) w t) (br_wired (memory_resolver env))"
  have "distinct ?f" by (simp add: NewBankResolver_def)
  then have "length ?f = 1 \<longleftrightarrow> (\<exists>!j. own_bank env w t j)" by (simp only: one_distinct own_bank_found)
  moreover have "last ?f = i \<longleftrightarrow> own_bank env w t i" if "length ?f = 1"
    using that unfolding own_bank_found [symmetric] by (cases ?f) auto
  ultimately show ?thesis unfolding defaultBank_def Let_def by auto
qed

lemma resolved_routed: "ResolveBank (memory_resolver env) w t sel = Inr i \<longleftrightarrow> routed env w t sel i"
  using own_bank_found [of _ env w t] defaultBank_routed [of env w t i]
  by (auto simp: ResolveBank_def routed_def split: option.splits)

lemma resolve_error: "ResolveBank b w t sel = Inl e \<Longrightarrow> e = ErrNotFound"
  by (auto simp: ResolveBank_def split: option.splits if_splits)

lemma rebound:
  assumes "hx_tenantID cx = Some t" and "hx_bankID cx = Some i"
  shows "rebindBank (Some (memory_resolver env)) w cx body = Inr cx' \<longleftrightarrow> (\<exists>j. selected env w t i body j \<and> cx' = cx\<lparr>hx_bankID := Some j\<rparr>)"
    and "rebindBank (Some (memory_resolver env)) w cx body = Inl r \<longleftrightarrow> r = writeError cx 404 ''not found'' \<and> (\<forall>j. \<not> selected env w t i body j)"
proof -
  have t: "tenantFromContext cx = t" by (simp add: tenantFromContext_def from_context_def assms(1))
  have same: "cx\<lparr>hx_bankID := Some i\<rparr> = cx" using assms(2) by simp
  have e: "writeDomainError cx ErrNotFound = writeError cx 404 ''not found''" by (simp add: writeDomainError_def)
  show "rebindBank (Some (memory_resolver env)) w cx body = Inr cx' \<longleftrightarrow> (\<exists>j. selected env w t i body j \<and> cx' = cx\<lparr>hx_bankID := Some j\<rparr>)"
    using same by (auto simp: rebindBank_def selected_def t WithBankID_def resolved_routed [symmetric] split: sum.splits)
  show "rebindBank (Some (memory_resolver env)) w cx body = Inl r \<longleftrightarrow> r = writeError cx 404 ''not found'' \<and> (\<forall>j. \<not> selected env w t i body j)"
    using resolved_routed [of env w t body] resolve_error [of "memory_resolver env" w t body]
    by (auto simp: rebindBank_def selected_def t e split: sum.splits)
qed

lemma domain_error_status: "rp_status (writeDomainError cx e) \<noteq> 201"
  by (simp add: writeDomainError_def writeError_def respond_def)

lemma created_charge:
  assumes "hx_tenantID cx = Some t" and "hx_bankID cx = Some i"
    and "handleCreateCharge (Some (memory_resolver env)) charges body rq cx w = (w', r)"
  shows "w' = w \<and> rp_status r \<in> {400, 404} \<or>
    (\<exists>req j inp res. body = Some req \<and> selected env w t i (qc_Bank req) j \<and> ci_TenantID inp = t \<and> ci_AmountCents inp = qc_AmountCents req \<and>
       charges (cx\<lparr>hx_bankID := Some j\<rparr>) w inp = (w', res) \<and> (rp_status r = 201 \<longleftrightarrow> (\<exists>p. res = Inr p)))"
proof (cases body)
  case None
  with assms(3) show ?thesis by (auto simp: handleCreateCharge_def Let_def writeError_def respond_def split: if_splits)
next
  case (Some req)
  let ?inp = "\<lambda>cx. \<lparr>ci_TenantID = t, ci_AccountID = accountFromContext cx, ci_Endpoint = qc_Endpoint req, ci_AmountCents = qc_AmountCents req,
    ci_Currency = qc_Currency req, ci_IdempotencyKey = TrimSpace (value_of (rq_Header rq) ''Idempotency-Key'')\<rparr>"
  have t: "tenantFromContext cx = t" by (simp add: tenantFromContext_def from_context_def assms(1))
  show ?thesis
  proof (cases "rebindBank (Some (memory_resolver env)) w cx (qc_Bank req)")
    case (Inl e)
    moreover from this have "rp_status e = 404" by (simp add: rebound [OF assms(1,2)] writeError_def respond_def)
    ultimately show ?thesis using assms(3) Some by (auto simp: handleCreateCharge_def Let_def writeError_def respond_def split: if_splits)
  next
    case (Inr c)
    then obtain j where j: "selected env w t i (qc_Bank req) j" "c = cx\<lparr>hx_bankID := Some j\<rparr>" by (auto simp: rebound [OF assms(1,2)])
    obtain w1 res where run: "charges c w (?inp c) = (w1, res)" by (cases "charges c w (?inp c)")
    have "w' = w \<and> rp_status r = 400 \<or> w' = w1 \<and> (rp_status r = 201 \<longleftrightarrow> (\<exists>p. res = Inr p))"
      using assms(3) Some Inr run domain_error_status
      by (cases res) (auto simp: handleCreateCharge_def Let_def t writeError_def respond_def split: if_splits)
    moreover have "ci_TenantID (?inp c) = t" "ci_AmountCents (?inp c) = qc_AmountCents req" by simp_all
    ultimately show ?thesis using Some j run by blast
  qed
qed

text \<open>
  C23: a request is served by the bank it selects, one of the tenant's own. On every tenant route that reaches
  its handler the context holds the tenant and the bank its \<open>X-Bank-Id\<close> header stands for: the named bank, wired
  and with a credential of this tenant, or, when the header is blank, the tenant's only bank, and the default
  bank when it has none or several. The field \<open>bank\<close> of a body, read in whatever state the handler finds,
  overrides this in the same way: a blank one changes nothing, any other one binds exactly the bank it stands
  for, and where it stands for none the answer is the uniform 404. The handler of \<open>POST /v1/charges\<close>, over any
  charge service, either answers 400 or 404 and changes nothing, or runs the service once, for the tenant of
  the context and with the bank so selected.
\<close>

theorem routed_bank_is_own:
  assumes "rt \<in> set (tenant_routes (memory_server env))" and "run_gates (rt_Gates rt) rq cx w = (w', Inr cx')"
  shows "\<exists>t i. hx_tenantID cx' = Some t \<and> hx_bankID cx' = Some i \<and> routed env w t (value_of (rq_Header rq) ''X-Bank-Id'') i \<and>
    (\<forall>w2 bank. (\<exists>j. selected env w2 t i bank j \<and> rebindBank (sv_bankResolver (memory_server env)) w2 cx' bank = Inr (cx'\<lparr>hx_bankID := Some j\<rparr>)) \<or>
      (\<forall>j. \<not> selected env w2 t i bank j) \<and>
        rebindBank (sv_bankResolver (memory_server env)) w2 cx' bank = Inl (writeError cx' 404 ''not found'')) \<and>
    (\<forall>charges body w2 w3 r. handleCreateCharge (sv_bankResolver (memory_server env)) charges body rq cx' w2 = (w3, r) \<longrightarrow>
      w3 = w2 \<and> rp_status r \<in> {400, 404} \<or>
      (\<exists>req j inp res. body = Some req \<and> selected env w2 t i (qc_Bank req) j \<and> ci_TenantID inp = t \<and> ci_AmountCents inp = qc_AmountCents req \<and>
         charges (cx'\<lparr>hx_bankID := Some j\<rparr>) w2 inp = (w3, res) \<and> (rp_status r = 201 \<longleftrightarrow> (\<exists>p. res = Inr p))))"
proof -
  obtain t i where c: "hx_tenantID cx' = Some t" "hx_bankID cx' = Some i"
    and r: "ResolveBank (memory_resolver env) w t (value_of (rq_Header rq) ''X-Bank-Id'') = Inr i"
    using tenant_route_prefix [OF assms] unfolding tenant_gates_def run_gates_append_Inr run_gates_Cons_Inr tenantAuth_Inr
    by (auto simp: memory_resolver run_gates_Cons_Inr bankRoute_Inr tenantFromContext_def from_context_def simp del: run_gates.simps(2))
  note rebind = rebound [OF c, of env]
  have b: "(\<exists>j. selected env w2 t i bank j \<and> rebindBank (Some (memory_resolver env)) w2 cx' bank = Inr (cx'\<lparr>hx_bankID := Some j\<rparr>)) \<or>
      (\<forall>j. \<not> selected env w2 t i bank j) \<and> rebindBank (Some (memory_resolver env)) w2 cx' bank = Inl (writeError cx' 404 ''not found'')" for w2 bank
    unfolding rebind by blast
  have h: "w3 = w2 \<and> rp_status r \<in> {400, 404} \<or>
      (\<exists>req j inp res. body = Some req \<and> selected env w2 t i (qc_Bank req) j \<and> ci_TenantID inp = t \<and> ci_AmountCents inp = qc_AmountCents req \<and>
         charges (cx'\<lparr>hx_bankID := Some j\<rparr>) w2 inp = (w3, res) \<and> (rp_status r = 201 \<longleftrightarrow> (\<exists>p. res = Inr p)))"
    if "handleCreateCharge (Some (memory_resolver env)) charges body rq cx' w2 = (w3, r)" for charges body w2 w3 r
    by (rule created_charge [OF c that])
  from c r b h show ?thesis unfolding resolved_routed memory_resolver by blast
qed

lemma session_id_nonempty: "raw_url_encode b = [] \<longleftrightarrow> b = []"
  using length_raw_url [of b] by (cases b) auto

lemma session_found:
  "snd (Authenticate (mem_service g idkey hmac) now st i) = Some u \<longleftrightarrow> i \<noteq> [] \<and>
     (\<exists>x. map_of (ma_sessions (at_store st)) i = Some x \<and> ValidSession x now (ag_IdleTTL (with_defaults g)) \<and> ss_subject x = u)"
  by (auto simp: Authenticate_def mem_sessions_def split: option.splits)

text \<open>
  C24: signing in opens the console and signing out closes it. When the sign-in form is accepted, the answer sets
  a session cookie; a request that carries this cookie and no admin token passes the console's guard as the
  operator who signed in, with the full role, for as long as the session is valid; once that cookie has been
  used to sign out, a request that carries it is turned away.
\<close>

theorem session_opens_console:
  assumes "he_auth env = mem_service g idkey hmac" and "he_rand env (hw_tick w) sessionIDBytes \<noteq> Inr []"
    and "consoleLogin (Some (door env)) sec rq cx w = (w1, r)" and "rp_status r = 303"
    and u: "u = TrimSpace (value_of (rq_Form rq) ''username'')"
  shows "\<exists>sid. rp_headers r = hx_headers (setSessionCookie sec sid cx) \<and>
    (\<forall>rq' cx' w2. bearerToken rq' = [] \<and> cookie rq' sessionCookieName = sid \<longrightarrow>
      (hw_auth w2 = hw_auth w1 \<and> ValidSession (NewConsoleSession sid u (he_now env (hw_tick w)) (ag_AbsoluteTTL (with_defaults g)))
           (he_now env (hw_tick w2)) (ag_IdleTTL (with_defaults g)) \<longrightarrow>
         snd (consoleAuthMiddleware (sv_adminAuth (memory_server env)) (sv_consoleAuth (memory_server env)) rq' cx' w2) =
           Inr (cx'\<lparr>hx_role := Some RoleAdmin, hx_operatorID := Some (''console:'' @ u)\<rparr>)) \<and>
      snd (consoleAuthMiddleware (sv_adminAuth (memory_server env)) (sv_consoleAuth (memory_server env)) rq' cx'
           (fst (consoleLogout (Some (door env)) sec rq' cx' w2))) = Inl (consoleAuthDeny rq' cx'))"
proof -
  from assms(1,3,4) obtain st sid where l: "Login (mem_service g idkey hmac) (he_now env (hw_tick w)) (he_rand env (hw_tick w)) (hw_auth w) u
      (value_of (rq_Form rq) ''password'') (TrimSpace (value_of (rq_Form rq) ''totp'')) = (st, Inr sid)"
    and w1: "hw_auth w1 = st" and hd: "rp_headers r = hx_headers (setSessionCookie sec sid cx)"
    unfolding u by (auto simp: consoleLogin_def door_def respond_def split: prod.splits sum.splits)
  from l obtain b where b: "he_rand env (hw_tick w) sessionIDBytes = Inr b" "sid = raw_url_encode b"
    and s: "map_of (ma_sessions (at_store st)) sid = Some (NewConsoleSession sid u (he_now env (hw_tick w)) (ag_AbsoluteTTL (with_defaults g)))"
    unfolding mem_login by (auto simp: mem_Create_def NewConsoleSession_def)
  have "b \<noteq> []" using b(1) assms(2) by auto
  then have ne: "sid \<noteq> []" by (simp add: b(2) session_id_nonempty)
  have sub: "ss_subject (NewConsoleSession i v t0 ttl) = v" for i v t0 ttl by (simp add: NewConsoleSession_def)
  have gate: "snd (consoleAuthMiddleware (sv_adminAuth (memory_server env)) (sv_consoleAuth (memory_server env)) rq' cx' w2) =
      (case snd (Authenticate (mem_service g idkey hmac) (he_now env (hw_tick w2)) (hw_auth w2) sid) of
         Some v \<Rightarrow> Inr (cx'\<lparr>hx_role := Some RoleAdmin, hx_operatorID := Some (''console:'' @ v)\<rparr>) | None \<Rightarrow> Inl (consoleAuthDeny rq' cx'))"
    if "bearerToken rq' = []" "cookie rq' sessionCookieName = sid" for rq' cx' w2
    using that ne by (auto simp: consoleAuthMiddleware_def memory_server_def door_def assms(1) WithOperatorID_def split: option.splits prod.splits)
  have out: "map_of (ma_sessions (at_store (hw_auth (fst (consoleLogout (Some (door env)) sec rq' cx' w2))))) sid = None"
    if "cookie rq' sessionCookieName = sid" for rq' cx' w2
    using that ne by (simp add: consoleLogout_def door_def Logout_def assms(1) mem_sessions_def mem_Delete_def Let_def)
  show ?thesis
  proof (rule exI [of _ sid], intro conjI allI impI, rule hd)
    fix rq' cx' w2 assume q: "bearerToken rq' = [] \<and> cookie rq' sessionCookieName = sid"
    show "snd (consoleAuthMiddleware (sv_adminAuth (memory_server env)) (sv_consoleAuth (memory_server env)) rq' cx' w2) =
        Inr (cx'\<lparr>hx_role := Some RoleAdmin, hx_operatorID := Some (''console:'' @ u)\<rparr>)"
      if "hw_auth w2 = hw_auth w1 \<and> ValidSession (NewConsoleSession sid u (he_now env (hw_tick w)) (ag_AbsoluteTTL (with_defaults g)))
           (he_now env (hw_tick w2)) (ag_IdleTTL (with_defaults g))"
      using that q gate ne s w1 sub session_found [of g idkey hmac "he_now env (hw_tick w2)" "hw_auth w2" sid u] by auto
    show "snd (consoleAuthMiddleware (sv_adminAuth (memory_server env)) (sv_consoleAuth (memory_server env)) rq' cx'
        (fst (consoleLogout (Some (door env)) sec rq' cx' w2))) = Inl (consoleAuthDeny rq' cx')"
      using q gate out session_found [of g idkey hmac _ "hw_auth (fst (consoleLogout (Some (door env)) sec rq' cx' w2))" sid]
      by (auto split: option.splits)
  qed
qed

section \<open>Witnesses\<close>

definition sample_http_env :: http_env where
  "sample_http_env =
     \<lparr>he_console = counted_env, he_sha = (\<lambda>x. x), he_tokens = NewStaticTokenAuth (\<lambda>x. x) [(''tok'', ''t1'')] [] [], he_auth = sample_svc,
      he_now = (\<lambda>n. sample_instant), he_rand = (\<lambda>i n. Inr (sample_rnd 3 n)), he_allow = (\<lambda>n k i. True),
      he_minter = (\<lambda>rs t. (rs, Inr ''r'')), he_wired = [''c6''], he_selector = True, he_recurrence = False, he_selfServe = True,
      he_webhook = False, he_secure = True\<rparr>"

definition sample_http_world :: http_world where
  "sample_http_world =
     \<lparr>hw_provision = \<lparr>pw_guard = [], pw_refs = [], pw_world = sample_console\<rparr>, hw_keys = sample_key_store,
      hw_auth = sample_provisioned, hw_tick = 0\<rparr>"

definition request_of :: "string \<Rightarrow> (string \<times> string) list \<Rightarrow> http_request" where
  "request_of token hs = \<lparr>rq_Method = ''POST'', rq_Header = (''Authorization'', ''Bearer '' @ token) # hs, rq_Cookies = [], rq_Form = [],
     rq_clientIP = [], rq_RemoteAddr = ''10.0.0.1:443''\<rparr>"

lemma request_trims [simp]: "TrimSpace ''ak_eA'' = ''ak_eA''" "TrimSpace ''tok'' = ''tok''" "TrimSpace ''a1'' = ''a1''" "TrimSpace ''t9'' = ''t9''"
  by (simp_all add: TrimSpace_plain plain_byte_def less_eq_char_def)

lemma request_bearer: "token \<noteq> [] \<Longrightarrow> bearerToken (request_of token hs) = TrimSpace token"
  by (simp add: bearerToken_def request_of_def value_of_def EqualFold_def ToLower_def lower_char_def less_eq_char_def Let_def)

lemma request_key: "bearerToken (request_of ''ak_eA'' hs) = ''ak_eA''" "bearerToken (request_of ''tok'' hs) = ''tok''"
  "HasSecretShape ''ak_eA''"
  by (simp_all add: request_bearer HasSecretShape_def ak_secretPrefix_def)

lemma request_selector: "selector_of (request_of token [(clientSelectorHeader, t)]) = TrimSpace t"
  by (simp add: selector_of_def request_of_def value_of_def clientSelectorHeader_def)

lemma sample_key_account: "AuthenticateAccountKey (\<lambda>x. x) sample_key_store ''ak_eA'' = Some ''a1''"
  by code_simp

lemma sample_http_simps [simp]:
  "he_sha sample_http_env = (\<lambda>x. x)" "he_selector sample_http_env" "hw_keys sample_http_world = sample_key_store"
  "he_console sample_http_env = counted_env" "he_wired sample_http_env = [''c6'']"
  by (simp_all add: sample_http_env_def sample_http_world_def)

definition charge_route :: "http_world route" where
  "charge_route = \<lparr>rt_Method = ''POST'', rt_Pattern = ''/v1/charges'', rt_Gates = tenant_gates (memory_server sample_http_env),
     rt_Handler = ''handleCreateCharge''\<rparr>"

lemma charge_route_in: "charge_route \<in> set (tenant_routes (memory_server sample_http_env))"
  by (simp add: charge_route_def tenant_routes_def set_under pix_table_def)

text \<open>The same system with a tenant and a credential of another account.\<close>

definition crowded_world :: http_world where
  "crowded_world = sample_http_world\<lparr>hw_provision := (hw_provision sample_http_world)\<lparr>pw_world := sample_console\<lparr>
     kw_store := (kw_store sample_console)\<lparr>st_tenants := st_tenants (kw_store sample_console) @
       [(''t9'', (tenant_named ''t9'')\<lparr>tn_accountID := ''a9''\<rparr>)]\<rparr>\<rparr>\<rparr>\<rparr>"

theorem account_key_isolated_witness:
  "snd (run_gates (rt_Gates charge_route) (request_of ''ak_eA'' [(clientSelectorHeader, ''t9'')]) empty_ctx sample_http_world) =
   snd (run_gates (rt_Gates charge_route) (request_of ''ak_eA'' [(clientSelectorHeader, ''t9'')]) empty_ctx crowded_world)"
proof (rule account_key_isolated [OF charge_route_in])
  show "\<forall>t. owner_in (hw_store sample_http_world) t = ''a1'' \<longleftrightarrow> owner_in (hw_store crowded_world) t = ''a1''"
    by (simp add: owner_in_def crowded_world_def sample_http_world_def sample_console_def tenant_named_def)
qed (auto simp: request_key sample_key_account crowded_world_def sample_http_world_def)

theorem provisioned_client_scoped_witness:
  "\<exists>w2 t a nm ref path. handleProvisionClient (Some (memory_provisioner sample_http_env)) (Some ''Acme'')
       (request_of ''ak_eA'' [(''Idempotency-Key'', ''k1'')])
       (empty_ctx\<lparr>hx_accountID := Some ''a1'', hx_operatorID := Some ''account:a1''\<rparr>) sample_http_world =
       (w2, respond (empty_ctx\<lparr>hx_accountID := Some ''a1'', hx_operatorID := Some ''account:a1''\<rparr>) 201 (ClientView t a nm ref path)) \<and>
     a = ''a1'' \<and> tenant_gate (memory_server sample_http_env) (request_of ''ak_eA'' [(clientSelectorHeader, t)]) empty_ctx w2 =
       (w2, Inr (empty_ctx\<lparr>hx_tenantID := Some t, hx_accountID := Some ''a1''\<rparr>))"
proof -
  let ?rq = "request_of ''ak_eA'' [(''Idempotency-Key'', ''k1'')]" and ?env = sample_http_env
  let ?cx = "empty_ctx\<lparr>hx_accountID := Some ''a1'', hx_operatorID := Some ''account:a1''\<rparr>"
  have g: "accountKeyAuthMiddleware (\<lambda>w. AuthenticateAccountKey (he_sha ?env) (hw_keys w)) ?rq empty_ctx sample_http_world = (sample_http_world, Inr ?cx)"
    by (simp add: accountKeyAuthMiddleware_def request_key sample_key_account WithOperatorID_def Let_def)
  have trim: "TrimSpace ''k1'' = ''k1''" "TrimSpace ''Acme'' = ''Acme''" by (simp_all add: TrimSpace_plain plain_byte_def less_eq_char_def)
  have "\<exists>s x. provision (Some (memory_console counted_env)) (Some (he_minter ?env)) ''a1'' ''Acme'' ''k1'' True (hw_provision sample_http_world) =
      (s, Inr (x, ''r'')) \<and> tn_id x = ''i1''"
    by (simp add: provision_def Let_def memory_ports tick_def on_store_def saveTenant_def counted_env_def sample_console_env_def
        sample_http_world_def sample_http_env_def sample_console_def prune_provisions_def NewTenant_def AssignAccount_def trim)
  then obtain s x where p: "provision (Some (memory_console counted_env)) (Some (he_minter ?env)) ''a1'' ''Acme'' ''k1'' True
      (hw_provision sample_http_world) = (s, Inr (x, ''r''))" "tn_id x = ''i1''" by blast
  let ?w = "sample_http_world\<lparr>hw_provision := s\<rparr>"
  have h: "handleProvisionClient (Some (memory_provisioner ?env)) (Some ''Acme'') ?rq ?cx sample_http_world =
      (?w, respond ?cx 201 (ClientView ''i1'' (tn_accountID x) (tn_name x) ''r'' (''/webhooks/c6/'' @ ''r'')))"
    using p by (simp add: handleProvisionClient_def memory_provisioner_def ProvisionClientWithWebhook_def accountFromContext_def from_context_def
        request_of_def value_of_def trim Let_def)
  have "tn_accountID x = TrimSpace (accountFromContext ?cx) \<and> tenant_gate (memory_server ?env) (request_of ''ak_eA'' [(clientSelectorHeader, ''i1'')]) empty_ctx ?w =
      (?w, if ''a1'' = tn_accountID x then Inr (empty_ctx\<lparr>hx_tenantID := Some ''i1'', hx_accountID := Some (tn_accountID x)\<rparr>)
         else Inl (writeError empty_ctx 404 ''not found''))"
    by (rule provisioned_client_scoped [OF _ _ g h])
      (simp_all add: request_key request_selector sample_key_account, simp add: sample_http_world_def)
  then have a: "tn_accountID x = ''a1''" and t: "tenant_gate (memory_server ?env) (request_of ''ak_eA'' [(clientSelectorHeader, ''i1'')]) empty_ctx ?w =
      (?w, Inr (empty_ctx\<lparr>hx_tenantID := Some ''i1'', hx_accountID := Some ''a1''\<rparr>))"
    by (simp_all add: accountFromContext_def from_context_def)
  show ?thesis
    by (rule exI [of _ ?w], rule exI [of _ "''i1''"], rule exI [of _ "''a1''"], intro exI conjI, rule h [unfolded a], rule refl, rule t)
qed

theorem routed_bank_is_own_witness:
  "\<exists>w' cx t i. run_gates (rt_Gates charge_route) (request_of ''tok'' [(''X-Bank-Id'', ''c6'')]) empty_ctx sample_http_world = (w', Inr cx) \<and>
     hx_tenantID cx = Some t \<and> hx_bankID cx = Some i \<and> routed sample_http_env sample_http_world t ''c6'' i \<and>
     (\<exists>j. rebindBank (sv_bankResolver (memory_server sample_http_env)) sample_http_world cx [] = Inr (cx\<lparr>hx_bankID := Some j\<rparr>) \<and> j = i)"
proof -
  let ?rq = "request_of ''tok'' [(''X-Bank-Id'', ''c6'')]"
  have c6: "CanonicalBankID ''c6'' = Some ''c6''" by (simp add: CanonicalBankID_def ToLower_def lower_char_def less_eq_char_def less_char_def)
  have v: "map_of (hw_vault sample_http_world) (credKey ''t1'' ''c6'') = Some (credential_of ''t1'' ''c1'' sample_key)"
    by (simp add: sample_http_world_def sample_console_def)
  have hd: "value_of (rq_Header ?rq) ''X-Bank-Id'' = ''c6''" by (simp add: value_of_def request_of_def)
  have "tenant_identity (memory_server sample_http_env) sample_http_world ?rq = Some (''t1'', ''a1'')"
    by (simp add: tenant_identity_def memory_model_b request_key)
      (simp add: HasSecretShape_def ak_secretPrefix_def selector_of_def request_of_def value_of_def clientSelectorHeader_def memory_server_def
        sample_http_env_def AuthenticateTenantPrincipal_def AuthenticateTenant_def NewStaticTokenAuth_def NewStaticTokenAuthWithRoles_def
        StoreResolveAccountID_def findTenantByID_def lookup_def sample_http_world_def sample_console_def tenant_named_def)
  then have gate: "tenant_gate (memory_server sample_http_env) ?rq empty_ctx sample_http_world =
      (sample_http_world, Inr (empty_ctx\<lparr>hx_tenantID := Some ''t1'', hx_accountID := Some ''a1''\<rparr>))"
    using tenantAuth_Inr [of "memory_server sample_http_env" ?rq empty_ctx sample_http_world sample_http_world] by simp
  have "\<exists>w' cx. run_gates (rt_Gates charge_route) ?rq empty_ctx sample_http_world = (w', Inr cx)"
    by (simp add: charge_route_def tenant_gates_def gate)
      (simp add: memory_server_def bankRouteMiddleware_def hd ResolveBank_def c6 NewBankResolver_def List.map_filter_def configured_def GetBankCredential_def
        lookup_def v tenantFromContext_def from_context_def limit_middleware_def sample_http_env_def)
  then obtain w' cx where r: "run_gates (rt_Gates charge_route) ?rq empty_ctx sample_http_world = (w', Inr cx)" by blast
  from routed_bank_is_own [OF charge_route_in r] obtain t i where c: "hx_tenantID cx = Some t" "hx_bankID cx = Some i"
    "routed sample_http_env sample_http_world t ''c6'' i"
    and b: "\<And>w2 bank. (\<exists>j. selected sample_http_env w2 t i bank j \<and>
        rebindBank (sv_bankResolver (memory_server sample_http_env)) w2 cx bank = Inr (cx\<lparr>hx_bankID := Some j\<rparr>)) \<or> (\<forall>j. \<not> selected sample_http_env w2 t i bank j)"
    unfolding hd by blast
  from b [of sample_http_world "[]"] have "\<exists>j. rebindBank (sv_bankResolver (memory_server sample_http_env)) sample_http_world cx [] =
      Inr (cx\<lparr>hx_bankID := Some j\<rparr>) \<and> j = i" by (auto simp: selected_def)
  with r c show ?thesis by blast
qed

lemma sample_operator: "ma_cred (at_store sample_provisioned) = Some c \<Longrightarrow> cr_username c = ''op''"
  by (auto simp: sample_provisioned_def Bootstrap_def fresh_state_def NewMemStore_def mem_creds_def mem_SaveCredential_def NewCredential_def
      with_defaults_def sample_auth_config_def bindE_def split: sum.splits if_splits)

theorem session_opens_console_witness:
  "\<exists>rq w1 r sid. consoleLogin (Some (door sample_http_env)) True rq empty_ctx sample_http_world = (w1, r) \<and>
     rp_headers r = hx_headers (setSessionCookie True sid empty_ctx) \<and>
     (\<forall>rq' cx'. bearerToken rq' = [] \<and> cookie rq' sessionCookieName = sid \<longrightarrow>
       snd (consoleAuthMiddleware (sv_adminAuth (memory_server sample_http_env)) (sv_consoleAuth (memory_server sample_http_env)) rq' cx' w1) =
         Inr (cx'\<lparr>hx_role := Some RoleAdmin, hx_operatorID := Some (''console:op'')\<rparr>))"
proof -
  obtain u p c st sid where l: "Login sample_svc sample_instant (\<lambda>n. Inr (sample_rnd 3 n)) sample_provisioned u p c = (st, Inr sid)"
    using sample_signed_in by blast
  have u: "u = ''op''" using l sample_operator unfolding mem_login by blast
  have l': "Login sample_svc sample_instant (\<lambda>n. Inr (sample_rnd 3 n)) sample_provisioned ''op'' p (TrimSpace c) = (st, Inr sid)"
  proof -
    have "VerifyTOTP hmac sec (TrimSpace c) now = VerifyTOTP hmac sec c now" for hmac sec now
      unfolding VerifyTOTP_def verifyTOTPSkew_def TrimSpace_TrimSpace by (rule refl)
    with l show ?thesis unfolding mem_login u by simp
  qed
  let ?rq = "(request_of [] [])\<lparr>rq_Form := [(''username'', ''op''), (''password'', p), (''totp'', c)]\<rparr>"
  let ?w = "sample_http_world\<lparr>hw_auth := st, hw_tick := Suc 0\<rparr>"
  have f: "''op'' = TrimSpace (value_of (rq_Form ?rq) ''username'')" by (simp add: value_of_def)
  have e: "he_auth sample_http_env = sample_svc" "he_now sample_http_env n = sample_instant" "he_rand sample_http_env n = (\<lambda>n. Inr (sample_rnd 3 n))"
    "hw_auth sample_http_world = sample_provisioned" "hw_tick sample_http_world = 0" for n
    by (simp_all add: sample_http_env_def sample_http_world_def)
  have r: "consoleLogin (Some (door sample_http_env)) True ?rq empty_ctx sample_http_world =
      (?w, respond (setSessionCookie True sid empty_ctx) 303 (Location ''/console''))"
    using l' by (simp add: consoleLogin_def door_def e value_of_def)
  have v: "ValidSession (NewConsoleSession i ''op'' sample_instant (ag_AbsoluteTTL (with_defaults sample_auth_config))) sample_instant
      (ag_IdleTTL (with_defaults sample_auth_config))" for i
    by (simp add: ValidSession_def NewConsoleSession_def time_defs with_defaults_def sample_auth_config_def defaultAbsoluteTTL_def defaultIdleTTL_def
        SubTime_def min64_def max64_def)
  have "he_rand sample_http_env (hw_tick sample_http_world) sessionIDBytes \<noteq> Inr []"
    by (simp add: e sessionIDBytes_def sample_rnd_def)
  from session_opens_console [OF e(1) this r _ f] obtain sid' where
    h: "hx_headers (setSessionCookie True sid empty_ctx) = hx_headers (setSessionCookie True sid' empty_ctx)" and
    g: "\<forall>rq' cx' w2. bearerToken rq' = [] \<and> cookie rq' sessionCookieName = sid' \<longrightarrow> hw_auth w2 = hw_auth ?w \<longrightarrow>
      snd (consoleAuthMiddleware (sv_adminAuth (memory_server sample_http_env)) (sv_consoleAuth (memory_server sample_http_env)) rq' cx' w2) =
        Inr (cx'\<lparr>hx_role := Some RoleAdmin, hx_operatorID := Some (''console:'' @ ''op'')\<rparr>)"
    using v by (auto simp: e respond_def)
  show ?thesis
    by (rule exI [of _ ?rq], rule exI [of _ ?w], intro exI [of _ sid'] exI conjI, rule r) (use h g in \<open>simp_all add: respond_def\<close>)
qed

end
