(* ===== verification/Spec2Isabelle.thy ===== *)
theory Spec2Isabelle
  imports Concurrent RecSystem PIIAccess ForwardMemory ConsoleInvoices Creations PlainSlips SignInRuns AccountKeys
    RegistrationRuns GroupRuns AdminPlane HttpAccess
begin

text \<open>
  A verification development for the payment gateway under \<open>src/\<close>, a multi-tenant Go service between
  companies (tenants, grouped into accounts) and a bank. This root theory holds no definitions; it
  describes the development and imports it.

  \<^bold>\<open>The program.\<close> A tenant asks for a charge; the charge service reserves a payment under the caller's
  idempotency key, calls the bank and finalizes the payment together with its bill in one unit of
  work. Immediate and dated PIX charges, checkout sessions and boletos are created with the same
  discipline by services of their own; further services only validate a request and pass it on to
  the bank (revisions, listings, refunds, batches, plain slips). The bank notifies settlements; the webhook service marks the event, asks the bank back and
  only then settles the payment. Recurring debits follow the same discipline: a mandate approved at
  the bank gates every charge. Events are attributed to the account that owns the tenant and queued;
  a processor forwards them, signed, to the account's own endpoint. A console administers tenants,
  accounts, bank credentials, prices, consumption reports and invoices; its operator signs in with a
  password and a one-time code, accounts authenticate with rotating keys, and the bank reaches a tenant
  through a secret callback URL that a sweep keeps registered. An admin API does part of the console's work
  and lets an account create its own client companies; tenants schedule groups of payments. Everything that matters is
  written to an append-only audit trail, and personal data is read through a mediator that records
  the access.

  \<^bold>\<open>Theories and code.\<close>
    \<^item> \<open>Prelude\<close>: Go strings (\<open>strings.TrimSpace\<close> on bytes), \<open>int64\<close> arithmetic (\<open>add64\<close> and friends wrap),
      errors with \<open>errors.Is\<close> (\<open>internal/domain/shared\<close>), Go maps as association lists, stable sorting.
    \<^item> \<open>Gotime\<close>: \<open>time.Time\<close> as nanoseconds with a constant-offset zone, calendar dates.
    \<^item> \<open>Money\<close>, \<open>Payment\<close>, \<open>Tenancy\<close>, \<open>Billing\<close>, \<open>Boleto\<close>, \<open>Recurrence\<close>, \<open>AuditTrail\<close>, \<open>Access\<close>,
      \<open>TermsConsent\<close>, \<open>DueCharge\<close> (\<open>pixcobv\<close>), \<open>Checkout\<close>: one theory per aggregate of \<open>internal/domain\<close>, with its constructors, mutators,
      well-formedness and transition tables.
    \<^item> \<open>Ports\<close>: the repository and unit of work of \<open>internal/ports\<close> as a record of functions over a state
      of any type; the locales \<open>store_contract\<close> and \<open>write_contract\<close> state what services rely on.
    \<^item> \<open>Store\<close>: \<open>internal/adapters/persistence/inmemory\<close>, the interpretation of these locales.
    \<^item> \<open>Charge\<close>, \<open>Settlement\<close>, \<open>Outbound\<close>, \<open>Concurrent\<close>: \<open>app/charge.go\<close>, \<open>webhook.go\<close>, \<open>webhook_boleto.go\<close>,
      \<open>outbound_delivery.go\<close>, and the interleavings of charges and settlements.
    \<^item> \<open>Billable\<close>: the reservation and the billing that \<open>app/pix.go\<close>, \<open>pixcobv.go\<close>, \<open>checkout.go\<close> and \<open>boleto.go\<close>
      repeat, and the locale \<open>billable_service\<close>, whose law equates a service with the one discipline \<open>create_with\<close> for
      its own checks, price and question to the bank; \<open>PixCharges\<close>, \<open>CheckoutSessions\<close>, \<open>BoletoSlips\<close>: these files,
      each with its interpretation of the locale, the last also with the boletos of the bank in memory
      (\<open>adapters/bank/stub_products.go\<close>); \<open>Creations\<close>: the charge service as a fifth
      interpretation, and sequences of creations of all kinds.
    \<^item> \<open>Gateways\<close>, \<open>PlainSlips\<close>: \<open>app/pixbacen.go\<close>, \<open>app/plainboleto.go\<close> and their ports, the operations
      that write nothing.
    \<^item> \<open>RecPorts\<close>, \<open>Mandates\<close>, \<open>RecWebhook\<close>, \<open>RecSystem\<close>: \<open>ports/recurrence.go\<close>, \<open>app/recurrence.go\<close>,
      \<open>app/webhook_recurrence.go\<close>, and the step relation that runs them in any order.
    \<^item> \<open>PIIAccess\<close>: \<open>app/pii_access.go\<close>.
    \<^item> \<open>WebhookConfig\<close>, \<open>Forward\<close>, \<open>ForwardMemory\<close>: \<open>domain/outboundwebhook\<close>, \<open>app/outbound_forward.go\<close>; the
      locales \<open>forward_contract\<close> and \<open>forward_reliable\<close> and their interpretation over the in-memory stores.
    \<^item> \<open>BankVault\<close>: \<open>adapters/secret\<close>, \<open>domain/bankcert\<close>, \<open>app/bank_identity.go\<close>.
    \<^item> \<open>Console\<close>, \<open>ConsoleBilling\<close>, \<open>ConsumptionReport\<close>: \<open>app/console.go\<close>, \<open>account_console.go\<close>,
      \<open>outbound_webhook.go\<close>, and the reference definitions of the reports.
    \<^item> \<open>ConsoleSystem\<close>, \<open>ConsoleMemory\<close>, \<open>ConsoleInvoices\<close>: the calls of the console as a whole; the locale
      \<open>console_contract\<close> with a small calculus of what each call keeps, its interpretation over the in-memory
      stores, and the properties of the console.
    \<^item> \<open>Encodings\<close>: base64 and base32 with their decoders and the integer scanning of \<open>fmt.Sscanf\<close>;
      \<open>ConsoleAuth\<close>: \<open>domain/consoleauth\<close> (password hashes, one-time codes, sessions); \<open>SignIn\<close>: \<open>app/consoleauth.go\<close>
      and \<open>adapters/consoleauth\<close>, with the locale \<open>auth_contract\<close>; \<open>SignInRuns\<close>: the locale \<open>auth_reliable\<close>, its
      interpretation over the stores in memory, and the claims on sequences of sign-ins.
    \<^item> \<open>AccountKeys\<close>: \<open>domain/accountkey\<close>, its store in memory and \<open>app/account_key.go\<close>.
    \<^item> \<open>WebhookRefs\<close>: \<open>domain/webhookref\<close>, its store in memory, \<open>app/webhook_ref_mint.go\<close> and
      \<open>webhook_ref_resolve.go\<close>; \<open>WebhookRegistration\<close>: \<open>app/webhook_registration.go\<close> and \<open>webhook_reconcile.go\<close>,
      with the locale \<open>bank_channels\<close>; \<open>RegistrationRuns\<close>: its interpretation over a bank that keeps one URL
      per slot, and the claims on sweeps.
    \<^item> \<open>PaymentGroups\<close>: \<open>domain/dda\<close> and \<open>app/dda.go\<close>, groups of payments scheduled at the bank; \<open>GroupRuns\<close>: the
      provider of \<open>adapters/bank/stub_dda.go\<close>, and the service over it.
    \<^item> \<open>AdminPlane\<close>: \<open>app/admin.go\<close> and \<open>app/client_provisioning.go\<close>, and the calls of the console and of the
      admin API in any order.
    \<^item> \<open>HttpAuth\<close>: the guards of \<open>adapters/http\<close> (\<open>auth.go\<close>, \<open>bankselect.go\<close>, \<open>csrf.go\<close>, \<open>console_auth.go\<close>,
      \<open>ratelimit.go\<close>, \<open>response.go\<close>); \<open>HttpRoutes\<close>: \<open>server.go\<close>, every route with its guards; \<open>HttpAccess\<close>: the handlers
      of charge creation (\<open>handlers.go\<close>), \<open>account_key_handlers.go\<close>, \<open>client_handlers.go\<close> and the console sign-in, the locale \<open>access_contract\<close> and its
      interpretation over the stores in memory.

  \<^bold>\<open>How the code is represented.\<close> A struct is a record whose field names carry a short prefix, an enum a
  datatype with the wire spelling as a function, an error a value of \<open>go_error\<close> in the left of a sum
  (\<open>result\<close>). A service is a record of its ports; a nil port is \<open>None\<close>. An operation takes the state and
  returns the new one with its result; calls to a bank are returned as a list where it matters how
  often they happen. \<open>WithinTx\<close> rolls back on an error exactly the collections the Go snapshot covers.
  Clock readings, new ids and provider answers are arguments. Error texts are kept in ASCII.

  \<^bold>\<open>What is shown.\<close> Payments: one key, one payment, one bill, under any interleaving; a payment is
  settled only when the bank confirms it, and once per event. Creations: the same holds for any
  sequence of charges, PIX charges, sessions and boletos, each bill is that of the service that finished the key, and
  the state of a key decides what a call does; sessions offered can be paid, amended boletos
  are what the core validated, a dated PIX charge costs what the boleto costs, and what \<open>pixbacen.go\<close> and
  \<open>plainboleto.go\<close> pass on to the bank is complete, in range and for the active tenant that asked. Mandates: only what the bank approved
  is ever debited, and stored state never moves backwards. Forwarding: only the owner's endpoint is
  contacted, no event is lost, the queue drains, delays are bounded. Console and admin API: a bank identity stays with
  one active tenant, mutations are audited as listed, reports and invoices agree with the ledger.
  Sign-in: exactly the right password and an unused code open a session, codes are used once, guessing
  is bounded, sessions end. Keys and references: only the latest one works, a sweep heals every
  registration and then rests. Scheduled payments: the groups at the bank follow the aggregate (except for
  the padded ids of C40), and a submitted group is frozen. Provisioning: a repeated request creates nothing. HTTP: every route outside a short list
  is closed to requests that prove no identity, an account key sees nothing of other accounts, a client is reachable
  by the account that created it alone, a request is served by the bank it selects among its own tenant's, a session opens the console until
  it is signed out.
  Aggregates: their lifecycles,
  arithmetic and bounds. The remaining claims exhibit behaviour that departs from what comments in
  the code promise, each on a concrete run.

  \<^bold>\<open>Assumptions.\<close> Composite keys \<open>a + "\x00" + b\<close> separate pairs only when the first part has no NUL byte,
  so tenant ids are assumed NUL free where a theorem needs it; ids a handler receives are assumed
  trimmed where the code does not trim them; new ids are assumed fresh and the bank's transaction id
  not blank where a theorem says so. \<open>url.Parse\<close>, HMAC, SHA-256, Argon2, X.509 and PEM, randomness, jitter and
  \<open>strings.ToLower\<close> on names are parameters.

  \<^bold>\<open>Loops and bounds.\<close> Every loop is a total function: the retry loop of the forwarder by a measure on
  the attempts left, trimming and the grouping of the encodings by the length of the string, the rest by structural recursion. No fuel
  is used.

  \<^bold>\<open>Not modelled.\<close> Account statements, debit authorizations and acquirer receivables, which pass requests on
  to the bank; SQL persistence, whose meaning is that of the database engines; the HTTP handlers that only decode a
  request for a modelled use case, and their JSON and HTML views; path matching, which is the router library's; the
  token bucket of the rate limiters, which counts in floating point and is a parameter; the clients of the bank's API;
  command-line tools. Logging and the redacted forms of secrets are left out of the modelled parts.
\<close>

end
